(* ===== verification/Prelude.thy ===== *)
theory Prelude
  imports Main "HOL-Library.Multiset"
begin

section \<open>Shared types, table operations and automation\<close>

text \<open>
  What every component of the development shares: results with errors as values, the
  relational operations the repositories issue (\<open>UPDATE .. WHERE\<close>, sums with a filter,
  lookups by a unique key), a stable sort by a comparison function, and the JavaScript
  string tests the services use. Tables are lists of row records in insertion order;
  ids that the code draws from \<open>randomUUID\<close> or \<open>gen_random_uuid\<close> are natural numbers
  taken from a counter in the database record, so that a fresh id differs from every
  id in use. Timestamps are milliseconds since the epoch as \<open>int\<close>.
\<close>

named_theorems table_simps \<open>rewrite rules for table operations\<close>

type_synonym ('e, 'a) result = "'e + 'a"
type_synonym timestamp = int

subsection \<open>Results\<close>

definition bindR :: "('e, 'a) result \<Rightarrow> ('a \<Rightarrow> ('e, 'b) result) \<Rightarrow> ('e, 'b) result" where
  "bindR m f = (case m of Inl e \<Rightarrow> Inl e | Inr x \<Rightarrow> f x)"

lemma bindR_simps [simp]: "bindR (Inl e) f = Inl e" "bindR (Inr x) f = f x"
  by (simp_all add: bindR_def)

lemma bindR_eq_Inr: "bindR m f = Inr y \<longleftrightarrow> (\<exists>x. m = Inr x \<and> f x = Inr y)"
  by (cases m) auto

lemma bindR_eq_Inl: "bindR m f = Inl e \<longleftrightarrow> m = Inl e \<or> (\<exists>x. m = Inr x \<and> f x = Inl e)"
  by (cases m) auto

lemma bindR_InrE: "bindR m f = Inr y \<Longrightarrow> (\<And>x. m = Inr x \<Longrightarrow> f x = Inr y \<Longrightarrow> thesis) \<Longrightarrow> thesis"
  by (cases m) auto

lemma not_islE: "\<not> isl m \<Longrightarrow> (\<And>x y. m = Inr (x, y) \<Longrightarrow> thesis) \<Longrightarrow> thesis"
  by (cases m) auto

text \<open>A loop over a list that threads a state and stops at the first error.\<close>

fun foldR :: "('a \<Rightarrow> 's \<Rightarrow> ('e, 's) result) \<Rightarrow> 'a list \<Rightarrow> 's \<Rightarrow> ('e, 's) result" where
  "foldR f [] s = Inr s"
| "foldR f (x # xs) s = bindR (f x s) (foldR f xs)"

lemma foldR_invariant:
  assumes "foldR f xs s = Inr s'" and "I s"
    and "\<And>x s s'. x \<in> set xs \<Longrightarrow> f x s = Inr s' \<Longrightarrow> I s \<Longrightarrow> I s'"
  shows "I s'"
  using assms
proof (induction xs arbitrary: s)
  case Nil
  then show ?case by simp
next
  case (Cons x xs)
  from Cons.prems(1) obtain t where t: "f x s = Inr t" and rest: "foldR f xs t = Inr s'"
    by (auto simp: bindR_eq_Inr)
  have "I t" using Cons.prems(3)[OF _ t Cons.prems(2)] by simp
  with rest Cons.prems(3) show ?case by (intro Cons.IH[OF rest]) auto
qed

lemma foldR_frame: "(\<And>x. x \<in> set xs \<Longrightarrow> f x s = Inr s) \<Longrightarrow> foldR f xs s = Inr s"
  by (induction xs) auto

subsection \<open>Tables\<close>

definition update_where :: "('a \<Rightarrow> bool) \<Rightarrow> ('a \<Rightarrow> 'a) \<Rightarrow> 'a list \<Rightarrow> 'a list" where
  "update_where P f xs = map (\<lambda>x. if P x then f x else x) xs"

definition tally :: "('a \<Rightarrow> bool) \<Rightarrow> ('a \<Rightarrow> int) \<Rightarrow> 'a list \<Rightarrow> int" where
  "tally P w xs = (\<Sum>x\<leftarrow>xs. if P x then w x else 0)"

definition lookup :: "('a \<Rightarrow> 'k) \<Rightarrow> 'k \<Rightarrow> 'a list \<Rightarrow> 'a option" where
  "lookup key k xs = find (\<lambda>x. key x = k) xs"

lemma set_update_where:
  "set (update_where P f xs) = f ` {x \<in> set xs. P x} \<union> {x \<in> set xs. \<not> P x}"
  by (auto simp: update_where_def)

lemma in_update_whereE:
  assumes "y \<in> set (update_where P f xs)"
  obtains x where "x \<in> set xs" "P x" "y = f x" | "y \<in> set xs" "\<not> P y"
  using assms by (auto simp: set_update_where)

lemma update_where_Nil [table_simps]: "update_where P f [] = []"
  by (simp add: update_where_def)

lemma update_where_Cons [table_simps]:
  "update_where P f (x # xs) = (if P x then f x else x) # update_where P f xs"
  by (simp add: update_where_def)

lemma update_where_append [table_simps]:
  "update_where P f (xs @ ys) = update_where P f xs @ update_where P f ys"
  by (simp add: update_where_def)

lemma length_update_where [table_simps]: "length (update_where P f xs) = length xs"
  by (simp add: update_where_def)

lemma map_update_where:
  "(\<And>x. x \<in> set xs \<Longrightarrow> P x \<Longrightarrow> g (f x) = g x) \<Longrightarrow> map g (update_where P f xs) = map g xs"
  by (induction xs) (auto simp: update_where_def)

lemma update_where_none: "(\<And>x. x \<in> set xs \<Longrightarrow> \<not> P x) \<Longrightarrow> update_where P f xs = xs"
  by (induction xs) (auto simp: update_where_def)

lemma tally_Nil [table_simps]: "tally P w [] = 0"
  by (simp add: tally_def)

lemma tally_Cons [table_simps]: "tally P w (x # xs) = (if P x then w x else 0) + tally P w xs"
  by (simp add: tally_def)

lemma tally_append [table_simps]: "tally P w (xs @ ys) = tally P w xs + tally P w ys"
  by (simp add: tally_def)

lemma tally_cong:
  "(\<And>x. x \<in> set xs \<Longrightarrow> P x \<longleftrightarrow> Q x) \<Longrightarrow> (\<And>x. x \<in> set xs \<Longrightarrow> Q x \<Longrightarrow> w x = v x) \<Longrightarrow>
   tally P w xs = tally Q v xs"
  by (induction xs) (auto simp: tally_def)

lemma tally_nonneg: "(\<And>x. x \<in> set xs \<Longrightarrow> P x \<Longrightarrow> 0 \<le> w x) \<Longrightarrow> 0 \<le> tally P w xs"
  by (induction xs) (auto simp: tally_def)

lemma tally_zero: "(\<And>x. x \<in> set xs \<Longrightarrow> \<not> P x) \<Longrightarrow> tally P w xs = 0"
  by (induction xs) (auto simp: tally_def)

lemma tally_mono_pred:
  "(\<And>x. x \<in> set xs \<Longrightarrow> P x \<Longrightarrow> Q x) \<Longrightarrow> (\<And>x. x \<in> set xs \<Longrightarrow> Q x \<Longrightarrow> 0 \<le> w x) \<Longrightarrow>
   tally P w xs \<le> tally Q w xs"
  by (induction xs) (fastforce simp: tally_def)+

lemma tally_filter: "tally P w (filter Q xs) = tally (\<lambda>x. P x \<and> Q x) w xs"
  by (induction xs) (auto simp: tally_def)

lemma tally_remove:
  "tally P w (filter (\<lambda>x. \<not> Q x) xs) = tally P w xs - tally (\<lambda>x. P x \<and> Q x) w xs"
  by (induction xs) (auto simp: tally_def)

lemma tally_sum_list: "tally P w xs = sum_list (map w (filter P xs))"
  by (induction xs) (auto simp: tally_def)

lemma tally_single: "distinct xs \<Longrightarrow> r \<in> set xs \<Longrightarrow> tally (\<lambda>x. x = r) w xs = w r"
proof (induction xs)
  case (Cons y ys)
  then have "tally (\<lambda>x. x = r) w ys = 0" if "r \<notin> set ys"
    using that by (intro tally_zero) auto
  with Cons show ?case by (auto simp: tally_Cons)
qed simp

lemma tally_update_where:
  "tally P w (update_where Q f xs) =
     (\<Sum>x\<leftarrow>xs. if Q x then (if P (f x) then w (f x) else 0) else (if P x then w x else 0))"
  by (induction xs) (auto simp: tally_def update_where_def)

text \<open>A single-row update, addressed by a key that is unique in the table.\<close>

lemma tally_update_one:
  assumes "distinct (map key xs)" and "r \<in> set xs"
  shows "tally P w (update_where (\<lambda>x. key x = key r) f xs) =
         tally P w xs - (if P r then w r else 0) + (if P (f r) then w (f r) else 0)"
  using assms
proof (induction xs)
  case Nil
  then show ?case by simp
next
  case (Cons x xs)
  show ?case
  proof (cases "x = r")
    case True
    with Cons.prems have "key r \<notin> key ` set xs" by simp
    then have "\<And>y. y \<in> set xs \<Longrightarrow> key y \<noteq> key r" by (metis imageI)
    then have "update_where (\<lambda>x. key x = key r) f xs = xs"
      by (intro update_where_none) auto
    with True show ?thesis by (simp add: table_simps)
  next
    case False
    with Cons.prems have "r \<in> set xs" "key x \<noteq> key r" by auto
    with Cons show ?thesis by (simp add: table_simps)
  qed
qed

lemma tally_update_frame:
  "(\<And>x. x \<in> set xs \<Longrightarrow> Q x \<Longrightarrow> P (f x) \<longleftrightarrow> P x) \<Longrightarrow>
   (\<And>x. x \<in> set xs \<Longrightarrow> Q x \<Longrightarrow> P x \<Longrightarrow> w (f x) = w x) \<Longrightarrow>
   tally P w (update_where Q f xs) = tally P w xs"
  by (induction xs) (auto simp: tally_def update_where_def)

lemma lookup_Some_iff:
  "distinct (map key xs) \<Longrightarrow> lookup key k xs = Some x \<longleftrightarrow> x \<in> set xs \<and> key x = k"
  unfolding lookup_def
  by (induction xs) (auto split: if_splits)

lemma lookup_SomeD: "lookup key k xs = Some x \<Longrightarrow> x \<in> set xs \<and> key x = k"
  unfolding lookup_def by (induction xs) (auto split: if_splits)

lemma lookup_None_iff: "lookup key k xs = None \<longleftrightarrow> (\<forall>x\<in>set xs. key x \<noteq> k)"
  unfolding lookup_def by (auto simp: find_None_iff)

lemma lookup_Cons [table_simps]:
  "lookup key k (x # xs) = (if key x = k then Some x else lookup key k xs)"
  by (simp add: lookup_def)

lemma lookup_Nil [table_simps]: "lookup key k [] = None"
  by (simp add: lookup_def)

lemma lookup_append [table_simps]:
  "lookup key k (xs @ ys) = (case lookup key k xs of None \<Rightarrow> lookup key k ys | Some x \<Rightarrow> Some x)"
  unfolding lookup_def by (induction xs) auto

lemma find_SomeD: "find P xs = Some x \<Longrightarrow> x \<in> set xs \<and> P x"
  by (induction xs) (auto split: if_splits)

lemma distinct_key_unique:
  "distinct (map key xs) \<Longrightarrow> x \<in> set xs \<Longrightarrow> y \<in> set xs \<Longrightarrow> key x = key y \<Longrightarrow> x = y"
  by (induction xs) (auto simp: image_iff)

lemma distinct_filter_one:
  assumes "distinct (map key xs)" "r \<in> set xs" "P r" "\<And>x. P x \<Longrightarrow> key x = key r"
  shows "filter P xs = [r]"
  using assms
proof (induction xs)
  case (Cons x xs)
  show ?case
  proof (cases "x = r")
    case True
    then have out: "key r \<notin> key ` set xs" using Cons.prems(1) by simp
    have "\<not> P y" if "y \<in> set xs" for y
      using Cons.prems(4)[of y] imageI[OF that, of key] out by metis
    with True Cons.prems(3) show ?thesis by (auto simp: filter_empty_conv)
  next
    case False
    then have r: "r \<in> set xs" using Cons.prems(2) by simp
    then have "key r \<in> key ` set xs" by (rule imageI)
    moreover have "key x \<notin> key ` set xs" and d: "distinct (map key xs)" using Cons.prems(1) by simp_all
    ultimately have "\<not> P x" using Cons.prems(4)[of x] by metis
    moreover have "filter P xs = [r]" by (rule Cons.IH[OF d r Cons.prems(3,4)])
    ultimately show ?thesis by simp
  qed
qed simp

lemma find_unique:
  assumes "distinct (map key xs)" "r \<in> set xs" "P r" "\<And>x. P x \<Longrightarrow> key x = key r"
  shows "find P xs = Some r"
proof -
  have "find P ys = (case filter P ys of [] \<Rightarrow> None | y # _ \<Rightarrow> Some y)" for ys
    by (induction ys) auto
  moreover have "filter P xs = [r]"
    by (rule distinct_filter_one[where key = key, OF assms(1,2)]) (fact assms(3), erule assms(4))
  ultimately show ?thesis by simp
qed

lemma filter_update_where:
  "(\<And>x. P x \<Longrightarrow> \<not> Q x \<and> \<not> Q (f x)) \<Longrightarrow> filter Q (update_where P f xs) = filter Q xs"
  by (induction xs) (auto simp: update_where_def)

lemma update_where_comp:
  "(\<And>x. P x \<Longrightarrow> P (f x)) \<Longrightarrow> update_where P g (update_where P f xs) = update_where P (\<lambda>x. g (f x)) xs"
  by (induction xs) (auto simp: update_where_def)

lemma find_update_where:
  "(\<And>x. P x \<Longrightarrow> P (f x)) \<Longrightarrow> find P (update_where P f xs) = map_option f (find P xs)"
  by (induction xs) (auto simp: update_where_def)

subsection \<open>Sorting by a comparison function\<close>

text \<open>
  \<open>Array.prototype.sort\<close> with a comparator is stable: \<open>before x y\<close> stands for
  \<open>compare(x, y) <= 0\<close>. The collation that \<open>localeCompare\<close> consults is not part of
  the program and stays a parameter; what is proved holds for every comparator.
\<close>

fun insert_by :: "('a \<Rightarrow> 'a \<Rightarrow> bool) \<Rightarrow> 'a \<Rightarrow> 'a list \<Rightarrow> 'a list" where
  "insert_by before x [] = [x]"
| "insert_by before x (y # ys) = (if before x y then x # y # ys else y # insert_by before x ys)"

definition sort_by :: "('a \<Rightarrow> 'a \<Rightarrow> bool) \<Rightarrow> 'a list \<Rightarrow> 'a list" where
  "sort_by before xs = foldr (insert_by before) xs []"

lemma mset_insert_by [simp]: "mset (insert_by before x xs) = add_mset x (mset xs)"
  by (induction xs) auto

lemma mset_sort_by [simp]: "mset (sort_by before xs) = mset xs"
  unfolding sort_by_def by (induction xs) auto

lemma set_sort_by [simp]: "set (sort_by before xs) = set xs"
  by (metis mset_sort_by set_mset_mset)

lemma length_sort_by [simp]: "length (sort_by before xs) = length xs"
  by (metis mset_sort_by size_mset)

lemma sort_by_Nil [simp]: "sort_by before [] = []"
  by (simp add: sort_by_def)

lemma sort_by_eq_Nil [simp]: "sort_by before xs = [] \<longleftrightarrow> xs = []"
  by (metis length_0_conv length_sort_by)

lemma distinct_map_sort_by [simp]:
  "distinct (map f (sort_by before xs)) = distinct (map f xs)"
proof -
  have "mset (map f (sort_by before xs)) = mset (map f xs)"
    by (simp add: mset_map)
  then show ?thesis by (rule mset_eq_imp_distinct_iff)
qed

subsection \<open>Strings\<close>

text \<open>
  \<open>s.trim()\<close> is empty exactly when every character is JavaScript white space; the
  identifiers the services receive are within the Latin-1 range of \<open>char\<close>.
\<close>

definition js_space :: "char \<Rightarrow> bool" where
  "js_space c \<longleftrightarrow> (of_char c :: nat) \<in> {9, 10, 11, 12, 13, 32, 160}"

definition blank :: "string \<Rightarrow> bool" where
  "blank s = list_all js_space s"

definition max_safe_integer :: int where
  "max_safe_integer = 9007199254740991"

definition is_safe_integer :: "int \<Rightarrow> bool" where
  "is_safe_integer n \<longleftrightarrow> - max_safe_integer \<le> n \<and> n \<le> max_safe_integer"

text \<open>PostgreSQL's \<open>integer\<close> columns hold 32 bits; a result outside raises an error.\<close>

definition int4_ok :: "int \<Rightarrow> bool" where
  "int4_ok n \<longleftrightarrow> - 2147483648 \<le> n \<and> n \<le> 2147483647"

end
