(* ===== verification/Js_Time.thy ===== *)
theory Js_Time
  imports Prelude
begin

section \<open>Calendar arithmetic of JavaScript dates\<close>

text \<open>
  The ECMAScript definitions behind \<open>Date.UTC\<close>, \<open>getUTCFullYear\<close>, \<open>getUTCMonth\<close> and
  \<open>getUTCDate\<close>: days since the epoch, the day on which a year starts, the leap rule and
  the month table. They are the language's own functions; the quota window and the
  budget windows are built from them. The main facts are that splitting a day number
  into year, month and day and composing it again is the identity, and that the
  composition is additive in the day, which is what \<open>Date.UTC(y, m, d + 1)\<close> relies on.
\<close>

definition ms_per_day :: int where
  "ms_per_day = 86400000"

definition day_of_time :: "int \<Rightarrow> int" where
  "day_of_time t = t div ms_per_day"

definition day_from_year :: "int \<Rightarrow> int" where
  "day_from_year y =
     365 * (y - 1970) + (y - 1969) div 4 - (y - 1901) div 100 + (y - 1601) div 400"

definition leap_year :: "int \<Rightarrow> bool" where
  "leap_year y \<longleftrightarrow> (y mod 4 = 0 \<and> y mod 100 \<noteq> 0) \<or> y mod 400 = 0"

text \<open>
  \<open>YearFromTime\<close> is the largest year that starts on or before the day; the average
  length of a year gives it up to one year either way.
\<close>

definition year_from_day :: "int \<Rightarrow> int" where
  "year_from_day d =
     (let y = 1970 + (400 * d) div 146097
      in if d < day_from_year y then y - 1
         else if day_from_year (y + 1) \<le> d then y + 1 else y)"

lemma div_bounds:
  fixes a n :: int
  assumes "0 < n"
  shows "n * (a div n) \<le> a" and "a < n * (a div n) + n"
  using mult_div_mod_eq[of n a] pos_mod_sign[of n a] pos_mod_bound[of n a] assms by linarith+

lemma day_from_year_bounds:
  shows "146097 * (y - 1970) - 2000 \<le> 400 * day_from_year y"
    and "400 * day_from_year y \<le> 146097 * (y - 1970) + 2000"
proof -
  note b = div_bounds[of 4 "y - 1969"] div_bounds[of 100 "y - 1901"] div_bounds[of 400 "y - 1601"]
  show "146097 * (y - 1970) - 2000 \<le> 400 * day_from_year y"
    unfolding day_from_year_def using b by simp
  show "400 * day_from_year y \<le> 146097 * (y - 1970) + 2000"
    unfolding day_from_year_def using b by simp
qed

lemma div_step:
  "(a + 1) div n = a div n + (if (a + 1) mod n = 0 then 1 else 0)" if "0 < n" for a n :: int
proof (cases "a mod n = n - 1")
  case True
  then have "a + 1 = n * (a div n) + n"
    using mult_div_mod_eq[of n a] by linarith
  then have "a + 1 = n * (a div n + 1)"
    by (simp add: distrib_left)
  with that show ?thesis by (simp del: add.commute)
next
  case False
  moreover have "a mod n < n" "0 \<le> a mod n" using that by simp_all
  ultimately have r: "a mod n + 1 < n" "0 < a mod n + 1" by simp_all
  have "a + 1 = n * (a div n) + (a mod n + 1)"
    using mult_div_mod_eq[of n a] by simp
  then have "(a + 1) div n = a div n" "(a + 1) mod n = a mod n + 1"
    using r by (metis add.commute div_mult_self4 div_pos_pos_trivial less_imp_le less_irrefl that
        add_0 mod_mult_self4 mod_pos_pos_trivial)+
  with r show ?thesis by simp
qed

lemma day_from_year_le_step:
  "day_from_year (y + 1) = day_from_year y + (if leap_year y then 366 else 365)"
proof -
  have s4: "(y + 1 - 1969) div 4 = (y - 1969) div 4 + (if y mod 4 = 0 then 1 else 0)"
    by presburger
  have s100: "(y + 1 - 1901) div 100 = (y - 1901) div 100 + (if y mod 100 = 0 then 1 else 0)"
  proof -
    have "(y - 1900) mod 100 = (y + 100 * (- 19)) mod 100" by simp
    then have "(y - 1900) mod 100 = y mod 100" by (simp only: mod_mult_self2)
    then show ?thesis using div_step[of 100 "y - 1901"] by simp
  qed
  have s400: "(y + 1 - 1601) div 400 = (y - 1601) div 400 + (if y mod 400 = 0 then 1 else 0)"
  proof -
    have "(y - 1600) mod 400 = (y + 400 * (- 4)) mod 400" by simp
    then have "(y - 1600) mod 400 = y mod 400" by (simp only: mod_mult_self2)
    then show ?thesis using div_step[of 400 "y - 1601"] by simp
  qed
  have d1: "y mod 100 = 0" if "y mod 400 = 0"
    using that by auto
  have d2: "y mod 4 = 0" if "y mod 100 = 0"
    using that by presburger
  show ?thesis
    unfolding day_from_year_def s4 s100 s400 leap_year_def
    using d1 d2 by auto
qed

lemma year_from_day_bounds:
  "day_from_year (year_from_day d) \<le> d \<and> d < day_from_year (year_from_day d + 1)"
proof -
  define k where "k = (400 * d) div 146097"
  have k: "146097 * k \<le> 400 * d" "400 * d < 146097 * k + 146097"
    unfolding k_def by (rule div_bounds, simp)+
  have "146097 * (1970 + k - 1 - 1970) + 2000 = 146097 * k - 144097" by simp
  then have "400 * day_from_year (1970 + k - 1) \<le> 400 * d"
    using day_from_year_bounds(2)[of "1970 + k - 1"] k(1) by linarith
  then have lo: "day_from_year (1970 + k - 1) \<le> d" by simp
  have "146097 * (1970 + k + 1 + 1 - 1970) - 2000 = 146097 * k + 290194" by simp
  then have "400 * d < 400 * day_from_year (1970 + k + 1 + 1)"
    using day_from_year_bounds(1)[of "1970 + k + 1 + 1"] k(2) by linarith
  then have hi: "d < day_from_year (1970 + k + 1 + 1)" by simp
  define y where "y = 1970 + k"
  have year: "year_from_day d = (if d < day_from_year y then y - 1
      else if day_from_year (y + 1) \<le> d then y + 1 else y)"
    unfolding year_from_day_def k_def[symmetric] y_def[symmetric] Let_def by (rule refl)
  show ?thesis
    using lo hi unfolding year y_def[symmetric] by auto
qed

subsection \<open>Months\<close>

definition month_start :: "bool \<Rightarrow> int \<Rightarrow> int" where
  "month_start leap m =
     (if m \<le> 0 then 0 else if m = 1 then 31 else if m = 2 then 59 else if m = 3 then 90
      else if m = 4 then 120 else if m = 5 then 151 else if m = 6 then 181
      else if m = 7 then 212 else if m = 8 then 243 else if m = 9 then 273
      else if m = 10 then 304 else 334)
     + (if leap \<and> 2 \<le> m then 1 else 0)"

definition month_from_day :: "int \<Rightarrow> int" where
  "month_from_day d =
     (let y = year_from_day d; w = d - day_from_year y; l = leap_year y
      in if w < month_start l 1 then 0 else if w < month_start l 2 then 1
         else if w < month_start l 3 then 2 else if w < month_start l 4 then 3
         else if w < month_start l 5 then 4 else if w < month_start l 6 then 5
         else if w < month_start l 7 then 6 else if w < month_start l 8 then 7
         else if w < month_start l 9 then 8 else if w < month_start l 10 then 9
         else if w < month_start l 11 then 10 else 11)"

definition date_from_day :: "int \<Rightarrow> int" where
  "date_from_day d =
     (let y = year_from_day d
      in d - day_from_year y - month_start (leap_year y) (month_from_day d) + 1)"

text \<open>\<open>MakeDay(year, month, date)\<close>: a month outside 0..11 carries into the year, a day
  outside the month carries by plain addition.\<close>

definition make_day :: "int \<Rightarrow> int \<Rightarrow> int \<Rightarrow> int" where
  "make_day y m dt =
     (let ym = y + m div 12; mn = m mod 12
      in day_from_year ym + month_start (leap_year ym) mn + dt - 1)"

definition date_utc :: "int \<Rightarrow> int \<Rightarrow> int \<Rightarrow> int" where
  "date_utc y m dt = make_day y m dt * ms_per_day"

lemma month_from_day_range: "0 \<le> month_from_day d \<and> month_from_day d \<le> 11"
  by (simp add: month_from_day_def Let_def split: if_split del: One_nat_def)

lemma make_day_add: "make_day y m (dt + n) = make_day y m dt + n"
  by (simp add: make_day_def Let_def)

lemma make_day_of_day:
  "make_day (year_from_day d) (month_from_day d) (date_from_day d) = d"
proof -
  have "0 \<le> month_from_day d" "month_from_day d < 12"
    using month_from_day_range[of d] by simp_all
  then have "month_from_day d div 12 = 0" "month_from_day d mod 12 = month_from_day d"
    by (simp_all add: div_pos_pos_trivial mod_pos_pos_trivial)
  then show ?thesis
    by (simp add: make_day_def date_from_day_def Let_def)
qed

lemma month_start_values:
  "month_start l 0 = 0" "month_start l 1 = 31" "month_start l 2 = 59 + of_bool l"
  "month_start l 3 = 90 + of_bool l" "month_start l 4 = 120 + of_bool l"
  "month_start l 5 = 151 + of_bool l" "month_start l 6 = 181 + of_bool l"
  "month_start l 7 = 212 + of_bool l" "month_start l 8 = 243 + of_bool l"
  "month_start l 9 = 273 + of_bool l" "month_start l 10 = 304 + of_bool l"
  "month_start l 11 = 334 + of_bool l"
  by (simp_all add: month_start_def)

lemma date_from_day_range: "1 \<le> date_from_day d \<and> date_from_day d \<le> 31"
proof -
  define y where "y = year_from_day d"
  define w where "w = d - day_from_year y"
  have w0: "0 \<le> w" using year_from_day_bounds[of d] by (simp add: w_def y_def)
  have "d < day_from_year y + (if leap_year y then 366 else 365)"
    using year_from_day_bounds[of d] unfolding day_from_year_le_step y_def by (rule conjunct2)
  then have w1: "w < 365 + of_bool (leap_year y)"
    unfolding w_def by (cases "leap_year y") auto
  show ?thesis
    using w0 w1
    unfolding date_from_day_def month_from_day_def Let_def y_def[symmetric] w_def[symmetric]
    by (cases "leap_year y") (auto simp: month_start_values)
qed

subsection \<open>Decimal notation\<close>

text \<open>\<open>Number.prototype.toString\<close> on a natural number, and \<open>padStart\<close> with zeros.\<close>

definition digit_char :: "nat \<Rightarrow> char" where
  "digit_char n = char_of (48 + n)"

fun decimal :: "nat \<Rightarrow> string" where
  "decimal n = (if n < 10 then [digit_char n] else decimal (n div 10) @ [digit_char (n mod 10)])"

declare decimal.simps [simp del]

definition pad_start :: "nat \<Rightarrow> string \<Rightarrow> string" where
  "pad_start k s = replicate (k - length s) (CHR ''0'') @ s"

definition decimal_value :: "string \<Rightarrow> nat" where
  "decimal_value s = foldl (\<lambda>v c. 10 * v + (of_char c - 48)) 0 s"

lemma of_char_digit: "n < 10 \<Longrightarrow> (of_char (digit_char n) :: nat) = 48 + n"
  by (simp add: digit_char_def)

lemma decimal_value_append:
  "decimal_value (s @ [c]) = 10 * decimal_value s + (of_char c - 48)"
  by (simp add: decimal_value_def)

lemma decimal_value_decimal: "decimal_value (decimal n) = n"
proof (induction n rule: decimal.induct)
  case (1 n)
  show ?case
  proof (cases "n < 10")
    case True
    then show ?thesis
      by (simp add: decimal.simps[of n] decimal_value_def of_char_digit)
  next
    case False
    then have "decimal_value (decimal (n div 10)) = n div 10" using 1 by simp
    with False show ?thesis
      by (simp add: decimal.simps[of n] decimal_value_append of_char_digit)
  qed
qed

lemma decimal_value_zeros: "decimal_value (replicate k (CHR ''0'') @ s) = decimal_value s"
  by (induction k) (simp_all add: decimal_value_def)

lemma decimal_value_pad: "decimal_value (pad_start k (decimal n)) = n"
  by (simp add: pad_start_def decimal_value_zeros decimal_value_decimal)

lemma length_decimal_2: "n < 100 \<Longrightarrow> length (decimal n) \<le> 2"
proof (cases "n < 10")
  case True
  then show ?thesis by (simp add: decimal.simps[of n])
next
  case False
  moreover assume "n < 100"
  ultimately have "n div 10 < 10" by simp
  with False show ?thesis by (simp add: decimal.simps[of n] decimal.simps[of "n div 10"])
qed

lemma length_pad_2: "n < 100 \<Longrightarrow> length (pad_start 2 (decimal n)) = 2"
  using length_decimal_2[of n] by (simp add: pad_start_def)

lemma pad_decimal_inject: "pad_start k (decimal n) = pad_start k (decimal m) \<longleftrightarrow> n = m"
  by (metis decimal_value_pad)

end
