(* ===== verification/Quota_Types.thy ===== *)
theory Quota_Types
  imports Js_Time
begin

section \<open>Quota: data, errors and the daily window\<close>

text \<open>
  The types of \<open>src/server/quota/types.ts\<close>, the rows of \<open>src/server/db/schema/quota.ts\<close>
  with their CHECK constraints and unique indexes, and the Beijing-day window of
  \<open>src/server/quota/window.ts\<close>. Errors of the code are constructors of \<open>quota_error\<close>;
  \<open>UniqueViolation\<close> is PostgreSQL's error 23505 and \<open>DbError\<close> any other database error.
\<close>

subsection \<open>Types\<close>

datatype quota_resource = Answer | WebSearch | ModelAttempt
datatype scope_type = ScopeUser | ScopeGlobal
datatype reservation_status = Reserved | Committed | Released

record scope_policy =
  sp_type :: scope_type
  sp_key :: string
  sp_limit :: int

record quota_window =
  qw_key :: string
  qw_resetAt :: timestamp

record scope_usage =
  su_type :: scope_type
  su_key :: string
  su_limit :: int
  su_reserved :: int
  su_committed :: int
  su_remaining :: int
  su_resetAt :: timestamp

record reservation =
  rv_leaseId :: nat
  rv_actor :: string
  rv_clientRequest :: string
  rv_resource :: quota_resource
  rv_units :: int
  rv_status :: reservation_status
  rv_window :: quota_window
  rv_scopes :: "scope_usage list"
  rv_idempotent :: bool

datatype quota_error =
    QuotaExceeded quota_resource scope_type int timestamp
  | ReservationNotFound nat
  | RequestInProgress string
  | RequestAlreadyUsed string reservation_status
  | AccountUnavailable
  | AccountDeletionPending
  | QuotaTypeError string
  | QuotaInternalError string
  | UniqueViolation
  | DbError string

subsection \<open>Rows\<close>

record user_row =
  us_id :: string
  us_deletionRequestedAt :: "timestamp option"
  us_dailyQuotaBonus :: int

record bucket_row =
  bk_id :: nat
  bk_resource :: quota_resource
  bk_scopeType :: scope_type
  bk_scopeKey :: string
  bk_windowKey :: string
  bk_limit :: int
  bk_reserved :: int
  bk_committed :: int
  bk_resetAt :: timestamp
  bk_updatedAt :: timestamp

record ledger_row =
  ld_id :: nat
  ld_leaseId :: nat
  ld_bucketId :: nat
  ld_actor :: string
  ld_clientRequest :: string
  ld_resource :: quota_resource
  ld_scopeType :: scope_type
  ld_scopeKey :: string
  ld_windowKey :: string
  ld_units :: int
  ld_status :: reservation_status
  ld_releaseReason :: "string option"
  ld_metadata :: string
  ld_reservedAt :: timestamp
  ld_committedAt :: "timestamp option"
  ld_releasedAt :: "timestamp option"
  ld_updatedAt :: timestamp

text \<open>The tables a quota transaction reads and writes, the id supply and the clock.\<close>

record quota_db =
  q_users :: "user_row list"
  q_buckets :: "bucket_row list"
  q_ledger :: "ledger_row list"
  q_next :: nat
  q_now :: timestamp

definition bucket_key :: "bucket_row \<Rightarrow> quota_resource \<times> scope_type \<times> string \<times> string" where
  "bucket_key b = (bk_resource b, bk_scopeType b, bk_scopeKey b, bk_windowKey b)"

definition bucket_check :: "bucket_row \<Rightarrow> bool" where
  "bucket_check b \<longleftrightarrow> 0 < bk_limit b \<and> 0 \<le> bk_reserved b \<and> 0 \<le> bk_committed b
     \<and> bk_reserved b + bk_committed b \<le> bk_limit b \<and> int4_ok (bk_limit b)"

definition request_key :: "ledger_row \<Rightarrow> string \<times> quota_resource \<times> string" where
  "request_key r = (ld_actor r, ld_resource r, ld_clientRequest r)"

definition ledger_key ::
  "ledger_row \<Rightarrow> (string \<times> quota_resource \<times> string) \<times> scope_type \<times> string" where
  "ledger_key r = (request_key r, ld_scopeType r, ld_scopeKey r)"

subsection \<open>The Shanghai daily window\<close>

definition shanghai_utc_offset :: int where
  "shanghai_utc_offset = 8 * 60 * 60 * 1000"

text \<open>
  \<open>Intl.DateTimeFormat\<close> with the Asia/Shanghai zone: \<open>tz t\<close> is the zone's offset at
  the instant \<open>t\<close> (the time-zone database is data of the platform), and the year is the
  year of its era. \<open>Date.UTC\<close> maps the years 0 to 99 to 1900 to 1999.
\<close>

definition dateParts :: "(timestamp \<Rightarrow> int) \<Rightarrow> timestamp \<Rightarrow> (quota_error, int \<times> int \<times> int) result" where
  "dateParts tz at =
     (let d = day_of_time (at + tz at);
          y = year_from_day d;
          year = (if y \<le> 0 then 1 - y else y);
          month = month_from_day d + 1;
          day = date_from_day d
      in if year = 0 \<or> month = 0 \<or> day = 0
         then Inl (QuotaInternalError ''Unable to resolve the Shanghai quota window'')
         else Inr (year, month, day))"

definition js_date_utc :: "int \<Rightarrow> int \<Rightarrow> int \<Rightarrow> timestamp" where
  "js_date_utc y m d = date_utc (if 0 \<le> y \<and> y \<le> 99 then 1900 + y else y) m d"

definition window_key :: "int \<times> int \<times> int \<Rightarrow> string" where
  "window_key p = (case p of (year, month, day) \<Rightarrow>
     pad_start 4 (decimal (nat year)) @ ''-'' @ pad_start 2 (decimal (nat month)) @ ''-''
     @ pad_start 2 (decimal (nat day)))"

text \<open>
  \<open>Some t\<close> is a valid date, with the current time where the caller passes none; \<open>None\<close> is an
  invalid date, whose time value is NaN.
\<close>

definition shanghaiDailyWindow ::
  "(timestamp \<Rightarrow> int) \<Rightarrow> timestamp option \<Rightarrow> (quota_error, quota_window) result" where
  "shanghaiDailyWindow tz at =
     (case at of
        None \<Rightarrow> Inl (QuotaTypeError ''Quota window date must be valid'')
      | Some t \<Rightarrow> bindR (dateParts tz t) (\<lambda>(year, month, day).
          let nextLocalMidnightAsUtc = js_date_utc year (month - 1) (day + 1)
          in Inr \<lparr>qw_key = window_key (year, month, day),
                  qw_resetAt = nextLocalMidnightAsUtc - shanghai_utc_offset\<rparr>))"

lemma year_ge_1970: "0 \<le> d \<Longrightarrow> 1970 \<le> year_from_day d"
proof (rule ccontr)
  assume d: "0 \<le> d" and "\<not> 1970 \<le> year_from_day d"
  then have "year_from_day d + 1 \<le> 1970" by simp
  then have "146097 * (year_from_day d + 1 - 1970) \<le> 0" by simp
  moreover have "d < day_from_year (year_from_day d + 1)"
    using year_from_day_bounds by blast
  ultimately show False
    using day_from_year_bounds(2)[of "year_from_day d + 1"] d
    by (cases "year_from_day d + 1 = 1970") (auto simp: day_from_year_def)
qed

lemma dateParts_eq:
  assumes "0 \<le> day_of_time (t + tz t)"
  shows "dateParts tz t = Inr (year_from_day (day_of_time (t + tz t)),
     month_from_day (day_of_time (t + tz t)) + 1, date_from_day (day_of_time (t + tz t)))"
  using year_ge_1970[OF assms] month_from_day_range[of "day_of_time (t + tz t)"]
    date_from_day_range[of "day_of_time (t + tz t)"]
  by (simp add: dateParts_def Let_def)

lemma js_date_utc_next_day:
  assumes "0 \<le> d"
  shows "js_date_utc (year_from_day d) (month_from_day d) (date_from_day d + 1)
         = (d + 1) * ms_per_day"
proof -
  have "99 < year_from_day d" using year_ge_1970[OF assms] by simp
  then have "(if 0 \<le> year_from_day d \<and> year_from_day d \<le> 99 then 1900 + year_from_day d
      else year_from_day d) = year_from_day d" by simp
  then show ?thesis
    unfolding js_date_utc_def date_utc_def by (simp only: make_day_add make_day_of_day)
qed

lemma shanghaiDailyWindow_eq:
  assumes "0 \<le> day_of_time (t + tz t)"
  shows "shanghaiDailyWindow tz (Some t) =
     Inr \<lparr>qw_key = window_key (year_from_day (day_of_time (t + tz t)),
            month_from_day (day_of_time (t + tz t)) + 1, date_from_day (day_of_time (t + tz t))),
          qw_resetAt = (day_of_time (t + tz t) + 1) * ms_per_day - shanghai_utc_offset\<rparr>"
  by (simp add: shanghaiDailyWindow_def dateParts_eq[of t tz, OF assms]
      js_date_utc_next_day[OF assms])

text \<open>Two calendar days with the same key are the same day.\<close>

lemma window_key_inject:
  assumes "0 \<le> y" "0 \<le> y'" "0 \<le> m" "m \<le> 99" "0 \<le> m'" "m' \<le> 99"
    and "0 \<le> d" "d \<le> 99" "0 \<le> d'" "d' \<le> 99"
    and eq: "window_key (y, m, d) = window_key (y', m', d')"
  shows "(y, m, d) = (y', m', d')"
proof -
  have len: "length (pad_start 2 (decimal (nat x))) = 2" if "x \<le> 99" for x
    using that by (intro length_pad_2) simp
  have day: "pad_start 2 (decimal (nat d)) = pad_start 2 (decimal (nat d'))"
    and rest: "pad_start 4 (decimal (nat y)) @ ''-'' @ pad_start 2 (decimal (nat m))
      = pad_start 4 (decimal (nat y')) @ ''-'' @ pad_start 2 (decimal (nat m'))"
    using eq len[of d] len[of d'] assms by (auto simp: window_key_def append_eq_append_conv
        simp flip: append_assoc append_Cons)
  have month: "pad_start 2 (decimal (nat m)) = pad_start 2 (decimal (nat m'))"
    and year: "pad_start 4 (decimal (nat y)) = pad_start 4 (decimal (nat y'))"
    using rest len[of m] len[of m'] assms by (auto simp: append_eq_append_conv
        simp flip: append_assoc append_Cons)
  from day month year show ?thesis
    using assms by (auto simp: pad_decimal_inject)
qed

end
