(* ===== verification/Js_Text.thy ===== *)
theory Js_Text
  imports Js_Time
begin

section \<open>JavaScript strings\<close>

text \<open>
  A JavaScript string is the list of its UTF-16 code units, so that \<open>length\<close>, \<open>slice\<close> and
  \<open>trim\<close> mean what they mean in the code. \<open>js\<close> gives the string of an ASCII literal. A text
  column of PostgreSQL holds Unicode text: the driver encodes a string as UTF-8, which
  replaces a surrogate that has no partner by U+FFFD (\<open>pg_text\<close>).
\<close>

type_synonym js_string = "nat list"

definition js :: "string \<Rightarrow> js_string" where
  "js s = map of_char s"

definition js_nat :: "nat \<Rightarrow> js_string" where
  "js_nat n = js (decimal n)"

subsection \<open>White space and pieces\<close>

text \<open>ECMAScript white space and line terminators, the characters \<open>trim\<close> removes.\<close>

definition js_white :: "nat \<Rightarrow> bool" where
  "js_white c \<longleftrightarrow> c \<in> {9, 10, 11, 12, 13, 32, 160, 5760, 8232, 8233, 8239, 8287, 12288, 65279}
     \<or> (8192 \<le> c \<and> c \<le> 8202)"

definition trimStart :: "js_string \<Rightarrow> js_string" where
  "trimStart s = dropWhile js_white s"

definition js_trim :: "js_string \<Rightarrow> js_string" where
  "js_trim s = rev (dropWhile js_white (rev (trimStart s)))"

definition js_slice :: "js_string \<Rightarrow> nat \<Rightarrow> nat \<Rightarrow> js_string" where
  "js_slice s a b = take (b - a) (drop a s)"

text \<open>\<open>s.replace(/\s+/g, " ")\<close>.\<close>

function collapse_space :: "js_string \<Rightarrow> js_string" where
  "collapse_space [] = []"
| "collapse_space (c # cs) =
     (if js_white c then 32 # collapse_space (dropWhile js_white cs) else c # collapse_space cs)"
  by pat_completeness auto

termination
  by (relation "measure length") (auto simp: less_Suc_eq_le length_dropWhile_le)

definition js_startsWith :: "js_string \<Rightarrow> js_string \<Rightarrow> bool" where
  "js_startsWith s p \<longleftrightarrow> take (length p) s = p"

fun js_includes :: "js_string \<Rightarrow> js_string \<Rightarrow> bool" where
  "js_includes [] p \<longleftrightarrow> p = []"
| "js_includes (c # cs) p \<longleftrightarrow> js_startsWith (c # cs) p \<or> js_includes cs p"

fun js_join :: "js_string \<Rightarrow> js_string list \<Rightarrow> js_string" where
  "js_join sep [] = []"
| "js_join sep [x] = x"
| "js_join sep (x # xs) = x @ sep @ js_join sep xs"

text \<open>\<open>/^E\d+$/u\<close>, the shape of an evidence id.\<close>

definition js_digit :: "nat \<Rightarrow> bool" where
  "js_digit c \<longleftrightarrow> 48 \<le> c \<and> c \<le> 57"

definition is_evidence_id :: "js_string \<Rightarrow> bool" where
  "is_evidence_id s = (case s of c # d # ds \<Rightarrow> c = 69 \<and> list_all js_digit (d # ds) | _ \<Rightarrow> False)"

subsection \<open>Surrogates\<close>

definition high_surrogate :: "nat \<Rightarrow> bool" where
  "high_surrogate c \<longleftrightarrow> 55296 \<le> c \<and> c \<le> 56319"

definition low_surrogate :: "nat \<Rightarrow> bool" where
  "low_surrogate c \<longleftrightarrow> 56320 \<le> c \<and> c \<le> 57343"

fun hasUnpairedSurrogate :: "js_string \<Rightarrow> bool" where
  "hasUnpairedSurrogate [] \<longleftrightarrow> False"
| "hasUnpairedSurrogate (c # cs) \<longleftrightarrow>
     (if high_surrogate c then
        (case cs of d # ds \<Rightarrow> if low_surrogate d then hasUnpairedSurrogate ds else True | [] \<Rightarrow> True)
      else if low_surrogate c then True
      else hasUnpairedSurrogate cs)"

fun pg_text :: "js_string \<Rightarrow> js_string" where
  "pg_text [] = []"
| "pg_text (c # cs) =
     (if high_surrogate c then
        (case cs of d # ds \<Rightarrow> if low_surrogate d then c # d # pg_text ds else 65533 # pg_text (d # ds)
         | [] \<Rightarrow> [65533])
      else if low_surrogate c then 65533 # pg_text cs
      else c # pg_text cs)"

text \<open>Characters: the iterator of a string yields surrogate pairs together.\<close>

fun js_characters :: "js_string \<Rightarrow> js_string list" where
  "js_characters [] = []"
| "js_characters (c # cs) =
     (if high_surrogate c then
        (case cs of d # ds \<Rightarrow> if low_surrogate d then [c, d] # js_characters ds
             else [c] # js_characters (d # ds)
         | [] \<Rightarrow> [[c]])
      else [c] # js_characters cs)"

lemma pg_text_id: "\<not> hasUnpairedSurrogate s \<Longrightarrow> pg_text s = s"
proof (induction s rule: pg_text.induct)
  case (2 c cs)
  then show ?case by (cases cs) (simp_all split: if_splits)
qed simp

lemma hasUnpairedSurrogate_skip:
  "\<not> high_surrogate c \<Longrightarrow> \<not> low_surrogate c \<Longrightarrow> hasUnpairedSurrogate (c # cs) = hasUnpairedSurrogate cs"
  by simp

lemma replacement_character: "\<not> high_surrogate 65533" "\<not> low_surrogate 65533"
  by (simp_all add: high_surrogate_def low_surrogate_def)

lemma pg_text_wf: "\<not> hasUnpairedSurrogate (pg_text s)"
proof (induction s rule: pg_text.induct)
  case 1
  then show ?case by simp
next
  case (2 c cs)
  show ?case
  proof (cases "high_surrogate c")
    case high: True
    show ?thesis
    proof (cases cs)
      case Nil
      with high show ?thesis
        by (simp add: replacement_character)
    next
      case (Cons d ds)
      show ?thesis
      proof (cases "low_surrogate d")
        case True
        then show ?thesis using high Cons "2.IH"(1)[OF high Cons True] by simp
      next
        case False
        have "pg_text (c # cs) = 65533 # pg_text (d # ds)" using high Cons False by simp
        moreover have "\<not> hasUnpairedSurrogate (pg_text (d # ds))"
          by (rule "2.IH"(2)[OF high Cons False])
        ultimately show ?thesis
          by (simp only: hasUnpairedSurrogate_skip[OF replacement_character] not_False_eq_True)
      qed
    qed
  next
    case high: False
    show ?thesis
    proof (cases "low_surrogate c")
      case True
      then show ?thesis using high "2.IH"(3)[OF high True]
        by (simp add: replacement_character)
    next
      case False
      then show ?thesis using high "2.IH"(4)[OF high False] by simp
    qed
  qed
qed

lemma concat_js_characters: "concat (js_characters s) = s"
proof (induction s rule: js_characters.induct)
  case (2 c cs)
  then show ?case by (cases cs) simp_all
qed simp

subsection \<open>Trimming\<close>

lemma trimStart_drop: "trimStart s = drop (length (takeWhile js_white s)) s"
  by (simp add: trimStart_def dropWhile_eq_drop)

lemma rev_dropWhile_take: "rev (dropWhile P (rev s)) = take (length s - length (takeWhile P (rev s))) s"
  by (simp add: dropWhile_eq_drop rev_drop)

lemma in_takeWhileD: "i < length (takeWhile P s) \<Longrightarrow> P (s ! i)"
  by (metis nth_mem set_takeWhileD takeWhile_nth)

lemma trim_span:
  defines "lead s \<equiv> length s - length (trimStart s)"
  shows "js_trim s = take (length (js_trim s)) (drop (lead s) s)"
    and "lead s + length (js_trim s) \<le> length s"
    and "i < length s \<Longrightarrow> \<not> js_white (s ! i) \<Longrightarrow> lead s \<le> i \<and> i < lead s + length (js_trim s)"
proof -
  have lead: "lead s = length (takeWhile js_white s)"
    using length_takeWhile_le[of js_white s] by (simp add: lead_def trimStart_drop)
  define t where "t = drop (lead s) s"
  have ts: "trimStart s = t" by (simp add: t_def lead trimStart_drop)
  have le: "length (takeWhile js_white (rev t)) \<le> length t"
    using length_takeWhile_le[of js_white "rev t"] by simp
  have trim: "js_trim s = take (length t - length (takeWhile js_white (rev t))) t"
    by (simp add: js_trim_def ts rev_dropWhile_take)
  then have len: "length (js_trim s) = length t - length (takeWhile js_white (rev t))" by simp
  show "js_trim s = take (length (js_trim s)) (drop (lead s) s)" using trim len by (simp add: t_def)
  have tw: "length (takeWhile js_white s) \<le> length s" by (rule length_takeWhile_le)
  have lt: "length t = length s - lead s" by (simp add: t_def)
  show "lead s + length (js_trim s) \<le> length s" using len le lt tw lead by simp
  assume i: "i < length s" "\<not> js_white (s ! i)"
  have l: "lead s \<le> i"
    using in_takeWhileD[of i js_white s] i lead by (metis not_le_imp_less)
  have "i < lead s + length (js_trim s)"
  proof (rule ccontr)
    assume "\<not> i < lead s + length (js_trim s)"
    then have k: "length s - 1 - i < length (takeWhile js_white (rev t))"
      using len le lt i(1) l by simp
    from in_takeWhileD[OF this] have "js_white (rev t ! (length s - 1 - i))" .
    moreover have "rev t ! (length s - 1 - i) = s ! i"
      using i(1) l lt by (simp add: rev_nth t_def)
    ultimately show False using i(2) by simp
  qed
  with l show "lead s \<le> i \<and> i < lead s + length (js_trim s)" by simp
qed

lemma js_trim_ends:
  assumes "js_trim s \<noteq> []"
  shows "\<not> js_white (hd (js_trim s))" "\<not> js_white (last (js_trim s))"
proof -
  have "dropWhile js_white (rev (trimStart s)) \<noteq> []" using assms by (simp add: js_trim_def)
  then show "\<not> js_white (last (js_trim s))" by (simp add: js_trim_def last_rev hd_dropWhile)
  have ts: "trimStart s \<noteq> []" using assms by (auto simp: js_trim_def)
  then have hd: "\<not> js_white (hd (trimStart s))" by (simp add: trimStart_def hd_dropWhile)
  have "js_trim s = take (length (js_trim s)) (trimStart s)"
    using rev_dropWhile_take[of js_white "trimStart s"] by (metis js_trim_def length_take min.absorb2 diff_le_self)
  then have "hd (js_trim s) = hd (trimStart s)" using assms by (metis hd_take length_greater_0_conv)
  with hd show "\<not> js_white (hd (js_trim s))" by simp
qed

lemma js_trim_Nil: "js_trim s = [] \<longleftrightarrow> (\<forall>c\<in>set s. js_white c)"
proof
  assume e: "js_trim s = []"
  show "\<forall>c\<in>set s. js_white c"
  proof
    fix c assume "c \<in> set s"
    then obtain i where i: "i < length s" "s ! i = c" by (auto simp: in_set_conv_nth)
    show "js_white c"
    proof (rule ccontr)
      assume "\<not> js_white c"
      with trim_span(3)[OF i(1)] i(2) e show False by auto
    qed
  qed
next
  assume "\<forall>c\<in>set s. js_white c"
  then show "js_trim s = []" by (auto simp: js_trim_def trimStart_def dest: set_dropWhileD)
qed

lemma js_trim_idem: "js_trim (js_trim s) = js_trim s"
proof (cases "js_trim s = []")
  case True
  have "js_trim [] = []" by (simp add: js_trim_def trimStart_def)
  with True show ?thesis by simp
next
  case False
  define t where "t = js_trim s"
  have t: "t \<noteq> []" "\<not> js_white (hd t)" "\<not> js_white (last t)"
    using js_trim_ends[OF False] False by (simp_all add: t_def)
  then have "trimStart t = t" unfolding trimStart_def by (cases t) auto
  moreover have "dropWhile js_white (rev t) = rev t"
  proof (cases "rev t")
    case (Cons x xs)
    then have "last t = x" by (metis last_rev list.sel(1) rev_rev_ident)
    with t(3) Cons show ?thesis by simp
  qed simp
  ultimately show ?thesis by (simp add: js_trim_def t_def)
qed

end
