(* ===== verification/App_State.thy ===== *)
theory App_State
  imports Quota_Repository Js_Text
begin

section \<open>The application's tables\<close>

text \<open>
  The rows of \<open>src/server/db/schema/chat.ts\<close>, \<open>agent.ts\<close> and \<open>chat-storage.ts\<close> that the
  conversation, agent-run and private-storage code reads and writes, and the state record
  that holds them beside the quota tables. Ids and lease tokens come from the same supply
  as the quota tables' ids. The database's own clock \<open>NOW()\<close> and the process's \<open>new Date()\<close>
  are the one clock \<open>q_now\<close>. Text that people write (titles, messages, error messages) is
  a JavaScript string; identifiers, codes and object keys are lists of 8-bit characters.
\<close>

subsection \<open>JSON columns\<close>

text \<open>\<open>JReal\<close> is a number that is not an integer, by its literal.\<close>

datatype json =
    JNull | JBool bool | JNumber int | JReal string | JString js_string
  | JArray "json list" | JObject "(string \<times> json) list"

text \<open>The last binding of a property wins, as in \<open>JSON.parse\<close> and in an object literal.\<close>

definition json_get :: "string \<Rightarrow> json \<Rightarrow> json option" where
  "json_get k j = (case j of JObject kvs \<Rightarrow> map_of (rev kvs) k | _ \<Rightarrow> None)"

subsection \<open>Conversations, messages and turns\<close>

datatype conversation_status = ConvActive | ConvArchived | ConvDeleted
datatype message_role = RoleUser | RoleAssistant | RoleSystem | RoleTool
datatype message_status =
    MsgPending | MsgStreaming | MsgCompleted | MsgIncomplete | MsgFailed | MsgCancelled

record conversation_row =
  cv_id :: nat
  cv_user :: string
  cv_title :: js_string
  cv_status :: conversation_status
  cv_model :: "string option"
  cv_lastMessageAt :: "timestamp option"
  cv_updatedAt :: timestamp
  cv_deletedAt :: "timestamp option"

record message_row =
  ms_id :: nat
  ms_conversation :: nat
  ms_user :: "string option"
  ms_sequence :: int
  ms_role :: message_role
  ms_status :: message_status
  ms_content :: js_string
  ms_clientRequest :: "string option"
  ms_turn :: "nat option"
  ms_model :: "string option"
  ms_answerSchemaVersion :: "string option"
  ms_answerPayload :: "json option"
  ms_errorCode :: "string option"
  ms_errorMessage :: "js_string option"
  ms_metadata :: json
  ms_completedAt :: "timestamp option"

record turn_row =
  tn_id :: nat
  tn_conversation :: nat
  tn_userMessage :: nat
  tn_ordinal :: int
  tn_selectedRun :: "nat option"
  tn_updatedAt :: timestamp

subsection \<open>Agent runs\<close>

datatype run_status =
    RunPending | RunRunning | RunCompleted | RunIncomplete | RunFailed | RunCancelled
datatype agent_action = ActInitial | ActRetry | ActRegenerate | ActContinue
datatype settlement_status = SettlementPending | SettlementCompleted
datatype requested_mode = RequestAuto | RequestDeep
datatype resolved_mode = ModeFast | ModeDeep
datatype web_mode = WebAuto | WebAlways
datatype risk_level = RiskLow | RiskMedium | RiskHigh

record run_counters =
  rc_toolRounds :: int
  rc_toolCalls :: int
  rc_modelRequests :: int
  rc_retries :: int
  rc_repairs :: int

record run_row =
  rn_id :: nat
  rn_turn :: nat
  rn_user :: string
  rn_assistantMessage :: nat
  rn_clientRequest :: string
  rn_version :: int
  rn_action :: agent_action
  rn_model :: string
  rn_requestedMode :: requested_mode
  rn_resolvedMode :: resolved_mode
  rn_webMode :: web_mode
  rn_risk :: risk_level
  rn_status :: run_status
  rn_quotaLease :: "nat option"
  rn_quotaStatus :: "reservation_status option"
  rn_settlement :: settlement_status
  rn_answerPayload :: "json option"
  rn_context :: json
  rn_counters :: run_counters
  rn_cancelRequestedAt :: "timestamp option"
  rn_errorCode :: "string option"
  rn_errorMessage :: "js_string option"
  rn_completedAt :: "timestamp option"
  rn_updatedAt :: timestamp

record tool_call =
  tc_id :: nat
  tc_run :: nat
  tc_round :: int
  tc_sequence :: int
  tc_providerCall :: string
  tc_toolName :: string
  tc_argumentsDigest :: string
  tc_resultDigest :: "string option"
  tc_citationIds :: "js_string list"
  tc_completed :: bool
  tc_idempotencyKey :: "nat \<times> string"
  tc_latencyMs :: int
  tc_errorCode :: "string option"
  tc_startedAt :: timestamp
  tc_completedAt :: timestamp
  tc_expiresAt :: timestamp

record citation_row =
  ct_id :: nat
  ct_web :: bool
  ct_title :: js_string
  ct_url :: "js_string option"
  ct_quote :: js_string
  ct_license :: "string option"
  ct_trustTier :: "string option"
  ct_reviewStatus :: "string option"
  ct_locator :: json
  ct_metadata :: json

record message_citation =
  mc_message :: nat
  mc_citation :: nat
  mc_ordinal :: nat

definition run_active :: "run_status \<Rightarrow> bool" where
  "run_active s \<longleftrightarrow> s = RunPending \<or> s = RunRunning"

subsection \<open>Private storage\<close>

datatype attachment_kind = KindDocument | KindImage
datatype attachment_status =
    AtInitiated | AtUploading | AtScanning | AtProcessing | AtReady | AtFailed | AtDeleted
datatype parse_status = ParseNotRequired | ParseQueued | ParseProcessing | ParseReady | ParseFailed
datatype storage_quota_state = StReserved | StCommitted | StReleased
datatype deletion_status = DelActive | DelQueued | DelDeleting | DelDeleted | DelFailed
datatype artifact_status = ArGenerating | ArReady | ArFailed | ArDeleted
datatype artifact_kind = DiagnosisReport | SelectionReport | InspectionChecklist | ParameterTable
datatype artifact_format = FmtMd | FmtDocx | FmtPdf | FmtCsv
datatype storage_object_type = ObjAttachment | ObjArtifact
datatype job_status = JobQueued | JobRunning | JobSucceeded | JobFailed

definition max_chat_storage_bytes :: int where
  "max_chat_storage_bytes = 500 * 1024 * 1024"

record storage_account =
  sa_user :: string
  sa_used :: int
  sa_reserved :: int
  sa_limit :: int
  sa_updatedAt :: timestamp

record attachment_row =
  at_id :: nat
  at_user :: string
  at_conversation :: nat
  at_message :: "nat option"
  at_kind :: attachment_kind
  at_status :: attachment_status
  at_parseStatus :: parse_status
  at_quota :: storage_quota_state
  at_deletion :: deletion_status
  at_filename :: string
  at_mime :: string
  at_declared :: int
  at_size :: "int option"
  at_sha256 :: string
  at_key :: string
  at_etag :: "string option"
  at_uploadExpiresAt :: timestamp
  at_orphanExpiresAt :: timestamp
  at_boundAt :: "timestamp option"
  at_parseProvider :: "string option"
  at_parseJob :: "string option"
  at_parseAttempts :: int
  at_parseMaxAttempts :: int
  at_parsePolls :: int
  at_parseSubmittedAt :: "timestamp option"
  at_parseRunAt :: timestamp
  at_parseLockedAt :: "timestamp option"
  at_parseLockedBy :: "string option"
  at_parseLease :: "nat option"
  at_failureCode :: "string option"
  at_readyAt :: "timestamp option"
  at_createdAt :: timestamp
  at_updatedAt :: timestamp

record artifact_row =
  af_id :: nat
  af_user :: string
  af_conversation :: nat
  af_message :: "nat option"
  af_sourceTurn :: nat
  af_kind :: artifact_kind
  af_title :: string
  af_status :: artifact_status
  af_formats :: "artifact_format list"
  af_readyAt :: "timestamp option"
  af_deletedAt :: "timestamp option"
  af_updatedAt :: timestamp

record artifact_file =
  fl_id :: nat
  fl_artifact :: nat
  fl_format :: artifact_format
  fl_filename :: string
  fl_mime :: string
  fl_size :: int
  fl_sha256 :: string
  fl_key :: string
  fl_quota :: storage_quota_state
  fl_deletion :: deletion_status
  fl_createdAt :: timestamp
  fl_deletedAt :: "timestamp option"

record deletion_job =
  dj_id :: nat
  dj_user :: "string option"
  dj_type :: storage_object_type
  dj_source :: nat
  dj_key :: string
  dj_status :: job_status
  dj_attempts :: int
  dj_maxAttempts :: int
  dj_runAt :: timestamp
  dj_lockedAt :: "timestamp option"
  dj_lockedBy :: "string option"
  dj_lease :: "nat option"
  dj_lastError :: "string option"
  dj_completedAt :: "timestamp option"
  dj_createdAt :: timestamp
  dj_updatedAt :: timestamp

record attachment_chunk =
  ck_attachment :: nat
  ck_ordinal :: nat
  ck_content :: string

subsection \<open>The state and its errors\<close>

record app_db =
  ap_quota :: quota_db
  ap_conversations :: "conversation_row list"
  ap_messages :: "message_row list"
  ap_turns :: "turn_row list"
  ap_runs :: "run_row list"
  ap_accounts :: "storage_account list"
  ap_attachments :: "attachment_row list"
  ap_artifacts :: "artifact_row list"
  ap_files :: "artifact_file list"
  ap_jobs :: "deletion_job list"
  ap_chunks :: "attachment_chunk list"
  ap_toolCalls :: "tool_call list"
  ap_citations :: "citation_row list"
  ap_messageCitations :: "message_citation list"

text \<open>\<open>ApiError\<close> carries the HTTP status and the code; \<open>notFound\<close> is 404 \<open>NOT_FOUND\<close>.\<close>

datatype app_error =
    ApiError nat string
  | RunStoreError string
  | AccountDeletionInProgress
  | StaleLease nat
  | QuotaFailure quota_error
  | ConstraintViolation string
  | UniqueKeyViolation string
  | InternalError string

definition notFound :: app_error where
  "notFound = ApiError 404 ''NOT_FOUND''"

abbreviation now :: "app_db \<Rightarrow> timestamp" where
  "now db \<equiv> q_now (ap_quota db)"

abbreviation next_id :: "app_db \<Rightarrow> nat" where
  "next_id db \<equiv> q_next (ap_quota db)"

definition draw_id :: "app_db \<Rightarrow> app_db" where
  "draw_id db = db\<lparr>ap_quota := (ap_quota db)\<lparr>q_next := next_id db + 1\<rparr>\<rparr>"

definition run_app :: "(app_error, 'a \<times> app_db) result \<Rightarrow> app_db \<Rightarrow> (app_error, 'a) result \<times> app_db" where
  "run_app m db = (case m of Inl e \<Rightarrow> (Inl e, db) | Inr (x, db') \<Rightarrow> (Inr x, db'))"

text \<open>\<open>SELECT .. FROM "user" WHERE id = $1 AND deletion_requested_at IS NULL\<close>.\<close>

definition account_open :: "string \<Rightarrow> app_db \<Rightarrow> bool" where
  "account_open user db \<longleftrightarrow> (\<exists>u\<in>set (q_users (ap_quota db)).
     us_id u = user \<and> us_deletionRequestedAt u = None)"

definition assertAccountWritable :: "string \<Rightarrow> app_db \<Rightarrow> (app_error, unit) result" where
  "assertAccountWritable user db =
     (case lookup us_id user (q_users (ap_quota db)) of
        None \<Rightarrow> Inl AccountDeletionInProgress
      | Some u \<Rightarrow> if us_deletionRequestedAt u \<noteq> None then Inl AccountDeletionInProgress else Inr ())"

definition owned_conversation :: "nat \<Rightarrow> string \<Rightarrow> app_db \<Rightarrow> bool" where
  "owned_conversation c user db \<longleftrightarrow> (\<exists>v\<in>set (ap_conversations db).
     cv_id v = c \<and> cv_user v = user \<and> cv_status v \<noteq> ConvDeleted \<and> cv_deletedAt v = None)"

end
