(* ===== verification/Attachments.thy ===== *)
theory Attachments
  imports App_State
begin

section \<open>Private attachments\<close>

text \<open>
  \<open>PostgresChatAttachmentRepository\<close> of \<open>src/server/chat-attachments/repository.ts\<close>: an
  attachment reserves its declared size in the account's storage quota, is verified and
  committed, rejected, bound to a message or deleted, and every deletion leaves a job for
  its object. CHECK constraints and unique indexes of the tables are error branches; a row
  returned to the caller is parsed as the code does.
\<close>

subsection \<open>Constraints\<close>

definition account_check :: "storage_account \<Rightarrow> bool" where
  "account_check a \<longleftrightarrow> 0 \<le> sa_used a \<and> 0 \<le> sa_reserved a \<and> 0 < sa_limit a
     \<and> sa_used a + sa_reserved a \<le> sa_limit a"

definition image_mimes :: "string list" where
  "image_mimes = [''image/jpeg'', ''image/png'']"

definition attachment_mimes :: "string list" where
  "attachment_mimes = [''application/pdf'',
     ''application/vnd.openxmlformats-officedocument.wordprocessingml.document'',
     ''application/vnd.openxmlformats-officedocument.spreadsheetml.sheet'',
     ''text/csv'', ''text/plain'', ''text/markdown''] @ image_mimes"

definition lower_hex :: "char \<Rightarrow> bool" where
  "lower_hex c \<longleftrightarrow> (let n = (of_char c :: nat) in (48 \<le> n \<and> n \<le> 57) \<or> (97 \<le> n \<and> n \<le> 102))"

definition sha256_ok :: "string \<Rightarrow> bool" where
  "sha256_ok s \<longleftrightarrow> length s = 64 \<and> list_all lower_hex s"

definition alnum :: "char \<Rightarrow> bool" where
  "alnum c \<longleftrightarrow> (let n = (of_char c :: nat) in
     (48 \<le> n \<and> n \<le> 57) \<or> (65 \<le> n \<and> n \<le> 90) \<or> (97 \<le> n \<and> n \<le> 122))"

fun split_slash :: "string \<Rightarrow> string list" where
  "split_slash [] = [[]]"
| "split_slash (c # cs) = (if c = CHR ''/'' then [] # split_slash cs
     else (case split_slash cs of s # ss \<Rightarrow> (c # s) # ss | [] \<Rightarrow> [[c]]))"

fun double_slash :: "string \<Rightarrow> bool" where
  "double_slash (a # b # cs) = ((a = CHR ''/'' \<and> b = CHR ''/'') \<or> double_slash (b # cs))"
| "double_slash _ = False"

definition object_key_ok :: "string \<Rightarrow> string \<Rightarrow> bool" where
  "object_key_ok prefix k \<longleftrightarrow> take (length prefix) k = prefix
     \<and> (case drop (length prefix) k of [] \<Rightarrow> False
         | c # cs \<Rightarrow> alnum c \<and> list_all (\<lambda>x. alnum x \<or> x \<in> set ''._/-'') cs)
     \<and> ''..'' \<notin> set (split_slash k) \<and> \<not> double_slash k"

definition attachment_check :: "attachment_row \<Rightarrow> bool" where
  "attachment_check a \<longleftrightarrow> at_mime a \<in> set attachment_mimes
     \<and> 0 < at_declared a \<and> at_declared a \<le> 26214400
     \<and> (case at_size a of None \<Rightarrow> True | Some n \<Rightarrow> 0 < n \<and> n \<le> 26214400)
     \<and> sha256_ok (at_sha256 a) \<and> object_key_ok ''private/chat-attachments/'' (at_key a)
     \<and> (at_kind a = KindImage \<longleftrightarrow> at_mime a \<in> set image_mimes)
     \<and> (case at_quota a of StReserved \<Rightarrow> at_size a = None | StCommitted \<Rightarrow> at_size a \<noteq> None
          | StReleased \<Rightarrow> True)
     \<and> 0 \<le> at_parseAttempts a \<and> 0 < at_parseMaxAttempts a \<and> 0 \<le> at_parsePolls a"

subsection \<open>The storage account\<close>

definition ensure_account :: "string \<Rightarrow> app_db \<Rightarrow> app_db" where
  "ensure_account user db =
     (if \<exists>a\<in>set (ap_accounts db). sa_user a = user then db
      else db\<lparr>ap_accounts := ap_accounts db @
        [\<lparr>sa_user = user, sa_used = 0, sa_reserved = 0, sa_limit = max_chat_storage_bytes,
          sa_updatedAt = now db\<rparr>]\<rparr>)"

definition update_account ::
  "string \<Rightarrow> (storage_account \<Rightarrow> storage_account) \<Rightarrow> app_db \<Rightarrow> (app_error, app_db) result" where
  "update_account user f db =
     (let accs = update_where (\<lambda>a. sa_user a = user) (\<lambda>a. (f a)\<lparr>sa_updatedAt := now db\<rparr>) (ap_accounts db)
      in if list_all account_check accs then Inr (db\<lparr>ap_accounts := accs\<rparr>)
         else Inl (ConstraintViolation ''chat_storage_account_bytes_valid''))"

text \<open>\<open>UPDATE .. SET used_bytes = used_bytes + u, reserved_bytes = reserved_bytes + r\<close>.\<close>

definition move_bytes :: "int \<Rightarrow> int \<Rightarrow> storage_account \<Rightarrow> storage_account" where
  "move_bytes u r a = a\<lparr>sa_used := sa_used a + u, sa_reserved := sa_reserved a + r\<rparr>"

text \<open>The same with \<open>GREATEST(.., 0)\<close>.\<close>

definition release_bytes :: "int \<Rightarrow> int \<Rightarrow> storage_account \<Rightarrow> storage_account" where
  "release_bytes u r a = a\<lparr>sa_used := max (sa_used a - u) 0, sa_reserved := max (sa_reserved a - r) 0\<rparr>"

subsection \<open>Deletion jobs\<close>

definition new_job ::
  "string option \<Rightarrow> storage_object_type \<Rightarrow> nat \<Rightarrow> string \<Rightarrow> timestamp \<Rightarrow> app_db \<Rightarrow> deletion_job" where
  "new_job user ty src key runAt db =
     \<lparr>dj_id = next_id db, dj_user = user, dj_type = ty, dj_source = src, dj_key = key,
      dj_status = JobQueued, dj_attempts = 0, dj_maxAttempts = 5, dj_runAt = runAt,
      dj_lockedAt = None, dj_lockedBy = None, dj_lease = None, dj_lastError = None,
      dj_completedAt = None, dj_createdAt = now db, dj_updatedAt = now db\<rparr>"

definition job_key_ok :: "string \<Rightarrow> bool" where
  "job_key_ok k \<longleftrightarrow> object_key_ok ''private/chat-attachments/'' k
     \<or> object_key_ok ''private/chat-artifacts/'' k"

text \<open>
  \<open>INSERT INTO chat_storage_deletion_job .. ON CONFLICT (object_key) DO NOTHING\<close>, for the key
  of a stored row: the row's own CHECK admits only keys that the job's CHECK admits.
\<close>

definition queue_deletion ::
  "string \<Rightarrow> storage_object_type \<Rightarrow> nat \<Rightarrow> string \<Rightarrow> timestamp \<Rightarrow> app_db \<Rightarrow> app_db" where
  "queue_deletion user ty src key runAt db =
     (if \<exists>j\<in>set (ap_jobs db). dj_key j = key then db
      else draw_id (db\<lparr>ap_jobs := ap_jobs db @ [new_job (Some user) ty src key runAt db]\<rparr>))"

subsection \<open>Views\<close>

record attachment_view =
  vw_id :: nat
  vw_conversation :: nat
  vw_message :: "nat option"
  vw_kind :: attachment_kind
  vw_filename :: string
  vw_mime :: string
  vw_size :: int
  vw_status :: attachment_status
  vw_parse :: parse_status
  vw_failureCode :: "string option"
  vw_readyAt :: "timestamp option"

definition public_size :: "attachment_row \<Rightarrow> int" where
  "public_size a = (case at_size a of Some n \<Rightarrow> n | None \<Rightarrow> at_declared a)"

definition safeInteger :: "int \<Rightarrow> int option" where
  "safeInteger n = (if is_safe_integer n \<and> 0 \<le> n then Some n else None)"

definition stringValue :: "string option \<Rightarrow> string option" where
  "stringValue s = (case s of Some (c # cs) \<Rightarrow> Some (c # cs) | _ \<Rightarrow> None)"

definition parseView :: "attachment_row option \<Rightarrow> (app_error, attachment_view) result" where
  "parseView row =
     (case row of
        None \<Rightarrow> Inl (InternalError ''Chat attachment query returned no row.'')
      | Some a \<Rightarrow>
          if stringValue (Some (at_filename a)) = None \<or> stringValue (Some (at_mime a)) = None
             \<or> safeInteger (public_size a) = None
          then Inl (InternalError ''Chat attachment row is malformed.'')
          else Inr \<lparr>vw_id = at_id a, vw_conversation = at_conversation a, vw_message = at_message a,
            vw_kind = at_kind a, vw_filename = at_filename a, vw_mime = at_mime a,
            vw_size = public_size a, vw_status = at_status a, vw_parse = at_parseStatus a,
            vw_failureCode = stringValue (at_failureCode a), vw_readyAt = at_readyAt a\<rparr>)"

text \<open>A target keeps the row beside its view; \<open>None\<close> is no row.\<close>

definition parseTarget :: "attachment_row option \<Rightarrow> (app_error, attachment_row option) result" where
  "parseTarget row =
     (case row of None \<Rightarrow> Inr None
      | Some a \<Rightarrow> bindR (parseView (Some a)) (\<lambda>_.
          if stringValue (Some (at_user a)) = None \<or> stringValue (Some (at_key a)) = None
             \<or> stringValue (Some (at_sha256 a)) = None \<or> safeInteger (at_declared a) = None
          then Inl (InternalError ''Chat attachment target row is malformed.'')
          else Inr (Some a)))"

definition find_attachment ::
  "nat \<Rightarrow> string \<Rightarrow> (attachment_row \<Rightarrow> bool) \<Rightarrow> app_db \<Rightarrow> attachment_row option" where
  "find_attachment i user P db =
     find (\<lambda>a. at_id a = i \<and> at_user a = user \<and> P a) (ap_attachments db)"

definition find_owned :: "nat \<Rightarrow> string \<Rightarrow> (attachment_row \<Rightarrow> bool) \<Rightarrow> app_db \<Rightarrow> attachment_row option" where
  "find_owned i user P db =
     find_attachment i user (\<lambda>a. owned_conversation (at_conversation a) user db \<and> P a) db"

definition set_attachment :: "nat \<Rightarrow> string \<Rightarrow> (attachment_row \<Rightarrow> attachment_row) \<Rightarrow> app_db \<Rightarrow> app_db" where
  "set_attachment i user f db = db\<lparr>ap_attachments :=
     update_where (\<lambda>a. at_id a = i \<and> at_user a = user)
       (\<lambda>a. (f a)\<lparr>at_updatedAt := now db\<rparr>) (ap_attachments db)\<rparr>"

text \<open>Deleting an attachment of the account; its chunks go with it (\<open>ON DELETE CASCADE\<close>).\<close>

definition delete_attachment :: "nat \<Rightarrow> string \<Rightarrow> app_db \<Rightarrow> app_db" where
  "delete_attachment i user db = db\<lparr>ap_attachments :=
       filter (\<lambda>a. \<not> (at_id a = i \<and> at_user a = user)) (ap_attachments db),
     ap_chunks := filter (\<lambda>c. ck_attachment c \<noteq> i) (ap_chunks db)\<rparr>"

subsection \<open>Operations\<close>

record initiate_input =
  ii_id :: nat
  ii_user :: string
  ii_conversation :: nat
  ii_kind :: attachment_kind
  ii_filename :: string
  ii_mime :: string
  ii_declared :: int
  ii_sha256 :: string
  ii_key :: string
  ii_uploadExpiresAt :: timestamp
  ii_orphanExpiresAt :: timestamp

definition new_attachment :: "initiate_input \<Rightarrow> app_db \<Rightarrow> attachment_row" where
  "new_attachment inp db =
     \<lparr>at_id = ii_id inp, at_user = ii_user inp, at_conversation = ii_conversation inp,
      at_message = None, at_kind = ii_kind inp, at_status = AtInitiated,
      at_parseStatus = (if ii_kind inp = KindImage then ParseNotRequired else ParseQueued),
      at_quota = StReserved, at_deletion = DelActive, at_filename = ii_filename inp,
      at_mime = ii_mime inp, at_declared = ii_declared inp, at_size = None,
      at_sha256 = ii_sha256 inp, at_key = ii_key inp, at_etag = None,
      at_uploadExpiresAt = ii_uploadExpiresAt inp, at_orphanExpiresAt = ii_orphanExpiresAt inp,
      at_boundAt = None, at_parseProvider = None, at_parseJob = None, at_parseAttempts = 0,
      at_parseMaxAttempts = 3, at_parsePolls = 0, at_parseSubmittedAt = None,
      at_parseRunAt = now db, at_parseLockedAt = None, at_parseLockedBy = None,
      at_parseLease = None, at_failureCode = None, at_readyAt = None, at_createdAt = now db,
      at_updatedAt = now db\<rparr>"

definition insert_attachment :: "attachment_row \<Rightarrow> app_db \<Rightarrow> (app_error, app_db) result" where
  "insert_attachment a db =
     (if \<not> attachment_check a then Inl (ConstraintViolation ''chat_attachment'')
      else if \<exists>x\<in>set (ap_attachments db). at_id x = at_id a \<or> at_key x = at_key a
        then Inl (UniqueKeyViolation ''chat_attachment'')
      else Inr (db\<lparr>ap_attachments := ap_attachments db @ [a]\<rparr>))"

definition initiate :: "initiate_input \<Rightarrow> app_db \<Rightarrow> (app_error, attachment_view \<times> app_db) result" where
  "initiate inp db =
     (if \<not> account_open (ii_user inp) db then Inl notFound
      else if \<not> owned_conversation (ii_conversation inp) (ii_user inp) db then Inl notFound
      else
        let db1 = ensure_account (ii_user inp) db in
        case lookup sa_user (ii_user inp) (ap_accounts db1) of
          None \<Rightarrow> Inl (InternalError ''Chat storage quota row is malformed.'')
        | Some q \<Rightarrow>
            if safeInteger (sa_used q) = None \<or> safeInteger (sa_reserved q) = None
               \<or> safeInteger (sa_limit q) = None
            then Inl (InternalError ''Chat storage quota row is malformed.'')
            else if sa_limit q < sa_used q + sa_reserved q + ii_declared inp
            then Inl (ApiError 413 ''CHAT_STORAGE_QUOTA_EXCEEDED'')
            else bindR (insert_attachment (new_attachment inp db1) db1) (\<lambda>db2.
                 bindR (update_account (ii_user inp) (move_bytes 0 (ii_declared inp)) db2) (\<lambda>db3.
                 bindR (parseView (Some (new_attachment inp db1))) (\<lambda>v. Inr (v, db3)))))"

definition beginCompletion ::
  "nat \<Rightarrow> string \<Rightarrow> app_db \<Rightarrow> (app_error, (attachment_row \<times> bool) \<times> app_db) result" where
  "beginCompletion i user db =
     bindR (parseTarget (find_owned i user (\<lambda>_. True) db)) (\<lambda>t. case t of
        None \<Rightarrow> Inl notFound
      | Some a \<Rightarrow>
          if at_quota a = StCommitted then Inr ((a, True), db)
          else if at_quota a \<noteq> StReserved \<or> at_deletion a \<noteq> DelActive
             \<or> at_status a \<notin> {AtInitiated, AtUploading}
          then Inl (ApiError 409 ''ATTACHMENT_STATE_CONFLICT'')
          else Inr ((a\<lparr>at_status := AtScanning\<rparr>, False),
            set_attachment i user (\<lambda>x. x\<lparr>at_status := AtScanning, at_failureCode := None\<rparr>) db))"

definition commit_attachment ::
  "int \<Rightarrow> string option \<Rightarrow> timestamp \<Rightarrow> bool \<Rightarrow> attachment_row \<Rightarrow> attachment_row" where
  "commit_attachment bytes etag t img a =
     a\<lparr>at_size := Some bytes, at_etag := etag, at_quota := StCommitted,
       at_status := (if img then AtReady else AtProcessing),
       at_parseStatus := (if img then ParseNotRequired else ParseQueued),
       at_readyAt := (if img then Some t else None), at_parseRunAt := t\<rparr>"

definition completeVerified ::
  "nat \<Rightarrow> string \<Rightarrow> int \<Rightarrow> string option \<Rightarrow> app_db \<Rightarrow>
   (app_error, attachment_view \<times> app_db) result" where
  "completeVerified i user bytes etag db =
     (case find_attachment i user (\<lambda>a. at_status a = AtScanning \<and> at_quota a = StReserved
         \<and> at_deletion a = DelActive) db of
        None \<Rightarrow> Inl (ApiError 409 ''ATTACHMENT_STATE_CONFLICT'')
      | Some a \<Rightarrow>
          if at_declared a \<noteq> bytes then Inl (ApiError 409 ''ATTACHMENT_UPLOAD_MISMATCH'')
          else bindR (update_account user (move_bytes bytes (- at_declared a)) db) (\<lambda>db1.
            let f = commit_attachment bytes etag (now db) (at_kind a = KindImage);
                db2 = set_attachment i user f db1
            in bindR (parseView (find_attachment i user (\<lambda>_. True) db2)) (\<lambda>v. Inr (v, db2))))"

definition resetCompletion :: "nat \<Rightarrow> string \<Rightarrow> app_db \<Rightarrow> app_db" where
  "resetCompletion i user db = db\<lparr>ap_attachments :=
     update_where (\<lambda>a. at_id a = i \<and> at_user a = user \<and> at_status a = AtScanning
         \<and> at_quota a = StReserved \<and> at_deletion a = DelActive)
       (\<lambda>a. a\<lparr>at_status := AtInitiated, at_updatedAt := now db\<rparr>) (ap_attachments db)\<rparr>"

definition reject_attachment :: "string \<Rightarrow> attachment_row \<Rightarrow> attachment_row" where
  "reject_attachment code a = a\<lparr>at_status := AtFailed, at_parseStatus := ParseFailed,
     at_quota := StReleased, at_deletion := DelQueued, at_failureCode := Some code\<rparr>"

definition rejectCompletion ::
  "nat \<Rightarrow> string \<Rightarrow> string \<Rightarrow> app_db \<Rightarrow> (app_error, app_db) result" where
  "rejectCompletion i user code db =
     (case find_attachment i user (\<lambda>a. at_status a = AtScanning \<and> at_quota a = StReserved) db of
        None \<Rightarrow> Inr db
      | Some a \<Rightarrow>
          bindR (update_account user (move_bytes 0 (- at_declared a)) db) (\<lambda>db1.
          let db2 = set_attachment i user (reject_attachment code) db1
          in Inr (queue_deletion user ObjAttachment i (at_key a) (now db) db2)))"

definition findOwned :: "nat \<Rightarrow> string \<Rightarrow> app_db \<Rightarrow> (app_error, attachment_view option) result" where
  "findOwned i user db =
     (case find_owned i user (\<lambda>_. True) db of None \<Rightarrow> Inr None
      | Some a \<Rightarrow> bindR (parseView (Some a)) (\<lambda>v. Inr (Some v)))"

definition findOwnedObject :: "nat \<Rightarrow> string \<Rightarrow> app_db \<Rightarrow> (app_error, attachment_row option) result" where
  "findOwnedObject i user db = parseTarget (find_owned i user (\<lambda>_. True) db)"

definition bindable :: "nat \<Rightarrow> string \<Rightarrow> nat \<Rightarrow> attachment_row \<Rightarrow> bool" where
  "bindable conv user msg a \<longleftrightarrow> at_user a = user \<and> at_conversation a = conv
     \<and> at_quota a = StCommitted \<and> at_deletion a = DelActive \<and> at_status a = AtReady
     \<and> at_parseStatus a \<in> {ParseReady, ParseNotRequired}
     \<and> (at_message a = None \<or> at_message a = Some msg)"

definition user_message :: "nat \<Rightarrow> nat \<Rightarrow> string \<Rightarrow> app_db \<Rightarrow> bool" where
  "user_message msg conv user db \<longleftrightarrow> (\<exists>m\<in>set (ap_messages db). ms_id m = msg
     \<and> ms_conversation m = conv \<and> ms_user m = Some user \<and> ms_role m = RoleUser)
     \<and> owned_conversation conv user db"

definition bindToMessage ::
  "nat list \<Rightarrow> nat \<Rightarrow> nat \<Rightarrow> string \<Rightarrow> app_db \<Rightarrow>
   (app_error, attachment_view list \<times> app_db) result" where
  "bindToMessage ids conv msg user db =
     (if \<not> user_message msg conv user db then Inl notFound
      else
        let bound = map at_id (filter (\<lambda>a. at_user a = user \<and> at_conversation a = conv
              \<and> at_message a = Some msg) (ap_attachments db))
        in if 5 < length (remdups (bound @ ids))
           then Inl (ApiError 422 ''ATTACHMENT_BIND_INVALID'')
           else if length (filter (\<lambda>a. at_id a \<in> set ids \<and> bindable conv user msg a)
                  (ap_attachments db)) \<noteq> length ids
           then Inl (ApiError 409 ''ATTACHMENT_BIND_CONFLICT'')
           else
             let hit = (\<lambda>a. at_id a \<in> set ids \<and> at_user a = user \<and> at_conversation a = conv);
                 db' = db\<lparr>ap_attachments := update_where hit
                   (\<lambda>a. a\<lparr>at_message := Some msg,
                     at_boundAt := (case at_boundAt a of None \<Rightarrow> Some (now db) | Some t \<Rightarrow> Some t),
                     at_updatedAt := now db\<rparr>) (ap_attachments db)\<rparr>
             in bindR (foldR (\<lambda>a vs. bindR (parseView (Some a)) (\<lambda>v. Inr (vs @ [v])))
                  (filter hit (ap_attachments db')) []) (\<lambda>vs. Inr (vs, db')))"

definition committed_bytes :: "attachment_row \<Rightarrow> int" where
  "committed_bytes a = (if at_quota a = StCommitted then (case at_size a of None \<Rightarrow> 0 | Some n \<Rightarrow> n) else 0)"

definition reserved_bytes :: "attachment_row \<Rightarrow> int" where
  "reserved_bytes a = (if at_quota a = StReserved then at_declared a else 0)"

definition deleteUnbound :: "nat \<Rightarrow> string \<Rightarrow> app_db \<Rightarrow> (app_error, app_db) result" where
  "deleteUnbound i user db =
     bindR (parseTarget (find_owned i user (\<lambda>a. at_message a = None \<and> at_deletion a = DelActive) db))
       (\<lambda>t. case t of None \<Rightarrow> Inl notFound
        | Some a \<Rightarrow>
            let db1 = queue_deletion user ObjAttachment (at_id a) (at_key a)
                  (if at_quota a = StReserved then at_uploadExpiresAt a + 60000 else now db) db
            in bindR (update_account user (release_bytes
                  (if at_quota a = StCommitted then public_size a else 0) (reserved_bytes a)) db1) (\<lambda>db2.
               Inr (delete_attachment i user db2)))"

end
