(* ===== verification/Artifacts.thy ===== *)
theory Artifacts
  imports Attachments
begin

section \<open>Artifacts and the removal of private objects\<close>

text \<open>
  \<open>PostgresChatArtifactStorageRepository\<close> of \<open>src/server/chat-attachments/artifact-storage.ts\<close>
  (an artifact of a running answer, its files reserved, committed or aborted one by one, and
  its completion or failure), the artifact cleanup of \<open>src/server/agent/run-settlement.ts\<close>,
  the removal of a conversation's storage in \<open>src/server/chat-attachments/deletion.ts\<close> and
  the expiry of unbound attachments in \<open>src/worker/chat-storage.ts\<close>.
\<close>

subsection \<open>Creating an artifact and its files\<close>

record artifact_spec =
  sp_sourceTurn :: nat
  sp_kind :: artifact_kind
  sp_title :: string
  sp_formats :: "artifact_format list"

definition artifact_scope :: "nat \<Rightarrow> string \<Rightarrow> nat \<Rightarrow> nat \<Rightarrow> nat \<Rightarrow> app_db \<Rightarrow> bool" where
  "artifact_scope run user turn msg conv db \<longleftrightarrow>
     (\<exists>r\<in>set (ap_runs db). rn_id r = run \<and> rn_user r = user \<and> rn_turn r = turn
        \<and> rn_assistantMessage r = msg \<and> run_active (rn_status r))
     \<and> (\<exists>t\<in>set (ap_turns db). tn_id t = turn \<and> tn_conversation t = conv)
     \<and> (\<exists>m\<in>set (ap_messages db). ms_id m = msg \<and> ms_conversation m = conv)"

text \<open>\<open>char_length\<close> counts characters: the bytes that do not continue a UTF-8 sequence.\<close>

definition char_length :: "string \<Rightarrow> nat" where
  "char_length s = length (filter (\<lambda>c. \<not> (128 \<le> (of_char c :: nat) \<and> (of_char c :: nat) \<le> 191)) s)"

text \<open>\<open>parseArtifact\<close>: a row whose specification lists no format is malformed.\<close>

definition parseArtifact :: "artifact_row \<Rightarrow> (app_error, artifact_row) result" where
  "parseArtifact a = (if af_formats a = [] \<or> af_title a = ''''
     then Inl (InternalError ''Artifact row is malformed.'') else Inr a)"

definition createArtifact ::
  "nat \<Rightarrow> string \<Rightarrow> nat \<Rightarrow> nat \<Rightarrow> nat \<Rightarrow> artifact_spec \<Rightarrow> app_db \<Rightarrow>
   (app_error, artifact_row \<times> app_db) result" where
  "createArtifact i user conv run msg spec db =
     (if \<not> account_open user db \<or> \<not> owned_conversation conv user db
         \<or> \<not> artifact_scope run user (sp_sourceTurn spec) msg conv db
      then Inl notFound
      else
        let a = \<lparr>af_id = i, af_user = user, af_conversation = conv, af_message = Some msg,
              af_sourceTurn = sp_sourceTurn spec, af_kind = sp_kind spec, af_title = sp_title spec,
              af_status = ArGenerating, af_formats = sp_formats spec, af_readyAt = None,
              af_deletedAt = None, af_updatedAt = now db\<rparr>
        in if char_length (af_title a) < 1 \<or> 240 < char_length (af_title a)
           then Inl (ConstraintViolation ''chat_artifact_title_valid'')
           else if \<exists>x\<in>set (ap_artifacts db). af_id x = i then Inl (UniqueKeyViolation ''chat_artifact'')
           else bindR (parseArtifact a) (\<lambda>v. Inr (v, db\<lparr>ap_artifacts := ap_artifacts db @ [a]\<rparr>)))"

definition find_artifact ::
  "nat \<Rightarrow> string \<Rightarrow> (artifact_row \<Rightarrow> bool) \<Rightarrow> app_db \<Rightarrow> artifact_row option" where
  "find_artifact i user P db =
     find (\<lambda>a. af_id a = i \<and> af_user a = user \<and> P a) (ap_artifacts db)"

definition set_artifact :: "nat \<Rightarrow> string \<Rightarrow> (artifact_row \<Rightarrow> artifact_row) \<Rightarrow> app_db \<Rightarrow> app_db" where
  "set_artifact i user f db = db\<lparr>ap_artifacts :=
     update_where (\<lambda>a. af_id a = i \<and> af_user a = user)
       (\<lambda>a. (f a)\<lparr>af_updatedAt := now db\<rparr>) (ap_artifacts db)\<rparr>"

definition file_check :: "artifact_file \<Rightarrow> bool" where
  "file_check f \<longleftrightarrow> 0 < fl_size f \<and> fl_size f \<le> 524288000 \<and> sha256_ok (fl_sha256 f)
     \<and> object_key_ok ''private/chat-artifacts/'' (fl_key f)"

definition insert_file :: "artifact_file \<Rightarrow> app_db \<Rightarrow> (app_error, app_db) result" where
  "insert_file f db =
     (if \<not> file_check f then Inl (ConstraintViolation ''chat_artifact_file'')
      else if \<exists>x\<in>set (ap_files db). fl_id x = fl_id f \<or> fl_key x = fl_key f
           \<or> (fl_artifact x = fl_artifact f \<and> fl_format x = fl_format f)
        then Inl (UniqueKeyViolation ''chat_artifact_file'')
      else Inr (db\<lparr>ap_files := ap_files db @ [f]\<rparr>))"

record file_input =
  fi_id :: nat
  fi_artifact :: nat
  fi_user :: string
  fi_conversation :: nat
  fi_format :: artifact_format
  fi_filename :: string
  fi_mime :: string
  fi_size :: int
  fi_sha256 :: string
  fi_key :: string

definition new_file :: "file_input \<Rightarrow> app_db \<Rightarrow> artifact_file" where
  "new_file inp db =
     \<lparr>fl_id = fi_id inp, fl_artifact = fi_artifact inp, fl_format = fi_format inp,
      fl_filename = fi_filename inp, fl_mime = fi_mime inp, fl_size = fi_size inp,
      fl_sha256 = fi_sha256 inp, fl_key = fi_key inp, fl_quota = StReserved,
      fl_deletion = DelActive, fl_createdAt = now db, fl_deletedAt = None\<rparr>"

definition reserveFile :: "file_input \<Rightarrow> app_db \<Rightarrow> (app_error, app_db) result" where
  "reserveFile inp db =
     (if \<not> account_open (fi_user inp) db \<or> \<not> owned_conversation (fi_conversation inp) (fi_user inp) db
         \<or> find_artifact (fi_artifact inp) (fi_user inp) (\<lambda>a. af_conversation a = fi_conversation inp
             \<and> af_status a = ArGenerating \<and> af_deletedAt a = None
             \<and> fi_format inp \<in> set (af_formats a)) db = None
      then Inl notFound
      else
        let db1 = ensure_account (fi_user inp) db in
        case lookup sa_user (fi_user inp) (ap_accounts db1) of
          None \<Rightarrow> Inl (InternalError ''Malformed artifact used quota.'')
        | Some q \<Rightarrow>
            if safeInteger (sa_used q) = None \<or> safeInteger (sa_reserved q) = None
               \<or> safeInteger (sa_limit q) = None
            then Inl (InternalError ''Malformed artifact quota.'')
            else if sa_limit q < sa_used q + sa_reserved q + fi_size inp
            then Inl (ApiError 413 ''CHAT_STORAGE_QUOTA_EXCEEDED'')
            else if \<exists>f\<in>set (ap_files db1). fl_artifact f = fi_artifact inp \<and> fl_format f = fi_format inp
            then Inl (ApiError 409 ''ARTIFACT_FORMAT_EXISTS'')
            else bindR (insert_file (new_file inp db1) db1) (\<lambda>db2.
                 bindR (update_account (fi_user inp) (move_bytes 0 (fi_size inp)) db2) (\<lambda>db3.
                 Inr (set_artifact (fi_artifact inp) (fi_user inp) (\<lambda>a. a\<lparr>af_status := ArGenerating\<rparr>) db3))))"

definition find_file ::
  "nat \<Rightarrow> nat \<Rightarrow> (artifact_file \<Rightarrow> bool) \<Rightarrow> app_db \<Rightarrow> artifact_file option" where
  "find_file i art P db = find (\<lambda>f. fl_id f = i \<and> fl_artifact f = art \<and> P f) (ap_files db)"

definition set_file :: "nat \<Rightarrow> nat \<Rightarrow> (artifact_file \<Rightarrow> artifact_file) \<Rightarrow> app_db \<Rightarrow> app_db" where
  "set_file i art f db = db\<lparr>ap_files :=
     update_where (\<lambda>x. fl_id x = i \<and> fl_artifact x = art) f (ap_files db)\<rparr>"

definition commitFile ::
  "nat \<Rightarrow> nat \<Rightarrow> string \<Rightarrow> app_db \<Rightarrow> (app_error, artifact_file \<times> app_db) result" where
  "commitFile i art user db =
     (case find_file i art (\<lambda>f. fl_quota f = StReserved \<and> fl_deletion f = DelActive) db of
        None \<Rightarrow> Inl notFound
      | Some f \<Rightarrow>
          if find_artifact art user (\<lambda>a. af_status a = ArGenerating \<and> af_deletedAt a = None) db = None
          then Inl notFound
          else if safeInteger (fl_size f) = None then Inl (InternalError ''Malformed artifact file size.'')
          else bindR (update_account user (move_bytes (fl_size f) (- fl_size f)) db) (\<lambda>db1.
               let db2 = set_file i art (\<lambda>x. x\<lparr>fl_quota := StCommitted\<rparr>) db1
               in Inr (f, set_artifact art user id db2)))"

text \<open>\<open>ON CONFLICT (object_key) DO UPDATE\<close>: the job is queued again from the start.\<close>

definition requeue_deletion :: "string \<Rightarrow> nat \<Rightarrow> string \<Rightarrow> app_db \<Rightarrow> app_db" where
  "requeue_deletion user src key db =
     (if \<exists>j\<in>set (ap_jobs db). dj_key j = key
      then db\<lparr>ap_jobs := update_where (\<lambda>j. dj_key j = key)
        (\<lambda>j. j\<lparr>dj_user := Some user, dj_source := src, dj_status := JobQueued, dj_attempts := 0,
          dj_runAt := now db, dj_lockedAt := None, dj_lockedBy := None, dj_lease := None,
          dj_lastError := None, dj_completedAt := None\<rparr>) (ap_jobs db)\<rparr>
      else draw_id (db\<lparr>ap_jobs := ap_jobs db @ [new_job (Some user) ObjArtifact src key (now db) db]\<rparr>))"

definition delete_files :: "(artifact_file \<Rightarrow> bool) \<Rightarrow> app_db \<Rightarrow> app_db" where
  "delete_files P db = db\<lparr>ap_files := filter (\<lambda>f. \<not> P f) (ap_files db)\<rparr>"

definition abortFile :: "nat \<Rightarrow> nat \<Rightarrow> string \<Rightarrow> string \<Rightarrow> app_db \<Rightarrow> (app_error, app_db) result" where
  "abortFile i art user key db =
     (let fail = set_artifact art user (\<lambda>a. a\<lparr>af_status := ArFailed\<rparr>) in
      case (if find_artifact art user (\<lambda>_. True) db = None then None
            else find_file i art (\<lambda>f. fl_quota f = StReserved) db) of
        None \<Rightarrow> if job_key_ok key then Inr (fail (requeue_deletion user i key db))
                else Inl (ConstraintViolation ''chat_storage_deletion_job_key_valid'')
      | Some f \<Rightarrow>
          if safeInteger (fl_size f) = None then Inl (InternalError ''Malformed artifact file size.'')
          else if fl_key f \<noteq> key then Inl (InternalError ''Artifact cleanup object key does not match.'')
          else bindR (update_account user (release_bytes 0 (fl_size f)) db) (\<lambda>db1.
               Inr (fail (delete_files (\<lambda>x. fl_id x = i \<and> fl_artifact x = art)
                     (requeue_deletion user i key db1)))))"

definition sameFormats :: "artifact_format list \<Rightarrow> artifact_format list \<Rightarrow> bool" where
  "sameFormats left right \<longleftrightarrow> length left = length right \<and> distinct left
     \<and> list_all (\<lambda>f. f \<in> set right) left"

definition completeArtifact ::
  "nat \<Rightarrow> string \<Rightarrow> nat \<Rightarrow> app_db \<Rightarrow> (app_error, artifact_row \<times> app_db) result" where
  "completeArtifact i user conv db =
     (case find_artifact i user (\<lambda>a. af_conversation a = conv \<and> af_status a = ArGenerating
          \<and> af_deletedAt a = None) db of
        None \<Rightarrow> Inl notFound
      | Some a \<Rightarrow>
          if \<not> owned_conversation conv user db then Inl notFound
          else bindR (parseArtifact a) (\<lambda>v.
            let actual = map fl_format (filter (\<lambda>f. fl_artifact f = i \<and> fl_quota f = StCommitted
                  \<and> fl_deletion f = DelActive \<and> fl_deletedAt f = None) (ap_files db))
            in if \<not> sameFormats actual (af_formats v) then Inl (ApiError 409 ''ARTIFACT_INCOMPLETE'')
               else let db' = set_artifact i user
                      (\<lambda>x. x\<lparr>af_status := ArReady, af_readyAt := Some (now db)\<rparr>) db
                    in Inr (v\<lparr>af_status := ArReady, af_readyAt := Some (now db)\<rparr>, db')))"

definition file_committed :: "artifact_file \<Rightarrow> int" where
  "file_committed f = (if fl_quota f = StCommitted then fl_size f else 0)"

definition file_reserved :: "artifact_file \<Rightarrow> int" where
  "file_reserved f = (if fl_quota f = StReserved then fl_size f else 0)"

definition queue_files :: "string \<Rightarrow> artifact_file list \<Rightarrow> app_db \<Rightarrow> app_db" where
  "queue_files user fs db =
     foldl (\<lambda>d f. queue_deletion user ObjArtifact (fl_id f) (fl_key f) (now d) d) db fs"

text \<open>Giving bytes back, when there are any to give.\<close>

definition release_storage :: "string \<Rightarrow> int \<Rightarrow> int \<Rightarrow> app_db \<Rightarrow> (app_error, app_db) result" where
  "release_storage user committed reserved db =
     (if 0 < committed \<or> 0 < reserved
      then update_account user (release_bytes committed reserved) db else Inr db)"

definition failArtifact ::
  "nat \<Rightarrow> string \<Rightarrow> nat \<Rightarrow> app_db \<Rightarrow> (app_error, string list \<times> app_db) result" where
  "failArtifact i user conv db =
     (case find_artifact i user (\<lambda>a. af_conversation a = conv \<and> af_deletedAt a = None) db of
        None \<Rightarrow> Inl notFound
      | Some a \<Rightarrow>
          if af_status a = ArDeleted then Inr ([], db)
          else
            let files = filter (\<lambda>f. fl_artifact f = i \<and> fl_deletion f = DelActive) (ap_files db);
                committed = sum_list (map file_committed files);
                reserved = sum_list (map file_reserved files);
                db1 = queue_files user files db
            in if list_ex (\<lambda>f. safeInteger (fl_size f) = None) files
               then Inl (InternalError ''Malformed artifact cleanup size.'')
               else bindR (release_storage user committed reserved db1) (\<lambda>db2.
                 Inr (map fl_key files, set_artifact i user (\<lambda>x. if af_status x = ArDeleted then x
                   else x\<lparr>af_status := ArFailed, af_readyAt := None\<rparr>)
                   (delete_files (\<lambda>f. fl_artifact f = i) db2))))"

subsection \<open>Cleaning up after a failed run\<close>

record run_scope =
  sc_run :: nat
  sc_user :: string
  sc_conversation :: nat
  sc_turn :: nat
  sc_message :: nat

text \<open>The artifacts the four statements of the cleanup lock.\<close>

definition run_artifacts :: "run_scope \<Rightarrow> app_db \<Rightarrow> artifact_row list" where
  "run_artifacts sc db =
     (if \<exists>r\<in>set (ap_runs db). rn_id r = sc_run sc \<and> rn_user r = sc_user sc
           \<and> rn_turn r = sc_turn sc \<and> rn_assistantMessage r = sc_message sc
      then filter (\<lambda>a. af_user a = sc_user sc \<and> af_conversation a = sc_conversation sc
             \<and> af_sourceTurn a = sc_turn sc \<and> af_message a = Some (sc_message sc)
             \<and> af_status a \<noteq> ArDeleted \<and> af_deletedAt a = None) (ap_artifacts db)
      else [])"

definition run_files :: "run_scope \<Rightarrow> app_db \<Rightarrow> artifact_file list" where
  "run_files sc db =
     filter (\<lambda>f. fl_artifact f \<in> af_id ` set (run_artifacts sc db)) (ap_files db)"

definition fail_artifacts :: "nat set \<Rightarrow> app_db \<Rightarrow> app_db" where
  "fail_artifacts ids db = db\<lparr>ap_artifacts := update_where (\<lambda>a. af_id a \<in> ids)
     (\<lambda>a. a\<lparr>af_status := ArFailed, af_readyAt := None, af_updatedAt := now db\<rparr>) (ap_artifacts db)\<rparr>"

definition cleanupRunArtifacts :: "run_scope \<Rightarrow> app_db \<Rightarrow> (app_error, app_db) result" where
  "cleanupRunArtifacts sc db =
     (let files = run_files sc db;
          active = filter (\<lambda>f. fl_deletion f = DelActive) files;
          ids = af_id ` set (run_artifacts sc db)
      in bindR (release_storage (sc_user sc) (sum_list (map file_committed active))
           (sum_list (map file_reserved active)) db) (\<lambda>db1.
         Inr (fail_artifacts ids (delete_files (\<lambda>f. fl_artifact f \<in> ids)
           (queue_files (sc_user sc) files db1)))))"

subsection \<open>Deleting a conversation's storage\<close>

record deletion_summary =
  ds_attachments :: nat
  ds_artifacts :: nat
  ds_objects :: nat
  ds_committed :: int
  ds_reserved :: int

definition in_scope :: "nat list option \<Rightarrow> nat \<Rightarrow> bool" where
  "in_scope convs c = (case convs of Some (x # xs) \<Rightarrow> c \<in> set (x # xs) | _ \<Rightarrow> True)"

text \<open>Deleting the rows; files and chunks go with them (\<open>ON DELETE CASCADE\<close>).\<close>

definition drop_storage :: "nat set \<Rightarrow> nat set \<Rightarrow> app_db \<Rightarrow> app_db" where
  "drop_storage atIds artIds db = db\<lparr>
     ap_attachments := filter (\<lambda>a. at_id a \<notin> atIds) (ap_attachments db),
     ap_chunks := filter (\<lambda>c. ck_attachment c \<notin> atIds) (ap_chunks db),
     ap_artifacts := filter (\<lambda>a. af_id a \<notin> artIds) (ap_artifacts db),
     ap_files := filter (\<lambda>f. fl_artifact f \<notin> artIds) (ap_files db)\<rparr>"

definition enqueueConversationStorageDeletion ::
  "string \<Rightarrow> nat list option \<Rightarrow> bool \<Rightarrow> app_db \<Rightarrow> (app_error, deletion_summary \<times> app_db) result" where
  "enqueueConversationStorageDeletion user convs deleteMetadata db =
     (let attachments = filter (\<lambda>a. at_user a = user \<and> in_scope convs (at_conversation a)) (ap_attachments db);
          artifacts = filter (\<lambda>a. af_user a = user \<and> in_scope convs (af_conversation a)) (ap_artifacts db);
          artIds = af_id ` set artifacts;
          files = filter (\<lambda>f. fl_artifact f \<in> artIds) (ap_files db);
          db1 = foldl (\<lambda>d a. queue_deletion user ObjAttachment (at_id a) (at_key a)
                  (if at_quota a = StReserved then at_uploadExpiresAt a + 60000 else now db) d) db attachments;
          db2 = foldl (\<lambda>d f. queue_deletion user ObjArtifact (fl_id f) (fl_key f)
                  (if fl_quota f = StReserved then fl_createdAt f + 60 * 60000 else now db) d) db1 files;
          committed = sum_list (map committed_bytes attachments) + sum_list (map file_committed files);
          reserved = sum_list (map reserved_bytes attachments) + sum_list (map file_reserved files);
          jobs = length attachments + length files
      in if deleteMetadata then
           bindR (if attachments = [] \<and> artifacts = [] \<and> files = [] then Inr db2
             else bindR (update_account user (release_bytes committed reserved) db2) (\<lambda>db3.
               Inr (drop_storage (at_id ` set attachments) artIds db3))) (\<lambda>db4.
           Inr (\<lparr>ds_attachments = length attachments, ds_artifacts = length artifacts, ds_objects = jobs,
             ds_committed = committed, ds_reserved = reserved\<rparr>, db4))
         else Inr (\<lparr>ds_attachments = 0, ds_artifacts = 0, ds_objects = jobs,
             ds_committed = 0, ds_reserved = 0\<rparr>, db2))"

subsection \<open>Expiry of unbound attachments\<close>

definition expire_orphan :: "attachment_row \<Rightarrow> app_db \<Rightarrow> (app_error, app_db) result" where
  "expire_orphan a db =
     (let db1 = queue_deletion (at_user a) ObjAttachment (at_id a) (at_key a) (now db) db
      in bindR (update_account (at_user a) (release_bytes (committed_bytes a) (reserved_bytes a)) db1) (\<lambda>db2.
         Inr (delete_attachment (at_id a) (at_user a) db2)))"

definition older :: "attachment_row \<Rightarrow> attachment_row \<Rightarrow> bool" where
  "older a b \<longleftrightarrow> (at_orphanExpiresAt a, at_createdAt a) = (at_orphanExpiresAt b, at_createdAt b)
     \<or> at_orphanExpiresAt a < at_orphanExpiresAt b
     \<or> (at_orphanExpiresAt a = at_orphanExpiresAt b \<and> at_createdAt a < at_createdAt b)"

text \<open>
  \<open>LIMIT n\<close> after the ordering; \<open>locked\<close> are the rows that another transaction holds,
  which \<open>SKIP LOCKED\<close> passes over.
\<close>

definition expired_orphans :: "nat \<Rightarrow> nat set \<Rightarrow> app_db \<Rightarrow> attachment_row list" where
  "expired_orphans n locked db =
     take n (sort_by older (filter (\<lambda>a. at_message a = None \<and> at_deletion a = DelActive
       \<and> at_orphanExpiresAt a \<le> now db \<and> at_id a \<notin> locked) (ap_attachments db)))"

definition enqueueExpiredOrphans ::
  "nat \<Rightarrow> nat set \<Rightarrow> app_db \<Rightarrow> (app_error, nat \<times> app_db) result" where
  "enqueueExpiredOrphans n locked db =
     (if n = 0 then Inl (InternalError ''limit must be a positive safe integer.'')
      else let rows = expired_orphans n locked db
           in bindR (foldR expire_orphan rows db) (\<lambda>db'. Inr (length rows, db')))"

end
