(* ===== verification/Text_Chunks.thy ===== *)
theory Text_Chunks
  imports Js_Text
begin

section \<open>Cutting attachment text into chunks\<close>

text \<open>
  The chunking functions of \<open>src/worker/chat-storage.ts\<close>: \<open>chunkText\<close>, \<open>lineNumberAt\<close>,
  \<open>chunksForCsv\<close>, \<open>chunksForLocalText\<close> and \<open>chunksForParsedDocument\<close>. The digest of \<open>node:crypto\<close> is the parameter \<open>sha\<close>.
\<close>

subsection \<open>Lines and bytes\<close>

text \<open>\<open>text.split(/\r?\n/u)\<close> and \<open>lines.join("\n")\<close>.\<close>

fun split_lines :: "js_string \<Rightarrow> js_string list" where
  "split_lines [] = [[]]"
| "split_lines (c # cs) =
     (if c = 10 then [] # split_lines cs
      else if c = 13 \<and> take 1 cs = [10] then [] # split_lines (tl cs)
      else case split_lines cs of l # ls \<Rightarrow> (c # l) # ls | [] \<Rightarrow> [[c]])"

fun join_lines :: "js_string list \<Rightarrow> js_string" where
  "join_lines [] = []"
| "join_lines [l] = l"
| "join_lines (l # ls) = l @ 10 # join_lines ls"

text \<open>
  \<open>new TextDecoder("utf-8", \{ fatal: true \})\<close>: a well-formed byte sequence becomes code units,
  a leading byte order mark is dropped, anything else throws.
\<close>

definition continuation :: "nat \<Rightarrow> bool" where
  "continuation b \<longleftrightarrow> 128 \<le> b \<and> b \<le> 191"

definition code_units :: "nat \<Rightarrow> js_string" where
  "code_units p = (if p < 65536 then [p]
     else [55296 + (p - 65536) div 1024, 56320 + (p - 65536) mod 1024])"

fun utf8_units :: "nat list \<Rightarrow> js_string option" where
  "utf8_units [] = Some []"
| "utf8_units (a # bs) =
     (if a < 128 then map_option ((@) [a]) (utf8_units bs)
      else if 194 \<le> a \<and> a \<le> 223 then
        (case bs of b # r \<Rightarrow> if continuation b
             then map_option ((@) (code_units ((a - 192) * 64 + (b - 128)))) (utf8_units r) else None
         | _ \<Rightarrow> None)
      else if 224 \<le> a \<and> a \<le> 239 then
        (case bs of b # c # r \<Rightarrow> if continuation b \<and> continuation c
             \<and> (a = 224 \<longrightarrow> 160 \<le> b) \<and> (a = 237 \<longrightarrow> b \<le> 159)
             then map_option ((@) (code_units ((a - 224) * 4096 + (b - 128) * 64 + (c - 128)))) (utf8_units r)
             else None
         | _ \<Rightarrow> None)
      else if 240 \<le> a \<and> a \<le> 244 then
        (case bs of b # c # d # r \<Rightarrow> if continuation b \<and> continuation c \<and> continuation d
             \<and> (a = 240 \<longrightarrow> 144 \<le> b) \<and> (a = 244 \<longrightarrow> b \<le> 143)
             then map_option ((@) (code_units ((a - 240) * 262144 + (b - 128) * 4096 + (c - 128) * 64 + (d - 128))))
               (utf8_units r)
             else None
         | _ \<Rightarrow> None)
      else None)"

definition decodeUtf8 :: "nat list \<Rightarrow> js_string option" where
  "decodeUtf8 bytes = utf8_units (if take 3 bytes = [239, 187, 191] then drop 3 bytes else bytes)"

subsection \<open>Chunks\<close>

text \<open>What makes a job fail: an error of a provider, with its \<open>retryable\<close> flag, or any other.\<close>

datatype work_error = ProviderFailure bool string | WorkFailure string | StaleFailure nat

datatype locator =
    LocPage int nat nat
  | LocMarkdown nat nat
  | LocText nat nat
  | LocCsvRows nat nat
  | LocCsvRow nat

record attachment_piece =
  pc_ordinal :: nat
  pc_content :: js_string
  pc_hash :: string
  pc_locator :: locator
  pc_job :: "string option"

record span =
  sn_content :: js_string
  sn_start :: nat
  sn_end :: nat

definition max_chunk_characters :: nat where "max_chunk_characters = 8000"
definition chunk_overlap_characters :: nat where "chunk_overlap_characters = 200"
definition max_chunks :: nat where "max_chunks = 4096"

definition assertChunkLimit :: "'a list \<Rightarrow> (work_error, unit) result" where
  "assertChunkLimit chunks = (if max_chunks < length chunks
     then Inl (WorkFailure ''Attachment parsing exceeds 4096 private chunks.'') else Inr ())"

text \<open>One turn of the loop of \<open>chunkText\<close>: the chunk that starts in the window at \<open>start\<close>.\<close>

definition window_chunk :: "js_string \<Rightarrow> nat \<Rightarrow> span list" where
  "window_chunk text start =
     (let raw = js_slice text start (start + max_chunk_characters);
          content = js_trim raw;
          leading = length raw - length (trimStart raw)
      in if content = [] then []
         else [\<lparr>sn_content = content, sn_start = start + leading,
                sn_end = start + leading + length content\<rparr>])"

function chunk_loop :: "js_string \<Rightarrow> nat \<Rightarrow> span list \<Rightarrow> (work_error, span list) result" where
  "chunk_loop text start chunks =
     (if start < length text then
        let more = window_chunk text start; chunks' = chunks @ more
        in bindR (if more = [] then Inr () else assertChunkLimit chunks') (\<lambda>_.
           if length text \<le> start + max_chunk_characters then Inr chunks'
           else chunk_loop text (start + (max_chunk_characters - chunk_overlap_characters)) chunks')
      else Inr chunks)"
  by pat_completeness auto
termination
  by (relation "measure (\<lambda>(text, start, chunks). length text - start)")
    (auto simp: max_chunk_characters_def chunk_overlap_characters_def)

declare chunk_loop.simps [simp del]

definition chunkText :: "js_string \<Rightarrow> (work_error, span list) result" where
  "chunkText text = chunk_loop text 0 []"

definition lineNumberAt :: "js_string \<Rightarrow> nat \<Rightarrow> nat" where
  "lineNumberAt text offset = length (filter (\<lambda>c. c = 10) (take offset text)) + 1"

subsection \<open>CSV\<close>

record csv_state =
  cs_chunks :: "attachment_piece list"
  cs_rowStart :: nat
  cs_buffer :: "js_string list"

text \<open>\<open>flush\<close> returns early, without resetting the buffer, when its content is blank.\<close>

definition csv_flush :: "(js_string \<Rightarrow> string) \<Rightarrow> csv_state \<Rightarrow> (work_error, csv_state) result" where
  "csv_flush sha st =
     (let content = js_trim (join_lines (cs_buffer st)) in
      if content = [] then Inr st
      else let chunks = cs_chunks st @ [\<lparr>pc_ordinal = length (cs_chunks st), pc_content = content,
               pc_hash = sha content,
               pc_locator = LocCsvRows (cs_rowStart st) (cs_rowStart st + length (cs_buffer st) - 1),
               pc_job = None\<rparr>]
           in bindR (assertChunkLimit chunks) (\<lambda>_.
             Inr \<lparr>cs_chunks = chunks, cs_rowStart = cs_rowStart st + length (cs_buffer st), cs_buffer = []\<rparr>))"

definition csv_part :: "(js_string \<Rightarrow> string) \<Rightarrow> span \<Rightarrow> csv_state \<Rightarrow> (work_error, csv_state) result" where
  "csv_part sha part st =
     (let chunks = cs_chunks st @ [\<lparr>pc_ordinal = length (cs_chunks st), pc_content = sn_content part,
          pc_hash = sha (sn_content part), pc_locator = LocCsvRow (cs_rowStart st), pc_job = None\<rparr>]
      in bindR (assertChunkLimit chunks) (\<lambda>_. Inr (st\<lparr>cs_chunks := chunks\<rparr>)))"

definition csv_line :: "(js_string \<Rightarrow> string) \<Rightarrow> js_string \<Rightarrow> csv_state \<Rightarrow> (work_error, csv_state) result" where
  "csv_line sha line st =
     bindR (if cs_buffer st \<noteq> [] \<and> max_chunk_characters < length (join_lines (cs_buffer st @ [line]))
            then csv_flush sha st else Inr st) (\<lambda>st1.
     if max_chunk_characters < length line then
       bindR (if cs_buffer st1 \<noteq> [] then csv_flush sha st1 else Inr st1) (\<lambda>st2.
       bindR (chunkText line) (\<lambda>parts.
       bindR (foldR (csv_part sha) parts st2) (\<lambda>st3.
         Inr (st3\<lparr>cs_rowStart := cs_rowStart st3 + 1\<rparr>))))
     else Inr (st1\<lparr>cs_buffer := cs_buffer st1 @ [line]\<rparr>))"

definition csv_start :: csv_state where
  "csv_start = \<lparr>cs_chunks = [], cs_rowStart = 1, cs_buffer = []\<rparr>"

definition chunksForCsv ::
  "(js_string \<Rightarrow> string) \<Rightarrow> js_string \<Rightarrow> (work_error, attachment_piece list) result" where
  "chunksForCsv sha text =
     bindR (foldR (csv_line sha) (split_lines text) csv_start) (\<lambda>st.
     bindR (if cs_buffer st \<noteq> [] then csv_flush sha st else Inr st) (\<lambda>st'.
     if cs_chunks st' = [] then Inl (WorkFailure ''CSV attachment contains no rows.'')
     else Inr (cs_chunks st')))"

subsection \<open>Local text and parsed documents\<close>

definition number_pieces ::
  "(js_string \<Rightarrow> string) \<Rightarrow> (span \<Rightarrow> locator) \<Rightarrow> span list \<Rightarrow> attachment_piece list" where
  "number_pieces sha loc chunks = map (\<lambda>(i, c). \<lparr>pc_ordinal = i, pc_content = sn_content c,
     pc_hash = sha (sn_content c), pc_locator = loc c, pc_job = None\<rparr>) (enumerate 0 chunks)"

definition chunksForLocalText ::
  "(js_string \<Rightarrow> string) \<Rightarrow> string \<Rightarrow> nat list \<Rightarrow> (work_error, attachment_piece list) result" where
  "chunksForLocalText sha mime bytes =
     (case decodeUtf8 bytes of
        None \<Rightarrow> Inl (WorkFailure ''The encoded data was not valid for encoding utf-8'')
      | Some text \<Rightarrow>
          if js_trim text = [] \<or> 0 \<in> set text
          then Inl (WorkFailure ''Attachment text is empty or invalid UTF-8.'')
          else if mime = ''text/csv'' then chunksForCsv sha text
          else bindR (chunkText text) (\<lambda>chunks. Inr (number_pieces sha (\<lambda>c.
            (if mime = ''text/markdown'' then LocMarkdown else LocText)
              (lineNumberAt text (sn_start c)) (lineNumberAt text (sn_end c))) chunks)))"

record parsed_page =
  pp_number :: "int option"
  pp_markdown :: "js_string option"

record parsed_document =
  pd_job :: string
  pd_pages :: "parsed_page list"

definition page_piece ::
  "(js_string \<Rightarrow> string) \<Rightarrow> string \<Rightarrow> int \<Rightarrow> span \<Rightarrow> attachment_piece list \<Rightarrow>
   (work_error, attachment_piece list) result" where
  "page_piece sha job page c chunks =
     (let chunks' = chunks @ [\<lparr>pc_ordinal = length chunks, pc_content = sn_content c,
          pc_hash = sha (sn_content c), pc_locator = LocPage page (sn_start c) (sn_end c),
          pc_job = Some job\<rparr>]
      in bindR (assertChunkLimit chunks') (\<lambda>_. Inr chunks'))"

definition page_chunks ::
  "(js_string \<Rightarrow> string) \<Rightarrow> string \<Rightarrow> nat \<times> parsed_page \<Rightarrow> attachment_piece list \<Rightarrow>
   (work_error, attachment_piece list) result" where
  "page_chunks sha job ip chunks =
     (let page = snd ip; markdown = (case pp_markdown page of None \<Rightarrow> [] | Some m \<Rightarrow> js_trim m)
      in if markdown = [] then Inr chunks
         else bindR (chunkText markdown) (\<lambda>parts.
           foldR (page_piece sha job (case pp_number page of Some n \<Rightarrow> n | None \<Rightarrow> int (fst ip) + 1))
             parts chunks))"

definition chunksForParsedDocument ::
  "(js_string \<Rightarrow> string) \<Rightarrow> parsed_document \<Rightarrow> (work_error, attachment_piece list) result" where
  "chunksForParsedDocument sha parsed =
     bindR (foldR (page_chunks sha (pd_job parsed)) (enumerate 0 (pd_pages parsed)) []) (\<lambda>chunks.
     if chunks = [] then Inl (WorkFailure ''Attachment parser returned no extractable text.'')
     else Inr chunks)"

end
