(* ===== verification/Lease_Queue.thy ===== *)
theory Lease_Queue
  imports Prelude
begin

section \<open>Leased work queues\<close>

text \<open>
  The workers share one protocol: a claim marks a due row as running and stores a fresh
  lease token in it, and every later statement of that worker names the row, the worker and
  the token in its \<open>WHERE\<close> clause. A table is a list of rows with an id and a lease (the
  worker and the token, while the row is running). What every statement keeps of the leases
  is \<open>lease_move\<close>; the locale states what a queue promises and derives what the workers rely
  on: a lease is exclusive, and once it is lost it is never valid again.
\<close>

record lease_ref =
  lr_row :: nat
  lr_worker :: string
  lr_token :: nat

definition lease_valid ::
  "('r \<Rightarrow> nat) \<Rightarrow> ('r \<Rightarrow> (string \<times> nat) option) \<Rightarrow> 'r list \<Rightarrow> lease_ref \<Rightarrow> bool" where
  "lease_valid rid lease rows j \<longleftrightarrow>
     (\<exists>r\<in>set rows. rid r = lr_row j \<and> lease r = Some (lr_worker j, lr_token j))"

definition leases_wf ::
  "('r \<Rightarrow> nat) \<Rightarrow> ('r \<Rightarrow> (string \<times> nat) option) \<Rightarrow> 'r list \<Rightarrow> nat \<Rightarrow> bool" where
  "leases_wf rid lease rows n \<longleftrightarrow> distinct (map rid rows)
     \<and> (\<forall>r\<in>set rows. \<forall>w t. lease r = Some (w, t) \<longrightarrow> t < n)"

text \<open>Leases only end or are fresh; \<open>n\<close> and \<open>n'\<close> bound the tokens drawn before and after.\<close>

definition lease_move ::
  "('r \<Rightarrow> nat) \<Rightarrow> ('r \<Rightarrow> (string \<times> nat) option) \<Rightarrow> 'r list \<Rightarrow> nat \<Rightarrow> 'r list \<Rightarrow> nat \<Rightarrow> bool" where
  "lease_move rid lease rows n rows' n' \<longleftrightarrow> n \<le> n' \<and> distinct (map rid rows')
     \<and> (\<forall>r'\<in>set rows'. \<forall>w t. lease r' = Some (w, t) \<longrightarrow> (n \<le> t \<and> t < n')
          \<or> (\<exists>r\<in>set rows. rid r = rid r' \<and> lease r = Some (w, t)))"

lemma lease_move_wf:
  "leases_wf rid lease rows n \<Longrightarrow> lease_move rid lease rows n rows' n' \<Longrightarrow> leases_wf rid lease rows' n'"
  unfolding leases_wf_def lease_move_def by fastforce

lemma lease_move_old:
  "lease_move rid lease rows n rows' n' \<Longrightarrow> lr_token j < n \<Longrightarrow> lease_valid rid lease rows' j \<Longrightarrow>
   lease_valid rid lease rows j"
  unfolding lease_move_def lease_valid_def by fastforce

lemma lease_valid_unique:
  assumes "leases_wf rid lease rows n" "lease_valid rid lease rows j" "lease_valid rid lease rows k"
    and "lr_row j = lr_row k"
  shows "j = k"
proof -
  obtain r q where r: "r \<in> set rows" "rid r = lr_row j" "lease r = Some (lr_worker j, lr_token j)"
    and q: "q \<in> set rows" "rid q = lr_row k" "lease q = Some (lr_worker k, lr_token k)"
    using assms(2,3) by (auto simp: lease_valid_def)
  then have "r = q" using assms(1,4) by (auto simp: leases_wf_def intro: distinct_key_unique[of rid rows])
  with r(3) q(3) assms(4) show ?thesis by (cases j; cases k) simp
qed

lemma lease_valid_old: "leases_wf rid lease rows n \<Longrightarrow> lease_valid rid lease rows j \<Longrightarrow> lr_token j < n"
  unfolding leases_wf_def lease_valid_def by blast

text \<open>Updating one row by its id: its lease ends, stays, or becomes a fresh one.\<close>

lemma lease_move_update:
  assumes "leases_wf rid lease rows n" "n \<le> n'"
    and "\<And>r. P r \<Longrightarrow> rid (f r) = rid r"
    and "\<And>r w t. P r \<Longrightarrow> lease (f r) = Some (w, t) \<Longrightarrow> lease r = Some (w, t) \<or> n \<le> t \<and> t < n'"
  shows "lease_move rid lease rows n (update_where P f rows) n'"
proof -
  have "map rid (update_where P f rows) = map rid rows" using assms(3) by (intro map_update_where)
  then have "distinct (map rid (update_where P f rows))" using assms(1) by (simp add: leases_wf_def)
  moreover have "n \<le> t \<and> t < n' \<or> (\<exists>r\<in>set rows. rid r = rid r' \<and> lease r = Some (w, t))"
    if "r' \<in> set (update_where P f rows)" "lease r' = Some (w, t)" for r' w t
    using that(1)
  proof (elim in_update_whereE)
    fix r assume r: "r \<in> set rows" "P r" "r' = f r"
    with assms(4)[OF r(2)] that(2) assms(3)[OF r(2)] show ?thesis by auto
  qed (use that(2) in blast)
  ultimately show ?thesis using assms(2) unfolding lease_move_def by blast
qed

lemma lease_move_refl: "leases_wf rid lease rows n \<Longrightarrow> n \<le> n' \<Longrightarrow> lease_move rid lease rows n rows n'"
  unfolding leases_wf_def lease_move_def by blast

lemma lease_move_append:
  assumes "leases_wf rid lease rows n" "n \<le> n'" "rid r \<notin> rid ` set rows" "lease r = None"
  shows "lease_move rid lease rows n (rows @ [r]) n'"
  using assms unfolding leases_wf_def lease_move_def by auto

subsection \<open>The interface\<close>

locale lease_queue =
  fixes rid :: "'r \<Rightarrow> nat" and lease :: "'r \<Rightarrow> (string \<times> nat) option"
    and rows :: "'s \<Rightarrow> 'r list" and bound :: "'s \<Rightarrow> nat"
    and ref :: "'j \<Rightarrow> lease_ref"
    and claim :: "string \<Rightarrow> nat set \<Rightarrow> 's \<Rightarrow> ('e, 'j option) result \<times> 's"
    and settle :: "'op \<Rightarrow> 'j \<Rightarrow> 's \<Rightarrow> ('e, 's) result"
    and other :: "'s \<Rightarrow> 's \<Rightarrow> bool"
  assumes claim_move: "leases_wf rid lease (rows s) (bound s) \<Longrightarrow> claim w locked s = (res, s') \<Longrightarrow>
      lease_move rid lease (rows s) (bound s) (rows s') (bound s')"
    and claim_grants: "leases_wf rid lease (rows s) (bound s) \<Longrightarrow> claim w locked s = (Inr (Some j), s') \<Longrightarrow>
      lease_valid rid lease (rows s') (ref j) \<and> lr_token (ref j) = bound s \<and> lr_worker (ref j) = w"
    and settle_move: "leases_wf rid lease (rows s) (bound s) \<Longrightarrow> settle p j s = Inr s' \<Longrightarrow>
      lease_move rid lease (rows s) (bound s) (rows s') (bound s')"
    and settle_stale: "\<not> lease_valid rid lease (rows s) (ref j) \<Longrightarrow> \<exists>e. settle p j s = Inl e"
    and other_move: "leases_wf rid lease (rows s) (bound s) \<Longrightarrow> other s s' \<Longrightarrow>
      lease_move rid lease (rows s) (bound s) (rows s') (bound s')"
begin

abbreviation wf :: "'s \<Rightarrow> bool" where
  "wf s \<equiv> leases_wf rid lease (rows s) (bound s)"

abbreviation held :: "'j \<Rightarrow> 's \<Rightarrow> bool" where
  "held j s \<equiv> lease_valid rid lease (rows s) (ref j)"

text \<open>A step of the system: a claim, a settlement by any worker, or another transaction.\<close>

abbreviation step :: "'s \<Rightarrow> 's \<Rightarrow> bool" where
  "step s s' \<equiv> (\<exists>w locked res. claim w locked s = (res, s')) \<or> (\<exists>p j. settle p j s = Inr s') \<or> other s s'"

lemma step_move: "wf s \<Longrightarrow> step s s' \<Longrightarrow> lease_move rid lease (rows s) (bound s) (rows s') (bound s')"
  using claim_move settle_move other_move by blast

lemma step_wf: "wf s \<Longrightarrow> step s s' \<Longrightarrow> wf s'"
  using step_move lease_move_wf by blast

lemma steps_dead:
  assumes "step\<^sup>*\<^sup>* s s'" "wf s" "\<not> held j s" "lr_token (ref j) < bound s"
  shows "wf s' \<and> \<not> held j s' \<and> lr_token (ref j) < bound s'"
  using assms
proof (induction rule: rtranclp_induct)
  case base
  then show ?case by simp
next
  case (step y z)
  then have y: "wf y" "\<not> held j y" "lr_token (ref j) < bound y" by simp_all
  note move = step_move[OF y(1) step(2)]
  have "\<not> held j z" using lease_move_old[OF move y(3)] y(2) by blast
  moreover have "bound y \<le> bound z" using move by (simp add: lease_move_def)
  ultimately show ?case using lease_move_wf[OF y(1) move] y(3) by simp
qed

text \<open>A lease that is lost stays lost: every later settlement of it is refused.\<close>

lemma dead_lease_refused:
  "step\<^sup>*\<^sup>* s s' \<Longrightarrow> wf s \<Longrightarrow> \<not> held j s \<Longrightarrow> lr_token (ref j) < bound s \<Longrightarrow>
   \<exists>e. settle p j s' = Inl e"
  using steps_dead settle_stale by blast

text \<open>Claiming a row takes it from whoever held it.\<close>

lemma claim_supersedes:
  assumes "wf s" "held j s" "claim w locked s = (Inr (Some k), s')" "lr_row (ref k) = lr_row (ref j)"
  shows "wf s' \<and> held k s' \<and> \<not> held j s' \<and> lr_token (ref j) < bound s'"
proof -
  note move = claim_move[OF assms(1,3)] and grant = claim_grants[OF assms(1,3)]
  have wf': "wf s'" using lease_move_wf[OF assms(1) move] .
  have old: "lr_token (ref j) < bound s" using lease_valid_old[OF assms(1,2)] .
  have "\<not> held j s'"
    using lease_valid_unique[OF wf', of "ref j" "ref k"] grant assms(4) old by auto
  with wf' grant old move show ?thesis by (simp add: lease_move_def)
qed

lemma superseded_refused:
  assumes "wf s" "held j s" "claim w locked s = (Inr (Some k), s')" "lr_row (ref k) = lr_row (ref j)"
    and "step\<^sup>*\<^sup>* s' s''"
  shows "\<exists>e. settle p j s'' = Inl e"
  using claim_supersedes[OF assms(1-4)] dead_lease_refused[OF assms(5)] by blast

end

text \<open>A queue some of whose settlements end the lease.\<close>

locale ending_lease_queue = lease_queue rid lease rows bound ref claim settle other
  for rid :: "'r \<Rightarrow> nat" and lease :: "'r \<Rightarrow> (string \<times> nat) option"
    and rows :: "'s \<Rightarrow> 'r list" and bound :: "'s \<Rightarrow> nat" and ref :: "'j \<Rightarrow> lease_ref"
    and claim :: "string \<Rightarrow> nat set \<Rightarrow> 's \<Rightarrow> ('e, 'j option) result \<times> 's"
    and settle :: "'op \<Rightarrow> 'j \<Rightarrow> 's \<Rightarrow> ('e, 's) result"
    and other :: "'s \<Rightarrow> 's \<Rightarrow> bool" +
  fixes ends :: "'op \<Rightarrow> bool"
  assumes settle_ends: "leases_wf rid lease (rows s) (bound s) \<Longrightarrow> settle p j s = Inr s' \<Longrightarrow> ends p \<Longrightarrow>
      \<not> lease_valid rid lease (rows s') (ref j)"
begin

text \<open>Work is settled at most once.\<close>

lemma settled_once:
  assumes "wf s" "settle p j s = Inr s'" "ends p" "step\<^sup>*\<^sup>* s' s''"
  shows "\<exists>e. settle q j s'' = Inl e"
proof -
  have held: "held j s" using settle_stale[of s j p] assms(2) by force
  note move = settle_move[OF assms(1,2)]
  have "lr_token (ref j) < bound s'"
    using lease_valid_old[OF assms(1) held] move by (simp add: lease_move_def)
  then show ?thesis
    using dead_lease_refused[OF assms(4) lease_move_wf[OF assms(1) move] settle_ends[OF assms(1-3)]] by blast
qed

end

end
