(* ===== verification/Storage_Worker.thy ===== *)
theory Storage_Worker
  imports Artifacts Text_Chunks Lease_Queue
begin

section \<open>The private-storage worker\<close>

text \<open>
  \<open>PostgresChatStorageWorkerRepository\<close> and \<open>ChatStorageWorker.runOnce\<close> of
  \<open>src/worker/chat-storage.ts\<close>: claiming, renewing and settling deletion jobs and attachment
  parses, and one turn of the worker around the object store, the PDF text extractor and the
  document parser, which are parameters. What other processes commit while such an external
  call runs is the parameter \<open>during\<close> (the heartbeat's renewals are among it: a heartbeat
  that finds the lease gone makes the call fail as the final renewal does).
\<close>

subsection \<open>Jobs and leases\<close>

record deletion_lease =
  dl_id :: nat
  dl_key :: string
  dl_attempts :: int
  dl_maxAttempts :: int
  dl_worker :: string
  dl_token :: nat

record parse_job =
  pj_id :: nat
  pj_key :: string
  pj_filename :: string
  pj_mime :: string
  pj_parserJob :: "string option"
  pj_polls :: int
  pj_submittedAt :: "timestamp option"
  pj_attempts :: int
  pj_maxAttempts :: int
  pj_worker :: string
  pj_token :: nat

definition deletion_ref :: "deletion_lease \<Rightarrow> lease_ref" where
  "deletion_ref j = \<lparr>lr_row = dl_id j, lr_worker = dl_worker j, lr_token = dl_token j\<rparr>"

definition parse_ref :: "parse_job \<Rightarrow> lease_ref" where
  "parse_ref j = \<lparr>lr_row = pj_id j, lr_worker = pj_worker j, lr_token = pj_token j\<rparr>"

text \<open>The lease a row is under: a worker and a token, while it is running.\<close>

definition job_lease :: "deletion_job \<Rightarrow> (string \<times> nat) option" where
  "job_lease d = (if dj_status d = JobRunning then
     (case (dj_lockedBy d, dj_lease d) of (Some w, Some t) \<Rightarrow> Some (w, t) | _ \<Rightarrow> None) else None)"

definition parse_lease :: "attachment_row \<Rightarrow> (string \<times> nat) option" where
  "parse_lease a = (if at_parseStatus a = ParseProcessing then
     (case (at_parseLockedBy a, at_parseLease a) of (Some w, Some t) \<Rightarrow> Some (w, t) | _ \<Rightarrow> None) else None)"

definition deletion_mine :: "deletion_lease \<Rightarrow> deletion_job \<Rightarrow> bool" where
  "deletion_mine j d \<longleftrightarrow> dj_id d = dl_id j \<and> job_lease d = Some (dl_worker j, dl_token j)"

definition parse_mine :: "parse_job \<Rightarrow> attachment_row \<Rightarrow> bool" where
  "parse_mine j a \<longleftrightarrow> at_id a = pj_id j \<and> parse_lease a = Some (pj_worker j, pj_token j)"

text \<open>\<open>requiredString\<close> and \<open>requiredInteger\<close> on a claimed row.\<close>

definition malformed :: "string \<Rightarrow> work_error" where
  "malformed label = WorkFailure (''Malformed '' @ label @ ''.'')"

definition requiredString :: "string \<Rightarrow> string \<Rightarrow> (work_error, string) result" where
  "requiredString value label = (if value = [] then Inl (malformed label) else Inr value)"

definition optionalInteger :: "int \<Rightarrow> int option" where
  "optionalInteger n = (if is_safe_integer n \<and> 0 \<le> n then Some n else None)"

definition requiredInteger :: "int \<Rightarrow> string \<Rightarrow> (work_error, int) result" where
  "requiredInteger n label = (case optionalInteger n of None \<Rightarrow> Inl (malformed label) | Some m \<Rightarrow> Inr m)"

definition parseDeletionJob :: "deletion_job \<Rightarrow> string \<Rightarrow> nat \<Rightarrow> (work_error, deletion_lease) result" where
  "parseDeletionJob d worker tok =
     bindR (requiredString (dj_key d) ''deletion object key'') (\<lambda>key.
     bindR (requiredInteger (dj_attempts d) ''deletion attempts'') (\<lambda>att.
     bindR (requiredInteger (dj_maxAttempts d) ''deletion max attempts'') (\<lambda>mx.
     bindR (requiredString worker ''deletion worker'') (\<lambda>w.
       Inr \<lparr>dl_id = dj_id d, dl_key = key, dl_attempts = att, dl_maxAttempts = mx, dl_worker = w,
         dl_token = tok\<rparr>))))"

definition parseAttachmentJob :: "attachment_row \<Rightarrow> string \<Rightarrow> nat \<Rightarrow> (work_error, parse_job) result" where
  "parseAttachmentJob a worker tok =
     bindR (requiredString (at_key a) ''attachment object key'') (\<lambda>key.
     bindR (requiredString (at_filename a) ''attachment filename'') (\<lambda>name.
     bindR (requiredString (at_mime a) ''attachment MIME type'') (\<lambda>mime.
     bindR (requiredInteger (at_parsePolls a) ''attachment parser poll count'') (\<lambda>polls.
     bindR (requiredInteger (at_parseAttempts a) ''attachment attempts'') (\<lambda>att.
     bindR (requiredInteger (at_parseMaxAttempts a) ''attachment max attempts'') (\<lambda>mx.
     bindR (requiredString worker ''attachment worker'') (\<lambda>w.
       Inr \<lparr>pj_id = at_id a, pj_key = key, pj_filename = name, pj_mime = mime,
         pj_parserJob = at_parseJob a, pj_polls = polls, pj_submittedAt = at_parseSubmittedAt a,
         pj_attempts = att, pj_maxAttempts = mx, pj_worker = w, pj_token = tok\<rparr>)))))))"

subsection \<open>Claims\<close>

text \<open>\<open>locked_at < NOW() - INTERVAL '15 minutes'\<close>.\<close>

definition lock_expired :: "timestamp option \<Rightarrow> timestamp \<Rightarrow> bool" where
  "lock_expired t n = (case t of None \<Rightarrow> False | Some at \<Rightarrow> at < n - 900000)"

definition deletion_due :: "timestamp \<Rightarrow> deletion_job \<Rightarrow> bool" where
  "deletion_due n d \<longleftrightarrow> (dj_status d = JobQueued \<and> dj_runAt d \<le> n)
     \<or> (dj_status d = JobRunning \<and> lock_expired (dj_lockedAt d) n)"

definition deletion_before :: "deletion_job \<Rightarrow> deletion_job \<Rightarrow> bool" where
  "deletion_before a b \<longleftrightarrow> dj_runAt a < dj_runAt b \<or> (dj_runAt a = dj_runAt b \<and> dj_createdAt a \<le> dj_createdAt b)"

definition claimDeletion ::
  "string \<Rightarrow> nat set \<Rightarrow> app_db \<Rightarrow> (work_error, deletion_lease option) result \<times> app_db" where
  "claimDeletion worker locked db =
     (case sort_by deletion_before (filter (\<lambda>d. deletion_due (now db) d \<and> dj_id d \<notin> locked) (ap_jobs db)) of
        [] \<Rightarrow> (Inr None, db)
      | d # _ \<Rightarrow>
          let take_it = (\<lambda>x. x\<lparr>dj_status := JobRunning, dj_attempts := dj_attempts x + 1,
                dj_lockedAt := Some (now db), dj_lockedBy := Some worker, dj_lease := Some (next_id db),
                dj_updatedAt := now db\<rparr>);
              db' = draw_id (db\<lparr>ap_jobs := update_where (\<lambda>x. dj_id x = dj_id d) take_it (ap_jobs db)\<rparr>)
          in (bindR (parseDeletionJob (take_it d) worker (next_id db)) (\<lambda>j. Inr (Some j)), db'))"

definition parse_due :: "timestamp \<Rightarrow> attachment_row \<Rightarrow> bool" where
  "parse_due n a \<longleftrightarrow> at_kind a = KindDocument \<and> at_quota a = StCommitted \<and> at_deletion a = DelActive
     \<and> at_status a = AtProcessing
     \<and> ((at_parseStatus a = ParseQueued \<and> at_parseRunAt a \<le> n)
        \<or> (at_parseStatus a = ParseProcessing \<and> lock_expired (at_parseLockedAt a) n))"

definition parse_before :: "attachment_row \<Rightarrow> attachment_row \<Rightarrow> bool" where
  "parse_before a b \<longleftrightarrow> at_parseRunAt a < at_parseRunAt b
     \<or> (at_parseRunAt a = at_parseRunAt b \<and> at_createdAt a \<le> at_createdAt b)"

definition claimAttachmentParse ::
  "string \<Rightarrow> nat set \<Rightarrow> app_db \<Rightarrow> (work_error, parse_job option) result \<times> app_db" where
  "claimAttachmentParse worker locked db =
     (case sort_by parse_before (filter (\<lambda>a. parse_due (now db) a \<and> at_id a \<notin> locked) (ap_attachments db)) of
        [] \<Rightarrow> (Inr None, db)
      | a # _ \<Rightarrow>
          let take_it = (\<lambda>x. x\<lparr>at_parseStatus := ParseProcessing, at_parseAttempts := at_parseAttempts x + 1,
                at_parseLockedAt := Some (now db), at_parseLockedBy := Some worker,
                at_parseLease := Some (next_id db), at_updatedAt := now db\<rparr>);
              db' = draw_id (db\<lparr>ap_attachments := update_where (\<lambda>x. at_id x = at_id a) take_it (ap_attachments db)\<rparr>)
          in (bindR (parseAttachmentJob (take_it a) worker (next_id db)) (\<lambda>j. Inr (Some j)), db'))"

subsection \<open>Settling a deletion\<close>

text \<open>An \<open>UPDATE .. RETURNING id\<close> under the lease; \<open>assertLease\<close> wants exactly one row.\<close>

definition update_deletion ::
  "(deletion_job \<Rightarrow> deletion_job) \<Rightarrow> deletion_lease \<Rightarrow> app_db \<Rightarrow> (work_error, app_db) result" where
  "update_deletion f j db =
     (if length (filter (deletion_mine j) (ap_jobs db)) \<noteq> 1 then Inl (StaleFailure (dl_id j))
      else Inr (db\<lparr>ap_jobs := update_where (deletion_mine j) (\<lambda>d. (f d)\<lparr>dj_lockedAt := None,
        dj_lockedBy := None, dj_lease := None, dj_updatedAt := now db\<rparr>) (ap_jobs db)\<rparr>))"

definition markDeletionSucceeded :: "deletion_lease \<Rightarrow> app_db \<Rightarrow> (work_error, app_db) result" where
  "markDeletionSucceeded j db = update_deletion (\<lambda>d. d\<lparr>dj_status := JobSucceeded,
     dj_completedAt := Some (now db), dj_lastError := None\<rparr>) j db"

definition retryable :: "work_error \<Rightarrow> bool" where
  "retryable e = (case e of ProviderFailure r _ \<Rightarrow> r | _ \<Rightarrow> True)"

text \<open>\<open>message.replace(/[\r\n]+/gu, " ").slice(0, 1_000)\<close>.\<close>

fun collapse_breaks :: "bool \<Rightarrow> string \<Rightarrow> string" where
  "collapse_breaks inside [] = []"
| "collapse_breaks inside (c # cs) =
     (if (of_char c :: nat) \<in> {10, 13} then (if inside then collapse_breaks True cs else CHR '' '' # collapse_breaks True cs)
      else c # collapse_breaks False cs)"

definition error_message :: "work_error \<Rightarrow> string" where
  "error_message e = (case e of ProviderFailure _ m \<Rightarrow> m | WorkFailure m \<Rightarrow> m
     | StaleFailure _ \<Rightarrow> ''lease is no longer current.'')"

definition safeErrorMessage :: "work_error \<Rightarrow> string" where
  "safeErrorMessage e = take 1000 (collapse_breaks False (error_message e))"

definition markDeletionFailed ::
  "deletion_lease \<Rightarrow> work_error \<Rightarrow> timestamp \<Rightarrow> app_db \<Rightarrow> (work_error, app_db) result" where
  "markDeletionFailed j e retryAt db =
     (let terminal = (dl_maxAttempts j \<le> dl_attempts j \<or> \<not> retryable e) in
      update_deletion (\<lambda>d. d\<lparr>dj_status := (if terminal then JobFailed else JobQueued), dj_runAt := retryAt,
        dj_lastError := Some (safeErrorMessage e),
        dj_completedAt := (if terminal then Some (now db) else None)\<rparr>) j db)"

subsection \<open>Settling a parse\<close>

definition update_parse ::
  "(attachment_row \<Rightarrow> attachment_row) \<Rightarrow> parse_job \<Rightarrow> app_db \<Rightarrow> (work_error, app_db) result" where
  "update_parse f j db =
     (if length (filter (parse_mine j) (ap_attachments db)) \<noteq> 1 then Inl (StaleFailure (pj_id j))
      else Inr (db\<lparr>ap_attachments := update_where (parse_mine j)
        (\<lambda>a. (f a)\<lparr>at_updatedAt := now db\<rparr>) (ap_attachments db)\<rparr>))"

definition unlock_parse :: "attachment_row \<Rightarrow> attachment_row" where
  "unlock_parse a = a\<lparr>at_parseLockedAt := None, at_parseLockedBy := None, at_parseLease := None\<rparr>"

definition renewAttachmentLease :: "parse_job \<Rightarrow> app_db \<Rightarrow> (work_error, app_db) result" where
  "renewAttachmentLease j db = update_parse (\<lambda>a. a\<lparr>at_parseLockedAt := Some (now db)\<rparr>) j db"

definition markParserSubmitted ::
  "parse_job \<Rightarrow> string \<Rightarrow> timestamp \<Rightarrow> string \<Rightarrow> app_db \<Rightarrow> (work_error, app_db) result" where
  "markParserSubmitted j parserJob retryAt provider db =
     update_parse (\<lambda>a. unlock_parse (a\<lparr>at_parseStatus := ParseQueued, at_parseProvider := Some provider,
       at_parseJob := Some parserJob, at_parseRunAt := retryAt, at_parsePolls := 0,
       at_parseSubmittedAt := Some (now db), at_parseAttempts := max (at_parseAttempts a - 1) 0\<rparr>)) j db"

definition deferParserPoll :: "parse_job \<Rightarrow> timestamp \<Rightarrow> app_db \<Rightarrow> (work_error, app_db) result" where
  "deferParserPoll j retryAt db =
     update_parse (\<lambda>a. unlock_parse (a\<lparr>at_parseStatus := ParseQueued, at_parseRunAt := retryAt,
       at_parsePolls := at_parsePolls a + 1, at_parseAttempts := max (at_parseAttempts a - 1) 0\<rparr>)) j db"

text \<open>
  The chunks of the attachment are replaced in the transaction that completes it. The chunk
  table keeps what the search reads of a piece; content is stored as UTF-8 by \<open>utf8\<close>.
\<close>

definition saveChunksAndComplete ::
  "(js_string \<Rightarrow> string) \<Rightarrow> parse_job \<Rightarrow> attachment_piece list \<Rightarrow> string \<Rightarrow> app_db \<Rightarrow> (work_error, app_db) result" where
  "saveChunksAndComplete utf8 j chunks provider db =
     (if length chunks < 1 \<or> max_chunks < length chunks
      then Inl (WorkFailure ''Attachment parser returned an invalid chunk count.'')
      else if length (filter (parse_mine j) (ap_attachments db)) \<noteq> 1 then Inl (StaleFailure (pj_id j))
      else update_parse (\<lambda>a. unlock_parse (a\<lparr>at_status := AtReady, at_parseStatus := ParseReady,
             at_parseProvider := Some provider, at_failureCode := None, at_readyAt := Some (now db)\<rparr>)) j
           (db\<lparr>ap_chunks := filter (\<lambda>c. ck_attachment c \<noteq> pj_id j) (ap_chunks db)
              @ map (\<lambda>p. \<lparr>ck_attachment = pj_id j, ck_ordinal = pc_ordinal p, ck_content = utf8 (pc_content p)\<rparr>) chunks\<rparr>))"

definition markAttachmentFailed ::
  "parse_job \<Rightarrow> work_error \<Rightarrow> timestamp \<Rightarrow> app_db \<Rightarrow> (work_error, app_db) result" where
  "markAttachmentFailed j e retryAt db =
     (let terminal = (pj_maxAttempts j \<le> pj_attempts j \<or> \<not> retryable e) in
      update_parse (\<lambda>a. unlock_parse (a\<lparr>at_status := (if terminal then AtFailed else AtProcessing),
        at_parseStatus := (if terminal then ParseFailed else ParseQueued), at_parseRunAt := retryAt,
        at_failureCode := (if terminal then Some ''ATTACHMENT_PARSE_FAILED'' else None)\<rparr>)) j db)"

subsection \<open>One turn of the worker\<close>

datatype parser_state = ParserPending | ParserProcessing | ParserCompleted | ParserFailed

text \<open>The errors of the object store, the extractor and the parser; none is a lost lease.\<close>

datatype ext_error = ExtProvider bool string | ExtFailure string

definition lift_ext :: "ext_error \<Rightarrow> work_error" where
  "lift_ext e = (case e of ExtProvider r m \<Rightarrow> ProviderFailure r m | ExtFailure m \<Rightarrow> WorkFailure m)"

record storage_world =
  wd_deletePrivate :: "string \<Rightarrow> (ext_error, unit) result"
  wd_getPrivate :: "string \<Rightarrow> (ext_error, nat list) result"
  wd_pdfText :: "nat list \<Rightarrow> (ext_error, parsed_document option) result"
  wd_downloadUrl :: "string \<Rightarrow> (ext_error, string) result"
  wd_submit :: "string \<Rightarrow> string \<Rightarrow> (ext_error, string) result"
  wd_status :: "string \<Rightarrow> (ext_error, parser_state \<times> string option) result"
  wd_result :: "string \<Rightarrow> (ext_error, parsed_document) result"
  wd_parser :: string
  wd_sha :: "js_string \<Rightarrow> string"
  wd_utf8 :: "js_string \<Rightarrow> string"
  wd_during :: "app_db \<Rightarrow> app_db"

record storage_worker =
  sw_id :: string
  sw_pollInterval :: int
  sw_retryDelay :: int
  sw_maxPolls :: int
  sw_maxAge :: int

datatype outcome = Idle | Deferred | Completed | Failed

type_synonym 'a work = "app_db \<Rightarrow> (work_error, 'a) result \<times> app_db"

definition thenW :: "'a work \<Rightarrow> ('a \<Rightarrow> 'b work) \<Rightarrow> 'b work" where
  "thenW m f db = (case m db of (Inl e, d) \<Rightarrow> (Inl e, d) | (Inr x, d) \<Rightarrow> f x d)"

definition transaction :: "(app_db \<Rightarrow> (work_error, app_db) result) \<Rightarrow> unit work" where
  "transaction t db = (case t db of Inl e \<Rightarrow> (Inl e, db) | Inr d \<Rightarrow> (Inr (), d))"

definition pureW :: "(work_error, 'a) result \<Rightarrow> 'a work" where
  "pureW r db = (r, db)"

text \<open>An external call: its result, after whatever others committed meanwhile.\<close>

definition external :: "storage_world \<Rightarrow> (ext_error, 'a) result \<Rightarrow> 'a work" where
  "external wd r db = (case r of Inl e \<Rightarrow> Inl (lift_ext e) | Inr x \<Rightarrow> Inr x, wd_during wd db)"

definition withAttachmentLease ::
  "storage_world \<Rightarrow> parse_job \<Rightarrow> (ext_error, 'a) result \<Rightarrow> 'a work" where
  "withAttachmentLease wd j r =
     thenW (transaction (renewAttachmentLease j)) (\<lambda>_.
     thenW (external wd r) (\<lambda>x.
     thenW (transaction (renewAttachmentLease j)) (\<lambda>_. pureW (Inr x))))"

definition isLocalTextMime :: "string \<Rightarrow> bool" where
  "isLocalTextMime mime \<longleftrightarrow> mime \<in> {''text/plain'', ''text/markdown'', ''text/csv''}"

definition assertParserPollingBudget :: "storage_worker \<Rightarrow> parse_job \<Rightarrow> timestamp \<Rightarrow> (work_error, unit) result" where
  "assertParserPollingBudget w j n =
     (if sw_maxPolls w \<le> pj_polls j
         \<or> (case pj_submittedAt j of None \<Rightarrow> True | Some t \<Rightarrow> sw_maxAge w < n - t)
      then Inl (ProviderFailure False ''attachment parsing exceeded its polling budget'') else Inr ())"

definition submit_parse :: "storage_world \<Rightarrow> storage_worker \<Rightarrow> parse_job \<Rightarrow> outcome work" where
  "submit_parse wd w j =
     thenW (withAttachmentLease wd j
       (bindR (wd_downloadUrl wd (pj_key j)) (\<lambda>url. wd_submit wd url (pj_filename j)))) (\<lambda>parserJob db.
       thenW (transaction (markParserSubmitted j parserJob (now db + sw_pollInterval w) (wd_parser wd)))
         (\<lambda>_. pureW (Inr Deferred)) db)"

definition poll_parse :: "storage_world \<Rightarrow> storage_worker \<Rightarrow> parse_job \<Rightarrow> string \<Rightarrow> outcome work" where
  "poll_parse wd w j parserJob db0 =
     thenW (pureW (assertParserPollingBudget w j (now db0))) (\<lambda>_.
     thenW (withAttachmentLease wd j (wd_status wd parserJob)) (\<lambda>(status, message) db.
       case status of
         ParserFailed \<Rightarrow> (Inl (ProviderFailure False (case message of Some m \<Rightarrow> m | None \<Rightarrow> ''attachment parsing failed'')), db)
       | ParserCompleted \<Rightarrow>
           thenW (withAttachmentLease wd j (wd_result wd parserJob)) (\<lambda>parsed.
           thenW (pureW (chunksForParsedDocument (wd_sha wd) parsed)) (\<lambda>chunks.
           thenW (transaction (saveChunksAndComplete (wd_utf8 wd) j chunks (wd_parser wd)))
             (\<lambda>_. pureW (Inr Completed)))) db
       | _ \<Rightarrow> thenW (transaction (deferParserPoll j (now db + sw_pollInterval w))) (\<lambda>_. pureW (Inr Deferred)) db)) db0"

definition parse_turn :: "storage_world \<Rightarrow> storage_worker \<Rightarrow> parse_job \<Rightarrow> outcome work" where
  "parse_turn wd w j =
     (if isLocalTextMime (pj_mime j) then
        thenW (withAttachmentLease wd j (wd_getPrivate wd (pj_key j))) (\<lambda>bytes.
        thenW (pureW (chunksForLocalText (wd_sha wd) (pj_mime j) bytes)) (\<lambda>chunks.
        thenW (transaction (saveChunksAndComplete (wd_utf8 wd) j chunks ''local-text''))
          (\<lambda>_. pureW (Inr Completed))))
      else case pj_parserJob j of
        Some (c # cs) \<Rightarrow> poll_parse wd w j (c # cs)
      | _ \<Rightarrow>
          if pj_mime j = ''application/pdf'' then
            thenW (withAttachmentLease wd j (bindR (wd_getPrivate wd (pj_key j)) (wd_pdfText wd))) (\<lambda>parsed.
            case parsed of
              Some doc \<Rightarrow>
                thenW (pureW (chunksForParsedDocument (wd_sha wd) doc)) (\<lambda>chunks.
                thenW (transaction (saveChunksAndComplete (wd_utf8 wd) j chunks ''local-pdf-text''))
                  (\<lambda>_. pureW (Inr Completed)))
            | None \<Rightarrow> submit_parse wd w j)
          else submit_parse wd w j)"

definition isStaleLeaseError :: "work_error \<Rightarrow> bool" where
  "isStaleLeaseError e = (case e of StaleFailure _ \<Rightarrow> True | _ \<Rightarrow> False)"

text \<open>The \<open>catch\<close> of a turn: mark the failure unless the lease is gone.\<close>

definition settle_failure ::
  "(work_error \<Rightarrow> timestamp \<Rightarrow> app_db \<Rightarrow> (work_error, app_db) result) \<Rightarrow> storage_worker \<Rightarrow> work_error \<Rightarrow> outcome work" where
  "settle_failure mark w e db =
     (if isStaleLeaseError e then (Inr Failed, db)
      else case transaction (mark e (now db + sw_retryDelay w)) db of
        (Inl e', d) \<Rightarrow> (if isStaleLeaseError e' then Inr Failed else Inl e', d)
      | (Inr _, d) \<Rightarrow> (Inr Failed, d))"

definition catch :: "'a work \<Rightarrow> (work_error \<Rightarrow> 'a work) \<Rightarrow> 'a work" where
  "catch m h db = (case m db of (Inl e, d) \<Rightarrow> h e d | (Inr x, d) \<Rightarrow> (Inr x, d))"

definition delete_turn :: "storage_world \<Rightarrow> storage_worker \<Rightarrow> deletion_lease \<Rightarrow> outcome work" where
  "delete_turn wd w j =
     thenW (external wd (wd_deletePrivate wd (dl_key j))) (\<lambda>_.
     thenW (transaction (markDeletionSucceeded j)) (\<lambda>_. pureW (Inr Completed)))"

definition runOnce :: "storage_world \<Rightarrow> storage_worker \<Rightarrow> nat set \<Rightarrow> outcome work" where
  "runOnce wd w locked =
     thenW (claimDeletion (sw_id w) locked) (\<lambda>deletion. case deletion of
       Some j \<Rightarrow> catch (delete_turn wd w j) (settle_failure (markDeletionFailed j) w)
     | None \<Rightarrow>
         thenW (claimAttachmentParse (sw_id w) locked) (\<lambda>job. case job of
           None \<Rightarrow> pureW (Inr Idle)
         | Some j \<Rightarrow> catch (parse_turn wd w j) (settle_failure (markAttachmentFailed j) w)))"

end
