(* ===== verification/Storage_Accounting.thy ===== *)
theory Storage_Accounting
  imports Artifacts
begin

section \<open>The books of the private storage\<close>

text \<open>
  The invariant of the storage tables: the used and reserved bytes of every account are the
  sizes of its committed and of its reserved attachments and artifact files, within the
  limit; every row is charged to an existing account; an object whose row has been given up
  for deletion no longer counts. Each operation keeps it, and no operation drops the key of
  an object without leaving a deletion job for it.
\<close>

subsection \<open>What an account is charged\<close>

definition file_owner :: "app_db \<Rightarrow> artifact_file \<Rightarrow> string option" where
  "file_owner db f = map_option af_user (lookup af_id (fl_artifact f) (ap_artifacts db))"

definition at_used :: "string \<Rightarrow> app_db \<Rightarrow> int" where
  "at_used u db = tally (\<lambda>a. at_user a = u) committed_bytes (ap_attachments db)"

definition at_held :: "string \<Rightarrow> app_db \<Rightarrow> int" where
  "at_held u db = tally (\<lambda>a. at_user a = u) reserved_bytes (ap_attachments db)"

definition fl_used :: "string \<Rightarrow> app_db \<Rightarrow> int" where
  "fl_used u db = tally (\<lambda>f. file_owner db f = Some u) file_committed (ap_files db)"

definition fl_held :: "string \<Rightarrow> app_db \<Rightarrow> int" where
  "fl_held u db = tally (\<lambda>f. file_owner db f = Some u) file_reserved (ap_files db)"

definition used :: "string \<Rightarrow> app_db \<Rightarrow> int" where
  "used u db = at_used u db + fl_used u db"

definition held :: "string \<Rightarrow> app_db \<Rightarrow> int" where
  "held u db = at_held u db + fl_held u db"

definition has_account :: "app_db \<Rightarrow> string \<Rightarrow> bool" where
  "has_account db u \<longleftrightarrow> u \<in> sa_user ` set (ap_accounts db)"

definition balanced :: "app_db \<Rightarrow> bool" where
  "balanced db \<longleftrightarrow> distinct (map sa_user (ap_accounts db)) \<and> (\<forall>a\<in>set (ap_accounts db).
     account_check a \<and> sa_used a = used (sa_user a) db \<and> sa_reserved a = held (sa_user a) db)"

definition attachments_wf :: "app_db \<Rightarrow> bool" where
  "attachments_wf db \<longleftrightarrow> distinct (map at_id (ap_attachments db)) \<and> (\<forall>a\<in>set (ap_attachments db).
     attachment_check a \<and> has_account db (at_user a)
     \<and> (at_deletion a \<noteq> DelActive \<longrightarrow> at_quota a = StReleased))"

definition files_wf :: "app_db \<Rightarrow> bool" where
  "files_wf db \<longleftrightarrow> distinct (map af_id (ap_artifacts db)) \<and> distinct (map fl_id (ap_files db))
     \<and> (\<forall>f\<in>set (ap_files db). file_check f \<and> fl_deletion f = DelActive
          \<and> (\<exists>u. file_owner db f = Some u \<and> has_account db u))"

definition storage_inv :: "app_db \<Rightarrow> bool" where
  "storage_inv db \<longleftrightarrow> balanced db \<and> attachments_wf db \<and> files_wf db"

definition object_keys :: "app_db \<Rightarrow> string set" where
  "object_keys db = at_key ` set (ap_attachments db) \<union> fl_key ` set (ap_files db)"

definition job_keys :: "app_db \<Rightarrow> string set" where
  "job_keys db = dj_key ` set (ap_jobs db)"

definition no_object_lost :: "app_db \<Rightarrow> app_db \<Rightarrow> bool" where
  "no_object_lost db db' \<longleftrightarrow> job_keys db \<subseteq> job_keys db'
     \<and> object_keys db \<subseteq> object_keys db' \<union> job_keys db'"

lemma no_object_lost_refl [simp]: "no_object_lost db db"
  by (simp add: no_object_lost_def)

subsection \<open>Signs and sums\<close>

lemma committed_nonneg: "attachment_check a \<Longrightarrow> 0 \<le> committed_bytes a"
  by (auto simp: attachment_check_def committed_bytes_def split: option.splits)

lemma reserved_nonneg: "attachment_check a \<Longrightarrow> 0 \<le> reserved_bytes a"
  by (auto simp: attachment_check_def reserved_bytes_def)

lemma file_nonneg: "file_check f \<Longrightarrow> 0 \<le> file_committed f \<and> 0 \<le> file_reserved f"
  by (auto simp: file_check_def file_committed_def file_reserved_def)

lemma used_held_nonneg:
  assumes "attachments_wf db" "files_wf db"
  shows "0 \<le> used u db" "0 \<le> held u db"
proof -
  have a: "0 \<le> committed_bytes a" "0 \<le> reserved_bytes a" if "a \<in> set (ap_attachments db)" for a
    using assms(1) that committed_nonneg reserved_nonneg by (auto simp: attachments_wf_def)
  have f: "0 \<le> file_committed f" "0 \<le> file_reserved f" if "f \<in> set (ap_files db)" for f
    using assms(2) that file_nonneg by (auto simp: files_wf_def)
  show "0 \<le> used u db" "0 \<le> held u db"
    unfolding used_def held_def at_used_def fl_used_def at_held_def fl_held_def
    by (intro add_nonneg_nonneg tally_nonneg a f; assumption)+
qed

text \<open>The charges depend on the attachments, the files and who owns each artifact.\<close>

definition owners :: "app_db \<Rightarrow> (nat \<times> string) list" where
  "owners db = map (\<lambda>a. (af_id a, af_user a)) (ap_artifacts db)"

lemma file_owner_owners:
  "file_owner db f = map_option snd (lookup fst (fl_artifact f) (owners db))"
proof -
  have "map_option af_user (lookup af_id k xs)
      = map_option snd (lookup fst k (map (\<lambda>a. (af_id a, af_user a)) xs))" for k xs
    by (induction xs) (auto simp: table_simps)
  then show ?thesis by (simp add: file_owner_def owners_def)
qed

lemma file_owner_cong: "owners db' = owners db \<Longrightarrow> file_owner db' = file_owner db"
  by (rule ext) (simp add: file_owner_owners)

lemma at_charges_cong:
  "ap_attachments db' = ap_attachments db \<Longrightarrow> at_used u db' = at_used u db \<and> at_held u db' = at_held u db"
  by (simp add: at_used_def at_held_def)

lemma fl_charges_cong:
  "ap_files db' = ap_files db \<Longrightarrow> owners db' = owners db \<Longrightarrow>
   fl_used u db' = fl_used u db \<and> fl_held u db' = fl_held u db"
  using file_owner_cong[of db' db] by (simp add: fl_used_def fl_held_def)

subsection \<open>Moving bytes on an account\<close>

lemma account_step:
  fixes t :: timestamp
  assumes bal: "balanced db"
    and f: "\<And>a. a \<in> set (ap_accounts db) \<Longrightarrow> sa_user a = u \<Longrightarrow> sa_user (f a) = u
      \<and> sa_limit (f a) = sa_limit a \<and> sa_used (f a) = used u db' \<and> sa_reserved (f a) = held u db'
      \<and> used u db' + held u db' \<le> sa_limit a"
    and nonneg: "0 \<le> used u db'" "0 \<le> held u db'"
    and frame: "\<And>v. v \<noteq> u \<Longrightarrow> used v db' = used v db \<and> held v db' = held v db"
  defines "accs \<equiv> update_where (\<lambda>a. sa_user a = u) (\<lambda>a. (f a)\<lparr>sa_updatedAt := t\<rparr>) (ap_accounts db)"
  shows "list_all account_check accs" and "ap_accounts db' = accs \<Longrightarrow> balanced db'"
proof -
  have each: "account_check a \<and> sa_used a = used (sa_user a) db' \<and> sa_reserved a = held (sa_user a) db'"
    if a: "a \<in> set accs" for a
  proof -
    from a consider x where "x \<in> set (ap_accounts db)" "sa_user x = u" "a = (f x)\<lparr>sa_updatedAt := t\<rparr>"
      | "a \<in> set (ap_accounts db)" "sa_user a \<noteq> u"
      unfolding accs_def by (elim in_update_whereE) auto
    then show ?thesis
    proof cases
      case (1 x)
      moreover have "0 < sa_limit x" using bal 1 by (simp add: balanced_def account_check_def)
      ultimately show ?thesis using f[OF 1(1,2)] nonneg by (simp add: account_check_def)
    next
      case 2
      then show ?thesis using bal frame[OF 2(2)] by (auto simp: balanced_def)
    qed
  qed
  then show "list_all account_check accs" by (simp add: list_all_iff)
  have "map sa_user accs = map sa_user (ap_accounts db)"
    unfolding accs_def using f by (intro map_update_where) simp
  then show "balanced db'" if "ap_accounts db' = accs"
    using bal each that by (simp add: balanced_def)
qed

lemma update_account_ok:
  assumes "balanced db"
    and "\<And>a. a \<in> set (ap_accounts db) \<Longrightarrow> sa_user a = u \<Longrightarrow> sa_user (f a) = u
      \<and> sa_limit (f a) = sa_limit a \<and> sa_used (f a) = used u db' \<and> sa_reserved (f a) = held u db'
      \<and> used u db' + held u db' \<le> sa_limit a"
    and "0 \<le> used u db'" "0 \<le> held u db'"
    and "\<And>v. v \<noteq> u \<Longrightarrow> used v db' = used v db \<and> held v db' = held v db"
    and d: "ap_accounts d = ap_accounts db"
  shows "update_account u f d = Inr (d\<lparr>ap_accounts := update_where (\<lambda>a. sa_user a = u)
      (\<lambda>a. (f a)\<lparr>sa_updatedAt := now d\<rparr>) (ap_accounts d)\<rparr>)"
  using account_step(1)[OF assms(1-5), where t = "now d"] d
  by (simp add: update_account_def Let_def)

lemma update_account_succeeds:
  assumes "balanced db" and "\<And>a. a \<in> set (ap_accounts db) \<Longrightarrow> sa_user a = u \<Longrightarrow> account_check (f a)"
    and "ap_accounts d = ap_accounts db"
  shows "\<exists>d'. update_account u f d = Inr d'"
proof -
  have "account_check (x\<lparr>sa_updatedAt := t\<rparr>) = account_check x" for x and t :: timestamp
    by (simp add: account_check_def)
  then show ?thesis
    using assms by (auto simp: update_account_def Let_def list_all_iff balanced_def elim!: in_update_whereE)
qed

lemma update_account_InrD:
  "update_account u f db = Inr db1 \<Longrightarrow> db1 = db\<lparr>ap_accounts := update_where (\<lambda>a. sa_user a = u)
      (\<lambda>a. (f a)\<lparr>sa_updatedAt := now db\<rparr>) (ap_accounts db)\<rparr>"
  by (simp add: update_account_def Let_def split: if_splits)

lemma has_account_update:
  "(\<And>a. sa_user (f a) = sa_user a) \<Longrightarrow>
   has_account (db\<lparr>ap_accounts := update_where P (\<lambda>a. (f a)\<lparr>sa_updatedAt := t\<rparr>) (ap_accounts db)\<rparr>) u
     = has_account db u"
proof -
  assume f: "\<And>a. sa_user (f a) = sa_user a"
  have "sa_user ` set (update_where P (\<lambda>a. (f a)\<lparr>sa_updatedAt := t\<rparr>) (ap_accounts db))
      = sa_user ` set (ap_accounts db)"
    using map_update_where[of "ap_accounts db" P sa_user "\<lambda>a. (f a)\<lparr>sa_updatedAt := t\<rparr>"] f
    by (simp flip: set_map)
  then show ?thesis by (simp add: has_account_def)
qed

lemma account_moves [simp]:
  "sa_user (move_bytes x y a) = sa_user a" "sa_limit (move_bytes x y a) = sa_limit a"
  "sa_used (move_bytes x y a) = sa_used a + x" "sa_reserved (move_bytes x y a) = sa_reserved a + y"
  "sa_user (release_bytes x y a) = sa_user a" "sa_limit (release_bytes x y a) = sa_limit a"
  "sa_used (release_bytes x y a) = max (sa_used a - x) 0"
  "sa_reserved (release_bytes x y a) = max (sa_reserved a - y) 0"
  by (simp_all add: move_bytes_def release_bytes_def)

subsection \<open>Queueing and accounts leave the charges alone\<close>

lemma draw_id_simps [simp]:
  "ap_accounts (draw_id db) = ap_accounts db" "ap_attachments (draw_id db) = ap_attachments db"
  "ap_files (draw_id db) = ap_files db" "ap_artifacts (draw_id db) = ap_artifacts db"
  "ap_jobs (draw_id db) = ap_jobs db" "ap_runs (draw_id db) = ap_runs db"
  "ap_messages (draw_id db) = ap_messages db" "ap_turns (draw_id db) = ap_turns db"
  "ap_conversations (draw_id db) = ap_conversations db" "ap_chunks (draw_id db) = ap_chunks db"
  "q_users (ap_quota (draw_id db)) = q_users (ap_quota db)" "now (draw_id db) = now db"
  "q_ledger (ap_quota (draw_id db)) = q_ledger (ap_quota db)"
  "q_buckets (ap_quota (draw_id db)) = q_buckets (ap_quota db)"
  "next_id (draw_id db) = next_id db + 1"
  by (simp_all add: draw_id_def)

definition same_storage :: "app_db \<Rightarrow> app_db \<Rightarrow> bool" where
  "same_storage db db' \<longleftrightarrow> ap_accounts db' = ap_accounts db \<and> ap_attachments db' = ap_attachments db
     \<and> ap_files db' = ap_files db \<and> ap_artifacts db' = ap_artifacts db
     \<and> ap_runs db' = ap_runs db \<and> ap_conversations db' = ap_conversations db
     \<and> ap_messages db' = ap_messages db \<and> ap_turns db' = ap_turns db
     \<and> ap_chunks db' = ap_chunks db \<and> now db' = now db
     \<and> q_ledger (ap_quota db') = q_ledger (ap_quota db)
     \<and> q_buckets (ap_quota db') = q_buckets (ap_quota db)
     \<and> q_users (ap_quota db') = q_users (ap_quota db) \<and> next_id db \<le> next_id db'"

lemma same_storage_inv: "same_storage db db' \<Longrightarrow> storage_inv db' = storage_inv db"
  by (simp add: same_storage_def storage_inv_def balanced_def attachments_wf_def files_wf_def
      used_def held_def at_used_def at_held_def fl_used_def fl_held_def has_account_def file_owner_def)

lemma same_storage_trans: "same_storage a b \<Longrightarrow> same_storage b c \<Longrightarrow> same_storage a c"
  by (auto simp: same_storage_def)

lemma queue_deletion_same: "same_storage db (queue_deletion user ty src key t db)"
  by (simp add: queue_deletion_def same_storage_def)

lemma queue_deletion_keys:
  "job_keys (queue_deletion user ty src key t db) = insert key (job_keys db)"
  by (auto simp: queue_deletion_def job_keys_def new_job_def)

lemma queue_many:
  assumes "\<And>d x. same_storage d (step d x)" "\<And>d x. job_keys (step d x) = insert (key x) (job_keys d)"
  shows "same_storage db (foldl step db xs) \<and> job_keys (foldl step db xs) = job_keys db \<union> key ` set xs"
proof (induction xs arbitrary: db)
  case Nil
  then show ?case by (simp add: same_storage_def)
next
  case (Cons x xs)
  from Cons[of "step db x"] show ?case
    using assms(1)[of db x] same_storage_trans by (auto simp: assms(2))
qed

lemma queue_files_facts:
  "same_storage db (queue_files user fs db)
   \<and> job_keys (queue_files user fs db) = job_keys db \<union> fl_key ` set fs"
  unfolding queue_files_def
  by (rule queue_many) (simp_all add: queue_deletion_same queue_deletion_keys)

lemma requeue_deletion_same: "same_storage db (requeue_deletion user src key db)"
  by (simp add: requeue_deletion_def same_storage_def)

lemma requeue_deletion_keys:
  "job_keys (requeue_deletion user src key db) = insert key (job_keys db)"
proof -
  have keys: "dj_key ` set (update_where P f xs) = dj_key ` set xs"
    if "\<And>j. dj_key (f j) = dj_key j" for P f and xs :: "deletion_job list"
    using map_update_where[of xs P dj_key f] that by (simp flip: set_map)
  show ?thesis
    by (auto simp: requeue_deletion_def job_keys_def new_job_def keys)
qed

lemma ensure_account_inv:
  assumes "storage_inv db"
  shows "storage_inv (ensure_account u db) \<and> has_account (ensure_account u db) u"
proof (cases "has_account db u")
  case True
  then show ?thesis using assms by (auto simp: ensure_account_def has_account_def)
next
  case False
  define d where "d = ensure_account u db"
  have d: "ap_accounts d = ap_accounts db @ [\<lparr>sa_user = u, sa_used = 0, sa_reserved = 0,
      sa_limit = max_chat_storage_bytes, sa_updatedAt = now db\<rparr>]"
    "ap_attachments d = ap_attachments db" "ap_files d = ap_files db" "ap_artifacts d = ap_artifacts db"
    using False by (auto simp: d_def ensure_account_def has_account_def)
  have eq: "used v d = used v db" "held v d = held v db" for v
    using at_charges_cong[OF d(2), of v] fl_charges_cong[OF d(3), of v] d(4)
    by (simp_all add: used_def held_def owners_def)
  have own: "file_owner d = file_owner db" by (rule file_owner_cong) (simp add: owners_def d)
  have none: "at_user a \<noteq> u" if "a \<in> set (ap_attachments db)" for a
    using assms False that by (auto simp: storage_inv_def attachments_wf_def)
  have nof: "file_owner db f \<noteq> Some u" if "f \<in> set (ap_files db)" for f
    using assms False that by (auto simp: storage_inv_def files_wf_def)
  have "used u db = 0" "held u db = 0"
    unfolding used_def held_def at_used_def at_held_def fl_used_def fl_held_def
    using none nof by (simp_all add: tally_zero)
  moreover have acc: "has_account d v" if "has_account db v" for v
    using that by (auto simp: has_account_def d)
  moreover have "u \<notin> sa_user ` set (ap_accounts db)" using False by (auto simp: has_account_def)
  ultimately have "balanced d" and "attachments_wf d" and "files_wf d"
    using assms unfolding storage_inv_def balanced_def attachments_wf_def files_wf_def own
    by (auto simp: d eq account_check_def max_chat_storage_bytes_def)
  moreover have "has_account d u" by (simp add: has_account_def d)
  ultimately have "storage_inv d \<and> has_account d u" by (simp add: storage_inv_def)
  then show ?thesis by (simp add: d_def)
qed

subsection \<open>Changes of one row\<close>

lemma has_account_cong: "ap_accounts db' = ap_accounts db \<Longrightarrow> has_account db' = has_account db"
  by (rule ext) (simp add: has_account_def)

lemma find_attachment_SomeD:
  "find_attachment i u P db = Some a \<Longrightarrow>
   a \<in> set (ap_attachments db) \<and> at_id a = i \<and> at_user a = u \<and> P a"
  unfolding find_attachment_def by (drule find_SomeD) simp

lemma find_owned_SomeD:
  "find_owned i u P db = Some a \<Longrightarrow>
   a \<in> set (ap_attachments db) \<and> at_id a = i \<and> at_user a = u \<and> P a"
  unfolding find_owned_def by (drule find_attachment_SomeD) simp

lemma update_where_row:
  assumes "distinct (map key xs)" "r \<in> set xs" "P r" "\<And>x. P x \<Longrightarrow> key x = key r"
  shows "update_where P f xs = update_where (\<lambda>x. key x = key r) f xs"
  using assms unfolding update_where_def
  by (intro map_cong refl) (metis distinct_key_unique)

lemma at_charges_update:
  assumes "distinct (map at_id (ap_attachments db))" "a \<in> set (ap_attachments db)"
    and "at_id a = i" "at_user a = u"
    and "ap_attachments db' = update_where (\<lambda>a. at_id a = i \<and> at_user a = u) f (ap_attachments db)"
    and "at_user (f a) = u"
  shows "at_used v db' = at_used v db + (if v = u then committed_bytes (f a) - committed_bytes a else 0)"
    and "at_held v db' = at_held v db + (if v = u then reserved_bytes (f a) - reserved_bytes a else 0)"
proof -
  have "ap_attachments db' = update_where (\<lambda>x. at_id x = at_id a) f (ap_attachments db)"
    using update_where_row[OF assms(1,2), of "\<lambda>a. at_id a = i \<and> at_user a = u" f] assms by simp
  then show "at_used v db' = at_used v db + (if v = u then committed_bytes (f a) - committed_bytes a else 0)"
    "at_held v db' = at_held v db + (if v = u then reserved_bytes (f a) - reserved_bytes a else 0)"
    using assms(4,6) tally_update_one[OF assms(1,2)]
    by (auto simp: at_used_def at_held_def)
qed

lemma at_charges_delete:
  assumes "distinct (map at_id (ap_attachments db))" "a \<in> set (ap_attachments db)"
    and "at_id a = i" "at_user a = u"
    and "ap_attachments db' = filter (\<lambda>a. \<not> (at_id a = i \<and> at_user a = u)) (ap_attachments db)"
  shows "at_used v db' = at_used v db - (if v = u then committed_bytes a else 0)"
    and "at_held v db' = at_held v db - (if v = u then reserved_bytes a else 0)"
proof -
  have "tally (\<lambda>x. at_user x = v \<and> (at_id x = i \<and> at_user x = u)) w (ap_attachments db)
      = (if v = u then w a else 0)" for w
  proof (cases "v = u")
    case True
    have "tally (\<lambda>x. at_user x = v \<and> (at_id x = i \<and> at_user x = u)) w (ap_attachments db)
        = tally (\<lambda>x. x = a) w (ap_attachments db)"
      using assms True distinct_key_unique[OF assms(1)] by (intro tally_cong) auto
    also have "\<dots> = w a" using assms by (intro tally_single) (auto simp: distinct_map)
    finally show ?thesis using True by simp
  next
    case False
    then show ?thesis by (auto intro: tally_zero)
  qed
  then show "at_used v db' = at_used v db - (if v = u then committed_bytes a else 0)"
    "at_held v db' = at_held v db - (if v = u then reserved_bytes a else 0)"
    unfolding at_used_def at_held_def assms(5) tally_remove by simp_all
qed

text \<open>
  The shape every operation has: the books of one account are moved by what the charges of
  its rows change, and the rows stay well formed.
\<close>

lemma books_step:
  assumes inv: "storage_inv db"
    and delta: "\<And>v. used v db' = used v db + (if v = u then du else 0)"
      "\<And>v. held v db' = held v db + (if v = u then dr else 0)"
    and wfa: "distinct (map at_id (ap_attachments db'))"
      "\<And>a. a \<in> set (ap_attachments db') \<Longrightarrow> attachment_check a \<and> has_account db (at_user a)
        \<and> (at_deletion a \<noteq> DelActive \<longrightarrow> at_quota a = StReleased)"
    and wff: "distinct (map af_id (ap_artifacts db'))" "distinct (map fl_id (ap_files db'))"
      "\<And>x. x \<in> set (ap_files db') \<Longrightarrow> file_check x \<and> fl_deletion x = DelActive
        \<and> (\<exists>w. file_owner db' x = Some w \<and> has_account db w)"
    and f: "\<And>a. sa_user (f a) = sa_user a \<and> sa_limit (f a) = sa_limit a
        \<and> (0 \<le> used u db' \<longrightarrow> sa_used a = used u db \<longrightarrow> sa_used (f a) = sa_used a + du)
        \<and> (0 \<le> held u db' \<longrightarrow> sa_reserved a = held u db \<longrightarrow> sa_reserved (f a) = sa_reserved a + dr)"
    and cap: "\<And>a. a \<in> set (ap_accounts db) \<Longrightarrow> sa_user a = u \<Longrightarrow>
        sa_used a + sa_reserved a + du + dr \<le> sa_limit a"
    and acc: "ap_accounts d = ap_accounts db"
  shows "update_account u f d = Inr (d\<lparr>ap_accounts := update_where (\<lambda>a. sa_user a = u)
      (\<lambda>a. (f a)\<lparr>sa_updatedAt := now d\<rparr>) (ap_accounts d)\<rparr>)" (is ?ok)
    and "ap_accounts db' = update_where (\<lambda>a. sa_user a = u)
      (\<lambda>a. (f a)\<lparr>sa_updatedAt := now d\<rparr>) (ap_accounts d) \<Longrightarrow> storage_inv db'" (is "?acc \<Longrightarrow> ?inv")
proof -
  have nonneg: "0 \<le> used u db'" "0 \<le> held u db'"
    unfolding used_def held_def at_used_def at_held_def fl_used_def fl_held_def
    using wfa(2) wff(3)
    by (auto intro!: add_nonneg_nonneg tally_nonneg committed_nonneg reserved_nonneg
        conjunct1[OF file_nonneg] conjunct2[OF file_nonneg])
  have bal: "balanced db" using inv by (simp add: storage_inv_def)
  have row: "sa_user (f a) = u \<and> sa_limit (f a) = sa_limit a \<and> sa_used (f a) = used u db'
      \<and> sa_reserved (f a) = held u db' \<and> used u db' + held u db' \<le> sa_limit a"
    if "a \<in> set (ap_accounts db)" "sa_user a = u" for a
  proof -
    have "sa_used a = used u db" "sa_reserved a = held u db"
      using bal that by (auto simp: balanced_def)
    with f[of a] cap[OF that] nonneg that(2) show ?thesis by (auto simp: delta)
  qed
  have frame: "used v db' = used v db \<and> held v db' = held v db" if "v \<noteq> u" for v
    using delta that by simp
  show ?ok by (rule update_account_ok[OF bal row nonneg frame acc])
  assume a: ?acc
  have "balanced db'"
    by (rule account_step(2)[OF bal row nonneg frame, where t = "now d"]) (simp_all add: a acc)
  moreover have "has_account db' = has_account db"
    using has_account_update[where f = f and P = "\<lambda>a. sa_user a = u" and db = db and t = "now d"] f
    by (intro ext) (simp add: has_account_def a acc)
  ultimately show ?inv
    using inv wfa wff by (simp add: storage_inv_def attachments_wf_def files_wf_def)
qed

text \<open>The same for an operation on attachments only.\<close>

lemma attachment_step:
  assumes inv: "storage_inv db"
    and fl: "ap_files db' = ap_files db" "ap_artifacts db' = ap_artifacts db"
    and at: "\<And>v. at_used v db' = at_used v db + (if v = u then du else 0)"
      "\<And>v. at_held v db' = at_held v db + (if v = u then dr else 0)"
    and wf: "distinct (map at_id (ap_attachments db'))"
      "\<And>a. a \<in> set (ap_attachments db') \<Longrightarrow> attachment_check a \<and> has_account db (at_user a)
        \<and> (at_deletion a \<noteq> DelActive \<longrightarrow> at_quota a = StReleased)"
    and f: "\<And>a. sa_user (f a) = sa_user a \<and> sa_limit (f a) = sa_limit a
        \<and> (0 \<le> used u db' \<longrightarrow> sa_used a = used u db \<longrightarrow> sa_used (f a) = sa_used a + du)
        \<and> (0 \<le> held u db' \<longrightarrow> sa_reserved a = held u db \<longrightarrow> sa_reserved (f a) = sa_reserved a + dr)"
    and cap: "\<And>a. a \<in> set (ap_accounts db) \<Longrightarrow> sa_user a = u \<Longrightarrow>
        sa_used a + sa_reserved a + du + dr \<le> sa_limit a"
    and acc: "ap_accounts d = ap_accounts db"
  shows "update_account u f d = Inr (d\<lparr>ap_accounts := update_where (\<lambda>a. sa_user a = u)
      (\<lambda>a. (f a)\<lparr>sa_updatedAt := now d\<rparr>) (ap_accounts d)\<rparr>)"
    and "ap_accounts db' = update_where (\<lambda>a. sa_user a = u)
      (\<lambda>a. (f a)\<lparr>sa_updatedAt := now d\<rparr>) (ap_accounts d) \<Longrightarrow> storage_inv db'"
proof -
  have own: "file_owner db' = file_owner db" by (rule file_owner_cong) (simp add: owners_def fl)
  have delta: "used v db' = used v db + (if v = u then du else 0)"
    "held v db' = held v db + (if v = u then dr else 0)" for v
    using at(1)[of v] at(2)[of v] fl_charges_cong[OF fl(1), of v] fl(2)
    by (simp_all add: used_def held_def owners_def)
  have wff: "distinct (map af_id (ap_artifacts db'))" "distinct (map fl_id (ap_files db'))"
    "\<And>x. x \<in> set (ap_files db') \<Longrightarrow> file_check x \<and> fl_deletion x = DelActive
        \<and> (\<exists>w. file_owner db' x = Some w \<and> has_account db w)"
    using inv by (simp_all add: storage_inv_def files_wf_def fl own)
  show "update_account u f d = Inr (d\<lparr>ap_accounts := update_where (\<lambda>a. sa_user a = u)
      (\<lambda>a. (f a)\<lparr>sa_updatedAt := now d\<rparr>) (ap_accounts d)\<rparr>)"
    by (rule books_step(1)[OF inv delta wf wff f cap acc])
  show "ap_accounts db' = update_where (\<lambda>a. sa_user a = u)
      (\<lambda>a. (f a)\<lparr>sa_updatedAt := now d\<rparr>) (ap_accounts d) \<Longrightarrow> storage_inv db'"
    by (rule books_step(2)[OF inv delta wf wff f cap acc])
qed

text \<open>And for one on artifacts and files only.\<close>

lemma file_step:
  assumes inv: "storage_inv db"
    and at: "ap_attachments db' = ap_attachments db"
    and fl: "\<And>v. fl_used v db' = fl_used v db + (if v = u then du else 0)"
      "\<And>v. fl_held v db' = fl_held v db + (if v = u then dr else 0)"
    and wff: "distinct (map af_id (ap_artifacts db'))" "distinct (map fl_id (ap_files db'))"
      "\<And>x. x \<in> set (ap_files db') \<Longrightarrow> file_check x \<and> fl_deletion x = DelActive
        \<and> (\<exists>w. file_owner db' x = Some w \<and> has_account db w)"
    and f: "\<And>a. sa_user (f a) = sa_user a \<and> sa_limit (f a) = sa_limit a
        \<and> (0 \<le> used u db' \<longrightarrow> sa_used a = used u db \<longrightarrow> sa_used (f a) = sa_used a + du)
        \<and> (0 \<le> held u db' \<longrightarrow> sa_reserved a = held u db \<longrightarrow> sa_reserved (f a) = sa_reserved a + dr)"
    and cap: "\<And>a. a \<in> set (ap_accounts db) \<Longrightarrow> sa_user a = u \<Longrightarrow>
        sa_used a + sa_reserved a + du + dr \<le> sa_limit a"
    and acc: "ap_accounts d = ap_accounts db"
  shows "update_account u f d = Inr (d\<lparr>ap_accounts := update_where (\<lambda>a. sa_user a = u)
      (\<lambda>a. (f a)\<lparr>sa_updatedAt := now d\<rparr>) (ap_accounts d)\<rparr>)"
    and "ap_accounts db' = update_where (\<lambda>a. sa_user a = u)
      (\<lambda>a. (f a)\<lparr>sa_updatedAt := now d\<rparr>) (ap_accounts d) \<Longrightarrow> storage_inv db'"
proof -
  have delta: "used v db' = used v db + (if v = u then du else 0)"
    "held v db' = held v db + (if v = u then dr else 0)" for v
    using fl(1)[of v] fl(2)[of v] at_charges_cong[OF at, of v] by (simp_all add: used_def held_def)
  have wf: "distinct (map at_id (ap_attachments db'))"
    "\<And>a. a \<in> set (ap_attachments db') \<Longrightarrow> attachment_check a \<and> has_account db (at_user a)
        \<and> (at_deletion a \<noteq> DelActive \<longrightarrow> at_quota a = StReleased)"
    using inv by (simp_all add: storage_inv_def attachments_wf_def at)
  show "update_account u f d = Inr (d\<lparr>ap_accounts := update_where (\<lambda>a. sa_user a = u)
      (\<lambda>a. (f a)\<lparr>sa_updatedAt := now d\<rparr>) (ap_accounts d)\<rparr>)"
    by (rule books_step(1)[OF inv delta wf wff f cap acc])
  show "ap_accounts db' = update_where (\<lambda>a. sa_user a = u)
      (\<lambda>a. (f a)\<lparr>sa_updatedAt := now d\<rparr>) (ap_accounts d) \<Longrightarrow> storage_inv db'"
    by (rule books_step(2)[OF inv delta wf wff f cap acc])
qed

end
