(* ===== verification/Storage_Steps.thy ===== *)
theory Storage_Steps
  imports Storage_Accounting
begin

section \<open>Every storage operation keeps the books\<close>

text \<open>
  One lemma per operation: it keeps \<open>storage_inv\<close> and loses no object. At the end the
  operations are collected in a step relation, whose reachable states inherit both.
\<close>

lemma update_account_simps:
  assumes "update_account u f d = Inr d'"
  shows "ap_accounts d' = update_where (\<lambda>a. sa_user a = u) (\<lambda>a. (f a)\<lparr>sa_updatedAt := now d\<rparr>) (ap_accounts d)"
    and "ap_attachments d' = ap_attachments d" "ap_files d' = ap_files d"
    "ap_artifacts d' = ap_artifacts d" "ap_jobs d' = ap_jobs d" "now d' = now d"
    "ap_runs d' = ap_runs d" "ap_conversations d' = ap_conversations d"
    "ap_messages d' = ap_messages d" "ap_turns d' = ap_turns d" "ap_quota d' = ap_quota d"
    "ap_chunks d' = ap_chunks d"
  using update_account_InrD[OF assms] by simp_all

lemma ensure_account_simps [simp]:
  "ap_attachments (ensure_account u db) = ap_attachments db" "ap_files (ensure_account u db) = ap_files db"
  "ap_artifacts (ensure_account u db) = ap_artifacts db" "ap_jobs (ensure_account u db) = ap_jobs db"
  "ap_quota (ensure_account u db) = ap_quota db" "ap_runs (ensure_account u db) = ap_runs db"
  by (simp_all add: ensure_account_def)

lemma lookup_account:
  assumes "balanced db" "lookup sa_user u (ap_accounts db) = Some q" "a \<in> set (ap_accounts db)" "sa_user a = u"
  shows "a = q"
  using assms by (auto simp: balanced_def lookup_Some_iff dest: distinct_key_unique)

lemma storage_invD:
  assumes "storage_inv db"
  shows "balanced db" "attachments_wf db" "files_wf db" "distinct (map at_id (ap_attachments db))"
    "distinct (map fl_id (ap_files db))" "distinct (map af_id (ap_artifacts db))"
  using assms by (simp_all add: storage_inv_def attachments_wf_def files_wf_def)

lemma attachment_rowD:
  "storage_inv db \<Longrightarrow> a \<in> set (ap_attachments db) \<Longrightarrow> attachment_check a \<and> has_account db (at_user a)
     \<and> (at_deletion a \<noteq> DelActive \<longrightarrow> at_quota a = StReleased)"
  by (simp add: storage_inv_def attachments_wf_def)

subsection \<open>Attachments\<close>

lemma initiate_inv:
  assumes inv: "storage_inv db" and run: "initiate inp db = Inr (v, db')"
  shows "storage_inv db' \<and> no_object_lost db db'"
proof -
  define u where "u = ii_user inp"
  define db1 where "db1 = ensure_account u db"
  define a where "a = new_attachment inp db1"
  from run obtain q db2 where q: "lookup sa_user u (ap_accounts db1) = Some q"
    "\<not> sa_limit q < sa_used q + sa_reserved q + ii_declared inp"
    and ins: "insert_attachment a db1 = Inr db2"
    and acc: "update_account u (move_bytes 0 (ii_declared inp)) db2 = Inr db'"
    by (auto simp: initiate_def Let_def bindR_eq_Inr u_def db1_def a_def split: if_splits option.splits)
  note upd = update_account_simps[OF acc]
  have inv1: "storage_inv db1" and has: "has_account db1 u"
    using ensure_account_inv[OF inv, of u] by (simp_all add: db1_def)
  from ins have a: "attachment_check a" "at_id a \<notin> at_id ` set (ap_attachments db1)"
    and db2: "db2 = db1\<lparr>ap_attachments := ap_attachments db1 @ [a]\<rparr>"
    by (auto simp: insert_attachment_def split: if_splits)
  have row: "at_user a = u" "at_quota a = StReserved" "at_deletion a = DelActive"
    "committed_bytes a = 0" "reserved_bytes a = ii_declared inp"
    by (simp_all add: a_def new_attachment_def u_def committed_bytes_def reserved_bytes_def)
  have "storage_inv db'"
  proof (rule attachment_step(2)[OF inv1, where u = u and du = 0 and dr = "ii_declared inp"
        and f = "move_bytes 0 (ii_declared inp)" and d = db2])
    show "ap_files db' = ap_files db1" "ap_artifacts db' = ap_artifacts db1"
      "ap_accounts db2 = ap_accounts db1" by (simp_all add: upd db2)
    show "at_used v db' = at_used v db1 + (if v = u then 0 else 0)"
      "at_held v db' = at_held v db1 + (if v = u then ii_declared inp else 0)" for v
      using row by (simp_all add: at_used_def at_held_def upd db2 tally_append tally_Cons tally_Nil)
    show "distinct (map at_id (ap_attachments db'))"
      using storage_invD(4)[OF inv1] a by (simp add: upd db2)
    show "attachment_check x \<and> has_account db1 (at_user x) \<and> (at_deletion x \<noteq> DelActive \<longrightarrow> at_quota x = StReleased)"
      if "x \<in> set (ap_attachments db')" for x
      using that attachment_rowD[OF inv1] a row has by (auto simp: upd db2)
    show "sa_used x + sa_reserved x + 0 + ii_declared inp \<le> sa_limit x"
      if "x \<in> set (ap_accounts db1)" "sa_user x = u" for x
      using lookup_account[OF storage_invD(1)[OF inv1] q(1) that] q(2) by simp
  qed (simp_all add: upd)
  moreover have "no_object_lost db db'"
    by (auto simp: no_object_lost_def object_keys_def job_keys_def upd db2 db1_def)
  ultimately show ?thesis by blast
qed

lemma set_attachment_rows:
  "ap_attachments (set_attachment i u f db) = update_where (\<lambda>a. at_id a = i \<and> at_user a = u)
     (\<lambda>a. (f a)\<lparr>at_updatedAt := now db\<rparr>) (ap_attachments db)"
  "ap_files (set_attachment i u f db) = ap_files db" "ap_artifacts (set_attachment i u f db) = ap_artifacts db"
  "ap_accounts (set_attachment i u f db) = ap_accounts db" "ap_jobs (set_attachment i u f db) = ap_jobs db"
  "ap_quota (set_attachment i u f db) = ap_quota db"
  by (simp_all add: set_attachment_def)

lemma at_row_updates [simp]:
  "committed_bytes (a\<lparr>at_updatedAt := t\<rparr>) = committed_bytes a"
  "reserved_bytes (a\<lparr>at_updatedAt := t\<rparr>) = reserved_bytes a"
  "attachment_check (a\<lparr>at_updatedAt := t\<rparr>) = attachment_check a"
  "attachment_check (a\<lparr>at_status := s\<rparr>) = attachment_check a"
  "attachment_check (a\<lparr>at_failureCode := c\<rparr>) = attachment_check a"
  "committed_bytes (a\<lparr>at_status := s\<rparr>) = committed_bytes a"
  "reserved_bytes (a\<lparr>at_status := s\<rparr>) = reserved_bytes a"
  "committed_bytes (a\<lparr>at_failureCode := c\<rparr>) = committed_bytes a"
  "reserved_bytes (a\<lparr>at_failureCode := c\<rparr>) = reserved_bytes a"
  by (simp_all add: committed_bytes_def reserved_bytes_def attachment_check_def
      split: storage_quota_state.split)

text \<open>Changes of rows that leave ownership, charges and keys alone.\<close>

lemma neutral_rows_inv:
  assumes inv: "storage_inv db"
    and g: "\<And>a. P a \<Longrightarrow> at_id (g a) = at_id a \<and> at_user (g a) = at_user a \<and> at_key (g a) = at_key a
      \<and> at_quota (g a) = at_quota a \<and> at_deletion (g a) = at_deletion a
      \<and> committed_bytes (g a) = committed_bytes a \<and> reserved_bytes (g a) = reserved_bytes a
      \<and> (attachment_check a \<longrightarrow> attachment_check (g a))"
    and db': "ap_attachments db' = update_where P g (ap_attachments db)" "ap_files db' = ap_files db"
      "ap_artifacts db' = ap_artifacts db" "ap_accounts db' = ap_accounts db" "ap_jobs db' = ap_jobs db"
  shows "storage_inv db' \<and> no_object_lost db db'"
proof -
  have keys: "map at_id (ap_attachments db') = map at_id (ap_attachments db)"
    "map at_key (ap_attachments db') = map at_key (ap_attachments db)"
    unfolding db' using g by (auto intro: map_update_where)
  have "at_used v db' = at_used v db" "at_held v db' = at_held v db" for v
    unfolding at_used_def at_held_def db'(1) using g by (auto intro!: tally_update_frame)
  moreover have own: "owners db' = owners db" by (simp add: owners_def db')
  ultimately have ch: "used v db' = used v db" "held v db' = held v db" for v
    using fl_charges_cong[OF db'(2) own, of v] by (simp_all add: used_def held_def)
  have acc: "has_account db' = has_account db" by (rule has_account_cong) (simp add: db')
  have rows: "attachment_check a \<and> has_account db (at_user a)
      \<and> (at_deletion a \<noteq> DelActive \<longrightarrow> at_quota a = StReleased)" if "a \<in> set (ap_attachments db')" for a
    using that attachment_rowD[OF inv] g unfolding db'(1) by (elim in_update_whereE) auto
  have "storage_inv db'"
    using storage_invD[OF inv] rows keys
    by (simp add: storage_inv_def balanced_def attachments_wf_def files_wf_def ch acc db'
        file_owner_cong[OF own])
  moreover have "no_object_lost db db'"
    using keys(2) by (simp add: no_object_lost_def object_keys_def job_keys_def db' flip: set_map)
  ultimately show ?thesis by blast
qed

lemma beginCompletion_inv:
  assumes inv: "storage_inv db" and run: "beginCompletion i user db = Inr (r, db')"
  shows "storage_inv db' \<and> no_object_lost db db'"
proof -
  from run consider "db' = db"
    | "db' = set_attachment i user (\<lambda>x. x\<lparr>at_status := AtScanning, at_failureCode := None\<rparr>) db"
    by (auto simp: beginCompletion_def bindR_eq_Inr split: option.splits if_splits)
  then show ?thesis
  proof cases
    case 2
    show ?thesis
      by (rule neutral_rows_inv[OF inv, where P = "\<lambda>a. at_id a = i \<and> at_user a = user"
            and g = "\<lambda>a. a\<lparr>at_status := AtScanning, at_failureCode := None, at_updatedAt := now db\<rparr>"])
        (simp_all add: 2 set_attachment_rows)
  qed (simp add: inv)
qed

lemma resetCompletion_inv:
  assumes "storage_inv db"
  shows "storage_inv (resetCompletion i user db) \<and> no_object_lost db (resetCompletion i user db)"
  by (rule neutral_rows_inv[OF assms, where P = "\<lambda>a. at_id a = i \<and> at_user a = user
        \<and> at_status a = AtScanning \<and> at_quota a = StReserved \<and> at_deletion a = DelActive"
      and g = "\<lambda>a. a\<lparr>at_status := AtInitiated, at_updatedAt := now db\<rparr>"])
    (simp_all add: resetCompletion_def)

lemma bindToMessage_inv:
  assumes inv: "storage_inv db" and run: "bindToMessage ids conv msg user db = Inr (vs, db')"
  shows "storage_inv db' \<and> no_object_lost db db'"
proof -
  define hit where "hit = (\<lambda>a :: attachment_row. at_id a \<in> set ids \<and> at_user a = user \<and> at_conversation a = conv)"
  define g where "g = (\<lambda>a :: attachment_row. a\<lparr>at_message := Some msg,
      at_boundAt := (case at_boundAt a of None \<Rightarrow> Some (now db) | Some t \<Rightarrow> Some t), at_updatedAt := now db\<rparr>)"
  have db': "db' = db\<lparr>ap_attachments := update_where hit g (ap_attachments db)\<rparr>"
    using run by (auto simp: bindToMessage_def Let_def bindR_eq_Inr hit_def g_def split: if_splits)
  show ?thesis
    by (rule neutral_rows_inv[OF inv, where P = hit and g = g])
      (simp_all add: db' g_def committed_bytes_def reserved_bytes_def attachment_check_def
        split: storage_quota_state.split)
qed

text \<open>Commit, rejection and deletion move bytes.\<close>

lemma replaced_row_inv:
  assumes inv: "storage_inv db" and a: "a \<in> set (ap_attachments db)" "at_id a = i" "at_user a = u"
    and g: "at_id (g a) = i" "at_user (g a) = u" "at_key (g a) = at_key a" "attachment_check (g a)"
      "at_deletion (g a) \<noteq> DelActive \<longrightarrow> at_quota (g a) = StReleased"
    and du: "du = committed_bytes (g a) - committed_bytes a" "dr = reserved_bytes (g a) - reserved_bytes a"
    and le: "du + dr \<le> 0"
    and run: "update_account u (move_bytes du dr) db = Inr db1"
    and db': "ap_attachments db' = update_where (\<lambda>a. at_id a = i \<and> at_user a = u) g (ap_attachments db)"
      "ap_files db' = ap_files db" "ap_artifacts db' = ap_artifacts db" "ap_accounts db' = ap_accounts db1"
  shows "storage_inv db' \<and> object_keys db' = object_keys db"
proof -
  note upd = update_account_simps[OF run]
  have row: "g x = g a" if "x \<in> set (ap_attachments db)" "at_id x = i" for x
    using that a distinct_key_unique[OF storage_invD(4)[OF inv]] by metis
  have keys: "map k (ap_attachments db') = map k (ap_attachments db)" if "k (g a) = k a" for k :: "attachment_row \<Rightarrow> 'k"
    unfolding db' using that row a distinct_key_unique[OF storage_invD(4)[OF inv]]
    by (intro map_update_where) metis
  have "storage_inv db'"
  proof (rule attachment_step(2)[OF inv, where u = u and du = du and dr = dr and f = "move_bytes du dr" and d = db])
    show "at_used v db' = at_used v db + (if v = u then du else 0)"
      "at_held v db' = at_held v db + (if v = u then dr else 0)" for v
      using at_charges_update[OF storage_invD(4)[OF inv] a db'(1) g(2), of v] du by simp_all
    show "distinct (map at_id (ap_attachments db'))"
      using keys[of at_id] g(1) a(2) storage_invD(4)[OF inv] by simp
    show "attachment_check x \<and> has_account db (at_user x) \<and> (at_deletion x \<noteq> DelActive \<longrightarrow> at_quota x = StReleased)"
      if "x \<in> set (ap_attachments db')" for x
      using that unfolding db'(1)
    proof (elim in_update_whereE)
      fix y assume y: "y \<in> set (ap_attachments db)" "at_id y = i \<and> at_user y = u" "x = g y"
      then show ?thesis using row[of y] g attachment_rowD[OF inv a(1)] a(3) by simp
    qed (use attachment_rowD[OF inv] in blast)
    show "sa_used x + sa_reserved x + du + dr \<le> sa_limit x"
      if "x \<in> set (ap_accounts db)" "sa_user x = u" for x
      using storage_invD(1)[OF inv] that le by (auto simp: balanced_def account_check_def)
  qed (simp_all add: db' upd)
  moreover have "object_keys db' = object_keys db"
    using keys[of at_key] g(3) by (simp add: object_keys_def db'(2) flip: set_map)
  ultimately show ?thesis by blast
qed

lemma completeVerified_inv:
  assumes inv: "storage_inv db" and run: "completeVerified i user bytes etag db = Inr (v, db')"
  shows "storage_inv db' \<and> no_object_lost db db'"
proof -
  from run obtain a db1 where a: "find_attachment i user (\<lambda>a. at_status a = AtScanning
      \<and> at_quota a = StReserved \<and> at_deletion a = DelActive) db = Some a" "at_declared a = bytes"
    and acc: "update_account user (move_bytes bytes (- at_declared a)) db = Inr db1"
    and db': "db' = set_attachment i user (commit_attachment bytes etag (now db) (at_kind a = KindImage)) db1"
    by (auto simp: completeVerified_def Let_def bindR_eq_Inr split: option.splits if_splits)
  note row = find_attachment_SomeD[OF a(1)]
  note chk = attachment_rowD[OF inv conjunct1[OF row]]
  note upd = update_account_simps[OF acc]
  define g where "g = (\<lambda>x. (commit_attachment bytes etag (now db) (at_kind a = KindImage) x)\<lparr>at_updatedAt := now db\<rparr>)"
  have "storage_inv db' \<and> object_keys db' = object_keys db"
  proof (rule replaced_row_inv[OF inv _ _ _ _ _ _ _ _ _ _ _ acc, where a = a and g = g])
    show "attachment_check (g a)"
      using chk row a(2) by (simp add: g_def commit_attachment_def attachment_check_def)
    show "ap_attachments db' = update_where (\<lambda>a. at_id a = i \<and> at_user a = user) g (ap_attachments db)"
      by (simp add: db' set_attachment_rows upd g_def)
    show "ap_accounts db' = ap_accounts db1" "ap_files db' = ap_files db" "ap_artifacts db' = ap_artifacts db"
      by (simp_all add: db' set_attachment_rows upd)
  qed (use row a(2) in \<open>simp_all add: g_def commit_attachment_def committed_bytes_def reserved_bytes_def\<close>)
  then show ?thesis by (simp add: no_object_lost_def job_keys_def db' set_attachment_rows upd)
qed

lemma rejectCompletion_inv:
  assumes inv: "storage_inv db" and run: "rejectCompletion i user code db = Inr db'"
  shows "storage_inv db' \<and> no_object_lost db db'"
proof (cases "find_attachment i user (\<lambda>a. at_status a = AtScanning \<and> at_quota a = StReserved) db")
  case None
  with run inv show ?thesis by (simp add: rejectCompletion_def)
next
  case (Some a)
  from run Some obtain db1 where
    acc: "update_account user (move_bytes 0 (- at_declared a)) db = Inr db1"
    and db': "db' = queue_deletion user ObjAttachment i (at_key a) (now db)
        (set_attachment i user (reject_attachment code) db1)"
    by (auto simp: rejectCompletion_def Let_def bindR_eq_Inr)
  note row = find_attachment_SomeD[OF Some]
  note chk = attachment_rowD[OF inv conjunct1[OF row]]
  note upd = update_account_simps[OF acc]
  define d where "d = set_attachment i user (reject_attachment code) db1"
  define g where "g = (\<lambda>x. (reject_attachment code x)\<lparr>at_updatedAt := now db\<rparr>)"
  have "storage_inv d \<and> object_keys d = object_keys db"
  proof (rule replaced_row_inv[OF inv _ _ _ _ _ _ _ _ _ _ _ acc, where a = a and g = g])
    show "attachment_check (g a)"
      using chk by (simp add: g_def reject_attachment_def attachment_check_def)
    show "ap_attachments d = update_where (\<lambda>a. at_id a = i \<and> at_user a = user) g (ap_attachments db)"
      by (simp add: d_def set_attachment_rows upd g_def)
    show "ap_accounts d = ap_accounts db1" "ap_files d = ap_files db" "ap_artifacts d = ap_artifacts db"
      by (simp_all add: d_def set_attachment_rows upd)
    show "0 + - at_declared a \<le> 0" using chk by (simp add: attachment_check_def)
  qed (use row in \<open>simp_all add: g_def reject_attachment_def committed_bytes_def reserved_bytes_def\<close>)
  moreover have "same_storage d db'" by (simp add: db' d_def queue_deletion_same)
  moreover have "job_keys db' = insert (at_key a) (job_keys db)"
    by (simp add: db' queue_deletion_keys) (simp add: job_keys_def set_attachment_rows upd)
  ultimately show ?thesis
    using same_storage_inv[of d db'] by (auto simp: no_object_lost_def object_keys_def same_storage_def)
qed

lemma removed_attachment_inv:
  assumes inv: "storage_inv db" and a: "a \<in> set (ap_attachments db)" "at_id a = i" "at_user a = u"
    and queued: "same_storage db db1" "job_keys db1 = insert (at_key a) (job_keys db)"
    and run: "update_account u (release_bytes (committed_bytes a) (reserved_bytes a)) db1 = Inr db2"
    and db': "db' = delete_attachment i u db2"
  shows "storage_inv db' \<and> no_object_lost db db'"
proof -
  note upd = update_account_simps[OF run]
  have inv1: "storage_inv db1" using inv same_storage_inv[OF queued(1)] by simp
  have at1: "ap_attachments db1 = ap_attachments db" "ap_files db1 = ap_files db"
    using queued(1) by (simp_all add: same_storage_def)
  have rows: "ap_attachments db' = filter (\<lambda>a. \<not> (at_id a = i \<and> at_user a = u)) (ap_attachments db1)"
    "ap_files db' = ap_files db1" "ap_artifacts db' = ap_artifacts db1" "ap_accounts db' = ap_accounts db2"
    "ap_jobs db' = ap_jobs db1"
    by (simp_all add: db' delete_attachment_def upd)
  have a1: "a \<in> set (ap_attachments db1)" using a at1 by simp
  have chk: "attachment_check a" using attachment_rowD[OF inv a(1)] by simp
  note nonneg = committed_nonneg[OF chk] reserved_nonneg[OF chk]
  have "storage_inv db'"
  proof (rule attachment_step(2)[OF inv1, where u = u and du = "- committed_bytes a"
        and dr = "- reserved_bytes a" and f = "release_bytes (committed_bytes a) (reserved_bytes a)" and d = db1])
    have del: "at_used v db' = at_used v db1 - (if v = u then committed_bytes a else 0)"
      "at_held v db' = at_held v db1 - (if v = u then reserved_bytes a else 0)" for v
      using at_charges_delete[OF storage_invD(4)[OF inv1] a1 a(2,3) rows(1)] by simp_all
    then show "at_used v db' = at_used v db1 + (if v = u then - committed_bytes a else 0)"
      "at_held v db' = at_held v db1 + (if v = u then - reserved_bytes a else 0)" for v by simp_all
    have own: "owners db' = owners db1" by (simp add: owners_def rows)
    have delta: "used u db' = used u db1 - committed_bytes a" "held u db' = held u db1 - reserved_bytes a"
      using del[of u] fl_charges_cong[OF rows(2) own, of u] by (simp_all add: used_def held_def)
    show "sa_user (release_bytes (committed_bytes a) (reserved_bytes a) x) = sa_user x \<and>
      sa_limit (release_bytes (committed_bytes a) (reserved_bytes a) x) = sa_limit x \<and>
      (0 \<le> used u db' \<longrightarrow> sa_used x = used u db1 \<longrightarrow>
        sa_used (release_bytes (committed_bytes a) (reserved_bytes a) x) = sa_used x + - committed_bytes a) \<and>
      (0 \<le> held u db' \<longrightarrow> sa_reserved x = held u db1 \<longrightarrow>
        sa_reserved (release_bytes (committed_bytes a) (reserved_bytes a) x) = sa_reserved x + - reserved_bytes a)" for x
      using delta by simp
    show "distinct (map at_id (ap_attachments db'))"
      using storage_invD(4)[OF inv1] by (simp add: rows(1) distinct_map_filter)
    show "attachment_check x \<and> has_account db1 (at_user x) \<and> (at_deletion x \<noteq> DelActive \<longrightarrow> at_quota x = StReleased)"
      if "x \<in> set (ap_attachments db')" for x
      using that attachment_rowD[OF inv1] by (auto simp: rows)
    show "sa_used x + sa_reserved x + - committed_bytes a + - reserved_bytes a \<le> sa_limit x"
      if "x \<in> set (ap_accounts db1)" "sa_user x = u" for x
      using storage_invD(1)[OF inv1] that nonneg by (auto simp: balanced_def account_check_def)
  qed (simp_all add: rows upd)
  moreover have "no_object_lost db db'"
  proof -
    have "at_key x = at_key a" if "x \<in> set (ap_attachments db)" "at_id x = i" for x
      using that a distinct_key_unique[OF storage_invD(4)[OF inv]] by metis
    then show ?thesis
      using queued(2) by (auto simp: no_object_lost_def object_keys_def job_keys_def rows at1)
  qed
  ultimately show ?thesis by blast
qed

lemma parseTarget_SomeD: "parseTarget row = Inr (Some a) \<Longrightarrow> row = Some a"
  by (auto simp: parseTarget_def bindR_eq_Inr split: option.splits if_splits)

lemma deleteUnbound_inv:
  assumes inv: "storage_inv db" and run: "deleteUnbound i user db = Inr db'"
  shows "storage_inv db' \<and> no_object_lost db db'"
proof -
  from run obtain a db2 where a: "find_owned i user (\<lambda>a. at_message a = None \<and> at_deletion a = DelActive) db = Some a"
    and acc: "update_account user (release_bytes (if at_quota a = StCommitted then public_size a else 0)
        (reserved_bytes a)) (queue_deletion user ObjAttachment (at_id a) (at_key a)
          (if at_quota a = StReserved then at_uploadExpiresAt a + 60000 else now db) db) = Inr db2"
    and db': "db' = delete_attachment i user db2"
    unfolding deleteUnbound_def Let_def
    by (fastforce simp: bindR_eq_Inr dest: parseTarget_SomeD split: option.splits)
  note row = find_owned_SomeD[OF a]
  have "attachment_check a" using attachment_rowD[OF inv] row by blast
  then have "(if at_quota a = StCommitted then public_size a else 0) = committed_bytes a"
    by (auto simp: attachment_check_def public_size_def committed_bytes_def split: option.splits)
  with acc show ?thesis
    using removed_attachment_inv[OF inv _ _ _ queue_deletion_same queue_deletion_keys _ db', of a] row by simp
qed

lemma expire_orphan_inv:
  assumes inv: "storage_inv db" and run: "expire_orphan a db = Inr db'" and a: "a \<in> set (ap_attachments db)"
  shows "storage_inv db' \<and> no_object_lost db db'"
proof -
  from run obtain db2 where "update_account (at_user a) (release_bytes (committed_bytes a) (reserved_bytes a))
      (queue_deletion (at_user a) ObjAttachment (at_id a) (at_key a) (now db) db) = Inr db2"
    "db' = delete_attachment (at_id a) (at_user a) db2"
    by (auto simp: expire_orphan_def Let_def bindR_eq_Inr)
  from removed_attachment_inv[OF inv a refl refl queue_deletion_same queue_deletion_keys this]
  show ?thesis .
qed

end
