(* ===== verification/Storage_Artifacts.thy ===== *)
theory Storage_Artifacts
  imports Storage_Steps
begin

section \<open>Artifacts and removals keep the books\<close>

text \<open>
  The storage invariant under the operations on artifacts and their files, the cleanup of a
  failed run, the deletion of conversations and the expiry of unbound attachments; then the
  step relation of the whole private storage and the invariant of its reachable states.
\<close>

subsection \<open>Charges of files\<close>

lemma unchanged_books_inv:
  assumes inv: "storage_inv db" and acc: "ap_accounts db' = ap_accounts db"
    and ch: "\<And>v. used v db' = used v db" "\<And>v. held v db' = held v db"
    and wfa: "distinct (map at_id (ap_attachments db'))"
      "\<And>a. a \<in> set (ap_attachments db') \<Longrightarrow> attachment_check a \<and> has_account db (at_user a)
        \<and> (at_deletion a \<noteq> DelActive \<longrightarrow> at_quota a = StReleased)"
    and wff: "distinct (map af_id (ap_artifacts db'))" "distinct (map fl_id (ap_files db'))"
      "\<And>x. x \<in> set (ap_files db') \<Longrightarrow> file_check x \<and> fl_deletion x = DelActive
        \<and> (\<exists>w. file_owner db' x = Some w \<and> has_account db w)"
  shows "storage_inv db'"
  using inv wfa wff has_account_cong[OF acc]
  by (simp add: storage_inv_def balanced_def attachments_wf_def files_wf_def ch acc)

lemma file_rowD:
  "storage_inv db \<Longrightarrow> x \<in> set (ap_files db) \<Longrightarrow> file_check x \<and> fl_deletion x = DelActive
     \<and> (\<exists>w. file_owner db x = Some w \<and> has_account db w)"
  by (simp add: storage_inv_def files_wf_def)

lemma owners_ids: "map af_id (ap_artifacts db) = map fst (owners db)"
  by (simp add: owners_def)

lemma owners_update_where:
  "(\<And>a. P a \<Longrightarrow> af_id (g a) = af_id a \<and> af_user (g a) = af_user a) \<Longrightarrow>
   ap_artifacts db' = update_where P g (ap_artifacts db) \<Longrightarrow> owners db' = owners db"
  by (simp add: owners_def map_update_where)

lemma neutral_artifacts_inv:
  assumes inv: "storage_inv db" and own: "owners db' = owners db"
    and same: "ap_attachments db' = ap_attachments db" "ap_files db' = ap_files db"
      "ap_accounts db' = ap_accounts db"
  shows "storage_inv db'"
proof (rule unchanged_books_inv[OF inv same(3)])
  fix v
  show "used v db' = used v db" "held v db' = held v db"
    using at_charges_cong[OF same(1), of v] fl_charges_cong[OF same(2) own, of v]
    by (simp_all add: used_def held_def)
  show "distinct (map af_id (ap_artifacts db'))"
    using storage_invD(6)[OF inv] by (simp add: owners_ids own)
qed (use storage_invD[OF inv] attachment_rowD[OF inv] file_rowD[OF inv] in
    \<open>simp_all add: same file_owner_cong[OF own]\<close>)

lemma set_artifact_simps [simp]:
  "ap_attachments (set_artifact i u f db) = ap_attachments db" "ap_files (set_artifact i u f db) = ap_files db"
  "ap_accounts (set_artifact i u f db) = ap_accounts db" "ap_jobs (set_artifact i u f db) = ap_jobs db"
  "ap_quota (set_artifact i u f db) = ap_quota db" "ap_runs (set_artifact i u f db) = ap_runs db"
  by (simp_all add: set_artifact_def)

lemma set_artifact_owners:
  "(\<And>a. af_id (f a) = af_id a \<and> af_user (f a) = af_user a) \<Longrightarrow>
   owners (set_artifact i u f db) = owners db"
  by (rule owners_update_where[where P = "\<lambda>a. af_id a = i \<and> af_user a = u"
        and g = "\<lambda>a. (f a)\<lparr>af_updatedAt := now db\<rparr>"]) (simp_all add: set_artifact_def)

lemma file_owner_artifact:
  assumes "storage_inv db" "a \<in> set (ap_artifacts db)" "fl_artifact f = af_id a"
  shows "file_owner db f = Some (af_user a)"
  using assms lookup_Some_iff[OF storage_invD(6)[OF assms(1)], of "af_id a" a]
  by (simp add: file_owner_def)

lemma find_artifact_SomeD:
  "find_artifact i u P db = Some a \<Longrightarrow>
   a \<in> set (ap_artifacts db) \<and> af_id a = i \<and> af_user a = u \<and> P a"
  unfolding find_artifact_def by (drule find_SomeD) simp

lemma find_file_SomeD:
  "find_file i art P db = Some f \<Longrightarrow>
   f \<in> set (ap_files db) \<and> fl_id f = i \<and> fl_artifact f = art \<and> P f"
  unfolding find_file_def by (drule find_SomeD) simp

lemma fl_charges_removed:
  assumes own: "file_owner db' = file_owner db"
    and fl: "ap_files db' = filter (\<lambda>f. \<not> P f) (ap_files db)"
    and u: "\<And>f. f \<in> set (ap_files db) \<Longrightarrow> P f \<Longrightarrow> file_owner db f = Some u"
  shows "fl_used v db' = fl_used v db + (if v = u then - sum_list (map file_committed (filter P (ap_files db))) else 0)"
    and "fl_held v db' = fl_held v db + (if v = u then - sum_list (map file_reserved (filter P (ap_files db))) else 0)"
proof -
  have "tally (\<lambda>f. file_owner db f = Some v \<and> P f) w (ap_files db)
      = (if v = u then sum_list (map w (filter P (ap_files db))) else 0)" for w
  proof (cases "v = u")
    case True
    have "tally (\<lambda>f. file_owner db f = Some v \<and> P f) w (ap_files db) = tally P w (ap_files db)"
      using u True by (intro tally_cong) auto
    with True show ?thesis by (simp add: tally_sum_list)
  next
    case False
    then show ?thesis using u by (auto intro: tally_zero)
  qed
  then show "fl_used v db' = fl_used v db + (if v = u then - sum_list (map file_committed (filter P (ap_files db))) else 0)"
    "fl_held v db' = fl_held v db + (if v = u then - sum_list (map file_reserved (filter P (ap_files db))) else 0)"
    unfolding fl_used_def fl_held_def own fl tally_remove by simp_all
qed

lemma sum_file_nonneg:
  assumes "storage_inv db"
  shows "0 \<le> sum_list (map file_committed (filter P (ap_files db)))"
    "0 \<le> sum_list (map file_reserved (filter P (ap_files db)))"
  using assms file_rowD file_nonneg by (auto intro!: sum_list_nonneg)

lemma release_storage_simps:
  assumes "release_storage u c r d = Inr d'"
  shows "ap_attachments d' = ap_attachments d" "ap_files d' = ap_files d"
    "ap_artifacts d' = ap_artifacts d" "ap_jobs d' = ap_jobs d" "now d' = now d"
    "ap_runs d' = ap_runs d" "ap_conversations d' = ap_conversations d"
    "ap_messages d' = ap_messages d" "ap_turns d' = ap_turns d" "ap_quota d' = ap_quota d"
proof -
  have "\<exists>accs. d' = d\<lparr>ap_accounts := accs\<rparr>"
  proof (cases "0 < c \<or> 0 < r")
    case True
    then have "update_account u (release_bytes c r) d = Inr d'" using assms by (simp add: release_storage_def)
    then show ?thesis by (blast dest: update_account_InrD)
  next
    case False
    then have "d' = d\<lparr>ap_accounts := ap_accounts d\<rparr>" using assms by (simp add: release_storage_def)
    then show ?thesis by blast
  qed
  then show "ap_attachments d' = ap_attachments d" "ap_files d' = ap_files d"
    "ap_artifacts d' = ap_artifacts d" "ap_jobs d' = ap_jobs d" "now d' = now d"
    "ap_runs d' = ap_runs d" "ap_conversations d' = ap_conversations d"
    "ap_messages d' = ap_messages d" "ap_turns d' = ap_turns d" "ap_quota d' = ap_quota d"
    by auto
qed

text \<open>Removing files of one account, their bytes given back.\<close>

lemma removed_files_inv:
  assumes inv: "storage_inv db"
    and u: "\<And>f. f \<in> set (ap_files db) \<Longrightarrow> P f \<Longrightarrow> file_owner db f = Some u"
    and c: "c = sum_list (map file_committed (filter P (ap_files db)))"
    and r: "r = sum_list (map file_reserved (filter P (ap_files db)))"
    and run: "release_storage u c r d = Inr d'"
    and d: "ap_accounts d = ap_accounts db"
    and db': "ap_files db' = filter (\<lambda>f. \<not> P f) (ap_files db)" "owners db' = owners db"
      "ap_attachments db' = ap_attachments db" "ap_accounts db' = ap_accounts d'"
    and jobs: "job_keys db' = job_keys db \<union> fl_key ` {f \<in> set (ap_files db). P f}"
  shows "storage_inv db' \<and> no_object_lost db db'"
proof -
  note own = file_owner_cong[OF db'(2)]
  note nonneg = sum_file_nonneg[OF inv, of P, folded c r]
  have fl: "fl_used v db' = fl_used v db + (if v = u then - c else 0)"
    "fl_held v db' = fl_held v db + (if v = u then - r else 0)" for v
    using fl_charges_removed[OF own db'(1) u, of v] by (simp_all add: c r)
  have delta: "used v db' = used v db + (if v = u then - c else 0)"
    "held v db' = held v db + (if v = u then - r else 0)" for v
    using fl[of v] at_charges_cong[OF db'(3), of v] by (simp_all add: used_def held_def)
  have wff: "distinct (map af_id (ap_artifacts db'))" "distinct (map fl_id (ap_files db'))"
    "\<And>x. x \<in> set (ap_files db') \<Longrightarrow> file_check x \<and> fl_deletion x = DelActive
        \<and> (\<exists>w. file_owner db' x = Some w \<and> has_account db w)"
    using storage_invD(5,6)[OF inv] file_rowD[OF inv]
    by (auto simp: owners_ids db' own distinct_map_filter)
  have "storage_inv db'"
  proof (cases "0 < c \<or> 0 < r")
    case True
    then have acc: "ap_accounts db' = update_where (\<lambda>a. sa_user a = u)
        (\<lambda>a. (release_bytes c r a)\<lparr>sa_updatedAt := now d\<rparr>) (ap_accounts d)"
      using run db'(4) update_account_simps(1)[of u "release_bytes c r" d d'] by (simp add: release_storage_def)
    show ?thesis
    proof (rule file_step(2)[OF inv db'(3) fl wff, where f = "release_bytes c r" and d = d])
      show "sa_used a + sa_reserved a + - c + - r \<le> sa_limit a"
        if "a \<in> set (ap_accounts db)" "sa_user a = u" for a
        using storage_invD(1)[OF inv] that nonneg by (auto simp: balanced_def account_check_def)
    qed (use delta d acc in simp_all)
  next
    case False
    with nonneg have zero: "c = 0" "r = 0" by simp_all
    have "ap_accounts db' = ap_accounts db" using run False db'(4) d by (simp add: release_storage_def)
    then show ?thesis
    proof (rule unchanged_books_inv[OF inv])
      show "used v db' = used v db" "held v db' = held v db" for v using delta[of v] zero by simp_all
    qed (use wff storage_invD(4)[OF inv] attachment_rowD[OF inv] db'(3) in simp_all)
  qed
  moreover have "no_object_lost db db'"
    using jobs by (auto simp: no_object_lost_def object_keys_def db')
  ultimately show ?thesis by blast
qed

subsection \<open>Artifact operations\<close>

lemma createArtifact_inv:
  assumes inv: "storage_inv db" and run: "createArtifact i user conv rid msg spec db = Inr (v, db')"
  shows "storage_inv db' \<and> no_object_lost db db'"
proof -
  from run have a: "af_id v = i" "\<not> (\<exists>x\<in>set (ap_artifacts db). af_id x = i)"
    and db': "db' = db\<lparr>ap_artifacts := ap_artifacts db @ [v]\<rparr>"
    by (auto simp: createArtifact_def Let_def bindR_eq_Inr parseArtifact_def split: if_splits)
  have own: "file_owner db' f = file_owner db f" if "f \<in> set (ap_files db)" for f
    using file_rowD[OF inv that] by (auto simp: file_owner_def db' lookup_append split: option.splits)
  have "fl_used v db' = fl_used v db" "fl_held v db' = fl_held v db" for v
    using own by (auto simp: fl_used_def fl_held_def db' intro!: tally_cong)
  then have "storage_inv db'"
    using at_charges_cong[of db' db] own storage_invD[OF inv] attachment_rowD[OF inv] file_rowD[OF inv] a
    by (intro unchanged_books_inv[OF inv]) (auto simp: db' used_def held_def at_used_def at_held_def)
  then show ?thesis by (simp add: no_object_lost_def object_keys_def job_keys_def db')
qed

lemma reserveFile_inv:
  assumes inv: "storage_inv db" and run: "reserveFile inp db = Inr db'"
  shows "storage_inv db' \<and> no_object_lost db db'"
proof -
  define u where "u = fi_user inp"
  define db1 where "db1 = ensure_account u db"
  define x where "x = new_file inp db1"
  from run obtain a q db2 db3 where a: "find_artifact (fi_artifact inp) u (\<lambda>a. af_conversation a = fi_conversation inp
        \<and> af_status a = ArGenerating \<and> af_deletedAt a = None \<and> fi_format inp \<in> set (af_formats a)) db = Some a"
    and q: "lookup sa_user u (ap_accounts db1) = Some q" "\<not> sa_limit q < sa_used q + sa_reserved q + fi_size inp"
    and ins: "insert_file x db1 = Inr db2"
    and acc: "update_account u (move_bytes 0 (fi_size inp)) db2 = Inr db3"
    and db': "db' = set_artifact (fi_artifact inp) u (\<lambda>a. a\<lparr>af_status := ArGenerating\<rparr>) db3"
    by (auto simp: reserveFile_def Let_def bindR_eq_Inr u_def db1_def x_def split: if_splits option.splits)
  note upd = update_account_simps[OF acc]
  have inv1: "storage_inv db1" and has: "has_account db1 u"
    using ensure_account_inv[OF inv, of u] by (simp_all add: db1_def)
  from ins have x: "file_check x" "fl_id x \<notin> fl_id ` set (ap_files db1)"
    and db2: "db2 = db1\<lparr>ap_files := ap_files db1 @ [x]\<rparr>"
    by (auto simp: insert_file_def split: if_splits)
  have row: "fl_artifact x = fi_artifact inp" "fl_deletion x = DelActive" "file_committed x = 0"
    "file_reserved x = fi_size inp"
    by (simp_all add: x_def new_file_def file_committed_def file_reserved_def)
  have own: "owners db' = owners db1"
    by (simp add: db' set_artifact_owners) (simp add: owners_def upd db2)
  have "file_owner db1 x = Some u"
    using find_artifact_SomeD[OF a] file_owner_artifact[OF inv1, of a x] row by (simp add: db1_def)
  then have ox: "file_owner db' x = Some u" by (simp add: file_owner_cong[OF own])
  have "storage_inv db'"
  proof (rule file_step(2)[OF inv1, where u = u and du = 0 and dr = "fi_size inp"
        and f = "move_bytes 0 (fi_size inp)" and d = db2])
    show "fl_used v db' = fl_used v db1 + (if v = u then 0 else 0)"
      "fl_held v db' = fl_held v db1 + (if v = u then fi_size inp else 0)" for v
      using row ox file_owner_cong[OF own]
      by (simp_all add: fl_used_def fl_held_def upd db2 db' tally_append tally_Cons tally_Nil)
    show "distinct (map af_id (ap_artifacts db'))"
      using storage_invD(6)[OF inv1] by (simp add: owners_ids own)
    show "distinct (map fl_id (ap_files db'))"
      using storage_invD(5)[OF inv1] x by (simp add: upd db2 db')
    show "file_check y \<and> fl_deletion y = DelActive \<and> (\<exists>w. file_owner db' y = Some w \<and> has_account db1 w)"
      if "y \<in> set (ap_files db')" for y
      using that file_rowD[OF inv1, of y] x row has ox
      by (auto simp: upd db2 db' file_owner_cong[OF own[unfolded db']])
    show "sa_used y + sa_reserved y + 0 + fi_size inp \<le> sa_limit y"
      if "y \<in> set (ap_accounts db1)" "sa_user y = u" for y
      using lookup_account[OF storage_invD(1)[OF inv1] q(1) that] q(2) by simp
  qed (simp_all add: upd db2 db')
  moreover have "no_object_lost db db'"
    by (auto simp: no_object_lost_def object_keys_def job_keys_def upd db2 db1_def db')
  ultimately show ?thesis by blast
qed

lemma commitFile_inv:
  assumes inv: "storage_inv db" and run: "commitFile i art user db = Inr (v, db')"
  shows "storage_inv db' \<and> no_object_lost db db'"
proof -
  from run obtain f a db1 where f: "find_file i art (\<lambda>f. fl_quota f = StReserved \<and> fl_deletion f = DelActive) db = Some f"
    and a: "find_artifact art user (\<lambda>a. af_status a = ArGenerating \<and> af_deletedAt a = None) db = Some a"
    and acc: "update_account user (move_bytes (fl_size f) (- fl_size f)) db = Inr db1"
    and db': "db' = set_artifact art user id (set_file i art (\<lambda>x. x\<lparr>fl_quota := StCommitted\<rparr>) db1)"
    by (auto simp: commitFile_def Let_def bindR_eq_Inr split: option.splits if_splits)
  note row = find_file_SomeD[OF f]
  note arow = find_artifact_SomeD[OF a]
  note upd = update_account_simps[OF acc]
  define g where "g = (\<lambda>x :: artifact_file. x\<lparr>fl_quota := StCommitted\<rparr>)"
  have fl: "ap_files db' = update_where (\<lambda>x. fl_id x = fl_id f) g (ap_files db)"
    using update_where_row[OF storage_invD(5)[OF inv], of f "\<lambda>x. fl_id x = i \<and> fl_artifact x = art" g] row
    by (simp add: db' set_file_def upd g_def)
  have own: "owners db' = owners db"
    by (simp add: db' set_artifact_owners) (simp add: owners_def set_file_def upd)
  have og: "file_owner db (g x) = file_owner db x" "file_check (g x) = file_check x"
    "fl_id (g x) = fl_id x" "fl_key (g x) = fl_key x" "fl_deletion (g x) = fl_deletion x" for x
    by (simp_all add: g_def file_owner_def file_check_def)
  have owner: "file_owner db f = Some user"
    using file_owner_artifact[OF inv, of a f] arow row by simp
  have ids: "map fl_id (ap_files db') = map fl_id (ap_files db)" "map fl_key (ap_files db') = map fl_key (ap_files db)"
    unfolding fl by (simp_all add: map_update_where og)
  have moved: "tally Q w (ap_files db') = tally Q w (ap_files db) - (if Q f then w f else 0)
      + (if Q (g f) then w (g f) else 0)" for Q w
    unfolding fl using tally_update_one[OF storage_invD(5)[OF inv]] row by blast
  have "storage_inv db'"
  proof (rule file_step(2)[OF inv, where u = user and du = "fl_size f" and dr = "- fl_size f"
        and f = "move_bytes (fl_size f) (- fl_size f)" and d = db])
    show "fl_used v db' = fl_used v db + (if v = user then fl_size f else 0)"
      "fl_held v db' = fl_held v db + (if v = user then - fl_size f else 0)" for v
      using moved[of "\<lambda>x. file_owner db x = Some v" file_committed]
        moved[of "\<lambda>x. file_owner db x = Some v" file_reserved] row owner
      by (simp_all add: fl_used_def fl_held_def file_owner_cong[OF own] og)
        (auto simp: g_def file_committed_def file_reserved_def)
    show "distinct (map af_id (ap_artifacts db'))" "distinct (map fl_id (ap_files db'))"
      using storage_invD(5,6)[OF inv] by (simp_all add: owners_ids own ids)
    show "file_check y \<and> fl_deletion y = DelActive \<and> (\<exists>w. file_owner db' y = Some w \<and> has_account db w)"
      if "y \<in> set (ap_files db')" for y
      using that file_rowD[OF inv] unfolding fl file_owner_cong[OF own]
      by (elim in_update_whereE) (simp_all add: og)
    show "sa_used y + sa_reserved y + fl_size f + - fl_size f \<le> sa_limit y"
      if "y \<in> set (ap_accounts db)" "sa_user y = user" for y
      using storage_invD(1)[OF inv] that by (auto simp: balanced_def account_check_def)
  qed (simp_all add: db' set_file_def upd)
  moreover have "no_object_lost db db'"
    using ids(2) by (simp add: no_object_lost_def object_keys_def job_keys_def db' set_file_def upd flip: set_map)
  ultimately show ?thesis by blast
qed

lemma abortFile_inv:
  assumes inv: "storage_inv db" and run: "abortFile i art user key db = Inr db'"
  shows "storage_inv db' \<and> no_object_lost db db'"
proof -
  define flop where "flop = set_artifact art user (\<lambda>a. a\<lparr>af_status := ArFailed\<rparr>)"
  have flop: "owners (flop d) = owners d" "ap_attachments (flop d) = ap_attachments d"
    "ap_files (flop d) = ap_files d" "ap_accounts (flop d) = ap_accounts d" "ap_jobs (flop d) = ap_jobs d" for d
    by (simp_all add: flop_def set_artifact_owners)
  from run consider (keep) "db' = flop (requeue_deletion user i key db)"
    | (drop) a f db1 where "find_artifact art user (\<lambda>_. True) db = Some a"
      "find_file i art (\<lambda>f. fl_quota f = StReserved) db = Some f" "fl_key f = key"
      "update_account user (release_bytes 0 (fl_size f)) db = Inr db1"
      "db' = flop (delete_files (\<lambda>x. fl_id x = i \<and> fl_artifact x = art) (requeue_deletion user i key db1))"
    unfolding abortFile_def Let_def flop_def[symmetric]
    by (auto simp: bindR_eq_Inr split: option.splits if_splits)
  then show ?thesis
  proof cases
    case keep
    define d where "d = requeue_deletion user i key db"
    have d: "storage_inv d" "job_keys d = insert key (job_keys db)" "object_keys d = object_keys db"
      using same_storage_inv[OF requeue_deletion_same[of db user i key]] inv
        requeue_deletion_same[of db user i key]
      by (simp_all add: d_def requeue_deletion_keys object_keys_def same_storage_def)
    have "storage_inv db'"
      using neutral_artifacts_inv[OF d(1), of db'] by (simp add: keep flop flip: d_def)
    moreover have "object_keys db' = object_keys d" "job_keys db' = job_keys d"
      by (simp_all add: keep flop object_keys_def job_keys_def flip: d_def)
    ultimately show ?thesis using d by (auto simp: no_object_lost_def)
  next
    case (drop a f db1)
    note row = find_file_SomeD[OF drop(2)]
    note upd = update_account_simps[OF drop(4)]
    define d where "d = requeue_deletion user i key db1"
    have d: "ap_accounts d = ap_accounts db1" "ap_attachments d = ap_attachments db" "ap_files d = ap_files db"
      "ap_artifacts d = ap_artifacts db" "job_keys d = insert key (job_keys db)"
      using requeue_deletion_same[of db1 user i key] requeue_deletion_keys[of user i key db1]
      by (simp_all add: d_def same_storage_def upd) (simp add: job_keys_def upd)
    define P where "P = (\<lambda>x :: artifact_file. fl_id x = i \<and> fl_artifact x = art)"
    have only: "filter P (ap_files db) = [f]"
        by (rule distinct_filter_one[OF storage_invD(5)[OF inv]]) (use row in \<open>auto simp: P_def\<close>)
    have size: "0 < fl_size f" using file_rowD[OF inv] row by (auto simp: file_check_def)
    have own: "file_owner db f = Some user"
      using file_owner_artifact[OF inv, of a f] find_artifact_SomeD[OF drop(1)] row by simp
    show ?thesis
    proof (rule removed_files_inv[OF inv, where u = user and c = 0 and r = "fl_size f" and P = P and d = db and d' = db1])
      show "file_owner db x = Some user" if "x \<in> set (ap_files db)" "P x" for x
      proof -
        have "x \<in> set (filter P (ap_files db))" using that by simp
        then show ?thesis using own unfolding only by simp
      qed
      show "0 = sum_list (map file_committed (filter P (ap_files db)))"
        "fl_size f = sum_list (map file_reserved (filter P (ap_files db)))"
        using row by (simp_all add: only file_committed_def file_reserved_def)
      show "job_keys db' = job_keys db \<union> fl_key ` {x \<in> set (ap_files db). P x}"
      proof -
        have "{x \<in> set (ap_files db). P x} = {f}" using only by (metis list.set(1) list.set(2) set_filter)
        moreover have "job_keys db' = job_keys d"
          by (simp add: drop(5) flop delete_files_def job_keys_def flip: d_def)
        ultimately show ?thesis using d(5) drop(3) by simp
      qed
      show "owners db' = owners db"
        by (simp add: drop(5) flop flip: d_def) (simp add: owners_def delete_files_def d)
    qed (use size drop(4) d in \<open>simp_all add: release_storage_def drop(5) flop delete_files_def P_def flip: d_def\<close>)
  qed
qed

lemma completeArtifact_inv:
  assumes inv: "storage_inv db" and run: "completeArtifact i user conv db = Inr (v, db')"
  shows "storage_inv db' \<and> no_object_lost db db'"
proof -
  from run have db': "db' = set_artifact i user (\<lambda>x. x\<lparr>af_status := ArReady, af_readyAt := Some (now db)\<rparr>) db"
    by (auto simp: completeArtifact_def Let_def bindR_eq_Inr split: option.splits if_splits)
  have "storage_inv db'"
    by (rule neutral_artifacts_inv[OF inv]) (simp_all add: db' set_artifact_owners)
  then show ?thesis by (simp add: no_object_lost_def object_keys_def job_keys_def db')
qed

lemma failArtifact_inv:
  assumes inv: "storage_inv db" and run: "failArtifact i user conv db = Inr (ks, db')"
  shows "storage_inv db' \<and> no_object_lost db db'"
proof -
  from run obtain a where a: "find_artifact i user (\<lambda>a. af_conversation a = conv \<and> af_deletedAt a = None) db = Some a"
    by (auto simp: failArtifact_def split: option.splits)
  note arow = find_artifact_SomeD[OF a]
  define files where "files = filter (\<lambda>f. fl_artifact f = i) (ap_files db)"
  have active: "filter (\<lambda>f. fl_artifact f = i \<and> fl_deletion f = DelActive) (ap_files db) = files"
    unfolding files_def using file_rowD[OF inv] by (intro filter_cong) auto
  define db1 where "db1 = queue_files user files db"
  define flop where "flop = set_artifact i user (\<lambda>x. if af_status x = ArDeleted then x
    else x\<lparr>af_status := ArFailed, af_readyAt := None\<rparr>)"
  have flop: "owners (flop d) = owners d" "ap_attachments (flop d) = ap_attachments d"
    "ap_files (flop d) = ap_files d" "ap_accounts (flop d) = ap_accounts d" "ap_jobs (flop d) = ap_jobs d" for d
    by (simp_all add: flop_def set_artifact_owners)
  from run a consider "db' = db" | d' where
    "release_storage user (sum_list (map file_committed files)) (sum_list (map file_reserved files)) db1 = Inr d'"
    "db' = flop (delete_files (\<lambda>f. fl_artifact f = i) d')"
    unfolding failArtifact_def Let_def active flop_def[symmetric] db1_def[symmetric]
    by (auto simp: bindR_eq_Inr split: if_splits)
  then show ?thesis
  proof cases
    case (2 d')
    have same: "same_storage db db1" and keys: "job_keys db1 = job_keys db \<union> fl_key ` set files"
      using queue_files_facts[of db user files] by (simp_all add: db1_def)
    have upd: "ap_attachments d' = ap_attachments db" "ap_files d' = ap_files db" "owners d' = owners db"
      "job_keys d' = job_keys db1"
      using same release_storage_simps[OF 2(1)]
      by (simp_all add: same_storage_def owners_def job_keys_def)
    show ?thesis
    proof (rule removed_files_inv[OF inv, where u = user and P = "\<lambda>f. fl_artifact f = i" and d = db1 and d' = d'])
      show "file_owner db f = Some user" if "f \<in> set (ap_files db)" "fl_artifact f = i" for f
        using file_owner_artifact[OF inv, of a f] arow that by simp
      show "owners db' = owners db"
        using upd(3) by (simp add: 2(2) flop) (simp add: owners_def delete_files_def)
      show "job_keys db' = job_keys db \<union> fl_key ` {f \<in> set (ap_files db). fl_artifact f = i}"
        using upd(4) keys by (simp add: 2(2) flop delete_files_def job_keys_def files_def)
      show "release_storage user (sum_list (map file_committed files)) (sum_list (map file_reserved files)) db1
        = Inr d'" by (rule 2(1))
    qed (use 2(2) same upd in \<open>simp_all add: files_def flop delete_files_def same_storage_def\<close>)
  qed (simp add: inv)
qed

subsection \<open>Removals\<close>

lemma run_artifactsD:
  "a \<in> set (run_artifacts sc db) \<Longrightarrow> a \<in> set (ap_artifacts db) \<and> af_user a = sc_user sc"
  by (auto simp: run_artifacts_def split: if_splits)

lemma cleanupRunArtifacts_inv:
  assumes inv: "storage_inv db" and run: "cleanupRunArtifacts sc db = Inr db'"
  shows "storage_inv db' \<and> no_object_lost db db'"
proof -
  define ids where "ids = af_id ` set (run_artifacts sc db)"
  define files where "files = filter (\<lambda>f. fl_artifact f \<in> ids) (ap_files db)"
  have fs: "run_files sc db = files" by (simp add: run_files_def files_def ids_def)
  have active: "filter (\<lambda>f. fl_deletion f = DelActive) files = files"
    unfolding files_def filter_filter using file_rowD[OF inv] by (intro filter_cong) auto
  from run obtain d' where
    acc: "release_storage (sc_user sc) (sum_list (map file_committed files)) (sum_list (map file_reserved files)) db
      = Inr d'"
    and db': "db' = fail_artifacts ids (delete_files (\<lambda>f. fl_artifact f \<in> ids) (queue_files (sc_user sc) files d'))"
    by (auto simp: cleanupRunArtifacts_def Let_def fs active ids_def bindR_eq_Inr)
  note upd = release_storage_simps[OF acc]
  define e where "e = queue_files (sc_user sc) files d'"
  have e: "ap_attachments e = ap_attachments db" "ap_files e = ap_files db" "ap_artifacts e = ap_artifacts db"
    "ap_accounts e = ap_accounts d'" "job_keys e = job_keys db \<union> fl_key ` set files"
    using queue_files_facts[of d' "sc_user sc" files] upd
    by (simp_all add: e_def same_storage_def) (simp add: job_keys_def)
  note db' = db'[folded e_def]
  show ?thesis
  proof (rule removed_files_inv[OF inv _ _ _ acc, where P = "\<lambda>f. fl_artifact f \<in> ids"])
    show "file_owner db f = Some (sc_user sc)" if "f \<in> set (ap_files db)" "fl_artifact f \<in> ids" for f
      using that file_owner_artifact[OF inv] run_artifactsD by (fastforce simp: ids_def)
    show "owners db' = owners db"
      by (rule owners_update_where[where P = "\<lambda>a. af_id a \<in> ids" and g = "\<lambda>a. a\<lparr>af_status := ArFailed,
            af_readyAt := None, af_updatedAt := now (delete_files (\<lambda>f. fl_artifact f \<in> ids) e)\<rparr>"])
        (simp_all add: db' fail_artifacts_def delete_files_def e)
    show "job_keys db' = job_keys db \<union> fl_key ` {f \<in> set (ap_files db). fl_artifact f \<in> ids}"
      using e(5) by (simp add: db' fail_artifacts_def delete_files_def job_keys_def files_def)
  qed (simp_all add: db' fail_artifacts_def delete_files_def e files_def)
qed

lemma queue_list_facts:
  "same_storage db (foldl (\<lambda>d x. queue_deletion user ty (src x) (key x) (t x d) d) db xs)
   \<and> job_keys (foldl (\<lambda>d x. queue_deletion user ty (src x) (key x) (t x d) d) db xs)
     = job_keys db \<union> key ` set xs"
  by (rule queue_many) (simp_all add: queue_deletion_same queue_deletion_keys)

lemma at_charges_removed:
  assumes "ap_attachments db' = filter (\<lambda>a. \<not> P a) (ap_attachments db)"
    and "\<And>a. a \<in> set (ap_attachments db) \<Longrightarrow> P a \<Longrightarrow> at_user a = u"
  shows "at_used v db' = at_used v db + (if v = u then - sum_list (map committed_bytes (filter P (ap_attachments db))) else 0)"
    and "at_held v db' = at_held v db + (if v = u then - sum_list (map reserved_bytes (filter P (ap_attachments db))) else 0)"
proof -
  have "tally (\<lambda>a. at_user a = v \<and> P a) w (ap_attachments db)
      = (if v = u then sum_list (map w (filter P (ap_attachments db))) else 0)" for w
  proof (cases "v = u")
    case True
    have "tally (\<lambda>a. at_user a = v \<and> P a) w (ap_attachments db) = tally P w (ap_attachments db)"
      using assms(2) True by (intro tally_cong) auto
    with True show ?thesis by (simp add: tally_sum_list)
  next
    case False
    then show ?thesis using assms(2) by (auto intro: tally_zero)
  qed
  then show "at_used v db' = at_used v db + (if v = u then - sum_list (map committed_bytes (filter P (ap_attachments db))) else 0)"
    "at_held v db' = at_held v db + (if v = u then - sum_list (map reserved_bytes (filter P (ap_attachments db))) else 0)"
    unfolding at_used_def at_held_def assms(1) tally_remove by simp_all
qed

lemma owner_removed:
  assumes "storage_inv db" "f \<in> set (ap_files db)" "fl_artifact f \<notin> ids"
    and "ap_artifacts db' = filter (\<lambda>a. af_id a \<notin> ids) (ap_artifacts db)"
  shows "file_owner db' f = file_owner db f"
proof -
  have "lookup af_id k (filter (\<lambda>a. af_id a \<notin> ids) xs) = lookup af_id k xs" if "k \<notin> ids"
    for k and xs :: "artifact_row list"
    using that by (induction xs) (auto simp: table_simps)
  with assms(3,4) show ?thesis by (simp add: file_owner_def)
qed

lemma enqueueConversationStorageDeletion_inv:
  assumes inv: "storage_inv db"
    and run: "enqueueConversationStorageDeletion user convs del db = Inr (s, db')"
  shows "storage_inv db' \<and> no_object_lost db db'"
proof -
  define P where "P = (\<lambda>a :: attachment_row. at_user a = user \<and> in_scope convs (at_conversation a))"
  define ats where "ats = filter P (ap_attachments db)"
  define arts where "arts = filter (\<lambda>a. af_user a = user \<and> in_scope convs (af_conversation a)) (ap_artifacts db)"
  define ids where "ids = af_id ` set arts"
  define F where "F = (\<lambda>f :: artifact_file. fl_artifact f \<in> ids)"
  define fs where "fs = filter F (ap_files db)"
  define d1 where "d1 = foldl (\<lambda>d a. queue_deletion user ObjAttachment (at_id a) (at_key a)
    (if at_quota a = StReserved then at_uploadExpiresAt a + 60000 else now db) d) db ats"
  define d2 where "d2 = foldl (\<lambda>d f. queue_deletion user ObjArtifact (fl_id f) (fl_key f)
    (if fl_quota f = StReserved then fl_createdAt f + 60 * 60000 else now db) d) d1 fs"
  define c where "c = sum_list (map committed_bytes ats) + sum_list (map file_committed fs)"
  define r where "r = sum_list (map reserved_bytes ats) + sum_list (map file_reserved fs)"
  have q1: "same_storage db d1 \<and> job_keys d1 = job_keys db \<union> at_key ` set ats"
    unfolding d1_def by (rule queue_list_facts)
  have q2: "same_storage d1 d2 \<and> job_keys d2 = job_keys d1 \<union> fl_key ` set fs"
    unfolding d2_def by (rule queue_list_facts)
  have same: "same_storage db d2" using q1 q2 same_storage_trans by blast
  have keys: "job_keys d2 = job_keys db \<union> at_key ` set ats \<union> fl_key ` set fs" using q1 q2 by simp
  have inv2: "storage_inv d2" using inv same_storage_inv[OF same] by simp
  have kept: "storage_inv d2 \<and> no_object_lost db d2"
    using inv2 keys same by (auto simp: no_object_lost_def object_keys_def same_storage_def)
  note folds = enqueueConversationStorageDeletion_def Let_def P_def[symmetric] ats_def[symmetric]
    arts_def[symmetric] ids_def[symmetric] F_def[symmetric] fs_def[symmetric] d1_def[symmetric]
    d2_def[symmetric] c_def[symmetric] r_def[symmetric]
  consider "db' = d2" | d3 where "update_account user (release_bytes c r) d2 = Inr d3"
    "db' = drop_storage (at_id ` set ats) ids d3"
    using run unfolding folds by (auto simp: bindR_eq_Inr split: if_splits)
  then show ?thesis
  proof cases
    case 1
    then show ?thesis using kept by simp
  next
    case (2 d3)
    note upd = update_account_simps[OF 2(1)]
    have tabs: "ap_attachments d2 = ap_attachments db" "ap_files d2 = ap_files db"
      "ap_artifacts d2 = ap_artifacts db" using same by (simp_all add: same_storage_def)
    have "at_id a \<in> at_id ` set ats \<longleftrightarrow> P a" if "a \<in> set (ap_attachments db)" for a
      using that distinct_key_unique[OF storage_invD(4)[OF inv]] by (auto simp: ats_def)
    then have at': "ap_attachments db' = filter (\<lambda>a. \<not> P a) (ap_attachments d2)"
      by (auto simp: 2(2) drop_storage_def upd tabs intro!: filter_cong)
    have fl': "ap_files db' = filter (\<lambda>f. \<not> F f) (ap_files d2)"
      "ap_artifacts db' = filter (\<lambda>a. af_id a \<notin> ids) (ap_artifacts d2)" by (simp_all add: 2(2) drop_storage_def upd F_def)
    have own: "file_owner db' f = file_owner d2 f" if "f \<in> set (ap_files d2)" "\<not> F f" for f
      using owner_removed[OF inv2 that(1) _ fl'(2)] that(2) by (simp add: F_def)
    have ofF: "file_owner d2 f = Some user" if "f \<in> set (ap_files d2)" "F f" for f
      using that file_owner_artifact[OF inv2] tabs by (fastforce simp: F_def ids_def arts_def)
    define mid where "mid = d2\<lparr>ap_files := ap_files db'\<rparr>"
    have mo: "file_owner mid = file_owner d2" by (rule file_owner_cong) (simp add: mid_def owners_def)
    have mid: "fl_used v db' = fl_used v mid" "fl_held v db' = fl_held v mid" for v
      unfolding fl_used_def fl_held_def mo using own by (auto simp: mid_def fl' intro!: tally_cong)
    have charges: "used v db' = used v d2 + (if v = user then - c else 0)"
      "held v db' = held v d2 + (if v = user then - r else 0)" for v
      using at_charges_removed[OF at', of user v] mid[of v]
        fl_charges_removed[OF mo _ ofF, where v = v]
      by (auto simp: used_def held_def c_def r_def ats_def fs_def tabs P_def mid_def fl')
    have "storage_inv db'"
    proof (rule books_step(2)[OF inv2 charges, where f = "release_bytes c r" and d = d2])
      show "distinct (map at_id (ap_attachments db'))" "distinct (map af_id (ap_artifacts db'))"
        "distinct (map fl_id (ap_files db'))"
        using storage_invD[OF inv2] by (simp_all add: at' fl' distinct_map_filter)
      show "attachment_check a \<and> has_account d2 (at_user a) \<and> (at_deletion a \<noteq> DelActive \<longrightarrow> at_quota a = StReleased)"
        if "a \<in> set (ap_attachments db')" for a
        using that attachment_rowD[OF inv2] by (simp add: at')
      show "file_check x \<and> fl_deletion x = DelActive \<and> (\<exists>w. file_owner db' x = Some w \<and> has_account d2 w)"
        if "x \<in> set (ap_files db')" for x
        using that file_rowD[OF inv2, of x] own[of x] by (simp add: fl')
      have cr: "0 \<le> c" "0 \<le> r"
        using attachment_rowD[OF inv] committed_nonneg reserved_nonneg sum_file_nonneg[OF inv, of F]
        by (auto simp: c_def r_def ats_def fs_def intro!: add_nonneg_nonneg sum_list_nonneg)
      show "sa_used x + sa_reserved x + - c + - r \<le> sa_limit x"
        if "x \<in> set (ap_accounts d2)" "sa_user x = user" for x
        using storage_invD(1)[OF inv2] that cr by (auto simp: balanced_def account_check_def)
    qed (use charges in \<open>simp_all add: 2(2) drop_storage_def upd\<close>)
    moreover have "no_object_lost db db'"
    proof -
      have "job_keys db' = job_keys d2" by (simp add: job_keys_def 2(2) drop_storage_def upd)
      then have "job_keys db' = job_keys db \<union> at_key ` {a \<in> set (ap_attachments db). P a}
          \<union> fl_key ` {f \<in> set (ap_files db). F f}" by (simp add: keys ats_def fs_def)
      moreover have "object_keys db' = at_key ` {a \<in> set (ap_attachments db). \<not> P a}
          \<union> fl_key ` {f \<in> set (ap_files db). \<not> F f}" by (simp add: object_keys_def at' fl' tabs)
      ultimately show ?thesis by (auto simp: no_object_lost_def object_keys_def)
    qed
    ultimately show ?thesis by blast
  qed
qed

lemma expired_orphansD:
  "a \<in> set (expired_orphans n locked db) \<Longrightarrow> a \<in> set (ap_attachments db) \<and> at_message a = None
     \<and> at_orphanExpiresAt a \<le> now db"
  unfolding expired_orphans_def by (drule in_set_takeD) simp

lemma no_object_lost_trans: "no_object_lost a b \<Longrightarrow> no_object_lost b c \<Longrightarrow> no_object_lost a c"
  unfolding no_object_lost_def by blast

lemma expire_orphan_rows:
  assumes "expire_orphan a db = Inr db'"
  shows "ap_attachments db' = filter (\<lambda>x. \<not> (at_id x = at_id a \<and> at_user x = at_user a)) (ap_attachments db)"
  using assms update_account_simps(2) queue_deletion_same[of db "at_user a" ObjAttachment "at_id a" "at_key a" "now db"]
  by (auto simp: expire_orphan_def Let_def bindR_eq_Inr delete_attachment_def same_storage_def)

lemma expire_loop_inv:
  assumes "foldR expire_orphan rows db = Inr db'" "storage_inv db"
    and "set rows \<subseteq> set (ap_attachments db)" "distinct (map at_id rows)"
  shows "storage_inv db' \<and> no_object_lost db db'"
  using assms
proof (induction rows arbitrary: db)
  case Nil
  then show ?case by simp
next
  case (Cons a rows)
  from Cons.prems(1) obtain d where d: "expire_orphan a db = Inr d" "foldR expire_orphan rows d = Inr db'"
    by (auto simp: bindR_eq_Inr)
  have step: "storage_inv d \<and> no_object_lost db d"
    using expire_orphan_inv[OF Cons.prems(2) d(1)] Cons.prems(3) by simp
  have "x \<in> set (ap_attachments d)" if x: "x \<in> set rows" for x
  proof -
    have "at_id x \<in> set (map at_id rows)" using x by simp
    then have "at_id x \<noteq> at_id a" using Cons.prems(4) by auto
    moreover have "x \<in> set (ap_attachments db)" using x Cons.prems(3) by auto
    ultimately show ?thesis by (simp add: expire_orphan_rows[OF d(1)])
  qed
  then have "set rows \<subseteq> set (ap_attachments d)" by blast
  with step Cons.IH[OF d(2)] Cons.prems(4) show ?case using no_object_lost_trans by auto
qed

lemma enqueueExpiredOrphans_inv:
  assumes inv: "storage_inv db" and run: "enqueueExpiredOrphans n locked db = Inr (k, db')"
  shows "storage_inv db' \<and> no_object_lost db db'"
proof -
  from run have loop: "foldR expire_orphan (expired_orphans n locked db) db = Inr db'"
    by (auto simp: enqueueExpiredOrphans_def Let_def bindR_eq_Inr split: if_splits)
  have "distinct (map at_id (expired_orphans n locked db))"
    unfolding expired_orphans_def take_map[symmetric]
    using storage_invD(4)[OF inv] by (intro distinct_take) (simp add: distinct_map_filter)
  then show ?thesis using expire_loop_inv[OF loop inv] expired_orphansD by blast
qed

subsection \<open>The storage as a state machine\<close>

text \<open>Every committed transaction of the storage code is a step.\<close>

inductive storage_step :: "app_db \<Rightarrow> app_db \<Rightarrow> bool" where
  step_initiate: "initiate inp db = Inr (v, db') \<Longrightarrow> storage_step db db'"
| step_begin: "beginCompletion i user db = Inr (r, db') \<Longrightarrow> storage_step db db'"
| step_complete: "completeVerified i user bytes etag db = Inr (v, db') \<Longrightarrow> storage_step db db'"
| step_reset: "storage_step db (resetCompletion i user db)"
| step_reject: "rejectCompletion i user code db = Inr db' \<Longrightarrow> storage_step db db'"
| step_bind: "bindToMessage ids conv msg user db = Inr (vs, db') \<Longrightarrow> storage_step db db'"
| step_delete: "deleteUnbound i user db = Inr db' \<Longrightarrow> storage_step db db'"
| step_create: "createArtifact i user conv rid msg spec db = Inr (w, db') \<Longrightarrow> storage_step db db'"
| step_reserve: "reserveFile finp db = Inr db' \<Longrightarrow> storage_step db db'"
| step_commit: "commitFile i art user db = Inr (f, db') \<Longrightarrow> storage_step db db'"
| step_abort: "abortFile i art user key db = Inr db' \<Longrightarrow> storage_step db db'"
| step_finish: "completeArtifact i user conv db = Inr (w, db') \<Longrightarrow> storage_step db db'"
| step_fail: "failArtifact i user conv db = Inr (ks, db') \<Longrightarrow> storage_step db db'"
| step_cleanup: "cleanupRunArtifacts sc db = Inr db' \<Longrightarrow> storage_step db db'"
| step_enqueue: "enqueueConversationStorageDeletion user convs del db = Inr (s, db') \<Longrightarrow> storage_step db db'"
| step_expire: "enqueueExpiredOrphans n locked db = Inr (k, db') \<Longrightarrow> storage_step db db'"

lemma storage_step_inv:
  "storage_step db db' \<Longrightarrow> storage_inv db \<Longrightarrow> storage_inv db' \<and> no_object_lost db db'"
proof (induction rule: storage_step.induct)
  case step_reset
  then show ?case by (rule resetCompletion_inv)
qed (erule (1) initiate_inv[rotated] beginCompletion_inv[rotated] completeVerified_inv[rotated]
    rejectCompletion_inv[rotated] bindToMessage_inv[rotated] deleteUnbound_inv[rotated]
    createArtifact_inv[rotated] reserveFile_inv[rotated] commitFile_inv[rotated]
    abortFile_inv[rotated] completeArtifact_inv[rotated] failArtifact_inv[rotated]
    cleanupRunArtifacts_inv[rotated] enqueueConversationStorageDeletion_inv[rotated]
    enqueueExpiredOrphans_inv[rotated])+

lemma storage_steps_inv:
  assumes "storage_step\<^sup>*\<^sup>* db db'" "storage_inv db"
  shows "storage_inv db' \<and> no_object_lost db db'"
  using assms
  by (induction rule: rtranclp_induct) (auto dest: storage_step_inv intro: no_object_lost_trans)

end
