(* ===== verification/Quota_Invariant.thy ===== *)
theory Quota_Invariant
  imports Quota_Repository
begin

section \<open>The books of the quota ledger balance\<close>

text \<open>
  The invariant of the quota tables and its preservation by every operation of
  \<open>Quota_Repository\<close>. \<open>outstanding\<close> and \<open>settled\<close> add up the units of the ledger rows
  that a bucket still holds or has charged; \<open>books_balance\<close> says that the bucket's
  counters are those sums (the committed counter may exceed the rows, since deleting an
  account removes rows but keeps the charge), and \<open>leases_agree\<close> that the rows of one
  lease are in step, which makes the aggregate status of a lease well defined.
\<close>

definition outstanding :: "bucket_row \<Rightarrow> ledger_row list \<Rightarrow> int" where
  "outstanding b = tally (\<lambda>r. ld_bucketId r = bk_id b \<and> ld_status r = Reserved) ld_units"

definition settled :: "bucket_row \<Rightarrow> ledger_row list \<Rightarrow> int" where
  "settled b = tally (\<lambda>r. ld_bucketId r = bk_id b \<and> ld_status r = Committed) ld_units"

definition buckets_wf :: "quota_db \<Rightarrow> bool" where
  "buckets_wf db \<longleftrightarrow> distinct (map bk_id (q_buckets db)) \<and> distinct (map bucket_key (q_buckets db))
     \<and> (\<forall>b\<in>set (q_buckets db). bk_id b < q_next db \<and> bucket_check b)"

definition points_at :: "ledger_row \<Rightarrow> bucket_row \<Rightarrow> bool" where
  "points_at r b \<longleftrightarrow> bk_id b = ld_bucketId r \<and>
     bucket_key b = (ld_resource r, ld_scopeType r, ld_scopeKey r, ld_windowKey r)"

definition ledger_wf :: "quota_db \<Rightarrow> bool" where
  "ledger_wf db \<longleftrightarrow> distinct (map ld_id (q_ledger db)) \<and> distinct (map ledger_key (q_ledger db))
     \<and> (\<forall>r\<in>set (q_ledger db). ld_id r < q_next db \<and> ld_leaseId r < q_next db \<and> 0 < ld_units r
          \<and> (\<exists>b\<in>set (q_buckets db). points_at r b))"

definition books_balance :: "quota_db \<Rightarrow> bool" where
  "books_balance db \<longleftrightarrow> (\<forall>b\<in>set (q_buckets db).
     bk_reserved b = outstanding b (q_ledger db) \<and> settled b (q_ledger db) \<le> bk_committed b)"

definition leases_agree :: "quota_db \<Rightarrow> bool" where
  "leases_agree db \<longleftrightarrow> (\<forall>r\<in>set (q_ledger db). \<forall>s\<in>set (q_ledger db).
     (ld_leaseId r = ld_leaseId s \<longrightarrow>
        request_key r = request_key s \<and> ld_units r = ld_units s \<and> ld_status r = ld_status s) \<and>
     (request_key r = request_key s \<longrightarrow> ld_leaseId r = ld_leaseId s))"

definition quota_inv :: "quota_db \<Rightarrow> bool" where
  "quota_inv db \<longleftrightarrow> buckets_wf db \<and> ledger_wf db \<and> books_balance db \<and> leases_agree db"

lemmas quota_inv_defs = quota_inv_def buckets_wf_def ledger_wf_def books_balance_def

lemma bk_id_key_update [simp]:
  "bk_id (b\<lparr>bk_limit := l\<rparr>) = bk_id b" "bucket_key (b\<lparr>bk_limit := l\<rparr>) = bucket_key b"
  "bucket_key (b\<lparr>bk_reserved := v\<rparr>) = bucket_key b"
  "bucket_key (b\<lparr>bk_committed := v\<rparr>) = bucket_key b"
  "bucket_key (b\<lparr>bk_updatedAt := t\<rparr>) = bucket_key b"
  by (simp_all add: bucket_key_def)

lemma bk_key_settle [simp]:
  "bk_id (settle_bucket tg u t b) = bk_id b" "bucket_key (settle_bucket tg u t b) = bucket_key b"
  "bk_limit (settle_bucket tg u t b) = bk_limit b"
  by (simp_all add: settle_bucket_def bucket_key_def)

lemma settle_row_keys [simp]:
  "ld_id (settle_row tg re t r) = ld_id r" "ld_leaseId (settle_row tg re t r) = ld_leaseId r"
  "ld_bucketId (settle_row tg re t r) = ld_bucketId r" "ld_units (settle_row tg re t r) = ld_units r"
  "ld_status (settle_row tg re t r) = tg" "request_key (settle_row tg re t r) = request_key r"
  "ledger_key (settle_row tg re t r) = ledger_key r" "ld_actor (settle_row tg re t r) = ld_actor r"
  "ld_resource (settle_row tg re t r) = ld_resource r"
  "points_at (settle_row tg re t r) b = points_at r b"
  by (simp_all add: settle_row_def request_key_def ledger_key_def points_at_def)

lemma set_bucket_simps [simp]:
  "q_ledger (set_bucket i f db) = q_ledger db" "q_next (set_bucket i f db) = q_next db"
  "q_users (set_bucket i f db) = q_users db" "q_now (set_bucket i f db) = q_now db"
  "q_buckets (set_bucket i f db) = update_where (\<lambda>b. bk_id b = i) f (q_buckets db)"
  by (simp_all add: set_bucket_def)

text \<open>A change of one bucket that keeps its identity keeps what the other parts need.\<close>

lemma buckets_wf_set_bucket:
  assumes "buckets_wf db"
    and "\<And>b. b \<in> set (q_buckets db) \<Longrightarrow> bk_id b = i \<Longrightarrow>
           bk_id (f b) = bk_id b \<and> bucket_key (f b) = bucket_key b \<and> bucket_check (f b)"
  shows "buckets_wf (set_bucket i f db)"
proof -
  have "map bk_id (update_where (\<lambda>b. bk_id b = i) f (q_buckets db)) = map bk_id (q_buckets db)"
    and "map bucket_key (update_where (\<lambda>b. bk_id b = i) f (q_buckets db))
       = map bucket_key (q_buckets db)"
    using assms(2) by (auto intro!: map_update_where)
  with assms show ?thesis
    by (auto simp: buckets_wf_def set_update_where)
qed

lemma points_at_set_bucket:
  assumes "\<exists>b\<in>set bs. points_at r b"
    and "\<And>b. b \<in> set bs \<Longrightarrow> bk_id b = i \<Longrightarrow> bk_id (f b) = bk_id b \<and> bucket_key (f b) = bucket_key b"
  shows "\<exists>b\<in>set (update_where (\<lambda>b. bk_id b = i) f bs). points_at r b"
proof -
  from assms(1) obtain b where b: "b \<in> set bs" "points_at r b" by blast
  define b' where "b' = (if bk_id b = i then f b else b)"
  have "b' \<in> set (update_where (\<lambda>b. bk_id b = i) f bs)"
    using b(1) by (auto simp: b'_def set_update_where)
  moreover have "points_at r b'"
    using b assms(2)[of b] by (auto simp: b'_def points_at_def)
  ultimately show ?thesis by blast
qed

lemma ledger_wf_mono:
  assumes "ledger_wf db" "q_ledger db' = q_ledger db" "q_next db \<le> q_next db'"
    and "set (q_buckets db) \<subseteq> set (q_buckets db')"
  shows "ledger_wf db'"
  using assms unfolding ledger_wf_def by (metis less_le_trans subsetD)

lemma ledger_wf_snoc:
  assumes "ledger_wf db" "q_ledger db' = q_ledger db @ [r]" "q_buckets db' = q_buckets db"
    and "q_next db' = q_next db + 1" "ld_id r = q_next db" "ld_leaseId r < q_next db"
    and "0 < ld_units r" "b \<in> set (q_buckets db)" "points_at r b"
    and "\<forall>x\<in>set (q_ledger db). ledger_key x \<noteq> ledger_key r"
  shows "ledger_wf db'"
proof -
  have old: "ld_id x < q_next db" "ld_leaseId x < q_next db" "0 < ld_units x"
    "\<exists>b\<in>set (q_buckets db). points_at x b" if "x \<in> set (q_ledger db)" for x
    using assms(1) that unfolding ledger_wf_def by blast+
  have "ld_id r \<notin> ld_id ` set (q_ledger db)" using old(1) assms(5) by fastforce
  moreover have "ledger_key r \<notin> ledger_key ` set (q_ledger db)" using assms(10) by fastforce
  moreover have "distinct (map ld_id (q_ledger db))" "distinct (map ledger_key (q_ledger db))"
    using assms(1) unfolding ledger_wf_def by blast+
  ultimately have "distinct (map ld_id (q_ledger db'))" "distinct (map ledger_key (q_ledger db'))"
    unfolding assms(2) by simp_all
  moreover have "ld_id x < q_next db' \<and> ld_leaseId x < q_next db' \<and> 0 < ld_units x
      \<and> (\<exists>b\<in>set (q_buckets db'). points_at x b)" if "x \<in> set (q_ledger db')" for x
  proof (cases "x = r")
    case True
    then show ?thesis using assms(3-9) by auto
  next
    case False
    with that have "x \<in> set (q_ledger db)" by (simp add: assms(2))
    with old[of x] show ?thesis by (simp add: assms(3,4) less_SucI)
  qed
  ultimately show ?thesis unfolding ledger_wf_def by blast
qed

lemma leases_agree_ledger: "q_ledger db' = q_ledger db \<Longrightarrow> leases_agree db' = leases_agree db"
  by (simp only: leases_agree_def)

lemma ledger_wf_set_bucket:
  assumes "ledger_wf db"
    and "\<And>b. b \<in> set (q_buckets db) \<Longrightarrow> bk_id b = i \<Longrightarrow>
           bk_id (f b) = bk_id b \<and> bucket_key (f b) = bucket_key b"
  shows "ledger_wf (set_bucket i f db)"
  using assms points_at_set_bucket[of "q_buckets db" _ i f]
  unfolding ledger_wf_def by simp

subsection \<open>Creating and reconciling a bucket\<close>

lemma no_rows_for_fresh_bucket:
  assumes "ledger_wf db" "buckets_wf db" "q_next db \<le> bk_id b"
  shows "outstanding b (q_ledger db) = 0" "settled b (q_ledger db) = 0"
proof -
  have "ld_bucketId r \<noteq> bk_id b" if "r \<in> set (q_ledger db)" for r
    using assms that unfolding ledger_wf_def buckets_wf_def points_at_def by fastforce
  then show "outstanding b (q_ledger db) = 0" "settled b (q_ledger db) = 0"
    unfolding outstanding_def settled_def by (auto intro: tally_zero)
qed

lemma ensure_bucket_inv:
  assumes "ensure_bucket inp sc db = Inr db'" and "quota_inv db"
  shows "quota_inv db' \<and> q_ledger db' = q_ledger db \<and> q_users db' = q_users db
    \<and> q_next db \<le> q_next db' \<and> q_now db' = q_now db"
proof (cases "db' = db")
  case True
  with assms show ?thesis by simp
next
  case False
  define b where "b = \<lparr>bk_id = q_next db, bk_resource = ri_resource inp, bk_scopeType = sp_type sc,
    bk_scopeKey = sp_key sc, bk_windowKey = qw_key (ri_window inp), bk_limit = sp_limit sc,
    bk_reserved = 0, bk_committed = 0, bk_resetAt = qw_resetAt (ri_window inp),
    bk_updatedAt = q_now db\<rparr>"
  from assms(1) False have new: "\<forall>x\<in>set (q_buckets db). bucket_key x \<noteq> bucket_key b"
    and chk: "bucket_check b"
    and db': "db' = db\<lparr>q_buckets := q_buckets db @ [b], q_next := q_next db + 1\<rparr>"
    by (auto simp: ensure_bucket_def Let_def b_def split: if_splits)
  have wf: "buckets_wf db" "ledger_wf db" using assms(2) by (auto simp: quota_inv_def)
  have zero: "outstanding b (q_ledger db) = 0" "settled b (q_ledger db) = 0"
    using no_rows_for_fresh_bucket[OF wf(2,1), of b] by (simp_all add: b_def)
  have "buckets_wf db'"
    using wf(1) new chk unfolding buckets_wf_def db' by (auto simp: b_def less_Suc_eq)
  moreover have "ledger_wf db'"
    using wf(2) by (rule ledger_wf_mono) (auto simp: db')
  moreover have "books_balance db'"
    using assms(2) zero unfolding quota_inv_def books_balance_def db' by (auto simp: b_def)
  moreover have "leases_agree db'"
    using assms(2) leases_agree_ledger[of db' db] by (simp add: quota_inv_def db')
  ultimately show ?thesis by (simp add: quota_inv_def db')
qed

lemma scope_bucket_SomeD:
  "scope_bucket inp sc db = Some b \<Longrightarrow> b \<in> set (q_buckets db) \<and>
     bucket_key b = (ri_resource inp, sp_type sc, sp_key sc, qw_key (ri_window inp))"
  unfolding scope_bucket_def by (rule lookup_SomeD)

lemma ensure_bucket_present:
  "ensure_bucket inp sc db = Inr db' \<Longrightarrow> \<exists>b. scope_bucket inp sc db' = Some b"
  unfolding ensure_bucket_def scope_bucket_def Let_def
  by (cases "lookup bucket_key (ri_resource inp, sp_type sc, sp_key sc, qw_key (ri_window inp))
        (q_buckets db')")
    (auto simp: bucket_key_def lookup_None_iff split: if_splits)

lemma reconcile_bucket_inv:
  assumes r: "reconcile_bucket sc b db = Inr (db', b')" and "quota_inv db"
    and b: "b \<in> set (q_buckets db)"
  shows "quota_inv db' \<and> b' \<in> set (q_buckets db') \<and> bk_id b' = bk_id b
    \<and> bucket_key b' = bucket_key b \<and> q_ledger db' = q_ledger db \<and> q_users db' = q_users db
    \<and> q_next db' = q_next db \<and> q_now db' = q_now db
    \<and> bk_reserved b' = bk_reserved b \<and> bk_committed b' = bk_committed b
    \<and> bk_limit b' = max (sp_limit sc) (bk_reserved b + bk_committed b)"
proof (cases "reconcileQuotaBucketLimit (sp_limit sc) (bk_reserved b) (bk_committed b) = bk_limit b")
  case True
  with assms show ?thesis by (auto simp: reconcile_bucket_def reconcileQuotaBucketLimit_def)
next
  case False
  define l where "l = max (sp_limit sc) (bk_reserved b + bk_committed b)"
  from r False have b': "b' = b\<lparr>bk_limit := l, bk_updatedAt := q_now db\<rparr>"
    and chk: "bucket_check b'" and db': "db' = set_bucket (bk_id b) (\<lambda>_. b') db"
    by (auto simp: reconcile_bucket_def reconcileQuotaBucketLimit_def Let_def l_def split: if_splits)
  have wf: "buckets_wf db" "ledger_wf db" using assms(2) by (auto simp: quota_inv_def)
  have same: "x = b" if "x \<in> set (q_buckets db)" "bk_id x = bk_id b" for x
    using wf(1) that b unfolding buckets_wf_def by (metis distinct_key_unique)
  have keys: "bk_id b' = bk_id b" "bucket_key b' = bucket_key b" by (simp_all add: b' bucket_key_def)
  have "buckets_wf db'" "ledger_wf db'"
    unfolding db' using wf chk keys same
    by (auto intro!: buckets_wf_set_bucket ledger_wf_set_bucket)
  moreover have "books_balance db'"
    unfolding books_balance_def
  proof
    fix x assume "x \<in> set (q_buckets db')"
    then obtain y where "y \<in> set (q_buckets db)" "bk_id x = bk_id y"
      "bk_reserved x = bk_reserved y" "bk_committed x = bk_committed y"
      using b same by (fastforce simp: db' set_update_where b')
    then show "bk_reserved x = outstanding x (q_ledger db')
        \<and> settled x (q_ledger db') \<le> bk_committed x"
      using assms(2) by (simp add: quota_inv_def books_balance_def db' outstanding_def settled_def)
  qed
  moreover have "leases_agree db'"
    using assms(2) leases_agree_ledger[of db' db] by (simp add: quota_inv_def db')
  moreover have "b' \<in> set (q_buckets db')"
    using b by (auto simp: db' set_update_where)
  ultimately show ?thesis
    using keys by (simp add: quota_inv_def db' b' l_def)
qed

subsection \<open>Charging a scope\<close>

text \<open>What the rows of the lease under construction and of its request look like.\<close>

definition lease_open :: "reserve_input \<Rightarrow> nat \<Rightarrow> quota_db \<Rightarrow> bool" where
  "lease_open inp lease db \<longleftrightarrow> lease < q_next db \<and> (\<forall>r\<in>set (q_ledger db).
     (ld_leaseId r = lease \<longrightarrow>
        request_key r = (ri_actor inp, ri_resource inp, ri_clientRequest inp)
        \<and> ld_units r = ri_units inp \<and> ld_status r = Reserved) \<and>
     (request_key r = (ri_actor inp, ri_resource inp, ri_clientRequest inp) \<longrightarrow> ld_leaseId r = lease))"

lemma lease_open_mono:
  "lease_open inp lease db \<Longrightarrow> q_ledger db' = q_ledger db \<Longrightarrow> q_next db \<le> q_next db' \<Longrightarrow>
   lease_open inp lease db'"
  unfolding lease_open_def by auto

lemma leases_agree_insert:
  assumes "leases_agree db" "lease_open inp lease db"
    and "q_ledger db' = q_ledger db @ [r]"
    and "ld_leaseId r = lease" "ld_units r = ri_units inp" "ld_status r = Reserved"
    and "request_key r = (ri_actor inp, ri_resource inp, ri_clientRequest inp)"
  shows "leases_agree db'"
  unfolding leases_agree_def
proof (intro ballI)
  fix x y assume "x \<in> set (q_ledger db')" "y \<in> set (q_ledger db')"
  then consider "x \<in> set (q_ledger db)" "y \<in> set (q_ledger db)" | "x = r" "y = r"
    | "x = r" "y \<in> set (q_ledger db)" | "x \<in> set (q_ledger db)" "y = r"
    using assms(3) by auto
  then show "(ld_leaseId x = ld_leaseId y \<longrightarrow>
      request_key x = request_key y \<and> ld_units x = ld_units y \<and> ld_status x = ld_status y) \<and>
      (request_key x = request_key y \<longrightarrow> ld_leaseId x = ld_leaseId y)"
  proof cases
    case 1
    with assms(1) show ?thesis unfolding leases_agree_def by blast
  next
    case 2
    then show ?thesis by simp
  next
    case 3
    with assms(2,4-7) show ?thesis unfolding lease_open_def by metis
  next
    case 4
    with assms(2,4-7) show ?thesis unfolding lease_open_def by metis
  qed
qed

lemma charge_scope_inv:
  assumes inv: "quota_inv db" and open': "lease_open inp lease db"
    and b: "b \<in> set (q_buckets db)"
    and key: "bucket_key b = (ri_resource inp, sp_type sc, sp_key sc, qw_key (ri_window inp))"
    and bump: "bump_reserved inp sc b db = Inr db3"
    and row: "row = new_ledger_row inp lease sc (bk_id b) db3"
    and ins: "insert_ledger row db3 = Inr db'"
  shows "quota_inv db' \<and> lease_open inp lease db' \<and> q_ledger db' = q_ledger db @ [row]
    \<and> q_users db' = q_users db \<and> q_now db' = q_now db \<and> 0 < ri_units inp
    \<and> (\<exists>b'\<in>set (q_buckets db'). bk_id b' = bk_id b \<and> bucket_key b' = bucket_key b
         \<and> bk_reserved b' = bk_reserved b + ri_units inp \<and> bk_committed b' = bk_committed b
         \<and> bk_limit b' = bk_limit b)"
proof -
  define f :: "bucket_row \<Rightarrow> bucket_row"
    where "f = (\<lambda>x. x\<lparr>bk_reserved := bk_reserved x + ri_units inp, bk_updatedAt := q_now db\<rparr>)"
  from bump have fits: "bk_reserved b + bk_committed b + ri_units inp \<le> bk_limit b"
    and db3: "db3 = set_bucket (bk_id b) f db"
    by (auto simp: bump_reserved_def Let_def f_def split: if_splits)
  from ins row have units: "0 < ri_units inp"
    and fresh: "\<forall>x\<in>set (q_ledger db). ledger_key x \<noteq> ledger_key row"
    and db': "db' = db3\<lparr>q_ledger := q_ledger db3 @ [row], q_next := q_next db3 + 1\<rparr>"
    by (auto simp: insert_ledger_def new_ledger_row_def db3 split: if_splits)
  have wf: "buckets_wf db" "ledger_wf db" "books_balance db" "leases_agree db"
    using inv by (auto simp: quota_inv_def)
  have same: "x = b" if "x \<in> set (q_buckets db)" "bk_id x = bk_id b" for x
    using wf(1) that b unfolding buckets_wf_def by (metis distinct_key_unique)
  have f: "bk_id (f x) = bk_id x" "bucket_key (f x) = bucket_key x" for x
    by (simp_all add: f_def bucket_key_def)
  have "bucket_check b" using wf(1) b by (auto simp: buckets_wf_def)
  with fits units have chk: "bucket_check (f b)" by (auto simp: bucket_check_def f_def)
  have wf3: "buckets_wf db3" "ledger_wf db3"
    unfolding db3 using wf chk f same
    by (auto intro!: buckets_wf_set_bucket ledger_wf_set_bucket)
  have fb: "f b \<in> set (q_buckets db')" using b by (auto simp: db' db3 set_update_where)
  have ids: "ld_id row = q_next db" "ld_leaseId row = lease" "ld_bucketId row = bk_id b"
    "ld_units row = ri_units inp" "ld_status row = Reserved"
    "request_key row = (ri_actor inp, ri_resource inp, ri_clientRequest inp)"
    by (simp_all add: row new_ledger_row_def db3 request_key_def)
  have "buckets_wf db'" using wf3(1) unfolding buckets_wf_def db' by (auto simp: less_Suc_eq)
  moreover have "ledger_wf db'"
  proof -
    have "points_at row (f b)"
      using key by (simp add: row new_ledger_row_def points_at_def f)
    moreover have "f b \<in> set (q_buckets db3)" using fb by (simp add: db')
    moreover have "lease < q_next db3" using open' by (simp add: lease_open_def db3)
    ultimately show ?thesis
      using fresh units ids(1,2,4) by (intro ledger_wf_snoc[OF wf3(2)]) (auto simp: db' db3)
  qed
  moreover have "books_balance db'"
    unfolding books_balance_def
  proof
    fix x assume "x \<in> set (q_buckets db')"
    then obtain y where y: "y \<in> set (q_buckets db)" "x = (if bk_id y = bk_id b then f y else y)"
      by (auto simp: db' db3 update_where_def)
    have "bk_reserved y = outstanding y (q_ledger db) \<and> settled y (q_ledger db) \<le> bk_committed y"
      using wf(3) y(1) by (auto simp: books_balance_def)
    moreover have "outstanding x (q_ledger db') = outstanding y (q_ledger db)
        + (if bk_id y = bk_id b then ri_units inp else 0)"
      "settled x (q_ledger db') = settled y (q_ledger db)"
      using y(2) ids by (auto simp: outstanding_def settled_def db' db3 table_simps f)
    ultimately show "bk_reserved x = outstanding x (q_ledger db')
        \<and> settled x (q_ledger db') \<le> bk_committed x"
      using y(2) by (auto simp: f_def)
  qed
  moreover have "leases_agree db'"
    by (rule leases_agree_insert[OF wf(4) open' _ ids(2,4,5,6)]) (simp add: db' db3)
  moreover have "lease_open inp lease db'"
  proof -
    have "q_ledger db' = q_ledger db @ [row]" "q_next db \<le> q_next db'"
      by (simp_all add: db' db3)
    with open' ids show ?thesis unfolding lease_open_def by auto
  qed
  moreover have "\<exists>b'\<in>set (q_buckets db'). bk_id b' = bk_id b \<and> bucket_key b' = bucket_key b
       \<and> bk_reserved b' = bk_reserved b + ri_units inp \<and> bk_committed b' = bk_committed b
       \<and> bk_limit b' = bk_limit b"
    using fb f[of b] by (intro bexI[OF _ fb]) (simp add: f_def)
  ultimately show ?thesis
    using units by (simp add: quota_inv_def db' db3)
qed

text \<open>
  One scope: the books still balance, one row of the lease is added, and the scope's
  bucket holds no more than the policy allows.
\<close>

lemma reserve_scope_inv:
  assumes run: "reserve_scope inp lease sc (db, rows) = Inr (db', rows')"
    and inv: "quota_inv db" and open': "lease_open inp lease db"
  shows "quota_inv db' \<and> lease_open inp lease db' \<and> 0 < ri_units inp
    \<and> q_users db' = q_users db \<and> q_now db' = q_now db
    \<and> (\<exists>row. q_ledger db' = q_ledger db @ [row] \<and> rows' = rows @ [row]
         \<and> ld_leaseId row = lease \<and> ld_scopeType row = sp_type sc \<and> ld_scopeKey row = sp_key sc
         \<and> ld_status row = Reserved \<and> ld_units row = ri_units inp
         \<and> request_key row = (ri_actor inp, ri_resource inp, ri_clientRequest inp))
    \<and> (\<exists>b'. scope_bucket inp sc db' = Some b' \<and> bk_reserved b' + bk_committed b' \<le> sp_limit sc)"
proof -
  from run obtain db1 e db2 b db3 where
    s1: "ensure_bucket inp sc db = Inr db1" and e: "scope_bucket inp sc db1 = Some e"
    and s2: "reconcile_bucket sc e db1 = Inr (db2, b)"
    and s3: "bump_reserved inp sc b db2 = Inr db3"
    and s4: "insert_ledger (new_ledger_row inp lease sc (bk_id b) db3) db3 = Inr db'"
    and rows': "rows' = rows @ [new_ledger_row inp lease sc (bk_id b) db3]"
    by (auto simp: reserve_scope_def bindR_eq_Inr Let_def split: option.splits)
  note i1 = ensure_bucket_inv[OF s1 inv]
  note k = scope_bucket_SomeD[OF e]
  have "e \<in> set (q_buckets db1)" using k by simp
  note i2 = reconcile_bucket_inv[OF s2 _ this]
  have o2: "lease_open inp lease db2"
    by (rule lease_open_mono[OF open']) (use i1 i2 in auto)
  have kb: "bucket_key b = (ri_resource inp, sp_type sc, sp_key sc, qw_key (ri_window inp))"
    using i1 i2 k by simp
  have b2: "quota_inv db2" "b \<in> set (q_buckets db2)" using i1 i2 by auto
  note i3 = charge_scope_inv[OF b2(1) o2 b2(2) kb s3 refl s4]
  from s3 have fits: "bk_reserved b + bk_committed b + ri_units inp \<le> bk_limit b"
    by (auto simp: bump_reserved_def Let_def split: if_splits)
  have lim: "bk_limit b = max (sp_limit sc) (bk_reserved b + bk_committed b)"
    using i1 i2 by auto
  with fits i3 have under: "bk_reserved b + ri_units inp + bk_committed b \<le> sp_limit sc" by auto
  from i3 obtain b' where b': "b' \<in> set (q_buckets db')" "bucket_key b' = bucket_key b"
    "bk_reserved b' = bk_reserved b + ri_units inp" "bk_committed b' = bk_committed b" by auto
  have "scope_bucket inp sc db' = Some b'"
    using i3 b' kb unfolding scope_bucket_def quota_inv_def buckets_wf_def
    by (subst lookup_Some_iff) auto
  moreover have "bk_reserved b' + bk_committed b' \<le> sp_limit sc"
    using under b' by linarith
  ultimately have cap: "\<exists>b'. scope_bucket inp sc db' = Some b'
      \<and> bk_reserved b' + bk_committed b' \<le> sp_limit sc" by blast
  show ?thesis
    using i1 i2 i3 cap rows' by (auto simp: new_ledger_row_def request_key_def)
qed

subsection \<open>All scopes of a request\<close>

text \<open>A scope that is charged twice or later ones do not touch keeps its bucket.\<close>

lemma set_bucket_scope_frame:
  assumes "scope_bucket inp sc db = Some b" "bk_id b \<noteq> i" "buckets_wf db"
    and "\<And>x. bucket_key (f x) = bucket_key x"
  shows "scope_bucket inp sc (set_bucket i f db) = Some b"
proof -
  have keys: "map bucket_key (update_where (\<lambda>b. bk_id b = i) f (q_buckets db))
      = map bucket_key (q_buckets db)"
    using assms(4) by (auto intro!: map_update_where)
  show ?thesis
    using assms scope_bucket_SomeD[OF assms(1)] keys unfolding scope_bucket_def
    by (subst lookup_Some_iff) (auto simp: buckets_wf_def set_update_where)
qed

lemma ensure_bucket_frame:
  assumes "ensure_bucket inp sc db = Inr db'" "scope_bucket inp s2 db = Some b"
  shows "scope_bucket inp s2 db' = Some b"
proof -
  have "lookup k i xs = Some x \<Longrightarrow> lookup k i (xs @ ys) = Some x" for k :: "bucket_row \<Rightarrow> _" and i xs ys x
    by (induction xs) (auto simp: table_simps)
  with assms show ?thesis
    by (auto simp: ensure_bucket_def scope_bucket_def Let_def split: if_splits)
qed

lemma reserve_scope_frame:
  assumes run: "reserve_scope inp lease sc (db, rows) = Inr (db', rows')"
    and inv: "quota_inv db" and open': "lease_open inp lease db"
    and other: "(sp_type s2, sp_key s2) \<noteq> (sp_type sc, sp_key sc)"
    and b: "scope_bucket inp s2 db = Some b"
  shows "scope_bucket inp s2 db' = Some b"
proof -
  from run obtain db1 e db2 b1 db3 where
    s1: "ensure_bucket inp sc db = Inr db1" and e: "scope_bucket inp sc db1 = Some e"
    and s2: "reconcile_bucket sc e db1 = Inr (db2, b1)"
    and s3: "bump_reserved inp sc b1 db2 = Inr db3"
    and s4: "insert_ledger (new_ledger_row inp lease sc (bk_id b1) db3) db3 = Inr db'"
    by (auto simp: reserve_scope_def bindR_eq_Inr Let_def split: option.splits)
  have inv1: "quota_inv db1" using ensure_bucket_inv[OF s1 inv] by simp
  have e1: "e \<in> set (q_buckets db1)" using scope_bucket_SomeD[OF e] by simp
  note i2 = reconcile_bucket_inv[OF s2 inv1 e1]
  have f1: "scope_bucket inp s2 db1 = Some b" by (rule ensure_bucket_frame[OF s1 b])
  have ne: "bk_id b \<noteq> bk_id e"
    using scope_bucket_SomeD[OF e] scope_bucket_SomeD[OF f1] inv1 other
    unfolding quota_inv_def buckets_wf_def by (metis distinct_key_unique prod.inject)
  have f2: "scope_bucket inp s2 db2 = Some b"
  proof (cases "db2 = db1")
    case False
    define e' where "e' = e\<lparr>bk_limit := reconcileQuotaBucketLimit (sp_limit sc) (bk_reserved e)
      (bk_committed e), bk_updatedAt := q_now db1\<rparr>"
    have "db2 = set_bucket (bk_id e) (\<lambda>_. e') db1"
      using s2 False by (auto simp: reconcile_bucket_def Let_def e'_def split: if_splits)
    moreover have "b \<in> set (update_where (\<lambda>x. bk_id x = bk_id e) (\<lambda>_. e') (q_buckets db1))"
      using scope_bucket_SomeD[OF f1] ne by (auto simp: set_update_where)
    ultimately show ?thesis
      using i2 scope_bucket_SomeD[OF f1] unfolding scope_bucket_def quota_inv_def buckets_wf_def
      by (subst lookup_Some_iff) auto
  qed (simp add: f1)
  from s3 have "scope_bucket inp s2 db3 = Some b"
    using f2 ne i2 by (auto simp: bump_reserved_def Let_def quota_inv_def bucket_key_def
        intro!: set_bucket_scope_frame split: if_splits)
  with s4 show ?thesis
    by (auto simp: insert_ledger_def scope_bucket_def split: if_splits)
qed

lemma reserve_scopes_loop:
  assumes "foldR (reserve_scope inp lease) scs (db, rows) = Inr (db', rows')"
    and "quota_inv db" and "lease_open inp lease db"
  shows "quota_inv db' \<and> lease_open inp lease db' \<and> q_users db' = q_users db \<and> q_now db' = q_now db
    \<and> (scs \<noteq> [] \<longrightarrow> 0 < ri_units inp)
    \<and> (\<exists>new. q_ledger db' = q_ledger db @ new \<and> rows' = rows @ new
         \<and> map (\<lambda>r. (ld_scopeType r, ld_scopeKey r)) new = map (\<lambda>s. (sp_type s, sp_key s)) scs
         \<and> (\<forall>r\<in>set new. ld_leaseId r = lease \<and> ld_status r = Reserved \<and> ld_units r = ri_units inp
              \<and> request_key r = (ri_actor inp, ri_resource inp, ri_clientRequest inp)))"
  using assms
proof (induction scs arbitrary: db rows)
  case Nil
  then show ?case by simp
next
  case (Cons sc scs)
  from Cons.prems(1) obtain d1 r1 where
    s: "reserve_scope inp lease sc (db, rows) = Inr (d1, r1)"
    and rest: "foldR (reserve_scope inp lease) scs (d1, r1) = Inr (db', rows')"
    by (auto simp: bindR_eq_Inr)
  note i = reserve_scope_inv[OF s Cons.prems(2,3)]
  from i have "quota_inv d1" "lease_open inp lease d1" by auto
  note ih = Cons.IH[OF rest this]
  from i obtain row where row: "q_ledger d1 = q_ledger db @ [row]" "r1 = rows @ [row]"
    "ld_leaseId row = lease" "ld_scopeType row = sp_type sc" "ld_scopeKey row = sp_key sc"
    "ld_status row = Reserved" "ld_units row = ri_units inp"
    "request_key row = (ri_actor inp, ri_resource inp, ri_clientRequest inp)" by auto
  from ih obtain new where new: "q_ledger db' = q_ledger d1 @ new" "rows' = r1 @ new"
    "map (\<lambda>r. (ld_scopeType r, ld_scopeKey r)) new = map (\<lambda>s. (sp_type s, sp_key s)) scs"
    "\<forall>r\<in>set new. ld_leaseId r = lease \<and> ld_status r = Reserved \<and> ld_units r = ri_units inp
       \<and> request_key r = (ri_actor inp, ri_resource inp, ri_clientRequest inp)" by auto
  have "\<exists>new. q_ledger db' = q_ledger db @ new \<and> rows' = rows @ new
      \<and> map (\<lambda>r. (ld_scopeType r, ld_scopeKey r)) new = map (\<lambda>s. (sp_type s, sp_key s)) (sc # scs)
      \<and> (\<forall>r\<in>set new. ld_leaseId r = lease \<and> ld_status r = Reserved \<and> ld_units r = ri_units inp
           \<and> request_key r = (ri_actor inp, ri_resource inp, ri_clientRequest inp))"
    using row new by (intro exI[of _ "row # new"]) simp
  with i ih show ?case by simp
qed

lemma reserve_scopes_frame:
  assumes "foldR (reserve_scope inp lease) scs (db, rows) = Inr (db', rows')"
    and "quota_inv db" and "lease_open inp lease db"
    and "(sp_type s2, sp_key s2) \<notin> (\<lambda>s. (sp_type s, sp_key s)) ` set scs"
    and "scope_bucket inp s2 db = Some b"
  shows "scope_bucket inp s2 db' = Some b"
  using assms
proof (induction scs arbitrary: db rows)
  case Nil
  then show ?case by simp
next
  case (Cons sc scs)
  from Cons.prems(1) obtain d1 r1 where
    s: "reserve_scope inp lease sc (db, rows) = Inr (d1, r1)"
    and rest: "foldR (reserve_scope inp lease) scs (d1, r1) = Inr (db', rows')"
    by (auto simp: bindR_eq_Inr)
  note i = reserve_scope_inv[OF s Cons.prems(2,3)]
  from i have "quota_inv d1" "lease_open inp lease d1" by auto
  moreover have "scope_bucket inp s2 d1 = Some b"
    using Cons.prems(4,5) by (intro reserve_scope_frame[OF s Cons.prems(2,3)]) auto
  ultimately show ?case
    using Cons.prems(4) by (intro Cons.IH[OF rest]) auto
qed

lemma reserve_scopes_cap:
  assumes "foldR (reserve_scope inp lease) scs (db, rows) = Inr (db', rows')"
    and "quota_inv db" and "lease_open inp lease db"
    and "distinct (map (\<lambda>s. (sp_type s, sp_key s)) scs)"
  shows "\<forall>sc\<in>set scs. \<exists>b. scope_bucket inp sc db' = Some b
           \<and> bk_reserved b + bk_committed b \<le> sp_limit sc"
  using assms
proof (induction scs arbitrary: db rows)
  case Nil
  then show ?case by simp
next
  case (Cons sc scs)
  from Cons.prems(1) obtain d1 r1 where
    s: "reserve_scope inp lease sc (db, rows) = Inr (d1, r1)"
    and rest: "foldR (reserve_scope inp lease) scs (d1, r1) = Inr (db', rows')"
    by (auto simp: bindR_eq_Inr)
  note i = reserve_scope_inv[OF s Cons.prems(2,3)]
  from i have i1: "quota_inv d1" "lease_open inp lease d1" by auto
  from i obtain b where b: "scope_bucket inp sc d1 = Some b"
    "bk_reserved b + bk_committed b \<le> sp_limit sc" by auto
  have "scope_bucket inp sc db' = Some b"
    using Cons.prems(4) by (intro reserve_scopes_frame[OF rest i1 _ b(1)]) auto
  with b Cons.IH[OF rest i1] Cons.prems(4) show ?case by auto
qed

text \<open>
  The charged scopes are pairwise different: a repeated scope would break the unique
  index on the request and its scope, and the insert would have failed.
\<close>

lemma reserve_scopes_distinct:
  assumes "foldR (reserve_scope inp lease) scs (db, rows) = Inr (db', rows')"
    and "quota_inv db" and "lease_open inp lease db"
  shows "distinct (map (\<lambda>s. (sp_type s, sp_key s)) scs)"
proof -
  from reserve_scopes_loop[OF assms] obtain new where
    new: "q_ledger db' = q_ledger db @ new"
    "map (\<lambda>r. (ld_scopeType r, ld_scopeKey r)) new = map (\<lambda>s. (sp_type s, sp_key s)) scs"
    "\<forall>r\<in>set new. request_key r = (ri_actor inp, ri_resource inp, ri_clientRequest inp)"
    and "quota_inv db'" by auto
  then have "distinct (map ledger_key new)"
    by (auto simp: quota_inv_def ledger_wf_def)
  moreover have "map ledger_key new = map (\<lambda>k. ((ri_actor inp, ri_resource inp,
      ri_clientRequest inp), fst k, snd k)) (map (\<lambda>r. (ld_scopeType r, ld_scopeKey r)) new)"
    using new(3) by (simp add: ledger_key_def)
  ultimately have "distinct (map (\<lambda>k. ((ri_actor inp, ri_resource inp, ri_clientRequest inp),
      fst k, snd k)) (map (\<lambda>s. (sp_type s, sp_key s)) scs))"
    by (simp only: new(2))
  then show ?thesis unfolding distinct_map by blast
qed

definition used_units :: "reserve_input \<Rightarrow> scope_policy \<Rightarrow> quota_db \<Rightarrow> int" where
  "used_units inp sc db =
     (case scope_bucket inp sc db of None \<Rightarrow> 0 | Some b \<Rightarrow> bk_reserved b + bk_committed b)"

lemma ensure_bucket_used:
  assumes "ensure_bucket inp sc db = Inr db1" and "scope_bucket inp sc db1 = Some b"
  shows "bk_reserved b + bk_committed b = used_units inp sc db"
proof (cases "scope_bucket inp sc db")
  case (Some x)
  then have "db1 = db"
    using assms(1) scope_bucket_SomeD[OF Some]
    by (auto simp: ensure_bucket_def Let_def bucket_key_def split: if_splits)
  with Some assms(2) show ?thesis by (simp add: used_units_def)
next
  case None
  then show ?thesis
    using assms by (auto simp: used_units_def ensure_bucket_def scope_bucket_def Let_def
        lookup_append lookup_Cons lookup_Nil split: if_splits)
qed

text \<open>One scope: granted exactly while the units fit the policy's limit.\<close>

lemma reconcile_bucket_ok:
  assumes "bucket_check b" and "0 < sp_limit sc" and "int4_ok (sp_limit sc)"
  shows "\<exists>db2 b2. reconcile_bucket sc b db = Inr (db2, b2)
    \<and> bk_limit b2 = max (sp_limit sc) (bk_reserved b + bk_committed b)
    \<and> bk_reserved b2 = bk_reserved b \<and> bk_committed b2 = bk_committed b
    \<and> q_ledger db2 = q_ledger db"
proof -
  define l where "l = max (sp_limit sc) (bk_reserved b + bk_committed b)"
  have "bucket_check (b\<lparr>bk_limit := l, bk_updatedAt := q_now db\<rparr>)"
    using assms by (auto simp: bucket_check_def l_def int4_ok_def)
  then show ?thesis
    by (simp add: reconcile_bucket_def reconcileQuotaBucketLimit_def Let_def l_def[symmetric])
qed

lemma reserve_scope_exact:
  assumes inv: "quota_inv db" and units: "0 < ri_units inp" and lim: "0 < sp_limit sc"
    "int4_ok (sp_limit sc)"
    and fit: "int4_ok (used_units inp sc db + ri_units inp)"
    and new: "\<forall>r\<in>set (q_ledger db). request_key r \<noteq> (ri_actor inp, ri_resource inp, ri_clientRequest inp)"
  shows "if used_units inp sc db + ri_units inp \<le> sp_limit sc
    then \<exists>d row. reserve_scope inp lease sc (db, rows) = Inr (d, rows @ [row])
    else \<exists>t l r. reserve_scope inp lease sc (db, rows) = Inl (QuotaExceeded (ri_resource inp) t l r)"
proof -
  have "\<exists>db1. ensure_bucket inp sc db = Inr db1"
    using lim by (simp add: ensure_bucket_def Let_def bucket_check_def)
  then obtain db1 where e: "ensure_bucket inp sc db = Inr db1" by blast
  from ensure_bucket_present[OF e] obtain b where b: "scope_bucket inp sc db1 = Some b" by blast
  define used where "used = used_units inp sc db"
  have b_used: "bk_reserved b + bk_committed b = used"
    using ensure_bucket_used[OF e b] by (simp add: used_def)
  have chk: "bucket_check b"
    using ensure_bucket_inv[OF e inv] scope_bucket_SomeD[OF b] by (auto simp: quota_inv_defs)
  define l where "l = max (sp_limit sc) used"
  from reconcile_bucket_ok[OF chk lim, of db1] obtain db2 b2 where
    r: "reconcile_bucket sc b db1 = Inr (db2, b2)" "bk_limit b2 = l"
    "bk_reserved b2 = bk_reserved b" "bk_committed b2 = bk_committed b" "q_ledger db2 = q_ledger db"
    using b_used ensure_bucket_inv[OF e inv] by (auto simp: l_def)
  show ?thesis
    using e b r b_used fit[folded used_def] units new l_def unfolding used_def[symmetric]
    by (auto simp: reserve_scope_def bump_reserved_def insert_ledger_def new_ledger_row_def Let_def
        ledger_key_def request_key_def)
qed

end
