(* ===== verification/Quota_Settlement.thy ===== *)
theory Quota_Settlement
  imports Quota_Invariant
begin

section \<open>Settlement and reservation keep the books\<close>

text \<open>
  The two transactions of the ledger as a whole. Settling a lease never fails once the
  lease exists: the CHECK constraints hold after each row. It moves exactly the units of
  the rows that are still reserved and leaves a settled lease alone. Reserving either
  returns the lease that the request key already has, or opens a new lease with one row
  per scope under the policy limit, or fails and changes nothing.
\<close>

definition core_inv :: "quota_db \<Rightarrow> bool" where
  "core_inv db \<longleftrightarrow> buckets_wf db \<and> ledger_wf db \<and> books_balance db"

definition lease_status :: "quota_db \<Rightarrow> nat \<Rightarrow> reservation_status option" where
  "lease_status db lease = map_option ld_status (lookup ld_leaseId lease (q_ledger db))"

definition settle_by ::
  "reservation_status \<Rightarrow> timestamp \<Rightarrow> ledger_row list \<Rightarrow> bucket_row \<Rightarrow> bucket_row" where
  "settle_by target now rows b =
     (case find (\<lambda>r. ld_bucketId r = bk_id b \<and> ld_status r = Reserved) rows of
        None \<Rightarrow> b | Some r \<Rightarrow> settle_bucket target (ld_units r) now b)"

subsection \<open>One row\<close>

lemma transition_row_settled:
  "ld_status r \<noteq> Reserved \<Longrightarrow> transition_row target reason r db = Inr db"
  by (simp add: transition_row_def)

lemma outstanding_ge_row:
  assumes "ledger_wf db" "r \<in> set (q_ledger db)" "ld_bucketId r = bk_id b" "ld_status r = Reserved"
  shows "ld_units r \<le> outstanding b (q_ledger db)"
proof -
  have pos: "0 \<le> ld_units x" if "x \<in> set (q_ledger db)" for x
    using assms(1) that unfolding ledger_wf_def by (simp add: order_less_imp_le)
  have "ld_units r \<le> tally (\<lambda>r. ld_bucketId r = bk_id b \<and> ld_status r = Reserved) ld_units xs"
    if "r \<in> set xs" "\<And>x. x \<in> set xs \<Longrightarrow> 0 \<le> ld_units x" for xs
    using that
  proof (induction xs)
    case (Cons y ys)
    have "0 \<le> tally (\<lambda>r. ld_bucketId r = bk_id b \<and> ld_status r = Reserved) ld_units ys"
      using Cons.prems(2) by (intro tally_nonneg) simp
    moreover have nn: "0 \<le> ld_units y" using Cons.prems(2) by simp
    ultimately show ?case
    proof (cases "r = y")
      case True
      with assms(3,4) \<open>0 \<le> tally _ _ ys\<close> show ?thesis by (simp add: table_simps)
    next
      case False
      with Cons.prems(1) have "r \<in> set ys" by simp
      then have "ld_units r \<le> tally (\<lambda>r. ld_bucketId r = bk_id b \<and> ld_status r = Reserved) ld_units ys"
        by (rule Cons.IH) (simp add: Cons.prems(2))
      moreover have "tally (\<lambda>r. ld_bucketId r = bk_id b \<and> ld_status r = Reserved) ld_units (y # ys)
          \<ge> tally (\<lambda>r. ld_bucketId r = bk_id b \<and> ld_status r = Reserved) ld_units ys"
        using nn unfolding tally_Cons by (simp only: split: if_split) simp
      ultimately show ?thesis by (rule order_trans)
    qed
  qed simp
  with assms(2) pos show ?thesis unfolding outstanding_def by blast
qed

lemma transition_row_core:
  assumes core: "core_inv db" and r: "r \<in> set (q_ledger db)" and st: "ld_status r = Reserved"
    and tg: "target \<noteq> Reserved"
  shows "\<exists>db'. transition_row target reason r db = Inr db' \<and> core_inv db'
    \<and> q_ledger db' = update_where (\<lambda>x. ld_id x = ld_id r) (settle_row target reason (q_now db)) (q_ledger db)
    \<and> q_buckets db' = update_where (\<lambda>b. bk_id b = ld_bucketId r)
         (settle_bucket target (ld_units r) (q_now db)) (q_buckets db)
    \<and> q_users db' = q_users db \<and> q_now db' = q_now db \<and> q_next db' = q_next db"
proof -
  define sb where "sb = settle_bucket target (ld_units r) (q_now db)"
  define sr where "sr = settle_row target reason (q_now db)"
  have wf: "buckets_wf db" "ledger_wf db" "books_balance db"
    using core by (auto simp: core_inv_def)
  have units: "0 < ld_units r" using wf(2) r by (auto simp: ledger_wf_def)
  have chk: "bucket_check (sb b)" if "b \<in> set (q_buckets db)" "bk_id b = ld_bucketId r" for b
  proof -
    have "bk_reserved b = outstanding b (q_ledger db)" and c: "bucket_check b"
      using wf that by (auto simp: books_balance_def buckets_wf_def)
    moreover have "ld_units r \<le> outstanding b (q_ledger db)"
      using that by (intro outstanding_ge_row[OF wf(2) r _ st]) simp
    ultimately show ?thesis
      using units by (auto simp: bucket_check_def sb_def settle_bucket_def)
  qed
  define db1 where "db1 = set_bucket (ld_bucketId r) sb db"
  define db' where "db' = db1\<lparr>q_ledger := update_where (\<lambda>x. ld_id x = ld_id r) sr (q_ledger db1)\<rparr>"
  have nofail: "\<not> (\<exists>b\<in>set (q_buckets db1). bk_id b = ld_bucketId r \<and> \<not> bucket_check b)"
    using chk by (auto simp: db1_def set_update_where sb_def)
  then have res: "transition_row target reason r db = Inr db'"
    using st by (simp add: transition_row_def Let_def db1_def db'_def sb_def sr_def)
  have wf1: "buckets_wf db1" "ledger_wf db1"
    unfolding db1_def using wf chk
    by (auto intro!: buckets_wf_set_bucket ledger_wf_set_bucket simp: sb_def)
  have keys: "map ld_id (update_where (\<lambda>x. ld_id x = ld_id r) sr xs) = map ld_id xs"
    "map ledger_key (update_where (\<lambda>x. ld_id x = ld_id r) sr xs) = map ledger_key xs" for xs
    by (auto intro!: map_update_where simp: sr_def)
  have "buckets_wf db'" using wf1(1) by (simp add: buckets_wf_def db'_def)
  moreover have "ledger_wf db'"
    using wf1(2) keys unfolding ledger_wf_def db'_def by (auto simp: set_update_where sr_def)
  moreover have "books_balance db'"
    unfolding books_balance_def
  proof
    fix b' assume "b' \<in> set (q_buckets db')"
    then obtain b where b: "b \<in> set (q_buckets db)"
      and b': "b' = (if bk_id b = ld_bucketId r then sb b else b)"
      by (auto simp: db'_def db1_def update_where_def)
    have id': "bk_id b' = bk_id b" by (simp add: b' sb_def)
    have dist: "distinct (map ld_id (q_ledger db))" using wf(2) by (simp add: ledger_wf_def)
    have ledger': "q_ledger db' = update_where (\<lambda>x. ld_id x = ld_id r) sr (q_ledger db)"
      by (simp add: db'_def db1_def)
    have o: "outstanding b' (q_ledger db') = outstanding b (q_ledger db)
        - (if bk_id b = ld_bucketId r then ld_units r else 0)"
      unfolding outstanding_def ledger' id' tally_update_one[OF dist r]
      using st tg by (simp add: sr_def)
    have s: "settled b' (q_ledger db') = settled b (q_ledger db)
        + (if bk_id b = ld_bucketId r \<and> target = Committed then ld_units r else 0)"
      unfolding settled_def ledger' id' tally_update_one[OF dist r]
      using st tg by (simp add: sr_def)
    have "bk_reserved b = outstanding b (q_ledger db) \<and> settled b (q_ledger db) \<le> bk_committed b"
      using wf(3) b by (simp add: books_balance_def)
    with o s show "bk_reserved b' = outstanding b' (q_ledger db')
        \<and> settled b' (q_ledger db') \<le> bk_committed b'"
      by (simp add: b' sb_def settle_bucket_def)
  qed
  ultimately have "core_inv db'" by (simp add: core_inv_def)
  with res show ?thesis by (simp add: db'_def db1_def sb_def sr_def)
qed

subsection \<open>All rows of a lease\<close>

lemma settle_by_Nil: "settle_by target now [] b = b"
  by (simp add: settle_by_def)

lemma transition_loop:
  assumes "core_inv db" "set rows \<subseteq> set (q_ledger db)" "distinct (map ld_id rows)"
    and "distinct (map ld_bucketId rows)" "target \<noteq> Reserved"
  shows "\<exists>db'. foldR (transition_row target reason) rows db = Inr db' \<and> core_inv db'
    \<and> q_ledger db' = update_where (\<lambda>x. ld_id x \<in> ld_id ` set rows \<and> ld_status x = Reserved)
          (settle_row target reason (q_now db)) (q_ledger db)
    \<and> q_buckets db' = map (settle_by target (q_now db) rows) (q_buckets db)
    \<and> q_users db' = q_users db \<and> q_now db' = q_now db \<and> q_next db' = q_next db"
  using assms
proof (induction rows arbitrary: db)
  case Nil
  then show ?case by (simp add: update_where_none settle_by_Nil[abs_def] map_idI)
next
  case (Cons r rows)
  define now where "now = q_now db"
  have dist: "distinct (map ld_id (q_ledger db))"
    using Cons.prems(1) by (simp add: core_inv_def ledger_wf_def)
  have rin: "r \<in> set (q_ledger db)" using Cons.prems(2) by simp
  show ?case
  proof (cases "ld_status r = Reserved")
    case False
    have idr: "x = r" if "x \<in> set (q_ledger db)" "ld_id x = ld_id r" for x
      using that rin dist by (metis distinct_key_unique)
    have cong: "update_where (\<lambda>x. ld_id x \<in> ld_id ` set rows \<and> ld_status x = Reserved) f (q_ledger db)
      = update_where (\<lambda>x. ld_id x \<in> ld_id ` set (r # rows) \<and> ld_status x = Reserved) f (q_ledger db)"
      for f using False idr by (auto simp: update_where_def intro!: map_cong)
    have "settle_by target t (r # rows) = settle_by target t rows" for t
      using False by (simp add: settle_by_def fun_eq_iff)
    with Cons.IH[OF Cons.prems(1)] Cons.prems False cong show ?thesis
      by (simp add: transition_row_settled)
  next
    case True
    from transition_row_core[OF Cons.prems(1) rin True Cons.prems(5), of reason]
    obtain db1 where step: "transition_row target reason r db = Inr db1" and core1: "core_inv db1"
      and l1: "q_ledger db1 = update_where (\<lambda>x. ld_id x = ld_id r) (settle_row target reason now) (q_ledger db)"
      and b1: "q_buckets db1 = update_where (\<lambda>b. bk_id b = ld_bucketId r)
         (settle_bucket target (ld_units r) now) (q_buckets db)"
      and same: "q_users db1 = q_users db" "q_now db1 = now" "q_next db1 = q_next db"
      by (auto simp: now_def)
    have sub: "set rows \<subseteq> set (q_ledger db1)"
    proof
      fix x assume x: "x \<in> set rows"
      then have "ld_id x \<noteq> ld_id r" using Cons.prems(3) by (auto simp: image_iff)
      with x Cons.prems(2) show "x \<in> set (q_ledger db1)" by (auto simp: l1 set_update_where)
    qed
    from Cons.IH[OF core1 sub] Cons.prems obtain db' where
      loop: "foldR (transition_row target reason) rows db1 = Inr db'" "core_inv db'"
      and l': "q_ledger db' = update_where (\<lambda>x. ld_id x \<in> ld_id ` set rows \<and> ld_status x = Reserved)
          (settle_row target reason now) (q_ledger db1)"
      and b': "q_buckets db' = map (settle_by target now rows) (q_buckets db1)"
      and same': "q_users db' = q_users db1" "q_now db' = now" "q_next db' = q_next db1"
      using same by auto
    have idr: "x = r" if "x \<in> set (q_ledger db)" "ld_id x = ld_id r" for x
      using that rin dist by (metis distinct_key_unique)
    have ledger: "q_ledger db' = update_where
        (\<lambda>x. ld_id x \<in> ld_id ` set (r # rows) \<and> ld_status x = Reserved)
        (settle_row target reason now) (q_ledger db)"
      unfolding l' l1 update_where_def map_map
      using idr True Cons.prems(5) by (intro map_cong) auto
    have none: "find (\<lambda>x. ld_bucketId x = ld_bucketId r \<and> ld_status x = Reserved) rows = None"
    proof -
      have "ld_bucketId r \<notin> ld_bucketId ` set rows" using Cons.prems(4) by simp
      then show ?thesis by (metis (mono_tags, lifting) find_None_iff imageI)
    qed
    have buckets: "q_buckets db' = map (settle_by target now (r # rows)) (q_buckets db)"
      unfolding b' b1 update_where_def map_map
      using True none by (intro map_cong) (auto simp: settle_by_def)
    show ?thesis
      using step loop ledger buckets same same' by (simp add: now_def)
  qed
qed

lemma lease_rows_facts:
  assumes inv: "quota_inv db" and rows: "transition_rows col inp db \<noteq> []"
  defines "rs \<equiv> transition_rows col inp db"
  shows "set rs = {r \<in> set (q_ledger db). ld_leaseId r = ti_leaseId inp}"
    and "distinct (map ld_id rs)" and "distinct (map ld_bucketId rs)"
proof -
  define P where "P = (\<lambda>r. ld_leaseId r = ti_leaseId inp \<and> actor_matches (ti_actor inp) r)"
  have mset_rs: "mset rs = mset (filter P (q_ledger db))"
    by (simp add: rs_def transition_rows_def P_def)
  have set_rs: "set rs = {r \<in> set (q_ledger db). P r}"
    by (simp add: rs_def transition_rows_def P_def)
  obtain r0 where "r0 \<in> set rs" using rows unfolding rs_def by (meson last_in_set)
  then have r0: "r0 \<in> set (q_ledger db)" "P r0" using set_rs by simp_all
  have agree: "request_key r = request_key r0" if "r \<in> set (q_ledger db)" "ld_leaseId r = ti_leaseId inp" for r
    using inv that r0 unfolding quota_inv_def leases_agree_def P_def by metis
  have act: "actor_matches (ti_actor inp) r" if "r \<in> set (q_ledger db)" "ld_leaseId r = ti_leaseId inp" for r
  proof -
    have "ld_actor r = ld_actor r0" using agree[OF that] by (simp add: request_key_def)
    moreover have "actor_matches (ti_actor inp) r0" using r0 by (simp add: P_def)
    ultimately show ?thesis by (simp add: actor_matches_def split: option.splits)
  qed
  from set_rs act show set': "set rs = {r \<in> set (q_ledger db). ld_leaseId r = ti_leaseId inp}"
    by (auto simp: P_def)
  have wf: "ledger_wf db" "buckets_wf db" using inv by (auto simp: quota_inv_def)
  have "distinct (map ld_id (filter P (q_ledger db)))"
    using wf(1) by (simp add: ledger_wf_def distinct_map_filter)
  then show ids: "distinct (map ld_id rs)"
    using mset_rs by (metis mset_eq_imp_distinct_iff mset_map)
  have "inj_on ld_bucketId (set rs)"
  proof (rule inj_onI)
    fix x y assume xy: "x \<in> set rs" "y \<in> set rs" "ld_bucketId x = ld_bucketId y"
    then obtain bx "by" where "bx \<in> set (q_buckets db)" "points_at x bx"
      "by \<in> set (q_buckets db)" "points_at y by"
      using wf(1) set' unfolding ledger_wf_def by blast
    moreover from this xy(3) have "bx = by"
      using wf(2) unfolding buckets_wf_def points_at_def by (metis distinct_key_unique)
    ultimately have "ledger_key x = ledger_key y"
      using agree xy(1,2) set' by (auto simp: ledger_key_def points_at_def)
    moreover have "distinct (map ledger_key (q_ledger db))" using wf(1) by (simp add: ledger_wf_def)
    moreover have "x \<in> set (q_ledger db)" "y \<in> set (q_ledger db)" using xy(1,2) set' by simp_all
    ultimately show "x = y" by (metis distinct_key_unique)
  qed
  with ids show "distinct (map ld_bucketId rs)"
    by (metis distinct_map)
qed

subsection \<open>The settlement transaction\<close>

lemma lookup_lease_rows:
  assumes "r \<in> set (q_ledger db)" "ld_leaseId r = lease"
  shows "\<exists>r'. lookup ld_leaseId lease (q_ledger db) = Some r' \<and> r' \<in> set (q_ledger db)
    \<and> ld_leaseId r' = lease"
proof (cases "lookup ld_leaseId lease (q_ledger db)")
  case None
  with assms show ?thesis by (simp add: lookup_None_iff)
next
  case (Some r')
  then show ?thesis by (auto dest: lookup_SomeD)
qed

lemma lease_status_row:
  assumes "leases_agree db" "r \<in> set (q_ledger db)"
  shows "lease_status db (ld_leaseId r) = Some (ld_status r)"
proof -
  from lookup_lease_rows[OF assms(2) refl] obtain r' where
    r': "lookup ld_leaseId (ld_leaseId r) (q_ledger db) = Some r'" "r' \<in> set (q_ledger db)"
    "ld_leaseId r' = ld_leaseId r" by blast
  then have "ld_status r' = ld_status r"
    using assms unfolding leases_agree_def by blast
  with r' show ?thesis by (simp add: lease_status_def)
qed

lemma lease_status_SomeD:
  "lease_status db lease = Some st \<Longrightarrow>
   \<exists>r. r \<in> set (q_ledger db) \<and> ld_leaseId r = lease \<and> ld_status r = st"
  by (auto simp: lease_status_def dest: lookup_SomeD)

lemma aggregateStatus_uniform:
  assumes "rows \<noteq> []" "\<forall>r\<in>set rows. ld_status r = st"
  shows "aggregateStatus rows = st"
proof -
  from assms(1) obtain r where "r \<in> set rows" by (meson last_in_set)
  with assms(2) show ?thesis
    by (cases st) (auto simp: aggregateStatus_def list_all_iff)
qed

text \<open>The ledger after settling: the reserved rows of the lease have the new status.\<close>

definition settled_ledger ::
  "reservation_status \<Rightarrow> string option \<Rightarrow> timestamp \<Rightarrow> nat \<Rightarrow> ledger_row list \<Rightarrow> ledger_row list" where
  "settled_ledger target reason now lease =
     update_where (\<lambda>x. ld_leaseId x = lease \<and> ld_status x = Reserved) (settle_row target reason now)"

lemma leases_agree_settled:
  assumes "leases_agree db" and "q_ledger db' = settled_ledger target reason now lease (q_ledger db)"
  shows "leases_agree db'"
proof -
  define f where "f = (\<lambda>x. if ld_leaseId x = lease \<and> ld_status x = Reserved
    then settle_row target reason now x else x)"
  have keys: "ld_leaseId (f x) = ld_leaseId x" "request_key (f x) = request_key x"
    "ld_units (f x) = ld_units x" for x by (simp_all add: f_def)
  have img: "set (q_ledger db') = f ` set (q_ledger db)"
    by (simp add: assms(2) settled_ledger_def update_where_def f_def)
  have step: "(ld_leaseId (f x) = ld_leaseId (f y) \<longrightarrow> request_key (f x) = request_key (f y)
      \<and> ld_units (f x) = ld_units (f y) \<and> ld_status (f x) = ld_status (f y)) \<and>
      (request_key (f x) = request_key (f y) \<longrightarrow> ld_leaseId (f x) = ld_leaseId (f y))"
    if "x \<in> set (q_ledger db)" "y \<in> set (q_ledger db)" for x y
  proof -
    have "(ld_leaseId x = ld_leaseId y \<longrightarrow> request_key x = request_key y
      \<and> ld_units x = ld_units y \<and> ld_status x = ld_status y) \<and>
      (request_key x = request_key y \<longrightarrow> ld_leaseId x = ld_leaseId y)"
      using assms(1) that unfolding leases_agree_def by blast
    moreover from this have "ld_status (f x) = ld_status (f y)" if "ld_leaseId x = ld_leaseId y"
      using that by (auto simp: f_def)
    ultimately show ?thesis unfolding keys by blast
  qed
  show ?thesis
    unfolding leases_agree_def img by (intro ballI, elim imageE, hypsubst) (rule step)
qed

lemma transition_ok:
  assumes inv: "quota_inv db" and rows: "transition_rows col inp db \<noteq> []"
    and tg: "target \<noteq> Reserved" and st: "lease_status db (ti_leaseId inp) = Some st"
  shows "\<exists>rv db'. transitionQuotaReservation col inp target db = Inr (rv, db') \<and> quota_inv db'
    \<and> rv_leaseId rv = ti_leaseId inp \<and> rv_idempotent rv
    \<and> rv_status rv = (if st = Reserved then target else st)
    \<and> lease_status db' (ti_leaseId inp) = Some (if st = Reserved then target else st)
    \<and> q_ledger db' = settled_ledger target (ti_reason inp) (q_now db) (ti_leaseId inp) (q_ledger db)
    \<and> q_buckets db' = map (settle_by target (q_now db) (transition_rows col inp db)) (q_buckets db)
    \<and> q_users db' = q_users db \<and> q_now db' = q_now db \<and> q_next db' = q_next db
    \<and> (\<exists>r\<in>set (q_ledger db). ld_leaseId r = ti_leaseId inp \<and> rv_resource rv = ld_resource r)"
proof -
  define rs where "rs = transition_rows col inp db"
  note facts = lease_rows_facts[OF inv rows, folded rs_def]
  have core: "core_inv db" using inv by (simp add: quota_inv_def core_inv_def)
  from transition_loop[OF core _ facts(2,3) tg, of "ti_reason inp"] facts(1) obtain db' where
    loop: "foldR (transition_row target (ti_reason inp)) rs db = Inr db'" and core': "core_inv db'"
    and led: "q_ledger db' = update_where (\<lambda>x. ld_id x \<in> ld_id ` set rs \<and> ld_status x = Reserved)
      (settle_row target (ti_reason inp) (q_now db)) (q_ledger db)"
    and buck: "q_buckets db' = map (settle_by target (q_now db) rs) (q_buckets db)"
    and same: "q_users db' = q_users db" "q_now db' = q_now db" "q_next db' = q_next db"
    by auto
  have dist: "distinct (map ld_id (q_ledger db))"
    using core by (simp add: core_inv_def ledger_wf_def)
  have mem: "ld_id x \<in> ld_id ` set rs \<longleftrightarrow> ld_leaseId x = ti_leaseId inp"
    if "x \<in> set (q_ledger db)" for x
    using that facts(1) distinct_key_unique[OF dist that] by auto
  have led': "q_ledger db' = settled_ledger target (ti_reason inp) (q_now db) (ti_leaseId inp) (q_ledger db)"
    unfolding led settled_ledger_def update_where_def using mem by (intro map_cong) auto
  have agree: "leases_agree db" "leases_agree db'"
    using inv leases_agree_settled[OF _ led'] by (simp_all add: quota_inv_def)
  with core' have inv': "quota_inv db'" by (simp add: quota_inv_def core_inv_def)
  define st' where "st' = (if st = Reserved then target else st)"
  define rs' where "rs' = transition_rows col inp db'"
  obtain r where r: "r \<in> set rs" using rows unfolding rs_def by (meson last_in_set)
  have stat: "ld_status x = st" if "x \<in> set (q_ledger db)" "ld_leaseId x = ti_leaseId inp" for x
    using lease_status_row[OF agree(1) that(1)] that(2) st by simp
  have stat': "ld_status x = st'" if "x \<in> set (q_ledger db')" "ld_leaseId x = ti_leaseId inp" for x
    using that stat unfolding led' settled_ledger_def set_update_where
    by (auto simp: st'_def)
  define r' where "r' = (if ld_status r = Reserved
    then settle_row target (ti_reason inp) (q_now db) r else r)"
  have rl: "r \<in> set (q_ledger db)" "ld_leaseId r = ti_leaseId inp" "actor_matches (ti_actor inp) r"
    using r by (auto simp: rs_def transition_rows_def)
  have r': "r' \<in> set (q_ledger db')" "ld_leaseId r' = ti_leaseId inp" "ld_resource r' = ld_resource r"
    "actor_matches (ti_actor inp) r'"
    using rl by (auto simp: led' settled_ledger_def set_update_where r'_def actor_matches_def
        split: option.splits)
  then have in': "r' \<in> set rs'" by (simp add: rs'_def transition_rows_def)
  then have ne: "rs' \<noteq> []" by auto
  have set': "set rs' = {x \<in> set (q_ledger db'). ld_leaseId x = ti_leaseId inp}"
    using lease_rows_facts(1)[OF inv'] ne unfolding rs'_def by blast
  have agg: "aggregateStatus rs' = st'"
    using ne stat' set' by (intro aggregateStatus_uniform) auto
  obtain f fs where f: "rs' = f # fs" using ne by (cases rs') auto
  then have fin: "f \<in> set (q_ledger db')" "ld_leaseId f = ti_leaseId inp"
    using set' by (auto simp: set_eq_iff)
  then have "request_key f = request_key r'"
    using agree(2) r'(1,2) unfolding leases_agree_def by metis
  then have fres: "ld_resource f = ld_resource r" using r'(3) by (simp add: request_key_def)
  have ls': "lease_status db' (ti_leaseId inp) = Some st'"
    using lease_status_row[OF agree(2) r'(1)] r' stat' by simp
  obtain rv where rv: "reservationFromRows db' rs' True = Inr rv" "rv_leaseId rv = ld_leaseId f"
    "rv_resource rv = ld_resource f" "rv_status rv = st'" "rv_idempotent rv"
    using agg by (simp add: reservationFromRows_def f Let_def)
  have "transitionQuotaReservation col inp target db = Inr (rv, db')"
    using rows loop rv(1) by (simp add: transitionQuotaReservation_def rs_def rs'_def)
  moreover have "rv_leaseId rv = ti_leaseId inp" "rv_resource rv = ld_resource r"
    using rv fin(2) fres by simp_all
  ultimately show ?thesis
    using rv(4,5) inv' ls' led' buck same rl(1,2) unfolding rs_def st'_def by blast
qed

subsection \<open>The reservation transaction\<close>

text \<open>What settling takes from a bucket is what the lease holds there.\<close>

lemma settle_by_charge:
  assumes inv: "quota_inv db" and rows: "transition_rows col inp db \<noteq> []"
  defines "c \<equiv> \<lambda>b. tally (\<lambda>r. ld_leaseId r = ti_leaseId inp \<and> ld_bucketId r = bk_id b
     \<and> ld_status r = Reserved) ld_units (q_ledger db)"
  shows "bk_id (settle_by target now (transition_rows col inp db) b) = bk_id b
    \<and> bk_limit (settle_by target now (transition_rows col inp db) b) = bk_limit b
    \<and> bk_reserved (settle_by target now (transition_rows col inp db) b) = bk_reserved b - c b
    \<and> bk_committed (settle_by target now (transition_rows col inp db) b)
        = bk_committed b + (if target = Committed then c b else 0)"
proof -
  define rs where "rs = transition_rows col inp db"
  note facts = lease_rows_facts[OF inv rows, folded rs_def]
  have ids: "distinct (map ld_id (q_ledger db))" using inv by (simp add: quota_inv_defs)
  show ?thesis
  proof (cases "find (\<lambda>r. ld_bucketId r = bk_id b \<and> ld_status r = Reserved) rs")
    case None
    then have "\<forall>r\<in>set (q_ledger db). \<not> (ld_leaseId r = ti_leaseId inp \<and> ld_bucketId r = bk_id b
      \<and> ld_status r = Reserved)" using facts(1) by (auto simp: find_None_iff)
    then have "c b = 0" unfolding c_def by (intro tally_zero) blast
    with None show ?thesis by (simp add: settle_by_def rs_def)
  next
    case (Some r)
    then have r: "r \<in> set rs" "ld_bucketId r = bk_id b" "ld_status r = Reserved"
      by (auto dest: find_SomeD)
    have "tally (\<lambda>x. ld_leaseId x = ti_leaseId inp \<and> ld_bucketId x = bk_id b
        \<and> ld_status x = Reserved) ld_units (q_ledger db)
      = tally (\<lambda>x. x = r) ld_units (q_ledger db)"
    proof (intro tally_cong refl)
      fix x assume "x \<in> set (q_ledger db)"
      then show "(ld_leaseId x = ti_leaseId inp \<and> ld_bucketId x = bk_id b \<and> ld_status x = Reserved)
          = (x = r)"
        using r facts(1) distinct_key_unique[OF facts(3), of x r] by auto
    qed
    also have "\<dots> = ld_units r"
      using ids r(1) facts(1) by (intro tally_single) (auto simp: distinct_map)
    finally show ?thesis using Some by (simp add: c_def settle_by_def rs_def settle_bucket_def)
  qed
qed

definition input_key :: "reserve_input \<Rightarrow> string \<times> quota_resource \<times> string" where
  "input_key inp = (ri_actor inp, ri_resource inp, ri_clientRequest inp)"

text \<open>
  The scopes of a request are a function of the account and the resource, so the rows an
  earlier request with the same key has left are in scopes of this one.
\<close>

definition scopes_cover :: "reserve_input \<Rightarrow> quota_db \<Rightarrow> bool" where
  "scopes_cover inp db \<longleftrightarrow> (\<forall>r\<in>set (q_ledger db). request_key r = input_key inp \<longrightarrow>
     (ld_scopeType r, ld_scopeKey r) \<in> (\<lambda>s. (sp_type s, sp_key s)) ` set (ri_scopes inp))"

lemma quota_inv_next: "quota_inv db \<Longrightarrow> q_next db \<le> n \<Longrightarrow> quota_inv (db\<lparr>q_next := n\<rparr>)"
  using leases_agree_ledger[of "db\<lparr>q_next := n\<rparr>" db]
  by (auto simp: quota_inv_def buckets_wf_def books_balance_def elim!: ledger_wf_mono)

lemma lease_open_start:
  assumes "ledger_wf db" "\<forall>r\<in>set (q_ledger db). request_key r \<noteq> input_key inp"
  shows "lease_open inp (q_next db) (db\<lparr>q_next := q_next db + 1\<rparr>)"
  using assms unfolding lease_open_def ledger_wf_def input_key_def by fastforce

text \<open>A ledger row in the way of one scope keeps the whole loop from succeeding.\<close>

lemma reserve_scope_ledger:
  assumes "reserve_scope inp lease sc (db, rows) = Inr (db', rows')"
  shows "\<exists>r. q_ledger db' = q_ledger db @ [r] \<and> ledger_key r = (input_key inp, sp_type sc, sp_key sc)
    \<and> ledger_key r \<notin> ledger_key ` set (q_ledger db)"
proof -
  from assms obtain db1 e db2 b db3 where
    "ensure_bucket inp sc (fst (db, rows)) = Inr db1" "reconcile_bucket sc e db1 = Inr (db2, b)"
    "bump_reserved inp sc b db2 = Inr db3"
    and s4: "insert_ledger (new_ledger_row inp lease sc (bk_id b) db3) db3 = Inr db'"
    unfolding reserve_scope_def
    by (auto simp: bindR_eq_Inr Let_def split: option.splits)
  then have "q_ledger db3 = q_ledger db"
    by (auto simp: ensure_bucket_def reconcile_bucket_def bump_reserved_def Let_def split: if_splits)
  moreover define r where "r = new_ledger_row inp lease sc (bk_id b) db3"
  ultimately have "q_ledger db' = q_ledger db @ [r]"
    and "\<forall>x\<in>set (q_ledger db). ledger_key x \<noteq> ledger_key r"
    using s4 by (auto simp: insert_ledger_def split: if_splits)
  moreover have "ledger_key r = (input_key inp, sp_type sc, sp_key sc)"
    by (simp add: r_def new_ledger_row_def ledger_key_def request_key_def input_key_def)
  ultimately show ?thesis by (metis imageE)
qed

lemma reserve_scopes_blocked:
  assumes "sc \<in> set scs" "(input_key inp, sp_type sc, sp_key sc) \<in> ledger_key ` set (q_ledger db)"
  shows "foldR (reserve_scope inp lease) scs (db, rows) \<noteq> Inr res"
  using assms
proof (induction scs arbitrary: db rows)
  case Nil
  then show ?case by simp
next
  case (Cons s scs)
  show ?case
  proof
    assume "foldR (reserve_scope inp lease) (s # scs) (db, rows) = Inr res"
    then obtain d1 r1 where s: "reserve_scope inp lease s (db, rows) = Inr (d1, r1)"
      and rest: "foldR (reserve_scope inp lease) scs (d1, r1) = Inr res"
      by (auto simp: bindR_eq_Inr)
    from reserve_scope_ledger[OF s] obtain r where r: "q_ledger d1 = q_ledger db @ [r]"
      "ledger_key r = (input_key inp, sp_type s, sp_key s)"
      "ledger_key r \<notin> ledger_key ` set (q_ledger db)" by blast
    have "(input_key inp, sp_type sc, sp_key sc) \<in> ledger_key ` set (q_ledger d1)"
      using Cons.prems(2) r(1) by auto
    moreover have "sc \<in> set scs" using Cons.prems r by auto
    ultimately show False using Cons.IH rest by blast
  qed
qed

text \<open>A successful, non-idempotent attempt: a new lease within every policy limit.\<close>

definition new_lease :: "reserve_input \<Rightarrow> quota_db \<Rightarrow> reservation \<Rightarrow> quota_db \<Rightarrow> bool" where
  "new_lease inp db rv db' \<longleftrightarrow> rv_leaseId rv = q_next db \<and> \<not> rv_idempotent rv
     \<and> rv_status rv = Reserved \<and> rv_resource rv = ri_resource inp \<and> rv_units rv = ri_units inp
     \<and> 0 < ri_units inp \<and> lease_status db' (rv_leaseId rv) = Some Reserved
     \<and> (\<exists>new. new \<noteq> [] \<and> q_ledger db' = q_ledger db @ new
          \<and> (\<forall>r\<in>set new. ld_leaseId r = rv_leaseId rv \<and> ld_status r = Reserved
               \<and> ld_units r = ri_units inp \<and> request_key r = input_key inp)
          \<and> (\<lambda>r. (ld_scopeType r, ld_scopeKey r)) ` set new
              = (\<lambda>s. (sp_type s, sp_key s)) ` set (ri_scopes inp))
     \<and> (\<forall>sc\<in>set (ri_scopes inp). \<exists>b. scope_bucket inp sc db' = Some b
          \<and> bk_reserved b + bk_committed b \<le> sp_limit sc)"

lemma reserve_new_lease:
  assumes inv: "quota_inv db" and cover: "scopes_cover inp db"
    and run: "reserve_scopes col inp (q_next db) db = Inr (db', rows)"
    and rv: "reservationFromRows db' rows False = Inr rv"
  shows "quota_inv db' \<and> q_users db' = q_users db \<and> q_now db' = q_now db \<and> new_lease inp db rv db'"
proof -
  define scs where "scs = sort_by (\<lambda>l r. compareScopes col (sp_type l, sp_key l) (sp_type r, sp_key r))
    (ri_scopes inp)"
  define d0 where "d0 = db\<lparr>q_next := q_next db + 1\<rparr>"
  have scs: "set scs = set (ri_scopes inp)" by (simp add: scs_def)
  have run': "foldR (reserve_scope inp (q_next db)) scs (d0, []) = Inr (db', rows)"
    using run by (simp add: reserve_scopes_def scs_def d0_def)
  have none: "\<forall>r\<in>set (q_ledger db). request_key r \<noteq> input_key inp"
  proof (intro ballI notI)
    fix r assume r: "r \<in> set (q_ledger db)" "request_key r = input_key inp"
    with cover obtain sc where sc: "sc \<in> set scs" "ld_scopeType r = sp_type sc" "ld_scopeKey r = sp_key sc"
      unfolding scopes_cover_def scs by auto
    then have "ledger_key r = (input_key inp, sp_type sc, sp_key sc)" using r by (simp add: ledger_key_def)
    then have "(input_key inp, sp_type sc, sp_key sc) \<in> ledger_key ` set (q_ledger d0)"
      using r(1) by (simp add: d0_def image_iff) metis
    with reserve_scopes_blocked[OF sc(1)] run' show False by blast
  qed
  have inv0: "quota_inv d0" unfolding d0_def by (rule quota_inv_next[OF inv]) simp
  have open0: "lease_open inp (q_next db) d0"
    using inv none unfolding d0_def by (intro lease_open_start) (simp_all add: quota_inv_def)
  note loop = reserve_scopes_loop[OF run' inv0 open0]
  note cap = reserve_scopes_cap[OF run' inv0 open0 reserve_scopes_distinct[OF run' inv0 open0]]
  from loop obtain new where new: "q_ledger db' = q_ledger db @ new" "rows = new"
    "map (\<lambda>r. (ld_scopeType r, ld_scopeKey r)) new = map (\<lambda>s. (sp_type s, sp_key s)) scs"
    "\<forall>r\<in>set new. ld_leaseId r = q_next db \<and> ld_status r = Reserved \<and> ld_units r = ri_units inp
       \<and> request_key r = input_key inp" and inv': "quota_inv db'"
    by (auto simp: d0_def input_key_def)
  have ne: "new \<noteq> []" using rv new(2) by (auto simp: reservationFromRows_def split: list.splits)
  then have scne: "scs \<noteq> []" using new(3) by auto
  obtain f fs where f: "new = f # fs" using ne by (cases new) auto
  have img: "(\<lambda>r. (ld_scopeType r, ld_scopeKey r)) ` set new = (\<lambda>s. (sp_type s, sp_key s)) ` set (ri_scopes inp)"
    using arg_cong[OF new(3), of set] by (simp add: scs)
  have agg: "aggregateStatus new = Reserved"
    using ne new(4) by (intro aggregateStatus_uniform) auto
  have lf: "ld_leaseId f = q_next db" "ld_status f = Reserved" "ld_units f = ri_units inp"
    "ld_resource f = ri_resource inp"
    using new(4) by (auto simp: f request_key_def input_key_def)
  have "rv_leaseId rv = q_next db \<and> \<not> rv_idempotent rv \<and> rv_status rv = Reserved
      \<and> rv_resource rv = ri_resource inp \<and> rv_units rv = ri_units inp"
    using rv lf agg unfolding new(2) by (auto simp: reservationFromRows_def f Let_def)
  moreover have "lease_status db' (q_next db) = Some Reserved"
    using lease_status_row[of db' f] inv' lf new(1) by (simp add: quota_inv_def f)
  ultimately show ?thesis
    unfolding new_lease_def using loop scne cap inv' new(1,4) img ne
    by (auto simp: d0_def scs)
qed

lemma idempotent_rows_facts:
  assumes "leases_agree db" "selectIdempotentRows col db inp \<noteq> []"
  shows "\<exists>rv r. reservationFromRows db (selectIdempotentRows col db inp) True = Inr rv
    \<and> r \<in> set (q_ledger db) \<and> request_key r = input_key inp \<and> rv_leaseId rv = ld_leaseId r
    \<and> rv_idempotent rv \<and> rv_status rv = ld_status r \<and> rv_units rv = ld_units r"
proof -
  define rows where "rows = selectIdempotentRows col db inp"
  have set: "set rows = {r \<in> set (q_ledger db). request_key r = input_key inp}"
    by (simp add: rows_def selectIdempotentRows_def input_key_def)
  obtain f fs where f: "rows = f # fs" using assms(2) unfolding rows_def[symmetric] by (cases rows) auto
  then have fin: "f \<in> set (q_ledger db)" "request_key f = input_key inp" using set by auto
  have "\<forall>r\<in>set rows. ld_status r = ld_status f"
    using assms(1) fin unfolding set leases_agree_def by fastforce
  then have "aggregateStatus rows = ld_status f" by (intro aggregateStatus_uniform) (auto simp: f)
  with fin show ?thesis
    unfolding rows_def[symmetric] by (auto simp: reservationFromRows_def f Let_def)
qed

text \<open>What a reservation does, whatever the first read saw.\<close>

lemma reserve_race_outcome:
  assumes inv: "quota_inv db" and cover: "scopes_cover inp db"
    and res: "reserve_race col db0 db inp = (res, db')"
  shows "quota_inv db' \<and> q_users db' = q_users db \<and> q_now db' = q_now db
    \<and> (db' = db \<or> (\<exists>rv. res = Inr rv \<and> new_lease inp db rv db'))"
proof (cases "reserve_attempt col db0 db inp")
  case (Inl e)
  with res inv show ?thesis by (auto simp: reserve_race_def split: if_splits)
next
  case (Inr p)
  then obtain rv d where p: "reserve_attempt col db0 db inp = Inr (rv, d)" by (cases p) auto
  then have rd: "res = Inr rv" "db' = d" using res by (simp_all add: reserve_race_def)
  show ?thesis
  proof (cases "selectIdempotentRows col db0 inp = []")
    case False
    with p rd inv show ?thesis by (auto simp: reserve_attempt_def bindR_eq_Inr Let_def)
  next
    case True
    with p obtain rows where "reserve_scopes col inp (q_next db) db = Inr (d, rows)"
      "reservationFromRows d rows False = Inr rv"
      by (auto simp: reserve_attempt_def bindR_eq_Inr Let_def)
    from reserve_new_lease[OF inv cover this] rd show ?thesis by auto
  qed
qed

text \<open>Without a race, a granted reservation is a replay or a new lease.\<close>

lemma pg_reserve_cases:
  assumes "quota_inv db" and "scopes_cover inp db" and run: "pg_reserve col inp db = (Inr rv, db')"
  shows "(db' = db \<and> selectIdempotentRows col db inp \<noteq> []
        \<and> reservationFromRows db (selectIdempotentRows col db inp) True = Inr rv)
    \<or> (new_lease inp db rv db' \<and> \<not> rv_idempotent rv)"
proof (cases "selectIdempotentRows col db inp = []")
  case True
  then obtain rows where "reserve_scopes col inp (q_next db) db = Inr (db', rows)"
    "reservationFromRows db' rows False = Inr rv"
    using run by (auto simp: pg_reserve_def reserve_race_def reserve_attempt_def bindR_eq_Inr
        Let_def split: sum.splits)
  from reserve_new_lease[OF assms(1,2) this] have nl: "new_lease inp db rv db'" by blast
  then have "\<not> rv_idempotent rv" by (simp add: new_lease_def)
  with nl show ?thesis by blast
next
  case False
  then have "db' = db \<and> reservationFromRows db (selectIdempotentRows col db inp) True = Inr rv"
  proof (cases "reserve_attempt col db db inp")
    case (Inl e)
    with run False show ?thesis by (auto simp: pg_reserve_def reserve_race_def split: if_splits)
  next
    case (Inr p)
    with run False show ?thesis
      by (auto simp: pg_reserve_def reserve_race_def reserve_attempt_def bindR_eq_Inr Let_def)
  qed
  with False show ?thesis by blast
qed

lemma reserve_race_actor:
  assumes "reserve_race col db0 db inp = (Inr rv, db')"
  shows "assertActorCanReserve db0 (ri_actor inp) = Inr ()"
proof (cases "assertActorCanReserve db0 (ri_actor inp)")
  case (Inl e)
  then have "e \<noteq> UniqueViolation"
    by (auto simp: assertActorCanReserve_def split: option.splits if_splits)
  with Inl assms show ?thesis by (simp add: reserve_race_def reserve_attempt_def)
qed simp

text \<open>A granted reservation has a ledger row, and a row is what a replay reads.\<close>

lemma granted_row:
  assumes q: "quota_inv db" and c: "scopes_cover inp db"
    and run: "pg_reserve col inp db = (Inr rv, db')"
  shows "\<exists>r\<in>set (q_ledger db'). request_key r = input_key inp \<and> ld_leaseId r = rv_leaseId rv
    \<and> ld_status r = rv_status rv \<and> ld_units r = rv_units rv"
proof -
  consider (replay) "db' = db" "selectIdempotentRows col db inp \<noteq> []"
    "reservationFromRows db (selectIdempotentRows col db inp) True = Inr rv"
    | (new) "new_lease inp db rv db'" using pg_reserve_cases[OF q c run] by blast
  then show ?thesis
  proof cases
    case replay
    have ag: "leases_agree db" using q by (simp add: quota_inv_def)
    from idempotent_rows_facts[OF ag replay(2)] replay show ?thesis by auto
  next
    case new
    then obtain rs where "rs \<noteq> []" "q_ledger db' = q_ledger db @ rs"
      "\<forall>r\<in>set rs. ld_leaseId r = rv_leaseId rv \<and> ld_status r = Reserved
               \<and> ld_units r = ri_units inp \<and> request_key r = input_key inp"
      by (auto simp: new_lease_def)
    with new show ?thesis by (intro bexI[of _ "hd rs"]) (simp_all add: new_lease_def)
  qed
qed

lemma replay_at_row:
  assumes la: "leases_agree db" and r: "r \<in> set (q_ledger db)" "request_key r = input_key inp"
  shows "selectIdempotentRows col db inp \<noteq> []"
    and "\<exists>rv. reservationFromRows db (selectIdempotentRows col db inp) True = Inr rv
      \<and> rv_leaseId rv = ld_leaseId r \<and> rv_idempotent rv \<and> rv_status rv = ld_status r
      \<and> rv_units rv = ld_units r"
proof -
  show ne: "selectIdempotentRows col db inp \<noteq> []"
    using r by (auto simp: selectIdempotentRows_def filter_empty_conv input_key_def)
  obtain rv s where s: "reservationFromRows db (selectIdempotentRows col db inp) True = Inr rv"
    "s \<in> set (q_ledger db)" "request_key s = input_key inp" "rv_leaseId rv = ld_leaseId s"
    "rv_idempotent rv" "rv_status rv = ld_status s" "rv_units rv = ld_units s"
    using idempotent_rows_facts[OF la ne] by blast
  have "ld_leaseId s = ld_leaseId r \<and> ld_status s = ld_status r \<and> ld_units s = ld_units r"
    using la r s(2,3) unfolding leases_agree_def by metis
  with s show "\<exists>rv. reservationFromRows db (selectIdempotentRows col db inp) True = Inr rv
      \<and> rv_leaseId rv = ld_leaseId r \<and> rv_idempotent rv \<and> rv_status rv = ld_status r
      \<and> rv_units rv = ld_units r" by auto
qed

text \<open>A new lease cannot be opened beside a row of the same request.\<close>

lemma no_second_lease:
  assumes "quota_inv db" "quota_inv db'" "new_lease inp db rv db'"
    and "r \<in> set (q_ledger db)" "request_key r = input_key inp"
  shows False
proof -
  from assms(3) obtain n where n: "n \<in> set (q_ledger db')" "ld_leaseId n = q_next db"
    "request_key n = input_key inp" and r: "r \<in> set (q_ledger db')"
    using assms(4) unfolding new_lease_def by (metis Un_iff last_in_set set_append)
  have "leases_agree db'" using assms(2) by (simp add: quota_inv_def)
  with n r assms(5) have "ld_leaseId r = q_next db" unfolding leases_agree_def by metis
  moreover have "ld_leaseId r < q_next db"
    using assms(1,4) by (simp add: quota_inv_def ledger_wf_def)
  ultimately show False by simp
qed

end
