(* ===== verification/Quota_Service.thy ===== *)
theory Quota_Service
  imports Quota_Settlement
begin

section \<open>The quota service\<close>

text \<open>
  \<open>QuotaService\<close> of \<open>src/server/quota/service.ts\<close>, with the repository it is constructed
  over as an argument, as the class takes it: validation of the request, the limits read
  from the environment, the scopes of each resource, and \<open>withReservation\<close>, which runs
  an operation between reserving and settling. The locale \<open>quota_store\<close> states what the
  service relies on; it is interpreted on the PostgreSQL repository at the end.
\<close>

subsection \<open>Limits from the environment\<close>

definition is_digit :: "char \<Rightarrow> bool" where
  "is_digit c \<longleftrightarrow> (48::nat) \<le> of_char c \<and> (of_char c :: nat) \<le> 57"

text \<open>
  \<open>Number.parseInt(s, 10)\<close>: leading white space, a sign, the longest run of digits;
  \<open>None\<close> is NaN. Values beyond 2^53 are rounded by the language, and rejected by the
  safe-integer tests of the callers before and after rounding alike.
\<close>

definition parseInt10 :: "string \<Rightarrow> int option" where
  "parseInt10 s =
     (let t = dropWhile js_space s;
          neg = (t \<noteq> [] \<and> hd t = CHR ''-'');
          u = (if t \<noteq> [] \<and> (hd t = CHR ''-'' \<or> hd t = CHR ''+'') then tl t else t);
          ds = takeWhile is_digit u
      in if ds = [] then None
         else Some (if neg then - int (decimal_value ds) else int (decimal_value ds)))"

definition positiveInteger :: "string option \<Rightarrow> int \<Rightarrow> int" where
  "positiveInteger value fallback =
     (case parseInt10 (case value of None \<Rightarrow> '''' | Some s \<Rightarrow> s) of
        Some n \<Rightarrow> if is_safe_integer n \<and> 0 < n then n else fallback
      | None \<Rightarrow> fallback)"

lemma digit_char_is_digit: "n < 10 \<Longrightarrow> is_digit (digit_char n) \<and> \<not> js_space (digit_char n)
    \<and> digit_char n \<noteq> CHR ''-'' \<and> digit_char n \<noteq> CHR ''+''"
  using of_char_digit[of n] by (auto simp: is_digit_def js_space_def dest: arg_cong[of _ _ "of_char :: char \<Rightarrow> nat"])

lemma decimal_digits: "c \<in> set (decimal n) \<Longrightarrow> \<exists>k<10. c = digit_char k"
proof (induction n rule: decimal.induct)
  case (1 n)
  have "n mod 10 < 10" by simp
  then have "\<exists>k<10. digit_char (n mod 10) = digit_char k" by blast
  with 1 show ?case by (cases "n < 10") (auto simp: decimal.simps[of n])
qed

lemma parseInt10_decimal: "parseInt10 (decimal n) = Some (int n)"
proof -
  have ne: "decimal n \<noteq> []" by (subst decimal.simps) simp
  then obtain k where k: "k < 10" "hd (decimal n) = digit_char k"
    using decimal_digits by (meson hd_in_set)
  note hd = digit_char_is_digit[OF k(1)]
  have drop: "dropWhile js_space (decimal n) = decimal n"
    using ne hd k(2) by (cases "decimal n") auto
  have "\<forall>c\<in>set (decimal n). is_digit c" using decimal_digits digit_char_is_digit by metis
  then have "takeWhile is_digit (decimal n) = decimal n" by (simp add: takeWhile_eq_all_conv)
  then show ?thesis
    using hd ne k(2) by (simp add: parseInt10_def Let_def drop decimal_value_decimal del: takeWhile_eq_all_conv)
qed

definition nonNegativeInteger :: "int option \<Rightarrow> int" where
  "nonNegativeInteger value =
     (case value of None \<Rightarrow> 0 | Some n \<Rightarrow> if is_safe_integer n \<and> 0 < n then n else 0)"

record quota_limits =
  answerDaily :: int
  webSearchUserDaily :: int
  webSearchGlobalDaily :: int
  modelAttemptUserDaily :: int
  modelAttemptGlobalDaily :: int

definition first_set :: "string option \<Rightarrow> string option \<Rightarrow> string option" where
  "first_set a b = (case a of None \<Rightarrow> b | Some _ \<Rightarrow> a)"

definition quotaLimitsFromEnvironment :: "(string \<Rightarrow> string option) \<Rightarrow> quota_limits" where
  "quotaLimitsFromEnvironment env =
     \<lparr>answerDaily = positiveInteger (env ''ANSWER_DAILY_LIMIT'') 20,
      webSearchUserDaily = positiveInteger
        (first_set (env ''WEB_SEARCH_PER_USER_DAILY_LIMIT'')
                   (env ''ALIBABA_WEB_SEARCH_PER_USER_DAILY_LIMIT'')) 5,
      webSearchGlobalDaily = positiveInteger
        (first_set (env ''WEB_SEARCH_GLOBAL_DAILY_LIMIT'')
                   (env ''ALIBABA_WEB_SEARCH_GLOBAL_DAILY_LIMIT'')) 500,
      modelAttemptUserDaily = positiveInteger (env ''MODEL_ATTEMPT_PER_USER_DAILY_LIMIT'') 30,
      modelAttemptGlobalDaily = positiveInteger (env ''MODEL_ATTEMPT_GLOBAL_DAILY_LIMIT'') 1000\<rparr>"

definition persistedAnswerBonus :: "quota_db \<Rightarrow> string \<Rightarrow> int" where
  "persistedAnswerBonus db userId =
     nonNegativeInteger (map_option us_dailyQuotaBonus (lookup us_id userId (q_users db)))"

subsection \<open>The service\<close>

definition service_scopes :: "quota_limits \<Rightarrow> string \<Rightarrow> quota_resource \<Rightarrow> int \<Rightarrow> scope_policy list" where
  "service_scopes lim userId resource answerBonus =
     (case resource of
        Answer \<Rightarrow>
          [\<lparr>sp_type = ScopeUser, sp_key = userId, sp_limit = answerDaily lim + answerBonus\<rparr>]
      | WebSearch \<Rightarrow>
          [\<lparr>sp_type = ScopeGlobal, sp_key = ''all'', sp_limit = webSearchGlobalDaily lim\<rparr>,
           \<lparr>sp_type = ScopeUser, sp_key = userId, sp_limit = webSearchUserDaily lim\<rparr>]
      | ModelAttempt \<Rightarrow>
          [\<lparr>sp_type = ScopeGlobal, sp_key = ''all'', sp_limit = modelAttemptGlobalDaily lim\<rparr>,
           \<lparr>sp_type = ScopeUser, sp_key = userId, sp_limit = modelAttemptUserDaily lim\<rparr>])"

record quota_request =
  qr_user :: string
  qr_clientRequest :: string
  qr_resource :: quota_resource
  qr_units :: "int option"
  qr_at :: "timestamp option"
  qr_metadata :: string

text \<open>The collaborators of the service: its repository, limits and bonus reader.\<close>

record 's quota_deps =
  dep_reserve :: "reserve_input \<Rightarrow> 's \<Rightarrow> (quota_error, reservation) result \<times> 's"
  dep_commit :: "transition_input \<Rightarrow> 's \<Rightarrow> (quota_error, reservation) result \<times> 's"
  dep_release :: "transition_input \<Rightarrow> 's \<Rightarrow> (quota_error, reservation) result \<times> 's"
  dep_status :: "quota_resource \<Rightarrow> quota_window \<Rightarrow> scope_policy list \<Rightarrow> 's \<Rightarrow> scope_usage list"
  dep_bonus :: "'s \<Rightarrow> string \<Rightarrow> int"
  dep_limits :: quota_limits
  dep_timezone :: "timestamp \<Rightarrow> int"

definition validated_reserve_input ::
  "'s quota_deps \<Rightarrow> quota_request \<Rightarrow> 's \<Rightarrow> (quota_error, reserve_input) result" where
  "validated_reserve_input dep rq s =
     (let units = (case qr_units rq of None \<Rightarrow> 1 | Some n \<Rightarrow> n) in
      if blank (qr_user rq) then Inl (QuotaTypeError ''Quota userId is required'')
      else if blank (qr_clientRequest rq)
        then Inl (QuotaTypeError ''Quota clientRequestId is required'')
      else if \<not> is_safe_integer units \<or> units \<le> 0
        then Inl (QuotaTypeError ''Quota units must be a positive integer'')
      else bindR (shanghaiDailyWindow (dep_timezone dep) (qr_at rq)) (\<lambda>window.
        let answerBonus = (if qr_resource rq = Answer then dep_bonus dep s (qr_user rq) else 0) in
        Inr \<lparr>ri_actor = qr_user rq, ri_clientRequest = qr_clientRequest rq,
             ri_resource = qr_resource rq, ri_units = units, ri_window = window,
             ri_scopes = service_scopes (dep_limits dep) (qr_user rq) (qr_resource rq) answerBonus,
             ri_metadata = qr_metadata rq\<rparr>))"

definition service_reserve ::
  "'s quota_deps \<Rightarrow> quota_request \<Rightarrow> 's \<Rightarrow> (quota_error, reservation) result \<times> 's" where
  "service_reserve dep rq s =
     (case validated_reserve_input dep rq s of
        Inl e \<Rightarrow> (Inl e, s)
      | Inr inp \<Rightarrow> dep_reserve dep inp s)"

definition service_commit ::
  "'s quota_deps \<Rightarrow> nat \<Rightarrow> string option \<Rightarrow> 's \<Rightarrow> (quota_error, reservation) result \<times> 's" where
  "service_commit dep lease user s =
     dep_commit dep \<lparr>ti_leaseId = lease, ti_actor = user, ti_reason = None\<rparr> s"

definition service_release ::
  "'s quota_deps \<Rightarrow> nat \<Rightarrow> string option \<Rightarrow> string option \<Rightarrow> 's \<Rightarrow>
   (quota_error, reservation) result \<times> 's" where
  "service_release dep lease user reason s =
     dep_release dep \<lparr>ti_leaseId = lease, ti_actor = user, ti_reason = reason\<rparr> s"

datatype 'e run_error =
    QuotaErr quota_error
  | OperationErr 'e
  | AggregateErr "'e run_error" quota_error

text \<open>The \<open>catch\<close> of \<open>withReservation\<close>: give the units back, then rethrow.\<close>

definition release_after_error ::
  "'s quota_deps \<Rightarrow> quota_request \<Rightarrow> reservation \<Rightarrow> 'e run_error \<Rightarrow> 's \<Rightarrow>
   ('e run_error, 'a) result \<times> 's" where
  "release_after_error dep rq rv operationError s =
     (case service_release dep (rv_leaseId rv) (Some (qr_user rq)) (Some ''operation_failed'') s of
        (Inr _, s') \<Rightarrow> (Inl operationError, s')
      | (Inl releaseError, s') \<Rightarrow> (Inl (AggregateErr operationError releaseError), s'))"

definition withReservation ::
  "'s quota_deps \<Rightarrow> quota_request \<Rightarrow> (reservation \<Rightarrow> 's \<Rightarrow> ('e, 'a) result \<times> 's) \<Rightarrow> 's \<Rightarrow>
   ('e run_error, 'a) result \<times> 's" where
  "withReservation dep rq operation s =
     (case service_reserve dep rq s of
        (Inl e, s1) \<Rightarrow> (Inl (QuotaErr e), s1)
      | (Inr rv, s1) \<Rightarrow>
          if rv_idempotent rv then
            (Inl (QuotaErr (if rv_status rv = Reserved
               then RequestInProgress (qr_clientRequest rq)
               else RequestAlreadyUsed (qr_clientRequest rq) (rv_status rv))), s1)
          else if rv_status rv \<noteq> Reserved then
            (Inl (QuotaErr (RequestAlreadyUsed (qr_clientRequest rq) (rv_status rv))), s1)
          else
            (case operation rv s1 of
               (Inl e, s2) \<Rightarrow> release_after_error dep rq rv (OperationErr e) s2
             | (Inr x, s2) \<Rightarrow>
                 (case service_commit dep (rv_leaseId rv) (Some (qr_user rq)) s2 of
                    (Inr _, s3) \<Rightarrow> (Inr x, s3)
                  | (Inl e, s3) \<Rightarrow> release_after_error dep rq rv (QuotaErr e) s3)))"

record quota_status_view =
  qs_resource :: quota_resource
  qs_window :: quota_window
  qs_scopes :: "scope_usage list"
  qs_remaining :: int

text \<open>\<open>Math.min\<close> over the usages; the scopes of a resource are never empty.\<close>

definition service_status ::
  "'s quota_deps \<Rightarrow> string \<Rightarrow> quota_resource \<Rightarrow> timestamp option \<Rightarrow> 's \<Rightarrow>
   (quota_error, quota_status_view) result" where
  "service_status dep userId resource at s =
     (if blank userId then Inl (QuotaTypeError ''Quota userId is required'')
      else bindR (shanghaiDailyWindow (dep_timezone dep) at) (\<lambda>window.
        let answerBonus = (if resource = Answer then dep_bonus dep s userId else 0);
            scopes = service_scopes (dep_limits dep) userId resource answerBonus;
            usages = dep_status dep resource window scopes s
        in Inr \<lparr>qs_resource = resource, qs_window = window, qs_scopes = usages,
                qs_remaining = foldr min (tl (map su_remaining usages)) (hd (map su_remaining usages))\<rparr>))"

subsection \<open>What the service relies on\<close>

text \<open>The scopes, without their limits, that a request of an account is charged to.\<close>

definition resource_scopes :: "string \<Rightarrow> quota_resource \<Rightarrow> (scope_type \<times> string) set" where
  "resource_scopes user resource =
     (if resource = Answer then {(ScopeUser, user)} else {(ScopeGlobal, ''all''), (ScopeUser, user)})"

definition regular_input :: "reserve_input \<Rightarrow> bool" where
  "regular_input inp \<longleftrightarrow> (\<lambda>s. (sp_type s, sp_key s)) ` set (ri_scopes inp)
     = resource_scopes (ri_actor inp) (ri_resource inp)"

lemma service_scopes_regular:
  "(\<lambda>s. (sp_type s, sp_key s)) ` set (service_scopes lim user res bonus) = resource_scopes user res"
  by (cases res) (auto simp: service_scopes_def resource_scopes_def)

lemma validated_regular:
  "validated_reserve_input dep rq s = Inr inp \<Longrightarrow>
   regular_input inp \<and> ri_actor inp = qr_user rq \<and> ri_actor inp \<noteq> '''' \<and> 0 < ri_units inp
     \<and> ri_clientRequest inp = qr_clientRequest rq \<and> ri_resource inp = qr_resource rq"
  by (clarsimp simp: validated_reserve_input_def regular_input_def bindR_eq_Inr Let_def
      simp del: set_map split: if_splits)
    (simp add: service_scopes_regular blank_def; cases "qr_units rq"; force simp: js_space_def)+

locale quota_store =
  fixes dep :: "'s quota_deps"
    and inv :: "'s \<Rightarrow> bool"
    and held :: "'s \<Rightarrow> nat \<Rightarrow> string \<Rightarrow> reservation_status option"
  assumes reserve_inv: "inv s \<Longrightarrow> regular_input inp \<Longrightarrow> dep_reserve dep inp s = (r, s') \<Longrightarrow> inv s'"
    and reserve_fresh: "inv s \<Longrightarrow> regular_input inp \<Longrightarrow> dep_reserve dep inp s = (Inr rv, s') \<Longrightarrow>
      \<not> rv_idempotent rv \<Longrightarrow>
      rv_status rv = Reserved \<and> held s' (rv_leaseId rv) (ri_actor inp) = Some Reserved"
    and commit_held: "inv s \<Longrightarrow> user \<noteq> '''' \<Longrightarrow> held s lease user = Some st \<Longrightarrow>
      \<exists>rv s'. dep_commit dep \<lparr>ti_leaseId = lease, ti_actor = Some user, ti_reason = reason\<rparr> s
          = (Inr rv, s') \<and> inv s'
        \<and> held s' lease user = Some (if st = Reserved then Committed else st)"
    and release_held: "inv s \<Longrightarrow> user \<noteq> '''' \<Longrightarrow> held s lease user = Some st \<Longrightarrow>
      \<exists>rv s'. dep_release dep \<lparr>ti_leaseId = lease, ti_actor = Some user, ti_reason = reason\<rparr> s
          = (Inr rv, s') \<and> inv s'
        \<and> held s' lease user = Some (if st = Reserved then Released else st)"
begin

lemma service_reserve_fresh:
  assumes "inv s" "service_reserve dep rq s = (Inr rv, s1)" "\<not> rv_idempotent rv"
  shows "inv s1 \<and> rv_status rv = Reserved \<and> qr_user rq \<noteq> ''''
    \<and> held s1 (rv_leaseId rv) (qr_user rq) = Some Reserved"
proof -
  from assms(2) obtain inp where inp: "validated_reserve_input dep rq s = Inr inp"
    and run: "dep_reserve dep inp s = (Inr rv, s1)"
    by (auto simp: service_reserve_def split: sum.splits)
  note reg = validated_regular[OF inp]
  show ?thesis
    using reg reserve_inv[OF assms(1) _ run] reserve_fresh[OF assms(1) _ run assms(3)] by auto
qed

lemma service_reserve_inv: "inv s \<Longrightarrow> service_reserve dep rq s = (r, s1) \<Longrightarrow> inv s1"
  by (auto simp: service_reserve_def split: sum.splits dest: validated_regular reserve_inv)

lemma withReservation_settles:
  assumes "inv s" and res: "service_reserve dep rq s = (Inr rv, s1)" and new: "\<not> rv_idempotent rv"
    and op: "operation rv s1 = (r, s2)" and keeps: "inv s2"
    and held2: "held s2 (rv_leaseId rv) (qr_user rq) = held s1 (rv_leaseId rv) (qr_user rq)"
  shows "\<exists>s'. withReservation dep rq operation s =
      ((case r of Inl e \<Rightarrow> Inl (OperationErr e) | Inr x \<Rightarrow> Inr x), s') \<and> inv s'
    \<and> held s' (rv_leaseId rv) (qr_user rq)
        = Some (case r of Inl e \<Rightarrow> Released | Inr x \<Rightarrow> Committed)"
proof -
  note fresh = service_reserve_fresh[OF assms(1) res new]
  then have h: "held s2 (rv_leaseId rv) (qr_user rq) = Some Reserved" and u: "qr_user rq \<noteq> ''''"
    using held2 by simp_all
  show ?thesis
  proof (cases r)
    case (Inl e)
    from release_held[OF keeps u h] obtain rv' s' where
      "service_release dep (rv_leaseId rv) (Some (qr_user rq)) (Some ''operation_failed'') s2
        = (Inr rv', s')" "inv s'" "held s' (rv_leaseId rv) (qr_user rq) = Some Released"
      unfolding service_release_def by fastforce
    then show ?thesis
      using Inl fresh new res op by (simp add: withReservation_def release_after_error_def)
  next
    case (Inr x)
    from commit_held[OF keeps u h] obtain rv' s' where
      "service_commit dep (rv_leaseId rv) (Some (qr_user rq)) s2 = (Inr rv', s')" "inv s'"
      "held s' (rv_leaseId rv) (qr_user rq) = Some Committed"
      unfolding service_commit_def by fastforce
    then show ?thesis
      using Inr fresh new res op by (simp add: withReservation_def)
  qed
qed

end

subsection \<open>The PostgreSQL repository provides it\<close>

definition pg_deps :: "collations \<Rightarrow> quota_limits \<Rightarrow> (timestamp \<Rightarrow> int) \<Rightarrow> quota_db quota_deps" where
  "pg_deps col lim tz =
     \<lparr>dep_reserve = pg_reserve col, dep_commit = pg_commit col, dep_release = pg_release col,
      dep_status = pg_status, dep_bonus = persistedAnswerBonus, dep_limits = lim,
      dep_timezone = tz\<rparr>"

definition scopes_regular :: "quota_db \<Rightarrow> bool" where
  "scopes_regular db \<longleftrightarrow> (\<forall>r\<in>set (q_ledger db).
     (ld_scopeType r, ld_scopeKey r) \<in> resource_scopes (ld_actor r) (ld_resource r))"

definition service_inv :: "quota_db \<Rightarrow> bool" where
  "service_inv db \<longleftrightarrow> quota_inv db \<and> scopes_regular db"

definition lease_held :: "quota_db \<Rightarrow> nat \<Rightarrow> string \<Rightarrow> reservation_status option" where
  "lease_held db lease user =
     (case lookup ld_leaseId lease (q_ledger db) of
        None \<Rightarrow> None
      | Some r \<Rightarrow> if ld_actor r = user then Some (ld_status r) else None)"

lemma scopes_regular_cover:
  "scopes_regular db \<Longrightarrow> regular_input inp \<Longrightarrow> scopes_cover inp db"
  unfolding scopes_regular_def regular_input_def scopes_cover_def request_key_def input_key_def
  by auto

lemma new_lease_regular:
  assumes "scopes_regular db" "regular_input inp" "new_lease inp db rv db'"
  shows "scopes_regular db'"
proof -
  from assms(3) obtain new where new: "q_ledger db' = q_ledger db @ new"
    "\<forall>r\<in>set new. request_key r = input_key inp"
    "(\<lambda>r. (ld_scopeType r, ld_scopeKey r)) ` set new = (\<lambda>s. (sp_type s, sp_key s)) ` set (ri_scopes inp)"
    by (auto simp: new_lease_def)
  have "(ld_scopeType r, ld_scopeKey r) \<in> resource_scopes (ld_actor r) (ld_resource r)"
    if "r \<in> set new" for r
  proof -
    have "ld_actor r = ri_actor inp" "ld_resource r = ri_resource inp"
      using new(2) that by (auto simp: request_key_def input_key_def)
    moreover have "(ld_scopeType r, ld_scopeKey r) \<in> (\<lambda>s. (sp_type s, sp_key s)) ` set (ri_scopes inp)"
      using that unfolding new(3)[symmetric] by (rule imageI)
    ultimately show ?thesis using assms(2) by (simp add: regular_input_def)
  qed
  with assms(1) show ?thesis by (auto simp: scopes_regular_def new(1))
qed

lemma pg_reserve_service:
  assumes "service_inv db" "regular_input inp" "pg_reserve col inp db = (r, db')"
  shows "service_inv db' \<and> (db' = db \<or> (\<exists>rv. r = Inr rv \<and> new_lease inp db rv db'))"
proof -
  have "quota_inv db" "scopes_cover inp db"
    using assms scopes_regular_cover by (auto simp: service_inv_def)
  from reserve_race_outcome[OF this assms(3)[unfolded pg_reserve_def]] show ?thesis
    using assms(1,2) new_lease_regular by (auto simp: service_inv_def)
qed

lemma pg_reserve_fresh:
  assumes "service_inv db" "regular_input inp" "pg_reserve col inp db = (Inr rv, db')"
    and "\<not> rv_idempotent rv"
  shows "new_lease inp db rv db'"
proof -
  have q: "quota_inv db" and c: "scopes_cover inp db"
    using assms scopes_regular_cover by (auto simp: service_inv_def)
  from pg_reserve_cases[OF q c assms(3)] show ?thesis
  proof
    assume "db' = db \<and> selectIdempotentRows col db inp \<noteq> []
      \<and> reservationFromRows db (selectIdempotentRows col db inp) True = Inr rv"
    then have "rv_idempotent rv"
      by (auto simp: reservationFromRows_def Let_def split: list.splits)
    with assms(4) show ?thesis by simp
  qed simp
qed

lemma lease_held_row:
  assumes "leases_agree db" "r \<in> set (q_ledger db)"
  shows "lease_held db (ld_leaseId r) (ld_actor r) = Some (ld_status r)"
proof -
  from lookup_lease_rows[OF assms(2) refl] obtain r' where
    r': "lookup ld_leaseId (ld_leaseId r) (q_ledger db) = Some r'" "r' \<in> set (q_ledger db)"
    "ld_leaseId r' = ld_leaseId r" by blast
  then have "ld_status r' = ld_status r" "request_key r' = request_key r"
    using assms unfolding leases_agree_def by blast+
  with r' show ?thesis by (simp add: lease_held_def request_key_def)
qed

lemma lease_held_SomeD:
  "lease_held db lease user = Some st \<Longrightarrow>
   \<exists>r. r \<in> set (q_ledger db) \<and> ld_leaseId r = lease \<and> ld_actor r = user \<and> ld_status r = st"
  by (auto simp: lease_held_def split: option.splits if_splits dest: lookup_SomeD)

lemma held_rows:
  assumes "service_inv db" and "lease_held db lease user = Some st"
    and "inp = \<lparr>ti_leaseId = lease, ti_actor = Some user, ti_reason = reason\<rparr>"
  shows "quota_inv db" and "transition_rows col inp db \<noteq> []"
    and "lease_status db (ti_leaseId inp) = Some st"
    and "\<exists>r\<in>set (q_ledger db). ld_leaseId r = lease \<and> ld_actor r = user \<and> ld_status r = st"
proof -
  show q: "quota_inv db" using assms(1) by (simp add: service_inv_def)
  from lease_held_SomeD[OF assms(2)] obtain r where r: "r \<in> set (q_ledger db)"
    "ld_leaseId r = lease" "ld_actor r = user" "ld_status r = st" by blast
  then have "r \<in> set (transition_rows col inp db)"
    by (simp add: transition_rows_def assms(3) actor_matches_def)
  then show "transition_rows col inp db \<noteq> []" by auto
  show "lease_status db (ti_leaseId inp) = Some st"
    using lease_status_row[of db r] q r by (simp add: quota_inv_def assms(3))
  show "\<exists>r\<in>set (q_ledger db). ld_leaseId r = lease \<and> ld_actor r = user \<and> ld_status r = st"
    using r by blast
qed

lemma settle_held:
  assumes inv: "service_inv db" and h: "lease_held db lease user = Some st"
    and tg: "target \<noteq> Reserved"
  shows "\<exists>rv db'. transitionQuotaReservation col
      \<lparr>ti_leaseId = lease, ti_actor = Some user, ti_reason = reason\<rparr> target db = Inr (rv, db')
    \<and> service_inv db' \<and> lease_held db' lease user = Some (if st = Reserved then target else st)"
proof -
  define inp where "inp = \<lparr>ti_leaseId = lease, ti_actor = Some user, ti_reason = reason\<rparr>"
  have reg: "scopes_regular db" using inv by (simp add: service_inv_def)
  note rows = held_rows[OF inv h inp_def]
  from rows(4) obtain r where r: "r \<in> set (q_ledger db)" "ld_leaseId r = lease"
    "ld_actor r = user" "ld_status r = st" by blast
  from transition_ok[OF rows(1,2) tg rows(3), of col] obtain rv db' where
    run: "transitionQuotaReservation col inp target db = Inr (rv, db')" and q': "quota_inv db'"
    and led: "q_ledger db' = settled_ledger target reason (q_now db) lease (q_ledger db)"
    by (auto simp: inp_def)
  define r' where "r' = (if ld_status r = Reserved then settle_row target reason (q_now db) r else r)"
  have r': "r' \<in> set (q_ledger db')" "ld_leaseId r' = lease" "ld_actor r' = user"
    "ld_status r' = (if st = Reserved then target else st)"
    using r by (auto simp: led settled_ledger_def set_update_where r'_def)
  have "lease_held db' lease user = Some (if st = Reserved then target else st)"
    using lease_held_row[of db' r'] q' r' by (simp add: quota_inv_def)
  moreover have "scopes_regular db'"
    using reg unfolding scopes_regular_def led settled_ledger_def
    by (auto simp: set_update_where settle_row_def)
  ultimately show ?thesis using run q' by (auto simp: service_inv_def inp_def)
qed

interpretation pg: quota_store "pg_deps col lim tz" service_inv lease_held
proof unfold_locales
  fix s inp r s'
  assume "service_inv s" "regular_input inp" "dep_reserve (pg_deps col lim tz) inp s = (r, s')"
  then show "service_inv s'" using pg_reserve_service by (auto simp: pg_deps_def)
next
  fix s inp rv s'
  assume inv: "service_inv s" and reg: "regular_input inp" and new: "\<not> rv_idempotent rv"
    and run: "dep_reserve (pg_deps col lim tz) inp s = (Inr rv, s')"
  from run have run': "pg_reserve col inp s = (Inr rv, s')" by (simp add: pg_deps_def)
  have nl: "new_lease inp s rv s'" by (rule pg_reserve_fresh[OF inv reg run' new])
  then obtain r where r: "r \<in> set (q_ledger s')" "ld_leaseId r = rv_leaseId rv"
    "ld_status r = Reserved" "request_key r = input_key inp"
    unfolding new_lease_def by (metis Un_iff last_in_set set_append)
  have "leases_agree s'"
    using pg_reserve_service[OF inv reg run'] by (simp add: service_inv_def quota_inv_def)
  from lease_held_row[OF this r(1)] r nl
  show "rv_status rv = Reserved \<and> lease_held s' (rv_leaseId rv) (ri_actor inp) = Some Reserved"
    by (simp add: new_lease_def request_key_def input_key_def)
next
  fix s user lease st reason
  assume "service_inv s" "lease_held s lease user = Some st"
  from settle_held[OF this, of Committed col reason]
  show "\<exists>rv s'. dep_commit (pg_deps col lim tz)
      \<lparr>ti_leaseId = lease, ti_actor = Some user, ti_reason = reason\<rparr> s = (Inr rv, s') \<and> service_inv s'
      \<and> lease_held s' lease user = Some (if st = Reserved then Committed else st)"
    by (auto simp: pg_deps_def pg_commit_def run_transition_def)
next
  fix s user lease st reason
  assume "service_inv s" "lease_held s lease user = Some st"
  from settle_held[OF this, of Released col reason]
  show "\<exists>rv s'. dep_release (pg_deps col lim tz)
      \<lparr>ti_leaseId = lease, ti_actor = Some user, ti_reason = reason\<rparr> s = (Inr rv, s') \<and> service_inv s'
      \<and> lease_held s' lease user = Some (if st = Reserved then Released else st)"
    by (auto simp: pg_deps_def pg_release_def run_transition_def)
qed

end
