(* ===== verification/Quota_Properties.thy ===== *)
theory Quota_Properties
  imports Quota_Service
begin

section \<open>Properties of the quota subsystem\<close>

text \<open>
  What the ledger, its window and the service promise, stated over the definitions of the
  code. The concrete database of the witnesses holds two accounts and no bucket.
\<close>

definition demo_col :: collations where
  "demo_col = \<lparr>co_locale = (\<lambda>_ _. True), co_database = (\<lambda>_ _. True)\<rparr>"

definition demo_users :: "user_row list" where
  "demo_users = [\<lparr>us_id = ''ann'', us_deletionRequestedAt = None, us_dailyQuotaBonus = 2\<rparr>,
     \<lparr>us_id = ''bob'', us_deletionRequestedAt = Some 5, us_dailyQuotaBonus = 0\<rparr>]"

definition demo_db :: quota_db where
  "demo_db = \<lparr>q_users = demo_users, q_buckets = [], q_ledger = [], q_next = 1, q_now = 1000\<rparr>"

definition demo_input :: reserve_input where
  "demo_input = \<lparr>ri_actor = ''ann'', ri_clientRequest = ''r1'', ri_resource = Answer, ri_units = 2,
     ri_window = \<lparr>qw_key = ''1970-01-01'', qw_resetAt = 57600000\<rparr>,
     ri_scopes = [\<lparr>sp_type = ScopeUser, sp_key = ''ann'', sp_limit = 3\<rparr>], ri_metadata = ''''\<rparr>"

definition demo_request :: quota_request where
  "demo_request = \<lparr>qr_user = ''ann'', qr_clientRequest = ''r1'', qr_resource = Answer,
     qr_units = None, qr_at = Some 1000, qr_metadata = ''''\<rparr>"

definition demo_tz :: "timestamp \<Rightarrow> int" where
  "demo_tz t = 28800000"

definition demo_limits :: quota_limits where
  "demo_limits = \<lparr>answerDaily = 3, webSearchUserDaily = 5, webSearchGlobalDaily = 500,
     modelAttemptUserDaily = 30, modelAttemptGlobalDaily = 1000\<rparr>"

lemmas demo_defs = demo_db_def demo_users_def demo_input_def demo_col_def

lemma demo_service_inv: "service_inv demo_db"
  by (simp add: demo_defs service_inv_def scopes_regular_def quota_inv_defs leases_agree_def)

lemma demo_regular: "regular_input demo_input"
  by (simp add: regular_input_def demo_input_def resource_scopes_def)

lemmas quota_eval = reserve_race_def reserve_attempt_def assertActorCanReserve_def
  selectIdempotentRows_def reserve_scopes_def reserve_scope_def ensure_bucket_def scope_bucket_def
  reconcile_bucket_def reconcileQuotaBucketLimit_def bump_reserved_def insert_ledger_def
  new_ledger_row_def reservationFromRows_def selectBuckets_def latest_reset_def
  aggregateStatus_def scopeUsage_def bucket_check_def bucket_key_def ledger_key_def
  request_key_def set_bucket_def update_where_def lookup_def int4_ok_def Let_def sort_by_def

definition demo_held :: quota_db where
  "demo_held = snd (pg_reserve demo_col demo_input demo_db)"

lemma demo_held_eq: "\<exists>rv. pg_reserve demo_col demo_input demo_db = (Inr rv, demo_held)
    \<and> rv_leaseId rv = 1 \<and> rv_status rv = Reserved \<and> \<not> rv_idempotent rv
    \<and> lease_held demo_held 1 ''ann'' = Some Reserved"
  by (simp add: demo_held_def pg_reserve_def quota_eval demo_defs map_filter_simps lease_held_def)

lemma demo_held_inv: "service_inv demo_held"
  using pg_reserve_service[OF demo_service_inv demo_regular] demo_held_eq by metis

subsection \<open>Reserving\<close>

text \<open>
  C14. Reserving units is safe whatever a concurrent request did between the first read and
  the rest of the transaction: the database keeps the quota invariant (every bucket's
  reserved counter is the sum of the open ledger rows that point at it, its committed
  counter covers the settled ones, and reserved + committed stay within the limit), an
  error leaves the database as it was, and a success either replays (nothing changes) or
  opens one new lease with a row in every scope, each scope's use within its policy limit.
\<close>

theorem reserve_race_safe:
  assumes "service_inv db" and "regular_input inp" and "reserve_race col db0 db inp = (res, db')"
  shows "quota_inv db' \<and> (\<forall>e. res = Inl e \<longrightarrow> db' = db)
    \<and> (\<forall>rv. res = Inr rv \<longrightarrow> db' = db \<or> new_lease inp db rv db')"
proof -
  have "quota_inv db" "scopes_cover inp db"
    using assms scopes_regular_cover by (auto simp: service_inv_def)
  from reserve_race_outcome[OF this assms(3)] show ?thesis by auto
qed

theorem reserve_race_safe_witness:
  "quota_inv demo_held"
  using reserve_race_safe[OF demo_service_inv demo_regular, of demo_col demo_db]
  unfolding demo_held_def pg_reserve_def by (metis prod.collapse)

text \<open>
  A duplicate that loses a race never opens a second lease: when the database it works
  on already holds a row for the same account, resource and client request, the database is
  unchanged, and if the call succeeds it returns that row's lease marked idempotent.
\<close>

theorem reserve_race_no_second_lease:
  assumes "service_inv db" and "regular_input inp" and "reserve_race col db0 db inp = (res, db')"
    and "r \<in> set (q_ledger db)" and "request_key r = (ri_actor inp, ri_resource inp, ri_clientRequest inp)"
    and "selectIdempotentRows col db0 inp = [] \<or> db0 = db"
  shows "db' = db \<and> (\<forall>rv. res = Inr rv \<longrightarrow> rv_leaseId rv = ld_leaseId r \<and> rv_idempotent rv)"
proof -
  have q: "quota_inv db" and c: "scopes_cover inp db"
    using assms scopes_regular_cover by (auto simp: service_inv_def)
  note out = reserve_race_outcome[OF q c assms(3)]
  have la: "leases_agree db" using q by (simp add: quota_inv_def)
  have key: "request_key r = input_key inp" using assms(5) by (simp add: input_key_def)
  have same: "db' = db" using out no_second_lease[OF q _ _ assms(4) key] by blast
  obtain rv' where rv': "reservationFromRows db (selectIdempotentRows col db inp) True = Inr rv'"
    "rv_leaseId rv' = ld_leaseId r" "rv_idempotent rv'"
    using replay_at_row(2)[OF la assms(4) key] by blast
  note ne = replay_at_row(1)[OF la assms(4) key]
  have "rv = rv'" if "res = Inr rv" for rv
  proof (cases "reserve_attempt col db0 db inp")
    case (Inl e)
    then show ?thesis using assms(3) that rv'(1) by (auto simp: reserve_race_def split: if_splits)
  next
    case (Inr p)
    then have p: "reserve_attempt col db0 db inp = Inr (rv, db)"
      using assms(3) same that by (cases p) (auto simp: reserve_race_def)
    show ?thesis
    proof (cases "selectIdempotentRows col db0 inp = []")
      case True
      with p obtain rows where "reserve_scopes col inp (q_next db) db = Inr (db, rows)"
        "reservationFromRows db rows False = Inr rv"
        by (auto simp: reserve_attempt_def bindR_eq_Inr Let_def)
      from reserve_new_lease[OF q c this] have "new_lease inp db rv db" by simp
      then show ?thesis by (auto simp: new_lease_def)
    next
      case False
      with assms(6) have "db0 = db" by simp
      with False p rv'(1) show ?thesis by (auto simp: reserve_attempt_def bindR_eq_Inr Let_def)
    qed
  qed
  with same rv' show ?thesis by auto
qed

theorem reserve_race_no_second_lease_witness:
  "snd (reserve_race demo_col demo_db demo_held demo_input) = demo_held"
proof -
  from demo_held_eq obtain r where "r \<in> set (q_ledger demo_held)" "request_key r = input_key demo_input"
    by (simp add: demo_held_def pg_reserve_def quota_eval demo_defs map_filter_simps input_key_def)
  then show ?thesis
    using reserve_race_no_second_lease[OF demo_held_inv demo_regular, of demo_col demo_db _ _ r]
    by (metis (no_types, lifting) demo_db_def filter.simps(1) input_key_def prod.collapse
        quota_db.select_convs(3) selectIdempotentRows_def sort_by_Nil)
qed

text \<open>
  Reserving is idempotent: once a reservation has been granted, any later reservation
  of the same account, resource and client request, whatever its units or window, returns
  the same lease marked idempotent and leaves the database as it is.
\<close>

theorem reserve_replay_idempotent:
  assumes "service_inv db" and "regular_input inp" and "pg_reserve col inp db = (Inr rv, db')"
    and "ri_actor inp2 = ri_actor inp" and "ri_resource inp2 = ri_resource inp"
    and "ri_clientRequest inp2 = ri_clientRequest inp"
  shows "\<exists>rv2. pg_reserve col inp2 db' = (Inr rv2, db') \<and> rv_leaseId rv2 = rv_leaseId rv
    \<and> rv_idempotent rv2 \<and> rv_status rv2 = rv_status rv \<and> rv_units rv2 = rv_units rv"
proof -
  have key2: "input_key inp2 = input_key inp" using assms(4-6) by (simp add: input_key_def)
  have q: "quota_inv db" and c: "scopes_cover inp db"
    using assms(1,2) scopes_regular_cover by (auto simp: service_inv_def)
  have out: "quota_inv db'" "q_users db' = q_users db"
    using reserve_race_outcome[OF q c assms(3)[unfolded pg_reserve_def]] by simp_all
  then have la: "leases_agree db'" by (simp add: quota_inv_def)
  have actor: "assertActorCanReserve db' (ri_actor inp2) = Inr ()"
    using reserve_race_actor[OF assms(3)[unfolded pg_reserve_def]] assms(4) out(2)
    by (simp add: assertActorCanReserve_def)
  from granted_row[OF q c assms(3)] obtain r where r: "r \<in> set (q_ledger db')"
    "request_key r = input_key inp2" "ld_leaseId r = rv_leaseId rv" "ld_status r = rv_status rv"
    "ld_units r = rv_units rv" using key2 by auto
  from replay_at_row(2)[OF la r(1,2), of col] obtain rv2 where
    "reservationFromRows db' (selectIdempotentRows col db' inp2) True = Inr rv2"
    "rv_leaseId rv2 = rv_leaseId rv" "rv_idempotent rv2" "rv_status rv2 = rv_status rv"
    "rv_units rv2 = rv_units rv" using r by auto
  then show ?thesis
    using actor replay_at_row(1)[OF la r(1,2), of col]
    by (simp add: pg_reserve_def reserve_race_def reserve_attempt_def Let_def)
qed

theorem reserve_replay_idempotent_witness:
  "\<exists>rv2. pg_reserve demo_col (demo_input\<lparr>ri_units := 9\<rparr>) demo_held = (Inr rv2, demo_held)
     \<and> rv_units rv2 = 2"
proof -
  from demo_held_eq obtain rv where rv: "pg_reserve demo_col demo_input demo_db = (Inr rv, demo_held)"
    "\<not> rv_idempotent rv" by blast
  have "rv_units rv = 2"
    using pg_reserve_fresh[OF demo_service_inv demo_regular rv] by (simp add: new_lease_def demo_input_def)
  with reserve_replay_idempotent[OF demo_service_inv demo_regular rv(1),
      of "demo_input\<lparr>ri_units := 9\<rparr>"] show ?thesis by auto
qed

subsection \<open>Settling\<close>

definition lease_charge :: "nat \<Rightarrow> bucket_row \<Rightarrow> ledger_row list \<Rightarrow> int" where
  "lease_charge lease b =
     tally (\<lambda>r. ld_leaseId r = lease \<and> ld_bucketId r = bk_id b \<and> ld_status r = Reserved) ld_units"

text \<open>
  C15. Settling a lease of the account always succeeds and moves exactly the units it holds:
  in every bucket the open units of the lease leave the reserved counter, and they arrive in
  the committed counter when the lease is committed and nowhere when it is released; the
  limit is untouched and the invariant kept.
\<close>

theorem settlement_moves_units:
  assumes "service_inv db" and "lease_held db lease user = Some st" and "target \<noteq> Reserved"
  shows "\<exists>rv db'. transitionQuotaReservation col
      \<lparr>ti_leaseId = lease, ti_actor = Some user, ti_reason = reason\<rparr> target db = Inr (rv, db')
    \<and> quota_inv db' \<and> length (q_buckets db') = length (q_buckets db)
    \<and> (\<forall>i < length (q_buckets db). let b = q_buckets db ! i; b' = q_buckets db' ! i in
         bk_id b' = bk_id b \<and> bk_limit b' = bk_limit b
       \<and> bk_reserved b' = bk_reserved b - lease_charge lease b (q_ledger db)
       \<and> bk_committed b' = bk_committed b
           + (if target = Committed then lease_charge lease b (q_ledger db) else 0))"
proof -
  define inp where "inp = \<lparr>ti_leaseId = lease, ti_actor = Some user, ti_reason = reason\<rparr>"
  note rows = held_rows[OF assms(1,2) inp_def]
  from transition_ok[OF rows(1,2) assms(3) rows(3), of col] obtain rv db' where
    run: "transitionQuotaReservation col inp target db = Inr (rv, db')" and q': "quota_inv db'"
    and bk: "q_buckets db' = map (settle_by target (q_now db) (transition_rows col inp db)) (q_buckets db)"
    by blast
  have "let b' = settle_by target (q_now db) (transition_rows col inp db) b in
      bk_id b' = bk_id b \<and> bk_limit b' = bk_limit b
       \<and> bk_reserved b' = bk_reserved b - lease_charge lease b (q_ledger db)
       \<and> bk_committed b' = bk_committed b
           + (if target = Committed then lease_charge lease b (q_ledger db) else 0)" for b
    using settle_by_charge[OF rows(1,2), where target = target and now = "q_now db" and b = b]
    by (simp add: inp_def lease_charge_def)
  with run q' bk show ?thesis by (auto simp: inp_def Let_def)
qed

theorem settlement_moves_units_witness:
  "\<exists>rv db'. transitionQuotaReservation demo_col
      \<lparr>ti_leaseId = 1, ti_actor = Some ''ann'', ti_reason = None\<rparr> Committed demo_held = Inr (rv, db')"
proof -
  from demo_held_eq have "lease_held demo_held 1 ''ann'' = Some Reserved" by blast
  from settlement_moves_units[OF demo_held_inv this, of Committed demo_col None] show ?thesis by auto
qed

text \<open>
  Settlement is terminal: once a lease has been committed or released, settling it
  again, in either direction and for whatever reason, succeeds, changes nothing and
  reports the first outcome.
\<close>

theorem settlement_terminal:
  assumes "service_inv db" and "lease_held db lease user = Some st" and "st \<noteq> Reserved"
    and "target \<noteq> Reserved"
  shows "\<exists>rv. transitionQuotaReservation col
      \<lparr>ti_leaseId = lease, ti_actor = Some user, ti_reason = reason\<rparr> target db = Inr (rv, db)
    \<and> rv_leaseId rv = lease \<and> rv_status rv = st"
proof -
  define inp where "inp = \<lparr>ti_leaseId = lease, ti_actor = Some user, ti_reason = reason\<rparr>"
  note rows = held_rows[OF assms(1,2) inp_def]
  from rows(4) obtain r where r: "r \<in> set (q_ledger db)" "ld_leaseId r = lease" "ld_status r = st"
    by blast
  from transition_ok[OF rows(1,2) assms(4) rows(3), of col] obtain rv db' where
    run: "transitionQuotaReservation col inp target db = Inr (rv, db')"
    and rv: "rv_leaseId rv = lease" "rv_status rv = st"
    using assms(3) by (auto simp: inp_def)
  have la: "leases_agree db" using rows(1) by (simp add: quota_inv_def)
  have "ld_status s = ld_status r" if "s \<in> set (q_ledger db)" "ld_leaseId s = lease" for s
    using la r(1,2) that unfolding leases_agree_def by blast
  then have "\<forall>s\<in>set (transition_rows col inp db). ld_status s \<noteq> Reserved"
    using lease_rows_facts(1)[OF rows(1,2)] r(3) assms(3) by (simp add: inp_def)
  then have "foldR (transition_row target reason) (transition_rows col inp db) db = Inr db"
    by (intro foldR_frame) (auto simp: transition_row_def)
  then have "db' = db"
    using run rows(2) by (auto simp: transitionQuotaReservation_def Let_def bindR_eq_Inr inp_def)
  with run rv show ?thesis by (auto simp: inp_def)
qed

definition demo_done :: quota_db where
  "demo_done = snd (pg_commit demo_col \<lparr>ti_leaseId = 1, ti_actor = Some ''ann'', ti_reason = None\<rparr> demo_held)"

theorem settlement_terminal_witness:
  "\<exists>rv. transitionQuotaReservation demo_col
      \<lparr>ti_leaseId = 1, ti_actor = Some ''ann'', ti_reason = None\<rparr> Released demo_done = Inr (rv, demo_done)
    \<and> rv_status rv = Committed"
proof -
  from demo_held_eq have "lease_held demo_held 1 ''ann'' = Some Reserved" by blast
  from settle_held[OF demo_held_inv this, of Committed demo_col None]
  have "service_inv demo_done" "lease_held demo_done 1 ''ann'' = Some Committed"
    by (auto simp: demo_done_def pg_commit_def run_transition_def)
  from settlement_terminal[OF this, of Released demo_col None] show ?thesis by auto
qed

subsection \<open>The service\<close>

text \<open>
  C16. An operation run under a reservation is always accounted for: when the reservation is
  new and the operation neither breaks the quota invariant nor touches the lease, the lease
  ends committed with the operation's value returned if it succeeded, and released with the
  operation's own error rethrown if it failed; no lease is left open.
\<close>

theorem withReservation_accounts:
  fixes operation :: "reservation \<Rightarrow> quota_db \<Rightarrow> ('e, 'a) result \<times> quota_db"
  assumes "service_inv db" and "service_reserve (pg_deps col lim tz) rq db = (Inr rv, db1)"
    and "\<not> rv_idempotent rv" and "operation rv db1 = (r, db2)" and "service_inv db2"
    and "lease_held db2 (rv_leaseId rv) (qr_user rq) = lease_held db1 (rv_leaseId rv) (qr_user rq)"
  shows "\<exists>db'. withReservation (pg_deps col lim tz) rq operation db =
      ((case r of Inl e \<Rightarrow> Inl (OperationErr e) | Inr x \<Rightarrow> Inr x), db') \<and> service_inv db'
    \<and> lease_held db' (rv_leaseId rv) (qr_user rq)
        = Some (case r of Inl e \<Rightarrow> Released | Inr x \<Rightarrow> Committed)"
  using assms by (rule pg.withReservation_settles[where operation = operation])

lemma demo_service_reserve:
  "\<exists>rv db1. service_reserve (pg_deps demo_col demo_limits demo_tz) demo_request demo_db = (Inr rv, db1)
     \<and> \<not> rv_idempotent rv"
  by (simp add: service_reserve_def validated_reserve_input_def demo_request_def blank_def
      js_space_def is_safe_integer_def max_safe_integer_def pg_deps_def shanghaiDailyWindow_eq
      demo_tz_def day_of_time_def ms_per_day_def service_scopes_def persistedAnswerBonus_def
      nonNegativeInteger_def demo_limits_def pg_reserve_def quota_eval demo_defs map_filter_simps)

theorem withReservation_accounts_witness:
  "\<exists>db'. withReservation (pg_deps demo_col demo_limits demo_tz) demo_request
      (\<lambda>rv db. (Inl ''boom'' :: (string, nat) result, db)) demo_db = (Inl (OperationErr ''boom''), db')
    \<and> service_inv db'"
proof -
  from demo_service_reserve obtain rv db1 where
    r: "service_reserve (pg_deps demo_col demo_limits demo_tz) demo_request demo_db = (Inr rv, db1)"
    and n: "\<not> rv_idempotent rv" by blast
  have "service_inv db1" by (rule pg.service_reserve_inv[OF demo_service_inv r])
  with withReservation_accounts[where operation = "\<lambda>rv db. (Inl ''boom'' :: (string, nat) result, db)",
      OF demo_service_inv r n]
  show ?thesis by auto
qed

text \<open>
  A repeated request never runs its operation again: when a row of the account, resource
  and client request exists, the outcome of \<open>withReservation\<close> does not depend on the
  operation, it is an error naming the request, and the database is unchanged.
\<close>

theorem withReservation_repeat_rejected:
  assumes "service_inv db" and "r \<in> set (q_ledger db)"
    and "request_key r = (qr_user rq, qr_resource rq, qr_clientRequest rq)"
    and "validated_reserve_input (pg_deps col lim tz) rq db = Inr inp"
    and "assertActorCanReserve db (qr_user rq) = Inr ()"
  shows "withReservation (pg_deps col lim tz) rq operation db =
    (Inl (QuotaErr (if ld_status r = Reserved then RequestInProgress (qr_clientRequest rq)
        else RequestAlreadyUsed (qr_clientRequest rq) (ld_status r))), db)"
proof -
  have la: "leases_agree db" using assms(1) by (simp add: service_inv_def quota_inv_def)
  note v = validated_regular[OF assms(4)]
  have key: "request_key r = input_key inp" using assms(3) v by (simp add: input_key_def)
  from replay_at_row(2)[OF la assms(2) key, of col] obtain rv where
    rv: "reservationFromRows db (selectIdempotentRows col db inp) True = Inr rv"
    "rv_idempotent rv" "rv_status rv = ld_status r" by blast
  then have "pg_reserve col inp db = (Inr rv, db)"
    using replay_at_row(1)[OF la assms(2) key, of col] assms(5) v
    by (simp add: pg_reserve_def reserve_race_def reserve_attempt_def Let_def)
  then have "service_reserve (pg_deps col lim tz) rq db = (Inr rv, db)"
    using assms(4) by (simp add: service_reserve_def) (simp add: pg_deps_def)
  with rv show ?thesis by (simp add: withReservation_def)
qed

theorem withReservation_repeat_rejected_witness:
  "withReservation (pg_deps demo_col demo_limits demo_tz) demo_request
      (\<lambda>rv db. (Inr 5 :: (string, nat) result, db)) demo_held
    = (Inl (QuotaErr (RequestInProgress ''r1'')), demo_held)"
proof -
  from demo_held_eq obtain r where r: "r \<in> set (q_ledger demo_held)"
    "request_key r = (''ann'', Answer, ''r1'')" "ld_status r = Reserved"
    by (simp add: demo_held_def pg_reserve_def quota_eval demo_defs map_filter_simps input_key_def)
  have us: "q_users demo_held = demo_users"
    by (simp add: demo_held_def pg_reserve_def quota_eval demo_defs map_filter_simps)
  have "\<exists>inp. validated_reserve_input (pg_deps demo_col demo_limits demo_tz) demo_request demo_held
      = Inr inp"
    by (simp add: validated_reserve_input_def demo_request_def blank_def
      js_space_def is_safe_integer_def max_safe_integer_def pg_deps_def shanghaiDailyWindow_eq
      demo_tz_def day_of_time_def ms_per_day_def)
  moreover have "assertActorCanReserve demo_held (qr_user demo_request) = Inr ()"
    by (simp add: assertActorCanReserve_def us demo_users_def demo_request_def lookup_def)
  ultimately show ?thesis
    using withReservation_repeat_rejected[OF demo_held_inv r(1), of demo_request demo_col demo_limits demo_tz]
      r by (auto simp: demo_request_def)
qed

text \<open>
  Every limit the service reads from its environment is a positive safe integer,
  whatever the variables hold, and a variable set to a plain positive decimal is the limit.
\<close>

theorem environment_limits_positive:
  "(let l = quotaLimitsFromEnvironment env in
     \<forall>n \<in> {answerDaily l, webSearchUserDaily l, webSearchGlobalDaily l,
            modelAttemptUserDaily l, modelAttemptGlobalDaily l}. 0 < n \<and> is_safe_integer n)
   \<and> (\<forall>n. env ''ANSWER_DAILY_LIMIT'' = Some (decimal n) \<longrightarrow> 0 < n \<longrightarrow> is_safe_integer (int n) \<longrightarrow>
        answerDaily (quotaLimitsFromEnvironment env) = int n)"
proof -
  have pos: "0 < positiveInteger v d \<and> is_safe_integer (positiveInteger v d)"
    if "0 < d" "is_safe_integer d" for v d
    using that by (auto simp: positiveInteger_def split: option.splits)
  have set: "positiveInteger (Some (decimal n)) d = int n" if "0 < n" "is_safe_integer (int n)" for n d
    using that by (simp add: positiveInteger_def parseInt10_decimal)
  have safe: "is_safe_integer 20" "is_safe_integer 5" "is_safe_integer 500" "is_safe_integer 30"
    "is_safe_integer 1000" by (simp_all add: is_safe_integer_def max_safe_integer_def)
  show ?thesis
    by (simp add: quotaLimitsFromEnvironment_def Let_def set pos safe)
qed

theorem environment_limits_positive_witness:
  "answerDaily (quotaLimitsFromEnvironment [''ANSWER_DAILY_LIMIT'' \<mapsto> decimal 7]) = 7"
  using environment_limits_positive[of "[''ANSWER_DAILY_LIMIT'' \<mapsto> decimal 7]"]
  by (auto simp: Let_def is_safe_integer_def max_safe_integer_def)

text \<open>
  The quota window is the Beijing calendar day: at any instant from 1970 on, with the
  zone eight hours ahead of UTC, the window resets at most 24 hours later and strictly
  after the instant, and two instants share the window key exactly when their windows reset
  together.
\<close>

theorem shanghai_window_is_the_day:
  assumes "\<And>t. tz t = shanghai_utc_offset" and "0 \<le> t" and "0 \<le> u"
  shows "\<exists>w v. shanghaiDailyWindow tz (Some t) = Inr w \<and> shanghaiDailyWindow tz (Some u) = Inr v
    \<and> t < qw_resetAt w \<and> qw_resetAt w \<le> t + ms_per_day
    \<and> (qw_key w = qw_key v \<longleftrightarrow> qw_resetAt w = qw_resetAt v)"
proof -
  define day where "day x = day_of_time (x + shanghai_utc_offset)" for x
  have d: "0 \<le> day x" if "0 \<le> x" for x
    using that by (simp add: day_def day_of_time_def shanghai_utc_offset_def ms_per_day_def)
  have eq: "shanghaiDailyWindow tz (Some x) = Inr \<lparr>qw_key = window_key (year_from_day (day x),
      month_from_day (day x) + 1, date_from_day (day x)),
      qw_resetAt = (day x + 1) * ms_per_day - shanghai_utc_offset\<rparr>" if "0 \<le> x" for x
    using shanghaiDailyWindow_eq[of x tz] d[OF that] by (simp add: day_def assms(1))
  have bound: "t < (day t + 1) * ms_per_day - shanghai_utc_offset
      \<and> (day t + 1) * ms_per_day - shanghai_utc_offset \<le> t + ms_per_day"
    using div_bounds[of ms_per_day "t + shanghai_utc_offset"]
    by (simp add: day_def day_of_time_def ms_per_day_def)
  have inj: "day t = day u" if "window_key (year_from_day (day t), month_from_day (day t) + 1,
      date_from_day (day t)) = window_key (year_from_day (day u), month_from_day (day u) + 1,
      date_from_day (day u))"
  proof -
    have "year_from_day (day t) = year_from_day (day u) \<and> month_from_day (day t) = month_from_day (day u)
        \<and> date_from_day (day t) = date_from_day (day u)"
      using window_key_inject[OF _ _ _ _ _ _ _ _ _ _ that] year_ge_1970[OF d[OF assms(2)]]
        year_ge_1970[OF d[OF assms(3)]] month_from_day_range[of "day t"]
        month_from_day_range[of "day u"] date_from_day_range[of "day t"] date_from_day_range[of "day u"]
      by simp
    then show ?thesis by (metis make_day_of_day)
  qed
  show ?thesis using eq[OF assms(2)] eq[OF assms(3)] bound inj by (auto simp: ms_per_day_def)
qed

theorem shanghai_window_is_the_day_witness:
  "\<exists>w. shanghaiDailyWindow demo_tz (Some 57599999) = Inr w \<and> qw_resetAt w \<le> 143999999"
  using shanghai_window_is_the_day[of demo_tz 57599999 0]
  by (auto simp: demo_tz_def shanghai_utc_offset_def ms_per_day_def)

subsection \<open>Capacity\<close>

text \<open>
  Capacity decides, exactly: for a request not seen before, of an available account,
  charged to one scope (as the answer quota is), the reservation is granted if and only if
  the units already used plus the requested ones stay within the policy limit in force now,
  whatever limit the bucket was created with; otherwise the error is the exceeded quota.
\<close>

theorem single_scope_reserve_exact:
  assumes "quota_inv db" and "ri_scopes inp = [sc]" and "0 < ri_units inp" and "0 < sp_limit sc"
    and "int4_ok (sp_limit sc)" and "int4_ok (used_units inp sc db + ri_units inp)"
    and "assertActorCanReserve db (ri_actor inp) = Inr ()"
    and "\<forall>r\<in>set (q_ledger db). request_key r \<noteq> (ri_actor inp, ri_resource inp, ri_clientRequest inp)"
  shows "if used_units inp sc db + ri_units inp \<le> sp_limit sc
    then \<exists>rv db'. pg_reserve col inp db = (Inr rv, db') \<and> \<not> rv_idempotent rv
    else \<exists>t l r. pg_reserve col inp db = (Inl (QuotaExceeded (ri_resource inp) t l r), db)"
proof -
  define db0 where "db0 = db\<lparr>q_next := Suc (q_next db)\<rparr>"
  have sel: "selectIdempotentRows col db inp = []"
    using assms(8) by (auto simp: selectIdempotentRows_def filter_empty_conv)
  have inv0: "quota_inv db0" using quota_inv_next[OF assms(1)] by (simp add: db0_def)
  have used0: "used_units inp sc db0 = used_units inp sc db"
    by (simp add: used_units_def scope_bucket_def db0_def)
  have step: "if used_units inp sc db + ri_units inp \<le> sp_limit sc
    then \<exists>d row. reserve_scope inp (q_next db) sc (db0, []) = Inr (d, [row])
    else \<exists>t l r. reserve_scope inp (q_next db) sc (db0, []) = Inl (QuotaExceeded (ri_resource inp) t l r)"
  proof -
    have "\<forall>r\<in>set (q_ledger db0). request_key r \<noteq> (ri_actor inp, ri_resource inp, ri_clientRequest inp)"
      using assms(8) by (simp add: db0_def)
    moreover have "int4_ok (used_units inp sc db0 + ri_units inp)" using assms(6) used0 by simp
    ultimately show ?thesis
      using reserve_scope_exact[OF inv0 assms(3-5), where rows = "[]" and lease = "q_next db"] used0
      by (simp split: if_splits)
  qed
  have one: "sort_by f [x] = [x]" for f and x :: scope_policy by (simp add: sort_by_def)
  have att: "reserve_attempt col db db inp = bindR (reserve_scope inp (q_next db) sc (db0, []))
      (\<lambda>(db', rows). bindR (reservationFromRows db' rows False) (\<lambda>rv. Inr (rv, db')))"
    using sel assms(7) by (cases "reserve_scope inp (q_next db) sc (db0, [])")
      (simp_all add: reserve_attempt_def reserve_scopes_def assms(2) one db0_def[symmetric] Let_def)
  show ?thesis
    using step
    by (auto simp: pg_reserve_def reserve_race_def att Let_def reservationFromRows_def split: if_splits)
qed

theorem single_scope_reserve_exact_witness:
  "(\<exists>rv db'. pg_reserve demo_col demo_input demo_db = (Inr rv, db') \<and> \<not> rv_idempotent rv)
   \<and> (\<exists>t l r. pg_reserve demo_col (demo_input\<lparr>ri_units := 4\<rparr>) demo_db
        = (Inl (QuotaExceeded Answer t l r), demo_db))"
proof -
  have q: "quota_inv demo_db" using demo_service_inv by (simp add: service_inv_def)
  show ?thesis
    using single_scope_reserve_exact[OF q, of demo_input "hd (ri_scopes demo_input)" demo_col]
      single_scope_reserve_exact[OF q, of "demo_input\<lparr>ri_units := 4\<rparr>" "hd (ri_scopes demo_input)" demo_col]
    by (simp add: demo_defs used_units_def scope_bucket_def lookup_def int4_ok_def
        assertActorCanReserve_def)
qed

end
