(* ===== verification/Storage_Properties.thy ===== *)
theory Storage_Properties
  imports Storage_Artifacts Quota_Properties
begin

section \<open>Properties of the private storage\<close>

text \<open>
  What the storage tables promise, over the transactions of the attachment and artifact
  repositories. The concrete database of the witnesses has one account with a conversation
  and no storage; \<open>demo_upload\<close> is a 100-byte text file.
\<close>

definition demo_hash :: string where
  "demo_hash = replicate 64 CHR ''0''"

definition demo_app :: app_db where
  "demo_app = \<lparr>ap_quota = demo_db,
     ap_conversations = [\<lparr>cv_id = 1, cv_user = ''ann'', cv_title = [116], cv_status = ConvActive,
       cv_model = None, cv_lastMessageAt = None, cv_updatedAt = 0, cv_deletedAt = None\<rparr>],
     ap_messages = [\<lparr>ms_id = 3, ms_conversation = 1, ms_user = Some ''ann'', ms_sequence = 1,
       ms_role = RoleUser, ms_status = MsgCompleted, ms_content = [113], ms_clientRequest = None,
       ms_turn = None, ms_model = None, ms_answerSchemaVersion = None, ms_answerPayload = None,
       ms_errorCode = None, ms_errorMessage = None, ms_metadata = JObject [], ms_completedAt = None\<rparr>],
     ap_turns = [], ap_runs = [], ap_accounts = [], ap_attachments = [], ap_artifacts = [],
     ap_files = [], ap_jobs = [], ap_chunks = [], ap_toolCalls = [],
     ap_citations = [], ap_messageCitations = []\<rparr>"

definition demo_upload :: initiate_input where
  "demo_upload = \<lparr>ii_id = 7, ii_user = ''ann'', ii_conversation = 1, ii_kind = KindImage,
     ii_filename = ''a.png'', ii_mime = ''image/png'', ii_declared = 100, ii_sha256 = demo_hash,
     ii_key = ''private/chat-attachments/a'', ii_uploadExpiresAt = 2000, ii_orphanExpiresAt = 9000\<rparr>"

definition demo_reserved :: app_db where
  "demo_reserved = (case initiate demo_upload demo_app of Inr (_, d) \<Rightarrow> d | Inl _ \<Rightarrow> demo_app)"

definition demo_scanning :: app_db where
  "demo_scanning = (case beginCompletion 7 ''ann'' demo_reserved of Inr (_, d) \<Rightarrow> d | Inl _ \<Rightarrow> demo_app)"

definition demo_stored :: app_db where
  "demo_stored = (case completeVerified 7 ''ann'' 100 None demo_scanning of Inr (_, d) \<Rightarrow> d | Inl _ \<Rightarrow> demo_app)"

definition no_storage :: "app_db \<Rightarrow> bool" where
  "no_storage db \<longleftrightarrow> ap_accounts db = [] \<and> ap_attachments db = [] \<and> ap_artifacts db = []
     \<and> ap_files db = []"

lemma no_storage_inv: "no_storage db \<Longrightarrow> storage_inv db"
  by (simp add: no_storage_def storage_inv_def balanced_def attachments_wf_def files_wf_def)

lemma demo_no_storage: "no_storage demo_app"
  by (simp add: no_storage_def demo_app_def)

lemma demo_runs:
  "\<exists>v. initiate demo_upload demo_app = Inr (v, demo_reserved)"
  "\<exists>r. beginCompletion 7 ''ann'' demo_reserved = Inr (r, demo_scanning)"
  "\<exists>v. completeVerified 7 ''ann'' 100 None demo_scanning = Inr (v, demo_stored)"
proof -
  have "\<not> isl (initiate demo_upload demo_app)" by code_simp
  then show "\<exists>v. initiate demo_upload demo_app = Inr (v, demo_reserved)"
    by (auto simp: demo_reserved_def split: sum.splits)
  have "\<not> isl (beginCompletion 7 ''ann'' demo_reserved)" by code_simp
  then show "\<exists>r. beginCompletion 7 ''ann'' demo_reserved = Inr (r, demo_scanning)"
    by (auto simp: demo_scanning_def split: sum.splits)
  have "\<not> isl (completeVerified 7 ''ann'' 100 None demo_scanning)" by code_simp
  then show "\<exists>v. completeVerified 7 ''ann'' 100 None demo_scanning = Inr (v, demo_stored)"
    by (auto simp: demo_stored_def split: sum.splits)
qed

lemma demo_reachable:
  "storage_step\<^sup>*\<^sup>* demo_app demo_reserved" "storage_step\<^sup>*\<^sup>* demo_app demo_scanning"
  "storage_step\<^sup>*\<^sup>* demo_app demo_stored"
proof -
  show 1: "storage_step\<^sup>*\<^sup>* demo_app demo_reserved" using demo_runs(1) by (auto intro: step_initiate)
  show 2: "storage_step\<^sup>*\<^sup>* demo_app demo_scanning"
    using demo_runs(2) by (auto intro: rtranclp.rtrancl_into_rtrancl[OF 1] step_begin)
  show "storage_step\<^sup>*\<^sup>* demo_app demo_stored"
    using demo_runs(3) by (auto intro: rtranclp.rtrancl_into_rtrancl[OF 2] step_complete)
qed

lemma demo_storage_inv: "storage_inv demo_app" "storage_inv demo_reserved" "storage_inv demo_scanning"
    "storage_inv demo_stored"
  using storage_steps_inv[OF demo_reachable(1)] storage_steps_inv[OF demo_reachable(2)]
    storage_steps_inv[OF demo_reachable(3)] no_storage_inv[OF demo_no_storage] by blast+

subsection \<open>The books\<close>

text \<open>
  C17. From a database without storage rows, whatever sequence of storage transactions
  commits (uploads, verification, rejection, binding, deletion, artifacts, their files,
  cleanup, expiry): every account's used bytes are the sizes of its committed attachments
  and files, its reserved bytes the sizes of the reserved ones, and together they stay
  within its limit.
\<close>

theorem storage_books_balance:
  assumes "no_storage db0" and "storage_step\<^sup>*\<^sup>* db0 db" and "a \<in> set (ap_accounts db)"
  shows "sa_used a = used (sa_user a) db \<and> sa_reserved a = held (sa_user a) db
    \<and> 0 \<le> sa_used a \<and> 0 \<le> sa_reserved a \<and> sa_used a + sa_reserved a \<le> sa_limit a"
proof -
  have "balanced db"
    using storage_steps_inv[OF assms(2) no_storage_inv[OF assms(1)]] by (simp add: storage_inv_def)
  with assms(3) have "account_check a" "sa_used a = used (sa_user a) db" "sa_reserved a = held (sa_user a) db"
    by (auto simp: balanced_def)
  then show ?thesis unfolding account_check_def by blast
qed

theorem storage_books_balance_witness:
  "\<exists>a\<in>set (ap_accounts demo_stored). sa_used a = 100 \<and> sa_used a = used (sa_user a) demo_stored"
proof -
  have "\<exists>a\<in>set (ap_accounts demo_stored). sa_used a = 100" by code_simp
  then show ?thesis using storage_books_balance[OF demo_no_storage demo_reachable(3)] by blast
qed

text \<open>
  C18. No private object is forgotten: an object key that some attachment or artifact file
  of a reachable database holds is, after any further transactions, still held by a row or
  named by a deletion job.
\<close>

theorem storage_objects_tracked:
  assumes "no_storage db0" and "storage_step\<^sup>*\<^sup>* db0 db1" and "storage_step\<^sup>*\<^sup>* db1 db2"
    and "k \<in> object_keys db1"
  shows "k \<in> object_keys db2 \<or> k \<in> job_keys db2"
  using storage_steps_inv[OF assms(3)] storage_steps_inv[OF assms(2) no_storage_inv[OF assms(1)]]
    assms(4) by (auto simp: no_object_lost_def)

theorem storage_objects_tracked_witness:
  "''private/chat-attachments/a'' \<in> object_keys demo_stored \<union> job_keys demo_stored"
proof -
  have "storage_step\<^sup>*\<^sup>* demo_reserved demo_stored"
    using demo_runs(2,3) by (meson converse_rtranclp_into_rtranclp r_into_rtranclp step_begin step_complete)
  moreover have "''private/chat-attachments/a'' \<in> object_keys demo_reserved" by code_simp
  ultimately show ?thesis
    using storage_objects_tracked[OF demo_no_storage demo_reachable(1)] by blast
qed

subsection \<open>Uploads\<close>

text \<open>
  An account may reserve a new attachment exactly while it fits: for a writable account
  with an open conversation, fresh id and key and a well-formed row, \<open>initiate\<close> succeeds
  if and only if the used, reserved and declared bytes stay within the limit (500 MiB when
  the account has no storage row yet), reserves exactly the declared bytes, and otherwise
  answers 413.
\<close>

theorem initiate_exact:
  assumes "storage_inv db" and "account_open (ii_user inp) db"
    and "owned_conversation (ii_conversation inp) (ii_user inp) db"
    and "attachment_check (new_attachment inp db)" and "ii_filename inp \<noteq> ''''"
    and "\<forall>x\<in>set (ap_attachments db). at_id x \<noteq> ii_id inp \<and> at_key x \<noteq> ii_key inp"
    and "\<forall>a\<in>set (ap_accounts db). sa_user a = ii_user inp \<longrightarrow> sa_limit a = lim \<and> is_safe_integer lim"
    and "(\<forall>a\<in>set (ap_accounts db). sa_user a \<noteq> ii_user inp) \<longrightarrow> lim = max_chat_storage_bytes"
  shows "used (ii_user inp) db + held (ii_user inp) db + ii_declared inp \<le> lim
      \<and> (\<exists>v db'. initiate inp db = Inr (v, db') \<and> held (ii_user inp) db' = held (ii_user inp) db + ii_declared inp
           \<and> used (ii_user inp) db' = used (ii_user inp) db)
    \<or> lim < used (ii_user inp) db + held (ii_user inp) db + ii_declared inp
      \<and> initiate inp db = Inl (ApiError 413 ''CHAT_STORAGE_QUOTA_EXCEEDED'')"
proof -
  define u db1 where "u = ii_user inp" and "db1 = ensure_account u db"
  have inv1: "storage_inv db1" and has: "has_account db1 u"
    using ensure_account_inv[OF assms(1)] by (simp_all add: db1_def)
  have tabs: "ap_attachments db1 = ap_attachments db" "ap_files db1 = ap_files db"
    "ap_artifacts db1 = ap_artifacts db" "now db1 = now db"
    by (simp_all add: db1_def ensure_account_def)
  have own: "owners db1 = owners db" by (simp add: owners_def tabs)
  have eq: "used u db1 = used u db" "held u db1 = held u db"
    using at_charges_cong[OF tabs(1)] fl_charges_cong[OF tabs(2) own] by (simp_all add: used_def held_def)
  obtain q where q: "lookup sa_user u (ap_accounts db1) = Some q"
    using has by (cases "lookup sa_user u (ap_accounts db1)") (auto simp: lookup_None_iff has_account_def)
  note row = lookup_SomeD[OF q]
  have lim: "sa_limit q = lim \<and> is_safe_integer lim"
  proof (cases "\<exists>a\<in>set (ap_accounts db). sa_user a = u")
    case True
    with row assms(7) show ?thesis by (auto simp: db1_def ensure_account_def u_def)
  next
    case False
    with assms(8) have "lim = max_chat_storage_bytes" by (auto simp: u_def)
    moreover from this False have "\<forall>x\<in>set (ap_accounts db1). sa_user x = u \<longrightarrow> sa_limit x = lim"
      by (auto simp: db1_def ensure_account_def)
    ultimately show ?thesis
      using row by (simp add: is_safe_integer_def max_safe_integer_def max_chat_storage_bytes_def)
  qed
  have bal: "balanced db1" using inv1 by (simp add: storage_inv_def)
  have acc: "account_check q" "sa_used q = used u db" "sa_reserved q = held u db"
    using bal row by (auto simp: balanced_def eq)
  have safe: "safeInteger (sa_used q) \<noteq> None" "safeInteger (sa_reserved q) \<noteq> None" "safeInteger (sa_limit q) \<noteq> None"
    using acc(1) lim by (auto simp: account_check_def safeInteger_def is_safe_integer_def)
  have new: "new_attachment inp db1 = new_attachment inp db" by (simp add: new_attachment_def tabs)
  show ?thesis
  proof (cases "sa_limit q < sa_used q + sa_reserved q + ii_declared inp")
    case True
    then have "initiate inp db = Inl (ApiError 413 ''CHAT_STORAGE_QUOTA_EXCEEDED'')"
      using assms(2,3) q safe by (simp add: initiate_def Let_def flip: u_def db1_def)
    with True acc lim show ?thesis by (simp add: u_def)
  next
    case False
    define db2 where "db2 = db1\<lparr>ap_attachments := ap_attachments db1 @ [new_attachment inp db1]\<rparr>"
    have "insert_attachment (new_attachment inp db1) db1 = Inr db2"
      using assms(4,6) by (auto simp: insert_attachment_def db2_def new tabs) (auto simp: new_attachment_def)
    moreover have "\<exists>db3. update_account u (move_bytes 0 (ii_declared inp)) db2 = Inr db3"
    proof (rule update_account_succeeds)
      show "balanced db1" by (rule bal)
      show "account_check (move_bytes 0 (ii_declared inp) a)" if "a \<in> set (ap_accounts db1)" "sa_user a = u" for a
        using lookup_account[OF bal q that] acc(1) False assms(4)
        by (simp add: account_check_def move_bytes_def attachment_check_def new_attachment_def)
    qed (simp add: db2_def)
    then obtain db3 where db3: "update_account u (move_bytes 0 (ii_declared inp)) db2 = Inr db3" by blast
    moreover have "\<exists>v. parseView (Some (new_attachment inp db1)) = Inr v"
      using assms(4,5) by (auto simp: parseView_def stringValue_def new_attachment_def attachment_check_def
          public_size_def safeInteger_def is_safe_integer_def max_safe_integer_def attachment_mimes_def
          image_mimes_def split: list.splits)
    ultimately obtain v where run: "initiate inp db = Inr (v, db3)"
      using assms(2,3) q safe False by (auto simp: initiate_def Let_def simp flip: u_def db1_def)
    note upd = update_account_simps[OF db3]
    have rows: "ap_attachments db3 = ap_attachments db @ [new_attachment inp db1]"
      "ap_files db3 = ap_files db" "ap_artifacts db3 = ap_artifacts db"
      by (simp_all add: upd db2_def tabs)
    have own3: "owners db3 = owners db" by (simp add: owners_def rows)
    have "held u db3 = held u db + ii_declared inp" "used u db3 = used u db"
      using fl_charges_cong[OF rows(2) own3, of u]
      by (simp_all add: held_def used_def at_held_def at_used_def rows tally_append tally_Cons tally_Nil
          new_attachment_def u_def reserved_bytes_def committed_bytes_def)
    with run False acc lim show ?thesis by (auto simp: u_def)
  qed
qed

theorem initiate_exact_witness:
  "\<exists>v db'. initiate demo_upload demo_app = Inr (v, db') \<and> held ''ann'' db' = held ''ann'' demo_app + 100"
proof -
  have "ii_user demo_upload = ''ann''" "ii_declared demo_upload = 100" "used ''ann'' demo_app = 0"
    "held ''ann'' demo_app = 0" "account_open ''ann'' demo_app"
    "owned_conversation (ii_conversation demo_upload) ''ann'' demo_app"
    "attachment_check (new_attachment demo_upload demo_app)" "ii_filename demo_upload \<noteq> ''''"
    by code_simp+
  moreover have "ap_accounts demo_app = []" "ap_attachments demo_app = []" by (simp_all add: demo_app_def)
  ultimately show ?thesis
    using initiate_exact[OF demo_storage_inv(1), of demo_upload max_chat_storage_bytes]
    by (auto simp: max_chat_storage_bytes_def)
qed

lemma charged_row:
  assumes inv: "storage_inv db" and a: "a \<in> set (ap_attachments db)"
  shows "committed_bytes a \<le> used (at_user a) db" "reserved_bytes a \<le> held (at_user a) db"
proof -
  have d: "distinct (ap_attachments db)" using storage_invD(4)[OF inv] by (simp add: distinct_map)
  have chk: "attachment_check x" if "x \<in> set (ap_attachments db)" for x
    using attachment_rowD[OF inv that] by blast
  have files: "0 \<le> fl_used u db" "0 \<le> fl_held u db" for u
    using inv unfolding fl_used_def fl_held_def storage_inv_def files_wf_def
    by (auto intro!: tally_nonneg conjunct1[OF file_nonneg] conjunct2[OF file_nonneg])
  have row: "w a \<le> tally (\<lambda>x. at_user x = at_user a) w (ap_attachments db)"
    if "\<And>x. attachment_check x \<Longrightarrow> 0 \<le> w x" for w
    using tally_mono_pred[of "ap_attachments db" "\<lambda>x. x = a" "\<lambda>x. at_user x = at_user a" w]
      tally_single[OF d a] that chk by auto
  show "committed_bytes a \<le> used (at_user a) db" "reserved_bytes a \<le> held (at_user a) db"
    using row[of committed_bytes, OF committed_nonneg] row[of reserved_bytes, OF reserved_nonneg]
      files[of "at_user a"] by (simp_all add: used_def held_def at_used_def at_held_def)
qed

text \<open>
  C19. A verified upload is always accepted: completing a scanned reservation with the
  declared size never trips a constraint, turns exactly the declared bytes from reserved
  into used, and reports an image as ready and a document as processing; any other size is
  refused with 409 and changes nothing.
\<close>

theorem completeVerified_commits:
  assumes "storage_inv db" and "at_filename a \<noteq> ''''"
    and "find_attachment i user (\<lambda>a. at_status a = AtScanning \<and> at_quota a = StReserved
      \<and> at_deletion a = DelActive) db = Some a"
  shows "if bytes = at_declared a
    then \<exists>v db'. completeVerified i user bytes etag db = Inr (v, db')
      \<and> used user db' = used user db + bytes \<and> held user db' = held user db - bytes
      \<and> vw_size v = bytes \<and> vw_status v = (if at_kind a = KindImage then AtReady else AtProcessing)
    else completeVerified i user bytes etag db = Inl (ApiError 409 ''ATTACHMENT_UPLOAD_MISMATCH'')"
proof (cases "bytes = at_declared a")
  case True
  note row = find_attachment_SomeD[OF assms(3)]
  note chk = attachment_rowD[OF assms(1) conjunct1[OF row]]
  have bal: "balanced db" using assms(1) by (simp add: storage_inv_def)
  have held: "bytes \<le> held user db"
    using charged_row(2)[OF assms(1) conjunct1[OF row]] row True by (simp add: reserved_bytes_def)
  have "\<exists>db1. update_account user (move_bytes bytes (- bytes)) db = Inr db1"
  proof (rule update_account_succeeds[OF bal _ refl])
    show "account_check (move_bytes bytes (- bytes) q)" if "q \<in> set (ap_accounts db)" "sa_user q = user" for q
      using bal that held chk True by (auto simp: balanced_def account_check_def attachment_check_def)
  qed
  then obtain db1 where acc: "update_account user (move_bytes bytes (- bytes)) db = Inr db1" by blast
  note upd = update_account_simps[OF acc]
  define f where "f = commit_attachment bytes etag (now db) (at_kind a = KindImage)"
  define db2 where "db2 = set_attachment i user f db1"
  define g where "g = (\<lambda>x. (f x)\<lparr>at_updatedAt := now db\<rparr>)"
  have rows: "ap_attachments db2 = update_where (\<lambda>a. at_id a = i \<and> at_user a = user) g (ap_attachments db)"
    "ap_files db2 = ap_files db" "ap_artifacts db2 = ap_artifacts db"
    by (simp_all add: db2_def set_attachment_rows upd g_def)
  have g: "at_user (g a) = user" "committed_bytes (g a) = bytes" "reserved_bytes (g a) = 0"
    using row by (simp_all add: g_def f_def commit_attachment_def committed_bytes_def reserved_bytes_def)
  have a0: "committed_bytes a = 0" "reserved_bytes a = bytes"
    using row True by (simp_all add: committed_bytes_def reserved_bytes_def)
  note ch = at_charges_update[OF storage_invD(4)[OF assms(1)] _ _ _ rows(1) g(1), where v = user]
  have own: "owners db2 = owners db" by (simp add: owners_def rows)
  have charges: "used user db2 = used user db + bytes" "held user db2 = held user db - bytes"
    using ch row g a0 fl_charges_cong[OF rows(2) own, of user] by (simp_all add: used_def held_def)
  have "find_attachment i user (\<lambda>_. True) db = Some a"
    using row unfolding find_attachment_def by (intro find_unique[OF storage_invD(4)[OF assms(1)]]) auto
  then have "find_attachment i user (\<lambda>_. True) db2 = Some (g a)"
    using find_update_where[of "\<lambda>x. at_id x = i \<and> at_user x = user" g "ap_attachments db"]
    by (simp add: find_attachment_def rows(1)) (simp add: g_def f_def commit_attachment_def)
  moreover have "\<exists>v. parseView (Some (g a)) = Inr v \<and> vw_size v = bytes
      \<and> vw_status v = (if at_kind a = KindImage then AtReady else AtProcessing)"
    using assms(2) chk True by (auto simp: parseView_def stringValue_def g_def f_def commit_attachment_def
        attachment_check_def public_size_def safeInteger_def is_safe_integer_def max_safe_integer_def
        attachment_mimes_def image_mimes_def split: list.splits)
  then obtain v where v: "parseView (Some (g a)) = Inr v" "vw_size v = bytes"
    "vw_status v = (if at_kind a = KindImage then AtReady else AtProcessing)" by blast
  ultimately have "completeVerified i user bytes etag db = Inr (v, db2)"
    using assms(3) acc True by (simp add: completeVerified_def Let_def db2_def f_def)
  with v charges True show ?thesis by simp
next
  case False
  then show ?thesis using assms(3) by (auto simp: completeVerified_def)
qed

theorem completeVerified_commits_witness:
  "\<exists>v db'. completeVerified 7 ''ann'' 100 None demo_scanning = Inr (v, db')
    \<and> used ''ann'' db' = used ''ann'' demo_scanning + 100 \<and> vw_status v = AtReady"
proof -
  have "\<exists>a. find_attachment 7 ''ann'' (\<lambda>a. at_status a = AtScanning \<and> at_quota a = StReserved
      \<and> at_deletion a = DelActive) demo_scanning = Some a \<and> at_filename a = ''a.png''
      \<and> at_declared a = 100 \<and> at_kind a = KindImage"
  proof -
    have "(case find_attachment 7 ''ann'' (\<lambda>a. at_status a = AtScanning \<and> at_quota a = StReserved
      \<and> at_deletion a = DelActive) demo_scanning of Some a \<Rightarrow> at_filename a = ''a.png''
      \<and> at_declared a = 100 \<and> at_kind a = KindImage | None \<Rightarrow> False)" by code_simp
    then show ?thesis by (auto split: option.splits)
  qed
  then show ?thesis
    using completeVerified_commits[OF demo_storage_inv(3), of _ 7 "''ann''" 100 None] by fastforce
qed

lemma object_key_ok_nonempty: "\<not> object_key_ok prefix []"
  by (simp add: object_key_ok_def)

lemma sha256_ok_nonempty: "\<not> sha256_ok []"
  by (simp add: sha256_ok_def)

lemma parseTarget_ok:
  assumes "attachment_check a" "at_filename a \<noteq> ''''" "at_user a \<noteq> ''''"
  shows "parseTarget (Some a) = Inr (Some a)"
proof -
  have nonempty: "stringValue (Some s) \<noteq> None" if "s \<noteq> ''''" for s
    using that by (cases s) (simp_all add: stringValue_def)
  have "at_mime a \<noteq> ''''" "at_key a \<noteq> ''''" "at_sha256 a \<noteq> ''''"
    using assms(1) object_key_ok_nonempty sha256_ok_nonempty
    unfolding attachment_check_def attachment_mimes_def image_mimes_def by auto
  moreover have "safeInteger (at_declared a) \<noteq> None"
    using assms(1) by (simp add: attachment_check_def safeInteger_def is_safe_integer_def max_safe_integer_def)
  moreover have "safeInteger (public_size a) \<noteq> None"
    using assms(1) by (auto simp: attachment_check_def public_size_def safeInteger_def
        is_safe_integer_def max_safe_integer_def split: option.splits)
  ultimately show ?thesis
    using nonempty assms(2,3) unfolding parseTarget_def parseView_def by simp
qed

lemma release_succeeds:
  assumes "balanced db" "0 \<le> x" "0 \<le> y" "ap_accounts d = ap_accounts db"
  shows "\<exists>d'. update_account u (release_bytes x y) d = Inr d'"
proof (rule update_account_succeeds[OF assms(1) _ assms(4)])
  show "account_check (release_bytes x y a)" if "a \<in> set (ap_accounts db)" for a
    using assms(1-3) that by (auto simp: balanced_def account_check_def)
qed

lemma queue_deletion_job:
  assumes "key \<notin> job_keys db"
  shows "\<exists>j\<in>set (ap_jobs (queue_deletion user ty src key t db)). dj_key j = key \<and> dj_runAt j = t
    \<and> dj_status j = JobQueued"
  using assms by (auto simp: queue_deletion_def job_keys_def new_job_def)

text \<open>
  Deleting an unbound attachment always succeeds, removes its row, gives back exactly
  the bytes it was charged, and its object's deletion job (when none existed) waits until a
  minute after the upload URL has expired if the upload may still be under way.
\<close>

theorem deleteUnbound_releases:
  assumes "storage_inv db" and "at_filename a \<noteq> ''''" and "user \<noteq> ''''"
    and "find_owned i user (\<lambda>a. at_message a = None \<and> at_deletion a = DelActive) db = Some a"
    and "at_key a \<notin> job_keys db"
  shows "\<exists>db'. deleteUnbound i user db = Inr db' \<and> (\<forall>x\<in>set (ap_attachments db'). at_id x \<noteq> i)
    \<and> used user db' = used user db - committed_bytes a \<and> held user db' = held user db - reserved_bytes a
    \<and> (\<exists>j\<in>set (ap_jobs db'). dj_key j = at_key a \<and> dj_status j = JobQueued
        \<and> dj_runAt j = (if at_quota a = StReserved then at_uploadExpiresAt a + 60000 else now db))"
proof -
  note row = find_owned_SomeD[OF assms(4)]
  note chk = attachment_rowD[OF assms(1) conjunct1[OF row]]
  define t where "t = (if at_quota a = StReserved then at_uploadExpiresAt a + 60000 else now db)"
  define db1 where "db1 = queue_deletion user ObjAttachment (at_id a) (at_key a) t db"
  have same: "same_storage db db1" by (simp add: db1_def queue_deletion_same)
  have bal: "balanced db" using assms(1) by (simp add: storage_inv_def)
  have pub: "(if at_quota a = StCommitted then public_size a else 0) = committed_bytes a"
    using chk by (auto simp: attachment_check_def public_size_def committed_bytes_def split: option.splits)
  obtain db2 where acc: "update_account user (release_bytes (committed_bytes a) (reserved_bytes a)) db1 = Inr db2"
    using release_succeeds[OF bal committed_nonneg[of a] reserved_nonneg[of a], of db1 user] chk same
    by (auto simp: same_storage_def simp del: split_paired_Ex)
  note upd = update_account_simps[OF acc]
  have "parseTarget (Some a) = Inr (Some a)"
    using parseTarget_ok[OF _ assms(2)] assms(3) chk row by simp
  then have run: "deleteUnbound i user db = Inr (delete_attachment i user db2)"
    using assms(4) acc by (simp add: deleteUnbound_def Let_def pub flip: t_def db1_def)
  define db' where "db' = delete_attachment i user db2"
  have rows: "ap_attachments db' = filter (\<lambda>x. \<not> (at_id x = i \<and> at_user x = user)) (ap_attachments db)"
    "ap_files db' = ap_files db" "ap_artifacts db' = ap_artifacts db" "ap_jobs db' = ap_jobs db1"
    using same by (simp_all add: db'_def delete_attachment_def upd same_storage_def)
  have own: "owners db' = owners db" by (simp add: owners_def rows)
  have "used user db' = used user db - committed_bytes a" "held user db' = held user db - reserved_bytes a"
    using at_charges_delete[OF storage_invD(4)[OF assms(1)] _ _ _ rows(1), of a user] row
      fl_charges_cong[OF rows(2) own, of user] by (simp_all add: used_def held_def)
  moreover have "at_id x \<noteq> i" if "x \<in> set (ap_attachments db')" for x
    using that row distinct_key_unique[OF storage_invD(4)[OF assms(1)], of x a] by (auto simp: rows)
  moreover have "\<exists>j\<in>set (ap_jobs db'). dj_key j = at_key a \<and> dj_status j = JobQueued \<and> dj_runAt j = t"
    using queue_deletion_job[OF assms(5), of user ObjAttachment "at_id a" t] by (auto simp: rows db1_def)
  ultimately show ?thesis using run unfolding t_def db'_def by blast
qed

theorem deleteUnbound_releases_witness:
  "\<exists>db'. deleteUnbound 7 ''ann'' demo_reserved = Inr db' \<and> held ''ann'' db' = held ''ann'' demo_reserved - 100
    \<and> (\<exists>j\<in>set (ap_jobs db'). dj_runAt j = 62000)"
proof -
  have "(case find_owned 7 ''ann'' (\<lambda>a. at_message a = None \<and> at_deletion a = DelActive) demo_reserved of
      Some a \<Rightarrow> at_filename a \<noteq> '''' \<and> at_key a = ''private/chat-attachments/a'' \<and> reserved_bytes a = 100
        \<and> at_quota a = StReserved \<and> at_uploadExpiresAt a = 2000 | None \<Rightarrow> False)"
    "''private/chat-attachments/a'' \<notin> job_keys demo_reserved" by code_simp+
  then show ?thesis
    using deleteUnbound_releases[OF demo_storage_inv(2), of _ "''ann''" 7]
    by (fastforce split: option.splits)
qed

text \<open>
  Rejecting a scanned upload always succeeds: the reservation is given back, the row
  stays as a released one whose object is queued for deletion at once (even while the
  upload URL is still valid).
\<close>

theorem rejectCompletion_releases:
  assumes "storage_inv db"
    and "find_attachment i user (\<lambda>a. at_status a = AtScanning \<and> at_quota a = StReserved) db = Some a"
    and "at_key a \<notin> job_keys db"
  shows "\<exists>db'. rejectCompletion i user code db = Inr db' \<and> used user db' = used user db
    \<and> held user db' = held user db - at_declared a
    \<and> (\<exists>x\<in>set (ap_attachments db'). at_id x = i \<and> at_quota x = StReleased \<and> at_failureCode x = Some code)
    \<and> (\<exists>j\<in>set (ap_jobs db'). dj_key j = at_key a \<and> dj_runAt j = now db)"
proof -
  note row = find_attachment_SomeD[OF assms(2)]
  note chk = attachment_rowD[OF assms(1) conjunct1[OF row]]
  have bal: "balanced db" using assms(1) by (simp add: storage_inv_def)
  have held: "at_declared a \<le> held user db"
    using charged_row(2)[OF assms(1) conjunct1[OF row]] row by (simp add: reserved_bytes_def)
  have "\<exists>db1. update_account user (move_bytes 0 (- at_declared a)) db = Inr db1"
  proof (rule update_account_succeeds[OF bal _ refl])
    show "account_check (move_bytes 0 (- at_declared a) q)" if "q \<in> set (ap_accounts db)" "sa_user q = user" for q
      using bal that held chk by (auto simp: balanced_def account_check_def attachment_check_def)
  qed
  then obtain db1 where acc: "update_account user (move_bytes 0 (- at_declared a)) db = Inr db1" by blast
  note upd = update_account_simps[OF acc]
  define d where "d = set_attachment i user (reject_attachment code) db1"
  define g where "g = (\<lambda>x. (reject_attachment code x)\<lparr>at_updatedAt := now db\<rparr>)"
  define db' where "db' = queue_deletion user ObjAttachment i (at_key a) (now db) d"
  have run: "rejectCompletion i user code db = Inr db'"
    using assms(2) acc by (simp add: rejectCompletion_def Let_def db'_def d_def)
  have "same_storage d db'" by (simp add: db'_def queue_deletion_same)
  then have rows: "ap_attachments db' = update_where (\<lambda>a. at_id a = i \<and> at_user a = user) g (ap_attachments db)"
    "ap_files db' = ap_files db" "ap_artifacts db' = ap_artifacts db"
    by (simp_all add: same_storage_def d_def set_attachment_rows upd g_def)
  have g: "at_user (g a) = user" "committed_bytes (g a) = 0" "reserved_bytes (g a) = 0"
    "at_id (g a) = i" "at_quota (g a) = StReleased" "at_failureCode (g a) = Some code"
    using row by (simp_all add: g_def reject_attachment_def committed_bytes_def reserved_bytes_def)
  have own: "owners db' = owners db" by (simp add: owners_def rows)
  have "committed_bytes a = 0" "reserved_bytes a = at_declared a"
    using row by (simp_all add: committed_bytes_def reserved_bytes_def)
  then have "used user db' = used user db" "held user db' = held user db - at_declared a"
    using at_charges_update[OF storage_invD(4)[OF assms(1)] _ _ _ rows(1) g(1), of user] row g
      fl_charges_cong[OF rows(2) own, of user] by (simp_all add: used_def held_def)
  moreover have "g a \<in> set (ap_attachments db')"
    using row by (auto simp: rows set_update_where)
  then have "\<exists>x\<in>set (ap_attachments db'). at_id x = i \<and> at_quota x = StReleased \<and> at_failureCode x = Some code"
    using g by blast
  moreover have "at_key a \<notin> job_keys d" using assms(3) by (simp add: job_keys_def d_def set_attachment_rows upd)
  then have "\<exists>j\<in>set (ap_jobs db'). dj_key j = at_key a \<and> dj_runAt j = now db"
    using queue_deletion_job[of "at_key a" d user ObjAttachment i "now db"] by (auto simp: db'_def)
  ultimately show ?thesis using run by blast
qed

theorem rejectCompletion_releases_witness:
  "\<exists>db'. rejectCompletion 7 ''ann'' ''BAD'' demo_scanning = Inr db'
    \<and> held ''ann'' db' = held ''ann'' demo_scanning - 100"
proof -
  have "(case find_attachment 7 ''ann'' (\<lambda>a. at_status a = AtScanning \<and> at_quota a = StReserved) demo_scanning of
      Some a \<Rightarrow> at_key a = ''private/chat-attachments/a'' \<and> at_declared a = 100 | None \<Rightarrow> False)"
    "''private/chat-attachments/a'' \<notin> job_keys demo_scanning" by code_simp+
  then show ?thesis
    using rejectCompletion_releases[OF demo_storage_inv(3), of 7 "''ann''" _ "''BAD''"]
    by (fastforce split: option.splits)
qed

subsection \<open>Binding\<close>

text \<open>
  C20. Binding attachments to a user message is all or nothing: when it succeeds, every
  requested id names a committed, ready and undeleted attachment of the account's
  conversation that was unbound or already bound to this message, all of them are bound to
  it afterwards, no other attachment changes, and the message has at most five.
\<close>

theorem bindToMessage_binds:
  assumes "storage_inv db" and "distinct ids" and "bindToMessage ids conv msg user db = Inr (vs, db')"
  shows "(\<forall>i\<in>set ids. \<exists>a\<in>set (ap_attachments db). at_id a = i \<and> bindable conv user msg a
      \<and> (\<exists>b\<in>set (ap_attachments db'). at_id b = i \<and> at_message b = Some msg))
    \<and> filter (\<lambda>a. at_id a \<notin> set ids) (ap_attachments db') = filter (\<lambda>a. at_id a \<notin> set ids) (ap_attachments db)
    \<and> length (filter (\<lambda>a. at_user a = user \<and> at_conversation a = conv \<and> at_message a = Some msg)
        (ap_attachments db')) \<le> 5"
proof -
  define ready where "ready = (\<lambda>a. at_id a \<in> set ids \<and> bindable conv user msg a)"
  define mine where "mine = (\<lambda>a :: attachment_row. at_id a \<in> set ids \<and> at_user a = user \<and> at_conversation a = conv)"
  define g where "g = (\<lambda>a :: attachment_row. a\<lparr>at_message := Some msg, at_boundAt := (case at_boundAt a of
    None \<Rightarrow> Some (now db) | Some t \<Rightarrow> Some t), at_updatedAt := now db\<rparr>)"
  define on where "on = (\<lambda>a :: attachment_row. at_user a = user \<and> at_conversation a = conv \<and> at_message a = Some msg)"
  define bound where "bound = map at_id (filter on (ap_attachments db))"
  from assms(3) have five: "length (remdups (bound @ ids)) \<le> 5"
    and count: "length (filter ready (ap_attachments db)) = length ids"
    and rows: "ap_attachments db' = update_where mine g (ap_attachments db)"
    unfolding bindToMessage_def Let_def ready_def[symmetric] mine_def[symmetric] g_def[symmetric]
      on_def[symmetric] bound_def[symmetric]
    by (auto simp: bindR_eq_Inr split: if_splits)
  have uniq: "distinct (map at_id (ap_attachments db))" using storage_invD(4)[OF assms(1)] .
  have "set ids \<subseteq> at_id ` set (filter ready (ap_attachments db))"
  proof -
    have "distinct (map at_id (filter ready (ap_attachments db)))" using uniq by (rule distinct_map_filter)
    then have "card (at_id ` set (filter ready (ap_attachments db))) = length ids"
      using count by (metis distinct_card length_map list.set_map)
    moreover have "at_id ` set (filter ready (ap_attachments db)) \<subseteq> set ids" by (auto simp: ready_def)
    ultimately show ?thesis using assms(2) by (metis List.finite_set card_subset_eq distinct_card order_refl)
  qed
  then have found: "\<exists>a\<in>set (ap_attachments db). at_id a = i \<and> ready a" if "i \<in> set ids" for i
    using that by auto
  have 1: "\<exists>a\<in>set (ap_attachments db). at_id a = i \<and> bindable conv user msg a
      \<and> (\<exists>b\<in>set (ap_attachments db'). at_id b = i \<and> at_message b = Some msg)" if "i \<in> set ids" for i
  proof -
    from found[OF that] obtain a where a: "a \<in> set (ap_attachments db)" "at_id a = i" "ready a" by blast
    then have "mine a" by (auto simp: ready_def mine_def bindable_def)
    with a have "g a \<in> set (ap_attachments db')" by (auto simp: rows set_update_where)
    moreover have "at_id (g a) = i" "at_message (g a) = Some msg" using a by (simp_all add: g_def)
    ultimately show ?thesis using a by (auto simp: ready_def)
  qed
  have 2: "filter (\<lambda>a. at_id a \<notin> set ids) (ap_attachments db') = filter (\<lambda>a. at_id a \<notin> set ids) (ap_attachments db)"
    unfolding rows by (rule filter_update_where) (simp add: mine_def g_def)
  have "map at_id (ap_attachments db') = map at_id (ap_attachments db)"
    unfolding rows by (rule map_update_where) (simp add: g_def)
  with uniq have "distinct (map at_id (filter on (ap_attachments db')))"
    by (intro distinct_map_filter) simp
  moreover have "at_id ` set (filter on (ap_attachments db')) \<subseteq> set (bound @ ids)"
    by (auto simp: rows bound_def mine_def g_def elim!: in_update_whereE)
  ultimately have "length (filter on (ap_attachments db')) \<le> card (set (bound @ ids))"
    by (metis List.finite_set card_mono distinct_card length_map list.set_map)
  then have "length (filter on (ap_attachments db')) \<le> 5"
    using five by (simp add: length_remdups_card_conv)
  with 1 2 show ?thesis unfolding on_def by blast
qed

theorem bindToMessage_binds_witness:
  "\<exists>vs db'. bindToMessage [7] 1 3 ''ann'' demo_stored = Inr (vs, db')
    \<and> (\<exists>b\<in>set (ap_attachments db'). at_id b = 7 \<and> at_message b = Some 3)"
proof -
  have "\<not> isl (bindToMessage [7] 1 3 ''ann'' demo_stored)" by code_simp
  then obtain vs db' where run: "bindToMessage [7] 1 3 ''ann'' demo_stored = Inr (vs, db')"
    by (rule not_islE)
  from bindToMessage_binds[OF demo_storage_inv(4) _ run] show ?thesis using run by auto
qed

subsection \<open>Artifacts\<close>

lemma sameFormats_mset: "sameFormats xs ys \<longleftrightarrow> distinct xs \<and> mset xs = mset ys"
proof
  assume a: "sameFormats xs ys"
  then have sub: "set xs \<subseteq> set ys" and d: "distinct xs" and len: "length xs = length ys"
    by (auto simp: sameFormats_def list_all_iff)
  have "card (set ys) \<le> length ys" by (rule card_length)
  also have "\<dots> = card (set xs)" using d len distinct_card by fastforce
  finally have "set xs = set ys" using sub by (simp add: card_seteq)
  moreover from this d len have "distinct ys" by (metis card_distinct distinct_card)
  ultimately show "distinct xs \<and> mset xs = mset ys" using d set_eq_iff_mset_eq_distinct by blast
next
  assume a: "distinct xs \<and> mset xs = mset ys"
  then have "set xs = set ys" "length xs = length ys" by (metis set_mset_mset, metis size_mset)
  with a show "sameFormats xs ys" by (auto simp: sameFormats_def list_all_iff)
qed

text \<open>
  C21. An artifact becomes ready only when it is complete: \<open>completeArtifact\<close> succeeds for a
  generating artifact of an open conversation exactly when its committed files are one per
  format of its specification and nothing else; otherwise it answers 409 and the artifact
  keeps generating.
\<close>

theorem completeArtifact_complete:
  assumes "find_artifact i user (\<lambda>a. af_conversation a = conv \<and> af_status a = ArGenerating
      \<and> af_deletedAt a = None) db = Some a"
    and "owned_conversation conv user db" and "af_formats a \<noteq> []" and "af_title a \<noteq> ''''"
  shows "completeArtifact i user conv db =
    (if distinct (af_formats a) \<and> mset (af_formats a) = mset (map fl_format (filter (\<lambda>f. fl_artifact f = i
          \<and> fl_quota f = StCommitted \<and> fl_deletion f = DelActive \<and> fl_deletedAt f = None) (ap_files db)))
     then Inr (a\<lparr>af_status := ArReady, af_readyAt := Some (now db)\<rparr>,
       set_artifact i user (\<lambda>x. x\<lparr>af_status := ArReady, af_readyAt := Some (now db)\<rparr>) db)
     else Inl (ApiError 409 ''ARTIFACT_INCOMPLETE''))"
proof -
  have "sameFormats fs xs \<longleftrightarrow> distinct xs \<and> mset xs = mset fs" for fs xs
    unfolding sameFormats_mset using mset_eq_imp_distinct_iff by metis
  then show ?thesis
    using assms by (simp add: completeArtifact_def parseArtifact_def Let_def del: mset_map)
qed

definition demo_artifact :: app_db where
  "demo_artifact = demo_app\<lparr>ap_artifacts := [\<lparr>af_id = 5, af_user = ''ann'', af_conversation = 1,
     af_message = Some 4, af_sourceTurn = 2, af_kind = DiagnosisReport, af_title = ''r'',
     af_status = ArGenerating, af_formats = [FmtMd, FmtPdf], af_readyAt = None, af_deletedAt = None,
     af_updatedAt = 0\<rparr>],
   ap_files := map (\<lambda>(i, fmt). \<lparr>fl_id = i, fl_artifact = 5, fl_format = fmt, fl_filename = ''r'',
     fl_mime = ''m'', fl_size = 9, fl_sha256 = demo_hash, fl_key = ''private/chat-artifacts/r'',
     fl_quota = StCommitted, fl_deletion = DelActive, fl_createdAt = 0, fl_deletedAt = None\<rparr>)
     [(8, FmtPdf), (9, FmtMd)]\<rparr>"

theorem completeArtifact_complete_witness:
  "\<exists>a db'. completeArtifact 5 ''ann'' 1 demo_artifact = Inr (a, db') \<and> af_status a = ArReady"
proof -
  have "case find_artifact 5 ''ann'' (\<lambda>a. af_conversation a = 1 \<and> af_status a = ArGenerating
      \<and> af_deletedAt a = None) demo_artifact of Some a \<Rightarrow> af_formats a = [FmtMd, FmtPdf] \<and> af_title a = ''r''
      | None \<Rightarrow> False" by code_simp
  then obtain a where a: "find_artifact 5 ''ann'' (\<lambda>a. af_conversation a = 1 \<and> af_status a = ArGenerating
      \<and> af_deletedAt a = None) demo_artifact = Some a" "af_formats a = [FmtMd, FmtPdf]" "af_title a = ''r''"
    by (auto split: option.splits)
  have own: "owned_conversation 1 ''ann'' demo_artifact" by code_simp
  have formats: "map fl_format (filter (\<lambda>f. fl_artifact f = 5 \<and> fl_quota f = StCommitted
      \<and> fl_deletion f = DelActive \<and> fl_deletedAt f = None) (ap_files demo_artifact)) = [FmtPdf, FmtMd]"
    by (simp add: demo_artifact_def)
  have "af_formats a \<noteq> []" "af_title a \<noteq> ''''" by (simp_all add: a(2,3))
  from completeArtifact_complete[OF a(1) own this] show ?thesis
    unfolding formats a(2) by simp
qed

subsection \<open>Removal and expiry\<close>

lemma expire_orphan_succeeds:
  assumes "storage_inv db" "a \<in> set (ap_attachments db)"
  shows "\<exists>db'. expire_orphan a db = Inr db'"
proof -
  define db1 where "db1 = queue_deletion (at_user a) ObjAttachment (at_id a) (at_key a) (now db) db"
  have "ap_accounts db1 = ap_accounts db"
    using queue_deletion_same[of db] by (simp add: same_storage_def db1_def)
  then have "\<exists>db2. update_account (at_user a) (release_bytes (committed_bytes a) (reserved_bytes a)) db1 = Inr db2"
    using attachment_rowD[OF assms] storage_invD(1)[OF assms(1)]
    by (intro release_succeeds[of db]) (auto simp: committed_nonneg reserved_nonneg)
  then show ?thesis by (auto simp: expire_orphan_def Let_def db1_def)
qed

lemma expire_loop:
  assumes "storage_inv db" "set rows \<subseteq> set (ap_attachments db)" "distinct (map at_id rows)"
  shows "\<exists>db'. foldR expire_orphan rows db = Inr db'
    \<and> ap_attachments db' = filter (\<lambda>x. x \<notin> set rows) (ap_attachments db)"
  using assms
proof (induction rows arbitrary: db)
  case Nil
  then show ?case by simp
next
  case (Cons a rows)
  have a: "a \<in> set (ap_attachments db)" using Cons.prems(2) by simp
  obtain d where d: "expire_orphan a db = Inr d" using expire_orphan_succeeds[OF Cons.prems(1) a] by blast
  note uniq = distinct_key_unique[OF storage_invD(4)[OF Cons.prems(1)]]
  have rows: "ap_attachments d = filter (\<lambda>x. x \<noteq> a) (ap_attachments db)"
    unfolding expire_orphan_rows[OF d] using uniq a by (intro filter_cong refl) auto
  have "storage_inv d" using expire_orphan_inv[OF Cons.prems(1) d a] by simp
  moreover have "set rows \<subseteq> set (ap_attachments d)"
    using Cons.prems(2,3) by (auto simp: rows)
  ultimately obtain d' where "foldR expire_orphan rows d = Inr d'"
    "ap_attachments d' = filter (\<lambda>x. x \<notin> set rows) (ap_attachments d)"
    using Cons.IH[of d] Cons.prems(3) by auto
  with d rows show ?case by (auto intro!: filter_cong)
qed

text \<open>
  C22. The expiry of unbound attachments always succeeds: it removes exactly the selected
  rows, each unbound, undeleted and past its orphan time, at most \<open>n\<close> of them; and when it
  removes fewer than \<open>n\<close>, none that no other transaction holds is left.
\<close>

theorem enqueueExpiredOrphans_exact:
  assumes "storage_inv db" and "0 < n"
  shows "\<exists>k db'. enqueueExpiredOrphans n locked db = Inr (k, db') \<and> k \<le> n
    \<and> length (ap_attachments db') + k = length (ap_attachments db)
    \<and> (\<forall>a\<in>set (ap_attachments db) - set (ap_attachments db').
         at_message a = None \<and> at_deletion a = DelActive \<and> at_orphanExpiresAt a \<le> now db \<and> at_id a \<notin> locked)
    \<and> (k < n \<longrightarrow> (\<forall>a\<in>set (ap_attachments db'). \<not> (at_message a = None \<and> at_deletion a = DelActive
         \<and> at_orphanExpiresAt a \<le> now db \<and> at_id a \<notin> locked)))"
proof -
  define due where "due = (\<lambda>a :: attachment_row. at_message a = None \<and> at_deletion a = DelActive
    \<and> at_orphanExpiresAt a \<le> now db \<and> at_id a \<notin> locked)"
  define rows where "rows = expired_orphans n locked db"
  have rows: "rows = take n (sort_by older (filter due (ap_attachments db)))"
    by (simp add: rows_def expired_orphans_def due_def)
  have sub: "set rows \<subseteq> {a \<in> set (ap_attachments db). due a}"
    unfolding rows using set_take_subset[of n "sort_by older (filter due (ap_attachments db))"] by auto
  have uniq: "distinct (map at_id (ap_attachments db))" using storage_invD(4)[OF assms(1)] .
  have dist: "distinct (map at_id rows)"
    unfolding rows take_map[symmetric] using uniq by (intro distinct_take) (simp add: distinct_map_filter)
  obtain db' where run: "foldR expire_orphan rows db = Inr db'"
    "ap_attachments db' = filter (\<lambda>x. x \<notin> set rows) (ap_attachments db)"
    using expire_loop[OF assms(1) _ dist] sub by blast
  have "length (filter (\<lambda>x. x \<in> set rows) (ap_attachments db)) = length rows"
  proof -
    have "distinct (ap_attachments db)" "distinct rows" using uniq dist by (simp_all add: distinct_map)
    moreover have "set (filter (\<lambda>x. x \<in> set rows) (ap_attachments db)) = set rows" using sub by auto
    ultimately show ?thesis by (metis distinct_card distinct_filter)
  qed
  then have "length (ap_attachments db') + length rows = length (ap_attachments db)"
    using sum_length_filter_compl[of "\<lambda>x. x \<in> set rows" "ap_attachments db"] run(2) by simp
  moreover have "\<not> due a" if "length rows < n" "a \<in> set (ap_attachments db')" for a
  proof -
    from that(1) have "rows = sort_by older (filter due (ap_attachments db))" unfolding rows by simp
    then have "set rows = {a \<in> set (ap_attachments db). due a}" by simp
    then show ?thesis using that(2) by (auto simp: run(2))
  qed
  moreover have "length rows \<le> n" by (simp add: rows)
  moreover have "enqueueExpiredOrphans n locked db = Inr (length rows, db')"
    using run(1) assms(2) by (simp add: enqueueExpiredOrphans_def Let_def rows_def)
  moreover have "due a" if "a \<in> set (ap_attachments db) - set (ap_attachments db')" for a
    using that sub by (auto simp: run(2))
  ultimately show ?thesis unfolding due_def by blast
qed

definition demo_later :: app_db where
  "demo_later = demo_stored\<lparr>ap_quota := (ap_quota demo_stored)\<lparr>q_now := 9000\<rparr>\<rparr>"

theorem enqueueExpiredOrphans_exact_witness:
  "\<exists>db'. enqueueExpiredOrphans 10 {} demo_later = Inr (1, db') \<and> ap_attachments db' = []"
proof -
  have inv: "storage_inv demo_later"
    using demo_storage_inv(4) unfolding demo_later_def storage_inv_def balanced_def attachments_wf_def
      files_wf_def used_def held_def at_used_def at_held_def fl_used_def fl_held_def has_account_def
      file_owner_def by simp
  have len: "length (ap_attachments demo_later) = 1" by code_simp
  have "case ap_attachments demo_later of [a] \<Rightarrow> at_message a = None \<and> at_deletion a = DelActive
      \<and> at_orphanExpiresAt a \<le> now demo_later | _ \<Rightarrow> False" by code_simp
  then obtain a where a: "ap_attachments demo_later = [a]" "at_message a = None" "at_deletion a = DelActive"
    "at_orphanExpiresAt a \<le> now demo_later" by (auto split: list.splits)
  from enqueueExpiredOrphans_exact[OF inv, of 10 "{}"] obtain k db' where
    k: "enqueueExpiredOrphans 10 {} demo_later = Inr (k, db')"
    "length (ap_attachments db') + k = length (ap_attachments demo_later)"
    "k < 10 \<longrightarrow> (\<forall>a\<in>set (ap_attachments db'). \<not> (at_message a = None \<and> at_deletion a = DelActive
       \<and> at_orphanExpiresAt a \<le> now demo_later \<and> at_id a \<notin> {}))"
    "\<forall>a\<in>set (ap_attachments demo_later) - set (ap_attachments db'). at_message a = None" by auto
  have "ap_attachments db' = []"
  proof (rule ccontr)
    assume "ap_attachments db' \<noteq> []"
    then have "k = 0" using k(2) len by (cases "ap_attachments db'") auto
    moreover from this k(1) have "expired_orphans 10 {} demo_later = []"
      by (auto simp: enqueueExpiredOrphans_def Let_def bindR_eq_Inr)
    ultimately show False using a by (simp add: expired_orphans_def)
  qed
  with k(1,2) len show ?thesis by simp
qed

text \<open>
  C23. Removing a conversation's storage with its metadata always succeeds: exactly the
  account's attachments and artifacts in the named conversations (all of them when none is
  named) are gone, the accounts' books balance again, and every object of a removed row has
  a deletion job.
\<close>

theorem conversation_storage_removed:
  assumes "storage_inv db"
  shows "\<exists>s db'. enqueueConversationStorageDeletion user convs True db = Inr (s, db') \<and> storage_inv db'
    \<and> ap_attachments db' = filter (\<lambda>a. \<not> (at_user a = user \<and> in_scope convs (at_conversation a))) (ap_attachments db)
    \<and> (\<forall>a\<in>set (ap_artifacts db'). \<not> (af_user a = user \<and> in_scope convs (af_conversation a)))
    \<and> object_keys db \<subseteq> object_keys db' \<union> job_keys db'"
proof -
  define P where "P = (\<lambda>a :: attachment_row. at_user a = user \<and> in_scope convs (at_conversation a))"
  define ats where "ats = filter P (ap_attachments db)"
  define Q where "Q = (\<lambda>a :: artifact_row. af_user a = user \<and> in_scope convs (af_conversation a))"
  define arts where "arts = filter Q (ap_artifacts db)"
  define fs where "fs = filter (\<lambda>f. fl_artifact f \<in> af_id ` set arts) (ap_files db)"
  define d1 where "d1 = foldl (\<lambda>d a. queue_deletion user ObjAttachment (at_id a) (at_key a)
    (if at_quota a = StReserved then at_uploadExpiresAt a + 60000 else now db) d) db ats"
  define d2 where "d2 = foldl (\<lambda>d f. queue_deletion user ObjArtifact (fl_id f) (fl_key f)
    (if fl_quota f = StReserved then fl_createdAt f + 60 * 60000 else now db) d) d1 fs"
  define c where "c = sum_list (map committed_bytes ats) + sum_list (map file_committed fs)"
  define r where "r = sum_list (map reserved_bytes ats) + sum_list (map file_reserved fs)"
  have "same_storage db d1" unfolding d1_def by (rule conjunct1[OF queue_list_facts])
  moreover have "same_storage d1 d2" unfolding d2_def by (rule conjunct1[OF queue_list_facts])
  ultimately have same: "same_storage db d2" by (rule same_storage_trans)
  then have tabs: "ap_attachments d2 = ap_attachments db" "ap_artifacts d2 = ap_artifacts db"
    "ap_accounts d2 = ap_accounts db" by (simp_all add: same_storage_def)
  have nonneg: "0 \<le> c" "0 \<le> r"
    using attachment_rowD[OF assms] committed_nonneg reserved_nonneg
      sum_file_nonneg[OF assms, of "\<lambda>f. fl_artifact f \<in> af_id ` set arts"]
    by (auto simp: c_def r_def ats_def fs_def intro!: add_nonneg_nonneg sum_list_nonneg)
  obtain d3 where d3: "update_account user (release_bytes c r) d2 = Inr d3"
    using release_succeeds[OF storage_invD(1)[OF assms] nonneg tabs(3)] by blast
  note upd = update_account_simps[OF d3]
  define out where "out = (if ats = [] \<and> arts = [] \<and> fs = [] then d2
    else drop_storage (at_id ` set ats) (af_id ` set arts) d3)"
  have "\<exists>s. enqueueConversationStorageDeletion user convs True db = Inr (s, out)"
    unfolding enqueueConversationStorageDeletion_def Let_def P_def[symmetric] ats_def[symmetric]
      Q_def[symmetric] arts_def[symmetric] fs_def[symmetric] d1_def[symmetric] d2_def[symmetric]
      c_def[symmetric] r_def[symmetric]
    unfolding d3 out_def by (simp del: empty_iff)
  then obtain s where run: "enqueueConversationStorageDeletion user convs True db = Inr (s, out)" by blast
  have "at_id a \<in> at_id ` set ats \<longleftrightarrow> P a" if "a \<in> set (ap_attachments db)" for a
    using that distinct_key_unique[OF storage_invD(4)[OF assms]] by (auto simp: ats_def)
  then have 1: "ap_attachments out = filter (\<lambda>a. \<not> P a) (ap_attachments db)"
    by (auto simp: out_def drop_storage_def upd tabs ats_def filter_empty_conv intro!: filter_cong filter_True[symmetric])
  have 2: "\<not> Q a" if "a \<in> set (ap_artifacts out)" for a
    using that by (auto simp: out_def drop_storage_def upd tabs arts_def filter_empty_conv split: if_splits)
  show ?thesis
    using run 1 2 enqueueConversationStorageDeletion_inv[OF assms run]
    unfolding P_def Q_def no_object_lost_def by blast
qed

theorem conversation_storage_removed_witness:
  "\<exists>s db'. enqueueConversationStorageDeletion ''ann'' (Some [1]) True demo_stored = Inr (s, db')
    \<and> ap_attachments db' = [] \<and> ''private/chat-attachments/a'' \<in> object_keys db' \<union> job_keys db'"
proof -
  have key: "''private/chat-attachments/a'' \<in> object_keys demo_stored" by code_simp
  have none: "filter (\<lambda>a. \<not> (at_user a = ''ann'' \<and> in_scope (Some [1]) (at_conversation a)))
      (ap_attachments demo_stored) = []" by code_simp
  from conversation_storage_removed[OF demo_storage_inv(4), of "''ann''" "Some [1]"]
  obtain s db' where "enqueueConversationStorageDeletion ''ann'' (Some [1]) True demo_stored = Inr (s, db')"
    "ap_attachments db' = []" "object_keys demo_stored \<subseteq> object_keys db' \<union> job_keys db'"
    unfolding none by blast
  then show ?thesis using key by blast
qed

end
