(* ===== verification/Chunk_Properties.thy ===== *)
theory Chunk_Properties
  imports Text_Chunks
begin

section \<open>Properties of the chunking\<close>

text \<open>
  The chunks are exact slices of the tx, cover every character that is not white space,
  stay within the size and count limits, and tx within the upload limit never exceeds
  the count; the rows a CSV chunk names.
\<close>

subsection \<open>The windows\<close>

definition span_ok :: "js_string \<Rightarrow> span \<Rightarrow> bool" where
  "span_ok tx c \<longleftrightarrow> sn_content c = js_slice tx (sn_start c) (sn_end c) \<and> sn_start c < sn_end c
     \<and> sn_end c \<le> length tx \<and> length (sn_content c) \<le> max_chunk_characters
     \<and> \<not> js_white (hd (sn_content c)) \<and> \<not> js_white (last (sn_content c))"

lemma window_ok:
  assumes "c \<in> set (window_chunk tx start)" and "start < length tx"
  shows "span_ok tx c"
proof -
  define raw where "raw = js_slice tx start (start + max_chunk_characters)"
  define lead where "lead = length raw - length (trimStart raw)"
  from assms have ne: "js_trim raw \<noteq> []" and c: "c = \<lparr>sn_content = js_trim raw, sn_start = start + lead,
      sn_end = start + lead + length (js_trim raw)\<rparr>"
    by (auto simp: window_chunk_def Let_def raw_def lead_def split: if_splits)
  have len: "length raw \<le> max_chunk_characters" "start + length raw \<le> length tx"
    using assms(2) by (auto simp: raw_def js_slice_def)
  note span = trim_span[where s = raw, folded lead_def]
  have "js_trim raw = take (length (js_trim raw)) (drop lead raw)" by (rule span(1))
  also have "\<dots> = take (length (js_trim raw)) (drop (start + lead) tx)"
    using span(2) len by (simp add: raw_def js_slice_def drop_take min_def add.commute)
  finally show ?thesis
    using ne js_trim_ends[OF ne] span(2) len by (simp add: span_ok_def c js_slice_def)
qed

lemma window_covers:
  assumes "start \<le> k" "k < start + max_chunk_characters" "k < length tx" "\<not> js_white (tx ! k)"
  shows "\<exists>c\<in>set (window_chunk tx start). sn_start c \<le> k \<and> k < sn_end c"
proof -
  define raw where "raw = js_slice tx start (start + max_chunk_characters)"
  define lead where "lead = length raw - length (trimStart raw)"
  have i: "k - start < length raw" "raw ! (k - start) = tx ! k"
    using assms by (auto simp: raw_def js_slice_def)
  have in_span: "lead \<le> k - start \<and> k - start < lead + length (js_trim raw)"
    using trim_span(3)[OF i(1), folded lead_def] i(2) assms(4) by simp
  then have "js_trim raw \<noteq> []" by auto
  with in_span assms(1) show ?thesis
    by (auto simp: window_chunk_def Let_def raw_def[symmetric] lead_def[symmetric])
qed

lemma window_chunk_one: "length (window_chunk tx start) \<le> 1"
  by (auto simp: window_chunk_def Let_def)

lemma chunk_loop_spans:
  assumes "chunk_loop tx start chunks = Inr cs"
  shows "\<exists>more. cs = chunks @ more \<and> (\<forall>c\<in>set more. span_ok tx c)
    \<and> (\<forall>k. start \<le> k \<longrightarrow> k < length tx \<longrightarrow> \<not> js_white (tx ! k) \<longrightarrow>
         (\<exists>c\<in>set more. sn_start c \<le> k \<and> k < sn_end c))"
  using assms
proof (induction tx start chunks arbitrary: cs rule: chunk_loop.induct)
  case (1 tx start chunks)
  show ?case
  proof (cases "start < length tx")
    case False
    with 1(2) show ?thesis by (subst (asm) chunk_loop.simps) auto
  next
    case True
    define m where "m = window_chunk tx start"
    have m: "\<And>c. c \<in> set m \<Longrightarrow> span_ok tx c" using window_ok[OF _ True] by (simp add: m_def)
    from 1(2) True have ok: "(if m = [] then Inr () else assertChunkLimit (chunks @ m)) = Inr ()"
      and rest: "(if length tx \<le> start + max_chunk_characters then Inr (chunks @ m)
        else chunk_loop tx (start + (max_chunk_characters - chunk_overlap_characters)) (chunks @ m)) = Inr cs"
      by (subst (asm) chunk_loop.simps, auto simp: Let_def m_def[symmetric] bindR_eq_Inr)+
    have here: "\<exists>c\<in>set m. sn_start c \<le> k \<and> k < sn_end c"
      if "start \<le> k" "k < start + max_chunk_characters" "k < length tx" "\<not> js_white (tx ! k)" for k
      using window_covers[OF that] by (simp add: m_def)
    show ?thesis
    proof (cases "length tx \<le> start + max_chunk_characters")
      case True
      with rest have cs: "cs = chunks @ m" by simp
      have "\<exists>c\<in>set m. sn_start c \<le> k \<and> k < sn_end c"
        if "start \<le> k" "k < length tx" "\<not> js_white (tx ! k)" for k
        using here that True by simp
      with cs m show ?thesis by (intro exI[of _ m]) blast
    next
      case False
      define nxt where "nxt = start + (max_chunk_characters - chunk_overlap_characters)"
      from rest False have "chunk_loop tx nxt (chunks @ m) = Inr cs" by (simp add: nxt_def)
      from 1(1)[OF True m_def refl False this[unfolded nxt_def]]
      obtain more where more: "cs = (chunks @ m) @ more" "\<forall>c\<in>set more. span_ok tx c"
        "\<forall>k. nxt \<le> k \<longrightarrow> k < length tx \<longrightarrow> \<not> js_white (tx ! k) \<longrightarrow>
           (\<exists>c\<in>set more. sn_start c \<le> k \<and> k < sn_end c)" unfolding nxt_def by blast
      have "\<exists>c\<in>set (m @ more). sn_start c \<le> k \<and> k < sn_end c"
        if k: "start \<le> k" "k < length tx" "\<not> js_white (tx ! k)" for k
      proof (cases "nxt \<le> k")
        case True
        with more(3) k show ?thesis by auto
      next
        case False
        then have "k < start + max_chunk_characters"
          by (simp add: nxt_def max_chunk_characters_def chunk_overlap_characters_def)
        with here k show ?thesis by auto
      qed
      with more m show ?thesis by (intro exI[of _ "m @ more"]) auto
    qed
  qed
qed

lemma chunk_loop_total:
  assumes "length tx \<le> start + (max_chunks - length chunks) * (max_chunk_characters - chunk_overlap_characters)"
    and "length chunks \<le> max_chunks"
  shows "\<exists>cs. chunk_loop tx start chunks = Inr cs \<and> length cs \<le> max_chunks"
  using assms
proof (induction tx start chunks rule: chunk_loop.induct)
  case (1 tx start chunks)
  show ?case
  proof (cases "start < length tx")
    case False
    then show ?thesis using 1(3) by (subst chunk_loop.simps) auto
  next
    case True
    define m where "m = window_chunk tx start"
    have one: "length m \<le> 1" unfolding m_def by (rule window_chunk_one)
    from True 1(2) have room: "length chunks < max_chunks" by (cases "max_chunks - length chunks") auto
    then have fits: "length (chunks @ m) \<le> max_chunks" using one by simp
    then have ok: "(if m = [] then Inr () else assertChunkLimit (chunks @ m)) = Inr ()"
      by (simp add: assertChunkLimit_def)
    show ?thesis
    proof (cases "length tx \<le> start + max_chunk_characters")
      case True
      then show ?thesis using \<open>start < length tx\<close> ok fits
        by (subst chunk_loop.simps) (simp add: Let_def m_def[symmetric])
    next
      case False
      define n where "n = max_chunks - length (chunks @ m)"
      have "max_chunks - length chunks \<le> Suc n" using one by (simp add: n_def)
      then have "(max_chunks - length chunks) * 7800 \<le> Suc n * 7800" by (rule mult_le_mono1)
      then have "length tx \<le> (start + (max_chunk_characters - chunk_overlap_characters))
          + n * (max_chunk_characters - chunk_overlap_characters)"
        using 1(2) by (simp add: max_chunk_characters_def chunk_overlap_characters_def)
      from 1(1)[OF True m_def refl False this[unfolded n_def] fits] show ?thesis
        using True ok False by (subst chunk_loop.simps) (simp add: Let_def m_def[symmetric])
    qed
  qed
qed

subsection \<open>Text\<close>

text \<open>
  C24. The chunks of a text are faithful: each is an exact slice of the text at the offsets
  it names, not empty, at most 8000 code units long and without white space at its ends, and
  every character of the text that is not white space lies in some chunk.
\<close>

lemma chunkText_covers_all:
  assumes "chunkText tx = Inr cs"
  shows "(\<forall>c\<in>set cs. span_ok tx c)
    \<and> (\<forall>k<length tx. \<not> js_white (tx ! k) \<longrightarrow> (\<exists>c\<in>set cs. sn_start c \<le> k \<and> k < sn_end c))"
  using chunk_loop_spans[OF assms[unfolded chunkText_def]] by auto

theorem chunkText_covers:
  assumes "chunkText tx = Inr cs"
  shows "(\<forall>c\<in>set cs. span_ok tx c)
    \<and> (\<forall>k<length tx. \<not> js_white (tx ! k) \<longrightarrow> (\<exists>c\<in>set cs. sn_start c \<le> k \<and> k < sn_end c))"
  using chunkText_covers_all[OF assms] .

theorem chunkText_covers_witness:
  "\<exists>c. chunkText [32, 97, 98, 10] = Inr [c] \<and> sn_content c = [97, 98] \<and> span_ok [32, 97, 98, 10] c"
proof -
  have run: "chunkText [32, 97, 98, 10] = Inr [\<lparr>sn_content = [97, 98], sn_start = 1, sn_end = 3\<rparr>]"
    unfolding chunkText_def by (subst chunk_loop.simps)
      (simp add: window_chunk_def js_slice_def js_trim_def trimStart_def js_white_def
        max_chunk_characters_def assertChunkLimit_def max_chunks_def)
  from chunkText_covers[OF run] run show ?thesis by simp
qed

lemma code_units_length: "length (code_units p) \<le> 2"
  by (simp add: code_units_def)

lemma decode_step:
  assumes "utf8_units (a # bs) = Some s" "\<not> a < 128"
  shows "\<exists>pre p r. bs = pre @ r \<and> pre \<noteq> [] \<and> map_option ((@) (code_units p)) (utf8_units r) = Some s"
proof -
  have one: ?thesis if "bs = b # r" "map_option ((@) (code_units p)) (utf8_units r) = Some s" for b r p
    using that by (intro exI[of _ "[b]"] exI[of _ p] exI[of _ r]) simp
  have two: ?thesis if "bs = b # c # r" "map_option ((@) (code_units p)) (utf8_units r) = Some s" for b c r p
    using that by (intro exI[of _ "[b, c]"] exI[of _ p] exI[of _ r]) simp
  have three: ?thesis if "bs = b # c # d # r" "map_option ((@) (code_units p)) (utf8_units r) = Some s" for b c d r p
    using that by (intro exI[of _ "[b, c, d]"] exI[of _ p] exI[of _ r]) simp
  note run = assms(1)[unfolded utf8_units.simps(2)[of a bs] if_not_P[OF assms(2)]]
  consider "194 \<le> a \<and> a \<le> 223" | "224 \<le> a \<and> a \<le> 239" | "240 \<le> a \<and> a \<le> 244"
    using run by (auto simp del: utf8_units.simps split: if_split_asm)
  then show ?thesis
  proof cases
    case 1
    with run obtain b r where "bs = b # r"
      "map_option ((@) (code_units ((a - 192) * 64 + (b - 128)))) (utf8_units r) = Some s"
      by (auto simp del: utf8_units.simps split: list.split_asm if_split_asm)
    then show ?thesis by (rule one)
  next
    case 2
    then have "\<not> (194 \<le> a \<and> a \<le> 223)" by simp
    with 2 run obtain b c r where "bs = b # c # r"
      "map_option ((@) (code_units ((a - 224) * 4096 + (b - 128) * 64 + (c - 128)))) (utf8_units r) = Some s"
      by (auto simp del: utf8_units.simps split: list.split_asm if_split_asm)
    then show ?thesis by (rule two)
  next
    case 3
    then have "\<not> (194 \<le> a \<and> a \<le> 223)" "\<not> (224 \<le> a \<and> a \<le> 239)" by simp_all
    with 3 run obtain b c d r where "bs = b # c # d # r" "map_option ((@) (code_units
        ((a - 240) * 262144 + (b - 128) * 4096 + (c - 128) * 64 + (d - 128)))) (utf8_units r) = Some s"
      by (auto simp del: utf8_units.simps split: list.split_asm if_split_asm)
    then show ?thesis by (rule three)
  qed
qed

lemma utf8_units_length: "utf8_units bytes = Some s \<Longrightarrow> length s \<le> length bytes"
proof (induction bytes arbitrary: s rule: length_induct)
  case (1 bytes)
  have step: "length s \<le> length r + m"
    if "map_option ((@) (code_units p)) (utf8_units r) = Some s" "length r < length bytes" "2 \<le> m"
    for p r and m :: nat
  proof -
    from that(1) obtain t where t: "utf8_units r = Some t" "s = code_units p @ t" by auto
    with 1(1) that(2) have "length t \<le> length r" by blast
    with t(2) that(3) code_units_length[of p] show ?thesis by simp
  qed
  show ?case
  proof (cases bytes)
    case Nil
    with 1(2) show ?thesis by simp
  next
    case (Cons a bs)
    show ?thesis
    proof (cases "a < 128")
      case True
      with 1(2) Cons obtain t where t: "utf8_units bs = Some t" "s = a # t" by auto
      with 1(1) Cons show ?thesis by auto
    next
      case False
      with 1(2) Cons obtain pre p r where
        "bs = pre @ r \<and> pre \<noteq> [] \<and> map_option ((@) (code_units p)) (utf8_units r) = Some s"
        using decode_step[OF _ False, of bs s] by auto
      then show ?thesis using step[of p r 2] Cons by (cases pre) auto
    qed
  qed
qed

lemma decodeUtf8_length: "decodeUtf8 bytes = Some s \<Longrightarrow> length s \<le> length bytes"
  unfolding decodeUtf8_def by (drule utf8_units_length) (auto split: if_splits)

lemma chunk_loop_nonempty:
  assumes "chunkText tx = Inr cs" "js_trim tx \<noteq> []"
  shows "cs \<noteq> []"
proof -
  from assms(2) obtain k where "k < length tx" "\<not> js_white (tx ! k)"
    by (auto simp: js_trim_Nil in_set_conv_nth)
  with chunk_loop_spans[OF assms(1)[unfolded chunkText_def]] show ?thesis by auto
qed

text \<open>
  C25. A plain or Markdown attachment within the upload limit of 25 MiB never fails for its
  size: when its bytes are valid UTF-8 with some text and no NUL character, chunking succeeds
  with at least one and at most 4096 pieces, numbered from zero in order.
\<close>

theorem local_text_total:
  assumes "decodeUtf8 bytes = Some tx" and "js_trim tx \<noteq> []" and "0 \<notin> set tx"
    and "length bytes \<le> 26214400" and "mime \<noteq> ''text/csv''"
  shows "\<exists>ps. chunksForLocalText sha mime bytes = Inr ps \<and> 1 \<le> length ps \<and> length ps \<le> 4096
    \<and> map pc_ordinal ps = [0..<length ps] \<and> (\<forall>p\<in>set ps. pc_hash p = sha (pc_content p))"
proof -
  have "length tx \<le> 26214400" using decodeUtf8_length[OF assms(1)] assms(4) by simp
  then obtain cs where cs: "chunkText tx = Inr cs" "length cs \<le> max_chunks"
    using chunk_loop_total[of tx 0 "[]"]
    by (auto simp: chunkText_def max_chunks_def max_chunk_characters_def chunk_overlap_characters_def)
  moreover have "cs \<noteq> []" using chunk_loop_nonempty[OF cs(1) assms(2)] .
  moreover have num: "length (number_pieces sha loc cs) = length cs"
    "map pc_ordinal (number_pieces sha loc cs) = [0..<length cs]"
    "\<forall>p\<in>set (number_pieces sha loc cs). pc_hash p = sha (pc_content p)" for loc
    by (auto simp: number_pieces_def comp_def case_prod_beta map_fst_enumerate[unfolded comp_def])
  define loc where "loc = (\<lambda>c :: span. (if mime = ''text/markdown'' then LocMarkdown else LocText)
    (lineNumberAt tx (sn_start c)) (lineNumberAt tx (sn_end c)))"
  have "chunksForLocalText sha mime bytes = Inr (number_pieces sha loc cs)"
    using assms cs(1) by (simp add: chunksForLocalText_def loc_def)
  ultimately show ?thesis
    using num[of loc] by (auto simp: max_chunks_def Suc_le_eq)
qed

theorem local_text_total_witness:
  "\<exists>ps. chunksForLocalText (\<lambda>_. ''h'') ''text/plain'' [104, 105] = Inr ps \<and> 1 \<le> length ps"
proof -
  have tx: "decodeUtf8 [104, 105] = Some [104, 105]" "js_trim [104, 105] \<noteq> []" "0 \<notin> set [104, 105 :: nat]"
    by (simp_all add: decodeUtf8_def js_trim_def trimStart_def js_white_def)
  have "length [104, 105 :: nat] \<le> 26214400" "''text/plain'' \<noteq> ''text/csv''" by simp_all
  from local_text_total[OF tx this, of "\<lambda>_. ''h''"] show ?thesis by blast
qed

subsection \<open>CSV rows\<close>

definition rows_of :: "js_string list \<Rightarrow> nat \<Rightarrow> nat \<Rightarrow> js_string list" where
  "rows_of ls a b = take (b - (a - 1)) (drop (a - 1) ls)"

text \<open>What a piece says about the rows (counted from 1) it holds.\<close>

definition csv_piece_ok :: "js_string list \<Rightarrow> attachment_piece \<Rightarrow> bool" where
  "csv_piece_ok ls p \<longleftrightarrow> (case pc_locator p of
     LocCsvRows a b \<Rightarrow> 1 \<le> a \<and> a \<le> b \<and> b \<le> length ls \<and> pc_content p = js_trim (join_lines (rows_of ls a b))
   | LocCsvRow r \<Rightarrow> 1 \<le> r \<and> r \<le> length ls \<and> max_chunk_characters < length (ls ! (r - 1))
       \<and> (\<exists>c. span_ok (ls ! (r - 1)) c \<and> pc_content p = sn_content c)
   | _ \<Rightarrow> False)"

definition names_row :: "attachment_piece \<Rightarrow> nat \<Rightarrow> bool" where
  "names_row p r \<longleftrightarrow> (case pc_locator p of LocCsvRows a b \<Rightarrow> a \<le> r \<and> r \<le> b | LocCsvRow q \<Rightarrow> r = q | _ \<Rightarrow> False)"

definition csv_ok :: "js_string list \<Rightarrow> csv_state \<Rightarrow> bool" where
  "csv_ok ls st \<longleftrightarrow> 1 \<le> cs_rowStart st \<and> cs_rowStart st + length (cs_buffer st) = length ls + 1
     \<and> cs_buffer st = drop (cs_rowStart st - 1) ls
     \<and> (\<forall>p\<in>set (cs_chunks st). csv_piece_ok ls p)
     \<and> (\<forall>r. 1 \<le> r \<longrightarrow> r < cs_rowStart st \<longrightarrow> (\<exists>p\<in>set (cs_chunks st). names_row p r))"

lemma csv_piece_ok_append: "csv_piece_ok ls p \<Longrightarrow> csv_piece_ok (ls @ ms) p"
  by (auto simp: csv_piece_ok_def rows_of_def nth_append split: locator.splits)

lemma set_join_lines: "l \<in> set ls \<Longrightarrow> set l \<subseteq> set (join_lines ls)"
  by (induction ls rule: join_lines.induct) auto

lemma join_nonblank: "l \<in> set ls \<Longrightarrow> js_trim l \<noteq> [] \<Longrightarrow> js_trim (join_lines ls) \<noteq> []"
  using set_join_lines[of l ls] by (auto simp: js_trim_Nil)

lemma csv_flush_ok:
  assumes "csv_ok ls st" "cs_buffer st \<noteq> []" "\<forall>l\<in>set ls. js_trim l \<noteq> []" "csv_flush sha st = Inr st'"
  shows "csv_ok ls st' \<and> cs_buffer st' = [] \<and> cs_rowStart st' = length ls + 1"
proof -
  define a where "a = cs_rowStart st"
  from assms(1) have a: "1 \<le> a" "a + length (cs_buffer st) = length ls + 1" "cs_buffer st = drop (a - 1) ls"
    by (simp_all add: csv_ok_def a_def)
  obtain l where "l \<in> set (cs_buffer st)" using assms(2) by (cases "cs_buffer st") auto
  moreover from this have "l \<in> set ls" using a(3) by (auto dest: in_set_dropD)
  ultimately have ne: "js_trim (join_lines (cs_buffer st)) \<noteq> []" using assms(3) join_nonblank by blast
  define p where "p = \<lparr>pc_ordinal = length (cs_chunks st), pc_content = js_trim (join_lines (cs_buffer st)),
    pc_hash = sha (js_trim (join_lines (cs_buffer st))),
    pc_locator = LocCsvRows a (a + length (cs_buffer st) - 1), pc_job = None\<rparr>"
  from assms(4) ne have st': "st' = \<lparr>cs_chunks = cs_chunks st @ [p], cs_rowStart = a + length (cs_buffer st),
      cs_buffer = []\<rparr>"
    by (auto simp: csv_flush_def Let_def bindR_eq_Inr p_def a_def)
  have len: "length ls - (a - 1) = length (cs_buffer st)" using a by simp
  have "csv_piece_ok ls p"
    using a assms(2) len by (cases "cs_buffer st") (simp_all add: csv_piece_ok_def p_def rows_of_def)
  moreover have "names_row p r" if "a \<le> r" "r < a + length (cs_buffer st)" for r
    using that by (auto simp: names_row_def p_def)
  ultimately show ?thesis
    using assms(1) a by (auto simp: csv_ok_def st' a_def)
qed

lemma flush_if:
  assumes "csv_ok ls st" "\<forall>l\<in>set ls. js_trim l \<noteq> []"
    and "(if cs_buffer st \<noteq> [] then csv_flush sha st else Inr st) = Inr st'"
  shows "csv_ok ls st' \<and> cs_buffer st' = [] \<and> cs_rowStart st' = length ls + 1"
proof (cases "cs_buffer st = []")
  case True
  with assms(1,3) show ?thesis by (simp add: csv_ok_def)
next
  case False
  with assms(3) have "csv_flush sha st = Inr st'" by simp
  with False show ?thesis by (intro csv_flush_ok[OF assms(1) _ assms(2)])
qed

lemma csv_parts_ok:
  assumes "foldR (csv_part sha) parts st = Inr st'" "\<forall>c\<in>set parts. span_ok l c"
  shows "cs_rowStart st' = cs_rowStart st \<and> cs_buffer st' = cs_buffer st
    \<and> (\<exists>ps. cs_chunks st' = cs_chunks st @ ps \<and> length ps = length parts
      \<and> (\<forall>p\<in>set ps. pc_locator p = LocCsvRow (cs_rowStart st) \<and> (\<exists>c. span_ok l c \<and> pc_content p = sn_content c)))"
  using assms
proof (induction parts arbitrary: st)
  case Nil
  then show ?case by simp
next
  case (Cons c parts)
  from Cons.prems(1) obtain s where s: "csv_part sha c st = Inr s" and rest: "foldR (csv_part sha) parts s = Inr st'"
    by (auto simp: bindR_eq_Inr)
  then obtain p where p: "s = st\<lparr>cs_chunks := cs_chunks st @ [p]\<rparr>" "pc_locator p = LocCsvRow (cs_rowStart st)"
    "pc_content p = sn_content c"
    by (auto simp: csv_part_def Let_def bindR_eq_Inr)
  from Cons.IH[OF rest] Cons.prems(2) obtain ps where
    "cs_rowStart st' = cs_rowStart s" "cs_buffer st' = cs_buffer s" "cs_chunks st' = cs_chunks s @ ps"
    "length ps = length parts"
    "\<forall>p\<in>set ps. pc_locator p = LocCsvRow (cs_rowStart s) \<and> (\<exists>c. span_ok l c \<and> pc_content p = sn_content c)" by auto
  with p Cons.prems(2) show ?case by (auto intro!: exI[of _ "p # ps"])
qed

lemma csv_line_ok:
  assumes ok: "csv_ok ls st" and nb: "\<forall>l\<in>set ls. js_trim l \<noteq> []" "js_trim line \<noteq> []"
    and run: "csv_line sha line st = Inr st'"
  shows "csv_ok (ls @ [line]) st'"
proof -
  from run obtain st1 where one: "(if cs_buffer st \<noteq> [] \<and> max_chunk_characters < length (join_lines (cs_buffer st @ [line]))
      then csv_flush sha st else Inr st) = Inr st1"
    and rest: "(if max_chunk_characters < length line then
       bindR (if cs_buffer st1 \<noteq> [] then csv_flush sha st1 else Inr st1) (\<lambda>st2.
       bindR (chunkText line) (\<lambda>parts. bindR (foldR (csv_part sha) parts st2) (\<lambda>st3.
         Inr (st3\<lparr>cs_rowStart := cs_rowStart st3 + 1\<rparr>))))
     else Inr (st1\<lparr>cs_buffer := cs_buffer st1 @ [line]\<rparr>)) = Inr st'"
    unfolding csv_line_def by (rule bindR_InrE)
  have ok1: "csv_ok ls st1" using one csv_flush_ok[OF ok _ nb(1)] ok by (auto split: if_splits)
  show ?thesis
  proof (cases "max_chunk_characters < length line")
    case False
    with rest have "st' = st1\<lparr>cs_buffer := cs_buffer st1 @ [line]\<rparr>" by simp
    with ok1 show ?thesis by (auto simp: csv_ok_def csv_piece_ok_append)
  next
    case True
    with rest have "bindR (if cs_buffer st1 \<noteq> [] then csv_flush sha st1 else Inr st1) (\<lambda>st2.
       bindR (chunkText line) (\<lambda>parts. bindR (foldR (csv_part sha) parts st2) (\<lambda>st3.
         Inr (st3\<lparr>cs_rowStart := cs_rowStart st3 + 1\<rparr>)))) = Inr st'" by simp
    then obtain st2 parts st3 where two: "(if cs_buffer st1 \<noteq> [] then csv_flush sha st1 else Inr st1) = Inr st2"
      and parts: "chunkText line = Inr parts" and three: "foldR (csv_part sha) parts st2 = Inr st3"
      and st': "Inr st' = (Inr (st3\<lparr>cs_rowStart := cs_rowStart st3 + 1\<rparr>) :: (work_error, csv_state) result)"
      by (elim bindR_InrE) simp
    then have st': "st' = st3\<lparr>cs_rowStart := cs_rowStart st3 + 1\<rparr>" by simp
    have ok2: "csv_ok ls st2" "cs_buffer st2 = []" "cs_rowStart st2 = length ls + 1"
      using flush_if[OF ok1 nb(1) two] by blast+
    have "\<forall>c\<in>set parts. span_ok line c" using chunkText_covers_all[OF parts] by blast
    from csv_parts_ok[OF three this] obtain ps where ps: "cs_rowStart st3 = length ls + 1" "cs_buffer st3 = []"
      "cs_chunks st3 = cs_chunks st2 @ ps" "length ps = length parts"
      "\<forall>p\<in>set ps. pc_locator p = LocCsvRow (length ls + 1) \<and> (\<exists>c. span_ok line c \<and> pc_content p = sn_content c)"
      using ok2 by auto
    have "parts \<noteq> []" using chunk_loop_nonempty[OF parts nb(2)] .
    with ps(4) obtain q where q: "q \<in> set ps" by (cases ps) auto
    have new: "csv_piece_ok (ls @ [line]) p \<and> names_row p (length ls + 1)" if "p \<in> set ps" for p
      using ps(5) that True by (auto simp: csv_piece_ok_def names_row_def)
    have "\<exists>p\<in>set (cs_chunks st3). names_row p r" if "1 \<le> r" "r < length ls + 2" for r
    proof (cases "r = length ls + 1")
      case True
      with new[OF q] q ps(3) show ?thesis by auto
    next
      case False
      with ok2 that have "\<exists>p\<in>set (cs_chunks st2). names_row p r" by (simp add: csv_ok_def)
      with ps(3) show ?thesis by auto
    qed
    then show ?thesis
      using ok2(1) new ps(1-3) by (auto simp: csv_ok_def st' csv_piece_ok_append)
  qed
qed

lemma csv_lines_ok:
  assumes "foldR (csv_line sha) ms st = Inr st'" "csv_ok ls st" "\<forall>l\<in>set (ls @ ms). js_trim l \<noteq> []"
  shows "csv_ok (ls @ ms) st'"
  using assms
proof (induction ms arbitrary: ls st)
  case Nil
  then show ?case by simp
next
  case (Cons l ms)
  from Cons.prems(1) obtain s where s: "csv_line sha l st = Inr s" "foldR (csv_line sha) ms s = Inr st'"
    by (auto simp: bindR_eq_Inr)
  have "csv_ok (ls @ [l]) s" using csv_line_ok[OF Cons.prems(2) _ _ s(1)] Cons.prems(3) by auto
  from Cons.IH[OF s(2) this] Cons.prems(3) show ?case by simp
qed

text \<open>
  The row numbers of CSV chunks are right when no line is blank: every piece is the
  trimmed text of exactly the rows it names (or a slice of the one long row it names), and
  every row of the file is named by some piece.
\<close>

theorem csv_rows_named:
  assumes "chunksForCsv sha tx = Inr ps" and "\<forall>l\<in>set (split_lines tx). js_trim l \<noteq> []"
  shows "(\<forall>p\<in>set ps. csv_piece_ok (split_lines tx) p)
    \<and> (\<forall>r. 1 \<le> r \<longrightarrow> r \<le> length (split_lines tx) \<longrightarrow> (\<exists>p\<in>set ps. names_row p r))"
proof -
  define ls where "ls = split_lines tx"
  from assms(1) obtain st st' where st: "foldR (csv_line sha) ls csv_start = Inr st"
    "(if cs_buffer st \<noteq> [] then csv_flush sha st else Inr st) = Inr st'"
    and final: "(if cs_chunks st' = [] then Inl (WorkFailure ''CSV attachment contains no rows.'')
      else Inr (cs_chunks st')) = Inr ps"
    unfolding chunksForCsv_def ls_def by (elim bindR_InrE)
  from final have ps: "ps = cs_chunks st'" by (simp split: if_splits)
  have "csv_ok [] csv_start" by (simp add: csv_ok_def csv_start_def)
  from csv_lines_ok[OF st(1) this] have "csv_ok ls st" using assms(2) by (simp add: ls_def)
  from flush_if[OF this _ st(2)] have "csv_ok ls st'" "cs_rowStart st' = length ls + 1"
    using assms(2) by (simp_all add: ls_def)
  then show ?thesis by (simp add: csv_ok_def ps flip: ls_def)
qed

theorem csv_rows_named_witness:
  "\<exists>p. chunksForCsv (\<lambda>_. ''h'') [97, 10, 98] = Inr [p] \<and> names_row p 2 \<and> csv_piece_ok [[97], [98]] p"
proof -
  have lines: "split_lines [97, 10, 98] = [[97], [98]]" by simp
  have "\<exists>p. chunksForCsv (\<lambda>_. ''h'') [97, 10, 98] = Inr [p] \<and> names_row p 2"
    by (simp add: chunksForCsv_def lines csv_line_def csv_start_def csv_flush_def max_chunk_characters_def
        max_chunks_def assertChunkLimit_def js_trim_def trimStart_def js_white_def names_row_def)
  then obtain p where p: "chunksForCsv (\<lambda>_. ''h'') [97, 10, 98] = Inr [p]" "names_row p 2" by blast
  have "\<forall>l\<in>set (split_lines [97, 10, 98]). js_trim l \<noteq> []"
    by (simp add: lines js_trim_def trimStart_def js_white_def)
  from csv_rows_named[OF p(1) this] p show ?thesis by (auto simp: lines)
qed

text \<open>
  C26. With a blank line the numbers can be wrong: when the first line of the file is blank
  and the second is longer than a chunk, every piece of the second row says it is row 1
  (the blank line stays in the buffer, because \<open>flush\<close> returns before resetting it).
\<close>

theorem csv_blank_line_misnumbers:
  assumes "split_lines tx = [[], long]" and "max_chunk_characters < length long"
    and "length long \<le> 26214400" and "js_trim long \<noteq> []"
  shows "\<exists>ps. chunksForCsv sha tx = Inr ps \<and> ps \<noteq> [] \<and> (\<forall>p\<in>set ps. pc_locator p = LocCsvRow 1)"
proof -
  define st where "st = \<lparr>cs_chunks = [], cs_rowStart = 1, cs_buffer = [[]]\<rparr>"
  have blank: "csv_flush sha (st\<lparr>cs_chunks := ps, cs_rowStart := r\<rparr>) = Inr (st\<lparr>cs_chunks := ps, cs_rowStart := r\<rparr>)" for ps r
    by (simp add: csv_flush_def st_def js_trim_def trimStart_def)
  obtain parts where parts: "chunkText long = Inr parts" "length parts \<le> max_chunks"
    using chunk_loop_total[of long 0 "[]"] assms(3)
    by (auto simp: chunkText_def max_chunks_def max_chunk_characters_def chunk_overlap_characters_def)
  have ne: "parts \<noteq> []" using chunk_loop_nonempty[OF parts(1) assms(4)] .
  have loop: "\<exists>qs. foldR (csv_part sha) cs (st\<lparr>cs_chunks := ps\<rparr>) = Inr (st\<lparr>cs_chunks := ps @ qs\<rparr>)
      \<and> length qs = length cs \<and> (\<forall>p\<in>set qs. pc_locator p = LocCsvRow 1)"
    if "length ps + length cs \<le> max_chunks" for cs ps
    using that
  proof (induction cs arbitrary: ps)
    case Nil
    then show ?case by simp
  next
    case (Cons c cs)
    define p where "p = \<lparr>pc_ordinal = length ps, pc_content = sn_content c, pc_hash = sha (sn_content c),
      pc_locator = LocCsvRow 1, pc_job = None\<rparr>"
    have "csv_part sha c (st\<lparr>cs_chunks := ps\<rparr>) = Inr (st\<lparr>cs_chunks := ps @ [p]\<rparr>)"
      using Cons.prems by (simp add: csv_part_def Let_def assertChunkLimit_def p_def st_def)
    moreover obtain qs where "foldR (csv_part sha) cs (st\<lparr>cs_chunks := ps @ [p]\<rparr>)
        = Inr (st\<lparr>cs_chunks := (ps @ [p]) @ qs\<rparr>)" "length qs = length cs"
      "\<forall>p\<in>set qs. pc_locator p = LocCsvRow 1"
      using Cons.IH[of "ps @ [p]"] Cons.prems by auto
    ultimately show ?case by (intro exI[of _ "p # qs"]) (simp add: p_def)
  qed
  obtain qs where qs: "foldR (csv_part sha) parts st = Inr (st\<lparr>cs_chunks := qs\<rparr>)" "length qs = length parts"
    "\<forall>p\<in>set qs. pc_locator p = LocCsvRow 1"
    using loop[of "[]" parts] parts(2) by (auto simp: st_def)
  have b: "csv_flush sha st = Inr st" using blank[where ps = "[]" and r = 1] by (simp add: st_def)
  have "csv_line sha [] csv_start = Inr st"
    by (simp add: csv_line_def csv_start_def st_def max_chunk_characters_def)
  moreover have "csv_line sha long st = Inr (st\<lparr>cs_chunks := qs, cs_rowStart := 2\<rparr>)"
    using assms(2) parts(1) qs(1) b by (simp add: csv_line_def) (simp add: st_def)
  moreover have "qs \<noteq> []" using qs(2) ne by auto
  ultimately have "chunksForCsv sha tx = Inr qs"
    using blank[where ps = qs and r = 2] by (simp add: chunksForCsv_def assms(1))
  with qs(3) \<open>qs \<noteq> []\<close> show ?thesis by blast
qed

theorem csv_blank_line_misnumbers_witness:
  "\<exists>ps. chunksForCsv (\<lambda>_. ''h'') (10 # replicate 8001 97) = Inr ps \<and> ps \<noteq> []
    \<and> (\<forall>p\<in>set ps. pc_locator p = LocCsvRow 1)"
proof -
  have "split_lines (replicate n 97) = [replicate n 97]" for n by (induction n) auto
  then have "split_lines (10 # replicate 8001 97) = [[], replicate 8001 97]" by simp
  moreover have "max_chunk_characters < length (replicate 8001 (97 :: nat))"
    "length (replicate 8001 (97 :: nat)) \<le> 26214400" by (simp_all add: max_chunk_characters_def)
  moreover have "js_trim (replicate 8001 97) \<noteq> []" by (simp add: js_trim_Nil js_white_def)
  ultimately show ?thesis using csv_blank_line_misnumbers by blast
qed

end
