(* ===== verification/Worker_Properties.thy ===== *)
theory Worker_Properties
  imports Storage_Worker Storage_Properties Chunk_Properties
begin

section \<open>Properties of the private-storage worker\<close>

text \<open>
  The two queues of the worker are leased queues: a lease that was superseded or settled is
  refused for good, and a turn of the worker never keeps the lease it claimed.
\<close>

subsection \<open>The deletion queue\<close>

datatype deletion_op = DeletionSucceeded | DeletionFailed work_error timestamp

definition settle_deletion :: "deletion_op \<Rightarrow> deletion_lease \<Rightarrow> app_db \<Rightarrow> (work_error, app_db) result" where
  "settle_deletion p j db = (case p of DeletionSucceeded \<Rightarrow> markDeletionSucceeded j db
     | DeletionFailed e t \<Rightarrow> markDeletionFailed j e t db)"

text \<open>What the other transactions do to the jobs: queue one, queue one again, or nothing.\<close>

inductive job_step :: "app_db \<Rightarrow> app_db \<Rightarrow> bool" where
  job_queued: "next_id db \<notin> dj_id ` set (ap_jobs db) \<Longrightarrow>
     job_step db (queue_deletion user ty src key t db)"
| job_requeued: "next_id db \<notin> dj_id ` set (ap_jobs db) \<Longrightarrow>
     job_step db (requeue_deletion user src key db)"
| job_frame: "ap_jobs db' = ap_jobs db \<Longrightarrow> next_id db \<le> next_id db' \<Longrightarrow> job_step db db'"

lemma job_lease_simps [simp]:
  "job_lease (d\<lparr>dj_lease := None\<rparr>) = None" "job_lease (d\<lparr>dj_lockedBy := None\<rparr>) = None"
  "dj_lease d = None \<Longrightarrow> job_lease d = None"
  by (auto simp: job_lease_def split: option.splits)

lemma job_lease_running:
  "dj_status d = JobRunning \<Longrightarrow> dj_lockedBy d = Some w \<Longrightarrow> dj_lease d = Some t \<Longrightarrow> job_lease d = Some (w, t)"
  by (simp add: job_lease_def)

abbreviation jobs_wf :: "app_db \<Rightarrow> bool" where
  "jobs_wf db \<equiv> leases_wf dj_id job_lease (ap_jobs db) (next_id db)"

abbreviation deletion_held :: "deletion_lease \<Rightarrow> app_db \<Rightarrow> bool" where
  "deletion_held j db \<equiv> lease_valid dj_id job_lease (ap_jobs db) (deletion_ref j)"

lemma deletion_held_iff: "deletion_held j db \<longleftrightarrow> (\<exists>d\<in>set (ap_jobs db). deletion_mine j d)"
  by (auto simp: lease_valid_def deletion_ref_def deletion_mine_def)

lemma not_held_stale:
  "\<not> deletion_held j db \<Longrightarrow> update_deletion f j db = Inl (StaleFailure (dl_id j))"
  by (auto simp: update_deletion_def deletion_held_iff filter_empty_conv)

lemma job_step_move:
  assumes "jobs_wf db" "job_step db db'"
  shows "lease_move dj_id job_lease (ap_jobs db) (next_id db) (ap_jobs db') (next_id db')"
  using assms(2,1)
proof (induction rule: job_step.induct)
  case (job_queued db user ty src key t)
  then show ?case
    by (auto simp: queue_deletion_def lease_move_refl new_job_def intro!: lease_move_append)
next
  case (job_requeued db user src key)
  then show ?case
    by (auto simp: requeue_deletion_def lease_move_refl new_job_def
        intro!: lease_move_append lease_move_update)
next
  case (job_frame db' db)
  then show ?case by (simp add: lease_move_refl)
qed

lemma claimDeletion_cases:
  assumes "claimDeletion w locked db = (res, db')"
  obtains "res = Inr None" "db' = db"
  | d f where "d \<in> set (ap_jobs db)" "deletion_due (now db) d"
      "f = (\<lambda>x. x\<lparr>dj_status := JobRunning, dj_attempts := dj_attempts x + 1, dj_lockedAt := Some (now db),
        dj_lockedBy := Some w, dj_lease := Some (next_id db), dj_updatedAt := now db\<rparr>)"
      "ap_jobs db' = update_where (\<lambda>x. dj_id x = dj_id d) f (ap_jobs db)"
      "next_id db' = next_id db + 1" "ap_attachments db' = ap_attachments db" "now db' = now db"
      "res = bindR (parseDeletionJob (f d) w (next_id db)) (\<lambda>j. Inr (Some j))"
proof (cases "sort_by deletion_before (filter (\<lambda>d. deletion_due (now db) d \<and> dj_id d \<notin> locked) (ap_jobs db))")
  case Nil
  with assms that(1) show ?thesis by (simp add: claimDeletion_def)
next
  case (Cons d ds)
  then have "d \<in> set (sort_by deletion_before (filter (\<lambda>d. deletion_due (now db) d \<and> dj_id d \<notin> locked) (ap_jobs db)))"
    by simp
  then have "d \<in> set (ap_jobs db)" "deletion_due (now db) d" by simp_all
  from that(2)[OF this refl] show ?thesis using assms Cons by (auto simp: claimDeletion_def Let_def)
qed

lemma parseDeletionJob_ref:
  "parseDeletionJob d w t = Inr j \<Longrightarrow> deletion_ref j = \<lparr>lr_row = dj_id d, lr_worker = w, lr_token = t\<rparr>"
  by (auto simp: parseDeletionJob_def bindR_eq_Inr requiredString_def deletion_ref_def split: if_splits)

interpretation deletions: ending_lease_queue dj_id job_lease ap_jobs next_id deletion_ref claimDeletion
  settle_deletion job_step "\<lambda>_. True"
proof
  fix w locked db res db'
  assume wf: "jobs_wf db" and claim: "claimDeletion w locked db = (res, db')"
  from claim show "lease_move dj_id job_lease (ap_jobs db) (next_id db) (ap_jobs db') (next_id db')"
  proof (cases rule: claimDeletion_cases)
    case 1
    with wf show ?thesis by (simp add: lease_move_refl)
  next
    case (2 d f)
    from wf show ?thesis
      unfolding 2(4,5) by (rule lease_move_update) (auto simp: 2(3) job_lease_def)
  qed
next
  fix w locked db j db'
  assume wf: "jobs_wf db" and claim: "claimDeletion w locked db = (Inr (Some j), db')"
  from claim show "deletion_held j db' \<and> lr_token (deletion_ref j) = next_id db \<and> lr_worker (deletion_ref j) = w"
  proof (cases rule: claimDeletion_cases)
    case (2 d f)
    have "parseDeletionJob (f d) w (next_id db) = Inr j" using 2(8)[symmetric] by (auto simp: bindR_eq_Inr)
    note ref = parseDeletionJob_ref[OF this]
    have "f d \<in> set (ap_jobs db')" using 2(1) by (auto simp: 2(4) set_update_where)
    moreover have "job_lease (f d) = Some (w, next_id db)" by (simp add: 2(3) job_lease_running)
    moreover have "dj_id (f d) = dj_id d" by (simp add: 2(3))
    ultimately show ?thesis unfolding lease_valid_def ref by fastforce
  qed simp
next
  fix p j db db'
  assume wf: "jobs_wf db" and run: "settle_deletion p j db = Inr db'"
  then obtain f where f: "db' = db\<lparr>ap_jobs := update_where (deletion_mine j) (\<lambda>d. (f d)\<lparr>dj_lockedAt := None,
      dj_lockedBy := None, dj_lease := None, dj_updatedAt := now db\<rparr>) (ap_jobs db)\<rparr>" "\<And>d. dj_id (f d) = dj_id d"
    by (auto simp: settle_deletion_def markDeletionSucceeded_def markDeletionFailed_def update_deletion_def
        Let_def split: deletion_op.splits if_splits)
  from wf show "lease_move dj_id job_lease (ap_jobs db) (next_id db) (ap_jobs db') (next_id db')"
    unfolding f(1) by simp (rule lease_move_update, auto simp: f(2))
  have "\<not> deletion_mine j ((f d)\<lparr>dj_lockedAt := None, dj_lockedBy := None, dj_lease := None, dj_updatedAt := now db\<rparr>)" for d
    by (simp add: deletion_mine_def)
  then show "\<not> deletion_held j db'"
    unfolding deletion_held_iff by (auto simp: f(1) elim!: in_update_whereE)
next
  show "\<exists>e. settle_deletion p j db = Inl e" if "\<not> deletion_held j db" for p j db
    using not_held_stale[OF that]
    by (auto simp: settle_deletion_def markDeletionSucceeded_def markDeletionFailed_def Let_def split: deletion_op.splits)
next
  show "lease_move dj_id job_lease (ap_jobs db) (next_id db) (ap_jobs db') (next_id db')"
    if "jobs_wf db" "job_step db db'" for db db'
    using job_step_move[OF that] .
qed

abbreviation deletion_steps :: "app_db \<Rightarrow> app_db \<Rightarrow> bool" where
  "deletion_steps \<equiv> (\<lambda>s s'. (\<exists>w locked res. claimDeletion w locked s = (res, s'))
     \<or> (\<exists>p j. settle_deletion p j s = Inr s') \<or> job_step s s')\<^sup>*\<^sup>*"

text \<open>
  A superseded deletion is refused: once another worker has claimed the job (its lease
  had expired), whatever claims, settlements and enqueuings follow, the first worker can no
  longer mark it succeeded or failed.
\<close>

theorem deletion_lease_exclusive:
  assumes "jobs_wf db" and "deletion_held j db" and "claimDeletion w locked db = (Inr (Some k), db1)"
    and "dl_id k = dl_id j" and "deletion_steps db1 db2"
  shows "markDeletionSucceeded j db2 = Inl (StaleFailure (dl_id j))
    \<and> markDeletionFailed j e t db2 = Inl (StaleFailure (dl_id j))"
proof -
  have "lr_row (deletion_ref k) = lr_row (deletion_ref j)" using assms(4) by (simp add: deletion_ref_def)
  from deletions.claim_supersedes[OF assms(1-3) this]
  have "\<not> deletion_held j db2" using deletions.steps_dead[OF assms(5)] by blast
  then show ?thesis
    using not_held_stale by (simp add: markDeletionSucceeded_def markDeletionFailed_def Let_def)
qed

text \<open>
  A deletion is settled once: after any worker has marked its job succeeded or failed,
  the same lease can never settle it again, whatever happens in between.
\<close>

theorem deletion_settled_once:
  assumes "jobs_wf db" and "settle_deletion p j db = Inr db1" and "deletion_steps db1 db2"
  shows "settle_deletion q j db2 = Inl (StaleFailure (dl_id j))"
proof -
  obtain e where "settle_deletion q j db2 = Inl e"
    using deletions.settled_once[OF assms(1,2) _ assms(3)] by blast
  then show ?thesis
    by (auto simp: settle_deletion_def markDeletionSucceeded_def markDeletionFailed_def update_deletion_def
        Let_def split: deletion_op.splits if_splits)
qed

definition demo_queue :: app_db where
  "demo_queue = demo_app\<lparr>ap_jobs := [new_job (Some ''ann'') ObjAttachment 7 ''private/chat-attachments/a'' 500 demo_app],
     ap_quota := (ap_quota demo_app)\<lparr>q_next := 2\<rparr>\<rparr>"

definition demo_lease :: deletion_lease where
  "demo_lease = \<lparr>dl_id = 1, dl_key = ''private/chat-attachments/a'', dl_attempts = 1, dl_maxAttempts = 5,
     dl_worker = ''w1'', dl_token = 2\<rparr>"

definition demo_claimed :: app_db where
  "demo_claimed = snd (claimDeletion ''w1'' {} demo_queue)"

definition demo_expired :: app_db where
  "demo_expired = demo_claimed\<lparr>ap_quota := (ap_quota demo_claimed)\<lparr>q_now := 2000000\<rparr>\<rparr>"

lemma demo_claim: "claimDeletion ''w1'' {} demo_queue = (Inr (Some demo_lease), demo_claimed)"
  unfolding demo_claimed_def
  by (simp add: claimDeletion_def demo_queue_def demo_app_def demo_db_def new_job_def deletion_due_def
      sort_by_def parseDeletionJob_def requiredString_def requiredInteger_def optionalInteger_def
      is_safe_integer_def max_safe_integer_def demo_lease_def Let_def)

lemma demo_queue_wf: "jobs_wf demo_queue"
  by (simp add: demo_queue_def leases_wf_def new_job_def)

lemma demo_claimed_wf: "jobs_wf demo_claimed" "deletion_held demo_lease demo_claimed"
  using deletions.claim_move[OF demo_queue_wf demo_claim] deletions.claim_grants[OF demo_queue_wf demo_claim]
    lease_move_wf[OF demo_queue_wf] by blast+

theorem deletion_lease_exclusive_witness:
  "\<exists>k db. claimDeletion ''w2'' {} demo_expired = (Inr (Some k), db) \<and> dl_id k = 1
    \<and> markDeletionSucceeded demo_lease db = Inl (StaleFailure 1)"
proof -
  have wf: "jobs_wf demo_expired" "deletion_held demo_lease demo_expired"
    using demo_claimed_wf by (simp_all add: demo_expired_def)
  have "case fst (claimDeletion ''w2'' {} demo_expired) of Inr (Some k) \<Rightarrow> dl_id k = 1 | _ \<Rightarrow> False"
    by (simp add: demo_expired_def demo_claimed_def claimDeletion_def demo_queue_def demo_app_def demo_db_def
      new_job_def deletion_due_def lock_expired_def sort_by_def parseDeletionJob_def requiredString_def
      requiredInteger_def optionalInteger_def is_safe_integer_def max_safe_integer_def Let_def
      table_simps draw_id_def)
  then obtain k db where k: "claimDeletion ''w2'' {} demo_expired = (Inr (Some k), db)" "dl_id k = 1"
    by (cases "claimDeletion ''w2'' {} demo_expired") (auto split: sum.splits option.splits)
  have "dl_id k = dl_id demo_lease" using k(2) by (simp add: demo_lease_def)
  from deletion_lease_exclusive[OF wf k(1) this rtranclp.rtrancl_refl] k show ?thesis
    by (simp add: demo_lease_def)
qed

theorem deletion_settled_once_witness:
  "\<exists>db. markDeletionSucceeded demo_lease demo_claimed = Inr db
    \<and> settle_deletion DeletionSucceeded demo_lease db = Inl (StaleFailure 1)"
proof -
  have "length (filter (deletion_mine demo_lease) (ap_jobs demo_claimed)) = 1"
    by (simp add: demo_claimed_def claimDeletion_def demo_queue_def demo_app_def demo_db_def
      new_job_def deletion_due_def sort_by_def Let_def table_simps draw_id_def deletion_mine_def
      demo_lease_def job_lease_running)
  then have "\<exists>db. settle_deletion DeletionSucceeded demo_lease demo_claimed = Inr db"
    by (simp add: settle_deletion_def markDeletionSucceeded_def update_deletion_def)
  then obtain db where run: "settle_deletion DeletionSucceeded demo_lease demo_claimed = Inr db" by blast
  from deletion_settled_once[OF demo_claimed_wf(1) run rtranclp.rtrancl_refl, of DeletionSucceeded] run
  show ?thesis by (auto simp: settle_deletion_def demo_lease_def)
qed

subsection \<open>The parse queue\<close>

datatype parse_op =
    ParseRenewed
  | ParseSubmitted string timestamp string
  | ParseDeferred timestamp
  | ParseSaved "js_string \<Rightarrow> string" "attachment_piece list" string
  | ParseFailedWith work_error timestamp

definition settle_parse :: "parse_op \<Rightarrow> parse_job \<Rightarrow> app_db \<Rightarrow> (work_error, app_db) result" where
  "settle_parse p j db = (case p of
       ParseRenewed \<Rightarrow> renewAttachmentLease j db
     | ParseSubmitted pj t pv \<Rightarrow> markParserSubmitted j pj t pv db
     | ParseDeferred t \<Rightarrow> deferParserPoll j t db
     | ParseSaved utf8 cs pv \<Rightarrow> saveChunksAndComplete utf8 j cs pv db
     | ParseFailedWith e t \<Rightarrow> markAttachmentFailed j e t db)"

text \<open>
  What the other transactions do to the attachments: insert an unleased row, delete rows,
  change rows without touching their lease (or ending it), or nothing.
\<close>

inductive attachment_change :: "app_db \<Rightarrow> app_db \<Rightarrow> bool" where
  change_insert: "at_id a \<notin> at_id ` set (ap_attachments db) \<Longrightarrow> parse_lease a = None \<Longrightarrow>
     attachment_change db (db\<lparr>ap_attachments := ap_attachments db @ [a]\<rparr>)"
| change_delete: "attachment_change db (db\<lparr>ap_attachments := filter P (ap_attachments db)\<rparr>)"
| change_update: "(\<And>a. at_id (f a) = at_id a \<and> (parse_lease (f a) = parse_lease a \<or> parse_lease (f a) = None)) \<Longrightarrow>
     attachment_change db (db\<lparr>ap_attachments := update_where P f (ap_attachments db)\<rparr>)"
| change_frame: "ap_attachments db' = ap_attachments db \<Longrightarrow> next_id db \<le> next_id db' \<Longrightarrow> attachment_change db db'"

abbreviation parses_wf :: "app_db \<Rightarrow> bool" where
  "parses_wf db \<equiv> leases_wf at_id parse_lease (ap_attachments db) (next_id db)"

abbreviation parse_held :: "parse_job \<Rightarrow> app_db \<Rightarrow> bool" where
  "parse_held j db \<equiv> lease_valid at_id parse_lease (ap_attachments db) (parse_ref j)"

lemma parse_held_iff: "parse_held j db \<longleftrightarrow> (\<exists>a\<in>set (ap_attachments db). parse_mine j a)"
  by (auto simp: lease_valid_def parse_ref_def parse_mine_def)

lemma not_held_update: "\<not> parse_held j db \<Longrightarrow> update_parse f j db = Inl (StaleFailure (pj_id j))"
  by (auto simp: update_parse_def parse_held_iff filter_empty_conv)

lemma not_held_parse:
  "\<not> parse_held j db \<Longrightarrow> \<exists>e. settle_parse p j db = Inl e"
  using not_held_update[where j = j and db = db]
  by (auto simp: settle_parse_def renewAttachmentLease_def markParserSubmitted_def deferParserPoll_def
      saveChunksAndComplete_def markAttachmentFailed_def Let_def parse_held_iff filter_empty_conv
      split: parse_op.splits)

lemma update_parse_rows:
  "update_parse f j db = Inr db' \<Longrightarrow> next_id db' = next_id db
   \<and> ap_attachments db' = update_where (parse_mine j) (\<lambda>a. (f a)\<lparr>at_updatedAt := now db\<rparr>) (ap_attachments db)"
  by (auto simp: update_parse_def split: if_splits)

definition parse_ends :: "parse_op \<Rightarrow> bool" where
  "parse_ends p \<longleftrightarrow> p \<noteq> ParseRenewed"

lemma parse_lease_updated [simp]: "parse_lease (a\<lparr>at_updatedAt := t\<rparr>) = parse_lease a"
  by (simp add: parse_lease_def)

lemma parse_lease_unlock [simp]: "parse_lease (unlock_parse a) = None"
  by (simp add: parse_lease_def unlock_parse_def)

lemma at_id_unlock [simp]: "at_id (unlock_parse a) = at_id a"
  by (simp add: unlock_parse_def)

lemma settle_parse_rows:
  assumes "settle_parse p j db = Inr db'"
  obtains f where "next_id db' = next_id db" "\<And>a. at_id (f a) = at_id a"
    "ap_attachments db' = update_where (parse_mine j) f (ap_attachments db)"
    "\<And>a. if parse_ends p then parse_lease (f a) = None else parse_lease (f a) = parse_lease a"
proof -
  note outer = that
  have go: thesis if run: "update_parse g j d = Inr db'" and same: "ap_attachments d = ap_attachments db"
      "next_id d = next_id db"
    and g: "\<And>a. at_id (g a) = at_id a" "\<And>a. if parse_ends p then parse_lease (g a) = None else parse_lease (g a) = parse_lease a"
    for g d
  proof (rule outer)
    show "next_id db' = next_id db" "ap_attachments db' = update_where (parse_mine j)
        (\<lambda>a. (g a)\<lparr>at_updatedAt := now d\<rparr>) (ap_attachments db)"
      using update_parse_rows[OF run] same by simp_all
    show "at_id ((g a)\<lparr>at_updatedAt := now d\<rparr>) = at_id a" for a by (simp add: g(1))
    show "if parse_ends p then parse_lease ((g a)\<lparr>at_updatedAt := now d\<rparr>) = None
        else parse_lease ((g a)\<lparr>at_updatedAt := now d\<rparr>) = parse_lease a" for a
      using g(2)[of a] by simp
  qed
  show ?thesis
  proof (cases p)
    case ParseRenewed
    show ?thesis
      by (rule go[OF assms[unfolded settle_parse_def renewAttachmentLease_def ParseRenewed parse_op.case]])
        (simp_all add: ParseRenewed parse_ends_def parse_lease_def)
  next
    case (ParseSubmitted x y z)
    show ?thesis
      by (rule go[OF assms[unfolded settle_parse_def markParserSubmitted_def ParseSubmitted parse_op.case]])
        (simp_all add: ParseSubmitted parse_ends_def)
  next
    case (ParseDeferred x)
    show ?thesis
      by (rule go[OF assms[unfolded settle_parse_def deferParserPoll_def ParseDeferred parse_op.case]])
        (simp_all add: ParseDeferred parse_ends_def)
  next
    case (ParseSaved x y z)
    from assms obtain d g where g: "update_parse g j d = Inr db'" "ap_attachments d = ap_attachments db"
      "next_id d = next_id db" "g = (\<lambda>a. unlock_parse (a\<lparr>at_status := AtReady, at_parseStatus := ParseReady,
             at_parseProvider := Some z, at_failureCode := None, at_readyAt := Some (now db)\<rparr>))"
      by (auto simp: settle_parse_def saveChunksAndComplete_def ParseSaved split: if_splits)
    show ?thesis by (rule go[OF g(1-3)]) (simp_all add: g(4) ParseSaved parse_ends_def)
  next
    case (ParseFailedWith x y)
    show ?thesis
      by (rule go[OF assms[unfolded settle_parse_def markAttachmentFailed_def ParseFailedWith parse_op.case Let_def]])
        (simp_all add: ParseFailedWith parse_ends_def)
  qed
qed

lemma attachment_change_move:
  assumes "attachment_change db db'" "parses_wf db"
  shows "lease_move at_id parse_lease (ap_attachments db) (next_id db) (ap_attachments db') (next_id db')"
  using assms
proof (induction rule: attachment_change.induct)
  case (change_insert a db)
  then show ?case by (simp add: lease_move_append)
next
  case (change_delete db P)
  then show ?case by (auto simp: lease_move_def leases_wf_def distinct_map_filter)
next
  case (change_update f db P)
  show ?case
    using change_update(2)
  proof (simp, rule lease_move_update)
    show "parse_lease r = Some (w, t) \<or> next_id db \<le> t \<and> t < next_id db"
      if "parse_lease (f r) = Some (w, t)" for r w t
      using change_update(1)[of r] that by auto
  qed (simp_all add: change_update(1))
next
  case (change_frame db' db)
  then show ?case by (simp add: lease_move_refl)
qed

lemma claimAttachmentParse_cases:
  assumes "claimAttachmentParse w locked db = (res, db')"
  obtains "res = Inr None" "db' = db"
  | a f where "a \<in> set (ap_attachments db)" "parse_due (now db) a"
      "f = (\<lambda>x. x\<lparr>at_parseStatus := ParseProcessing, at_parseAttempts := at_parseAttempts x + 1,
        at_parseLockedAt := Some (now db), at_parseLockedBy := Some w,
        at_parseLease := Some (next_id db), at_updatedAt := now db\<rparr>)"
      "ap_attachments db' = update_where (\<lambda>x. at_id x = at_id a) f (ap_attachments db)"
      "next_id db' = next_id db + 1"
      "res = bindR (parseAttachmentJob (f a) w (next_id db)) (\<lambda>j. Inr (Some j))"
proof (cases "sort_by parse_before (filter (\<lambda>a. parse_due (now db) a \<and> at_id a \<notin> locked) (ap_attachments db))")
  case Nil
  with assms that(1) show ?thesis by (simp add: claimAttachmentParse_def)
next
  case (Cons a as)
  then have "a \<in> set (sort_by parse_before (filter (\<lambda>a. parse_due (now db) a \<and> at_id a \<notin> locked) (ap_attachments db)))"
    by simp
  then have "a \<in> set (ap_attachments db)" "parse_due (now db) a" by simp_all
  from that(2)[OF this refl] show ?thesis using assms Cons by (auto simp: claimAttachmentParse_def Let_def)
qed

lemma parseAttachmentJob_ref:
  "parseAttachmentJob a w t = Inr j \<Longrightarrow> parse_ref j = \<lparr>lr_row = at_id a, lr_worker = w, lr_token = t\<rparr>"
  by (auto simp: parseAttachmentJob_def bindR_eq_Inr requiredString_def parse_ref_def split: if_splits)

interpretation parses: ending_lease_queue at_id parse_lease ap_attachments next_id parse_ref claimAttachmentParse
  settle_parse attachment_change parse_ends
proof
  fix w locked db res db'
  assume wf: "parses_wf db" and claim: "claimAttachmentParse w locked db = (res, db')"
  from claim show "lease_move at_id parse_lease (ap_attachments db) (next_id db) (ap_attachments db') (next_id db')"
  proof (cases rule: claimAttachmentParse_cases)
    case 1
    with wf show ?thesis by (simp add: lease_move_refl)
  next
    case (2 a f)
    from wf show ?thesis
      unfolding 2(4,5) by (rule lease_move_update) (auto simp: 2(3) parse_lease_def)
  qed
next
  fix w locked db j db'
  assume wf: "parses_wf db" and claim: "claimAttachmentParse w locked db = (Inr (Some j), db')"
  from claim show "parse_held j db' \<and> lr_token (parse_ref j) = next_id db \<and> lr_worker (parse_ref j) = w"
  proof (cases rule: claimAttachmentParse_cases)
    case (2 a f)
    have "parseAttachmentJob (f a) w (next_id db) = Inr j" using 2(6)[symmetric] by (auto simp: bindR_eq_Inr)
    note ref = parseAttachmentJob_ref[OF this]
    have "f a \<in> set (ap_attachments db')" using 2(1) by (auto simp: 2(4) set_update_where)
    moreover have "parse_lease (f a) = Some (w, next_id db)" by (simp add: 2(3) parse_lease_def)
    moreover have "at_id (f a) = at_id a" by (simp add: 2(3))
    ultimately show ?thesis unfolding lease_valid_def ref by fastforce
  qed simp
next
  fix p j db db'
  assume wf: "parses_wf db" and run: "settle_parse p j db = Inr db'"
  then obtain f where f: "next_id db' = next_id db" "\<And>a. at_id (f a) = at_id a"
    "ap_attachments db' = update_where (parse_mine j) f (ap_attachments db)"
    "\<And>a. if parse_ends p then parse_lease (f a) = None else parse_lease (f a) = parse_lease a"
    using settle_parse_rows[OF run] by metis
  have f4: "parse_lease (f a) = None \<or> parse_lease (f a) = parse_lease a" for a
    using f(4)[of a] by (auto split: if_splits)
  show "lease_move at_id parse_lease (ap_attachments db) (next_id db) (ap_attachments db') (next_id db')"
    unfolding f(1,3)
  proof (rule lease_move_update[OF wf])
    show "parse_lease r = Some (w, t) \<or> next_id db \<le> t \<and> t < next_id db"
      if "parse_lease (f r) = Some (w, t)" for r w t
      using f4[of r] that by auto
  qed (simp_all add: f(2))
  show "\<not> parse_held j db'" if "parse_ends p"
  proof -
    have "\<not> parse_mine j (f a)" for a using f(4)[of a] that by (simp add: parse_mine_def)
    then show ?thesis unfolding parse_held_iff by (auto simp: f(3) elim!: in_update_whereE)
  qed
next
  show "\<exists>e. settle_parse p j db = Inl e" if "\<not> parse_held j db" for p j db
    using not_held_parse[OF that] .
next
  show "lease_move at_id parse_lease (ap_attachments db) (next_id db) (ap_attachments db') (next_id db')"
    if "parses_wf db" "attachment_change db db'" for db db'
    using attachment_change_move[OF that(2,1)] .
qed

abbreviation parse_steps :: "app_db \<Rightarrow> app_db \<Rightarrow> bool" where
  "parse_steps \<equiv> (\<lambda>s s'. (\<exists>w locked res. claimAttachmentParse w locked s = (res, s'))
     \<or> (\<exists>p j. settle_parse p j s = Inr s') \<or> attachment_change s s')\<^sup>*\<^sup>*"

text \<open>
  A superseded parse writes nothing: once another worker has claimed the attachment, no
  statement of the first worker's parse (renewing, submitting, deferring, saving its chunks,
  failing it) is accepted any more, whatever happens in between.
\<close>

theorem parse_lease_exclusive:
  assumes "parses_wf db" and "parse_held j db" and "claimAttachmentParse w locked db = (Inr (Some k), db1)"
    and "pj_id k = pj_id j" and "parse_steps db1 db2"
  shows "\<exists>e. settle_parse p j db2 = Inl e"
proof -
  have "lr_row (parse_ref k) = lr_row (parse_ref j)" using assms(4) by (simp add: parse_ref_def)
  from parses.superseded_refused[OF assms(1-3) this assms(5)] show ?thesis .
qed

definition demo_document :: app_db where
  "demo_document = demo_stored\<lparr>ap_attachments := update_where (\<lambda>_. True) (\<lambda>a. a\<lparr>at_kind := KindDocument,
     at_mime := ''text/plain'', at_status := AtProcessing, at_parseStatus := ParseProcessing,
     at_parseLockedAt := Some 0, at_parseLockedBy := Some ''w1'', at_parseLease := Some 0\<rparr>) (ap_attachments demo_stored),
   ap_quota := (ap_quota demo_stored)\<lparr>q_now := 2000000\<rparr>\<rparr>"

definition demo_parse :: parse_job where
  "demo_parse = \<lparr>pj_id = 7, pj_key = ''private/chat-attachments/a'', pj_filename = ''a.png'',
     pj_mime = ''text/plain'', pj_parserJob = None, pj_polls = 0, pj_submittedAt = None, pj_attempts = 1,
     pj_maxAttempts = 3, pj_worker = ''w1'', pj_token = 0\<rparr>"

lemma demo_document_facts:
  "parses_wf demo_document" "parse_held demo_parse demo_document" "jobs_wf demo_document"
  "\<exists>k db. claimAttachmentParse ''w2'' {} demo_document = (Inr (Some k), db) \<and> pj_id k = 7"
proof -
  have "map at_id (ap_attachments demo_document) = [7] \<and> ap_jobs demo_document = [] \<and> 0 < next_id demo_document
     \<and> list_all (\<lambda>a. parse_lease a = Some (''w1'', 0)) (ap_attachments demo_document)" by code_simp
  then obtain a where a: "ap_attachments demo_document = [a]" "at_id a = 7" "parse_lease a = Some (''w1'', 0)"
    "ap_jobs demo_document = []" "0 < next_id demo_document"
    by (auto simp: map_eq_Cons_conv)
  then show "parses_wf demo_document" "parse_held demo_parse demo_document" "jobs_wf demo_document"
    by (simp_all add: leases_wf_def lease_valid_def parse_ref_def demo_parse_def)
  have "(case fst (claimAttachmentParse ''w2'' {} demo_document) of Inr (Some k) \<Rightarrow> pj_id k = 7 | _ \<Rightarrow> False)"
    by code_simp
  then show "\<exists>k db. claimAttachmentParse ''w2'' {} demo_document = (Inr (Some k), db) \<and> pj_id k = 7"
    by (cases "claimAttachmentParse ''w2'' {} demo_document") (auto split: sum.splits option.splits)
qed

theorem parse_lease_exclusive_witness:
  "\<exists>k db e. claimAttachmentParse ''w2'' {} demo_document = (Inr (Some k), db)
    \<and> saveChunksAndComplete (\<lambda>_. ''x'') demo_parse [] ''p'' db = Inl e"
proof -
  obtain k db where k: "claimAttachmentParse ''w2'' {} demo_document = (Inr (Some k), db)" "pj_id k = 7"
    using demo_document_facts(4) by blast
  have "pj_id k = pj_id demo_parse" using k(2) by (simp add: demo_parse_def)
  from parse_lease_exclusive[OF demo_document_facts(1,2) k(1) this rtranclp.rtrancl_refl,
      of "ParseSaved (\<lambda>_. ''x'') [] ''p''"] k
  show ?thesis by (auto simp: settle_parse_def)
qed

subsection \<open>A turn of the worker\<close>

text \<open>
  \<open>P\<close> is kept throughout, an error that says the lease is gone is right about it (\<open>H\<close> is
  the lease), and a turn that ends (\<open>fin\<close>) has given the lease up.
\<close>

definition work_ok :: "(app_db \<Rightarrow> bool) \<Rightarrow> (app_db \<Rightarrow> bool) \<Rightarrow> bool \<Rightarrow> 'a work \<Rightarrow> bool" where
  "work_ok P H fin m \<longleftrightarrow> (\<forall>d. P d \<longrightarrow> P (snd (m d)) \<and> (case fst (m d) of
     Inl e \<Rightarrow> isStaleLeaseError e \<longrightarrow> \<not> H (snd (m d)) | Inr _ \<Rightarrow> fin \<longrightarrow> \<not> H (snd (m d))))"

lemma work_ok_then:
  assumes m: "work_ok P H False m" and f: "\<And>x. work_ok P H fin (f x)"
  shows "work_ok P H fin (thenW m f)"
  unfolding work_ok_def
proof (intro allI impI)
  fix d assume d: "P d"
  obtain r d1 where r: "m d = (r, d1)" by (cases "m d")
  have one: "P d1 \<and> (case r of Inl e \<Rightarrow> isStaleLeaseError e \<longrightarrow> \<not> H d1 | Inr _ \<Rightarrow> True)"
    using m d r by (auto simp: work_ok_def split: sum.splits)
  show "P (snd (thenW m f d)) \<and> (case fst (thenW m f d) of
     Inl e \<Rightarrow> isStaleLeaseError e \<longrightarrow> \<not> H (snd (thenW m f d)) | Inr _ \<Rightarrow> fin \<longrightarrow> \<not> H (snd (thenW m f d)))"
  proof (cases r)
    case (Inl e)
    then show ?thesis using one r by (simp add: thenW_def)
  next
    case (Inr x)
    then have run: "thenW m f d = f x d1" using r by (simp add: thenW_def)
    show ?thesis unfolding run using f[of x] one by (simp add: work_ok_def)
  qed
qed

lemma work_ok_state: "(\<And>d. work_ok P H fin (M d)) \<Longrightarrow> work_ok P H fin (\<lambda>d. M d d)"
  by (simp add: work_ok_def)

lemma work_ok_pure: "(\<And>e. r = Inl e \<Longrightarrow> \<not> isStaleLeaseError e) \<Longrightarrow> work_ok P H False (pureW r)"
  by (auto simp: work_ok_def pureW_def split: sum.splits)

lemma work_ok_fail: "\<not> isStaleLeaseError e \<Longrightarrow> work_ok P H fin (\<lambda>d. (Inl e, d))"
  by (simp add: work_ok_def)

lemma not_stale_lift [simp]: "\<not> isStaleLeaseError (lift_ext e)"
  by (simp add: lift_ext_def isStaleLeaseError_def split: ext_error.splits)

lemma work_ok_external: "(\<And>d. P d \<Longrightarrow> P (wd_during wd d)) \<Longrightarrow> work_ok P H False (external wd r)"
  by (auto simp: work_ok_def external_def split: sum.splits)

lemma work_ok_transaction:
  assumes "\<And>d d'. P d \<Longrightarrow> t d = Inr d' \<Longrightarrow> P d'"
    and "\<And>d e. P d \<Longrightarrow> t d = Inl e \<Longrightarrow> isStaleLeaseError e \<Longrightarrow> \<not> H d"
  shows "work_ok P H False (transaction t)"
  using assms by (auto simp: work_ok_def transaction_def split: sum.splits)

lemma work_ok_settle:
  assumes "\<And>d d'. P d \<Longrightarrow> t d = Inr d' \<Longrightarrow> P d' \<and> \<not> H d'"
    and "\<And>d e. P d \<Longrightarrow> t d = Inl e \<Longrightarrow> isStaleLeaseError e \<Longrightarrow> \<not> H d"
  shows "work_ok P H True (thenW (transaction t) (\<lambda>_. pureW (Inr x)))"
  using assms by (auto simp: work_ok_def transaction_def thenW_def pureW_def split: sum.splits)

text \<open>The \<open>catch\<close> of a turn gives the lease up in every case.\<close>

lemma work_ok_catch:
  assumes m: "work_ok P H True m"
    and mark: "\<And>e n d d'. P d \<Longrightarrow> mark e n d = Inr d' \<Longrightarrow> P d' \<and> \<not> H d'"
    and stale: "\<And>e n d e'. P d \<Longrightarrow> mark e n d = Inl e' \<Longrightarrow> isStaleLeaseError e' \<and> \<not> H d"
    and d: "P d"
  shows "\<exists>r d'. catch m (settle_failure mark w) d = (Inr r, d') \<and> P d' \<and> \<not> H d'"
proof -
  obtain r d1 where r: "m d = (r, d1)" by (cases "m d")
  have one: "P d1 \<and> (case r of Inl e \<Rightarrow> isStaleLeaseError e \<longrightarrow> \<not> H d1 | Inr _ \<Rightarrow> \<not> H d1)"
    using m d r by (auto simp: work_ok_def split: sum.splits)
  show ?thesis
  proof (cases r)
    case (Inr x)
    with one r show ?thesis by (simp add: catch_def)
  next
    case (Inl e)
    define n where "n = now d1 + sw_retryDelay w"
    show ?thesis
    proof (cases "mark e n d1")
      case (Inl e')
      with stale[OF conjunct1[OF one] this] one \<open>r = Inl e\<close> r show ?thesis
        by (auto simp: catch_def settle_failure_def transaction_def n_def)
    next
      case (Inr d2)
      with mark[OF conjunct1[OF one] this] one \<open>r = Inl e\<close> r show ?thesis
        by (auto simp: catch_def settle_failure_def transaction_def n_def)
    qed
  qed
qed

text \<open>Cutting text never reports a lost lease.\<close>

definition no_stale :: "(work_error, 'a) result \<Rightarrow> bool" where
  "no_stale r \<longleftrightarrow> (case r of Inl e \<Rightarrow> \<not> isStaleLeaseError e | Inr _ \<Rightarrow> True)"

lemma no_stale_simps [simp]: "no_stale (Inr x)" "no_stale (Inl (WorkFailure m))" "no_stale (Inl (ProviderFailure b m))"
  by (simp_all add: no_stale_def isStaleLeaseError_def)

lemma no_stale_bind: "no_stale m \<Longrightarrow> (\<And>x. no_stale (f x)) \<Longrightarrow> no_stale (bindR m f)"
  by (cases m) (auto simp: no_stale_def)

lemma no_stale_fold: "(\<And>x s. no_stale (f x s)) \<Longrightarrow> no_stale (foldR f xs s)"
  by (induction xs arbitrary: s) (auto intro: no_stale_bind)

lemma no_stale_limit [simp]: "no_stale (assertChunkLimit xs)"
  by (simp add: assertChunkLimit_def)

lemma no_stale_loop: "no_stale (chunk_loop tx start chunks)"
proof (induction tx start chunks rule: chunk_loop.induct)
  case (1 tx start chunks)
  then show ?case
    by (subst chunk_loop.simps) (auto simp: Let_def intro!: no_stale_bind)
qed

lemma no_stale_chunkText [simp]: "no_stale (chunkText tx)"
  by (simp add: chunkText_def no_stale_loop)

lemma no_stale_document: "no_stale (chunksForParsedDocument sha doc)"
  unfolding chunksForParsedDocument_def page_chunks_def page_piece_def Let_def
  by (auto intro!: no_stale_bind no_stale_fold)

lemma no_stale_flush: "no_stale (csv_flush sha st)"
  unfolding csv_flush_def Let_def by (auto intro!: no_stale_bind)

lemma no_stale_local: "no_stale (chunksForLocalText sha mime bytes)"
  unfolding chunksForLocalText_def chunksForCsv_def csv_line_def csv_part_def Let_def
  by (auto intro!: no_stale_bind no_stale_fold no_stale_flush split: option.split)

lemma no_stale_pure: "no_stale r \<Longrightarrow> work_ok P H False (pureW r)"
  by (rule work_ok_pure) (simp add: no_stale_def)

lemma parse_count:
  assumes "parses_wf d" "length (filter (parse_mine j) (ap_attachments d)) \<noteq> 1"
  shows "\<not> parse_held j d"
proof
  assume "parse_held j d"
  then obtain a where a: "a \<in> set (ap_attachments d)" "parse_mine j a" by (auto simp: parse_held_iff)
  have "filter (parse_mine j) (ap_attachments d) = [a]"
    by (rule distinct_filter_one[where key = at_id])
      (use assms(1) a in \<open>auto simp: leases_wf_def parse_mine_def\<close>)
  with assms(2) show False by simp
qed

lemma settle_parse_stale:
  assumes "parses_wf d" "settle_parse p j d = Inl e" "isStaleLeaseError e"
  shows "\<not> parse_held j d"
proof -
  have "length (filter (parse_mine j) (ap_attachments d)) \<noteq> 1"
    using assms(2,3) by (auto simp: settle_parse_def renewAttachmentLease_def markParserSubmitted_def
        deferParserPoll_def saveChunksAndComplete_def markAttachmentFailed_def Let_def update_parse_def
        isStaleLeaseError_def split: parse_op.splits if_splits)
  with assms(1) show ?thesis by (rule parse_count)
qed

lemma settle_parse_keeps: "parses_wf d \<Longrightarrow> settle_parse p j d = Inr d' \<Longrightarrow> parses_wf d'"
  using parses.settle_move lease_move_wf by blast

lemma work_ok_parse_op:
  assumes "\<And>d. t d = settle_parse p j d"
  shows "work_ok parses_wf (parse_held j) False (transaction t)"
  using settle_parse_keeps settle_parse_stale by (intro work_ok_transaction) (auto simp: assms)

lemma work_ok_parse_end:
  assumes "\<And>d. t d = settle_parse p j d" "parse_ends p"
  shows "work_ok parses_wf (parse_held j) True (thenW (transaction t) (\<lambda>_. pureW (Inr x)))"
  using settle_parse_keeps settle_parse_stale parses.settle_ends assms(2)
  by (intro work_ok_settle) (auto simp: assms(1))

text \<open>What others commit during an external call keeps both tables' leases well formed.\<close>

definition during_ok :: "storage_world \<Rightarrow> bool" where
  "during_ok wd \<longleftrightarrow> (\<forall>d. (jobs_wf d \<longrightarrow> jobs_wf (wd_during wd d)) \<and> (parses_wf d \<longrightarrow> parses_wf (wd_during wd d)))"

lemma work_ok_lease:
  assumes "during_ok wd"
  shows "work_ok parses_wf (parse_held j) False (withAttachmentLease wd j r)"
proof -
  have renew: "work_ok parses_wf (parse_held j) False (transaction (renewAttachmentLease j))"
    by (rule work_ok_parse_op[of _ ParseRenewed]) (simp add: settle_parse_def)
  show ?thesis
    unfolding withAttachmentLease_def
    using assms by (intro work_ok_then[OF renew] work_ok_then[OF work_ok_external] work_ok_pure)
      (auto simp: during_ok_def)
qed

lemma work_ok_save:
  "work_ok parses_wf (parse_held j) True
     (thenW (transaction (saveChunksAndComplete utf8 j chunks pv)) (\<lambda>_. pureW (Inr x)))"
  by (rule work_ok_parse_end[of _ "ParseSaved utf8 chunks pv"]) (simp_all add: settle_parse_def parse_ends_def)

lemma work_ok_submit:
  assumes "during_ok wd"
  shows "work_ok parses_wf (parse_held j) True (submit_parse wd w j)"
  unfolding submit_parse_def
  by (rule work_ok_then, rule work_ok_lease, rule assms, rule work_ok_state, rule work_ok_parse_end,
      unfold settle_parse_def, rule parse_op.case(2)[symmetric], simp add: parse_ends_def)

lemma work_ok_poll:
  assumes "during_ok wd"
  shows "work_ok parses_wf (parse_held j) True (poll_parse wd w j parserJob)"
proof -
  have postpone: "work_ok parses_wf (parse_held j) True
      (\<lambda>db. thenW (transaction (deferParserPoll j (now db + sw_pollInterval w))) (\<lambda>_. pureW (Inr Deferred)) db)"
    by (rule work_ok_state, rule work_ok_parse_end, unfold settle_parse_def,
        rule parse_op.case(3)[symmetric], simp add: parse_ends_def)
  have completed: "work_ok parses_wf (parse_held j) True
      (thenW (withAttachmentLease wd j (wd_result wd parserJob)) (\<lambda>parsed.
       thenW (pureW (chunksForParsedDocument (wd_sha wd) parsed)) (\<lambda>chunks.
       thenW (transaction (saveChunksAndComplete (wd_utf8 wd) j chunks (wd_parser wd)))
         (\<lambda>_. pureW (Inr Completed)))))"
    by (rule work_ok_then, rule work_ok_lease, rule assms, rule work_ok_then, rule no_stale_pure,
        rule no_stale_document, rule work_ok_save)
  have budget: "work_ok parses_wf (parse_held j) False (pureW (assertParserPollingBudget w j n))" for n
    by (rule no_stale_pure) (simp add: assertParserPollingBudget_def)
  show ?thesis
    unfolding poll_parse_def
  proof (rule work_ok_state, rule work_ok_then, rule budget, rule work_ok_then, rule work_ok_lease, rule assms)
    fix n u and x :: "parser_state \<times> string option"
    show "work_ok parses_wf (parse_held j) True (case x of (status, message) \<Rightarrow> \<lambda>db. case status of
         ParserFailed \<Rightarrow> (Inl (ProviderFailure False (case message of Some m \<Rightarrow> m | None \<Rightarrow> ''attachment parsing failed'')), db)
       | ParserCompleted \<Rightarrow>
           thenW (withAttachmentLease wd j (wd_result wd parserJob)) (\<lambda>parsed.
           thenW (pureW (chunksForParsedDocument (wd_sha wd) parsed)) (\<lambda>chunks.
           thenW (transaction (saveChunksAndComplete (wd_utf8 wd) j chunks (wd_parser wd)))
             (\<lambda>_. pureW (Inr Completed)))) db
       | _ \<Rightarrow> thenW (transaction (deferParserPoll j (now db + sw_pollInterval w))) (\<lambda>_. pureW (Inr Deferred)) db)"
      using postpone completed
      by (cases x; cases "fst x") (auto intro!: work_ok_fail simp: isStaleLeaseError_def)
  qed
qed

lemma work_ok_parse_turn:
  assumes "during_ok wd"
  shows "work_ok parses_wf (parse_held j) True (parse_turn wd w j)"
proof -
  have text_turn: "work_ok parses_wf (parse_held j) True
       (thenW (withAttachmentLease wd j (wd_getPrivate wd (pj_key j))) (\<lambda>bytes.
        thenW (pureW (chunksForLocalText (wd_sha wd) (pj_mime j) bytes)) (\<lambda>chunks.
        thenW (transaction (saveChunksAndComplete (wd_utf8 wd) j chunks ''local-text''))
          (\<lambda>_. pureW (Inr Completed)))))"
    by (rule work_ok_then, rule work_ok_lease, rule assms, rule work_ok_then, rule no_stale_pure,
        rule no_stale_local, rule work_ok_save)
  have pdf: "work_ok parses_wf (parse_held j) True
     (case parsed of Some doc \<Rightarrow>
        thenW (pureW (chunksForParsedDocument (wd_sha wd) doc)) (\<lambda>chunks.
        thenW (transaction (saveChunksAndComplete (wd_utf8 wd) j chunks ''local-pdf-text''))
          (\<lambda>_. pureW (Inr Completed)))
      | None \<Rightarrow> submit_parse wd w j)" for parsed
  proof (cases parsed)
    case (Some doc)
    then show ?thesis by simp (rule work_ok_then, rule no_stale_pure, rule no_stale_document, rule work_ok_save)
  qed (simp add: work_ok_submit assms)
  have remote: "work_ok parses_wf (parse_held j) True (if pj_mime j = ''application/pdf'' then
       thenW (withAttachmentLease wd j (bindR (wd_getPrivate wd (pj_key j)) (wd_pdfText wd))) (\<lambda>parsed.
         case parsed of
           Some doc \<Rightarrow>
             thenW (pureW (chunksForParsedDocument (wd_sha wd) doc)) (\<lambda>chunks.
             thenW (transaction (saveChunksAndComplete (wd_utf8 wd) j chunks ''local-pdf-text''))
               (\<lambda>_. pureW (Inr Completed)))
         | None \<Rightarrow> submit_parse wd w j)
     else submit_parse wd w j)"
  proof (cases "pj_mime j = ''application/pdf''")
    case True
    show ?thesis unfolding if_P[OF True] by (rule work_ok_then[OF work_ok_lease[OF assms] pdf])
  next
    case False
    show ?thesis unfolding if_not_P[OF False] by (rule work_ok_submit[OF assms])
  qed
  show ?thesis
    unfolding parse_turn_def
    using text_turn remote work_ok_poll[OF assms] by (auto split: option.split list.split)
qed

lemma deletion_count:
  assumes "jobs_wf d" "length (filter (deletion_mine j) (ap_jobs d)) \<noteq> 1"
  shows "\<not> deletion_held j d"
proof
  assume "deletion_held j d"
  then obtain a where a: "a \<in> set (ap_jobs d)" "deletion_mine j a" by (auto simp: deletion_held_iff)
  have "filter (deletion_mine j) (ap_jobs d) = [a]"
    by (rule distinct_filter_one[where key = dj_id])
      (use assms(1) a in \<open>auto simp: leases_wf_def deletion_mine_def\<close>)
  with assms(2) show False by simp
qed

lemma settle_deletion_stale:
  assumes "jobs_wf d" "settle_deletion p j d = Inl e"
  shows "isStaleLeaseError e \<and> \<not> deletion_held j d"
proof -
  have "length (filter (deletion_mine j) (ap_jobs d)) \<noteq> 1 \<and> isStaleLeaseError e"
    using assms(2) by (auto simp: settle_deletion_def markDeletionSucceeded_def markDeletionFailed_def
        Let_def update_deletion_def isStaleLeaseError_def split: deletion_op.splits if_splits)
  with deletion_count[OF assms(1)] show ?thesis by blast
qed

lemma settle_deletion_ends: "jobs_wf d \<Longrightarrow> settle_deletion p j d = Inr d' \<Longrightarrow> jobs_wf d' \<and> \<not> deletion_held j d'"
  using deletions.settle_move lease_move_wf deletions.settle_ends by blast

lemma work_ok_delete_turn:
  assumes "during_ok wd"
  shows "work_ok jobs_wf (deletion_held j) True (delete_turn wd w j)"
  unfolding delete_turn_def
proof (rule work_ok_then, rule work_ok_external)
  show "jobs_wf d \<Longrightarrow> jobs_wf (wd_during wd d)" for d using assms by (simp add: during_ok_def)
  have t: "markDeletionSucceeded j d = settle_deletion DeletionSucceeded j d" for d
    by (simp add: settle_deletion_def)
  show "work_ok jobs_wf (deletion_held j) True
      (thenW (transaction (markDeletionSucceeded j)) (\<lambda>_. pureW (Inr Completed)))" for x
    using settle_deletion_ends settle_deletion_stale unfolding t by (intro work_ok_settle) blast+
qed

text \<open>
  C27. A turn of the worker never keeps a lease: whatever the object store, the extractor and
  the parser answer, and whatever other processes commit during those calls, a turn that
  claimed a deletion or a parse ends normally with that lease given up (settled, or already
  lost), and a turn only throws when the claimed row is malformed.
\<close>

theorem runOnce_releases:
  assumes "during_ok wd" and "jobs_wf db" and "parses_wf db"
    and "runOnce wd w locked db = (res, db')"
  shows "(\<forall>j d. claimDeletion (sw_id w) locked db = (Inr (Some j), d) \<longrightarrow> (\<exists>r. res = Inr r) \<and> \<not> deletion_held j db')
    \<and> (\<forall>j d. fst (claimDeletion (sw_id w) locked db) = Inr None
         \<longrightarrow> claimAttachmentParse (sw_id w) locked db = (Inr (Some j), d)
         \<longrightarrow> (\<exists>r. res = Inr r) \<and> \<not> parse_held j db')"
proof (intro conjI allI impI)
  fix j d
  assume claim: "claimDeletion (sw_id w) locked db = (Inr (Some j), d)"
  have wf: "jobs_wf d" using deletions.claim_move[OF assms(2) claim] lease_move_wf[OF assms(2)] by blast
  have run: "(res, db') = catch (delete_turn wd w j) (settle_failure (markDeletionFailed j) w) d"
    using assms(4) claim by (simp add: runOnce_def thenW_def)
  have mark: "markDeletionFailed j e n x = settle_deletion (DeletionFailed e n) j x" for e n x
    by (simp add: settle_deletion_def)
  have "\<exists>r d'. catch (delete_turn wd w j) (settle_failure (markDeletionFailed j) w) d = (Inr r, d')
      \<and> jobs_wf d' \<and> \<not> deletion_held j d'"
  proof (rule work_ok_catch[OF work_ok_delete_turn[OF assms(1)] _ _ wf])
    show "jobs_wf x \<Longrightarrow> markDeletionFailed j e n x = Inr x' \<Longrightarrow> jobs_wf x' \<and> \<not> deletion_held j x'" for e n x x'
      unfolding mark by (rule settle_deletion_ends)
    show "jobs_wf x \<Longrightarrow> markDeletionFailed j e n x = Inl e' \<Longrightarrow> isStaleLeaseError e' \<and> \<not> deletion_held j x" for e n x e'
      unfolding mark by (rule settle_deletion_stale)
  qed
  with run show "\<exists>r. res = Inr r" "\<not> deletion_held j db'" by auto
next
  fix j d
  assume none: "fst (claimDeletion (sw_id w) locked db) = Inr None"
    and claim: "claimAttachmentParse (sw_id w) locked db = (Inr (Some j), d)"
  have same: "claimDeletion (sw_id w) locked db = (Inr None, db)"
  proof (cases "claimDeletion (sw_id w) locked db")
    case (Pair r x)
    then show ?thesis
    proof (cases rule: claimDeletion_cases)
      case (2 y f)
      with none Pair show ?thesis by (auto simp: bindR_eq_Inr)
    qed (use Pair in simp)
  qed
  have wf: "parses_wf d" using parses.claim_move[OF assms(3) claim] lease_move_wf[OF assms(3)] by blast
  have run: "(res, db') = catch (parse_turn wd w j) (settle_failure (markAttachmentFailed j) w) d"
    using assms(4) claim same by (simp add: runOnce_def thenW_def)
  have mark: "markAttachmentFailed j e n x = settle_parse (ParseFailedWith e n) j x" for e n x
    by (simp add: settle_parse_def)
  have "\<exists>r d'. catch (parse_turn wd w j) (settle_failure (markAttachmentFailed j) w) d = (Inr r, d')
      \<and> parses_wf d' \<and> \<not> parse_held j d'"
  proof (rule work_ok_catch[OF work_ok_parse_turn[OF assms(1)] _ _ wf])
    show "parses_wf x \<Longrightarrow> markAttachmentFailed j e n x = Inr x' \<Longrightarrow> parses_wf x' \<and> \<not> parse_held j x'" for e n x x'
      unfolding mark using settle_parse_keeps parses.settle_ends[of x _ j x'] by (simp add: parse_ends_def)
    show "isStaleLeaseError e' \<and> \<not> parse_held j x"
      if "parses_wf x" "markAttachmentFailed j e n x = Inl e'" for e n x e'
    proof -
      have "isStaleLeaseError e'"
        using that(2) by (auto simp: markAttachmentFailed_def Let_def update_parse_def isStaleLeaseError_def split: if_splits)
      with settle_parse_stale[OF that(1) that(2)[unfolded mark]] show ?thesis by blast
    qed
  qed
  with run show "\<exists>r. res = Inr r" "\<not> parse_held j db'" by auto
qed

definition demo_world :: storage_world where
  "demo_world = \<lparr>wd_deletePrivate = (\<lambda>_. Inl (ExtProvider True ''timeout'')), wd_getPrivate = (\<lambda>_. Inr [104, 105]),
     wd_pdfText = (\<lambda>_. Inr None), wd_downloadUrl = (\<lambda>_. Inr ''u''), wd_submit = (\<lambda>_ _. Inr ''p''),
     wd_status = (\<lambda>_. Inr (ParserPending, None)), wd_result = (\<lambda>_. Inl (ExtFailure ''none'')),
     wd_parser = ''docmind'', wd_sha = (\<lambda>_. ''h''), wd_utf8 = (\<lambda>_. ''x''), wd_during = (\<lambda>d. d)\<rparr>"

definition demo_worker :: storage_worker where
  "demo_worker = \<lparr>sw_id = ''w1'', sw_pollInterval = 5000, sw_retryDelay = 30000, sw_maxPolls = 240, sw_maxAge = 7200000\<rparr>"

theorem runOnce_releases_witness:
  "\<not> deletion_held demo_lease (snd (runOnce demo_world demo_worker {} demo_queue))"
proof -
  have "during_ok demo_world" by (simp add: during_ok_def demo_world_def)
  moreover have "parses_wf demo_queue" by (simp add: leases_wf_def demo_queue_def demo_app_def)
  moreover have "claimDeletion (sw_id demo_worker) {} demo_queue = (Inr (Some demo_lease), demo_claimed)"
    using demo_claim by (simp add: demo_worker_def)
  ultimately show ?thesis
    using runOnce_releases[of demo_world demo_queue demo_worker "{}"] demo_queue_wf
    by (cases "runOnce demo_world demo_worker {} demo_queue") auto
qed

end
