(* ===== verification/Public_Url.thy ===== *)
theory Public_Url
  imports Js_Text
begin

section \<open>Public URLs\<close>

text \<open>
  \<open>src/server/agent/public-url.ts\<close>. The URL parser of the platform, \<open>Number\<close> and \<open>toLowerCase\<close>
  are the parameter \<open>url_rules\<close>; \<open>ur_number s\<close> is \<open>Number(s)\<close> where that is an integer. A parsed
  URL carries its components, the names of its query parameters, its text and its text once the
  fragment is removed. A parsed host name is ASCII.
\<close>

record parsed_url =
  pu_protocol :: js_string
  pu_username :: js_string
  pu_password :: js_string
  pu_port :: js_string
  pu_hostname :: js_string
  pu_keys :: "js_string list"
  pu_href :: js_string
  pu_hashless :: js_string

record url_rules =
  ur_parse :: "js_string \<Rightarrow> parsed_url option"
  ur_number :: "js_string \<Rightarrow> int option"
  ur_lower :: "js_string \<Rightarrow> js_string"

definition ascii_lower :: "js_string \<Rightarrow> js_string" where
  "ascii_lower = map (\<lambda>c. if 65 \<le> c \<and> c \<le> 90 then c + 32 else c)"

text \<open>
  Case folding of the flags \<open>iu\<close>: the long s and the Kelvin sign fold to ASCII letters.
\<close>

definition js_fold :: "nat \<Rightarrow> nat" where
  "js_fold c = (if 65 \<le> c \<and> c \<le> 90 then c + 32 else if c = 383 then 115 else if c = 8490 then 107 else c)"

definition folded_prefix :: "js_string \<Rightarrow> string \<Rightarrow> bool" where
  "folded_prefix s p \<longleftrightarrow> js_startsWith (map js_fold s) (map js_fold (js p))"

definition max_public_url_characters :: nat where "max_public_url_characters = 2048"

text \<open>The alternatives of the anchored pattern, with \<open>[_-]?\<close> written out.\<close>

definition sensitive_names :: "string list" where
  "sensitive_names = [''signature'', ''sig'', ''ossaccesskeyid'', ''accesskeyid'', ''expires'', ''token'',
     ''accesstoken'', ''access_token'', ''access-token'', ''refreshtoken'', ''refresh_token'', ''refresh-token'',
     ''idtoken'', ''id_token'', ''id-token'', ''apikey'', ''api_key'', ''api-key'', ''auth'', ''authorization'',
     ''credential'', ''clientsecret'', ''client_secret'', ''client-secret'', ''password'', ''secret'', ''session'',
     ''sessionid'', ''session_id'', ''session-id'', ''jwt'']"

definition hasSensitiveUrlParameters :: "parsed_url \<Rightarrow> bool" where
  "hasSensitiveUrlParameters u = list_ex (\<lambda>k.
     list_ex (folded_prefix k) [''x-amz-'', ''x-oss-'', ''x-goog-'']
     \<or> list_ex (\<lambda>n. map js_fold k = js n) sensitive_names) (pu_keys u)"

text \<open>The result is the text of the URL without its fragment.\<close>

definition parsePublicHttpsUrl :: "url_rules \<Rightarrow> js_string \<Rightarrow> js_string option \<Rightarrow> js_string option" where
  "parsePublicHttpsUrl ur s expected = (case ur_parse ur s of
     None \<Rightarrow> None
   | Some u \<Rightarrow>
       if max_public_url_characters < length (pu_href u) \<or> pu_protocol u \<noteq> js ''https:''
          \<or> pu_username u \<noteq> [] \<or> pu_password u \<noteq> [] \<or> (pu_port u \<noteq> [] \<and> pu_port u \<noteq> js ''443'')
          \<or> (case expected of None \<Rightarrow> False | Some h \<Rightarrow> ascii_lower (pu_hostname u) \<noteq> ur_lower ur h)
          \<or> hasSensitiveUrlParameters u
       then None else Some (pu_hashless u))"

end
