(* ===== verification/Answers.thy ===== *)
theory Answers
  imports App_State Public_Url
begin

section \<open>Structured answers\<close>

text \<open>
  \<open>src/server/agent/answer-v3.ts\<close> with the types of \<open>src/types/chat-v3.ts\<close> and the visible-text
  rules of \<open>src/server/chat-v3/verified-link-label.ts\<close>: the answer schema and its JSON form,
  the references an answer makes, its rendering, the validation that decides whether it may
  be shown, and the deterministic fallback answers. What comes from the platform or from
  long tables of wording is the parameter \<open>text_rules\<close>: Unicode normalisation, lower-casing,
  the character classes Cc and Cf, the UUID and URL syntax, and the patterns that recognise
  complex questions and incomplete safety wording.
\<close>

subsection \<open>Types\<close>

datatype list_style = Ordered | Unordered
datatype callout_tone = ToneInfo | ToneWarning | ToneDanger
datatype answer_kind = KindDirect | KindExpert | KindClarification | KindSafeRefusal

record public_calculation =
  pu_id :: js_string
  pu_title :: js_string
  pu_result :: js_string
  pu_unit :: "js_string option"
  pu_assumptions :: "js_string list"
  pu_warnings :: "js_string list"

datatype answer_block =
    Paragraph js_string "js_string list"
  | Heading nat js_string
  | ListBlock list_style "js_string list" "js_string list"
  | TableBlock "js_string list" "js_string list list" "js_string list"
  | CodeBlock "js_string option" js_string
  | Callout callout_tone "js_string option" js_string "js_string list"
  | Calculation public_calculation
  | LinkReference js_string js_string
  | ArtifactReference js_string js_string

record answer_v3 =
  an_kind :: answer_kind
  an_risk :: risk_level
  an_blocks :: "answer_block list"
  an_missingInputs :: "js_string list"
  an_usedEvidenceIds :: "js_string list"
  an_usedLinkIds :: "js_string list"

record text_rules =
  tr_nfkc :: "js_string \<Rightarrow> js_string"
  tr_lower :: "js_string \<Rightarrow> js_string"
  tr_control :: "js_string \<Rightarrow> bool"
  tr_uuid :: "js_string \<Rightarrow> bool"
  tr_urlLike :: "js_string \<Rightarrow> bool"
  tr_complex :: "js_string \<Rightarrow> bool"
  tr_boundary :: "js_string \<Rightarrow> string list"

text \<open>\<open>[...new Set(xs)]\<close>: the first occurrence of each value.\<close>

definition js_unique :: "'a list \<Rightarrow> 'a list" where
  "js_unique xs = rev (remdups (rev xs))"

lemma js_unique_simps [simp]: "set (js_unique xs) = set xs" "distinct (js_unique xs)"
  "js_unique xs = [] \<longleftrightarrow> xs = []"
  by (simp_all add: js_unique_def)

subsection \<open>The schema\<close>

text \<open>
  The combinators of the schema library the code uses: \<open>z.string().trim().min(a).max(b)\<close>
  trims first and keeps the trimmed text; \<open>strict()\<close> refuses keys it does not know.
\<close>

definition strict_keys :: "string list \<Rightarrow> json \<Rightarrow> bool" where
  "strict_keys ks j = (case j of JObject kvs \<Rightarrow> list_all (\<lambda>kv. fst kv \<in> set ks) kvs | _ \<Rightarrow> False)"

definition z_text :: "nat \<Rightarrow> nat \<Rightarrow> json option \<Rightarrow> js_string option" where
  "z_text lo hi v = (case v of
     Some (JString s) \<Rightarrow> (let t = js_trim s in if lo \<le> length t \<and> length t \<le> hi then Some t else None)
   | _ \<Rightarrow> None)"

definition z_raw :: "nat \<Rightarrow> nat \<Rightarrow> json option \<Rightarrow> js_string option" where
  "z_raw lo hi v = (case v of
     Some (JString s) \<Rightarrow> if lo \<le> length s \<and> length s \<le> hi then Some s else None
   | _ \<Rightarrow> None)"

definition z_optional :: "(json option \<Rightarrow> 'a option) \<Rightarrow> json option \<Rightarrow> 'a option option" where
  "z_optional p v = (case v of None \<Rightarrow> Some None | Some j \<Rightarrow> map_option Some (p (Some j)))"

definition z_array :: "nat \<Rightarrow> nat \<Rightarrow> (json option \<Rightarrow> 'a option) \<Rightarrow> json option \<Rightarrow> 'a list option" where
  "z_array lo hi p v = (case v of
     Some (JArray xs) \<Rightarrow> if lo \<le> length xs \<and> length xs \<le> hi then those (map (\<lambda>x. p (Some x)) xs) else None
   | _ \<Rightarrow> None)"

definition z_enum :: "(string \<times> 'a) list \<Rightarrow> json option \<Rightarrow> 'a option" where
  "z_enum table v = (case v of
     Some (JString s) \<Rightarrow> map_option snd (find (\<lambda>kv. js (fst kv) = s) table)
   | _ \<Rightarrow> None)"

definition z_if :: "bool \<Rightarrow> 'a option \<Rightarrow> 'a option" where
  "z_if b m = (if b then m else None)"

definition z_evidenceId :: "json option \<Rightarrow> js_string option" where
  "z_evidenceId v = (case v of Some (JString s) \<Rightarrow> if is_evidence_id s then Some s else None | _ \<Rightarrow> None)"

definition z_uuid :: "text_rules \<Rightarrow> json option \<Rightarrow> js_string option" where
  "z_uuid tr v = (case v of Some (JString s) \<Rightarrow> if tr_uuid tr s then Some s else None | _ \<Rightarrow> None)"

definition evidenceIds :: "json \<Rightarrow> js_string list option" where
  "evidenceIds j = z_array 0 64 z_evidenceId (json_get ''evidenceIds'' j)"

abbreviation visibleText :: "json option \<Rightarrow> js_string option" where
  "visibleText \<equiv> z_text 1 16000"

abbreviation shortText :: "json option \<Rightarrow> js_string option" where
  "shortText \<equiv> z_text 1 500"

definition style_names :: "(string \<times> list_style) list" where
  "style_names = [(''ordered'', Ordered), (''unordered'', Unordered)]"

definition tone_names :: "(string \<times> callout_tone) list" where
  "tone_names = [(''info'', ToneInfo), (''warning'', ToneWarning), (''danger'', ToneDanger)]"

definition kind_names :: "(string \<times> answer_kind) list" where
  "kind_names = [(''direct'', KindDirect), (''expert'', KindExpert),
     (''clarification'', KindClarification), (''safe_refusal'', KindSafeRefusal)]"

definition risk_names :: "(string \<times> risk_level) list" where
  "risk_names = [(''low'', RiskLow), (''medium'', RiskMedium), (''high'', RiskHigh)]"

definition parse_paragraph :: "json \<Rightarrow> answer_block option" where
  "parse_paragraph j = z_if (strict_keys [''type'', ''text'', ''evidenceIds''] j)
     (Option.bind (visibleText (json_get ''text'' j)) (\<lambda>t.
      Option.bind (evidenceIds j) (\<lambda>e. Some (Paragraph t e))))"

definition parse_heading :: "json \<Rightarrow> answer_block option" where
  "parse_heading j = z_if (strict_keys [''type'', ''level'', ''text''] j)
     (Option.bind (z_text 1 240 (json_get ''text'' j)) (\<lambda>t.
      case json_get ''level'' j of
        Some (JNumber l) \<Rightarrow> if l = 2 \<or> l = 3 then Some (Heading (nat l) t) else None
      | _ \<Rightarrow> None))"

definition parse_list :: "json \<Rightarrow> answer_block option" where
  "parse_list j = z_if (strict_keys [''type'', ''style'', ''items'', ''evidenceIds''] j)
     (Option.bind (z_enum style_names (json_get ''style'' j)) (\<lambda>s.
      Option.bind (z_array 1 64 shortText (json_get ''items'' j)) (\<lambda>i.
      Option.bind (evidenceIds j) (\<lambda>e. Some (ListBlock s i e)))))"

definition parse_table :: "json \<Rightarrow> answer_block option" where
  "parse_table j = z_if (strict_keys [''type'', ''columns'', ''rows'', ''evidenceIds''] j)
     (Option.bind (z_array 1 32 shortText (json_get ''columns'' j)) (\<lambda>c.
      Option.bind (z_array 0 500 (z_array 0 32 shortText) (json_get ''rows'' j)) (\<lambda>r.
      Option.bind (evidenceIds j) (\<lambda>e.
        z_if (list_all (\<lambda>row. length row = length c) r) (Some (TableBlock c r e))))))"

definition parse_code :: "json \<Rightarrow> answer_block option" where
  "parse_code j = z_if (strict_keys [''type'', ''language'', ''code''] j)
     (Option.bind (z_optional (z_text 0 40) (json_get ''language'' j)) (\<lambda>l.
      Option.bind (z_raw 1 64000 (json_get ''code'' j)) (\<lambda>c. Some (CodeBlock l c))))"

definition parse_callout :: "json \<Rightarrow> answer_block option" where
  "parse_callout j = z_if (strict_keys [''type'', ''tone'', ''title'', ''body'', ''evidenceIds''] j)
     (Option.bind (z_enum tone_names (json_get ''tone'' j)) (\<lambda>n.
      Option.bind (z_optional (z_text 1 160) (json_get ''title'' j)) (\<lambda>t.
      Option.bind (visibleText (json_get ''body'' j)) (\<lambda>b.
      Option.bind (evidenceIds j) (\<lambda>e. Some (Callout n t b e))))))"

definition parse_calculation :: "json \<Rightarrow> answer_block option" where
  "parse_calculation j = z_if (strict_keys [''type'', ''calculationId'', ''title'', ''result'', ''unit'',
      ''assumptions'', ''warnings''] j)
     (Option.bind (z_text 1 160 (json_get ''calculationId'' j)) (\<lambda>i.
      Option.bind (z_text 1 240 (json_get ''title'' j)) (\<lambda>t.
      Option.bind (z_text 1 500 (json_get ''result'' j)) (\<lambda>r.
      Option.bind (z_optional (z_text 1 80) (json_get ''unit'' j)) (\<lambda>u.
      Option.bind (z_array 0 32 shortText (json_get ''assumptions'' j)) (\<lambda>a.
      Option.bind (z_array 0 32 shortText (json_get ''warnings'' j)) (\<lambda>w.
        Some (Calculation \<lparr>pu_id = i, pu_title = t, pu_result = r, pu_unit = u,
          pu_assumptions = a, pu_warnings = w\<rparr>))))))))"

definition parse_link :: "json \<Rightarrow> answer_block option" where
  "parse_link j = z_if (strict_keys [''type'', ''linkId'', ''label''] j)
     (Option.bind (z_text 1 160 (json_get ''linkId'' j)) (\<lambda>i.
      Option.bind (z_text 1 240 (json_get ''label'' j)) (\<lambda>l. Some (LinkReference i l))))"

definition parse_artifact :: "text_rules \<Rightarrow> json \<Rightarrow> answer_block option" where
  "parse_artifact tr j = z_if (strict_keys [''type'', ''artifactId'', ''label''] j)
     (Option.bind (z_uuid tr (json_get ''artifactId'' j)) (\<lambda>i.
      Option.bind (z_text 1 240 (json_get ''label'' j)) (\<lambda>l. Some (ArtifactReference i l))))"

definition block_parsers :: "text_rules \<Rightarrow> (string \<times> (json \<Rightarrow> answer_block option)) list" where
  "block_parsers tr = [(''paragraph'', parse_paragraph), (''heading'', parse_heading),
     (''list'', parse_list), (''table'', parse_table), (''code'', parse_code),
     (''callout'', parse_callout), (''calculation'', parse_calculation),
     (''link_reference'', parse_link), (''artifact_reference'', parse_artifact tr)]"

definition strictAnswerBlockSchema :: "text_rules \<Rightarrow> json option \<Rightarrow> answer_block option" where
  "strictAnswerBlockSchema tr v = Option.bind v (\<lambda>j.
     Option.bind (z_enum (block_parsers tr) (json_get ''type'' j)) (\<lambda>p. p j))"

definition safeParseAnswerV3 :: "text_rules \<Rightarrow> json \<Rightarrow> answer_v3 option" where
  "safeParseAnswerV3 tr j = z_if (strict_keys [''schemaVersion'', ''answerKind'', ''riskLevel'', ''blocks'',
      ''missingInputs'', ''usedEvidenceIds'', ''usedLinkIds''] j
      \<and> json_get ''schemaVersion'' j = Some (JString (js ''openvac.answer.v3'')))
     (Option.bind (z_enum kind_names (json_get ''answerKind'' j)) (\<lambda>k.
      Option.bind (z_enum risk_names (json_get ''riskLevel'' j)) (\<lambda>r.
      Option.bind (z_array 1 128 (strictAnswerBlockSchema tr) (json_get ''blocks'' j)) (\<lambda>b.
      Option.bind (z_array 0 64 shortText (json_get ''missingInputs'' j)) (\<lambda>m.
      Option.bind (z_array 0 64 z_evidenceId (json_get ''usedEvidenceIds'' j)) (\<lambda>e.
      Option.bind (z_array 0 64 (z_text 1 160) (json_get ''usedLinkIds'' j)) (\<lambda>l.
        Some \<lparr>an_kind = k, an_risk = r, an_blocks = b, an_missingInputs = m,
          an_usedEvidenceIds = e, an_usedLinkIds = l\<rparr>)))))))"

subsection \<open>The JSON form\<close>

text \<open>\<open>JSON.stringify\<close> leaves out the optional properties that are \<open>undefined\<close>.\<close>

definition name_of :: "(string \<times> 'a) list \<Rightarrow> 'a \<Rightarrow> js_string" where
  "name_of table x = (case find (\<lambda>kv. snd kv = x) table of Some kv \<Rightarrow> js (fst kv) | None \<Rightarrow> [])"

abbreviation texts :: "js_string list \<Rightarrow> json" where
  "texts xs \<equiv> JArray (map JString xs)"

definition optional_text :: "string \<Rightarrow> js_string option \<Rightarrow> (string \<times> json) list" where
  "optional_text k v = (case v of None \<Rightarrow> [] | Some s \<Rightarrow> [(k, JString s)])"

fun block_json :: "answer_block \<Rightarrow> json" where
  "block_json (Paragraph t e) =
     JObject [(''type'', JString (js ''paragraph'')), (''text'', JString t), (''evidenceIds'', texts e)]"
| "block_json (Heading l t) =
     JObject [(''type'', JString (js ''heading'')), (''level'', JNumber (int l)), (''text'', JString t)]"
| "block_json (ListBlock s i e) =
     JObject [(''type'', JString (js ''list'')), (''style'', JString (name_of style_names s)),
       (''items'', texts i), (''evidenceIds'', texts e)]"
| "block_json (TableBlock c r e) =
     JObject [(''type'', JString (js ''table'')), (''columns'', texts c),
       (''rows'', JArray (map texts r)), (''evidenceIds'', texts e)]"
| "block_json (CodeBlock l c) =
     JObject ([(''type'', JString (js ''code''))] @ optional_text ''language'' l @ [(''code'', JString c)])"
| "block_json (Callout n t b e) =
     JObject ([(''type'', JString (js ''callout'')), (''tone'', JString (name_of tone_names n))]
       @ optional_text ''title'' t @ [(''body'', JString b), (''evidenceIds'', texts e)])"
| "block_json (Calculation c) =
     JObject ([(''type'', JString (js ''calculation'')), (''calculationId'', JString (pu_id c)),
       (''title'', JString (pu_title c)), (''result'', JString (pu_result c))]
       @ optional_text ''unit'' (pu_unit c)
       @ [(''assumptions'', texts (pu_assumptions c)), (''warnings'', texts (pu_warnings c))])"
| "block_json (LinkReference i l) =
     JObject [(''type'', JString (js ''link_reference'')), (''linkId'', JString i), (''label'', JString l)]"
| "block_json (ArtifactReference i l) =
     JObject [(''type'', JString (js ''artifact_reference'')), (''artifactId'', JString i), (''label'', JString l)]"

definition answer_json :: "answer_v3 \<Rightarrow> json" where
  "answer_json a = JObject [(''schemaVersion'', JString (js ''openvac.answer.v3'')),
     (''answerKind'', JString (name_of kind_names (an_kind a))),
     (''riskLevel'', JString (name_of risk_names (an_risk a))),
     (''blocks'', JArray (map block_json (an_blocks a))),
     (''missingInputs'', texts (an_missingInputs a)),
     (''usedEvidenceIds'', texts (an_usedEvidenceIds a)),
     (''usedLinkIds'', texts (an_usedLinkIds a))]"

subsection \<open>References\<close>

fun collectBlockEvidenceIds :: "answer_block \<Rightarrow> js_string list" where
  "collectBlockEvidenceIds (Paragraph _ e) = e"
| "collectBlockEvidenceIds (ListBlock _ _ e) = e"
| "collectBlockEvidenceIds (TableBlock _ _ e) = e"
| "collectBlockEvidenceIds (Callout _ _ _ e) = e"
| "collectBlockEvidenceIds _ = []"

fun collectBlockLinkIds :: "answer_block \<Rightarrow> js_string list" where
  "collectBlockLinkIds (LinkReference i _) = [i]"
| "collectBlockLinkIds _ = []"

fun collectBlockArtifactIds :: "answer_block \<Rightarrow> js_string list" where
  "collectBlockArtifactIds (ArtifactReference i _) = [i]"
| "collectBlockArtifactIds _ = []"

fun collectBlockCalculationIds :: "answer_block \<Rightarrow> js_string list" where
  "collectBlockCalculationIds (Calculation c) = [pu_id c]"
| "collectBlockCalculationIds _ = []"

record answer_references =
  rf_evidenceIds :: "js_string list"
  rf_linkIds :: "js_string list"
  rf_artifactIds :: "js_string list"
  rf_calculationIds :: "js_string list"

definition collectAnswerV3References :: "answer_v3 \<Rightarrow> answer_references" where
  "collectAnswerV3References a =
     \<lparr>rf_evidenceIds = js_unique (concat (map collectBlockEvidenceIds (an_blocks a))),
      rf_linkIds = js_unique (concat (map collectBlockLinkIds (an_blocks a))),
      rf_artifactIds = js_unique (concat (map collectBlockArtifactIds (an_blocks a))),
      rf_calculationIds = js_unique (concat (map collectBlockCalculationIds (an_blocks a)))\<rparr>"

fun block_texts :: "answer_block \<Rightarrow> js_string list" where
  "block_texts (Paragraph t _) = [t]"
| "block_texts (Heading _ t) = [t]"
| "block_texts (ListBlock _ i _) = i"
| "block_texts (TableBlock c r _) = c @ concat r"
| "block_texts (CodeBlock l c) = [case l of None \<Rightarrow> [] | Some s \<Rightarrow> s, c]"
| "block_texts (Callout _ t b _) = [case t of None \<Rightarrow> [] | Some s \<Rightarrow> s, b]"
| "block_texts (Calculation c) = [pu_title c, pu_result c, case pu_unit c of None \<Rightarrow> [] | Some s \<Rightarrow> s]
     @ pu_assumptions c @ pu_warnings c"
| "block_texts (LinkReference _ l) = [l]"
| "block_texts (ArtifactReference _ l) = [l]"

definition collectUserVisibleText :: "answer_v3 \<Rightarrow> js_string list" where
  "collectUserVisibleText a = an_missingInputs a @ concat (map block_texts (an_blocks a))"

subsection \<open>Rendering\<close>

definition result_word :: js_string where "result_word = [32467, 26524, 65306]"
definition assumptions_word :: js_string where "assumptions_word = [20551, 35774, 65306]"
definition warnings_word :: js_string where "warnings_word = [27880, 24847, 65306]"

definition appendCitations :: "js_string \<Rightarrow> js_string list \<Rightarrow> (js_string \<times> nat) list \<Rightarrow> js_string" where
  "appendCitations t ids numbers =
     (let markers = concat (js_unique (List.map_filter (\<lambda>i. map_option (\<lambda>n. js ''['' @ js_nat n @ js '']'')
            (map_of numbers i)) ids))
      in if markers = [] then t else t @ js '' '' @ markers)"

definition escape_cell :: "js_string \<Rightarrow> js_string" where
  "escape_cell s = concat (map (\<lambda>c. if c = 124 then [92, 124] else if c = 10 then [32] else [c]) s)"

definition table_row :: "js_string list \<Rightarrow> js_string" where
  "table_row cells = js ''| '' @ js_join (js '' | '') cells @ js '' |''"

definition newline :: js_string where "newline = [10]"

fun renderBlock :: "(js_string \<times> nat) list \<Rightarrow> answer_block \<Rightarrow> js_string" where
  "renderBlock ns (Paragraph t e) = appendCitations t e ns"
| "renderBlock ns (Heading l t) = replicate l 35 @ js '' '' @ t"
| "renderBlock ns (ListBlock s items e) =
     appendCitations (js_join newline (map (\<lambda>(n, item). (case s of Ordered \<Rightarrow> js_nat (n + 1) @ js ''.''
        | Unordered \<Rightarrow> js ''-'') @ js '' '' @ item) (enumerate 0 items))) e ns"
| "renderBlock ns (TableBlock c r e) =
     appendCitations (js_join newline ([table_row (map escape_cell c), table_row (map (\<lambda>_. js ''---'') c)]
        @ map (\<lambda>row. table_row (map escape_cell row)) r)) e ns"
| "renderBlock ns (CodeBlock l c) =
     js ''```'' @ (case l of None \<Rightarrow> [] | Some s \<Rightarrow> s) @ newline @ c @ newline @ js ''```''"
| "renderBlock ns (Callout _ t b e) =
     js_join newline (filter (\<lambda>s. s \<noteq> [])
       [case t of None \<Rightarrow> [] | Some s \<Rightarrow> if s = [] then [] else js ''> '' @ s, js ''> '' @ appendCitations b e ns])"
| "renderBlock ns (Calculation c) =
     js_join newline ([js ''### '' @ pu_title c,
        result_word @ pu_result c @ (case pu_unit c of None \<Rightarrow> [] | Some s \<Rightarrow> if s = [] then [] else js '' '' @ s)]
       @ (if pu_assumptions c = [] then [] else assumptions_word # map ((@) (js ''- '')) (pu_assumptions c))
       @ (if pu_warnings c = [] then [] else warnings_word # map ((@) (js ''- '')) (pu_warnings c)))"
| "renderBlock ns (LinkReference _ l) = l"
| "renderBlock ns (ArtifactReference _ l) = l"

definition renderAnswerV3 :: "answer_v3 \<Rightarrow> (js_string \<times> nat) list \<Rightarrow> js_string" where
  "renderAnswerV3 a ns =
     js_join (newline @ newline) (filter (\<lambda>s. s \<noteq> []) (map (renderBlock ns) (an_blocks a)))"

subsection \<open>Text that must not be shown\<close>

text \<open>The characters that \<open>\b\<close> of a pattern with the flags \<open>iu\<close> counts as word characters.\<close>

definition word_char :: "nat \<Rightarrow> bool" where
  "word_char c \<longleftrightarrow> (let d = js_fold c in (97 \<le> d \<and> d \<le> 122) \<or> js_digit d \<or> d = 95)"

definition at_boundary :: "js_string \<Rightarrow> bool" where
  "at_boundary s = (case s of [] \<Rightarrow> True | c # _ \<Rightarrow> \<not> word_char c)"

definition internal_names :: "string list" where
  "internal_names = [''provider'', ''tool'', ''tool_call'', ''function_call'', ''formulaId'', ''formulaVersion'',
     ''normalizedInputs'', ''rawArguments'', ''schemaVersion'', ''evidenceNotice'']"

definition internal_name_here :: "string list \<Rightarrow> js_string \<Rightarrow> bool" where
  "internal_name_here names s \<longleftrightarrow>
     list_ex (\<lambda>w. folded_prefix s w \<and> at_boundary (drop (length w) s)) names
     \<or> (folded_prefix s ''system'' \<and> (let r = dropWhile js_white (drop 6 s) in
          folded_prefix r ''prompt'' \<and> at_boundary (drop 6 r)))"

definition system_prompt_words :: "js_string list" where
  "system_prompt_words = [[31995, 32479, 25552, 31034], [20869, 37096, 25552, 31034]]"

fun signature_follows :: "js_string \<Rightarrow> bool" where
  "signature_follows [] \<longleftrightarrow> False"
| "signature_follows (c # cs) \<longleftrightarrow> folded_prefix (c # cs) ''signature''
     \<or> ((let d = js_fold c in (97 \<le> d \<and> d \<le> 122) \<or> d = 45) \<and> signature_follows cs)"

definition value_follows :: "js_string \<Rightarrow> bool" where
  "value_follows s = (case s of [] \<Rightarrow> False | c # _ \<Rightarrow> \<not> js_white c \<and> c \<noteq> 38)"

definition reference_marker :: "js_string \<Rightarrow> bool" where
  "reference_marker s = (case s of [] \<Rightarrow> False
     | c # cs \<Rightarrow> c = 91 \<and> takeWhile js_digit cs \<noteq> [] \<and> take 1 (dropWhile js_digit cs) = [93])"

definition unsafe_here :: "nat option \<Rightarrow> js_string \<Rightarrow> bool" where
  "unsafe_here prev s \<longleftrightarrow>
     folded_prefix s ''http://'' \<or> folded_prefix s ''https://'' \<or> folded_prefix s ''www.''
     \<or> reference_marker s
     \<or> ((case prev of None \<Rightarrow> True | Some c \<Rightarrow> \<not> word_char c) \<and> internal_name_here internal_names s)
     \<or> list_ex (js_startsWith s) system_prompt_words
     \<or> (folded_prefix s ''x-amz-'' \<and> signature_follows (drop 6 s))
     \<or> (folded_prefix s ''x-oss-'' \<and> signature_follows (drop 6 s))
     \<or> folded_prefix s ''ossaccesskeyid''
     \<or> (folded_prefix s ''signature='' \<and> value_follows (drop 10 s))
     \<or> (folded_prefix s ''expires='' \<and> value_follows (drop 8 s))"

fun unsafe_from :: "nat option \<Rightarrow> js_string \<Rightarrow> bool" where
  "unsafe_from prev [] \<longleftrightarrow> False"
| "unsafe_from prev (c # cs) \<longleftrightarrow> unsafe_here prev (c # cs) \<or> unsafe_from (Some c) cs"

definition containsUnsafeAnswerVisibleText :: "text_rules \<Rightarrow> js_string \<Rightarrow> bool" where
  "containsUnsafeAnswerVisibleText tr s = unsafe_from None (tr_nfkc tr s)"

subsection \<open>Link labels\<close>

definition link_label_fallback :: js_string where
  "link_label_fallback = [24050, 39564, 35777, 26469, 28304]"

definition max_link_label_units :: nat where "max_link_label_units = 240"

text \<open>A run of control or format characters becomes one space.\<close>

fun replace_runs :: "(js_string \<Rightarrow> bool) \<Rightarrow> bool \<Rightarrow> js_string list \<Rightarrow> js_string" where
  "replace_runs P inside [] = []"
| "replace_runs P inside (c # cs) =
     (if P c then (if inside then [] else [32]) @ replace_runs P True cs else c @ replace_runs P False cs)"

text \<open>The loop that takes whole characters while the label stays within the limit.\<close>

fun take_characters :: "nat \<Rightarrow> js_string list \<Rightarrow> js_string \<Rightarrow> js_string" where
  "take_characters limit [] label = label"
| "take_characters limit (ch # chs) label =
     (if limit < length label + length ch then label else take_characters limit chs (label @ ch))"

definition isUrlLikeVerifiedLinkLabel :: "text_rules \<Rightarrow> js_string \<Rightarrow> bool" where
  "isUrlLikeVerifiedLinkLabel tr s =
     (if list_ex js_white s then False
      else let candidate = (if s \<noteq> [] \<and> last s = 46 then butlast s else s) in
        candidate \<noteq> [] \<and> list_ex (\<lambda>c. c \<in> {46, 47, 58, 91, 93}) candidate \<and> tr_urlLike tr candidate)"

definition canonicalVerifiedLinkLabel :: "text_rules \<Rightarrow> js_string \<Rightarrow> js_string" where
  "canonicalVerifiedLinkLabel tr s =
     (if 4096 < length s \<or> hasUnpairedSurrogate s then link_label_fallback
      else
        let normalized = js_trim (collapse_space (replace_runs (tr_control tr) False (js_characters (tr_nfkc tr s)))) in
        if normalized = [] \<or> containsUnsafeAnswerVisibleText tr normalized
           \<or> isUrlLikeVerifiedLinkLabel tr normalized then link_label_fallback
        else
          let canonical = js_trim (take_characters max_link_label_units (js_characters normalized) []) in
          if canonical = [] \<or> hasUnpairedSurrogate canonical \<or> containsUnsafeAnswerVisibleText tr canonical
             \<or> isUrlLikeVerifiedLinkLabel tr canonical then link_label_fallback else canonical)"

fun sanitize_block :: "text_rules \<Rightarrow> answer_block \<Rightarrow> answer_block" where
  "sanitize_block tr (LinkReference i l) = LinkReference i (canonicalVerifiedLinkLabel tr l)"
| "sanitize_block tr b = b"

definition sanitizeStoredAnswerV3 :: "text_rules \<Rightarrow> answer_v3 \<Rightarrow> answer_v3" where
  "sanitizeStoredAnswerV3 tr a = a\<lparr>an_blocks := map (sanitize_block tr) (an_blocks a)\<rparr>"

end
