(* ===== verification/Evidence.thy ===== *)
theory Evidence
  imports Answers Public_Url
begin

section \<open>The evidence registry\<close>

text \<open>
  \<open>EvidenceRegistry\<close> and \<open>inferTrustTier\<close> of \<open>src/server/agent/evidence-registry.ts\<close>. The two
  maps of the class are lists in insertion order; ids are \<open>E1\<close>, \<open>E2\<close>, .. in the order of
  registration. The
  date of a citation is its time value.
\<close>

datatype trust_tier = TierA | TierB | TierC | TierBlocked
datatype review_status = Reviewed | PendingReview | Rejected | RuntimeVerified
datatype license_class = LicenseOpen | PublicDomain | MetadataOnly | PrivateAuthorized | LicenseUnknown

record source_citation =
  sc_sourceId :: js_string
  sc_title :: js_string
  sc_publisher :: js_string
  sc_url :: js_string
  sc_pageOrSection :: "js_string option"
  sc_fetchedAt :: timestamp
  sc_license :: license_class
  sc_trustTier :: "trust_tier option"
  sc_reviewStatus :: "review_status option"

record grounding_evidence =
  ge_citation :: source_citation
  ge_excerpt :: js_string

record registered_evidence =
  re_id :: js_string
  re_evidence :: grounding_evidence
  re_source :: js_string
  re_tier :: trust_tier
  re_review :: review_status
  re_validated :: bool
  re_visible :: bool
  re_link :: "js_string option"
  re_hostname :: "js_string option"

record registry =
  rg_entries :: "registered_evidence list"
  rg_sources :: "(js_string \<times> js_string) list"

record evidence_policy =
  ep_tier :: "trust_tier option"
  ep_review :: "review_status option"
  ep_validated :: "bool option"

record private_evidence =
  pe_source :: js_string
  pe_title :: js_string
  pe_excerpt :: js_string
  pe_locator :: "js_string option"
  pe_publisher :: "js_string option"
  pe_review :: "review_status option"
  pe_validated :: "bool option"

subsection \<open>Trust tiers\<close>

definition tier_a_domains :: "string list" where
  "tier_a_domains = [''nist.gov'', ''hse.gov.uk'', ''iso.org'', ''cern.ch'', ''leybold.com'', ''leybold.cn'',
     ''pfeiffer-vacuum.com'', ''edwardsvacuum.com'', ''buschvacuum.com'', ''atlascopco.com'']"

definition js_endsWith :: "js_string \<Rightarrow> js_string \<Rightarrow> bool" where
  "js_endsWith s p \<longleftrightarrow> js_startsWith (rev s) (rev p)"

fun js_split :: "nat \<Rightarrow> js_string \<Rightarrow> js_string list" where
  "js_split sep [] = [[]]"
| "js_split sep (c # cs) =
     (if c = sep then [] # js_split sep cs
      else case js_split sep cs of l # ls \<Rightarrow> (c # l) # ls | [] \<Rightarrow> [[c]])"

definition strip_brackets :: "js_string \<Rightarrow> js_string" where
  "strip_brackets s =
     (let t = (if take 1 s = [91] then drop 1 s else s) in if t \<noteq> [] \<and> last t = 93 then butlast t else t)"

definition isLocalOrPrivateHostname :: "url_rules \<Rightarrow> js_string \<Rightarrow> bool" where
  "isLocalOrPrivateHostname ur hostname =
     (let normalized = strip_brackets hostname in
      if normalized = js ''localhost'' \<or> normalized = js ''::1'' \<or> normalized = js ''0:0:0:0:0:0:0:1''
         \<or> js_endsWith normalized (js ''.localhost'')
         \<or> list_ex (\<lambda>p. js_startsWith normalized (js p)) [''fc'', ''fd'', ''fe8'', ''fe9'', ''fea'', ''feb'']
      then True
      else case map (ur_number ur) (js_split 46 normalized) of
        [Some a, Some b, Some _, Some _] \<Rightarrow>
          a = 0 \<or> a = 10 \<or> a = 127 \<or> (a = 169 \<and> b = 254) \<or> (a = 172 \<and> 16 \<le> b \<and> b \<le> 31) \<or> (a = 192 \<and> b = 168)
      | _ \<Rightarrow> False)"

text \<open>A parsed host name is ASCII.\<close>

definition inferTrustTier :: "url_rules \<Rightarrow> js_string \<Rightarrow> trust_tier" where
  "inferTrustTier ur url = (case ur_parse ur url of
     None \<Rightarrow> TierBlocked
   | Some u \<Rightarrow>
       if pu_protocol u \<noteq> js ''https:'' \<or> pu_username u \<noteq> [] \<or> pu_password u \<noteq> []
          \<or> (pu_port u \<noteq> [] \<and> pu_port u \<noteq> js ''443'') then TierBlocked
       else
         let hostname = ascii_lower (pu_hostname u) in
         if isLocalOrPrivateHostname ur hostname then TierBlocked
         else if list_ex (\<lambda>d. hostname = js d \<or> js_endsWith hostname (js (''.'' @ d))) tier_a_domains then TierA
         else TierC)"

subsection \<open>Operations\<close>

definition empty_registry :: registry where
  "empty_registry = \<lparr>rg_entries = [], rg_sources = []\<rparr>"

definition evidence_id :: "nat \<Rightarrow> js_string" where
  "evidence_id n = js ''E'' @ js_nat n"

definition reg_get :: "registry \<Rightarrow> js_string \<Rightarrow> registered_evidence option" where
  "reg_get rg i = lookup re_id i (rg_entries rg)"

definition reg_has :: "registry \<Rightarrow> js_string \<Rightarrow> bool" where
  "reg_has rg i \<longleftrightarrow> reg_get rg i \<noteq> None"

definition reg_insert :: "registered_evidence \<Rightarrow> registry \<Rightarrow> registry" where
  "reg_insert e rg = \<lparr>rg_entries = rg_entries rg @ [e], rg_sources = rg_sources rg @ [(re_source e, re_id e)]\<rparr>"

definition reg_add :: "url_rules \<Rightarrow> grounding_evidence \<Rightarrow> evidence_policy \<Rightarrow> registry \<Rightarrow> js_string option \<times> registry" where
  "reg_add ur ev pol rg =
     (let tier = (case ep_tier pol of Some t \<Rightarrow> t | None \<Rightarrow> inferTrustTier ur (sc_url (ge_citation ev)));
          validated = (case ep_validated pol of Some b \<Rightarrow> b | None \<Rightarrow> False)
      in if tier = TierC \<or> tier = TierBlocked then (None, rg)
         else case map_of (rg_sources rg) (sc_sourceId (ge_citation ev)) of
           Some existing \<Rightarrow> (Some existing, rg)
         | None \<Rightarrow>
             let i = evidence_id (length (rg_entries rg) + 1) in
             (Some i, reg_insert \<lparr>re_id = i, re_evidence = ev, re_source = sc_sourceId (ge_citation ev),
                re_tier = tier,
                re_review = (case ep_review pol of Some r \<Rightarrow> r
                   | None \<Rightarrow> if validated then RuntimeVerified else PendingReview),
                re_validated = validated, re_visible = True, re_link = None, re_hostname = None\<rparr> rg))"

definition private_url :: js_string where
  "private_url = js ''https://private.invalid/''"

definition private_publisher :: js_string where
  "private_publisher = [29992, 25143, 31169, 26377, 38468, 20214]"

definition addPrivate :: "private_evidence \<Rightarrow> registry \<Rightarrow> js_string \<times> registry" where
  "addPrivate inp rg = (case map_of (rg_sources rg) (pe_source inp) of
     Some existing \<Rightarrow> (existing, rg)
   | None \<Rightarrow>
       let i = evidence_id (length (rg_entries rg) + 1) in
       (i, reg_insert \<lparr>re_id = i,
          re_evidence = \<lparr>ge_citation = \<lparr>sc_sourceId = pe_source inp, sc_title = pe_title inp,
              sc_publisher = (case pe_publisher inp of Some p \<Rightarrow> p | None \<Rightarrow> private_publisher),
              sc_url = private_url, sc_pageOrSection = pe_locator inp, sc_fetchedAt = 0,
              sc_license = PrivateAuthorized, sc_trustTier = None, sc_reviewStatus = None\<rparr>,
            ge_excerpt = pe_excerpt inp\<rparr>,
          re_source = pe_source inp, re_tier = TierB,
          re_review = (case pe_review inp of Some r \<Rightarrow> r | None \<Rightarrow> PendingReview),
          re_validated = (case pe_validated inp of Some b \<Rightarrow> b | None \<Rightarrow> False),
          re_visible = False, re_link = None, re_hostname = None\<rparr> rg))"

fun addMany :: "url_rules \<Rightarrow> grounding_evidence list \<Rightarrow> evidence_policy \<Rightarrow> registry \<Rightarrow> js_string list \<times> registry" where
  "addMany ur [] pol rg = ([], rg)"
| "addMany ur (ev # evs) pol rg =
     (let (i, rg1) = reg_add ur ev pol rg; (ids, rg2) = addMany ur evs pol rg1
      in ((case i of Some x \<Rightarrow> [x] | None \<Rightarrow> []) @ ids, rg2))"

text \<open>\<open>None\<close> is the \<open>TypeError\<close> for an id the registry does not have.\<close>

definition bindVerifiedLink :: "js_string \<Rightarrow> js_string \<Rightarrow> js_string \<Rightarrow> registry \<Rightarrow> registry option" where
  "bindVerifiedLink i link hostname rg =
     (if reg_has rg i
      then Some (rg\<lparr>rg_entries := update_where (\<lambda>e. re_id e = i)
             (\<lambda>e. e\<lparr>re_link := Some link, re_hostname := Some hostname\<rparr>) (rg_entries rg)\<rparr>)
      else None)"

definition reg_citation :: "registry \<Rightarrow> js_string \<Rightarrow> source_citation option" where
  "reg_citation rg i = (case reg_get rg i of
     None \<Rightarrow> None
   | Some e \<Rightarrow> if re_visible e
       then Some ((ge_citation (re_evidence e))\<lparr>sc_sourceId := i, sc_trustTier := Some (re_tier e),
              sc_reviewStatus := Some (re_review e)\<rparr>)
       else None)"

definition reg_citations :: "registry \<Rightarrow> js_string list \<Rightarrow> source_citation list" where
  "reg_citations rg ids = List.map_filter (reg_citation rg) (js_unique ids)"

record model_evidence =
  mo_id :: js_string
  mo_title :: js_string
  mo_publisher :: js_string
  mo_locator :: "js_string option"
  mo_excerpt :: js_string
  mo_tier :: trust_tier
  mo_review :: review_status
  mo_link :: "(js_string \<times> js_string option) option"

definition model_entry :: "registered_evidence \<Rightarrow> model_evidence" where
  "model_entry e = \<lparr>mo_id = re_id e, mo_title = sc_title (ge_citation (re_evidence e)),
     mo_publisher = sc_publisher (ge_citation (re_evidence e)),
     mo_locator = sc_pageOrSection (ge_citation (re_evidence e)), mo_excerpt = ge_excerpt (re_evidence e),
     mo_tier = re_tier e, mo_review = re_review e,
     mo_link = (case re_link e of None \<Rightarrow> None | Some l \<Rightarrow> if l = [] then None else Some (l, re_hostname e))\<rparr>"

definition modelIndex :: "registry \<Rightarrow> model_evidence list" where
  "modelIndex rg = map model_entry (rg_entries rg)"

definition hasVerifiedTierA :: "registry \<Rightarrow> js_string list \<Rightarrow> bool" where
  "hasVerifiedTierA rg ids = list_ex (\<lambda>i. case reg_get rg i of
       None \<Rightarrow> False
     | Some e \<Rightarrow> re_tier e = TierA \<and> (re_review e = Reviewed \<or> re_review e = RuntimeVerified)) ids"

subsection \<open>What every registry satisfies\<close>

definition entry_ok :: "registered_evidence \<Rightarrow> bool" where
  "entry_ok e \<longleftrightarrow> re_tier e \<noteq> TierC \<and> re_tier e \<noteq> TierBlocked
     \<and> sc_sourceId (ge_citation (re_evidence e)) = re_source e"

definition registry_wf :: "registry \<Rightarrow> bool" where
  "registry_wf rg \<longleftrightarrow> map re_id (rg_entries rg) = map evidence_id [1..<Suc (length (rg_entries rg))]
     \<and> rg_sources rg = map (\<lambda>e. (re_source e, re_id e)) (rg_entries rg)
     \<and> distinct (map re_source (rg_entries rg)) \<and> list_all entry_ok (rg_entries rg)"

lemma js_nat_inject: "js_nat m = js_nat n \<longleftrightarrow> m = n"
proof
  assume "js_nat m = js_nat n"
  then have "decimal m = decimal n"
    unfolding js_nat_def js_def by (rule map_injective) (simp add: inj_on_def)
  then show "m = n" by (metis decimal_value_decimal)
qed simp

lemma evidence_id_inject: "evidence_id m = evidence_id n \<longleftrightarrow> m = n"
  by (simp add: evidence_id_def js_nat_inject)

lemma registry_wf_ids: "registry_wf rg \<Longrightarrow> distinct (map re_id (rg_entries rg))"
  unfolding registry_wf_def by (simp add: distinct_map inj_on_def evidence_id_inject)

lemma empty_registry_wf: "registry_wf empty_registry"
  by (simp add: registry_wf_def empty_registry_def)

lemma source_lookup:
  assumes "registry_wf rg"
  shows "map_of (rg_sources rg) s = None \<longleftrightarrow> s \<notin> set (map re_source (rg_entries rg))"
    and "map_of (rg_sources rg) s = Some i \<Longrightarrow> reg_has rg i"
proof -
  have src: "rg_sources rg = map (\<lambda>e. (re_source e, re_id e)) (rg_entries rg)"
    using assms by (simp add: registry_wf_def)
  show "map_of (rg_sources rg) s = None \<longleftrightarrow> s \<notin> set (map re_source (rg_entries rg))"
    by (force simp: src map_of_eq_None_iff image_iff)
  assume "map_of (rg_sources rg) s = Some i"
  then have "i \<in> re_id ` set (rg_entries rg)" by (auto simp: src dest!: map_of_SomeD)
  then show "reg_has rg i" by (auto simp: reg_has_def reg_get_def lookup_None_iff)
qed

lemma reg_insert_wf:
  assumes wf: "registry_wf rg" and i: "re_id e = evidence_id (length (rg_entries rg) + 1)"
    and new: "re_source e \<notin> set (map re_source (rg_entries rg))" and ok: "entry_ok e"
  shows "registry_wf (reg_insert e rg)"
  using assms by (simp add: registry_wf_def reg_insert_def)

lemma reg_add_wf:
  assumes "registry_wf rg"
  shows "registry_wf (snd (reg_add ur ev pol rg))"
proof (cases "map_of (rg_sources rg) (sc_sourceId (ge_citation ev))")
  case None
  then have "sc_sourceId (ge_citation ev) \<notin> set (map re_source (rg_entries rg))"
    using source_lookup(1)[OF assms] by blast
  with None assms show ?thesis
    by (auto simp: reg_add_def Let_def entry_ok_def intro!: reg_insert_wf)
next
  case (Some i)
  with assms show ?thesis by (simp add: reg_add_def Let_def)
qed

lemma addPrivate_wf:
  assumes "registry_wf rg"
  shows "registry_wf (snd (addPrivate inp rg))"
proof (cases "map_of (rg_sources rg) (pe_source inp)")
  case None
  then have "pe_source inp \<notin> set (map re_source (rg_entries rg))"
    using source_lookup(1)[OF assms] by blast
  with None assms show ?thesis
    by (auto simp: addPrivate_def Let_def entry_ok_def intro!: reg_insert_wf)
qed (use assms in \<open>simp add: addPrivate_def\<close>)

lemma addMany_wf: "registry_wf rg \<Longrightarrow> registry_wf (snd (addMany ur evs pol rg))"
proof (induction evs arbitrary: rg)
  case (Cons ev evs)
  have "registry_wf (snd (reg_add ur ev pol rg))" by (rule reg_add_wf[OF Cons.prems])
  from Cons.IH[OF this] show ?case by (simp add: case_prod_beta Let_def)
qed simp

lemma bindVerifiedLink_wf:
  assumes "registry_wf rg" "bindVerifiedLink i l h rg = Some rg'"
  shows "registry_wf rg'"
proof -
  have rg': "rg' = rg\<lparr>rg_entries := update_where (\<lambda>e. re_id e = i)
      (\<lambda>e. e\<lparr>re_link := Some l, re_hostname := Some h\<rparr>) (rg_entries rg)\<rparr>"
    using assms(2) by (simp add: bindVerifiedLink_def split: if_splits)
  have eq: "map g (update_where (\<lambda>e. re_id e = i) (\<lambda>e. e\<lparr>re_link := Some l, re_hostname := Some h\<rparr>)
      (rg_entries rg)) = map g (rg_entries rg)"
    if "\<And>e. g (e\<lparr>re_link := Some l, re_hostname := Some h\<rparr>) = g e" for g :: "registered_evidence \<Rightarrow> 'a"
    by (rule map_update_where) (rule that)
  show ?thesis
    using assms(1) unfolding registry_wf_def rg'
    by (auto simp: eq table_simps list_all_iff set_update_where entry_ok_def)
qed

end
