(* ===== verification/Stored_Answers.thy ===== *)
theory Stored_Answers
  imports Answers Evidence
begin

section \<open>Answers read back from the database\<close>

text \<open>
  The answer of the previous protocol (\<open>src/server/agent/answer-v2.ts\<close>) and the functions of
  \<open>src/server/agent/run-store.ts\<close> that restore a stored answer with its metadata:
  \<open>parseStoredAnswer\<close>, \<open>storedInputParts\<close>, \<open>restoreCitation\<close> and the \<open>safe\<close> readers, with the
  schema of input parts in \<open>src/server/chat-v3/contracts.ts\<close>. What is stored is JSON, and every
  reader is total on it.
\<close>

subsection \<open>The previous answer format\<close>

datatype answer_kind_v2 = KindGrounded | KindGeneralGuidance | KindV2Clarification | KindV2SafeRefusal

record answer_claim =
  ac_text :: js_string
  ac_evidence :: "js_string list"

record answer_v2 =
  v2_kind :: answer_kind_v2
  v2_conclusion :: "answer_claim list"
  v2_assumptions :: "js_string list"
  v2_evidence :: "answer_claim list"
  v2_missingInputs :: "js_string list"
  v2_nextSteps :: "js_string list"
  v2_calculationRefs :: "js_string list"

definition kind_v2_names :: "(string \<times> answer_kind_v2) list" where
  "kind_v2_names = [(''grounded'', KindGrounded), (''general_guidance'', KindGeneralGuidance),
     (''clarification'', KindV2Clarification), (''safe_refusal'', KindV2SafeRefusal)]"

abbreviation boundedText :: "json option \<Rightarrow> js_string option" where
  "boundedText \<equiv> z_text 1 4000"

definition is_object :: "json \<Rightarrow> bool" where
  "is_object j = (case j of JObject _ \<Rightarrow> True | _ \<Rightarrow> False)"

definition z_claim :: "string \<Rightarrow> nat \<Rightarrow> json option \<Rightarrow> answer_claim option" where
  "z_claim key lo v = Option.bind v (\<lambda>j. z_if (is_object j)
     (Option.bind (boundedText (json_get key j)) (\<lambda>t.
      Option.bind (z_array lo 12 (z_text 1 200) (json_get ''evidenceIds'' j)) (\<lambda>e.
        Some \<lparr>ac_text = t, ac_evidence = e\<rparr>))))"

definition safeParseAnswerV2 :: "json \<Rightarrow> answer_v2 option" where
  "safeParseAnswerV2 j = z_if (is_object j
      \<and> json_get ''schemaVersion'' j = Some (JString (js ''openvac.answer.v2'')))
     (Option.bind (z_enum kind_v2_names (json_get ''answerKind'' j)) (\<lambda>k.
      Option.bind (z_array 1 8 (z_claim ''text'' 0) (json_get ''conclusion'' j)) (\<lambda>c.
      Option.bind (z_array 0 16 boundedText (json_get ''assumptions'' j)) (\<lambda>a.
      Option.bind (z_array 0 20 (z_claim ''claim'' 1) (json_get ''evidence'' j)) (\<lambda>e.
      Option.bind (z_array 0 16 boundedText (json_get ''missingInputs'' j)) (\<lambda>m.
      Option.bind (z_array 0 16 boundedText (json_get ''nextSteps'' j)) (\<lambda>n.
      Option.bind (z_array 0 12 (z_text 1 100) (json_get ''calculationRefs'' j)) (\<lambda>r.
        Some \<lparr>v2_kind = k, v2_conclusion = c, v2_assumptions = a, v2_evidence = e,
          v2_missingInputs = m, v2_nextSteps = n, v2_calculationRefs = r\<rparr>))))))))"

definition legacy_tool_labels :: "(string \<times> js_string) list" where
  "legacy_tool_labels = [(''convert_vacuum_units'', [30495, 31354, 21333, 20301, 25442, 31639]),
     (''calculate_throughput'', [27668, 20307, 27969, 37327, 35745, 31639]),
     (''calculate_effective_pumping_speed'', [26377, 25928, 25277, 36895, 35745, 31639]),
     (''estimate_pumpdown_time'', [25277, 31354, 26102, 38388, 20272, 31639]),
     (''classify_flow_regime'', [27969, 24577, 21028, 23450]),
     (''calculate_orifice_or_tube_conductance'', [23380, 21475, 25110, 31649, 36947, 27969, 23548, 35745, 31639]),
     (''combine_parallel_pumps'', [24182, 32852, 27893, 26377, 25928, 25277, 36895, 35745, 31639]),
     (''estimate_leak_or_outgassing_load'', [28431, 27668, 19982, 25918, 27668, 36127, 36733, 20272, 31639])]"

text \<open>\<open>text.replaceAll(pattern, replacement)\<close> for a pattern that is not empty.\<close>

function replace_all :: "js_string \<Rightarrow> js_string \<Rightarrow> js_string \<Rightarrow> js_string" where
  "replace_all pat rep s =
     (if pat = [] \<or> s = [] then s
      else if js_startsWith s pat then rep @ replace_all pat rep (drop (length pat) s)
      else hd s # replace_all pat rep (tl s))"
  by pat_completeness auto

termination
  by (relation "measure (\<lambda>(_, _, s). length s)") auto

definition legacy_internal_names :: "string list" where
  "legacy_internal_names = [''provider'', ''tool_call'', ''function_call'', ''formulaId'', ''formulaVersion'',
     ''normalizedInputs'', ''rawArguments'']"

definition legacy_internal_here :: "nat option \<Rightarrow> js_string \<Rightarrow> bool" where
  "legacy_internal_here prev s \<longleftrightarrow>
     ((case prev of None \<Rightarrow> True | Some c \<Rightarrow> \<not> word_char c) \<and> internal_name_here legacy_internal_names s)
     \<or> list_ex (js_startsWith s) system_prompt_words
     \<or> (folded_prefix s ''x-amz-'' \<and> signature_follows (drop 6 s))
     \<or> (folded_prefix s ''x-oss-'' \<and> signature_follows (drop 6 s))
     \<or> folded_prefix s ''ossaccesskeyid''"

fun legacy_internal_from :: "nat option \<Rightarrow> js_string \<Rightarrow> bool" where
  "legacy_internal_from prev [] \<longleftrightarrow> False"
| "legacy_internal_from prev (c # cs) \<longleftrightarrow> legacy_internal_here prev (c # cs) \<or> legacy_internal_from (Some c) cs"

definition hidden_text :: js_string where
  "hidden_text = [26087, 22238, 31572, 20013, 30340, 20869, 37096, 36816, 34892, 20449, 24687, 24050,
     38544, 34255, 12290]"

definition sanitize_v2_text :: "js_string \<Rightarrow> js_string" where
  "sanitize_v2_text s =
     (let t = fold (\<lambda>kv x. replace_all (js (fst kv)) (snd kv) x) legacy_tool_labels s in
      if legacy_internal_from None t then hidden_text else t)"

definition sanitize_claim :: "answer_claim \<Rightarrow> answer_claim" where
  "sanitize_claim c = c\<lparr>ac_text := sanitize_v2_text (ac_text c)\<rparr>"

definition sanitizeStoredAnswerV2 :: "answer_v2 \<Rightarrow> answer_v2" where
  "sanitizeStoredAnswerV2 a =
     a\<lparr>v2_conclusion := map sanitize_claim (v2_conclusion a),
       v2_assumptions := map sanitize_v2_text (v2_assumptions a),
       v2_evidence := map sanitize_claim (v2_evidence a),
       v2_missingInputs := map sanitize_v2_text (v2_missingInputs a),
       v2_nextSteps := map sanitize_v2_text (v2_nextSteps a)\<rparr>"

datatype stored_answer = AnswerV2 answer_v2 | AnswerV3 answer_v3

definition parseStoredAnswer :: "text_rules \<Rightarrow> json option \<Rightarrow> stored_answer option" where
  "parseStoredAnswer tr v = Option.bind v (\<lambda>j.
     case safeParseAnswerV2 j of
       Some a \<Rightarrow> Some (AnswerV2 (sanitizeStoredAnswerV2 a))
     | None \<Rightarrow> (case safeParseAnswerV3 tr j of
         Some a \<Rightarrow> Some (AnswerV3 (sanitizeStoredAnswerV3 tr a)) | None \<Rightarrow> None))"

fun stored_missing_inputs :: "stored_answer \<Rightarrow> js_string list" where
  "stored_missing_inputs (AnswerV2 a) = v2_missingInputs a"
| "stored_missing_inputs (AnswerV3 a) = an_missingInputs a"

definition calculation_of :: "answer_block \<Rightarrow> public_calculation list" where
  "calculation_of b = (case b of Calculation c \<Rightarrow> [c] | _ \<Rightarrow> [])"

fun stored_calculations :: "stored_answer \<Rightarrow> public_calculation list" where
  "stored_calculations (AnswerV2 a) = []"
| "stored_calculations (AnswerV3 a) = concat (map calculation_of (an_blocks a))"

subsection \<open>Input parts\<close>

datatype input_part =
    TextPart js_string
  | LinkPart js_string "js_string option"
  | AttachmentPart js_string

fun input_part_json :: "input_part \<Rightarrow> json" where
  "input_part_json (TextPart t) = JObject [(''type'', JString (js ''text'')), (''text'', JString t)]"
| "input_part_json (LinkPart url l) =
     JObject ([(''type'', JString (js ''link'')), (''url'', JString url)] @ optional_text ''label'' l)"
| "input_part_json (AttachmentPart i) =
     JObject [(''type'', JString (js ''attachment'')), (''attachmentId'', JString i)]"

definition input_parts_json :: "input_part list \<Rightarrow> json" where
  "input_parts_json ps = JArray (map input_part_json ps)"

text \<open>The parameter names that the schema of links refuses.\<close>

definition sensitive_link :: "parsed_url \<Rightarrow> bool" where
  "sensitive_link u = list_ex (\<lambda>k. list_ex (folded_prefix k) [''x-amz-'', ''x-oss-'']
     \<or> list_ex (\<lambda>n. map js_fold k = js n) [''signature'', ''ossaccesskeyid'', ''accesskeyid'', ''expires'', ''token''])
     (pu_keys u)"

definition z_link_url :: "url_rules \<Rightarrow> json option \<Rightarrow> js_string option" where
  "z_link_url ur v = (case v of
     Some (JString s) \<Rightarrow> (case ur_parse ur (js_trim s) of
         Some u \<Rightarrow> if length (js_trim s) \<le> 2048 \<and> pu_protocol u = js ''https:'' \<and> \<not> sensitive_link u
           then Some (js_trim s) else None
       | None \<Rightarrow> None)
   | _ \<Rightarrow> None)"

definition max_chat_text_characters :: nat where "max_chat_text_characters = 16000"
definition max_chat_attachments_per_message :: nat where "max_chat_attachments_per_message = 5"

definition inputMessagePartSchema :: "text_rules \<Rightarrow> url_rules \<Rightarrow> json option \<Rightarrow> input_part option" where
  "inputMessagePartSchema tr ur v = Option.bind v (\<lambda>j.
     Option.bind (json_get ''type'' j) (\<lambda>t.
       if t = JString (js ''text'') then
         Option.bind (z_text 1 max_chat_text_characters (json_get ''text'' j)) (\<lambda>s. Some (TextPart s))
       else if t = JString (js ''link'') then
         Option.bind (z_link_url ur (json_get ''url'' j)) (\<lambda>s.
         Option.bind (z_optional (z_text 1 240) (json_get ''label'' j)) (\<lambda>l. Some (LinkPart s l)))
       else if t = JString (js ''attachment'') then
         Option.bind (z_uuid tr (json_get ''attachmentId'' j)) (\<lambda>i. Some (AttachmentPart i))
       else None))"

definition attachments_of :: "input_part list \<Rightarrow> js_string list" where
  "attachments_of ps = concat (map (\<lambda>p. case p of AttachmentPart i \<Rightarrow> [i] | _ \<Rightarrow> []) ps)"

definition text_length :: "input_part list \<Rightarrow> nat" where
  "text_length ps = sum_list (map (\<lambda>p. case p of TextPart t \<Rightarrow> length t | _ \<Rightarrow> 0) ps)"

definition inputMessagePartsSchema :: "text_rules \<Rightarrow> url_rules \<Rightarrow> json option \<Rightarrow> input_part list option" where
  "inputMessagePartsSchema tr ur v = Option.bind (z_array 1 16 (inputMessagePartSchema tr ur) v) (\<lambda>ps.
     z_if (length (attachments_of ps) \<le> max_chat_attachments_per_message \<and> distinct (attachments_of ps)
       \<and> text_length ps \<le> max_chat_text_characters) (Some ps))"

definition storedInputParts :: "text_rules \<Rightarrow> url_rules \<Rightarrow> json \<Rightarrow> js_string \<Rightarrow> input_part list" where
  "storedInputParts tr ur metadata fallback =
     (case inputMessagePartsSchema tr ur (json_get ''inputParts'' metadata) of
        Some ps \<Rightarrow> ps | None \<Rightarrow> [TextPart fallback])"

subsection \<open>Names\<close>

definition requested_names :: "(string \<times> requested_mode) list" where
  "requested_names = [(''auto'', RequestAuto), (''deep'', RequestDeep)]"

definition resolved_names :: "(string \<times> resolved_mode) list" where
  "resolved_names = [(''fast'', ModeFast), (''deep'', ModeDeep)]"

definition web_names :: "(string \<times> web_mode) list" where
  "web_names = [(''auto'', WebAuto), (''always'', WebAlways)]"

definition tier_names :: "(string \<times> trust_tier) list" where
  "tier_names = [(''tier_a'', TierA), (''tier_b'', TierB), (''tier_c'', TierC), (''blocked'', TierBlocked)]"

definition review_names :: "(string \<times> review_status) list" where
  "review_names = [(''reviewed'', Reviewed), (''pending_review'', PendingReview), (''rejected'', Rejected),
     (''runtime_verified'', RuntimeVerified)]"

definition license_names :: "(string \<times> license_class) list" where
  "license_names = [(''open'', LicenseOpen), (''public_domain'', PublicDomain), (''metadata_only'', MetadataOnly),
     (''private_authorized'', PrivateAuthorized), (''unknown'', LicenseUnknown)]"

definition plain_name :: "(string \<times> 'a) list \<Rightarrow> 'a \<Rightarrow> string" where
  "plain_name table x = (case find (\<lambda>kv. snd kv = x) table of Some kv \<Rightarrow> fst kv | None \<Rightarrow> [])"

definition safeRiskLevel :: "json option \<Rightarrow> risk_level" where
  "safeRiskLevel v = (if v = Some (JString (js ''medium'')) then RiskMedium
     else if v = Some (JString (js ''high'')) then RiskHigh else RiskLow)"

definition safeRequestedMode :: "json option \<Rightarrow> requested_mode option" where
  "safeRequestedMode v = z_enum requested_names v"

definition safeResolvedMode :: "json option \<Rightarrow> resolved_mode option" where
  "safeResolvedMode v = z_enum resolved_names v"

definition safeWebMode :: "json option \<Rightarrow> web_mode option" where
  "safeWebMode v = z_enum web_names v"

definition safeNonNegativeInteger :: "json option \<Rightarrow> int option" where
  "safeNonNegativeInteger v = (case v of
     Some (JNumber n) \<Rightarrow> if is_safe_integer n \<and> 0 \<le> n then Some n else None
   | _ \<Rightarrow> None)"

definition string_of :: "json option \<Rightarrow> js_string option" where
  "string_of v = (case v of Some (JString s) \<Rightarrow> Some s | _ \<Rightarrow> None)"

subsection \<open>Citations, links and artifacts\<close>

record stored_citation =
  so_sourceId :: js_string
  so_title :: js_string
  so_publisher :: js_string
  so_url :: js_string
  so_pageOrSection :: "js_string option"
  so_fetchedAt :: js_string
  so_license :: license_class
  so_trustTier :: "trust_tier option"
  so_reviewStatus :: "review_status option"

definition restoreCitation :: "text_rules \<Rightarrow> citation_row \<Rightarrow> stored_citation option" where
  "restoreCitation tr c =
     (case ct_url c of
        None \<Rightarrow> None
      | Some url \<Rightarrow> z_if (url \<noteq> [])
         (Option.bind (string_of (json_get ''sourceId'' (ct_metadata c))) (\<lambda>sourceId.
          Option.bind (string_of (json_get ''publisher'' (ct_metadata c))) (\<lambda>publisher.
          Option.bind (string_of (json_get ''fetchedAt'' (ct_metadata c))) (\<lambda>fetchedAt.
          Option.bind (Option.bind (ct_license c) (\<lambda>l. map_of license_names l)) (\<lambda>license.
            Some \<lparr>so_sourceId = sourceId,
              so_title = (case string_of (json_get ''originalSourceId'' (ct_metadata c)) of
                  Some s \<Rightarrow> if js_startsWith s (js ''web:'') then canonicalVerifiedLinkLabel tr (ct_title c) else ct_title c
                | None \<Rightarrow> ct_title c),
              so_publisher = publisher, so_url = url,
              so_pageOrSection = string_of (json_get ''pageOrSection'' (ct_locator c)),
              so_fetchedAt = fetchedAt, so_license = license,
              so_trustTier = Option.bind (ct_trustTier c) (map_of tier_names),
              so_reviewStatus = Option.bind (ct_reviewStatus c) (map_of review_names)\<rparr>))))))"

datatype link_status = LinkVerified | LinkUnavailable

record verified_link =
  vl_link :: js_string
  vl_url :: js_string
  vl_label :: js_string
  vl_hostname :: js_string
  vl_status :: link_status
  vl_evidence :: "js_string list option"

definition link_status_names :: "(string \<times> link_status) list" where
  "link_status_names = [(''verified'', LinkVerified), (''unavailable'', LinkUnavailable)]"

definition stored_evidence_ids :: "json option \<Rightarrow> js_string list option" where
  "stored_evidence_ids v = (case v of
     Some (JArray xs) \<Rightarrow>
       (let ids = List.map_filter (\<lambda>x. case x of JString s \<Rightarrow> if is_evidence_id s then Some s else None | _ \<Rightarrow> None) xs
        in if 64 < length ids \<or> \<not> distinct ids \<or> length ids \<noteq> length xs then None else Some ids)
   | _ \<Rightarrow> Some [])"

definition stored_link :: "text_rules \<Rightarrow> url_rules \<Rightarrow> json \<Rightarrow> verified_link option" where
  "stored_link tr ur j = z_if (json_get ''type'' j = Some (JString (js ''verified_link'')))
     (Option.bind (z_raw 1 160 (json_get ''linkId'' j)) (\<lambda>link.
      Option.bind (z_raw 0 4096 (json_get ''label'' j)) (\<lambda>label.
      Option.bind (string_of (json_get ''hostname'' j)) (\<lambda>hostname.
      Option.bind (string_of (json_get ''url'' j)) (\<lambda>raw.
      Option.bind (z_enum link_status_names (json_get ''status'' j)) (\<lambda>status.
      Option.bind (parsePublicHttpsUrl ur raw (Some hostname)) (\<lambda>url.
      Option.bind (stored_evidence_ids (json_get ''evidenceIds'' j)) (\<lambda>ids.
        Some \<lparr>vl_link = link, vl_url = url, vl_label = canonicalVerifiedLinkLabel tr label,
          vl_hostname = hostname, vl_status = status,
          vl_evidence = (if ids \<noteq> [] then Some ids else None)\<rparr>))))))))"

definition safeStoredVerifiedLinks :: "text_rules \<Rightarrow> url_rules \<Rightarrow> json option \<Rightarrow> verified_link list" where
  "safeStoredVerifiedLinks tr ur v = (case v of
     Some (JArray xs) \<Rightarrow> List.map_filter (stored_link tr ur) (take 64 xs) | _ \<Rightarrow> [])"

definition artifact_kind_names :: "(string \<times> artifact_kind) list" where
  "artifact_kind_names = [(''diagnosis_report'', DiagnosisReport), (''selection_report'', SelectionReport),
     (''inspection_checklist'', InspectionChecklist), (''parameter_table'', ParameterTable)]"

definition artifact_format_names :: "(string \<times> artifact_format) list" where
  "artifact_format_names = [(''md'', FmtMd), (''docx'', FmtDocx), (''pdf'', FmtPdf), (''csv'', FmtCsv)]"

definition artifact_status_names :: "(string \<times> artifact_status) list" where
  "artifact_status_names = [(''generating'', ArGenerating), (''ready'', ArReady), (''failed'', ArFailed),
     (''deleted'', ArDeleted)]"

record artifact_part =
  ax_id :: js_string
  ax_kind :: artifact_kind
  ax_title :: js_string
  ax_formats :: "artifact_format list"
  ax_status :: artifact_status

definition hex_digit :: "nat \<Rightarrow> bool" where
  "hex_digit c \<longleftrightarrow> js_digit c \<or> (97 \<le> js_fold c \<and> js_fold c \<le> 102)"

text \<open>The pattern of the source: the version digit 1 to 5 and the variant 8, 9, a or b.\<close>

definition uuid_pattern :: "js_string \<Rightarrow> bool" where
  "uuid_pattern s \<longleftrightarrow> length s = 36
     \<and> list_all (\<lambda>i. if i \<in> {8, 13, 18, 23} then s ! i = 45
         else if i = 14 then 49 \<le> s ! i \<and> s ! i \<le> 53
         else if i = 19 then js_fold (s ! i) \<in> {56, 57, 97, 98}
         else hex_digit (s ! i)) [0..<36]"

definition stored_artifact :: "json \<Rightarrow> artifact_part option" where
  "stored_artifact j = z_if (json_get ''type'' j = Some (JString (js ''artifact'')))
     (Option.bind (string_of (json_get ''artifactId'' j)) (\<lambda>i. z_if (uuid_pattern i)
       (Option.bind (z_enum artifact_kind_names (json_get ''kind'' j)) (\<lambda>kind.
        Option.bind (z_raw 1 240 (json_get ''title'' j)) (\<lambda>title.
        Option.bind (case json_get ''formats'' j of
            Some (JArray xs) \<Rightarrow> those (map (\<lambda>x. z_enum artifact_format_names (Some x)) xs) | _ \<Rightarrow> None) (\<lambda>formats.
        Option.bind (z_enum artifact_status_names (json_get ''status'' j)) (\<lambda>status.
          Some \<lparr>ax_id = i, ax_kind = kind, ax_title = title, ax_formats = formats, ax_status = status\<rparr>)))))))"

definition safeStoredArtifacts :: "json option \<Rightarrow> artifact_part list" where
  "safeStoredArtifacts v = (case v of
     Some (JArray xs) \<Rightarrow> List.map_filter stored_artifact (take 64 xs) | _ \<Rightarrow> [])"

subsection \<open>The JSON forms of links and artifacts\<close>

definition link_json :: "verified_link \<Rightarrow> json" where
  "link_json l = JObject ([(''type'', JString (js ''verified_link'')), (''linkId'', JString (vl_link l)),
     (''url'', JString (vl_url l)), (''label'', JString (vl_label l)), (''hostname'', JString (vl_hostname l)),
     (''status'', JString (name_of link_status_names (vl_status l)))]
     @ (case vl_evidence l of None \<Rightarrow> [] | Some ids \<Rightarrow> [(''evidenceIds'', texts ids)]))"

definition artifact_json :: "artifact_part \<Rightarrow> json" where
  "artifact_json a = JObject [(''type'', JString (js ''artifact'')), (''artifactId'', JString (ax_id a)),
     (''kind'', JString (name_of artifact_kind_names (ax_kind a))), (''title'', JString (ax_title a)),
     (''formats'', JArray (map (\<lambda>f. JString (name_of artifact_format_names f)) (ax_formats a))),
     (''status'', JString (name_of artifact_status_names (ax_status a)))]"

end
