(* ===== verification/Run_Store.thy ===== *)
theory Run_Store
  imports Stored_Answers Artifacts
begin

section \<open>The run store\<close>

text \<open>
  \<open>RunStore\<close> of \<open>src/server/agent/run-store.ts\<close> and \<open>settleAnswerQuotaInTransaction\<close> of
  \<open>src/server/agent/run-settlement.ts\<close>: a run answers one turn of a conversation, holds one
  lease of the answer quota, and ends completed, incomplete, failed or cancelled. Every
  transaction takes the advisory lock of its conversation (and of its client request), so it is
  a function on the state; an error rolls it back. The in-process abort controllers are a map
  from runs to controllers beside the state.
\<close>

subsection \<open>Types\<close>

record created_run =
  cr_run :: nat
  cr_turn :: nat
  cr_conversation :: nat
  cr_userMessage :: nat
  cr_assistantMessage :: nat
  cr_version :: int
  cr_question :: js_string
  cr_parts :: "input_part list"
  cr_action :: agent_action

record answer_meta =
  am_risk :: risk_level
  am_missingInputs :: "js_string list"
  am_webSearched :: json
  am_citations :: "stored_citation list"
  am_answer :: stored_answer
  am_run :: nat
  am_turn :: nat
  am_version :: int
  am_requestedMode :: "requested_mode option"
  am_resolvedMode :: "resolved_mode option"
  am_webMode :: "web_mode option"
  am_latencyMs :: "int option"
  am_links :: "verified_link list"
  am_artifacts :: "artifact_part list"
  am_calculations :: "public_calculation list"
  am_incomplete :: bool

record run_replay =
  rr_run :: nat
  rr_turn :: nat
  rr_conversation :: nat
  rr_userMessage :: nat
  rr_message :: nat
  rr_version :: int
  rr_status :: run_status
  rr_answer :: stored_answer
  rr_meta :: answer_meta

datatype create_result =
    RunCreated created_run | RunBusy nat | RunReplayed run_replay | RequestUsed

record run_modes =
  md_requested :: requested_mode
  md_resolved :: resolved_mode
  md_web :: web_mode
  md_risk :: risk_level
  md_model :: string

record initial_input =
  in_user :: string
  in_conversation :: "nat option"
  in_question :: js_string
  in_parts :: "input_part list option"
  in_clientRequest :: string
  in_modes :: run_modes
  in_lease :: nat

record action_input =
  ac_user :: string
  ac_turn :: nat
  ac_clientRequest :: string
  ac_action :: agent_action
  ac_modes :: run_modes
  ac_lease :: nat

text \<open>What the functions use of the platform.\<close>

record run_platform =
  rp_text :: text_rules
  rp_url :: url_rules
  rp_collations :: collations

subsection \<open>Reading\<close>

definition conversationTitle :: "js_string \<Rightarrow> js_string" where
  "conversationTitle question =
     (let compact = js_trim (collapse_space question) in
      if length compact \<le> 28 then compact else js_slice compact 0 28 @ [8230])"

definition turn_of :: "app_db \<Rightarrow> nat \<Rightarrow> turn_row option" where
  "turn_of db i = lookup tn_id i (ap_turns db)"

definition message_of :: "app_db \<Rightarrow> nat \<Rightarrow> message_row option" where
  "message_of db i = lookup ms_id i (ap_messages db)"

definition run_of :: "app_db \<Rightarrow> nat \<Rightarrow> run_row option" where
  "run_of db i = lookup rn_id i (ap_runs db)"

definition run_conversation :: "app_db \<Rightarrow> run_row \<Rightarrow> nat option" where
  "run_conversation db r = map_option tn_conversation (turn_of db (rn_turn r))"

definition findActiveRun :: "nat \<Rightarrow> app_db \<Rightarrow> run_row option" where
  "findActiveRun c db = find (\<lambda>r. run_conversation db r = Some c \<and> run_active (rn_status r)) (ap_runs db)"

definition open_conversation :: "nat \<Rightarrow> string \<Rightarrow> app_db \<Rightarrow> bool" where
  "open_conversation c user db \<longleftrightarrow> (\<exists>v\<in>set (ap_conversations db).
     cv_id v = c \<and> cv_user v = user \<and> cv_deletedAt v = None)"

text \<open>\<open>SELECT max(..)\<close>, with \<open>?? 0\<close>.\<close>

definition max_or_zero :: "int list \<Rightarrow> int" where
  "max_or_zero xs = (case xs of [] \<Rightarrow> 0 | y # ys \<Rightarrow> fold max ys y)"

definition last_sequence :: "nat \<Rightarrow> app_db \<Rightarrow> int" where
  "last_sequence c db = max_or_zero (map ms_sequence (filter (\<lambda>m. ms_conversation m = c) (ap_messages db)))"

definition last_ordinal :: "nat \<Rightarrow> app_db \<Rightarrow> int" where
  "last_ordinal c db = max_or_zero (map tn_ordinal (filter (\<lambda>t. tn_conversation t = c) (ap_turns db)))"

definition last_version :: "nat \<Rightarrow> app_db \<Rightarrow> int" where
  "last_version t db = max_or_zero (map rn_version (filter (\<lambda>r. rn_turn r = t) (ap_runs db)))"

text \<open>\<open>ORDER BY version DESC LIMIT 1\<close>.\<close>

definition latest_run :: "nat \<Rightarrow> app_db \<Rightarrow> run_row option" where
  "latest_run t db =
     (case sort_by (\<lambda>x y. rn_version y \<le> rn_version x) (filter (\<lambda>r. rn_turn r = t) (ap_runs db)) of
        [] \<Rightarrow> None | r # _ \<Rightarrow> Some r)"

definition getTurnQuestion :: "string \<Rightarrow> nat \<Rightarrow> app_db \<Rightarrow> js_string option" where
  "getTurnQuestion user t db =
     Option.bind (turn_of db t) (\<lambda>tn.
     Option.bind (message_of db (tn_userMessage tn)) (\<lambda>m.
       if open_conversation (tn_conversation tn) user db then Some (ms_content m) else None))"

text \<open>The citations of a message in their order.\<close>

definition message_citations :: "nat \<Rightarrow> app_db \<Rightarrow> citation_row list" where
  "message_citations m db =
     List.map_filter (\<lambda>mc. lookup ct_id (mc_citation mc) (ap_citations db))
       (sort_by (\<lambda>x y. mc_ordinal x \<le> mc_ordinal y)
          (filter (\<lambda>mc. mc_message mc = m) (ap_messageCitations db)))"

definition web_searched :: "json \<Rightarrow> json" where
  "web_searched meta = (case json_get ''webSearched'' meta of
     None \<Rightarrow> JBool False | Some JNull \<Rightarrow> JBool False | Some j \<Rightarrow> j)"

definition stored_meta :: "run_platform \<Rightarrow> run_row \<Rightarrow> message_row \<Rightarrow> stored_answer \<Rightarrow> app_db \<Rightarrow> answer_meta" where
  "stored_meta pf r m a db =
     (let meta = ms_metadata m in
      \<lparr>am_risk = safeRiskLevel (json_get ''riskLevel'' meta), am_missingInputs = stored_missing_inputs a,
       am_webSearched = web_searched meta,
       am_citations = List.map_filter (restoreCitation (rp_text pf)) (message_citations (rn_assistantMessage r) db),
       am_answer = a, am_run = rn_id r, am_turn = rn_turn r, am_version = rn_version r,
       am_requestedMode = safeRequestedMode (json_get ''requestedMode'' meta),
       am_resolvedMode = safeResolvedMode (json_get ''resolvedMode'' meta),
       am_webMode = safeWebMode (json_get ''webMode'' meta),
       am_latencyMs = safeNonNegativeInteger (json_get ''latencyMs'' meta),
       am_links = safeStoredVerifiedLinks (rp_text pf) (rp_url pf) (json_get ''verifiedLinks'' meta),
       am_artifacts = safeStoredArtifacts (json_get ''artifacts'' meta),
       am_calculations = stored_calculations a, am_incomplete = (rn_status r = RunIncomplete)\<rparr>)"

definition findRunByClientRequest :: "run_platform \<Rightarrow> string \<Rightarrow> string \<Rightarrow> app_db \<Rightarrow> create_result option" where
  "findRunByClientRequest pf user clientRequest db =
     (case find (\<lambda>r. rn_user r = user \<and> rn_clientRequest r = clientRequest
              \<and> turn_of db (rn_turn r) \<noteq> None \<and> message_of db (rn_assistantMessage r) \<noteq> None) (ap_runs db) of
        None \<Rightarrow> None
      | Some r \<Rightarrow>
          if run_active (rn_status r) then Some (RunBusy (rn_id r))
          else if rn_status r = RunCompleted \<or> rn_status r = RunIncomplete then
            (case (parseStoredAnswer (rp_text pf) (rn_answerPayload r), turn_of db (rn_turn r),
                   message_of db (rn_assistantMessage r)) of
               (Some a, Some tn, Some m) \<Rightarrow> Some (RunReplayed
                 \<lparr>rr_run = rn_id r, rr_turn = rn_turn r, rr_conversation = tn_conversation tn,
                  rr_userMessage = tn_userMessage tn, rr_message = rn_assistantMessage r,
                  rr_version = rn_version r, rr_status = rn_status r, rr_answer = a,
                  rr_meta = stored_meta pf r m a db\<rparr>)
             | _ \<Rightarrow> Some RequestUsed)
          else Some RequestUsed)"

subsection \<open>Writing rows\<close>

definition update_run :: "nat \<Rightarrow> (run_row \<Rightarrow> run_row) \<Rightarrow> app_db \<Rightarrow> app_db" where
  "update_run i f db = db\<lparr>ap_runs := update_where (\<lambda>r. rn_id r = i)
     (\<lambda>r. (f r)\<lparr>rn_updatedAt := now db\<rparr>) (ap_runs db)\<rparr>"

definition update_message :: "nat \<Rightarrow> (message_row \<Rightarrow> message_row) \<Rightarrow> app_db \<Rightarrow> app_db" where
  "update_message i f db = db\<lparr>ap_messages := update_where (\<lambda>m. ms_id m = i) f (ap_messages db)\<rparr>"

definition update_turn :: "nat \<Rightarrow> (turn_row \<Rightarrow> turn_row) \<Rightarrow> app_db \<Rightarrow> app_db" where
  "update_turn i f db = db\<lparr>ap_turns := update_where (\<lambda>t. tn_id t = i)
     (\<lambda>t. (f t)\<lparr>tn_updatedAt := now db\<rparr>) (ap_turns db)\<rparr>"

definition touch_conversation :: "nat \<Rightarrow> app_db \<Rightarrow> app_db" where
  "touch_conversation c db = db\<lparr>ap_conversations := update_where (\<lambda>v. cv_id v = c)
     (\<lambda>v. v\<lparr>cv_lastMessageAt := Some (now db), cv_updatedAt := now db\<rparr>) (ap_conversations db)\<rparr>"

text \<open>Inserts fail on the unique indexes of the tables.\<close>

definition insert_message :: "message_row \<Rightarrow> app_db \<Rightarrow> (app_error, app_db) result" where
  "insert_message m db =
     (if \<exists>x\<in>set (ap_messages db). ms_conversation x = ms_conversation m
           \<and> (ms_sequence x = ms_sequence m
              \<or> (ms_clientRequest m \<noteq> None \<and> ms_clientRequest x = ms_clientRequest m))
      then Inl (UniqueKeyViolation ''message'') else Inr (db\<lparr>ap_messages := ap_messages db @ [m]\<rparr>))"

definition insert_turn :: "turn_row \<Rightarrow> app_db \<Rightarrow> (app_error, app_db) result" where
  "insert_turn t db =
     (if \<exists>x\<in>set (ap_turns db). (tn_conversation x = tn_conversation t \<and> tn_ordinal x = tn_ordinal t)
           \<or> tn_userMessage x = tn_userMessage t
      then Inl (UniqueKeyViolation ''conversation_turn'') else Inr (db\<lparr>ap_turns := ap_turns db @ [t]\<rparr>))"

definition insert_run :: "run_row \<Rightarrow> app_db \<Rightarrow> (app_error, app_db) result" where
  "insert_run r db =
     (if \<exists>x\<in>set (ap_runs db). (rn_user x = rn_user r \<and> rn_clientRequest x = rn_clientRequest r)
           \<or> (rn_turn x = rn_turn r \<and> rn_version x = rn_version r)
           \<or> (rn_quotaLease r \<noteq> None \<and> rn_quotaLease x = rn_quotaLease r)
      then Inl (UniqueKeyViolation ''agent_run'')
      else if rn_version r \<le> 0 then Inl (ConstraintViolation ''agent_run_version_positive'')
      else Inr (db\<lparr>ap_runs := ap_runs db @ [r]\<rparr>))"

definition json_id :: "nat \<Rightarrow> json" where "json_id i = JNumber (int i)"

definition zero_counters :: run_counters where
  "zero_counters = \<lparr>rc_toolRounds = 0, rc_toolCalls = 0, rc_modelRequests = 0, rc_retries = 0, rc_repairs = 0\<rparr>"

definition assistant_message :: "nat \<Rightarrow> nat \<Rightarrow> string \<Rightarrow> int \<Rightarrow> nat \<Rightarrow> string \<Rightarrow> string \<Rightarrow> nat \<Rightarrow> int \<Rightarrow> message_row" where
  "assistant_message i conv user sequence turn model clientRequest run version =
     \<lparr>ms_id = i, ms_conversation = conv, ms_user = Some user, ms_sequence = sequence, ms_role = RoleAssistant,
      ms_status = MsgStreaming, ms_content = [], ms_clientRequest = None, ms_turn = Some turn,
      ms_model = Some model, ms_answerSchemaVersion = None, ms_answerPayload = None, ms_errorCode = None,
      ms_errorMessage = None,
      ms_metadata = JObject [(''clientRequestId'', JString (js clientRequest)), (''runId'', json_id run),
        (''answerVersion'', JNumber version)],
      ms_completedAt = None\<rparr>"

definition new_run :: "nat \<Rightarrow> nat \<Rightarrow> string \<Rightarrow> nat \<Rightarrow> string \<Rightarrow> int \<Rightarrow> agent_action \<Rightarrow> run_modes \<Rightarrow> nat \<Rightarrow> app_db \<Rightarrow> run_row" where
  "new_run i turn user msg clientRequest version action modes lease db =
     \<lparr>rn_id = i, rn_turn = turn, rn_user = user, rn_assistantMessage = msg, rn_clientRequest = clientRequest,
      rn_version = version, rn_action = action, rn_model = md_model modes, rn_requestedMode = md_requested modes,
      rn_resolvedMode = md_resolved modes, rn_webMode = md_web modes, rn_risk = md_risk modes,
      rn_status = RunRunning, rn_quotaLease = Some lease, rn_quotaStatus = Some Reserved,
      rn_settlement = SettlementPending, rn_answerPayload = None, rn_context = JObject [],
      rn_counters = zero_counters, rn_cancelRequestedAt = None, rn_errorCode = None, rn_errorMessage = None,
      rn_completedAt = None, rn_updatedAt = now db\<rparr>"

subsection \<open>Creating a run\<close>

definition new_conversation :: "initial_input \<Rightarrow> app_db \<Rightarrow> nat \<times> app_db" where
  "new_conversation inp db =
     (next_id db, (draw_id db)\<lparr>ap_conversations := ap_conversations db @
        [\<lparr>cv_id = next_id db, cv_user = in_user inp, cv_title = pg_text (conversationTitle (in_question inp)),
          cv_status = ConvActive, cv_model = Some (md_model (in_modes inp)), cv_lastMessageAt = Some (now db),
          cv_updatedAt = now db, cv_deletedAt = None\<rparr>]\<rparr>)"

definition initial_parts :: "initial_input \<Rightarrow> input_part list" where
  "initial_parts inp = (case in_parts inp of Some ps \<Rightarrow> ps | None \<Rightarrow> [TextPart (in_question inp)])"

definition question_message :: "initial_input \<Rightarrow> nat \<Rightarrow> nat \<Rightarrow> int \<Rightarrow> nat \<Rightarrow> app_db \<Rightarrow> message_row" where
  "question_message inp i conv sequence turn db =
     \<lparr>ms_id = i, ms_conversation = conv, ms_user = Some (in_user inp), ms_sequence = sequence, ms_role = RoleUser,
      ms_status = MsgCompleted, ms_content = pg_text (in_question inp),
      ms_clientRequest = Some (in_clientRequest inp), ms_turn = Some turn, ms_model = None,
      ms_answerSchemaVersion = None, ms_answerPayload = None, ms_errorCode = None, ms_errorMessage = None,
      ms_metadata = JObject [(''inputParts'', input_parts_json (initial_parts inp))],
      ms_completedAt = Some (now db)\<rparr>"

text \<open>The rows of a new turn: its two messages, the turn and the run.\<close>

definition insert_initial :: "initial_input \<Rightarrow> nat \<Rightarrow> app_db \<Rightarrow> (app_error, create_result \<times> app_db) result" where
  "insert_initial inp conv db =
     (let sequence = last_sequence conv db + 1; ordinal = last_ordinal conv db + 1;
          userMessage = next_id db; assistantMessage = userMessage + 1; turn = userMessage + 2; run = userMessage + 3;
          db0 = db\<lparr>ap_quota := (ap_quota db)\<lparr>q_next := next_id db + 4\<rparr>\<rparr>
      in bindR (insert_message (question_message inp userMessage conv sequence turn db) db0) (\<lambda>db1.
         bindR (insert_message (assistant_message assistantMessage conv (in_user inp) (sequence + 1) turn
             (md_model (in_modes inp)) (in_clientRequest inp) run 1) db1) (\<lambda>db2.
         bindR (insert_turn \<lparr>tn_id = turn, tn_conversation = conv, tn_userMessage = userMessage,
             tn_ordinal = ordinal, tn_selectedRun = None, tn_updatedAt = now db\<rparr> db2) (\<lambda>db3.
         bindR (insert_run (new_run run turn (in_user inp) assistantMessage (in_clientRequest inp) 1 ActInitial
             (in_modes inp) (in_lease inp) db) db3) (\<lambda>db4.
           Inr (RunCreated \<lparr>cr_run = run, cr_turn = turn, cr_conversation = conv, cr_userMessage = userMessage,
                 cr_assistantMessage = assistantMessage, cr_version = 1, cr_question = in_question inp,
                 cr_parts = initial_parts inp, cr_action = ActInitial\<rparr>,
               touch_conversation conv db4))))))"

definition createInitial :: "run_platform \<Rightarrow> initial_input \<Rightarrow> app_db \<Rightarrow> (app_error, create_result \<times> app_db) result" where
  "createInitial pf inp db =
     bindR (assertAccountWritable (in_user inp) db) (\<lambda>_.
     case findRunByClientRequest pf (in_user inp) (in_clientRequest inp) db of
       Some r \<Rightarrow> Inr (r, db)
     | None \<Rightarrow>
         bindR (case in_conversation inp of
             Some c \<Rightarrow> if open_conversation c (in_user inp) db then Inr (c, db)
                      else Inl (RunStoreError ''CONVERSATION_NOT_FOUND'')
           | None \<Rightarrow> Inr (new_conversation inp db)) (\<lambda>(conv, db1).
         case findActiveRun conv db1 of
           Some busy \<Rightarrow> Inr (RunBusy (rn_id busy), db1)
         | None \<Rightarrow> insert_initial inp conv db1))"

definition actionAllowed :: "agent_action \<Rightarrow> run_status option \<Rightarrow> bool" where
  "actionAllowed action latest \<longleftrightarrow>
     (action = ActRetry \<and> (latest = Some RunFailed \<or> latest = Some RunCancelled))
     \<or> (action = ActContinue \<and> latest = Some RunIncomplete)
     \<or> (action = ActRegenerate \<and> latest = Some RunCompleted)"

definition insert_action :: "run_platform \<Rightarrow> action_input \<Rightarrow> turn_row \<Rightarrow> message_row \<Rightarrow> app_db \<Rightarrow>
   (app_error, create_result \<times> app_db) result" where
  "insert_action pf inp tn question db =
     (let conv = tn_conversation tn; sequence = last_sequence conv db + 1;
          version = last_version (tn_id tn) db + 1;
          assistantMessage = next_id db; run = assistantMessage + 1;
          db0 = db\<lparr>ap_quota := (ap_quota db)\<lparr>q_next := next_id db + 2\<rparr>\<rparr>
      in bindR (insert_message (assistant_message assistantMessage conv (ac_user inp) sequence (tn_id tn)
             (md_model (ac_modes inp)) (ac_clientRequest inp) run version) db0) (\<lambda>db1.
         bindR (insert_run (new_run run (tn_id tn) (ac_user inp) assistantMessage (ac_clientRequest inp) version
             (ac_action inp) (ac_modes inp) (ac_lease inp) db) db1) (\<lambda>db2.
           Inr (RunCreated \<lparr>cr_run = run, cr_turn = tn_id tn, cr_conversation = conv,
                 cr_userMessage = tn_userMessage tn, cr_assistantMessage = assistantMessage, cr_version = version,
                 cr_question = ms_content question,
                 cr_parts = storedInputParts (rp_text pf) (rp_url pf) (ms_metadata question) (ms_content question),
                 cr_action = ac_action inp\<rparr>, db2))))"

text \<open>The turn with the message of its question, when the conversation is the user's.\<close>

definition owned_turn :: "nat \<Rightarrow> string \<Rightarrow> app_db \<Rightarrow> (turn_row \<times> message_row) option" where
  "owned_turn t user db =
     Option.bind (turn_of db t) (\<lambda>tn. Option.bind (message_of db (tn_userMessage tn)) (\<lambda>m.
       if open_conversation (tn_conversation tn) user db then Some (tn, m) else None))"

definition createAction :: "run_platform \<Rightarrow> action_input \<Rightarrow> app_db \<Rightarrow> (app_error, create_result \<times> app_db) result" where
  "createAction pf inp db =
     bindR (assertAccountWritable (ac_user inp) db) (\<lambda>_.
     case findRunByClientRequest pf (ac_user inp) (ac_clientRequest inp) db of
       Some r \<Rightarrow> Inr (r, db)
     | None \<Rightarrow>
         (case owned_turn (ac_turn inp) (ac_user inp) db of
            None \<Rightarrow> Inl (RunStoreError ''TURN_NOT_FOUND'')
          | Some (tn, m) \<Rightarrow>
              (case findActiveRun (tn_conversation tn) db of
                 Some busy \<Rightarrow> Inr (RunBusy (rn_id busy), db)
               | None \<Rightarrow>
                   if actionAllowed (ac_action inp) (map_option rn_status (latest_run (tn_id tn) db))
                   then insert_action pf inp tn m db
                   else Inl (RunStoreError ''ACTION_NOT_ALLOWED''))))"

end
