(* ===== verification/Run_Settlement.thy ===== *)
theory Run_Settlement
  imports Run_Store
begin

section \<open>Ending a run\<close>

text \<open>
  The rest of \<open>RunStore\<close> (\<open>complete\<close>, \<open>fail\<close>, \<open>requestCancellation\<close>, \<open>recordToolCall\<close>, the abort
  controllers) of \<open>src/server/agent/run-store.ts\<close>, \<open>settleAnswerQuotaInTransaction\<close> of
  \<open>src/server/agent/run-settlement.ts\<close>, and the recovery of interrupted runs and orphaned
  reservations in \<open>src/server/agent/retention.ts\<close>.
\<close>

subsection \<open>The answer quota of a run\<close>

definition expected_quota :: "run_status \<Rightarrow> reservation_status" where
  "expected_quota status = (if status = RunCompleted then Committed else Released)"

definition settleAnswerQuota :: "collations \<Rightarrow> nat option \<Rightarrow> string \<Rightarrow> run_status \<Rightarrow> string \<Rightarrow> app_db \<Rightarrow>
   (app_error, reservation_status option \<times> app_db) result" where
  "settleAnswerQuota col lease user status reason db =
     (case lease of
        None \<Rightarrow> Inr (None, db)
      | Some l \<Rightarrow>
          let expected = expected_quota status in
          (case transitionQuotaReservation col \<lparr>ti_leaseId = l, ti_actor = Some user,
                  ti_reason = if expected = Committed then None else Some reason\<rparr> expected (ap_quota db) of
             Inl e \<Rightarrow> Inl (QuotaFailure e)
           | Inr (rv, q) \<Rightarrow>
               if rv_resource rv \<noteq> Answer \<or> rv_status rv \<noteq> expected
               then Inl (InternalError ''Agent answer quota did not become the expected status.'')
               else Inr (Some expected, db\<lparr>ap_quota := q\<rparr>)))"

subsection \<open>Completing\<close>

record complete_input =
  cp_user :: string
  cp_run :: created_run
  cp_answer :: answer_v3
  cp_modes :: run_modes
  cp_webSearched :: bool
  cp_evidence :: registry
  cp_usedIds :: "js_string list"
  cp_links :: "verified_link list"
  cp_artifacts :: "artifact_part list"
  cp_context :: "json option"
  cp_incomplete :: bool
  cp_counters :: run_counters

definition complete_status :: "complete_input \<Rightarrow> run_status" where
  "complete_status inp = (if cp_incomplete inp then RunIncomplete else RunCompleted)"

definition visible_evidence :: "complete_input \<Rightarrow> js_string list" where
  "visible_evidence inp =
     filter (\<lambda>i. case reg_get (cp_evidence inp) i of Some e \<Rightarrow> re_visible e | None \<Rightarrow> False)
       (filter (reg_has (cp_evidence inp)) (js_unique (cp_usedIds inp)))"

definition citation_numbers :: "js_string list \<Rightarrow> (js_string \<times> nat) list" where
  "citation_numbers ids = map (\<lambda>(n, i). (i, n + 1)) (enumerate 0 ids)"

definition complete_content :: "complete_input \<Rightarrow> js_string" where
  "complete_content inp = renderAnswerV3 (cp_answer inp) (citation_numbers (visible_evidence inp))"

definition complete_metadata :: "complete_input \<Rightarrow> json" where
  "complete_metadata inp = JObject
     ((case cp_context inp of Some j \<Rightarrow> [(''context'', j)] | None \<Rightarrow> []) @
     [(''riskLevel'', JString (name_of risk_names (md_risk (cp_modes inp)))),
      (''missingInputs'', texts (an_missingInputs (cp_answer inp))),
      (''webSearched'', JBool (cp_webSearched inp)),
      (''runId'', json_id (cr_run (cp_run inp))), (''turnId'', json_id (cr_turn (cp_run inp))),
      (''answerVersion'', JNumber (cr_version (cp_run inp))),
      (''requestedMode'', JString (name_of requested_names (md_requested (cp_modes inp)))),
      (''resolvedMode'', JString (name_of resolved_names (md_resolved (cp_modes inp)))),
      (''webMode'', JString (name_of web_names (md_web (cp_modes inp)))),
      (''verifiedLinks'', JArray (map link_json (cp_links inp))),
      (''artifacts'', JArray (map artifact_json (cp_artifacts inp))),
      (''incomplete'', JBool (cp_incomplete inp))])"

text \<open>\<open>Date.prototype.toISOString\<close> for the years 0 to 9999.\<close>

definition iso_date :: "timestamp \<Rightarrow> js_string" where
  "iso_date t =
     (let d = day_of_time t; r = t - d * ms_per_day;
          pad = (\<lambda>k n. pad_start k (decimal (nat n)))
      in js (pad 4 (year_from_day d) @ ''-'' @ pad 2 (month_from_day d + 1) @ ''-'' @ pad 2 (date_from_day d)
           @ ''T'' @ pad 2 (r div 3600000) @ '':'' @ pad 2 (r div 60000 mod 60) @ '':''
           @ pad 2 (r div 1000 mod 60) @ ''.'' @ pad 3 (r mod 1000) @ ''Z''))"

definition citation_of :: "nat \<Rightarrow> registered_evidence \<Rightarrow> citation_row" where
  "citation_of i e =
     (let c = ge_citation (re_evidence e) in
      \<lparr>ct_id = i, ct_web = js_startsWith (re_source e) (js ''web:''), ct_title = pg_text (sc_title c),
       ct_url = Some (pg_text (sc_url c)), ct_quote = pg_text (ge_excerpt (re_evidence e)),
       ct_license = Some (plain_name license_names (sc_license c)),
       ct_trustTier = Some (plain_name tier_names (re_tier e)),
       ct_reviewStatus = Some (plain_name review_names (re_review e)),
       ct_locator = JObject [(''pageOrSection'', case sc_pageOrSection c of None \<Rightarrow> JNull | Some s \<Rightarrow> JString s)],
       ct_metadata = JObject [(''publisher'', JString (sc_publisher c)),
         (''fetchedAt'', JString (iso_date (sc_fetchedAt c))), (''sourceId'', JString (re_id e)),
         (''originalSourceId'', JString (re_source e)), (''runtimeValidated'', JBool (re_validated e))]\<rparr>)"

definition add_citation :: "nat \<Rightarrow> nat \<Rightarrow> registered_evidence \<Rightarrow> app_db \<Rightarrow> app_db" where
  "add_citation msg ordinal e db =
     (draw_id db)\<lparr>ap_citations := ap_citations db @ [citation_of (next_id db) e],
        ap_messageCitations := ap_messageCitations db
          @ [\<lparr>mc_message = msg, mc_citation = next_id db, mc_ordinal = ordinal\<rparr>]\<rparr>"

fun add_citations :: "registry \<Rightarrow> nat \<Rightarrow> nat \<Rightarrow> js_string list \<Rightarrow> app_db \<Rightarrow> app_db" where
  "add_citations rg msg n [] db = db"
| "add_citations rg msg n (i # ids) db =
     add_citations rg msg (n + 1) ids
       (case reg_get rg i of
          Some e \<Rightarrow> if re_visible e then add_citation msg n e db else db
        | None \<Rightarrow> db)"

definition complete_message :: "complete_input \<Rightarrow> app_db \<Rightarrow> message_row \<Rightarrow> message_row" where
  "complete_message inp db m =
     m\<lparr>ms_content := pg_text (complete_content inp),
       ms_status := (if cp_incomplete inp then MsgIncomplete else MsgCompleted),
       ms_answerSchemaVersion := Some ''openvac.answer.v3'', ms_answerPayload := Some (answer_json (cp_answer inp)),
       ms_metadata := complete_metadata inp, ms_completedAt := Some (now db)\<rparr>"

definition complete_run :: "complete_input \<Rightarrow> reservation_status option \<Rightarrow> app_db \<Rightarrow> run_row \<Rightarrow> run_row" where
  "complete_run inp quota db r =
     r\<lparr>rn_status := complete_status inp, rn_quotaStatus := quota, rn_settlement := SettlementCompleted,
       rn_answerPayload := Some (answer_json (cp_answer inp)), rn_context := (case cp_context inp of Some j \<Rightarrow> j | None \<Rightarrow> JObject []),
       rn_counters := cp_counters inp, rn_completedAt := Some (now db)\<rparr>"

text \<open>The writes of a completion, up to the settlement of the quota.\<close>

definition complete_rows :: "complete_input \<Rightarrow> app_db \<Rightarrow> app_db" where
  "complete_rows inp db =
     (let run = cp_run inp;
          db1 = update_message (cr_assistantMessage run) (complete_message inp db) db;
          db2 = add_citations (cp_evidence inp) (cr_assistantMessage run) 1 (visible_evidence inp) db1;
          db3 = (if cp_incomplete inp then db2
                 else update_turn (cr_turn run) (\<lambda>t. t\<lparr>tn_selectedRun := Some (cr_run run)\<rparr>) db2)
      in touch_conversation (cr_conversation run) db3)"

text \<open>The check of a counter column holds for every update of the row.\<close>

definition counters_ok :: "run_counters \<Rightarrow> bool" where
  "counters_ok c \<longleftrightarrow> 0 \<le> rc_toolRounds c \<and> 0 \<le> rc_toolCalls c \<and> 0 \<le> rc_modelRequests c"

definition complete :: "run_platform \<Rightarrow> complete_input \<Rightarrow> app_db \<Rightarrow> (app_error, js_string \<times> app_db) result" where
  "complete pf inp db =
     bindR (assertAccountWritable (cp_user inp) db) (\<lambda>_.
     case run_of db (cr_run (cp_run inp)) of
       None \<Rightarrow> Inl (RunStoreError ''RUN_NOT_COMPLETABLE'')
     | Some current \<Rightarrow>
         if \<not> run_active (rn_status current) \<or> rn_cancelRequestedAt current \<noteq> None
         then Inl (RunStoreError ''RUN_NOT_COMPLETABLE'')
         else case rn_quotaLease current of
           None \<Rightarrow> Inl (RunStoreError ''ANSWER_QUOTA_LEASE_MISSING'')
         | Some lease \<Rightarrow>
             bindR (settleAnswerQuota (rp_collations pf) (Some lease) (cp_user inp) (complete_status inp)
                 ''agent_run_incomplete'' (complete_rows inp db)) (\<lambda>(quota, db1).
             if \<not> counters_ok (cp_counters inp) then Inl (ConstraintViolation ''agent_run_tool_count_non_negative'')
             else Inr (complete_content inp,
                 update_run (cr_run (cp_run inp)) (complete_run inp quota db) db1)))"

subsection \<open>Failing\<close>

record fail_input =
  fi_run :: created_run
  fi_cancelled :: bool
  fi_code :: string
  fi_message :: js_string
  fi_context :: "json option"
  fi_counters :: "run_counters option"

definition fail_status :: "fail_input \<Rightarrow> run_status" where
  "fail_status inp = (if fi_cancelled inp then RunCancelled else RunFailed)"

definition cancelled_content :: js_string where
  "cancelled_content = [26412, 27425, 22238, 31572, 24050, 21462, 28040, 65292, 26410, 25187, 38500, 25104,
     21151, 22238, 31572, 39069, 24230, 12290]"

definition failed_content :: js_string where
  "failed_content = [26412, 27425, 22238, 31572, 26410, 23436, 25104, 65292, 21487, 37325, 35797, 21518,
     37325, 26032, 29983, 25104, 12290]"

definition fail_run :: "fail_input \<Rightarrow> app_db \<Rightarrow> run_row \<Rightarrow> run_row" where
  "fail_run inp db r =
     r\<lparr>rn_status := fail_status inp, rn_errorCode := Some (fi_code inp), rn_errorMessage := Some (pg_text (fi_message inp)),
       rn_context := (case fi_context inp of Some j \<Rightarrow> j | None \<Rightarrow> JObject []),
       rn_counters := (case fi_counters inp of Some c \<Rightarrow> c | None \<Rightarrow> rn_counters r),
       rn_completedAt := Some (now db)\<rparr>"

definition ended_metadata :: "nat \<Rightarrow> nat \<Rightarrow> int \<Rightarrow> json" where
  "ended_metadata run turn version =
     JObject [(''runId'', json_id run), (''turnId'', json_id turn), (''answerVersion'', JNumber version)]"

definition fail_message :: "fail_input \<Rightarrow> app_db \<Rightarrow> message_row \<Rightarrow> message_row" where
  "fail_message inp db m =
     m\<lparr>ms_status := (if fi_cancelled inp then MsgCancelled else MsgFailed),
       ms_content := (if fi_cancelled inp then cancelled_content else failed_content),
       ms_errorCode := Some (fi_code inp), ms_errorMessage := Some (pg_text (fi_message inp)), ms_completedAt := Some (now db),
       ms_metadata := ended_metadata (cr_run (fi_run inp)) (cr_turn (fi_run inp)) (cr_version (fi_run inp))\<rparr>"

definition settle_run :: "reservation_status option \<Rightarrow> run_row \<Rightarrow> run_row" where
  "settle_run quota r = r\<lparr>rn_quotaStatus := quota, rn_settlement := SettlementCompleted\<rparr>"

definition fail_scope :: "fail_input \<Rightarrow> string \<Rightarrow> run_scope" where
  "fail_scope inp user = \<lparr>sc_run = cr_run (fi_run inp), sc_user = user, sc_conversation = cr_conversation (fi_run inp),
     sc_turn = cr_turn (fi_run inp), sc_message = cr_assistantMessage (fi_run inp)\<rparr>"

definition fail_reason :: "fail_input \<Rightarrow> string" where
  "fail_reason inp = (if fi_cancelled inp then ''agent_run_cancelled'' else ''agent_run_failed'')"

text \<open>A run that has already ended.\<close>

definition already_failed :: "run_row option \<Rightarrow> (app_error, reservation_status option) result" where
  "already_failed settled =
     (case settled of
        Some r \<Rightarrow> if (rn_status r = RunFailed \<or> rn_status r = RunCancelled) \<and> rn_settlement r = SettlementCompleted
             \<and> (rn_quotaStatus r = Some Released \<or> rn_quotaStatus r = None)
           then Inr (rn_quotaStatus r) else Inl (RunStoreError ''RUN_NOT_FAILABLE'')
      | None \<Rightarrow> Inl (RunStoreError ''RUN_NOT_FAILABLE''))"

definition fail :: "run_platform \<Rightarrow> fail_input \<Rightarrow> app_db \<Rightarrow> (app_error, reservation_status option \<times> app_db) result" where
  "fail pf inp db =
     (let i = cr_run (fi_run inp) in
      case find (\<lambda>r. rn_id r = i \<and> run_active (rn_status r)) (ap_runs db) of
        None \<Rightarrow> bindR (already_failed (run_of db i)) (\<lambda>quota. Inr (quota, db))
      | Some r \<Rightarrow>
          if \<not> counters_ok (case fi_counters inp of Some c \<Rightarrow> c | None \<Rightarrow> rn_counters r)
          then Inl (ConstraintViolation ''agent_run_tool_count_non_negative'')
          else
          bindR (settleAnswerQuota (rp_collations pf) (rn_quotaLease r) (rn_user r) (fail_status inp)
              (fail_reason inp) (update_run i (fail_run inp db) db)) (\<lambda>(quota, db1).
          if quota = Some Committed then Inl (RunStoreError ''ANSWER_QUOTA_RELEASE_FAILED'')
          else
            bindR (cleanupRunArtifacts (fail_scope inp (rn_user r)) db1) (\<lambda>db2.
            Inr (quota, update_message (cr_assistantMessage (fi_run inp)) (fail_message inp db)
                (update_run i (settle_run quota) db2)))))"

subsection \<open>Cancelling\<close>

datatype cancellation = CancelAccepted | CancelFinished | CancelNotFound

definition requestCancellation :: "string \<Rightarrow> nat \<Rightarrow> app_db \<Rightarrow> cancellation \<times> app_db" where
  "requestCancellation user i db =
     (case find (\<lambda>r. rn_id r = i \<and> rn_user r = user \<and> turn_of db (rn_turn r) \<noteq> None) (ap_runs db) of
        None \<Rightarrow> (CancelNotFound, db)
      | Some r \<Rightarrow>
          if \<not> run_active (rn_status r) then (CancelFinished, db)
          else (CancelAccepted, update_run i (\<lambda>r. r\<lparr>rn_cancelRequestedAt := Some (now db)\<rparr>) db))"

text \<open>
  The abort controllers of the process: the controller of a run, if any, and those aborted.
  A controller unregisters itself only while it is the one registered.
\<close>

record controllers =
  co_active :: "nat \<Rightarrow> nat option"
  co_aborted :: "nat list"

definition registerController :: "nat \<Rightarrow> nat \<Rightarrow> controllers \<Rightarrow> controllers" where
  "registerController run c s = s\<lparr>co_active := (co_active s)(run \<mapsto> c)\<rparr>"

definition unregisterController :: "nat \<Rightarrow> nat \<Rightarrow> controllers \<Rightarrow> controllers" where
  "unregisterController run c s =
     (if co_active s run = Some c then s\<lparr>co_active := (co_active s)(run := None)\<rparr> else s)"

definition cancelRun :: "string \<Rightarrow> nat \<Rightarrow> controllers \<times> app_db \<Rightarrow> cancellation \<times> controllers \<times> app_db" where
  "cancelRun user i st =
     (let (r, db) = requestCancellation user i (snd st) in
      (r, if r = CancelAccepted then
            (case co_active (fst st) i of
               Some c \<Rightarrow> (fst st)\<lparr>co_aborted := co_aborted (fst st) @ [c]\<rparr> | None \<Rightarrow> fst st)
          else fst st, db))"

subsection \<open>Tool calls\<close>

record tool_input =
  to_run :: nat
  to_round :: int
  to_sequence :: int
  to_callId :: string
  to_name :: string
  to_argumentsDigest :: string
  to_resultDigest :: "string option"
  to_citationIds :: "js_string list option"
  to_completed :: bool
  to_latencyMs :: int
  to_errorCode :: "string option"

definition tool_call_lifetime :: int where
  "tool_call_lifetime = 30 * 24 * 60 * 60 * 1000"

definition recordToolCall :: "tool_input \<Rightarrow> app_db \<Rightarrow> (app_error, app_db) result" where
  "recordToolCall inp db =
     (let t = \<lparr>tc_id = next_id db, tc_run = to_run inp, tc_round = to_round inp, tc_sequence = to_sequence inp,
          tc_providerCall = to_callId inp, tc_toolName = to_name inp, tc_argumentsDigest = to_argumentsDigest inp,
          tc_resultDigest = to_resultDigest inp,
          tc_citationIds = (case to_citationIds inp of Some xs \<Rightarrow> xs | None \<Rightarrow> []),
          tc_completed = to_completed inp, tc_idempotencyKey = (to_run inp, to_callId inp),
          tc_latencyMs = to_latencyMs inp, tc_errorCode = to_errorCode inp,
          tc_startedAt = now db - to_latencyMs inp, tc_completedAt = now db,
          tc_expiresAt = now db + tool_call_lifetime\<rparr>
      in if \<exists>x\<in>set (ap_toolCalls db). (tc_run x = tc_run t \<and> tc_sequence x = tc_sequence t)
             \<or> tc_idempotencyKey x = tc_idempotencyKey t
         then Inl (UniqueKeyViolation ''agent_tool_call'')
         else if tc_round t \<le> 0 \<or> tc_sequence t \<le> 0 then Inl (ConstraintViolation ''agent_tool_call'')
         else if run_of db (to_run inp) = None then Inl (ConstraintViolation ''agent_tool_call_run_id'')
         else Inr ((draw_id db)\<lparr>ap_toolCalls := ap_toolCalls db @ [t]\<rparr>))"

definition cleanupExpiredAgentToolCalls :: "app_db \<Rightarrow> nat \<times> app_db" where
  "cleanupExpiredAgentToolCalls db =
     (length (filter (\<lambda>t. tc_expiresAt t \<le> now db) (ap_toolCalls db)),
      db\<lparr>ap_toolCalls := filter (\<lambda>t. \<not> tc_expiresAt t \<le> now db) (ap_toolCalls db)\<rparr>)"

end
