(* ===== verification/Run_Recovery.thy ===== *)
theory Run_Recovery
  imports Run_Settlement Quota_Service
begin

section \<open>Recovering interrupted runs\<close>

text \<open>
  \<open>recoverStaleAgentRuns\<close> of \<open>src/server/agent/retention.ts\<close>: runs that are still active after the
  stale threshold are failed, ended runs whose settlement is pending are settled, and
  reservations without a run are released. Each candidate has its own transaction, which reads
  the run again; one that fails is rolled back and counted as pending. The environment is a map
  from names to values.
\<close>

subsection \<open>The stale threshold\<close>

definition default_stale_run_ms :: int where "default_stale_run_ms = 210000"
definition max_recovery_batch :: nat where "max_recovery_batch = 500"

definition parse_env :: "(string \<Rightarrow> string option) \<Rightarrow> string \<Rightarrow> int option" where
  "parse_env env name = parseInt10 (case env name of Some s \<Rightarrow> s | None \<Rightarrow> [])"

definition positiveEnvironmentInteger :: "(string \<Rightarrow> string option) \<Rightarrow> string \<Rightarrow> int \<Rightarrow> int" where
  "positiveEnvironmentInteger env name fallback =
     (case parse_env env name of
        Some v \<Rightarrow> if is_safe_integer v \<and> 0 < v then v else fallback
      | None \<Rightarrow> fallback)"

definition staleRunThresholdMs :: "(string \<Rightarrow> string option) \<Rightarrow> int" where
  "staleRunThresholdMs env =
     (let longestRunTimeout = max (positiveEnvironmentInteger env ''AGENT_AUTO_TIMEOUT_MS'' 60000)
            (positiveEnvironmentInteger env ''AGENT_DEEP_TIMEOUT_MS'' 180000);
          minimum = max default_stale_run_ms (longestRunTimeout + 30000)
      in case parse_env env ''AGENT_STALE_RUN_MS'' of
           Some configured \<Rightarrow> if minimum \<le> configured then configured else minimum
         | None \<Rightarrow> minimum)"

subsection \<open>One run\<close>

record recovery_scope =
  rs_user :: "string option"
  rs_conversation :: "nat option"

record candidate =
  cd_run :: nat
  cd_message :: nat
  cd_conversation :: nat
  cd_turn :: nat
  cd_version :: int

definition was_interrupted :: "timestamp \<Rightarrow> run_row \<Rightarrow> bool" where
  "was_interrupted staleBefore r \<longleftrightarrow> run_active (rn_status r) \<and> rn_updatedAt r \<le> staleBefore"

definition needs_settlement :: "run_row \<Rightarrow> bool" where
  "needs_settlement r \<longleftrightarrow> \<not> run_active (rn_status r) \<and> rn_settlement r = SettlementPending"

definition stale_run :: "timestamp \<Rightarrow> run_row \<Rightarrow> bool" where
  "stale_run staleBefore r \<longleftrightarrow> was_interrupted staleBefore r \<or> needs_settlement r"

definition status_name :: "run_status \<Rightarrow> string" where
  "status_name s = (case s of RunPending \<Rightarrow> ''pending'' | RunRunning \<Rightarrow> ''running'' | RunCompleted \<Rightarrow> ''completed''
     | RunIncomplete \<Rightarrow> ''incomplete'' | RunFailed \<Rightarrow> ''failed'' | RunCancelled \<Rightarrow> ''cancelled'')"

definition interrupted_message :: string where
  "interrupted_message = ''Agent process ended before the run reached a terminal state.''"

definition interrupted_content :: js_string where
  "interrupted_content = [19978, 27425, 29983, 25104, 22240, 26381, 21153, 36827, 31243, 20013, 26029, 32780,
     26410, 23436, 25104, 65292, 39069, 24230, 24050, 24402, 36824, 65292, 21487, 37325,
     35797, 21518, 37325, 26032, 29983, 25104, 12290]"

definition recover_row :: "bool \<Rightarrow> run_status \<Rightarrow> reservation_status option \<Rightarrow> timestamp \<Rightarrow> run_row \<Rightarrow> run_row" where
  "recover_row interrupted status quota t r =
     r\<lparr>rn_status := status, rn_quotaStatus := quota, rn_settlement := SettlementCompleted,
       rn_errorCode := (if interrupted then Some ''PROCESS_INTERRUPTED'' else rn_errorCode r),
       rn_errorMessage := (if interrupted then Some (js interrupted_message) else rn_errorMessage r),
       rn_completedAt := Some t\<rparr>"

definition interrupt_message :: "candidate \<Rightarrow> timestamp \<Rightarrow> message_row \<Rightarrow> message_row" where
  "interrupt_message c t m =
     m\<lparr>ms_status := MsgFailed, ms_content := interrupted_content, ms_errorCode := Some ''PROCESS_INTERRUPTED'',
       ms_errorMessage := Some (js interrupted_message), ms_completedAt := Some t,
       ms_metadata := ended_metadata (cd_run c) (cd_turn c) (cd_version c)\<rparr>"

definition recover_run :: "run_platform \<Rightarrow> timestamp \<Rightarrow> candidate \<Rightarrow> app_db \<Rightarrow> (app_error, bool \<times> app_db) result" where
  "recover_run pf staleBefore c db =
     (case run_of db (cd_run c) of
        None \<Rightarrow> Inr (False, db)
      | Some current \<Rightarrow>
          if \<not> stale_run staleBefore current then Inr (False, db)
          else
            let interrupted = was_interrupted staleBefore current;
                status = (if interrupted then RunFailed else rn_status current);
                reason = (if interrupted then ''agent_run_process_interrupted''
                          else ''agent_run_'' @ status_name status @ ''_recovery'')
            in bindR (settleAnswerQuota (rp_collations pf) (rn_quotaLease current) (rn_user current) status reason db)
                 (\<lambda>(quota, db1).
               bindR (if status = RunFailed \<or> status = RunCancelled
                 then cleanupRunArtifacts \<lparr>sc_run = cd_run c, sc_user = rn_user current,
                        sc_conversation = cd_conversation c, sc_turn = cd_turn c, sc_message = cd_message c\<rparr> db1
                 else Inr db1) (\<lambda>db2.
               let db3 = update_run (cd_run c) (recover_row interrupted status quota (now db)) db2
               in Inr (True, if interrupted then update_message (cd_message c) (interrupt_message c (now db)) db3
                             else db3))))"

definition candidate_of :: "app_db \<Rightarrow> run_row \<Rightarrow> candidate" where
  "candidate_of db r =
     \<lparr>cd_run = rn_id r, cd_message = rn_assistantMessage r,
      cd_conversation = (case turn_of db (rn_turn r) of Some t \<Rightarrow> tn_conversation t | None \<Rightarrow> 0),
      cd_turn = rn_turn r, cd_version = rn_version r\<rparr>"

definition in_recovery_scope :: "recovery_scope \<Rightarrow> app_db \<Rightarrow> run_row \<Rightarrow> bool" where
  "in_recovery_scope sc db r \<longleftrightarrow> turn_of db (rn_turn r) \<noteq> None
     \<and> (case rs_user sc of Some u \<Rightarrow> u = [] \<or> rn_user r = u | None \<Rightarrow> True)
     \<and> (case rs_conversation sc of Some c \<Rightarrow> run_conversation db r = Some c | None \<Rightarrow> True)"

text \<open>\<open>ORDER BY updated_at, id\<close>.\<close>

definition recovery_order :: "run_row \<Rightarrow> run_row \<Rightarrow> bool" where
  "recovery_order x y \<longleftrightarrow> rn_updatedAt x < rn_updatedAt y \<or> (rn_updatedAt x = rn_updatedAt y \<and> rn_id x \<le> rn_id y)"

definition recovery_candidates :: "recovery_scope \<Rightarrow> timestamp \<Rightarrow> app_db \<Rightarrow> candidate list" where
  "recovery_candidates sc staleBefore db =
     map (candidate_of db) (take max_recovery_batch (sort_by recovery_order
       (filter (\<lambda>r. stale_run staleBefore r \<and> in_recovery_scope sc db r) (ap_runs db))))"

subsection \<open>One reservation\<close>

record orphan =
  or_lease :: nat
  or_user :: string
  or_resource :: quota_resource

definition is_orphan :: "recovery_scope \<Rightarrow> timestamp \<Rightarrow> app_db \<Rightarrow> ledger_row \<Rightarrow> bool" where
  "is_orphan sc staleBefore db r \<longleftrightarrow> ld_status r = Reserved \<and> ld_reservedAt r \<le> staleBefore
     \<and> ((ld_resource r = Answer \<and> (\<forall>x\<in>set (ap_runs db). rn_quotaLease x \<noteq> Some (ld_leaseId r)))
        \<or> ld_resource r = ModelAttempt)
     \<and> (case rs_user sc of Some u \<Rightarrow> u = [] \<or> ld_actor r = u | None \<Rightarrow> True)"

definition orphan_of :: "ledger_row \<Rightarrow> orphan" where
  "orphan_of r = \<lparr>or_lease = ld_leaseId r, or_user = ld_actor r, or_resource = ld_resource r\<rparr>"

definition orphaned_reservations :: "recovery_scope \<Rightarrow> timestamp \<Rightarrow> app_db \<Rightarrow> orphan list" where
  "orphaned_reservations sc staleBefore db =
     take max_recovery_batch (sort_by (\<lambda>x y. or_lease x \<le> or_lease y)
       (js_unique (map orphan_of (filter (is_orphan sc staleBefore db) (q_ledger (ap_quota db))))))"

definition release_orphan :: "run_platform \<Rightarrow> orphan \<Rightarrow> app_db \<Rightarrow> (app_error, bool \<times> app_db) result" where
  "release_orphan pf x db =
     (case transitionQuotaReservation (rp_collations pf) \<lparr>ti_leaseId = or_lease x, ti_actor = Some (or_user x),
             ti_reason = Some (if or_resource x = Answer then ''agent_run_never_persisted''
                               else ''model_attempt_never_committed'')\<rparr> Released (ap_quota db) of
        Inl e \<Rightarrow> Inl (QuotaFailure e)
      | Inr (rv, q) \<Rightarrow>
          if rv_resource rv \<noteq> or_resource x \<or> rv_status rv \<noteq> Released
          then Inl (InternalError ''Orphaned run quota was not released.'')
          else Inr (True, db\<lparr>ap_quota := q\<rparr>))"

subsection \<open>The pass\<close>

record recovery_state =
  rv_recovered :: nat
  rv_pending :: nat
  rv_db :: app_db

definition recovery_turn :: "(app_db \<Rightarrow> (app_error, bool \<times> app_db) result) \<Rightarrow> recovery_state \<Rightarrow> recovery_state" where
  "recovery_turn m st =
     (case m (rv_db st) of
        Inl _ \<Rightarrow> st\<lparr>rv_pending := rv_pending st + 1\<rparr>
      | Inr (done, db) \<Rightarrow> st\<lparr>rv_recovered := rv_recovered st + (if done then 1 else 0), rv_db := db\<rparr>)"

definition recoverStaleAgentRuns :: "run_platform \<Rightarrow> (string \<Rightarrow> string option) \<Rightarrow> recovery_scope \<Rightarrow> app_db \<Rightarrow>
   recovery_state" where
  "recoverStaleAgentRuns pf env sc db =
     (let staleBefore = now db - staleRunThresholdMs env;
          st1 = fold (\<lambda>c. recovery_turn (recover_run pf staleBefore c)) (recovery_candidates sc staleBefore db)
                  \<lparr>rv_recovered = 0, rv_pending = 0, rv_db = db\<rparr>
      in fold (\<lambda>x. recovery_turn (release_orphan pf x)) (orphaned_reservations sc staleBefore (rv_db st1)) st1)"

definition lookupClientRequest :: "run_platform \<Rightarrow> (string \<Rightarrow> string option) \<Rightarrow> string \<Rightarrow> string \<Rightarrow> app_db \<Rightarrow>
   create_result option \<times> app_db" where
  "lookupClientRequest pf env user clientRequest db =
     (let db1 = rv_db (recoverStaleAgentRuns pf env \<lparr>rs_user = Some user, rs_conversation = None\<rparr> db)
      in (findRunByClientRequest pf user clientRequest db1, db1))"

end
