(* ===== verification/Run_Frame.thy ===== *)
theory Run_Frame
  imports Run_Recovery Storage_Artifacts
begin

section \<open>What storage transactions leave alone\<close>

text \<open>
  No transaction of the storage code writes the conversation tables, the runs, the quota tables
  or the clock; ids are only drawn. Together with the lemmas on settled leases this is what the
  invariant of the runs needs to know of the other components.
\<close>

definition run_view :: "app_db \<Rightarrow> _" where
  "run_view db = (ap_runs db, ap_turns db, ap_messages db, ap_conversations db,
     q_ledger (ap_quota db), q_buckets (ap_quota db), q_users (ap_quota db), now db)"

definition run_frame :: "app_db \<Rightarrow> app_db \<Rightarrow> bool" where
  "run_frame db db' \<longleftrightarrow> run_view db' = run_view db \<and> next_id db \<le> next_id db'"

named_theorems frames \<open>operations that keep the run frame\<close>

lemma run_frame_refl [frames]: "run_frame db db"
  by (simp add: run_frame_def)

lemma run_frame_trans: "run_frame a b \<Longrightarrow> run_frame b c \<Longrightarrow> run_frame a c"
  by (auto simp: run_frame_def)

lemma frame_mutators [frames]:
  "run_frame a db \<Longrightarrow> run_frame a (draw_id db)"
  "run_frame a db \<Longrightarrow> run_frame a (db\<lparr>ap_accounts := x1\<rparr>)"
  "run_frame a db \<Longrightarrow> run_frame a (db\<lparr>ap_attachments := x2\<rparr>)"
  "run_frame a db \<Longrightarrow> run_frame a (db\<lparr>ap_artifacts := x3\<rparr>)"
  "run_frame a db \<Longrightarrow> run_frame a (db\<lparr>ap_files := x4\<rparr>)"
  "run_frame a db \<Longrightarrow> run_frame a (db\<lparr>ap_jobs := x5\<rparr>)"
  "run_frame a db \<Longrightarrow> run_frame a (db\<lparr>ap_chunks := x6\<rparr>)"
  by (auto simp: run_frame_def run_view_def)

lemma same_storage_frame: "same_storage db db' \<Longrightarrow> run_frame db db'"
  by (simp add: same_storage_def run_frame_def run_view_def)

lemma frame_updates [frames]:
  "run_frame a db \<Longrightarrow> run_frame a (ensure_account u db)"
  "run_frame a db \<Longrightarrow> run_frame a (queue_deletion u ty src key t db)"
  "run_frame a db \<Longrightarrow> run_frame a (requeue_deletion u src key db)"
  "run_frame a db \<Longrightarrow> run_frame a (queue_files u fs db)"
  "run_frame a db \<Longrightarrow> run_frame a (set_attachment i u f1 db)"
  "run_frame a db \<Longrightarrow> run_frame a (delete_attachment i u db)"
  "run_frame a db \<Longrightarrow> run_frame a (set_artifact i u f2 db)"
  "run_frame a db \<Longrightarrow> run_frame a (delete_files P db)"
  "run_frame a db \<Longrightarrow> run_frame a (set_file i j f3 db)"
  "run_frame a db \<Longrightarrow> run_frame a (fail_artifacts ids db)"
  "run_frame a db \<Longrightarrow> run_frame a (drop_storage ids jds db)"
  using queue_files_facts[of db u fs] queue_deletion_same[of db u ty src key t]
    requeue_deletion_same[of db u src key] same_storage_frame run_frame_trans
  by (auto simp: ensure_account_def set_attachment_def delete_attachment_def set_artifact_def
      delete_files_def set_file_def fail_artifacts_def drop_storage_def intro: frames
      intro!: frame_mutators(2-7))

lemma update_account_frame [frames]:
  "update_account u f d = Inr d' \<Longrightarrow> run_frame a d \<Longrightarrow> run_frame a d'"
  by (auto dest!: update_account_InrD intro: frames)

lemma release_storage_frame [frames]:
  "release_storage u c r d = Inr d' \<Longrightarrow> run_frame a d \<Longrightarrow> run_frame a d'"
  using release_storage_simps[of u c r d d'] by (simp add: run_frame_def run_view_def)

lemma insert_attachment_frame [frames]:
  "insert_attachment x d = Inr d' \<Longrightarrow> run_frame a d \<Longrightarrow> run_frame a d'"
  by (auto simp: insert_attachment_def split: if_splits intro: frames)

lemma insert_file_frame [frames]:
  "insert_file x d = Inr d' \<Longrightarrow> run_frame a d \<Longrightarrow> run_frame a d'"
  by (auto simp: insert_file_def split: if_splits intro: frames)

lemma cleanup_frame: "cleanupRunArtifacts sc db = Inr db' \<Longrightarrow> run_frame db db'"
  by (auto simp: cleanupRunArtifacts_def Let_def bindR_eq_Inr intro!: frame_updates intro: frames)

lemma draw_many_frame: "run_frame a db \<Longrightarrow> next_id db \<le> n \<Longrightarrow>
   run_frame a (db\<lparr>ap_quota := (ap_quota db)\<lparr>q_next := n\<rparr>\<rparr>)"
  by (auto simp: run_frame_def run_view_def)

lemma foldl_frame:
  assumes "\<And>a d x. run_frame a d \<Longrightarrow> run_frame a (step d x)" "run_frame a db"
  shows "run_frame a (foldl step db xs)"
  using assms(2) by (induction xs arbitrary: db) (auto intro: assms(1))

lemma foldR_frame_inv:
  assumes "\<And>x d d'. step x d = Inr d' \<Longrightarrow> run_frame d d'" "foldR step xs db = Inr db'"
  shows "run_frame db db'"
  using assms(2)
proof (induction xs arbitrary: db)
  case Nil
  then show ?case by (simp add: run_frame_refl)
next
  case (Cons x xs)
  then obtain d where "step x db = Inr d" "foldR step xs d = Inr db'" by (auto simp: bindR_eq_Inr)
  then show ?case using Cons.IH assms(1) run_frame_trans by blast
qed

lemmas frame_opening = Let_def bindR_eq_Inr

lemma storage_step_frame: "storage_step db db' \<Longrightarrow> run_frame db db'"
proof (induction rule: storage_step.induct)
  case (step_initiate inp db v db')
  then show ?case by (auto simp: initiate_def frame_opening split: if_splits option.splits intro!: frame_updates intro: frames)
next
  case (step_begin i user db r db')
  then show ?case
    by (auto simp: beginCompletion_def frame_opening split: if_splits option.splits intro!: frame_updates intro: frames)
next
  case (step_complete i user bytes etag db v db')
  then show ?case
    by (auto simp: completeVerified_def frame_opening split: if_splits option.splits intro!: frame_updates intro: frames)
next
  case (step_reset db i user)
  then show ?case by (auto simp: resetCompletion_def intro!: frame_updates intro: frames)
next
  case (step_reject i user code db db')
  then show ?case
    by (auto simp: rejectCompletion_def frame_opening split: if_splits option.splits intro!: frame_updates intro: frames)
next
  case (step_bind ids conv msg user db vs db')
  then show ?case
    by (auto simp: bindToMessage_def frame_opening split: if_splits option.splits intro!: frame_updates frame_mutators intro: frames)
next
  case (step_delete i user db db')
  then show ?case
    by (auto simp: deleteUnbound_def frame_opening split: if_splits option.splits intro!: frame_updates intro: frames)
next
  case (step_create i user conv rid msg spec db w db')
  then show ?case
    by (auto simp: createArtifact_def frame_opening split: if_splits option.splits intro!: frame_updates frame_mutators intro: frames)
next
  case (step_reserve finp db db')
  then show ?case
    by (auto simp: reserveFile_def frame_opening split: if_splits option.splits intro!: frame_updates
        intro: update_account_frame[OF _ insert_file_frame] frames)
next
  case (step_commit i art user db f db')
  then show ?case
    by (auto simp: commitFile_def frame_opening split: if_splits option.splits intro!: frame_updates intro: frames)
next
  case (step_abort i art user key db db')
  then show ?case
    by (auto simp: abortFile_def frame_opening split: if_splits option.splits intro!: frame_updates intro: frames)
next
  case (step_finish i user conv db w db')
  then show ?case
    by (auto simp: completeArtifact_def frame_opening split: if_splits option.splits intro!: frame_updates intro: frames)
next
  case (step_fail i user conv db ks db')
  then show ?case
    by (auto simp: failArtifact_def frame_opening split: if_splits option.splits intro!: frame_updates intro: frames)
next
  case (step_cleanup sc db db')
  then show ?case by (rule cleanup_frame)
next
  case (step_enqueue user convs del db s db')
  then show ?case
    by (auto simp: enqueueConversationStorageDeletion_def frame_opening split: if_splits
        intro!: frame_updates foldl_frame intro: frames)
next
  case (step_expire n locked db k db')
  have one: "run_frame d d'" if "expire_orphan a d = Inr d'" for a d d'
    using that by (auto simp: expire_orphan_def frame_opening intro!: frame_updates intro: frames)
  from step_expire have "foldR expire_orphan (expired_orphans n locked db) db = Inr db'"
    by (auto simp: enqueueExpiredOrphans_def frame_opening split: if_splits)
  then show ?case by (rule foldR_frame_inv[rotated]) (rule one)
qed

end
