(* ===== verification/Run_Invariant.thy ===== *)
theory Run_Invariant
  imports Run_Frame
begin

section \<open>The invariant of the runs\<close>

text \<open>
  Every run has its turn, its message and its own lease of the answer quota; a run whose
  settlement is done has a lease that is committed when the run completed and released
  otherwise; a conversation has at most one active run. \<open>run_inv\<close> adds the invariant of the
  quota tables. The lemmas show that settling a lease moves only that lease, and that changing
  one run and adding one run keep the invariant.
\<close>

subsection \<open>Leases\<close>

definition answer_lease :: "quota_db \<Rightarrow> nat \<Rightarrow> string \<Rightarrow> reservation_status \<Rightarrow> bool" where
  "answer_lease q lease user st \<longleftrightarrow> (\<exists>r\<in>set (q_ledger q). ld_leaseId r = lease \<and> ld_actor r = user
     \<and> ld_resource r = Answer \<and> ld_status r = st)"

text \<open>What a transaction that settles other leases leaves of a lease.\<close>

definition lease_stable :: "quota_db \<Rightarrow> quota_db \<Rightarrow> nat \<Rightarrow> bool" where
  "lease_stable q q' lease \<longleftrightarrow> (\<forall>user st. answer_lease q lease user st \<longrightarrow> answer_lease q' lease user st)"

text \<open>A lease never disappears, and its final status never changes.\<close>

definition lease_final :: "quota_db \<Rightarrow> quota_db \<Rightarrow> bool" where
  "lease_final q q' \<longleftrightarrow> (\<forall>lease user st. answer_lease q lease user st \<longrightarrow>
     (\<exists>st'. answer_lease q' lease user st' \<and> (st \<noteq> Reserved \<longrightarrow> st' = st)))"

lemma answer_lease_held:
  assumes "service_inv q" "answer_lease q lease user st"
  shows "lease_held q lease user = Some st"
  using assms lease_held_row[of q] unfolding answer_lease_def service_inv_def quota_inv_def by blast

lemma answer_lease_unique:
  assumes "service_inv q" "answer_lease q lease user st" "answer_lease q lease user st'"
  shows "st' = st"
  using answer_lease_held[OF assms(1,2)] answer_lease_held[OF assms(1,3)] by simp

lemma settled_answer_lease:
  assumes inv: "service_inv q" and led: "q_ledger q' = settled_ledger target reason t lease (q_ledger q)"
    and l: "answer_lease q l user st"
  shows "answer_lease q' l user (if l = lease \<and> st = Reserved then target else st)"
proof -
  from l obtain r where r: "r \<in> set (q_ledger q)" "ld_leaseId r = l" "ld_actor r = user"
    "ld_resource r = Answer" "ld_status r = st" unfolding answer_lease_def by blast
  define r' where "r' = (if ld_leaseId r = lease \<and> ld_status r = Reserved then settle_row target reason t r else r)"
  have "r' \<in> set (q_ledger q')"
    using r(1) by (auto simp: led settled_ledger_def set_update_where r'_def)
  moreover have "ld_leaseId r' = l" "ld_actor r' = user" "ld_resource r' = Answer"
    "ld_status r' = (if l = lease \<and> st = Reserved then target else st)"
    using r by (auto simp: r'_def settle_row_def)
  ultimately show ?thesis unfolding answer_lease_def by blast
qed

text \<open>Settling any lease, whatever its resource.\<close>

lemma transition_final:
  assumes inv: "service_inv q" and tg: "target \<noteq> Reserved"
    and run: "transitionQuotaReservation col inp target q = Inr (rv, q')"
  shows "service_inv q' \<and> lease_final q q' \<and> q_users q' = q_users q \<and> q_now q' = q_now q
    \<and> q_next q' = q_next q \<and> (\<forall>l. l \<noteq> ti_leaseId inp \<longrightarrow> lease_stable q q' l)"
proof -
  have qi: "quota_inv q" using inv by (simp add: service_inv_def)
  have rows: "transition_rows col inp q \<noteq> []"
    using run by (auto simp: transitionQuotaReservation_def Let_def split: if_splits)
  then obtain r where "r \<in> set (transition_rows col inp q)" by (meson last_in_set)
  then have r: "r \<in> set (q_ledger q)" "ld_leaseId r = ti_leaseId inp"
    using lease_rows_facts(1)[OF qi rows] by auto
  have st: "lease_status q (ti_leaseId inp) = Some (ld_status r)"
    using lease_status_row[of q r] qi r by (simp add: quota_inv_def)
  from transition_ok[OF qi rows tg st] run have
    q': "quota_inv q'" "q_users q' = q_users q" "q_now q' = q_now q" "q_next q' = q_next q"
    and led: "q_ledger q' = settled_ledger target (ti_reason inp) (q_now q) (ti_leaseId inp) (q_ledger q)"
    by auto
  have reg: "scopes_regular q'"
    using inv unfolding service_inv_def scopes_regular_def led settled_ledger_def
    by (auto simp: set_update_where settle_row_def)
  have lease: "answer_lease q' l user (if l = ti_leaseId inp \<and> s = Reserved then target else s)"
    if "answer_lease q l user s" for l user s
    by (rule settled_answer_lease[OF inv led that])
  have "lease_final q q'"
    unfolding lease_final_def
  proof (intro allI impI)
    fix l user s assume "answer_lease q l user s"
    from lease[OF this] show "\<exists>st'. answer_lease q' l user st' \<and> (s \<noteq> Reserved \<longrightarrow> st' = s)"
      by (cases "s = Reserved") auto
  qed
  moreover have "lease_stable q q' l" if "l \<noteq> ti_leaseId inp" for l
    unfolding lease_stable_def using lease that by fastforce
  ultimately show ?thesis using q' reg by (simp add: service_inv_def)
qed

lemma settleAnswerQuota_None [simp]:
  "settleAnswerQuota col None user status reason db = Inr (None, db)"
  by (simp add: settleAnswerQuota_def)

lemma settleAnswerQuota_Inr:
  assumes inv: "service_inv (ap_quota db)"
    and lease: "answer_lease (ap_quota db) l owner st"
    and run: "settleAnswerQuota col (Some l) user status reason db = Inr (quota, db')"
  shows "\<exists>q'. db' = db\<lparr>ap_quota := q'\<rparr> \<and> quota = Some (expected_quota status)
    \<and> service_inv q' \<and> answer_lease q' l owner (expected_quota status)
    \<and> (st = Reserved \<or> st = expected_quota status)
    \<and> lease_final (ap_quota db) q' \<and> (\<forall>k. k \<noteq> l \<longrightarrow> lease_stable (ap_quota db) q' k)
    \<and> q_users q' = q_users (ap_quota db) \<and> q_now q' = now db \<and> q_next q' = next_id db"
proof -
  define inp where "inp = \<lparr>ti_leaseId = l, ti_actor = Some user,
      ti_reason = if expected_quota status = Committed then None else Some reason\<rparr>"
  have lid: "ti_leaseId inp = l" by (simp add: inp_def)
  have tg: "expected_quota status \<noteq> Reserved" by (simp add: expected_quota_def)
  have qi: "quota_inv (ap_quota db)" using inv by (simp add: service_inv_def)
  from run obtain rv q' where t: "transitionQuotaReservation col inp (expected_quota status) (ap_quota db) = Inr (rv, q')"
    and rv: "rv_status rv = expected_quota status" and db': "db' = db\<lparr>ap_quota := q'\<rparr>"
    and quota: "quota = Some (expected_quota status)"
    by (auto simp: settleAnswerQuota_def inp_def Let_def split: sum.splits if_splits)
  from transition_final[OF inv tg t] have fin: "service_inv q'" "lease_final (ap_quota db) q'"
    "q_users q' = q_users (ap_quota db)" "q_now q' = now db" "q_next q' = next_id db"
    "\<forall>k. k \<noteq> l \<longrightarrow> lease_stable (ap_quota db) q' k" by (auto simp: inp_def)
  have rows: "transition_rows col inp (ap_quota db) \<noteq> []"
    using t by (auto simp: transitionQuotaReservation_def Let_def split: if_splits)
  from lease obtain r where "r \<in> set (q_ledger (ap_quota db))" "ld_leaseId r = l" "ld_status r = st"
    unfolding answer_lease_def by blast
  then have status: "lease_status (ap_quota db) (ti_leaseId inp) = Some st"
    using lease_status_row[of "ap_quota db" r] qi by (simp add: quota_inv_def inp_def)
  from transition_ok[OF qi rows tg status] obtain rv0 q0 where
    t0: "transitionQuotaReservation col inp (expected_quota status) (ap_quota db) = Inr (rv0, q0)"
    "rv_status rv0 = (if st = Reserved then expected_quota status else st)"
    "q_ledger q0 = settled_ledger (expected_quota status) (ti_reason inp) (now db) l (q_ledger (ap_quota db))"
    unfolding lid by blast
  with t have stat: "rv_status rv = (if st = Reserved then expected_quota status else st)"
    and led: "q_ledger q' = settled_ledger (expected_quota status) (ti_reason inp) (now db) l (q_ledger (ap_quota db))"
    by simp_all
  have st: "st = Reserved \<or> st = expected_quota status" using stat rv by (auto split: if_splits)
  have "answer_lease q' l owner (expected_quota status)"
    using settled_answer_lease[OF inv led lease] st by auto
  with fin st db' quota show ?thesis by blast
qed

lemma settleAnswerQuota_ok:
  assumes inv: "service_inv (ap_quota db)" and lease: "answer_lease (ap_quota db) l user st"
    and st: "st = Reserved \<or> st = expected_quota status"
  shows "\<exists>db'. settleAnswerQuota col (Some l) user status reason db = Inr (Some (expected_quota status), db')"
proof -
  define inp where "inp = \<lparr>ti_leaseId = l, ti_actor = Some user,
      ti_reason = if expected_quota status = Committed then None else Some reason\<rparr>"
  have tg: "expected_quota status \<noteq> Reserved" by (simp add: expected_quota_def)
  have h: "lease_held (ap_quota db) l user = Some st" by (rule answer_lease_held[OF inv lease])
  note rows = held_rows[OF inv h inp_def]
  have lid: "ti_leaseId inp = l" by (simp add: inp_def)
  from transition_ok[OF rows(1,2) tg rows(3), of col] obtain rv q' r where
    t: "transitionQuotaReservation col inp (expected_quota status) (ap_quota db) = Inr (rv, q')"
    and stat: "rv_status rv = (if st = Reserved then expected_quota status else st)"
    and r: "r \<in> set (q_ledger (ap_quota db))" "ld_leaseId r = l" "rv_resource rv = ld_resource r"
    unfolding lid by blast
  from lease obtain r0 where r0: "r0 \<in> set (q_ledger (ap_quota db))" "ld_leaseId r0 = l" "ld_resource r0 = Answer"
    unfolding answer_lease_def by blast
  have "request_key r = request_key r0"
    using rows(1) r r0 unfolding quota_inv_def leases_agree_def by metis
  then have "rv_resource rv = Answer" using r r0 by (simp add: request_key_def)
  moreover have "rv_status rv = expected_quota status" using stat st by auto
  ultimately show ?thesis
    using t by (auto simp: settleAnswerQuota_def inp_def Let_def)
qed

end
