(* ===== verification/Run_Steps.thy ===== *)
theory Run_Steps
  imports Run_Invariant
begin

section \<open>Every transaction keeps the invariant of the runs\<close>

subsection \<open>The invariant\<close>

definition settled_quota :: "app_db \<Rightarrow> run_row \<Rightarrow> bool" where
  "settled_quota db r \<longleftrightarrow> (case rn_quotaLease r of
     None \<Rightarrow> rn_quotaStatus r = None
   | Some l \<Rightarrow> rn_quotaStatus r = Some (expected_quota (rn_status r))
       \<and> answer_lease (ap_quota db) l (rn_user r) (expected_quota (rn_status r)))"

definition run_ok :: "app_db \<Rightarrow> run_row \<Rightarrow> bool" where
  "run_ok db r \<longleftrightarrow> turn_of db (rn_turn r) \<noteq> None \<and> message_of db (rn_assistantMessage r) \<noteq> None
     \<and> rn_id r < next_id db
     \<and> (\<forall>l. rn_quotaLease r = Some l \<longrightarrow> (\<exists>st. answer_lease (ap_quota db) l (rn_user r) st))
     \<and> (rn_settlement r = SettlementCompleted \<longrightarrow> \<not> run_active (rn_status r) \<and> settled_quota db r)"

definition ids_below :: "app_db \<Rightarrow> bool" where
  "ids_below db \<longleftrightarrow> (\<forall>t\<in>set (ap_turns db). tn_id t < next_id db) \<and> (\<forall>m\<in>set (ap_messages db). ms_id m < next_id db)
     \<and> (\<forall>v\<in>set (ap_conversations db). cv_id v < next_id db)"

definition one_active :: "app_db \<Rightarrow> bool" where
  "one_active db \<longleftrightarrow> (\<forall>x\<in>set (ap_runs db). \<forall>y\<in>set (ap_runs db). run_active (rn_status x) \<longrightarrow> run_active (rn_status y)
     \<longrightarrow> run_conversation db x = run_conversation db y \<longrightarrow> rn_id x = rn_id y)"

definition own_leases :: "app_db \<Rightarrow> bool" where
  "own_leases db \<longleftrightarrow> (\<forall>x\<in>set (ap_runs db). \<forall>y\<in>set (ap_runs db). rn_quotaLease x \<noteq> None
     \<longrightarrow> rn_quotaLease x = rn_quotaLease y \<longrightarrow> rn_id x = rn_id y)"

definition run_inv :: "app_db \<Rightarrow> bool" where
  "run_inv db \<longleftrightarrow> service_inv (ap_quota db) \<and> distinct (map rn_id (ap_runs db)) \<and> ids_below db
     \<and> (\<forall>r\<in>set (ap_runs db). run_ok db r) \<and> one_active db \<and> own_leases db"

lemma run_invD:
  assumes "run_inv db"
  shows "service_inv (ap_quota db)" "distinct (map rn_id (ap_runs db))" "ids_below db"
    "r \<in> set (ap_runs db) \<Longrightarrow> run_ok db r" "one_active db" "own_leases db"
  using assms unfolding run_inv_def by blast+

text \<open>The keys of the conversation tables that the invariant looks at.\<close>

definition keys_kept :: "app_db \<Rightarrow> app_db \<Rightarrow> bool" where
  "keys_kept db db' \<longleftrightarrow>
     map (\<lambda>t. (tn_id t, tn_conversation t)) (ap_turns db') = map (\<lambda>t. (tn_id t, tn_conversation t)) (ap_turns db)
     \<and> map ms_id (ap_messages db') = map ms_id (ap_messages db)
     \<and> map cv_id (ap_conversations db') = map cv_id (ap_conversations db) \<and> next_id db \<le> next_id db'"

lemma keys_kept_refl: "keys_kept db db"
  by (simp add: keys_kept_def)

lemma keys_kept_trans: "keys_kept a b \<Longrightarrow> keys_kept b c \<Longrightarrow> keys_kept a c"
  by (simp add: keys_kept_def)

lemma lookup_map_eq:
  "map (\<lambda>x. (key x, g x)) xs = map (\<lambda>x. (key x, g x)) ys \<Longrightarrow>
   map_option g (lookup key k xs) = map_option g (lookup key k ys)"
proof (induction xs arbitrary: ys)
  case (Cons x xs)
  then obtain y ys' where "ys = y # ys'" by (cases ys) auto
  with Cons show ?case by (auto simp: lookup_Cons)
qed (simp add: lookup_Nil)

lemma keys_keptD:
  assumes "keys_kept db db'"
  shows "run_conversation db' r = run_conversation db r"
    and "turn_of db' i = None \<longleftrightarrow> turn_of db i = None"
    and "message_of db' i = None \<longleftrightarrow> message_of db i = None"
    and "next_id db \<le> next_id db'" and "ids_below db \<Longrightarrow> ids_below db'"
proof -
  have t: "map (\<lambda>t. (tn_id t, tn_conversation t)) (ap_turns db') = map (\<lambda>t. (tn_id t, tn_conversation t)) (ap_turns db)"
    and m: "map ms_id (ap_messages db') = map ms_id (ap_messages db)"
    and c: "map cv_id (ap_conversations db') = map cv_id (ap_conversations db)"
    and n: "next_id db \<le> next_id db'" using assms by (auto simp: keys_kept_def)
  have tid: "map_option tn_conversation (turn_of db' j) = map_option tn_conversation (turn_of db j)" for j
    unfolding turn_of_def by (rule lookup_map_eq[OF t])
  then show "run_conversation db' r = run_conversation db r" by (simp add: run_conversation_def)
  show "turn_of db' i = None \<longleftrightarrow> turn_of db i = None" using tid[of i] by (metis option.map_disc_iff)
  have "map (\<lambda>x. (ms_id x, ())) (ap_messages db') = map (\<lambda>x. (ms_id x, ())) (ap_messages db)"
    using arg_cong[OF m, of "map (\<lambda>i. (i, ()))"] by (simp add: o_def)
  then have "map_option (\<lambda>_. ()) (message_of db' i) = map_option (\<lambda>_. ()) (message_of db i)"
    unfolding message_of_def by (rule lookup_map_eq)
  then show "message_of db' i = None \<longleftrightarrow> message_of db i = None" by (metis option.map_disc_iff)
  show "next_id db \<le> next_id db'" by (rule n)
  assume b: "ids_below db"
  have "tn_id ` set (ap_turns db') = tn_id ` set (ap_turns db)"
    using arg_cong[OF t, of "\<lambda>xs. fst ` set xs"] by (simp add: image_image)
  moreover have "ms_id ` set (ap_messages db') = ms_id ` set (ap_messages db)"
    using arg_cong[OF m, of set] by simp
  moreover have "cv_id ` set (ap_conversations db') = cv_id ` set (ap_conversations db)"
    using arg_cong[OF c, of set] by simp
  ultimately have *: "\<forall>i\<in>tn_id ` set (ap_turns db') \<union> ms_id ` set (ap_messages db') \<union> cv_id ` set (ap_conversations db').
      i < next_id db"
    using b unfolding ids_below_def by auto
  show "ids_below db'" unfolding ids_below_def using * n by (meson UnI1 UnI2 imageI order_less_le_trans)
qed

lemma run_frame_keys: "run_frame db db' \<Longrightarrow> keys_kept db db'"
  by (simp add: run_frame_def run_view_def keys_kept_def)

text \<open>An operation that keeps the runs, the keys and the ledger.\<close>

lemma service_inv_cong:
  assumes "service_inv q" "q_ledger q' = q_ledger q" "q_buckets q' = q_buckets q" "q_next q \<le> q_next q'"
  shows "service_inv q'"
proof -
  have "quota_inv (q\<lparr>q_next := q_next q'\<rparr>)"
    by (rule quota_inv_next) (use assms in \<open>simp_all add: service_inv_def\<close>)
  moreover have "quota_inv q' = quota_inv (q\<lparr>q_next := q_next q'\<rparr>)"
    by (simp add: quota_inv_def buckets_wf_def ledger_wf_def books_balance_def leases_agree_def assms(2,3))
  ultimately have "quota_inv q'" by simp
  then show ?thesis using assms(1,2) by (simp add: service_inv_def scopes_regular_def)
qed

lemma lease_finalD:
  "lease_final q q' \<Longrightarrow> answer_lease q l u st \<Longrightarrow> \<exists>st'. answer_lease q' l u st' \<and> (st \<noteq> Reserved \<longrightarrow> st' = st)"
  unfolding lease_final_def by blast

lemma answer_lease_cong: "q_ledger q' = q_ledger q \<Longrightarrow> answer_lease q' = answer_lease q"
  by (intro ext) (simp add: answer_lease_def)

lemma run_ok_mono:
  assumes "keys_kept db db'" "run_ok db r"
    and "\<And>l st. rn_quotaLease r = Some l \<Longrightarrow> answer_lease (ap_quota db) l (rn_user r) st \<Longrightarrow>
      \<exists>st'. answer_lease (ap_quota db') l (rn_user r) st' \<and> (st \<noteq> Reserved \<longrightarrow> st' = st)"
  shows "run_ok db' r"
proof -
  have "settled_quota db' r" if "settled_quota db r"
    using that assms(3)[of _ "expected_quota (rn_status r)"]
    by (fastforce simp: settled_quota_def expected_quota_def split: option.splits if_splits)
  then show ?thesis
    using assms(2,3) keys_keptD[OF assms(1)] unfolding run_ok_def by (meson order_less_le_trans)
qed

lemma other_tables_inv:
  assumes inv: "run_inv db" and runs: "ap_runs db' = ap_runs db" and k: "keys_kept db db'"
    and q: "service_inv (ap_quota db')" and fin: "lease_final (ap_quota db) (ap_quota db')"
  shows "run_inv db'"
proof -
  have "run_ok db' r" if "r \<in> set (ap_runs db)" for r
  proof (rule run_ok_mono[OF k])
    show "run_ok db r" using inv that by (simp add: run_inv_def)
  qed (erule lease_finalD[OF fin])
  moreover have "one_active db'"
    using run_invD(5)[OF inv] unfolding one_active_def runs keys_keptD(1)[OF k] .
  moreover have "own_leases db'" using run_invD(6)[OF inv] unfolding own_leases_def runs .
  moreover have "ids_below db'" by (rule keys_keptD(5)[OF k run_invD(3)[OF inv]])
  ultimately show ?thesis using run_invD(2)[OF inv] q unfolding run_inv_def runs by blast
qed

lemma lease_final_cong: "q_ledger q' = q_ledger q \<Longrightarrow> lease_final q q'"
  using answer_lease_cong[of q' q] unfolding lease_final_def by metis

lemma run_frame_inv:
  assumes "run_inv db" "run_frame db db'"
  shows "run_inv db'"
proof (rule other_tables_inv[OF assms(1) _ run_frame_keys[OF assms(2)]])
  have f: "ap_runs db' = ap_runs db" "q_ledger (ap_quota db') = q_ledger (ap_quota db)"
    "q_buckets (ap_quota db') = q_buckets (ap_quota db)" "next_id db \<le> next_id db'"
    using assms(2) by (simp_all add: run_frame_def run_view_def)
  show "ap_runs db' = ap_runs db" by (rule f(1))
  show "service_inv (ap_quota db')" by (rule service_inv_cong[OF run_invD(1)[OF assms(1)] f(2-4)])
  show "lease_final (ap_quota db) (ap_quota db')" by (rule lease_final_cong[OF f(2)])
qed

subsection \<open>Changing one run\<close>

lemma one_run_inv:
  assumes inv: "run_inv db" and r: "r \<in> set (ap_runs db)" "rn_id r = i"
    and runs: "ap_runs db' = update_where (\<lambda>x. rn_id x = i) f (ap_runs db)"
    and keys: "rn_id (f r) = rn_id r" "rn_turn (f r) = rn_turn r" "rn_quotaLease (f r) = rn_quotaLease r"
    and k: "keys_kept db db'" and q: "service_inv (ap_quota db')"
    and fin: "lease_final (ap_quota db) (ap_quota db')"
    and ok: "run_ok db' (f r)" and act: "run_active (rn_status (f r)) \<Longrightarrow> run_active (rn_status r)"
  shows "run_inv db'"
proof -
  have dist: "distinct (map rn_id (ap_runs db))" using inv by (simp add: run_inv_def)
  have uniq: "x = r" if "x \<in> set (ap_runs db)" "rn_id x = i" for x
    using distinct_key_unique[OF dist that(1) r(1)] that(2) r(2) by simp
  have conv: "run_conversation db' (f r) = run_conversation db' r"
    by (simp add: run_conversation_def keys)
  have old: "\<exists>y\<in>set (ap_runs db). rn_id y = rn_id x \<and> rn_quotaLease y = rn_quotaLease x
      \<and> run_conversation db y = run_conversation db' x \<and> (run_active (rn_status x) \<longrightarrow> run_active (rn_status y))"
    if x: "x \<in> set (ap_runs db')" for x
    using x unfolding runs
  proof (rule in_update_whereE)
    fix y assume y: "y \<in> set (ap_runs db)" "rn_id y = i" "x = f y"
    with uniq[OF y(1,2)] keys act conv show ?thesis
      by (intro bexI[of _ r]) (simp_all add: r keys_keptD(1)[OF k])
  next
    assume "x \<in> set (ap_runs db)"
    then show ?thesis by (intro bexI[of _ x]) (simp_all add: keys_keptD(1)[OF k])
  qed
  have "run_ok db' x" if x: "x \<in> set (ap_runs db')" for x
    using x unfolding runs
  proof (rule in_update_whereE)
    fix y assume "y \<in> set (ap_runs db)" "rn_id y = i" "x = f y"
    with uniq ok show ?thesis by blast
  next
    assume "x \<in> set (ap_runs db)"
    then have "run_ok db x" using inv by (simp add: run_inv_def)
    then show ?thesis by (rule run_ok_mono[OF k]) (erule lease_finalD[OF fin])
  qed
  moreover have "one_active db'"
    unfolding one_active_def
  proof (intro ballI impI)
    fix x y assume "x \<in> set (ap_runs db')" "y \<in> set (ap_runs db')" "run_active (rn_status x)"
      "run_active (rn_status y)" "run_conversation db' x = run_conversation db' y"
    with old[of x] old[of y] inv show "rn_id x = rn_id y"
      unfolding run_inv_def one_active_def by metis
  qed
  moreover have "own_leases db'"
    unfolding own_leases_def
  proof (intro ballI impI)
    fix x y assume "x \<in> set (ap_runs db')" "y \<in> set (ap_runs db')" "rn_quotaLease x \<noteq> None"
      "rn_quotaLease x = rn_quotaLease y"
    with old[of x] old[of y] inv show "rn_id x = rn_id y"
      unfolding run_inv_def own_leases_def by metis
  qed
  moreover have "map rn_id (ap_runs db') = map rn_id (ap_runs db)"
    unfolding runs by (rule map_update_where) (metis uniq keys(1))
  ultimately show ?thesis
    using inv q keys_keptD(5)[OF k] by (simp add: run_inv_def)
qed

subsection \<open>Adding one run\<close>

lemma new_run_inv:
  assumes inv: "run_inv db" and runs: "ap_runs db' = ap_runs db @ [r]"
    and ledger: "q_ledger (ap_quota db') = q_ledger (ap_quota db)" and q: "service_inv (ap_quota db')"
    and n: "next_id db \<le> next_id db'" and ids: "ids_below db'"
    and turns: "\<And>x. x \<in> set (ap_runs db) \<Longrightarrow> turn_of db' (rn_turn x) = turn_of db (rn_turn x)"
    and msgs: "\<And>x. x \<in> set (ap_runs db) \<Longrightarrow> message_of db' (rn_assistantMessage x) \<noteq> None"
    and ok: "run_ok db' r" and fresh: "rn_id r \<notin> rn_id ` set (ap_runs db)"
    and free: "\<And>x. x \<in> set (ap_runs db) \<Longrightarrow> run_active (rn_status x) \<Longrightarrow> run_conversation db x \<noteq> run_conversation db' r"
    and lease: "\<And>x. x \<in> set (ap_runs db) \<Longrightarrow> rn_quotaLease r \<noteq> None \<Longrightarrow> rn_quotaLease x \<noteq> rn_quotaLease r"
  shows "run_inv db'"
proof -
  have conv: "run_conversation db' x = run_conversation db x" if "x \<in> set (ap_runs db)" for x
    using turns[OF that] by (simp add: run_conversation_def)
  have al: "answer_lease (ap_quota db') = answer_lease (ap_quota db)" by (rule answer_lease_cong[OF ledger])
  have "run_ok db' x" if "x \<in> set (ap_runs db)" for x
  proof -
    have "run_ok db x" using inv that by (simp add: run_inv_def)
    then show ?thesis
      using turns[OF that] msgs[OF that] n by (auto simp: run_ok_def settled_quota_def al split: option.splits)
  qed
  moreover have "one_active db'"
    unfolding one_active_def
  proof (intro ballI impI)
    fix x y assume xy: "x \<in> set (ap_runs db')" "y \<in> set (ap_runs db')" "run_active (rn_status x)"
      "run_active (rn_status y)" "run_conversation db' x = run_conversation db' y"
    consider "x \<in> set (ap_runs db)" "y \<in> set (ap_runs db)" | "x \<in> set (ap_runs db)" "y = r"
      | "y \<in> set (ap_runs db)" "x = r" | "x = r" "y = r" using xy(1,2) by (auto simp: runs)
    then show "rn_id x = rn_id y"
    proof cases
      case 1
      then have "run_conversation db x = run_conversation db y" using xy(5) conv by simp
      with 1 xy(3,4) run_invD(5)[OF inv] show ?thesis unfolding one_active_def by blast
    next
      case 2
      with free[OF 2(1) xy(3)] xy(5) conv[OF 2(1)] show ?thesis by simp
    next
      case 3
      with free[OF 3(1) xy(4)] xy(5) conv[OF 3(1)] show ?thesis by simp
    qed simp
  qed
  moreover have "own_leases db'"
    unfolding own_leases_def
  proof (intro ballI impI)
    fix x y assume xy: "x \<in> set (ap_runs db')" "y \<in> set (ap_runs db')" "rn_quotaLease x \<noteq> None"
      "rn_quotaLease x = rn_quotaLease y"
    consider "x \<in> set (ap_runs db)" "y \<in> set (ap_runs db)" | "x \<in> set (ap_runs db)" "y = r"
      | "y \<in> set (ap_runs db)" "x = r" | "x = r" "y = r" using xy(1,2) by (auto simp: runs)
    then show "rn_id x = rn_id y"
    proof cases
      case 1
      with xy(3,4) run_invD(6)[OF inv] show ?thesis unfolding own_leases_def by blast
    next
      case 2
      with lease[OF 2(1)] xy(3,4) show ?thesis by simp
    next
      case 3
      with lease[OF 3(1)] xy(3,4) show ?thesis by simp
    qed simp
  qed
  ultimately show ?thesis
    using run_invD(2)[OF inv] ok q ids fresh by (simp add: run_inv_def runs)
qed

end
