(* ===== verification/Run_Lifecycle.thy ===== *)
theory Run_Lifecycle
  imports Run_Steps
begin

section \<open>The transactions of the run store\<close>

subsection \<open>Cancelling\<close>

lemma run_ofD: "run_of db i = Some r \<Longrightarrow> r \<in> set (ap_runs db) \<and> rn_id r = i"
  unfolding run_of_def by (rule lookup_SomeD)

lemma update_run_simps [simp]:
  "ap_turns (update_run i f db) = ap_turns db" "ap_messages (update_run i f db) = ap_messages db"
  "ap_conversations (update_run i f db) = ap_conversations db" "ap_quota (update_run i f db) = ap_quota db"
  "ap_accounts (update_run i f db) = ap_accounts db" "ap_attachments (update_run i f db) = ap_attachments db"
  "ap_artifacts (update_run i f db) = ap_artifacts db" "ap_files (update_run i f db) = ap_files db"
  "ap_jobs (update_run i f db) = ap_jobs db"
  "turn_of (update_run i f db) t = turn_of db t" "message_of (update_run i f db) m = message_of db m"
  by (simp_all add: update_run_def turn_of_def message_of_def)

lemma keys_kept_update_run: "keys_kept db (update_run i f db)"
  by (simp add: keys_kept_def)

lemma requestCancellation_inv:
  assumes inv: "run_inv db" and run: "requestCancellation user i db = (c, db')"
  shows "run_inv db'"
proof (cases "db' = db")
  case False
  with run obtain r where r: "r \<in> set (ap_runs db)" "rn_id r = i" "run_active (rn_status r)"
    and db': "db' = update_run i (\<lambda>r. r\<lparr>rn_cancelRequestedAt := Some (now db)\<rparr>) db"
    by (auto simp: requestCancellation_def split: option.splits if_splits dest: find_SomeD)
  have ok: "run_ok db r" by (rule run_invD(4)[OF inv r(1)])
  let ?f = "\<lambda>r. r\<lparr>rn_cancelRequestedAt := Some (now db), rn_updatedAt := now db\<rparr>"
  show ?thesis
  proof (rule one_run_inv[OF inv r(1,2), where f = ?f])
    show "run_ok db' (?f r)"
      using ok by (simp add: run_ok_def settled_quota_def db' cong: option.case_cong)
  qed (simp_all add: db' update_run_def keys_kept_def run_invD(1)[OF inv] lease_final_cong)
qed (use inv in simp)

subsection \<open>Completing\<close>

lemma row_updates_keys:
  "map ms_id (ap_messages (update_message i (complete_message inp d0) db)) = map ms_id (ap_messages db)"
  "map ms_id (ap_messages (update_message i (fail_message finp d0) db)) = map ms_id (ap_messages db)"
  "map ms_id (ap_messages (update_message i (interrupt_message c t) db)) = map ms_id (ap_messages db)"
  by (auto simp: update_message_def complete_message_def fail_message_def interrupt_message_def
      intro: map_update_where)

lemma add_citations_frame:
  "ap_runs (add_citations rg m n ids db) = ap_runs db \<and> ap_turns (add_citations rg m n ids db) = ap_turns db
   \<and> ap_messages (add_citations rg m n ids db) = ap_messages db
   \<and> ap_conversations (add_citations rg m n ids db) = ap_conversations db
   \<and> q_ledger (ap_quota (add_citations rg m n ids db)) = q_ledger (ap_quota db)
   \<and> q_buckets (ap_quota (add_citations rg m n ids db)) = q_buckets (ap_quota db)
   \<and> q_users (ap_quota (add_citations rg m n ids db)) = q_users (ap_quota db)
   \<and> now (add_citations rg m n ids db) = now db \<and> next_id db \<le> next_id (add_citations rg m n ids db)
   \<and> ap_accounts (add_citations rg m n ids db) = ap_accounts db
   \<and> ap_attachments (add_citations rg m n ids db) = ap_attachments db
   \<and> ap_artifacts (add_citations rg m n ids db) = ap_artifacts db
   \<and> ap_files (add_citations rg m n ids db) = ap_files db \<and> ap_jobs (add_citations rg m n ids db) = ap_jobs db"
proof (induction ids arbitrary: n db)
  case (Cons i ids)
  define d where "d = (case reg_get rg i of Some e \<Rightarrow> if re_visible e then add_citation m n e db else db | None \<Rightarrow> db)"
  have "ap_runs d = ap_runs db \<and> ap_turns d = ap_turns db \<and> ap_messages d = ap_messages db
   \<and> ap_conversations d = ap_conversations db \<and> q_ledger (ap_quota d) = q_ledger (ap_quota db)
   \<and> q_buckets (ap_quota d) = q_buckets (ap_quota db) \<and> q_users (ap_quota d) = q_users (ap_quota db)
   \<and> now d = now db \<and> next_id db \<le> next_id d \<and> ap_accounts d = ap_accounts db
   \<and> ap_attachments d = ap_attachments db \<and> ap_artifacts d = ap_artifacts db \<and> ap_files d = ap_files db
   \<and> ap_jobs d = ap_jobs db"
    by (simp add: d_def add_citation_def split: option.split)
  moreover have "add_citations rg m n (i # ids) db = add_citations rg m (n + 1) ids d" by (simp add: d_def)
  ultimately show ?case using Cons.IH[of "n + 1" d] by auto
qed simp

lemma complete_rows_frame:
  "ap_runs (complete_rows inp db) = ap_runs db" "keys_kept db (complete_rows inp db)"
  "q_ledger (ap_quota (complete_rows inp db)) = q_ledger (ap_quota db)"
  "q_buckets (ap_quota (complete_rows inp db)) = q_buckets (ap_quota db)"
  "q_users (ap_quota (complete_rows inp db)) = q_users (ap_quota db)"
  "now (complete_rows inp db) = now db"
  "ap_accounts (complete_rows inp db) = ap_accounts db" "ap_attachments (complete_rows inp db) = ap_attachments db"
  "ap_artifacts (complete_rows inp db) = ap_artifacts db" "ap_files (complete_rows inp db) = ap_files db"
  "ap_jobs (complete_rows inp db) = ap_jobs db"
proof -
  define d1 where "d1 = update_message (cr_assistantMessage (cp_run inp)) (complete_message inp db) db"
  define d2 where "d2 = add_citations (cp_evidence inp) (cr_assistantMessage (cp_run inp)) 1 (visible_evidence inp) d1"
  note c = add_citations_frame[of "cp_evidence inp" "cr_assistantMessage (cp_run inp)" 1 "visible_evidence inp" d1,
      folded d2_def]
  have m: "map ms_id (ap_messages d1) = map ms_id (ap_messages db)" by (simp add: d1_def row_updates_keys)
  have d1: "ap_runs d1 = ap_runs db" "ap_turns d1 = ap_turns db" "ap_conversations d1 = ap_conversations db"
    "ap_quota d1 = ap_quota db" "ap_accounts d1 = ap_accounts db" "ap_attachments d1 = ap_attachments db"
    "ap_artifacts d1 = ap_artifacts db" "ap_files d1 = ap_files db" "ap_jobs d1 = ap_jobs db"
    by (simp_all add: d1_def update_message_def)
  define d3 where "d3 = (if cp_incomplete inp then d2
                 else update_turn (cr_turn (cp_run inp)) (\<lambda>t. t\<lparr>tn_selectedRun := Some (cr_run (cp_run inp))\<rparr>) d2)"
  have rows: "complete_rows inp db = touch_conversation (cr_conversation (cp_run inp)) d3"
    by (simp add: complete_rows_def d1_def d2_def d3_def Let_def)
  have t: "map (\<lambda>t. (tn_id t, tn_conversation t)) (ap_turns d3) = map (\<lambda>t. (tn_id t, tn_conversation t)) (ap_turns db)"
    using c d1 by (auto simp: d3_def update_turn_def intro: map_update_where)
  have v: "map cv_id (ap_conversations (complete_rows inp db)) = map cv_id (ap_conversations d3)"
    by (auto simp: rows touch_conversation_def intro: map_update_where)
  have d3: "ap_runs d3 = ap_runs db" "ap_messages d3 = ap_messages d1" "ap_conversations d3 = ap_conversations db"
    "q_ledger (ap_quota d3) = q_ledger (ap_quota db)" "q_buckets (ap_quota d3) = q_buckets (ap_quota db)"
    "q_users (ap_quota d3) = q_users (ap_quota db)" "now d3 = now db" "next_id db \<le> next_id d3"
    "ap_accounts d3 = ap_accounts db" "ap_attachments d3 = ap_attachments db"
    "ap_artifacts d3 = ap_artifacts db" "ap_files d3 = ap_files db" "ap_jobs d3 = ap_jobs db"
    using c d1 by (auto simp: d3_def update_turn_def)
  show "keys_kept db (complete_rows inp db)"
    using t v m d3 by (simp add: keys_kept_def rows touch_conversation_def)
  show "ap_runs (complete_rows inp db) = ap_runs db" "q_ledger (ap_quota (complete_rows inp db)) = q_ledger (ap_quota db)"
    "q_buckets (ap_quota (complete_rows inp db)) = q_buckets (ap_quota db)"
    "q_users (ap_quota (complete_rows inp db)) = q_users (ap_quota db)" "now (complete_rows inp db) = now db"
    "ap_accounts (complete_rows inp db) = ap_accounts db" "ap_attachments (complete_rows inp db) = ap_attachments db"
    "ap_artifacts (complete_rows inp db) = ap_artifacts db" "ap_files (complete_rows inp db) = ap_files db"
    "ap_jobs (complete_rows inp db) = ap_jobs db"
    using d3 by (simp_all add: rows touch_conversation_def)
qed

lemma complete_cases:
  assumes "complete pf inp db = Inr (content, db')"
  obtains r lease quota db1 where "r \<in> set (ap_runs db)" "rn_id r = cr_run (cp_run inp)" "run_active (rn_status r)"
    "rn_cancelRequestedAt r = None" "rn_quotaLease r = Some lease"
    "settleAnswerQuota (rp_collations pf) (Some lease) (cp_user inp) (complete_status inp)
       ''agent_run_incomplete'' (complete_rows inp db) = Inr (quota, db1)"
    "counters_ok (cp_counters inp)" "content = complete_content inp"
    "db' = update_run (cr_run (cp_run inp)) (complete_run inp quota db) db1"
  using assms
  by (auto simp: complete_def bindR_eq_Inr split: option.splits if_splits dest: run_ofD intro: that)

lemma complete_inv:
  assumes inv: "run_inv db" and run: "complete pf inp db = Inr (content, db')"
  shows "run_inv db'"
proof -
  from run obtain r lease quota db1 where r: "r \<in> set (ap_runs db)" "rn_id r = cr_run (cp_run inp)"
      "run_active (rn_status r)" "rn_quotaLease r = Some lease"
    and settle: "settleAnswerQuota (rp_collations pf) (Some lease) (cp_user inp) (complete_status inp)
       ''agent_run_incomplete'' (complete_rows inp db) = Inr (quota, db1)"
    and db': "db' = update_run (cr_run (cp_run inp)) (complete_run inp quota db) db1"
    by (rule complete_cases)
  note fr = complete_rows_frame[where inp = inp and db = db]
  have ok: "run_ok db r" by (rule run_invD(4)[OF inv r(1)])
  then obtain st where st: "answer_lease (ap_quota db) lease (rn_user r) st"
    using r(4) by (auto simp: run_ok_def)
  have q0: "service_inv (ap_quota (complete_rows inp db))"
    by (rule service_inv_cong[OF run_invD(1)[OF inv] fr(3,4)]) (use fr(2) in \<open>simp add: keys_kept_def\<close>)
  have st0: "answer_lease (ap_quota (complete_rows inp db)) lease (rn_user r) st"
    using st by (simp add: answer_lease_cong[OF fr(3)])
  from settleAnswerQuota_Inr[OF q0 st0 settle] obtain q' where
    db1: "db1 = (complete_rows inp db)\<lparr>ap_quota := q'\<rparr>" and quota: "quota = Some (expected_quota (complete_status inp))"
    and q': "service_inv q'" "answer_lease q' lease (rn_user r) (expected_quota (complete_status inp))"
      "lease_final (ap_quota (complete_rows inp db)) q'" "q_next q' = next_id (complete_rows inp db)" "q_now q' = now db"
    using fr(6) by auto
  have fin: "lease_final (ap_quota db) q'"
    using q'(3) by (simp add: lease_final_def answer_lease_cong[OF fr(3)])
  have keys: "keys_kept db db'"
    using fr(2) q'(4) by (simp add: keys_kept_def db' db1)
  let ?f = "\<lambda>r. (complete_run inp quota db r)\<lparr>rn_updatedAt := now db\<rparr>"
  show ?thesis
  proof (rule one_run_inv[OF inv r(1,2), where f = ?f])
    show "ap_runs db' = update_where (\<lambda>x. rn_id x = cr_run (cp_run inp)) ?f (ap_runs db)"
      using q'(5) fr(1) by (simp add: db' db1 update_run_def)
    show "keys_kept db db'" by (rule keys)
    show "service_inv (ap_quota db')" "lease_final (ap_quota db) (ap_quota db')"
      using q'(1) fin by (simp_all add: db' db1)
    show "run_ok db' (?f r)"
      using ok keys_keptD[OF keys] r(4) q'(2) quota
      by (auto simp: run_ok_def settled_quota_def complete_run_def complete_status_def run_active_def db' db1)
    show "run_active (rn_status (?f r)) \<Longrightarrow> run_active (rn_status r)" using r(3) by simp
  qed (simp_all add: complete_run_def)
qed

subsection \<open>Failing\<close>

lemma frameD:
  assumes "run_frame db db'"
  shows "ap_runs db' = ap_runs db" "ap_turns db' = ap_turns db" "ap_messages db' = ap_messages db"
    "ap_conversations db' = ap_conversations db" "q_ledger (ap_quota db') = q_ledger (ap_quota db)"
    "q_buckets (ap_quota db') = q_buckets (ap_quota db)" "q_users (ap_quota db') = q_users (ap_quota db)"
    "now db' = now db" "next_id db \<le> next_id db'"
  using assms by (auto simp: run_frame_def run_view_def)

text \<open>Settling a lease of a run and cleaning up after it, whatever the run's row is.\<close>

lemma settle_and_clean:
  assumes inv: "run_inv db" and r: "r \<in> set (ap_runs db)"
    and d0: "ap_turns d0 = ap_turns db" "ap_messages d0 = ap_messages db"
      "ap_conversations d0 = ap_conversations db" "ap_quota d0 = ap_quota db"
    and settle: "settleAnswerQuota col (rn_quotaLease r) (rn_user r) status reason d0 = Inr (quota, db1)"
    and clean: "run_frame db1 db2"
  shows "ap_runs db2 = ap_runs d0 \<and> keys_kept db db2 \<and> service_inv (ap_quota db2)
    \<and> lease_final (ap_quota db) (ap_quota db2) \<and> now db2 = now db
    \<and> quota = map_option (\<lambda>_. expected_quota status) (rn_quotaLease r)
    \<and> (\<forall>l. rn_quotaLease r = Some l \<longrightarrow> answer_lease (ap_quota db2) l (rn_user r) (expected_quota status))"
proof -
  have q: "service_inv (ap_quota d0)" using run_invD(1)[OF inv] by (simp add: d0(4))
  note fr = frameD[OF clean]
  show ?thesis
  proof (cases "rn_quotaLease r")
    case None
    with settle have db1: "db1 = d0" "quota = None" by simp_all
    have "service_inv (ap_quota db2)"
      by (rule service_inv_cong[OF run_invD(1)[OF inv]]) (use fr d0 db1 in simp_all)
    moreover have "lease_final (ap_quota db) (ap_quota db2)"
      by (rule lease_final_cong) (use fr d0 db1 in simp)
    ultimately show ?thesis
      using fr d0 db1 None by (simp add: keys_kept_def)
  next
    case (Some l)
    then obtain st where st: "answer_lease (ap_quota d0) l (rn_user r) st"
      using run_invD(4)[OF inv r] by (auto simp: run_ok_def d0(4))
    from settleAnswerQuota_Inr[OF q st settle[unfolded Some]] obtain q' where
      db1: "db1 = d0\<lparr>ap_quota := q'\<rparr>" and quota: "quota = Some (expected_quota status)"
      and q': "service_inv q'" "answer_lease q' l (rn_user r) (expected_quota status)"
        "lease_final (ap_quota d0) q'" "q_next q' = next_id d0" "q_now q' = now d0"
      by auto
    have ledger: "q_ledger (ap_quota db2) = q_ledger q'" using fr(5) by (simp add: db1)
    have "service_inv (ap_quota db2)"
      by (rule service_inv_cong[OF q'(1) ledger]) (use fr(6,9) in \<open>simp_all add: db1\<close>)
    moreover have "lease_final (ap_quota db) (ap_quota db2)"
      using q'(3) by (simp add: lease_final_def answer_lease_cong[OF ledger] d0(4))
    moreover have "answer_lease (ap_quota db2) l (rn_user r) (expected_quota status)"
      using q'(2) by (simp add: answer_lease_cong[OF ledger])
    ultimately show ?thesis
      using fr d0 q'(4,5) quota Some by (simp add: keys_kept_def db1)
  qed
qed

lemma keys_kept_message:
  assumes "keys_kept db d" "map ms_id (ap_messages (update_message i f d)) = map ms_id (ap_messages d)"
  shows "keys_kept db (update_message i f d)"
  using assms by (simp add: keys_kept_def update_message_def)

lemma update_message_simps [simp]:
  "ap_runs (update_message i f db) = ap_runs db" "ap_quota (update_message i f db) = ap_quota db"
  "ap_turns (update_message i f db) = ap_turns db" "ap_conversations (update_message i f db) = ap_conversations db"
  by (simp_all add: update_message_def)

lemma settled_run_ok:
  assumes ok: "run_ok db r" and keys: "keys_kept db db'"
    and f: "rn_id r' = rn_id r" "rn_turn r' = rn_turn r" "rn_assistantMessage r' = rn_assistantMessage r"
      "rn_quotaLease r' = rn_quotaLease r" "rn_user r' = rn_user r" "rn_status r' = status"
      "rn_quotaStatus r' = map_option (\<lambda>_. expected_quota status) (rn_quotaLease r)"
    and ended: "\<not> run_active status"
    and lease: "\<And>l. rn_quotaLease r = Some l \<Longrightarrow> answer_lease (ap_quota db') l (rn_user r) (expected_quota status)"
  shows "run_ok db' r'"
  using ok keys_keptD[OF keys] lease ended
  by (auto simp: run_ok_def settled_quota_def f split: option.split)

lemma fail_cases:
  assumes "fail pf inp db = Inr (quota, db')"
  obtains (ended) "db' = db"
      "find (\<lambda>r. rn_id r = cr_run (fi_run inp) \<and> run_active (rn_status r)) (ap_runs db) = None"
      "already_failed (run_of db (cr_run (fi_run inp))) = Inr quota"
    | (ends) r db1 db2 where "r \<in> set (ap_runs db)" "rn_id r = cr_run (fi_run inp)" "run_active (rn_status r)"
      "settleAnswerQuota (rp_collations pf) (rn_quotaLease r) (rn_user r) (fail_status inp) (fail_reason inp)
        (update_run (cr_run (fi_run inp)) (fail_run inp db) db) = Inr (quota, db1)"
      "cleanupRunArtifacts (fail_scope inp (rn_user r)) db1 = Inr db2"
      "db' = update_message (cr_assistantMessage (fi_run inp)) (fail_message inp db)
        (update_run (cr_run (fi_run inp)) (settle_run quota) db2)"
proof (cases "find (\<lambda>r. rn_id r = cr_run (fi_run inp) \<and> run_active (rn_status r)) (ap_runs db)")
  case None
  with assms show ?thesis by (auto simp: fail_def Let_def bindR_eq_Inr intro: ended)
next
  case (Some r)
  from find_SomeD[OF this] have r: "r \<in> set (ap_runs db)" "rn_id r = cr_run (fi_run inp)" "run_active (rn_status r)"
    by simp_all
  from assms Some obtain db1 db2 where
    "settleAnswerQuota (rp_collations pf) (rn_quotaLease r) (rn_user r) (fail_status inp) (fail_reason inp)
      (update_run (cr_run (fi_run inp)) (fail_run inp db) db) = Inr (quota, db1)"
    "cleanupRunArtifacts (fail_scope inp (rn_user r)) db1 = Inr db2"
    "db' = update_message (cr_assistantMessage (fi_run inp)) (fail_message inp db)
        (update_run (cr_run (fi_run inp)) (settle_run quota) db2)"
    by (auto simp: fail_def Let_def bindR_eq_Inr split: if_splits)
  with r show ?thesis by (rule ends)
qed

lemma fail_inv:
  assumes inv: "run_inv db" and run: "fail pf inp db = Inr (quota, db')"
  shows "run_inv db'"
proof (rule fail_cases[OF run])
  assume "db' = db"
  with inv show ?thesis by simp
next
  fix r db1 db2
  define i where "i = cr_run (fi_run inp)"
  assume "r \<in> set (ap_runs db)" "rn_id r = cr_run (fi_run inp)" "run_active (rn_status r)"
  then have r: "r \<in> set (ap_runs db)" "rn_id r = i" "run_active (rn_status r)" by (simp_all add: i_def)
  assume "settleAnswerQuota (rp_collations pf) (rn_quotaLease r) (rn_user r) (fail_status inp) (fail_reason inp)
        (update_run (cr_run (fi_run inp)) (fail_run inp db) db) = Inr (quota, db1)"
  note settle = this[folded i_def]
  assume clean: "cleanupRunArtifacts (fail_scope inp (rn_user r)) db1 = Inr db2"
  assume "db' = update_message (cr_assistantMessage (fi_run inp)) (fail_message inp db)
        (update_run (cr_run (fi_run inp)) (settle_run quota) db2)"
  note db' = this[folded i_def]
  note s = settle_and_clean[OF inv r(1) _ _ _ _ settle cleanup_frame[OF clean], simplified]
  have keys: "keys_kept db db'"
    unfolding db' by (rule keys_kept_message) (use s in \<open>simp_all add: keys_kept_def row_updates_keys\<close>)
  let ?f = "\<lambda>r. (settle_run quota ((fail_run inp db r)\<lparr>rn_updatedAt := now db\<rparr>))\<lparr>rn_updatedAt := now db\<rparr>"
  have runs: "ap_runs db' = update_where (\<lambda>x. rn_id x = i) ?f (ap_runs db)"
    using s by (simp add: db' update_run_def fail_run_def update_where_comp)
  show ?thesis
  proof (rule one_run_inv[OF inv r(1,2) runs])
    show "run_ok db' (?f r)"
      by (rule settled_run_ok[OF run_invD(4)[OF inv r(1)] keys, where status = "fail_status inp"])
        (use s in \<open>auto simp: fail_run_def settle_run_def fail_status_def run_active_def db'\<close>)
  qed (use s keys in \<open>simp_all add: fail_run_def settle_run_def fail_status_def run_active_def db' split: if_splits\<close>)
qed

subsection \<open>Recovering\<close>

lemma recover_cases:
  assumes "recover_run pf before c db = Inr (b, db')"
  obtains (skipped) "db' = db" "\<not> b"
      "\<And>r. run_of db (cd_run c) = Some r \<Longrightarrow> \<not> stale_run before r"
    | (recovers) r interrupted status reason quota db1 db2 where b "run_of db (cd_run c) = Some r" "stale_run before r"
      "interrupted = was_interrupted before r" "status = (if interrupted then RunFailed else rn_status r)"
      "settleAnswerQuota (rp_collations pf) (rn_quotaLease r) (rn_user r) status reason db = Inr (quota, db1)"
      "db2 = db1 \<or> cleanupRunArtifacts \<lparr>sc_run = cd_run c, sc_user = rn_user r,
          sc_conversation = cd_conversation c, sc_turn = cd_turn c, sc_message = cd_message c\<rparr> db1 = Inr db2"
      "db' = (let db3 = update_run (cd_run c) (recover_row interrupted status quota (now db)) db2
           in if interrupted then update_message (cd_message c) (interrupt_message c (now db)) db3 else db3)"
proof (cases "\<exists>r. run_of db (cd_run c) = Some r \<and> stale_run before r")
  case False
  with assms show ?thesis
    by (intro skipped) (auto simp: recover_run_def split: option.splits if_splits)
next
  case True
  then obtain r where r: "run_of db (cd_run c) = Some r" "stale_run before r" by blast
  define interrupted where "interrupted = was_interrupted before r"
  define status where "status = (if interrupted then RunFailed else rn_status r)"
  define sc where "sc = \<lparr>sc_run = cd_run c, sc_user = rn_user r,
          sc_conversation = cd_conversation c, sc_turn = cd_turn c, sc_message = cd_message c\<rparr>"
  define reason where "reason = (if interrupted then ''agent_run_process_interrupted''
                          else ''agent_run_'' @ status_name status @ ''_recovery'')"
  from assms r have "bindR (settleAnswerQuota (rp_collations pf) (rn_quotaLease r) (rn_user r) status reason db)
       (\<lambda>(quota, db1). bindR (if status = RunFailed \<or> status = RunCancelled then cleanupRunArtifacts sc db1 else Inr db1)
         (\<lambda>db2. let db3 = update_run (cd_run c) (recover_row interrupted status quota (now db)) db2
           in Inr (True, if interrupted then update_message (cd_message c) (interrupt_message c (now db)) db3 else db3)))
      = Inr (b, db')"
    unfolding recover_run_def Let_def interrupted_def status_def sc_def reason_def by simp
  then obtain x where x: "settleAnswerQuota (rp_collations pf) (rn_quotaLease r) (rn_user r) status reason db = Inr x"
    and rest: "(case x of (quota, db1) \<Rightarrow> bindR (if status = RunFailed \<or> status = RunCancelled
        then cleanupRunArtifacts sc db1 else Inr db1)
         (\<lambda>db2. let db3 = update_run (cd_run c) (recover_row interrupted status quota (now db)) db2
           in Inr (True, if interrupted then update_message (cd_message c) (interrupt_message c (now db)) db3 else db3)))
      = Inr (b, db')"
    unfolding bindR_eq_Inr by blast
  obtain quota db1 where xp: "x = (quota, db1)" by (cases x)
  from rest[unfolded xp] obtain db2 where
    "(if status = RunFailed \<or> status = RunCancelled then cleanupRunArtifacts sc db1 else Inr db1) = Inr db2"
    "b" "db' = (let db3 = update_run (cd_run c) (recover_row interrupted status quota (now db)) db2
           in if interrupted then update_message (cd_message c) (interrupt_message c (now db)) db3 else db3)"
    unfolding prod.case bindR_eq_Inr by (auto simp: Let_def)
  with x[unfolded xp] have parts: "b"
    "settleAnswerQuota (rp_collations pf) (rn_quotaLease r) (rn_user r) status reason db = Inr (quota, db1)"
    "(if status = RunFailed \<or> status = RunCancelled then cleanupRunArtifacts sc db1 else Inr db1) = Inr db2"
    "db' = (let db3 = update_run (cd_run c) (recover_row interrupted status quota (now db)) db2
           in if interrupted then update_message (cd_message c) (interrupt_message c (now db)) db3 else db3)"
    by simp_all
  have clean: "db2 = db1 \<or> cleanupRunArtifacts sc db1 = Inr db2"
    using parts(3) by (simp split: if_splits)
  show ?thesis
    by (rule recovers[OF parts(1) r interrupted_def status_def parts(2) clean[unfolded sc_def] parts(4)])
qed

lemma stale_ended: "stale_run before r \<Longrightarrow> \<not> run_active (if was_interrupted before r then RunFailed else rn_status r)"
  by (auto simp: stale_run_def needs_settlement_def run_active_def)

lemma recover_run_inv:
  assumes inv: "run_inv db" and run: "recover_run pf before c db = Inr (b, db')"
  shows "run_inv db'"
proof (rule recover_cases[OF run])
  assume "db' = db"
  with inv show ?thesis by simp
next
  fix r interrupted status reason quota db1 db2
  assume rr: "run_of db (cd_run c) = Some r" and stale: "stale_run before r"
    and i: "interrupted = was_interrupted before r" and st: "status = (if interrupted then RunFailed else rn_status r)"
    and settle: "settleAnswerQuota (rp_collations pf) (rn_quotaLease r) (rn_user r) status reason db = Inr (quota, db1)"
    and clean: "db2 = db1 \<or> cleanupRunArtifacts \<lparr>sc_run = cd_run c, sc_user = rn_user r,
          sc_conversation = cd_conversation c, sc_turn = cd_turn c, sc_message = cd_message c\<rparr> db1 = Inr db2"
    and db': "db' = (let db3 = update_run (cd_run c) (recover_row interrupted status quota (now db)) db2
           in if interrupted then update_message (cd_message c) (interrupt_message c (now db)) db3 else db3)"
  have ended: "\<not> run_active status" using stale_ended[OF stale] by (simp add: st i)
  from run_ofD[OF rr] have r: "r \<in> set (ap_runs db)" "rn_id r = cd_run c" by simp_all
  have frame: "run_frame db1 db2" using clean cleanup_frame by (auto simp: run_frame_refl)
  note s = settle_and_clean[OF inv r(1) refl refl refl refl settle frame, simplified]
  have keys: "keys_kept db db'"
    using s by (auto simp: db' Let_def keys_kept_def row_updates_keys)
  let ?f = "\<lambda>r. (recover_row interrupted status quota (now db) r)\<lparr>rn_updatedAt := now db\<rparr>"
  have runs: "ap_runs db' = update_where (\<lambda>x. rn_id x = cd_run c) ?f (ap_runs db)"
    using s by (simp add: db' Let_def update_run_def)
  have quota: "ap_quota db' = ap_quota db2" by (simp add: db' Let_def)
  show ?thesis
  proof (rule one_run_inv[OF inv r runs])
    show "run_ok db' (?f r)"
      by (rule settled_run_ok[OF run_invD(4)[OF inv r(1)] keys, where status = status])
        (use s ended in \<open>auto simp: recover_row_def quota\<close>)
    show "run_active (rn_status (?f r)) \<Longrightarrow> run_active (rn_status r)"
      using ended by (simp add: recover_row_def)
  qed (use s keys in \<open>simp_all add: recover_row_def quota\<close>)
qed

text \<open>Quota transactions of any kind.\<close>

lemma quota_change_inv:
  assumes inv: "run_inv db" and q: "service_inv q'" "lease_final (ap_quota db) q'" "next_id db \<le> q_next q'"
  shows "run_inv (db\<lparr>ap_quota := q'\<rparr>)"
  by (rule other_tables_inv[OF inv]) (simp_all add: keys_kept_def q)

lemma release_orphan_inv:
  assumes inv: "run_inv db" and run: "release_orphan pf x db = Inr (b, db')"
  shows "run_inv db'"
proof -
  from run obtain rv q' inp where t: "transitionQuotaReservation (rp_collations pf) inp Released (ap_quota db) = Inr (rv, q')"
    and db': "db' = db\<lparr>ap_quota := q'\<rparr>"
    by (auto simp: release_orphan_def split: sum.splits if_splits)
  from transition_final[OF run_invD(1)[OF inv] _ t] show ?thesis
    unfolding db' by (intro quota_change_inv[OF inv]) auto
qed

lemma reserve_final:
  assumes "service_inv q" "regular_input inp" "pg_reserve col inp q = (r, q')"
  shows "service_inv q' \<and> lease_final q q' \<and> q_next q \<le> q_next q'"
  using pg_reserve_service[OF assms]
proof (elim conjE disjE)
  assume "service_inv q'" "\<exists>rv. r = Inr rv \<and> new_lease inp q rv q'"
  then obtain rv where nl: "new_lease inp q rv q'" and si: "service_inv q'" by blast
  then obtain new where new: "q_ledger q' = q_ledger q @ new" by (auto simp: new_lease_def)
  have "lease_final q q'"
    unfolding lease_final_def answer_lease_def new by auto
  moreover have "q_next q \<le> q_next q'"
  proof -
    from nl obtain x where "x \<in> set (q_ledger q')" "ld_leaseId x = q_next q"
      unfolding new_lease_def by (metis Un_iff last_in_set set_append)
    then show ?thesis using si by (auto simp: service_inv_def quota_inv_def ledger_wf_def intro: less_imp_le)
  qed
  ultimately show ?thesis using si by simp
qed (auto intro: lease_final_cong)

end
