(* ===== verification/Run_Creation.thy ===== *)
theory Run_Creation
  imports Run_Lifecycle
begin

section \<open>Creating runs keeps the invariant\<close>

text \<open>
  Both ways of starting a run find no active run in the conversation, take fresh ids, and use a
  lease that no other run has.
\<close>

lemma lookup_snoc_old: "lookup key k xs \<noteq> None \<Longrightarrow> lookup key k (xs @ ys) = lookup key k xs"
  by (auto simp: lookup_append split: option.split)

lemma insert_runD:
  assumes "insert_run r db = Inr db'"
  shows "db' = db\<lparr>ap_runs := ap_runs db @ [r]\<rparr>"
    and "x \<in> set (ap_runs db) \<Longrightarrow> rn_quotaLease r \<noteq> None \<Longrightarrow> rn_quotaLease x \<noteq> rn_quotaLease r"
    and "x \<in> set (ap_runs db) \<Longrightarrow> rn_user x = rn_user r \<Longrightarrow> rn_clientRequest x \<noteq> rn_clientRequest r"
  using assms by (auto simp: insert_run_def split: if_splits)

lemma insert_messageD: "insert_message m db = Inr db' \<Longrightarrow> db' = db\<lparr>ap_messages := ap_messages db @ [m]\<rparr>"
  by (simp add: insert_message_def split: if_splits)

lemma insert_turnD: "insert_turn t db = Inr db' \<Longrightarrow> db' = db\<lparr>ap_turns := ap_turns db @ [t]\<rparr>"
  by (simp add: insert_turn_def split: if_splits)

lemma findActiveRun_None:
  "findActiveRun c db = None \<Longrightarrow> x \<in> set (ap_runs db) \<Longrightarrow> run_active (rn_status x) \<Longrightarrow> run_conversation db x \<noteq> Some c"
  by (auto simp: findActiveRun_def find_None_iff)

text \<open>The rows of a new run, over whatever tables the caller has extended.\<close>

lemma insert_run_inv:
  assumes inv: "run_inv db"
    and d: "ap_runs d = ap_runs db" "ap_turns d = ap_turns db @ ts" "ap_messages d = ap_messages db @ ms"
      "q_ledger (ap_quota d) = q_ledger (ap_quota db)" "q_buckets (ap_quota d) = q_buckets (ap_quota db)"
      "next_id db \<le> next_id d" "ids_below d"
    and r: "r = new_run i turn user msg clientRequest version action modes lease d0"
      "next_id db \<le> i" "i < next_id d"
    and turn: "turn_of d turn \<noteq> None" and msg: "msg \<in> ms_id ` set ms"
    and lease: "answer_lease (ap_quota db) lease user st"
    and free: "\<And>x. x \<in> set (ap_runs db) \<Longrightarrow> run_active (rn_status x) \<Longrightarrow> run_conversation db x \<noteq> run_conversation d r"
    and ins: "insert_run r d = Inr d'"
  shows "run_inv d'"
proof (rule new_run_inv[OF inv])
  note d' = insert_runD(1)[OF ins]
  have old: "turn_of db (rn_turn x) \<noteq> None" "message_of db (rn_assistantMessage x) \<noteq> None" "rn_id x < next_id db"
    if "x \<in> set (ap_runs db)" for x
    using run_invD(4)[OF inv that] by (simp_all add: run_ok_def)
  show "ap_runs d' = ap_runs db @ [r]" by (simp add: d' d)
  show "q_ledger (ap_quota d') = q_ledger (ap_quota db)" by (simp add: d' d)
  show "service_inv (ap_quota d')"
    by (rule service_inv_cong[OF run_invD(1)[OF inv]]) (simp_all add: d' d)
  show "next_id db \<le> next_id d'" using d by (simp add: d')
  show "ids_below d'" using d(7) by (simp add: d' ids_below_def)
  show "turn_of d' (rn_turn x) = turn_of db (rn_turn x)" if "x \<in> set (ap_runs db)" for x
    using old(1)[OF that] by (simp add: d' d turn_of_def lookup_snoc_old)
  show "message_of d' (rn_assistantMessage x) \<noteq> None" if "x \<in> set (ap_runs db)" for x
    using old(2)[OF that] by (simp add: d' d message_of_def lookup_snoc_old)
  have "message_of d' msg \<noteq> None"
    using msg by (auto simp: d' d message_of_def lookup_None_iff)
  then show "run_ok d' r"
    using turn lease r(3) by (auto simp: run_ok_def r(1) new_run_def d' d turn_of_def answer_lease_cong[OF d(4)])
  have "rn_id r = i" by (simp add: r(1) new_run_def)
  then show "rn_id r \<notin> rn_id ` set (ap_runs db)" using old(3) r(2) by fastforce
  have "run_conversation d' r = run_conversation d r" by (simp add: run_conversation_def turn_of_def d')
  then show "run_conversation db x \<noteq> run_conversation d' r" if "x \<in> set (ap_runs db)" "run_active (rn_status x)" for x
    using free[OF that] by simp
  show "rn_quotaLease x \<noteq> rn_quotaLease r" if "x \<in> set (ap_runs db)" "rn_quotaLease r \<noteq> None" for x
    using insert_runD(2)[OF ins, of x] that by (simp add: d)
qed

lemma touch_conversation_inv: "run_inv db \<Longrightarrow> run_inv (touch_conversation c db)"
proof (rule other_tables_inv)
  have "map cv_id (ap_conversations (touch_conversation c db)) = map cv_id (ap_conversations db)"
    by (auto simp: touch_conversation_def intro: map_update_where)
  then show "keys_kept db (touch_conversation c db)" by (simp add: keys_kept_def touch_conversation_def)
qed (auto simp: touch_conversation_def run_invD(1) intro: lease_final_cong)

lemma new_conversation_inv:
  assumes inv: "run_inv db"
  shows "run_inv (snd (new_conversation inp db))"
proof -
  define d where "d = snd (new_conversation inp db)"
  have d: "ap_runs d = ap_runs db" "ap_turns d = ap_turns db" "ap_messages d = ap_messages db"
    "q_ledger (ap_quota d) = q_ledger (ap_quota db)" "q_buckets (ap_quota d) = q_buckets (ap_quota db)"
    "next_id d = next_id db + 1"
    by (simp_all add: d_def new_conversation_def)
  have c: "set (map cv_id (ap_conversations d)) = insert (next_id db) (set (map cv_id (ap_conversations db)))"
    by (simp add: d_def new_conversation_def)
  have "service_inv (ap_quota d)" by (rule service_inv_cong[OF run_invD(1)[OF inv]]) (simp_all add: d)
  moreover have "run_ok d r" if "r \<in> set (ap_runs db)" for r
    using run_invD(4)[OF inv that]
    by (auto simp: run_ok_def settled_quota_def turn_of_def message_of_def d answer_lease_cong[OF d(4)] split: option.splits)
  moreover have "one_active d" "own_leases d"
    using run_invD(5,6)[OF inv] unfolding one_active_def own_leases_def d run_conversation_def turn_of_def .
  moreover have "ids_below d"
    using run_invD(3)[OF inv] c unfolding ids_below_def d by (force simp: less_Suc_eq image_iff)
  ultimately show ?thesis
    using run_invD(2)[OF inv] unfolding run_inv_def d_def[symmetric] d by blast
qed

lemma insert_initial_inv:
  assumes inv: "run_inv db" and lease: "answer_lease (ap_quota db) (in_lease inp) (in_user inp) st"
    and free: "findActiveRun conv db = None" and run: "insert_initial inp conv db = Inr (res, db')"
  shows "run_inv db'"
proof -
  define n where "n = next_id db"
  define m1 where "m1 = question_message inp n conv (last_sequence conv db + 1) (n + 2) db"
  define m2 where "m2 = assistant_message (n + 1) conv (in_user inp) (last_sequence conv db + 1 + 1) (n + 2)
             (md_model (in_modes inp)) (in_clientRequest inp) (n + 3) 1"
  define t where "t = \<lparr>tn_id = n + 2, tn_conversation = conv, tn_userMessage = n,
             tn_ordinal = last_ordinal conv db + 1, tn_selectedRun = None, tn_updatedAt = now db\<rparr>"
  define r where "r = new_run (n + 3) (n + 2) (in_user inp) (n + 1) (in_clientRequest inp) 1 ActInitial
             (in_modes inp) (in_lease inp) db"
  define d where "d = db\<lparr>ap_quota := (ap_quota db)\<lparr>q_next := n + 4\<rparr>, ap_messages := ap_messages db @ [m1, m2],
      ap_turns := ap_turns db @ [t]\<rparr>"
  from run obtain d4 where ins: "insert_run r d = Inr d4" and db': "db' = touch_conversation conv d4"
    by (auto simp: insert_initial_def Let_def bindR_eq_Inr n_def m1_def m2_def
        t_def r_def d_def dest!: insert_messageD insert_turnD)
  have ids: "ids_below db" by (rule run_invD(3)[OF inv])
  have td: "turn_of d (n + 2) = Some t"
  proof -
    have "lookup tn_id (n + 2) (ap_turns db) = None"
      using ids by (force simp: lookup_None_iff ids_below_def n_def)
    then show ?thesis by (simp add: turn_of_def d_def lookup_append lookup_Cons lookup_Nil t_def)
  qed
  have "run_inv d4"
  proof (rule insert_run_inv[OF inv, where ts = "[t]" and ms = "[m1, m2]", OF _ _ _ _ _ _ _ r_def _ _ _ _ lease _ ins])
    show "ids_below d"
      using ids by (auto simp: ids_below_def d_def n_def m1_def m2_def t_def question_message_def assistant_message_def)
    show "turn_of d (n + 2) \<noteq> None" using td by simp
    show "n + 1 \<in> ms_id ` set [m1, m2]" by (simp add: m2_def assistant_message_def)
    show "run_conversation db x \<noteq> run_conversation d r" if "x \<in> set (ap_runs db)" "run_active (rn_status x)" for x
      using findActiveRun_None[OF free that] td by (simp add: run_conversation_def r_def new_run_def t_def)
  qed (simp_all add: d_def n_def)
  then show ?thesis unfolding db' by (rule touch_conversation_inv)
qed

lemma createInitial_inv:
  assumes inv: "run_inv db" and lease: "answer_lease (ap_quota db) (in_lease inp) (in_user inp) st"
    and run: "createInitial pf inp db = Inr (res, db')"
  shows "run_inv db'"
proof (cases "findRunByClientRequest pf (in_user inp) (in_clientRequest inp) db")
  case (Some x)
  with run inv show ?thesis by (auto simp: createInitial_def bindR_eq_Inr)
next
  case None
  with run obtain conv d where
    conv: "(conv, d) = (case in_conversation inp of Some c \<Rightarrow> (c, db) | None \<Rightarrow> new_conversation inp db)"
    and rest: "(case findActiveRun conv d of Some busy \<Rightarrow> Inr (RunBusy (rn_id busy), d)
         | None \<Rightarrow> insert_initial inp conv d) = Inr (res, db')"
    by (auto simp: createInitial_def bindR_eq_Inr split: option.splits if_splits)
  have d: "run_inv d" "q_ledger (ap_quota d) = q_ledger (ap_quota db)"
    using conv inv new_conversation_inv[OF inv, of inp]
    by (auto simp: new_conversation_def split: option.splits)
  show ?thesis
  proof (cases "findActiveRun conv d")
    case None
    with rest have ins: "insert_initial inp conv d = Inr (res, db')" by simp
    have "answer_lease (ap_quota d) (in_lease inp) (in_user inp) st"
      by (simp add: lease answer_lease_cong[OF d(2)])
    then show ?thesis by (rule insert_initial_inv[OF d(1) _ None ins])
  next
    case (Some b)
    with rest d show ?thesis by simp
  qed
qed

lemma insert_action_inv:
  assumes inv: "run_inv db" and lease: "answer_lease (ap_quota db) (ac_lease inp) (ac_user inp) st"
    and tn: "turn_of db (tn_id tn) = Some tn" and free: "findActiveRun (tn_conversation tn) db = None"
    and run: "insert_action pf inp tn q db = Inr (res, db')"
  shows "run_inv db'"
proof -
  define n where "n = next_id db"
  define version where "version = last_version (tn_id tn) db + 1"
  define m where "m = assistant_message n (tn_conversation tn) (ac_user inp) (last_sequence (tn_conversation tn) db + 1)
             (tn_id tn) (md_model (ac_modes inp)) (ac_clientRequest inp) (n + 1) version"
  define r where "r = new_run (n + 1) (tn_id tn) (ac_user inp) n (ac_clientRequest inp) version
             (ac_action inp) (ac_modes inp) (ac_lease inp) db"
  define d where "d = db\<lparr>ap_quota := (ap_quota db)\<lparr>q_next := n + 2\<rparr>, ap_messages := ap_messages db @ [m]\<rparr>"
  from run have ins: "insert_run r d = Inr db'"
    by (auto simp: insert_action_def Let_def bindR_eq_Inr n_def m_def
        version_def r_def d_def dest!: insert_messageD)
  have td: "turn_of d (tn_id tn) = Some tn" using tn by (simp add: d_def turn_of_def)
  show ?thesis
  proof (rule insert_run_inv[OF inv, where ts = "[]" and ms = "[m]", OF _ _ _ _ _ _ _ r_def _ _ _ _ lease _ ins])
    show "ids_below d"
      using run_invD(3)[OF inv] by (auto simp: ids_below_def d_def n_def m_def assistant_message_def)
    show "turn_of d (tn_id tn) \<noteq> None" using td by simp
    show "n \<in> ms_id ` set [m]" by (simp add: m_def assistant_message_def)
    show "run_conversation db x \<noteq> run_conversation d r" if "x \<in> set (ap_runs db)" "run_active (rn_status x)" for x
      using findActiveRun_None[OF free that] td by (simp add: run_conversation_def r_def new_run_def)
  qed (simp_all add: d_def n_def)
qed

lemma owned_turnD: "owned_turn t user db = Some (tn, m) \<Longrightarrow> turn_of db (tn_id tn) = Some tn \<and> tn_id tn = t
   \<and> open_conversation (tn_conversation tn) user db \<and> message_of db (tn_userMessage tn) = Some m"
  by (auto simp: owned_turn_def turn_of_def bind_eq_Some_conv split: if_splits dest: lookup_SomeD)

lemma createAction_inv:
  assumes inv: "run_inv db" and lease: "answer_lease (ap_quota db) (ac_lease inp) (ac_user inp) st"
    and run: "createAction pf inp db = Inr (res, db')"
  shows "run_inv db'"
proof (cases "db' = db")
  case False
  with run obtain tn m where tn: "owned_turn (ac_turn inp) (ac_user inp) db = Some (tn, m)"
    and free: "findActiveRun (tn_conversation tn) db = None"
    and ins: "insert_action pf inp tn m db = Inr (res, db')"
    by (auto simp: createAction_def bindR_eq_Inr split: option.splits if_splits)
  show ?thesis
    by (rule insert_action_inv[OF inv lease conjunct1[OF owned_turnD[OF tn]] free ins])
qed (use inv in simp)

end
