(* ===== verification/Run_Machine.thy ===== *)
theory Run_Machine
  imports Run_Creation
begin

section \<open>Runs, quota and storage as one state machine\<close>

text \<open>
  Every committed transaction that touches runs, leases or stored objects is a step: the run
  store's own, the recovery's, the storage code's, quota transactions of other requests, and the
  passing of time. The invariants of the runs and of the storage hold along every sequence of
  steps, and the row of a run only ever moves forward.
\<close>

inductive run_step :: "run_platform \<Rightarrow> app_db \<Rightarrow> app_db \<Rightarrow> bool" for pf where
  run_initial: "createInitial pf inp db = Inr (res, db') \<Longrightarrow>
    answer_lease (ap_quota db) (in_lease inp) (in_user inp) st \<Longrightarrow> run_step pf db db'"
| run_action: "createAction pf ainp db = Inr (res, db') \<Longrightarrow>
    answer_lease (ap_quota db) (ac_lease ainp) (ac_user ainp) st \<Longrightarrow> run_step pf db db'"
| run_complete: "complete pf cinp db = Inr (content, db') \<Longrightarrow> run_step pf db db'"
| run_fail: "fail pf finp db = Inr (quota, db') \<Longrightarrow> run_step pf db db'"
| run_cancel: "requestCancellation user i db = (c, db') \<Longrightarrow> run_step pf db db'"
| run_tool: "recordToolCall tinp db = Inr db' \<Longrightarrow> run_step pf db db'"
| run_purge: "cleanupExpiredAgentToolCalls db = (n, db') \<Longrightarrow> run_step pf db db'"
| run_recover: "recover_run pf before cand db = Inr (b, db') \<Longrightarrow> run_step pf db db'"
| run_orphan: "release_orphan pf x db = Inr (b, db') \<Longrightarrow> run_step pf db db'"
| run_reserve: "pg_reserve (rp_collations pf) rinp (ap_quota db) = (rv, q') \<Longrightarrow> regular_input rinp \<Longrightarrow>
    run_step pf db (db\<lparr>ap_quota := q'\<rparr>)"
| run_settle: "transitionQuotaReservation (rp_collations pf) sinp target (ap_quota db) = Inr (rvv, q') \<Longrightarrow>
    target \<noteq> Reserved \<Longrightarrow> run_step pf db (db\<lparr>ap_quota := q'\<rparr>)"
| run_storage: "storage_step db db' \<Longrightarrow> run_step pf db db'"
| run_time: "now db \<le> t \<Longrightarrow> run_step pf db (db\<lparr>ap_quota := (ap_quota db)\<lparr>q_now := t\<rparr>\<rparr>)"

subsection \<open>The invariants\<close>

lemma toolcalls_inv: "run_inv db \<Longrightarrow> run_inv (db\<lparr>ap_toolCalls := ts\<rparr>)"
  by (erule run_frame_inv) (simp add: run_frame_def run_view_def)

lemma recordToolCall_Inr: "recordToolCall inp db = Inr db' \<Longrightarrow> \<exists>ts. db' = (draw_id db)\<lparr>ap_toolCalls := ts\<rparr>"
  by (auto simp: recordToolCall_def Let_def split: if_splits)

lemma time_inv: "run_inv db \<Longrightarrow> run_inv (db\<lparr>ap_quota := (ap_quota db)\<lparr>q_now := t\<rparr>\<rparr>)"
  by (rule quota_change_inv) (auto intro: service_inv_cong run_invD(1) lease_final_cong)

lemma run_step_inv:
  assumes "run_step pf db db'" "run_inv db"
  shows "run_inv db'"
  using assms
proof (induction rule: run_step.induct)
  case (run_initial inp db res db' st)
  then show ?case using createInitial_inv by blast
next
  case (run_action ainp db res db' st)
  then show ?case using createAction_inv by blast
next
  case (run_tool tinp db db')
  then obtain ts where "db' = (draw_id db)\<lparr>ap_toolCalls := ts\<rparr>" by (blast dest: recordToolCall_Inr)
  then show ?case
    using toolcalls_inv[OF run_frame_inv[OF run_tool(2) frame_mutators(1)[OF run_frame_refl]]] by simp
next
  case (run_purge db n db')
  then show ?case by (auto simp: cleanupExpiredAgentToolCalls_def toolcalls_inv)
next
  case (run_reserve rinp db rv q')
  from reserve_final[OF run_invD(1)[OF run_reserve(3)] run_reserve(2,1)] show ?case
    by (intro quota_change_inv[OF run_reserve(3)]) auto
next
  case (run_settle sinp target db rvv q')
  from transition_final[OF run_invD(1)[OF run_settle(3)] run_settle(2,1)] show ?case
    by (intro quota_change_inv[OF run_settle(3)]) auto
next
  case (run_storage db db')
  then show ?case using run_frame_inv storage_step_frame by blast
qed (erule (1) complete_inv[rotated] fail_inv[rotated] requestCancellation_inv[rotated] recover_run_inv[rotated]
    release_orphan_inv[rotated] | erule time_inv)+

lemma run_steps_inv: "(run_step pf)\<^sup>*\<^sup>* db db' \<Longrightarrow> run_inv db \<Longrightarrow> run_inv db'"
  by (induction rule: rtranclp_induct) (auto dest: run_step_inv)

text \<open>The storage side.\<close>

definition storage_tables :: "app_db \<Rightarrow> _" where
  "storage_tables db = (ap_accounts db, ap_attachments db, ap_artifacts db, ap_files db, ap_jobs db)"

definition storage_kept :: "app_db \<Rightarrow> app_db \<Rightarrow> bool" where
  "storage_kept db db' \<longleftrightarrow> (storage_inv db \<longrightarrow> storage_inv db' \<and> no_object_lost db db')"

lemma same_tables_kept: "storage_tables db' = storage_tables db \<Longrightarrow> storage_kept db db'"
  by (simp add: storage_kept_def storage_tables_def storage_inv_def balanced_def attachments_wf_def files_wf_def
      used_def held_def at_used_def at_held_def fl_used_def fl_held_def has_account_def file_owner_def
      no_object_lost_def object_keys_def job_keys_def)

lemma storage_kept_trans: "storage_kept a b \<Longrightarrow> storage_kept b c \<Longrightarrow> storage_kept a c"
  unfolding storage_kept_def using no_object_lost_trans by blast

lemma settle_shape: "settleAnswerQuota col l u s reason db = Inr (quota, db') \<Longrightarrow> \<exists>q'. db' = db\<lparr>ap_quota := q'\<rparr>"
  by (auto simp: settleAnswerQuota_def Let_def intro: exI[of _ "ap_quota db"] split: option.splits sum.splits if_splits)

lemma storage_tables_simps [simp]:
  "storage_tables (update_run i f db) = storage_tables db" "storage_tables (update_message i g db) = storage_tables db"
  "storage_tables (db\<lparr>ap_quota := q\<rparr>) = storage_tables db" "storage_tables (touch_conversation c db) = storage_tables db"
  "storage_tables (db\<lparr>ap_runs := rs\<rparr>) = storage_tables db" "storage_tables (db\<lparr>ap_messages := ms\<rparr>) = storage_tables db"
  "storage_tables (db\<lparr>ap_turns := ts\<rparr>) = storage_tables db" "storage_tables (db\<lparr>ap_toolCalls := tc\<rparr>) = storage_tables db"
  "storage_tables (db\<lparr>ap_conversations := cs\<rparr>) = storage_tables db" "storage_tables (draw_id db) = storage_tables db"
  "storage_tables (complete_rows inp db) = storage_tables db"
  by (simp_all add: storage_tables_def update_run_def update_message_def touch_conversation_def complete_rows_frame)

lemma createInitial_tables:
  "createInitial pf inp db = Inr (res, db') \<Longrightarrow> storage_tables db' = storage_tables db"
  by (auto simp: createInitial_def insert_initial_def new_conversation_def Let_def bindR_eq_Inr
      split: option.splits if_splits dest!: insert_messageD insert_turnD insert_runD(1))

lemma createAction_tables:
  "createAction pf inp db = Inr (res, db') \<Longrightarrow> storage_tables db' = storage_tables db"
  by (auto simp: createAction_def insert_action_def Let_def bindR_eq_Inr
      split: option.splits if_splits dest!: insert_messageD insert_runD(1))

lemma cleanup_kept: "cleanupRunArtifacts sc db = Inr db' \<Longrightarrow> storage_kept db db'"
  by (simp add: storage_kept_def cleanupRunArtifacts_inv)

lemma fail_kept:
  assumes "fail pf inp db = Inr (quota, db')"
  shows "storage_kept db db'"
proof (rule fail_cases[OF assms])
  fix r db1 db2
  assume "settleAnswerQuota (rp_collations pf) (rn_quotaLease r) (rn_user r) (fail_status inp) (fail_reason inp)
        (update_run (cr_run (fi_run inp)) (fail_run inp db) db) = Inr (quota, db1)"
    and clean: "cleanupRunArtifacts (fail_scope inp (rn_user r)) db1 = Inr db2"
    and db': "db' = update_message (cr_assistantMessage (fi_run inp)) (fail_message inp db)
        (update_run (cr_run (fi_run inp)) (settle_run quota) db2)"
  then obtain q' where "db1 = (update_run (cr_run (fi_run inp)) (fail_run inp db) db)\<lparr>ap_quota := q'\<rparr>"
    by (blast dest: settle_shape)
  then have "storage_kept db db1" by (simp add: same_tables_kept)
  moreover have "storage_kept db2 db'" by (simp add: same_tables_kept db')
  ultimately show ?thesis using cleanup_kept[OF clean] storage_kept_trans by blast
qed (simp add: same_tables_kept)

lemma recover_kept:
  assumes "recover_run pf before c db = Inr (b, db')"
  shows "storage_kept db db'"
proof (rule recover_cases[OF assms])
  fix r interrupted status reason quota db1 db2
  assume settle: "settleAnswerQuota (rp_collations pf) (rn_quotaLease r) (rn_user r) status reason db = Inr (quota, db1)"
    and clean: "db2 = db1 \<or> cleanupRunArtifacts \<lparr>sc_run = cd_run c, sc_user = rn_user r,
          sc_conversation = cd_conversation c, sc_turn = cd_turn c, sc_message = cd_message c\<rparr> db1 = Inr db2"
    and db': "db' = (let db3 = update_run (cd_run c) (recover_row interrupted status quota (now db)) db2
           in if interrupted then update_message (cd_message c) (interrupt_message c (now db)) db3 else db3)"
  from settle obtain q' where "db1 = db\<lparr>ap_quota := q'\<rparr>" by (blast dest: settle_shape)
  then have "storage_kept db db1" by (simp add: same_tables_kept)
  moreover have "storage_kept db1 db2" using clean cleanup_kept by (auto simp: same_tables_kept)
  moreover have "storage_kept db2 db'" by (simp add: same_tables_kept db' Let_def)
  ultimately show ?thesis using storage_kept_trans by blast
qed (simp add: same_tables_kept)

lemma run_step_storage: "run_step pf db db' \<Longrightarrow> storage_kept db db'"
proof (induction rule: run_step.induct)
  case (run_initial inp db res db' st)
  then show ?case by (simp add: same_tables_kept createInitial_tables)
next
  case (run_action ainp db res db' st)
  then show ?case by (simp add: same_tables_kept createAction_tables)
next
  case (run_complete cinp db content db')
  then show ?case
    by (rule complete_cases) (auto dest!: settle_shape intro!: same_tables_kept)
next
  case (run_cancel user i db c db')
  then show ?case
    by (auto simp: requestCancellation_def intro!: same_tables_kept split: option.splits if_splits)
next
  case (run_tool tinp db db')
  then show ?case by (auto dest!: recordToolCall_Inr intro!: same_tables_kept)
next
  case (run_orphan x db b db')
  then show ?case by (auto simp: release_orphan_def intro!: same_tables_kept split: sum.splits if_splits)
next
  case (run_storage db db')
  then show ?case using storage_step_inv by (simp add: storage_kept_def)
qed (auto intro: same_tables_kept fail_kept recover_kept simp: cleanupExpiredAgentToolCalls_def)

lemma run_steps_storage: "(run_step pf)\<^sup>*\<^sup>* db db' \<Longrightarrow> storage_kept db db'"
  by (induction rule: rtranclp_induct)
    (auto intro: storage_kept_trans run_step_storage simp: same_tables_kept)

subsection \<open>The row of a run\<close>

definition run_evolves :: "run_row \<Rightarrow> run_row \<Rightarrow> bool" where
  "run_evolves r r' \<longleftrightarrow> rn_id r' = rn_id r \<and> rn_turn r' = rn_turn r \<and> rn_user r' = rn_user r
     \<and> rn_assistantMessage r' = rn_assistantMessage r \<and> rn_clientRequest r' = rn_clientRequest r
     \<and> rn_version r' = rn_version r \<and> rn_quotaLease r' = rn_quotaLease r
     \<and> (rn_cancelRequestedAt r \<noteq> None \<longrightarrow> rn_cancelRequestedAt r' \<noteq> None)
     \<and> (\<not> run_active (rn_status r) \<longrightarrow> rn_status r' = rn_status r)
     \<and> (run_active (rn_status r) \<longrightarrow> rn_cancelRequestedAt r \<noteq> None \<longrightarrow>
          rn_status r' \<noteq> RunCompleted \<and> rn_status r' \<noteq> RunIncomplete)"

definition runs_evolve :: "app_db \<Rightarrow> app_db \<Rightarrow> bool" where
  "runs_evolve db db' \<longleftrightarrow> (\<forall>r\<in>set (ap_runs db). \<exists>r'\<in>set (ap_runs db'). run_evolves r r')"

lemma run_evolves_refl: "run_evolves r r"
  by (auto simp: run_evolves_def run_active_def)

lemma run_evolves_trans:
  assumes "run_evolves a b" "run_evolves b c"
  shows "run_evolves a c"
  using assms unfolding run_evolves_def by (metis (full_types))

lemma runs_evolve_trans: "runs_evolve a b \<Longrightarrow> runs_evolve b c \<Longrightarrow> runs_evolve a c"
  unfolding runs_evolve_def using run_evolves_trans by blast

lemma runs_evolve_subset: "set (ap_runs db) \<subseteq> set (ap_runs db') \<Longrightarrow> runs_evolve db db'"
  unfolding runs_evolve_def using run_evolves_refl by blast

lemma runs_evolve_update:
  assumes inv: "run_inv db" and r: "r \<in> set (ap_runs db)" "rn_id r = i"
    and runs: "ap_runs db' = update_where (\<lambda>x. rn_id x = i) f (ap_runs db)" and f: "run_evolves r (f r)"
  shows "runs_evolve db db'"
  unfolding runs_evolve_def
proof
  fix x assume x: "x \<in> set (ap_runs db)"
  show "\<exists>r'\<in>set (ap_runs db'). run_evolves x r'"
  proof (cases "rn_id x = i")
    case True
    then have "x = r" using distinct_key_unique[OF run_invD(2)[OF inv] x r(1)] r(2) by simp
    then show ?thesis using f r by (auto simp: runs set_update_where)
  next
    case False
    then show ?thesis using x run_evolves_refl by (auto simp: runs set_update_where)
  qed
qed

lemma complete_evolves:
  assumes inv: "run_inv db" and run: "complete pf inp db = Inr (content, db')"
  shows "runs_evolve db db'"
proof -
  from run obtain r quota db1 lease where r: "r \<in> set (ap_runs db)" "rn_id r = cr_run (cp_run inp)"
      "run_active (rn_status r)" "rn_cancelRequestedAt r = None"
    and settle: "settleAnswerQuota (rp_collations pf) (Some lease) (cp_user inp) (complete_status inp)
       ''agent_run_incomplete'' (complete_rows inp db) = Inr (quota, db1)"
    and db': "db' = update_run (cr_run (cp_run inp)) (complete_run inp quota db) db1" by (rule complete_cases)
  from settle obtain q' where db1: "db1 = (complete_rows inp db)\<lparr>ap_quota := q'\<rparr>" by (blast dest: settle_shape)
  show ?thesis
    by (rule runs_evolve_update[OF inv r(1,2),
          where f = "\<lambda>r. (complete_run inp quota db r)\<lparr>rn_updatedAt := q_now q'\<rparr>"])
      (use r in \<open>simp_all add: db' db1 update_run_def complete_rows_frame run_evolves_def complete_run_def\<close>)
qed

lemma fail_evolves:
  assumes inv: "run_inv db" and run: "fail pf inp db = Inr (quota, db')"
  shows "runs_evolve db db'"
proof (rule fail_cases[OF run])
  fix r db1 db2
  assume r: "r \<in> set (ap_runs db)" "rn_id r = cr_run (fi_run inp)" "run_active (rn_status r)"
    and settle: "settleAnswerQuota (rp_collations pf) (rn_quotaLease r) (rn_user r) (fail_status inp) (fail_reason inp)
        (update_run (cr_run (fi_run inp)) (fail_run inp db) db) = Inr (quota, db1)"
    and clean: "cleanupRunArtifacts (fail_scope inp (rn_user r)) db1 = Inr db2"
    and db': "db' = update_message (cr_assistantMessage (fi_run inp)) (fail_message inp db)
        (update_run (cr_run (fi_run inp)) (settle_run quota) db2)"
  from settle obtain q' where db1: "db1 = (update_run (cr_run (fi_run inp)) (fail_run inp db) db)\<lparr>ap_quota := q'\<rparr>"
    by (blast dest: settle_shape)
  have "ap_runs db2 = ap_runs db1" using frameD(1)[OF cleanup_frame[OF clean]] .
  then have runs: "ap_runs db' = update_where (\<lambda>x. rn_id x = cr_run (fi_run inp))
      (\<lambda>r. (settle_run quota ((fail_run inp db r)\<lparr>rn_updatedAt := now db\<rparr>))\<lparr>rn_updatedAt := now db2\<rparr>) (ap_runs db)"
    by (simp add: db' db1 update_run_def fail_run_def update_where_comp)
  show ?thesis
    by (rule runs_evolve_update[OF inv r(1,2) runs])
      (use r(3) in \<open>simp add: run_evolves_def settle_run_def fail_run_def fail_status_def\<close>)
qed (simp add: runs_evolve_subset)

lemma recover_evolves:
  assumes inv: "run_inv db" and run: "recover_run pf before c db = Inr (b, db')"
  shows "runs_evolve db db'"
proof (rule recover_cases[OF run])
  fix r interrupted status reason quota db1 db2
  assume rr: "run_of db (cd_run c) = Some r" and stale: "stale_run before r"
    and i: "interrupted = was_interrupted before r" and st: "status = (if interrupted then RunFailed else rn_status r)"
    and settle: "settleAnswerQuota (rp_collations pf) (rn_quotaLease r) (rn_user r) status reason db = Inr (quota, db1)"
    and clean: "db2 = db1 \<or> cleanupRunArtifacts \<lparr>sc_run = cd_run c, sc_user = rn_user r,
          sc_conversation = cd_conversation c, sc_turn = cd_turn c, sc_message = cd_message c\<rparr> db1 = Inr db2"
    and db': "db' = (let db3 = update_run (cd_run c) (recover_row interrupted status quota (now db)) db2
           in if interrupted then update_message (cd_message c) (interrupt_message c (now db)) db3 else db3)"
  from run_ofD[OF rr] have r: "r \<in> set (ap_runs db)" "rn_id r = cd_run c" by simp_all
  from settle obtain q' where db1: "db1 = db\<lparr>ap_quota := q'\<rparr>" by (blast dest: settle_shape)
  have "ap_runs db2 = ap_runs db" using clean frameD(1)[OF cleanup_frame] db1 by auto
  then have eq: "ap_runs db' = update_where (\<lambda>x. rn_id x = cd_run c)
      (\<lambda>r. (recover_row interrupted status quota (now db) r)\<lparr>rn_updatedAt := now db2\<rparr>) (ap_runs db)"
    by (simp add: db' Let_def update_run_def)
  show ?thesis
    by (rule runs_evolve_update[OF inv r eq])
      (use stale in \<open>auto simp: run_evolves_def recover_row_def st i was_interrupted_def
         stale_run_def needs_settlement_def\<close>)
qed (simp add: runs_evolve_subset)

lemma run_step_evolves:
  assumes "run_step pf db db'" "run_inv db"
  shows "runs_evolve db db'"
  using assms
proof (induction rule: run_step.induct)
  case (run_initial inp db res db' st)
  then show ?case
    by (intro runs_evolve_subset) (auto simp: createInitial_def insert_initial_def new_conversation_def Let_def
      bindR_eq_Inr touch_conversation_def split: option.splits if_splits
      dest!: insert_messageD insert_turnD insert_runD(1))
next
  case (run_action ainp db res db' st)
  then show ?case
    by (intro runs_evolve_subset) (auto simp: createAction_def insert_action_def Let_def bindR_eq_Inr
      split: option.splits if_splits dest!: insert_messageD insert_runD(1))
next
  case (run_cancel user i db c db')
  show ?case
  proof (cases "db' = db")
    case False
    with run_cancel(1) obtain r where r: "r \<in> set (ap_runs db)" "rn_id r = i" "run_active (rn_status r)"
      and db': "db' = update_run i (\<lambda>r. r\<lparr>rn_cancelRequestedAt := Some (now db)\<rparr>) db"
      by (auto simp: requestCancellation_def split: option.splits if_splits dest: find_SomeD)
    show ?thesis
      by (rule runs_evolve_update[OF run_cancel(2) r(1,2), where f = "\<lambda>r. r\<lparr>rn_cancelRequestedAt := Some (now db),
            rn_updatedAt := now db\<rparr>"]) (use r(3) in \<open>auto simp: db' update_run_def run_evolves_def run_active_def\<close>)
  qed (simp add: runs_evolve_subset)
next
  case (run_tool tinp db db')
  then show ?case by (auto dest!: recordToolCall_Inr intro!: runs_evolve_subset)
next
  case (run_orphan x db b db')
  then show ?case by (auto simp: release_orphan_def intro!: runs_evolve_subset split: sum.splits if_splits)
next
  case (run_storage db db')
  then show ?case using frameD(1)[OF storage_step_frame] by (simp add: runs_evolve_subset)
qed (auto intro: runs_evolve_subset complete_evolves fail_evolves recover_evolves simp: cleanupExpiredAgentToolCalls_def)

lemma run_steps_evolve:
  assumes "(run_step pf)\<^sup>*\<^sup>* db db'" "run_inv db"
  shows "runs_evolve db db'"
  using assms
proof (induction rule: rtranclp_induct)
  case base
  then show ?case by (simp add: runs_evolve_subset)
next
  case (step y z)
  then show ?case using run_step_evolves run_steps_inv runs_evolve_trans by blast
qed

end
