(* ===== verification/Answer_Validation.thy ===== *)
theory Answer_Validation
  imports Answers
begin

section \<open>Validating an answer\<close>

text \<open>
  \<open>validateAnswerV3\<close> of \<open>src/server/agent/answer-v3.ts\<close> and the deterministic answers that are
  shown when the model's answer is not valid. The messages of the source are the
  constructors of \<open>answer_error\<close> with the values they name; the messages of the schema
  library are the one constructor \<open>SchemaIssues\<close>.
\<close>

datatype reference_field = FieldLinkReference | FieldUsedLinkIds | FieldUsedEvidenceIds
datatype reference_sort = SortEvidence | SortLink | SortArtifact | SortCalculation

datatype answer_error =
    SchemaIssues
  | RepeatedReference reference_field
  | MissingLink
  | RiskMismatch risk_level risk_level
  | DirectNotAllowed
  | KindNotAllowed
  | UngroundedExpert
  | UnknownReference reference_sort js_string
  | Undeclared reference_field "js_string list"
  | UnusedDeclaration reference_field "js_string list"
  | LinksUnbound
  | ServerLabelUnsafe js_string
  | LinkNotBound js_string
  | LabelMismatch js_string
  | UnsafeVisibleText js_string
  | LeakedTerm js_string
  | NoVerifiedEvidence
  | UnverifiedEvidence "js_string list"
  | BoundaryMissing "string list"

record link_binding =
  lb_link :: js_string
  lb_label :: "js_string option"
  lb_evidence :: "js_string list"

record validation_input =
  vi_value :: json
  vi_risk :: "risk_level option"
  vi_question :: "js_string option"
  vi_requiresExpert :: bool
  vi_minimumLinkCount :: nat
  vi_evidence :: "js_string list option"
  vi_links :: "js_string list option"
  vi_bindings :: "link_binding list option"
  vi_artifacts :: "js_string list option"
  vi_calculations :: "js_string list option"
  vi_verified :: "js_string list"
  vi_forbidden :: "js_string list"

record validation_result =
  vr_valid :: bool
  vr_errors :: "answer_error list"
  vr_references :: answer_references
  vr_answer :: "answer_v3 option"

subsection \<open>The checks\<close>

definition requiresExpertAnswer :: "text_rules \<Rightarrow> js_string \<Rightarrow> risk_level \<Rightarrow> bool" where
  "requiresExpertAnswer tr question risk =
     (if risk \<noteq> RiskLow then True
      else tr_complex tr (js_trim (collapse_space (tr_nfkc tr question))))"

definition validateUniqueReferences :: "js_string list \<Rightarrow> reference_field \<Rightarrow> answer_error list" where
  "validateUniqueReferences references field =
     (if card (set references) \<noteq> length references then [RepeatedReference field] else [])"

definition validateKnownReferences ::
  "js_string list \<Rightarrow> js_string list option \<Rightarrow> reference_sort \<Rightarrow> answer_error list" where
  "validateKnownReferences references known srt = (case known of
     None \<Rightarrow> []
   | Some ks \<Rightarrow> map (UnknownReference srt) (filter (\<lambda>r. r \<notin> set ks) references))"

definition compareDeclaredReferences ::
  "js_string list \<Rightarrow> js_string list \<Rightarrow> reference_field \<Rightarrow> answer_error list" where
  "compareDeclaredReferences declared collected field =
     (let missing = filter (\<lambda>r. r \<notin> set declared) collected;
          unused = filter (\<lambda>r. r \<notin> set collected) declared
      in (if missing \<noteq> [] then [Undeclared field (js_unique missing)] else [])
         @ (if unused \<noteq> [] then [UnusedDeclaration field (js_unique unused)] else []))"

text \<open>The map from links to their evidence; the label is that of the link's first binding.\<close>

definition bind_link :: "text_rules \<Rightarrow> link_binding \<Rightarrow> (js_string \<times> js_string option \<times> js_string list) list \<Rightarrow>
   (js_string \<times> js_string option \<times> js_string list) list" where
  "bind_link tr b m =
     (case map_of m (lb_link b) of
        None \<Rightarrow> (lb_link b, map_option (canonicalVerifiedLinkLabel tr) (lb_label b), lb_evidence b) # m
      | Some (label, ev) \<Rightarrow> (lb_link b, label, ev @ lb_evidence b) # m)"

definition label_errors :: "text_rules \<Rightarrow> link_binding \<Rightarrow> answer_error list" where
  "label_errors tr b = (case lb_label b of
     None \<Rightarrow> []
   | Some l \<Rightarrow> if canonicalVerifiedLinkLabel tr l \<noteq> l then [ServerLabelUnsafe (lb_link b)] else [])"

definition reference_errors :: "(js_string \<times> js_string option \<times> js_string list) list \<Rightarrow> js_string list \<Rightarrow>
   js_string \<times> js_string \<Rightarrow> answer_error list" where
  "reference_errors m evidence lr =
     (case map_of m (fst lr) of
        None \<Rightarrow> [LinkNotBound (fst lr)]
      | Some (label, ev) \<Rightarrow>
          (if list_ex (\<lambda>e. e \<in> set evidence) ev then [] else [LinkNotBound (fst lr)])
          @ (case label of None \<Rightarrow> [] | Some l \<Rightarrow> if snd lr \<noteq> l then [LabelMismatch (fst lr)] else []))"

definition validateKnownLinkBindings :: "text_rules \<Rightarrow> (js_string \<times> js_string) list \<Rightarrow> js_string list \<Rightarrow>
   link_binding list option \<Rightarrow> answer_error list" where
  "validateKnownLinkBindings tr linkReferences evidence bindings =
     (if linkReferences = [] then []
      else case bindings of
        None \<Rightarrow> [LinksUnbound]
      | Some bs \<Rightarrow> concat (map (label_errors tr) bs)
          @ concat (map (reference_errors (fold (bind_link tr) bs []) evidence) linkReferences))"

fun link_references :: "answer_block \<Rightarrow> (js_string \<times> js_string) list" where
  "link_references (LinkReference i l) = [(i, l)]"
| "link_references _ = []"

definition unsafe_text_errors :: "text_rules \<Rightarrow> answer_v3 \<Rightarrow> answer_error list" where
  "unsafe_text_errors tr a =
     (case find (containsUnsafeAnswerVisibleText tr) (collectUserVisibleText a) of
        Some t \<Rightarrow> if t \<noteq> [] then [UnsafeVisibleText (js_slice t 0 80)] else []
      | None \<Rightarrow> [])"

definition leaked_term_errors :: "text_rules \<Rightarrow> js_string list \<Rightarrow> answer_v3 \<Rightarrow> answer_error list" where
  "leaked_term_errors tr forbidden a =
     (let shown = tr_nfkc tr (js_join newline (collectUserVisibleText a));
          terms = filter (\<lambda>t. 3 \<le> length t) (map (\<lambda>t. js_trim (tr_nfkc tr t)) forbidden)
      in case find (\<lambda>t. js_includes (tr_lower tr shown) (tr_lower tr t)) terms of
           Some t \<Rightarrow> [LeakedTerm (js_slice t 0 80)] | None \<Rightarrow> [])"

definition verified_errors :: "risk_level \<Rightarrow> answer_v3 \<Rightarrow> answer_references \<Rightarrow> js_string list \<Rightarrow> answer_error list" where
  "verified_errors risk a refs verified =
     (if risk = RiskHigh \<and> an_kind a = KindExpert then
        (if rf_evidenceIds refs = [] then [NoVerifiedEvidence]
         else let unverified = filter (\<lambda>i. i \<notin> set verified) (rf_evidenceIds refs) in
           if unverified \<noteq> [] then [UnverifiedEvidence (js_unique unverified)] else [])
      else [])"

definition boundary_errors :: "text_rules \<Rightarrow> risk_level \<Rightarrow> answer_v3 \<Rightarrow> answer_error list" where
  "boundary_errors tr risk a =
     (if risk = RiskHigh then
        (let missing = tr_boundary tr (renderAnswerV3 a []) in
         if missing \<noteq> [] then [BoundaryMissing missing] else [])
      else [])"

definition risk_errors :: "text_rules \<Rightarrow> validation_input \<Rightarrow> answer_v3 \<Rightarrow> answer_references \<Rightarrow> risk_level \<Rightarrow>
   answer_error list" where
  "risk_errors tr inp a refs risk =
     (let expertRequired = (risk \<noteq> RiskLow \<or> vi_requiresExpert inp \<or>
            (case vi_question inp of None \<Rightarrow> False
             | Some q \<Rightarrow> if q = [] then False else requiresExpertAnswer tr q risk))
      in (if an_risk a \<noteq> risk then [RiskMismatch (an_risk a) risk] else [])
         @ (if expertRequired \<and> an_kind a = KindDirect then [DirectNotAllowed] else [])
         @ (if risk = RiskHigh \<and> an_kind a \<notin> {KindExpert, KindClarification, KindSafeRefusal}
            then [KindNotAllowed] else [])
         @ (if expertRequired \<and> an_kind a = KindExpert \<and> rf_evidenceIds refs = []
              \<and> rf_calculationIds refs = [] then [UngroundedExpert] else []))"

definition answer_errors :: "text_rules \<Rightarrow> validation_input \<Rightarrow> answer_v3 \<Rightarrow> answer_error list" where
  "answer_errors tr inp a =
     (let refs = collectAnswerV3References a;
          risk = (case vi_risk inp of None \<Rightarrow> an_risk a | Some r \<Rightarrow> r)
      in validateUniqueReferences (concat (map collectBlockLinkIds (an_blocks a))) FieldLinkReference
         @ validateUniqueReferences (an_usedLinkIds a) FieldUsedLinkIds
         @ (if length (rf_linkIds refs) < vi_minimumLinkCount inp then [MissingLink] else [])
         @ risk_errors tr inp a refs risk
         @ validateKnownReferences (js_unique (rf_evidenceIds refs @ an_usedEvidenceIds a)) (vi_evidence inp) SortEvidence
         @ validateKnownReferences (js_unique (rf_linkIds refs @ an_usedLinkIds a)) (vi_links inp) SortLink
         @ validateKnownReferences (rf_artifactIds refs) (vi_artifacts inp) SortArtifact
         @ validateKnownReferences (rf_calculationIds refs) (vi_calculations inp) SortCalculation
         @ compareDeclaredReferences (an_usedEvidenceIds a) (rf_evidenceIds refs) FieldUsedEvidenceIds
         @ compareDeclaredReferences (an_usedLinkIds a) (rf_linkIds refs) FieldUsedLinkIds
         @ validateKnownLinkBindings tr (concat (map link_references (an_blocks a))) (rf_evidenceIds refs) (vi_bindings inp)
         @ unsafe_text_errors tr a
         @ leaked_term_errors tr (vi_forbidden inp) a
         @ verified_errors risk a refs (vi_verified inp)
         @ boundary_errors tr risk a)"

definition validateAnswerV3 :: "text_rules \<Rightarrow> validation_input \<Rightarrow> validation_result" where
  "validateAnswerV3 tr inp =
     (case safeParseAnswerV3 tr (vi_value inp) of
        None \<Rightarrow> \<lparr>vr_valid = False, vr_errors = [SchemaIssues],
          vr_references = \<lparr>rf_evidenceIds = [], rf_linkIds = [], rf_artifactIds = [], rf_calculationIds = []\<rparr>,
          vr_answer = None\<rparr>
      | Some a \<Rightarrow>
          let deduped = js_unique (answer_errors tr inp a)
          in \<lparr>vr_valid = (deduped = []), vr_errors = deduped,
              vr_references = collectAnswerV3References a, vr_answer = Some a\<rparr>)"

subsection \<open>Deterministic answers\<close>

definition missing_reason :: js_string where
  "missing_reason = [32570, 23569, 21487, 26680, 39564, 30340, 24517, 35201, 20449, 24687, 12290]"

definition safety_title :: js_string where
  "safety_title = [20808, 30830, 20445, 29616, 22330, 23433, 20840]"

definition safety_body :: js_string where
  "safety_body = [29616, 26377, 35777, 25454, 19981, 36275, 65292, 19981, 33021, 32473, 20986, 30830,
     23450, 24615, 25805, 20316, 25351, 20196, 12290, 35831, 31435, 21363, 20572, 26426,
     65292, 24182, 20445, 25345, 20572, 26426, 29366, 24577, 12290, 20999, 26029, 24182,
     38548, 31163, 30005, 28304, 12289, 27668, 28304, 12289, 28909, 28304, 21450, 20854,
     20182, 21361, 38505, 33021, 28304, 65292, 25191, 34892, 26412, 21333, 20301, 38145,
     23450, 25346, 29260, 31243, 24207, 12290, 32852, 31995, 35774, 22791, 21046, 36896,
     21830, 12289, 26412, 21333, 20301, 23433, 20840, 36127, 36131, 20154, 25110, 20855,
     22791, 36164, 36136, 30340, 29616, 22330, 20154, 21592, 36827, 34892, 26680, 39564,
     65307, 19981, 35201, 32469, 36807, 32852, 38145, 25110, 24102, 30005, 26816, 26597,
     12290]"

definition clarification_text :: js_string where
  "clarification_text = [29616, 26377, 20449, 24687, 19981, 36275, 20197, 24418, 25104, 21487, 26680, 39564,
     30340, 20855, 20307, 32467, 35770, 12290, 35831, 34917, 20805, 35774, 22791, 22411,
     21495, 12289, 24037, 20917, 12289, 21333, 20301, 21644, 24076, 26395, 30830, 35748,
     30340, 20855, 20307, 38382, 39064, 12290]"

definition sanitizeReason :: "text_rules \<Rightarrow> js_string \<Rightarrow> js_string" where
  "sanitizeReason tr reason =
     (let normalized = js_trim (collapse_space (tr_nfkc tr reason)) in
      if normalized = [] \<or> containsUnsafeAnswerVisibleText tr normalized then missing_reason
      else js_slice normalized 0 500)"

definition buildDeterministicSafeAnswerV3 :: "text_rules \<Rightarrow> risk_level \<Rightarrow> js_string \<Rightarrow> answer_v3" where
  "buildDeterministicSafeAnswerV3 tr risk reason =
     (if risk = RiskHigh then
        \<lparr>an_kind = KindSafeRefusal, an_risk = risk,
         an_blocks = [Callout ToneDanger (Some safety_title) safety_body []],
         an_missingInputs = [sanitizeReason tr reason], an_usedEvidenceIds = [], an_usedLinkIds = []\<rparr>
      else
        \<lparr>an_kind = KindClarification, an_risk = risk, an_blocks = [Paragraph clarification_text []],
         an_missingInputs = [sanitizeReason tr reason], an_usedEvidenceIds = [], an_usedLinkIds = []\<rparr>)"

datatype web_reason = QuotaExhausted | NoValidatedEvidence

definition web_notice :: "web_reason \<Rightarrow> js_string" where
  "web_notice r = (case r of
     QuotaExhausted \<Rightarrow> [26412, 27425, 32, 68, 101, 101, 112, 83, 101, 101, 107, 32, 32852, 32593, 25628, 32034,
     39069, 24230, 24050, 29992, 23613, 65292, 26080, 27861, 26680, 39564, 38656, 35201,
     32852, 32593, 30830, 35748, 30340, 20449, 24687, 12290, 35831, 31245, 21518, 37325,
     35797, 12290]
   | NoValidatedEvidence \<Rightarrow> [26412, 27425, 32, 68, 101, 101, 112, 83, 101, 101, 107, 32, 32852, 32593, 25628, 32034,
     26410, 33719, 24471, 21487, 26680, 39564, 30340, 26469, 28304, 65292, 26080, 27861,
     26680, 39564, 38656, 35201, 32852, 32593, 30830, 35748, 30340, 20449, 24687, 12290,
     35831, 31245, 21518, 37325, 35797, 12290])"

definition web_missing :: "web_reason \<Rightarrow> js_string" where
  "web_missing r = (case r of
     QuotaExhausted \<Rightarrow> [26412, 27425, 32, 68, 101, 101, 112, 83, 101, 101, 107, 32, 32852, 32593, 25628, 32034,
     39069, 24230, 24050, 29992, 23613, 65292, 35831, 31245, 21518, 37325, 35797, 12290]
   | NoValidatedEvidence \<Rightarrow> [26412, 27425, 32, 68, 101, 101, 112, 83, 101, 101, 107, 32, 32852, 32593, 25628, 32034,
     26410, 33719, 24471, 21487, 26680, 39564, 30340, 26469, 28304, 65292, 35831, 31245,
     21518, 37325, 35797, 12290])"

definition buildDeterministicWebUnavailableAnswerV3 :: "text_rules \<Rightarrow> risk_level \<Rightarrow> web_reason \<Rightarrow> answer_v3" where
  "buildDeterministicWebUnavailableAnswerV3 tr risk reason =
     (let fallback = buildDeterministicSafeAnswerV3 tr risk (web_missing reason);
          notice = Paragraph (web_notice reason) []
      in fallback\<lparr>an_blocks := if an_risk fallback = RiskHigh then notice # an_blocks fallback else [notice]\<rparr>)"

end
