(* ===== verification/Answer_Properties.thy ===== *)
theory Answer_Properties
  imports Answer_Validation Stored_Answers Evidence "HOL-Library.Sublist"
begin

section \<open>Properties of answers\<close>

subsection \<open>Well-formed answers\<close>

text \<open>What the schema promises of an answer it accepts.\<close>

definition text_ok :: "nat \<Rightarrow> nat \<Rightarrow> js_string \<Rightarrow> bool" where
  "text_ok lo hi t \<longleftrightarrow> js_trim t = t \<and> lo \<le> length t \<and> length t \<le> hi"

definition list_ok :: "nat \<Rightarrow> nat \<Rightarrow> ('a \<Rightarrow> bool) \<Rightarrow> 'a list \<Rightarrow> bool" where
  "list_ok lo hi P xs \<longleftrightarrow> lo \<le> length xs \<and> length xs \<le> hi \<and> (\<forall>x\<in>set xs. P x)"

definition option_ok :: "('a \<Rightarrow> bool) \<Rightarrow> 'a option \<Rightarrow> bool" where
  "option_ok P v \<longleftrightarrow> (\<forall>x. v = Some x \<longrightarrow> P x)"

fun block_ok :: "text_rules \<Rightarrow> answer_block \<Rightarrow> bool" where
  "block_ok tr (Paragraph t e) \<longleftrightarrow> text_ok 1 16000 t \<and> list_ok 0 64 is_evidence_id e"
| "block_ok tr (Heading l t) \<longleftrightarrow> (l = 2 \<or> l = 3) \<and> text_ok 1 240 t"
| "block_ok tr (ListBlock s i e) \<longleftrightarrow> list_ok 1 64 (text_ok 1 500) i \<and> list_ok 0 64 is_evidence_id e"
| "block_ok tr (TableBlock c r e) \<longleftrightarrow> list_ok 1 32 (text_ok 1 500) c \<and> list_ok 0 500 (list_ok 0 32 (text_ok 1 500)) r
     \<and> (\<forall>row\<in>set r. length row = length c) \<and> list_ok 0 64 is_evidence_id e"
| "block_ok tr (CodeBlock l c) \<longleftrightarrow> option_ok (text_ok 0 40) l \<and> 1 \<le> length c \<and> length c \<le> 64000"
| "block_ok tr (Callout n t b e) \<longleftrightarrow> option_ok (text_ok 1 160) t \<and> text_ok 1 16000 b \<and> list_ok 0 64 is_evidence_id e"
| "block_ok tr (Calculation c) \<longleftrightarrow> text_ok 1 160 (pu_id c) \<and> text_ok 1 240 (pu_title c) \<and> text_ok 1 500 (pu_result c)
     \<and> option_ok (text_ok 1 80) (pu_unit c) \<and> list_ok 0 32 (text_ok 1 500) (pu_assumptions c)
     \<and> list_ok 0 32 (text_ok 1 500) (pu_warnings c)"
| "block_ok tr (LinkReference i l) \<longleftrightarrow> text_ok 1 160 i \<and> text_ok 1 240 l"
| "block_ok tr (ArtifactReference i l) \<longleftrightarrow> tr_uuid tr i \<and> text_ok 1 240 l"

definition answer_ok :: "text_rules \<Rightarrow> answer_v3 \<Rightarrow> bool" where
  "answer_ok tr a \<longleftrightarrow> list_ok 1 128 (block_ok tr) (an_blocks a) \<and> list_ok 0 64 (text_ok 1 500) (an_missingInputs a)
     \<and> list_ok 0 64 is_evidence_id (an_usedEvidenceIds a) \<and> list_ok 0 64 (text_ok 1 160) (an_usedLinkIds a)"

subsection \<open>What a parser returns\<close>

lemma z_text_Some: "z_text lo hi v = Some t \<Longrightarrow> text_ok lo hi t"
  by (auto simp: z_text_def text_ok_def Let_def js_trim_idem split: option.splits json.splits if_splits)

lemma z_raw_Some: "z_raw lo hi v = Some t \<Longrightarrow> lo \<le> length t \<and> length t \<le> hi"
  by (auto simp: z_raw_def split: option.splits json.splits if_splits)

lemma z_evidenceId_Some: "z_evidenceId v = Some t \<Longrightarrow> is_evidence_id t"
  by (auto simp: z_evidenceId_def split: option.splits json.splits if_splits)

lemma z_uuid_Some: "z_uuid tr v = Some t \<Longrightarrow> tr_uuid tr t"
  by (auto simp: z_uuid_def split: option.splits json.splits if_splits)

lemma z_optional_Some:
  "z_optional p v = Some t \<Longrightarrow> (\<And>w x. p w = Some x \<Longrightarrow> P x) \<Longrightarrow> option_ok P t"
  by (auto simp: z_optional_def option_ok_def split: option.splits)

lemma those_SomeD: "those ys = Some xs \<Longrightarrow> ys = map Some xs"
  by (induction ys arbitrary: xs) (auto split: option.splits)

lemma z_array_Some:
  assumes "z_array lo hi p v = Some xs" "\<And>w x. p w = Some x \<Longrightarrow> P x"
  shows "list_ok lo hi P xs"
proof -
  from assms(1) obtain js where "lo \<le> length js" "length js \<le> hi" and those: "those (map (\<lambda>x. p (Some x)) js) = Some xs"
    by (auto simp: z_array_def split: option.splits json.splits if_splits)
  moreover have eq: "map (\<lambda>x. p (Some x)) js = map Some xs" by (rule those_SomeD[OF those])
  then have "length js = length xs" by (metis length_map)
  moreover have "P x" if "x \<in> set xs" for x
  proof -
    have "Some x \<in> set (map (\<lambda>x. p (Some x)) js)" using that by (simp add: eq)
    then show ?thesis using assms(2) by auto
  qed
  ultimately show ?thesis by (simp add: list_ok_def)
qed

lemma z_if_Some: "z_if b m = Some x \<longleftrightarrow> b \<and> m = Some x"
  by (simp add: z_if_def)

lemmas parse_opening = z_if_Some bind_eq_Some_conv evidenceIds_def

lemma parsed_lists:
  "z_array lo hi (z_text m n) v = Some xs \<Longrightarrow> list_ok lo hi (text_ok m n) xs"
  "z_array lo hi z_evidenceId v = Some xs \<Longrightarrow> list_ok lo hi is_evidence_id xs"
  "z_optional (z_text m n) v = Some t \<Longrightarrow> option_ok (text_ok m n) t"
  using z_array_Some[of lo hi "z_text m n" v xs "text_ok m n"] z_array_Some[of lo hi z_evidenceId v xs is_evidence_id]
    z_optional_Some[of "z_text m n" v t "text_ok m n"] z_text_Some z_evidenceId_Some by blast+

lemma parsed_rows: "z_array lo hi (z_array lo2 hi2 (z_text m n)) v = Some xs \<Longrightarrow>
   list_ok lo hi (list_ok lo2 hi2 (text_ok m n)) xs"
  by (erule z_array_Some) (rule parsed_lists(1))

lemmas parsed = z_text_Some z_raw_Some z_evidenceId_Some z_uuid_Some parsed_lists parsed_rows

lemma parse_paragraph_ok: "parse_paragraph j = Some b \<Longrightarrow> block_ok tr b"
  unfolding parse_paragraph_def parse_opening by (elim conjE exE) (auto intro: parsed simp flip: One_nat_def)

lemma parse_list_ok: "parse_list j = Some b \<Longrightarrow> block_ok tr b"
  unfolding parse_list_def parse_opening by (elim conjE exE) (auto intro: parsed simp flip: One_nat_def)

lemma parse_code_ok: "parse_code j = Some b \<Longrightarrow> block_ok tr b"
  unfolding parse_code_def parse_opening
  by (elim conjE exE, frule z_raw_Some) (auto intro: parsed)

lemma parse_callout_ok: "parse_callout j = Some b \<Longrightarrow> block_ok tr b"
  unfolding parse_callout_def parse_opening by (elim conjE exE) (auto intro: parsed simp flip: One_nat_def)

lemma parse_link_ok: "parse_link j = Some b \<Longrightarrow> block_ok tr b"
  unfolding parse_link_def parse_opening by (elim conjE exE) (auto intro: parsed simp flip: One_nat_def)

lemma parse_artifact_ok: "parse_artifact tr j = Some b \<Longrightarrow> block_ok tr b"
  unfolding parse_artifact_def parse_opening by (elim conjE exE) (auto intro: parsed simp flip: One_nat_def)

lemma parse_calculation_ok: "parse_calculation j = Some b \<Longrightarrow> block_ok tr b"
  unfolding parse_calculation_def parse_opening
  by (elim conjE exE) (auto intro: parsed simp flip: One_nat_def)

lemma parse_table_ok: "parse_table j = Some b \<Longrightarrow> block_ok tr b"
  unfolding parse_table_def parse_opening list_all_iff
  by (elim conjE exE) (auto intro: parsed simp flip: One_nat_def)

lemma parse_heading_ok: "parse_heading j = Some b \<Longrightarrow> block_ok tr b"
  unfolding parse_heading_def parse_opening
  by (elim conjE exE) (auto intro: parsed split: option.splits json.splits if_splits simp flip: One_nat_def)

lemmas parse_block_ok = parse_paragraph_ok parse_heading_ok parse_list_ok parse_table_ok parse_code_ok
  parse_callout_ok parse_calculation_ok parse_link_ok parse_artifact_ok

lemma z_enum_Some: "z_enum table v = Some x \<Longrightarrow> x \<in> snd ` set table"
  unfolding z_enum_def
  by (auto simp: find_Some_iff image_def split: option.splits json.splits) (metis nth_mem snd_conv)

lemma strict_block_ok:
  assumes "strictAnswerBlockSchema tr v = Some b"
  shows "block_ok tr b"
proof -
  from assms obtain j p where p: "z_enum (block_parsers tr) (json_get ''type'' j) = Some p" and b: "p j = Some b"
    unfolding strictAnswerBlockSchema_def bind_eq_Some_conv by blast
  have "\<forall>q\<in>snd ` set (block_parsers tr). \<forall>j b. q j = Some b \<longrightarrow> block_ok tr b"
    unfolding block_parsers_def
    by (simp only: list.set image_insert image_empty snd_conv ball_simps simp_thms)
      (intro conjI allI impI; erule parse_block_ok)
  with z_enum_Some[OF p] b show ?thesis by blast
qed

lemma parsed_blocks:
  "z_array lo hi (strictAnswerBlockSchema tr) v = Some bs \<Longrightarrow> list_ok lo hi (block_ok tr) bs"
  by (erule z_array_Some) (rule strict_block_ok)

lemma safeParse_ok: "safeParseAnswerV3 tr j = Some a \<Longrightarrow> answer_ok tr a"
  unfolding safeParseAnswerV3_def parse_opening answer_ok_def
  by (elim conjE exE) (auto intro: parsed parsed_blocks simp flip: One_nat_def)

subsection \<open>Parsing what was written\<close>

lemma js_inject: "js s = js t \<longleftrightarrow> s = t"
proof
  assume "js s = js t"
  then show "s = t" unfolding js_def by (rule map_injective) (simp add: inj_on_def)
qed simp

lemma z_text_written: "text_ok lo hi t \<Longrightarrow> z_text lo hi (Some (JString t)) = Some t"
  by (simp add: z_text_def text_ok_def)

lemma z_evidenceId_written: "is_evidence_id t \<Longrightarrow> z_evidenceId (Some (JString t)) = Some t"
  by (simp add: z_evidenceId_def)

lemma those_map_Some: "those (map Some xs) = Some xs"
  by (induction xs) auto

lemma z_array_written:
  assumes "list_ok lo hi P xs" "\<And>x. P x \<Longrightarrow> p (Some (f x)) = Some x"
  shows "z_array lo hi p (Some (JArray (map f xs))) = Some xs"
proof -
  have "map ((\<lambda>x. p (Some x)) \<circ> f) xs = map Some xs"
    using assms by (auto simp: list_ok_def)
  then show ?thesis using assms(1) by (simp only: z_array_def list_ok_def those_map_Some map_map option.case json.case length_map if_True simp_thms)
qed

lemma texts_written:
  "list_ok lo hi (text_ok a b) xs \<Longrightarrow> z_array lo hi (z_text a b) (Some (texts xs)) = Some xs"
  "list_ok lo hi is_evidence_id xs \<Longrightarrow> z_array lo hi z_evidenceId (Some (texts xs)) = Some xs"
  by (rule z_array_written, assumption, erule z_text_written)
    (rule z_array_written, assumption, erule z_evidenceId_written)

lemma names_written:
  "z_enum style_names (Some (JString (name_of style_names s))) = Some s"
  "z_enum tone_names (Some (JString (name_of tone_names n))) = Some n"
  "z_enum kind_names (Some (JString (name_of kind_names k))) = Some k"
  "z_enum risk_names (Some (JString (name_of risk_names r))) = Some r"
  by (cases s; cases n; cases k; cases r; simp add: z_enum_def name_of_def style_names_def tone_names_def
      kind_names_def risk_names_def js_inject)+

lemma table_written:
  "list_ok 0 500 (list_ok 0 32 (text_ok 1 500)) r \<Longrightarrow>
   z_array 0 500 (z_array 0 32 shortText) (Some (JArray (map texts r))) = Some r"
  by (rule z_array_written, assumption, erule texts_written)

lemmas written = z_text_written z_evidenceId_written texts_written names_written

lemmas json_opening = json_get_def strict_keys_def z_if_def evidenceIds_def optional_text_def z_optional_def
  option_ok_def

lemma block_written:
  assumes "block_ok tr b"
  shows "strictAnswerBlockSchema tr (Some (block_json b)) = Some b"
proof (cases b)
  case (Paragraph t e)
  with assms show ?thesis
    by (simp add: strictAnswerBlockSchema_def block_parsers_def z_enum_def js_inject parse_paragraph_def json_opening written)
next
  case (Heading l t)
  with assms show ?thesis
    by (auto simp: strictAnswerBlockSchema_def block_parsers_def z_enum_def js_inject parse_heading_def json_opening written)
next
  case (ListBlock s i e)
  with assms show ?thesis
    by (simp add: strictAnswerBlockSchema_def block_parsers_def z_enum_def[where table = "block_parsers tr"]
        z_enum_def[where table = "(_, _) # _"] js_inject parse_list_def json_opening written)
next
  case (TableBlock c r e)
  then have "z_array 0 500 (z_array 0 32 shortText) (Some (JArray (map texts r))) = Some r"
    using assms by (intro table_written) simp
  with assms TableBlock show ?thesis
    by (simp add: strictAnswerBlockSchema_def block_parsers_def z_enum_def js_inject parse_table_def json_opening
        written list_all_iff)
next
  case (CodeBlock l c)
  with assms show ?thesis
    by (cases l) (simp_all add: strictAnswerBlockSchema_def block_parsers_def z_enum_def js_inject parse_code_def
        json_opening written z_raw_def)
next
  case (Callout n t bd e)
  with assms show ?thesis
    by (cases t) (simp_all add: strictAnswerBlockSchema_def block_parsers_def z_enum_def[where table = "(_, _) # _"]
        js_inject parse_callout_def json_opening written)
next
  case (Calculation c)
  with assms show ?thesis
    by (cases "pu_unit c") (simp_all add: strictAnswerBlockSchema_def block_parsers_def z_enum_def js_inject
        parse_calculation_def json_opening written)
next
  case (LinkReference i l)
  with assms show ?thesis
    by (simp add: strictAnswerBlockSchema_def block_parsers_def z_enum_def js_inject parse_link_def json_opening written)
next
  case (ArtifactReference i l)
  with assms show ?thesis
    by (simp add: strictAnswerBlockSchema_def block_parsers_def z_enum_def js_inject parse_artifact_def json_opening
        written z_uuid_def)
qed

lemma answer_written:
  assumes "answer_ok tr a"
  shows "safeParseAnswerV3 tr (answer_json a) = Some a"
proof -
  have blocks: "z_array 1 128 (strictAnswerBlockSchema tr) (Some (JArray (map block_json (an_blocks a)))) = Some (an_blocks a)"
    by (rule z_array_written[where P = "block_ok tr"]) (use assms in \<open>simp_all add: answer_ok_def block_written\<close>)
  show ?thesis
    using assms blocks
    by (simp add: safeParseAnswerV3_def answer_json_def json_get_def strict_keys_def z_if_def written answer_ok_def)
qed


subsection \<open>What a valid answer satisfies\<close>

lemma find_None_all: "find P xs = None \<longleftrightarrow> list_all (\<lambda>x. \<not> P x) xs"
  by (auto simp: find_None_iff list_all_iff)

lemma unique_references_Nil: "validateUniqueReferences xs f = [] \<longleftrightarrow> distinct xs"
  by (auto simp: validateUniqueReferences_def distinct_card dest: card_distinct)

lemma known_references_Nil:
  "validateKnownReferences xs known srt = [] \<longleftrightarrow> option_ok (\<lambda>ks. set xs \<subseteq> set ks) known"
  by (auto simp: validateKnownReferences_def option_ok_def filter_empty_conv split: option.splits)

lemma declared_references_Nil: "compareDeclaredReferences ds cs f = [] \<longleftrightarrow> set ds = set cs"
  by (auto simp: compareDeclaredReferences_def Let_def filter_empty_conv)

lemma unsafe_text_Nil:
  assumes "tr_nfkc tr [] = []" "unsafe_text_errors tr a = []"
  shows "list_all (\<lambda>t. \<not> containsUnsafeAnswerVisibleText tr t) (collectUserVisibleText a)"
proof -
  have empty: "\<not> containsUnsafeAnswerVisibleText tr []"
    using assms(1) by (simp add: containsUnsafeAnswerVisibleText_def)
  have "find (containsUnsafeAnswerVisibleText tr) (collectUserVisibleText a) = None"
  proof (rule ccontr)
    assume "find (containsUnsafeAnswerVisibleText tr) (collectUserVisibleText a) \<noteq> None"
    then obtain t where t: "find (containsUnsafeAnswerVisibleText tr) (collectUserVisibleText a) = Some t" by blast
    then have "containsUnsafeAnswerVisibleText tr t" by (auto simp: find_Some_iff)
    with empty have "t \<noteq> []" by auto
    with t assms(2) show False by (simp add: unsafe_text_errors_def)
  qed
  then show ?thesis by (simp add: find_None_all)
qed

lemma verified_Nil:
  "verified_errors RiskHigh a refs vs = [] \<Longrightarrow> an_kind a = KindExpert \<Longrightarrow>
   rf_evidenceIds refs \<noteq> [] \<and> set (rf_evidenceIds refs) \<subseteq> set vs"
  by (auto simp: verified_errors_def Let_def filter_empty_conv split: if_splits)

lemma risk_Nil:
  "risk_errors tr inp a refs risk = [] \<Longrightarrow> an_risk a = risk \<and> (risk \<noteq> RiskLow \<longrightarrow> an_kind a \<noteq> KindDirect)
   \<and> (risk \<noteq> RiskLow \<longrightarrow> an_kind a = KindExpert \<longrightarrow> rf_evidenceIds refs \<noteq> [] \<or> rf_calculationIds refs \<noteq> [])
   \<and> (risk = RiskHigh \<longrightarrow> an_kind a \<in> {KindExpert, KindClarification, KindSafeRefusal})"
  by (auto simp: risk_errors_def Let_def split: if_splits)

text \<open>Every reference to a link finds a binding whose evidence the answer cites.\<close>

lemma bindings_of_links:
  "map_of (fold (bind_link tr) bs m) i = Some (l, ev) \<Longrightarrow> e \<in> set ev \<Longrightarrow>
   (\<exists>l ev. map_of m i = Some (l, ev) \<and> e \<in> set ev) \<or> (\<exists>b\<in>set bs. lb_link b = i \<and> e \<in> set (lb_evidence b))"
proof (induction bs arbitrary: m)
  case (Cons b bs)
  have "map_of (fold (bind_link tr) bs (bind_link tr b m)) i = Some (l, ev)" using Cons.prems(1) by simp
  from Cons.IH[OF this Cons.prems(2)] show ?case
  proof (elim disjE exE conjE)
    fix l2 ev2 assume "map_of (bind_link tr b m) i = Some (l2, ev2)" "e \<in> set ev2"
    then show ?thesis
      by (auto simp: bind_link_def split: option.splits if_splits)
  qed auto
qed auto

lemma links_Nil:
  assumes "validateKnownLinkBindings tr links evidence bindings = []" "(i, t) \<in> set links"
  shows "\<exists>bs. bindings = Some bs \<and> (\<exists>b\<in>set bs. lb_link b = i \<and> (\<exists>e\<in>set (lb_evidence b). e \<in> set evidence))"
proof -
  have "links \<noteq> []" using assms(2) by auto
  with assms(1) obtain bs where bs: "bindings = Some bs"
    by (auto simp: validateKnownLinkBindings_def split: option.splits)
  define m where "m = fold (bind_link tr) bs []"
  have "reference_errors m evidence (i, t) = []"
    using assms \<open>links \<noteq> []\<close> bs by (simp add: validateKnownLinkBindings_def m_def)
  then obtain l ev e where e: "map_of m i = Some (l, ev)" "e \<in> set ev" "e \<in> set evidence"
    by (auto simp: reference_errors_def list_ex_iff split: option.splits if_splits)
  from bindings_of_links[OF e(1)[unfolded m_def] e(2)] e(3) bs show ?thesis by auto
qed

lemma validate_valid:
  assumes "vr_valid (validateAnswerV3 tr inp)"
  obtains a where "safeParseAnswerV3 tr (vi_value inp) = Some a" "vr_answer (validateAnswerV3 tr inp) = Some a"
    "vr_references (validateAnswerV3 tr inp) = collectAnswerV3References a" "answer_errors tr inp a = []"
  using assms that by (auto simp: validateAnswerV3_def Let_def split: option.splits)

text \<open>
  C5. A valid answer is grounded. Its evidence, link, artifact and calculation references are
  ones the server knows, the ids it declares are exactly the ids it uses, every link it shows is
  bound to evidence it cites, an expert answer to a high risk question rests only on evidence the
  registry has verified, and no text it shows has a URL, an internal name or a signature.
\<close>

theorem valid_answers_are_grounded:
  assumes nfkc: "tr_nfkc tr [] = []" and valid: "vr_valid (validateAnswerV3 tr inp)"
    and risk: "vi_risk inp = Some risk"
  shows "\<exists>a. vr_answer (validateAnswerV3 tr inp) = Some a \<and> answer_ok tr a \<and> an_risk a = risk
    \<and> (let refs = collectAnswerV3References a in
         set (an_usedEvidenceIds a) = set (rf_evidenceIds refs) \<and> set (an_usedLinkIds a) = set (rf_linkIds refs)
         \<and> vi_minimumLinkCount inp \<le> length (rf_linkIds refs)
         \<and> option_ok (\<lambda>ks. set (rf_evidenceIds refs) \<subseteq> set ks) (vi_evidence inp)
         \<and> option_ok (\<lambda>ks. set (rf_linkIds refs) \<subseteq> set ks) (vi_links inp)
         \<and> option_ok (\<lambda>ks. set (rf_artifactIds refs) \<subseteq> set ks) (vi_artifacts inp)
         \<and> option_ok (\<lambda>ks. set (rf_calculationIds refs) \<subseteq> set ks) (vi_calculations inp)
         \<and> (risk = RiskHigh \<and> an_kind a = KindExpert \<longrightarrow>
              rf_evidenceIds refs \<noteq> [] \<and> set (rf_evidenceIds refs) \<subseteq> set (vi_verified inp))
         \<and> (\<forall>(i, label)\<in>set (concat (map link_references (an_blocks a))). \<exists>bs. vi_bindings inp = Some bs
              \<and> (\<exists>b\<in>set bs. lb_link b = i \<and> (\<exists>e\<in>set (lb_evidence b). e \<in> set (rf_evidenceIds refs))))
         \<and> list_all (\<lambda>t. \<not> containsUnsafeAnswerVisibleText tr t) (collectUserVisibleText a))"
proof -
  from valid obtain a where a: "safeParseAnswerV3 tr (vi_value inp) = Some a"
      "vr_answer (validateAnswerV3 tr inp) = Some a" and none: "answer_errors tr inp a = []"
    by (rule validate_valid)
  define refs where "refs = collectAnswerV3References a"
  have e: "\<not> length (rf_linkIds refs) < vi_minimumLinkCount inp" "risk_errors tr inp a refs risk = []"
    "validateKnownReferences (js_unique (rf_evidenceIds refs @ an_usedEvidenceIds a)) (vi_evidence inp) SortEvidence = []"
    "validateKnownReferences (js_unique (rf_linkIds refs @ an_usedLinkIds a)) (vi_links inp) SortLink = []"
    "validateKnownReferences (rf_artifactIds refs) (vi_artifacts inp) SortArtifact = []"
    "validateKnownReferences (rf_calculationIds refs) (vi_calculations inp) SortCalculation = []"
    "compareDeclaredReferences (an_usedEvidenceIds a) (rf_evidenceIds refs) FieldUsedEvidenceIds = []"
    "compareDeclaredReferences (an_usedLinkIds a) (rf_linkIds refs) FieldUsedLinkIds = []"
    "validateKnownLinkBindings tr (concat (map link_references (an_blocks a))) (rf_evidenceIds refs) (vi_bindings inp) = []"
    "unsafe_text_errors tr a = []" "verified_errors risk a refs (vi_verified inp) = []"
    using none risk unfolding answer_errors_def Let_def refs_def[symmetric]
    by (simp_all split: if_splits)
  have known: "option_ok (\<lambda>ks. set xs \<subseteq> set ks) v" if "option_ok (\<lambda>ks. set (js_unique (xs @ ys)) \<subseteq> set ks) v"
    for xs ys :: "js_string list" and v
    using that by (auto simp: option_ok_def)
  have links: "\<forall>(i, label)\<in>set (concat (map link_references (an_blocks a))). \<exists>bs. vi_bindings inp = Some bs
      \<and> (\<exists>b\<in>set bs. lb_link b = i \<and> (\<exists>e\<in>set (lb_evidence b). e \<in> set (rf_evidenceIds refs)))"
    using links_Nil[OF e(9)] by blast
  show ?thesis
    unfolding Let_def refs_def[symmetric]
    by (rule exI[of _ a], intro conjI impI)
      (use a links e(1) safeParse_ok[OF a(1)] risk_Nil[OF e(2)] known[OF e(3)[unfolded known_references_Nil]]
        known[OF e(4)[unfolded known_references_Nil]] e(5,6)[unfolded known_references_Nil]
        e(7,8)[unfolded declared_references_Nil] unsafe_text_Nil[OF nfkc e(10)] verified_Nil e(11) in
        \<open>simp_all add: refs_def[symmetric]\<close>)
qed

definition plain_rules :: text_rules where
  "plain_rules = \<lparr>tr_nfkc = (\<lambda>s. s), tr_lower = (\<lambda>s. s), tr_control = (\<lambda>_. False), tr_uuid = (\<lambda>_. True),
     tr_urlLike = (\<lambda>_. False), tr_complex = (\<lambda>_. False), tr_boundary = (\<lambda>_. [])\<rparr>"

definition demo_answer :: answer_v3 where
  "demo_answer = \<lparr>an_kind = KindExpert, an_risk = RiskHigh,
     an_blocks = [Paragraph (js ''Stop the pump'') [js ''E1''], LinkReference (js ''L1'') (js ''Manual'')],
     an_missingInputs = [], an_usedEvidenceIds = [js ''E1''], an_usedLinkIds = [js ''L1'']\<rparr>"

definition demo_input :: validation_input where
  "demo_input = \<lparr>vi_value = answer_json demo_answer, vi_risk = Some RiskHigh, vi_question = None,
     vi_requiresExpert = True, vi_minimumLinkCount = 1, vi_evidence = Some [js ''E1''], vi_links = Some [js ''L1''],
     vi_bindings = Some [\<lparr>lb_link = js ''L1'', lb_label = None, lb_evidence = [js ''E1'']\<rparr>],
     vi_artifacts = None, vi_calculations = None, vi_verified = [js ''E1''], vi_forbidden = []\<rparr>"

lemma demo_ok: "answer_ok plain_rules demo_answer"
  by (simp add: answer_ok_def list_ok_def demo_answer_def text_ok_def js_def js_trim_def trimStart_def js_white_def
      is_evidence_id_def js_digit_def)

lemma demo_parsed: "safeParseAnswerV3 plain_rules (vi_value demo_input) = Some demo_answer"
  unfolding demo_input_def by (simp add: answer_written[OF demo_ok])

lemma demo_references: "collectAnswerV3References demo_answer = \<lparr>rf_evidenceIds = [js ''E1''],
    rf_linkIds = [js ''L1''], rf_artifactIds = [], rf_calculationIds = []\<rparr>"
  by (simp add: collectAnswerV3References_def demo_answer_def js_unique_def)

lemma folded_prefix_steps:
  "folded_prefix s []" "\<not> folded_prefix [] (x # p)"
  "folded_prefix (c # s) (x # p) \<longleftrightarrow> js_fold c = js_fold (of_char x) \<and> folded_prefix s p"
  by (simp_all add: folded_prefix_def js_startsWith_def js_def)

lemma demo_texts: "unsafe_text_errors plain_rules demo_answer = []" "leaked_term_errors plain_rules [] demo_answer = []"
  "boundary_errors plain_rules RiskHigh demo_answer = []"
  by (simp_all add: unsafe_text_errors_def demo_answer_def collectUserVisibleText_def containsUnsafeAnswerVisibleText_def
      plain_rules_def js_def unsafe_here_def folded_prefix_steps js_fold_def internal_name_here_def internal_names_def
      reference_marker_def system_prompt_words_def js_startsWith_def leaked_term_errors_def boundary_errors_def)

lemma demo_links: "validateKnownLinkBindings plain_rules [(js ''L1'', js ''Manual'')] [js ''E1'']
    (Some [\<lparr>lb_link = js ''L1'', lb_label = None, lb_evidence = [js ''E1'']\<rparr>]) = []"
  by (simp add: validateKnownLinkBindings_def label_errors_def reference_errors_def bind_link_def)

lemma demo_errors: "answer_errors plain_rules demo_input demo_answer = []"
  by (simp add: answer_errors_def Let_def demo_references demo_input_def demo_texts demo_links risk_errors_def
      validateUniqueReferences_def validateKnownReferences_def compareDeclaredReferences_def verified_errors_def
      js_unique_def) (simp add: demo_answer_def demo_links)

lemma demo_valid: "vr_valid (validateAnswerV3 plain_rules demo_input)"
  by (simp add: validateAnswerV3_def demo_parsed demo_errors)

lemma valid_answers_are_grounded_witness:
  "\<exists>a. vr_answer (validateAnswerV3 plain_rules demo_input) = Some a \<and> answer_ok plain_rules a
     \<and> set (rf_evidenceIds (collectAnswerV3References a)) \<subseteq> {js ''E1''}"
proof -
  have "tr_nfkc plain_rules [] = []" "vi_risk demo_input = Some RiskHigh"
    by (simp_all add: plain_rules_def demo_input_def)
  from valid_answers_are_grounded[OF this(1) demo_valid this(2)] show ?thesis
    unfolding Let_def by (auto simp: option_ok_def demo_input_def)
qed

text \<open>
  C28. The schema is a type of answers: whatever JSON the model returns, an answer that
  \<open>safeParseAnswerV3\<close> accepts has between 1 and 128 blocks, every text is trimmed and within its
  limits, a table is rectangular, and every evidence id has the form of one.
\<close>

theorem parsed_answers_are_well_formed:
  "safeParseAnswerV3 tr j = Some a \<Longrightarrow> answer_ok tr a"
  by (rule safeParse_ok)

lemma parsed_answers_are_well_formed_witness:
  "answer_ok plain_rules demo_answer"
  by (rule parsed_answers_are_well_formed[OF demo_parsed])

text \<open>
  C29. The JSON form of an answer parses back to the same answer exactly when the answer is well
  formed: what a run stores of an answer it accepted is what a later read gets, and what is not
  well formed does not survive the way through the database unnoticed.
\<close>

theorem answer_round_trip:
  "safeParseAnswerV3 tr (answer_json a) = Some a \<longleftrightarrow> answer_ok tr a"
  using safeParse_ok answer_written by blast

subsection \<open>The answer shown when there is none\<close>

lemma js_trim_length: "length (js_trim t) \<le> length t"
  using trim_span(2)[of t] by simp

lemma js_trim_slice:
  assumes "js_trim t = t" "t \<noteq> []" "0 < n"
  shows "js_trim (js_slice t 0 n) \<noteq> []"
proof -
  have "hd t \<in> set (js_slice t 0 n)" using assms(2,3) by (cases t; cases n) (auto simp: js_slice_def)
  moreover have "\<not> js_white (hd t)" using js_trim_ends(1)[of t] assms(1,2) by simp
  ultimately show ?thesis by (auto simp: js_trim_Nil)
qed

lemma z_text_short: "js_trim t \<noteq> [] \<Longrightarrow> length t \<le> hi \<Longrightarrow>
   z_text 1 hi (Some (JString t)) = Some (js_trim t)"
  by (auto simp: z_text_def Let_def Suc_le_eq intro: order_trans[OF js_trim_length])

lemma trimmed: "t \<noteq> [] \<Longrightarrow> \<not> js_white (hd t) \<Longrightarrow> \<not> js_white (last t) \<Longrightarrow> js_trim t = t"
proof -
  assume t: "t \<noteq> []" "\<not> js_white (hd t)" "\<not> js_white (last t)"
  have "dropWhile js_white xs = xs" if "xs \<noteq> []" "\<not> js_white (hd xs)" for xs
    using that by (cases xs) simp_all
  from this[of t] this[of "rev t"] t show ?thesis by (simp add: js_trim_def trimStart_def hd_rev)
qed

lemma sanitizeReason_ok: "js_trim (sanitizeReason tr reason) \<noteq> []" "length (sanitizeReason tr reason) \<le> 500"
proof -
  have m: "js_trim missing_reason = missing_reason"
    by (rule trimmed) (simp_all add: missing_reason_def js_white_def)
  show "js_trim (sanitizeReason tr reason) \<noteq> []"
    by (auto simp: sanitizeReason_def Let_def m js_trim_idem dest: js_trim_slice[rotated, of _ 500]) (simp_all add: missing_reason_def)
  show "length (sanitizeReason tr reason) \<le> 500"
    by (simp add: sanitizeReason_def Let_def js_slice_def) (simp add: missing_reason_def)
qed

lemma fallback_blocks_ok:
  "list_ok 1 128 (block_ok tr) (an_blocks (buildDeterministicSafeAnswerV3 tr risk reason))"
  by (simp add: buildDeterministicSafeAnswerV3_def list_ok_def text_ok_def option_ok_def trimmed safety_title_def
      safety_body_def clarification_text_def js_white_def)

text \<open>
  C30. The deterministic answer that replaces a model's invalid answer always passes the schema,
  whatever reason it is given, and it never gives expert advice: to a high risk question it
  refuses, to any other it asks for what is missing.
\<close>

theorem fallback_always_parses:
  "\<exists>a. safeParseAnswerV3 tr (answer_json (buildDeterministicSafeAnswerV3 tr risk reason)) = Some a
     \<and> an_kind a = (if risk = RiskHigh then KindSafeRefusal else KindClarification) \<and> an_risk a = risk
     \<and> collectAnswerV3References a = \<lparr>rf_evidenceIds = [], rf_linkIds = [], rf_artifactIds = [], rf_calculationIds = []\<rparr>
     \<and> length (an_missingInputs a) = 1"
proof -
  define a where "a = buildDeterministicSafeAnswerV3 tr risk reason"
  define m where "m = js_trim (sanitizeReason tr reason)"
  have fields: "an_kind a = (if risk = RiskHigh then KindSafeRefusal else KindClarification)" "an_risk a = risk"
    "an_missingInputs a = [sanitizeReason tr reason]" "an_usedEvidenceIds a = []" "an_usedLinkIds a = []"
    by (simp_all add: a_def buildDeterministicSafeAnswerV3_def)
  have refs: "collectAnswerV3References (a\<lparr>an_missingInputs := [m]\<rparr>) =
      \<lparr>rf_evidenceIds = [], rf_linkIds = [], rf_artifactIds = [], rf_calculationIds = []\<rparr>"
    by (simp add: a_def buildDeterministicSafeAnswerV3_def collectAnswerV3References_def js_unique_def)
  have blocks: "z_array 1 128 (strictAnswerBlockSchema tr) (Some (JArray (map block_json (an_blocks a)))) = Some (an_blocks a)"
    by (rule z_array_written[OF fallback_blocks_ok[of tr risk reason, folded a_def]]) (rule block_written)
  have missing: "z_array 0 64 shortText (Some (JArray [JString (sanitizeReason tr reason)])) = Some [m]"
    by (simp add: z_array_def m_def z_text_short[OF sanitizeReason_ok, simplified])
  have empty: "z_array 0 64 p (Some (JArray [])) = Some []" for p :: "json option \<Rightarrow> js_string option"
    by (simp add: z_array_def)
  have "safeParseAnswerV3 tr (answer_json a) = Some (a\<lparr>an_missingInputs := [m]\<rparr>)"
    using blocks missing empty
    by (simp add: safeParseAnswerV3_def answer_json_def json_get_def strict_keys_def z_if_def names_written fields)
  then show ?thesis
    unfolding a_def[symmetric] using fields refs by (intro exI conjI) (assumption, simp_all)
qed

subsection \<open>The evidence registry\<close>

datatype registry_call =
    CallAdd grounding_evidence evidence_policy
  | CallMany "grounding_evidence list" evidence_policy
  | CallPrivate private_evidence
  | CallBind js_string js_string js_string

fun run_call :: "url_rules \<Rightarrow> registry_call \<Rightarrow> registry \<Rightarrow> registry" where
  "run_call ur (CallAdd ev pol) rg = snd (reg_add ur ev pol rg)"
| "run_call ur (CallMany evs pol) rg = snd (addMany ur evs pol rg)"
| "run_call ur (CallPrivate inp) rg = snd (addPrivate inp rg)"
| "run_call ur (CallBind i link host) rg = (case bindVerifiedLink i link host rg of Some rg' \<Rightarrow> rg' | None \<Rightarrow> rg)"

definition registry_after :: "url_rules \<Rightarrow> registry_call list \<Rightarrow> registry" where
  "registry_after ur calls = fold (run_call ur) calls empty_registry"

text \<open>What an id stands for: everything of an entry but its link.\<close>

definition entry_core :: "registered_evidence \<Rightarrow> registered_evidence" where
  "entry_core e = e\<lparr>re_link := None, re_hostname := None\<rparr>"

lemma run_call_wf: "registry_wf rg \<Longrightarrow> registry_wf (run_call ur c rg)"
  by (cases c) (auto simp: reg_add_wf addMany_wf addPrivate_wf dest: bindVerifiedLink_wf split: option.split)

lemma fold_calls_wf: "registry_wf rg \<Longrightarrow> registry_wf (fold (run_call ur) calls rg)"
  by (induction calls arbitrary: rg) (simp_all add: run_call_wf)

lemma registry_after_wf: "registry_wf (registry_after ur calls)"
  unfolding registry_after_def by (rule fold_calls_wf[OF empty_registry_wf])

lemma reg_add_core: "prefix (map entry_core (rg_entries rg)) (map entry_core (rg_entries (snd (reg_add ur ev pol rg))))"
  by (auto simp: reg_add_def Let_def reg_insert_def split: option.splits)

lemma addMany_core: "prefix (map entry_core (rg_entries rg)) (map entry_core (rg_entries (snd (addMany ur evs pol rg))))"
proof (induction evs arbitrary: rg)
  case (Cons ev evs)
  show ?case
    using prefix_order.trans[OF reg_add_core Cons.IH] by (simp add: case_prod_beta Let_def)
qed simp

lemma run_call_core:
  "prefix (map entry_core (rg_entries rg)) (map entry_core (rg_entries (run_call ur c rg)))"
proof (cases c)
  case (CallPrivate inp)
  then show ?thesis by (auto simp: addPrivate_def Let_def reg_insert_def split: option.splits)
next
  case (CallBind i link host)
  have "map entry_core (update_where (\<lambda>e. re_id e = i) (\<lambda>e. e\<lparr>re_link := Some link, re_hostname := Some host\<rparr>)
      (rg_entries rg)) = map entry_core (rg_entries rg)"
    by (rule map_update_where) (simp add: entry_core_def)
  with CallBind show ?thesis by (simp add: bindVerifiedLink_def)
qed (simp_all add: reg_add_core addMany_core)

lemma fold_calls_core:
  "prefix (map entry_core (rg_entries rg)) (map entry_core (rg_entries (fold (run_call ur) calls rg)))"
proof (induction calls arbitrary: rg)
  case (Cons c calls)
  show ?case using prefix_order.trans[OF run_call_core Cons.IH] by simp
qed simp

lemma reg_citation_ok:
  assumes "registry_wf rg" "reg_citation rg i = Some c"
  shows "sc_trustTier c = Some TierA \<or> sc_trustTier c = Some TierB"
    and "\<exists>e\<in>set (rg_entries rg). re_visible e \<and> sc_sourceId c = re_id e"
proof -
  from assms(2) obtain e where e: "reg_get rg i = Some e" "re_visible e"
    and c: "c = (ge_citation (re_evidence e))\<lparr>sc_sourceId := i, sc_trustTier := Some (re_tier e),
      sc_reviewStatus := Some (re_review e)\<rparr>"
    by (auto simp: reg_citation_def split: option.splits if_splits)
  have "e \<in> set (rg_entries rg)" "re_id e = i"
    using lookup_SomeD[OF e(1)[unfolded reg_get_def]] by auto
  moreover have "entry_ok e"
    using assms(1) \<open>e \<in> set (rg_entries rg)\<close> by (simp add: registry_wf_def list_all_iff)
  ultimately show "sc_trustTier c = Some TierA \<or> sc_trustTier c = Some TierB"
    "\<exists>e\<in>set (rg_entries rg). re_visible e \<and> sc_sourceId c = re_id e"
    using e(2) c by (auto simp: entry_ok_def intro: trust_tier.exhaust[of "re_tier e"])
qed

text \<open>
  C31. After any sequence of calls the registry holds the evidence \<open>E1\<close> .. \<open>En\<close> without gaps,
  one entry for each source and none of a low or blocked tier; an id keeps the evidence it was
  given, whatever is called later; and the citations it gives out are of visible evidence, so
  private attachments are never cited by their text.
\<close>

theorem registry_is_stable:
  "map re_id (rg_entries (registry_after ur calls)) = map evidence_id [1..<Suc (length (rg_entries (registry_after ur calls)))]
   \<and> distinct (map re_source (rg_entries (registry_after ur calls)))
   \<and> prefix (map entry_core (rg_entries (registry_after ur calls)))
        (map entry_core (rg_entries (registry_after ur (calls @ later))))
   \<and> list_all (\<lambda>c. sc_trustTier c \<in> {Some TierA, Some TierB}
        \<and> (\<exists>e\<in>set (rg_entries (registry_after ur calls)). re_visible e \<and> sc_sourceId c = re_id e))
      (reg_citations (registry_after ur calls) ids)"
proof (intro conjI)
  have wf: "registry_wf (registry_after ur calls)" by (rule registry_after_wf)
  then show "map re_id (rg_entries (registry_after ur calls)) = map evidence_id [1..<Suc (length (rg_entries (registry_after ur calls)))]"
    "distinct (map re_source (rg_entries (registry_after ur calls)))"
    by (simp_all add: registry_wf_def)
  show "prefix (map entry_core (rg_entries (registry_after ur calls)))
      (map entry_core (rg_entries (registry_after ur (calls @ later))))"
    unfolding registry_after_def fold_append comp_def by (rule fold_calls_core)
  have "sc_trustTier c \<in> {Some TierA, Some TierB}
      \<and> (\<exists>e\<in>set (rg_entries (registry_after ur calls)). re_visible e \<and> sc_sourceId c = re_id e)"
    if "reg_citation (registry_after ur calls) i = Some c" for i c
    using reg_citation_ok[OF wf that] by blast
  then show "list_all (\<lambda>c. sc_trustTier c \<in> {Some TierA, Some TierB}
        \<and> (\<exists>e\<in>set (rg_entries (registry_after ur calls)). re_visible e \<and> sc_sourceId c = re_id e))
      (reg_citations (registry_after ur calls) ids)"
    unfolding list_all_iff reg_citations_def List.map_filter_def by force
qed

end
