(* ===== verification/Run_Properties.thy ===== *)
theory Run_Properties
  imports Run_Machine Storage_Properties Answer_Properties
begin

section \<open>Properties of runs\<close>

text \<open>
  What the run store, the settlement and the recovery guarantee together, over the step relation
  of \<open>Run_Machine\<close>. The example state has one conversation, one reserved answer
  lease and a run that was just created.
\<close>

definition demo_platform :: run_platform where
  "demo_platform = \<lparr>rp_text = plain_rules,
     rp_url = \<lparr>ur_parse = (\<lambda>_. None), ur_number = (\<lambda>_. None), ur_lower = (\<lambda>s. s)\<rparr>, rp_collations = demo_col\<rparr>"

definition demo_idle :: app_db where
  "demo_idle = demo_app\<lparr>ap_quota := demo_held\<lparr>q_next := 10\<rparr>\<rparr>"

definition demo_modes :: run_modes where
  "demo_modes = \<lparr>md_requested = RequestAuto, md_resolved = ModeFast, md_web = WebAuto, md_risk = RiskLow, md_model = ''m''\<rparr>"

definition demo_initial :: initial_input where
  "demo_initial = \<lparr>in_user = ''ann'', in_conversation = Some 1, in_question = [113], in_parts = None,
     in_clientRequest = ''r1'', in_modes = demo_modes, in_lease = 1\<rparr>"

definition demo_created :: "create_result \<times> app_db" where
  "demo_created = (case createInitial demo_platform demo_initial demo_idle of Inr x \<Rightarrow> x | Inl _ \<Rightarrow> (RequestUsed, demo_idle))"

definition demo_running :: app_db where
  "demo_running = snd demo_created"

definition demo_run :: created_run where
  "demo_run = \<lparr>cr_run = 13, cr_turn = 12, cr_conversation = 1, cr_userMessage = 10, cr_assistantMessage = 11,
     cr_version = 1, cr_question = [113], cr_parts = [TextPart [113]], cr_action = ActInitial\<rparr>"

lemma demo_held_now: "q_now demo_held = 1000"
  by (simp add: demo_held_def pg_reserve_def quota_eval demo_defs map_filter_simps)

lemma demo_held_users: "q_users demo_held = demo_users"
  by (simp add: demo_held_def pg_reserve_def quota_eval demo_defs map_filter_simps)

definition demo_row :: run_row where
  "demo_row = new_run 13 12 ''ann'' 11 ''r1'' 1 ActInitial demo_modes 1 demo_idle"

lemma demo_creates: "\<exists>db. createInitial demo_platform demo_initial demo_idle = Inr (RunCreated demo_run, db)
    \<and> ap_runs db = [demo_row] \<and> ap_quota db = demo_held\<lparr>q_next := 14\<rparr> \<and> no_storage db
    \<and> map tn_id (ap_turns db) = [12] \<and> map ms_id (ap_messages db) = [3, 10, 11]"
    by (simp add: createInitial_def demo_initial_def demo_idle_def demo_app_def demo_held_users demo_users_def assertAccountWritable_def
        findRunByClientRequest_def open_conversation_def findActiveRun_def insert_initial_def last_sequence_def
        last_ordinal_def max_or_zero_def insert_message_def insert_turn_def insert_run_def new_run_def
        question_message_def assistant_message_def demo_run_def initial_parts_def lookup_def demo_row_def
        no_storage_def touch_conversation_def)

lemma demo_create: "createInitial demo_platform demo_initial demo_idle = Inr (RunCreated demo_run, demo_running)"
  and demo_runs_eq: "ap_runs demo_running = [demo_row]"
  and demo_quota: "ap_quota demo_running = demo_held\<lparr>q_next := 14\<rparr>"
  and demo_no_store: "no_storage demo_running"
  and demo_rows: "map tn_id (ap_turns demo_running) = [12]" "map ms_id (ap_messages demo_running) = [3, 10, 11]"
  using demo_creates by (auto simp: demo_running_def demo_created_def)

lemma demo_row_simps [simp]:
  "rn_id demo_row = 13" "rn_user demo_row = ''ann''" "rn_status demo_row = RunRunning" "rn_turn demo_row = 12"
  "rn_cancelRequestedAt demo_row = None" "rn_quotaLease demo_row = Some 1" "rn_assistantMessage demo_row = 11"
  "rn_counters demo_row = zero_counters" "rn_clientRequest demo_row = ''r1''" "rn_updatedAt demo_row = 1000"
  "rn_settlement demo_row = SettlementPending"
  by (simp_all add: demo_row_def new_run_def demo_idle_def demo_held_now)

lemma demo_lease: "answer_lease (ap_quota demo_idle) 1 ''ann'' Reserved"
  by (simp add: demo_idle_def answer_lease_def demo_held_def pg_reserve_def quota_eval demo_defs map_filter_simps)

lemma demo_idle_inv: "run_inv demo_idle"
proof -
  have "q_next demo_held \<le> 10" by code_simp
  then have "service_inv (ap_quota demo_idle)"
    by (intro service_inv_cong[OF demo_held_inv]) (simp_all add: demo_idle_def)
  then show ?thesis
    by (simp add: run_inv_def demo_idle_def demo_app_def ids_below_def one_active_def own_leases_def)
qed

lemma demo_running_inv: "run_inv demo_running"
  using createInitial_inv[OF demo_idle_inv _ demo_create, of Reserved] demo_lease by (simp add: demo_initial_def)

subsection \<open>Consistency\<close>

text \<open>A state without runs, whose other rows have drawn their ids from the counter.\<close>

definition fresh_app :: "app_db \<Rightarrow> bool" where
  "fresh_app db \<longleftrightarrow> service_inv (ap_quota db) \<and> ids_below db \<and> ap_runs db = [] \<and> no_storage db"

lemma fresh_run_inv: "fresh_app db \<Longrightarrow> run_inv db"
  by (simp add: fresh_app_def run_inv_def one_active_def own_leases_def)

lemma demo_fresh: "fresh_app demo_idle"
  using run_invD(1,3)[OF demo_idle_inv] by (simp add: fresh_app_def demo_idle_def no_storage_def demo_app_def)

lemma demo_running_step: "run_step demo_platform demo_idle demo_running"
  by (rule run_initial[OF demo_create, of Reserved]) (use demo_lease in \<open>simp add: demo_initial_def\<close>)

text \<open>
  C1. Runs, leases and private storage stay consistent under every interleaving of the
  transactions of the run store, the recovery, the quota and the storage code: a conversation
  has at most one active run, no two runs share a lease, a run whose settlement is complete has
  ended and its lease is committed exactly when the answer completed and released otherwise,
  and the storage books balance.
\<close>

theorem runs_consistent:
  assumes "fresh_app db0" "(run_step pf)\<^sup>*\<^sup>* db0 db"
  shows "(\<forall>x\<in>set (ap_runs db). \<forall>y\<in>set (ap_runs db). run_active (rn_status x) \<and> run_active (rn_status y)
      \<and> run_conversation db x = run_conversation db y \<longrightarrow> x = y)
    \<and> (\<forall>x\<in>set (ap_runs db). \<forall>y\<in>set (ap_runs db). rn_quotaLease x \<noteq> None \<and> rn_quotaLease x = rn_quotaLease y \<longrightarrow> x = y)
    \<and> (\<forall>r\<in>set (ap_runs db). \<forall>l. rn_settlement r = SettlementCompleted \<and> rn_quotaLease r = Some l \<longrightarrow>
        \<not> run_active (rn_status r)
        \<and> lease_held (ap_quota db) l (rn_user r) = Some (if rn_status r = RunCompleted then Committed else Released)
        \<and> rn_quotaStatus r = Some (if rn_status r = RunCompleted then Committed else Released))
    \<and> storage_inv db \<and> no_object_lost db0 db"
proof (intro conjI ballI allI impI)
  have inv: "run_inv db" by (rule run_steps_inv[OF assms(2) fresh_run_inv[OF assms(1)]])
  have id: "x = y" if "x \<in> set (ap_runs db)" "y \<in> set (ap_runs db)" "rn_id x = rn_id y" for x y
    by (rule distinct_key_unique[OF run_invD(2)[OF inv] that])
  show "x = y" if "x \<in> set (ap_runs db)" "y \<in> set (ap_runs db)"
    "run_active (rn_status x) \<and> run_active (rn_status y) \<and> run_conversation db x = run_conversation db y" for x y
    using run_invD(5)[OF inv] that id unfolding one_active_def by blast
  show "x = y" if "x \<in> set (ap_runs db)" "y \<in> set (ap_runs db)"
    "rn_quotaLease x \<noteq> None \<and> rn_quotaLease x = rn_quotaLease y" for x y
    using run_invD(6)[OF inv] that id unfolding own_leases_def by blast
  show "storage_inv db" "no_object_lost db0 db"
    using run_steps_storage[OF assms(2)] no_storage_inv assms(1) by (simp_all add: storage_kept_def fresh_app_def)
  fix r l assume r: "r \<in> set (ap_runs db)" and l: "rn_settlement r = SettlementCompleted \<and> rn_quotaLease r = Some l"
  have "\<not> run_active (rn_status r) \<and> settled_quota db r"
    using run_invD(4)[OF inv r] l unfolding run_ok_def by blast
  then show "\<not> run_active (rn_status r)"
    "lease_held (ap_quota db) l (rn_user r) = Some (if rn_status r = RunCompleted then Committed else Released)"
    "rn_quotaStatus r = Some (if rn_status r = RunCompleted then Committed else Released)"
    using l answer_lease_held[OF run_invD(1)[OF inv], of l "rn_user r"]
    by (auto simp: settled_quota_def expected_quota_def split: if_splits)
qed

lemma runs_consistent_witness:
  "\<exists>r\<in>set (ap_runs demo_running). run_active (rn_status r) \<and> storage_inv demo_running"
proof -
  have "storage_inv demo_running"
    using runs_consistent[OF demo_fresh r_into_rtranclp[where r = "run_step demo_platform", OF demo_running_step]] by blast
  then show ?thesis by (simp add: demo_runs_eq run_active_def)
qed

subsection \<open>Cancelling\<close>

text \<open>
  C3. Once a cancellation is accepted the run never completes: whatever transactions follow, in
  whatever order, its status is never completed or incomplete, and an attempt to complete it
  fails with \<open>RUN_NOT_COMPLETABLE\<close>.
\<close>

theorem cancelled_never_completes:
  assumes "run_inv db" "requestCancellation user i db = (CancelAccepted, db1)" "(run_step pf)\<^sup>*\<^sup>* db1 db2"
    and "cr_run (cp_run inp) = i" "assertAccountWritable (cp_user inp) db2 = Inr ()"
  shows "(\<exists>r\<in>set (ap_runs db2). rn_id r = i \<and> rn_user r = user \<and> rn_cancelRequestedAt r \<noteq> None
        \<and> rn_status r \<noteq> RunCompleted \<and> rn_status r \<noteq> RunIncomplete)
    \<and> complete pf inp db2 = Inl (RunStoreError ''RUN_NOT_COMPLETABLE'')"
proof -
  from assms(2) obtain r where r: "r \<in> set (ap_runs db)" "rn_id r = i" "rn_user r = user" "run_active (rn_status r)"
    and db1: "db1 = update_run i (\<lambda>r. r\<lparr>rn_cancelRequestedAt := Some (now db)\<rparr>) db"
    by (auto simp: requestCancellation_def split: option.splits if_splits dest: find_SomeD)
  define r1 where "r1 = r\<lparr>rn_cancelRequestedAt := Some (now db), rn_updatedAt := now db\<rparr>"
  have "r1 \<in> set (ap_runs db1)"
    using r(1,2) by (auto simp: db1 update_run_def set_update_where r1_def)
  moreover have inv1: "run_inv db1" by (rule requestCancellation_inv[OF assms(1,2)])
  ultimately obtain r2 where r2: "r2 \<in> set (ap_runs db2)" "run_evolves r1 r2"
    using run_steps_evolve[OF assms(3)] unfolding runs_evolve_def by blast
  then have f: "rn_id r2 = i" "rn_user r2 = user" "rn_cancelRequestedAt r2 \<noteq> None"
    "rn_status r2 \<noteq> RunCompleted" "rn_status r2 \<noteq> RunIncomplete"
    using r by (auto simp: run_evolves_def r1_def)
  have "distinct (map rn_id (ap_runs db2))" by (rule run_invD(2)[OF run_steps_inv[OF assms(3) inv1]])
  then have "run_of db2 i = Some r2" using r2(1) f(1) by (simp add: run_of_def lookup_Some_iff)
  then have "complete pf inp db2 = Inl (RunStoreError ''RUN_NOT_COMPLETABLE'')"
    using assms(4,5) f(3) by (simp add: complete_def)
  with r2(1) f show ?thesis by blast
qed

definition demo_complete :: complete_input where
  "demo_complete = \<lparr>cp_user = ''ann'', cp_run = demo_run, cp_answer = demo_answer, cp_modes = demo_modes,
     cp_webSearched = False, cp_evidence = empty_registry, cp_usedIds = [], cp_links = [], cp_artifacts = [],
     cp_context = None, cp_incomplete = False, cp_counters = zero_counters\<rparr>"

definition demo_fail :: fail_input where
  "demo_fail = \<lparr>fi_run = demo_run, fi_cancelled = True, fi_code = ''C'', fi_message = [99], fi_context = None,
     fi_counters = None\<rparr>"

lemma demo_writable: "assertAccountWritable ''ann'' demo_running = Inr ()"
  by (simp add: assertAccountWritable_def demo_quota demo_held_users demo_users_def lookup_def)

lemma demo_turn: "turn_of demo_running 12 \<noteq> None"
  using demo_rows(1) by (auto simp: turn_of_def lookup_def)

lemma cancelled_never_completes_witness:
  "\<exists>db1. requestCancellation ''ann'' 13 demo_running = (CancelAccepted, db1)
     \<and> complete demo_platform demo_complete db1 = Inl (RunStoreError ''RUN_NOT_COMPLETABLE'')"
proof -
  define db1 where "db1 = update_run 13 (\<lambda>r. r\<lparr>rn_cancelRequestedAt := Some (now demo_running)\<rparr>) demo_running"
  have c: "requestCancellation ''ann'' 13 demo_running = (CancelAccepted, db1)"
    using demo_turn by (simp add: requestCancellation_def demo_runs_eq run_active_def db1_def)
  have "assertAccountWritable ''ann'' db1 = Inr ()"
    using demo_writable by (simp add: assertAccountWritable_def db1_def)
  with cancelled_never_completes[OF demo_running_inv c rtranclp.rtrancl_refl, of demo_complete demo_platform] c
  show ?thesis by (simp add: demo_complete_def demo_run_def)
qed

subsection \<open>Completing\<close>

lemma lookup_update_where:
  assumes "\<And>x. key x = k \<Longrightarrow> key (f x) = k"
  shows "lookup key k (update_where (\<lambda>x. key x = k) f xs) = map_option f (lookup key k xs)"
  by (induction xs) (simp_all add: table_simps assms)

lemma run_of_update: "(\<And>r. rn_id (f r) = rn_id r) \<Longrightarrow>
   run_of (update_run i f db) i = map_option (\<lambda>r. (f r)\<lparr>rn_updatedAt := now db\<rparr>) (run_of db i)"
  unfolding run_of_def update_run_def by (simp add: lookup_update_where)

lemma message_of_update: "(\<And>m. ms_id (f m) = ms_id m) \<Longrightarrow>
   message_of (update_message i f db) i = map_option f (message_of db i)"
  unfolding message_of_def update_message_def by (simp add: lookup_update_where)

lemma complete_rows_messages:
  "ap_messages (complete_rows inp db) = ap_messages (update_message (cr_assistantMessage (cp_run inp)) (complete_message inp db) db)"
  using add_citations_frame by (simp add: complete_rows_def Let_def touch_conversation_def update_turn_def)

lemma run_of_row: "run_inv db \<Longrightarrow> r \<in> set (ap_runs db) \<Longrightarrow> run_of db (rn_id r) = Some r"
  using run_invD(2) by (simp add: run_of_def lookup_Some_iff)

lemma no_active_run:
  assumes inv: "run_inv d" and r: "run_of d i = Some r" "\<not> run_active (rn_status r)"
  shows "find (\<lambda>x. rn_id x = i \<and> run_active (rn_status x)) (ap_runs d) = None"
proof -
  have "x = r" if "x \<in> set (ap_runs d)" "rn_id x = i" for x
    using run_of_row[OF inv that(1)] that(2) r(1) by simp
  with r(2) show ?thesis unfolding find_None_iff by blast
qed

lemma the_active_run:
  assumes inv: "run_inv d" and r: "r \<in> set (ap_runs d)" "run_active (rn_status r)"
  shows "find (\<lambda>x. rn_id x = rn_id r \<and> run_active (rn_status x)) (ap_runs d) = Some r"
  by (rule find_unique[OF run_invD(2)[OF inv] r(1)]) (use r(2) in simp_all)

lemma complete_succeeds:
  assumes inv: "run_inv db" and r: "r \<in> set (ap_runs db)" "rn_id r = cr_run (cp_run inp)" "run_active (rn_status r)"
      "rn_cancelRequestedAt r = None" "rn_quotaLease r = Some l"
    and lease: "answer_lease (ap_quota db) l (cp_user inp) Reserved"
    and ok: "assertAccountWritable (cp_user inp) db = Inr ()" "counters_ok (cp_counters inp)"
  obtains q' where "complete pf inp db = Inr (complete_content inp, update_run (cr_run (cp_run inp))
      (complete_run inp (Some (expected_quota (complete_status inp))) db) ((complete_rows inp db)\<lparr>ap_quota := q'\<rparr>))"
    "service_inv q'" "answer_lease q' l (cp_user inp) (expected_quota (complete_status inp))"
    "q_users q' = q_users (ap_quota db)"
proof -
  have q: "service_inv (ap_quota (complete_rows inp db))"
    using complete_rows_frame(2) by (intro service_inv_cong[OF run_invD(1)[OF inv]])
      (simp_all add: complete_rows_frame(3,4) keys_kept_def)
  have l: "answer_lease (ap_quota (complete_rows inp db)) l (cp_user inp) Reserved"
    using lease answer_lease_cong[OF complete_rows_frame(3)] by simp
  obtain d where s: "settleAnswerQuota (rp_collations pf) (Some l) (cp_user inp) (complete_status inp)
      ''agent_run_incomplete'' (complete_rows inp db) = Inr (Some (expected_quota (complete_status inp)), d)"
    using settleAnswerQuota_ok[OF q l] by blast
  from settleAnswerQuota_Inr[OF q l s] obtain q' where d: "d = (complete_rows inp db)\<lparr>ap_quota := q'\<rparr>"
    and q': "service_inv q'" "answer_lease q' l (cp_user inp) (expected_quota (complete_status inp))"
      "q_users q' = q_users (ap_quota db)" using complete_rows_frame(5)[of inp db] by auto
  have "run_of db (cr_run (cp_run inp)) = Some r" using run_of_row[OF inv r(1)] r(2) by simp
  then have "complete pf inp db = Inr (complete_content inp, update_run (cr_run (cp_run inp))
      (complete_run inp (Some (expected_quota (complete_status inp))) db) d)"
    using r(3-5) ok s by (simp add: complete_def)
  with q' d that show ?thesis by blast
qed

text \<open>
  C10. Completing an active run that nobody cancelled always succeeds, and it charges the answer
  exactly once: the lease is committed for a complete answer and given back for an incomplete
  one, the run and its message hold the answer, and afterwards the run can neither be completed
  again nor failed.
\<close>

theorem complete_charges_once:
  assumes inv: "run_inv db" and r: "r \<in> set (ap_runs db)" "rn_id r = cr_run (cp_run inp)" "run_active (rn_status r)"
      "rn_cancelRequestedAt r = None" "rn_quotaLease r = Some l"
    and m: "message_of db (cr_assistantMessage (cp_run inp)) = Some m"
    and lease: "answer_lease (ap_quota db) l (cp_user inp) Reserved"
    and ok: "assertAccountWritable (cp_user inp) db = Inr ()" "counters_ok (cp_counters inp)"
    and f: "cr_run (fi_run finp) = cr_run (cp_run inp)"
  shows "\<exists>db' r' m'. complete pf inp db = Inr (complete_content inp, db')
    \<and> lease_held (ap_quota db') l (cp_user inp) = Some (if cp_incomplete inp then Released else Committed)
    \<and> run_of db' (cr_run (cp_run inp)) = Some r' \<and> rn_settlement r' = SettlementCompleted
    \<and> rn_status r' = (if cp_incomplete inp then RunIncomplete else RunCompleted)
    \<and> rn_answerPayload r' = Some (answer_json (cp_answer inp))
    \<and> message_of db' (cr_assistantMessage (cp_run inp)) = Some m' \<and> ms_content m' = pg_text (complete_content inp)
    \<and> complete pf inp db' = Inl (RunStoreError ''RUN_NOT_COMPLETABLE'')
    \<and> fail pf finp db' = Inl (RunStoreError ''RUN_NOT_FAILABLE'')"
proof -
  define i where "i = cr_run (cp_run inp)"
  define quota where "quota = expected_quota (complete_status inp)"
  obtain q' where run: "complete pf inp db = Inr (complete_content inp, update_run i (complete_run inp (Some quota) db)
      ((complete_rows inp db)\<lparr>ap_quota := q'\<rparr>))" (is "_ = Inr (_, ?db')")
    and q': "service_inv q'" "answer_lease q' l (cp_user inp) quota" and users: "q_users q' = q_users (ap_quota db)"
    unfolding i_def quota_def by (rule complete_succeeds[OF inv r lease ok])
  define r' where "r' = (complete_run inp (Some quota) db r)\<lparr>rn_updatedAt := q_now q'\<rparr>"
  have "run_of db i = Some r" using run_of_row[OF inv r(1)] r(2) by (simp add: i_def)
  then have run': "run_of ?db' i = Some r'"
    by (subst run_of_update) (simp_all add: run_of_def complete_rows_frame r'_def complete_run_def)
  have msg: "message_of ?db' (cr_assistantMessage (cp_run inp)) = Some (complete_message inp db m)"
    using message_of_update[of "complete_message inp db" "cr_assistantMessage (cp_run inp)" db] m
    by (simp add: message_of_def complete_rows_messages complete_message_def)

  have again: "complete pf inp ?db' = Inl (RunStoreError ''RUN_NOT_COMPLETABLE'')"
    using ok(1) run' users by (simp add: complete_def assertAccountWritable_def i_def r'_def complete_run_def
        complete_status_def run_active_def)
  have inv': "run_inv ?db'" by (rule complete_inv[OF inv run])
  have "find (\<lambda>x. rn_id x = i \<and> run_active (rn_status x)) (ap_runs ?db') = None"
    by (rule no_active_run[OF inv' run']) (simp add: r'_def complete_run_def complete_status_def run_active_def)
  then have "fail pf finp ?db' = Inl (RunStoreError ''RUN_NOT_FAILABLE'')"
    using run' f by (simp add: fail_def already_failed_def i_def r'_def complete_run_def complete_status_def)
  moreover have "lease_held (ap_quota ?db') l (cp_user inp) = Some (if cp_incomplete inp then Released else Committed)"
    using answer_lease_held[OF q'] by (simp add: quota_def expected_quota_def complete_status_def)
  ultimately show ?thesis
    using run run' msg again unfolding i_def
    by (intro exI[of _ ?db'] exI[of _ r'] exI[of _ "complete_message inp db m"])
      (simp add: i_def r'_def complete_run_def complete_status_def complete_message_def)
qed

lemma demo_open_lease: "answer_lease (ap_quota demo_running) 1 ''ann'' Reserved"
  using demo_lease answer_lease_cong[of "ap_quota demo_running" "ap_quota demo_idle"]
  by (simp add: demo_quota demo_idle_def)

lemma demo_message: "\<exists>m. message_of demo_running 11 = Some m"
  using demo_rows(2) by (auto simp: message_of_def lookup_def)

lemma complete_charges_once_witness:
  "\<exists>db'. complete demo_platform demo_complete demo_running = Inr (complete_content demo_complete, db')
     \<and> lease_held (ap_quota db') 1 ''ann'' = Some Committed"
proof -
  obtain m where m: "message_of demo_running 11 = Some m" using demo_message by blast
  have "counters_ok zero_counters" by (simp add: counters_ok_def zero_counters_def)
  then show ?thesis
    using complete_charges_once[OF demo_running_inv, of demo_row demo_complete 1 m demo_fail demo_platform]
      m demo_open_lease demo_writable
    by (auto simp: demo_complete_def demo_fail_def demo_run_def demo_runs_eq run_active_def)
qed

subsection \<open>Failing\<close>

lemma cleanup_succeeds:
  assumes "storage_inv db" "storage_tables d = storage_tables db"
  shows "\<exists>d'. cleanupRunArtifacts sc d = Inr d'"
proof -
  have d: "storage_inv d" using same_tables_kept[OF assms(2)] assms(1) by (simp add: storage_kept_def)
  have "\<exists>d'. release_storage u (sum_list (map file_committed (filter P (ap_files d))))
      (sum_list (map file_reserved (filter P (ap_files d)))) d = Inr d'" for u P
    using release_succeeds[OF _ sum_file_nonneg[OF d, of P], of d d u] d by (simp add: release_storage_def storage_inv_def)
  then show ?thesis
    by (auto simp: cleanupRunArtifacts_def Let_def run_files_def bindR_eq_Inr)
qed

text \<open>
  C9. Failing or cancelling an active run always succeeds when its lease is open and the
  storage is consistent, and it refunds: the lease is released, the run has ended with its
  settlement complete, its message says so; and calling it again changes nothing and reports
  the same settlement.
\<close>

theorem fail_refunds:
  assumes inv: "run_inv db" and storage: "storage_inv db"
    and r: "r \<in> set (ap_runs db)" "rn_id r = cr_run (fi_run inp)" "run_active (rn_status r)" "rn_quotaLease r = Some l"
    and m: "message_of db (cr_assistantMessage (fi_run inp)) = Some m"
    and lease: "answer_lease (ap_quota db) l (rn_user r) Reserved"
    and ok: "counters_ok (case fi_counters inp of Some c \<Rightarrow> c | None \<Rightarrow> rn_counters r)"
  shows "\<exists>db' r' m'. fail pf inp db = Inr (Some Released, db')
    \<and> lease_held (ap_quota db') l (rn_user r) = Some Released \<and> storage_inv db' \<and> no_object_lost db db'
    \<and> run_of db' (cr_run (fi_run inp)) = Some r' \<and> rn_settlement r' = SettlementCompleted
    \<and> rn_status r' = fail_status inp \<and> rn_errorCode r' = Some (fi_code inp)
    \<and> message_of db' (cr_assistantMessage (fi_run inp)) = Some m'
    \<and> ms_status m' = (if fi_cancelled inp then MsgCancelled else MsgFailed)
    \<and> fail pf inp db' = Inr (Some Released, db')"
proof -
  define i where "i = cr_run (fi_run inp)"
  define d0 where "d0 = update_run i (fail_run inp db) db"
  have exp: "expected_quota (fail_status inp) = Released" by (simp add: expected_quota_def fail_status_def)
  have run_i: "run_of db i = Some r" using run_of_row[OF inv r(1)] r(2) by (simp add: i_def)
  have uniq: "find (\<lambda>x. rn_id x = i \<and> run_active (rn_status x)) (ap_runs db) = Some r"
    using the_active_run[OF inv r(1,3)] r(2) by (simp add: i_def)
  have "service_inv (ap_quota d0)" "answer_lease (ap_quota d0) l (rn_user r) Reserved"
    using run_invD(1)[OF inv] lease by (simp_all add: d0_def)
  note q0 = this
  obtain d1 where s: "settleAnswerQuota (rp_collations pf) (Some l) (rn_user r) (fail_status inp) (fail_reason inp) d0
      = Inr (Some Released, d1)"
    using settleAnswerQuota_ok[OF q0, of "fail_status inp" "rp_collations pf" "fail_reason inp"] exp by auto
  from settleAnswerQuota_Inr[OF q0 s] obtain q' where d1: "d1 = d0\<lparr>ap_quota := q'\<rparr>" and q': "service_inv q'"
    "answer_lease q' l (rn_user r) Released" using exp by auto
  obtain d2 where clean: "cleanupRunArtifacts (fail_scope inp (rn_user r)) d1 = Inr d2"
    using cleanup_succeeds[OF storage, of d1] by (auto simp: d1 d0_def)
  define db' where "db' = update_message (cr_assistantMessage (fi_run inp)) (fail_message inp db)
      (update_run i (settle_run (Some Released)) d2)"
  have run: "fail pf inp db = Inr (Some Released, db')"
    using uniq ok s clean r(4) by (simp add: fail_def i_def d0_def db'_def Let_def)
  note fr = frameD[OF cleanup_frame[OF clean]]
  define r' where "r' = (settle_run (Some Released) ((fail_run inp db r)\<lparr>rn_updatedAt := now db\<rparr>))\<lparr>rn_updatedAt := now d2\<rparr>"
  have "run_of d0 i = Some ((fail_run inp db r)\<lparr>rn_updatedAt := now db\<rparr>)"
    using run_i by (simp add: d0_def run_of_update fail_run_def)
  then have "run_of d2 i = Some ((fail_run inp db r)\<lparr>rn_updatedAt := now db\<rparr>)"
    using fr(1) by (simp add: run_of_def d1)
  then have run': "run_of db' i = Some r'"
    using run_of_update[of "settle_run (Some Released)" i d2]
    by (simp add: db'_def run_of_def r'_def settle_run_def)
  have msg: "message_of db' (cr_assistantMessage (fi_run inp)) = Some (fail_message inp db m)"
    using message_of_update[of "fail_message inp db" "cr_assistantMessage (fi_run inp)" "update_run i (settle_run (Some Released)) d2"]
      m fr(3) by (simp add: db'_def message_of_def d1 d0_def fail_message_def)
  have inv': "run_inv db'" by (rule fail_inv[OF inv run])
  have "find (\<lambda>x. rn_id x = i \<and> run_active (rn_status x)) (ap_runs db') = None"
    by (rule no_active_run[OF inv' run']) (simp add: r'_def settle_run_def fail_run_def fail_status_def run_active_def)
  then have again: "fail pf inp db' = Inr (Some Released, db')"
    using run' by (simp add: fail_def already_failed_def i_def r'_def settle_run_def fail_run_def fail_status_def)
  have "answer_lease (ap_quota db') l (rn_user r) Released"
    using q'(2) answer_lease_cong[OF fr(5)] by (simp add: db'_def d1)
  then have "lease_held (ap_quota db') l (rn_user r) = Some Released"
    by (rule answer_lease_held[OF run_invD(1)[OF inv']])
  then show ?thesis
    using run run' msg again fail_kept[OF run] storage unfolding i_def
    by (intro exI[of _ db'] exI[of _ r'] exI[of _ "fail_message inp db m"])
      (simp add: storage_kept_def r'_def settle_run_def fail_run_def fail_message_def)
qed

lemma fail_refunds_witness:
  "\<exists>db'. fail demo_platform demo_fail demo_running = Inr (Some Released, db')
     \<and> lease_held (ap_quota db') 1 ''ann'' = Some Released \<and> fail demo_platform demo_fail db' = Inr (Some Released, db')"
proof -
  obtain m where m: "message_of demo_running 11 = Some m" using demo_message by blast
  have "counters_ok zero_counters" by (simp add: counters_ok_def zero_counters_def)
  then show ?thesis
    using fail_refunds[OF demo_running_inv no_storage_inv[OF demo_no_store], of demo_row demo_fail 1 m demo_platform]
      m demo_open_lease
    by (auto simp: demo_fail_def demo_run_def demo_runs_eq run_active_def)
qed

subsection \<open>Recovering\<close>

definition recovered_status :: "timestamp \<Rightarrow> run_row \<Rightarrow> run_status" where
  "recovered_status before r = (if was_interrupted before r then RunFailed else rn_status r)"

definition recovery_reason :: "timestamp \<Rightarrow> run_row \<Rightarrow> string" where
  "recovery_reason before r = (if was_interrupted before r then ''agent_run_process_interrupted''
      else ''agent_run_'' @ status_name (recovered_status before r) @ ''_recovery'')"

lemma recover_run_stale:
  assumes "run_of d (cd_run c) = Some r" "stale_run before r"
  shows "recover_run pf before c d = bindR (settleAnswerQuota (rp_collations pf) (rn_quotaLease r) (rn_user r)
      (recovered_status before r) (recovery_reason before r) d) (\<lambda>(quota, d1).
    bindR (if recovered_status before r = RunFailed \<or> recovered_status before r = RunCancelled
      then cleanupRunArtifacts \<lparr>sc_run = cd_run c, sc_user = rn_user r, sc_conversation = cd_conversation c,
             sc_turn = cd_turn c, sc_message = cd_message c\<rparr> d1 else Inr d1) (\<lambda>d2.
    Inr (True, if was_interrupted before r
      then update_message (cd_message c) (interrupt_message c (now d))
             (update_run (cd_run c) (recover_row (was_interrupted before r) (recovered_status before r) quota (now d)) d2)
      else update_run (cd_run c) (recover_row (was_interrupted before r) (recovered_status before r) quota (now d)) d2)))"
  using assms by (simp add: recover_run_def recovered_status_def recovery_reason_def Let_def)

text \<open>The lease of a stale run is open, or has the status the run's end asks for.\<close>

definition recoverable :: "timestamp \<Rightarrow> app_db \<Rightarrow> run_row \<Rightarrow> bool" where
  "recoverable before d r \<longleftrightarrow> (\<forall>l. rn_quotaLease r = Some l \<longrightarrow>
     (\<exists>st. answer_lease (ap_quota d) l (rn_user r) st \<and> (st = Reserved \<or> st = expected_quota (recovered_status before r))))"

definition run_ended :: "run_row \<Rightarrow> bool" where
  "run_ended r \<longleftrightarrow> \<not> run_active (rn_status r) \<and> rn_settlement r = SettlementCompleted"

lemma ended_not_stale: "run_ended r \<Longrightarrow> \<not> stale_run before r"
  by (simp add: run_ended_def stale_run_def was_interrupted_def needs_settlement_def)

lemma settle_recoverable:
  assumes inv: "service_inv (ap_quota d)" and rec: "recoverable before d r"
  obtains quota q' where "settleAnswerQuota col (rn_quotaLease r) (rn_user r) (recovered_status before r) reason d
      = Inr (quota, d\<lparr>ap_quota := q'\<rparr>)" "\<And>k. rn_quotaLease r \<noteq> Some k \<Longrightarrow> lease_stable (ap_quota d) q' k" "q_now q' = now d"
proof (cases "rn_quotaLease r")
  case None
  then show ?thesis using that[of None "ap_quota d"] by (simp add: lease_stable_def)
next
  case (Some l)
  with rec obtain st where st: "answer_lease (ap_quota d) l (rn_user r) st"
    "st = Reserved \<or> st = expected_quota (recovered_status before r)" unfolding recoverable_def by blast
  from settleAnswerQuota_ok[OF inv st] obtain d' where
    s: "settleAnswerQuota col (Some l) (rn_user r) (recovered_status before r) reason d
      = Inr (Some (expected_quota (recovered_status before r)), d')" by blast
  from settleAnswerQuota_Inr[OF inv st(1) s] obtain q' where "d' = d\<lparr>ap_quota := q'\<rparr>"
    "\<forall>k. k \<noteq> l \<longrightarrow> lease_stable (ap_quota d) q' k" "q_now q' = now d" by blast
  then show ?thesis using that[of _ q'] s Some by auto
qed

lemma recover_run_settles:
  assumes inv: "run_inv d" and storage: "storage_inv d" and r: "run_of d (cd_run c) = Some r"
    and stale: "stale_run before r" and rec: "recoverable before d r"
  obtains d' g where "recover_run pf before c d = Inr (True, d')" "now d' = now d" "ap_turns d' = ap_turns d"
    "ap_runs d' = update_where (\<lambda>x. rn_id x = cd_run c) g (ap_runs d)" "run_ended (g r)" "rn_id (g r) = rn_id r"
    "\<And>k. rn_quotaLease r \<noteq> Some k \<Longrightarrow> lease_stable (ap_quota d) (ap_quota d') k"
proof -

  obtain quota q' where s: "settleAnswerQuota (rp_collations pf) (rn_quotaLease r) (rn_user r) (recovered_status before r) (recovery_reason before r) d
      = Inr (quota, d\<lparr>ap_quota := q'\<rparr>)" and q': "\<And>k. rn_quotaLease r \<noteq> Some k \<Longrightarrow> lease_stable (ap_quota d) q' k"
      "q_now q' = now d"
    using settle_recoverable[OF run_invD(1)[OF inv] rec] by blast
  define d1 where "d1 = d\<lparr>ap_quota := q'\<rparr>"
  define sc where "sc = \<lparr>sc_run = cd_run c, sc_user = rn_user r, sc_conversation = cd_conversation c, sc_turn = cd_turn c,
      sc_message = cd_message c\<rparr>"
  obtain d2 where clean: "(if recovered_status before r = RunFailed \<or> recovered_status before r = RunCancelled
      then cleanupRunArtifacts sc d1 else Inr d1) = Inr d2" and fr: "run_frame d1 d2"
  proof (cases "recovered_status before r = RunFailed \<or> recovered_status before r = RunCancelled")
    case True
    obtain d2 where "cleanupRunArtifacts sc d1 = Inr d2" using cleanup_succeeds[OF storage, of d1] by (auto simp: d1_def)
    with True cleanup_frame show ?thesis by (intro that) auto
  qed (use that run_frame_refl in auto)
  define g where "g = (\<lambda>r. (recover_row (was_interrupted before r) (recovered_status before r) quota (now d) r)\<lparr>rn_updatedAt := now d2\<rparr>)"
  define db3 where "db3 = update_run (cd_run c) (recover_row (was_interrupted before r) (recovered_status before r) quota (now d)) d2"
  define d' where "d' = (if was_interrupted before r then update_message (cd_message c) (interrupt_message c (now d)) db3 else db3)"
  have now: "now d2 = now d" using frameD(8)[OF fr] q'(2) by (simp add: d1_def)
  have run: "recover_run pf before c d = Inr (True, d')"
    unfolding recover_run_stale[OF r stale] s
    by (simp only: bindR_simps prod.case clean[unfolded sc_def d1_def] d'_def db3_def)
  have runs: "ap_runs d' = update_where (\<lambda>x. rn_id x = cd_run c)
      (\<lambda>x. (recover_row (was_interrupted before r) (recovered_status before r) quota (now d) x)\<lparr>rn_updatedAt := now d2\<rparr>) (ap_runs d)"
    using frameD(1)[OF fr] by (simp add: d'_def db3_def update_run_def d1_def)
  show ?thesis
  proof (rule that[OF run _ _ runs])
    show "now d' = now d" using now by (simp add: d'_def db3_def)
    show "ap_turns d' = ap_turns d" using frameD(2)[OF fr] by (simp add: d'_def db3_def d1_def)
    show "run_ended ((recover_row (was_interrupted before r) (recovered_status before r) quota (now d) r)\<lparr>rn_updatedAt := now d2\<rparr>)"
      using stale_ended[OF stale] by (simp add: run_ended_def recover_row_def recovered_status_def)
    show "rn_id ((recover_row (was_interrupted before r) (recovered_status before r) quota (now d) r)\<lparr>rn_updatedAt := now d2\<rparr>) = rn_id r"
      by (simp add: recover_row_def)
    have "q_ledger (ap_quota d') = q_ledger q'" using frameD(5)[OF fr] by (simp add: d'_def db3_def d1_def)
    then show "lease_stable (ap_quota d) (ap_quota d') k" if "rn_quotaLease r \<noteq> Some k" for k
      using q'(1)[OF that] answer_lease_cong[of "ap_quota d'" q'] by (simp add: lease_stable_def)
  qed
qed

text \<open>What holds between two candidates of a pass that started in \<open>db\<close>.\<close>

definition recovering :: "timestamp \<Rightarrow> app_db \<Rightarrow> app_db \<Rightarrow> bool" where
  "recovering before db d \<longleftrightarrow> run_inv d \<and> storage_inv d \<and> ap_turns d = ap_turns db
     \<and> (\<forall>r\<in>set (ap_runs d). run_ended r \<or> r \<in> set (ap_runs db))
     \<and> (\<forall>r\<in>set (ap_runs d). stale_run before r \<longrightarrow> recoverable before d r)"

definition candidate_ended :: "app_db \<Rightarrow> candidate \<Rightarrow> bool" where
  "candidate_ended d c \<longleftrightarrow> (\<forall>r\<in>set (ap_runs d). rn_id r = cd_run c \<longrightarrow> run_ended r)"

lemma recover_turn:
  assumes J: "recovering before db (rv_db st)" and c: "run_of (rv_db st) (cd_run c) = Some r" "run_ended r \<or> stale_run before r"
    and st'_def: "st' = recovery_turn (recover_run pf before c) st"
  shows "recovering before db (rv_db st')" "candidate_ended (rv_db st') c" "rv_pending st' = rv_pending st"
    "candidate_ended (rv_db st) x \<Longrightarrow> candidate_ended (rv_db st') x"
    "run_of (rv_db st) j = Some y \<Longrightarrow> run_ended y \<or> stale_run before y \<Longrightarrow>
      \<exists>y'. run_of (rv_db st') j = Some y' \<and> (run_ended y' \<or> stale_run before y')"
proof -
  define d where "d = rv_db st"
  have inv: "run_inv d" and storage: "storage_inv d" using J by (simp_all add: recovering_def d_def)
  have rr: "r \<in> set (ap_runs d)" "rn_id r = cd_run c" using run_ofD[OF c(1)] by (simp_all add: d_def)
  have uniq: "x = r" if "x \<in> set (ap_runs d)" "rn_id x = cd_run c" for x
    using distinct_key_unique[OF run_invD(2)[OF inv] that(1) rr(1)] that(2) rr(2) by simp
  have goal: "recovering before db (rv_db st') \<and> candidate_ended (rv_db st') c \<and> rv_pending st' = rv_pending st
    \<and> (candidate_ended d x \<longrightarrow> candidate_ended (rv_db st') x)
    \<and> (run_of d j = Some y \<and> (run_ended y \<or> stale_run before y) \<longrightarrow>
      (\<exists>y'. run_of (rv_db st') j = Some y' \<and> (run_ended y' \<or> stale_run before y')))"
  proof (cases "stale_run before r")
    case False
    then have "run_ended r" using c(2) by blast
    moreover have "st' = st\<lparr>rv_db := d\<rparr>"
      using c(1) False by (simp add: st'_def recovery_turn_def recover_run_def d_def)
    ultimately show ?thesis using J uniq by (auto simp: d_def[symmetric] candidate_ended_def)
  next
    case True
    then have "recoverable before d r" using J rr(1) unfolding recovering_def d_def by blast
    from recover_run_settles[OF inv storage c(1)[folded d_def] True this, of pf]
    obtain d' g where run: "recover_run pf before c d = Inr (True, d')" "ap_turns d' = ap_turns d"
      and runs: "ap_runs d' = update_where (\<lambda>x. rn_id x = cd_run c) g (ap_runs d)" "run_ended (g r)" "rn_id (g r) = rn_id r"
      and stable: "\<And>k. rn_quotaLease r \<noteq> Some k \<Longrightarrow> lease_stable (ap_quota d) (ap_quota d') k" by metis
    have st': "rv_db st' = d'" "rv_pending st' = rv_pending st"
      by (simp_all add: st'_def recovery_turn_def d_def[symmetric] run(1))
    have inv': "run_inv d'" by (rule recover_run_inv[OF inv run(1)])
    have row: "x = g r \<or> (x \<in> set (ap_runs d) \<and> rn_id x \<noteq> cd_run c)" if "x \<in> set (ap_runs d')" for x
      using that uniq by (auto simp: runs(1) set_update_where)
    have keep: "x \<in> set (ap_runs d')" if "x \<in> set (ap_runs d)" "rn_id x \<noteq> cd_run c" for x
      using that by (auto simp: runs(1) set_update_where)
    have new: "g r \<in> set (ap_runs d')" using rr by (auto simp: runs(1) set_update_where)
    have rec': "recoverable before d' x" if x: "x \<in> set (ap_runs d')" "stale_run before x" for x
    proof -
      have old: "x \<in> set (ap_runs d)" "rn_id x \<noteq> cd_run c" using row[OF x(1)] x(2) ended_not_stale[OF runs(2)] by auto
      then have r0: "recoverable before d x" using J x(2) unfolding recovering_def d_def by blast
      have "lease_stable (ap_quota d) (ap_quota d') l" if "rn_quotaLease x = Some l" for l
      proof (rule stable)
        show "rn_quotaLease r \<noteq> Some l"
          using run_invD(6)[OF inv] old rr that unfolding own_leases_def by (metis option.distinct(1))
      qed
      with r0 show ?thesis unfolding recoverable_def lease_stable_def by blast
    qed
    have "recovering before db d'"
      using inv' fail_kept recover_kept[OF run(1)] storage run(2) row runs(2) rec' J
      unfolding recovering_def storage_kept_def d_def[symmetric] by metis
    moreover have ended: "candidate_ended d' c"
      unfolding candidate_ended_def using row runs(2) by blast
    moreover have "candidate_ended d' x" if "candidate_ended d x"
      using that row runs(2) unfolding candidate_ended_def by blast
    moreover have "\<exists>y'. run_of d' j = Some y' \<and> (run_ended y' \<or> stale_run before y')"
      if y: "run_of d j = Some y" "run_ended y \<or> stale_run before y"
    proof (cases "j = cd_run c")
      case True
      then show ?thesis using run_of_row[OF inv' new] runs(2,3) rr(2) by auto
    next
      case False
      then have "y \<in> set (ap_runs d')" "rn_id y = j" using run_ofD[OF y(1)] keep by auto
      then show ?thesis using run_of_row[OF inv'] y(2) by blast
    qed
    ultimately show ?thesis using st' by simp
  qed
  then show "recovering before db (rv_db st')" "candidate_ended (rv_db st') c" "rv_pending st' = rv_pending st"
    "candidate_ended (rv_db st) x \<Longrightarrow> candidate_ended (rv_db st') x"
    "run_of (rv_db st) j = Some y \<Longrightarrow> run_ended y \<or> stale_run before y \<Longrightarrow>
      \<exists>y'. run_of (rv_db st') j = Some y' \<and> (run_ended y' \<or> stale_run before y')"
    by (simp_all add: d_def)
qed

lemma recover_fold:
  assumes "recovering before db (rv_db st)"
    and "\<And>c. c \<in> set cs \<Longrightarrow> \<exists>r. run_of (rv_db st) (cd_run c) = Some r \<and> (run_ended r \<or> stale_run before r)"
    and st'_def: "st' = fold (\<lambda>c. recovery_turn (recover_run pf before c)) cs st"
  shows "recovering before db (rv_db st') \<and> (\<forall>c\<in>set cs. candidate_ended (rv_db st') c) \<and> rv_pending st' = rv_pending st
    \<and> (\<forall>x. candidate_ended (rv_db st) x \<longrightarrow> candidate_ended (rv_db st') x)"
  using assms(1,2) unfolding st'_def
proof (induction cs arbitrary: st)
  case (Cons c cs)
  define st1 where "st1 = recovery_turn (recover_run pf before c) st"
  obtain r where r: "run_of (rv_db st) (cd_run c) = Some r" "run_ended r \<or> stale_run before r"
    using Cons.prems(2)[of c] by auto
  note t = recover_turn[OF Cons.prems(1) r st1_def]
  have "\<exists>r. run_of (rv_db st1) (cd_run x) = Some r \<and> (run_ended r \<or> stale_run before r)" if "x \<in> set cs" for x
    using Cons.prems(2)[of x] that t(5) by auto
  from Cons.IH[OF t(1) this] show ?case using t(2-4) by (auto simp: st1_def[symmetric])
qed simp

lemma orphan_turns:
  assumes pass_def: "pass = (\<lambda>xs st. fold (\<lambda>x. recovery_turn (release_orphan pf x)) xs st)"
    and "run_inv (rv_db st)" "storage_inv (rv_db st)"
  shows "run_inv (rv_db (pass xs st)) \<and> storage_inv (rv_db (pass xs st))
    \<and> ap_runs (rv_db (pass xs st)) = ap_runs (rv_db st) \<and> ap_turns (rv_db (pass xs st)) = ap_turns (rv_db st)"
  using assms(2,3) unfolding pass_def
proof (induction xs arbitrary: st)
  case (Cons x xs)
  define st1 where "st1 = recovery_turn (release_orphan pf x) st"
  have "run_inv (rv_db st1) \<and> storage_inv (rv_db st1) \<and> ap_runs (rv_db st1) = ap_runs (rv_db st)
      \<and> ap_turns (rv_db st1) = ap_turns (rv_db st)"
  proof (cases "release_orphan pf x (rv_db st)")
    case (Inr y)
    then obtain b d where y: "release_orphan pf x (rv_db st) = Inr (b, d)" by (cases y) auto
    then obtain q where d: "d = (rv_db st)\<lparr>ap_quota := q\<rparr>" by (auto simp: release_orphan_def split: sum.splits if_splits)
    then have "storage_kept (rv_db st) d" by (simp add: same_tables_kept)
    with release_orphan_inv[OF Cons.prems(1) y] Cons.prems(2) y d show ?thesis
      by (simp add: st1_def recovery_turn_def storage_kept_def)
  qed (use Cons.prems in \<open>simp add: st1_def recovery_turn_def\<close>)
  with Cons.IH[of st1] show ?case by (simp add: st1_def[symmetric])
qed simp

lemma in_recovery_scope_cong:
  assumes "ap_turns d = ap_turns db"
  shows "in_recovery_scope sc d r = in_recovery_scope sc db r"
proof -
  have t: "turn_of d = turn_of db" by (intro ext) (simp add: turn_of_def assms)
  then have "run_conversation d = run_conversation db" by (intro ext) (simp add: run_conversation_def)
  with t show ?thesis by (simp only: in_recovery_scope_def)
qed

text \<open>
  C11. A recovery pass settles every interrupted run in its scope: when no more than a batch of
  them is due and their leases can be settled, afterwards none is left, whatever else is in the
  database; every run it found has ended with its settlement complete, and both invariants hold.
\<close>

theorem recovery_settles_all:
  assumes inv: "run_inv db" and storage: "storage_inv db" and before: "before = now db - staleRunThresholdMs env"
    and rec: "\<And>r. r \<in> set (ap_runs db) \<Longrightarrow> stale_run before r \<Longrightarrow> recoverable before db r"
    and few: "length (filter (\<lambda>r. stale_run before r \<and> in_recovery_scope sc db r) (ap_runs db)) \<le> max_recovery_batch"
    and st: "st = recoverStaleAgentRuns pf env sc db"
  shows "(\<forall>r\<in>set (ap_runs (rv_db st)). in_recovery_scope sc (rv_db st) r \<longrightarrow> \<not> stale_run before r)
    \<and> (\<forall>c\<in>set (recovery_candidates sc before db). candidate_ended (rv_db st) c)
    \<and> run_inv (rv_db st) \<and> storage_inv (rv_db st)"
proof -
  define cs where "cs = recovery_candidates sc before db"
  define st0 where "st0 = \<lparr>rv_recovered = 0, rv_pending = 0, rv_db = db\<rparr>"
  define st1 where "st1 = fold (\<lambda>c. recovery_turn (recover_run pf before c)) cs st0"
  have cands: "cs = map (candidate_of db) (sort_by recovery_order
      (filter (\<lambda>r. stale_run before r \<and> in_recovery_scope sc db r) (ap_runs db)))"
    using few by (simp add: cs_def recovery_candidates_def length_sort_by)
  have c: "\<exists>r. run_of db (cd_run c) = Some r \<and> (run_ended r \<or> stale_run before r)" if "c \<in> set cs" for c
    using that run_of_row[OF inv] by (fastforce simp: cands set_sort_by candidate_of_def)
  have "recovering before db db" using inv storage rec by (simp add: recovering_def)
  then have J: "recovering before db (rv_db st1) \<and> (\<forall>c\<in>set cs. candidate_ended (rv_db st1) c)"
    using recover_fold[of before db st0 cs st1 pf] c by (simp add: st0_def st1_def)
  have left: "\<not> stale_run before r" if r: "r \<in> set (ap_runs (rv_db st1))" "in_recovery_scope sc db r" for r
  proof
    assume stale: "stale_run before r"
    then have "r \<in> set (ap_runs db)" using J r(1) ended_not_stale unfolding recovering_def by blast
    then have "candidate_of db r \<in> set cs" using stale r(2) by (simp add: cands set_sort_by)
    then have "run_ended r" using J r(1) by (auto simp: candidate_ended_def candidate_of_def)
    with stale ended_not_stale show False by blast
  qed
  have st: "st = fold (\<lambda>x. recovery_turn (release_orphan pf x)) (orphaned_reservations sc before (rv_db st1)) st1"
    by (simp add: st recoverStaleAgentRuns_def before Let_def st1_def cs_def st0_def)
  have fin: "run_inv (rv_db st) \<and> storage_inv (rv_db st) \<and> ap_runs (rv_db st) = ap_runs (rv_db st1)
      \<and> ap_turns (rv_db st) = ap_turns (rv_db st1)"
    unfolding st by (rule orphan_turns[OF refl]) (use J in \<open>simp_all add: recovering_def\<close>)
  have "ap_turns (rv_db st) = ap_turns db" using fin J by (simp add: recovering_def)
  from in_recovery_scope_cong[OF this] left fin J show ?thesis
    by (simp add: candidate_ended_def cs_def)
qed

text \<open>The example run, nine hours later.\<close>

definition demo_late :: app_db where
  "demo_late = demo_running\<lparr>ap_quota := (ap_quota demo_running)\<lparr>q_now := 32400000\<rparr>\<rparr>"

lemma demo_late_facts: "run_inv demo_late" "storage_inv demo_late" "ap_runs demo_late = [demo_row]" "now demo_late = 32400000"
  "answer_lease (ap_quota demo_late) 1 ''ann'' Reserved"
  using time_inv[OF demo_running_inv] demo_no_store demo_open_lease answer_lease_cong[of "ap_quota demo_late" "ap_quota demo_running"]
  by (simp_all add: demo_late_def demo_runs_eq no_storage_inv no_storage_def)

lemma demo_late_turns: "turn_of demo_late 12 = turn_of demo_running 12"
  by (simp add: demo_late_def turn_of_def)

lemma recovery_settles_all_witness:
  "\<exists>st. st = recoverStaleAgentRuns demo_platform (\<lambda>_. None) \<lparr>rs_user = None, rs_conversation = None\<rparr> demo_late
     \<and> stale_run (32400000 - 210000) demo_row \<and> (\<forall>r\<in>set (ap_runs (rv_db st)). rn_id r = 13 \<longrightarrow> run_ended r)"
proof -
  have thr: "staleRunThresholdMs (\<lambda>_. None) = 210000"
    by (simp add: staleRunThresholdMs_def positiveEnvironmentInteger_def parse_env_def default_stale_run_ms_def) code_simp?
  have stale: "stale_run (32400000 - 210000) demo_row"
    by (simp add: stale_run_def was_interrupted_def run_active_def)
  have "candidate_of demo_late demo_row \<in> set (recovery_candidates \<lparr>rs_user = None, rs_conversation = None\<rparr> (32400000 - 210000) demo_late)"
    using stale demo_turn by (simp add: recovery_candidates_def demo_late_facts(3) set_sort_by in_recovery_scope_def
      max_recovery_batch_def demo_late_turns sort_by_def)
  note cand = this
  have rec: "recoverable (32400000 - 210000) demo_late r" if "r \<in> set (ap_runs demo_late)" for r
    using demo_late_facts(3,5) that by (auto simp: recoverable_def)
  have before: "32400000 - 210000 = now demo_late - staleRunThresholdMs (\<lambda>_. None)"
    by (simp only: demo_late_facts(4) thr)
  define sc where "sc = \<lparr>rs_user = None, rs_conversation = None :: nat option\<rparr>"
  have few: "length (filter (\<lambda>r. stale_run (32400000 - 210000) r \<and> in_recovery_scope sc demo_late r) (ap_runs demo_late))
      \<le> max_recovery_batch"
    by (rule order_trans[OF length_filter_le]) (simp add: demo_late_facts(3) max_recovery_batch_def)
  from recovery_settles_all[OF demo_late_facts(1,2) before rec few refl, of demo_platform]
  have "candidate_ended (rv_db (recoverStaleAgentRuns demo_platform (\<lambda>_. None) sc demo_late)) (candidate_of demo_late demo_row)"
    using cand unfolding sc_def by blast
  then show ?thesis using stale unfolding candidate_ended_def sc_def by (simp add: candidate_of_def)
qed

subsection \<open>The stale threshold\<close>

text \<open>
  No run is taken for interrupted while it may still be running: whatever the environment
  says, the stale threshold is at least 210 seconds and at least 30 seconds longer than both
  configured timeouts.
\<close>

theorem stale_threshold_outlasts_runs:
  "210000 \<le> staleRunThresholdMs env
   \<and> positiveEnvironmentInteger env ''AGENT_DEEP_TIMEOUT_MS'' 180000 + 30000 \<le> staleRunThresholdMs env
   \<and> positiveEnvironmentInteger env ''AGENT_AUTO_TIMEOUT_MS'' 60000 + 30000 \<le> staleRunThresholdMs env"
  by (auto simp: staleRunThresholdMs_def Let_def default_stale_run_ms_def split: option.split)

subsection \<open>Repeating a request\<close>

lemma v3_is_not_v2: "safeParseAnswerV2 (answer_json a) = None"
  by (simp add: safeParseAnswerV2_def z_if_def answer_json_def json_get_def js_inject)

lemma stored_answer_parses: "answer_ok tr a \<Longrightarrow>
   parseStoredAnswer tr (Some (answer_json a)) = Some (AnswerV3 (sanitizeStoredAnswerV3 tr a))"
  by (simp add: parseStoredAnswer_def v3_is_not_v2 answer_written)

lemma find_replaced:
  assumes "find P xs = Some x" "distinct (map key xs)" "\<And>y. P (f y) = P y" "\<And>y. key (f y) = key y"
  shows "find P (update_where (\<lambda>y. key y = key x) f xs) = Some (f x)"
  using assms(1,2)
proof (induction xs)
  case (Cons y ys)
  show ?case
  proof (cases "P y")
    case False
    have "key y \<noteq> key x" using Cons.prems False find_SomeD[of P ys x] by force
    with Cons False show ?thesis by (simp add: table_simps)
  qed (use Cons assms(3) in \<open>simp add: table_simps\<close>)
qed simp

text \<open>
  C32. A request that is sent again after its answer was stored is answered from the store: the
  same run, message and version with the stored answer, its labels made safe, and nothing is
  changed or charged. Before the answer was stored it was reported as busy.
\<close>

theorem repeated_request_replays:
  assumes inv: "run_inv db" and busy: "findRunByClientRequest pf user request db = Some (RunBusy (cr_run (cp_run cinp)))"
    and run: "complete pf cinp db = Inr (content, db')" and ok: "answer_ok (rp_text pf) (cp_answer cinp)"
    and inp: "in_user inp = user" "in_clientRequest inp = request" "assertAccountWritable user db' = Inr ()"
  shows "\<exists>rr. createInitial pf inp db' = Inr (RunReplayed rr, db') \<and> rr_run rr = cr_run (cp_run cinp)
    \<and> rr_status rr = (if cp_incomplete cinp then RunIncomplete else RunCompleted)
    \<and> rr_answer rr = AnswerV3 (sanitizeStoredAnswerV3 (rp_text pf) (cp_answer cinp))
    \<and> am_missingInputs (rr_meta rr) = an_missingInputs (cp_answer cinp)"
proof -
  define i where "i = cr_run (cp_run cinp)"
  define P where "P d r \<longleftrightarrow> rn_user r = user \<and> rn_clientRequest r = request \<and> turn_of d (rn_turn r) \<noteq> None
      \<and> message_of d (rn_assistantMessage r) \<noteq> None" for d and r :: run_row
  from run obtain r0 lease quota db1 where
      settle: "settleAnswerQuota (rp_collations pf) (Some lease) (cp_user cinp) (complete_status cinp)
        ''agent_run_incomplete'' (complete_rows cinp db) = Inr (quota, db1)"
    and db': "db' = update_run i (complete_run cinp quota db) db1" unfolding i_def by (rule complete_cases)
  from settle obtain q' where db1: "db1 = (complete_rows cinp db)\<lparr>ap_quota := q'\<rparr>" by (blast dest: settle_shape)
  have find_eq: "findRunByClientRequest pf user request d = (case find (P d) (ap_runs d) of
        None \<Rightarrow> None
      | Some r \<Rightarrow>
          if run_active (rn_status r) then Some (RunBusy (rn_id r))
          else if rn_status r = RunCompleted \<or> rn_status r = RunIncomplete then
            (case (parseStoredAnswer (rp_text pf) (rn_answerPayload r), turn_of d (rn_turn r),
                   message_of d (rn_assistantMessage r)) of
               (Some a, Some tn, Some m) \<Rightarrow> Some (RunReplayed
                 \<lparr>rr_run = rn_id r, rr_turn = rn_turn r, rr_conversation = tn_conversation tn,
                  rr_userMessage = tn_userMessage tn, rr_message = rn_assistantMessage r,
                  rr_version = rn_version r, rr_status = rn_status r, rr_answer = a,
                  rr_meta = stored_meta pf r m a d\<rparr>)
             | _ \<Rightarrow> Some RequestUsed)
          else Some RequestUsed)" for d
    by (simp add: findRunByClientRequest_def P_def[abs_def])
  from busy obtain r where r: "find (P db) (ap_runs db) = Some r" "rn_id r = i"
    unfolding find_eq i_def by (auto split: option.splits if_splits prod.splits)
  have "turn_of db' = turn_of (complete_rows cinp db)" "message_of db' = message_of (complete_rows cinp db)"
    by (intro ext, simp add: db' db1 turn_of_def message_of_def)+
  then have Peq: "P db' = P db" using keys_keptD(2,3)[OF complete_rows_frame(2)] by (intro ext) (simp add: P_def)
  define r' where "r' = (complete_run cinp quota db r)\<lparr>rn_updatedAt := q_now q'\<rparr>"
  have "find (P db) (ap_runs db') = Some r'"
    unfolding db' db1 update_run_def r'_def
    using find_replaced[where key = rn_id and f = "\<lambda>x. (complete_run cinp quota db x)\<lparr>rn_updatedAt := q_now q'\<rparr>", OF r(1) run_invD(2)[OF inv]] r(2)
    by (simp add: complete_rows_frame P_def complete_run_def)
  then have f: "find (P db') (ap_runs db') = Some r'" by (simp only: Peq)
  then obtain tn m where tm: "turn_of db' (rn_turn r') = Some tn" "message_of db' (rn_assistantMessage r') = Some m"
    using find_SomeD[OF f] by (auto simp: P_def)
  have st: "rn_status r' = complete_status cinp" "rn_answerPayload r' = Some (answer_json (cp_answer cinp))" "rn_id r' = i"
    using r(2) by (simp_all add: r'_def complete_run_def)
  have ended: "\<not> run_active (complete_status cinp)" "complete_status cinp = RunCompleted \<or> complete_status cinp = RunIncomplete"
    by (simp_all add: complete_status_def run_active_def)
  have "findRunByClientRequest pf user request db' = Some (RunReplayed
      \<lparr>rr_run = i, rr_turn = rn_turn r', rr_conversation = tn_conversation tn, rr_userMessage = tn_userMessage tn,
       rr_message = rn_assistantMessage r', rr_version = rn_version r', rr_status = complete_status cinp,
       rr_answer = AnswerV3 (sanitizeStoredAnswerV3 (rp_text pf) (cp_answer cinp)),
       rr_meta = stored_meta pf r' m (AnswerV3 (sanitizeStoredAnswerV3 (rp_text pf) (cp_answer cinp))) db'\<rparr>)"
    unfolding find_eq f using st ended tm stored_answer_parses[OF ok] by simp
  then have "createInitial pf inp db' = Inr (RunReplayed
      \<lparr>rr_run = i, rr_turn = rn_turn r', rr_conversation = tn_conversation tn, rr_userMessage = tn_userMessage tn,
       rr_message = rn_assistantMessage r', rr_version = rn_version r', rr_status = complete_status cinp,
       rr_answer = AnswerV3 (sanitizeStoredAnswerV3 (rp_text pf) (cp_answer cinp)),
       rr_meta = stored_meta pf r' m (AnswerV3 (sanitizeStoredAnswerV3 (rp_text pf) (cp_answer cinp))) db'\<rparr>, db')"
    using inp by (simp add: createInitial_def)
  then show ?thesis by (simp add: i_def complete_status_def stored_meta_def Let_def sanitizeStoredAnswerV3_def)
qed

lemma repeated_request_replays_witness:
  "\<exists>db' rr. complete demo_platform demo_complete demo_running = Inr (complete_content demo_complete, db')
     \<and> createInitial demo_platform demo_initial db' = Inr (RunReplayed rr, db') \<and> rr_run rr = 13"
proof -
  have ok: "counters_ok (cp_counters demo_complete)" by (simp add: counters_ok_def zero_counters_def demo_complete_def)
  obtain q' where run: "complete demo_platform demo_complete demo_running = Inr (complete_content demo_complete,
      update_run 13 (complete_run demo_complete (Some Committed) demo_running)
        ((complete_rows demo_complete demo_running)\<lparr>ap_quota := q'\<rparr>))"
    and users: "q_users q' = q_users (ap_quota demo_running)"
    using complete_succeeds[OF demo_running_inv, of demo_row demo_complete 1 demo_platform thesis] ok demo_open_lease demo_writable
    by (auto simp: demo_complete_def demo_run_def demo_runs_eq run_active_def expected_quota_def complete_status_def)
  have busy: "findRunByClientRequest demo_platform ''ann'' ''r1'' demo_running = Some (RunBusy (cr_run (cp_run demo_complete)))"
    using demo_turn demo_message
    by (simp add: findRunByClientRequest_def demo_runs_eq run_active_def demo_complete_def demo_run_def)
  have "assertAccountWritable ''ann'' (update_run 13 (complete_run demo_complete (Some Committed) demo_running)
        ((complete_rows demo_complete demo_running)\<lparr>ap_quota := q'\<rparr>)) = Inr ()"
    using demo_writable users by (simp add: assertAccountWritable_def)
  moreover have "answer_ok (rp_text demo_platform) (cp_answer demo_complete)"
    by (simp add: demo_platform_def demo_complete_def demo_ok)
  ultimately show ?thesis
    using repeated_request_replays[OF demo_running_inv busy run, of demo_initial] run
    by (auto simp: demo_initial_def demo_complete_def demo_run_def)
qed

end
