(* ===== verification/Knowledge_Types.thy ===== *)
theory Knowledge_Types
  imports App_State Public_Url
begin

section \<open>The knowledge base: its tables and JSON columns\<close>

text \<open>
  The rows of \<open>src/server/db/schema/knowledge.ts\<close>, of \<open>background_task\<close> and \<open>audit_log\<close>
  (\<open>operations.ts\<close>), and the review status of stored citations, with the platform functions the
  knowledge code calls as the parameter \<open>kn_rules\<close>: SHA-256 in hexadecimal, \<open>localeCompare\<close>,
  \<open>new Date(text)\<close>, \<open>toISOString\<close>, the URL parser,
  lower case, and the text \<open>name: message\<close> of an error (the messages themselves are left out). Ids are drawn from one supply and are
  written in JSON as their decimal text. A JSON object is its list of bindings, the last one of a
  key winning, so that spreading an object (\<open>{...a, k: v}\<close>) and \<open>jsonb || jsonb\<close> append bindings.
\<close>

subsection \<open>JSON objects\<close>

type_synonym jobject = "(string \<times> json) list"

definition jget :: "string \<Rightarrow> jobject \<Rightarrow> json option" where
  "jget k o1 = map_of (rev o1) k"

lemma jget_Nil [simp]: "jget k [] = None"
  by (simp add: jget_def)

lemma jget_append: "jget k (a @ b) = (case jget k b of None \<Rightarrow> jget k a | Some v \<Rightarrow> Some v)"
  by (simp add: jget_def map_add_def split: option.splits)

lemma jget_Cons: "jget k ((n, v) # b) = (case jget k b of None \<Rightarrow> if k = n then Some v else None | Some u \<Rightarrow> Some u)"
  by (simp add: jget_def map_add_def split: option.splits)

lemmas jget_simps [simp] = jget_append jget_Cons

text \<open>\<open>metadata - 'k'\<close>.\<close>

definition jdelete :: "string \<Rightarrow> jobject \<Rightarrow> jobject" where
  "jdelete k o1 = filter (\<lambda>(n, v). n \<noteq> k) o1"

lemma jget_jdelete [simp]: "jget k (jdelete n o1) = (if k = n then None else jget k o1)"
proof (induction o1)
  case (Cons b o1)
  then show ?case by (cases b) (auto simp: jdelete_def split: option.splits)
qed (simp add: jdelete_def)

text \<open>
  \<open>recordValue\<close> of the knowledge modules: an object or an array (whose indices are its keys), and
  \<open>{}\<close> for anything else.
\<close>

definition recordValue :: "json option \<Rightarrow> jobject" where
  "recordValue v = (case v of
     Some (JObject kvs) \<Rightarrow> kvs
   | Some (JArray xs) \<Rightarrow> zip (map decimal [0..<length xs]) xs
   | _ \<Rightarrow> [])"

text \<open>\<open>object ->> 'k' = 'literal'\<close> for a literal that is not the text of a number, object or array.\<close>

definition jtext_is :: "string \<Rightarrow> string \<Rightarrow> jobject \<Rightarrow> bool" where
  "jtext_is k lit o1 \<longleftrightarrow> jget k o1 = Some (JString (js lit)) \<or> (lit = ''true'' \<and> jget k o1 = Some (JBool True))"

definition jstring :: "json option \<Rightarrow> js_string option" where
  "jstring v = (case v of Some (JString s) \<Rightarrow> Some s | _ \<Rightarrow> None)"

text \<open>\<open>v !== undefined && v !== null\<close>.\<close>

definition jpresent :: "json option \<Rightarrow> bool" where
  "jpresent v \<longleftrightarrow> v \<noteq> None \<and> v \<noteq> Some JNull"

definition id_text :: "nat \<Rightarrow> js_string" where
  "id_text n = js (decimal n)"

lemma decimal_inject: "decimal m = decimal n \<longleftrightarrow> m = n"
  by (metis decimal_value_decimal)

lemma js_eq_iff: "js s = js t \<longleftrightarrow> s = t"
  by (simp add: js_def inj_map_eq_map inj_on_def)

lemma id_text_inject [simp]: "id_text m = id_text n \<longleftrightarrow> m = n"
  by (simp add: id_text_def js_eq_iff decimal_inject)

definition jopt :: "('a \<Rightarrow> json) \<Rightarrow> 'a option \<Rightarrow> json" where
  "jopt f v = (case v of None \<Rightarrow> JNull | Some x \<Rightarrow> f x)"

subsection \<open>Enumerations\<close>

datatype kn_status = KnDraft | KnProcessing | KnReview | KnPublished | KnFailed | KnArchived
datatype source_tier = TierOpenLicense | TierMetadataOnly | TierManufacturer | TierStandard | TierInternal
datatype section_decision = SecApproved | SecRejected | SecChanges
datatype review_phase = PhaseInitial | PhaseVerify
datatype review_run_status = RevQueued | RevLeased | RevCompleted | RevNeedsHuman | RevFailed
datatype review_risk = RevLow | RevMedium | RevHigh
datatype review_decision = DecApproved | DecRejected | DecNeedsHuman
datatype op_status = OpQueued | OpRunning | OpSucceeded | OpFailed | OpCancelled

definition tier_text :: "source_tier \<Rightarrow> string" where
  "tier_text t = (case t of TierOpenLicense \<Rightarrow> ''open_license'' | TierMetadataOnly \<Rightarrow> ''metadata_only''
     | TierManufacturer \<Rightarrow> ''manufacturer_metadata'' | TierStandard \<Rightarrow> ''standard_metadata''
     | TierInternal \<Rightarrow> ''internal'')"

definition risk_text :: "review_risk \<Rightarrow> string" where
  "risk_text r = (case r of RevLow \<Rightarrow> ''low'' | RevMedium \<Rightarrow> ''medium'' | RevHigh \<Rightarrow> ''high'')"

subsection \<open>Structured reports of automated reviews\<close>

record review_finding =
  fd_code :: js_string
  fd_message :: js_string

record review_evidence =
  ev_claim :: js_string
  ev_exactEvidence :: js_string
  ev_sourceLocator :: js_string

record numeric_claim =
  nc_claim :: js_string
  nc_exactEvidence :: "js_string option"
  nc_sourceLocator :: "js_string option"

record automation_report =
  ar_summary :: js_string
  ar_risk :: review_risk
  ar_decision :: review_decision
  ar_findings :: "review_finding list"
  ar_blockers :: "review_finding list"
  ar_evidence :: "review_evidence list"
  ar_numericClaims :: "numeric_claim list"

datatype queued_phase = QueuedVerify | QueuedEmbedding

record stored_report =
  sr_summary :: js_string
  sr_outputContentHash :: js_string
  sr_findings :: "review_finding list"
  sr_blockers :: "review_finding list"
  sr_evidence :: "review_evidence list"
  sr_numericClaims :: "numeric_claim list"
  sr_idempotencyTokenHash :: js_string
  sr_submittedReport :: automation_report
  sr_submittedRevisionHash :: "js_string option"
  sr_outputVersionId :: nat
  sr_outputHash :: js_string
  sr_sourceRightsValid :: bool
  sr_queuedPhase :: "queued_phase option"

subsection \<open>Rows\<close>

record source_row =
  ks_id :: nat
  ks_kind :: string
  ks_name :: js_string
  ks_baseUrl :: "js_string option"
  ks_canonicalUrl :: "js_string option"
  ks_publisher :: "js_string option"
  ks_tier :: source_tier
  ks_licensePolicy :: "js_string option"
  ks_notes :: "js_string option"
  ks_enabled :: bool
  ks_metadata :: jobject
  ks_createdBy :: "js_string option"
  ks_createdAt :: timestamp
  ks_updatedAt :: timestamp
  ks_deletedAt :: "timestamp option"

record document_row =
  kd_id :: nat
  kd_source :: "nat option"
  kd_externalKey :: "js_string option"
  kd_title :: js_string
  kd_description :: "js_string option"
  kd_language :: js_string
  kd_mimeType :: "js_string option"
  kd_status :: kn_status
  kd_current :: "nat option"
  kd_tags :: "js_string list"
  kd_metadata :: jobject
  kd_createdBy :: "js_string option"
  kd_createdAt :: timestamp
  kd_updatedAt :: timestamp

record version_row =
  kv_id :: nat
  kv_document :: nat
  kv_version :: int
  kv_hash :: "js_string option"
  kv_content :: js_string
  kv_citation :: jobject
  kv_status :: kn_status
  kv_objectKey :: "js_string option"
  kv_parserVersion :: "js_string option"
  kv_sourceUpdatedAt :: "timestamp option"
  kv_metadata :: jobject
  kv_createdBy :: "js_string option"
  kv_publishedAt :: "timestamp option"
  kv_createdAt :: timestamp
  kv_updatedAt :: timestamp

record original_row =
  ko_version :: nat
  ko_objectKey :: js_string
  ko_filename :: js_string
  ko_mimeType :: js_string
  ko_sizeBytes :: int
  ko_sha256 :: js_string
  ko_uploadedBy :: js_string

text \<open>\<open>rr_report\<close> is \<open>None\<close> while the column holds \<open>'{}'\<close>.\<close>

record review_run =
  rr_id :: nat
  rr_phase :: review_phase
  rr_status :: review_run_status
  rr_inputVersion :: nat
  rr_inputHash :: js_string
  rr_model :: js_string
  rr_prompt :: js_string
  rr_risk :: "review_risk option"
  rr_report :: "stored_report option"
  rr_decision :: "review_decision option"
  rr_tokenHash :: "js_string option"
  rr_leaseExpiresAt :: "timestamp option"
  rr_attempts :: int
  rr_revised :: "nat option"
  rr_completedAt :: "timestamp option"
  rr_createdAt :: timestamp
  rr_updatedAt :: timestamp

record section_input =
  rs_index :: nat
  rs_contentZh :: js_string
  rs_officialText :: js_string
  rs_pageStart :: "int option"
  rs_pageEnd :: "int option"
  rs_rights :: jobject

record review_section = section_input +
  rs_version :: nat
  rs_versionHash :: js_string
  rs_hash :: js_string
  rs_rightsHash :: js_string

record section_row = review_section +
  rs_id :: nat

record decision_row =
  sd_section :: nat
  sd_hash :: js_string
  sd_decision :: section_decision
  sd_note :: "js_string option"
  sd_reviewer :: "js_string option"
  sd_revision :: int
  sd_decidedAt :: timestamp

datatype js_number = Finite js_string | NotFinite

record chunk_row =
  kc_id :: nat
  kc_version :: nat
  kc_index :: nat
  kc_content :: js_string
  kc_pageStart :: "int option"
  kc_pageEnd :: "int option"
  kc_sectionPath :: "js_string list"
  kc_metadata :: jobject
  kc_embedding :: "js_number list option"
  kc_embeddingModel :: "js_string option"
  kc_embeddedAt :: "timestamp option"

record task_row =
  bt_id :: nat
  bt_type :: string
  bt_status :: op_status
  bt_priority :: int
  bt_key :: "js_string option"
  bt_payload :: jobject
  bt_result :: "jobject option"
  bt_attempts :: int
  bt_maxAttempts :: int
  bt_runAt :: timestamp
  bt_lockedAt :: "timestamp option"
  bt_lockedBy :: "string option"
  bt_lease :: "nat option"
  bt_lastError :: "js_string option"
  bt_createdBy :: "js_string option"
  bt_createdAt :: timestamp
  bt_updatedAt :: timestamp
  bt_completedAt :: "timestamp option"

record audit_row =
  au_actor :: "js_string option"
  au_role :: js_string
  au_action :: string
  au_targetType :: string
  au_target :: js_string
  au_metadata :: jobject
  au_at :: timestamp

record cited_row =
  ci_original :: "js_string option"
  ci_review :: "string option"

record kn_db =
  kn_sources :: "source_row list"
  kn_documents :: "document_row list"
  kn_versions :: "version_row list"
  kn_originals :: "original_row list"
  kn_runs :: "review_run list"
  kn_sections :: "section_row list"
  kn_decisions :: "decision_row list"
  kn_chunks :: "chunk_row list"
  kn_tasks :: "task_row list"
  kn_audit :: "audit_row list"
  kn_citations :: "cited_row list"
  kn_now :: timestamp
  kn_next :: nat

subsection \<open>Platform functions and errors\<close>

text \<open>
  An error of the API carries its status and code, one of a provider whether it is retryable;
  \<open>DbViolation\<close> is a constraint that refused a statement.
\<close>

datatype kn_error =
    ApiError int string | PolicyError string | StaleLease nat | PlainError string
  | ProviderError bool string | DbViolation string

record kn_rules =
  kr_sha :: "js_string \<Rightarrow> js_string"
  kr_compare :: "js_string \<Rightarrow> js_string \<Rightarrow> bool"
  kr_date :: "js_string \<Rightarrow> timestamp option"
  kr_iso :: "timestamp \<Rightarrow> js_string"
  kr_url :: "js_string \<Rightarrow> parsed_url option"
  kr_lower :: "js_string \<Rightarrow> js_string"
  kr_error_text :: "kn_error \<Rightarrow> js_string"

definition kn_audited :: "audit_row \<Rightarrow> kn_db \<Rightarrow> kn_db" where
  "kn_audited a db = db\<lparr>kn_audit := kn_audit db @ [a]\<rparr>"

text \<open>\<open>/^[0-9a-f]{64}$/\<close>.\<close>

definition hex_char :: "nat \<Rightarrow> bool" where
  "hex_char c \<longleftrightarrow> (48 \<le> c \<and> c \<le> 57) \<or> (97 \<le> c \<and> c \<le> 102)"

definition sha256_hex :: "js_string \<Rightarrow> bool" where
  "sha256_hex s \<longleftrightarrow> length s = 64 \<and> list_all hex_char s"

text \<open>An \<open>UPDATE .. RETURNING\<close> whose caller throws when no row comes back.\<close>

definition update_version ::
  "(version_row \<Rightarrow> bool) \<Rightarrow> (version_row \<Rightarrow> version_row) \<Rightarrow> kn_error \<Rightarrow> kn_db \<Rightarrow> (kn_error, kn_db) result" where
  "update_version P f e db = (if list_ex P (kn_versions db)
     then Inr (db\<lparr>kn_versions := update_where P (\<lambda>v. (f v)\<lparr>kv_updatedAt := kn_now db\<rparr>) (kn_versions db)\<rparr>)
     else Inl e)"

definition update_document ::
  "(document_row \<Rightarrow> bool) \<Rightarrow> (document_row \<Rightarrow> document_row) \<Rightarrow> kn_error \<Rightarrow> kn_db \<Rightarrow> (kn_error, kn_db) result" where
  "update_document P f e db = (if list_ex P (kn_documents db)
     then Inr (db\<lparr>kn_documents := update_where P (\<lambda>d. (f d)\<lparr>kd_updatedAt := kn_now db\<rparr>) (kn_documents db)\<rparr>)
     else Inl e)"

text \<open>The same statements when the caller does not look at the number of rows.\<close>

definition set_version :: "(version_row \<Rightarrow> bool) \<Rightarrow> (version_row \<Rightarrow> version_row) \<Rightarrow> kn_db \<Rightarrow> kn_db" where
  "set_version P f db =
     db\<lparr>kn_versions := update_where P (\<lambda>v. (f v)\<lparr>kv_updatedAt := kn_now db\<rparr>) (kn_versions db)\<rparr>"

definition set_document :: "(document_row \<Rightarrow> bool) \<Rightarrow> (document_row \<Rightarrow> document_row) \<Rightarrow> kn_db \<Rightarrow> kn_db" where
  "set_document P f db =
     db\<lparr>kn_documents := update_where P (\<lambda>d. (f d)\<lparr>kd_updatedAt := kn_now db\<rparr>) (kn_documents db)\<rparr>"

definition automation_policy :: string where
  "automation_policy = ''codex_automation_v1''"

definition review_model :: string where
  "review_model = ''gpt-5.5-codex''"

end
