(* ===== verification/Source_Policy.thy ===== *)
theory Source_Policy
  imports Knowledge_Types
begin

section \<open>Source policy\<close>

text \<open>
  \<open>src/server/knowledge/source-policy.ts\<close>: which governed sources may carry which content. A
  source is its row; the error messages are left out, the codes are kept.
\<close>

definition policy_fail :: "string \<Rightarrow> (kn_error, 'a) result" where
  "policy_fail code = Inl (PolicyError code)"

definition isMetadataOnlyTier :: "source_tier \<Rightarrow> bool" where
  "isMetadataOnlyTier t \<longleftrightarrow> t = TierMetadataOnly \<or> t = TierManufacturer \<or> t = TierStandard"

text \<open>The result is the trimmed text of the URL.\<close>

definition validHttpsUrl :: "kn_rules \<Rightarrow> js_string option \<Rightarrow> js_string option" where
  "validHttpsUrl kr value = (case value of
     None \<Rightarrow> None
   | Some v \<Rightarrow> if js_trim v = [] then None else (case kr_url kr (js_trim v) of
       None \<Rightarrow> None
     | Some u \<Rightarrow> if pu_protocol u \<noteq> js ''https:'' \<or> pu_username u \<noteq> [] \<or> pu_password u \<noteq> [] then None
         else Some (js_trim v)))"

definition assertApprovedFullTextDecision :: "jobject \<Rightarrow> js_string \<Rightarrow> (kn_error, unit) result" where
  "assertApprovedFullTextDecision decision canonicalUrl =
     (if jget ''status'' decision \<noteq> Some (JString (js ''approved''))
         \<or> jget ''scope'' decision \<noteq> Some (JString (js ''full_text''))
         \<or> jget ''appliesToRecordUrl'' decision \<noteq> Some (JString canonicalUrl)
      then policy_fail ''SOURCE_RIGHTS_DECISION_INVALID'' else Inr ())"

definition ingestion_mode :: "jobject \<Rightarrow> json option" where
  "ingestion_mode citation = jget ''ingestionMode'' citation"

abbreviation full_text :: "json option" where
  "full_text \<equiv> Some (JString (js ''full_text''))"

abbreviation metadata_only :: "json option" where
  "metadata_only \<equiv> Some (JString (js ''metadata_only''))"

definition assertFullTextTier :: "source_row \<Rightarrow> js_string \<Rightarrow> (kn_error, unit) result" where
  "assertFullTextTier src canonicalUrl =
     (let value = jget ''rightsDecision'' (ks_metadata src); decision = recordValue value
      in if ks_tier src = TierOpenLicense then
           (if \<not> jpresent value then policy_fail ''SOURCE_RIGHTS_DECISION_REQUIRED''
            else assertApprovedFullTextDecision decision canonicalUrl)
         else if ks_tier src = TierInternal then
           bindR (if jpresent value then assertApprovedFullTextDecision decision canonicalUrl else Inr ()) (\<lambda>_.
             if jget ''commercialAiRightsConfirmed'' (ks_metadata src) \<noteq> Some (JBool True)
                \<and> \<not> (jget ''commercialAiUse'' decision = Some (JString (js ''approved''))
                     \<or> jget ''commercialAiRights'' decision = Some (JString (js ''approved'')))
             then policy_fail ''SOURCE_COMMERCIAL_AI_RIGHTS_REQUIRED'' else Inr ())
         else policy_fail ''SOURCE_LICENSE_RESTRICTED'')"

definition assertKnowledgeSourceAuthorized ::
  "kn_rules \<Rightarrow> source_row option \<Rightarrow> jobject \<Rightarrow> (kn_error, unit) result" where
  "assertKnowledgeSourceAuthorized kr source citation = (case source of
     None \<Rightarrow> policy_fail ''KNOWLEDGE_SOURCE_REQUIRED''
   | Some src \<Rightarrow>
       if \<not> ks_enabled src then policy_fail ''KNOWLEDGE_SOURCE_DISABLED''
       else if ks_deletedAt src \<noteq> None then policy_fail ''KNOWLEDGE_SOURCE_DELETED''
       else (case validHttpsUrl kr (ks_canonicalUrl src) of
         None \<Rightarrow> policy_fail ''KNOWLEDGE_SOURCE_URL_INVALID''
       | Some canonicalUrl \<Rightarrow>
           if (case ks_publisher src of None \<Rightarrow> True | Some p \<Rightarrow> js_trim p = [])
           then policy_fail ''KNOWLEDGE_SOURCE_PUBLISHER_REQUIRED''
           else if ingestion_mode citation \<noteq> full_text \<and> ingestion_mode citation \<noteq> metadata_only
           then policy_fail ''KNOWLEDGE_INGESTION_MODE_INVALID''
           else if isMetadataOnlyTier (ks_tier src) then
             (if ingestion_mode citation \<noteq> metadata_only then policy_fail ''SOURCE_LICENSE_RESTRICTED'' else Inr ())
           else if ingestion_mode citation = metadata_only then Inr ()
           else assertFullTextTier src canonicalUrl))"

definition assertKnowledgePublicationEvidence ::
  "source_row option \<Rightarrow> jobject \<Rightarrow> (kn_error, unit) result" where
  "assertKnowledgePublicationEvidence source citation =
     (if ingestion_mode citation \<noteq> full_text then Inr ()
      else let status = jget ''officialPublishedPdfBinaryStatus'' (recordValue (jget ''excerptVerification'' citation));
               complete = (status = Some (JString (js ''complete'')));
               required = (case source of None \<Rightarrow> False
                  | Some src \<Rightarrow> jget ''officialPublishedPdfBinaryRequired'' (ks_metadata src) = Some (JBool True))
           in if (required \<and> \<not> complete) \<or> (jpresent status \<and> \<not> complete)
              then policy_fail ''KNOWLEDGE_OFFICIAL_BINARY_RECHECK_REQUIRED'' else Inr ())"

text \<open>Both assertions together, as the callers make them; an error of either refuses.\<close>

definition source_publishable :: "kn_rules \<Rightarrow> source_row option \<Rightarrow> jobject \<Rightarrow> bool" where
  "source_publishable kr source citation \<longleftrightarrow>
     assertKnowledgeSourceAuthorized kr source citation = Inr ()
     \<and> assertKnowledgePublicationEvidence source citation = Inr ()"

subsection \<open>What an authorisation promises\<close>

text \<open>The rights a full text needs, by the tier of its source.\<close>

definition approved_for :: "jobject \<Rightarrow> js_string \<Rightarrow> bool" where
  "approved_for decision url \<longleftrightarrow> jget ''status'' decision = Some (JString (js ''approved''))
     \<and> jget ''scope'' decision = Some (JString (js ''full_text''))
     \<and> jget ''appliesToRecordUrl'' decision = Some (JString url)"

definition commercial_rights :: "jobject \<Rightarrow> bool" where
  "commercial_rights m \<longleftrightarrow> jget ''commercialAiRightsConfirmed'' m = Some (JBool True)
     \<or> jget ''commercialAiUse'' (recordValue (jget ''rightsDecision'' m)) = Some (JString (js ''approved''))
     \<or> jget ''commercialAiRights'' (recordValue (jget ''rightsDecision'' m)) = Some (JString (js ''approved''))"

definition full_text_rights :: "source_row \<Rightarrow> js_string \<Rightarrow> bool" where
  "full_text_rights src url \<longleftrightarrow>
     (let value = jget ''rightsDecision'' (ks_metadata src) in
      (ks_tier src = TierOpenLicense \<and> approved_for (recordValue value) url)
    \<or> (ks_tier src = TierInternal \<and> (jpresent value \<longrightarrow> approved_for (recordValue value) url)
        \<and> commercial_rights (ks_metadata src)))"

lemma approved_decision: "assertApprovedFullTextDecision d url = Inr () \<longleftrightarrow> approved_for d url"
  by (auto simp: assertApprovedFullTextDecision_def approved_for_def policy_fail_def)

lemma approved_for_present: "approved_for (recordValue v) url \<Longrightarrow> jpresent v"
  by (cases v) (auto simp: approved_for_def recordValue_def jpresent_def)

lemma full_text_tier: "assertFullTextTier src url = Inr () \<longleftrightarrow> full_text_rights src url"
  using approved_for_present[of "jget ''rightsDecision'' (ks_metadata src)" url]
  by (auto simp: assertFullTextTier_def full_text_rights_def commercial_rights_def approved_decision Let_def
      policy_fail_def bindR_eq_Inr split: if_splits)

lemma unit_result: "(m :: (kn_error, unit) result) = Inr x \<longleftrightarrow> m = Inr ()"
  by simp

lemma full_text_not_metadata_only: "full_text \<noteq> metadata_only"
  by (simp add: js_eq_iff)

text \<open>The policy, branch by branch, as one condition on the source and the citation.\<close>

definition authorized :: "kn_rules \<Rightarrow> source_row \<Rightarrow> jobject \<Rightarrow> bool" where
  "authorized kr src citation \<longleftrightarrow> ks_enabled src \<and> ks_deletedAt src = None
     \<and> (\<exists>p. ks_publisher src = Some p \<and> js_trim p \<noteq> [])
     \<and> (\<exists>url. validHttpsUrl kr (ks_canonicalUrl src) = Some url
          \<and> (ingestion_mode citation = metadata_only
             \<or> (ingestion_mode citation = full_text \<and> full_text_rights src url)))"

lemma full_text_rights_tier: "full_text_rights src url \<Longrightarrow> \<not> isMetadataOnlyTier (ks_tier src)"
  by (auto simp: full_text_rights_def isMetadataOnlyTier_def Let_def)

lemma assertKnowledgeSourceAuthorized_iff:
  "assertKnowledgeSourceAuthorized kr source citation = Inr () \<longleftrightarrow>
   (\<exists>src. source = Some src \<and> authorized kr src citation)"
  using full_text_not_metadata_only full_text_rights_tier
  by (auto simp: assertKnowledgeSourceAuthorized_def authorized_def full_text_tier policy_fail_def
      split: option.splits if_splits)

end
