(* ===== verification/Review_Policy.thy ===== *)
theory Review_Policy
  imports Source_Policy
begin

section \<open>Review policy\<close>

text \<open>
  \<open>src/server/knowledge/review-policy.ts\<close> and \<open>automation-review-schema.ts\<close>: the schema of a
  structured report (its texts trimmed and bounded, its hashes checked), the decision whether the
  automated reviews of a version allow its publication, and the two states a retrieval may serve.
\<close>

subsection \<open>Schemas\<close>

text \<open>\<open>z.string().trim().min(1).max(n)\<close>.\<close>

definition z_bounded :: "nat \<Rightarrow> js_string \<Rightarrow> js_string option" where
  "z_bounded n s = (let t = js_trim s in if t \<noteq> [] \<and> length t \<le> n then Some t else None)"

definition z_optional_text :: "nat \<Rightarrow> js_string option \<Rightarrow> js_string option option" where
  "z_optional_text n v = (case v of None \<Rightarrow> Some None | Some s \<Rightarrow> map_option Some (z_bounded n s))"

definition findingSchema :: "review_finding \<Rightarrow> review_finding option" where
  "findingSchema f =
     Option.bind (z_bounded 100 (fd_code f)) (\<lambda>c.
     Option.bind (z_bounded 4000 (fd_message f)) (\<lambda>m. Some \<lparr>fd_code = c, fd_message = m\<rparr>))"

definition evidenceSchema :: "review_evidence \<Rightarrow> review_evidence option" where
  "evidenceSchema e =
     Option.bind (z_bounded 4000 (ev_claim e)) (\<lambda>c.
     Option.bind (z_bounded 10000 (ev_exactEvidence e)) (\<lambda>x.
     Option.bind (z_bounded 1000 (ev_sourceLocator e)) (\<lambda>l.
       Some \<lparr>ev_claim = c, ev_exactEvidence = x, ev_sourceLocator = l\<rparr>)))"

definition numericClaimSchema :: "numeric_claim \<Rightarrow> numeric_claim option" where
  "numericClaimSchema n =
     Option.bind (z_bounded 4000 (nc_claim n)) (\<lambda>c.
     Option.bind (z_optional_text 10000 (nc_exactEvidence n)) (\<lambda>x.
     Option.bind (z_optional_text 1000 (nc_sourceLocator n)) (\<lambda>l.
       Some \<lparr>nc_claim = c, nc_exactEvidence = x, nc_sourceLocator = l\<rparr>)))"

definition automationReviewReportSchema :: "automation_report \<Rightarrow> automation_report option" where
  "automationReviewReportSchema r =
     Option.bind (z_bounded 10000 (ar_summary r)) (\<lambda>s.
     Option.bind (those (map findingSchema (ar_findings r))) (\<lambda>fs.
     Option.bind (those (map findingSchema (ar_blockers r))) (\<lambda>bs.
     Option.bind (those (map evidenceSchema (ar_evidence r))) (\<lambda>es.
     Option.bind (those (map numericClaimSchema (ar_numericClaims r))) (\<lambda>ns.
       Some \<lparr>ar_summary = s, ar_risk = ar_risk r, ar_decision = ar_decision r, ar_findings = fs,
         ar_blockers = bs, ar_evidence = es, ar_numericClaims = ns\<rparr>)))))"

definition storedAutomationReviewReportSchema :: "stored_report \<Rightarrow> stored_report option" where
  "storedAutomationReviewReportSchema r =
     Option.bind (z_bounded 10000 (sr_summary r)) (\<lambda>s.
     Option.bind (those (map findingSchema (sr_findings r))) (\<lambda>fs.
     Option.bind (those (map findingSchema (sr_blockers r))) (\<lambda>bs.
     Option.bind (those (map evidenceSchema (sr_evidence r))) (\<lambda>es.
     Option.bind (those (map numericClaimSchema (sr_numericClaims r))) (\<lambda>ns.
     Option.bind (automationReviewReportSchema (sr_submittedReport r)) (\<lambda>sub.
       if sha256_hex (sr_outputContentHash r) \<and> sha256_hex (sr_idempotencyTokenHash r)
          \<and> sha256_hex (sr_outputHash r)
          \<and> (case sr_submittedRevisionHash r of None \<Rightarrow> True | Some h \<Rightarrow> sha256_hex h)
       then Some (r\<lparr>sr_summary := s, sr_findings := fs, sr_blockers := bs, sr_evidence := es,
              sr_numericClaims := ns, sr_submittedReport := sub\<rparr>)
       else None))))))"

text \<open>
  A completed run that \<open>knowledgeAutomationReviewRunSchema\<close> accepts, with its risk, report and
  decision; runs in any other status are dropped by the caller.
\<close>

record completed_run =
  cr_run :: review_run
  cr_prompt :: js_string
  cr_risk :: review_risk
  cr_report :: stored_report
  cr_decision :: review_decision

definition knowledgeAutomationReviewRunSchema :: "review_run \<Rightarrow> completed_run option" where
  "knowledgeAutomationReviewRunSchema r =
     (if rr_status r \<noteq> RevCompleted \<or> \<not> sha256_hex (rr_inputHash r)
         \<or> js_trim (rr_model r) = [] \<or> js_trim (rr_prompt r) = [] then None
      else Option.bind (rr_risk r) (\<lambda>risk.
        Option.bind (rr_decision r) (\<lambda>decision.
        Option.bind (Option.bind (rr_report r) storedAutomationReviewReportSchema) (\<lambda>report.
          Some \<lparr>cr_run = r, cr_prompt = js_trim (rr_prompt r), cr_risk = risk, cr_report = report,
            cr_decision = decision\<rparr>))))"

subsection \<open>Publication readiness\<close>

datatype readiness_reason =
    SourceRightsInvalid | PairMissingOrMismatched | HighRisk | Blockers | NumericEvidenceMissing

datatype readiness_path = PathAutomation | PathLegacySections

record readiness =
  rd_ready :: bool
  rd_path :: "readiness_path option"
  rd_reasons :: "readiness_reason list"

definition blocked :: "readiness_reason list \<Rightarrow> readiness" where
  "blocked reasons = \<lparr>rd_ready = False, rd_path = None, rd_reasons = reasons\<rparr>"

definition storedTargetMatches :: "nat \<Rightarrow> js_string \<Rightarrow> completed_run \<Rightarrow> bool" where
  "storedTargetMatches vid hash r \<longleftrightarrow>
     sr_outputContentHash (cr_report r) = hash \<and> sr_outputVersionId (cr_report r) = vid
     \<and> sr_outputHash (cr_report r) = hash \<and> sr_sourceRightsValid (cr_report r)"

definition targetsCurrentInput :: "nat \<Rightarrow> js_string \<Rightarrow> completed_run \<Rightarrow> bool" where
  "targetsCurrentInput vid hash r \<longleftrightarrow> rr_inputVersion (cr_run r) = vid \<and> rr_inputHash (cr_run r) = hash"

definition targetsRecordedRevision :: "nat \<Rightarrow> js_string \<Rightarrow> completed_run \<Rightarrow> bool" where
  "targetsRecordedRevision vid hash r \<longleftrightarrow> rr_phase (cr_run r) = PhaseInitial
     \<and> rr_revised (cr_run r) = Some vid \<and> sr_outputContentHash (cr_report r) = hash"

definition submittedReportMatches :: "completed_run \<Rightarrow> bool" where
  "submittedReportMatches r \<longleftrightarrow>
     (let sub = sr_submittedReport (cr_report r); rep = cr_report r in
      ar_summary sub = sr_summary rep \<and> ar_risk sub = cr_risk r \<and> ar_decision sub = cr_decision r
      \<and> ar_findings sub = sr_findings rep \<and> ar_blockers sub = sr_blockers rep
      \<and> ar_evidence sub = sr_evidence rep \<and> ar_numericClaims sub = sr_numericClaims rep)"

definition submittedRevisionMatches :: "nat \<Rightarrow> js_string \<Rightarrow> completed_run \<Rightarrow> bool" where
  "submittedRevisionMatches vid hash r \<longleftrightarrow>
     sr_submittedRevisionHash (cr_report r) = (if targetsRecordedRevision vid hash r then Some hash else None)"

definition eligible_run :: "nat \<Rightarrow> js_string \<Rightarrow> completed_run \<Rightarrow> bool" where
  "eligible_run vid hash r \<longleftrightarrow> cr_decision r = DecApproved \<and> cr_prompt r = js automation_policy
     \<and> storedTargetMatches vid hash r
     \<and> (targetsCurrentInput vid hash r \<or> targetsRecordedRevision vid hash r)
     \<and> submittedReportMatches r \<and> submittedRevisionMatches vid hash r"

definition numeric_evidence_missing :: "completed_run \<Rightarrow> bool" where
  "numeric_evidence_missing r \<longleftrightarrow> list_ex (\<lambda>c.
     (case nc_exactEvidence c of None \<Rightarrow> True | Some x \<Rightarrow> x = [])
     \<or> (case nc_sourceLocator c of None \<Rightarrow> True | Some x \<Rightarrow> x = [])) (sr_numericClaims (cr_report r))"

definition evaluateKnowledgePublicationReadiness ::
  "nat \<Rightarrow> js_string \<Rightarrow> bool \<Rightarrow> review_run list \<Rightarrow> bool \<Rightarrow> readiness" where
  "evaluateKnowledgePublicationReadiness vid hash rightsValid runs legacyReady =
     (if \<not> rightsValid then blocked [SourceRightsInvalid]
      else if legacyReady then \<lparr>rd_ready = True, rd_path = Some PathLegacySections, rd_reasons = []\<rparr>
      else
        let eligible = filter (eligible_run vid hash) (List.map_filter knowledgeAutomationReviewRunSchema runs);
            initialRuns = filter (\<lambda>r. rr_phase (cr_run r) = PhaseInitial) eligible;
            verifyRuns = filter (\<lambda>r. rr_phase (cr_run r) = PhaseVerify) eligible
        in case (initialRuns, verifyRuns) of
          ([initial], [verify]) \<Rightarrow>
            if rr_id (cr_run initial) = rr_id (cr_run verify) then blocked [PairMissingOrMismatched]
            else let reasons =
                (if cr_risk initial \<noteq> RevLow \<or> cr_risk verify \<noteq> RevLow then [HighRisk] else [])
                @ (if sr_blockers (cr_report initial) \<noteq> [] \<or> sr_blockers (cr_report verify) \<noteq> []
                   then [Blockers] else [])
                @ (if numeric_evidence_missing initial \<or> numeric_evidence_missing verify
                   then [NumericEvidenceMissing] else [])
              in if reasons \<noteq> [] then blocked reasons
                 else \<lparr>rd_ready = True, rd_path = Some PathAutomation, rd_reasons = []\<rparr>
        | _ \<Rightarrow> blocked [PairMissingOrMismatched])"

subsection \<open>Retrieval states\<close>

definition active_pending_review :: string where "active_pending_review = ''active_pending_review''"
definition active_reviewed :: string where "active_reviewed = ''active_reviewed''"

definition isPendingReviewRetrievalActive :: "jobject \<Rightarrow> js_string option \<Rightarrow> bool" where
  "isPendingReviewRetrievalActive metadata contentHash \<longleftrightarrow>
     (case jstring (jget ''retrievalContentHash'' metadata) of
        None \<Rightarrow> False
      | Some h \<Rightarrow> jget ''reviewStatus'' metadata = Some (JString (js ''required''))
          \<and> jget ''retrievalStatus'' metadata = Some (JString (js active_pending_review))
          \<and> length h = 64 \<and> contentHash = Some h)"

definition retrieval_review_policy :: "version_row \<Rightarrow> bool" where
  "retrieval_review_policy v \<longleftrightarrow>
     (jtext_is ''reviewStatus'' ''approved'' (kv_metadata v)
      \<and> jtext_is ''status'' ''approved'' (recordValue (jget ''review'' (kv_metadata v))))
     \<or> (jtext_is ''reviewStatus'' ''required'' (kv_metadata v)
      \<and> jtext_is ''retrievalStatus'' active_pending_review (kv_metadata v)
      \<and> jstring (jget ''retrievalContentHash'' (kv_metadata v)) \<noteq> None
      \<and> jstring (jget ''retrievalContentHash'' (kv_metadata v)) = kv_hash v)"

subsection \<open>Uploaded originals\<close>

definition max_knowledge_original_bytes :: int where "max_knowledge_original_bytes = 50 * 1024 * 1024"

definition mime_by_extension :: "(string \<times> string) list" where
  "mime_by_extension = [(''pdf'', ''application/pdf''),
     (''docx'', ''application/vnd.openxmlformats-officedocument.wordprocessingml.document''),
     (''xlsx'', ''application/vnd.openxmlformats-officedocument.spreadsheetml.sheet''),
     (''csv'', ''text/csv''), (''txt'', ''text/plain''), (''md'', ''text/markdown''),
     (''jpg'', ''image/jpeg''), (''png'', ''image/png'')]"

text \<open>\<open>lastIndexOf(".")\<close>: the text before and after the last dot.\<close>

definition filenameExtension :: "kn_rules \<Rightarrow> js_string \<Rightarrow> js_string option" where
  "filenameExtension kr name =
     (let ext = rev (takeWhile (\<lambda>c. c \<noteq> 46) (rev name)); dot = length name - length ext
      in if 46 \<notin> set name \<or> dot - 1 = 0 \<or> ext = [] then None else Some (kr_lower kr ext))"

definition key_character :: "nat \<Rightarrow> bool" where
  "key_character c \<longleftrightarrow> (48 \<le> c \<and> c \<le> 57) \<or> (65 \<le> c \<and> c \<le> 90) \<or> (97 \<le> c \<and> c \<le> 122)
     \<or> c \<in> {45, 46, 47, 95}"

definition key_first :: "nat \<Rightarrow> bool" where
  "key_first c \<longleftrightarrow> (48 \<le> c \<and> c \<le> 57) \<or> (65 \<le> c \<and> c \<le> 90) \<or> (97 \<le> c \<and> c \<le> 122)"

text \<open>\<open>value.split("/")\<close>.\<close>

fun split_char :: "nat \<Rightarrow> js_string \<Rightarrow> js_string list" where
  "split_char d [] = [[]]"
| "split_char d (c # cs) =
     (if c = d then [] # split_char d cs
      else case split_char d cs of [] \<Rightarrow> [[c]] | p # ps \<Rightarrow> (c # p) # ps)"

definition isSafePrivateKnowledgeObjectKey :: "js_string \<Rightarrow> bool" where
  "isSafePrivateKnowledgeObjectKey key \<longleftrightarrow>
     js_startsWith key (js ''private/knowledge-originals/'')
     \<and> (case drop (length (''private/knowledge-originals/'')) key of [] \<Rightarrow> False
        | c # cs \<Rightarrow> key_first c \<and> list_all key_character cs)
     \<and> \<not> js_includes key (js ''//'')
     \<and> list_all (\<lambda>s. s \<noteq> [] \<and> s \<noteq> js ''..'') (split_char 47 key)"

record original_input =
  oi_version :: nat
  oi_objectKey :: js_string
  oi_filename :: js_string
  oi_mimeType :: string
  oi_sizeBytes :: int
  oi_sha256 :: js_string
  oi_uploadedBy :: js_string

definition knowledgeOriginalInputSchema :: "kn_rules \<Rightarrow> original_input \<Rightarrow> original_input option" where
  "knowledgeOriginalInputSchema kr i =
     Option.bind (z_bounded 255 (oi_filename i)) (\<lambda>name.
       let uploader = js_trim (oi_uploadedBy i) in
       if oi_objectKey i \<noteq> [] \<and> length (oi_objectKey i) \<le> 1024 \<and> isSafePrivateKnowledgeObjectKey (oi_objectKey i)
          \<and> \<not> list_ex (\<lambda>c. c \<in> {92, 47, 0}) name
          \<and> oi_mimeType i \<in> set (map snd mime_by_extension)
          \<and> 0 < oi_sizeBytes i \<and> oi_sizeBytes i \<le> max_knowledge_original_bytes
          \<and> sha256_hex (oi_sha256 i) \<and> uploader \<noteq> []
          \<and> (case filenameExtension kr name of None \<Rightarrow> False
             | Some ext \<Rightarrow> list_ex (\<lambda>(e, m). ext = js e \<and> m = oi_mimeType i) mime_by_extension)
       then Some (i\<lparr>oi_filename := name, oi_uploadedBy := uploader\<rparr>) else None)"

subsection \<open>What readiness promises\<close>

lemma parsed_run_fields:
  "knowledgeAutomationReviewRunSchema run = Some r \<Longrightarrow> cr_run r = run \<and> rr_status run = RevCompleted
     \<and> rr_decision run = Some (cr_decision r) \<and> rr_risk run = Some (cr_risk r)
     \<and> Option.bind (rr_report run) storedAutomationReviewReportSchema = Some (cr_report r)"
  by (auto simp: knowledgeAutomationReviewRunSchema_def bind_eq_Some_conv split: if_splits)

lemma eligible_parsed:
  "r \<in> set (List.map_filter knowledgeAutomationReviewRunSchema runs) \<Longrightarrow>
   cr_run r \<in> set runs \<and> knowledgeAutomationReviewRunSchema (cr_run r) = Some r"
  by (auto simp: List.map_filter_def knowledgeAutomationReviewRunSchema_def bind_eq_Some_conv split: if_splits)

text \<open>A completed pair of distinct low-risk approvals of exactly this version and content.\<close>

definition approval_of :: "nat \<Rightarrow> js_string \<Rightarrow> review_phase \<Rightarrow> review_run \<Rightarrow> bool" where
  "approval_of vid hash phase run \<longleftrightarrow>
     rr_phase run = phase \<and> rr_status run = RevCompleted \<and> rr_decision run = Some DecApproved
     \<and> rr_risk run = Some RevLow
     \<and> (\<exists>r. knowledgeAutomationReviewRunSchema run = Some r \<and> eligible_run vid hash r
          \<and> sr_blockers (cr_report r) = [] \<and> \<not> numeric_evidence_missing r)"

lemma filter_single: "filter P xs = [x] \<Longrightarrow> x \<in> set xs \<and> P x"
proof -
  assume a: "filter P xs = [x]"
  then have "x \<in> set (filter P xs)" by (simp only: list.set_intros)
  then show ?thesis by simp
qed

lemma readiness_approvals:
  assumes "rd_ready (evaluateKnowledgePublicationReadiness vid hash rights runs False)"
  shows "rights \<and> (\<exists>a\<in>set runs. \<exists>b\<in>set runs. rr_id a \<noteq> rr_id b
     \<and> approval_of vid hash PhaseInitial a \<and> approval_of vid hash PhaseVerify b)"
proof -
  define eligible where
    "eligible = filter (eligible_run vid hash) (List.map_filter knowledgeAutomationReviewRunSchema runs)"
  from assms obtain a b where rights: rights
    and a: "filter (\<lambda>r. rr_phase (cr_run r) = PhaseInitial) eligible = [a]"
    and b: "filter (\<lambda>r. rr_phase (cr_run r) = PhaseVerify) eligible = [b]"
    and ids: "rr_id (cr_run a) \<noteq> rr_id (cr_run b)"
    and low: "cr_risk a = RevLow" "cr_risk b = RevLow"
    and clean: "sr_blockers (cr_report a) = []" "sr_blockers (cr_report b) = []"
    and numeric: "\<not> numeric_evidence_missing a" "\<not> numeric_evidence_missing b"
    unfolding evaluateKnowledgePublicationReadiness_def eligible_def[symmetric]
    by (auto simp: blocked_def Let_def split: if_splits list.splits)
  have "approval_of vid hash (rr_phase (cr_run r)) (cr_run r) \<and> cr_run r \<in> set runs"
    if r: "r \<in> set eligible" and facts: "cr_risk r = RevLow" "sr_blockers (cr_report r) = []"
      "\<not> numeric_evidence_missing r" for r
  proof -
    have ok: "eligible_run vid hash r" and parsed: "knowledgeAutomationReviewRunSchema (cr_run r) = Some r"
      and mem: "cr_run r \<in> set runs"
      using r eligible_parsed[of r runs] by (auto simp: eligible_def)
    with ok facts mem parsed_run_fields[OF parsed] show ?thesis by (auto simp: approval_of_def eligible_run_def)
  qed
  with filter_single[OF a] filter_single[OF b] low clean numeric rights ids show ?thesis
    by metis
qed

end
