(* ===== verification/Knowledge_Text.thy ===== *)
theory Knowledge_Text
  imports Review_Policy Text_Chunks
begin

section \<open>Texts of the knowledge base\<close>

text \<open>
  The splitting of knowledge texts into paragraphs, pages and chunks: the helpers of
  \<open>review-sections.ts\<close> and of \<open>src/worker/knowledge-ingestion.ts\<close>. A regular expression is a
  matcher: the length of its match at the start of a text.
\<close>

subsection \<open>Paragraphs\<close>

text \<open>\<open>value.split(pattern)\<close> for a pattern whose matches are not empty.\<close>

function js_split_by :: "(js_string \<Rightarrow> nat option) \<Rightarrow> js_string \<Rightarrow> js_string list" where
  "js_split_by m [] = [[]]"
| "js_split_by m (c # cs) = (case m (c # cs) of
     Some n \<Rightarrow> [] # js_split_by m (drop (n - 1) cs)
   | None \<Rightarrow> (case js_split_by m cs of [] \<Rightarrow> [[c]] | p # ps \<Rightarrow> (c # p) # ps))"
  by pat_completeness auto

termination
  by (relation "measure (\<lambda>(m, s). length s)") auto

text \<open>\<open>/\n\s*\n/\<close>: from a line feed to the last line feed of the white space after it.\<close>

definition blank_lines :: "js_string \<Rightarrow> nat option" where
  "blank_lines s = (case s of
     [] \<Rightarrow> None
   | c # cs \<Rightarrow>
       let w = takeWhile js_white cs; tail = takeWhile (\<lambda>d. d \<noteq> 10) (rev w)
       in if c = 10 \<and> 10 \<in> set w then Some (1 + (length w - length tail)) else None)"

text \<open>\<open>/\n{2,}/\<close>.\<close>

definition line_feeds :: "js_string \<Rightarrow> nat option" where
  "line_feeds s = (let n = length (takeWhile (\<lambda>c. c = 10) s) in if 2 \<le> n then Some n else None)"

text \<open>\<open>value.replace(/\r\n?/g, "\n")\<close>.\<close>

fun line_breaks :: "js_string \<Rightarrow> js_string" where
  "line_breaks [] = []"
| "line_breaks [c] = [if c = 13 then 10 else c]"
| "line_breaks (c # d # cs) =
     (if c = 13 then 10 # line_breaks (if d = 10 then cs else d # cs) else c # line_breaks (d # cs))"

definition normalizeText :: "js_string \<Rightarrow> js_string" where
  "normalizeText s = js_trim (line_breaks s)"

definition paragraphs :: "js_string \<Rightarrow> js_string list" where
  "paragraphs s = (let normalized = normalizeText s
     in if normalized = [] then []
        else filter (\<lambda>p. p \<noteq> []) (map normalizeText (js_split_by blank_lines normalized)))"

subsection \<open>Page markers\<close>

text \<open>
  \<open>/<!--\s*openvac-page:(\d+)\s*-->\s*/\<close>: the digits of the page and the length of the match.
\<close>

definition marker_match :: "js_string \<Rightarrow> (js_string \<times> nat) option" where
  "marker_match s =
     (if \<not> js_startsWith s (js ''<!--'') then None
      else let a = dropWhile js_white (drop 4 s) in
        if \<not> js_startsWith a (js ''openvac-page:'') then None
        else let b = drop 13 a; digits = takeWhile js_digit b; c = dropWhile js_white (drop (length digits) b) in
          if digits = [] \<or> \<not> js_startsWith c (js ''-->'') then None
          else let rest = dropWhile js_white (drop 3 c) in Some (digits, length s - length rest))"

text \<open>\<open>[...content.matchAll(pagePattern)]\<close>: index, length and digits of each marker.\<close>

function page_markers :: "nat \<Rightarrow> js_string \<Rightarrow> (nat \<times> nat \<times> js_string) list" where
  "page_markers i [] = []"
| "page_markers i (c # cs) = (case marker_match (c # cs) of
     Some (digits, n) \<Rightarrow> (i, n, digits) # page_markers (i + max 1 n) (drop (n - 1) cs)
   | None \<Rightarrow> page_markers (Suc i) cs)"
  by pat_completeness auto

termination
  by (relation "measure (\<lambda>(i, s). length s)") auto

text \<open>\<open>Number(marker[1])\<close>; the code rounds a number of more than 15 digits.\<close>

definition page_value :: "js_string \<Rightarrow> int" where
  "page_value digits = int (foldl (\<lambda>v c. 10 * v + (c - 48)) 0 digits)"

text \<open>The text of each marker's page: up to the next marker.\<close>

fun marked_texts :: "js_string \<Rightarrow> (nat \<times> nat \<times> js_string) list \<Rightarrow> (int \<times> js_string) list" where
  "marked_texts s [] = []"
| "marked_texts s [(i, n, digits)] = [(page_value digits, js_slice s (i + n) (length s))]"
| "marked_texts s ((i, n, digits) # (j, m, ds) # rest) =
     (page_value digits, js_slice s (i + n) j) # marked_texts s ((j, m, ds) # rest)"

definition pageParagraphs :: "js_string \<Rightarrow> (js_string \<times> int option) list" where
  "pageParagraphs value =
     (let normalized = normalizeText value; markers = page_markers 0 normalized
      in if normalized = [] then []
         else if markers = [] then map (\<lambda>t. (t, None)) (paragraphs normalized)
         else concat (map (\<lambda>(page, t). map (\<lambda>p. (p, Some page)) (paragraphs t)) (marked_texts normalized markers)))"

subsection \<open>Chunks of a reviewed text\<close>

record knowledge_chunk =
  kt_content :: js_string
  kt_page :: "int option"
  kt_sectionPath :: "js_string list"

text \<open>\<open>/^#{1,6}\s+\S/\<close>, and what \<open>replace(/^#{1,6}\s+/, "")\<close> leaves of the line.\<close>

definition heading_text :: "js_string \<Rightarrow> js_string option" where
  "heading_text line =
     (let hashes = takeWhile (\<lambda>c. c = 35) line; rest = drop (length hashes) line;
          body = dropWhile js_white rest
      in if 1 \<le> length hashes \<and> length hashes \<le> 6 \<and> length body < length rest \<and> body \<noteq> []
         then Some body else None)"

definition inferSectionPath :: "js_string \<Rightarrow> js_string list" where
  "inferSectionPath content = (case List.map_filter heading_text (split_char 10 content) of
     [] \<Rightarrow> [] | h # _ \<Rightarrow> [js_trim h])"

definition make_chunk :: "int option \<Rightarrow> js_string \<Rightarrow> knowledge_chunk" where
  "make_chunk page content =
     \<lparr>kt_content = content, kt_page = page, kt_sectionPath = inferSectionPath content\<rparr>"

text \<open>The state of the loop over the paragraphs of a page: the buffer and the chunks so far.\<close>

type_synonym chunk_state = "js_string \<times> knowledge_chunk list"

definition chunk_flush :: "nat \<Rightarrow> int option \<Rightarrow> chunk_state \<Rightarrow> chunk_state" where
  "chunk_flush overlap page st = (case st of (buffer, chunks) \<Rightarrow>
     let normalized = js_trim buffer
     in if normalized = [] then st
        else (drop (length normalized - overlap) normalized, chunks @ [make_chunk page normalized]))"

function window_pieces :: "nat \<Rightarrow> nat \<Rightarrow> js_string \<Rightarrow> js_string list" where
  "window_pieces width step s =
     (if s = [] then []
      else let piece = js_trim (take width s)
           in (if piece = [] then [] else [piece])
              @ (if length s \<le> width \<or> step = 0 then [] else window_pieces width step (drop step s)))"
  by pat_completeness auto

termination
  by (relation "measure (\<lambda>(w, k, s). length s)") auto

declare window_pieces.simps [simp del]

definition chunk_paragraph :: "nat \<Rightarrow> nat \<Rightarrow> int option \<Rightarrow> js_string \<Rightarrow> chunk_state \<Rightarrow> chunk_state" where
  "chunk_paragraph width overlap page p st = (case st of (buffer, chunks) \<Rightarrow>
     if width < length p then
       (let (buffer', chunks') = (if js_trim buffer \<noteq> [] then ([], snd (chunk_flush overlap page st)) else st)
        in (buffer', chunks' @ map (make_chunk page) (window_pieces width (width - overlap) p)))
     else
       let candidate = (if buffer = [] then p else buffer @ [10, 10] @ p)
       in if width < length candidate then
            (let (kept, chunks') = chunk_flush overlap page st;
                 joined = (if kept = [] then p else kept @ [10, 10] @ p)
             in (if width < length joined then p else joined, chunks'))
          else (candidate, chunks))"

definition chunk_page :: "nat \<Rightarrow> nat \<Rightarrow> int option \<times> js_string \<Rightarrow> knowledge_chunk list" where
  "chunk_page width overlap pg = (case pg of (page, t) \<Rightarrow>
     if t = [] then []
     else let ps = filter (\<lambda>p. p \<noteq> []) (map js_trim (js_split_by line_feeds t));
              st = fold (chunk_paragraph width overlap page) ps ([], [])
          in snd (if js_trim (fst st) \<noteq> [] then chunk_flush overlap page st else st))"

definition content_pages :: "js_string \<Rightarrow> (int option \<times> js_string) list" where
  "content_pages content = (let markers = page_markers 0 content
     in if markers = [] then [(None, js_trim content)]
        else map (\<lambda>(page, t). (Some page, js_trim t)) (marked_texts content markers))"

definition chunkReviewedMarkdown ::
  "js_string \<Rightarrow> nat \<Rightarrow> nat \<Rightarrow> (kn_error, knowledge_chunk list) result" where
  "chunkReviewedMarkdown content maxCharacters overlap =
     (if maxCharacters = 0 then Inl (PlainError ''maxCharacters must be a positive integer.'')
      else if maxCharacters \<le> overlap
      then Inl (PlainError ''overlapCharacters must be an integer from 0 to maxCharacters - 1.'')
      else Inr (concat (map (chunk_page maxCharacters overlap) (content_pages content))))"

definition default_chunk_characters :: nat where "default_chunk_characters = 2400"
definition default_chunk_overlap :: nat where "default_chunk_overlap = 200"

subsection \<open>Rendering a parsed document\<close>

definition js_int :: "int \<Rightarrow> js_string" where
  "js_int i = (if i < 0 then 45 # js_nat (nat (- i)) else js_nat (nat i))"

definition page_has_text :: "parsed_page \<Rightarrow> bool" where
  "page_has_text p = (case pp_markdown p of None \<Rightarrow> False | Some m \<Rightarrow> js_trim m \<noteq> [])"

definition rendered_page :: "nat \<times> parsed_page \<Rightarrow> js_string" where
  "rendered_page ip = (case ip of (i, p) \<Rightarrow>
     js ''<!-- openvac-page:'' @ js_int (case pp_number p of None \<Rightarrow> int i + 1 | Some n \<Rightarrow> n) @ js '' -->'' @ [10]
     @ js_trim (case pp_markdown p of None \<Rightarrow> [] | Some m \<Rightarrow> m))"

definition renderParsedDocument :: "parsed_document \<Rightarrow> js_string" where
  "renderParsedDocument parsed =
     js_join [10, 10] (map rendered_page (List.enumerate 0 (filter page_has_text (pd_pages parsed))))"

subsection \<open>Bounds and completeness of the chunks\<close>

definition js_infix :: "js_string \<Rightarrow> js_string \<Rightarrow> bool" where
  "js_infix p s \<longleftrightarrow> (\<exists>a b. s = a @ p @ b)"

text \<open>A text that begins and ends with a character that is not white space.\<close>

definition trimmed_text :: "js_string \<Rightarrow> bool" where
  "trimmed_text p \<longleftrightarrow> p \<noteq> [] \<and> js_trim p = p"

lemma trimmed_text_ends: "trimmed_text p \<Longrightarrow> \<not> js_white (hd p) \<and> \<not> js_white (last p)"
  using js_trim_ends[of p] by (auto simp: trimmed_text_def)

lemma length_js_trim: "length (js_trim s) \<le> length s"
  by (simp add: js_trim_def trimStart_def)
    (metis le_trans length_dropWhile_le length_rev)

lemma trimmed_text_js_trim: "js_trim s \<noteq> [] \<Longrightarrow> trimmed_text (js_trim s)"
  by (simp add: trimmed_text_def js_trim_idem)

lemma infix_trimStart:
  assumes "p \<noteq> []" "\<not> js_white (hd p)"
  shows "\<exists>a. trimStart (u @ p @ v) = a @ p @ v"
proof -
  have "dropWhile js_white (u @ p @ v) = dropWhile js_white u @ p @ v"
  proof (induction u)
    case Nil
    with assms show ?case by (cases p) simp_all
  qed simp
  then show ?thesis by (auto simp: trimStart_def)
qed

lemma infix_js_trim:
  assumes "js_infix p s" "trimmed_text p"
  shows "js_infix p (js_trim s)"
proof -
  obtain u v where s: "s = u @ p @ v" using assms(1) by (auto simp: js_infix_def)
  have ends: "\<not> js_white (hd p)" "\<not> js_white (last p)" "p \<noteq> []"
    using trimmed_text_ends[OF assms(2)] assms(2) by (simp_all add: trimmed_text_def)
  obtain a where a: "trimStart s = a @ p @ v" using infix_trimStart[OF ends(3,1)] s by blast
  have "\<exists>b. trimStart (rev v @ rev p @ rev a) = b @ rev p @ rev a"
    by (rule infix_trimStart) (use ends in \<open>auto simp: hd_rev\<close>)
  then obtain b where "trimStart (rev (trimStart s)) = b @ rev p @ rev a"
    by (auto simp: a)
  then have "js_trim s = a @ p @ rev b"
    by (simp add: js_trim_def trimStart_def)
  then show ?thesis by (auto simp: js_infix_def)
qed

lemma trimmed_text_infix_nonempty: "js_infix p s \<Longrightarrow> trimmed_text p \<Longrightarrow> js_trim s \<noteq> []"
  using infix_js_trim[of p s] by (auto simp: js_infix_def trimmed_text_def)

text \<open>
  What the loop keeps: the chunks are trimmed, of the page, and at most \<open>width\<close> long; the buffer is
  at most \<open>width\<close> long; every short paragraph seen is inside a chunk or inside the buffer.
\<close>

definition chunks_ok :: "nat \<Rightarrow> int option \<Rightarrow> knowledge_chunk list \<Rightarrow> bool" where
  "chunks_ok width page cs \<longleftrightarrow> (\<forall>c\<in>set cs. trimmed_text (kt_content c) \<and> length (kt_content c) \<le> width \<and> kt_page c = page)"

definition kept_in :: "js_string \<Rightarrow> chunk_state \<Rightarrow> bool" where
  "kept_in p st \<longleftrightarrow> js_infix p (fst st) \<or> (\<exists>c\<in>set (snd st). js_infix p (kt_content c))"

definition state_ok :: "nat \<Rightarrow> int option \<Rightarrow> chunk_state \<Rightarrow> bool" where
  "state_ok width page st \<longleftrightarrow> length (fst st) \<le> width \<and> chunks_ok width page (snd st)"

lemma chunks_ok_append [simp]:
  "chunks_ok width page (a @ b) \<longleftrightarrow> chunks_ok width page a \<and> chunks_ok width page b"
  by (auto simp: chunks_ok_def)

lemma make_chunk_fields [simp]: "kt_content (make_chunk page s) = s" "kt_page (make_chunk page s) = page"
  by (simp_all add: make_chunk_def)

lemma chunk_flush_ok:
  assumes "state_ok width page st"
  shows "state_ok width page (chunk_flush overlap page st)"
  using assms length_js_trim[of "fst st"] trimmed_text_js_trim[of "fst st"]
  by (cases st) (auto simp: chunk_flush_def state_ok_def chunks_ok_def Let_def)

text \<open>Flushing moves a trimmed infix of the buffer into the last chunk.\<close>

lemma chunk_flush_keeps:
  assumes "kept_in p st" "trimmed_text p"
  shows "\<exists>c\<in>set (snd (chunk_flush overlap page st)). js_infix p (kt_content c)"
  using assms trimmed_text_infix_nonempty[of p "fst st"] infix_js_trim[of p "fst st"]
  by (cases st) (auto simp: kept_in_def chunk_flush_def Let_def)

lemma window_pieces_ok: "x \<in> set (window_pieces width step s) \<Longrightarrow> trimmed_text x \<and> length x \<le> width"
proof (induction width step s rule: window_pieces.induct)
  case (1 width step s)
  have "length (js_trim (take width s)) \<le> width"
    using length_js_trim[of "take width s"] by simp
  with 1 trimmed_text_js_trim[of "take width s"] show ?case
    by (subst (asm) (2) window_pieces.simps) (auto simp: Let_def split: if_splits)
qed

lemma chunk_paragraph_ok:
  assumes "state_ok width page st" "overlap < width"
  shows "state_ok width page (chunk_paragraph width overlap page p st)"
proof -
  obtain buffer cs where st: "st = (buffer, cs)" by (cases st)
  note flushed = chunk_flush_ok[OF assms(1), of overlap]
  have pieces: "chunks_ok width page (map (make_chunk page) (window_pieces width (width - overlap) p))"
    using window_pieces_ok by (fastforce simp: chunks_ok_def)
  show ?thesis
    using assms flushed pieces unfolding st chunk_paragraph_def
    by (auto simp: state_ok_def Let_def split: prod.splits if_splits)
qed

lemma infix_refl: "js_infix p p"
  unfolding js_infix_def by (metis append.left_neutral append.right_neutral)

lemma infix_appendI: "js_infix p s \<Longrightarrow> js_infix p (s @ t)"
  unfolding js_infix_def by (metis append.assoc)

lemma infix_prependI: "js_infix p s \<Longrightarrow> js_infix p (t @ s)"
  unfolding js_infix_def by (metis append.assoc)

lemma infix_joined: "js_infix p (a @ 10 # 10 # p)"
  using infix_prependI[OF infix_refl, of p "a @ [10, 10]"] by simp

lemma chunk_paragraph_keeps:
  assumes "kept_in q st" "trimmed_text q"
  shows "kept_in q (chunk_paragraph width overlap page p st)"
proof -
  obtain buffer cs where st: "st = (buffer, cs)" by (cases st)
  have flushed: "\<exists>c\<in>set (snd (chunk_flush overlap page (buffer, cs))). js_infix q (kt_content c)"
    using chunk_flush_keeps[OF assms] by (simp add: st)
  have inside: "js_trim buffer \<noteq> []" if "js_infix q buffer"
    using trimmed_text_infix_nonempty[OF that assms(2)] .
  have later: "js_infix q (buffer @ t)" if "js_infix q buffer" for t
    using that by (rule infix_appendI)
  have "js_infix q [] \<Longrightarrow> False" using assms(2) by (auto simp: js_infix_def trimmed_text_def)
  then show ?thesis
    using assms(1) flushed inside later unfolding st chunk_paragraph_def kept_in_def
    by (auto simp: Let_def split: prod.splits if_splits)
qed

lemma chunk_paragraph_takes:
  assumes "length p \<le> width" "trimmed_text p"
  shows "kept_in p (chunk_paragraph width overlap page p st)"
  using assms(1)
  by (cases st) (auto simp: chunk_paragraph_def kept_in_def Let_def infix_refl infix_joined split: prod.splits)

lemma chunk_fold:
  assumes "overlap < width" "state_ok width page st" "\<forall>p\<in>set ps. trimmed_text p"
  shows "state_ok width page (fold (chunk_paragraph width overlap page) ps st)
    \<and> (\<forall>q. trimmed_text q \<longrightarrow> kept_in q st \<or> (q \<in> set ps \<and> length q \<le> width) \<longrightarrow>
          kept_in q (fold (chunk_paragraph width overlap page) ps st))"
  using assms
proof (induction ps arbitrary: st)
  case (Cons p ps)
  let ?st = "chunk_paragraph width overlap page p st"
  have "state_ok width page ?st" using chunk_paragraph_ok[OF Cons.prems(2,1)] .
  note IH = Cons.IH[OF Cons.prems(1) this]
  have "kept_in q ?st" if "trimmed_text q" "kept_in q st \<or> (q = p \<and> length q \<le> width)" for q
    using that chunk_paragraph_keeps[of q st] chunk_paragraph_takes[of p width] by blast
  with IH Cons.prems(3) show ?case by auto
qed simp

definition page_paragraphs :: "js_string \<Rightarrow> js_string list" where
  "page_paragraphs t = filter (\<lambda>p. p \<noteq> []) (map js_trim (js_split_by line_feeds t))"

lemma page_paragraphs_trimmed: "p \<in> set (page_paragraphs t) \<Longrightarrow> trimmed_text p"
  by (auto simp: page_paragraphs_def trimmed_text_js_trim)

lemma chunk_page_ok:
  assumes "overlap < width"
  shows "chunks_ok width page (chunk_page width overlap (page, t))
    \<and> (\<forall>p\<in>set (page_paragraphs t). t \<noteq> [] \<longrightarrow> length p \<le> width \<longrightarrow>
         (\<exists>c\<in>set (chunk_page width overlap (page, t)). js_infix p (kt_content c)))"
proof (cases "t = []")
  case True
  then show ?thesis by (simp add: chunk_page_def chunks_ok_def)
next
  case False
  let ?st = "fold (chunk_paragraph width overlap page) (page_paragraphs t) ([], [])"
  have start: "state_ok width page ([], [])" by (simp add: state_ok_def chunks_ok_def)
  note folded = chunk_fold[OF assms start, of "page_paragraphs t"]
  have res: "chunk_page width overlap (page, t)
      = snd (if js_trim (fst ?st) \<noteq> [] then chunk_flush overlap page ?st else ?st)"
    using False by (simp add: chunk_page_def page_paragraphs_def Let_def)
  have "\<exists>c\<in>set (snd (if js_trim (fst ?st) \<noteq> [] then chunk_flush overlap page ?st else ?st)). js_infix p (kt_content c)"
    if "p \<in> set (page_paragraphs t)" "length p \<le> width" for p
  proof -
    have p: "trimmed_text p" using page_paragraphs_trimmed[OF that(1)] .
    have "kept_in p ?st" using folded page_paragraphs_trimmed that p by blast
    then show ?thesis
      using chunk_flush_keeps[OF _ p, of ?st overlap page] trimmed_text_infix_nonempty[OF _ p, of "fst ?st"]
      by (auto simp: kept_in_def)
  qed
  moreover have "chunks_ok width page (snd (if js_trim (fst ?st) \<noteq> [] then chunk_flush overlap page ?st else ?st))"
    using folded page_paragraphs_trimmed chunk_flush_ok[of width page ?st overlap]
    by (auto simp: state_ok_def)
  ultimately show ?thesis unfolding res by blast
qed

subsection \<open>What the pages of a text leave out\<close>

text \<open>
  The text before the first marker of a page belongs to no page. (A candidate is rendered with a
  marker only before a section that has a page, so the sections before it are such a text.)
\<close>

definition unpaged_text :: "js_string \<Rightarrow> js_string" where
  "unpaged_text content = (case page_markers 0 content of [] \<Rightarrow> [] | (i, _, _) # _ \<Rightarrow> take i content)"

definition marker_texts :: "js_string \<Rightarrow> js_string list" where
  "marker_texts content = (case page_markers 0 content of [] \<Rightarrow> [[]]
     | ms \<Rightarrow> map (\<lambda>(i, n, _). js_slice content i (i + n)) ms)"

definition page_texts :: "js_string \<Rightarrow> js_string list" where
  "page_texts content = (case page_markers 0 content of [] \<Rightarrow> [content] | ms \<Rightarrow> map snd (marked_texts content ms))"

lemma marker_match_length: "marker_match s = Some (ds, n) \<Longrightarrow> 0 < n \<and> n \<le> length s"
proof -
  assume m: "marker_match s = Some (ds, n)"
  define a where "a = dropWhile js_white (drop 4 s)"
  define b where "b = drop 13 a"
  define c where "c = dropWhile js_white (drop (length (takeWhile js_digit b)) b)"
  define rest where "rest = dropWhile js_white (drop 3 c)"
  have "js_startsWith c (js ''-->'')" and n: "n = length s - length rest"
    using m by (auto simp: marker_match_def Let_def a_def b_def c_def rest_def split: if_splits)
  then have "take 3 c = [45, 45, 62]" by (simp add: js_startsWith_def js_def numeral_eq_Suc)
  then have c: "3 \<le> length c" by (metis length_take length_Cons list.size(3) min.bounded_iff numeral_3_eq_3 order_refl)
  have "length rest \<le> length c - 3" unfolding rest_def using length_dropWhile_le[of js_white "drop 3 c"] by simp
  moreover have "length c \<le> length b"
    unfolding c_def using length_dropWhile_le[of js_white "drop (length (takeWhile js_digit b)) b"] by simp
  moreover have "length b \<le> length a" by (simp add: b_def)
  moreover have "length a \<le> length s" unfolding a_def using length_dropWhile_le[of js_white "drop 4 s"] by simp
  ultimately show ?thesis using c n by linarith
qed

text \<open>The first marker of what is left, and the markers after it.\<close>

lemma page_markers_first:
  "page_markers i s = (j, n, ds) # ms \<Longrightarrow>
   i \<le> j \<and> 0 < n \<and> j + n - i \<le> length s \<and> ms = page_markers (j + n) (drop (j + n - i) s)"
proof (induction i s rule: page_markers.induct)
  case (2 i c cs)
  show ?case
  proof (cases "marker_match (c # cs)")
    case None
    then have "page_markers (Suc i) cs = (j, n, ds) # ms" using "2.prems" by simp
    note IH = "2.IH"(1)[OF None this]
    then have "j + n - i = Suc (j + n - Suc i)" by linarith
    then show ?thesis using IH by simp
  next
    case (Some dn)
    then obtain d' n' where dn: "dn = (d', n')" by force
    have n': "0 < n'" "n' \<le> Suc (length cs)" using marker_match_length[OF Some[unfolded dn]] by auto
    have "j = i" "n = n'" "ms = page_markers (i + max 1 n') (drop (n' - 1) cs)" using "2.prems" Some dn by auto
    then show ?thesis using n' by (cases n') auto
  qed
qed simp

lemma marked_texts_cover:
  "page_markers i (drop i content) = (j, n, ds) # ms \<Longrightarrow> i \<le> length content \<Longrightarrow>
   drop j content = concat (map2 (@) (map (\<lambda>(i, n, _). js_slice content i (i + n)) ((j, n, ds) # ms))
      (map snd (marked_texts content ((j, n, ds) # ms))))"
proof (induction ms arbitrary: i j n ds)
  case Nil
  note first = page_markers_first[OF Nil.prems(1)]
  have "drop j content = js_slice content j (j + n) @ drop (j + n) content"
    by (simp add: js_slice_def) (metis append_take_drop_id drop_drop add.commute)
  then show ?case by (simp add: js_slice_def)
next
  case (Cons m ms)
  obtain k l es where m: "m = (k, l, es)" by (cases m)
  note first = page_markers_first[OF Cons.prems(1)]
  have jn: "j + n \<le> length content" using first Cons.prems(2) by auto
  have "page_markers (j + n) (drop (j + n) content) = (k, l, es) # ms"
    using first Cons.prems(2) m by (simp add: add.commute)
  note IH = Cons.IH[OF this jn] and next_first = page_markers_first[OF this]
  have "drop j content = js_slice content j (j + n) @ js_slice content (j + n) k @ drop k content"
  proof -
    have "drop j content = take n (drop j content) @ drop (j + n) content"
      by (metis append_take_drop_id drop_drop add.commute)
    moreover have "drop (j + n) content = take (k - (j + n)) (drop (j + n) content) @ drop k content"
      using next_first by (metis append_take_drop_id drop_drop le_add_diff_inverse2)
    ultimately show ?thesis by (simp add: js_slice_def)
  qed
  then show ?case using IH m by simp
qed

lemma pages_cover:
  "content = unpaged_text content @ concat (map2 (@) (marker_texts content) (page_texts content))"
  "map snd (content_pages content) = map js_trim (page_texts content)"
proof -
  show "content = unpaged_text content @ concat (map2 (@) (marker_texts content) (page_texts content))"
  proof (cases "page_markers 0 content")
    case (Cons m ms)
    obtain j n ds where m: "m = (j, n, ds)" by (cases m)
    have "drop j content = concat (map2 (@) (map (\<lambda>(i, n, _). js_slice content i (i + n)) ((j, n, ds) # ms))
        (map snd (marked_texts content ((j, n, ds) # ms))))"
      using marked_texts_cover[of 0 content j n ds ms] Cons m by simp
    moreover have "content = take j content @ drop j content" by simp
    ultimately show ?thesis
      unfolding unpaged_text_def marker_texts_def page_texts_def Cons m list.case prod.case by argo
  qed (simp add: unpaged_text_def marker_texts_def page_texts_def)
  show "map snd (content_pages content) = map js_trim (page_texts content)"
    by (cases "page_markers 0 content")
       (simp_all add: content_pages_def page_texts_def Let_def comp_def case_prod_beta)
qed

end
