(* ===== verification/Review_Sections.thy ===== *)
theory Review_Sections
  imports Knowledge_Text
begin

section \<open>Review sections\<close>

text \<open>
  \<open>src/server/knowledge/review-sections.ts\<close> and \<open>candidate-schema.ts\<close>: the stable sections a
  reviewer decides on, their hashes, and the two gates over the decisions. The labels of the
  rendered texts are written as their UTF-16 code units.
\<close>

definition cn_publication :: js_string where "cn_publication = [20986, 29256, 21495, 65306]"
definition cn_title :: js_string where "cn_title = [26469, 28304, 39064, 21517, 65306]"
definition cn_record :: js_string where "cn_record = [23448, 26041, 35760, 24405, 65306]"
definition cn_authority :: js_string where "cn_authority = [23448, 26041, 26426, 26500, 65306]"
definition cn_locator :: js_string where "cn_locator = [23450, 20301, 65306]"
definition cn_semicolon :: js_string where "cn_semicolon = [65307]"
definition cn_page_url :: js_string where "cn_page_url = [23448, 26041, 39029, 38754, 65306]"
definition cn_section :: js_string where "cn_section = [26469, 28304, 31456, 33410, 65306]"
definition cn_pages :: js_string where "cn_pages = [26469, 28304, 39029, 30721, 65306]"
definition cn_dash :: js_string where "cn_dash = [8211]"
definition cn_excerpt_a :: js_string where "cn_excerpt_a = [21407, 25991, 25688, 24405, 65288, 21360, 21047, 39029, 32]"
definition cn_excerpt_b :: js_string where "cn_excerpt_b = [65289, 65306]"
definition cn_applies :: js_string where "cn_applies = [36866, 29992, 26465, 20214, 65306]"
definition cn_block :: js_string where "cn_block = [22359, 23457, 26680, 65306]"
definition cn_license :: js_string where "cn_license = [65307, 35768, 21487, 65306]"
definition cn_sha :: js_string where "cn_sha = [65307, 83, 72, 65, 45, 50, 53, 54, 65306]"
definition cn_keywords :: js_string where "cn_keywords = [20851, 38190, 35789, 65306]"
definition cn_comma :: js_string where "cn_comma = [12289]"

subsection \<open>Stable JSON text and its hash\<close>

text \<open>The properties of an object in the order JavaScript enumerates them: array indices first.\<close>

fun last_bindings :: "(string \<times> 'v) list \<Rightarrow> (string \<times> 'v) list" where
  "last_bindings [] = []"
| "last_bindings ((k, v) # b) =
     (case map_of (rev b) k of None \<Rightarrow> (k, v) | Some w \<Rightarrow> (k, w)) # filter (\<lambda>(n, _). n \<noteq> k) (last_bindings b)"

definition array_index :: "string \<Rightarrow> bool" where
  "array_index k \<longleftrightarrow> k = decimal (decimal_value k) \<and> decimal_value k < 4294967295"

definition enumerated :: "(string \<times> 'v) list \<Rightarrow> (string \<times> 'v) list" where
  "enumerated b = (let props = last_bindings b in
     sort_by (\<lambda>x y. decimal_value (fst x) \<le> decimal_value (fst y)) (filter (array_index \<circ> fst) props)
     @ filter (\<lambda>x. \<not> array_index (fst x)) props)"

primrec stableValue :: "(js_string \<Rightarrow> js_string \<Rightarrow> bool) \<Rightarrow> json \<Rightarrow> json" where
  "stableValue le JNull = JNull"
| "stableValue le (JBool b) = JBool b"
| "stableValue le (JNumber n) = JNumber n"
| "stableValue le (JReal r) = JReal r"
| "stableValue le (JString s) = JString s"
| "stableValue le (JArray xs) = JArray (map (stableValue le) xs)"
| "stableValue le (JObject kvs) =
     JObject (sort_by (\<lambda>x y. le (js (fst x)) (js (fst y))) (enumerated (map (map_prod id (stableValue le)) kvs)))"

definition hex_unit :: "nat \<Rightarrow> nat" where
  "hex_unit d = (if d < 10 then 48 + d else 87 + d)"

definition unicode_escape :: "nat \<Rightarrow> js_string" where
  "unicode_escape c = [92, 117, hex_unit (c div 4096), hex_unit (c div 256 mod 16), hex_unit (c div 16 mod 16),
     hex_unit (c mod 16)]"

definition json_escape :: "nat \<Rightarrow> js_string" where
  "json_escape c = (if c = 34 then [92, 34] else if c = 92 then [92, 92] else if c = 8 then [92, 98]
     else if c = 12 then [92, 102] else if c = 10 then [92, 110] else if c = 13 then [92, 114]
     else if c = 9 then [92, 116] else if c < 32 then unicode_escape c else [c])"

text \<open>A surrogate without a partner is escaped, a pair is written as it is.\<close>

definition json_quote :: "js_string \<Rightarrow> js_string" where
  "json_quote s = 34 # concat (map (\<lambda>p. case p of
       [c] \<Rightarrow> if high_surrogate c \<or> low_surrogate c then unicode_escape c else json_escape c
     | _ \<Rightarrow> p) (js_characters s)) @ [34]"

primrec json_stringify :: "json \<Rightarrow> js_string" where
  "json_stringify JNull = js ''null''"
| "json_stringify (JBool b) = (if b then js ''true'' else js ''false'')"
| "json_stringify (JNumber n) = js_int n"
| "json_stringify (JReal r) = js r"
| "json_stringify (JString s) = json_quote s"
| "json_stringify (JArray xs) = [91] @ js_join [44] (map json_stringify xs) @ [93]"
| "json_stringify (JObject kvs) = [123] @ js_join [44] (map (\<lambda>kt. json_quote (js (fst kt)) @ [58] @ snd kt)
     (enumerated (map (map_prod id json_stringify) kvs))) @ [125]"

definition sha256_of :: "kn_rules \<Rightarrow> json \<Rightarrow> js_string" where
  "sha256_of kr v = kr_sha kr (json_stringify (stableValue (kr_compare kr) v))"

definition knowledgeRightsSnapshotHash :: "kn_rules \<Rightarrow> jobject \<Rightarrow> js_string" where
  "knowledgeRightsSnapshotHash kr rights = sha256_of kr (JObject rights)"

definition knowledgeReviewSectionHash :: "kn_rules \<Rightarrow> 'a section_input_scheme \<Rightarrow> js_string" where
  "knowledgeReviewSectionHash kr s = sha256_of kr (JObject [
     (''sectionIndex'', JNumber (int (rs_index s))),
     (''contentZh'', JString (normalizeText (rs_contentZh s))),
     (''officialText'', JString (normalizeText (rs_officialText s))),
     (''pageStart'', jopt JNumber (rs_pageStart s)),
     (''pageEnd'', jopt JNumber (rs_pageEnd s)),
     (''rightsSnapshot'', JObject (rs_rights s))])"

subsection \<open>Building sections\<close>

definition review_section_of ::
  "kn_rules \<Rightarrow> nat \<Rightarrow> js_string \<Rightarrow> section_input \<Rightarrow> review_section" where
  "review_section_of kr versionId versionHash item = section_input.extend item
     (review_section.fields versionId versionHash (knowledgeReviewSectionHash kr item)
       (knowledgeRightsSnapshotHash kr (rs_rights item)))"

text \<open>The pages a caller gives: a start and an end, each of which may be missing.\<close>

type_synonym page_range = "int option \<times> int option"

definition page_at :: "page_range list \<Rightarrow> nat \<Rightarrow> page_range" where
  "page_at pages i = (if i < length pages then pages ! i else (None, None))"

definition buildKnowledgeReviewSections ::
  "kn_rules \<Rightarrow> nat \<Rightarrow> js_string \<Rightarrow> js_string \<Rightarrow> js_string \<Rightarrow> jobject \<Rightarrow> page_range list \<Rightarrow> review_section list" where
  "buildKnowledgeReviewSections kr versionId versionHash contentZh officialText rights pages =
     (let official = paragraphs officialText in
      map (\<lambda>(i, content). review_section_of kr versionId versionHash
        \<lparr>rs_index = i, rs_contentZh = content,
         rs_officialText = (if i < length official then official ! i else []),
         rs_pageStart = fst (page_at pages i), rs_pageEnd = snd (page_at pages i), rs_rights = rights\<rparr>)
      (List.enumerate 0 (paragraphs contentZh)))"

definition buildPageAwareKnowledgeReviewSections ::
  "kn_rules \<Rightarrow> nat \<Rightarrow> js_string \<Rightarrow> js_string \<Rightarrow> js_string \<Rightarrow> jobject \<Rightarrow> page_range list \<Rightarrow> review_section list" where
  "buildPageAwareKnowledgeReviewSections kr versionId versionHash contentZh officialText rights pages =
     (let official = pageParagraphs officialText in
      map (\<lambda>(i, content, page). review_section_of kr versionId versionHash
        \<lparr>rs_index = i, rs_contentZh = content,
         rs_officialText = (if i < length official then fst (official ! i) else content),
         rs_pageStart = (case page of Some p \<Rightarrow> Some p | None \<Rightarrow> fst (page_at pages i)),
         rs_pageEnd = (case page of Some p \<Rightarrow> Some p | None \<Rightarrow> snd (page_at pages i)), rs_rights = rights\<rparr>)
      (List.enumerate 0 (pageParagraphs contentZh)))"

subsection \<open>Candidates\<close>

record candidate_section =
  cs_pageStart :: "int option"
  cs_pageEnd :: "int option"
  cs_sourceSection :: "js_string option"
  cs_sectionPath :: "js_string list"
  cs_keywords :: "js_string list"
  cs_content :: js_string
  cs_excerptPage :: "int option"
  cs_excerpt :: "js_string option"
  cs_chinese :: "js_string option"
  cs_applicability :: "js_string option"
  cs_license :: "string option"
  cs_contentHash :: "js_string option"
  cs_reviewRequired :: bool

record knowledge_candidate =
  ca_sourceUrl :: js_string
  ca_externalKey :: js_string
  ca_title :: js_string
  ca_description :: js_string
  ca_language :: js_string
  ca_mimeType :: js_string
  ca_tags :: "js_string list"
  ca_citation :: jobject
  ca_requirements :: "js_string list"
  ca_sections :: "candidate_section list"

definition hasCompleteKnowledgeSectionAudit :: "candidate_section \<Rightarrow> bool" where
  "hasCompleteKnowledgeSectionAudit s \<longleftrightarrow> cs_excerptPage s \<noteq> None \<and> cs_excerpt s \<noteq> None \<and> cs_chinese s \<noteq> None
     \<and> cs_applicability s \<noteq> None \<and> cs_license s \<noteq> None \<and> cs_contentHash s \<noteq> None \<and> cs_reviewRequired s"

definition opt_text :: "js_string option \<Rightarrow> js_string" where
  "opt_text v = (case v of None \<Rightarrow> [] | Some s \<Rightarrow> s)"

text \<open>\<open>${section.pageStart}\<close> and the like, of a value that is there.\<close>

definition opt_int :: "int option \<Rightarrow> js_string" where
  "opt_int v = (case v of None \<Rightarrow> js ''undefined'' | Some n \<Rightarrow> js_int n)"

definition renderCandidateSection :: "candidate_section \<Rightarrow> js_string" where
  "renderCandidateSection s =
     (let marker = (case cs_pageStart s of None \<Rightarrow> []
            | Some p \<Rightarrow> js ''<!-- openvac-page:'' @ js_int p @ js '' -->'' @ [10]);
          pageRange = (case cs_pageStart s of None \<Rightarrow> []
            | Some p \<Rightarrow> [10, 10] @ cn_pages @ js_int p
                @ (case cs_pageEnd s of None \<Rightarrow> [] | Some e \<Rightarrow> if e \<noteq> 0 \<and> e \<noteq> p then cn_dash @ js_int e else []));
          sourceSection = (case cs_sourceSection s of None \<Rightarrow> []
            | Some t \<Rightarrow> if t = [] then [] else [10, 10] @ cn_section @ t);
          audit = (if hasCompleteKnowledgeSectionAudit s
            then [10, 10] @ cn_excerpt_a @ opt_int (cs_excerptPage s) @ cn_excerpt_b @ opt_text (cs_excerpt s)
              @ [10, 10] @ cn_applies @ opt_text (cs_applicability s)
              @ [10, 10] @ cn_block @ js ''required'' @ cn_license
              @ js (case cs_license s of None \<Rightarrow> [] | Some l \<Rightarrow> l) @ cn_sha @ opt_text (cs_contentHash s)
            else [])
      in marker @ js ''# '' @ js_join (js '' > '') (cs_sectionPath s) @ [10, 10]
         @ (case cs_chinese s of Some t \<Rightarrow> t | None \<Rightarrow> cs_content s) @ pageRange @ sourceSection @ audit
         @ [10, 10] @ cn_keywords @ js_join cn_comma (cs_keywords s))"

definition renderKnowledgeCandidate :: "knowledge_candidate \<Rightarrow> js_string" where
  "renderKnowledgeCandidate c = js_join [10, 10] (map renderCandidateSection (ca_sections c))"

text \<open>\<open>String(value)\<close> and truth of a JSON value.\<close>

primrec js_to_string :: "json \<Rightarrow> js_string" where
  "js_to_string JNull = js ''null''"
| "js_to_string (JBool b) = (if b then js ''true'' else js ''false'')"
| "js_to_string (JNumber n) = js_int n"
| "js_to_string (JReal r) = js r"
| "js_to_string (JString s) = s"
| "js_to_string (JArray xs) =
     js_join [44] (map (\<lambda>xt. if fst xt = JNull then [] else snd xt) (map (\<lambda>x. (x, js_to_string x)) xs))"
| "js_to_string (JObject kvs) = js ''[object Object]''"

definition js_truthy :: "json option \<Rightarrow> bool" where
  "js_truthy v = (case v of None \<Rightarrow> False | Some JNull \<Rightarrow> False | Some (JBool b) \<Rightarrow> b
     | Some (JNumber n) \<Rightarrow> n \<noteq> 0 | Some (JString s) \<Rightarrow> s \<noteq> [] | _ \<Rightarrow> True)"

definition labelled :: "js_string \<Rightarrow> json option \<Rightarrow> js_string list" where
  "labelled label v = (case v of Some j \<Rightarrow> if js_truthy v then [label @ js_to_string j] else [] | None \<Rightarrow> [])"

definition metadata_evidence :: "jobject \<Rightarrow> js_string" where
  "metadata_evidence citation = js_join [10]
     (labelled cn_publication (jget ''publicationNumber'' citation)
      @ labelled cn_title (jget ''title'' citation)
      @ (if js_truthy (jget ''officialRecordUrl'' citation) then labelled cn_record (jget ''officialRecordUrl'' citation)
         else labelled cn_authority (jget ''primaryAuthorityUrl'' citation))
      @ (case jget ''claimLocators'' citation of
           Some (JArray xs) \<Rightarrow> [cn_locator @ js_join cn_semicolon (map js_to_string xs)]
         | _ \<Rightarrow> []))"

definition candidate_item :: "knowledge_candidate \<Rightarrow> jobject \<Rightarrow> nat \<Rightarrow> candidate_section \<Rightarrow> (kn_error, section_input) result" where
  "candidate_item c rights i s =
     (let complete = hasCompleteKnowledgeSectionAudit s;
          metadataOnly = (ingestion_mode (ca_citation c) = metadata_only);
          locator = (case cs_sourceSection s of None \<Rightarrow> [] | Some t \<Rightarrow> js_trim t);
          evidence = (if locator \<noteq> [] then cn_page_url @ ca_sourceUrl c @ [10] @ cn_section @ locator
                      else metadata_evidence (ca_citation c))
      in if \<not> complete \<and> \<not> metadataOnly \<and> locator = []
         then Inl (ApiError 409 ''KNOWLEDGE_REVIEW_EVIDENCE_INCOMPLETE'')
         else Inr \<lparr>rs_index = i,
           rs_contentZh = (if complete then opt_text (cs_chinese s) else cs_content s),
           rs_officialText = (if complete then opt_text (cs_excerpt s) else evidence),
           rs_pageStart = (if complete then cs_excerptPage s else None),
           rs_pageEnd = (if complete then cs_excerptPage s else None), rs_rights = rights\<rparr>)"

definition buildCandidateKnowledgeReviewSections ::
  "kn_rules \<Rightarrow> knowledge_candidate \<Rightarrow> nat \<Rightarrow> js_string \<Rightarrow> jobject \<Rightarrow> (kn_error, review_section list) result" where
  "buildCandidateKnowledgeReviewSections kr c versionId versionHash rights =
     foldR (\<lambda>(i, s) acc. bindR (candidate_item c rights i s) (\<lambda>item.
         Inr (acc @ [review_section_of kr versionId versionHash item])))
       (List.enumerate 0 (ca_sections c)) []"

subsection \<open>The gates over the decisions\<close>

record section_choice =
  ch_decision :: section_decision
  ch_sectionHash :: js_string
  ch_reviewer :: js_string

definition conflict :: "string \<Rightarrow> (kn_error, 'a) result" where
  "conflict code = Inl (ApiError 409 code)"

definition assert_section ::
  "kn_rules \<Rightarrow> nat \<Rightarrow> js_string \<Rightarrow> js_string option \<Rightarrow> js_string \<Rightarrow> section_row \<times> section_choice option \<Rightarrow>
   (kn_error, unit) result" where
  "assert_section kr versionId versionHash createdBy rightsHash sc = (case sc of (s, choice) \<Rightarrow>
     if rs_version s \<noteq> versionId \<or> rs_versionHash s \<noteq> versionHash
        \<or> rs_hash s \<noteq> knowledgeReviewSectionHash kr s
     then conflict ''KNOWLEDGE_SECTION_CHANGED''
     else if rs_rightsHash s \<noteq> rightsHash then conflict ''KNOWLEDGE_SOURCE_RIGHTS_CHANGED''
     else (case choice of
         None \<Rightarrow> conflict ''KNOWLEDGE_SECTIONS_NOT_APPROVED''
       | Some d \<Rightarrow>
           if ch_decision d \<noteq> SecApproved \<or> ch_sectionHash d \<noteq> rs_hash s
           then conflict ''KNOWLEDGE_SECTIONS_NOT_APPROVED''
           else if (case createdBy of None \<Rightarrow> False | Some u \<Rightarrow> u \<noteq> [] \<and> ch_reviewer d = u)
           then conflict ''KNOWLEDGE_SELF_REVIEW_FORBIDDEN'' else Inr ()))"

definition assertKnowledgeSectionPublicationReady ::
  "kn_rules \<Rightarrow> nat \<Rightarrow> js_string \<Rightarrow> js_string option \<Rightarrow> jobject \<Rightarrow> (section_row \<times> section_choice option) list \<Rightarrow>
   (kn_error, unit) result" where
  "assertKnowledgeSectionPublicationReady kr versionId versionHash createdBy rights sections =
     (if jget ''status'' rights \<noteq> Some (JString (js ''approved'')) then conflict ''KNOWLEDGE_SOURCE_RIGHTS_INVALID''
      else if sections = [] then conflict ''KNOWLEDGE_REVIEW_SECTIONS_MISSING''
      else foldR (\<lambda>sc _. assert_section kr versionId versionHash createdBy (knowledgeRightsSnapshotHash kr rights) sc)
             sections ())"

definition assertKnowledgeSectionReviewComplete ::
  "kn_rules \<Rightarrow> nat \<Rightarrow> nat \<Rightarrow> js_string \<Rightarrow> js_string \<Rightarrow> js_string option \<Rightarrow> js_string \<Rightarrow> jobject \<Rightarrow>
   (section_row \<times> section_choice option) list \<Rightarrow> (kn_error, unit) result" where
  "assertKnowledgeSectionReviewComplete kr versionId currentVersionId versionHash expectedHash createdBy reviewer
     rights sections =
     (if createdBy = Some reviewer \<and> reviewer \<noteq> [] then conflict ''KNOWLEDGE_SELF_REVIEW_FORBIDDEN''
      else if versionId \<noteq> currentVersionId then conflict ''KNOWLEDGE_VERSION_CHANGED''
      else if versionHash \<noteq> expectedHash then conflict ''KNOWLEDGE_CONTENT_CHANGED''
      else if jget ''status'' rights \<noteq> Some (JString (js ''approved'')) then conflict ''KNOWLEDGE_SOURCE_RIGHTS_INVALID''
      else if sections = [] then conflict ''KNOWLEDGE_REVIEW_SECTIONS_MISSING''
      else bindR (assertKnowledgeSectionPublicationReady kr versionId versionHash createdBy rights sections) (\<lambda>_.
        if list_ex (\<lambda>(_, choice). case (createdBy, choice) of
             (Some u, Some d) \<Rightarrow> u \<noteq> [] \<and> ch_reviewer d = u | _ \<Rightarrow> False) sections
        then conflict ''KNOWLEDGE_SELF_REVIEW_FORBIDDEN'' else Inr ()))"

subsection \<open>What the gates promise\<close>

text \<open>A section that was approved as it is, for this version and these rights, by another person.\<close>

definition section_approved ::
  "kn_rules \<Rightarrow> nat \<Rightarrow> js_string \<Rightarrow> js_string option \<Rightarrow> js_string \<Rightarrow> section_row \<times> section_choice option \<Rightarrow> bool" where
  "section_approved kr versionId versionHash createdBy rightsHash sc \<longleftrightarrow>
     rs_version (fst sc) = versionId \<and> rs_versionHash (fst sc) = versionHash
     \<and> rs_hash (fst sc) = knowledgeReviewSectionHash kr (fst sc) \<and> rs_rightsHash (fst sc) = rightsHash
     \<and> (\<exists>d. snd sc = Some d \<and> ch_decision d = SecApproved \<and> ch_sectionHash d = rs_hash (fst sc)
          \<and> (\<forall>u. createdBy = Some u \<longrightarrow> u \<noteq> [] \<longrightarrow> ch_reviewer d \<noteq> u))"

lemma assert_section_iff:
  "assert_section kr v h c r sc = Inr () \<longleftrightarrow> section_approved kr v h c r sc"
  by (cases sc) (auto simp: assert_section_def section_approved_def conflict_def split: option.splits)

lemma foldR_unit: "foldR (\<lambda>x _. f x) xs () = Inr () \<longleftrightarrow> (\<forall>x\<in>set xs. f x = Inr ())"
  by (induction xs) (auto simp: bindR_eq_Inr)

lemma publication_ready_iff:
  "assertKnowledgeSectionPublicationReady kr v h c rights sections = Inr () \<longleftrightarrow>
   jget ''status'' rights = Some (JString (js ''approved'')) \<and> sections \<noteq> []
   \<and> (\<forall>sc\<in>set sections. section_approved kr v h c (knowledgeRightsSnapshotHash kr rights) sc)"
  by (auto simp: assertKnowledgeSectionPublicationReady_def conflict_def foldR_unit assert_section_iff)

end
