(* ===== verification/Knowledge_Queue.thy ===== *)
theory Knowledge_Queue
  imports Review_Sections Lease_Queue
begin

section \<open>The knowledge ingestion queue\<close>

text \<open>
  \<open>PostgresKnowledgeIngestionRepository\<close> of \<open>src/worker/postgres-repository.ts\<close>: claiming and
  settling ingestion tasks, storing a parsed document for review, loading approved content and
  storing its embeddings, which publishes a version that the automation has approved twice.
\<close>

subsection \<open>Jobs\<close>

record ingestion_job =
  kj_id :: nat
  kj_worker :: string
  kj_token :: nat
  kj_attempts :: int
  kj_maxAttempts :: int
  kj_payload :: jobject

definition job_ref :: "ingestion_job \<Rightarrow> lease_ref" where
  "job_ref j = \<lparr>lr_row = kj_id j, lr_worker = kj_worker j, lr_token = kj_token j\<rparr>"

definition task_lease :: "task_row \<Rightarrow> (string \<times> nat) option" where
  "task_lease t = (if bt_status t = OpRunning then
     (case (bt_lockedBy t, bt_lease t) of (Some w, Some k) \<Rightarrow> Some (w, k) | _ \<Rightarrow> None) else None)"

definition task_mine :: "ingestion_job \<Rightarrow> task_row \<Rightarrow> bool" where
  "task_mine j t \<longleftrightarrow> bt_id t = kj_id j \<and> task_lease t = Some (kj_worker j, kj_token j)"

definition job_field :: "string \<Rightarrow> ingestion_job \<Rightarrow> js_string option" where
  "job_field k j = jstring (jget k (kj_payload j))"

text \<open>\<open>payload.review\<close>, an object when it is there.\<close>

definition job_review :: "ingestion_job \<Rightarrow> jobject option" where
  "job_review j = (case jget ''review'' (kj_payload j) of Some (JObject r) \<Rightarrow> Some r | _ \<Rightarrow> None)"

definition stage_names :: "string list" where
  "stage_names = [''ocr_pending'', ''ocr_processing'', ''review_required'', ''embedding_pending'',
     ''embedding_processing'', ''completed'']"

definition isStage :: "js_string \<Rightarrow> bool" where
  "isStage s \<longleftrightarrow> s \<in> set (map js stage_names)"

definition parseJob :: "task_row \<Rightarrow> string \<Rightarrow> nat \<Rightarrow> (kn_error, ingestion_job) result" where
  "parseJob t worker tok = (
     case (jstring (jget ''documentId'' (bt_payload t)), jstring (jget ''versionId'' (bt_payload t)),
           jstring (jget ''stage'' (bt_payload t))) of
       (Some _, Some _, Some stage) \<Rightarrow>
         if isStage stage then Inr \<lparr>kj_id = bt_id t, kj_worker = worker, kj_token = tok,
              kj_attempts = bt_attempts t, kj_maxAttempts = bt_maxAttempts t, kj_payload = bt_payload t\<rparr>
         else Inl (PlainError ''Malformed knowledge_ingestion background task payload.'')
     | _ \<Rightarrow> Inl (PlainError ''Malformed knowledge_ingestion background task payload.''))"

definition safe_error :: "kn_rules \<Rightarrow> kn_error \<Rightarrow> js_string" where
  "safe_error kr e = js_slice (kr_error_text kr e) 0 2000"

subsection \<open>Claiming\<close>

definition ingestion_type :: string where "ingestion_type = ''knowledge_ingestion''"

definition task_due :: "timestamp \<Rightarrow> task_row \<Rightarrow> bool" where
  "task_due n t \<longleftrightarrow> bt_type t = ingestion_type
     \<and> ((bt_status t = OpQueued \<and> bt_runAt t \<le> n)
        \<or> (bt_status t = OpRunning \<and> (case bt_lockedAt t of None \<Rightarrow> False | Some at \<Rightarrow> at < n - 900000)))"

text \<open>\<open>ORDER BY priority DESC, run_at ASC, created_at ASC\<close>.\<close>

definition task_before :: "task_row \<Rightarrow> task_row \<Rightarrow> bool" where
  "task_before a b \<longleftrightarrow> bt_priority b < bt_priority a
     \<or> (bt_priority a = bt_priority b \<and> (bt_runAt a < bt_runAt b
        \<or> (bt_runAt a = bt_runAt b \<and> bt_createdAt a \<le> bt_createdAt b)))"

definition claim_task :: "string \<Rightarrow> kn_db \<Rightarrow> task_row \<Rightarrow> task_row" where
  "claim_task worker db t = t\<lparr>bt_status := OpRunning, bt_attempts := bt_attempts t + 1,
     bt_lockedAt := Some (kn_now db), bt_lockedBy := Some worker, bt_lease := Some (kn_next db),
     bt_updatedAt := kn_now db\<rparr>"

definition unlock_task :: "kn_db \<Rightarrow> task_row \<Rightarrow> task_row" where
  "unlock_task db t = t\<lparr>bt_lockedAt := None, bt_lockedBy := None, bt_lease := None, bt_updatedAt := kn_now db\<rparr>"

text \<open>\<open>locked\<close> are the rows that other transactions hold (\<open>FOR UPDATE SKIP LOCKED\<close>).\<close>

definition claimNext ::
  "kn_rules \<Rightarrow> string \<Rightarrow> nat set \<Rightarrow> kn_db \<Rightarrow> (kn_error, ingestion_job option) result \<times> kn_db" where
  "claimNext kr worker locked db =
     (case sort_by task_before (filter (\<lambda>t. task_due (kn_now db) t \<and> bt_id t \<notin> locked) (kn_tasks db)) of
        [] \<Rightarrow> (Inr None, db)
      | t # _ \<Rightarrow>
          let db' = db\<lparr>kn_tasks := update_where (\<lambda>x. bt_id x = bt_id t) (claim_task worker db) (kn_tasks db),
                kn_next := kn_next db + 1\<rparr>
          in case parseJob (claim_task worker db t) worker (kn_next db) of
               Inr j \<Rightarrow> (Inr (Some j), db')
             | Inl e \<Rightarrow> (Inr None, db'\<lparr>kn_tasks := update_where
                   (\<lambda>x. bt_id x = bt_id t \<and> bt_lockedBy x = Some worker \<and> bt_lease x = Some (kn_next db))
                   (\<lambda>x. unlock_task db (x\<lparr>bt_status := OpFailed, bt_lastError := Some (safe_error kr e),
                      bt_completedAt := Some (kn_now db)\<rparr>)) (kn_tasks db')\<rparr>))"

subsection \<open>Settling\<close>

text \<open>Every settlement names the row, the worker and the token, and throws when no row matches.\<close>

definition update_task ::
  "ingestion_job \<Rightarrow> (task_row \<Rightarrow> task_row) \<Rightarrow> kn_db \<Rightarrow> (kn_error, kn_db) result" where
  "update_task j f db = (if list_ex (task_mine j) (kn_tasks db)
     then Inr (db\<lparr>kn_tasks := update_where (task_mine j) f (kn_tasks db)\<rparr>) else Inl (StaleLease (kj_id j)))"

definition assertCurrentLease :: "ingestion_job \<Rightarrow> kn_db \<Rightarrow> (kn_error, unit) result" where
  "assertCurrentLease j db = (if list_ex (task_mine j) (kn_tasks db) then Inr () else Inl (StaleLease (kj_id j)))"

definition renewLease :: "ingestion_job \<Rightarrow> kn_db \<Rightarrow> (kn_error, kn_db) result" where
  "renewLease j db = update_task j (\<lambda>t. t\<lparr>bt_lockedAt := Some (kn_now db), bt_updatedAt := kn_now db\<rparr>) db"

definition requeue :: "ingestion_job \<Rightarrow> timestamp \<Rightarrow> jobject \<Rightarrow> kn_db \<Rightarrow> (kn_error, kn_db) result" where
  "requeue j retryAt payload db = update_task j (\<lambda>t. unlock_task db (t\<lparr>bt_status := OpQueued,
     bt_attempts := max (bt_attempts t - 1) 0, bt_payload := payload, bt_runAt := retryAt\<rparr>)) db"

definition markOcrSubmitted ::
  "kn_rules \<Rightarrow> ingestion_job \<Rightarrow> js_string \<Rightarrow> timestamp \<Rightarrow> kn_db \<Rightarrow> (kn_error, kn_db) result" where
  "markOcrSubmitted kr j parserJobId retryAt db = requeue j retryAt (kj_payload j @
     [(''stage'', JString (js ''ocr_processing'')), (''parserJobId'', JString parserJobId),
      (''parserSubmittedAt'', JString (kr_iso kr (kn_now db))), (''parserPollCount'', JNumber 0)]) db"

definition poll_count :: "ingestion_job \<Rightarrow> int" where
  "poll_count j = (case jget ''parserPollCount'' (kj_payload j) of Some (JNumber n) \<Rightarrow> n | _ \<Rightarrow> 0)"

definition deferOcrPoll :: "ingestion_job \<Rightarrow> timestamp \<Rightarrow> kn_db \<Rightarrow> (kn_error, kn_db) result" where
  "deferOcrPoll j retryAt db = requeue j retryAt (kj_payload j @
     [(''stage'', JString (js ''ocr_processing'')), (''parserPollCount'', JNumber (poll_count j + 1))]) db"

definition succeed_task :: "kn_db \<Rightarrow> jobject \<Rightarrow> task_row \<Rightarrow> task_row" where
  "succeed_task db result t = unlock_task db (t\<lparr>bt_status := OpSucceeded, bt_result := Some result,
     bt_completedAt := Some (kn_now db)\<rparr>)"

definition payload_value :: "string \<Rightarrow> ingestion_job \<Rightarrow> json" where
  "payload_value k j = (case jget k (kj_payload j) of None \<Rightarrow> JNull | Some v \<Rightarrow> v)"

definition markReviewRequired :: "ingestion_job \<Rightarrow> js_string \<Rightarrow> kn_db \<Rightarrow> (kn_error, kn_db) result" where
  "markReviewRequired j reason db = update_task j (succeed_task db
     [(''stage'', JString (js ''review_required'')), (''documentId'', payload_value ''documentId'' j),
      (''versionId'', payload_value ''versionId'' j), (''manualReviewRequired'', JBool True),
      (''reason'', JString reason)]) db"

definition terminal_failure :: "ingestion_job \<Rightarrow> kn_error \<Rightarrow> bool" where
  "terminal_failure j e \<longleftrightarrow> kj_maxAttempts j \<le> kj_attempts j
     \<or> (case e of ProviderError retryable _ \<Rightarrow> \<not> retryable | _ \<Rightarrow> False)"

definition markFailed ::
  "kn_rules \<Rightarrow> ingestion_job \<Rightarrow> kn_error \<Rightarrow> timestamp \<Rightarrow> kn_db \<Rightarrow> (kn_error, kn_db) result" where
  "markFailed kr j e retryAt db = update_task j (\<lambda>t. unlock_task db (t\<lparr>
     bt_status := (if terminal_failure j e then OpFailed else OpQueued), bt_runAt := retryAt,
     bt_lastError := Some (safe_error kr e),
     bt_completedAt := (if terminal_failure j e then Some (kn_now db) else None)\<rparr>)) db"

subsection \<open>A parsed document goes to review\<close>

text \<open>The version a job is for, while it is its document's current version, with the source.\<close>

definition current_target ::
  "js_string option \<Rightarrow> js_string option \<Rightarrow> kn_db \<Rightarrow> (version_row \<times> document_row \<times> source_row option) option" where
  "current_target versionId documentId db = (
     case find (\<lambda>v. Some (id_text (kv_id v)) = versionId \<and> Some (id_text (kv_document v)) = documentId) (kn_versions db) of
       None \<Rightarrow> None
     | Some v \<Rightarrow> (case lookup kd_id (kv_document v) (kn_documents db) of
         None \<Rightarrow> None
       | Some d \<Rightarrow> if kd_current d = Some (kv_id v)
           then Some (v, d, Option.bind (kd_source d) (\<lambda>i. lookup ks_id i (kn_sources db))) else None))"

definition rights_snapshot :: "source_row \<Rightarrow> jobject" where
  "rights_snapshot s = recordValue (jget ''rightsDecision'' (ks_metadata s)) @
     [(''status'', JString (js ''approved'')), (''sourceId'', JString (id_text (ks_id s))),
      (''canonicalUrl'', jopt JString (ks_canonicalUrl s)), (''sourceTier'', JString (js (tier_text (ks_tier s)))),
      (''publisher'', jopt JString (ks_publisher s))]"

definition pending_snapshot :: "jobject \<Rightarrow> jobject" where
  "pending_snapshot citation =
     [(''status'', JString (js ''pending'')), (''decision'', JString (js ''needs_human'')),
      (''basis'', JString (js ''uploaded_original_without_governed_source'')), (''sourceId'', JNull),
      (''canonicalUrl'', jopt JString (jstring (jget ''sourceUrl'' citation))), (''sourceTier'', JNull),
      (''publisher'', JNull)]"

text \<open>One page range for each paragraph of each parsed page.\<close>

definition parsed_pages :: "parsed_document \<Rightarrow> page_range list" where
  "parsed_pages parsed = concat (map (\<lambda>(i, p). case pp_markdown p of
       None \<Rightarrow> []
     | Some m \<Rightarrow> (let n = (case pp_number p of None \<Rightarrow> int i + 1 | Some k \<Rightarrow> k)
         in map (\<lambda>_. (Some n, Some n)) (filter (\<lambda>t. t \<noteq> []) (map js_trim (js_split_by blank_lines m)))))
     (List.enumerate 0 (pd_pages parsed)))"

text \<open>The check constraints of \<open>knowledge_review_section\<close>.\<close>

definition section_check :: "'a review_section_scheme \<Rightarrow> bool" where
  "section_check s \<longleftrightarrow> (case rs_pageStart s of None \<Rightarrow> True | Some p \<Rightarrow> 0 < p)
     \<and> (case (rs_pageStart s, rs_pageEnd s) of (Some p, Some e) \<Rightarrow> p \<le> e | _ \<Rightarrow> True)
     \<and> sha256_hex (rs_hash s) \<and> sha256_hex (rs_rightsHash s) \<and> sha256_hex (rs_versionHash s)"

definition stored_section :: "nat \<Rightarrow> review_section \<Rightarrow> section_row" where
  "stored_section i s = review_section.extend s (section_row.fields i)"

definition insert_sections :: "review_section list \<Rightarrow> kn_db \<Rightarrow> (kn_error, kn_db) result" where
  "insert_sections ss db = (if \<not> list_all section_check ss then Inl (DbViolation ''knowledge_review_section'')
     else Inr (db\<lparr>kn_sections := kn_sections db @ map (\<lambda>(i, s). stored_section (kn_next db + i) s) (List.enumerate 0 ss),
            kn_next := kn_next db + length ss\<rparr>))"

text \<open>Deleting the sections of a version deletes their decisions.\<close>

definition delete_sections :: "nat \<Rightarrow> kn_db \<Rightarrow> kn_db" where
  "delete_sections versionId db =
     db\<lparr>kn_sections := filter (\<lambda>s. rs_version s \<noteq> versionId) (kn_sections db),
        kn_decisions := filter (\<lambda>d. \<not> list_ex (\<lambda>s. rs_id s = sd_section d \<and> rs_version s = versionId)
          (kn_sections db)) (kn_decisions db)\<rparr>"

definition queued_run :: "review_phase \<Rightarrow> nat \<Rightarrow> js_string \<Rightarrow> js_string \<Rightarrow> kn_db \<Rightarrow> review_run" where
  "queued_run phase versionId hash model db = \<lparr>rr_id = kn_next db, rr_phase = phase, rr_status = RevQueued,
     rr_inputVersion = versionId, rr_inputHash = hash, rr_model = model, rr_prompt = js automation_policy,
     rr_risk = None, rr_report = None, rr_decision = None, rr_tokenHash = None, rr_leaseExpiresAt = None,
     rr_attempts = 0, rr_revised = None, rr_completedAt = None, rr_createdAt = kn_now db, rr_updatedAt = kn_now db\<rparr>"

text \<open>The unique index of runs: one per version, content hash, prompt version and phase.\<close>

definition same_run :: "review_run \<Rightarrow> review_run \<Rightarrow> bool" where
  "same_run r q \<longleftrightarrow> rr_inputVersion r = rr_inputVersion q \<and> rr_inputHash r = rr_inputHash q
     \<and> rr_prompt r = rr_prompt q \<and> rr_phase r = rr_phase q"

definition queue_run :: "review_phase \<Rightarrow> nat \<Rightarrow> js_string \<Rightarrow> js_string \<Rightarrow> kn_db \<Rightarrow> kn_db" where
  "queue_run phase versionId hash model db = (let r = queued_run phase versionId hash model db
     in if list_ex (same_run r) (kn_runs db) then db
        else db\<lparr>kn_runs := kn_runs db @ [r], kn_next := kn_next db + 1\<rparr>)"

definition saveParsedForReview ::
  "kn_rules \<Rightarrow> ingestion_job \<Rightarrow> parsed_document \<Rightarrow> js_string \<Rightarrow> kn_db \<Rightarrow> (kn_error, kn_db) result" where
  "saveParsedForReview kr j parsed content db =
     (let hash = kr_sha kr content in
      bindR (assertCurrentLease j db) (\<lambda>_.
      case current_target (job_field ''versionId'' j) (job_field ''documentId'' j) db of
        None \<Rightarrow> Inl (PlainError ''OCR target knowledge version no longer exists.'')
      | Some (v, d, src) \<Rightarrow>
          bindR (if src = None then Inr () else assertKnowledgeSourceAuthorized kr src (kv_citation v)) (\<lambda>_.
          let rights = (case src of Some s \<Rightarrow> rights_snapshot s | None \<Rightarrow> pending_snapshot (kv_citation v));
              official = (case jstring (jget ''officialText'' (kv_citation v)) of Some t \<Rightarrow> t | None \<Rightarrow> content);
              ss = buildPageAwareKnowledgeReviewSections kr (kv_id v) hash content official rights (parsed_pages parsed)
          in if ss = [] then Inl (PlainError ''OCR output contains no reviewable paragraphs.'')
             else
               bindR (update_version (\<lambda>x. kv_id x = kv_id v \<and> kv_document x = kd_id d)
                 (\<lambda>x. x\<lparr>kv_content := content, kv_hash := Some hash,
                    kv_parserVersion := Some (js ''alibaba-docmind-vlm''), kv_status := KnReview,
                    kv_metadata := jdelete ''review'' (kv_metadata x) @
                      [(''reviewStatus'', JString (js ''required'')),
                       (''embeddingStatus'', JString (js ''pending_review'')),
                       (''parserJobId'', JString (js (pd_job parsed))),
                       (''parsedPageCount'', JNumber (int (length (pd_pages parsed))))]\<rparr>)
                 (PlainError ''OCR target knowledge version no longer exists.'') db) (\<lambda>db1.
               bindR (update_document (\<lambda>x. kd_id x = kd_id d \<and> kd_current x = Some (kv_id v))
                 (\<lambda>x. x\<lparr>kd_status := KnReview\<rparr>) (PlainError ''OCR target is no longer the current draft.'') db1) (\<lambda>db2.
               bindR (insert_sections ss (delete_sections (kv_id v) db2)) (\<lambda>db3.
               update_task j (succeed_task db
                 [(''stage'', JString (js ''review_required'')), (''documentId'', payload_value ''documentId'' j),
                  (''versionId'', payload_value ''versionId'' j), (''parserJobId'', JString (js (pd_job parsed))),
                  (''contentHash'', JString hash), (''reviewSectionCount'', JNumber (int (length ss))),
                  (''manualReviewRequired'', JBool True)])
                 (queue_run PhaseInitial (kv_id v) hash (js review_model) db3)))))))"

subsection \<open>Approved content and its embeddings\<close>

definition loadApprovedContent :: "kn_rules \<Rightarrow> ingestion_job \<Rightarrow> kn_db \<Rightarrow> (kn_error, js_string option) result" where
  "loadApprovedContent kr j db =
     bindR (assertCurrentLease j db) (\<lambda>_.
       let hash = Option.bind (job_review j) (\<lambda>r. jstring (jget ''contentHash'' r)) in
       case current_target (job_field ''versionId'' j) (job_field ''documentId'' j) db of
         Some (v, d, Some s) \<Rightarrow>
           let review = recordValue (jget ''review'' (kv_metadata v)) in
           if kv_status v = KnReview \<and> kd_status d = KnReview \<and> hash \<noteq> None \<and> kv_hash v = hash
              \<and> jtext_is ''reviewStatus'' ''approved'' (kv_metadata v)
              \<and> jtext_is ''status'' ''approved'' review
              \<and> jstring (jget ''contentHash'' review) = hash
              \<and> jtext_is ''ingestionMode'' ''full_text'' (kv_citation v)
              \<and> assertKnowledgeSourceAuthorized kr (Some s) (kv_citation v) = Inr ()
           then Inr (Some (kv_content v)) else Inr None
       | _ \<Rightarrow> Inr None)"

text \<open>
  The review a job needs before embeddings are made or stored: approved, by someone, at a valid
  date, for a SHA-256 hash. A review without \<open>reviewedBy\<close> makes \<open>trim\<close> throw.
\<close>

definition review_valid :: "kn_rules \<Rightarrow> ingestion_job \<Rightarrow> (kn_error, bool) result" where
  "review_valid kr j = (case job_review j of
     None \<Rightarrow> Inr False
   | Some r \<Rightarrow>
       if jget ''status'' r \<noteq> Some (JString (js ''approved'')) then Inr False
       else (case jstring (jget ''reviewedBy'' r) of
         None \<Rightarrow> Inl (PlainError ''TypeError'')
       | Some by \<Rightarrow> Inr (js_trim by \<noteq> []
           \<and> Option.bind (jstring (jget ''reviewedAt'' r)) (kr_date kr) \<noteq> None
           \<and> (case jstring (jget ''contentHash'' r) of None \<Rightarrow> False | Some h \<Rightarrow> sha256_hex h))))"

record embedded_chunk = knowledge_chunk +
  em_embedding :: "js_number list"
  em_model :: js_string
  em_metadata :: jobject

definition isAutomationPublicationReady :: "kn_rules \<Rightarrow> ingestion_job \<Rightarrow> jobject \<Rightarrow> kn_db \<Rightarrow> bool" where
  "isAutomationPublicationReady kr j review db =
     (let first = jstring (jget ''initialRunId'' review); second = jstring (jget ''verifyRunId'' review);
          hash = jstring (jget ''contentHash'' review)
      in if jget ''policyVersion'' review \<noteq> Some (JString (js automation_policy))
            \<or> jget ''risk'' review \<noteq> Some (JString (js ''low''))
            \<or> first = None \<or> first = Some [] \<or> second = None \<or> second = Some [] \<or> first = second
         then False
         else case current_target (job_field ''versionId'' j) (job_field ''documentId'' j) db of
           Some (v, d, Some s) \<Rightarrow>
             hash \<noteq> None \<and> kv_hash v = hash \<and> kv_status v = KnReview \<and> kd_status d = KnReview
             \<and> source_publishable kr (Some s) (kv_citation v)
             \<and> (let rows = sort_by (\<lambda>a b. rr_createdAt a \<le> rr_createdAt b) (filter (\<lambda>r.
                      (Some (id_text (rr_id r)) = first \<or> Some (id_text (rr_id r)) = second)
                      \<and> rr_prompt r = js automation_policy \<and> rr_status r = RevCompleted
                      \<and> rr_decision r = Some DecApproved) (kn_runs db));
                    ready = evaluateKnowledgePublicationReadiness (kv_id v) (the hash) True rows False
                in length rows = 2 \<and> list_all (\<lambda>r. rr_risk r = Some RevLow) rows
                   \<and> rd_ready ready \<and> rd_path ready = Some PathAutomation)
         | _ \<Rightarrow> False)"

definition chunk_row_of :: "kn_db \<Rightarrow> nat \<Rightarrow> nat \<times> embedded_chunk \<Rightarrow> chunk_row" where
  "chunk_row_of db versionId ic = (case ic of (i, c) \<Rightarrow>
     \<lparr>kc_id = kn_next db + i, kc_version = versionId, kc_index = i, kc_content = kt_content c,
      kc_pageStart = kt_page c, kc_pageEnd = kt_page c, kc_sectionPath = kt_sectionPath c,
      kc_metadata = em_metadata c, kc_embedding = Some (em_embedding c), kc_embeddingModel = Some (em_model c),
      kc_embeddedAt = Some (kn_now db)\<rparr>)"

text \<open>\<open>$8::vector(1024)\<close> takes 1024 finite numbers.\<close>

definition vector_ok :: "js_number list \<Rightarrow> bool" where
  "vector_ok v \<longleftrightarrow> length v = 1024 \<and> NotFinite \<notin> set v"

definition replace_chunks :: "nat \<Rightarrow> embedded_chunk list \<Rightarrow> kn_db \<Rightarrow> (kn_error, kn_db) result" where
  "replace_chunks versionId cs db =
     (if \<not> list_all (\<lambda>c. vector_ok (em_embedding c)) cs then Inl (DbViolation ''vector(1024)'')
      else Inr (db\<lparr>kn_chunks := filter (\<lambda>c. kc_version c \<noteq> versionId) (kn_chunks db)
                @ map (chunk_row_of db versionId) (List.enumerate 0 cs),
              kn_next := kn_next db + length cs\<rparr>))"

definition system_role :: string where "system_role = ''system:knowledge-review-automation''"

definition publication_audit :: "nat \<Rightarrow> ingestion_job \<Rightarrow> jobject \<Rightarrow> nat \<Rightarrow> kn_db \<Rightarrow> audit_row" where
  "publication_audit versionId j review n db = \<lparr>au_actor = None, au_role = js system_role,
     au_action = ''knowledge.automation_review.published'', au_targetType = ''knowledge_version'',
     au_target = id_text versionId,
     au_metadata = [(''documentId'', payload_value ''documentId'' j)]
       @ List.map_filter (\<lambda>k. map_option (Pair k) (jget k review))
           [''contentHash'', ''policyVersion'', ''risk'', ''initialRunId'', ''verifyRunId'']
       @ [(''embeddedChunkCount'', JNumber (int n))],
     au_at = kn_now db\<rparr>"

text \<open>
  \<open>versionId\<close> and \<open>documentId\<close> address rows by their text; without a match the update of the
  version finds no row and the transaction is rolled back.
\<close>

definition saveEmbeddingsAndComplete ::
  "kn_rules \<Rightarrow> ingestion_job \<Rightarrow> embedded_chunk list \<Rightarrow> kn_db \<Rightarrow> (kn_error, kn_db) result" where
  "saveEmbeddingsAndComplete kr j chunks db =
     bindR (review_valid kr j) (\<lambda>valid.
     case job_review j of
       None \<Rightarrow> Inl (PlainError ''Embedding completion requires valid human review.'')
     | Some review \<Rightarrow>
         if \<not> valid then Inl (PlainError ''Embedding completion requires valid human review.'')
         else
           bindR (assertCurrentLease j db) (\<lambda>_.
           let autoPublish = isAutomationPublicationReady kr j review db;
               status = (if autoPublish then KnPublished else KnReview);
               stale = PlainError ''Reviewed knowledge content changed before embeddings were saved.''
           in case find (\<lambda>v. Some (id_text (kv_id v)) = job_field ''versionId'' j) (kn_versions db) of
                None \<Rightarrow> Inl (if chunks = [] then stale else DbViolation ''knowledge_chunk.version_id'')
              | Some v \<Rightarrow>
                  bindR (replace_chunks (kv_id v) chunks db) (\<lambda>db1.
                  bindR (update_version (\<lambda>x. kv_id x = kv_id v \<and> Some (id_text (kv_document x)) = job_field ''documentId'' j
                        \<and> kv_status x = KnReview \<and> kv_hash x = jstring (jget ''contentHash'' review))
                    (\<lambda>x. x\<lparr>kv_status := status,
                       kv_publishedAt := (if autoPublish then Some (kn_now db) else kv_publishedAt x),
                       kv_metadata := kv_metadata x @
                         [(''reviewStatus'', JString (js ''approved'')), (''embeddingStatus'', JString (js ''completed'')),
                          (''embeddedChunkCount'', JNumber (int (length chunks))), (''review'', JObject review)]\<rparr>)
                    stale db1) (\<lambda>db2.
                  bindR (update_document (\<lambda>x. Some (id_text (kd_id x)) = job_field ''documentId'' j
                        \<and> kd_current x = Some (kv_id v) \<and> kd_status x = KnReview)
                    (\<lambda>x. x\<lparr>kd_status := status\<rparr>)
                    (PlainError ''Reviewed knowledge version is no longer the current document version.'') db2) (\<lambda>db3.
                  update_task j (succeed_task db
                    [(''stage'', JString (js ''completed'')), (''documentId'', payload_value ''documentId'' j),
                     (''versionId'', payload_value ''versionId'' j),
                     (''embeddedChunkCount'', JNumber (int (length chunks))),
                     (''readyToPublish'', JBool (\<not> autoPublish)), (''autoPublished'', JBool autoPublish)])
                    (if autoPublish
                     then kn_audited (publication_audit (kv_id v) j review (length chunks) db) db3 else db3))))))"

end
