(* ===== verification/Automation_Review.thy ===== *)
theory Automation_Review
  imports Knowledge_Queue
begin

section \<open>Automated reviews\<close>

text \<open>
  \<open>PostgresKnowledgeReviewAutomationRepository\<close> (\<open>automation-review-repository.ts\<close>) and
  \<open>KnowledgeReviewAutomationService\<close> (\<open>automation-review-service.ts\<close>): leases on review runs,
  held by the hash of a random token, and the result of a run, which may revise the content, queue
  the verification, publish, or hand the version to a person.
\<close>

datatype review_outcome_status = OutCompleted | OutNeedsHuman | OutFailed

record review_outcome =
  oc_run :: nat
  oc_status :: review_outcome_status
  oc_decision :: review_decision
  oc_version :: nat
  oc_queued :: "queued_phase option"
  oc_idempotent :: bool

definition run_status_of :: "review_outcome_status \<Rightarrow> review_run_status" where
  "run_status_of s = (case s of OutCompleted \<Rightarrow> RevCompleted | OutNeedsHuman \<Rightarrow> RevNeedsHuman | OutFailed \<Rightarrow> RevFailed)"

definition phase_text :: "review_phase \<Rightarrow> string" where
  "phase_text p = (case p of PhaseInitial \<Rightarrow> ''initial'' | PhaseVerify \<Rightarrow> ''verify'')"

definition decision_text :: "review_decision \<Rightarrow> string" where
  "decision_text d = (case d of DecApproved \<Rightarrow> ''approved'' | DecRejected \<Rightarrow> ''rejected'' | DecNeedsHuman \<Rightarrow> ''needs_human'')"

definition outcome_text :: "review_outcome_status \<Rightarrow> string" where
  "outcome_text s = (case s of OutCompleted \<Rightarrow> ''completed'' | OutNeedsHuman \<Rightarrow> ''needs_human'' | OutFailed \<Rightarrow> ''failed'')"

definition review_audit :: "string \<Rightarrow> nat \<Rightarrow> jobject \<Rightarrow> kn_db \<Rightarrow> kn_db" where
  "review_audit action target metadata db = kn_audited \<lparr>au_actor = None, au_role = js system_role,
     au_action = action, au_targetType = ''knowledge_review_run'', au_target = id_text target,
     au_metadata = metadata, au_at = kn_now db\<rparr> db"

subsection \<open>Claiming runs\<close>

record lease_candidate =
  lc_run :: nat
  lc_phase :: review_phase
  lc_version :: nat
  lc_hash :: js_string
  lc_model :: js_string
  lc_attempts :: int
  lc_slot :: nat
  lc_expiresAt :: timestamp

text \<open>Leases that have expired return to the queue first.\<close>

definition expire_leases :: "kn_db \<Rightarrow> kn_db" where
  "expire_leases db = db\<lparr>kn_runs := update_where
     (\<lambda>r. rr_status r = RevLeased \<and> (case rr_leaseExpiresAt r of None \<Rightarrow> False | Some t \<Rightarrow> t \<le> kn_now db))
     (\<lambda>r. r\<lparr>rr_status := RevQueued, rr_tokenHash := None, rr_leaseExpiresAt := None, rr_updatedAt := kn_now db\<rparr>)
     (kn_runs db)\<rparr>"

text \<open>The version and document of a run, while that version is current with the run's content.\<close>

definition run_target :: "review_run \<Rightarrow> kn_db \<Rightarrow> (version_row \<times> document_row) option" where
  "run_target r db = (case lookup kv_id (rr_inputVersion r) (kn_versions db) of
     None \<Rightarrow> None
   | Some v \<Rightarrow> (case lookup kd_id (kv_document v) (kn_documents db) of
       None \<Rightarrow> None
     | Some d \<Rightarrow> if kd_current d = Some (kv_id v) \<and> kv_hash v = Some (rr_inputHash r) then Some (v, d) else None))"

definition run_claimable :: "kn_db \<Rightarrow> review_phase \<Rightarrow> review_run \<Rightarrow> bool" where
  "run_claimable db phase r \<longleftrightarrow> rr_status r = RevQueued \<and> rr_phase r = phase
     \<and> rr_prompt r = js automation_policy \<and> rr_model r = js review_model
     \<and> (case run_target r db of None \<Rightarrow> False | Some (v, d) \<Rightarrow> kd_status d \<in> {KnReview, KnProcessing})"

text \<open>\<open>ORDER BY created_at, id\<close>; the ids are compared as numbers.\<close>

definition run_before :: "review_run \<Rightarrow> review_run \<Rightarrow> bool" where
  "run_before a b \<longleftrightarrow> rr_createdAt a < rr_createdAt b \<or> (rr_createdAt a = rr_createdAt b \<and> rr_id a \<le> rr_id b)"

definition lease_run :: "js_string \<Rightarrow> int \<Rightarrow> kn_db \<Rightarrow> review_run \<Rightarrow> review_run" where
  "lease_run tokenHash seconds db r = r\<lparr>rr_status := RevLeased, rr_tokenHash := Some tokenHash,
     rr_leaseExpiresAt := Some (kn_now db + seconds * 1000), rr_attempts := rr_attempts r + 1,
     rr_updatedAt := kn_now db\<rparr>"

definition claim_one ::
  "kn_rules \<Rightarrow> js_string list \<Rightarrow> int \<Rightarrow> nat \<times> review_run \<Rightarrow> lease_candidate list \<times> kn_db \<Rightarrow> lease_candidate list \<times> kn_db" where
  "claim_one kr tokens seconds sc acc = (case sc of (slot, r) \<Rightarrow>
     if length tokens \<le> slot \<or> tokens ! slot = [] then acc
     else let db = snd acc; leased = lease_run (tokens ! slot) seconds db r;
              candidate = \<lparr>lc_run = rr_id r, lc_phase = rr_phase r, lc_version = rr_inputVersion r,
                lc_hash = rr_inputHash r, lc_model = rr_model r, lc_attempts = rr_attempts leased, lc_slot = slot,
                lc_expiresAt = kn_now db + seconds * 1000\<rparr>
          in (fst acc @ [candidate],
              review_audit ''knowledge.automation_review.claimed'' (rr_id r)
                [(''phase'', JString (js (phase_text (rr_phase r)))),
                 (''inputVersionId'', JString (id_text (rr_inputVersion r))),
                 (''inputContentHash'', JString (rr_inputHash r)), (''attempts'', JNumber (rr_attempts leased)),
                 (''leaseExpiresAt'', JString (kr_iso kr (kn_now db + seconds * 1000)))]
                (db\<lparr>kn_runs := update_where (\<lambda>x. rr_id x = rr_id r \<and> rr_status x = RevQueued)
                  (lease_run (tokens ! slot) seconds db) (kn_runs db)\<rparr>)))"

definition claim_runs ::
  "kn_rules \<Rightarrow> review_phase \<Rightarrow> nat \<Rightarrow> js_string list \<Rightarrow> int \<Rightarrow> nat set \<Rightarrow> kn_db \<Rightarrow> lease_candidate list \<times> kn_db" where
  "claim_runs kr phase limit tokens seconds locked db =
     (let db1 = expire_leases db;
          candidates = take limit (sort_by run_before
            (filter (\<lambda>r. run_claimable db1 phase r \<and> rr_id r \<notin> locked) (kn_runs db1)))
      in fold (claim_one kr tokens seconds) (List.enumerate 0 candidates) ([], db1))"

definition lease_seconds :: int where "lease_seconds = 2 * 60 * 60"

text \<open>\<open>KnowledgeReviewAutomationService.claim\<close>: one token for each slot, hashed for the table.\<close>

definition service_claim ::
  "kn_rules \<Rightarrow> review_phase \<Rightarrow> int \<Rightarrow> (nat \<Rightarrow> js_string) \<Rightarrow> nat set \<Rightarrow> kn_db \<Rightarrow>
   (kn_error, (lease_candidate \<times> js_string) list) result \<times> kn_db" where
  "service_claim kr phase limit token locked db =
     (if limit < 1 \<or> 10 < limit then (Inl (ApiError 422 ''KNOWLEDGE_REVIEW_CLAIM_INVALID''), db)
      else let n = nat limit; tokens = map token [0..<n];
               (claimed, db') = claim_runs kr phase n (map (kr_sha kr) tokens) lease_seconds locked db
           in (Inr (map (\<lambda>c. (c, tokens ! lc_slot c)) claimed), db'))"

subsection \<open>The package of a leased run\<close>

definition run_lease_held :: "js_string \<Rightarrow> review_phase \<Rightarrow> timestamp \<Rightarrow> review_run \<Rightarrow> bool" where
  "run_lease_held tokenHash phase n r \<longleftrightarrow> rr_phase r = phase \<and> rr_status r = RevLeased
     \<and> rr_tokenHash r = Some tokenHash \<and> (case rr_leaseExpiresAt r of None \<Rightarrow> False | Some t \<Rightarrow> n < t)"

text \<open>The original of the version, or the one its metadata refers to.\<close>

definition version_original :: "version_row \<Rightarrow> kn_db \<Rightarrow> original_row option" where
  "version_original v db = (case find (\<lambda>o1. ko_version o1 = kv_id v) (kn_originals db) of
     Some o1 \<Rightarrow> Some o1
   | None \<Rightarrow> find (\<lambda>o1. Some (id_text (ko_version o1)) = jstring (jget ''originalReferenceVersionId'' (kv_metadata v)))
       (kn_originals db))"

record review_package =
  rp_run :: nat
  rp_version :: version_row
  rp_source :: "source_row option"
  rp_original :: "original_row option"

definition loadPackage ::
  "nat \<Rightarrow> review_phase \<Rightarrow> js_string \<Rightarrow> kn_db \<Rightarrow> (kn_error, review_package) result" where
  "loadPackage runId phase tokenHash db = (case lookup rr_id runId (kn_runs db) of
     Some r \<Rightarrow> (case run_target r db of
         Some (v, d) \<Rightarrow> if run_lease_held tokenHash phase (kn_now db) r
           then (if kv_content v = [] then Inl (PlainError ''Malformed knowledge review database row.'')
             else Inr \<lparr>rp_run = runId, rp_version = v,
               rp_source = Option.bind (kd_source d) (\<lambda>i. lookup ks_id i (kn_sources db)),
               rp_original = version_original v db\<rparr>)
           else Inl (ApiError 409 ''KNOWLEDGE_REVIEW_LEASE_INVALID'')
       | None \<Rightarrow> Inl (ApiError 409 ''KNOWLEDGE_REVIEW_LEASE_INVALID''))
   | None \<Rightarrow> Inl (ApiError 409 ''KNOWLEDGE_REVIEW_LEASE_INVALID''))"

subsection \<open>The result of a run\<close>

record review_result =
  rt_run :: nat
  rt_phase :: review_phase
  rt_tokenHash :: js_string
  rt_version :: nat
  rt_hash :: js_string
  rt_report :: automation_report
  rt_revised :: "js_string option"

definition document_source :: "document_row \<Rightarrow> kn_db \<Rightarrow> source_row option" where
  "document_source d db = Option.bind (kd_source d) (\<lambda>i. lookup ks_id i (kn_sources db))"

text \<open>\<open>isSourceAuthorized\<close>.\<close>

definition isSourceAuthorized :: "kn_rules \<Rightarrow> source_row option \<Rightarrow> jobject \<Rightarrow> bool" where
  "isSourceAuthorized kr src citation \<longleftrightarrow> src \<noteq> None \<and> source_publishable kr src citation"

definition lockCurrentSourceForPublication ::
  "kn_rules \<Rightarrow> nat \<Rightarrow> nat \<Rightarrow> js_string \<Rightarrow> kn_db \<Rightarrow> (bool \<times> jobject) option" where
  "lockCurrentSourceForPublication kr docId vid hash db = (case lookup kd_id docId (kn_documents db) of
     None \<Rightarrow> None
   | Some d \<Rightarrow> (case lookup kv_id vid (kn_versions db) of
       None \<Rightarrow> None
     | Some v \<Rightarrow>
         if kd_current d = Some vid \<and> kv_hash v = Some hash \<and> document_source d db \<noteq> None
         then Some (isSourceAuthorized kr (document_source d db) (kv_citation v), kv_citation v) else None))"

definition leased_row :: "review_result \<Rightarrow> kn_db \<Rightarrow> (review_run \<times> version_row \<times> document_row) option" where
  "leased_row rt db = (case lookup rr_id (rt_run rt) (kn_runs db) of
     None \<Rightarrow> None
   | Some r \<Rightarrow>
       if run_lease_held (rt_tokenHash rt) (rt_phase rt) (kn_now db) r \<and> rr_inputVersion r = rt_version rt
          \<and> rr_inputHash r = rt_hash rt
       then map_option (\<lambda>(v, d). (r, v, d)) (run_target r db) else None)"

definition submitted_revision :: "kn_rules \<Rightarrow> review_result \<Rightarrow> js_string option" where
  "submitted_revision kr rt = map_option (kr_sha kr) (rt_revised rt)"

definition replayOutcome :: "review_run \<Rightarrow> (kn_error, review_outcome) result" where
  "replayOutcome r = (case (rr_status r, rr_decision r, rr_report r) of
     (RevCompleted, Some d, Some rep) \<Rightarrow> Inr \<lparr>oc_run = rr_id r, oc_status = OutCompleted, oc_decision = d,
        oc_version = sr_outputVersionId rep, oc_queued = sr_queuedPhase rep, oc_idempotent = True\<rparr>
   | (RevNeedsHuman, Some d, Some rep) \<Rightarrow> Inr \<lparr>oc_run = rr_id r, oc_status = OutNeedsHuman, oc_decision = d,
        oc_version = sr_outputVersionId rep, oc_queued = sr_queuedPhase rep, oc_idempotent = True\<rparr>
   | (RevFailed, Some d, Some rep) \<Rightarrow> Inr \<lparr>oc_run = rr_id r, oc_status = OutFailed, oc_decision = d,
        oc_version = sr_outputVersionId rep, oc_queued = sr_queuedPhase rep, oc_idempotent = True\<rparr>
   | _ \<Rightarrow> Inl (ApiError 409 ''KNOWLEDGE_REVIEW_STALE''))"

text \<open>The row of the same result: token, report and revision are those stored.\<close>

definition replayed_run :: "kn_rules \<Rightarrow> review_result \<Rightarrow> kn_db \<Rightarrow> review_run option" where
  "replayed_run kr rt db = find (\<lambda>r. rr_id r = rt_run rt \<and> rr_phase r = rt_phase rt
     \<and> rr_inputVersion r = rt_version rt \<and> rr_inputHash r = rt_hash rt
     \<and> (case rr_report r of None \<Rightarrow> False | Some rep \<Rightarrow> sr_idempotencyTokenHash rep = rt_tokenHash rt
          \<and> sr_submittedReport rep = rt_report rt \<and> sr_submittedRevisionHash rep = submitted_revision kr rt))
     (kn_runs db)"

definition next_version :: "nat \<Rightarrow> kn_db \<Rightarrow> int" where
  "next_version docId db = foldr (\<lambda>v n. max (kv_version v) n)
     (filter (\<lambda>v. kv_document v = docId) (kn_versions db)) 0 + 1"

definition revised_version :: "kn_rules \<Rightarrow> version_row \<Rightarrow> js_string \<Rightarrow> kn_db \<Rightarrow> version_row" where
  "revised_version kr v content db = v\<lparr>kv_id := kn_next db, kv_version := next_version (kv_document v) db,
     kv_hash := Some (kr_sha kr content), kv_content := content, kv_status := KnReview,
     kv_metadata := jdelete ''review'' (kv_metadata v) @
       [(''reviewStatus'', JString (js ''required'')), (''embeddingStatus'', JString (js ''pending_review'')),
        (''originalReferenceVersionId'', JString (id_text (case version_original v db of
           Some o1 \<Rightarrow> ko_version o1 | None \<Rightarrow> kv_id v)))],
     kv_publishedAt := None, kv_createdAt := kn_now db, kv_updatedAt := kn_now db\<rparr>"

text \<open>The revised content becomes a new version, and the document moves to it.\<close>

definition apply_revision ::
  "kn_rules \<Rightarrow> version_row \<Rightarrow> document_row \<Rightarrow> js_string \<Rightarrow> kn_db \<Rightarrow> (kn_error, nat \<times> kn_db) result" where
  "apply_revision kr v d content db =
     (let new = revised_version kr v content db;
          db1 = db\<lparr>kn_versions := kn_versions db @ [new], kn_next := kn_next db + 1\<rparr>
      in bindR (update_document (\<lambda>x. kd_id x = kd_id d \<and> kd_current x = Some (kv_id v))
           (\<lambda>x. x\<lparr>kd_current := Some (kv_id new), kd_status := KnReview\<rparr>)
           (ApiError 409 ''KNOWLEDGE_REVIEW_STALE'') db1) (\<lambda>db2. Inr (kv_id new, db2)))"

definition stored_report_of ::
  "kn_rules \<Rightarrow> review_result \<Rightarrow> nat \<Rightarrow> js_string \<Rightarrow> bool \<Rightarrow> stored_report" where
  "stored_report_of kr rt vid hash rightsValid = \<lparr>sr_summary = ar_summary (rt_report rt),
     sr_outputContentHash = hash, sr_findings = ar_findings (rt_report rt), sr_blockers = ar_blockers (rt_report rt),
     sr_evidence = ar_evidence (rt_report rt), sr_numericClaims = ar_numericClaims (rt_report rt),
     sr_idempotencyTokenHash = rt_tokenHash rt, sr_submittedReport = rt_report rt,
     sr_submittedRevisionHash = submitted_revision kr rt, sr_outputVersionId = vid, sr_outputHash = hash,
     sr_sourceRightsValid = rightsValid, sr_queuedPhase = None\<rparr>"

definition finish_run ::
  "review_result \<Rightarrow> review_outcome_status \<Rightarrow> review_decision \<Rightarrow> stored_report \<Rightarrow> nat option \<Rightarrow> kn_db \<Rightarrow>
   (kn_error, kn_db) result" where
  "finish_run rt status decision report revised db =
     (let P = (\<lambda>r. rr_id r = rt_run rt \<and> rr_status r = RevLeased) in
      if list_ex P (kn_runs db)
      then Inr (db\<lparr>kn_runs := update_where P (\<lambda>r. r\<lparr>rr_status := run_status_of status,
             rr_risk := Some (ar_risk (rt_report rt)), rr_report := Some report, rr_decision := Some decision,
             rr_revised := revised, rr_completedAt := Some (kn_now db), rr_tokenHash := None,
             rr_leaseExpiresAt := None, rr_updatedAt := kn_now db\<rparr>) (kn_runs db)\<rparr>)
      else Inl (ApiError 409 ''KNOWLEDGE_REVIEW_STALE''))"

definition reason_text :: "readiness_reason \<Rightarrow> string" where
  "reason_text r = (case r of SourceRightsInvalid \<Rightarrow> ''SOURCE_RIGHTS_INVALID''
     | PairMissingOrMismatched \<Rightarrow> ''AUTOMATION_REVIEW_PAIR_MISSING_OR_MISMATCHED''
     | HighRisk \<Rightarrow> ''AUTOMATION_REVIEW_HIGH_RISK'' | Blockers \<Rightarrow> ''AUTOMATION_REVIEW_BLOCKERS''
     | NumericEvidenceMissing \<Rightarrow> ''AUTOMATION_REVIEW_NUMERIC_EVIDENCE_MISSING'')"

definition markNeedsHuman :: "nat \<Rightarrow> nat \<Rightarrow> string list \<Rightarrow> kn_db \<Rightarrow> kn_db" where
  "markNeedsHuman docId vid reasons db =
     set_document (\<lambda>d. kd_id d = docId \<and> kd_current d = Some vid) (\<lambda>d. d\<lparr>kd_status := KnReview\<rparr>)
       (set_version (\<lambda>v. kv_id v = vid) (\<lambda>v. v\<lparr>kv_status := KnReview, kv_metadata := kv_metadata v @
          [(''reviewStatus'', JString (js ''required'')), (''automationStatus'', JString (js ''needs_human'')),
           (''automationReasons'', JArray (map (\<lambda>r. JString (js r)) reasons))]\<rparr>) db)"

text \<open>The runs that count for the current version, oldest first.\<close>

definition runs_for :: "nat \<Rightarrow> js_string \<Rightarrow> kn_db \<Rightarrow> review_run list" where
  "runs_for vid hash db = sort_by (\<lambda>a b. rr_createdAt a \<le> rr_createdAt b)
     (filter (\<lambda>r. rr_prompt r = js automation_policy
        \<and> ((rr_inputVersion r = vid \<and> rr_inputHash r = hash) \<or> rr_revised r = Some vid)) (kn_runs db))"

definition review_metadata :: "kn_rules \<Rightarrow> review_result \<Rightarrow> js_string \<Rightarrow> review_run list \<Rightarrow> kn_db \<Rightarrow> jobject" where
  "review_metadata kr rt hash runs db =
     [(''status'', JString (js ''approved'')), (''policyVersion'', JString (js automation_policy)),
      (''reviewedBy'', JString (js ''knowledge-review-automation'')),
      (''reviewedAt'', JString (kr_iso kr (kn_now db))), (''contentHash'', JString hash),
      (''risk'', JString (js (risk_text (ar_risk (rt_report rt))))),
      (''initialRunId'', jopt (\<lambda>r. JString (id_text (rr_id r))) (find (\<lambda>r. rr_phase r = PhaseInitial) runs)),
      (''verifyRunId'', JString (id_text (rt_run rt)))]"

definition new_task :: "int \<Rightarrow> js_string \<Rightarrow> jobject \<Rightarrow> js_string option \<Rightarrow> kn_db \<Rightarrow> task_row" where
  "new_task priority key payload createdBy db = \<lparr>bt_id = kn_next db, bt_type = ingestion_type, bt_status = OpQueued,
     bt_priority = priority, bt_key = Some key, bt_payload = payload, bt_result = None, bt_attempts = 0,
     bt_maxAttempts = 3, bt_runAt = kn_now db, bt_lockedAt = None, bt_lockedBy = None, bt_lease = None,
     bt_lastError = None, bt_createdBy = createdBy, bt_createdAt = kn_now db, bt_updatedAt = kn_now db,
     bt_completedAt = None\<rparr>"

text \<open>\<open>ON CONFLICT (idempotency_key) DO NOTHING\<close>.\<close>

definition enqueue_task :: "int \<Rightarrow> js_string \<Rightarrow> jobject \<Rightarrow> js_string option \<Rightarrow> kn_db \<Rightarrow> kn_db" where
  "enqueue_task priority key payload createdBy db =
     (if list_ex (\<lambda>t. bt_key t = Some key) (kn_tasks db) then db
      else db\<lparr>kn_tasks := kn_tasks db @ [new_task priority key payload createdBy db], kn_next := kn_next db + 1\<rparr>)"

definition embedding_key :: "nat \<Rightarrow> js_string \<Rightarrow> js_string \<Rightarrow> js_string" where
  "embedding_key vid hash suffix = js ''knowledge-embedding:'' @ id_text vid @ [58] @ hash @ [58] @ suffix"

definition embedding_payload :: "nat \<Rightarrow> nat \<Rightarrow> jobject \<Rightarrow> jobject" where
  "embedding_payload docId vid review =
     [(''stage'', JString (js ''embedding_pending'')), (''documentId'', JString (id_text docId)),
      (''versionId'', JString (id_text vid)), (''review'', JObject review)]"

text \<open>The publication of a verified version: its full text is embedded first.\<close>

definition publish_verified ::
  "kn_rules \<Rightarrow> review_result \<Rightarrow> nat \<Rightarrow> jobject \<Rightarrow> jobject \<Rightarrow> kn_db \<Rightarrow> queued_phase option \<times> kn_db" where
  "publish_verified kr rt docId citation review db =
     (let vid = rt_version rt; hash = rt_hash rt; P = (\<lambda>v. kv_id v = vid \<and> kv_hash v = Some hash) in
      if ingestion_mode citation = full_text then
        (Some QueuedEmbedding,
         enqueue_task 10 (embedding_key vid hash (js automation_policy)) (embedding_payload docId vid review) None
           (set_version P (\<lambda>v. v\<lparr>kv_status := KnReview, kv_metadata := kv_metadata v @
              [(''reviewStatus'', JString (js ''approved'')), (''embeddingStatus'', JString (js ''queued'')),
               (''review'', JObject review)]\<rparr>) db))
      else
        (None,
         set_document (\<lambda>d. kd_id d = docId \<and> kd_current d = Some vid) (\<lambda>d. d\<lparr>kd_status := KnPublished\<rparr>)
           (set_version P (\<lambda>v. v\<lparr>kv_status := KnPublished, kv_publishedAt := Some (kn_now db),
              kv_metadata := kv_metadata v @
              [(''reviewStatus'', JString (js ''approved'')), (''embeddingStatus'', JString (js ''metadata_only'')),
               (''review'', JObject review)]\<rparr>) db)))"

text \<open>The last two statements: the queued phase and the rights in the report, and the audit entry.\<close>

definition close_result ::
  "review_result \<Rightarrow> review_outcome_status \<Rightarrow> review_decision \<Rightarrow> nat \<Rightarrow> js_string \<Rightarrow> queued_phase option \<Rightarrow> bool \<Rightarrow>
   kn_db \<Rightarrow> review_outcome \<times> kn_db" where
  "close_result rt status decision vid hash queued rightsValid db =
     (let db1 = db\<lparr>kn_runs := update_where (\<lambda>r. rr_id r = rt_run rt) (\<lambda>r. r\<lparr>
            rr_report := map_option (\<lambda>rep. rep\<lparr>sr_queuedPhase := queued, sr_sourceRightsValid := rightsValid\<rparr>) (rr_report r),
            rr_updatedAt := kn_now db\<rparr>) (kn_runs db)\<rparr>
      in (\<lparr>oc_run = rt_run rt, oc_status = status, oc_decision = decision, oc_version = vid, oc_queued = queued,
            oc_idempotent = False\<rparr>,
          review_audit ''knowledge.automation_review.result'' (rt_run rt)
            [(''phase'', JString (js (phase_text (rt_phase rt)))), (''status'', JString (js (outcome_text status))),
             (''decision'', JString (js (decision_text decision))),
             (''inputVersionId'', JString (id_text (rt_version rt))),
             (''currentVersionId'', JString (id_text vid)), (''currentContentHash'', JString hash),
             (''queuedPhase'', jopt (\<lambda>q. JString (js (case q of QueuedVerify \<Rightarrow> ''verify'' | QueuedEmbedding \<Rightarrow> ''embedding''))) queued)]
            db1))"

definition decided :: "review_decision \<Rightarrow> review_outcome_status" where
  "decided d = (case d of DecApproved \<Rightarrow> OutCompleted | DecNeedsHuman \<Rightarrow> OutNeedsHuman | DecRejected \<Rightarrow> OutFailed)"

text \<open>An initial review: a revision if there is one, the rights once more, then the verification.\<close>

definition complete_initial ::
  "kn_rules \<Rightarrow> review_result \<Rightarrow> review_run \<Rightarrow> version_row \<Rightarrow> document_row \<Rightarrow> kn_db \<Rightarrow>
   (kn_error, review_outcome \<times> kn_db) result" where
  "complete_initial kr rt r v d db =
     bindR (case rt_revised rt of
         None \<Rightarrow> Inr (rt_version rt, rt_hash rt, None, db)
       | Some content \<Rightarrow> bindR (apply_revision kr v d content db) (\<lambda>(vid, db1).
           Inr (vid, kr_sha kr content, Some vid, db1))) (\<lambda>(vid, hash, revised, db1).
     let valid = (case lockCurrentSourceForPublication kr (kd_id d) vid hash db1 of
           None \<Rightarrow> False | Some (ok, _) \<Rightarrow> ok);
         status = (if valid then OutCompleted else OutNeedsHuman);
         decision = (if valid then DecApproved else DecNeedsHuman)
     in bindR (finish_run rt status decision (stored_report_of kr rt vid hash valid) revised db1) (\<lambda>db2.
        Inr (if valid
          then close_result rt status decision vid hash (Some QueuedVerify) valid
                 (queue_run PhaseVerify vid hash (rr_model r) db2)
          else close_result rt status decision vid hash None valid
                 (markNeedsHuman (kd_id d) vid [''review_needs_human''] db2))))"

text \<open>A verification: publication when the pair of runs allows it, otherwise a person decides.\<close>

definition complete_verify ::
  "kn_rules \<Rightarrow> review_result \<Rightarrow> document_row \<Rightarrow> bool \<Rightarrow> kn_db \<Rightarrow> (kn_error, review_outcome \<times> kn_db) result" where
  "complete_verify kr rt d sourceValid db =
     (let vid = rt_version rt; hash = rt_hash rt in
      bindR (finish_run rt OutCompleted DecApproved (stored_report_of kr rt vid hash sourceValid) None db) (\<lambda>db1.
      let source = lockCurrentSourceForPublication kr (kd_id d) vid hash db1;
          valid = (case source of None \<Rightarrow> False | Some (ok, _) \<Rightarrow> ok);
          runs = runs_for vid hash db1;
          ready = evaluateKnowledgePublicationReadiness vid hash valid runs False
      in Inr (if rd_ready ready \<and> rd_path ready = Some PathAutomation
         then let (queued, db2) = publish_verified kr rt (kd_id d)
                    (case source of None \<Rightarrow> [] | Some (_, c) \<Rightarrow> c) (review_metadata kr rt hash runs db1) db1
              in close_result rt OutCompleted DecApproved vid hash queued valid db2
         else close_result rt OutNeedsHuman DecNeedsHuman vid hash None valid
                (markNeedsHuman (kd_id d) vid (map reason_text (rd_reasons ready))
                  (db1\<lparr>kn_runs := update_where (\<lambda>x. rr_id x = rt_run rt \<and> rr_status x = RevCompleted)
                     (\<lambda>x. x\<lparr>rr_status := RevNeedsHuman, rr_decision := Some DecNeedsHuman,
                        rr_updatedAt := kn_now db1\<rparr>) (kn_runs db1)\<rparr>)))))"

definition complete_review ::
  "kn_rules \<Rightarrow> review_result \<Rightarrow> kn_db \<Rightarrow> (kn_error, review_outcome \<times> kn_db) result" where
  "complete_review kr rt db = (case leased_row rt db of
     None \<Rightarrow> (case replayed_run kr rt db of
         Some r \<Rightarrow> bindR (replayOutcome r) (\<lambda>oc. Inr (oc, db))
       | None \<Rightarrow> Inl (ApiError 409 ''KNOWLEDGE_REVIEW_LEASE_INVALID''))
   | Some (r, v, d) \<Rightarrow>
       let sourceValid = isSourceAuthorized kr (document_source d db) (kv_citation v);
           decision = (if sourceValid then ar_decision (rt_report rt) else DecNeedsHuman);
           status = decided decision
       in if status \<noteq> OutCompleted then
            bindR (finish_run rt status decision
                (stored_report_of kr rt (rt_version rt) (rt_hash rt) sourceValid) None db) (\<lambda>db1.
              Inr (close_result rt status decision (rt_version rt) (rt_hash rt) None sourceValid
                (markNeedsHuman (kd_id d) (rt_version rt)
                  [if sourceValid then ''review_'' @ outcome_text status else ''source_rights_invalid''] db1)))
          else if rt_phase rt = PhaseInitial then complete_initial kr rt r v d db
          else complete_verify kr rt d sourceValid db)"

text \<open>\<open>KnowledgeReviewAutomationService.submitResult\<close>: the schema, and no revision in a verification.\<close>

definition submitResult ::
  "kn_rules \<Rightarrow> review_result \<Rightarrow> js_string \<Rightarrow> kn_db \<Rightarrow> (kn_error, review_outcome \<times> kn_db) result" where
  "submitResult kr rt token db =
     (let revised = (case rt_revised rt of None \<Rightarrow> Some None
            | Some c \<Rightarrow> let t = js_trim c in if t \<noteq> [] \<and> length t \<le> 5000000 then Some (Some t) else None)
      in case (automationReviewReportSchema (rt_report rt), revised) of
        (Some report, Some content) \<Rightarrow>
          if length token < 20 \<or> 1000 < length token \<or> \<not> sha256_hex (rt_hash rt)
          then Inl (ApiError 422 ''KNOWLEDGE_REVIEW_RESULT_INVALID'')
          else if rt_phase rt = PhaseVerify \<and> content \<noteq> None
          then Inl (ApiError 422 ''KNOWLEDGE_REVIEW_REVISION_NOT_ALLOWED'')
          else complete_review kr (rt\<lparr>rt_report := report, rt_revised := content,
                 rt_tokenHash := kr_sha kr token\<rparr>) db
      | _ \<Rightarrow> Inl (ApiError 422 ''KNOWLEDGE_REVIEW_RESULT_INVALID''))"

end
