(* ===== verification/Manual_Review.thy ===== *)
theory Manual_Review
  imports Automation_Review
begin

section \<open>Manual resolution of a review\<close>

text \<open>
  \<open>manual-review-service.ts\<close> and \<open>PostgresKnowledgeManualReviewRepository\<close>
  (\<open>manual-review-repository.ts\<close>): what a person does with a version that the automation could not
  settle: retry it, edit it, approve it with a note, or archive it.
\<close>

record manual_target =
  mt_document :: nat
  mt_version :: nat
  mt_hash :: js_string
  mt_actor :: js_string
  mt_role :: string
  mt_request :: js_string

datatype manual_resolution =
    AdoptRevision "js_string option" | ManualEdit js_string "js_string option"
  | ManualApprove js_string | ManualArchive "js_string option"

datatype manual_action = ActRetryReview | ActAdopt | ActEdit | ActApprove | ActArchive
datatype manual_status = ManualQueued | ManualApproved | ManualArchived

record manual_outcome =
  mc_action :: manual_action
  mc_document :: nat
  mc_version :: nat
  mc_hash :: js_string
  mc_status :: manual_status
  mc_task :: "nat option"

definition manual_roles :: "string list" where
  "manual_roles = [''owner'', ''admin'', ''knowledge_editor'']"

definition targetSchema :: "manual_target \<Rightarrow> (kn_error, manual_target) result" where
  "targetSchema t = (case (z_bounded 128 (mt_actor t), z_bounded 200 (mt_request t)) of
     (Some actor, Some request) \<Rightarrow> if sha256_hex (mt_hash t) \<and> mt_role t \<in> set manual_roles
        then Inr (t\<lparr>mt_actor := actor, mt_request := request\<rparr>)
        else Inl (ApiError 422 ''KNOWLEDGE_MANUAL_RESOLUTION_INVALID'')
   | _ \<Rightarrow> Inl (ApiError 422 ''KNOWLEDGE_MANUAL_RESOLUTION_INVALID''))"

definition resolutionSchema :: "manual_resolution \<Rightarrow> (kn_error, manual_resolution) result" where
  "resolutionSchema r = (case (case r of
       AdoptRevision n \<Rightarrow> map_option AdoptRevision (z_optional_text 2000 n)
     | ManualEdit c n \<Rightarrow> Option.bind (z_bounded 5000000 c) (\<lambda>c'. map_option (ManualEdit c') (z_optional_text 2000 n))
     | ManualApprove n \<Rightarrow> map_option ManualApprove (z_bounded 2000 n)
     | ManualArchive n \<Rightarrow> map_option ManualArchive (z_optional_text 2000 n)) of
     None \<Rightarrow> Inl (ApiError 422 ''KNOWLEDGE_MANUAL_RESOLUTION_INVALID'') | Some r' \<Rightarrow> Inr r')"

definition review_conflict :: "(kn_error, 'a) result" where
  "review_conflict = Inl (ApiError 409 ''KNOWLEDGE_REVIEW_CONFLICT'')"

text \<open>\<open>requiredString\<close>: a value that is there and not blank.\<close>

definition not_blank :: "js_string option \<Rightarrow> bool" where
  "not_blank v \<longleftrightarrow> (case v of None \<Rightarrow> False | Some s \<Rightarrow> js_trim s \<noteq> [])"

definition loadCurrentTarget :: "manual_target \<Rightarrow> kn_db \<Rightarrow> (kn_error, version_row \<times> document_row) result" where
  "loadCurrentTarget t db = (case (lookup kd_id (mt_document t) (kn_documents db), lookup kv_id (mt_version t) (kn_versions db)) of
     (Some d, Some v) \<Rightarrow>
       if kd_current d = Some (kv_id v) \<and> kv_hash v = Some (mt_hash t)
          \<and> kd_status d \<in> {KnProcessing, KnReview, KnFailed, KnDraft}
       then (if not_blank (Some (kv_content v)) \<and> not_blank (kv_hash v) \<and> not_blank (kv_createdBy v) then Inr (v, d)
             else Inl (PlainError ''Knowledge manual review database row is invalid.''))
       else review_conflict
   | _ \<Rightarrow> review_conflict)"

text \<open>A document without a source takes the one governed source of its URL.\<close>

definition resolveCurrentSourceLink ::
  "version_row \<times> document_row \<Rightarrow> kn_db \<Rightarrow> (kn_error, document_row \<times> kn_db) result" where
  "resolveCurrentSourceLink vd db = (case vd of (v, d) \<Rightarrow>
     if kd_source d \<noteq> None then Inr (d, db)
     else (case jstring (jget ''sourceUrl'' (kv_citation v)) of
         None \<Rightarrow> Inr (d, db)
       | Some url \<Rightarrow>
           if js_trim url = [] then Inr (d, db)
           else (case filter (\<lambda>s. ks_canonicalUrl s = Some url \<and> ks_enabled s \<and> ks_deletedAt s = None) (kn_sources db) of
               [s] \<Rightarrow> bindR (update_document (\<lambda>x. kd_id x = kd_id d \<and> kd_source x = None \<and> kd_current x = Some (kv_id v))
                        (\<lambda>x. x\<lparr>kd_source := Some (ks_id s)\<rparr>) (ApiError 409 ''KNOWLEDGE_REVIEW_CONFLICT'') db)
                      (\<lambda>db1. Inr (d\<lparr>kd_source := Some (ks_id s)\<rparr>, db1))
             | _ \<Rightarrow> Inr (d, db))))"

definition assertCurrentSourceRights ::
  "kn_rules \<Rightarrow> version_row \<Rightarrow> document_row \<Rightarrow> kn_db \<Rightarrow> (kn_error, unit) result" where
  "assertCurrentSourceRights kr v d db = (if source_publishable kr (document_source d db) (kv_citation v) then Inr ()
     else Inl (ApiError 409 ''KNOWLEDGE_SOURCE_RIGHTS_INVALID''))"

text \<open>
  \<open>ON CONFLICT .. DO UPDATE .. WHERE status IN ('failed', 'needs_human', 'queued')\<close>: a run that is
  leased or completed is not touched, and the caller is refused.
\<close>

definition requeue_run :: "kn_db \<Rightarrow> review_run \<Rightarrow> review_run" where
  "requeue_run db r = r\<lparr>rr_status := RevQueued, rr_risk := None, rr_decision := None, rr_report := None,
     rr_revised := None, rr_completedAt := None, rr_tokenHash := None, rr_leaseExpiresAt := None,
     rr_updatedAt := kn_now db\<rparr>"

definition queueAutomationRun ::
  "nat \<Rightarrow> js_string \<Rightarrow> review_phase \<Rightarrow> kn_db \<Rightarrow> (kn_error, nat \<times> kn_db) result" where
  "queueAutomationRun vid hash phase db =
     (let new = queued_run phase vid hash (js review_model) db
      in case find (same_run new) (kn_runs db) of
           None \<Rightarrow> Inr (rr_id new, db\<lparr>kn_runs := kn_runs db @ [new], kn_next := kn_next db + 1\<rparr>)
         | Some r \<Rightarrow> if rr_status r \<in> {RevFailed, RevNeedsHuman, RevQueued}
             then Inr (rr_id r, db\<lparr>kn_runs := update_where (\<lambda>x. rr_id x = rr_id r) (requeue_run db) (kn_runs db)\<rparr>)
             else Inl (ApiError 409 ''KNOWLEDGE_REVIEW_RETRY_CONFLICT''))"

definition manual_audit :: "manual_target \<Rightarrow> string \<Rightarrow> jobject \<Rightarrow> kn_db \<Rightarrow> kn_db" where
  "manual_audit t action metadata db = kn_audited \<lparr>au_actor = Some (mt_actor t), au_role = js (mt_role t),
     au_action = action, au_targetType = ''knowledge_document'', au_target = id_text (mt_document t),
     au_metadata = metadata, au_at = kn_now db\<rparr> db"

definition target_facts :: "nat \<Rightarrow> js_string \<Rightarrow> jobject" where
  "target_facts vid hash = [(''versionId'', JString (id_text vid)), (''contentHash'', JString hash)]"

definition manual_out ::
  "manual_action \<Rightarrow> manual_target \<Rightarrow> nat \<Rightarrow> js_string \<Rightarrow> manual_status \<Rightarrow> nat option \<Rightarrow> manual_outcome" where
  "manual_out action t vid hash status task = \<lparr>mc_action = action, mc_document = mt_document t, mc_version = vid,
     mc_hash = hash, mc_status = status, mc_task = task\<rparr>"

definition prepared_target ::
  "kn_rules \<Rightarrow> manual_target \<Rightarrow> kn_db \<Rightarrow> (kn_error, version_row \<times> document_row \<times> kn_db) result" where
  "prepared_target kr t db =
     bindR (loadCurrentTarget t db) (\<lambda>(v, d).
     bindR (resolveCurrentSourceLink (v, d) db) (\<lambda>(d', db1).
     bindR (assertCurrentSourceRights kr v d' db1) (\<lambda>_. Inr (v, d', db1))))"

definition retry_review :: "kn_rules \<Rightarrow> manual_target \<Rightarrow> kn_db \<Rightarrow> (kn_error, manual_outcome \<times> kn_db) result" where
  "retry_review kr t db =
     bindR (prepared_target kr t db) (\<lambda>(v, d, db1).
     bindR (queueAutomationRun (kv_id v) (mt_hash t) PhaseInitial db1) (\<lambda>(task, db2).
       Inr (manual_out ActRetryReview t (kv_id v) (mt_hash t) ManualQueued (Some task),
            manual_audit t ''knowledge.automation_review.retry''
              (target_facts (kv_id v) (mt_hash t) @ [(''taskId'', JString (id_text task))]) db2)))"

definition manual_review_of :: "kn_rules \<Rightarrow> manual_target \<Rightarrow> js_string \<Rightarrow> kn_db \<Rightarrow> jobject" where
  "manual_review_of kr t note db = [(''status'', JString (js ''approved'')),
     (''mode'', JString (js ''manual_document_resolution'')), (''reviewedBy'', JString (mt_actor t)),
     (''reviewedAt'', JString (kr_iso kr (kn_now db))), (''contentHash'', JString (mt_hash t)),
     (''note'', JString note)]"

text \<open>The id of the task with the key, which is inserted when there is none.\<close>

definition task_of_key :: "js_string \<Rightarrow> kn_db \<Rightarrow> nat option" where
  "task_of_key key db = map_option bt_id (find (\<lambda>t. bt_key t = Some key) (kn_tasks db))"

definition approve_manually ::
  "kn_rules \<Rightarrow> manual_target \<Rightarrow> js_string \<Rightarrow> version_row \<Rightarrow> document_row \<Rightarrow> kn_db \<Rightarrow>
   (kn_error, manual_outcome \<times> kn_db) result" where
  "approve_manually kr t note v d db =
     (let review = manual_review_of kr t note db; full = (ingestion_mode (kv_citation v) = full_text);
          status = (if full then KnReview else KnPublished);
          key = embedding_key (kv_id v) (mt_hash t) (js ''manual'')
      in bindR (update_version (\<lambda>x. kv_id x = kv_id v \<and> kv_hash x = Some (mt_hash t))
           (\<lambda>x. x\<lparr>kv_status := status,
              kv_publishedAt := (if full then kv_publishedAt x else Some (kn_now db)),
              kv_metadata := kv_metadata x @ [(''reviewStatus'', JString (js ''approved'')),
                (''embeddingStatus'', JString (js (if full then ''queued'' else ''not_applicable''))),
                (''review'', JObject review)]\<rparr>)
           (ApiError 409 ''KNOWLEDGE_REVIEW_CONFLICT'') db) (\<lambda>db1.
         let db2 = (if full then enqueue_task 10 key (embedding_payload (kd_id d) (kv_id v) review)
                (Some (mt_actor t)) db1 else db1);
             task = (if full then task_of_key key db2 else None);
             db3 = set_document (\<lambda>x. kd_id x = kd_id d \<and> kd_current x = Some (kv_id v)) (\<lambda>x. x\<lparr>kd_status := status\<rparr>) db2
         in Inr (manual_out ActApprove t (kv_id v) (mt_hash t) ManualApproved task,
                 manual_audit t ''knowledge.manual_review.approved''
                   (target_facts (kv_id v) (mt_hash t) @ [(''note'', JString note),
                     (''sourceRightsRevalidated'', JBool True), (''taskId'', jopt (\<lambda>i. JString (id_text i)) task)]) db3)))"

definition edited_version :: "kn_rules \<Rightarrow> version_row \<Rightarrow> js_string \<Rightarrow> js_string option \<Rightarrow> kn_db \<Rightarrow> version_row" where
  "edited_version kr v content note db = v\<lparr>kv_id := kn_next db, kv_version := kv_version v + 1,
     kv_hash := Some (kr_sha kr content), kv_content := content, kv_status := KnReview,
     kv_metadata := kv_metadata v @ [(''reviewStatus'', JString (js ''required'')),
       (''embeddingStatus'', JString (js ''pending_review'')),
       (''originalReferenceVersionId'', JString (id_text (kv_id v))),
       (''manualResolutionNote'', jopt JString note)],
     kv_publishedAt := None, kv_createdAt := kn_now db, kv_updatedAt := kn_now db\<rparr>"

definition edit_manually ::
  "kn_rules \<Rightarrow> manual_target \<Rightarrow> js_string \<Rightarrow> js_string option \<Rightarrow> version_row \<Rightarrow> document_row \<Rightarrow> kn_db \<Rightarrow>
   (kn_error, manual_outcome \<times> kn_db) result" where
  "edit_manually kr t content note v d db =
     (let new = edited_version kr v content note db
      in if list_ex (\<lambda>x. kv_document x = kd_id d \<and> kv_version x = kv_version new) (kn_versions db)
         then Inl (DbViolation ''knowledge_version_document_version_unique'')
         else
           let db1 = db\<lparr>kn_versions := kn_versions db @ [new], kn_next := kn_next db + 1\<rparr>;
               db2 = set_document (\<lambda>x. kd_id x = kd_id d \<and> kd_current x = Some (kv_id v))
                 (\<lambda>x. x\<lparr>kd_current := Some (kv_id new), kd_status := KnReview\<rparr>) db1
           in bindR (queueAutomationRun (kv_id new) (kr_sha kr content) PhaseInitial db2) (\<lambda>(task, db3).
                Inr (manual_out ActEdit t (kv_id new) (kr_sha kr content) ManualQueued (Some task),
                     manual_audit t ''knowledge.manual_review.edited_retry''
                       ((''previousVersionId'', JString (id_text (kv_id v)))
                        # target_facts (kv_id new) (kr_sha kr content)
                        @ [(''note'', jopt JString note), (''taskId'', JString (id_text task))]) db3)))"

definition archive_manually ::
  "manual_target \<Rightarrow> js_string option \<Rightarrow> version_row \<Rightarrow> document_row \<Rightarrow> kn_db \<Rightarrow> manual_outcome \<times> kn_db" where
  "archive_manually t note v d db =
     (manual_out ActArchive t (kv_id v) (mt_hash t) ManualArchived None,
      manual_audit t ''knowledge.manual_review.archived''
        (target_facts (kv_id v) (mt_hash t) @ [(''note'', jopt JString note)])
        (set_document (\<lambda>x. kd_id x = kd_id d \<and> kd_current x = Some (kv_id v)) (\<lambda>x. x\<lparr>kd_status := KnArchived\<rparr>)
          (set_version (\<lambda>x. kv_id x = kv_id v \<and> kv_hash x = Some (mt_hash t)) (\<lambda>x. x\<lparr>kv_status := KnArchived\<rparr>) db)))"

definition resolve_review ::
  "kn_rules \<Rightarrow> manual_target \<Rightarrow> manual_resolution \<Rightarrow> kn_db \<Rightarrow> (kn_error, manual_outcome \<times> kn_db) result" where
  "resolve_review kr t res db = (case res of
     ManualArchive note \<Rightarrow> bindR (loadCurrentTarget t db) (\<lambda>(v, d). Inr (archive_manually t note v d db))
   | ManualApprove note \<Rightarrow> bindR (prepared_target kr t db) (\<lambda>(v, d, db1). approve_manually kr t note v d db1)
   | ManualEdit content note \<Rightarrow> bindR (prepared_target kr t db) (\<lambda>(v, d, db1). edit_manually kr t content note v d db1)
   | AdoptRevision note \<Rightarrow>
       bindR (prepared_target kr t db) (\<lambda>(v, d, db1).
       bindR (queueAutomationRun (kv_id v) (mt_hash t) PhaseVerify db1) (\<lambda>(task, db2).
         Inr (manual_out ActAdopt t (kv_id v) (mt_hash t) ManualQueued (Some task),
              manual_audit t ''knowledge.manual_review.adopted_retry''
                (target_facts (kv_id v) (mt_hash t) @ [(''note'', jopt JString note),
                  (''taskId'', JString (id_text task))]) db2))))"

text \<open>The service: the schemas, then the repository.\<close>

definition service_retry :: "kn_rules \<Rightarrow> manual_target \<Rightarrow> kn_db \<Rightarrow> (kn_error, manual_outcome \<times> kn_db) result" where
  "service_retry kr t db = bindR (targetSchema t) (\<lambda>t'. retry_review kr t' db)"

definition service_resolve ::
  "kn_rules \<Rightarrow> manual_target \<Rightarrow> manual_resolution \<Rightarrow> kn_db \<Rightarrow> (kn_error, manual_outcome \<times> kn_db) result" where
  "service_resolve kr t res db =
     bindR (targetSchema t) (\<lambda>t'. bindR (resolutionSchema res) (\<lambda>res'. resolve_review kr t' res' db))"

end
