(* ===== verification/Section_Review.thy ===== *)
theory Section_Review
  imports Automation_Review
begin

section \<open>Section reviews\<close>

text \<open>
  \<open>KnowledgeSectionReviewService\<close> (\<open>review-sections-service.ts\<close>) and
  \<open>DrizzleKnowledgeSectionReviewRepository\<close> (\<open>review-sections-repository.ts\<close>): the sections of the
  current version, the decisions on them with their revisions, and the completion of a review. The
  service reads in transactions of their own; what others commit between its reads and its last
  write is the second state of the operation.
\<close>

record section_target =
  tg_document :: document_row
  tg_version :: version_row
  tg_source :: "source_row option"
  tg_editors :: "js_string list"

definition edit_actions :: "string set" where
  "edit_actions = {''knowledge.draft.create'', ''knowledge.draft.update''}"

text \<open>Who created the version or edited it, by the audit log.\<close>

definition version_editors :: "version_row \<Rightarrow> nat \<Rightarrow> kn_db \<Rightarrow> js_string list" where
  "version_editors v docId db = remdups (filter (\<lambda>u. u \<noteq> []) (List.map_filter id (kv_createdBy v # map au_actor
     (filter (\<lambda>a. au_targetType a = ''knowledge_document'' \<and> au_target a = id_text docId \<and> au_action a \<in> edit_actions
        \<and> jget ''versionId'' (au_metadata a) = Some (JString (id_text (kv_id v)))) (kn_audit db)))))"

definition getTarget :: "nat \<Rightarrow> nat option \<Rightarrow> kn_db \<Rightarrow> section_target option" where
  "getTarget docId versionId db = (case lookup kd_id docId (kn_documents db) of
     None \<Rightarrow> None
   | Some d \<Rightarrow> (case kd_current d of
       None \<Rightarrow> None
     | Some cur \<Rightarrow>
         if versionId \<noteq> None \<and> versionId \<noteq> Some cur then None
         else (case lookup kv_id cur (kn_versions db) of
           None \<Rightarrow> None
         | Some v \<Rightarrow> if kv_document v \<noteq> docId then None
             else Some \<lparr>tg_document = d, tg_version = v, tg_source = document_source d db,
                    tg_editors = version_editors v docId db\<rparr>)))"

definition choice_of :: "decision_row \<Rightarrow> section_choice" where
  "choice_of d = \<lparr>ch_decision = sd_decision d, ch_sectionHash = sd_hash d,
     ch_reviewer = (case sd_reviewer d of None \<Rightarrow> [] | Some u \<Rightarrow> u)\<rparr>"

definition section_choice_of :: "kn_db \<Rightarrow> section_row \<Rightarrow> section_choice option" where
  "section_choice_of db s = map_option choice_of (find (\<lambda>d. sd_section d = rs_id s) (kn_decisions db))"

definition listSections :: "nat \<Rightarrow> kn_db \<Rightarrow> (section_row \<times> section_choice option) list" where
  "listSections versionId db = map (\<lambda>s. (s, section_choice_of db s))
     (sort_by (\<lambda>a b. rs_index a \<le> rs_index b) (filter (\<lambda>s. rs_version s = versionId) (kn_sections db)))"

subsection \<open>The current rights and the sections they require\<close>

definition currentKnowledgeRightsSnapshot :: "kn_rules \<Rightarrow> section_target \<Rightarrow> (kn_error, jobject) result" where
  "currentKnowledgeRightsSnapshot kr t =
     (case (assertKnowledgeSourceAuthorized kr (tg_source t) (kv_citation (tg_version t)), tg_source t) of
        (Inr _, Some s) \<Rightarrow> Inr (rights_snapshot s)
      | _ \<Rightarrow> Inl (ApiError 409 ''KNOWLEDGE_SOURCE_RIGHTS_INVALID''))"

definition target_hash :: "section_target \<Rightarrow> (kn_error, js_string) result" where
  "target_hash t = (case kv_hash (tg_version t) of
     Some h \<Rightarrow> if sha256_hex h then Inr h else Inl (ApiError 409 ''KNOWLEDGE_CONTENT_HASH_REQUIRED'')
   | None \<Rightarrow> Inl (ApiError 409 ''KNOWLEDGE_CONTENT_HASH_REQUIRED''))"

definition page_number :: "string \<Rightarrow> jobject \<Rightarrow> int option" where
  "page_number k r = (case jget k r of Some (JNumber n) \<Rightarrow> Some n | _ \<Rightarrow> None)"

definition sectionPages :: "section_target \<Rightarrow> page_range list" where
  "sectionPages t = (case jget ''reviewSectionPages'' (kv_citation (tg_version t)) of
     Some (JArray xs) \<Rightarrow> map (\<lambda>x. let r = recordValue (Some x) in (page_number ''pageStart'' r, page_number ''pageEnd'' r)) xs
   | _ \<Rightarrow> [])"

definition requiredSectionsForTarget :: "kn_rules \<Rightarrow> section_target \<Rightarrow> (kn_error, review_section list) result" where
  "requiredSectionsForTarget kr t =
     bindR (target_hash t) (\<lambda>hash.
     bindR (currentKnowledgeRightsSnapshot kr t) (\<lambda>rights.
       Inr (buildPageAwareKnowledgeReviewSections kr (kv_id (tg_version t)) hash (kv_content (tg_version t))
         (case jstring (jget ''officialText'' (kv_citation (tg_version t))) of None \<Rightarrow> [] | Some s \<Rightarrow> s)
         rights (sectionPages t))))"

subsection \<open>The workspace\<close>

text \<open>\<open>ON CONFLICT (version_id, section_index) DO NOTHING\<close>.\<close>

definition insertRequiredSections :: "review_section list \<Rightarrow> kn_db \<Rightarrow> (kn_error, kn_db) result" where
  "insertRequiredSections ss db =
     insert_sections (filter (\<lambda>s. \<not> list_ex (\<lambda>x. rs_version x = rs_version s \<and> rs_index x = rs_index s)
       (kn_sections db)) ss) db"

definition getWorkspace ::
  "kn_rules \<Rightarrow> nat \<Rightarrow> kn_db \<Rightarrow> (kn_error, (section_row \<times> section_choice option) list \<times> kn_db) result" where
  "getWorkspace kr docId db = (case getTarget docId None db of
     None \<Rightarrow> Inl (ApiError 404 ''NOT_FOUND'')
   | Some t \<Rightarrow>
       bindR (target_hash t) (\<lambda>hash.
       let ss = listSections (kv_id (tg_version t)) db
       in if ss \<noteq> [] then Inr (ss, db)
          else bindR (requiredSectionsForTarget kr t) (\<lambda>required.
            if required = [] then Inl (ApiError 409 ''KNOWLEDGE_REVIEW_CONTENT_EMPTY'')
            else bindR (insertRequiredSections required db) (\<lambda>db'.
              Inr (listSections (kv_id (tg_version t)) db', db')))))"

subsection \<open>Decisions\<close>

record decide_input =
  de_document :: nat
  de_version :: nat
  de_section :: nat
  de_hash :: js_string
  de_revision :: int
  de_decision :: section_decision
  de_note :: "js_string option"
  de_reviewer :: js_string

definition target_editors :: "section_target \<Rightarrow> js_string set" where
  "target_editors t = set (tg_editors t)
     \<union> (case kv_createdBy (tg_version t) of Some (c # cs) \<Rightarrow> {c # cs} | _ \<Rightarrow> {})"

definition getSection :: "nat \<Rightarrow> nat \<Rightarrow> nat \<Rightarrow> kn_db \<Rightarrow> (section_row \<times> section_choice option) option" where
  "getSection docId versionId sectionId db = (case getTarget docId (Some versionId) db of
     None \<Rightarrow> None
   | Some _ \<Rightarrow> map_option (\<lambda>s. (s, section_choice_of db s))
       (find (\<lambda>s. rs_id s = sectionId \<and> rs_version s = versionId) (kn_sections db)))"

definition decision_name :: "section_decision \<Rightarrow> string" where
  "decision_name d = (case d of SecApproved \<Rightarrow> ''approved'' | SecRejected \<Rightarrow> ''rejected'' | SecChanges \<Rightarrow> ''changes_requested'')"

definition writeDecision :: "decide_input \<Rightarrow> js_string \<Rightarrow> kn_db \<Rightarrow> (kn_error, kn_db) result" where
  "writeDecision i sectionHash db =
     (let current = find (\<lambda>d. sd_section d = de_section i) (kn_decisions db);
          revision = (case current of None \<Rightarrow> 0 | Some d \<Rightarrow> sd_revision d);
          row = \<lparr>sd_section = de_section i, sd_hash = sectionHash, sd_decision = de_decision i, sd_note = de_note i,
            sd_reviewer = Some (de_reviewer i), sd_revision = revision + 1, sd_decidedAt = kn_now db\<rparr>
      in if revision \<noteq> de_revision i then Inl (ApiError 409 ''KNOWLEDGE_SECTION_REVISION_CONFLICT'')
         else Inr (kn_audited \<lparr>au_actor = Some (de_reviewer i), au_role = js ''knowledge_reviewer'',
             au_action = ''knowledge.section.decision'', au_targetType = ''knowledge_review_section'',
             au_target = id_text (de_section i),
             au_metadata = [(''documentId'', JString (id_text (de_document i))),
               (''versionId'', JString (id_text (de_version i))), (''sectionHash'', JString sectionHash),
               (''decision'', JString (js (decision_name (de_decision i)))),
               (''noteProvided'', JBool (case de_note i of Some (_ # _) \<Rightarrow> True | _ \<Rightarrow> False))],
             au_at = kn_now db\<rparr>
           (db\<lparr>kn_decisions := (case current of
              Some _ \<Rightarrow> update_where (\<lambda>d. sd_section d = de_section i \<and> sd_revision d = de_revision i) (\<lambda>_. row)
                (kn_decisions db)
            | None \<Rightarrow> kn_decisions db @ [row])\<rparr>)))"

definition decide :: "kn_rules \<Rightarrow> decide_input \<Rightarrow> kn_db \<Rightarrow> (kn_error, kn_db) result" where
  "decide kr i db = (case getTarget (de_document i) (Some (de_version i)) db of
     None \<Rightarrow> Inl (ApiError 404 ''NOT_FOUND'')
   | Some t \<Rightarrow>
       if de_reviewer i \<in> target_editors t then Inl (ApiError 409 ''KNOWLEDGE_SELF_REVIEW_FORBIDDEN'')
       else (case getSection (de_document i) (de_version i) (de_section i) db of
         None \<Rightarrow> Inl (ApiError 404 ''NOT_FOUND'')
       | Some (s, _) \<Rightarrow>
           bindR (if rs_hash s \<noteq> de_hash i then conflict ''KNOWLEDGE_SECTION_CHANGED'' else target_hash t) (\<lambda>hash.
           bindR (if rs_versionHash s \<noteq> hash then conflict ''KNOWLEDGE_SECTION_CHANGED''
                  else currentKnowledgeRightsSnapshot kr t) (\<lambda>rights.
             if rs_rightsHash s \<noteq> knowledgeRightsSnapshotHash kr rights then conflict ''KNOWLEDGE_SECTION_CHANGED''
             else if de_decision i \<noteq> SecApproved \<and> (case de_note i of None \<Rightarrow> True | Some n \<Rightarrow> js_trim n = [])
             then Inl (ApiError 422 ''KNOWLEDGE_SECTION_NOTE_REQUIRED'')
             else writeDecision i (rs_hash s) db))))"

subsection \<open>Completing a review\<close>

record completion_input =
  cp_document :: nat
  cp_version :: nat
  cp_hash :: js_string
  cp_reviewer :: js_string

text \<open>What \<open>complete\<close> checks in the state it reads.\<close>

definition completion_checks ::
  "kn_rules \<Rightarrow> completion_input \<Rightarrow> kn_db \<Rightarrow> (kn_error, section_target \<times> nat) result" where
  "completion_checks kr i db = (case getTarget (cp_document i) (Some (cp_version i)) db of
     None \<Rightarrow> Inl (ApiError 404 ''NOT_FOUND'')
   | Some t \<Rightarrow>
       let ss = listSections (cp_version i) db in
       bindR (requiredSectionsForTarget kr t) (\<lambda>required.
         if length required \<noteq> length ss
            \<or> map (\<lambda>s. (rs_hash s, rs_versionHash s)) required \<noteq> map (\<lambda>(s, _). (rs_hash s, rs_versionHash s)) ss
         then conflict ''KNOWLEDGE_SECTION_CHANGED''
         else if cp_reviewer i \<in> target_editors t
            \<or> list_ex (\<lambda>(_, c). case c of None \<Rightarrow> False | Some d \<Rightarrow> ch_reviewer d \<in> target_editors t) ss
         then conflict ''KNOWLEDGE_SELF_REVIEW_FORBIDDEN''
         else
           bindR (target_hash t) (\<lambda>hash.
           bindR (currentKnowledgeRightsSnapshot kr t) (\<lambda>rights.
           bindR (assertKnowledgeSectionReviewComplete kr (cp_version i) (kv_id (tg_version t)) hash (cp_hash i)
               (kv_createdBy (tg_version t)) (cp_reviewer i) rights ss) (\<lambda>_. Inr (t, length ss))))))"

definition section_review :: "kn_rules \<Rightarrow> completion_input \<Rightarrow> timestamp \<Rightarrow> jobject" where
  "section_review kr i at = [(''status'', JString (js ''approved'')), (''reviewedBy'', JString (cp_reviewer i)),
     (''reviewedAt'', JString (kr_iso kr at)), (''contentHash'', JString (cp_hash i))]"

text \<open>The review stored with the version also names its mode and the number of sections.\<close>

definition stored_section_review :: "kn_rules \<Rightarrow> completion_input \<Rightarrow> timestamp \<Rightarrow> nat \<Rightarrow> jobject" where
  "stored_section_review kr i at n = [(''status'', JString (js ''approved'')), (''mode'', JString (js ''section'')),
     (''reviewedBy'', JString (cp_reviewer i)), (''reviewedAt'', JString (kr_iso kr at)),
     (''contentHash'', JString (cp_hash i)), (''sectionCount'', JNumber (int n))]"

definition completeReview ::
  "kn_rules \<Rightarrow> completion_input \<Rightarrow> timestamp \<Rightarrow> nat \<Rightarrow> bool \<Rightarrow> kn_db \<Rightarrow> (kn_error, kn_db) result" where
  "completeReview kr i at sectionCount full db = (case lookup kv_id (cp_version i) (kn_versions db) of
     None \<Rightarrow> conflict ''KNOWLEDGE_REVIEW_CONFLICT''
   | Some v \<Rightarrow>
       if kv_document v \<noteq> cp_document i \<or> kv_hash v \<noteq> Some (cp_hash i) then conflict ''KNOWLEDGE_REVIEW_CONFLICT''
       else if Option.bind (lookup kd_id (cp_document i) (kn_documents db)) kd_current \<noteq> Some (cp_version i)
       then conflict ''KNOWLEDGE_VERSION_CHANGED''
       else
         let db1 = set_version (\<lambda>x. kv_id x = cp_version i) (\<lambda>x. x\<lparr>kv_status := KnReview,
               kv_metadata := kv_metadata v @ [(''reviewStatus'', JString (js ''approved'')),
                 (''embeddingStatus'', JString (js (if full then ''queued'' else ''not_applicable''))),
                 (''review'', JObject (stored_section_review kr i at sectionCount))]\<rparr>) db;
             db2 = set_document (\<lambda>d. kd_id d = cp_document i) (\<lambda>d. d\<lparr>kd_status := KnReview\<rparr>) db1;
             db3 = (if full then enqueue_task 10 (embedding_key (cp_version i) (cp_hash i) (js ''section-review''))
               (embedding_payload (cp_document i) (cp_version i) (section_review kr i at)) (Some (cp_reviewer i)) db2
               else db2)
         in Inr (kn_audited \<lparr>au_actor = Some (cp_reviewer i), au_role = js ''knowledge_reviewer'',
              au_action = ''knowledge.section_review.complete'', au_targetType = ''knowledge_document'',
              au_target = id_text (cp_document i),
              au_metadata = [(''versionId'', JString (id_text (cp_version i))), (''contentHash'', JString (cp_hash i)),
                (''sectionCount'', JNumber (int sectionCount)), (''published'', JBool False)],
              au_at = at\<rparr> db3))"

text \<open>\<open>complete\<close>: the checks in the state \<open>db\<close>, the writes in the state \<open>db'\<close> it finds afterwards.\<close>

definition complete_sections ::
  "kn_rules \<Rightarrow> completion_input \<Rightarrow> kn_db \<Rightarrow> kn_db \<Rightarrow> (kn_error, kn_db) result" where
  "complete_sections kr i db db' = bindR (completion_checks kr i db) (\<lambda>(t, n).
     completeReview kr i (kn_now db') n (ingestion_mode (kv_citation (tg_version t)) \<noteq> metadata_only) db')"

end
