(* ===== verification/Knowledge_Admin.thy ===== *)
theory Knowledge_Admin
  imports Manual_Review Section_Review
begin

section \<open>Administration of the knowledge base\<close>

text \<open>
  The knowledge and source operations of the administration store (\<open>src/server/api/store.ts\<close>):
  drafts and their edits, the import of a candidate, the review of a whole document, publication,
  archiving, rollback, and the governed sources. An operation that the store answers with \<open>null\<close>
  leaves the state as it is and returns \<open>None\<close>.
\<close>

record admin_context =
  ac_actor :: js_string
  ac_role :: string
  ac_request :: js_string
  ac_path :: js_string
  ac_method :: js_string

definition admin_audit :: "admin_context \<Rightarrow> string \<Rightarrow> string \<Rightarrow> nat \<Rightarrow> jobject \<Rightarrow> kn_db \<Rightarrow> kn_db" where
  "admin_audit ctx action targetType target metadata db = kn_audited \<lparr>au_actor = Some (ac_actor ctx),
     au_role = js (ac_role ctx), au_action = action, au_targetType = targetType, au_target = id_text target,
     au_metadata = [(''requestId'', JString (ac_request ctx)), (''path'', JString (ac_path ctx)),
       (''method'', JString (ac_method ctx))] @ metadata,
     au_at = kn_now db\<rparr> db"

definition source_known :: "nat option \<Rightarrow> kn_db \<Rightarrow> bool" where
  "source_known i db \<longleftrightarrow> (case i of None \<Rightarrow> True | Some k \<Rightarrow> lookup ks_id k (kn_sources db) \<noteq> None)"

subsection \<open>Drafts\<close>

record draft_input =
  dr_title :: js_string
  dr_source :: "nat option"
  dr_fullText :: bool
  dr_content :: js_string
  dr_citation :: jobject

definition mode_json :: "bool \<Rightarrow> json" where
  "mode_json full = JString (js (if full then ''full_text'' else ''metadata_only''))"

definition blank_document :: "nat \<Rightarrow> kn_status \<Rightarrow> nat option \<Rightarrow> js_string \<Rightarrow> js_string \<Rightarrow> kn_db \<Rightarrow> document_row" where
  "blank_document i status src title createdBy db = \<lparr>kd_id = i, kd_source = src, kd_externalKey = None,
     kd_title = title, kd_description = None, kd_language = js ''zh-CN'', kd_mimeType = None, kd_status = status,
     kd_current = None, kd_tags = [], kd_metadata = [], kd_createdBy = Some createdBy, kd_createdAt = kn_now db,
     kd_updatedAt = kn_now db\<rparr>"

definition blank_version :: "nat \<Rightarrow> nat \<Rightarrow> kn_status \<Rightarrow> js_string \<Rightarrow> kn_db \<Rightarrow> version_row" where
  "blank_version i doc status createdBy db = \<lparr>kv_id = i, kv_document = doc, kv_version = 1, kv_hash = None,
     kv_content = [], kv_citation = [], kv_status = status, kv_objectKey = None, kv_parserVersion = None,
     kv_sourceUpdatedAt = None, kv_metadata = [], kv_createdBy = Some createdBy, kv_publishedAt = None,
     kv_createdAt = kn_now db, kv_updatedAt = kn_now db\<rparr>"

text \<open>A new document with its first version, which becomes current.\<close>

definition insert_document :: "document_row \<Rightarrow> version_row \<Rightarrow> kn_db \<Rightarrow> kn_db" where
  "insert_document d v db = db\<lparr>kn_documents := kn_documents db @ [d\<lparr>kd_current := Some (kv_id v)\<rparr>],
     kn_versions := kn_versions db @ [v], kn_next := kn_next db + 2\<rparr>"

definition createKnowledgeDraft ::
  "kn_rules \<Rightarrow> draft_input \<Rightarrow> admin_context \<Rightarrow> kn_db \<Rightarrow> (kn_error, nat \<times> kn_db) result" where
  "createKnowledgeDraft kr i ctx db =
     (if \<not> source_known (dr_source i) db then Inl (DbViolation ''knowledge_document.source_id'')
      else
        let docId = kn_next db; vid = kn_next db + 1;
            v = (blank_version vid docId KnDraft (ac_actor ctx) db)\<lparr>kv_hash := Some (kr_sha kr (dr_content i)),
              kv_content := dr_content i, kv_citation := dr_citation i @ [(''ingestionMode'', mode_json (dr_fullText i))],
              kv_metadata := [(''reviewStatus'', JString (js ''required'')),
                (''embeddingStatus'', JString (js ''pending_review''))]\<rparr>
        in Inr (docId, admin_audit ctx ''knowledge.draft.create'' ''knowledge_document'' docId
             [(''versionId'', JString (id_text vid)), (''sourceId'', jopt (\<lambda>s. JString (id_text s)) (dr_source i))]
             (insert_document (blank_document docId KnDraft (dr_source i) (dr_title i) (ac_actor ctx) db) v db)))"

definition importKnowledgeCandidate ::
  "kn_rules \<Rightarrow> knowledge_candidate \<Rightarrow> admin_context \<Rightarrow> kn_db \<Rightarrow> (kn_error, nat \<times> kn_db) result" where
  "importKnowledgeCandidate kr c ctx db =
     (let content = renderKnowledgeCandidate c; hash = kr_sha kr content;
          docId = kn_next db; vid = kn_next db + 1; full = (ingestion_mode (ca_citation c) = full_text)
      in case find (\<lambda>s. ks_canonicalUrl s = Some (ca_sourceUrl c) \<and> ks_deletedAt s = None) (kn_sources db) of
           None \<Rightarrow> Inl (ApiError 409 ''KNOWLEDGE_SOURCE_NOT_GOVERNED'')
         | Some src \<Rightarrow>
             bindR (assertKnowledgeSourceAuthorized kr (Some src) (ca_citation c)) (\<lambda>_.
             if list_ex (\<lambda>d. kd_source d = Some (ks_id src) \<and> kd_externalKey d = Some (ca_externalKey c)) (kn_documents db)
             then Inl (ApiError 409 ''KNOWLEDGE_CANDIDATE_ALREADY_EXISTS'')
             else
               bindR (buildCandidateKnowledgeReviewSections kr c vid hash (rights_snapshot src)) (\<lambda>ss.
               let d = (blank_document docId KnReview (Some (ks_id src)) (ca_title c) (ac_actor ctx) db)\<lparr>
                     kd_externalKey := Some (ca_externalKey c), kd_description := Some (ca_description c),
                     kd_language := ca_language c, kd_mimeType := Some (ca_mimeType c), kd_tags := ca_tags c,
                     kd_metadata := [(''curationStatus'', JString (js ''ai_assisted_draft'')),
                       (''reviewRequirements'', JArray (map JString (ca_requirements c))),
                       (''notRetrievableUntilHumanReviewAndPublication'', JBool True)]\<rparr>;
                   v = (blank_version vid docId KnReview (ac_actor ctx) db)\<lparr>kv_hash := Some hash, kv_content := content,
                     kv_citation := ca_citation c @ [(''sourceCandidatePath'', JString (js ''admin_json_import'')),
                       (''reviewEvidenceMode'', JString (js ''normalized_sections_v1''))],
                     kv_parserVersion := Some (js ''openvac-normalized-review-v1''),
                     kv_metadata := [(''reviewStatus'', JString (js ''required'')),
                       (''embeddingStatus'', JString (js (if full then ''pending_review'' else ''not_applicable''))),
                       (''curationStatus'', JString (js ''ai_assisted_draft'')),
                       (''importedForHumanReview'', JBool True)]\<rparr>
               in bindR (insert_sections ss (insert_document d v db)) (\<lambda>db1.
                  Inr (docId, admin_audit ctx ''knowledge.candidate.import'' ''knowledge_document'' docId
                    [(''versionId'', JString (id_text vid)), (''sourceId'', JString (id_text (ks_id src))),
                     (''externalKey'', JString (ca_externalKey c)), (''sectionCount'', JNumber (int (length ss))),
                     (''decisions'', JNumber 0), (''chunks'', JNumber 0)] db1)))))"

subsection \<open>Edits\<close>

record draft_update =
  du_title :: "js_string option"
  du_source :: "nat option"
  du_fullText :: "bool option"
  du_content :: "js_string option"
  du_citation :: "jobject option"

definition changed_fields :: "draft_update \<Rightarrow> json" where
  "changed_fields u = JArray (map (\<lambda>(_, k). JString (js k)) (filter fst
     [(du_title u \<noteq> None, ''title''), (du_source u \<noteq> None, ''sourceId''), (du_fullText u \<noteq> None, ''ingestionMode''),
      (du_content u \<noteq> None, ''content''), (du_citation u \<noteq> None, ''citationMetadata'')]))"

definition knowledgeEvidenceMetadataChanged :: "nat option \<Rightarrow> draft_update \<Rightarrow> bool" where
  "knowledgeEvidenceMetadataChanged current u \<longleftrightarrow> du_fullText u \<noteq> None \<or> du_citation u \<noteq> None
     \<or> (du_source u \<noteq> None \<and> du_source u \<noteq> current)"

definition invalidated_review :: "kn_rules \<Rightarrow> js_string \<Rightarrow> timestamp \<Rightarrow> string \<Rightarrow> jobject \<Rightarrow> jobject" where
  "invalidated_review kr by at reason review =
     (if review = [] then []
      else [(''review'', JObject (review @ [(''status'', JString (js ''invalidated'')),
        (''invalidatedAt'', JString (kr_iso kr at)), (''invalidatedBy'', JString by),
        (''invalidatedReason'', JString (js reason))]))])"

definition required_again :: jobject where
  "required_again = [(''reviewStatus'', JString (js ''required'')), (''embeddingStatus'', JString (js ''pending_review''))]"

definition invalidateKnowledgeReviewAfterHashChange ::
  "kn_rules \<Rightarrow> jobject \<Rightarrow> js_string \<Rightarrow> js_string \<Rightarrow> js_string \<Rightarrow> timestamp \<Rightarrow> bool \<times> jobject" where
  "invalidateKnowledgeReviewAfterHashChange kr metadata previous next by at =
     (if kr_lower kr previous = kr_lower kr next then (False, metadata)
      else
        let review = recordValue (jget ''review'' metadata)
        in (True, metadata @ required_again @ (if review = [] then []
             else [(''review'', JObject (review @ [(''status'', JString (js ''invalidated'')),
               (''invalidatedAt'', JString (kr_iso kr at)), (''invalidatedBy'', JString by),
               (''invalidatedReason'', JString (js ''content_hash_changed'')),
               (''invalidatedContentHash'', JString (kr_lower kr next))]))])))"

definition updated_citation :: "draft_update \<Rightarrow> jobject \<Rightarrow> jobject" where
  "updated_citation u citation = (case du_citation u of
     Some c \<Rightarrow> c @ (case du_fullText u of None \<Rightarrow> [] | Some f \<Rightarrow> [(''ingestionMode'', mode_json f)])
   | None \<Rightarrow> citation @ (case du_fullText u of None \<Rightarrow> [] | Some f \<Rightarrow> [(''ingestionMode'', mode_json f)]))"

definition updateKnowledgeDraft ::
  "kn_rules \<Rightarrow> nat \<Rightarrow> draft_update \<Rightarrow> admin_context \<Rightarrow> kn_db \<Rightarrow> (kn_error, (nat \<times> kn_db) option) result" where
  "updateKnowledgeDraft kr docId u ctx db = (case lookup kd_id docId (kn_documents db) of
     None \<Rightarrow> Inr None
   | Some d \<Rightarrow>
       if kd_status d \<noteq> KnDraft \<and> kd_status d \<noteq> KnReview then Inr None
       else (case Option.bind (kd_current d) (\<lambda>i. lookup kv_id i (kn_versions db)) of
         None \<Rightarrow> Inr None
       | Some v \<Rightarrow>
           if kv_document v \<noteq> docId \<or> (kv_status v \<noteq> KnDraft \<and> kv_status v \<noteq> KnReview) then Inr None
           else if \<not> source_known (du_source u) db then Inl (DbViolation ''knowledge_document.source_id'')
           else
             let previous = (case kv_hash v of Some h \<Rightarrow> h | None \<Rightarrow> kr_sha kr (kv_content v));
                 next = (case du_content u of None \<Rightarrow> previous | Some c \<Rightarrow> kr_sha kr c);
                 (hashChanged, metadata) = invalidateKnowledgeReviewAfterHashChange kr (kv_metadata v) previous next
                   (ac_actor ctx) (kn_now db);
                 evidenceChanged = knowledgeEvidenceMetadataChanged (kd_source d) u;
                 invalid = (hashChanged \<or> evidenceChanged);
                 review = recordValue (case jget ''review'' metadata of Some r \<Rightarrow> Some r
                   | None \<Rightarrow> jget ''review'' (kv_metadata v));
                 metadata' = (if \<not> invalid then kv_metadata v
                   else if evidenceChanged then metadata @ required_again @ invalidated_review kr (ac_actor ctx) (kn_now db)
                     (if hashChanged then ''content_hash_and_evidence_metadata_changed'' else ''evidence_metadata_changed'')
                     review
                   else metadata);
                 db1 = set_document (\<lambda>x. kd_id x = docId) (\<lambda>x. x\<lparr>
                   kd_status := (if invalid then KnDraft else kd_status x),
                   kd_title := (case du_title u of None \<Rightarrow> kd_title x | Some t \<Rightarrow> t),
                   kd_source := (case du_source u of None \<Rightarrow> kd_source x | Some s \<Rightarrow> Some s)\<rparr>) db;
                 db2 = set_version (\<lambda>x. kv_id x = kv_id v) (\<lambda>x. x\<lparr>
                   kv_status := (if invalid then KnDraft else kv_status x),
                   kv_content := (case du_content u of None \<Rightarrow> kv_content x | Some c \<Rightarrow> c),
                   kv_hash := (case du_content u of None \<Rightarrow> kv_hash x | Some _ \<Rightarrow> Some next),
                   kv_citation := updated_citation u (kv_citation v),
                   kv_metadata := metadata'\<rparr>) db1
             in Inr (Some (docId, admin_audit ctx ''knowledge.draft.update'' ''knowledge_document'' docId
                  [(''versionId'', JString (id_text (kv_id v))), (''changedFields'', changed_fields u),
                   (''reviewInvalidated'', JBool invalid), (''previousContentHash'', JString previous),
                   (''nextContentHash'', JString next)] db2))))"

subsection \<open>The publication gate\<close>

text \<open>\<open>stringValue\<close> of the store: the trimmed text, when it is not blank.\<close>

definition store_string :: "json option \<Rightarrow> js_string option" where
  "store_string v = Option.bind (jstring v) (\<lambda>s. let t = js_trim s in if t = [] then None else Some t)"

definition hasManualDocumentResolution :: "jobject \<Rightarrow> bool" where
  "hasManualDocumentResolution metadata \<longleftrightarrow> (let review = recordValue (jget ''review'' metadata) in
     jget ''mode'' review = Some (JString (js ''manual_document_resolution''))
     \<and> store_string (jget ''note'' review) \<noteq> None)"

definition section_reviewed :: "jobject \<Rightarrow> bool" where
  "section_reviewed review \<longleftrightarrow> jget ''mode'' review = Some (JString (js ''section''))
     \<and> (case jget ''sectionCount'' review of Some (JNumber n) \<Rightarrow> 1 \<le> n | _ \<Rightarrow> False)"

definition assertReviewedKnowledgeEvidence ::
  "kn_rules \<Rightarrow> timestamp \<Rightarrow> version_row \<Rightarrow> nat \<Rightarrow> (kn_error, unit) result" where
  "assertReviewedKnowledgeEvidence kr n v chunkCount =
     (let review = recordValue (jget ''review'' (kv_metadata v));
          reviewedAt = store_string (jget ''reviewedAt'' review);
          reviewHash = map_option (kr_lower kr) (store_string (jget ''contentHash'' review));
          contentHash = map_option (kr_lower kr) (kv_hash v);
          embedding = jget ''embeddingStatus'' (kv_metadata v)
      in if jget ''reviewStatus'' (kv_metadata v) \<noteq> Some (JString (js ''approved''))
            \<or> store_string (jget ''reviewedBy'' review) = None
            \<or> (case Option.bind reviewedAt (kr_date kr) of None \<Rightarrow> True | Some t \<Rightarrow> n + 300000 < t)
         then conflict ''KNOWLEDGE_HUMAN_REVIEW_REQUIRED''
         else if \<not> section_reviewed review \<and> \<not> hasManualDocumentResolution (kv_metadata v)
         then conflict ''KNOWLEDGE_SECTION_REVIEW_REQUIRED''
         else if (case (contentHash, reviewHash) of
              (Some h, Some r) \<Rightarrow> \<not> sha256_hex h \<or> h \<noteq> r \<or> h \<noteq> kr_sha kr (kv_content v) | _ \<Rightarrow> True)
         then conflict ''KNOWLEDGE_CONTENT_HASH_MISMATCH''
         else if ingestion_mode (kv_citation v) = full_text
         then (if embedding \<noteq> Some (JString (js ''completed'')) \<or> chunkCount < 1
               then conflict ''KNOWLEDGE_EMBEDDING_REQUIRED'' else Inr ())
         else if ingestion_mode (kv_citation v) = metadata_only
         then (if embedding \<noteq> Some (JString (js ''not_applicable''))
               then conflict ''KNOWLEDGE_EMBEDDING_STATUS_INVALID'' else Inr ())
         else conflict ''KNOWLEDGE_INGESTION_MODE_INVALID'')"

definition assertKnowledgePublicationGate ::
  "kn_rules \<Rightarrow> timestamp \<Rightarrow> document_row \<Rightarrow> version_row \<Rightarrow> nat \<Rightarrow> (kn_error, unit) result" where
  "assertKnowledgePublicationGate kr n d v chunkCount =
     (if kd_status d \<noteq> KnReview \<or> kv_status v \<noteq> KnReview then conflict ''KNOWLEDGE_REVIEW_REQUIRED''
      else assertReviewedKnowledgeEvidence kr n v chunkCount)"

text \<open>A policy error of either assertion becomes an API error with its code.\<close>

definition assertPublishableKnowledgeSource ::
  "kn_rules \<Rightarrow> source_row option \<Rightarrow> jobject \<Rightarrow> (kn_error, unit) result" where
  "assertPublishableKnowledgeSource kr src citation =
     (case bindR (assertKnowledgeSourceAuthorized kr src citation)
         (\<lambda>_. assertKnowledgePublicationEvidence src citation) of
        Inl (PolicyError code) \<Rightarrow> conflict code | r \<Rightarrow> r)"

definition chunk_count :: "nat \<Rightarrow> kn_db \<Rightarrow> nat" where
  "chunk_count vid db = length (filter (\<lambda>c. kc_version c = vid) (kn_chunks db))"

definition effectiveKnowledgeReviewStatus :: "kn_rules \<Rightarrow> version_row \<Rightarrow> js_string" where
  "effectiveKnowledgeReviewStatus kr v =
     (let review = recordValue (jget ''review'' (kv_metadata v));
          configured = (case store_string (jget ''reviewStatus'' (kv_metadata v)) of None \<Rightarrow> js ''required'' | Some s \<Rightarrow> s)
      in if jget ''status'' review = Some (JString (js ''invalidated'')) then js ''invalidated''
         else if configured \<noteq> js ''approved'' then configured
         else (case (map_option (kr_lower kr) (store_string (jget ''contentHash'' review)), map_option (kr_lower kr) (kv_hash v)) of
           (Some r, Some h) \<Rightarrow> if h = r \<and> kr_sha kr (kv_content v) = h then js ''approved'' else js ''invalidated''
         | _ \<Rightarrow> js ''invalidated''))"

subsection \<open>Publishing\<close>

definition publishKnowledgeDraft ::
  "kn_rules \<Rightarrow> nat \<Rightarrow> admin_context \<Rightarrow> kn_db \<Rightarrow> (kn_error, (nat \<times> kn_db) option) result" where
  "publishKnowledgeDraft kr docId ctx db = (case lookup kd_id docId (kn_documents db) of
     None \<Rightarrow> Inr None
   | Some d \<Rightarrow> (case Option.bind (kd_current d) (\<lambda>i. lookup kv_id i (kn_versions db)) of
       None \<Rightarrow> Inr None
     | Some v \<Rightarrow>
         bindR (assertKnowledgePublicationGate kr (kn_now db) d v (chunk_count (kv_id v) db)) (\<lambda>_.
         bindR (assertPublishableKnowledgeSource kr (document_source d db) (kv_citation v)) (\<lambda>_.
         bindR (if hasManualDocumentResolution (kv_metadata v) then Inr ()
           else (case document_source d db of
               None \<Rightarrow> conflict ''KNOWLEDGE_SOURCE_REQUIRED''
             | Some s \<Rightarrow> assertKnowledgeSectionPublicationReady kr (kv_id v)
                 (case kv_hash v of None \<Rightarrow> [] | Some h \<Rightarrow> h) (kv_createdBy v) (rights_snapshot s)
                 (listSections (kv_id v) db))) (\<lambda>_.
         bindR (update_version (\<lambda>x. kv_id x = kv_id v \<and> kv_status x = KnReview)
             (\<lambda>x. x\<lparr>kv_status := KnPublished, kv_publishedAt := Some (kn_now db)\<rparr>)
             (ApiError 409 ''KNOWLEDGE_PUBLISH_CONFLICT'') db) (\<lambda>db1.
         bindR (update_document (\<lambda>x. kd_id x = docId \<and> kd_current x = Some (kv_id v) \<and> kd_status x = KnReview)
             (\<lambda>x. x\<lparr>kd_status := KnPublished\<rparr>) (ApiError 409 ''KNOWLEDGE_PUBLISH_CONFLICT'') db1) (\<lambda>db2.
           Inr (Some (docId, admin_audit ctx ''knowledge.publish'' ''knowledge_document'' docId
             [(''versionId'', JString (id_text (kv_id v)))] db2)))))))))"

definition status_text :: "kn_status \<Rightarrow> string" where
  "status_text s = (case s of KnDraft \<Rightarrow> ''draft'' | KnProcessing \<Rightarrow> ''processing'' | KnReview \<Rightarrow> ''review''
     | KnPublished \<Rightarrow> ''published'' | KnFailed \<Rightarrow> ''failed'' | KnArchived \<Rightarrow> ''archived'')"

definition archiveKnowledgeDocument ::
  "nat \<Rightarrow> admin_context \<Rightarrow> kn_db \<Rightarrow> (kn_error, (nat \<times> kn_db) option) result" where
  "archiveKnowledgeDocument docId ctx db = (case lookup kd_id docId (kn_documents db) of
     None \<Rightarrow> Inr None
   | Some d \<Rightarrow>
       if kd_status d = KnArchived then Inr (Some (docId, db))
       else
         let db1 = (case kd_current d of None \<Rightarrow> db
               | Some i \<Rightarrow> set_version (\<lambda>x. kv_id x = i) (\<lambda>x. x\<lparr>kv_status := KnArchived\<rparr>) db)
         in bindR (update_document (\<lambda>x. kd_id x = docId \<and> kd_status x = kd_status d) (\<lambda>x. x\<lparr>kd_status := KnArchived\<rparr>)
              (ApiError 409 ''KNOWLEDGE_ARCHIVE_CONFLICT'') db1) (\<lambda>db2.
            Inr (Some (docId, admin_audit ctx ''knowledge.archive'' ''knowledge_document'' docId
              [(''versionId'', jopt (\<lambda>i. JString (id_text i)) (kd_current d)),
               (''previousStatus'', JString (js (status_text (kd_status d))))] db2))))"

subsection \<open>Rolling back\<close>

definition assertHistoricalRollbackTarget :: "document_row \<Rightarrow> version_row \<Rightarrow> (kn_error, unit) result" where
  "assertHistoricalRollbackTarget d v =
     (if Some (kv_id v) = kd_current d \<or> kv_publishedAt v = None
         \<or> (kv_status v \<noteq> KnPublished \<and> kv_status v \<noteq> KnArchived)
      then conflict ''ROLLBACK_TARGET_NOT_PUBLISHED'' else Inr ())"

definition copied_chunks :: "nat \<Rightarrow> nat \<Rightarrow> kn_db \<Rightarrow> chunk_row list" where
  "copied_chunks from to db = map (\<lambda>(i, c). c\<lparr>kc_id := kn_next db + i, kc_version := to\<rparr>)
     (List.enumerate 0 (filter (\<lambda>c. kc_version c = from) (kn_chunks db)))"

definition rollbackKnowledgeDocument ::
  "kn_rules \<Rightarrow> nat \<Rightarrow> nat \<Rightarrow> admin_context \<Rightarrow> kn_db \<Rightarrow> (kn_error, (nat \<times> kn_db) option) result" where
  "rollbackKnowledgeDocument kr docId versionId ctx db = (case lookup kd_id docId (kn_documents db) of
     None \<Rightarrow> Inr None
   | Some d \<Rightarrow>
       if kd_status d \<noteq> KnPublished \<or> kd_current d = None then conflict ''ROLLBACK_REQUIRES_PUBLISHED_DOCUMENT''
       else (case find (\<lambda>v. kv_id v = versionId \<and> kv_document v = docId) (kn_versions db) of
         None \<Rightarrow> Inr None
       | Some v \<Rightarrow>
           bindR (assertHistoricalRollbackTarget d v) (\<lambda>_.
           bindR (assertReviewedKnowledgeEvidence kr (kn_now db) v (chunk_count (kv_id v) db)) (\<lambda>_.
           bindR (assertPublishableKnowledgeSource kr (document_source d db) (kv_citation v)) (\<lambda>_.
           let new = v\<lparr>kv_id := kn_next db, kv_version := next_version docId db, kv_status := KnPublished,
                 kv_createdBy := Some (ac_actor ctx), kv_publishedAt := Some (kn_now db), kv_createdAt := kn_now db,
                 kv_updatedAt := kn_now db\<rparr>;
               db1 = set_version (\<lambda>x. kv_document x = docId \<and> kv_status x = KnPublished) (\<lambda>x. x\<lparr>kv_status := KnArchived\<rparr>) db;
               db2 = db1\<lparr>kn_versions := kn_versions db1 @ [new], kn_next := kn_next db1 + 1\<rparr>;
               copies = copied_chunks (kv_id v) (kv_id new) db2;
               db3 = db2\<lparr>kn_chunks := kn_chunks db2 @ copies, kn_next := kn_next db2 + length copies\<rparr>
           in bindR (update_document (\<lambda>x. kd_id x = docId \<and> kd_current x = kd_current d \<and> kd_status x = KnPublished)
                (\<lambda>x. x\<lparr>kd_current := Some (kv_id new), kd_status := KnPublished\<rparr>)
                (ApiError 409 ''KNOWLEDGE_ROLLBACK_CONFLICT'') db3) (\<lambda>db4.
              Inr (Some (docId, admin_audit ctx ''knowledge.rollback'' ''knowledge_document'' docId
                [(''sourceVersionId'', JString (id_text versionId)), (''newVersionId'', JString (id_text (kv_id new)))]
                db4))))))))"

subsection \<open>The review of a whole document\<close>

record whole_review =
  wr_version :: nat
  wr_hash :: js_string
  wr_approved :: bool
  wr_note :: "js_string option"

record review_transition =
  tx_status :: kn_status
  tx_hash :: js_string
  tx_review :: jobject
  tx_embedding :: string
  tx_task :: "(js_string \<times> jobject) option"

definition buildKnowledgeReviewTransition ::
  "kn_rules \<Rightarrow> nat \<Rightarrow> version_row \<Rightarrow> whole_review \<Rightarrow> js_string \<Rightarrow> timestamp \<Rightarrow> (kn_error, review_transition) result" where
  "buildKnowledgeReviewTransition kr docId v i reviewer at =
     (let actual = kr_sha kr (kv_content v); stored = map_option (kr_lower kr) (kv_hash v);
          expected = kr_lower kr (wr_hash i); mode = ingestion_mode (kv_citation v);
          review = [(''status'', JString (js (if wr_approved i then ''approved'' else ''rejected''))),
            (''reviewedBy'', JString reviewer), (''reviewedAt'', JString (kr_iso kr at)), (''contentHash'', JString actual)]
            @ (case wr_note i of Some (c # cs) \<Rightarrow> [(''note'', JString (c # cs))] | _ \<Rightarrow> [])
      in if kv_id v \<noteq> wr_version i \<or> stored = None \<or> stored = Some [] \<or> stored \<noteq> Some expected \<or> actual \<noteq> expected
         then conflict ''KNOWLEDGE_REVIEW_CONFLICT''
         else if mode \<noteq> full_text \<and> mode \<noteq> metadata_only then conflict ''KNOWLEDGE_INGESTION_MODE_INVALID''
         else if \<not> wr_approved i \<and> (case wr_note i of None \<Rightarrow> True | Some n \<Rightarrow> js_trim n = [])
         then Inl (ApiError 422 ''KNOWLEDGE_REJECTION_NOTE_REQUIRED'')
         else if \<not> wr_approved i
         then Inr \<lparr>tx_status = KnDraft, tx_hash = actual, tx_review = review, tx_embedding = ''pending_review'', tx_task = None\<rparr>
         else Inr \<lparr>tx_status = KnReview, tx_hash = actual, tx_review = review,
                tx_embedding = (if mode = full_text then ''queued'' else ''not_applicable''),
                tx_task = (if mode = full_text
                  then Some (js ''knowledge-embedding:'' @ id_text (kv_id v) @ [58] @ actual,
                    embedding_payload docId (kv_id v) review) else None)\<rparr>)"

definition existingKnowledgeEmbeddingMatchesReview :: "kn_rules \<Rightarrow> json option \<Rightarrow> json option \<Rightarrow> js_string \<Rightarrow> bool" where
  "existingKnowledgeEmbeddingMatchesReview kr mode reviewed next \<longleftrightarrow> mode = full_text
     \<and> (case jstring reviewed of None \<Rightarrow> False | Some h \<Rightarrow> kr_lower kr h = kr_lower kr next)"

definition hasCompleteKnowledgeEmbeddingSet :: "nat \<Rightarrow> nat \<Rightarrow> bool" where
  "hasCompleteKnowledgeEmbeddingSet n embedded \<longleftrightarrow> 0 < n \<and> embedded = n"

definition embedded_count :: "nat \<Rightarrow> kn_db \<Rightarrow> nat" where
  "embedded_count vid db = length (filter (\<lambda>c. kc_version c = vid \<and> kc_embedding c \<noteq> None \<and> kc_embeddedAt c \<noteq> None)
     (kn_chunks db))"

text \<open>The citations of the version's chunks follow the decision.\<close>

definition mark_citations :: "nat \<Rightarrow> nat option \<Rightarrow> string \<Rightarrow> kn_db \<Rightarrow> kn_db" where
  "mark_citations vid src status db = (case src of
     None \<Rightarrow> db
   | Some s \<Rightarrow>
       let ids = map (\<lambda>c. id_text s @ js '':chunk:'' @ id_text (kc_id c)) (filter (\<lambda>c. kc_version c = vid) (kn_chunks db))
       in db\<lparr>kn_citations := update_where (\<lambda>c. ci_original c \<in> Some ` set ids) (\<lambda>c. c\<lparr>ci_review := Some status\<rparr>)
            (kn_citations db)\<rparr>)"

definition reviewKnowledgeDocument ::
  "kn_rules \<Rightarrow> nat \<Rightarrow> whole_review \<Rightarrow> admin_context \<Rightarrow> kn_db \<Rightarrow> (kn_error, (nat \<times> kn_db) option) result" where
  "reviewKnowledgeDocument kr docId i ctx db = (case lookup kd_id docId (kn_documents db) of
     None \<Rightarrow> Inr None
   | Some d \<Rightarrow>
       if kd_current d = None \<or> kd_status d \<notin> {KnDraft, KnReview, KnPublished}
       then conflict ''KNOWLEDGE_REVIEW_STATE_INVALID''
       else (case Option.bind (kd_current d) (\<lambda>k. lookup kv_id k (kn_versions db)) of
         None \<Rightarrow> Inr None
       | Some v \<Rightarrow>
           if kv_document v \<noteq> docId then Inr None
           else
             let pending = (kd_status d = KnPublished \<and> kv_status v = KnPublished
                   \<and> isPendingReviewRetrievalActive (kv_metadata v) (kv_hash v));
                 mode = ingestion_mode (kv_citation v)
             in if kv_status v \<noteq> KnDraft \<and> kv_status v \<noteq> KnReview \<and> \<not> pending
                then conflict ''KNOWLEDGE_REVIEW_STATE_INVALID''
                else
                  bindR (buildKnowledgeReviewTransition kr docId v i (ac_actor ctx) (kn_now db)) (\<lambda>tx.
                  bindR (if wr_approved i then assertPublishableKnowledgeSource kr (document_source d db) (kv_citation v)
                         else Inr ()) (\<lambda>_.
                  let matches = existingKnowledgeEmbeddingMatchesReview kr mode
                        (if pending then jget ''retrievalContentHash'' (kv_metadata v)
                         else jget ''contentHash'' (recordValue (jget ''review'' (kv_metadata v)))) (tx_hash tx);
                      preserve = (matches \<and> hasCompleteKnowledgeEmbeddingSet (chunk_count (kv_id v) db)
                        (embedded_count (kv_id v) db));
                      embedding = (if preserve then ''completed'' else tx_embedding tx);
                      status = (if \<not> pending then tx_status tx else if wr_approved i then KnPublished else KnArchived);
                      metadata = kv_metadata v @
                        [(''reviewStatus'', JString (js (if wr_approved i then ''approved'' else ''rejected''))),
                         (''embeddingStatus'', JString (js embedding)), (''review'', JObject (tx_review tx))]
                        @ (if pending then [(''retrievalStatus'', JString (js (if wr_approved i then active_reviewed
                              else ''inactive_rejected''))), (''humanTechnicalReviewRequired'', JBool False)] else [])
                  in if pending \<and> wr_approved i \<and> mode = full_text \<and> \<not> preserve
                     then conflict ''KNOWLEDGE_PROVISIONAL_EMBEDDING_INCOMPLETE''
                     else
                       let db1 = set_version (\<lambda>x. kv_id x = kv_id v) (\<lambda>x. x\<lparr>kv_status := status,
                             kv_hash := Some (tx_hash tx), kv_metadata := metadata\<rparr>) db;
                           db2 = set_document (\<lambda>x. kd_id x = docId) (\<lambda>x. x\<lparr>kd_status := status\<rparr>) db1;
                           db3 = mark_citations (kv_id v) (kd_source d) (if wr_approved i then ''reviewed'' else ''rejected'') db2;
                           db4 = (case tx_task tx of
                               Some (key, payload) \<Rightarrow> if preserve then db3
                                 else enqueue_task 10 key payload (Some (ac_actor ctx)) db3
                             | None \<Rightarrow> db3)
                       in Inr (Some (docId, admin_audit ctx
                            (if wr_approved i then ''knowledge.review.approve'' else ''knowledge.review.reject'')
                            ''knowledge_document'' docId
                            [(''versionId'', JString (id_text (kv_id v))), (''contentHash'', JString (tx_hash tx)),
                             (''embeddingStatus'', JString (js embedding)),
                             (''provisionalPublicationReviewed'', JBool pending),
                             (''noteProvided'', JBool (case wr_note i of Some (_ # _) \<Rightarrow> True | _ \<Rightarrow> False))] db4))))))"

subsection \<open>Governed sources\<close>

record source_input =
  so_kind :: string
  so_name :: js_string
  so_publisher :: js_string
  so_canonicalUrl :: js_string
  so_baseUrl :: js_string
  so_tier :: source_tier
  so_licensePolicy :: js_string
  so_rights :: "jobject option"
  so_notes :: "js_string option"
  so_enabled :: bool

definition assertSourceRightsMutationAllowed :: "admin_context \<Rightarrow> bool \<Rightarrow> (kn_error, unit) result" where
  "assertSourceRightsMutationAllowed ctx hasDecision =
     (if hasDecision \<and> ac_role ctx \<noteq> ''owner'' \<and> ac_role ctx \<noteq> ''admin''
      then Inl (ApiError 403 ''SOURCE_RIGHTS_APPROVAL_FORBIDDEN'') else Inr ())"

definition reviewedRightsDecision ::
  "kn_rules \<Rightarrow> jobject \<Rightarrow> js_string \<Rightarrow> admin_context \<Rightarrow> timestamp \<Rightarrow> (kn_error, jobject) result" where
  "reviewedRightsDecision kr decision url ctx at =
     (if jget ''appliesToRecordUrl'' decision \<noteq> Some (JString url) then conflict ''SOURCE_RIGHTS_SCOPE_MISMATCH''
      else Inr (decision @ [(''reviewedBy'', JString (ac_actor ctx)), (''reviewedAt'', JString (kr_iso kr at))]))"

definition createSource ::
  "kn_rules \<Rightarrow> source_input \<Rightarrow> admin_context \<Rightarrow> kn_db \<Rightarrow> (kn_error, nat \<times> kn_db) result" where
  "createSource kr i ctx db =
     bindR (assertSourceRightsMutationAllowed ctx (so_rights i \<noteq> None)) (\<lambda>_.
     bindR (case so_rights i of None \<Rightarrow> Inr []
        | Some r \<Rightarrow> bindR (reviewedRightsDecision kr r (so_canonicalUrl i) ctx (kn_now db)) (\<lambda>decision.
            Inr [(''rightsDecision'', JObject decision)])) (\<lambda>metadata.
       Inr (kn_next db, admin_audit ctx ''knowledge_source.create'' ''knowledge_source'' (kn_next db)
         [(''sourceTier'', JString (js (tier_text (so_tier i)))), (''kind'', JString (js (so_kind i))),
          (''rightsDecisionRecorded'', JBool (so_rights i \<noteq> None))]
         (db\<lparr>kn_sources := kn_sources db @ [\<lparr>ks_id = kn_next db, ks_kind = so_kind i, ks_name = so_name i,
            ks_baseUrl = Some (so_baseUrl i), ks_canonicalUrl = Some (so_canonicalUrl i),
            ks_publisher = Some (so_publisher i), ks_tier = so_tier i, ks_licensePolicy = Some (so_licensePolicy i),
            ks_notes = so_notes i, ks_enabled = so_enabled i, ks_metadata = metadata,
            ks_createdBy = Some (ac_actor ctx), ks_createdAt = kn_now db, ks_updatedAt = kn_now db,
            ks_deletedAt = None\<rparr>], kn_next := kn_next db + 1\<rparr>))))"

record source_update =
  su_kind :: "string option"
  su_name :: "js_string option"
  su_publisher :: "js_string option"
  su_canonicalUrl :: "js_string option"
  su_baseUrl :: "js_string option"
  su_tier :: "source_tier option"
  su_licensePolicy :: "js_string option"
  su_rights :: "jobject option"
  su_notes :: "js_string option"
  su_enabled :: "bool option"

definition patch :: "'a option \<Rightarrow> 'a \<Rightarrow> 'a" where
  "patch new old = (case new of None \<Rightarrow> old | Some x \<Rightarrow> x)"

definition source_changed_fields :: "source_update \<Rightarrow> json" where
  "source_changed_fields u = JArray (map (\<lambda>(_, k). JString (js k)) (filter fst
     [(su_kind u \<noteq> None, ''kind''), (su_name u \<noteq> None, ''name''), (su_publisher u \<noteq> None, ''publisher''),
      (su_canonicalUrl u \<noteq> None, ''canonicalUrl''), (su_baseUrl u \<noteq> None, ''baseUrl''), (su_tier u \<noteq> None, ''sourceTier''),
      (su_licensePolicy u \<noteq> None, ''licensePolicy''), (su_rights u \<noteq> None, ''rightsDecision''),
      (su_notes u \<noteq> None, ''notes''), (su_enabled u \<noteq> None, ''enabled'')]))"

definition updateSource ::
  "kn_rules \<Rightarrow> nat \<Rightarrow> source_update \<Rightarrow> admin_context \<Rightarrow> kn_db \<Rightarrow> (kn_error, (nat \<times> kn_db) option) result" where
  "updateSource kr sourceId u ctx db =
     bindR (assertSourceRightsMutationAllowed ctx (su_rights u \<noteq> None)) (\<lambda>_.
     case find (\<lambda>s. ks_id s = sourceId \<and> ks_deletedAt s = None) (kn_sources db) of
       None \<Rightarrow> Inr None
     | Some s \<Rightarrow>
         bindR (case su_rights u of None \<Rightarrow> Inr (ks_metadata s)
            | Some r \<Rightarrow>
                (case (case su_canonicalUrl u of Some c \<Rightarrow> Some c | None \<Rightarrow> ks_canonicalUrl s) of
                   Some (c # cs) \<Rightarrow> bindR (reviewedRightsDecision kr r (c # cs) ctx (kn_now db)) (\<lambda>decision.
                     Inr (ks_metadata s @ [(''rightsDecision'', JObject decision)]))
                 | _ \<Rightarrow> conflict ''SOURCE_CANONICAL_URL_REQUIRED'')) (\<lambda>metadata.
           Inr (Some (sourceId, admin_audit ctx ''knowledge_source.update'' ''knowledge_source'' sourceId
             [(''changedFields'', source_changed_fields u)]
             (db\<lparr>kn_sources := update_where (\<lambda>x. ks_id x = sourceId \<and> ks_deletedAt x = None) (\<lambda>x. x\<lparr>
                ks_kind := patch (su_kind u) (ks_kind x), ks_name := patch (su_name u) (ks_name x),
                ks_publisher := patch (map_option Some (su_publisher u)) (ks_publisher x),
                ks_canonicalUrl := patch (map_option Some (su_canonicalUrl u)) (ks_canonicalUrl x),
                ks_baseUrl := patch (map_option Some (su_baseUrl u)) (ks_baseUrl x),
                ks_tier := patch (su_tier u) (ks_tier x),
                ks_licensePolicy := patch (map_option Some (su_licensePolicy u)) (ks_licensePolicy x),
                ks_notes := patch (map_option Some (su_notes u)) (ks_notes x),
                ks_enabled := patch (su_enabled u) (ks_enabled x), ks_metadata := metadata,
                ks_updatedAt := kn_now db\<rparr>) (kn_sources db)\<rparr>)))))"

definition deleteSource :: "nat \<Rightarrow> admin_context \<Rightarrow> kn_db \<Rightarrow> kn_db option" where
  "deleteSource sourceId ctx db =
     (let P = (\<lambda>s. ks_id s = sourceId \<and> ks_deletedAt s = None) in
      if list_ex P (kn_sources db)
      then Some (admin_audit ctx ''knowledge_source.delete'' ''knowledge_source'' sourceId []
        (db\<lparr>kn_sources := update_where P (\<lambda>s. s\<lparr>ks_enabled := False, ks_deletedAt := Some (kn_now db),
           ks_updatedAt := kn_now db\<rparr>) (kn_sources db)\<rparr>))
      else None)"

end
