(* ===== verification/Knowledge_Worker.thy ===== *)
theory Knowledge_Worker
  imports Knowledge_Queue
begin

section \<open>The knowledge ingestion worker\<close>

text \<open>
  \<open>KnowledgeIngestionWorker\<close> of \<open>src/worker/knowledge-ingestion.ts\<close>: one turn of the worker
  around the document parser, the object store and the embedding service, which are parameters.
  What other processes commit while such a call runs is the parameter \<open>kw_during\<close>; the
  heartbeat's renewals are among it.
\<close>

datatype ext_failure = FailProvider bool string | FailPlain string
datatype ocr_status = OcrPending | OcrProcessing | OcrCompleted | OcrFailed
datatype work_outcome = WorkIdle | WorkDeferred | WorkReviewRequired | WorkCompleted | WorkFailed

record embedding_result =
  er_vectors :: "js_number list list"
  er_dimensions :: int
  er_model :: js_string

record knowledge_world =
  kw_downloadUrl :: "(js_string \<Rightarrow> (ext_failure, js_string) result) option"
  kw_submit :: "js_string \<Rightarrow> js_string option \<Rightarrow> (ext_failure, js_string) result"
  kw_status :: "js_string \<Rightarrow> (ext_failure, ocr_status) result"
  kw_result :: "js_string \<Rightarrow> (ext_failure, parsed_document) result"
  kw_embed :: "js_string list \<Rightarrow> (ext_failure, embedding_result) result"
  kw_during :: "kn_db \<Rightarrow> kn_db"

record knowledge_worker =
  ko_worker :: string
  ko_pollInterval :: int
  ko_retryDelay :: int
  ko_maxPolls :: int
  ko_maxAge :: int
  ko_hosts :: "js_string set"

subsection \<open>Configuration\<close>

definition max_worker_concurrency :: int where "max_worker_concurrency = 4"

definition boundedConcurrency :: "int \<Rightarrow> (kn_error, int) result" where
  "boundedConcurrency n = (if n < 1 then Inl (PlainError ''Worker concurrency must be a positive integer.'')
     else Inr (min n max_worker_concurrency))"

definition workerInteger :: "int \<Rightarrow> string \<Rightarrow> (kn_error, int) result" where
  "workerInteger n label = (if n \<le> 0 then Inl (PlainError (label @ '' must be a positive integer.'')) else Inr n)"

definition strip_dot :: "js_string \<Rightarrow> js_string" where
  "strip_dot s = (if s \<noteq> [] \<and> last s = 46 then butlast s else s)"

definition normalizeHostname :: "kn_rules \<Rightarrow> js_string \<Rightarrow> js_string" where
  "normalizeHostname kr value = (let t = strip_dot (kr_lower kr (js_trim value)) in
     if t = [] then []
     else (case kr_url kr (if js_includes t (js ''://'') then t else js ''https://'' @ t) of
         None \<Rightarrow> []
       | Some u \<Rightarrow> strip_dot (kr_lower kr (pu_hostname u))))"

definition knowledge_worker_of ::
  "kn_rules \<Rightarrow> string \<Rightarrow> int \<Rightarrow> int \<Rightarrow> int \<Rightarrow> int \<Rightarrow> js_string list \<Rightarrow> (kn_error, knowledge_worker) result" where
  "knowledge_worker_of kr worker pollInterval retryDelay maxPolls maxAge hosts =
     bindR (workerInteger pollInterval ''pollIntervalMs'') (\<lambda>pi.
     bindR (workerInteger retryDelay ''retryDelayMs'') (\<lambda>rd.
     bindR (workerInteger maxPolls ''maxOcrPolls'') (\<lambda>mp.
     bindR (workerInteger maxAge ''maxOcrAgeMs'') (\<lambda>ma.
       Inr \<lparr>ko_worker = worker, ko_pollInterval = pi, ko_retryDelay = rd, ko_maxPolls = mp, ko_maxAge = ma,
         ko_hosts = set (filter (\<lambda>h. h \<noteq> []) (map (normalizeHostname kr) hosts))\<rparr>))))"

subsection \<open>Checks\<close>

definition provider_fail :: "(kn_error, 'a) result" where
  "provider_fail = Inl (ProviderError False ''knowledge-worker'')"

definition validateKnowledgeObjectKey :: "js_string \<Rightarrow> (kn_error, unit) result" where
  "validateKnowledgeObjectKey key =
     (if \<not> (js_startsWith key (js ''private/knowledge-originals/'') \<or> js_startsWith key (js ''knowledge-originals/''))
         \<or> js_startsWith key (js ''/'') \<or> 0 \<in> set key \<or> js ''..'' \<in> set (split_char 47 key)
      then provider_fail else Inr ())"

definition validatePrivateDocumentUrl :: "kn_rules \<Rightarrow> js_string \<Rightarrow> js_string set \<Rightarrow> (kn_error, unit) result" where
  "validatePrivateDocumentUrl kr value hosts = (case kr_url kr value of
     None \<Rightarrow> provider_fail
   | Some u \<Rightarrow>
       let hostname = normalizeHostname kr (pu_hostname u)
       in if pu_protocol u \<noteq> js ''https:'' \<or> pu_username u \<noteq> [] \<or> pu_password u \<noteq> []
             \<or> (pu_port u \<noteq> [] \<and> pu_port u \<noteq> js ''443'') \<or> hostname = [] \<or> hostname \<notin> hosts
          then provider_fail else Inr ())"

definition assertOcrPollingBudget ::
  "kn_rules \<Rightarrow> knowledge_worker \<Rightarrow> ingestion_job \<Rightarrow> timestamp \<Rightarrow> (kn_error, unit) result" where
  "assertOcrPollingBudget kr w j n =
     (case Option.bind (job_field ''parserSubmittedAt'' j) (\<lambda>s. if s = [] then None else kr_date kr s) of
        None \<Rightarrow> provider_fail
      | Some t \<Rightarrow> if ko_maxPolls w \<le> poll_count j \<or> ko_maxAge w < n - t then provider_fail else Inr ())"

subsection \<open>A turn\<close>

type_synonym 'a kwork = "kn_db \<Rightarrow> (kn_error, 'a) result \<times> kn_db"

definition thenK :: "'a kwork \<Rightarrow> ('a \<Rightarrow> 'b kwork) \<Rightarrow> 'b kwork" where
  "thenK m f db = (case m db of (Inl e, d) \<Rightarrow> (Inl e, d) | (Inr x, d) \<Rightarrow> f x d)"

definition pureK :: "(kn_error, 'a) result \<Rightarrow> 'a kwork" where
  "pureK r db = (r, db)"

definition commit :: "(kn_db \<Rightarrow> (kn_error, kn_db) result) \<Rightarrow> unit kwork" where
  "commit t db = (case t db of Inl e \<Rightarrow> (Inl e, db) | Inr d \<Rightarrow> (Inr (), d))"

definition readK :: "(kn_db \<Rightarrow> (kn_error, 'a) result) \<Rightarrow> 'a kwork" where
  "readK q db = (q db, db)"

definition kn_external :: "knowledge_world \<Rightarrow> (ext_failure, 'a) result \<Rightarrow> 'a kwork" where
  "kn_external w r db = (case r of
       Inl (FailProvider b m) \<Rightarrow> Inl (ProviderError b m) | Inl (FailPlain m) \<Rightarrow> Inl (PlainError m) | Inr x \<Rightarrow> Inr x,
     kw_during w db)"

definition withLeaseHeartbeat :: "knowledge_world \<Rightarrow> ingestion_job \<Rightarrow> (ext_failure, 'a) result \<Rightarrow> 'a kwork" where
  "withLeaseHeartbeat w j r =
     thenK (commit (renewLease j)) (\<lambda>_. thenK (kn_external w r) (\<lambda>x.
     thenK (commit (renewLease j)) (\<lambda>_. pureK (Inr x))))"

definition submitOcr :: "kn_rules \<Rightarrow> knowledge_world \<Rightarrow> knowledge_worker \<Rightarrow> ingestion_job \<Rightarrow> work_outcome kwork" where
  "submitOcr kr w k j = (case job_field ''objectKey'' j of
     None \<Rightarrow> pureK provider_fail
   | Some key \<Rightarrow>
       if key = [] then pureK provider_fail
       else thenK (pureK (validateKnowledgeObjectKey key)) (\<lambda>_.
         case kw_downloadUrl w of
           None \<Rightarrow> pureK provider_fail
         | Some download \<Rightarrow>
             thenK (withLeaseHeartbeat w j (download key)) (\<lambda>url.
             thenK (pureK (validatePrivateDocumentUrl kr url (ko_hosts k))) (\<lambda>_.
             thenK (withLeaseHeartbeat w j (kw_submit w url (job_field ''filename'' j))) (\<lambda>parserJob db.
             thenK (commit (markOcrSubmitted kr j parserJob (kn_now db + ko_pollInterval k)))
               (\<lambda>_. pureK (Inr WorkDeferred)) db)))))"

definition pollOcr :: "kn_rules \<Rightarrow> knowledge_world \<Rightarrow> knowledge_worker \<Rightarrow> ingestion_job \<Rightarrow> work_outcome kwork" where
  "pollOcr kr w k j db0 = (case job_field ''parserJobId'' j of
     None \<Rightarrow> (provider_fail, db0)
   | Some parserJob \<Rightarrow>
       if parserJob = [] then (provider_fail, db0)
       else thenK (pureK (assertOcrPollingBudget kr k j (kn_now db0))) (\<lambda>_.
         thenK (withLeaseHeartbeat w j (kw_status w parserJob)) (\<lambda>status db.
           case status of
             OcrFailed \<Rightarrow> (provider_fail, db)
           | OcrCompleted \<Rightarrow>
               thenK (withLeaseHeartbeat w j (kw_result w parserJob)) (\<lambda>parsed.
                 let rendered = renderParsedDocument parsed
                 in if js_trim rendered = [] then pureK (Inl (ProviderError True ''knowledge-worker''))
                    else thenK (commit (saveParsedForReview kr j parsed rendered))
                      (\<lambda>_. pureK (Inr WorkReviewRequired))) db
           | _ \<Rightarrow> thenK (commit (deferOcrPoll j (kn_now db + ko_pollInterval k)))
               (\<lambda>_. pureK (Inr WorkDeferred)) db)) db0)"

text \<open>The two reasons the code gives in Chinese.\<close>

definition cn_still_waiting :: js_string where
  "cn_still_waiting = [30693, 35782, 20869, 23481, 20173, 22312, 31561, 24453, 20154, 24037, 22797, 26680, 12290]"

definition cn_already_done :: js_string where
  "cn_already_done = [20219, 21153, 24050, 23436, 25104, 65292, 19981, 24212, 20877, 27425, 36827, 20837, 38431, 21015, 12290]"

definition review_again :: "ingestion_job \<Rightarrow> js_string \<Rightarrow> work_outcome kwork" where
  "review_again j reason = thenK (commit (markReviewRequired j reason)) (\<lambda>_. pureK (Inr WorkReviewRequired))"

definition embedded_chunk_of :: "jobject \<Rightarrow> js_string \<Rightarrow> knowledge_chunk \<times> js_number list \<Rightarrow> embedded_chunk" where
  "embedded_chunk_of review model cv = knowledge_chunk.extend (fst cv)
     (embedded_chunk.fields (snd cv) model [(''review'', JObject (List.map_filter
        (\<lambda>k. map_option (Pair k) (jget k review)) [''reviewedBy'', ''reviewedAt'', ''contentHash'']))])"

definition embedding_ok :: "embedding_result \<Rightarrow> bool" where
  "embedding_ok r \<longleftrightarrow> er_dimensions r = 1024 \<and> list_all vector_ok (er_vectors r)"

definition review_identity_reason :: string where
  "review_identity_reason =
     ''Embedding requires an identified human reviewer, review time, and approved SHA-256 content hash.''"

definition embedApprovedContent ::
  "kn_rules \<Rightarrow> knowledge_world \<Rightarrow> ingestion_job \<Rightarrow> work_outcome kwork" where
  "embedApprovedContent kr w j =
     thenK (pureK (review_valid kr j)) (\<lambda>valid. case job_review j of
       None \<Rightarrow> review_again j (js review_identity_reason)
     | Some review \<Rightarrow>
         if \<not> valid then review_again j (js review_identity_reason)
         else thenK (readK (loadApprovedContent kr j)) (\<lambda>approved. case approved of
           None \<Rightarrow> review_again j (js ''The reviewed knowledge version no longer exists.'')
         | Some content \<Rightarrow>
             if Some (kr_sha kr content) \<noteq> jstring (jget ''contentHash'' review)
             then review_again j (js ''Knowledge content changed after approval; a new human review is required.'')
             else thenK (pureK (chunkReviewedMarkdown content default_chunk_characters default_chunk_overlap)) (\<lambda>base.
               if base = [] then review_again j (js ''Approved content contains no embeddable text.'')
               else thenK (withLeaseHeartbeat w j (kw_embed w (map kt_content base))) (\<lambda>embedded.
                 if length (er_vectors embedded) \<noteq> length base \<or> \<not> embedding_ok embedded
                 then pureK (Inl (ProviderError True ''embeddings''))
                 else thenK (commit (saveEmbeddingsAndComplete kr j
                     (map (embedded_chunk_of review (er_model embedded)) (zip base (er_vectors embedded)))))
                   (\<lambda>_. pureK (Inr WorkCompleted))))))"

definition stage_turn :: "kn_rules \<Rightarrow> knowledge_world \<Rightarrow> knowledge_worker \<Rightarrow> ingestion_job \<Rightarrow> work_outcome kwork" where
  "stage_turn kr w k j = (let stage = job_field ''stage'' j in
     if stage = Some (js ''ocr_pending'') then submitOcr kr w k j
     else if stage = Some (js ''ocr_processing'') then pollOcr kr w k j
     else if stage = Some (js ''embedding_pending'') \<or> stage = Some (js ''embedding_processing'')
     then embedApprovedContent kr w j
     else if stage = Some (js ''review_required'') then review_again j cn_still_waiting
     else review_again j cn_already_done)"

definition is_stale_lease :: "kn_error \<Rightarrow> bool" where
  "is_stale_lease e = (case e of StaleLease _ \<Rightarrow> True | _ \<Rightarrow> False)"

definition kn_runOnce :: "kn_rules \<Rightarrow> knowledge_world \<Rightarrow> knowledge_worker \<Rightarrow> nat set \<Rightarrow> work_outcome kwork" where
  "kn_runOnce kr w k locked =
     thenK (claimNext kr (ko_worker k) locked) (\<lambda>job. case job of
       None \<Rightarrow> pureK (Inr WorkIdle)
     | Some j \<Rightarrow> (\<lambda>db. case stage_turn kr w k j db of
         (Inr x, d) \<Rightarrow> (Inr x, d)
       | (Inl e, d) \<Rightarrow>
           if is_stale_lease e then (Inr WorkFailed, d)
           else case commit (markFailed kr j e (kn_now d + ko_retryDelay k)) d of
             (Inl e', d') \<Rightarrow> (if is_stale_lease e' then Inr WorkFailed else Inl e', d')
           | (Inr _, d') \<Rightarrow> (Inr WorkFailed, d')))"

end
