(* ===== verification/Knowledge_Activation.thy ===== *)
theory Knowledge_Activation
  imports Knowledge_Admin Knowledge_Worker
begin

text \<open>
  The first phase of the catalogue: \<open>scripts/activate-phase-one-knowledge.ts\<close> publishes a candidate
  before a person has reviewed it, marked as pending (\<open>provisional-activation.ts\<close>).
\<close>

subsection \<open>Provisional activation\<close>

record provisional_chunk =
  pc_content :: js_string
  pc_pageStart :: "int option"
  pc_pageEnd :: "int option"
  pc_sectionPath :: "js_string list"
  pc_metadata :: jobject

definition cn_applicability :: js_string where
  "cn_applicability = [10, 10, 36866, 29992, 26465, 20214, 65306]"

definition renderRetrievalContent :: "candidate_section \<Rightarrow> js_string" where
  "renderRetrievalContent s =
     (let statement = (case cs_chinese s of Some t \<Rightarrow> t | None \<Rightarrow> cs_content s)
      in case cs_applicability s of
           Some (c # cs) \<Rightarrow> statement @ cn_applicability @ (c # cs)
         | _ \<Rightarrow> statement)"

definition text_entry :: "string \<Rightarrow> js_string option \<Rightarrow> jobject" where
  "text_entry k v = (case v of Some (c # cs) \<Rightarrow> [(k, JString (c # cs))] | _ \<Rightarrow> [])"

definition provisional_chunk_of :: "candidate_section \<Rightarrow> provisional_chunk" where
  "provisional_chunk_of s = \<lparr>pc_content = renderRetrievalContent s, pc_pageStart = cs_pageStart s,
     pc_pageEnd = cs_pageEnd s, pc_sectionPath = cs_sectionPath s,
     pc_metadata = (''keywords'', JArray (map JString (cs_keywords s)))
       # text_entry ''sourceSection'' (cs_sourceSection s) @ text_entry ''originalExcerpt'' (cs_excerpt s)
       @ (case cs_excerptPage s of Some p \<Rightarrow> if p = 0 then [] else [(''originalExcerptPage'', JNumber p)] | None \<Rightarrow> [])
       @ text_entry ''applicability'' (cs_applicability s) @ text_entry ''sectionContentHash'' (cs_contentHash s)
       @ [(''reviewStatus'', JString (js ''required'')), (''retrievalStatus'', JString (js active_pending_review))]\<rparr>"

definition buildProvisionalKnowledgeChunks :: "knowledge_candidate \<Rightarrow> provisional_chunk list" where
  "buildProvisionalKnowledgeChunks c =
     (if ingestion_mode (ca_citation c) = full_text then map provisional_chunk_of (ca_sections c) else [])"

definition already_approved :: "jobject \<Rightarrow> js_string \<Rightarrow> bool" where
  "already_approved existing hash \<longleftrightarrow> (let review = recordValue (jget ''review'' existing) in
     jget ''reviewStatus'' existing = Some (JString (js ''approved''))
     \<and> jget ''status'' review = Some (JString (js ''approved''))
     \<and> jget ''contentHash'' review = Some (JString hash))"

definition buildPendingReviewActivationMetadata ::
  "kn_rules \<Rightarrow> jobject \<Rightarrow> js_string \<Rightarrow> string \<Rightarrow> js_string option \<Rightarrow> nat \<Rightarrow> timestamp \<Rightarrow> js_string \<Rightarrow> jobject" where
  "buildPendingReviewActivationMetadata kr existing hash embedding model n at path =
     (let approved = already_approved existing hash
      in existing @
        [(''reviewStatus'', JString (js (if approved then ''approved'' else ''required''))),
         (''retrievalStatus'', JString (js (if approved then active_reviewed else active_pending_review))),
         (''retrievalContentHash'', JString hash), (''embeddingStatus'', JString (js embedding))]
        @ text_entry ''embeddingModel'' model
        @ [(''embeddedChunkCount'', JNumber (int n)), (''humanTechnicalReviewRequired'', JBool (\<not> approved)),
           (''provisionalActivation'', JObject [(''policy'', JString (js ''product_owner_deferred_human_review'')),
             (''activatedAt'', JString (kr_iso kr at)), (''sourcePath'', JString path),
             (''contentHash'', JString hash)])])"

subsection \<open>The activation script\<close>

text \<open>
  What \<open>loadExistingDocument\<close> reads before the transaction; \<open>least\<close> is \<open>min\<close> of texts under
  the collation of the database.
\<close>

record existing_document =
  ex_document :: nat
  ex_docStatus :: kn_status
  ex_version :: "version_row option"
  ex_chunks :: nat
  ex_embedded :: nat
  ex_model :: "js_string option"

definition loadExistingDocument :: "(js_string list \<Rightarrow> js_string option) \<Rightarrow> nat \<Rightarrow> js_string \<Rightarrow> kn_db \<Rightarrow> existing_document option" where
  "loadExistingDocument least src key db =
     map_option (\<lambda>d. let v = Option.bind (kd_current d) (\<lambda>i. lookup kv_id i (kn_versions db));
           vid = (case v of None \<Rightarrow> 0 | Some x \<Rightarrow> kv_id x)
         in \<lparr>ex_document = kd_id d, ex_docStatus = kd_status d, ex_version = v,
             ex_chunks = (if v = None then 0 else chunk_count vid db),
             ex_embedded = (if v = None then 0 else embedded_count vid db),
             ex_model = (if v = None then None else least (List.map_filter kc_embeddingModel
               (filter (\<lambda>c. kc_version c = vid) (kn_chunks db))))\<rparr>)
       (find (\<lambda>d. kd_source d = Some src \<and> kd_externalKey d = Some key) (kn_documents db))"

definition loadAuthorizedSource :: "kn_rules \<Rightarrow> knowledge_candidate \<Rightarrow> kn_db \<Rightarrow> (kn_error, source_row) result" where
  "loadAuthorizedSource kr c db = (case find (\<lambda>s. ks_canonicalUrl s = Some (ca_sourceUrl c)) (kn_sources db) of
     None \<Rightarrow> Inl (PlainError ''Missing governed source; run knowledge:seed first.'')
   | Some s \<Rightarrow> bindR (assertKnowledgeSourceAuthorized kr (Some s) (ca_citation c)) (\<lambda>_. Inr s))"

definition assertValidKnowledgeEmbeddings :: "embedding_result \<Rightarrow> nat \<Rightarrow> (kn_error, unit) result" where
  "assertValidKnowledgeEmbeddings r n =
     (if er_dimensions r \<noteq> 1024 \<or> length (er_vectors r) \<noteq> n \<or> list_ex (\<lambda>v. \<not> vector_ok v) (er_vectors r)
      then Inl (PlainError ''Knowledge embedding backfill requires one finite 1024-dimensional vector per chunk.'')
      else Inr ())"

text \<open>What the script decides before it writes: the rows it found, the content, the embeddings it got.\<close>

record activation_plan =
  ap_source :: source_row
  ap_existing :: "existing_document option"
  ap_content :: js_string
  ap_hash :: js_string
  ap_chunks :: "provisional_chunk list"
  ap_reuse :: bool
  ap_embeddings :: "embedding_result option"
  ap_metadata :: jobject

definition reusable_embeddings :: "existing_document option \<Rightarrow> js_string \<Rightarrow> nat \<Rightarrow> bool" where
  "reusable_embeddings ex hash n \<longleftrightarrow> 0 < n \<and> (case ex of
     None \<Rightarrow> False
   | Some e \<Rightarrow> (case ex_version e of
       None \<Rightarrow> False
     | Some v \<Rightarrow> ex_docStatus e = KnPublished \<and> kv_status v = KnPublished \<and> kv_hash v = Some hash
         \<and> jget ''retrievalContentHash'' (kv_metadata v) = Some (JString hash)
         \<and> jget ''embeddingStatus'' (kv_metadata v) = Some (JString (js ''completed''))
         \<and> ex_chunks e = n \<and> ex_embedded e = n \<and> ex_model e \<noteq> None \<and> ex_model e \<noteq> Some []))"

definition activation_plan_of ::
  "kn_rules \<Rightarrow> (js_string list \<Rightarrow> js_string option) \<Rightarrow> (js_string list \<Rightarrow> (kn_error, embedding_result) result) \<Rightarrow>
   js_string \<Rightarrow> knowledge_candidate \<Rightarrow> timestamp \<Rightarrow> kn_db \<Rightarrow> (kn_error, activation_plan) result" where
  "activation_plan_of kr least provider path c at db =
     (let content = renderKnowledgeCandidate c; hash = kr_sha kr content; chunks = buildProvisionalKnowledgeChunks c
      in bindR (loadAuthorizedSource kr c db) (\<lambda>src.
         let ex = loadExistingDocument least (ks_id src) (ca_externalKey c) db;
             v = Option.bind ex ex_version;
             reuse = reusable_embeddings ex hash (length chunks)
         in if (case v of None \<Rightarrow> False | Some x \<Rightarrow> kv_hash x \<noteq> Some hash)
            then Inl (PlainError ''Refusing to replace changed knowledge content.'')
            else
              bindR (if chunks \<noteq> [] \<and> \<not> reuse then
                   bindR (provider (map pc_content chunks)) (\<lambda>r.
                   bindR (assertValidKnowledgeEmbeddings r (length chunks)) (\<lambda>_. Inr (Some r)))
                 else Inr None) (\<lambda>er.
                Inr \<lparr>ap_source = src, ap_existing = ex, ap_content = content, ap_hash = hash, ap_chunks = chunks,
                  ap_reuse = reuse, ap_embeddings = er,
                  ap_metadata = buildPendingReviewActivationMetadata kr
                    (case v of None \<Rightarrow> [] | Some x \<Rightarrow> kv_metadata x) hash
                    (if chunks = [] then ''not_applicable'' else ''completed'')
                    (case er of Some r \<Rightarrow> Some (er_model r) | None \<Rightarrow> Option.bind ex ex_model)
                    (length chunks) at path\<rparr>)))"

definition activation_document :: "js_string \<Rightarrow> js_string \<Rightarrow> jobject" where
  "activation_document path hash =
     [(''curationStatus'', JString (js ''ai_assisted_pending_human_review'')), (''sourceCandidatePath'', JString path),
      (''provisionalRetrievalEnabled'', JBool True), (''retrievalContentHash'', JString hash),
      (''humanTechnicalReviewRequired'', JBool True)]"

definition provisional_row :: "kn_db \<Rightarrow> nat \<Rightarrow> timestamp \<Rightarrow> embedding_result \<Rightarrow> nat \<times> provisional_chunk \<Rightarrow> chunk_row" where
  "provisional_row db vid at er ic = (case ic of (i, c) \<Rightarrow>
     \<lparr>kc_id = kn_next db + i, kc_version = vid, kc_index = i, kc_content = pc_content c,
      kc_pageStart = pc_pageStart c, kc_pageEnd = pc_pageEnd c, kc_sectionPath = pc_sectionPath c,
      kc_metadata = pc_metadata c, kc_embedding = Some (er_vectors er ! i), kc_embeddingModel = Some (er_model er),
      kc_embeddedAt = Some at\<rparr>)"

definition provisional_chunks :: "activation_plan \<Rightarrow> nat \<Rightarrow> timestamp \<Rightarrow> kn_db \<Rightarrow> kn_db" where
  "provisional_chunks p vid at db =
     (if ap_reuse p then db
      else
        let kept = filter (\<lambda>c. kc_version c \<noteq> vid) (kn_chunks db)
        in (case ap_embeddings p of
            None \<Rightarrow> db\<lparr>kn_chunks := kept\<rparr>
          | Some er \<Rightarrow> db\<lparr>kn_chunks := kept @ map (provisional_row db vid at er) (List.enumerate 0 (ap_chunks p)),
              kn_next := kn_next db + length (ap_chunks p)\<rparr>))"

definition provisional_parser :: string where "provisional_parser = ''openvac-phase-one-provisional-v1''"

text \<open>
  The transaction. The rows found before are addressed by their ids; they are not read again, so the
  content, the hash and the metadata are written together, whatever happened in between.
\<close>

definition activate_version :: "activation_plan \<Rightarrow> jobject \<Rightarrow> nat \<Rightarrow> timestamp \<Rightarrow> kn_db \<Rightarrow> nat \<times> kn_db" where
  "activate_version p citation docId at db =
     (case Option.bind (ap_existing p) ex_version of
        None \<Rightarrow> (kn_next db, db\<lparr>kn_versions := kn_versions db @ [\<lparr>kv_id = kn_next db, kv_document = docId,
            kv_version = 1, kv_hash = Some (ap_hash p), kv_content = ap_content p, kv_citation = citation,
            kv_status = KnPublished, kv_objectKey = None, kv_parserVersion = Some (js provisional_parser),
            kv_sourceUpdatedAt = None, kv_metadata = ap_metadata p, kv_createdBy = None, kv_publishedAt = Some at,
            kv_createdAt = at, kv_updatedAt = at\<rparr>], kn_next := kn_next db + 1\<rparr>)
      | Some v \<Rightarrow> (kv_id v, db\<lparr>kn_versions := update_where (\<lambda>x. kv_id x = kv_id v) (\<lambda>x. x\<lparr>
            kv_hash := Some (ap_hash p), kv_content := ap_content p, kv_citation := citation,
            kv_status := KnPublished, kv_parserVersion := Some (js provisional_parser),
            kv_metadata := ap_metadata p,
            kv_publishedAt := (case kv_publishedAt x of None \<Rightarrow> Some at | Some t \<Rightarrow> Some t),
            kv_updatedAt := at\<rparr>) (kn_versions db)\<rparr>))"

definition activate_document ::
  "activation_plan \<Rightarrow> js_string \<Rightarrow> knowledge_candidate \<Rightarrow> timestamp \<Rightarrow> kn_db \<Rightarrow> nat \<times> kn_db" where
  "activate_document p path c at db = (case ap_existing p of
     Some e \<Rightarrow> (ex_document e, db)
   | None \<Rightarrow> (kn_next db, db\<lparr>kn_documents := kn_documents db @ [\<lparr>kd_id = kn_next db,
         kd_source = Some (ks_id (ap_source p)), kd_externalKey = Some (ca_externalKey c), kd_title = ca_title c,
         kd_description = Some (ca_description c), kd_language = ca_language c, kd_mimeType = Some (ca_mimeType c),
         kd_status = KnDraft, kd_current = None, kd_tags = ca_tags c,
         kd_metadata = activation_document path (ap_hash p), kd_createdBy = None, kd_createdAt = at,
         kd_updatedAt = at\<rparr>], kn_next := kn_next db + 1\<rparr>))"

definition activate_candidate ::
  "activation_plan \<Rightarrow> js_string \<Rightarrow> knowledge_candidate \<Rightarrow> timestamp \<Rightarrow> kn_db \<Rightarrow> kn_db" where
  "activate_candidate p path c at db =
     (let (docId, db1) = activate_document p path c at db;
          (vid, db2) = activate_version p (ca_citation c) docId at db1;
          db3 = provisional_chunks p vid at db2
      in db3\<lparr>kn_documents := update_where (\<lambda>d. kd_id d = docId) (\<lambda>d. d\<lparr>
           kd_source := Some (ks_id (ap_source p)), kd_title := ca_title c, kd_description := Some (ca_description c),
           kd_language := ca_language c, kd_mimeType := Some (ca_mimeType c), kd_status := KnPublished,
           kd_current := Some vid, kd_tags := ca_tags c,
           kd_metadata := kd_metadata d @ activation_document path (ap_hash p), kd_updatedAt := at\<rparr>)
           (kn_documents db3)\<rparr>)"

text \<open>The old document is archived once its replacement can be retrieved.\<close>

definition replacement_active :: "js_string \<Rightarrow> kn_db \<Rightarrow> bool" where
  "replacement_active key db \<longleftrightarrow> list_ex (\<lambda>d. kd_externalKey d = Some key \<and> kd_status d = KnPublished
     \<and> (case Option.bind (kd_current d) (\<lambda>i. lookup kv_id i (kn_versions db)) of
          None \<Rightarrow> False
        | Some v \<Rightarrow> kv_status v = KnPublished
            \<and> (jtext_is ''retrievalStatus'' active_pending_review (kv_metadata v)
               \<or> jtext_is ''retrievalStatus'' active_reviewed (kv_metadata v))
            \<and> kv_hash v \<noteq> None \<and> jstring (jget ''retrievalContentHash'' (kv_metadata v)) = kv_hash v)) (kn_documents db)"

definition archiveLegacyDocument :: "js_string \<Rightarrow> js_string \<Rightarrow> timestamp \<Rightarrow> kn_db \<Rightarrow> (kn_error, kn_db) result" where
  "archiveLegacyDocument legacy replacement at db =
     (let P = (\<lambda>d. kd_externalKey d = Some legacy \<and> kd_status d = KnPublished) in
      if \<not> replacement_active replacement db
      then Inl (PlainError ''Refusing to archive before the replacement is active.'')
      else Inr (db\<lparr>
        kn_versions := update_where (\<lambda>v. kv_status v = KnPublished
            \<and> list_ex (\<lambda>d. P d \<and> kd_current d = Some (kv_id v)) (kn_documents db))
          (\<lambda>v. v\<lparr>kv_status := KnArchived, kv_updatedAt := at\<rparr>) (kn_versions db),
        kn_documents := update_where P (\<lambda>d. d\<lparr>kd_status := KnArchived, kd_updatedAt := at\<rparr>) (kn_documents db)\<rparr>))"

end
