(* ===== verification/Knowledge_Intake.thy ===== *)
theory Knowledge_Intake
  imports Knowledge_Admin
begin

section \<open>Intake and retrieval of knowledge\<close>

text \<open>
  The upload of an original (\<open>original-upload-service.ts\<close>, \<open>original-upload-repository.ts\<close>), the
  queueing of pending reviews (\<open>pending-review-requeue.ts\<close>), and the conditions under which a
  version is served or embedded: the \<open>WHERE\<close> clause of \<open>retrieval.ts\<close> and
  \<open>published-embedding.ts\<close>. The object store and Unicode normalisation are parameters.
\<close>

subsection \<open>Uploads\<close>

record upload_input =
  up_title :: js_string
  up_description :: "js_string option"
  up_sourceUrl :: "js_string option"
  up_filename :: js_string
  up_contentType :: string
  up_sizeBytes :: int
  up_sha256 :: js_string
  up_uploadedBy :: js_string

definition displayFilename :: "js_string \<Rightarrow> js_string" where
  "displayFilename name = (case filter (\<lambda>s. s \<noteq> [] \<and> s \<noteq> js ''..'')
       (split_char 47 (map (\<lambda>c. if c = 92 then 47 else c) name)) of
     [] \<Rightarrow> js ''upload'' | s # ss \<Rightarrow> last (s # ss))"

definition fileExtension :: "kn_rules \<Rightarrow> js_string \<Rightarrow> js_string option" where
  "fileExtension kr name = filenameExtension kr (displayFilename name)"

definition ascii_alnum :: "nat \<Rightarrow> bool" where
  "ascii_alnum c \<longleftrightarrow> key_first c"

text \<open>\<open>replace(/[^A-Za-z0-9]+/g, "-")\<close>.\<close>

fun dashed :: "bool \<Rightarrow> js_string \<Rightarrow> js_string" where
  "dashed inside [] = []"
| "dashed inside (c # cs) = (if ascii_alnum c then c # dashed False cs
     else if inside then dashed True cs else 45 # dashed True cs)"

definition strip_dashes :: "js_string \<Rightarrow> js_string" where
  "strip_dashes s = rev (dropWhile (\<lambda>c. c = 45) (rev (dropWhile (\<lambda>c. c = 45) s)))"

definition sanitizeKnowledgeOriginalFilename :: "kn_rules \<Rightarrow> (js_string \<Rightarrow> js_string) \<Rightarrow> js_string \<Rightarrow> js_string" where
  "sanitizeKnowledgeOriginalFilename kr nfkd name =
     (let base = nfkd (displayFilename name);
          extension = (case fileExtension kr base of None \<Rightarrow> js ''bin'' | Some e \<Rightarrow> kr_lower kr e);
          stem = take (length base - (length extension + 1)) base;
          safe = take 160 (strip_dashes (dashed False stem))
      in (if safe = [] then js ''upload'' else safe) @ [46] @ extension)"

definition uploadInputSchema :: "kn_rules \<Rightarrow> upload_input \<Rightarrow> upload_input option" where
  "uploadInputSchema kr i =
     Option.bind (z_bounded 240 (up_title i)) (\<lambda>title.
     Option.bind (z_optional_text 2000 (up_description i)) (\<lambda>description.
     Option.bind (z_bounded 255 (up_filename i)) (\<lambda>name.
     Option.bind (z_bounded 128 (up_uploadedBy i)) (\<lambda>uploader.
       if (case up_sourceUrl i of None \<Rightarrow> True | Some u \<Rightarrow> kr_url kr u \<noteq> None \<and> length u \<le> 2048)
          \<and> up_contentType i \<in> set (map snd mime_by_extension)
          \<and> 0 < up_sizeBytes i \<and> up_sizeBytes i \<le> max_knowledge_original_bytes \<and> sha256_hex (up_sha256 i)
          \<and> (case fileExtension kr name of None \<Rightarrow> False
             | Some e \<Rightarrow> list_ex (\<lambda>(x, m). e = js x \<and> m = up_contentType i) mime_by_extension)
       then Some (i\<lparr>up_title := title, up_description := description, up_filename := name,
              up_uploadedBy := uploader\<rparr>) else None))))"

text \<open>The signed upload: its method, key and the headers it requires, in lower case.\<close>

record signed_upload =
  sg_method :: string
  sg_key :: js_string
  sg_headers :: "(string \<times> js_string) list"

definition assertHeaderBoundUpload ::
  "signed_upload \<Rightarrow> js_string \<Rightarrow> upload_input \<Rightarrow> (kn_error, unit) result" where
  "assertHeaderBoundUpload u key i =
     (if sg_method u \<noteq> ''PUT'' \<or> sg_key u \<noteq> key
         \<or> map_of (rev (sg_headers u)) ''content-type'' \<noteq> Some (js (up_contentType i))
         \<or> map_of (rev (sg_headers u)) ''x-oss-meta-size-bytes'' \<noteq> Some (js_int (up_sizeBytes i))
         \<or> map_of (rev (sg_headers u)) ''x-oss-forbid-overwrite'' \<noteq> Some (js ''true'')
         \<or> map_of (rev (sg_headers u)) ''x-oss-meta-sha256'' \<noteq> Some (up_sha256 i)
      then Inl (ApiError 503 ''KNOWLEDGE_UPLOAD_UNAVAILABLE'') else Inr ())"

text \<open>The one governed source of a URL.\<close>

definition findExactGovernedSourceId :: "js_string \<Rightarrow> kn_db \<Rightarrow> nat option" where
  "findExactGovernedSourceId url db =
     (case filter (\<lambda>s. ks_canonicalUrl s = Some url \<and> ks_enabled s \<and> ks_deletedAt s = None) (kn_sources db) of
        [s] \<Rightarrow> Some (ks_id s) | _ \<Rightarrow> None)"

definition original_check :: "original_row \<Rightarrow> bool" where
  "original_check o1 \<longleftrightarrow> 0 < ko_sizeBytes o1 \<and> ko_sizeBytes o1 \<le> max_knowledge_original_bytes
     \<and> sha256_hex (ko_sha256 o1) \<and> ko_mimeType o1 \<in> set (map (js \<circ> snd) mime_by_extension)
     \<and> isSafePrivateKnowledgeObjectKey (ko_objectKey o1)"

definition rights_pending :: jobject where
  "rights_pending = [(''uploadStatus'', JString (js ''awaiting_object'')), (''rightsStatus'', JString (js ''pending'')),
     (''rightsDecision'', JString (js ''needs_human''))]"

definition initiate_draft ::
  "upload_input \<Rightarrow> js_string \<Rightarrow> js_string \<Rightarrow> kn_db \<Rightarrow> (kn_error, nat \<times> kn_db) result" where
  "initiate_draft i key filename db =
     (let docId = kn_next db; vid = kn_next db + 1;
          url = (case up_sourceUrl i of None \<Rightarrow> [] | Some u \<Rightarrow> if u = [] then [] else [(''sourceUrl'', JString u)]);
          src = Option.bind (up_sourceUrl i) (\<lambda>u. if u = [] then None else findExactGovernedSourceId u db);
          d = (blank_document docId KnProcessing src (up_title i) (up_uploadedBy i) db)\<lparr>
            kd_description := up_description i, kd_mimeType := Some (js (up_contentType i)),
            kd_metadata := rights_pending @ url\<rparr>;
          v = (blank_version vid docId KnProcessing (up_uploadedBy i) db)\<lparr>
            kv_citation := (''ingestionMode'', JString (js ''full_text'')) # url, kv_objectKey := Some key,
            kv_metadata := required_again @ rights_pending\<rparr>;
          original = \<lparr>ko_version = vid, ko_objectKey = key, ko_filename = filename,
            ko_mimeType = js (up_contentType i), ko_sizeBytes = up_sizeBytes i, ko_sha256 = up_sha256 i,
            ko_uploadedBy = up_uploadedBy i\<rparr>
      in if \<not> original_check original then Inl (DbViolation ''knowledge_original'')
         else if list_ex (\<lambda>x. ko_objectKey x = key) (kn_originals db)
         then Inl (DbViolation ''knowledge_original_object_key_unique'')
         else Inr (vid, (insert_document d v db)\<lparr>kn_originals := kn_originals db @ [original]\<rparr>))"

definition initiateUpload ::
  "kn_rules \<Rightarrow> (js_string \<Rightarrow> js_string) \<Rightarrow> (js_string \<Rightarrow> upload_input \<Rightarrow> (kn_error, signed_upload) result) \<Rightarrow>
   upload_input \<Rightarrow> kn_db \<Rightarrow> (kn_error, nat \<times> kn_db) result" where
  "initiateUpload kr nfkd sign i db = (case uploadInputSchema kr i of
     None \<Rightarrow> Inl (ApiError 422 ''KNOWLEDGE_UPLOAD_INVALID'')
   | Some p \<Rightarrow>
       let name = displayFilename (up_filename p);
           key = js ''private/knowledge-originals/'' @ id_text (kn_next db) @ [47] @ id_text (kn_next db + 1) @ [47]
             @ sanitizeKnowledgeOriginalFilename kr nfkd name
       in bindR (sign key p) (\<lambda>u.
          bindR (assertHeaderBoundUpload u key p) (\<lambda>_. initiate_draft p key name db)))"

record object_stat =
  os_key :: js_string
  os_sizeBytes :: int
  os_contentType :: "js_string option"
  os_metadataSha :: "js_string option"
  os_actualSha :: js_string

definition assertStoredObjectMatches :: "kn_rules \<Rightarrow> original_row \<Rightarrow> object_stat \<Rightarrow> (kn_error, unit) result" where
  "assertStoredObjectMatches kr o1 st =
     (if os_key st \<noteq> ko_objectKey o1 \<or> os_sizeBytes st \<noteq> ko_sizeBytes o1
         \<or> map_option (kr_lower kr) (os_contentType st) \<noteq> Some (kr_lower kr (ko_mimeType o1))
         \<or> os_metadataSha st \<noteq> Some (ko_sha256 o1) \<or> os_actualSha st \<noteq> ko_sha256 o1
      then Inl (ApiError 409 ''KNOWLEDGE_UPLOAD_MISMATCH'') else Inr ())"

definition verified_upload :: jobject where
  "verified_upload = [(''uploadStatus'', JString (js ''verified''))]"

definition upload_task_key :: "original_row \<Rightarrow> js_string" where
  "upload_task_key o1 = js ''knowledge-ingestion:'' @ id_text (ko_version o1) @ [58] @ ko_sha256 o1"

definition completeUpload ::
  "kn_rules \<Rightarrow> nat \<Rightarrow> js_string \<Rightarrow> (js_string \<Rightarrow> (kn_error, object_stat) result) \<Rightarrow> kn_db \<Rightarrow>
   (kn_error, nat \<times> kn_db) result" where
  "completeUpload kr versionId uploadedBy stat db =
     (case find (\<lambda>o1. ko_version o1 = versionId \<and> ko_uploadedBy o1 = uploadedBy) (kn_originals db) of
        None \<Rightarrow> Inl (ApiError 404 ''KNOWLEDGE_UPLOAD_NOT_FOUND'')
      | Some o1 \<Rightarrow> (case lookup kv_id versionId (kn_versions db) of
          None \<Rightarrow> Inl (ApiError 404 ''KNOWLEDGE_UPLOAD_NOT_FOUND'')
        | Some v \<Rightarrow>
            if Option.bind (lookup kd_id (kv_document v) (kn_documents db)) kd_current \<noteq> Some versionId
            then Inl (ApiError 404 ''KNOWLEDGE_UPLOAD_NOT_FOUND'')
            else bindR (stat (ko_objectKey o1)) (\<lambda>st. bindR (assertStoredObjectMatches kr o1 st) (\<lambda>_.
              case task_of_key (upload_task_key o1) db of
                Some t \<Rightarrow> Inr (t, db)
              | None \<Rightarrow>
                  let payload = [(''stage'', JString (js ''ocr_pending'')),
                        (''documentId'', JString (id_text (kv_document v))), (''versionId'', JString (id_text versionId)),
                        (''objectKey'', JString (ko_objectKey o1)), (''filename'', JString (ko_filename o1))]
                  in Inr (kn_next db,
                       set_document (\<lambda>d. kd_id d = kv_document v \<and> kd_current d = Some versionId)
                         (\<lambda>d. d\<lparr>kd_status := KnProcessing, kd_metadata := kd_metadata d @ verified_upload\<rparr>)
                         (set_version (\<lambda>x. kv_id x = versionId)
                           (\<lambda>x. x\<lparr>kv_status := KnProcessing, kv_metadata := kv_metadata x @ verified_upload\<rparr>)
                           (enqueue_task 0 (upload_task_key o1) payload (Some uploadedBy) db)))))))"

subsection \<open>Queueing pending reviews\<close>

text \<open>\<open>length(trim(content)) > 0\<close> of PostgreSQL: a character that is not a space.\<close>

definition pending_candidate :: "kn_db \<Rightarrow> document_row \<Rightarrow> (document_row \<times> version_row) option" where
  "pending_candidate db d = (case Option.bind (kd_current d) (\<lambda>i. lookup kv_id i (kn_versions db)) of
     None \<Rightarrow> None
   | Some v \<Rightarrow> (case kv_hash v of
       None \<Rightarrow> None
     | Some h \<Rightarrow>
         if kd_status d \<in> {KnReview, KnProcessing} \<and> jtext_is ''reviewStatus'' ''required'' (kv_metadata v)
            \<and> sha256_hex h \<and> (\<exists>c\<in>set (kv_content v). c \<noteq> 32)
            \<and> \<not> list_ex (\<lambda>r. rr_inputVersion r = kv_id v \<and> rr_inputHash r = h \<and> rr_prompt r = js automation_policy
                  \<and> rr_phase r = PhaseInitial) (kn_runs db)
         then Some (d, v) else None))"

definition pending_before :: "document_row \<Rightarrow> document_row \<Rightarrow> bool" where
  "pending_before a b \<longleftrightarrow> kd_createdAt a < kd_createdAt b \<or> (kd_createdAt a = kd_createdAt b \<and> kd_id a \<le> kd_id b)"

definition pending_candidates :: "kn_db \<Rightarrow> (document_row \<times> version_row) list" where
  "pending_candidates db = List.map_filter (pending_candidate db) (sort_by pending_before (kn_documents db))"

definition queue_pending :: "document_row \<times> version_row \<Rightarrow> kn_db \<Rightarrow> kn_db" where
  "queue_pending dv db = queue_run PhaseInitial (kv_id (snd dv))
     (case kv_hash (snd dv) of None \<Rightarrow> [] | Some h \<Rightarrow> h) (js review_model) db"

text \<open>The dry run reports the candidates; applying it inserts their runs.\<close>

definition requeuePendingReviews :: "bool \<Rightarrow> kn_db \<Rightarrow> (document_row \<times> version_row) list \<times> kn_db" where
  "requeuePendingReviews apply_it db =
     (let candidates = pending_candidates db
      in (candidates, if apply_it then fold queue_pending candidates db else db))"

subsection \<open>What retrieval serves\<close>

text \<open>\<open>canonical_url ~ '^https://[^/?#[:space:]@]+([/?#]|$)'\<close>.\<close>

definition https_pattern :: "js_string \<Rightarrow> bool" where
  "https_pattern u \<longleftrightarrow> js_startsWith u (js ''https://'')
     \<and> (let rest = drop 8 u; host = takeWhile (\<lambda>c. c \<notin> {47, 63, 35, 64} \<and> \<not> js_white c) rest
        in host \<noteq> [] \<and> (case drop (length host) rest of [] \<Rightarrow> True | c # _ \<Rightarrow> c \<in> {47, 63, 35}))"

definition sql_decision_ok :: "source_row \<Rightarrow> bool" where
  "sql_decision_ok s \<longleftrightarrow> (let r = recordValue (jget ''rightsDecision'' (ks_metadata s)) in
     jtext_is ''status'' ''approved'' r \<and> jtext_is ''scope'' ''full_text'' r
     \<and> jstring (jget ''appliesToRecordUrl'' r) \<noteq> None
     \<and> jstring (jget ''appliesToRecordUrl'' r) = ks_canonicalUrl s)"

definition sql_rights :: "source_row \<Rightarrow> bool" where
  "sql_rights s \<longleftrightarrow> (let r = recordValue (jget ''rightsDecision'' (ks_metadata s)) in
     (ks_tier s = TierOpenLicense \<and> sql_decision_ok s)
   \<or> (ks_tier s = TierInternal
      \<and> (jtext_is ''commercialAiRightsConfirmed'' ''true'' (ks_metadata s)
         \<or> jtext_is ''commercialAiUse'' ''approved'' r \<or> jtext_is ''commercialAiRights'' ''approved'' r)
      \<and> (jget ''rightsDecision'' (ks_metadata s) = None \<or> sql_decision_ok s)))"

text \<open>The version, the document and the source that a chunk is joined with.\<close>

definition chunk_join :: "kn_db \<Rightarrow> chunk_row \<Rightarrow> (version_row \<times> document_row \<times> source_row) option" where
  "chunk_join db c = (case lookup kv_id (kc_version c) (kn_versions db) of
     None \<Rightarrow> None
   | Some v \<Rightarrow> (case lookup kd_id (kv_document v) (kn_documents db) of
       None \<Rightarrow> None
     | Some d \<Rightarrow> (case document_source d db of None \<Rightarrow> None | Some s \<Rightarrow> Some (v, d, s))))"

definition current_published :: "version_row \<Rightarrow> document_row \<Rightarrow> bool" where
  "current_published v d \<longleftrightarrow> kv_status v = KnPublished \<and> kd_status d = KnPublished \<and> kd_current d = Some (kv_id v)"

definition source_serves :: "source_row \<Rightarrow> bool" where
  "source_serves s \<longleftrightarrow> ks_enabled s \<and> ks_deletedAt s = None
     \<and> (case ks_canonicalUrl s of None \<Rightarrow> False | Some u \<Rightarrow> https_pattern u)
     \<and> (case ks_publisher s of None \<Rightarrow> False | Some p \<Rightarrow> \<exists>x\<in>set p. x \<noteq> 32)
     \<and> sql_rights s"

text \<open>
  The fallback by terms (\<open>lexical.ts\<close>) serves chunks with or without an embedding; the hybrid query
  (\<open>retrieval.ts\<close>) asks for an embedding in addition.
\<close>

definition lexical_eligible :: "kn_db \<Rightarrow> chunk_row \<Rightarrow> bool" where
  "lexical_eligible db c \<longleftrightarrow> (case chunk_join db c of
     None \<Rightarrow> False
   | Some (v, d, s) \<Rightarrow> current_published v d \<and> jtext_is ''ingestionMode'' ''full_text'' (kv_citation v)
       \<and> retrieval_review_policy v \<and> source_serves s)"

definition retrieval_eligible :: "kn_db \<Rightarrow> chunk_row \<Rightarrow> bool" where
  "retrieval_eligible db c \<longleftrightarrow> kc_embedding c \<noteq> None \<and> lexical_eligible db c"

definition isPublishedEmbeddingCandidate :: "kn_rules \<Rightarrow> js_string \<Rightarrow> version_row \<Rightarrow> source_row \<Rightarrow> bool" where
  "isPublishedEmbeddingCandidate kr content v s \<longleftrightarrow> js_trim content \<noteq> []
     \<and> ingestion_mode (kv_citation v) = full_text
     \<and> jget ''reviewStatus'' (kv_metadata v) = Some (JString (js ''approved''))
     \<and> jget ''status'' (recordValue (jget ''review'' (kv_metadata v))) = Some (JString (js ''approved''))
     \<and> assertKnowledgeSourceAuthorized kr (Some s) (kv_citation v) = Inr ()"

end
