(* ===== verification/Knowledge_Invariant.thy ===== *)
theory Knowledge_Invariant
  imports Knowledge_Activation Knowledge_Intake
begin

text \<open>
  The invariant of the knowledge base: the hash of a version is the hash of its content, and a review
  that counts as approved is the approval of exactly this content. The lemmas are one for each kind
  of statement the operations are made of.
\<close>

text \<open>Guards of an operation that succeeded.\<close>

lemma guard_Inr [simp]:
  "(if b then Inl e else m) = Inr y \<longleftrightarrow> \<not> b \<and> m = Inr y"
  "(if b then m else Inl e) = Inr y \<longleftrightarrow> b \<and> m = Inr y"
  "(if b then conflict c else m) = Inr y \<longleftrightarrow> \<not> b \<and> m = Inr y"
  "conflict c \<noteq> Inr y"
  "(if b then Inr None else m') = Inr (Some z) \<longleftrightarrow> \<not> b \<and> m' = Inr (Some z)"
  by (auto simp: conflict_def)

subsection \<open>The invariant\<close>

text \<open>What is assumed of the platform: a SHA-256 is 64 lower-case hexadecimal digits.\<close>

definition hash_rules :: "kn_rules \<Rightarrow> bool" where
  "hash_rules kr \<longleftrightarrow> (\<forall>s. sha256_hex (kr_sha kr s)) \<and> (\<forall>s. sha256_hex s \<longrightarrow> kr_lower kr s = s)"

definition hash_ok :: "kn_rules \<Rightarrow> version_row \<Rightarrow> bool" where
  "hash_ok kr v \<longleftrightarrow> (\<forall>h. kv_hash v = Some h \<longrightarrow> h = kr_sha kr (kv_content v))"

definition approved_exactly :: "version_row \<Rightarrow> bool" where
  "approved_exactly v \<longleftrightarrow> (let review = recordValue (jget ''review'' (kv_metadata v)) in
     jtext_is ''status'' ''approved'' review \<and> kv_hash v \<noteq> None
     \<and> jstring (jget ''contentHash'' review) = kv_hash v)"

definition version_ok :: "kn_rules \<Rightarrow> version_row \<Rightarrow> bool" where
  "version_ok kr v \<longleftrightarrow> hash_ok kr v
     \<and> (jtext_is ''reviewStatus'' ''approved'' (kv_metadata v) \<longrightarrow> approved_exactly v)"

definition knowledge_inv :: "kn_rules \<Rightarrow> kn_db \<Rightarrow> bool" where
  "knowledge_inv kr db \<longleftrightarrow> distinct (map kv_id (kn_versions db))
     \<and> (\<forall>v\<in>set (kn_versions db). kv_id v < kn_next db) \<and> (\<forall>v\<in>set (kn_versions db). version_ok kr v)"

lemma jtext_is_string [simp]: "jtext_is k lit (o1 @ [(k, JString (js t))]) \<longleftrightarrow> lit = t"
  by (auto simp: jtext_is_def js_eq_iff)

lemma jstring_simps [simp]: "jstring (Some (JString s)) = Some s" "jstring None = None"
  by (simp_all add: jstring_def)

lemma recordValue_object [simp]: "recordValue (Some (JObject r)) = r"
  by (simp add: recordValue_def)

lemma version_ok_updatedAt [simp]: "version_ok kr (v\<lparr>kv_updatedAt := t\<rparr>) = version_ok kr v"
  by (simp add: version_ok_def hash_ok_def approved_exactly_def retrieval_review_policy_def)

text \<open>A version that is not approved only needs its hash.\<close>

lemma version_ok_plain:
  "hash_ok kr v \<Longrightarrow> \<not> jtext_is ''reviewStatus'' ''approved'' (kv_metadata v) \<Longrightarrow> version_ok kr v"
  by (simp add: version_ok_def)

lemma version_ok_approved:
  assumes "hash_ok kr v" "approved_exactly v" "jtext_is ''reviewStatus'' ''approved'' (kv_metadata v)"
  shows "version_ok kr v"
  using assms by (simp add: version_ok_def retrieval_review_policy_def approved_exactly_def Let_def)

text \<open>Changing the status of a version.\<close>

lemma version_ok_demote: "version_ok kr v \<Longrightarrow> version_ok kr (v\<lparr>kv_status := s\<rparr>)"
  by (simp add: version_ok_def hash_ok_def approved_exactly_def)

lemma version_ok_publish:
  "version_ok kr v \<Longrightarrow> kv_hash w = kv_hash v \<Longrightarrow> kv_content w = kv_content v \<Longrightarrow> kv_metadata w = kv_metadata v \<Longrightarrow>
   version_ok kr w"
  by (simp add: version_ok_def hash_ok_def approved_exactly_def retrieval_review_policy_def Let_def)

text \<open>Recording an approval of exactly the content of the version.\<close>

lemma version_ok_review:
  assumes "version_ok kr v" "kv_hash v = Some h" "kv_hash w = kv_hash v" "kv_content w = kv_content v"
    and "jget ''status'' r = Some (JString (js ''approved''))" "jget ''contentHash'' r = Some (JString h)"
    and "jget ''reviewStatus'' (kv_metadata w) = Some (JString (js ''approved''))"
    and "jget ''review'' (kv_metadata w) = Some (JObject r)"
  shows "version_ok kr w"
  using assms by (intro version_ok_approved) (simp_all add: version_ok_def hash_ok_def jtext_is_def approved_exactly_def)

subsection \<open>Statements\<close>

lemma knowledge_invD: "knowledge_inv kr db \<Longrightarrow> v \<in> set (kn_versions db) \<Longrightarrow> version_ok kr v"
  by (simp add: knowledge_inv_def)

lemma inv_lookup: "knowledge_inv kr db \<Longrightarrow> lookup kv_id i (kn_versions db) = Some v \<Longrightarrow> version_ok kr v"
  using lookup_SomeD knowledge_invD by metis

lemma inv_same_id:
  "knowledge_inv kr db \<Longrightarrow> v \<in> set (kn_versions db) \<Longrightarrow> w \<in> set (kn_versions db) \<Longrightarrow> kv_id v = kv_id w \<Longrightarrow> v = w"
  unfolding knowledge_inv_def by (metis distinct_key_unique)

lemma inv_frame:
  "knowledge_inv kr db \<Longrightarrow> kn_versions db' = kn_versions db \<Longrightarrow> kn_next db \<le> kn_next db' \<Longrightarrow> knowledge_inv kr db'"
  unfolding knowledge_inv_def by fastforce

lemma inv_update:
  assumes "knowledge_inv kr db" "kn_versions db' = update_where P f (kn_versions db)" "kn_next db \<le> kn_next db'"
    and "\<And>v. v \<in> set (kn_versions db) \<Longrightarrow> P v \<Longrightarrow> version_ok kr v \<Longrightarrow> version_ok kr (f v) \<and> kv_id (f v) = kv_id v"
  shows "knowledge_inv kr db'"
proof -
  have inv: "distinct (map kv_id (kn_versions db))" "\<forall>v\<in>set (kn_versions db). kv_id v < kn_next db \<and> version_ok kr v"
    using assms(1) by (auto simp: knowledge_inv_def)
  have ids: "map kv_id (update_where P f (kn_versions db)) = map kv_id (kn_versions db)"
    using assms(4) inv(2) by (auto simp: update_where_def)
  have "version_ok kr x \<and> kv_id x < kn_next db" if "x \<in> set (update_where P f (kn_versions db))" for x
    using that assms(4) inv(2) by (auto simp: update_where_def)
  then show ?thesis using ids inv(1) assms(2,3) by (fastforce simp: knowledge_inv_def)
qed

lemma inv_append:
  assumes "knowledge_inv kr db" "kn_versions db' = kn_versions db @ [w]" "kn_next db \<le> kv_id w" "kv_id w < kn_next db'"
    and "version_ok kr w"
  shows "knowledge_inv kr db'"
  using assms unfolding knowledge_inv_def by fastforce

lemma inv_set_version:
  assumes "knowledge_inv kr db"
    and "\<And>v. v \<in> set (kn_versions db) \<Longrightarrow> P v \<Longrightarrow> version_ok kr v \<Longrightarrow> version_ok kr (f v) \<and> kv_id (f v) = kv_id v"
  shows "knowledge_inv kr (set_version P f db)"
  using assms(1)
  by (rule inv_update[where P = P and f = "\<lambda>v. (f v)\<lparr>kv_updatedAt := kn_now db\<rparr>"]) (simp_all add: set_version_def assms(2))

lemma inv_update_version:
  assumes "update_version P f e db = Inr db'" "knowledge_inv kr db"
    and "\<And>v. v \<in> set (kn_versions db) \<Longrightarrow> P v \<Longrightarrow> version_ok kr v \<Longrightarrow> version_ok kr (f v) \<and> kv_id (f v) = kv_id v"
  shows "knowledge_inv kr db'"
  using assms(2)
  by (rule inv_update[where P = P and f = "\<lambda>v. (f v)\<lparr>kv_updatedAt := kn_now db\<rparr>"])
     (use assms(1) in \<open>auto simp: update_version_def assms(3) split: if_splits\<close>)

text \<open>Rewriting one row, which is known.\<close>

lemma inv_set_row:
  assumes "knowledge_inv kr db" "v \<in> set (kn_versions db)" "kv_id v = i" "version_ok kr (f v)" "kv_id (f v) = i"
  shows "knowledge_inv kr (set_version (\<lambda>x. kv_id x = i) f db)"
proof (rule inv_set_version[OF assms(1)])
  fix x assume "x \<in> set (kn_versions db)" "kv_id x = i"
  then have "x = v" using inv_same_id[OF assms(1)] assms(2,3) by simp
  then show "version_ok kr (f x) \<and> kv_id (f x) = kv_id x" using assms(3-5) by simp
qed

text \<open>Writing other tables and drawing ids.\<close>

lemma inv_tables [simp]:
  "knowledge_inv kr (db\<lparr>kn_sources := a\<rparr>) = knowledge_inv kr db"
  "knowledge_inv kr (db\<lparr>kn_documents := b\<rparr>) = knowledge_inv kr db"
  "knowledge_inv kr (db\<lparr>kn_originals := c\<rparr>) = knowledge_inv kr db"
  "knowledge_inv kr (db\<lparr>kn_runs := d\<rparr>) = knowledge_inv kr db"
  "knowledge_inv kr (db\<lparr>kn_sections := e\<rparr>) = knowledge_inv kr db"
  "knowledge_inv kr (db\<lparr>kn_decisions := f\<rparr>) = knowledge_inv kr db"
  "knowledge_inv kr (db\<lparr>kn_chunks := g\<rparr>) = knowledge_inv kr db"
  "knowledge_inv kr (db\<lparr>kn_tasks := h\<rparr>) = knowledge_inv kr db"
  "knowledge_inv kr (db\<lparr>kn_audit := i\<rparr>) = knowledge_inv kr db"
  "knowledge_inv kr (db\<lparr>kn_citations := j\<rparr>) = knowledge_inv kr db"
  "knowledge_inv kr (db\<lparr>kn_now := t\<rparr>) = knowledge_inv kr db"
  by (simp_all add: knowledge_inv_def)

lemma inv_next [simp]: "knowledge_inv kr db \<Longrightarrow> kn_next db \<le> n \<Longrightarrow> knowledge_inv kr (db\<lparr>kn_next := n\<rparr>)"
  by (erule inv_frame) simp_all

lemma inv_writes [simp]:
  "knowledge_inv kr (kn_audited r db) = knowledge_inv kr db"
  "knowledge_inv kr (set_document P f db) = knowledge_inv kr db"
  "knowledge_inv kr (admin_audit ctx ac ty tg md db) = knowledge_inv kr db"
  "knowledge_inv kr (review_audit ac tg md db) = knowledge_inv kr db"
  "knowledge_inv kr (manual_audit mt ac md db) = knowledge_inv kr db"
  "knowledge_inv kr (delete_sections vid db) = knowledge_inv kr db"
  "knowledge_inv kr (mark_citations vid src st db) = knowledge_inv kr db"
  "knowledge_inv kr (expire_leases db) = knowledge_inv kr db"
  by (simp_all add: kn_audited_def set_document_def admin_audit_def review_audit_def manual_audit_def
      delete_sections_def mark_citations_def expire_leases_def split: option.split)

lemma inv_queues [simp]:
  "knowledge_inv kr db \<Longrightarrow> knowledge_inv kr (enqueue_task p key pl by db)"
  "knowledge_inv kr db \<Longrightarrow> knowledge_inv kr (queue_run ph vid h m db)"
  by (auto simp: enqueue_task_def queue_run_def Let_def)

lemma inv_fallible:
  "update_document P f e db = Inr db' \<Longrightarrow> knowledge_inv kr db' = knowledge_inv kr db"
  "update_task j g db = Inr db' \<Longrightarrow> knowledge_inv kr db' = knowledge_inv kr db"
  "finish_run rt st dec rep rv db = Inr db' \<Longrightarrow> knowledge_inv kr db' = knowledge_inv kr db"
  by (auto simp: update_document_def update_task_def finish_run_def Let_def split: if_splits)

lemma inv_inserts:
  "insert_sections ss db = Inr db' \<Longrightarrow> knowledge_inv kr db \<Longrightarrow> knowledge_inv kr db'"
  "replace_chunks vid cs db = Inr db' \<Longrightarrow> knowledge_inv kr db \<Longrightarrow> knowledge_inv kr db'"
  by (auto simp: insert_sections_def replace_chunks_def split: if_splits)

lemma inv_queue_run:
  "queueAutomationRun vid h ph db = Inr (i, db') \<Longrightarrow> knowledge_inv kr db \<Longrightarrow> knowledge_inv kr db'"
  by (auto simp: queueAutomationRun_def Let_def split: option.splits if_splits)

end
