(* ===== verification/Knowledge_Preserved.thy ===== *)
theory Knowledge_Preserved
  imports Knowledge_Invariant
begin

text \<open>
  Every operation of the knowledge base keeps the invariant: the queue, the worker's results, the
  automated and the manual review, the sections, the administration, the intake and the activation.
\<close>

lemmas json_simps = jtext_is_def js_eq_iff

subsection \<open>The queue and the worker\<close>

lemma claimNext_inv: "claimNext kr w locked db = (r, db') \<Longrightarrow> knowledge_inv kr db \<Longrightarrow> knowledge_inv kr db'"
  unfolding claimNext_def Let_def by (auto split: list.splits sum.splits)

lemma settle_inv:
  "renewLease j db = Inr db' \<Longrightarrow> knowledge_inv kr db \<Longrightarrow> knowledge_inv kr db'"
  "requeue j t pl db = Inr db' \<Longrightarrow> knowledge_inv kr db \<Longrightarrow> knowledge_inv kr db'"
  "markReviewRequired j s db = Inr db' \<Longrightarrow> knowledge_inv kr db \<Longrightarrow> knowledge_inv kr db'"
  "markFailed kr j e t db = Inr db' \<Longrightarrow> knowledge_inv kr db \<Longrightarrow> knowledge_inv kr db'"
  by (simp_all add: renewLease_def requeue_def markReviewRequired_def markFailed_def inv_fallible)

lemma saveParsed_inv:
  assumes "saveParsedForReview kr j parsed content db = Inr db'" "knowledge_inv kr db"
  shows "knowledge_inv kr db'"
  using assms
  by (auto simp: saveParsedForReview_def Let_def bindR_eq_Inr inv_fallible json_simps hash_ok_def
      elim!: inv_update_version inv_inserts intro!: version_ok_plain inv_queues
      split: option.splits if_splits)

text \<open>What a successful storing of embeddings did, one statement after the other.\<close>

lemma saveEmbeddings_cases:
  assumes "saveEmbeddingsAndComplete kr j chunks db = Inr db'"
  obtains review v db1 db2 db3 published where
    "review_valid kr j = Inr True" "job_review j = Some review" "list_ex (task_mine j) (kn_tasks db)"
    "published = isAutomationPublicationReady kr j review db"
    "v \<in> set (kn_versions db)" "Some (id_text (kv_id v)) = job_field ''versionId'' j"
    "replace_chunks (kv_id v) chunks db = Inr db1"
    "update_version (\<lambda>x. kv_id x = kv_id v \<and> Some (id_text (kv_document x)) = job_field ''documentId'' j
        \<and> kv_status x = KnReview \<and> kv_hash x = jstring (jget ''contentHash'' review))
      (\<lambda>x. x\<lparr>kv_status := (if published then KnPublished else KnReview),
         kv_publishedAt := (if published then Some (kn_now db) else kv_publishedAt x),
         kv_metadata := kv_metadata x @
           [(''reviewStatus'', JString (js ''approved'')), (''embeddingStatus'', JString (js ''completed'')),
            (''embeddedChunkCount'', JNumber (int (length chunks))), (''review'', JObject review)]\<rparr>)
      (PlainError ''Reviewed knowledge content changed before embeddings were saved.'') db1 = Inr db2"
    "update_document (\<lambda>x. Some (id_text (kd_id x)) = job_field ''documentId'' j
        \<and> kd_current x = Some (kv_id v) \<and> kd_status x = KnReview)
      (\<lambda>x. x\<lparr>kd_status := (if published then KnPublished else KnReview)\<rparr>)
      (PlainError ''Reviewed knowledge version is no longer the current document version.'') db2 = Inr db3"
    "\<exists>result. update_task j (succeed_task db result)
      (if published then kn_audited (publication_audit (kv_id v) j review (length chunks) db) db3 else db3) = Inr db'"
proof -
  obtain review where r: "job_review j = Some review"
    using assms by (cases "job_review j") (auto simp: saveEmbeddingsAndComplete_def bindR_eq_Inr)
  define P :: "version_row \<Rightarrow> bool" where "P = (\<lambda>v. Some (id_text (kv_id v)) = job_field ''versionId'' j)"
  obtain v where f: "find P (kn_versions db) = Some v"
    using assms r by (cases "find P (kn_versions db)") (auto simp: saveEmbeddingsAndComplete_def bindR_eq_Inr Let_def P_def)
  then have v: "v \<in> set (kn_versions db)" "P v" by (auto simp: find_Some_iff)
  have name: "Some (id_text (kv_id v)) = job_field ''versionId'' j" using v(2) by (simp add: P_def)
  show thesis
    using assms
    apply (simp only: saveEmbeddingsAndComplete_def Let_def r f[unfolded P_def] option.case guard_Inr bindR_eq_Inr
        assertCurrentLease_def)
    apply (elim exE conjE)
    apply (rule that[OF _ r _ refl v(1) name])
         apply (simp_all only: not_not simp_thms)
    by blast+
qed

lemma saveEmbeddings_inv:
  assumes "saveEmbeddingsAndComplete kr j chunks db = Inr db'" "knowledge_inv kr db"
  shows "knowledge_inv kr db'"
  using assms(1)
proof (rule saveEmbeddings_cases)
  fix review v db1 db2 db3 published
  assume valid: "review_valid kr j = Inr True" "job_review j = Some review"
    and chunks: "replace_chunks (kv_id v) chunks db = Inr db1"
    and up: "update_version (\<lambda>x. kv_id x = kv_id v \<and> Some (id_text (kv_document x)) = job_field ''documentId'' j
        \<and> kv_status x = KnReview \<and> kv_hash x = jstring (jget ''contentHash'' review))
      (\<lambda>x. x\<lparr>kv_status := (if published then KnPublished else KnReview),
         kv_publishedAt := (if published then Some (kn_now db) else kv_publishedAt x),
         kv_metadata := kv_metadata x @
           [(''reviewStatus'', JString (js ''approved'')), (''embeddingStatus'', JString (js ''completed'')),
            (''embeddedChunkCount'', JNumber (int (length chunks))), (''review'', JObject review)]\<rparr>)
      (PlainError ''Reviewed knowledge content changed before embeddings were saved.'') db1 = Inr db2"
    and rest: "update_document (\<lambda>x. Some (id_text (kd_id x)) = job_field ''documentId'' j
        \<and> kd_current x = Some (kv_id v) \<and> kd_status x = KnReview)
      (\<lambda>x. x\<lparr>kd_status := (if published then KnPublished else KnReview)\<rparr>)
      (PlainError ''Reviewed knowledge version is no longer the current document version.'') db2 = Inr db3"
    "\<exists>result. update_task j (succeed_task db result)
      (if published then kn_audited (publication_audit (kv_id v) j review (length chunks) db) db3 else db3) = Inr db'"
  obtain h where status: "jget ''status'' review = Some (JString (js ''approved''))"
    "jget ''contentHash'' review = Some (JString h)"
    using valid by (auto simp: review_valid_def jstring_def split: option.splits if_splits json.splits)
  have "knowledge_inv kr db2"
    by (rule inv_update_version[OF up inv_inserts(2)[OF chunks assms(2)]])
       (rule conjI, rule version_ok_review[where r = review and h = h], assumption, use status in auto)
  with rest show ?thesis by (auto simp: inv_fallible split: if_splits)
qed

subsection \<open>Automated review\<close>

lemma claim_one_inv: "knowledge_inv kr (snd (claim_one kq tokens s sc acc)) = knowledge_inv kr (snd acc)"
  by (auto simp: claim_one_def Let_def split: prod.splits)

lemma claim_fold_inv: "knowledge_inv kr (snd (fold (claim_one kq tokens s) xs acc)) = knowledge_inv kr (snd acc)"
  by (induction xs arbitrary: acc) (simp_all add: claim_one_inv)

lemma service_claim_inv:
  assumes "service_claim kr ph n token locked db = (r, db')" "knowledge_inv kr db"
  shows "knowledge_inv kr db'"
proof -
  have "db' = db \<or> db' = snd (claim_runs kr ph (nat n) (map (kr_sha kr) (map token [0..<nat n])) lease_seconds locked db)"
    using assms(1) by (auto simp: service_claim_def Let_def split: if_splits prod.splits)
  then show ?thesis using assms(2) by (auto simp: claim_runs_def Let_def claim_fold_inv)
qed

lemma markNeedsHuman_inv: "knowledge_inv kr db \<Longrightarrow> knowledge_inv kr (markNeedsHuman docId vid rs db)"
  unfolding markNeedsHuman_def inv_writes
  by (erule inv_set_version) (auto simp: version_ok_def hash_ok_def json_simps)

lemma apply_revision_inv:
  assumes "apply_revision kr v d content db = Inr (i, db')" "knowledge_inv kr db"
  shows "knowledge_inv kr db'"
proof -
  have "version_ok kr (revised_version kr v content db)"
    by (rule version_ok_plain) (simp_all add: revised_version_def hash_ok_def json_simps)
  then have "knowledge_inv kr (db\<lparr>kn_versions := kn_versions db @ [revised_version kr v content db],
      kn_next := kn_next db + 1\<rparr>)"
    by (intro inv_append[OF assms(2) _ _ _, where w = "revised_version kr v content db"])
       (simp_all add: revised_version_def)
  then show ?thesis using assms(1) by (auto simp: apply_revision_def Let_def bindR_eq_Inr inv_fallible)
qed

lemma close_result_inv: "close_result rt st d vid h q ok db = (oc, db') \<Longrightarrow> knowledge_inv kr db' = knowledge_inv kr db"
  by (auto simp: close_result_def Let_def)

lemma publish_verified_inv:
  assumes "publish_verified kr rt docId citation (review_metadata kr rt (rt_hash rt) runs db0) db = (q, db')"
    and "knowledge_inv kr db"
  shows "knowledge_inv kr db'"
proof -
  let ?r = "review_metadata kr rt (rt_hash rt) runs db0"
  have review: "jget ''status'' ?r = Some (JString (js ''approved''))" "jget ''contentHash'' ?r = Some (JString (rt_hash rt))"
    by (simp_all add: review_metadata_def)
  have ok: "version_ok kr (v\<lparr>kv_status := s, kv_publishedAt := pub v, kv_metadata := kv_metadata v @
        [(''reviewStatus'', JString (js ''approved'')), (''embeddingStatus'', JString (js e)), (''review'', JObject ?r)]\<rparr>)"
    if "version_ok kr v" "kv_hash v = Some (rt_hash rt)" for v s pub e
    by (rule version_ok_review[OF that, where r = ?r]) (simp_all add: review)
  have step: "knowledge_inv kr (set_version (\<lambda>v. kv_id v = rt_version rt \<and> kv_hash v = Some (rt_hash rt))
      (\<lambda>v. v\<lparr>kv_status := s, kv_publishedAt := pub v, kv_metadata := kv_metadata v @
        [(''reviewStatus'', JString (js ''approved'')), (''embeddingStatus'', JString (js e)), (''review'', JObject ?r)]\<rparr>) db)"
    for s pub e
    using assms(2) by (rule inv_set_version) (use ok in auto)
  show ?thesis
    using assms(1) step[where s = KnReview and pub = kv_publishedAt and e = "''queued''"]
      step[where s = KnPublished and pub = "\<lambda>_. Some (kn_now db)" and e = "''metadata_only''"]
    by (auto simp: publish_verified_def Let_def split: if_splits)
qed

lemma complete_initial_inv:
  assumes "complete_initial kr rt r v d db = Inr (oc, db')" "knowledge_inv kr db"
  shows "knowledge_inv kr db'"
proof -
  obtain vid hash revised db1 where start: "(case rt_revised rt of None \<Rightarrow> Inr (rt_version rt, rt_hash rt, None, db)
      | Some content \<Rightarrow> bindR (apply_revision kr v d content db) (\<lambda>(vid, db1).
          Inr (vid, kr_sha kr content, Some vid, db1))) = Inr (vid, hash, revised, db1)"
    using assms(1) by (auto simp: complete_initial_def bindR_eq_Inr)
  have one: "knowledge_inv kr db1"
    using start assms(2) by (auto simp: bindR_eq_Inr intro: apply_revision_inv split: option.splits)
  define valid where "valid = (case lockCurrentSourceForPublication kr (kd_id d) vid hash db1 of
      None \<Rightarrow> False | Some (ok, _) \<Rightarrow> ok)"
  have "bindR (finish_run rt (if valid then OutCompleted else OutNeedsHuman)
        (if valid then DecApproved else DecNeedsHuman) (stored_report_of kr rt vid hash valid) revised db1) (\<lambda>db2.
        Inr (if valid
          then close_result rt (if valid then OutCompleted else OutNeedsHuman) (if valid then DecApproved else DecNeedsHuman)
                 vid hash (Some QueuedVerify) valid (queue_run PhaseVerify vid hash (rr_model r) db2)
          else close_result rt (if valid then OutCompleted else OutNeedsHuman) (if valid then DecApproved else DecNeedsHuman)
                 vid hash None valid (markNeedsHuman (kd_id d) vid [''review_needs_human''] db2))) = Inr (oc, db')"
    using assms(1) unfolding complete_initial_def start bindR_simps prod.case Let_def valid_def .
  then obtain db2 where fin: "finish_run rt (if valid then OutCompleted else OutNeedsHuman)
      (if valid then DecApproved else DecNeedsHuman) (stored_report_of kr rt vid hash valid) revised db1 = Inr db2"
    and close: "(oc, db') = (if valid
          then close_result rt OutCompleted DecApproved vid hash (Some QueuedVerify) valid
                 (queue_run PhaseVerify vid hash (rr_model r) db2)
          else close_result rt OutNeedsHuman DecNeedsHuman vid hash None valid
                 (markNeedsHuman (kd_id d) vid [''review_needs_human''] db2))"
    by (cases valid) (auto simp: bindR_eq_Inr)
  have "knowledge_inv kr db2" using one inv_fallible(3)[OF fin] by simp
  then show ?thesis
    using close close_result_inv[of rt _ _ _ _ _ _ _ oc db' kr]
    by (cases valid) (auto dest!: sym[of "(oc, db')"] intro: inv_queues markNeedsHuman_inv)
qed

lemma complete_verify_inv:
  assumes "complete_verify kr rt d ok db = Inr (oc, db')" "knowledge_inv kr db"
  shows "knowledge_inv kr db'"
proof -
  obtain db1 where fin: "finish_run rt OutCompleted DecApproved
      (stored_report_of kr rt (rt_version rt) (rt_hash rt) ok) None db = Inr db1"
    using assms(1) by (auto simp: complete_verify_def bindR_eq_Inr Let_def)
  have one: "knowledge_inv kr db1" using assms(2) inv_fallible(3)[OF fin] by simp
  show ?thesis
    using assms(1) one unfolding complete_verify_def fin bindR_simps Let_def
    by (auto split: if_splits prod.splits option.splits dest: publish_verified_inv close_result_inv[of _ _ _ _ _ _ _ _ _ _ kr]
        intro!: markNeedsHuman_inv)
qed

lemma complete_review_inv:
  assumes "complete_review kr rt db = Inr (oc, db')" "knowledge_inv kr db"
  shows "knowledge_inv kr db'"
proof (cases "leased_row rt db")
  case None
  then show ?thesis using assms by (auto simp: complete_review_def bindR_eq_Inr split: option.splits)
next
  case (Some row)
  obtain r v d where "row = (r, v, d)" by (cases row)
  then show ?thesis
    using assms Some
    by (auto simp: complete_review_def Let_def bindR_eq_Inr inv_fallible markNeedsHuman_inv
        dest: close_result_inv[of _ _ _ _ _ _ _ _ _ _ kr] complete_initial_inv complete_verify_inv split: if_splits)
qed

lemma submitResult_inv: "submitResult kr rt token db = Inr (oc, db') \<Longrightarrow> knowledge_inv kr db \<Longrightarrow> knowledge_inv kr db'"
  using complete_review_inv by (auto simp: submitResult_def Let_def split: option.splits if_splits)

end
