(* ===== verification/Knowledge_Admin_Preserved.thy ===== *)
theory Knowledge_Admin_Preserved
  imports Knowledge_Preserved
begin

text \<open>
  The operations of people keep the invariant: the manual review, the sections, the administration,
  the intake of originals and the activation script.
\<close>

subsection \<open>Manual review\<close>

lemma loadCurrentTargetD:
  "loadCurrentTarget t db = Inr (v, d) \<Longrightarrow> v \<in> set (kn_versions db) \<and> kv_id v = mt_version t \<and> kv_hash v = Some (mt_hash t)
     \<and> kd_current d = Some (kv_id v)"
  by (auto simp: loadCurrentTarget_def review_conflict_def dest: lookup_SomeD split: option.splits if_splits)

lemma resolve_source_inv:
  "resolveCurrentSourceLink vd db = Inr (d', db') \<Longrightarrow> knowledge_inv kr db' = knowledge_inv kr db \<and> kn_versions db' = kn_versions db"
  by (auto simp: resolveCurrentSourceLink_def bindR_eq_Inr inv_fallible update_document_def
      split: prod.splits option.splits list.splits if_splits)

lemma prepared_targetD:
  "prepared_target kr t db = Inr (v, d, db') \<Longrightarrow> knowledge_inv kr db' = knowledge_inv kr db
     \<and> v \<in> set (kn_versions db') \<and> kv_hash v = Some (mt_hash t)"
  by (auto simp: prepared_target_def bindR_eq_Inr dest!: loadCurrentTargetD resolve_source_inv[of _ _ _ _ kr])

lemma retry_review_inv: "retry_review kr t db = Inr (oc, db') \<Longrightarrow> knowledge_inv kr db \<Longrightarrow> knowledge_inv kr db'"
  by (auto simp: retry_review_def bindR_eq_Inr dest!: prepared_targetD inv_queue_run[of _ _ _ _ _ _ kr])

lemma approve_manually_inv:
  assumes "approve_manually kr t note v d db = Inr (oc, db')" "knowledge_inv kr db"
  shows "knowledge_inv kr db'"
proof -
  let ?r = "manual_review_of kr t note db"
  let ?full = "ingestion_mode (kv_citation v) = full_text"
  obtain db1 where up: "update_version (\<lambda>x. kv_id x = kv_id v \<and> kv_hash x = Some (mt_hash t))
      (\<lambda>x. x\<lparr>kv_status := (if ?full then KnReview else KnPublished),
         kv_publishedAt := (if ?full then kv_publishedAt x else Some (kn_now db)),
         kv_metadata := kv_metadata x @ [(''reviewStatus'', JString (js ''approved'')),
           (''embeddingStatus'', JString (js (if ?full then ''queued'' else ''not_applicable''))),
           (''review'', JObject ?r)]\<rparr>) (ApiError 409 ''KNOWLEDGE_REVIEW_CONFLICT'') db = Inr db1"
    and rest: "knowledge_inv kr db1 \<Longrightarrow> knowledge_inv kr db'"
    using assms(1) unfolding approve_manually_def Let_def
    by (elim bindR_InrE) (rule that, assumption, auto split: if_splits)
  have "knowledge_inv kr db1"
    by (rule inv_update_version[OF up assms(2)])
       (rule conjI, rule version_ok_review[where r = ?r], assumption, auto simp: manual_review_of_def)
  then show ?thesis by (rule rest)
qed

lemma edit_manually_inv:
  assumes "edit_manually kr t content note v d db = Inr (oc, db')" "knowledge_inv kr db"
  shows "knowledge_inv kr db'"
proof -
  have "version_ok kr (edited_version kr v content note db)"
    by (rule version_ok_plain) (simp_all add: edited_version_def hash_ok_def json_simps)
  then have "knowledge_inv kr (db\<lparr>kn_versions := kn_versions db @ [edited_version kr v content note db],
      kn_next := kn_next db + 1\<rparr>)"
    by (intro inv_append[OF assms(2) _ _ _, where w = "edited_version kr v content note db"])
       (simp_all add: edited_version_def)
  then show ?thesis
    using assms(1) by (auto simp: edit_manually_def Let_def bindR_eq_Inr dest: inv_queue_run[of _ _ _ _ _ _ kr])
qed

lemma archive_manually_inv:
  "archive_manually t note v d db = (oc, db') \<Longrightarrow> knowledge_inv kr db \<Longrightarrow> knowledge_inv kr db'"
  by (auto simp: archive_manually_def intro!: inv_set_version version_ok_demote)

lemma resolve_review_inv:
  assumes "resolve_review kr t res db = Inr (oc, db')" "knowledge_inv kr db"
  shows "knowledge_inv kr db'"
  using assms
  by (cases res) (auto simp: resolve_review_def bindR_eq_Inr dest!: prepared_targetD inv_queue_run[of _ _ _ _ _ _ kr]
      dest: approve_manually_inv edit_manually_inv archive_manually_inv[of _ _ _ _ _ _ _ kr])

lemma manual_service_inv:
  "service_retry kr t db = Inr (oc, db') \<Longrightarrow> knowledge_inv kr db \<Longrightarrow> knowledge_inv kr db'"
  "service_resolve kr t res db = Inr (oc, db') \<Longrightarrow> knowledge_inv kr db \<Longrightarrow> knowledge_inv kr db'"
  by (auto simp: service_retry_def service_resolve_def bindR_eq_Inr dest: retry_review_inv resolve_review_inv)

subsection \<open>Sections\<close>

lemma getWorkspace_inv: "getWorkspace kr docId db = Inr (ss, db') \<Longrightarrow> knowledge_inv kr db \<Longrightarrow> knowledge_inv kr db'"
  by (auto simp: getWorkspace_def insertRequiredSections_def Let_def bindR_eq_Inr dest: inv_inserts(1)
      split: option.splits if_splits)

lemma writeDecision_inv: "writeDecision i h db = Inr db' \<Longrightarrow> knowledge_inv kr db' = knowledge_inv kr db"
  by (auto simp: writeDecision_def Let_def)

lemma decide_inv: "decide kr i db = Inr db' \<Longrightarrow> knowledge_inv kr db \<Longrightarrow> knowledge_inv kr db'"
  by (auto simp: decide_def bindR_eq_Inr dest!: writeDecision_inv[of _ _ _ _ kr] split: option.splits)

lemma completeReview_inv:
  assumes "completeReview kr i at n full db = Inr db'" "knowledge_inv kr db"
  shows "knowledge_inv kr db'"
proof -
  obtain v where v: "lookup kv_id (cp_version i) (kn_versions db) = Some v" "kv_hash v = Some (cp_hash i)"
    using assms(1) by (auto simp: completeReview_def conflict_def split: option.splits)
  let ?md = "kv_metadata v @ [(''reviewStatus'', JString (js ''approved'')),
                 (''embeddingStatus'', JString (js (if full then ''queued'' else ''not_applicable''))),
                 (''review'', JObject (stored_section_review kr i at n))]"
  have in_v: "v \<in> set (kn_versions db)" "kv_id v = cp_version i" using lookup_SomeD[OF v(1)] by simp_all
  have "version_ok kr (v\<lparr>kv_status := KnReview, kv_metadata := ?md\<rparr>)"
    using knowledge_invD[OF assms(2) in_v(1)] v(2)
    by - (rule version_ok_review[where v = v and r = "stored_section_review kr i at n"], assumption,
          simp_all add: stored_section_review_def)
  then have "knowledge_inv kr (set_version (\<lambda>x. kv_id x = cp_version i)
      (\<lambda>x. x\<lparr>kv_status := KnReview, kv_metadata := ?md\<rparr>) db)"
    by (intro inv_set_row[OF assms(2) in_v]) (simp_all add: in_v(2))
  then show ?thesis using assms(1) v by (auto simp: completeReview_def conflict_def Let_def split: if_splits)
qed

lemma complete_sections_inv:
  "complete_sections kr i db0 db = Inr db' \<Longrightarrow> knowledge_inv kr db \<Longrightarrow> knowledge_inv kr db'"
  by (auto simp: complete_sections_def bindR_eq_Inr dest: completeReview_inv)

end
