(* ===== verification/Knowledge_Store_Preserved.thy ===== *)
theory Knowledge_Store_Preserved
  imports Knowledge_Admin_Preserved
begin

text \<open>
  The operations of the administration, the intake and the activation script keep the invariant.
\<close>

subsection \<open>Drafts and edits\<close>

lemma inv_insert_document:
  assumes "knowledge_inv kr db" "version_ok kr v" "kn_next db \<le> kv_id v" "kv_id v < kn_next db + 2"
  shows "knowledge_inv kr (insert_document d v db)"
  by (rule inv_append[OF assms(1), where w = v]) (use assms in \<open>simp_all add: insert_document_def\<close>)

lemma createKnowledgeDraft_inv:
  "createKnowledgeDraft kr i ctx db = Inr (docId, db') \<Longrightarrow> knowledge_inv kr db \<Longrightarrow> knowledge_inv kr db'"
  by (auto simp: createKnowledgeDraft_def Let_def blank_version_def hash_ok_def json_simps
      intro!: inv_insert_document version_ok_plain)

lemma importKnowledgeCandidate_inv:
  assumes "importKnowledgeCandidate kr c ctx db = Inr (docId, db')" "knowledge_inv kr db"
  shows "knowledge_inv kr db'"
proof -
  have *: "insert_sections ss (insert_document d v db) = Inr db1 \<Longrightarrow> hash_ok kr v \<Longrightarrow> kv_status v = KnReview \<Longrightarrow>
    jget ''reviewStatus'' (kv_metadata v) = Some (JString (js ''required'')) \<Longrightarrow> kv_id v = kn_next db + 1 \<Longrightarrow>
    knowledge_inv kr db1" for ss d v db1
    by (erule inv_inserts(1), rule inv_insert_document[OF assms(2) version_ok_plain]) (simp_all add: json_simps)
  show ?thesis
    using assms(1)
    by (auto simp: importKnowledgeCandidate_def Let_def bindR_eq_Inr blank_version_def hash_ok_def
        split: option.splits elim!: *)
qed

lemma invalidated_status:
  "invalidateKnowledgeReviewAfterHashChange kr md p n by at = (True, md') \<Longrightarrow>
   jget ''reviewStatus'' md' = Some (JString (js ''required''))"
  by (auto simp: invalidateKnowledgeReviewAfterHashChange_def required_again_def Let_def split: if_splits)

lemma not_invalidated:
  "invalidateKnowledgeReviewAfterHashChange kr md p n by at = (False, md') \<Longrightarrow> kr_lower kr p = kr_lower kr n"
  by (auto simp: invalidateKnowledgeReviewAfterHashChange_def Let_def split: if_splits)

lemma required_after_invalidation:
  "jget ''reviewStatus'' (md @ required_again @ invalidated_review kr by at reason review) = Some (JString (js ''required''))"
  by (simp add: required_again_def invalidated_review_def)

lemma lower_hash: "hash_rules kr \<Longrightarrow> kr_lower kr (kr_sha kr s) = kr_sha kr s"
  by (simp add: hash_rules_def)

text \<open>The row that an edit writes.\<close>

lemma edited_row_ok:
  assumes "hash_rules kr" "version_ok kr v" "kv_status v \<noteq> KnPublished"
    and p: "previous = (case kv_hash v of Some h \<Rightarrow> h | None \<Rightarrow> kr_sha kr (kv_content v))"
    and n: "nxt = (case du_content u of None \<Rightarrow> previous | Some c \<Rightarrow> kr_sha kr c)"
    and inv: "invalidateKnowledgeReviewAfterHashChange kr (kv_metadata v) previous nxt who at = (changed, md)"
    and meta: "md' = (if \<not> (changed \<or> evidence) then kv_metadata v
        else if evidence then md @ required_again @ invalidated_review kr who at reason review else md)"
  shows "version_ok kr (v\<lparr>kv_status := (if changed \<or> evidence then KnDraft else kv_status v),
      kv_content := (case du_content u of None \<Rightarrow> kv_content v | Some c \<Rightarrow> c),
      kv_hash := (case du_content u of None \<Rightarrow> kv_hash v | Some _ \<Rightarrow> Some nxt),
      kv_citation := ct, kv_metadata := md'\<rparr>)" (is "version_ok kr ?w")
proof -
  have hash: "hash_ok kr ?w" using assms(2) n by (auto simp: version_ok_def hash_ok_def split: option.splits)
  show ?thesis
  proof (cases "changed \<or> evidence")
    case True
    then have "jget ''reviewStatus'' md' = Some (JString (js ''required''))"
      using meta inv invalidated_status[of kr _ _ _ who at] required_after_invalidation by (cases evidence) auto
    then show ?thesis using True hash by (intro version_ok_plain) (simp_all add: json_simps)
  next
    case False
    then have lower: "kr_lower kr previous = kr_lower kr nxt" using not_invalidated inv by simp
    have same: "nxt = previous" if "kv_hash v = Some h" "du_content u = Some c" for h c
    proof -
      have "h = kr_sha kr (kv_content v)" using assms(2) that(1) by (simp add: version_ok_def hash_ok_def)
      then show ?thesis using lower that p n by (simp add: lower_hash[OF assms(1)])
    qed
    have "approved_exactly ?w" if "approved_exactly v"
      using that same p meta False by (auto simp: approved_exactly_def Let_def split: option.splits)
    then show ?thesis using False hash meta assms(2,3) by (auto simp: version_ok_def)
  qed
qed

lemma updateKnowledgeDraft_inv:
  assumes "updateKnowledgeDraft kr docId u ctx db = Inr (Some (i, db'))" "knowledge_inv kr db" "hash_rules kr"
  shows "knowledge_inv kr db'"
proof -
  obtain d v where d: "lookup kd_id docId (kn_documents db) = Some d"
    and v: "Option.bind (kd_current d) (\<lambda>i. lookup kv_id i (kn_versions db)) = Some v"
    and st: "kv_status v \<noteq> KnPublished"
    using assms(1) by (auto simp: updateKnowledgeDraft_def split: option.splits if_splits)
  have mem: "v \<in> set (kn_versions db)" using v by (auto simp: bind_eq_Some_conv dest: lookup_SomeD)
  define previous where "previous = (case kv_hash v of Some h \<Rightarrow> h | None \<Rightarrow> kr_sha kr (kv_content v))"
  define nxt where "nxt = (case du_content u of None \<Rightarrow> previous | Some c \<Rightarrow> kr_sha kr c)"
  obtain changed md where inv: "invalidateKnowledgeReviewAfterHashChange kr (kv_metadata v) previous nxt
      (ac_actor ctx) (kn_now db) = (changed, md)" by (cases "invalidateKnowledgeReviewAfterHashChange kr (kv_metadata v)
        previous nxt (ac_actor ctx) (kn_now db)")
  define evidence where "evidence = knowledgeEvidenceMetadataChanged (kd_source d) u"
  define md' where "md' = (if \<not> (changed \<or> evidence) then kv_metadata v
      else if evidence then md @ required_again @ invalidated_review kr (ac_actor ctx) (kn_now db)
        (if changed then ''content_hash_and_evidence_metadata_changed'' else ''evidence_metadata_changed'')
        (recordValue (case jget ''review'' md of Some r \<Rightarrow> Some r | None \<Rightarrow> jget ''review'' (kv_metadata v)))
      else md)"
  note row = edited_row_ok[OF assms(3) knowledge_invD[OF assms(2) mem] st previous_def nxt_def inv md'_def]
  let ?f = "\<lambda>x. x\<lparr>kv_status := (if changed \<or> evidence then KnDraft else kv_status x),
      kv_content := (case du_content u of None \<Rightarrow> kv_content x | Some c \<Rightarrow> c),
      kv_hash := (case du_content u of None \<Rightarrow> kv_hash x | Some _ \<Rightarrow> Some nxt),
      kv_citation := updated_citation u (kv_citation v), kv_metadata := md'\<rparr>"
  have "knowledge_inv kr (set_version (\<lambda>x. kv_id x = kv_id v) ?f (set_document P g db))" for P g
    by (rule inv_set_row[where v = v])
       (use assms(2) mem row[of "updated_citation u (kv_citation v)"] in \<open>simp_all add: set_document_def\<close>)
  moreover have "\<exists>P g ac md2. db' = admin_audit ctx ac ''knowledge_document'' docId md2
      (set_version (\<lambda>x. kv_id x = kv_id v) ?f (set_document P g db))"
    using assms(1)
    unfolding updateKnowledgeDraft_def Let_def d v option.case previous_def[symmetric] nxt_def[symmetric] inv prod.case
      evidence_def[symmetric] md'_def[symmetric] guard_Inr sum.inject option.inject prod.inject
    by blast
  ultimately show ?thesis by auto
qed

subsection \<open>Publishing, archiving, rolling back\<close>

lemma reviewed_approved:
  "assertReviewedKnowledgeEvidence kr n v c = Inr () \<Longrightarrow> jtext_is ''reviewStatus'' ''approved'' (kv_metadata v)"
  by (simp add: assertReviewedKnowledgeEvidence_def Let_def jtext_is_def)

text \<open>What a publication established, and the two updates it made.\<close>

lemma publishKnowledgeDraft_cases:
  assumes "publishKnowledgeDraft kr docId ctx db = Inr (Some (i, db'))"
  obtains d v db1 db2 where
    "lookup kd_id docId (kn_documents db) = Some d" "kd_current d = Some (kv_id v)"
    "lookup kv_id (kv_id v) (kn_versions db) = Some v"
    "assertKnowledgePublicationGate kr (kn_now db) d v (chunk_count (kv_id v) db) = Inr ()"
    "assertPublishableKnowledgeSource kr (document_source d db) (kv_citation v) = Inr ()"
    "\<not> hasManualDocumentResolution (kv_metadata v) \<Longrightarrow> \<exists>s. document_source d db = Some s
       \<and> assertKnowledgeSectionPublicationReady kr (kv_id v) (case kv_hash v of None \<Rightarrow> [] | Some h \<Rightarrow> h)
           (kv_createdBy v) (rights_snapshot s) (listSections (kv_id v) db) = Inr ()"
    "update_version (\<lambda>x. kv_id x = kv_id v \<and> kv_status x = KnReview)
       (\<lambda>x. x\<lparr>kv_status := KnPublished, kv_publishedAt := Some (kn_now db)\<rparr>)
       (ApiError 409 ''KNOWLEDGE_PUBLISH_CONFLICT'') db = Inr db1"
    "update_document (\<lambda>x. kd_id x = docId \<and> kd_current x = Some (kv_id v) \<and> kd_status x = KnReview)
       (\<lambda>x. x\<lparr>kd_status := KnPublished\<rparr>) (ApiError 409 ''KNOWLEDGE_PUBLISH_CONFLICT'') db1 = Inr db2"
    "i = docId" "db' = admin_audit ctx ''knowledge.publish'' ''knowledge_document'' docId
       [(''versionId'', JString (id_text (kv_id v)))] db2"
proof -
  obtain d where d: "lookup kd_id docId (kn_documents db) = Some d"
    using assms by (cases "lookup kd_id docId (kn_documents db)") (auto simp: publishKnowledgeDraft_def)
  define cur where "cur = Option.bind (kd_current d) (\<lambda>i. lookup kv_id i (kn_versions db))"
  obtain v where v: "cur = Some v" using assms d by (cases cur) (auto simp: publishKnowledgeDraft_def cur_def)
  then obtain k where k: "kd_current d = Some k" "lookup kv_id k (kn_versions db) = Some v"
    by (auto simp: cur_def bind_eq_Some_conv)
  then have k': "k = kv_id v" using lookup_SomeD by metis
  show thesis
    using assms
    apply (simp only: publishKnowledgeDraft_def d option.case cur_def[symmetric] v bindR_eq_Inr)
    apply (elim exE conjE)
    apply (rule that[OF d k(1)[unfolded k'] k(2)[unfolded k']])
    by (auto split: option.splits)
qed

lemma publishKnowledgeDraft_inv:
  assumes "publishKnowledgeDraft kr docId ctx db = Inr (Some (i, db'))" "knowledge_inv kr db"
  shows "knowledge_inv kr db'"
  using assms(1)
proof (rule publishKnowledgeDraft_cases)
  fix d v db1 db2
  assume v: "lookup kv_id (kv_id v) (kn_versions db) = Some v"
    and gate: "assertKnowledgePublicationGate kr (kn_now db) d v (chunk_count (kv_id v) db) = Inr ()"
    and up: "update_version (\<lambda>x. kv_id x = kv_id v \<and> kv_status x = KnReview)
       (\<lambda>x. x\<lparr>kv_status := KnPublished, kv_publishedAt := Some (kn_now db)\<rparr>)
       (ApiError 409 ''KNOWLEDGE_PUBLISH_CONFLICT'') db = Inr db1"
    and rest: "update_document (\<lambda>x. kd_id x = docId \<and> kd_current x = Some (kv_id v) \<and> kd_status x = KnReview)
       (\<lambda>x. x\<lparr>kd_status := KnPublished\<rparr>) (ApiError 409 ''KNOWLEDGE_PUBLISH_CONFLICT'') db1 = Inr db2"
      "db' = admin_audit ctx ''knowledge.publish'' ''knowledge_document'' docId
       [(''versionId'', JString (id_text (kv_id v)))] db2"
  have approved: "jtext_is ''reviewStatus'' ''approved'' (kv_metadata v)"
    using gate by (auto simp: assertKnowledgePublicationGate_def intro: reviewed_approved)
  have "knowledge_inv kr db1"
  proof (rule inv_update_version[OF up assms(2)])
    fix x assume x: "x \<in> set (kn_versions db)" "kv_id x = kv_id v \<and> kv_status x = KnReview" "version_ok kr x"
    then have "x = v" using inv_same_id[OF assms(2)] lookup_SomeD[OF v] by simp
    with x(3) approved show "version_ok kr (x\<lparr>kv_status := KnPublished, kv_publishedAt := Some (kn_now db)\<rparr>)
        \<and> kv_id (x\<lparr>kv_status := KnPublished, kv_publishedAt := Some (kn_now db)\<rparr>) = kv_id x"
      by (auto intro: version_ok_publish[where v = v])
  qed
  then show ?thesis using inv_fallible(1)[OF rest(1)] rest(2) by simp
qed

lemma archiveKnowledgeDocument_inv:
  assumes "archiveKnowledgeDocument docId ctx db = Inr (Some (i, db'))" "knowledge_inv kr db"
  shows "knowledge_inv kr db'"
proof -
  have arch: "knowledge_inv kr (set_version P (\<lambda>x. x\<lparr>kv_status := KnArchived\<rparr>) db)" for P
    by (rule inv_set_version[OF assms(2)]) (simp add: version_ok_demote)
  show ?thesis
    using assms arch
    by (auto simp: archiveKnowledgeDocument_def Let_def bindR_eq_Inr inv_fallible split: option.splits if_splits)
qed

lemma rollbackKnowledgeDocument_inv:
  assumes "rollbackKnowledgeDocument kr docId vid ctx db = Inr (Some (i, db'))" "knowledge_inv kr db"
  shows "knowledge_inv kr db'"
proof -
  obtain d where d: "lookup kd_id docId (kn_documents db) = Some d"
    using assms(1) by (cases "lookup kd_id docId (kn_documents db)") (auto simp: rollbackKnowledgeDocument_def)
  define P :: "version_row \<Rightarrow> bool" where "P = (\<lambda>v. kv_id v = vid \<and> kv_document v = docId)"
  obtain v where f: "find P (kn_versions db) = Some v"
    using assms(1) d by (cases "find P (kn_versions db)") (auto simp: rollbackKnowledgeDocument_def P_def)
  have mem: "v \<in> set (kn_versions db)" using f by (auto simp: find_Some_iff)
  define w where "w = v\<lparr>kv_id := kn_next db, kv_version := next_version docId db, kv_status := KnPublished,
      kv_createdBy := Some (ac_actor ctx), kv_publishedAt := Some (kn_now db), kv_createdAt := kn_now db,
      kv_updatedAt := kn_now db\<rparr>"
  define db1 where "db1 = set_version (\<lambda>x. kv_document x = docId \<and> kv_status x = KnPublished)
      (\<lambda>x. x\<lparr>kv_status := KnArchived\<rparr>) db"
  define db2 where "db2 = db1\<lparr>kn_versions := kn_versions db1 @ [w], kn_next := kn_next db1 + 1\<rparr>"
  have gate: "assertReviewedKnowledgeEvidence kr (kn_now db) v (chunk_count (kv_id v) db) = Inr ()"
    using assms(1) by (auto simp: rollbackKnowledgeDocument_def d f[unfolded P_def] bindR_eq_Inr)
  have "\<exists>cs n e db4 ac md. update_document (\<lambda>x. kd_id x = docId \<and> kd_current x = kd_current d \<and> kd_status x = KnPublished)
      (\<lambda>x. x\<lparr>kd_current := Some (kv_id w), kd_status := KnPublished\<rparr>) e
      (db2\<lparr>kn_chunks := cs, kn_next := kn_next db2 + n\<rparr>) = Inr db4
      \<and> db' = admin_audit ctx ac ''knowledge_document'' docId md db4"
    using assms(1)
    apply (simp only: rollbackKnowledgeDocument_def d f[unfolded P_def] option.case bindR_eq_Inr guard_Inr Let_def
        w_def[symmetric] db1_def[symmetric] db2_def[symmetric])
    apply (elim exE conjE)
    by blast
  then have fin: "knowledge_inv kr db2 \<Longrightarrow> knowledge_inv kr db'" by (auto simp: inv_fallible)
  have "version_ok kr w"
    using version_ok_publish[OF knowledge_invD[OF assms(2) mem], of w] by (simp add: w_def)
  moreover have "knowledge_inv kr db1"
    unfolding db1_def by (rule inv_set_version[OF assms(2)]) (simp add: version_ok_demote)
  ultimately have "knowledge_inv kr db2"
    by (intro inv_append[of kr db1 db2 w]) (simp_all add: db2_def db1_def w_def set_version_def)
  then show ?thesis by (rule fin)
qed

subsection \<open>The review of a whole document\<close>

lemma transition_facts:
  assumes "buildKnowledgeReviewTransition kr docId v i who at = Inr tx"
  shows "tx_hash tx = kr_sha kr (kv_content v)" "tx_status tx \<noteq> KnPublished" "\<not> wr_approved i \<Longrightarrow> tx_status tx = KnDraft"
    "jget ''contentHash'' (tx_review tx) = Some (JString (tx_hash tx))"
    "wr_approved i \<Longrightarrow> jget ''status'' (tx_review tx) = Some (JString (js ''approved''))"
  using assms by (auto simp: buildKnowledgeReviewTransition_def Let_def split: if_splits option.splits list.splits)

lemma reviewed_row_ok:
  assumes "kv_hash w = Some h" "h = kr_sha kr (kv_content w)"
    and "jget ''reviewStatus'' (kv_metadata w) = Some (JString (js (if ok then ''approved'' else ''rejected'')))"
    and "jget ''review'' (kv_metadata w) = Some (JObject r)" "jget ''contentHash'' r = Some (JString h)"
    and "ok \<Longrightarrow> jget ''status'' r = Some (JString (js ''approved''))" "\<not> ok \<Longrightarrow> kv_status w \<noteq> KnPublished"
  shows "version_ok kr w"
proof (cases ok)
  case True
  then show ?thesis using assms
    by (intro version_ok_approved) (simp_all add: hash_ok_def approved_exactly_def jtext_is_def)
next
  case False
  then show ?thesis using assms by (intro version_ok_plain) (simp_all add: hash_ok_def json_simps)
qed

lemma task_inv:
  "knowledge_inv kr s \<Longrightarrow> knowledge_inv kr (case t of
     Some (key, payload) \<Rightarrow> if b then s else enqueue_task p key payload who s | None \<Rightarrow> s)"
  by (auto split: option.split)

lemma reviewKnowledgeDocument_inv:
  assumes "reviewKnowledgeDocument kr docId i ctx db = Inr (Some (k, db'))" "knowledge_inv kr db"
  shows "knowledge_inv kr db'"
proof -
  obtain d where d: "lookup kd_id docId (kn_documents db) = Some d"
    using assms(1) by (cases "lookup kd_id docId (kn_documents db)") (auto simp: reviewKnowledgeDocument_def)
  define cur where "cur = Option.bind (kd_current d) (\<lambda>i. lookup kv_id i (kn_versions db))"
  obtain v where v: "cur = Some v" using assms(1) d by (cases cur) (auto simp: reviewKnowledgeDocument_def cur_def)
  have mem: "v \<in> set (kn_versions db)" using v by (auto simp: cur_def bind_eq_Some_conv dest: lookup_SomeD)
  define pending where "pending = (kd_status d = KnPublished \<and> kv_status v = KnPublished
      \<and> isPendingReviewRetrievalActive (kv_metadata v) (kv_hash v))"
  show ?thesis
    using assms(1)
    apply (simp only: reviewKnowledgeDocument_def d option.case cur_def[symmetric] v Let_def pending_def[symmetric]
        bindR_eq_Inr guard_Inr sum.inject option.inject prod.inject)
    apply (elim exE conjE)
    apply hypsubst
    subgoal premises prems for tx
    proof -
      have tx: "buildKnowledgeReviewTransition kr k v i (ac_actor ctx) (kn_now db) = Inr tx" by (rule prems)
      note facts = transition_facts[OF tx]
      show ?thesis
        unfolding inv_writes
        by (rule task_inv, unfold inv_writes, rule inv_set_row[OF assms(2) mem refl],
            rule reviewed_row_ok[where ok = "wr_approved i" and h = "tx_hash tx" and r = "tx_review tx"])
           (simp_all add: facts)
    qed
    done
qed

end
