(* ===== verification/Knowledge_Scripts.thy ===== *)
theory Knowledge_Scripts
  imports Knowledge_Activation Knowledge_Intake
begin

section \<open>Scripts over the knowledge base\<close>

text \<open>
  The scripts that operators run against the knowledge tables: the seeding of sources, of the core
  document and of the candidates (\<open>scripts/seed-sources.ts\<close>, \<open>seed-core-knowledge.ts\<close>,
  \<open>seed-knowledge-candidates.ts\<close> with \<open>source-metadata.ts\<close>), the embedding of published chunks
  (\<open>embed-published-knowledge.ts\<close>), the return of the first phase into review
  (\<open>restore-phase-one-review.ts\<close> with \<open>phase-one-review-restore.ts\<close>), and the two repairs of
  \<open>deploy/run-knowledge-review-operation.sh\<close>. The catalogue files are arguments. A transaction is
  one function; a script that reads before its transaction reads in a state of its own.
\<close>

subsection \<open>Sources\<close>

record seed_source =
  se_key :: js_string
  se_kind :: string
  se_name :: js_string
  se_publisher :: js_string
  se_canonicalUrl :: js_string
  se_baseUrl :: js_string
  se_tier :: source_tier
  se_licensePolicy :: js_string
  se_enabled :: bool
  se_notes :: js_string
  se_rightsReviewed :: bool
  se_officialPdf :: bool
  se_rights :: "jobject option"

definition mergeSeedSourceMetadata :: "jobject option \<Rightarrow> jobject \<Rightarrow> jobject" where
  "mergeSeedSourceMetadata existing seeded = (case existing of
     None \<Rightarrow> seeded
   | Some e \<Rightarrow> seeded @ e @ (case jget ''rightsDecision'' e of None \<Rightarrow> [] | Some r \<Rightarrow> [(''rightsDecision'', r)]))"

definition seeded_metadata :: "seed_source \<Rightarrow> jobject" where
  "seeded_metadata s =
     [(''sourceKey'', JString (se_key s)), (''seededBy'', JString (js ''knowledge/source-manifest.json'')),
      (''rightsReviewed'', JBool (se_rightsReviewed s))]
     @ (if se_officialPdf s then [(''officialPublishedPdfBinaryRequired'', JBool True)] else [])
     @ (case se_rights s of None \<Rightarrow> [] | Some r \<Rightarrow> [(''rightsDecision'', JObject r)])"

definition new_source :: "seed_source \<Rightarrow> jobject \<Rightarrow> kn_db \<Rightarrow> source_row" where
  "new_source s metadata db = \<lparr>ks_id = kn_next db, ks_kind = se_kind s, ks_name = se_name s,
     ks_baseUrl = Some (se_baseUrl s), ks_canonicalUrl = Some (se_canonicalUrl s),
     ks_publisher = Some (se_publisher s), ks_tier = se_tier s, ks_licensePolicy = Some (se_licensePolicy s),
     ks_notes = Some (se_notes s), ks_enabled = se_enabled s, ks_metadata = metadata, ks_createdBy = None,
     ks_createdAt = kn_now db, ks_updatedAt = kn_now db, ks_deletedAt = None\<rparr>"

definition source_of_url :: "js_string \<Rightarrow> kn_db \<Rightarrow> source_row option" where
  "source_of_url url db = find (\<lambda>x. ks_canonicalUrl x = Some url) (kn_sources db)"

text \<open>
  One entry of the manifest: the row is looked up in \<open>db0\<close> and written in \<open>db\<close>; an existing row only
  gets the metadata it lacks (\<open>existingSeedSourcePatch\<close>). The result is the id of the source.
\<close>

definition seedSource :: "seed_source \<Rightarrow> kn_db \<Rightarrow> kn_db \<Rightarrow> nat \<times> kn_db" where
  "seedSource s db0 db = (case source_of_url (se_canonicalUrl s) db0 of
     Some x \<Rightarrow> (ks_id x, db\<lparr>kn_sources := update_where (\<lambda>y. ks_id y = ks_id x)
        (\<lambda>y. y\<lparr>ks_metadata := mergeSeedSourceMetadata (Some (ks_metadata x)) (seeded_metadata s),
               ks_updatedAt := kn_now db\<rparr>) (kn_sources db)\<rparr>)
   | None \<Rightarrow> (kn_next db, db\<lparr>kn_sources := kn_sources db @ [new_source s (seeded_metadata s) db],
        kn_next := kn_next db + 1\<rparr>))"

subsection \<open>The core document\<close>

record core_chunk =
  cu_sectionPath :: "js_string list"
  cu_content :: js_string
  cu_keywords :: "js_string list"

record core_knowledge =
  cc_source :: seed_source
  cc_rights :: jobject
  cc_licenseUrl :: js_string
  cc_doi :: js_string
  cc_externalKey :: js_string
  cc_title :: js_string
  cc_description :: js_string
  cc_language :: js_string
  cc_mimeType :: js_string
  cc_tags :: "js_string list"
  cc_citation :: jobject
  cc_chunks :: "core_chunk list"

definition core_source_metadata :: "core_knowledge \<Rightarrow> jobject" where
  "core_source_metadata c =
     [(''sourceKey'', JString (se_key (cc_source c))), (''rightsReviewed'', JBool True),
      (''rightsDecision'', JObject (cc_rights c)), (''licenseUrl'', JString (cc_licenseUrl c)),
      (''doi'', JString (cc_doi c)), (''seededBy'', JString (js ''knowledge/core/cern-vacuum-systems-2024.json''))]"

text \<open>An existing source is rewritten and enabled; what its metadata already hold is kept.\<close>

definition seed_core_source :: "core_knowledge \<Rightarrow> kn_db \<Rightarrow> nat \<times> kn_db" where
  "seed_core_source c db = (let s = (cc_source c)\<lparr>se_enabled := True,
        se_notes := js ''Official CERN record and PDF reviewed. Published under CC BY 4.0.''\<rparr> in
     case source_of_url (se_canonicalUrl s) db of
       Some x \<Rightarrow> (ks_id x, db\<lparr>kn_sources := update_where (\<lambda>y. ks_id y = ks_id x)
          (\<lambda>y. y\<lparr>ks_kind := se_kind s, ks_name := se_name s, ks_publisher := Some (se_publisher s),
                 ks_canonicalUrl := Some (se_canonicalUrl s), ks_baseUrl := Some (se_baseUrl s), ks_tier := se_tier s,
                 ks_licensePolicy := Some (se_licensePolicy s), ks_enabled := True, ks_notes := Some (se_notes s),
                 ks_metadata := core_source_metadata c @ ks_metadata x, ks_updatedAt := kn_now db\<rparr>) (kn_sources db)\<rparr>)
     | None \<Rightarrow> (kn_next db, db\<lparr>kn_sources := kn_sources db @ [new_source s (core_source_metadata c) db],
          kn_next := kn_next db + 1\<rparr>))"

definition core_content :: "core_knowledge \<Rightarrow> js_string" where
  "core_content c = js_join [10, 10] (map (\<lambda>k. js_join (js '' > '') (cu_sectionPath k) @ [10] @ cu_content k @ [10]
     @ cn_keywords @ js_join cn_comma (cu_keywords k)) (cc_chunks c))"

definition core_document_metadata :: "core_knowledge \<Rightarrow> jobject" where
  "core_document_metadata c =
     [(''attribution'', JString (js ''Vincent Baglin and Roberto Kersevan, Vacuum systems, CERN, 2024'')),
      (''doi'', JString (cc_doi c)),
      (''license'', JString (se_licensePolicy (cc_source c))), (''curatedTranslation'', JBool True),
      (''expertReviewRequiredForEngineeringDecision'', JBool True)]"

definition core_document_row :: "core_knowledge \<Rightarrow> nat \<Rightarrow> kn_status \<Rightarrow> timestamp \<Rightarrow> document_row \<Rightarrow> document_row" where
  "core_document_row c src status at d = d\<lparr>kd_source := Some src, kd_externalKey := Some (cc_externalKey c),
     kd_title := cc_title c, kd_description := Some (cc_description c), kd_language := cc_language c,
     kd_mimeType := Some (cc_mimeType c), kd_status := status, kd_tags := cc_tags c,
     kd_metadata := core_document_metadata c, kd_updatedAt := at\<rparr>"

definition system_document :: "nat \<Rightarrow> kn_db \<Rightarrow> document_row" where
  "system_document i db = (blank_document i KnDraft None [] [] db)\<lparr>kd_createdBy := None\<rparr>"

definition system_version :: "nat \<Rightarrow> nat \<Rightarrow> kn_status \<Rightarrow> kn_db \<Rightarrow> version_row" where
  "system_version i doc status db = (blank_version i doc status [] db)\<lparr>kv_createdBy := None\<rparr>"

definition document_of_key :: "nat \<Rightarrow> js_string \<Rightarrow> kn_db \<Rightarrow> document_row option" where
  "document_of_key src key db = find (\<lambda>d. kd_source d = Some src \<and> kd_externalKey d = Some key) (kn_documents db)"

definition current_row :: "document_row option \<Rightarrow> kn_db \<Rightarrow> version_row option" where
  "current_row d db = Option.bind (Option.bind d kd_current) (\<lambda>i. lookup kv_id i (kn_versions db))"

text \<open>\<open>typeof metadata.k === "string" ? metadata.k : fallback\<close>.\<close>

definition kept_text :: "string \<Rightarrow> string \<Rightarrow> jobject \<Rightarrow> json" where
  "kept_text k fallback md = (case jstring (jget k md) of Some s \<Rightarrow> JString s | None \<Rightarrow> JString (js fallback))"

definition legacy_seed :: jobject where
  "legacy_seed = [(''seedVersion'', JNumber 1), (''legacySeed'', JBool True),
     (''humanTechnicalReviewRequired'', JBool True)]"

definition core_version_update :: "core_knowledge \<Rightarrow> timestamp \<Rightarrow> version_row \<Rightarrow> version_row" where
  "core_version_update c at v = v\<lparr>kv_content := core_content c, kv_citation := cc_citation c,
     kv_metadata := kv_metadata v @ [(''reviewStatus'', kept_text ''reviewStatus'' ''required'' (kv_metadata v)),
       (''embeddingStatus'', kept_text ''embeddingStatus'' ''not_configured'' (kv_metadata v))] @ legacy_seed,
     kv_updatedAt := at\<rparr>"

definition seedCore :: "kn_rules \<Rightarrow> core_knowledge \<Rightarrow> kn_db \<Rightarrow> (kn_error, kn_db) result" where
  "seedCore kr c db =
     (let (src, db1) = seed_core_source c db;
          existing = document_of_key src (cc_externalKey c) db1;
          status = (case existing of None \<Rightarrow> KnDraft | Some d \<Rightarrow> kd_status d);
          (docId, db2) = (case existing of
             Some d \<Rightarrow> (kd_id d, db1\<lparr>kn_documents := update_where (\<lambda>x. kd_id x = kd_id d)
                (core_document_row c src status (kn_now db)) (kn_documents db1)\<rparr>)
           | None \<Rightarrow> (kn_next db1, db1\<lparr>kn_documents := kn_documents db1
                @ [core_document_row c src status (kn_now db) (system_document (kn_next db1) db1)],
                kn_next := kn_next db1 + 1\<rparr>));
          hash = kr_sha kr (core_content c);
          current = current_row existing db2
      in if existing \<noteq> None \<and> (case current of None \<Rightarrow> True | Some v \<Rightarrow> kv_hash v \<noteq> Some hash)
         then Inl (PlainError ''Core knowledge content changed. Refusing to bypass the draft and human-review workflow.'')
         else
           let (vid, db3) = (case current of
                 Some v \<Rightarrow> (kv_id v, db2\<lparr>kn_versions := update_where (\<lambda>x. kv_id x = kv_id v)
                    (core_version_update c (kn_now db)) (kn_versions db2)\<rparr>)
               | None \<Rightarrow> (kn_next db2, db2\<lparr>kn_versions := kn_versions db2
                    @ [(system_version (kn_next db2) docId KnDraft db2)\<lparr>kv_version := next_version docId db2,
                       kv_hash := Some hash, kv_content := core_content c, kv_citation := cc_citation c,
                       kv_parserVersion := Some (js ''openvac-curated-v1''),
                       kv_metadata := [(''reviewStatus'', JString (js ''required'')),
                         (''embeddingStatus'', JString (js ''pending_review''))] @ legacy_seed\<rparr>],
                    kn_next := kn_next db2 + 1\<rparr>))
           in Inr (db3\<lparr>kn_documents := update_where (\<lambda>x. kd_id x = docId)
                (\<lambda>x. (core_document_row c src status (kn_now db) x)\<lparr>kd_current := Some vid\<rparr>) (kn_documents db3)\<rparr>))"

subsection \<open>Candidates\<close>

datatype seed_status = SeedCreated | SeedUnchanged | SeedSkipped string

definition seeded_document :: "js_string \<Rightarrow> knowledge_candidate \<Rightarrow> jobject" where
  "seeded_document path c =
     [(''curationStatus'', JString (js ''ai_assisted_draft'')), (''sourceCandidatePath'', JString path),
      (''reviewRequirements'', JArray (map JString (ca_requirements c))),
      (''notRetrievableUntilHumanReviewAndPublication'', JBool True)]"

definition seeded_version :: "js_string \<Rightarrow> knowledge_candidate \<Rightarrow> jobject" where
  "seeded_version path c =
     [(''reviewStatus'', JString (js ''required'')),
      (''embeddingStatus'', JString (js (if ingestion_mode (ca_citation c) = full_text then ''pending_review''
         else ''not_applicable''))),
      (''curationStatus'', JString (js ''ai_assisted_draft'')), (''sourceCandidatePath'', JString path)]"

text \<open>The columns of a document that a candidate gives.\<close>

definition candidate_document :: "knowledge_candidate \<Rightarrow> nat \<Rightarrow> kn_status \<Rightarrow> jobject \<Rightarrow> document_row \<Rightarrow> document_row" where
  "candidate_document c src status metadata d = d\<lparr>kd_source := Some src, kd_externalKey := Some (ca_externalKey c),
     kd_title := ca_title c, kd_description := Some (ca_description c), kd_language := ca_language c,
     kd_mimeType := Some (ca_mimeType c), kd_status := status, kd_tags := ca_tags c, kd_metadata := metadata\<rparr>"

definition seedCandidate ::
  "kn_rules \<Rightarrow> knowledge_candidate \<Rightarrow> js_string \<Rightarrow> kn_db \<Rightarrow> (kn_error, seed_status \<times> kn_db) result" where
  "seedCandidate kr c path db =
     (let content = renderKnowledgeCandidate c; hash = kr_sha kr content
      in case source_of_url (ca_sourceUrl c) db of
           None \<Rightarrow> Inl (PlainError ''Missing governed source; run knowledge:seed first.'')
         | Some s \<Rightarrow> (case document_of_key (ks_id s) (ca_externalKey c) db of
             Some d \<Rightarrow>
               if kd_status d \<noteq> KnDraft \<or> kd_current d = None
               then Inr (SeedSkipped ''human review workflow has already started'', db)
               else if Option.bind (current_row (Some d) db) kv_hash \<noteq> Some hash
               then Inr (SeedSkipped ''existing draft differs; refusing to overwrite possible human edits'', db)
               else Inr (SeedUnchanged, db)
           | None \<Rightarrow> Inr (SeedCreated, insert_document
               (candidate_document c (ks_id s) KnDraft (seeded_document path c) (system_document (kn_next db) db))
               ((system_version (kn_next db + 1) (kn_next db) KnDraft db)\<lparr>kv_hash := Some hash, kv_content := content,
                  kv_citation := ca_citation c, kv_parserVersion := Some (js ''openvac-reviewed-candidate-v1''),
                  kv_metadata := seeded_version path c\<rparr>) db)))"

subsection \<open>Embedding published chunks\<close>

text \<open>The candidates are read first: a chunk with its version and source.\<close>

definition backfill_row :: "kn_db \<Rightarrow> chunk_row \<Rightarrow> (chunk_row \<times> version_row \<times> source_row) option" where
  "backfill_row db c = (case chunk_join db c of
     Some (v, d, s) \<Rightarrow> if kc_embedding c = None \<and> current_published v d \<and> ks_enabled s \<and> ks_deletedAt s = None
       then Some (c, v, s) else None
   | None \<Rightarrow> None)"

definition chunk_before :: "chunk_row \<Rightarrow> chunk_row \<Rightarrow> bool" where
  "chunk_before a b \<longleftrightarrow> kc_version a < kc_version b \<or> (kc_version a = kc_version b \<and> kc_index a \<le> kc_index b)"

definition backfill_candidates :: "nat \<Rightarrow> kn_db \<Rightarrow> (chunk_row \<times> version_row \<times> source_row) list" where
  "backfill_candidates limit db = take limit (List.map_filter (backfill_row db) (sort_by chunk_before (kn_chunks db)))"

text \<open>What the update of a chunk asks for, in the state it is made in.\<close>

definition backfill_target :: "kn_db \<Rightarrow> chunk_row \<Rightarrow> chunk_row \<Rightarrow> bool" where
  "backfill_target db wanted c \<longleftrightarrow> kc_id c = kc_id wanted \<and> kc_version c = kc_version wanted \<and> kc_embedding c = None
     \<and> (case chunk_join db c of
          None \<Rightarrow> False
        | Some (v, d, s) \<Rightarrow> current_published v d \<and> source_serves s
            \<and> jtext_is ''ingestionMode'' ''full_text'' (kv_citation v)
            \<and> jtext_is ''reviewStatus'' ''approved'' (kv_metadata v)
            \<and> jtext_is ''status'' ''approved'' (recordValue (jget ''review'' (kv_metadata v))))"

definition backfill_chunk :: "js_string \<Rightarrow> chunk_row \<times> js_number list \<Rightarrow> kn_db \<Rightarrow> (kn_error, kn_db) result" where
  "backfill_chunk model cv db =
     (if list_ex (backfill_target db (fst cv)) (kn_chunks db)
      then Inr (db\<lparr>kn_chunks := update_where (backfill_target db (fst cv))
        (\<lambda>c. c\<lparr>kc_embedding := Some (snd cv), kc_embeddingModel := Some model, kc_embeddedAt := Some (kn_now db)\<rparr>)
        (kn_chunks db)\<rparr>)
      else Inl (PlainError ''Knowledge chunk changed during embedding backfill.''))"

definition backfill_version :: "js_string \<Rightarrow> nat \<Rightarrow> kn_db \<Rightarrow> kn_db" where
  "backfill_version model vid db =
     set_version (\<lambda>v. kv_id v = vid \<and> kv_status v = KnPublished)
       (\<lambda>v. v\<lparr>kv_metadata := kv_metadata v @
          [(''embeddingStatus'', JString (js (if embedded_count vid db < chunk_count vid db then ''partial'' else ''completed''))),
           (''embeddingModel'', JString model), (''embeddedChunkCount'', JNumber (int (embedded_count vid db)))]\<rparr>) db"

definition embedPublished ::
  "kn_rules \<Rightarrow> (js_string list \<Rightarrow> (kn_error, embedding_result) result) \<Rightarrow> nat \<Rightarrow> kn_db \<Rightarrow> kn_db \<Rightarrow>
   (kn_error, kn_db) result" where
  "embedPublished kr provider limit db0 db =
     (if limit < 1 \<or> 5000 < limit then Inl (PlainError ''--limit must be an integer from 1 to 5000.'')
      else
        let candidates = backfill_candidates limit db0;
            eligible = map fst (filter (\<lambda>(c, v, s). isPublishedEmbeddingCandidate kr (kc_content c) v s) candidates)
        in if list_ex (\<lambda>(c, v, s). js_trim (kc_content c) = []) candidates
           then Inl (PlainError ''Embedding candidate is missing content.'')
           else if eligible = [] then Inr db
           else bindR (provider (map kc_content eligible)) (\<lambda>r.
             bindR (assertValidKnowledgeEmbeddings r (length eligible)) (\<lambda>_.
             bindR (foldR (backfill_chunk (er_model r)) (zip eligible (er_vectors r)) db) (\<lambda>db1.
               Inr (fold (backfill_version (er_model r)) (rev (remdups (rev (map kc_version eligible)))) db1)))))"

subsection \<open>The first phase back into review\<close>

definition assertPhaseOneReviewRestoreAuthorized ::
  "bool \<Rightarrow> js_string option \<Rightarrow> bool \<Rightarrow> js_string option \<Rightarrow> (kn_error, unit) result" where
  "assertPhaseOneReviewRestoreAuthorized apply_it confirmation adopt legacyConfirmation =
     (if \<not> apply_it then Inr ()
      else if confirmation \<noteq> Some (js ''RESTORE_PHASE_ONE_REVIEW'')
      then Inl (PlainError ''Applying the knowledge restore requires its confirmation.'')
      else if adopt \<and> legacyConfirmation \<noteq> Some (js ''ADOPT_PHASE_ONE_LEGACY'')
      then Inl (PlainError ''Adopting exact legacy Phase 1 versions requires its confirmation.'')
      else Inr ())"

text \<open>What the script knows of a version it may adopt: the three counts are of its rows.\<close>

definition section_count :: "nat \<Rightarrow> kn_db \<Rightarrow> nat" where
  "section_count vid db = length (filter (\<lambda>s. rs_version s = vid) (kn_sections db))"

definition decision_count :: "nat \<Rightarrow> kn_db \<Rightarrow> nat" where
  "decision_count vid db = length (filter (\<lambda>r. list_ex (\<lambda>s. rs_id s = sd_section r \<and> rs_version s = vid)
     (kn_sections db)) (kn_decisions db))"

definition legacy_fingerprint :: "js_string \<Rightarrow> nat \<Rightarrow> document_row \<Rightarrow> version_row \<Rightarrow> kn_db \<Rightarrow> bool" where
  "legacy_fingerprint hash expectedChunks d v db \<longleftrightarrow>
     kd_status d = KnPublished \<and> kv_status v = KnPublished \<and> kv_publishedAt v \<noteq> None \<and> kv_hash v = Some hash
     \<and> jget ''reviewStatus'' (kv_metadata v) = Some (JString (js ''required''))
     \<and> jget ''retrievalStatus'' (kv_metadata v) = Some (JString (js ''active_pending_review''))
     \<and> jget ''retrievalContentHash'' (kv_metadata v) = Some (JString hash)
     \<and> section_count (kv_id v) db = 0 \<and> decision_count (kv_id v) db = 0 \<and> chunk_count (kv_id v) db = expectedChunks"

definition assertLegacyPhaseOneAdoption ::
  "bool \<Rightarrow> js_string \<Rightarrow> nat \<Rightarrow> document_row \<Rightarrow> version_row \<Rightarrow> kn_db \<Rightarrow> (kn_error, unit) result" where
  "assertLegacyPhaseOneAdoption enabled hash expectedChunks d v db =
     (if \<not> enabled then Inl (PlainError ''Existing document requires explicit --adopt-legacy confirmation.'')
      else if \<not> legacy_fingerprint hash expectedChunks d v db
      then Inl (PlainError ''Existing document does not match the exact provisional Phase 1 legacy fingerprint.'')
      else Inr ())"

text \<open>
  The plan of one candidate: the source, which must be of the manifest, as it is now, of whose metadata only a decision on rights
  counts, the rendered content and its sections.
\<close>

definition restored_source :: "source_row \<Rightarrow> source_row" where
  "restored_source s = s\<lparr>
     ks_publisher := (case ks_publisher s of None \<Rightarrow> Some [] | Some p \<Rightarrow> Some p),
     ks_metadata := (case jget ''rightsDecision'' (ks_metadata s) of
        Some (JObject r) \<Rightarrow> [(''rightsDecision'', JObject r)]
      | Some (JArray xs) \<Rightarrow> [(''rightsDecision'', JArray xs)]
      | _ \<Rightarrow> [])\<rparr>"

record restore_item =
  ri_source :: nat
  ri_version :: nat
  ri_path :: js_string
  ri_candidate :: knowledge_candidate
  ri_content :: js_string
  ri_hash :: js_string
  ri_sections :: "review_section list"

definition restore_item_of ::
  "kn_rules \<Rightarrow> kn_db \<Rightarrow> js_string set \<Rightarrow> (js_string \<Rightarrow> nat option) \<Rightarrow> knowledge_candidate \<times> js_string \<Rightarrow>
   (kn_error, restore_item) result" where
  "restore_item_of kr db urls versionIds entry = (case entry of (c, path) \<Rightarrow>
     (case (if ca_sourceUrl c \<in> urls then source_of_url (ca_sourceUrl c) db else None,
            versionIds (ca_externalKey c)) of
        (Some s, Some vid) \<Rightarrow>
          let content = renderKnowledgeCandidate c; hash = kr_sha kr content
          in bindR (assertKnowledgeSourceAuthorized kr (Some (restored_source s)) (ca_citation c)) (\<lambda>_.
             bindR (buildCandidateKnowledgeReviewSections kr c vid hash (rights_snapshot (restored_source s))) (\<lambda>ss.
             Inr \<lparr>ri_source = ks_id s, ri_version = vid, ri_path = path, ri_candidate = c, ri_content = content,
               ri_hash = hash, ri_sections = ss\<rparr>))
      | _ \<Rightarrow> Inl (PlainError ''Missing restored source or version.'')))"

definition buildPhaseOneReviewRestorePlan ::
  "kn_rules \<Rightarrow> kn_db \<Rightarrow> js_string set \<Rightarrow> (js_string \<Rightarrow> nat option) \<Rightarrow> (knowledge_candidate \<times> js_string) list \<Rightarrow>
   (kn_error, restore_item list) result" where
  "buildPhaseOneReviewRestorePlan kr db urls versionIds entries =
     foldR (\<lambda>e acc. bindR (restore_item_of kr db urls versionIds e) (\<lambda>i. Inr (acc @ [i]))) entries []"

definition restored_document :: "restore_item \<Rightarrow> jobject" where
  "restored_document i =
     [(''curationStatus'', JString (js ''ai_assisted_draft'')), (''sourceCandidatePath'', JString (ri_path i)),
      (''reviewRequirements'', JArray (map JString (ca_requirements (ri_candidate i)))),
      (''restoredForHumanReview'', JBool True), (''notRetrievableUntilHumanReviewAndPublication'', JBool True)]"

definition restore_key :: "restore_item \<Rightarrow> js_string" where
  "restore_key i = js ''phase-one-review-v1:'' @ ri_hash i"

definition restored_version :: "restore_item \<Rightarrow> jobject" where
  "restored_version i = seeded_version (ri_path i) (ri_candidate i)
     @ [(''restoredForHumanReview'', JBool True), (''reviewRestoreKey'', JString (restore_key i))]"

text \<open>What is done for one candidate, after the checks: the key of the version row may be taken.\<close>

definition write_restored ::
  "restore_item \<Rightarrow> document_row option \<Rightarrow> kn_db \<Rightarrow> (kn_error, kn_db) result" where
  "write_restored i existing db =
     (let (docId, db1) = (case existing of
            Some d \<Rightarrow> (kd_id d, db)
          | None \<Rightarrow> (kn_next db, db\<lparr>kn_documents := kn_documents db @
              [candidate_document (ri_candidate i) (ri_source i) KnReview (restored_document i)
                 (system_document (kn_next db) db)], kn_next := kn_next db + 1\<rparr>));
          number = next_version docId db1;
          c = ri_candidate i
      in if lookup kv_id (ri_version i) (kn_versions db1) \<noteq> None then Inl (DbViolation ''knowledge_version_pkey'')
         else bindR (insert_sections (ri_sections i) (db1\<lparr>kn_versions := kn_versions db1 @
             [(system_version (ri_version i) docId KnReview db1)\<lparr>kv_version := number, kv_hash := Some (ri_hash i),
                kv_content := ri_content i,
                kv_citation := ca_citation c @ [(''sourceCandidatePath'', JString (ri_path i)),
                  (''reviewEvidenceMode'', JString (js ''normalized_sections_v1''))],
                kv_parserVersion := Some (js ''openvac-normalized-review-v1''),
                kv_metadata := restored_version i\<rparr>]\<rparr>)) (\<lambda>db2.
           Inr (kn_audited \<lparr>au_actor = None, au_role = js ''system'',
               au_action = ''knowledge.phase_one.restore_review'', au_targetType = ''knowledge_document'',
               au_target = id_text docId,
               au_metadata = [(''externalKey'', JString (ca_externalKey c)),
                 (''sourceCanonicalUrl'', JString (ca_sourceUrl c))], au_at = kn_now db\<rparr>
             (set_document (\<lambda>d. kd_id d = docId)
               (\<lambda>d. d\<lparr>kd_title := ca_title c, kd_description := Some (ca_description c), kd_language := ca_language c,
                  kd_mimeType := Some (ca_mimeType c), kd_status := KnReview, kd_current := Some (ri_version i),
                  kd_tags := ca_tags c,
                  kd_metadata := (case existing of None \<Rightarrow> [] | Some e \<Rightarrow> kd_metadata e) @ restored_document i
                    @ [(''reviewRestoreKey'', JString (restore_key i))]\<rparr>) db2))))"

definition restore_document :: "bool \<Rightarrow> restore_item \<Rightarrow> kn_db \<Rightarrow> (kn_error, kn_db) result" where
  "restore_document adopt i db =
     (let existing = document_of_key (ri_source i) (ca_externalKey (ri_candidate i)) db;
          current = current_row existing db;
          metadata = (case current of None \<Rightarrow> [] | Some v \<Rightarrow> kv_metadata v);
          vid = (case current of None \<Rightarrow> 0 | Some v \<Rightarrow> kv_id v);
          restored = (case current of None \<Rightarrow> False | Some v \<Rightarrow> kv_hash v = Some (ri_hash i))
            \<and> jget ''reviewRestoreKey'' metadata = Some (JString (restore_key i));
          chunks = (if ingestion_mode (ca_citation (ri_candidate i)) = full_text then length (ri_sections i) else 0)
      in if restored then
           (if section_count vid db \<noteq> length (ri_sections i)
            then Inl (PlainError ''Restored review section count changed.'')
            else if decision_count vid db \<noteq> 0 \<or> chunk_count vid db \<noteq> 0
            then Inl (PlainError ''Human review or retrieval data already exists; restore stopped without changes.'')
            else Inr db)
         else if js_truthy (jget ''reviewRestoreKey'' metadata)
         then Inl (PlainError ''Restored review version changed; restore stopped without overwriting the human workflow.'')
         else bindR (case existing of
              None \<Rightarrow> Inr ()
            | Some d \<Rightarrow> (case current of
                None \<Rightarrow> Inl (PlainError ''Existing document has no current version; restore stopped without changes.'')
              | Some v \<Rightarrow> assertLegacyPhaseOneAdoption adopt (ri_hash i) chunks d v db)) (\<lambda>_.
           if ri_sections i = [] then Inl (PlainError ''No review sections generated.'')
           else write_restored i existing db))"

text \<open>
  The transaction of the script. The ids of the versions are drawn before the plan is made, one
  for each entry; of entries with the same key the last one counts.
\<close>

definition restore_ids :: "nat \<Rightarrow> (knowledge_candidate \<times> js_string) list \<Rightarrow> js_string \<Rightarrow> nat option" where
  "restore_ids base entries = map_of (rev (map (\<lambda>(k, c, p). (ca_externalKey c, base + k)) (List.enumerate 0 entries)))"

definition restorePhaseOne ::
  "kn_rules \<Rightarrow> seed_source list \<Rightarrow> (knowledge_candidate \<times> js_string) list \<Rightarrow> bool \<Rightarrow> kn_db \<Rightarrow> (kn_error, kn_db) result" where
  "restorePhaseOne kr manifest entries adopt db =
     (let db1 = fold (\<lambda>s d. snd (seedSource s d d)) manifest db;
          db2 = db1\<lparr>kn_next := kn_next db1 + length entries\<rparr>
      in bindR (buildPhaseOneReviewRestorePlan kr db1 (se_canonicalUrl ` set manifest) (restore_ids (kn_next db1) entries) entries) (\<lambda>items.
           foldR (restore_document adopt) items db2))"

subsection \<open>Repairs by hand\<close>

text \<open>The runs that a review names by their ids.\<close>

definition named_run :: "string \<Rightarrow> jobject \<Rightarrow> kn_db \<Rightarrow> review_run option" where
  "named_run k review db = Option.bind (jstring (jget k review)) (\<lambda>t. find (\<lambda>r. id_text (rr_id r) = t) (kn_runs db))"

definition approving_run :: "review_phase \<Rightarrow> nat \<Rightarrow> js_string \<Rightarrow> review_run \<Rightarrow> bool" where
  "approving_run phase vid hash r \<longleftrightarrow> rr_phase r = phase \<and> rr_status r = RevCompleted
     \<and> rr_decision r = Some DecApproved \<and> rr_risk r = Some RevLow \<and> rr_prompt r = js automation_policy
     \<and> (case rr_report r of None \<Rightarrow> False | Some rep \<Rightarrow> sr_outputContentHash rep = hash \<and> sr_outputVersionId rep = vid
          \<and> sr_outputHash rep = hash \<and> sr_sourceRightsValid rep)"

definition reviewed_pair :: "nat \<Rightarrow> js_string \<Rightarrow> jobject \<Rightarrow> kn_db \<Rightarrow> bool" where
  "reviewed_pair vid hash review db \<longleftrightarrow> (case (named_run ''initialRunId'' review db, named_run ''verifyRunId'' review db) of
     (Some a, Some b) \<Rightarrow> rr_id a \<noteq> rr_id b \<and> approving_run PhaseInitial vid hash a \<and> approving_run PhaseVerify vid hash b
       \<and> ((rr_inputVersion a = vid \<and> rr_inputHash a = hash) \<or> rr_revised a = Some vid)
       \<and> rr_inputVersion b = vid \<and> rr_inputHash b = hash
   | _ \<Rightarrow> False)"

definition automated_approval :: "js_string \<Rightarrow> jobject \<Rightarrow> bool" where
  "automated_approval hash review \<longleftrightarrow> jtext_is ''status'' ''approved'' review
     \<and> jstring (jget ''contentHash'' review) = Some hash
     \<and> jtext_is ''policyVersion'' automation_policy review \<and> jtext_is ''risk'' ''low'' review"

definition retry_task :: "nat \<Rightarrow> version_row \<Rightarrow> js_string \<Rightarrow> kn_db \<Rightarrow> task_row \<Rightarrow> bool" where
  "retry_task docId v hash db t \<longleftrightarrow>
     (let review = recordValue (jget ''review'' (bt_payload t)); own = recordValue (jget ''review'' (kv_metadata v)) in
      bt_type t = ingestion_type \<and> bt_key t = Some (embedding_key (kv_id v) hash (js automation_policy))
      \<and> (bt_status t = OpFailed
         \<or> (bt_status t = OpRunning \<and> (case bt_lockedAt t of None \<Rightarrow> False | Some at \<Rightarrow> at < kn_now db - 900000)))
      \<and> jtext_is ''stage'' ''embedding_pending'' (bt_payload t)
      \<and> jstring (jget ''documentId'' (bt_payload t)) = Some (id_text docId)
      \<and> jstring (jget ''versionId'' (bt_payload t)) = Some (id_text (kv_id v))
      \<and> automated_approval hash review
      \<and> jstring (jget ''initialRunId'' review) = jstring (jget ''initialRunId'' own)
      \<and> jstring (jget ''verifyRunId'' review) = jstring (jget ''verifyRunId'' own)
      \<and> \<not> list_ex (\<lambda>x. bt_id x \<noteq> bt_id t \<and> bt_type x = ingestion_type
           \<and> jstring (jget ''versionId'' (bt_payload x)) = Some (id_text (kv_id v))
           \<and> bt_status x \<in> {OpQueued, OpRunning}) (kn_tasks db))"

definition retry_version :: "nat \<Rightarrow> js_string \<Rightarrow> version_row \<Rightarrow> kn_db \<Rightarrow> bool" where
  "retry_version docId hash v db \<longleftrightarrow> (case lookup kd_id docId (kn_documents db) of
     None \<Rightarrow> False
   | Some d \<Rightarrow> kv_document v = docId \<and> kd_current d = Some (kv_id v) \<and> kd_status d = KnReview \<and> kv_status v = KnReview
       \<and> kv_publishedAt v = None \<and> kv_hash v = Some hash
       \<and> jtext_is ''reviewStatus'' ''approved'' (kv_metadata v) \<and> jtext_is ''embeddingStatus'' ''queued'' (kv_metadata v)
       \<and> automated_approval hash (recordValue (jget ''review'' (kv_metadata v)))
       \<and> (case document_source d db of None \<Rightarrow> False | Some s \<Rightarrow> ks_enabled s \<and> ks_deletedAt s = None)
       \<and> \<not> list_ex (\<lambda>c. kc_version c = kv_id v) (kn_chunks db)
       \<and> reviewed_pair (kv_id v) hash (recordValue (jget ''review'' (kv_metadata v))) db)"

definition requeued_task :: "kn_db \<Rightarrow> task_row \<Rightarrow> task_row" where
  "requeued_task db t = t\<lparr>bt_status := OpQueued, bt_runAt := kn_now db,
     bt_maxAttempts := max (bt_maxAttempts t) (bt_attempts t + 1), bt_lockedAt := None, bt_lockedBy := None,
     bt_lease := None, bt_completedAt := None, bt_lastError := None, bt_updatedAt := kn_now db\<rparr>"

text \<open>\<open>retry-embedding-job\<close>: a failed or abandoned embedding of an approved version is queued again.\<close>

definition retryEmbeddingJob :: "nat \<Rightarrow> nat \<Rightarrow> js_string \<Rightarrow> kn_db \<Rightarrow> kn_db option" where
  "retryEmbeddingJob docId vid hash db = (case lookup kv_id vid (kn_versions db) of
     None \<Rightarrow> None
   | Some v \<Rightarrow> if \<not> retry_version docId hash v db then None
       else (case find (retry_task docId v hash db) (kn_tasks db) of
         None \<Rightarrow> None
       | Some t \<Rightarrow> Some (kn_audited \<lparr>au_actor = None, au_role = js ''system'',
           au_action = ''knowledge.embedding.retry_job'', au_targetType = ''background_task'', au_target = id_text (bt_id t),
           au_metadata = [(''documentId'', JString (id_text docId)), (''versionId'', JString (id_text vid)),
             (''contentHash'', JString hash), (''previousAttempts'', JNumber (bt_attempts t)),
             (''previousMaxAttempts'', JNumber (bt_maxAttempts t)), (''hadLastError'', JBool (bt_lastError t \<noteq> None))],
           au_at = kn_now db\<rparr>
           (db\<lparr>kn_tasks := update_where (\<lambda>x. bt_id x = bt_id t) (requeued_task db) (kn_tasks db)\<rparr>))))"

text \<open>\<open>jsonb ? 'text'\<close>.\<close>

definition jcontains :: "string \<Rightarrow> json option \<Rightarrow> bool" where
  "jcontains k v = (case v of
     Some (JArray xs) \<Rightarrow> JString (js k) \<in> set xs
   | Some (JObject kvs) \<Rightarrow> jget k kvs \<noteq> None
   | Some (JString s) \<Rightarrow> s = js k
   | _ \<Rightarrow> False)"

definition evidence_retry :: "nat \<Rightarrow> nat \<Rightarrow> js_string \<Rightarrow> review_run \<Rightarrow> kn_db \<Rightarrow> bool" where
  "evidence_retry docId vid hash r db \<longleftrightarrow> rr_phase r = PhaseVerify \<and> rr_status r = RevNeedsHuman
     \<and> rr_decision r = Some DecNeedsHuman \<and> rr_prompt r = js automation_policy \<and> rr_inputVersion r = vid
     \<and> rr_inputHash r = hash
     \<and> (case (lookup kv_id vid (kn_versions db), lookup kd_id docId (kn_documents db)) of
          (Some v, Some d) \<Rightarrow> kv_document v = docId \<and> kd_current d = Some vid \<and> kd_status d = KnReview
            \<and> kv_hash v = Some hash
            \<and> (jcontains ''AUTOMATION_REVIEW_NUMERIC_EVIDENCE_MISSING'' (jget ''automationReasons'' (kv_metadata v))
               \<or> jcontains ''AUTOMATION_REVIEW_PAIR_MISSING_OR_MISMATCHED'' (jget ''automationReasons'' (kv_metadata v)))
        | _ \<Rightarrow> False)
     \<and> list_ex (\<lambda>a. rr_phase a = PhaseInitial \<and> rr_status a = RevCompleted \<and> rr_decision a = Some DecApproved
          \<and> rr_risk a = Some RevLow \<and> rr_prompt a = rr_prompt r
          \<and> ((rr_inputVersion a = vid \<and> rr_inputHash a = hash) \<or> rr_revised a = Some vid)) (kn_runs db)"

text \<open>
  \<open>retry-verify-evidence\<close>: a verification that went to a person for its evidence is queued again. The
  statement looks at the status of the document, not at the status of the version.
\<close>

definition retryVerifyEvidence :: "nat \<Rightarrow> nat \<Rightarrow> nat \<Rightarrow> js_string \<Rightarrow> kn_db \<Rightarrow> kn_db option" where
  "retryVerifyEvidence docId vid runId hash db = (case lookup rr_id runId (kn_runs db) of
     None \<Rightarrow> None
   | Some r \<Rightarrow> if \<not> evidence_retry docId vid hash r db then None
       else Some (kn_audited \<lparr>au_actor = None, au_role = js ''system'',
           au_action = ''knowledge.automation_review.retry_verify_evidence'', au_targetType = ''knowledge_review_run'',
           au_target = id_text runId, au_metadata = [(''documentId'', JString (id_text docId)),
             (''versionId'', JString (id_text vid)), (''contentHash'', JString hash)], au_at = kn_now db\<rparr>
         (set_version (\<lambda>v. kv_id v = vid \<and> kv_hash v = Some hash)
           (\<lambda>v. v\<lparr>kv_metadata := jdelete ''automationReasons'' (kv_metadata v)
              @ [(''reviewStatus'', JString (js ''required'')), (''automationStatus'', JString (js ''queued''))]\<rparr>)
           (db\<lparr>kn_runs := update_where (\<lambda>x. rr_id x = runId) (\<lambda>x. x\<lparr>rr_status := RevQueued, rr_risk := None,
              rr_decision := None, rr_report := None, rr_revised := None, rr_completedAt := None, rr_tokenHash := None,
              rr_leaseExpiresAt := None, rr_updatedAt := kn_now db\<rparr>) (kn_runs db)\<rparr>))))"

end
