(* ===== verification/Knowledge_Scripts_Preserved.thy ===== *)
theory Knowledge_Scripts_Preserved
  imports Knowledge_Store_Preserved Knowledge_Scripts
begin

text \<open>
  The scripts keep the invariant of the knowledge base. The seeding of the core document writes a
  content under the hash it has just compared with that content; the embedding of published chunks
  and the repairs write no content, and no review.
\<close>

lemma seedSource_inv: "seedSource s db0 db = (i, db') \<Longrightarrow> knowledge_inv kr db \<Longrightarrow> knowledge_inv kr db'"
  by (auto simp: seedSource_def split: option.splits)

lemma seed_core_source_inv: "seed_core_source c db = (i, db') \<Longrightarrow> knowledge_inv kr db \<Longrightarrow> knowledge_inv kr db'"
  by (auto simp: seed_core_source_def Let_def split: option.splits)

subsection \<open>The core document\<close>

lemma kept_text_approved: "kept_text k f md = JString (js ''approved'') \<Longrightarrow> f \<noteq> ''approved'' \<Longrightarrow> jtext_is k ''approved'' md"
  by (auto simp: kept_text_def jtext_is_def jstring_def js_eq_iff split: option.splits json.splits)

lemma core_version_ok:
  assumes "version_ok kr v" "kv_hash v = Some (kr_sha kr (core_content c))"
  shows "version_ok kr (core_version_update c at v)"
proof -
  let ?w = "core_version_update c at v"
  have get: "jget ''review'' (kv_metadata ?w) = jget ''review'' (kv_metadata v)"
    "jget ''reviewStatus'' (kv_metadata ?w) = Some (kept_text ''reviewStatus'' ''required'' (kv_metadata v))"
    by (simp_all add: core_version_update_def legacy_seed_def)
  have "jtext_is ''reviewStatus'' ''approved'' (kv_metadata v)" if "jtext_is ''reviewStatus'' ''approved'' (kv_metadata ?w)"
    using that get(2) kept_text_approved[of "''reviewStatus''" "''required''"] by (auto simp: jtext_is_def)
  moreover have "hash_ok kr ?w" using assms(2) by (simp add: hash_ok_def core_version_update_def)
  ultimately show ?thesis
    using assms(1) get(1) by (auto simp: version_ok_def approved_exactly_def core_version_update_def)
qed

lemma seed_core_new_ok:
  "kv_hash w = Some (kr_sha kr (kv_content w)) \<Longrightarrow>
   kv_metadata w = [(''reviewStatus'', JString (js ''required'')), e] @ legacy_seed \<Longrightarrow> fst e = ''embeddingStatus'' \<Longrightarrow>
   version_ok kr w"
  by (cases e) (auto intro!: version_ok_plain simp: hash_ok_def json_simps legacy_seed_def)

lemma seedCore_inv:
  assumes "seedCore kr c db = Inr db'" "knowledge_inv kr db"
  shows "knowledge_inv kr db'"
proof -
  obtain src db1 where s: "seed_core_source c db = (src, db1)" by force
  note inv1 = seed_core_source_inv[OF s assms(2)]
  define existing where "existing = document_of_key src (cc_externalKey c) db1"
  define status where "status = (case existing of None \<Rightarrow> KnDraft | Some d \<Rightarrow> kd_status d)"
  obtain docId db2 where d: "(case existing of
             Some d \<Rightarrow> (kd_id d, db1\<lparr>kn_documents := update_where (\<lambda>x. kd_id x = kd_id d)
                (core_document_row c src status (kn_now db)) (kn_documents db1)\<rparr>)
           | None \<Rightarrow> (kn_next db1, db1\<lparr>kn_documents := kn_documents db1
                @ [core_document_row c src status (kn_now db) (system_document (kn_next db1) db1)],
                kn_next := kn_next db1 + 1\<rparr>)) = (docId, db2)" by force
  have inv2: "knowledge_inv kr db2" using d inv1 by (auto split: option.splits)
  note run = assms(1)[unfolded seedCore_def s Let_def prod.case, folded existing_def, folded status_def, unfolded d prod.case]
  show ?thesis
  proof (cases "current_row existing db2")
    case None
    then show ?thesis
      using run by (auto intro!: inv_append[OF inv2] seed_core_new_ok simp: system_version_def blank_version_def)
  next
    case (Some v)
    then obtain i where "lookup kv_id i (kn_versions db2) = Some v" by (auto simp: current_row_def bind_eq_Some_conv)
    then have v: "v \<in> set (kn_versions db2)" using lookup_SomeD by metis
    have hash: "kv_hash v = Some (kr_sha kr (core_content c))"
      using run Some by (auto simp: current_row_def split: if_splits)
    let ?db = "db2\<lparr>kn_versions := update_where (\<lambda>x. kv_id x = kv_id v) (core_version_update c (kn_now db)) (kn_versions db2)\<rparr>"
    have "knowledge_inv kr ?db"
    proof (rule inv_update[OF inv2, where P = "\<lambda>x. kv_id x = kv_id v" and f = "core_version_update c (kn_now db)"])
      fix x assume "x \<in> set (kn_versions db2)" "kv_id x = kv_id v"
      then have "x = v" using inv_same_id[OF inv2] v by blast
      moreover have "version_ok kr v" using knowledge_invD[OF inv2 v] .
      ultimately show "version_ok kr (core_version_update c (kn_now db) x) \<and> kv_id (core_version_update c (kn_now db) x) = kv_id x"
        using core_version_ok hash by (simp add: core_version_update_def)
    qed simp_all
    then show ?thesis using run Some by (auto split: if_splits)
  qed
qed

lemma seedCandidate_inv:
  assumes "seedCandidate kr c path db = Inr (st, db')" "knowledge_inv kr db"
  shows "knowledge_inv kr db'"
  using assms
  by (auto simp: seedCandidate_def Let_def system_version_def blank_version_def hash_ok_def json_simps seeded_version_def
      split: option.splits if_splits intro!: inv_insert_document version_ok_plain)

subsection \<open>Embedding published chunks\<close>

lemma backfill_chunk_inv: "backfill_chunk m cv db = Inr db' \<Longrightarrow> knowledge_inv kr db \<Longrightarrow> knowledge_inv kr db'"
  by (auto simp: backfill_chunk_def)

lemma backfill_version_inv:
  assumes "knowledge_inv kr db"
  shows "knowledge_inv kr (backfill_version m vid db)"
  unfolding backfill_version_def
  by (rule inv_set_version[OF assms]) (auto simp: version_ok_def hash_ok_def approved_exactly_def json_simps)

lemma fold_keeps: "I s \<Longrightarrow> (\<And>x s. I s \<Longrightarrow> I (f x s)) \<Longrightarrow> I (fold f xs s)"
  by (induction xs arbitrary: s) auto

lemma embedPublished_inv:
  assumes "embedPublished kr provider limit db0 db = Inr db'" "knowledge_inv kr db"
  shows "knowledge_inv kr db'"
proof -
  have chunks: "knowledge_inv kr db1" if "foldR (backfill_chunk m) xs db = Inr db1" for m xs db1
    using foldR_invariant[OF that, of "knowledge_inv kr"] assms(2) backfill_chunk_inv by blast
  have versions: "knowledge_inv kr (fold (backfill_version m) vs d)" if "knowledge_inv kr d" for m vs d
    using that by (rule fold_keeps) (rule backfill_version_inv)
  consider "db' = db" | m xs vs db1 where "foldR (backfill_chunk m) xs db = Inr db1" "db' = fold (backfill_version m) vs db1"
    using assms(1) unfolding embedPublished_def Let_def by (simp add: bindR_eq_Inr split: if_splits) blast
  then show ?thesis using chunks versions assms(2) by cases blast+
qed

subsection \<open>The first phase back into review\<close>

lemma restore_items_facts:
  assumes "buildPhaseOneReviewRestorePlan kr db urls ids entries = Inr items" "i \<in> set items"
  shows "ri_hash i = kr_sha kr (ri_content i)" "\<exists>k. ids k = Some (ri_version i)"
proof -
  let ?P = "\<lambda>i. ri_hash i = kr_sha kr (ri_content i) \<and> (\<exists>k. ids k = Some (ri_version i))"
  have "\<forall>i\<in>set items. ?P i"
    by (rule foldR_invariant[OF assms(1)[unfolded buildPhaseOneReviewRestorePlan_def], where I = "\<lambda>acc. \<forall>i\<in>set acc. ?P i"])
       (auto simp: bindR_eq_Inr restore_item_of_def Let_def split: prod.splits option.splits if_splits, blast+)
  then show "ri_hash i = kr_sha kr (ri_content i)" "\<exists>k. ids k = Some (ri_version i)" using assms(2) by auto
qed

lemma restore_ids_bound: "restore_ids base entries key = Some vid \<Longrightarrow> base \<le> vid \<and> vid < base + length entries"
  by (auto simp: restore_ids_def dest!: map_of_SomeD in_set_enumerate_eq[THEN iffD1])

text \<open>The drawn ids are below the counter, so the row is appended under an id of its own.\<close>

definition restoring :: "kn_rules \<Rightarrow> nat \<Rightarrow> kn_db \<Rightarrow> bool" where
  "restoring kr bound db \<longleftrightarrow> knowledge_inv kr db \<and> bound \<le> kn_next db"

lemma inv_append_fresh:
  assumes "knowledge_inv kr db" "lookup kv_id (kv_id w) (kn_versions db) = None" "kv_id w < kn_next db" "version_ok kr w"
  shows "knowledge_inv kr (db\<lparr>kn_versions := kn_versions db @ [w]\<rparr>)"
  using assms lookup_None_iff[of kv_id "kv_id w" "kn_versions db"] by (auto simp: knowledge_inv_def)

lemma restored_version_ok:
  assumes "kv_hash w = Some (kr_sha kr (kv_content w))" "kv_metadata w = restored_version i"
  shows "version_ok kr w"
  using assms by (intro version_ok_plain) (auto simp: hash_ok_def json_simps restored_version_def seeded_version_def)

lemma write_restored_inv:
  assumes "write_restored i existing db = Inr db'" "restoring kr bound db"
    and "ri_hash i = kr_sha kr (ri_content i)" "ri_version i < bound"
  shows "restoring kr bound db'"
proof -
  obtain docId db1 where d: "(case existing of
            Some d \<Rightarrow> (kd_id d, db)
          | None \<Rightarrow> (kn_next db, db\<lparr>kn_documents := kn_documents db @
              [candidate_document (ri_candidate i) (ri_source i) KnReview (restored_document i)
                 (system_document (kn_next db) db)], kn_next := kn_next db + 1\<rparr>)) = (docId, db1)" by force
  have db1: "knowledge_inv kr db1" "bound \<le> kn_next db1"
    using d assms(2) by (auto simp: restoring_def split: option.splits)
  define w where "w = (system_version (ri_version i) docId KnReview db1)\<lparr>kv_version := next_version docId db1,
      kv_hash := Some (ri_hash i), kv_content := ri_content i,
      kv_citation := ca_citation (ri_candidate i) @ [(''sourceCandidatePath'', JString (ri_path i)),
        (''reviewEvidenceMode'', JString (js ''normalized_sections_v1''))],
      kv_parserVersion := Some (js ''openvac-normalized-review-v1''), kv_metadata := restored_version i\<rparr>"
  have w: "kv_id w = ri_version i" "kv_hash w = Some (ri_hash i)" "kv_content w = ri_content i"
      "kv_metadata w = restored_version i"
    by (simp_all add: w_def system_version_def blank_version_def)
  note run = assms(1)[unfolded write_restored_def Let_def d prod.case, folded w_def]
  have fresh: "lookup kv_id (ri_version i) (kn_versions db1) = None" using run by (auto split: if_splits)
  obtain db2 where db2: "insert_sections (ri_sections i) (db1\<lparr>kn_versions := kn_versions db1 @ [w]\<rparr>) = Inr db2"
    and out: "kn_next db' = kn_next db2" "knowledge_inv kr db' = knowledge_inv kr db2"
    using run fresh by (auto simp: bindR_eq_Inr) (simp add: set_document_def kn_audited_def)
  have "version_ok kr w" using w(2-4) assms(3) by (intro restored_version_ok) simp_all
  then have "knowledge_inv kr (db1\<lparr>kn_versions := kn_versions db1 @ [w]\<rparr>)"
    using fresh w(1) assms(4) db1 by (intro inv_append_fresh) simp_all
  moreover have "kn_next db1 \<le> kn_next db2" using db2 by (auto simp: insert_sections_def split: if_splits)
  ultimately show ?thesis using inv_inserts(1)[OF db2] out db1(2) by (simp add: restoring_def)
qed

lemma restore_document_inv:
  assumes "restore_document adopt i db = Inr db'" "restoring kr bound db"
    and "ri_hash i = kr_sha kr (ri_content i)" "ri_version i < bound"
  shows "restoring kr bound db'"
proof -
  consider "db' = db" | existing where "write_restored i existing db = Inr db'"
    using assms(1) unfolding restore_document_def Let_def by (auto simp: bindR_eq_Inr split: if_splits)
  then show ?thesis using write_restored_inv assms by cases blast+
qed

lemma restorePhaseOne_inv:
  assumes "restorePhaseOne kr manifest entries adopt db = Inr db'" "knowledge_inv kr db"
  shows "knowledge_inv kr db'"
proof -
  define db1 where "db1 = fold (\<lambda>s d. snd (seedSource s d d)) manifest db"
  have db1: "knowledge_inv kr db1"
    unfolding db1_def by (rule fold_keeps[where I = "knowledge_inv kr", OF assms(2)]) (metis seedSource_inv prod.collapse)
  obtain items where items: "buildPhaseOneReviewRestorePlan kr db1 (se_canonicalUrl ` set manifest)
      (restore_ids (kn_next db1) entries) entries = Inr items"
    and run: "foldR (restore_document adopt) items (db1\<lparr>kn_next := kn_next db1 + length entries\<rparr>) = Inr db'"
    using assms(1) by (auto simp: restorePhaseOne_def Let_def bindR_eq_Inr db1_def)
  let ?b = "kn_next db1 + length entries"
  have "restoring kr ?b db'"
  proof (rule foldR_invariant[OF run, where I = "restoring kr ?b"])
    show "restoring kr ?b (db1\<lparr>kn_next := ?b\<rparr>)" using db1 by (simp add: restoring_def)
    fix i s s' assume i: "i \<in> set items" and step: "restore_document adopt i s = Inr s'" "restoring kr ?b s"
    have "ri_version i < ?b" using restore_items_facts(2)[OF items i] restore_ids_bound by blast
    then show "restoring kr ?b s'" using restore_document_inv[OF step restore_items_facts(1)[OF items i]] by simp
  qed
  then show ?thesis by (simp add: restoring_def)
qed

subsection \<open>Repairs by hand\<close>

lemma retryEmbeddingJob_inv: "retryEmbeddingJob docId vid h db = Some db' \<Longrightarrow> knowledge_inv kr db \<Longrightarrow> knowledge_inv kr db'"
  by (auto simp: retryEmbeddingJob_def split: option.splits if_splits)

lemma retryVerifyEvidence_inv:
  assumes "retryVerifyEvidence docId vid runId h db = Some db'" "knowledge_inv kr db"
  shows "knowledge_inv kr db'"
proof -
  have "knowledge_inv kr (set_version (\<lambda>v. kv_id v = vid \<and> kv_hash v = Some h)
      (\<lambda>v. v\<lparr>kv_metadata := jdelete ''automationReasons'' (kv_metadata v)
         @ [(''reviewStatus'', JString (js ''required'')), (''automationStatus'', JString (js ''queued''))]\<rparr>)
      (db\<lparr>kn_runs := rs\<rparr>))" for rs
    by (rule inv_set_version) (auto simp: assms(2) version_ok_def hash_ok_def json_simps)
  then show ?thesis using assms(1) by (auto simp: retryVerifyEvidence_def split: option.splits if_splits)
qed

end
