(* ===== verification/Knowledge_Steps.thy ===== *)
theory Knowledge_Steps
  imports Knowledge_Scripts_Preserved
begin

text \<open>
  The sources, the intake and the activation script keep the invariant, and the step relation of the
  knowledge base: every operation of the server, the worker, the scripts and the repairs by hand as
  one step, in any order.
\<close>

subsection \<open>Sources and intake\<close>

lemma source_inv:
  "createSource kr i ctx db = Inr (k, db') \<Longrightarrow> knowledge_inv kq db \<Longrightarrow> knowledge_inv kq db'"
  "updateSource kr sid u ctx db = Inr (Some (k, db')) \<Longrightarrow> knowledge_inv kq db \<Longrightarrow> knowledge_inv kq db'"
  "deleteSource sid ctx db = Some db' \<Longrightarrow> knowledge_inv kq db \<Longrightarrow> knowledge_inv kq db'"
  by (auto simp: createSource_def updateSource_def deleteSource_def Let_def bindR_eq_Inr
      split: option.splits if_splits)

lemma initiate_draft_inv: "initiate_draft i key name db = Inr (vid, db') \<Longrightarrow> knowledge_inv kr db \<Longrightarrow> knowledge_inv kr db'"
  by (auto simp: initiate_draft_def Let_def blank_version_def hash_ok_def json_simps required_again_def rights_pending_def
      intro!: inv_insert_document version_ok_plain)

lemma initiateUpload_inv:
  "initiateUpload kr nfkd sign i db = Inr (vid, db') \<Longrightarrow> knowledge_inv kr db \<Longrightarrow> knowledge_inv kr db'"
  by (auto simp: initiateUpload_def Let_def bindR_eq_Inr intro: initiate_draft_inv split: option.splits)

lemma verified_version_ok:
  "version_ok kr v \<Longrightarrow> version_ok kr (v\<lparr>kv_status := KnProcessing, kv_metadata := kv_metadata v @ verified_upload\<rparr>)"
  by (auto simp: version_ok_def hash_ok_def approved_exactly_def verified_upload_def jtext_is_def)

lemma completeUpload_inv:
  assumes "completeUpload kr vid who stat db = Inr (i, db')" "knowledge_inv kr db"
  shows "knowledge_inv kr db'"
proof -
  have *: "knowledge_inv kr (set_version P (\<lambda>x. x\<lparr>kv_status := KnProcessing, kv_metadata := kv_metadata x @ verified_upload\<rparr>)
      (enqueue_task p key pl cb db))" for P p key pl cb
    by (rule inv_set_version) (simp_all add: assms(2) verified_version_ok)
  show ?thesis
    using assms *
    by (auto simp: completeUpload_def Let_def bindR_eq_Inr split: option.splits if_splits)
qed

lemma requeuePendingReviews_inv:
  assumes "requeuePendingReviews b db = (cs, db')" "knowledge_inv kr db"
  shows "knowledge_inv kr db'"
proof -
  have "knowledge_inv kr db \<Longrightarrow> knowledge_inv kr (fold queue_pending xs db)" for xs db
    by (induction xs arbitrary: db) (simp_all add: queue_pending_def)
  then show ?thesis using assms by (auto simp: requeuePendingReviews_def Let_def split: if_splits)
qed

subsection \<open>Activation\<close>

text \<open>Whatever metadata were there, the row the script writes agrees with the content it writes.\<close>

lemma activation_metadata_ok:
  assumes "md = buildPendingReviewActivationMetadata kr old h e m n at path"
    and "kv_metadata w = md" "kv_hash w = Some h" "h = kr_sha kr (kv_content w)"
  shows "version_ok kr w"
proof -
  have get: "jget ''review'' md = jget ''review'' old"
    "jget ''reviewStatus'' md = Some (JString (js (if already_approved old h then ''approved'' else ''required'')))"
    "jget ''retrievalStatus'' md
       = Some (JString (js (if already_approved old h then active_reviewed else active_pending_review)))"
    "jget ''retrievalContentHash'' md = Some (JString h)"
    by (auto simp: assms(1) buildPendingReviewActivationMetadata_def Let_def text_entry_def
        split: option.splits list.splits)
  show ?thesis
  proof (cases "already_approved old h")
    case True
    then show ?thesis using get assms
      by (intro version_ok_approved)
         (simp_all add: hash_ok_def approved_exactly_def already_approved_def Let_def jtext_is_def)
  next
    case False
    then show ?thesis using get assms
      by (simp add: version_ok_def hash_ok_def json_simps retrieval_review_policy_def)
  qed
qed

lemma plan_facts:
  assumes "activation_plan_of kr least provider path c at db = Inr p"
  shows "ap_hash p = kr_sha kr (ap_content p)"
    "\<exists>old e m n. ap_metadata p = buildPendingReviewActivationMetadata kr old (ap_hash p) e m n at path"
  using assms by (auto simp: activation_plan_of_def Let_def bindR_eq_Inr) (intro exI, rule refl)+

lemma provisional_chunks_inv: "knowledge_inv kr db \<Longrightarrow> knowledge_inv kr (provisional_chunks p vid at db)"
  by (auto simp: provisional_chunks_def Let_def split: option.splits)

lemma activate_document_inv:
  "activate_document p path c at db = (docId, db') \<Longrightarrow> knowledge_inv kr db \<Longrightarrow> knowledge_inv kr db'"
  by (auto simp: activate_document_def split: option.splits)

lemma activate_version_inv:
  assumes "activation_plan_of kr least provider path c at db0 = Inr p"
    and "activate_version p citation docId at' db = (vid, db')" "knowledge_inv kr db"
  shows "knowledge_inv kr db'"
proof -
  obtain old e m n where md: "ap_metadata p = buildPendingReviewActivationMetadata kr old (ap_hash p) e m n at path"
    using plan_facts(2)[OF assms(1)] by blast
  note ok = activation_metadata_ok[OF md _ _, where w = w for w]
  show ?thesis
  proof (cases "Option.bind (ap_existing p) ex_version")
    case None
    then show ?thesis
      using assms(2) by (intro inv_append[OF assms(3)]) (auto simp: activate_version_def plan_facts(1)[OF assms(1)] intro!: ok)
  next
    case (Some v)
    let ?f = "\<lambda>x. x\<lparr>kv_hash := Some (ap_hash p), kv_content := ap_content p, kv_citation := citation,
            kv_status := KnPublished, kv_parserVersion := Some (js provisional_parser),
            kv_metadata := ap_metadata p,
            kv_publishedAt := (case kv_publishedAt x of None \<Rightarrow> Some at' | Some t \<Rightarrow> Some t),
            kv_updatedAt := at'\<rparr>"
    show ?thesis
      by (rule inv_update[OF assms(3), where P = "\<lambda>x. kv_id x = kv_id v" and f = ?f])
         (use assms(2) Some in \<open>auto simp: activate_version_def plan_facts(1)[OF assms(1)] intro!: ok\<close>)
  qed
qed

lemma activate_candidate_inv:
  assumes "activation_plan_of kr least provider path c at db0 = Inr p" "knowledge_inv kr db"
  shows "knowledge_inv kr (activate_candidate p path c at' db)"
proof -
  obtain docId db1 where d: "activate_document p path c at' db = (docId, db1)" by force
  obtain vid db2 where v: "activate_version p (ca_citation c) docId at' db1 = (vid, db2)" by force
  have "knowledge_inv kr db2" using activate_version_inv[OF assms(1) v] activate_document_inv[OF d] assms(2) by blast
  then show ?thesis by (simp add: activate_candidate_def d v Let_def provisional_chunks_inv)
qed

lemma archiveLegacy_inv:
  assumes "archiveLegacyDocument legacy repl at db = Inr db'" "knowledge_inv kr db"
  shows "knowledge_inv kr db'"
  by (rule inv_update[OF assms(2), where P = "\<lambda>v. kv_status v = KnPublished
        \<and> list_ex (\<lambda>d. (kd_externalKey d = Some legacy \<and> kd_status d = KnPublished) \<and> kd_current d = Some (kv_id v)) (kn_documents db)"
      and f = "\<lambda>v. v\<lparr>kv_status := KnArchived, kv_updatedAt := at\<rparr>"])
     (use assms(1) in \<open>auto simp: archiveLegacyDocument_def Let_def version_ok_demote\<close>)

subsection \<open>A turn of the worker\<close>

definition keepsK :: "(kn_db \<Rightarrow> bool) \<Rightarrow> 'a kwork \<Rightarrow> bool" where
  "keepsK I m \<longleftrightarrow> (\<forall>db. I db \<longrightarrow> I (snd (m db)))"

lemma keepsK_then:
  assumes "keepsK I m" "\<And>x. keepsK I (f x)"
  shows "keepsK I (thenK m f)"
  unfolding keepsK_def
proof (intro allI impI)
  fix db assume "I db"
  then have "I (snd (m db))" using assms(1) by (simp add: keepsK_def)
  then show "I (snd (thenK m f db))"
    using assms(2) by (cases "m db"; cases "fst (m db)") (simp_all add: thenK_def keepsK_def)
qed

lemma keepsK_pure [simp]: "keepsK I (pureK r)" "keepsK I (readK q)"
  by (simp_all add: keepsK_def pureK_def readK_def)

lemma keepsK_commit: "(\<And>db db'. t db = Inr db' \<Longrightarrow> I db \<Longrightarrow> I db') \<Longrightarrow> keepsK I (commit t)"
  by (auto simp: keepsK_def commit_def split: sum.split)

lemma keepsK_external: "(\<And>d. I d \<Longrightarrow> I (kw_during w d)) \<Longrightarrow> keepsK I (kn_external w r)"
  by (simp add: keepsK_def kn_external_def)

lemma keepsK_heartbeat:
  assumes "\<And>d. knowledge_inv kr d \<Longrightarrow> knowledge_inv kr (kw_during w d)"
  shows "keepsK (knowledge_inv kr) (withLeaseHeartbeat w j r)"
  unfolding withLeaseHeartbeat_def
  by (intro keepsK_then keepsK_commit keepsK_external keepsK_pure assms) (auto intro: settle_inv)

lemma keepsK_review_again: "keepsK (knowledge_inv kr) (review_again j reason)"
  unfolding review_again_def by (intro keepsK_then keepsK_commit keepsK_pure) (auto intro: settle_inv)

lemma stage_turn_keeps:
  assumes "\<And>d. knowledge_inv kr d \<Longrightarrow> knowledge_inv kr (kw_during w d)"
  shows "keepsK (knowledge_inv kr) (stage_turn kr w k j)"
proof -
  note hb = keepsK_heartbeat[of kr w, OF assms]
  have submit: "keepsK (knowledge_inv kr) (submitOcr kr w k j)"
  proof -
    have "keepsK (knowledge_inv kr) (\<lambda>db. thenK (commit (markOcrSubmitted kr j pj (kn_now db + ko_pollInterval k)))
        (\<lambda>_. pureK (Inr WorkDeferred)) db)" for pj
    proof -
      have "keepsK (knowledge_inv kr) (thenK (commit (markOcrSubmitted kr j pj t)) (\<lambda>_. pureK (Inr WorkDeferred)))" for t
        by (intro keepsK_then keepsK_commit keepsK_pure) (auto simp: markOcrSubmitted_def intro: settle_inv)
      then show ?thesis by (simp add: keepsK_def)
    qed
    note last = this
    have send: "keepsK (knowledge_inv kr) (thenK (pureK (validateKnowledgeObjectKey key)) (\<lambda>_.
        case kw_downloadUrl w of None \<Rightarrow> pureK provider_fail
        | Some download \<Rightarrow> thenK (withLeaseHeartbeat w j (download key)) (\<lambda>url.
            thenK (pureK (validatePrivateDocumentUrl kr url (ko_hosts k))) (\<lambda>_.
            thenK (withLeaseHeartbeat w j (kw_submit w url (job_field ''filename'' j))) (\<lambda>pj db.
            thenK (commit (markOcrSubmitted kr j pj (kn_now db + ko_pollInterval k))) (\<lambda>_. pureK (Inr WorkDeferred)) db)))))"
      for key
      by (cases "kw_downloadUrl w"; simp only: option.case; intro keepsK_then keepsK_pure hb last)
    show ?thesis using send unfolding submitOcr_def by (auto split: option.split)
  qed
  have deferred: "keepsK (knowledge_inv kr) (\<lambda>db. thenK (commit (deferOcrPoll j (kn_now db + ko_pollInterval k)))
      (\<lambda>_. pureK (Inr WorkDeferred)) db)"
  proof -
    have "keepsK (knowledge_inv kr) (thenK (commit (deferOcrPoll j t)) (\<lambda>_. pureK (Inr WorkDeferred)))" for t
      by (intro keepsK_then keepsK_commit keepsK_pure) (auto simp: deferOcrPoll_def intro: settle_inv)
    then show ?thesis by (simp add: keepsK_def)
  qed
  have parsed: "keepsK (knowledge_inv kr) (let rendered = renderParsedDocument p
      in if js_trim rendered = [] then pureK (Inl (ProviderError True ''knowledge-worker''))
         else thenK (commit (saveParsedForReview kr j p rendered)) (\<lambda>_. pureK (Inr WorkReviewRequired)))" for p
    by (auto simp: Let_def intro!: keepsK_then keepsK_commit intro: saveParsed_inv)
  have polled: "keepsK (knowledge_inv kr) (\<lambda>db. case st of
      OcrFailed \<Rightarrow> (provider_fail, db)
    | OcrCompleted \<Rightarrow> thenK (withLeaseHeartbeat w j (kw_result w pj)) (\<lambda>p. let rendered = renderParsedDocument p
        in if js_trim rendered = [] then pureK (Inl (ProviderError True ''knowledge-worker''))
           else thenK (commit (saveParsedForReview kr j p rendered)) (\<lambda>_. pureK (Inr WorkReviewRequired))) db
    | _ \<Rightarrow> thenK (commit (deferOcrPoll j (kn_now db + ko_pollInterval k))) (\<lambda>_. pureK (Inr WorkDeferred)) db)" for st pj
    using deferred keepsK_then[OF hb parsed] by (cases st) (simp_all add: keepsK_def)
  have poll: "keepsK (knowledge_inv kr) (pollOcr kr w k j)"
  proof -
    have "keepsK (knowledge_inv kr) (thenK (pureK b) (\<lambda>_. thenK (withLeaseHeartbeat w j (kw_status w pj)) (\<lambda>status db.
        case status of
          OcrFailed \<Rightarrow> (provider_fail, db)
        | OcrCompleted \<Rightarrow> thenK (withLeaseHeartbeat w j (kw_result w pj)) (\<lambda>p. let rendered = renderParsedDocument p
            in if js_trim rendered = [] then pureK (Inl (ProviderError True ''knowledge-worker''))
               else thenK (commit (saveParsedForReview kr j p rendered)) (\<lambda>_. pureK (Inr WorkReviewRequired))) db
        | _ \<Rightarrow> thenK (commit (deferOcrPoll j (kn_now db + ko_pollInterval k))) (\<lambda>_. pureK (Inr WorkDeferred)) db)))" for b pj
      by (intro keepsK_then keepsK_pure hb polled)
    then show ?thesis unfolding pollOcr_def keepsK_def by (auto split: option.split)
  qed
  have embed: "keepsK (knowledge_inv kr) (embedApprovedContent kr w j)"
    unfolding embedApprovedContent_def
    by (rule keepsK_then, rule keepsK_pure, simp split: option.split)
       (intro impI allI conjI keepsK_then hb keepsK_pure keepsK_review_again,
        auto intro!: keepsK_then hb keepsK_commit keepsK_review_again split: option.split, erule (1) saveEmbeddings_inv)
  show ?thesis using submit poll embed keepsK_review_again by (auto simp: stage_turn_def Let_def)
qed

lemma kn_runOnce_inv:
  assumes "\<And>d. knowledge_inv kr d \<Longrightarrow> knowledge_inv kr (kw_during w d)" "knowledge_inv kr db"
  shows "knowledge_inv kr (snd (kn_runOnce kr w k locked db))"
proof -
  have "keepsK (knowledge_inv kr) (kn_runOnce kr w k locked)"
    unfolding kn_runOnce_def
  proof (rule keepsK_then)
    show "keepsK (knowledge_inv kr) (claimNext kr (ko_worker k) locked)"
      unfolding keepsK_def by (metis claimNext_inv prod.collapse)
    fix job :: "ingestion_job option"
    show "keepsK (knowledge_inv kr) (case job of None \<Rightarrow> pureK (Inr WorkIdle) | Some j \<Rightarrow> (\<lambda>db. case stage_turn kr w k j db of
         (Inr x, d) \<Rightarrow> (Inr x, d)
       | (Inl e, d) \<Rightarrow>
           if is_stale_lease e then (Inr WorkFailed, d)
           else case commit (markFailed kr j e (kn_now d + ko_retryDelay k)) d of
             (Inl e', d') \<Rightarrow> (if is_stale_lease e' then Inr WorkFailed else Inl e', d')
           | (Inr _, d') \<Rightarrow> (Inr WorkFailed, d')))"
    proof (cases job)
      case (Some j)
      have "knowledge_inv kr (snd (stage_turn kr w k j d))" if "knowledge_inv kr d" for d
        using stage_turn_keeps[where w = w and k = k and j = j, OF assms(1)] that by (simp add: keepsK_def)
      then show ?thesis
        unfolding Some option.case keepsK_def
        by (auto simp: commit_def split: prod.split sum.split) (metis settle_inv(4) snd_conv)+
    qed simp
  qed
  then show ?thesis using assms(2) by (simp add: keepsK_def)
qed

subsection \<open>Steps\<close>

text \<open>
  One step is one transaction, with any arguments. The completion of a section review, the
  activation of a candidate, the seeding of a source and the embedding of published chunks read in
  an earlier state than they write: that state is arbitrary.
\<close>

inductive kn_step :: "kn_rules \<Rightarrow> kn_db \<Rightarrow> kn_db \<Rightarrow> bool" for kr where
  clock: "kn_now db \<le> t \<Longrightarrow> kn_step kr db (db\<lparr>kn_now := t\<rparr>)"
| claim_job: "claimNext kr w locked db = (r, db') \<Longrightarrow> kn_step kr db db'"
| renew: "renewLease j db = Inr db' \<Longrightarrow> kn_step kr db db'"
| submitted: "markOcrSubmitted kr j pj t db = Inr db' \<Longrightarrow> kn_step kr db db'"
| deferred: "deferOcrPoll j t db = Inr db' \<Longrightarrow> kn_step kr db db'"
| review_required: "markReviewRequired j reason db = Inr db' \<Longrightarrow> kn_step kr db db'"
| failed: "markFailed kr j e t db = Inr db' \<Longrightarrow> kn_step kr db db'"
| parsed: "saveParsedForReview kr j parsed content db = Inr db' \<Longrightarrow> kn_step kr db db'"
| embedded: "saveEmbeddingsAndComplete kr j chunks db = Inr db' \<Longrightarrow> kn_step kr db db'"
| claim_runs: "service_claim kr phase n token locked db = (r, db') \<Longrightarrow> kn_step kr db db'"
| result: "submitResult kr rt token db = Inr (oc, db') \<Longrightarrow> kn_step kr db db'"
| retry: "service_retry kr mt db = Inr (mo, db') \<Longrightarrow> kn_step kr db db'"
| resolve: "service_resolve kr mt res db = Inr (mo, db') \<Longrightarrow> kn_step kr db db'"
| workspace: "getWorkspace kr docId db = Inr (ss, db') \<Longrightarrow> kn_step kr db db'"
| decision: "decide kr di db = Inr db' \<Longrightarrow> kn_step kr db db'"
| sections_complete: "complete_sections kr ci db0 db = Inr db' \<Longrightarrow> kn_step kr db db'"
| draft: "createKnowledgeDraft kr dr ctx db = Inr (i, db') \<Longrightarrow> kn_step kr db db'"
| candidate: "importKnowledgeCandidate kr c ctx db = Inr (i, db') \<Longrightarrow> kn_step kr db db'"
| edit: "updateKnowledgeDraft kr docId u ctx db = Inr (Some (i, db')) \<Longrightarrow> kn_step kr db db'"
| whole_document: "reviewKnowledgeDocument kr docId wr ctx db = Inr (Some (i, db')) \<Longrightarrow> kn_step kr db db'"
| publish: "publishKnowledgeDraft kr docId ctx db = Inr (Some (i, db')) \<Longrightarrow> kn_step kr db db'"
| archive: "archiveKnowledgeDocument docId ctx db = Inr (Some (i, db')) \<Longrightarrow> kn_step kr db db'"
| rollback: "rollbackKnowledgeDocument kr docId vid ctx db = Inr (Some (i, db')) \<Longrightarrow> kn_step kr db db'"
| new_source: "createSource kr so ctx db = Inr (i, db') \<Longrightarrow> kn_step kr db db'"
| change_source: "updateSource kr sid su ctx db = Inr (Some (i, db')) \<Longrightarrow> kn_step kr db db'"
| delete_source: "deleteSource sid ctx db = Some db' \<Longrightarrow> kn_step kr db db'"
| upload: "initiateUpload kr nfkd sign up db = Inr (i, db') \<Longrightarrow> kn_step kr db db'"
| uploaded: "completeUpload kr vid who stat db = Inr (i, db') \<Longrightarrow> kn_step kr db db'"
| pending: "requeuePendingReviews apply_it db = (cs, db') \<Longrightarrow> kn_step kr db db'"
| activate: "activation_plan_of kr least provider path c at db0 = Inr p \<Longrightarrow>
    kn_step kr db (activate_candidate p path c at db)"
| archive_legacy: "archiveLegacyDocument legacy replacement at db = Inr db' \<Longrightarrow> kn_step kr db db'"
| seed_source: "seedSource se db0 db = (i, db') \<Longrightarrow> kn_step kr db db'"
| seed_core: "seedCore kr co db = Inr db' \<Longrightarrow> kn_step kr db db'"
| seed_candidate: "seedCandidate kr c path db = Inr (st, db') \<Longrightarrow> kn_step kr db db'"
| embed_published: "embedPublished kr provider limit db0 db = Inr db' \<Longrightarrow> kn_step kr db db'"
| restore_review: "restorePhaseOne kr manifest entries adopt db = Inr db' \<Longrightarrow> kn_step kr db db'"
| retry_embedding: "retryEmbeddingJob docId vid h db = Some db' \<Longrightarrow> kn_step kr db db'"
| retry_evidence: "retryVerifyEvidence docId vid runId h db = Some db' \<Longrightarrow> kn_step kr db db'"

lemma kn_step_inv: "kn_step kr db db' \<Longrightarrow> hash_rules kr \<Longrightarrow> knowledge_inv kr db \<Longrightarrow> knowledge_inv kr db'"
proof (induction rule: kn_step.induct)
  case (submitted j pj t db db')
  then show ?case using settle_inv(2) by (simp add: markOcrSubmitted_def)
next
  case (deferred j t db db')
  then show ?case using settle_inv(2) by (simp add: deferOcrPoll_def)
qed (simp_all add: claimNext_inv settle_inv saveParsed_inv saveEmbeddings_inv service_claim_inv submitResult_inv
    manual_service_inv getWorkspace_inv decide_inv complete_sections_inv createKnowledgeDraft_inv
    importKnowledgeCandidate_inv updateKnowledgeDraft_inv reviewKnowledgeDocument_inv publishKnowledgeDraft_inv
    archiveKnowledgeDocument_inv rollbackKnowledgeDocument_inv source_inv initiateUpload_inv completeUpload_inv
    requeuePendingReviews_inv activate_candidate_inv archiveLegacy_inv seedSource_inv seedCore_inv seedCandidate_inv
    embedPublished_inv restorePhaseOne_inv retryEmbeddingJob_inv retryVerifyEvidence_inv)

end
