(* ===== verification/Knowledge_Publication.thy ===== *)
theory Knowledge_Publication
  imports Knowledge_Steps
begin

text \<open>
  What it takes to be published: the two agreeing runs of the automation, the approved sections, or
  the note of a manual resolution.
\<close>

subsection \<open>What the invariant gives a reader\<close>

lemma served_reviewed:
  assumes "version_ok kr v" "retrieval_review_policy v"
  shows "\<exists>h. kv_hash v = Some h \<and> h = kr_sha kr (kv_content v)
    \<and> (jtext_is ''status'' ''approved'' (recordValue (jget ''review'' (kv_metadata v)))
         \<and> jstring (jget ''contentHash'' (recordValue (jget ''review'' (kv_metadata v)))) = Some h
       \<or> jtext_is ''reviewStatus'' ''required'' (kv_metadata v)
         \<and> jtext_is ''retrievalStatus'' active_pending_review (kv_metadata v)
         \<and> jstring (jget ''retrievalContentHash'' (kv_metadata v)) = Some h)"
  using assms unfolding version_ok_def hash_ok_def approved_exactly_def retrieval_review_policy_def Let_def
  by (cases "kv_hash v") auto

lemma eligible_published:
  assumes "lexical_eligible db c"
  obtains v where "lookup kv_id (kc_version c) (kn_versions db) = Some v" "kv_status v = KnPublished"
    "retrieval_review_policy v"
  using assms by (auto simp: lexical_eligible_def chunk_join_def current_published_def split: option.splits)

subsection \<open>The two runs of an automated publication\<close>

text \<open>A run of the policy that approved exactly this version and hash.\<close>

definition approval_run :: "nat \<Rightarrow> js_string \<Rightarrow> review_phase \<Rightarrow> review_run \<Rightarrow> bool" where
  "approval_run vid hash phase r \<longleftrightarrow> rr_phase r = phase \<and> rr_status r = RevCompleted \<and> rr_decision r = Some DecApproved
     \<and> rr_risk r = Some RevLow \<and> rr_prompt r = js automation_policy
     \<and> (rr_inputVersion r = vid \<and> rr_inputHash r = hash \<or> phase = PhaseInitial \<and> rr_revised r = Some vid)
     \<and> (\<exists>rep. rr_report r = Some rep \<and> sr_outputVersionId rep = vid \<and> sr_outputHash rep = hash
          \<and> sr_blockers rep = [] \<and> sr_sourceRightsValid rep)"

lemma those_eq_Nil: "those xs = Some ys \<Longrightarrow> ys = [] \<Longrightarrow> xs = []"
  by (cases xs) (auto split: option.splits)

lemma completed_run_facts:
  assumes "knowledgeAutomationReviewRunSchema r = Some c"
  shows "cr_run c = r" "rr_status r = RevCompleted" "rr_decision r = Some (cr_decision c)" "rr_risk r = Some (cr_risk c)"
    "\<exists>rep. rr_report r = Some rep \<and> sr_outputVersionId (cr_report c) = sr_outputVersionId rep
       \<and> sr_outputHash (cr_report c) = sr_outputHash rep \<and> sr_sourceRightsValid (cr_report c) = sr_sourceRightsValid rep
       \<and> (sr_blockers (cr_report c) = [] \<longrightarrow> sr_blockers rep = [])"
  using assms
  by (auto simp: knowledgeAutomationReviewRunSchema_def storedAutomationReviewReportSchema_def bind_eq_Some_conv
      dest: those_eq_Nil split: if_splits)

lemma single_filter: "filter P xs = [y] \<Longrightarrow> y \<in> set xs \<and> P y"
  by (metis filter_eq_ConsD in_set_conv_decomp)

lemma one_list_cases:
  obtains "xs = []" | x where "xs = [x]" | x y ys where "xs = x # y # ys"
  by (cases xs rule: remdups_adj.cases) auto

lemma readiness_runs:
  assumes "evaluateKnowledgePublicationReadiness vid hash True runs False = rd" "rd_ready rd"
    and "\<forall>r\<in>set runs. rr_prompt r = js automation_policy"
  obtains r q where "r \<in> set runs" "q \<in> set runs" "rr_id r \<noteq> rr_id q"
    "approval_run vid hash PhaseInitial r" "approval_run vid hash PhaseVerify q"
proof -
  define eligible where "eligible = filter (eligible_run vid hash) (List.map_filter knowledgeAutomationReviewRunSchema runs)"
  define first where "first = filter (\<lambda>r. rr_phase (cr_run r) = PhaseInitial) eligible"
  define second where "second = filter (\<lambda>r. rr_phase (cr_run r) = PhaseVerify) eligible"
  have "\<exists>a b. first = [a] \<and> second = [b] \<and> rr_id (cr_run a) \<noteq> rr_id (cr_run b)
      \<and> cr_risk a = RevLow \<and> cr_risk b = RevLow \<and> sr_blockers (cr_report a) = [] \<and> sr_blockers (cr_report b) = []"
    using assms(1,2)
    unfolding evaluateKnowledgePublicationReadiness_def eligible_def[symmetric] first_def[symmetric] second_def[symmetric]
      Let_def
    by (cases first rule: one_list_cases; cases second rule: one_list_cases)
       (auto simp: blocked_def split: if_split_asm)
  then obtain a b where ab: "first = [a]" "second = [b]" "rr_id (cr_run a) \<noteq> rr_id (cr_run b)"
    "cr_risk a = RevLow" "cr_risk b = RevLow" "sr_blockers (cr_report a) = []" "sr_blockers (cr_report b) = []"
    by blast
  have run: "cr_run c \<in> set runs \<and> approval_run vid hash p (cr_run c)"
    if "c \<in> set eligible" "rr_phase (cr_run c) = p" "cr_risk c = RevLow" "sr_blockers (cr_report c) = []" for c p
  proof -
    note mem = that(1)
    obtain r where r: "r \<in> set runs" "knowledgeAutomationReviewRunSchema r = Some c" and e: "eligible_run vid hash c"
      using mem by (auto simp: eligible_def List.map_filter_def)
    note f = completed_run_facts[OF r(2)]
    show ?thesis
      using e f r(1) that(2-4) assms(3)
      by (auto simp: approval_run_def eligible_run_def storedTargetMatches_def targetsCurrentInput_def
          targetsRecordedRevision_def)
  qed
  have "a \<in> set eligible \<and> rr_phase (cr_run a) = PhaseInitial" "b \<in> set eligible \<and> rr_phase (cr_run b) = PhaseVerify"
    using single_filter ab(1,2) unfolding first_def second_def by fastforce+
  then show thesis using run ab(3-7) that by metis
qed


text \<open>The target of a job is the only version with its id.\<close>

lemma current_target_facts:
  assumes "current_target vt dt db = Some (v, d, s)"
  shows "v \<in> set (kn_versions db)" "Some (id_text (kv_id v)) = vt" "Some (id_text (kv_document v)) = dt"
    "lookup kd_id (kv_document v) (kn_documents db) = Some d" "kd_current d = Some (kv_id v)" "document_source d db = s"
  using assms by (auto simp: current_target_def document_source_def find_Some_iff split: option.splits if_splits)

lemma publication_ready_facts:
  assumes "isAutomationPublicationReady kr j review db"
  obtains v d s h r q where "current_target (job_field ''versionId'' j) (job_field ''documentId'' j) db = Some (v, d, Some s)"
    "kv_hash v = Some h" "source_publishable kr (Some s) (kv_citation v)"
    "r \<in> set (kn_runs db)" "q \<in> set (kn_runs db)" "rr_id r \<noteq> rr_id q"
    "approval_run (kv_id v) h PhaseInitial r" "approval_run (kv_id v) h PhaseVerify q"
proof -
  define target where "target = current_target (job_field ''versionId'' j) (job_field ''documentId'' j) db"
  define rows where "rows = sort_by (\<lambda>a b. rr_createdAt a \<le> rr_createdAt b) (filter (\<lambda>r.
      (Some (id_text (rr_id r)) = jstring (jget ''initialRunId'' review)
       \<or> Some (id_text (rr_id r)) = jstring (jget ''verifyRunId'' review))
      \<and> rr_prompt r = js automation_policy \<and> rr_status r = RevCompleted \<and> rr_decision r = Some DecApproved) (kn_runs db))"
  obtain v d s where t: "target = Some (v, d, Some s)"
    using assms unfolding isAutomationPublicationReady_def target_def[symmetric] Let_def
    by (auto split: if_splits option.splits)
  have "\<exists>h. kv_hash v = Some h \<and> source_publishable kr (Some s) (kv_citation v)
      \<and> rd_ready (evaluateKnowledgePublicationReadiness (kv_id v) h True rows False)"
    using assms unfolding isAutomationPublicationReady_def target_def[symmetric] t Let_def rows_def[symmetric]
    by (auto split: if_splits)
  then obtain h where h: "kv_hash v = Some h" "source_publishable kr (Some s) (kv_citation v)"
    "rd_ready (evaluateKnowledgePublicationReadiness (kv_id v) h True rows False)" by blast
  have rows: "set rows \<subseteq> set (kn_runs db)" "\<forall>r\<in>set rows. rr_prompt r = js automation_policy"
    by (auto simp: rows_def set_sort_by)
  from readiness_runs[OF refl h(3) rows(2)] obtain r q where rq: "r \<in> set rows" "q \<in> set rows" "rr_id r \<noteq> rr_id q"
    "approval_run (kv_id v) h PhaseInitial r" "approval_run (kv_id v) h PhaseVerify q" by blast
  show thesis
    by (rule that[OF t[unfolded target_def] h(1,2) _ _ rq(3-5)]) (use rq(1,2) rows(1) in auto)
qed

lemma embeddings_publish:
  assumes "saveEmbeddingsAndComplete kr j chunks db = Inr db'" "distinct (map kv_id (kn_versions db))"
    and "w \<in> set (kn_versions db')" "kv_status w = KnPublished"
    and "\<forall>u\<in>set (kn_versions db). kv_id u = kv_id w \<longrightarrow> kv_status u \<noteq> KnPublished"
  obtains v d s h r q where "lookup kv_id (kv_id w) (kn_versions db) = Some v" "kv_hash v = Some h"
    "lookup kd_id (kv_document v) (kn_documents db) = Some d" "kd_current d = Some (kv_id v)"
    "document_source d db = Some s" "source_publishable kr (Some s) (kv_citation v)"
    "r \<in> set (kn_runs db)" "q \<in> set (kn_runs db)" "rr_id r \<noteq> rr_id q"
    "approval_run (kv_id v) h PhaseInitial r" "approval_run (kv_id v) h PhaseVerify q"
    "kv_hash w = kv_hash v" "kv_content w = kv_content v" "kv_citation w = kv_citation v"
  using assms(1)
proof (rule saveEmbeddings_cases)
  fix review v db1 db2 db3 published
  assume r: "published = isAutomationPublicationReady kr j review db"
    and v: "v \<in> set (kn_versions db)" "Some (id_text (kv_id v)) = job_field ''versionId'' j"
    and chunks: "replace_chunks (kv_id v) chunks db = Inr db1"
    and up: "update_version (\<lambda>x. kv_id x = kv_id v \<and> Some (id_text (kv_document x)) = job_field ''documentId'' j
        \<and> kv_status x = KnReview \<and> kv_hash x = jstring (jget ''contentHash'' review))
      (\<lambda>x. x\<lparr>kv_status := (if published then KnPublished else KnReview),
         kv_publishedAt := (if published then Some (kn_now db) else kv_publishedAt x),
         kv_metadata := kv_metadata x @
           [(''reviewStatus'', JString (js ''approved'')), (''embeddingStatus'', JString (js ''completed'')),
            (''embeddedChunkCount'', JNumber (int (length chunks))), (''review'', JObject review)]\<rparr>)
      (PlainError ''Reviewed knowledge content changed before embeddings were saved.'') db1 = Inr db2"
    and doc: "update_document (\<lambda>x. Some (id_text (kd_id x)) = job_field ''documentId'' j
        \<and> kd_current x = Some (kv_id v) \<and> kd_status x = KnReview)
      (\<lambda>x. x\<lparr>kd_status := (if published then KnPublished else KnReview)\<rparr>)
      (PlainError ''Reviewed knowledge version is no longer the current document version.'') db2 = Inr db3"
    and fin: "\<exists>result. update_task j (succeed_task db result)
      (if published then kn_audited (publication_audit (kv_id v) j review (length chunks) db) db3 else db3) = Inr db'"
  have "kn_versions db' = kn_versions db2" "kn_versions db1 = kn_versions db"
    using chunks doc fin
    by (auto simp: replace_chunks_def update_document_def update_task_def kn_audited_def split: if_splits)
  then obtain u where u: "u \<in> set (kn_versions db)" "kv_id u = kv_id v" "published" "kv_id w = kv_id u"
      "kv_hash w = kv_hash u" "kv_content w = kv_content u" "kv_citation w = kv_citation u"
    using up assms(3-5) by (auto simp: update_version_def elim!: in_update_whereE split: if_splits)
  then have uv: "u = v" using assms(2) v(1) distinct_key_unique by metis
  obtain v' d s h r q where t: "current_target (job_field ''versionId'' j) (job_field ''documentId'' j) db = Some (v', d, Some s)"
    and f: "kv_hash v' = Some h" "source_publishable kr (Some s) (kv_citation v')"
    "r \<in> set (kn_runs db)" "q \<in> set (kn_runs db)" "rr_id r \<noteq> rr_id q"
    "approval_run (kv_id v') h PhaseInitial r" "approval_run (kv_id v') h PhaseVerify q"
    using publication_ready_facts u(3) unfolding r by metis
  note t' = current_target_facts[OF t]
  have vv: "v' = v"
    using t'(1,2) v assms(2) by (metis distinct_key_unique id_text_inject option.inject)
  have "lookup kv_id (kv_id w) (kn_versions db) = Some v"
    using lookup_Some_iff[OF assms(2)] v(1) u(4) uv by simp
  then show thesis
    using that[OF _ f(1)[unfolded vv] t'(4)[unfolded vv] t'(5)[unfolded vv] t'(6) f(2)[unfolded vv] f(3-5)
        f(6,7)[unfolded vv]] u(5-7) uv by simp
qed


subsection \<open>The row a job leaves\<close>

lemma lookup_updated_row:
  assumes "distinct (map key xs)" "x \<in> set xs" "key x = k" "P x" "\<And>y. P y \<Longrightarrow> key (f y) = key y"
  shows "lookup key k (update_where P f xs) = Some (f x)"
proof -
  have "map key (update_where P f xs) = map key xs" using assms(5) by (rule map_update_where)
  then have "distinct (map key (update_where P f xs))" using assms(1) by simp
  then show ?thesis using assms(2-5) by (auto simp: lookup_Some_iff set_update_where)
qed

lemma embeddings_row:
  assumes "saveEmbeddingsAndComplete kr j chunks db = Inr db'" "distinct (map kv_id (kn_versions db))"
    and "job_review j = Some review" "job_field ''versionId'' j = Some (id_text vid)"
  shows "\<exists>v. lookup kv_id vid (kn_versions db') = Some v
    \<and> kv_status v = (if isAutomationPublicationReady kr j review db then KnPublished else KnReview)
    \<and> jget ''review'' (kv_metadata v) = Some (JObject review)"
  using assms(1)
proof (rule saveEmbeddings_cases)
  fix review' v db1 db2 db3 published
  assume r: "published = isAutomationPublicationReady kr j review' db" "job_review j = Some review'"
    and v: "v \<in> set (kn_versions db)" "Some (id_text (kv_id v)) = job_field ''versionId'' j"
    and chunks: "replace_chunks (kv_id v) chunks db = Inr db1"
    and up: "update_version (\<lambda>x. kv_id x = kv_id v \<and> Some (id_text (kv_document x)) = job_field ''documentId'' j
        \<and> kv_status x = KnReview \<and> kv_hash x = jstring (jget ''contentHash'' review'))
      (\<lambda>x. x\<lparr>kv_status := (if published then KnPublished else KnReview),
         kv_publishedAt := (if published then Some (kn_now db) else kv_publishedAt x),
         kv_metadata := kv_metadata x @
           [(''reviewStatus'', JString (js ''approved'')), (''embeddingStatus'', JString (js ''completed'')),
            (''embeddedChunkCount'', JNumber (int (length chunks))), (''review'', JObject review')]\<rparr>)
      (PlainError ''Reviewed knowledge content changed before embeddings were saved.'') db1 = Inr db2"
    and doc: "update_document (\<lambda>x. Some (id_text (kd_id x)) = job_field ''documentId'' j
        \<and> kd_current x = Some (kv_id v) \<and> kd_status x = KnReview)
      (\<lambda>x. x\<lparr>kd_status := (if published then KnPublished else KnReview)\<rparr>)
      (PlainError ''Reviewed knowledge version is no longer the current document version.'') db2 = Inr db3"
    and fin: "\<exists>result. update_task j (succeed_task db result)
      (if published then kn_audited (publication_audit (kv_id v) j review' (length chunks) db) db3 else db3) = Inr db'"
  have eq: "kn_versions db' = kn_versions db2" "kn_versions db1 = kn_versions db"
    using chunks doc fin
    by (auto simp: replace_chunks_def update_document_def update_task_def kn_audited_def split: if_splits)
  have rev: "review' = review" "kv_id v = vid" using r(2) v(2) assms(3,4) by simp_all
  let ?P = "\<lambda>x. kv_id x = kv_id v \<and> Some (id_text (kv_document x)) = job_field ''documentId'' j
        \<and> kv_status x = KnReview \<and> kv_hash x = jstring (jget ''contentHash'' review')"
  obtain u where u: "u \<in> set (kn_versions db)" "?P u"
    using up by (auto simp: update_version_def eq(2) list_ex_iff split: if_splits)
  then have "u = v" using v(1) assms(2) distinct_key_unique by metis
  with u(2) have "?P v" by simp
  show ?thesis
    unfolding eq(1)
    using up eq(2) lookup_updated_row[OF assms(2) v(1) rev(2), where P = ?P] \<open>?P v\<close> r(1) rev
    by (auto simp: update_version_def split: if_splits)
qed

lemma section_review_not_automatic: "\<not> isAutomationPublicationReady kr j (section_review kr' i at) db"
  by (simp add: isAutomationPublicationReady_def section_review_def)

subsection \<open>Decisions\<close>

lemma decide_write:
  assumes "decide kr i db = Inr db'"
  obtains h where "writeDecision i h db = Inr db'"
  using assms by (auto simp: decide_def bindR_eq_Inr conflict_def split: option.splits if_splits)

lemma decide_revision:
  assumes "decide kr i db = Inr db'"
  shows "(case find (\<lambda>d. sd_section d = de_section i) (kn_decisions db) of None \<Rightarrow> 0 | Some d \<Rightarrow> sd_revision d) = de_revision i"
  using assms by (elim decide_write) (auto simp: writeDecision_def Let_def)

lemma find_update_first:
  "find P xs = Some x \<Longrightarrow> Q x \<Longrightarrow> P (f x) \<Longrightarrow> (\<And>y. Q y \<Longrightarrow> P y) \<Longrightarrow> find P (update_where Q f xs) = Some (f x)"
  by (induction xs) (auto simp: update_where_def split: if_splits)

lemma find_append_new: "find P xs = None \<Longrightarrow> P y \<Longrightarrow> find P (xs @ [y]) = Some y"
  by (induction xs) (auto split: if_splits)

lemma decide_records:
  assumes "decide kr i db = Inr db'"
  shows "\<exists>row. find (\<lambda>r. sd_section r = de_section i) (kn_decisions db') = Some row
    \<and> sd_revision row = de_revision i + 1 \<and> sd_decision row = de_decision i \<and> sd_reviewer row = Some (de_reviewer i)"
  using assms
proof (rule decide_write)
  fix h
  assume w: "writeDecision i h db = Inr db'"
  define row where "row = \<lparr>sd_section = de_section i, sd_hash = h, sd_decision = de_decision i, sd_note = de_note i,
      sd_reviewer = Some (de_reviewer i), sd_revision = de_revision i + 1, sd_decidedAt = kn_now db\<rparr>"
  have "find (\<lambda>r. sd_section r = de_section i) (kn_decisions db') = Some row"
  proof (cases "find (\<lambda>d. sd_section d = de_section i) (kn_decisions db)")
    case None
    then have "kn_decisions db' = kn_decisions db @ [row]"
      using w by (auto simp: writeDecision_def kn_audited_def row_def Let_def split: if_splits)
    then show ?thesis using find_append_new[OF None, of row] by (simp add: row_def)
  next
    case (Some d)
    then have "kn_decisions db' = update_where (\<lambda>d. sd_section d = de_section i \<and> sd_revision d = de_revision i)
        (\<lambda>_. row) (kn_decisions db)" "sd_revision d = de_revision i"
      using w Some by (auto simp: writeDecision_def kn_audited_def row_def Let_def split: if_splits)
    moreover have "sd_section d = de_section i" using Some find_SomeD by fastforce
    ultimately show ?thesis
      using find_update_first[OF Some, of "\<lambda>d. sd_section d = de_section i \<and> sd_revision d = de_revision i" "\<lambda>_. row"]
      by (simp add: row_def)
  qed
  then show ?thesis by (simp add: row_def)
qed

subsection \<open>Chunks\<close>

lemma chunkReviewedMarkdown_ok:
  assumes "chunkReviewedMarkdown content width overlap = Inr cs"
  shows "(\<forall>c\<in>set cs. trimmed_text (kt_content c) \<and> length (kt_content c) \<le> width)
    \<and> (\<forall>(page, t)\<in>set (content_pages content). \<forall>p\<in>set (page_paragraphs t). length p \<le> width \<longrightarrow>
         (\<exists>c\<in>set cs. kt_page c = page \<and> js_infix p (kt_content c)))"
proof -
  have cs: "cs = concat (map (chunk_page width overlap) (content_pages content))" and w: "overlap < width"
    using assms by (auto simp: chunkReviewedMarkdown_def split: if_splits)
  note page = chunk_page_ok[OF w]
  have "page_paragraphs [] = []" by (simp add: page_paragraphs_def js_trim_def trimStart_def)
  then have "\<exists>c\<in>set (chunk_page width overlap (pg, t)). kt_page c = pg \<and> js_infix p (kt_content c)"
    if "p \<in> set (page_paragraphs t)" "length p \<le> width" for pg t p
    using page[of pg t] that by (cases "t = []") (fastforce simp: chunks_ok_def)+
  moreover have "trimmed_text (kt_content c) \<and> length (kt_content c) \<le> width"
    if "c \<in> set (chunk_page width overlap (pg, t))" for c pg t
    using page[of pg t] that by (auto simp: chunks_ok_def)
  ultimately show ?thesis unfolding cs by fastforce
qed


subsection \<open>The chunks a completed turn stores\<close>

lemma thenK_Inr: "thenK m f db = (Inr x, db') \<longleftrightarrow> (\<exists>y d. m db = (Inr y, d) \<and> f y d = (Inr x, db'))"
  by (auto simp: thenK_def split: prod.splits sum.splits)

lemma kwork_Inr:
  "pureK r db = (Inr x, db') \<longleftrightarrow> r = Inr x \<and> db' = db" "readK q db = (Inr x, db') \<longleftrightarrow> q db = Inr x \<and> db' = db"
  "commit t db = (Inr u, db') \<longleftrightarrow> t db = Inr db'"
  by (auto simp: pureK_def readK_def commit_def split: sum.splits)

lemma review_again_not_completed: "review_again j reason db \<noteq> (Inr WorkCompleted, db')"
  by (simp add: review_again_def thenK_Inr kwork_Inr)

lemma thenK_steps:
  "thenK (pureK (Inr y)) f = f y"
  "m db = (Inr y, d) \<Longrightarrow> thenK m f db = f y d"
  by (auto simp: thenK_def pureK_def)

lemma thenK_E:
  "thenK m f db = (Inr x, db') \<Longrightarrow> (\<And>y d. m db = (Inr y, d) \<Longrightarrow> f y d = (Inr x, db') \<Longrightarrow> thesis) \<Longrightarrow> thesis"
  by (auto simp: thenK_Inr)

lemma refused_E:
  "(if b then review_again j reason else m) db = (Inr WorkCompleted, db') \<Longrightarrow>
   (\<not> b \<Longrightarrow> m db = (Inr WorkCompleted, db') \<Longrightarrow> thesis) \<Longrightarrow> thesis"
  "(case v of None \<Rightarrow> review_again j reason | Some c \<Rightarrow> g c) db = (Inr WorkCompleted, db') \<Longrightarrow>
   (\<And>c. v = Some c \<Longrightarrow> g c db = (Inr WorkCompleted, db') \<Longrightarrow> thesis) \<Longrightarrow> thesis"
  "(if b then pureK (Inl e) else m) db = (Inr x, db') \<Longrightarrow> (\<not> b \<Longrightarrow> m db = (Inr x, db') \<Longrightarrow> thesis) \<Longrightarrow> thesis"
  by (auto simp: review_again_not_completed kwork_Inr split: if_splits option.splits)

lemma completed_turn:
  assumes "embedApprovedContent kr w j db = (Inr WorkCompleted, db')"
  obtains review content base vectors m d where "job_review j = Some review"
    "jstring (jget ''contentHash'' review) = Some (kr_sha kr content)"
    "chunkReviewedMarkdown content default_chunk_characters default_chunk_overlap = Inr base" "base \<noteq> []"
    "length vectors = length base" "list_all vector_ok vectors"
    "saveEmbeddingsAndComplete kr j (map (embedded_chunk_of review m) (zip base vectors)) d = Inr db'"
proof -
  obtain review where r: "job_review j = Some review"
    using assms by (cases "job_review j")
      (auto simp: embedApprovedContent_def thenK_Inr kwork_Inr review_again_not_completed)
  show thesis
    using assms unfolding embedApprovedContent_def r option.case
    by (elim thenK_E refused_E) (auto simp: kwork_Inr embedding_ok_def intro: that[OF r sym])
qed

lemma stored_rows:
  assumes "saveEmbeddingsAndComplete kr j chunks d = Inr db'" "\<forall>c\<in>set chunks. vector_ok (em_embedding c)"
  shows "\<exists>vid rows. job_field ''versionId'' j = Some (id_text vid) \<and> rows = filter (\<lambda>c. kc_version c = vid) (kn_chunks db')
    \<and> map kc_content rows = map kt_content chunks \<and> map kc_index rows = [0..<length chunks]
    \<and> (\<forall>c\<in>set rows. \<exists>x. kc_embedding c = Some x \<and> vector_ok x)"
  using assms(1)
proof (rule saveEmbeddings_cases)
  fix review v db1 db2 db3 published
  assume v: "Some (id_text (kv_id v)) = job_field ''versionId'' j"
    and chunks: "replace_chunks (kv_id v) chunks d = Inr db1"
    and up: "update_version (\<lambda>x. kv_id x = kv_id v \<and> Some (id_text (kv_document x)) = job_field ''documentId'' j
        \<and> kv_status x = KnReview \<and> kv_hash x = jstring (jget ''contentHash'' review))
      (\<lambda>x. x\<lparr>kv_status := (if published then KnPublished else KnReview),
         kv_publishedAt := (if published then Some (kn_now d) else kv_publishedAt x),
         kv_metadata := kv_metadata x @
           [(''reviewStatus'', JString (js ''approved'')), (''embeddingStatus'', JString (js ''completed'')),
            (''embeddedChunkCount'', JNumber (int (length chunks))), (''review'', JObject review)]\<rparr>)
      (PlainError ''Reviewed knowledge content changed before embeddings were saved.'') db1 = Inr db2"
    and doc: "update_document (\<lambda>x. Some (id_text (kd_id x)) = job_field ''documentId'' j
        \<and> kd_current x = Some (kv_id v) \<and> kd_status x = KnReview)
      (\<lambda>x. x\<lparr>kd_status := (if published then KnPublished else KnReview)\<rparr>)
      (PlainError ''Reviewed knowledge version is no longer the current document version.'') db2 = Inr db3"
    and fin: "\<exists>result. update_task j (succeed_task d result)
      (if published then kn_audited (publication_audit (kv_id v) j review (length chunks) d) db3 else db3) = Inr db'"
  have "kn_chunks db' = kn_chunks db1"
    using up doc fin
    by (auto simp: update_version_def update_document_def update_task_def kn_audited_def split: if_splits)
  also have "\<dots> = filter (\<lambda>c. kc_version c \<noteq> kv_id v) (kn_chunks d) @ map (chunk_row_of d (kv_id v)) (List.enumerate 0 chunks)"
    using chunks by (auto simp: replace_chunks_def split: if_splits)
  finally have "filter (\<lambda>c. kc_version c = kv_id v) (kn_chunks db') = map (chunk_row_of d (kv_id v)) (List.enumerate 0 chunks)"
    by (auto simp: chunk_row_of_def split_beta filter_empty_conv intro!: filter_True)
  moreover have "map kc_content (map (chunk_row_of d (kv_id v)) (List.enumerate 0 chunks)) = map kt_content chunks"
    "map kc_index (map (chunk_row_of d (kv_id v)) (List.enumerate 0 chunks)) = [0..<length chunks]"
    by (auto simp: chunk_row_of_def split_beta enumerate_eq_zip intro!: nth_equalityI)
  moreover have "\<forall>c\<in>set (map (chunk_row_of d (kv_id v)) (List.enumerate 0 chunks)). \<exists>x. kc_embedding c = Some x \<and> vector_ok x"
    using assms(2) by (auto simp: chunk_row_of_def in_set_enumerate_eq)
  ultimately show ?thesis using v by metis
qed

lemma embedded_chunk_fields [simp]:
  "kt_content (embedded_chunk_of r m cv) = kt_content (fst cv)" "em_embedding (embedded_chunk_of r m cv) = snd cv"
  by (simp_all add: embedded_chunk_of_def knowledge_chunk.defs embedded_chunk.defs)

lemma zip_chunk_contents:
  "length base = length vectors \<Longrightarrow> map kt_content (map (embedded_chunk_of r m) (zip base vectors)) = map kt_content base"
  by (induction base vectors rule: list_induct2) simp_all

end
