(* ===== verification/Knowledge_Demo.thy ===== *)
theory Knowledge_Demo
  imports Knowledge_Publication
begin

text \<open>
  A small knowledge base on which the witnesses evaluate the model: one internal source, one full
  text in review that both runs of the automation approved, and the embedding task a worker holds.
\<close>

definition demo_hash :: js_string where "demo_hash = replicate 64 48"

definition demo_kr :: kn_rules where
  "demo_kr = \<lparr>kr_sha = \<lambda>_. demo_hash, kr_compare = \<lambda>_ _. True, kr_date = \<lambda>_. Some 0, kr_iso = \<lambda>_. js ''t'',
     kr_url = \<lambda>_. Some \<lparr>pu_protocol = js ''https:'', pu_username = [], pu_password = [], pu_port = [],
       pu_hostname = js ''a'', pu_keys = [], pu_href = js ''https://a'', pu_hashless = js ''https://a''\<rparr>,
     kr_lower = id, kr_error_text = \<lambda>_. []\<rparr>"

definition demo_source :: source_row where
  "demo_source = \<lparr>ks_id = 1, ks_kind = ''manual'', ks_name = js ''S'', ks_baseUrl = None,
     ks_canonicalUrl = Some (js ''https://a''), ks_publisher = Some (js ''P''), ks_tier = TierInternal,
     ks_licensePolicy = None, ks_notes = None, ks_enabled = True,
     ks_metadata = [(''commercialAiRightsConfirmed'', JBool True)], ks_createdBy = None, ks_createdAt = 0,
     ks_updatedAt = 0, ks_deletedAt = None\<rparr>"

definition demo_document :: document_row where
  "demo_document = \<lparr>kd_id = 1, kd_source = Some 1, kd_externalKey = None, kd_title = js ''D'', kd_description = None,
     kd_language = js ''zh-CN'', kd_mimeType = None, kd_status = KnReview, kd_current = Some 2, kd_tags = [],
     kd_metadata = [], kd_createdBy = Some (js ''u''), kd_createdAt = 0, kd_updatedAt = 0\<rparr>"

definition demo_version :: version_row where
  "demo_version = \<lparr>kv_id = 2, kv_document = 1, kv_version = 1, kv_hash = Some demo_hash, kv_content = js ''c'',
     kv_citation = [(''ingestionMode'', JString (js ''full_text''))], kv_status = KnReview, kv_objectKey = None,
     kv_parserVersion = None, kv_sourceUpdatedAt = None, kv_metadata = [], kv_createdBy = Some (js ''u''),
     kv_publishedAt = None, kv_createdAt = 0, kv_updatedAt = 0\<rparr>"

definition demo_automation_report :: automation_report where
  "demo_automation_report = \<lparr>ar_summary = js ''s'', ar_risk = RevLow, ar_decision = DecApproved, ar_findings = [],
     ar_blockers = [], ar_evidence = [], ar_numericClaims = []\<rparr>"

definition demo_stored_report :: stored_report where
  "demo_stored_report = \<lparr>sr_summary = js ''s'', sr_outputContentHash = demo_hash, sr_findings = [], sr_blockers = [],
     sr_evidence = [], sr_numericClaims = [], sr_idempotencyTokenHash = demo_hash,
     sr_submittedReport = demo_automation_report, sr_submittedRevisionHash = None, sr_outputVersionId = 2,
     sr_outputHash = demo_hash, sr_sourceRightsValid = True, sr_queuedPhase = None\<rparr>"

definition demo_run :: "nat \<Rightarrow> review_phase \<Rightarrow> review_run" where
  "demo_run i phase = \<lparr>rr_id = i, rr_phase = phase, rr_status = RevCompleted, rr_inputVersion = 2,
     rr_inputHash = demo_hash, rr_model = js review_model, rr_prompt = js automation_policy, rr_risk = Some RevLow,
     rr_report = Some demo_stored_report, rr_decision = Some DecApproved, rr_tokenHash = None,
     rr_leaseExpiresAt = None, rr_attempts = 1, rr_revised = None, rr_completedAt = Some 0, rr_createdAt = 0,
     rr_updatedAt = 0\<rparr>"

definition demo_review :: jobject where
  "demo_review = [(''status'', JString (js ''approved'')), (''policyVersion'', JString (js automation_policy)),
     (''risk'', JString (js ''low'')), (''initialRunId'', JString (id_text 3)), (''verifyRunId'', JString (id_text 4)),
     (''reviewedBy'', JString (js ''codex'')), (''reviewedAt'', JString (js ''t'')), (''contentHash'', JString demo_hash)]"

definition demo_payload :: "jobject \<Rightarrow> jobject" where
  "demo_payload review = [(''stage'', JString (js ''embedding_pending'')), (''documentId'', JString (id_text 1)),
     (''versionId'', JString (id_text 2)), (''review'', JObject review)]"

definition demo_task :: "jobject \<Rightarrow> task_row" where
  "demo_task review = \<lparr>bt_id = 5, bt_type = ingestion_type, bt_status = OpRunning, bt_priority = 0, bt_key = None,
     bt_payload = demo_payload review, bt_result = None, bt_attempts = 1, bt_maxAttempts = 3, bt_runAt = 0,
     bt_lockedAt = Some 0, bt_lockedBy = Some ''w'', bt_lease = Some 0, bt_lastError = None, bt_createdBy = None,
     bt_createdAt = 0, bt_updatedAt = 0, bt_completedAt = None\<rparr>"

definition demo_job :: "jobject \<Rightarrow> ingestion_job" where
  "demo_job review = \<lparr>kj_id = 5, kj_worker = ''w'', kj_token = 0, kj_attempts = 1, kj_maxAttempts = 3,
     kj_payload = demo_payload review\<rparr>"

definition demo_kn :: "jobject \<Rightarrow> kn_db" where
  "demo_kn review = \<lparr>kn_sources = [demo_source], kn_documents = [demo_document], kn_versions = [demo_version],
     kn_originals = [], kn_runs = [demo_run 3 PhaseInitial, demo_run 4 PhaseVerify], kn_sections = [],
     kn_decisions = [], kn_chunks = [], kn_tasks = [demo_task review], kn_audit = [], kn_citations = [], kn_now = 0,
     kn_next = 6\<rparr>"

lemmas demo_simps = demo_kr_def demo_source_def demo_document_def demo_version_def demo_run_def demo_review_def
  demo_payload_def demo_task_def demo_job_def demo_kn_def

lemma demo_sha: "sha256_hex demo_hash"
  by (simp add: sha256_hex_def demo_hash_def list_all_iff hex_char_def)

lemma demo_rules: "hash_rules demo_kr"
  by (simp add: hash_rules_def demo_kr_def demo_sha)

lemma demo_invariant: "knowledge_inv demo_kr (demo_kn r)"
  by (simp add: knowledge_inv_def demo_kn_def demo_version_def demo_kr_def version_ok_def hash_ok_def jtext_is_def)

text \<open>Evaluating the publication of the reviewed text.\<close>

lemma demo_trim:
  "js_trim (js ''https://a'') = js ''https://a''" "js_trim (js ''P'') = js ''P''" "js_trim (js ''codex'') = js ''codex''"
  "js_trim (js automation_policy) = js automation_policy" "js_trim (js review_model) = js review_model"
  "js_trim (js ''s'') = js ''s''" "js_trim (js ''t'') = js ''t''"
  by (simp_all add: js_def js_trim_def trimStart_def js_white_def automation_policy_def review_model_def)

lemma demo_hash_trim: "js_trim demo_hash = demo_hash" "demo_hash \<noteq> []"
  by (simp_all add: demo_hash_def js_trim_def trimStart_def js_white_def)

lemma demo_ids: "id_text 1 = js ''1''" "id_text 2 = js ''2''" "id_text 3 = js ''3''" "id_text 4 = js ''4''"
  by code_simp+

lemma demo_source_publishable: "source_publishable demo_kr (Some demo_source) (kv_citation demo_version)"
  by (simp add: source_publishable_def assertKnowledgeSourceAuthorized_def assertKnowledgePublicationEvidence_def
      demo_simps validHttpsUrl_def demo_trim js_eq_iff isMetadataOnlyTier_def ingestion_mode_def assertFullTextTier_def
      jpresent_def recordValue_def)
     (simp add: js_def)

lemma demo_schema:
  "knowledgeAutomationReviewRunSchema (demo_run i ph)
   = Some \<lparr>cr_run = demo_run i ph, cr_prompt = js automation_policy, cr_risk = RevLow, cr_report = demo_stored_report,
       cr_decision = DecApproved\<rparr>"
  by (simp add: knowledgeAutomationReviewRunSchema_def demo_run_def demo_sha demo_trim
      storedAutomationReviewReportSchema_def demo_stored_report_def automationReviewReportSchema_def
      demo_automation_report_def z_bounded_def)
     (simp add: js_def review_model_def automation_policy_def)

lemma demo_target:
  "current_target (job_field ''versionId'' (demo_job r)) (job_field ''documentId'' (demo_job r)) (demo_kn q)
   = Some (demo_version, demo_document, Some demo_source)"
  by (simp add: current_target_def job_field_def demo_simps demo_ids js_eq_iff table_simps)

lemma demo_fields:
  "rr_id (demo_run i ph) = i" "rr_phase (demo_run i ph) = ph" "rr_inputVersion (demo_run i ph) = 2"
  "rr_inputHash (demo_run i ph) = demo_hash" "rr_revised (demo_run i ph) = None"
  "rr_prompt (demo_run i ph) = js automation_policy" "rr_status (demo_run i ph) = RevCompleted"
  "rr_decision (demo_run i ph) = Some DecApproved" "rr_risk (demo_run i ph) = Some RevLow"
  "sr_outputContentHash demo_stored_report = demo_hash" "sr_outputVersionId demo_stored_report = 2"
  "sr_outputHash demo_stored_report = demo_hash" "sr_sourceRightsValid demo_stored_report"
  "sr_submittedRevisionHash demo_stored_report = None" "sr_blockers demo_stored_report = []"
  "sr_numericClaims demo_stored_report = []"
  by (simp_all add: demo_run_def demo_stored_report_def)

definition demo_completed :: "nat \<Rightarrow> review_phase \<Rightarrow> completed_run" where
  "demo_completed i ph = \<lparr>cr_run = demo_run i ph, cr_prompt = js automation_policy, cr_risk = RevLow,
     cr_report = demo_stored_report, cr_decision = DecApproved\<rparr>"

lemma demo_completed_fields:
  "cr_run (demo_completed i ph) = demo_run i ph" "cr_prompt (demo_completed i ph) = js automation_policy"
  "cr_risk (demo_completed i ph) = RevLow" "cr_report (demo_completed i ph) = demo_stored_report"
  "cr_decision (demo_completed i ph) = DecApproved"
  by (simp_all add: demo_completed_def)

lemma demo_eligible: "eligible_run 2 demo_hash (demo_completed i ph)"
  by (simp add: eligible_run_def demo_completed_fields demo_fields storedTargetMatches_def targetsCurrentInput_def
      targetsRecordedRevision_def submittedReportMatches_def submittedRevisionMatches_def)
     (simp add: demo_stored_report_def demo_automation_report_def)

lemma demo_readiness:
  "evaluateKnowledgePublicationReadiness 2 demo_hash True [demo_run 3 PhaseInitial, demo_run 4 PhaseVerify] False
   = \<lparr>rd_ready = True, rd_path = Some PathAutomation, rd_reasons = []\<rparr>"
  by (simp add: evaluateKnowledgePublicationReadiness_def demo_schema[folded demo_completed_def] List.map_filter_def
      demo_eligible demo_completed_fields demo_fields numeric_evidence_missing_def)

lemma demo_rows: "sort_by (\<lambda>a b. rr_createdAt a \<le> rr_createdAt b) [demo_run 3 PhaseInitial, demo_run 4 PhaseVerify]
    = [demo_run 3 PhaseInitial, demo_run 4 PhaseVerify]"
  by (simp add: sort_by_def demo_run_def)

lemma demo_review_runs: "kn_runs (demo_kn r) = [demo_run 3 PhaseInitial, demo_run 4 PhaseVerify]"
  by (simp add: demo_kn_def)

lemma demo_review_fields:
  "jget ''policyVersion'' demo_review = Some (JString (js automation_policy))"
  "jget ''risk'' demo_review = Some (JString (js ''low''))" "jget ''contentHash'' demo_review = Some (JString demo_hash)"
  "jget ''initialRunId'' demo_review = Some (JString (id_text 3))"
  "jget ''verifyRunId'' demo_review = Some (JString (id_text 4))"
  by (simp_all add: demo_review_def)

lemma demo_ids_nonempty: "id_text 3 \<noteq> []" "id_text 4 \<noteq> []"
  by (simp_all add: demo_ids js_def)

lemma demo_ready: "isAutomationPublicationReady demo_kr (demo_job demo_review) demo_review (demo_kn q)"
proof -
  have v: "kv_id demo_version = 2" "kv_hash demo_version = Some demo_hash" "kv_status demo_version = KnReview"
      "kd_status demo_document = KnReview"
    by (simp_all add: demo_version_def demo_document_def)
  show ?thesis
    unfolding isAutomationPublicationReady_def demo_target
    by (simp add: demo_review_fields demo_ids_nonempty v demo_source_publishable demo_review_runs demo_fields demo_rows demo_readiness)
qed

definition demo_chunk :: chunk_row where
  "demo_chunk = \<lparr>kc_id = 7, kc_version = 2, kc_index = 0, kc_content = js ''c'', kc_pageStart = None, kc_pageEnd = None,
     kc_sectionPath = [], kc_metadata = [], kc_embedding = Some [], kc_embeddingModel = None, kc_embeddedAt = None\<rparr>"

lemma demo_job_review: "job_review (demo_job r) = Some r"
  by (simp add: job_review_def demo_job_def demo_payload_def)

lemma demo_review_valid: "review_valid demo_kr (demo_job demo_review) = Inr True"
  unfolding review_valid_def demo_job_review
  by (simp add: demo_review_def demo_trim demo_sha demo_kr_def) (simp add: js_def)

lemma demo_saves: "\<exists>db'. saveEmbeddingsAndComplete demo_kr (demo_job demo_review) [] (demo_kn demo_review) = Inr db'
    \<and> (\<exists>w\<in>set (kn_versions db'). kv_id w = 2 \<and> kv_status w = KnPublished \<and> kv_hash w = Some demo_hash)
    \<and> retrieval_eligible db' demo_chunk"
proof -
  have mine: "task_mine (demo_job demo_review) (demo_task demo_review)"
    by (simp add: task_mine_def task_lease_def demo_job_def demo_task_def)
  have fields: "job_field ''versionId'' (demo_job demo_review) = Some (id_text 2)"
      "job_field ''documentId'' (demo_job demo_review) = Some (id_text 1)"
    by (simp_all add: job_field_def demo_job_def demo_payload_def)
  have db: "kn_versions (demo_kn demo_review) = [demo_version]" "kn_documents (demo_kn demo_review) = [demo_document]"
      "kn_tasks (demo_kn demo_review) = [demo_task demo_review]"
      "kv_id demo_version = 2" "kv_document demo_version = 1" "kv_status demo_version = KnReview"
      "kv_hash demo_version = Some demo_hash" "kd_id demo_document = 1" "kd_current demo_document = Some 2"
      "kd_status demo_document = KnReview"
      "kn_sources (demo_kn demo_review) = [demo_source]" "kd_source demo_document = Some 1"
      "kv_citation demo_version = [(''ingestionMode'', JString (js ''full_text''))]"
    by (simp_all add: demo_kn_def demo_version_def demo_document_def)
  have src: "ks_id demo_source = 1" "ks_enabled demo_source" "ks_deletedAt demo_source = None"
      "ks_canonicalUrl demo_source = Some (js ''https://a'')" "ks_publisher demo_source = Some (js ''P'')"
      "https_pattern (js ''https://a'')" "\<exists>x\<in>set (js ''P''). x \<noteq> 32" "sql_rights demo_source"
    by (simp_all add: demo_source_def https_pattern_def js_def js_startsWith_def js_white_def sql_rights_def jtext_is_def)
  have review: "jtext_is ''status'' ''approved'' demo_review" by (simp add: demo_review_def jtext_is_def)
  show ?thesis
    by (simp add: saveEmbeddingsAndComplete_def demo_job_review demo_review_valid fields db mine demo_ready replace_chunks_def
        update_version_def update_document_def update_task_def assertCurrentLease_def kn_audited_def
        demo_review_fields update_where_def Let_def retrieval_eligible_def lexical_eligible_def chunk_join_def
        current_published_def source_serves_def demo_chunk_def table_simps document_source_def
        src review retrieval_review_policy_def)
       (simp add: jtext_is_def)
qed


text \<open>The same text, after its sections were reviewed by a person.\<close>

definition demo_completion :: completion_input where
  "demo_completion = \<lparr>cp_document = 1, cp_version = 2, cp_hash = demo_hash, cp_reviewer = js ''codex''\<rparr>"

definition demo_sectional :: jobject where
  "demo_sectional = section_review demo_kr demo_completion 0"

lemma demo_sectional_saves:
  "\<exists>db' d. saveEmbeddingsAndComplete demo_kr (demo_job demo_sectional) [] (demo_kn demo_sectional) = Inr db'
    \<and> lookup kd_id 1 (kn_documents db') = Some d \<and> kd_current d = Some 2"
proof -
  have fs: "jget ''status'' demo_sectional = Some (JString (js ''approved''))"
      "jget ''reviewedBy'' demo_sectional = Some (JString (js ''codex''))"
      "jget ''reviewedAt'' demo_sectional = Some (JString (js ''t''))"
      "jget ''contentHash'' demo_sectional = Some (JString demo_hash)"
    by (simp_all add: demo_sectional_def section_review_def demo_completion_def demo_kr_def)
  have valid: "review_valid demo_kr (demo_job demo_sectional) = Inr True"
    unfolding review_valid_def demo_job_review by (simp add: fs demo_trim demo_sha demo_kr_def) (simp add: js_def)
  have manual: "\<not> isAutomationPublicationReady demo_kr (demo_job demo_sectional) demo_sectional db" for db
    unfolding demo_sectional_def by (rule section_review_not_automatic)
  have mine: "task_mine (demo_job demo_sectional) (demo_task demo_sectional)"
    by (simp add: task_mine_def task_lease_def demo_job_def demo_task_def)
  have fields: "job_field ''versionId'' (demo_job demo_sectional) = Some (id_text 2)"
      "job_field ''documentId'' (demo_job demo_sectional) = Some (id_text 1)"
    by (simp_all add: job_field_def demo_job_def demo_payload_def)
  have db: "kn_versions (demo_kn r) = [demo_version]" "kn_documents (demo_kn r) = [demo_document]"
      "kn_tasks (demo_kn r) = [demo_task r]"
      "kv_id demo_version = 2" "kv_document demo_version = 1" "kv_status demo_version = KnReview"
      "kv_hash demo_version = Some demo_hash" "kd_id demo_document = 1" "kd_current demo_document = Some 2"
      "kd_status demo_document = KnReview" for r
    by (simp_all add: demo_kn_def demo_version_def demo_document_def)
  show ?thesis
    by (simp add: saveEmbeddingsAndComplete_def demo_job_review valid fields db mine manual replace_chunks_def
        update_version_def update_document_def update_task_def assertCurrentLease_def fs update_where_def Let_def table_simps)
qed

end
