(* ===== verification/Knowledge_Leases.thy ===== *)
theory Knowledge_Leases
  imports Knowledge_Demo
begin

text \<open>
  The ingestion queue as a leased queue: what its claims and settlements do to the leases, and the
  interpretation of the interface of \<open>Lease_Queue\<close>.
\<close>

abbreviation tasks_wf :: "kn_db \<Rightarrow> bool" where
  "tasks_wf db \<equiv> leases_wf bt_id task_lease (kn_tasks db) (kn_next db)"

abbreviation task_held :: "ingestion_job \<Rightarrow> kn_db \<Rightarrow> bool" where
  "task_held j db \<equiv> lease_valid bt_id task_lease (kn_tasks db) (job_ref j)"

abbreviation tasks_move :: "kn_db \<Rightarrow> kn_db \<Rightarrow> bool" where
  "tasks_move db db' \<equiv> lease_move bt_id task_lease (kn_tasks db) (kn_next db) (kn_tasks db') (kn_next db')"

text \<open>What a worker does with a job it holds.\<close>

datatype ingestion_op =
    IngRenew | IngSubmitted js_string timestamp | IngDeferred timestamp | IngReview js_string
  | IngFailed kn_error timestamp | IngParsed parsed_document js_string | IngEmbedded "embedded_chunk list"

definition settle_ingestion :: "kn_rules \<Rightarrow> ingestion_op \<Rightarrow> ingestion_job \<Rightarrow> kn_db \<Rightarrow> (kn_error, kn_db) result" where
  "settle_ingestion kr p j db = (case p of
     IngRenew \<Rightarrow> renewLease j db
   | IngSubmitted pj t \<Rightarrow> markOcrSubmitted kr j pj t db
   | IngDeferred t \<Rightarrow> deferOcrPoll j t db
   | IngReview reason \<Rightarrow> markReviewRequired j reason db
   | IngFailed e t \<Rightarrow> markFailed kr j e t db
   | IngParsed parsed content \<Rightarrow> saveParsedForReview kr j parsed content db
   | IngEmbedded chunks \<Rightarrow> saveEmbeddingsAndComplete kr j chunks db)"

text \<open>
  Everything else: the server reaches the tasks only by queueing one with a fresh id, an operator by
  queueing a failed or abandoned embedding again.
\<close>

inductive other_transaction :: "kn_db \<Rightarrow> kn_db \<Rightarrow> bool" where
  enqueued: "kn_next db \<notin> bt_id ` set (kn_tasks db) \<Longrightarrow> other_transaction db (enqueue_task p key payload who db)"
| repaired: "retryEmbeddingJob docId vid h db = Some db' \<Longrightarrow> other_transaction db db'"
| elsewhere: "kn_tasks db' = kn_tasks db \<Longrightarrow> kn_next db \<le> kn_next db' \<Longrightarrow> other_transaction db db'"

lemma task_held_iff: "task_held j db \<longleftrightarrow> list_ex (task_mine j) (kn_tasks db)"
  by (auto simp: lease_valid_def job_ref_def task_mine_def list_ex_iff)

lemma update_task_stale: "\<not> task_held j db \<Longrightarrow> update_task j f db = Inl (StaleLease (kj_id j))"
  by (simp add: update_task_def task_held_iff)

lemma current_lease_stale: "\<not> task_held j db \<Longrightarrow> assertCurrentLease j db = Inl (StaleLease (kj_id j))"
  by (simp add: assertCurrentLease_def task_held_iff)

subsection \<open>Claims\<close>

lemma claim_task_fields [simp]:
  "bt_id (claim_task w db t) = bt_id t" "task_lease (claim_task w db t) = Some (w, kn_next db)"
  by (simp_all add: claim_task_def task_lease_def)

lemma unlock_task_fields [simp]: "bt_id (unlock_task db t) = bt_id t" "task_lease (unlock_task db t) = None"
  by (simp_all add: unlock_task_def task_lease_def)

lemma claimNext_cases:
  assumes "claimNext kr w locked db = (res, db')"
  obtains "res = Inr None" "db' = db"
  | t e where "t \<in> set (kn_tasks db)" "res = Inr None" "kn_next db' = kn_next db + 1"
      "kn_tasks db' = update_where (\<lambda>x. bt_id x = bt_id t \<and> bt_lockedBy x = Some w \<and> bt_lease x = Some (kn_next db))
         (\<lambda>x. unlock_task db (x\<lparr>bt_status := OpFailed, bt_lastError := Some (safe_error kr e),
            bt_completedAt := Some (kn_now db)\<rparr>))
         (update_where (\<lambda>x. bt_id x = bt_id t) (claim_task w db) (kn_tasks db))"
  | t j where "t \<in> set (kn_tasks db)" "res = Inr (Some j)" "kn_next db' = kn_next db + 1"
      "kn_tasks db' = update_where (\<lambda>x. bt_id x = bt_id t) (claim_task w db) (kn_tasks db)"
      "job_ref j = \<lparr>lr_row = bt_id t, lr_worker = w, lr_token = kn_next db\<rparr>"
proof (cases "sort_by task_before (filter (\<lambda>t. task_due (kn_now db) t \<and> bt_id t \<notin> locked) (kn_tasks db))")
  case Nil
  then show ?thesis using assms that(1) by (simp add: claimNext_def)
next
  case (Cons t ts)
  have "t \<in> set (sort_by task_before (filter (\<lambda>t. task_due (kn_now db) t \<and> bt_id t \<notin> locked) (kn_tasks db)))"
    using Cons by simp
  then have mem: "t \<in> set (kn_tasks db)" by simp
  show ?thesis
  proof (cases "parseJob (claim_task w db t) w (kn_next db)")
    case (Inl e)
    then show ?thesis using assms that(2)[OF mem] Cons by (auto simp: claimNext_def Let_def)
  next
    case (Inr j)
    then have "job_ref j = \<lparr>lr_row = bt_id t, lr_worker = w, lr_token = kn_next db\<rparr>"
      by (auto simp: parseJob_def job_ref_def split: option.splits if_splits)
    then show ?thesis using assms that(3)[OF mem] Cons Inr by (auto simp: claimNext_def Let_def)
  qed
qed

lemma claimNext_move:
  assumes "tasks_wf db" "claimNext kr w locked db = (res, db')"
  shows "tasks_move db db'"
  using assms(2)
proof (cases rule: claimNext_cases)
  case 1
  with assms(1) show ?thesis by (simp add: lease_move_refl)
next
  case (2 t e)
  have first: "lease_move bt_id task_lease (kn_tasks db) (kn_next db)
      (update_where (\<lambda>x. bt_id x = bt_id t) (claim_task w db) (kn_tasks db)) (kn_next db + 1)"
    using assms(1) by (rule lease_move_update) auto
  let ?P = "\<lambda>x. bt_id x = bt_id t \<and> bt_lockedBy x = Some w \<and> bt_lease x = Some (kn_next db)"
  let ?f = "\<lambda>x. unlock_task db (x\<lparr>bt_status := OpFailed, bt_lastError := Some (safe_error kr e), bt_completedAt := Some (kn_now db)\<rparr>)"
  have "map bt_id (update_where ?P ?f xs) = map bt_id xs" for xs by (rule map_update_where) simp
  moreover have "r \<in> set xs" if "r \<in> set (update_where ?P ?f xs)" "task_lease r = Some wt" for r xs wt
    using that by (elim in_update_whereE) auto
  ultimately show ?thesis using first unfolding lease_move_def 2(3,4) by (metis (no_types, lifting))
next
  case (3 t j)
  from assms(1) show ?thesis unfolding 3(3,4) by (rule lease_move_update) auto
qed

lemma claimNext_grants:
  assumes "claimNext kr w locked db = (Inr (Some j), db')"
  shows "task_held j db' \<and> lr_token (job_ref j) = kn_next db \<and> lr_worker (job_ref j) = w"
  using assms
proof (cases rule: claimNext_cases)
  case (3 t k)
  then have "claim_task w db t \<in> set (kn_tasks db')" by (auto simp: set_update_where)
  moreover have "k = j" using 3(2) by simp
  ultimately show ?thesis using 3(5) by (auto simp: lease_valid_def intro!: bexI[of _ "claim_task w db t"])
qed simp_all

subsection \<open>Settlements\<close>

text \<open>Every settlement ends in one update of the job's own task.\<close>

lemma tasks_frame:
  "update_version P f e db = Inr db' \<Longrightarrow> kn_tasks db' = kn_tasks db \<and> kn_next db' = kn_next db"
  "update_document Q g e db = Inr db' \<Longrightarrow> kn_tasks db' = kn_tasks db \<and> kn_next db' = kn_next db"
  "insert_sections ss db = Inr db' \<Longrightarrow> kn_tasks db' = kn_tasks db \<and> kn_next db \<le> kn_next db'"
  "replace_chunks vid cs db = Inr db' \<Longrightarrow> kn_tasks db' = kn_tasks db \<and> kn_next db \<le> kn_next db'"
  "kn_tasks (queue_run ph vid h m db) = kn_tasks db \<and> kn_next db \<le> kn_next (queue_run ph vid h m db)"
  "kn_tasks (delete_sections vid db) = kn_tasks db \<and> kn_next (delete_sections vid db) = kn_next db"
  "kn_tasks (kn_audited a db) = kn_tasks db \<and> kn_next (kn_audited a db) = kn_next db"
  by (auto simp: update_version_def update_document_def insert_sections_def replace_chunks_def queue_run_def
      delete_sections_def kn_audited_def Let_def split: if_splits)

definition ends_lease :: "(task_row \<Rightarrow> task_row) \<Rightarrow> bool" where
  "ends_lease f \<longleftrightarrow> (\<forall>t. bt_id (f t) = bt_id t \<and> task_lease (f t) = None)"

lemma succeed_ends: "ends_lease (succeed_task db result)"
  by (simp add: ends_lease_def succeed_task_def)

lemma requeue_ends: "requeue j t pl db = Inr db' \<Longrightarrow> \<exists>f. update_task j f db = Inr db' \<and> ends_lease f"
  unfolding requeue_def by (rule exI, rule conjI, assumption) (simp add: ends_lease_def)

lemma parsed_update:
  assumes "saveParsedForReview kr j parsed content db = Inr db'"
  shows "\<exists>d f. update_task j f d = Inr db' \<and> kn_tasks d = kn_tasks db \<and> kn_next db \<le> kn_next d \<and> ends_lease f"
proof -
  define target where "target = current_target (job_field ''versionId'' j) (job_field ''documentId'' j) db"
  obtain v d src where t: "target = Some (v, d, src)"
    using assms unfolding saveParsedForReview_def Let_def bindR_eq_Inr target_def[symmetric]
    by (cases target) auto
  show ?thesis
    using assms
    apply (simp only: saveParsedForReview_def Let_def target_def[symmetric] t option.case prod.case bindR_eq_Inr guard_Inr)
    apply (elim exE conjE)
    subgoal premises p for u1 u2 db1 db2 db3
    proof -
      have "kn_tasks db1 = kn_tasks db \<and> kn_next db1 = kn_next db" by (rule tasks_frame(1), rule p)
      moreover have "kn_tasks db2 = kn_tasks db1 \<and> kn_next db2 = kn_next db1" by (rule tasks_frame(2), rule p)
      moreover have "kn_tasks db3 = kn_tasks (delete_sections (kv_id v) db2) \<and> kn_next (delete_sections (kv_id v) db2) \<le> kn_next db3"
        by (rule tasks_frame(3), rule p)
      ultimately have fr: "kn_tasks db3 = kn_tasks db" "kn_next db \<le> kn_next db3" by (simp_all add: tasks_frame(6))
      show ?thesis
        by (intro exI conjI, rule p)
           (use fr succeed_ends in \<open>auto simp: tasks_frame(5) intro: order_trans[OF _ tasks_frame(5)[THEN conjunct2]]\<close>)
    qed
    done
qed

lemma embedded_update:
  assumes "saveEmbeddingsAndComplete kr j chunks db = Inr db'"
  shows "\<exists>d f. update_task j f d = Inr db' \<and> kn_tasks d = kn_tasks db \<and> kn_next db \<le> kn_next d \<and> ends_lease f"
  using assms
proof (rule saveEmbeddings_cases)
  fix review v db1 db2 db3 published
  assume up: "replace_chunks (kv_id v) chunks db = Inr db1"
    "update_version (\<lambda>x. kv_id x = kv_id v \<and> Some (id_text (kv_document x)) = job_field ''documentId'' j
        \<and> kv_status x = KnReview \<and> kv_hash x = jstring (jget ''contentHash'' review))
      (\<lambda>x. x\<lparr>kv_status := (if published then KnPublished else KnReview),
         kv_publishedAt := (if published then Some (kn_now db) else kv_publishedAt x),
         kv_metadata := kv_metadata x @
           [(''reviewStatus'', JString (js ''approved'')), (''embeddingStatus'', JString (js ''completed'')),
            (''embeddedChunkCount'', JNumber (int (length chunks))), (''review'', JObject review)]\<rparr>)
      (PlainError ''Reviewed knowledge content changed before embeddings were saved.'') db1 = Inr db2"
    "update_document (\<lambda>x. Some (id_text (kd_id x)) = job_field ''documentId'' j
        \<and> kd_current x = Some (kv_id v) \<and> kd_status x = KnReview)
      (\<lambda>x. x\<lparr>kd_status := (if published then KnPublished else KnReview)\<rparr>)
      (PlainError ''Reviewed knowledge version is no longer the current document version.'') db2 = Inr db3"
    and fin: "\<exists>result. update_task j (succeed_task db result)
      (if published then kn_audited (publication_audit (kv_id v) j review (length chunks) db) db3 else db3) = Inr db'"
  note fr = tasks_frame(4)[OF up(1)] tasks_frame(1)[OF up(2)] tasks_frame(2)[OF up(3)]
  obtain result where r: "update_task j (succeed_task db result)
      (if published then kn_audited (publication_audit (kv_id v) j review (length chunks) db) db3 else db3) = Inr db'"
    using fin by blast
  show ?thesis
    by (intro exI conjI, rule r) (use fr tasks_frame(7) succeed_ends in auto)
qed

lemma settle_update:
  assumes "settle_ingestion kr p j db = Inr db'"
  obtains d f where "update_task j f d = Inr db'" "kn_tasks d = kn_tasks db" "kn_next db \<le> kn_next d"
    "\<And>t. bt_id (f t) = bt_id t" "\<And>t. task_lease (f t) = (if p = IngRenew then task_lease t else None)"
proof (cases "p = IngRenew")
  case True
  then have "update_task j (\<lambda>t. t\<lparr>bt_lockedAt := Some (kn_now db), bt_updatedAt := kn_now db\<rparr>) db = Inr db'"
    using assms by (simp add: settle_ingestion_def renewLease_def)
  from that[OF this] show ?thesis using True by (simp add: task_lease_def)
next
  case False
  have "\<exists>d f. update_task j f d = Inr db' \<and> kn_tasks d = kn_tasks db \<and> kn_next db \<le> kn_next d \<and> ends_lease f"
  proof (cases p)
    case (IngFailed e t)
    let ?f = "\<lambda>x. unlock_task db (x\<lparr>bt_status := (if terminal_failure j e then OpFailed else OpQueued), bt_runAt := t,
        bt_lastError := Some (safe_error kr e),
        bt_completedAt := (if terminal_failure j e then Some (kn_now db) else None)\<rparr>)"
    have "update_task j ?f db = Inr db'" using assms by (simp add: settle_ingestion_def IngFailed markFailed_def)
    moreover have "ends_lease ?f" by (simp add: ends_lease_def)
    ultimately show ?thesis by blast
  next
    case (IngReview reason)
    then show ?thesis using assms succeed_ends
      unfolding settle_ingestion_def IngReview ingestion_op.case markReviewRequired_def by blast
  next
    case (IngSubmitted pj t)
    then have "\<exists>pl. requeue j t pl db = Inr db'"
      using assms unfolding settle_ingestion_def IngSubmitted ingestion_op.case markOcrSubmitted_def by blast
    then show ?thesis using requeue_ends by blast
  next
    case (IngDeferred t)
    then have "\<exists>pl. requeue j t pl db = Inr db'"
      using assms unfolding settle_ingestion_def IngDeferred ingestion_op.case deferOcrPoll_def by blast
    then show ?thesis using requeue_ends by blast
  qed (use assms False parsed_update embedded_update in \<open>auto simp: settle_ingestion_def\<close>)
  then show ?thesis using that False by (auto simp: ends_lease_def)
qed

lemma settle_ingestion_stale: "\<not> task_held j db \<Longrightarrow> \<exists>e. settle_ingestion kr p j db = Inl e"
  by (cases "settle_ingestion kr p j db")
     (auto elim!: settle_update simp: update_task_def task_held_iff split: if_splits)

lemma retry_move:
  assumes "tasks_wf db" "retryEmbeddingJob docId vid h db = Some db'"
  shows "tasks_move db db'"
proof -
  obtain v where v: "lookup kv_id vid (kn_versions db) = Some v" "retry_version docId h v db"
    using assms(2) by (auto simp: retryEmbeddingJob_def split: option.splits if_splits)
  obtain t where t: "find (retry_task docId v h db) (kn_tasks db) = Some t"
    using assms(2) v by (auto simp: retryEmbeddingJob_def split: option.splits)
  have "kn_tasks db' = update_where (\<lambda>x. bt_id x = bt_id t) (requeued_task db) (kn_tasks db)" "kn_next db' = kn_next db"
    using assms(2) v t by (auto simp: retryEmbeddingJob_def kn_audited_def)
  then show ?thesis
    using lease_move_update[OF assms(1) order_refl, of "\<lambda>x. bt_id x = bt_id t" "requeued_task db"]
    by (simp add: requeued_task_def task_lease_def)
qed

subsection \<open>The interpretation\<close>

interpretation ingestion: ending_lease_queue bt_id task_lease kn_tasks kn_next job_ref "claimNext kr"
  "settle_ingestion kr" other_transaction "\<lambda>p. p \<noteq> IngRenew" for kr
proof
  show "tasks_move db db'" if "tasks_wf db" "claimNext kr w locked db = (res, db')" for w locked db res db'
    using claimNext_move that .
  show "task_held j db' \<and> lr_token (job_ref j) = kn_next db \<and> lr_worker (job_ref j) = w"
    if "tasks_wf db" "claimNext kr w locked db = (Inr (Some j), db')" for w locked db j db'
    using claimNext_grants[OF that(2)] .
  show "\<exists>e. settle_ingestion kr p j db = Inl e" if "\<not> task_held j db" for p j db
    using settle_ingestion_stale[OF that] .
  fix p j db db'
  assume wf: "tasks_wf db" and run: "settle_ingestion kr p j db = Inr db'"
  obtain d f where up: "update_task j f d = Inr db'" "kn_tasks d = kn_tasks db" "kn_next db \<le> kn_next d"
    and f: "\<And>t. bt_id (f t) = bt_id t" "\<And>t. task_lease (f t) = (if p = IngRenew then task_lease t else None)"
    using settle_update[OF run] by metis
  have db': "kn_tasks db' = update_where (task_mine j) f (kn_tasks db)" "kn_next db \<le> kn_next db'"
    using up by (auto simp: update_task_def split: if_splits)
  from wf db'(2) show "tasks_move db db'"
    unfolding db'(1) by (rule lease_move_update) (auto simp: f split: if_splits)
  show "\<not> task_held j db'" if "p \<noteq> IngRenew"
    using that unfolding task_held_iff unfolding db'(1)
    by (auto simp: list_ex_iff task_mine_def f(2) elim!: in_update_whereE)
next
  show "tasks_move db db'" if "tasks_wf db" "other_transaction db db'" for db db'
    using that(2,1)
    by (induction rule: other_transaction.induct)
       (auto simp: enqueue_task_def new_task_def task_lease_def lease_move_refl retry_move intro!: lease_move_append)
qed

end
