(* ===== verification/Knowledge_Properties.thy ===== *)
theory Knowledge_Properties
  imports Knowledge_Leases
begin

text \<open>
  What the knowledge subsystem promises: nothing is served that was not reviewed as it is or
  activated pending its review, a lease that was lost changes nothing, and no paragraph of a page is
  lost on its way into the index.
\<close>

subsection \<open>What retrieval serves was reviewed\<close>

text \<open>
  C2. Whatever transactions of the server, the workers, the seeding, activation, embedding and restore
  scripts and the repairs by hand follow one another: a chunk that the hybrid query or the fallback by
  terms may serve belongs to a published version whose hash is the SHA-256 of its stored text, and
  that hash is the one a review approved, or the one under which the text was activated pending its
  review. Each transaction is one step; the empty knowledge base satisfies the invariant assumed of
  the first state.
\<close>

theorem retrieved_text_reviewed:
  assumes "hash_rules kr" and "knowledge_inv kr s" and "(kn_step kr)\<^sup>*\<^sup>* s t"
    and "retrieval_eligible t c \<or> lexical_eligible t c"
  shows "\<exists>v h. lookup kv_id (kc_version c) (kn_versions t) = Some v \<and> kv_status v = KnPublished
    \<and> kv_hash v = Some h \<and> h = kr_sha kr (kv_content v)
    \<and> (jtext_is ''status'' ''approved'' (recordValue (jget ''review'' (kv_metadata v)))
         \<and> jstring (jget ''contentHash'' (recordValue (jget ''review'' (kv_metadata v)))) = Some h
       \<or> jtext_is ''reviewStatus'' ''required'' (kv_metadata v)
         \<and> jtext_is ''retrievalStatus'' active_pending_review (kv_metadata v)
         \<and> jstring (jget ''retrievalContentHash'' (kv_metadata v)) = Some h)"
proof -
  have "knowledge_inv kr t"
    using assms(3) by (induction rule: rtranclp_induct) (use assms(1,2) kn_step_inv in blast)+
  note inv = this
  have "lexical_eligible t c" using assms(4) by (auto simp: retrieval_eligible_def)
  then obtain v where v: "lookup kv_id (kc_version c) (kn_versions t) = Some v" "kv_status v = KnPublished"
      "retrieval_review_policy v" by (rule eligible_published)
  show ?thesis
    by (rule exI[of _ v]) (use served_reviewed[OF inv_lookup[OF inv v(1)] v(3)] v in simp)
qed

theorem retrieved_text_reviewed_witness:
  "\<exists>t v. (kn_step demo_kr)\<^sup>*\<^sup>* (demo_kn demo_review) t \<and> retrieval_eligible t demo_chunk
    \<and> lookup kv_id 2 (kn_versions t) = Some v \<and> kv_hash v = Some demo_hash"
proof -
  obtain t where t: "saveEmbeddingsAndComplete demo_kr (demo_job demo_review) [] (demo_kn demo_review) = Inr t"
    and e: "retrieval_eligible t demo_chunk"
    using demo_saves by blast
  have steps: "(kn_step demo_kr)\<^sup>*\<^sup>* (demo_kn demo_review) t" using embedded[OF t] by blast
  from retrieved_text_reviewed[OF demo_rules demo_invariant steps disjI1, OF e] obtain v h
    where "lookup kv_id 2 (kn_versions t) = Some v" "kv_hash v = Some h" "h = kr_sha demo_kr (kv_content v)"
    by (auto simp: demo_chunk_def)
  then show ?thesis using steps e by (auto simp: demo_kr_def)
qed

subsection \<open>Automated publication\<close>

text \<open>
  C7. Storing embeddings publishes a text only if two different runs of the automation, one of
  the first pass and one of the verification, approved exactly this version and hash at low risk
  without blockers, while the version is its document's current one and its source carries the
  rights for it.
\<close>

theorem automation_publishes_verified_text:
  assumes "saveEmbeddingsAndComplete kr j chunks db = Inr db'" and "distinct (map kv_id (kn_versions db))"
    and "w \<in> set (kn_versions db')" and "kv_status w = KnPublished"
    and "\<forall>u\<in>set (kn_versions db). kv_id u = kv_id w \<longrightarrow> kv_status u \<noteq> KnPublished"
  shows "\<exists>h d s r q. kv_hash w = Some h
    \<and> r \<in> set (kn_runs db) \<and> q \<in> set (kn_runs db) \<and> rr_id r \<noteq> rr_id q
    \<and> approval_run (kv_id w) h PhaseInitial r \<and> approval_run (kv_id w) h PhaseVerify q
    \<and> d \<in> set (kn_documents db) \<and> kd_current d = Some (kv_id w)
    \<and> document_source d db = Some s \<and> authorized kr s (kv_citation w)"
proof -
  obtain v d s h r q where v: "lookup kv_id (kv_id w) (kn_versions db) = Some v" "kv_hash v = Some h"
      "lookup kd_id (kv_document v) (kn_documents db) = Some d" "kd_current d = Some (kv_id v)"
    and s: "document_source d db = Some s" "source_publishable kr (Some s) (kv_citation v)"
    and r: "r \<in> set (kn_runs db)" "q \<in> set (kn_runs db)" "rr_id r \<noteq> rr_id q"
      "approval_run (kv_id v) h PhaseInitial r" "approval_run (kv_id v) h PhaseVerify q"
    and w: "kv_hash w = kv_hash v" "kv_citation w = kv_citation v"
    using assms by (rule embeddings_publish)
  have "kv_id v = kv_id w" "d \<in> set (kn_documents db)" using v(1,3) lookup_SomeD by metis+
  moreover have "authorized kr s (kv_citation w)"
    using s(2) w(2) by (simp add: source_publishable_def assertKnowledgeSourceAuthorized_iff)
  ultimately show ?thesis using v s(1) r w by metis
qed

theorem automation_publishes_verified_text_witness:
  "\<exists>db' w. saveEmbeddingsAndComplete demo_kr (demo_job demo_review) [] (demo_kn demo_review) = Inr db'
    \<and> w \<in> set (kn_versions db') \<and> (\<exists>r. approval_run (kv_id w) demo_hash PhaseVerify r)"
proof -
  obtain db' w where d: "saveEmbeddingsAndComplete demo_kr (demo_job demo_review) [] (demo_kn demo_review) = Inr db'"
    and w: "w \<in> set (kn_versions db')" "kv_status w = KnPublished" "kv_hash w = Some demo_hash"
    using demo_saves by blast
  have "\<forall>u\<in>set (kn_versions (demo_kn demo_review)). kv_id u = kv_id w \<longrightarrow> kv_status u \<noteq> KnPublished"
    by (simp add: demo_kn_def demo_version_def)
  from automation_publishes_verified_text[OF d _ w(1,2) this] w d show ?thesis by (auto simp: demo_kn_def)
qed


subsection \<open>Section reviews\<close>

text \<open>
  C8. \<open>publishKnowledgeDraft\<close>, the publication by an administrator, publishes a text without the note of
  a manual resolution only when it was reviewed section by section: there are sections, each of this
  version, hash and rights, and each approved as it is by someone other than the creator of the
  version, and the hash is that of the content. The other ways to publish do not look at sections:
  the automated publication (C7), a rollback to a published version, and the activation script.
\<close>

theorem published_sections_approved:
  assumes "publishKnowledgeDraft kr docId ctx db = Inr (Some (i, db'))"
    and "lookup kd_id docId (kn_documents db) = Some d" and "kd_current d = Some vid"
    and "lookup kv_id vid (kn_versions db) = Some v" and "\<not> hasManualDocumentResolution (kv_metadata v)"
  shows "\<exists>h s. kv_hash v = Some h \<and> kr_lower kr h = kr_sha kr (kv_content v) \<and> document_source d db = Some s
    \<and> authorized kr s (kv_citation v) \<and> listSections vid db \<noteq> []
    \<and> (\<forall>sc\<in>set (listSections vid db). section_approved kr vid h (kv_createdBy v)
         (knowledgeRightsSnapshotHash kr (rights_snapshot s)) sc)"
  using assms(1)
proof (rule publishKnowledgeDraft_cases)
  fix d' v' db1 db2
  assume "lookup kd_id docId (kn_documents db) = Some d'" "kd_current d' = Some (kv_id v')"
    "lookup kv_id (kv_id v') (kn_versions db) = Some v'"
    and gate: "assertKnowledgePublicationGate kr (kn_now db) d' v' (chunk_count (kv_id v') db) = Inr ()"
    and src: "assertPublishableKnowledgeSource kr (document_source d' db) (kv_citation v') = Inr ()"
    and ready: "\<not> hasManualDocumentResolution (kv_metadata v') \<Longrightarrow> \<exists>s. document_source d' db = Some s
       \<and> assertKnowledgeSectionPublicationReady kr (kv_id v') (case kv_hash v' of None \<Rightarrow> [] | Some h \<Rightarrow> h)
           (kv_createdBy v') (rights_snapshot s) (listSections (kv_id v') db) = Inr ()"
  then have same: "d' = d" "v' = v" "kv_id v = vid" using assms(2-4) by auto
  obtain h where h: "kv_hash v = Some h" "kr_lower kr h = kr_sha kr (kv_content v)"
    using gate unfolding same
    by (auto simp: assertKnowledgePublicationGate_def assertReviewedKnowledgeEvidence_def Let_def split: option.splits)
  obtain s where s: "document_source d db = Some s" "assertKnowledgeSectionPublicationReady kr vid h (kv_createdBy v)
      (rights_snapshot s) (listSections vid db) = Inr ()"
    using ready assms(5) h(1) unfolding same by auto
  have "assertKnowledgeSourceAuthorized kr (Some s) (kv_citation v) = Inr ()"
    using src s(1) unfolding same assertPublishableKnowledgeSource_def
    by (cases "assertKnowledgeSourceAuthorized kr (Some s) (kv_citation v)") (auto split: kn_error.splits)
  then show ?thesis
    using h s by (auto simp: publication_ready_iff assertKnowledgeSourceAuthorized_iff)
qed

definition demo_section_review :: jobject where
  "demo_section_review = [(''status'', JString (js ''approved'')), (''mode'', JString (js ''section'')),
     (''reviewedBy'', JString (js ''codex'')), (''reviewedAt'', JString (js ''t'')),
     (''contentHash'', JString demo_hash), (''sectionCount'', JNumber 1)]"

definition demo_sections_version :: version_row where
  "demo_sections_version = demo_version\<lparr>kv_citation := [(''ingestionMode'', JString (js ''metadata_only''))],
     kv_metadata := [(''reviewStatus'', JString (js ''approved'')), (''embeddingStatus'', JString (js ''not_applicable'')),
       (''review'', JObject demo_section_review)]\<rparr>"

definition demo_sections :: kn_db where
  "demo_sections = (demo_kn [])\<lparr>kn_versions := [demo_sections_version],
     kn_sections := [\<lparr>rs_index = 0, rs_contentZh = js ''c'', rs_officialText = js ''c'', rs_pageStart = None,
       rs_pageEnd = None, rs_rights = [], rs_version = 2, rs_versionHash = demo_hash, rs_hash = demo_hash,
       rs_rightsHash = demo_hash, rs_id = 3\<rparr>],
     kn_decisions := [\<lparr>sd_section = 3, sd_hash = demo_hash, sd_decision = SecApproved, sd_note = None,
       sd_reviewer = Some (js ''r''), sd_revision = 1, sd_decidedAt = 0\<rparr>]\<rparr>"

definition demo_admin :: admin_context where
  "demo_admin = \<lparr>ac_actor = js ''r'', ac_role = ''admin'', ac_request = [], ac_path = [], ac_method = []\<rparr>"

lemma demo_sections_authorized:
  "assertKnowledgeSourceAuthorized demo_kr (Some demo_source) (kv_citation demo_sections_version) = Inr ()"
  by (auto simp: assertKnowledgeSourceAuthorized_iff authorized_def demo_source_def demo_kr_def
      validHttpsUrl_def demo_trim demo_sections_version_def ingestion_mode_def) (simp_all add: js_def)

theorem published_sections_approved_witness:
  "\<exists>i db'. publishKnowledgeDraft demo_kr 1 demo_admin demo_sections = Inr (Some (i, db'))
    \<and> listSections 2 demo_sections \<noteq> []"
proof -
  let ?v = demo_sections_version
  have f: "kv_id ?v = 2" "kv_hash ?v = Some demo_hash" "kv_status ?v = KnReview" "kv_createdBy ?v = Some (js ''u'')"
      "ingestion_mode (kv_citation ?v) = metadata_only"
      "jget ''reviewStatus'' (kv_metadata ?v) = Some (JString (js ''approved''))"
      "jget ''embeddingStatus'' (kv_metadata ?v) = Some (JString (js ''not_applicable''))"
      "recordValue (jget ''review'' (kv_metadata ?v)) = demo_section_review"
    by (simp_all add: demo_sections_version_def demo_version_def ingestion_mode_def)
  have r: "store_string (jget ''reviewedBy'' demo_section_review) = Some (js ''codex'')"
      "store_string (jget ''reviewedAt'' demo_section_review) = Some (js ''t'')"
      "store_string (jget ''contentHash'' demo_section_review) = Some demo_hash" "section_reviewed demo_section_review"
      "jget ''mode'' demo_section_review = Some (JString (js ''section''))"
    by (simp_all add: demo_section_review_def store_string_def demo_trim demo_hash_trim section_reviewed_def)
       (simp_all add: js_def)
  have k: "kr_lower demo_kr = id" "kr_date demo_kr x = Some 0" "kr_sha demo_kr y = demo_hash" for x y
    by (simp_all add: demo_kr_def)
  have db: "lookup kd_id 1 (kn_documents demo_sections) = Some demo_document" "kd_current demo_document = Some 2"
      "lookup kv_id 2 (kn_versions demo_sections) = Some ?v" "kn_versions demo_sections = [?v]"
      "kn_documents demo_sections = [demo_document]" "kd_id demo_document = 1" "kd_status demo_document = KnReview"
      "kn_now demo_sections = 0" "document_source demo_document demo_sections = Some demo_source"
    by (simp_all add: demo_sections_def demo_kn_def demo_document_def demo_sections_version_def demo_version_def
        demo_source_def document_source_def table_simps)
  have manual: "\<not> hasManualDocumentResolution (kv_metadata ?v)"
    by (simp add: hasManualDocumentResolution_def f r js_eq_iff)
  have modes: "metadata_only \<noteq> full_text" by (simp add: js_eq_iff)
  have gate: "assertReviewedKnowledgeEvidence demo_kr 0 ?v c = Inr ()" for c
    unfolding assertReviewedKnowledgeEvidence_def Let_def f r k
    using modes by (simp add: r k demo_sha)
  have src: "assertPublishableKnowledgeSource demo_kr (Some demo_source) (kv_citation ?v) = Inr ()"
  proof -
    note demo_sections_authorized
    moreover have "assertKnowledgePublicationEvidence (Some demo_source) (kv_citation ?v) = Inr ()"
      using f(5) modes by (simp add: assertKnowledgePublicationEvidence_def)
    ultimately show ?thesis by (simp add: assertPublishableKnowledgeSource_def)
  qed
  have sections: "assertKnowledgeSectionPublicationReady demo_kr 2 demo_hash (Some (js ''u'')) (rights_snapshot demo_source)
      (listSections 2 demo_sections) = Inr ()" "listSections 2 demo_sections \<noteq> []"
    by (auto simp: publication_ready_iff listSections_def demo_sections_def sort_by_def rights_snapshot_def section_approved_def
        knowledgeReviewSectionHash_def knowledgeRightsSnapshotHash_def demo_kr_def section_choice_of_def choice_of_def js_eq_iff sha256_of_def)
  have "\<exists>i db'. publishKnowledgeDraft demo_kr 1 demo_admin demo_sections = Inr (Some (i, db'))"
    by (simp add: publishKnowledgeDraft_def db f gate assertKnowledgePublicationGate_def src manual sections
        update_version_def update_document_def table_simps f del: One_nat_def)
  then show ?thesis using published_sections_approved[OF _ db(1-3) manual] by blast
qed

text \<open>The refusals of a review that is missing or is none of sections.\<close>

definition publication_refused :: "(kn_error, (nat \<times> kn_db) option) result \<Rightarrow> bool" where
  "publication_refused r \<longleftrightarrow> (\<exists>code\<in>{''KNOWLEDGE_REVIEW_REQUIRED'', ''KNOWLEDGE_HUMAN_REVIEW_REQUIRED'',
     ''KNOWLEDGE_SECTION_REVIEW_REQUIRED''}. r = Inl (ApiError 409 code))"

lemma section_review_refused:
  assumes "lookup kd_id docId (kn_documents db) = Some d" "kd_current d = Some vid"
    and "lookup kv_id vid (kn_versions db) = Some v"
    and "jget ''review'' (kv_metadata v) = Some (JObject (section_review kr i at))"
  shows "publication_refused (publishKnowledgeDraft kr docId ctx db)"
proof -
  have "\<not> section_reviewed (section_review kr i at)" "\<not> hasManualDocumentResolution (kv_metadata v)"
    by (simp_all add: section_reviewed_def hasManualDocumentResolution_def assms(4) section_review_def)
  then show ?thesis
    using assms
    by (auto simp: publication_refused_def publishKnowledgeDraft_def assertKnowledgePublicationGate_def
        assertReviewedKnowledgeEvidence_def conflict_def Let_def)
qed

text \<open>
  C33. A full text that was reviewed section by section cannot be published by that review: the
  embedding task that the completion of the review queues carries a review without its mode and
  number of sections, storing the embeddings replaces the stored review by it, and
  \<open>publishKnowledgeDraft\<close> refuses the version then, and in every state in which it is current and
  still carries that review. Only another review, such as a manual approval with a note, can get it
  published.
\<close>

theorem section_reviewed_full_text_stuck:
  assumes "saveEmbeddingsAndComplete kr j chunks db = Inr db'" and "distinct (map kv_id (kn_versions db))"
    and "job_review j = Some (section_review kr i at)" and "job_field ''versionId'' j = Some (id_text vid)"
    and "lookup kd_id docId (kn_documents db') = Some d" and "kd_current d = Some vid"
  shows "(\<exists>v. lookup kv_id vid (kn_versions db') = Some v \<and> kv_status v = KnReview
      \<and> jget ''review'' (kv_metadata v) = Some (JObject (section_review kr i at)))
    \<and> publication_refused (publishKnowledgeDraft kr docId ctx db')
    \<and> (\<forall>later d v. lookup kd_id docId (kn_documents later) = Some d \<longrightarrow> kd_current d = Some vid \<longrightarrow>
         lookup kv_id vid (kn_versions later) = Some v \<longrightarrow>
         jget ''review'' (kv_metadata v) = Some (JObject (section_review kr i at)) \<longrightarrow>
         publication_refused (publishKnowledgeDraft kr docId ctx later))"
proof -
  have refused: "publication_refused (publishKnowledgeDraft kr docId ctx later)"
    if "lookup kd_id docId (kn_documents later) = Some d" "kd_current d = Some vid"
      "lookup kv_id vid (kn_versions later) = Some v"
      "jget ''review'' (kv_metadata v) = Some (JObject (section_review kr i at))" for later d v
    using section_review_refused[OF that] .
  obtain v where v: "lookup kv_id vid (kn_versions db') = Some v" "kv_status v = KnReview"
      "jget ''review'' (kv_metadata v) = Some (JObject (section_review kr i at))"
    using embeddings_row[OF assms(1-4)] by (auto simp: section_review_not_automatic)
  show ?thesis using v refused[OF assms(5,6) v(1,3)] refused by blast
qed

theorem section_reviewed_full_text_stuck_witness:
  "\<exists>db' code. saveEmbeddingsAndComplete demo_kr (demo_job demo_sectional) [] (demo_kn demo_sectional) = Inr db'
    \<and> publishKnowledgeDraft demo_kr 1 demo_admin db' = Inl (ApiError 409 code)"
proof -
  obtain db' d where s: "saveEmbeddingsAndComplete demo_kr (demo_job demo_sectional) [] (demo_kn demo_sectional) = Inr db'"
    and d: "lookup kd_id 1 (kn_documents db') = Some d" "kd_current d = Some 2"
    using demo_sectional_saves by blast
  have "distinct (map kv_id (kn_versions (demo_kn demo_sectional)))" by (simp add: demo_kn_def)
  moreover have "job_review (demo_job demo_sectional) = Some (section_review demo_kr demo_completion 0)"
    "job_field ''versionId'' (demo_job demo_sectional) = Some (id_text 2)"
    by (simp_all add: job_review_def job_field_def demo_job_def demo_payload_def demo_sectional_def)
  ultimately have "publication_refused (publishKnowledgeDraft demo_kr 1 demo_admin db')"
    using section_reviewed_full_text_stuck[OF s _ _ _ d] by blast
  then show ?thesis using s unfolding publication_refused_def by blast
qed

text \<open>
  C34. Two decisions on a section that were made in sight of the same revision are not both
  recorded: after one of them the other is refused, and the first stays the section's decision.
\<close>

theorem stale_decision_refused:
  assumes "decide kr i db = Inr db'" and "de_section k = de_section i" and "de_revision k = de_revision i"
  shows "(\<exists>e. decide kr k db' = Inl e)
    \<and> (\<exists>row. find (\<lambda>r. sd_section r = de_section i) (kn_decisions db') = Some row
         \<and> sd_revision row = de_revision i + 1 \<and> sd_decision row = de_decision i
         \<and> sd_reviewer row = Some (de_reviewer i))"
proof -
  obtain row where row: "find (\<lambda>r. sd_section r = de_section i) (kn_decisions db') = Some row"
      "sd_revision row = de_revision i + 1" "sd_decision row = de_decision i" "sd_reviewer row = Some (de_reviewer i)"
    using decide_records[OF assms(1)] by blast
  have "decide kr k db' \<noteq> Inr d" for d
    using decide_revision[of kr k db' d] row(1,2) assms(2,3) by auto
  then have "\<exists>e. decide kr k db' = Inl e" by (cases "decide kr k db'") auto
  with row show ?thesis by blast
qed

definition demo_decision :: decide_input where
  "demo_decision = \<lparr>de_document = 1, de_version = 2, de_section = 3, de_hash = demo_hash, de_revision = 1,
     de_decision = SecApproved, de_note = None, de_reviewer = js ''r''\<rparr>"

theorem stale_decision_refused_witness:
  "\<exists>db' e. decide demo_kr demo_decision demo_sections = Inr db'
    \<and> decide demo_kr (demo_decision\<lparr>de_decision := SecRejected, de_note := Some (js ''no'')\<rparr>) db' = Inl e"
proof -
  define s where "s = hd (kn_sections demo_sections)"
  define t where "t = \<lparr>tg_document = demo_document, tg_version = demo_sections_version, tg_source = Some demo_source,
      tg_editors = [js ''u'']\<rparr>"
  have tg: "getTarget 1 (Some 2) demo_sections = Some t"
    by (simp add: getTarget_def t_def demo_sections_def demo_kn_def demo_document_def demo_sections_version_def
        demo_version_def demo_source_def document_source_def version_editors_def table_simps js_eq_iff)
       (simp add: js_def List.map_filter_def)
  have sec: "getSection 1 2 3 demo_sections = Some (s, section_choice_of demo_sections s)"
    using tg by (simp add: getSection_def s_def demo_sections_def)
  have s: "rs_hash s = demo_hash" "rs_versionHash s = demo_hash" "rs_rightsHash s = demo_hash"
    by (simp_all add: s_def demo_sections_def)
  have hash: "target_hash t = Inr demo_hash"
    by (simp add: target_hash_def t_def demo_sections_version_def demo_version_def demo_sha)
  have rights: "currentKnowledgeRightsSnapshot demo_kr t = Inr (rights_snapshot demo_source)"
    using demo_sections_authorized by (simp add: currentKnowledgeRightsSnapshot_def t_def)
  have editors: "js ''r'' \<notin> target_editors t"
    by (simp add: target_editors_def t_def demo_sections_version_def demo_version_def js_eq_iff)
       (simp add: js_def)
  have w: "\<exists>db'. writeDecision demo_decision demo_hash demo_sections = Inr db'"
    by (simp add: demo_decision_def writeDecision_def demo_sections_def)
  have "\<exists>db'. decide demo_kr demo_decision demo_sections = Inr db'"
    using w tg sec s hash rights editors
    by (simp add: decide_def demo_decision_def knowledgeRightsSnapshotHash_def sha256_of_def
        demo_kr_def del: One_nat_def)
  then obtain db' where d: "decide demo_kr demo_decision demo_sections = Inr db'" by blast
  from stale_decision_refused[OF d, of "demo_decision\<lparr>de_decision := SecRejected, de_note := Some (js ''no'')\<rparr>"] d
  show ?thesis by (auto simp: demo_decision_def)
qed

subsection \<open>The ingestion queue\<close>

abbreviation ingestion_steps :: "kn_rules \<Rightarrow> kn_db \<Rightarrow> kn_db \<Rightarrow> bool" where
  "ingestion_steps kr \<equiv> (\<lambda>s s'. (\<exists>w locked res. claimNext kr w locked s = (res, s'))
     \<or> (\<exists>p j. settle_ingestion kr p j s = Inr s') \<or> other_transaction s s')\<^sup>*\<^sup>*"

text \<open>
  C35. A worker that lost its ingestion task writes nothing any more: once another worker has
  claimed the task, whatever happens in between, everything it may still report about it is refused:
  the submission to the parser, a postponed poll, the handover to a person, the parsed document, the
  embeddings, the failure and the renewal.
\<close>

theorem ingestion_lease_exclusive:
  assumes "tasks_wf db" and "task_held j db" and "claimNext kr w locked db = (Inr (Some k), db1)"
    and "kj_id k = kj_id j" and "ingestion_steps kr db1 db2"
  shows "markOcrSubmitted kr j parserJob t db2 = Inl (StaleLease (kj_id j))
    \<and> deferOcrPoll j t db2 = Inl (StaleLease (kj_id j))
    \<and> markReviewRequired j reason db2 = Inl (StaleLease (kj_id j))
    \<and> saveParsedForReview kr j parsed content db2 = Inl (StaleLease (kj_id j))
    \<and> (\<exists>e. saveEmbeddingsAndComplete kr j chunks db2 = Inl e)
    \<and> markFailed kr j err t db2 = Inl (StaleLease (kj_id j)) \<and> renewLease j db2 = Inl (StaleLease (kj_id j))"
proof -
  have "lr_row (job_ref k) = lr_row (job_ref j)" using assms(4) by (simp add: job_ref_def)
  from ingestion.claim_supersedes[OF assms(1-3) this]
  have stale: "\<not> task_held j db2" using ingestion.steps_dead[OF assms(5)] by blast
  have "\<exists>e. saveEmbeddingsAndComplete kr j chunks db2 = Inl e"
    using settle_ingestion_stale[OF stale, of kr "IngEmbedded chunks"] by (simp add: settle_ingestion_def)
  then show ?thesis
    using update_task_stale[OF stale] current_lease_stale[OF stale]
    by (simp add: saveParsedForReview_def markFailed_def renewLease_def markOcrSubmitted_def deferOcrPoll_def
        markReviewRequired_def requeue_def)
qed

theorem ingestion_lease_exclusive_witness:
  "\<exists>k db1 e. claimNext demo_kr ''w2'' {} ((demo_kn demo_review)\<lparr>kn_now := 1000000\<rparr>) = (Inr (Some k), db1)
    \<and> kj_id k = 5 \<and> saveEmbeddingsAndComplete demo_kr (demo_job demo_review) [] db1 = Inl e"
proof -
  let ?db = "(demo_kn demo_review)\<lparr>kn_now := 1000000\<rparr>"
  have wf: "tasks_wf ?db" by (simp add: leases_wf_def demo_kn_def demo_task_def task_lease_def)
  have held: "task_held (demo_job demo_review) ?db"
    by (simp add: lease_valid_def job_ref_def demo_kn_def demo_task_def task_lease_def demo_job_def)
  have due: "task_due 1000000 (demo_task demo_review)" by (simp add: task_due_def demo_task_def)
  have "\<exists>k. parseJob (claim_task ''w2'' ?db (demo_task demo_review)) ''w2'' 6 = Inr k \<and> kj_id k = 5"
    by (simp add: parseJob_def claim_task_def demo_task_def demo_payload_def isStage_def stage_names_def)
  then obtain k where k: "parseJob (claim_task ''w2'' ?db (demo_task demo_review)) ''w2'' 6 = Inr k" "kj_id k = 5"
    by blast
  have "\<exists>db1. claimNext demo_kr ''w2'' {} ?db = (Inr (Some k), db1)"
    using k(1) due by (simp add: claimNext_def demo_kn_def sort_by_def Let_def)
  then obtain db1 where c: "claimNext demo_kr ''w2'' {} ?db = (Inr (Some k), db1)" by blast
  have "kj_id k = kj_id (demo_job demo_review)" using k(2) by (simp add: demo_job_def)
  from ingestion_lease_exclusive[OF wf held c this rtranclp.rtrancl_refl] c k(2) show ?thesis by blast
qed

subsection \<open>The index holds the reviewed text\<close>

text \<open>
  C36. Every chunk is trimmed, not empty and at most the configured length, and every paragraph of a
  page that fits a chunk is inside a chunk of that page. The pages make up the reviewed text except
  for the markers and for the text before the first marker: a text with a marker loses what stands
  before it (a candidate whose first sections have no page), one without markers loses nothing.
\<close>

theorem chunks_cover_reviewed_text:
  assumes "chunkReviewedMarkdown content width overlap = Inr cs"
  shows "(\<forall>c\<in>set cs. trimmed_text (kt_content c) \<and> length (kt_content c) \<le> width)
    \<and> (\<forall>(page, t)\<in>set (content_pages content). \<forall>p\<in>set (page_paragraphs t). length p \<le> width \<longrightarrow>
         (\<exists>c\<in>set cs. kt_page c = page \<and> js_infix p (kt_content c)))
    \<and> map snd (content_pages content) = map js_trim (page_texts content)
    \<and> content = unpaged_text content @ concat (map2 (@) (marker_texts content) (page_texts content))"
  using chunkReviewedMarkdown_ok[OF assms] pages_cover by blast

theorem chunks_cover_reviewed_text_witness:
  "\<exists>cs. chunkReviewedMarkdown (js ''a'') 5 1 = Inr cs \<and> (\<forall>c\<in>set cs. length (kt_content c) \<le> 5)"
proof -
  obtain cs where c: "chunkReviewedMarkdown (js ''a'') 5 1 = Inr cs" by (simp add: chunkReviewedMarkdown_def)
  from chunks_cover_reviewed_text[OF c] c show ?thesis by blast
qed

text \<open>
  C37. When the worker reports a text as completed, the chunks of the version are those of a content
  whose SHA-256 the review approved, in their order and each with a vector of 1024 finite numbers.
\<close>

theorem completed_embeddings_are_reviewed_text:
  assumes "embedApprovedContent kr w j db = (Inr WorkCompleted, db')"
  shows "\<exists>review content base vid rows. job_review j = Some review
    \<and> jstring (jget ''contentHash'' review) = Some (kr_sha kr content)
    \<and> chunkReviewedMarkdown content default_chunk_characters default_chunk_overlap = Inr base \<and> base \<noteq> []
    \<and> job_field ''versionId'' j = Some (id_text vid)
    \<and> rows = filter (\<lambda>c. kc_version c = vid) (kn_chunks db')
    \<and> map kc_content rows = map kt_content base \<and> map kc_index rows = [0..<length base]
    \<and> (\<forall>c\<in>set rows. \<exists>x. kc_embedding c = Some x \<and> vector_ok x)"
proof -
  obtain review content base vectors m d where b: "job_review j = Some review"
      "jstring (jget ''contentHash'' review) = Some (kr_sha kr content)"
      "chunkReviewedMarkdown content default_chunk_characters default_chunk_overlap = Inr base" "base \<noteq> []"
    and v: "length vectors = length base" "list_all vector_ok vectors"
    and save: "saveEmbeddingsAndComplete kr j (map (embedded_chunk_of review m) (zip base vectors)) d = Inr db'"
    using assms by (rule completed_turn)
  have "\<forall>c\<in>set (map (embedded_chunk_of review m) (zip base vectors)). vector_ok (em_embedding c)"
    using v(2) by (auto simp: list_all_iff dest: set_zip_rightD)
  from stored_rows[OF save this] zip_chunk_contents[of base vectors review m] v(1) b show ?thesis
    by simp blast
qed

definition demo_vector :: "js_number list" where
  "demo_vector = replicate 1024 (Finite (js ''0''))"

lemma demo_vector_ok: "vector_ok demo_vector"
  unfolding vector_ok_def demo_vector_def length_replicate by simp

definition demo_world :: knowledge_world where
  "demo_world = \<lparr>kw_downloadUrl = None, kw_submit = \<lambda>_ _. Inl (FailPlain ''x''), kw_status = \<lambda>_. Inl (FailPlain ''x''),
     kw_result = \<lambda>_. Inl (FailPlain ''x''),
     kw_embed = \<lambda>ts. Inr \<lparr>er_vectors = map (\<lambda>_. demo_vector) ts, er_dimensions = 1024,
       er_model = js ''m''\<rparr>, kw_during = id\<rparr>"

definition demo_approved :: kn_db where
  "demo_approved = (demo_kn demo_review)\<lparr>kn_versions := [demo_version\<lparr>kv_metadata :=
     [(''reviewStatus'', JString (js ''approved'')), (''review'', JObject demo_review)]\<rparr>]\<rparr>"

lemma demo_base:
  "chunkReviewedMarkdown (js ''c'') default_chunk_characters default_chunk_overlap = Inr [make_chunk None (js ''c'')]"
proof -
  have c: "js ''c'' = [99]" by (simp add: js_def)
  have trim: "js_trim [99] = [99]" by (simp add: js_trim_def trimStart_def js_white_def)
  have "page_markers 0 [99] = []" by (simp add: marker_match_def js_startsWith_def js_def)
  then have "content_pages [99] = [(None, [99])]" by (simp add: content_pages_def trim)
  moreover have "line_feeds [99] = None" by (simp add: line_feeds_def)
  ultimately show ?thesis unfolding c
    by (simp add: chunkReviewedMarkdown_def default_chunk_characters_def default_chunk_overlap_def chunk_page_def trim
        chunk_paragraph_def chunk_flush_def Let_def)
qed

theorem completed_embeddings_are_reviewed_text_witness:
  "\<exists>db' vid rows. embedApprovedContent demo_kr demo_world (demo_job demo_review) demo_approved = (Inr WorkCompleted, db')
    \<and> rows = filter (\<lambda>c. kc_version c = vid) (kn_chunks db') \<and> rows \<noteq> []"
proof -
  let ?j = "demo_job demo_review" and ?db = demo_approved
  define v where "v = demo_version\<lparr>kv_metadata := [(''reviewStatus'', JString (js ''approved'')), (''review'', JObject demo_review)]\<rparr>"
  have vf: "kv_id v = 2" "kv_document v = 1" "kv_status v = KnReview" "kv_hash v = Some demo_hash" "kv_content v = js ''c''"
      "kv_citation v = kv_citation demo_version" "jtext_is ''reviewStatus'' ''approved'' (kv_metadata v)"
      "recordValue (jget ''review'' (kv_metadata v)) = demo_review"
    by (simp_all add: v_def demo_version_def jtext_is_def)
  have rf: "jtext_is ''status'' ''approved'' demo_review" "jget ''contentHash'' demo_review = Some (JString demo_hash)"
    by (simp_all add: demo_review_def jtext_is_def)
  have db: "kn_versions ?db = [v]" "kn_documents ?db = [demo_document]" "kn_tasks ?db = [demo_task demo_review]"
      "kn_sources ?db = [demo_source]" "kn_now ?db = 0"
    by (simp_all add: demo_approved_def v_def demo_kn_def)
  have df: "kd_id demo_document = 1" "kd_current demo_document = Some 2" "kd_status demo_document = KnReview"
      "kd_source demo_document = Some 1" "ks_id demo_source = 1"
    by (simp_all add: demo_document_def demo_source_def)
  have fields: "job_field ''versionId'' ?j = Some (id_text 2)" "job_field ''documentId'' ?j = Some (id_text 1)"
    by (simp_all add: job_field_def demo_job_def demo_payload_def)
  have mine: "task_mine ?j (demo_task demo_review)" "assertCurrentLease ?j ?db = Inr ()"
    by (simp_all add: task_mine_def task_lease_def demo_job_def demo_task_def assertCurrentLease_def db)
  have renew: "renewLease ?j ?db = Inr ?db"
    using mine(1)
    by (simp add: renewLease_def update_task_def db update_where_def) (simp add: demo_approved_def demo_kn_def demo_task_def)
  have target: "current_target (Some (id_text 2)) (Some (id_text 1)) ?db = Some (v, demo_document, Some demo_source)"
    by (simp add: current_target_def db vf df table_simps del: One_nat_def)
  have mode: "jtext_is ''ingestionMode'' ''full_text'' (kv_citation demo_version)" by (simp add: demo_version_def jtext_is_def)
  have load: "loadApprovedContent demo_kr ?j ?db = Inr (Some (js ''c''))"
    using demo_source_publishable
    by (simp add: loadApprovedContent_def mine fields target demo_job_review vf df rf mode source_publishable_def Let_def del: One_nat_def)
  have save: "\<exists>d. saveEmbeddingsAndComplete demo_kr ?j [embedded_chunk_of demo_review m
      (make_chunk None (js ''c''), demo_vector)] ?db = Inr d" for m
    by (simp add: saveEmbeddingsAndComplete_def demo_job_review demo_review_valid mine fields db vf df rf replace_chunks_def
        demo_vector_ok update_version_def update_document_def update_task_def kn_audited_def update_where_def Let_def
        del: One_nat_def)
  then obtain d where d: "saveEmbeddingsAndComplete demo_kr ?j [embedded_chunk_of demo_review (js ''m'')
      (make_chunk None (js ''c''), demo_vector)] ?db = Inr d" by blast
  have embed: "withLeaseHeartbeat demo_world ?j (kw_embed demo_world (map kt_content [make_chunk None (js ''c'')])) ?db
      = (Inr \<lparr>er_vectors = [demo_vector], er_dimensions = 1024, er_model = js ''m''\<rparr>, ?db)"
    by (simp add: withLeaseHeartbeat_def thenK_def commit_def renew kn_external_def demo_world_def pureK_def)
  have sha: "kr_sha demo_kr (js ''c'') = demo_hash" by (simp add: demo_kr_def)
  have run: "embedApprovedContent demo_kr demo_world ?j ?db = (Inr WorkCompleted, d)"
  proof -
    have loaded: "thenK (readK (loadApprovedContent demo_kr ?j)) f ?db = f (Some (js ''c'')) ?db" for f
      by (simp add: thenK_def readK_def load)
    have embedded: "thenK (withLeaseHeartbeat demo_world ?j (kw_embed demo_world [js ''c''])) f ?db
        = f \<lparr>er_vectors = [demo_vector], er_dimensions = 1024, er_model = js ''m''\<rparr> ?db" for f
      using embed by (simp add: thenK_def)
    have "embedApprovedContent demo_kr demo_world ?j ?db = thenK (commit (saveEmbeddingsAndComplete demo_kr ?j
        [embedded_chunk_of demo_review (js ''m'') (make_chunk None (js ''c''), demo_vector)])) (\<lambda>_. pureK (Inr WorkCompleted)) ?db"
      by (simp add: embedApprovedContent_def demo_job_review demo_review_valid thenK_steps(1) loaded sha rf
          demo_base embedded embedding_ok_def demo_vector_ok)
    then show ?thesis by (simp add: thenK_def commit_def d pureK_def)
  qed
  from completed_embeddings_are_reviewed_text[OF run] show ?thesis
  proof (elim exE conjE)
    fix review content base vid rows
    assume "base \<noteq> []" "rows = filter (\<lambda>c. kc_version c = vid) (kn_chunks d)" "map kc_content rows = map kt_content base"
    then have "rows = filter (\<lambda>c. kc_version c = vid) (kn_chunks d) \<and> rows \<noteq> []" by auto
    then show ?thesis using run by blast
  qed
qed

end
