(* ===== verification/Tool_Policy.thy ===== *)
theory Tool_Policy
  imports Answer_Validation Stored_Answers
begin

section \<open>Which tools a model request may use\<close>

text \<open>
  The request policy of \<open>src/server/agent/orchestrator.ts\<close>: the tools offered to the model, the
  choice forced on it, the names it may call, the calls refused, and how the invalid arguments of
  an artifact are repaired, with the budgets of \<open>src/server/agent/mode-policy.ts\<close>. The patterns
  that read a question in natural language, \<open>JSON.parse\<close> and \<open>JSON.stringify\<close>, the localisation of a calculation and the
  binary floating point arithmetic of the calculators are the parameter \<open>agent_rules\<close>.
\<close>

subsection \<open>Types\<close>

record calculation =
  ca_id :: js_string
  ca_tool :: js_string
  ca_formulaId :: js_string
  ca_formulaVersion :: js_string
  ca_inputKeys :: "js_string list"
  ca_resultKeys :: "js_string list"

datatype response_tool = FunctionTool js_string json | WebSearchTool js_string

datatype tool_choice = ChoiceNone | ChoiceAuto | ChoiceFunction js_string

record function_call =
  fc_id :: js_string
  fc_name :: js_string
  fc_arguments :: js_string

datatype input_item =
    MessageItem js_string json
  | FunctionCallItem js_string js_string js_string
  | FunctionOutputItem js_string js_string
  | OtherItem js_string

datatype recovery_mode = FreshJsonInvalid | ContinuationInvalidArguments

datatype validation_stage = StageJsonParse | StageSchema | StageLinkless | StageBinding | StageFinal

datatype agent_error =
    RuntimeError string bool "validation_stage option"
  | ProviderFailure "int option" bool
  | QuotaExhaustedFor quota_resource
  | Aborted
  | StoreFailure app_error
  | OtherFailure string

record agent_rules =
  ag_text :: text_rules
  ag_parse :: "js_string \<Rightarrow> json option"
  ag_stringify :: "json \<Rightarrow> js_string"
  ag_artifactIntent :: "js_string \<Rightarrow> bool"
  ag_tableIntent :: "js_string \<Rightarrow> bool"
  ag_calculationWords :: "js_string \<Rightarrow> bool"
  ag_documentIntent :: "js_string \<Rightarrow> bool"
  ag_visualIntent :: "js_string \<Rightarrow> bool"
  ag_pumpdownIntent :: "js_string \<Rightarrow> bool"
  ag_pumpdownArguments :: "js_string \<Rightarrow> input_item list \<Rightarrow> js_string option"
  ag_tableExclusion :: "js_string \<Rightarrow> bool"
  ag_tableRequest :: "js_string \<Rightarrow> bool"
  ag_crossAttachment :: "js_string \<Rightarrow> bool"
  ag_timeSensitive :: "js_string \<Rightarrow> bool"
  ag_complexMode :: "js_string \<Rightarrow> bool"
  ag_linkRequest :: "js_string \<Rightarrow> bool"
  ag_purePumpdown :: "js_string \<Rightarrow> bool"
  ag_localize :: "calculation \<Rightarrow> public_calculation"
  ag_projection :: "calculation \<Rightarrow> js_string option"
  ag_sameCalculation :: "js_string \<Rightarrow> calculation \<Rightarrow> bool"

subsection \<open>Names\<close>

definition create_artifact :: js_string where "create_artifact = js ''create_artifact''"
definition search_knowledge :: js_string where "search_knowledge = js ''search_knowledge''"
definition search_attachment :: js_string where "search_attachment = js ''search_attachment''"
definition open_attachment_excerpt :: js_string where
  "open_attachment_excerpt = js ''open_attachment_excerpt''"
definition analyze_image :: js_string where "analyze_image = js ''analyze_image''"
definition read_verified_url :: js_string where "read_verified_url = js ''read_verified_url''"
definition pumpdown_tool :: js_string where "pumpdown_tool = js ''estimate_pumpdown_time''"

lemmas tool_names = create_artifact_def search_knowledge_def search_attachment_def
  open_attachment_excerpt_def analyze_image_def read_verified_url_def pumpdown_tool_def

fun function_names :: "response_tool \<Rightarrow> js_string list" where
  "function_names (FunctionTool n _) = [n]"
| "function_names (WebSearchTool _) = []"

definition names_of :: "response_tool list \<Rightarrow> js_string list" where
  "names_of tools = concat (map function_names tools)"

definition offers :: "js_string \<Rightarrow> response_tool list \<Rightarrow> bool" where
  "offers n tools \<longleftrightarrow> n \<in> set (names_of tools)"

fun called_name :: "input_item \<Rightarrow> js_string list" where
  "called_name (FunctionCallItem _ n _) = [n]"
| "called_name _ = []"

definition called_names :: "input_item list \<Rightarrow> js_string list" where
  "called_names input = concat (map called_name input)"

subsection \<open>Budgets of a mode\<close>

record budget_profile =
  bp_timeoutName :: string
  bp_timeoutFallback :: int
  bp_maxToolRounds :: nat
  bp_inputTokenBudget :: nat
  bp_outputTokenName :: string
  bp_outputTokenFallback :: int

definition agentRunBudgetProfile :: "requested_mode \<Rightarrow> budget_profile" where
  "agentRunBudgetProfile mode =
     (if mode = RequestDeep then
        \<lparr>bp_timeoutName = ''AGENT_DEEP_TIMEOUT_MS'', bp_timeoutFallback = 180000, bp_maxToolRounds = 3,
         bp_inputTokenBudget = 131072, bp_outputTokenName = ''AGENT_DEEP_MAX_OUTPUT_TOKENS'',
         bp_outputTokenFallback = 8192\<rparr>
      else
        \<lparr>bp_timeoutName = ''AGENT_AUTO_TIMEOUT_MS'', bp_timeoutFallback = 120000, bp_maxToolRounds = 1,
         bp_inputTokenBudget = 65536, bp_outputTokenName = ''AGENT_AUTO_MAX_OUTPUT_TOKENS'',
         bp_outputTokenFallback = 4096\<rparr>)"

definition resolveAgentMode :: "agent_rules \<Rightarrow> requested_mode \<Rightarrow> js_string \<Rightarrow> risk_level \<Rightarrow> resolved_mode" where
  "resolveAgentMode ag requested question risk =
     (if requested = RequestDeep then ModeDeep
      else if risk \<noteq> RiskLow \<or> ag_complexMode ag question then ModeDeep else ModeFast)"

definition requiresFreshWebEvidence :: "agent_rules \<Rightarrow> js_string \<Rightarrow> bool" where
  "requiresFreshWebEvidence ag question \<longleftrightarrow> ag_timeSensitive ag (tr_nfkc (ag_text ag) question)"

definition shouldUseWeb :: "agent_rules \<Rightarrow> web_mode \<Rightarrow> js_string \<Rightarrow> risk_level \<Rightarrow> nat \<Rightarrow> resolved_mode \<Rightarrow> bool" where
  "shouldUseWeb ag web question risk localEvidence mode =
     (if web = WebAlways then True
      else requiresFreshWebEvidence ag question \<or> localEvidence = 0 \<or> (risk = RiskHigh \<and> mode = ModeDeep))"

subsection \<open>What the question asks for\<close>

definition requiresDocumentAttachmentEvidence :: "agent_rules \<Rightarrow> js_string \<Rightarrow> bool" where
  "requiresDocumentAttachmentEvidence ag question =
     (let normalized = tr_nfkc (ag_text ag) question
      in ag_documentIntent ag normalized \<and> \<not> ag_visualIntent ag normalized)"

definition hasArtifactCalculationPrerequisite :: "agent_rules \<Rightarrow> js_string \<Rightarrow> bool" where
  "hasArtifactCalculationPrerequisite ag question \<longleftrightarrow>
     ag_artifactIntent ag question \<and> ag_calculationWords ag (tr_nfkc (ag_text ag) question)"

definition attachment_scope_text :: js_string where
  "attachment_scope_text = [38468, 20214, 20165, 38480, 24403, 21069, 20250, 35805, 20351, 29992, 65292, 19981, 33021, 35835, 21462, 12289,
     24341, 29992, 25110, 20351, 29992, 21478, 19968, 20010, 20250, 35805, 20013, 30340, 38468, 20214, 12290, 35831,
     22312, 24403, 21069, 20250, 35805, 37325, 26032, 19978, 20256, 38656, 35201, 22788, 29702, 30340, 25991, 20214,
     21518, 20877, 32487, 32493, 12290]"

definition attachment_scope_missing :: js_string where
  "attachment_scope_missing = [35831, 22312, 24403, 21069, 20250, 35805, 37325, 26032, 19978, 20256, 38656, 35201, 22788, 29702, 30340, 38468,
     20214, 12290]"

definition buildDeterministicAttachmentScopeAnswerV3 ::
  "agent_rules \<Rightarrow> js_string \<Rightarrow> risk_level \<Rightarrow> answer_v3 option" where
  "buildDeterministicAttachmentScopeAnswerV3 ag question risk =
     (if \<not> ag_crossAttachment ag (js_trim (collapse_space (tr_nfkc (ag_text ag) question))) then None
      else if risk = RiskHigh then
        (let safety = buildDeterministicSafeAnswerV3 (ag_text ag) risk attachment_scope_missing
         in Some (safety\<lparr>an_blocks := Paragraph attachment_scope_text [] # an_blocks safety\<rparr>))
      else Some \<lparr>an_kind = KindClarification, an_risk = risk, an_blocks = [Paragraph attachment_scope_text []],
        an_missingInputs = [attachment_scope_missing], an_usedEvidenceIds = [], an_usedLinkIds = []\<rparr>)"

fun is_text_part :: "input_part \<Rightarrow> bool" where
  "is_text_part (TextPart _) = True"
| "is_text_part _ = False"

definition shouldBlockArtifactCreation :: "agent_rules \<Rightarrow> js_string \<Rightarrow> risk_level \<Rightarrow> input_part list \<Rightarrow> bool" where
  "shouldBlockArtifactCreation ag question risk parts =
     (if \<not> ag_artifactIntent ag question then False
      else if risk = RiskHigh then True
      else if list_ex (\<lambda>p. \<not> is_text_part p) parts then True
      else if hasArtifactCalculationPrerequisite ag question then True
      else buildDeterministicAttachmentScopeAnswerV3 ag question risk \<noteq> None)"

subsection \<open>The tools of a request\<close>

definition selectAnswerTools :: "response_tool list \<Rightarrow> calculation list \<Rightarrow> js_string list \<Rightarrow> response_tool list" where
  "selectAnswerTools tools calculations blocked =
     filter (\<lambda>t. case t of
         FunctionTool n _ \<Rightarrow> n \<notin> set (map ca_tool calculations) \<and> n \<notin> set blocked
       | WebSearchTool _ \<Rightarrow> True) tools"

definition selectContinuationTools ::
  "response_tool list \<Rightarrow> input_item list \<Rightarrow> (agent_error, response_tool list) result" where
  "selectContinuationTools tools input =
     (let called = called_names input;
          selected = filter (\<lambda>t. case t of FunctionTool n _ \<Rightarrow> n \<in> set called | WebSearchTool _ \<Rightarrow> False) tools
      in if called = [] then Inr []
         else if list_ex (\<lambda>n. n \<notin> set (names_of selected)) called
         then Inl (RuntimeError ''TOOL_CONTINUATION_CONTRACT'' False None)
         else Inr selected)"

fun tool_key :: "response_tool \<Rightarrow> js_string" where
  "tool_key (FunctionTool n _) = js ''function:'' @ n"
| "tool_key (WebSearchTool t) = t"

fun first_of_key :: "js_string list \<Rightarrow> response_tool list \<Rightarrow> response_tool list" where
  "first_of_key seen [] = []"
| "first_of_key seen (t # ts) =
     (if tool_key t \<in> set seen then first_of_key seen ts else t # first_of_key (tool_key t # seen) ts)"

definition mergeResponseTools :: "response_tool list \<Rightarrow> response_tool list \<Rightarrow> response_tool list" where
  "mergeResponseTools callable replay = first_of_key [] (callable @ replay)"

definition selectAttachmentToolChoice ::
  "agent_rules \<Rightarrow> js_string \<Rightarrow> input_item list \<Rightarrow> response_tool list \<Rightarrow> tool_choice option" where
  "selectAttachmentToolChoice ag question input tools =
     (if \<not> requiresDocumentAttachmentEvidence ag question then None
      else
        let called = called_names input in
        if offers search_attachment tools \<and> search_attachment \<notin> set called
        then Some (ChoiceFunction search_attachment)
        else if offers open_attachment_excerpt tools \<and> search_attachment \<in> set called
            \<and> open_attachment_excerpt \<notin> set called
        then Some (ChoiceFunction open_attachment_excerpt)
        else None)"

definition selectArtifactToolChoice ::
  "agent_rules \<Rightarrow> js_string \<Rightarrow> input_item list \<Rightarrow> response_tool list \<Rightarrow> tool_choice option" where
  "selectArtifactToolChoice ag question input tools =
     (if \<not> ag_artifactIntent ag question \<or> hasArtifactCalculationPrerequisite ag question
         \<or> list_ex (\<lambda>n. offers n tools) [read_verified_url, search_attachment, open_attachment_excerpt, analyze_image]
      then None
      else if offers create_artifact tools \<and> create_artifact \<notin> set (called_names input)
      then Some (ChoiceFunction create_artifact) else None)"

definition selectAnswerToolChoice ::
  "agent_rules \<Rightarrow> js_string \<Rightarrow> input_item list \<Rightarrow> calculation list \<Rightarrow> response_tool list \<Rightarrow> tool_choice" where
  "selectAnswerToolChoice ag question input calculations tools =
     (case selectAttachmentToolChoice ag question input tools of
        Some c \<Rightarrow> c
      | None \<Rightarrow>
          if ag_pumpdownIntent ag question \<and> \<not> list_ex (\<lambda>c. ca_tool c = pumpdown_tool) calculations
             \<and> \<not> hasArtifactCalculationPrerequisite ag question
             \<and> ag_pumpdownArguments ag question input \<noteq> None
          then ChoiceFunction pumpdown_tool
          else (case selectArtifactToolChoice ag question input tools of Some c \<Rightarrow> c | None \<Rightarrow> ChoiceAuto))"

definition selectAnswerToolRoundLimit ::
  "nat \<Rightarrow> response_tool list \<Rightarrow> calculation list \<Rightarrow> input_part list \<Rightarrow> nat" where
  "selectAnswerToolRoundLimit base tools calculations parts =
     (if \<not> list_ex (\<lambda>c. ca_tool c = pumpdown_tool) calculations then base
      else base + (if offers create_artifact tools \<or> list_ex (\<lambda>p. \<not> is_text_part p) parts then 1 else 0))"

subsection \<open>The safe repair of a parameter table\<close>

definition provider_contract :: js_string where
  "provider_contract = js ''openvac.parameter-table-provider.v2''"

definition repair_contract :: js_string where
  "repair_contract = js ''openvac.parameter-table-repair.v1''"

record repair_template =
  rt_title :: js_string
  rt_summary :: js_string
  rt_format :: js_string
  rt_parameterKind :: js_string
  rt_parameter :: js_string
  rt_valueOrStatus :: js_string
  rt_unit :: js_string
  rt_condition :: js_string

definition safe_repair_template :: repair_template where
  "safe_repair_template = \<lparr>rt_title = [27893, 32452, 36873, 22411, 21442, 25968, 34920], rt_summary = [21442, 25968, 20540, 21644, 36866, 29992, 24037, 20917, 22343, 24453, 29992, 25143, 30830, 35748, 12290], rt_format = js ''csv'',
     rt_parameterKind = js ''physical'', rt_parameter = [26377, 25928, 25277, 36895], rt_valueOrStatus = [24453, 29992, 25143, 30830, 35748],
     rt_unit = js ''L/s'', rt_condition = [36816, 34892, 24037, 20917, 24453, 29992, 25143, 30830, 35748]\<rparr>"

definition raw_argument_bytes :: nat where "raw_argument_bytes = 24 * 1024"
definition visible_characters :: nat where "visible_characters = 6000"
definition max_artifact_argument_bytes :: nat where "max_artifact_argument_bytes = 256 * 1024 * 8"
definition max_replay_bytes :: nat where "max_replay_bytes = 64 * 1024"

text \<open>\<open>Buffer.byteLength(s, "utf8")\<close>; a surrogate without partner becomes U+FFFD.\<close>

definition utf8_bytes :: "js_string \<Rightarrow> nat" where
  "utf8_bytes s = sum_list (map (\<lambda>ch. case ch of
     [c] \<Rightarrow> if c < 128 then 1 else if c < 2048 then 2 else 3
   | _ \<Rightarrow> 4) (js_characters s))"

fun visibleStringCharacters :: "json \<Rightarrow> nat" where
  "visibleStringCharacters (JString s) = length (js_characters s)"
| "visibleStringCharacters (JArray xs) = sum_list (map visibleStringCharacters xs)"
| "visibleStringCharacters (JObject kvs) = sum_list (map (\<lambda>kv. visibleStringCharacters (snd kv)) kvs)"
| "visibleStringCharacters _ = 0"

text \<open>
  \<open>Object.keys(value).toSorted().join(",")\<close> compared with the keys expected. A key with a comma in it
  could join to the same text; every use tests each expected property as well, so that the
  comparison of the sets decides the same.
\<close>

definition keys_are :: "string list \<Rightarrow> json \<Rightarrow> bool" where
  "keys_are ks j = (case j of JObject kvs \<Rightarrow> set (map fst kvs) = set ks | _ \<Rightarrow> False)"

definition has_text :: "string \<Rightarrow> js_string \<Rightarrow> json \<Rightarrow> bool" where
  "has_text k s j \<longleftrightarrow> json_get k j = Some (JString s)"

definition isParameterTableArtifactTool :: "response_tool \<Rightarrow> bool" where
  "isParameterTableArtifactTool t = (case t of
     WebSearchTool _ \<Rightarrow> False
   | FunctionTool n parameters \<Rightarrow> n = create_artifact
       \<and> (case json_get ''properties'' parameters of
            None \<Rightarrow> False
          | Some properties \<Rightarrow> (case json_get ''contractVersion'' properties of
                None \<Rightarrow> False
              | Some version \<Rightarrow> has_text ''const'' provider_contract version
                  \<or> has_text ''const'' repair_contract version)))"

definition begin_marker :: js_string where "begin_marker = js ''BEGIN_''"

definition marker_char :: "nat \<Rightarrow> bool" where
  "marker_char c \<longleftrightarrow> (65 \<le> c \<and> c \<le> 90) \<or> js_digit c \<or> c = 95"

definition begins_marked :: "js_string \<Rightarrow> bool" where
  "begins_marked s \<longleftrightarrow> js_startsWith s begin_marker
     \<and> (case drop (length begin_marker) s of c # _ \<Rightarrow> marker_char c | [] \<Rightarrow> False)"

definition input_texts :: "json list \<Rightarrow> js_string list" where
  "input_texts parts = List.map_filter (\<lambda>p.
     if has_text ''type'' (js ''input_text'') p then string_of (json_get ''text'' p) else None) parts"

fun user_text :: "input_item \<Rightarrow> js_string list" where
  "user_text (MessageItem role content) =
     (if role \<noteq> js ''user'' then []
      else let t = js_trim (case content of JString s \<Rightarrow> s | JArray ps \<Rightarrow> js_join newline (input_texts ps) | _ \<Rightarrow> [])
        in if t \<noteq> [] \<and> \<not> begins_marked t then [js_slice t 0 16000] else [])"
| "user_text _ = []"

definition previousPlainUserText :: "input_item list \<Rightarrow> js_string \<Rightarrow> js_string option" where
  "previousPlainUserText input question =
     (let texts = concat (map user_text input);
          rest = (if texts \<noteq> [] \<and> last texts = js_trim question then butlast texts else texts)
      in if rest = [] then None else Some (last rest))"

definition data_footer :: js_string where "data_footer = 10 # js ''END_UNTRUSTED_DATA''"

datatype structured = NoStructure | BadStructure | Structure js_string json

fun structured_item :: "agent_rules \<Rightarrow> input_item \<Rightarrow> structured" where
  "structured_item ag (MessageItem role (JString content)) =
     (if role \<noteq> js ''user'' \<or> \<not> js_startsWith (js_trim content) begin_marker then NoStructure
      else if content \<noteq> js_trim content then BadStructure
      else let line = length (takeWhile (\<lambda>c. c \<noteq> 10) content) in
        if 10 \<notin> set content \<or> line = 0 \<or> \<not> js_endsWith content data_footer then BadStructure
        else case ag_parse ag (js_slice content (line + 1) (length content - length data_footer)) of
          Some (JObject kvs) \<Rightarrow> Structure (take line content) (JObject kvs)
        | _ \<Rightarrow> BadStructure)"
| "structured_item ag _ = NoStructure"

text \<open>\<open>None\<close> once an item is malformed or repeats a marker.\<close>

fun structured_context :: "agent_rules \<Rightarrow> input_item list \<Rightarrow> (js_string \<times> json) list \<Rightarrow>
   (js_string \<times> json) list option" where
  "structured_context ag [] seen = Some seen"
| "structured_context ag (i # is) seen =
     (case structured_item ag i of
        NoStructure \<Rightarrow> structured_context ag is seen
      | BadStructure \<Rightarrow> None
      | Structure marker payload \<Rightarrow>
          if marker \<in> fst ` set seen then None else structured_context ag is (seen @ [(marker, payload)]))"

definition empty_array :: "string \<Rightarrow> json \<Rightarrow> bool" where
  "empty_array k j \<longleftrightarrow> json_get k j = Some (JArray [])"

definition is_array :: "json option \<Rightarrow> bool" where
  "is_array v = (case v of Some (JArray _) \<Rightarrow> True | _ \<Rightarrow> False)"

definition hasMeaningfulStructuredParameterContext :: "agent_rules \<Rightarrow> input_item list \<Rightarrow> bool" where
  "hasMeaningfulStructuredParameterContext ag input =
     (case structured_context ag input [] of
        None \<Rightarrow> True
      | Some structured \<Rightarrow>
          (case (map_of structured (js ''BEGIN_USER_CONFIRMED_CONTEXT''),
                 map_of structured (js ''BEGIN_EVIDENCE_REGISTRY''),
                 map_of structured (js ''BEGIN_CURRENT_TURN_PARTS'')) of
             (Some memory, Some evidence, Some parts) \<Rightarrow>
               if length structured \<noteq> 3 then True
               else \<not> (keys_are [''conversationSummary'', ''schema'', ''userConfirmedMemories''] memory
                 \<and> has_text ''schema'' (js ''openvac.context.memory.v1'') memory
                 \<and> empty_array ''userConfirmedMemories'' memory
                 \<and> json_get ''conversationSummary'' memory = Some JNull
                 \<and> keys_are [''evidence'', ''schema''] evidence
                 \<and> has_text ''schema'' (js ''openvac.context.evidence.v1'') evidence
                 \<and> is_array (json_get ''evidence'' evidence)
                 \<and> keys_are [''attachmentRefs'', ''links'', ''schema''] parts
                 \<and> has_text ''schema'' (js ''openvac.context.turn-parts.v1'') parts
                 \<and> empty_array ''links'' parts \<and> empty_array ''attachmentRefs'' parts)
           | _ \<Rightarrow> True))"

text \<open>The sentence marks at the end, and the marks that separate sentences.\<close>

definition final_mark :: "nat \<Rightarrow> bool" where
  "final_mark c \<longleftrightarrow> c \<in> {12290, 46, 33, 65281, 63, 65311}"

definition inner_mark :: "nat \<Rightarrow> bool" where
  "inner_mark c \<longleftrightarrow> final_mark c \<or> c \<in> {65307, 59, 10}"

definition without_final_marks :: "js_string \<Rightarrow> js_string" where
  "without_final_marks s = rev (dropWhile final_mark (rev s))"

fun assistant_message :: "input_item \<Rightarrow> bool" where
  "assistant_message (MessageItem role _) = (role = js ''assistant'')"
| "assistant_message _ = False"

definition shouldUseSafeParameterTableRepair ::
  "agent_rules \<Rightarrow> js_string \<Rightarrow> response_tool list \<Rightarrow> input_item list \<Rightarrow> bool" where
  "shouldUseSafeParameterTableRepair ag question tools input =
     (if \<not> ag_tableIntent ag question \<or> \<not> list_ex isParameterTableArtifactTool tools then False
      else if previousPlainUserText input question \<noteq> None \<or> list_ex assistant_message input
         \<or> hasMeaningfulStructuredParameterContext ag input then False
      else
        let normalized = js_trim (without_final_marks (js_trim (tr_nfkc (ag_text ag) question))) in
        if list_ex inner_mark normalized \<or> ag_tableExclusion ag normalized then False
        else ag_tableIntent ag normalized \<and> ag_tableRequest ag normalized)"

definition parameterTableSafeRepairTool :: "json \<Rightarrow> response_tool \<Rightarrow> response_tool" where
  "parameterTableSafeRepairTool parameters t =
     (case t of
        FunctionTool n _ \<Rightarrow> if isParameterTableArtifactTool t then FunctionTool n parameters else t
      | WebSearchTool _ \<Rightarrow> t)"

definition exact_text :: "js_string \<Rightarrow> json" where
  "exact_text s = JObject [(''type'', JString (js ''string'')), (''enum'', JArray [JString s])]"

definition row_keys :: "string list" where
  "row_keys = [''parameterKind'', ''parameter'', ''valueOrStatus'', ''unit'', ''assumptionOrCondition'']"

definition template_keys :: "string list" where
  "template_keys = [''contractVersion'', ''title'', ''summary'', ''format'', ''row'']"

definition parameterTableSafeRepairParameters :: json where
  "parameterTableSafeRepairParameters =
     (let t = safe_repair_template; names = (\<lambda>ks. JArray (map (\<lambda>k. JString (js k)) ks)) in
      JObject [(''type'', JString (js ''object'')), (''additionalProperties'', JBool False),
        (''required'', names template_keys),
        (''properties'', JObject [
           (''contractVersion'', JObject [(''type'', JString (js ''string'')), (''const'', JString repair_contract)]),
           (''title'', exact_text (rt_title t)), (''summary'', exact_text (rt_summary t)),
           (''format'', exact_text (rt_format t)),
           (''row'', JObject [(''type'', JString (js ''object'')), (''additionalProperties'', JBool False),
              (''required'', names row_keys),
              (''properties'', JObject [
                 (''parameterKind'', exact_text (rt_parameterKind t)), (''parameter'', exact_text (rt_parameter t)),
                 (''valueOrStatus'', exact_text (rt_valueOrStatus t)), (''unit'', exact_text (rt_unit t)),
                 (''assumptionOrCondition'', exact_text (rt_condition t))])])])])"

definition invalidParameterTableRepair :: "string \<Rightarrow> agent_error" where
  "invalidParameterTableRepair code = RuntimeError code False None"

definition template_row :: "json \<Rightarrow> bool" where
  "template_row row \<longleftrightarrow> (let t = safe_repair_template in
     has_text ''parameterKind'' (rt_parameterKind t) row \<and> has_text ''parameter'' (rt_parameter t) row
     \<and> has_text ''valueOrStatus'' (rt_valueOrStatus t) row \<and> has_text ''unit'' (rt_unit t) row
     \<and> has_text ''assumptionOrCondition'' (rt_condition t) row)"

definition template_value :: "json \<Rightarrow> bool" where
  "template_value v \<longleftrightarrow> (let t = safe_repair_template in
     has_text ''contractVersion'' repair_contract v \<and> has_text ''title'' (rt_title t) v
     \<and> has_text ''summary'' (rt_summary t) v \<and> has_text ''format'' (rt_format t) v
     \<and> (case json_get ''row'' v of Some row \<Rightarrow> template_row row | None \<Rightarrow> False)
     \<and> visibleStringCharacters v \<le> visible_characters)"

definition repaired_table :: "json \<Rightarrow> json" where
  "repaired_table v =
     (let field = (\<lambda>k. case json_get k v of Some j \<Rightarrow> j | None \<Rightarrow> JNull) in
      JObject [(''contractVersion'', JString provider_contract), (''title'', field ''title''),
        (''formats'', JArray [field ''format'']), (''summary'', field ''summary''), (''sections'', JArray []),
        (''tables'', JArray [JObject [(''title'', field ''title''), (''rows'', JArray [field ''row''])]])])"

definition normalizeParameterTableRepairCall ::
  "agent_rules \<Rightarrow> function_call \<Rightarrow> (agent_error, function_call) result" where
  "normalizeParameterTableRepairCall ag call =
     (if raw_argument_bytes < utf8_bytes (fc_arguments call)
      then Inl (invalidParameterTableRepair ''INVALID_TOOL_ARGUMENTS'')
      else case ag_parse ag (fc_arguments call) of
        None \<Rightarrow> Inl (invalidParameterTableRepair ''ARTIFACT_ARGUMENTS_JSON_INVALID'')
      | Some v \<Rightarrow>
          if \<not> (keys_are template_keys v
               \<and> (case json_get ''row'' v of Some row \<Rightarrow> keys_are row_keys row | None \<Rightarrow> False)) \<or> \<not> template_value v
          then Inl (invalidParameterTableRepair ''INVALID_TOOL_ARGUMENTS'')
          else Inr (call\<lparr>fc_arguments := ag_stringify ag (repaired_table v)\<rparr>))"

subsection \<open>The policy of a request\<close>

record request_policy =
  rq_tools :: "response_tool list"
  rq_choice :: tool_choice
  rq_callable :: "js_string list"

definition selectAnswerToolRequestPolicy ::
  "agent_rules \<Rightarrow> response_tool list \<Rightarrow> calculation list \<Rightarrow> input_item list \<Rightarrow> js_string \<Rightarrow> bool \<Rightarrow>
   js_string list \<Rightarrow> recovery_mode option \<Rightarrow> (agent_error, request_policy) result" where
  "selectAnswerToolRequestPolicy ag tools calculations input question allowTools blocked recovery =
     (let callable = (if allowTools then selectAnswerTools tools calculations blocked else []) in
      bindR (selectContinuationTools tools input) (\<lambda>replay.
      let selected = mergeResponseTools callable replay;
          repair = (recovery \<noteq> None \<and> offers create_artifact callable);
          choice = (if allowTools \<and> callable \<noteq> [] then
                      (if repair then ChoiceFunction create_artifact
                       else selectAnswerToolChoice ag question input calculations callable)
                    else ChoiceNone);
          names = (if \<not> allowTools then [] else case choice of
                      ChoiceNone \<Rightarrow> [] | ChoiceFunction n \<Rightarrow> [n] | ChoiceAuto \<Rightarrow> names_of callable);
          offered = (if repair \<and> shouldUseSafeParameterTableRepair ag question callable input
                     then map (parameterTableSafeRepairTool parameterTableSafeRepairParameters) selected
                     else selected)
      in Inr \<lparr>rq_tools = offered, rq_choice = choice, rq_callable = names\<rparr>))"

definition forced_name :: "tool_choice \<Rightarrow> js_string option" where
  "forced_name c = (case c of ChoiceFunction n \<Rightarrow> Some n | _ \<Rightarrow> None)"

subsection \<open>The calls of a response\<close>

definition assertAuthorizedFunctionCalls ::
  "function_call list \<Rightarrow> js_string list \<Rightarrow> (agent_error, unit) result" where
  "assertAuthorizedFunctionCalls calls callable =
     (if list_ex (\<lambda>c. fc_name c \<notin> set callable) calls
      then Inl (RuntimeError ''TOOL_CALL_NOT_AUTHORIZED'' False None) else Inr ())"

definition non_repeatable_names :: "js_string list" where
  "non_repeatable_names = [create_artifact]"

text \<open>The names reserved so far in this response, or the error of a repetition.\<close>

fun reserve_pending :: "function_call list \<Rightarrow> js_string list \<Rightarrow> js_string list \<Rightarrow>
   (agent_error, js_string list) result" where
  "reserve_pending [] attempted pending = Inr pending"
| "reserve_pending (c # cs) attempted pending =
     (if fc_name c \<notin> set non_repeatable_names then reserve_pending cs attempted pending
      else if fc_name c \<in> set attempted \<or> fc_name c \<in> set pending
      then Inl (RuntimeError ''TOOL_REPEAT_NOT_ALLOWED'' False None)
      else reserve_pending cs attempted (pending @ [fc_name c]))"

definition reserveNonRepeatableToolCalls ::
  "function_call list \<Rightarrow> js_string list \<Rightarrow> (agent_error, js_string list) result" where
  "reserveNonRepeatableToolCalls calls attempted =
     bindR (reserve_pending calls attempted []) (\<lambda>pending. Inr (attempted @ pending))"

definition assertSingleArtifactCall :: "function_call list \<Rightarrow> (agent_error, unit) result" where
  "assertSingleArtifactCall calls =
     (if length (filter (\<lambda>c. fc_name c = create_artifact) calls) \<le> 1 then Inr ()
      else Inl (RuntimeError ''ARTIFACT_TOOL_CALL_COUNT_MISMATCH'' False None))"

definition safe_artifact_failure_codes :: "string list" where
  "safe_artifact_failure_codes = [''ARTIFACT_RENDER_FAILED'', ''ARTIFACT_PERSIST_FAILED'',
     ''ARTIFACT_FINALIZE_FAILED'', ''ARTIFACT_CLEANUP_FAILED'', ''ARTIFACT_RUN_ABORTED'',
     ''ARTIFACT_GENERATION_FAILED'', ''ARTIFACT_INTENT_REQUIRED'', ''INVALID_ARTIFACT_SPEC'',
     ''ARTIFACT_SCOPE_MISMATCH'', ''ARTIFACT_STORAGE_UNCONFIGURED'', ''ARTIFACT_SCHEMA_UNAVAILABLE'',
     ''ARTIFACT_STORAGE_FORBIDDEN'', ''ARTIFACT_STORAGE_UNAVAILABLE'', ''ARTIFACT_RECORD_CREATE_TIMEOUT'',
     ''ARTIFACT_RECORD_CREATE_FAILED'', ''ARTIFACT_ARGUMENTS_TOO_LARGE'', ''ARTIFACT_ARGUMENTS_JSON_INVALID'',
     ''INVALID_TOOL_ARGUMENTS'']"

definition safeArtifactFailureCode :: "string option \<Rightarrow> string" where
  "safeArtifactFailureCode v = (case v of
     None \<Rightarrow> ''ARTIFACT_CREATION_FAILED''
   | Some s \<Rightarrow> if s = ''TOOL_TIMEOUT'' then ''ARTIFACT_GENERATION_TIMEOUT''
       else if s \<in> set safe_artifact_failure_codes then s else ''ARTIFACT_CREATION_FAILED'')"

definition selectArtifactArgumentRecoveryMode :: "string option \<Rightarrow> nat \<Rightarrow> nat \<Rightarrow> recovery_mode option" where
  "selectArtifactArgumentRecoveryMode code priorRepairs bytes =
     (if priorRepairs \<noteq> 0 then None
      else if code = Some ''ARTIFACT_ARGUMENTS_JSON_INVALID'' \<and> bytes \<le> max_artifact_argument_bytes
      then Some FreshJsonInvalid
      else if code = Some ''INVALID_TOOL_ARGUMENTS'' \<and> bytes \<le> max_replay_bytes
      then Some ContinuationInvalidArguments else None)"

definition buildArtifactRecoveryInput ::
  "recovery_mode \<Rightarrow> input_item list \<Rightarrow> input_item list \<Rightarrow> input_item \<Rightarrow> input_item list" where
  "buildArtifactRecoveryInput mode input continuation output =
     (if mode = FreshJsonInvalid then input else input @ continuation @ [output])"

definition safeProviderTerminalErrorCode :: "string option \<Rightarrow> string" where
  "safeProviderTerminalErrorCode v =
     (if v = Some ''server_error'' then ''PROVIDER_SERVER_ERROR''
      else if v = Some ''rate_limit_error'' then ''PROVIDER_RATE_LIMITED''
      else if v = Some ''invalid_request_error'' then ''PROVIDER_REQUEST_INVALID''
      else if v = Some ''authentication_error'' then ''PROVIDER_AUTH_FAILED''
      else if v = Some ''insufficient_quota'' then ''PROVIDER_QUOTA_EXHAUSTED''
      else ''PROVIDER_RESPONSE_FAILED'')"

datatype quota_policy = ContinueWithoutWeb | FailRequiredWeb

definition webSearchQuotaPolicy :: "agent_error \<Rightarrow> web_mode \<Rightarrow> quota_policy option" where
  "webSearchQuotaPolicy e web = (case e of
     QuotaExhaustedFor r \<Rightarrow> if r = WebSearch then Some (if web = WebAlways then FailRequiredWeb else ContinueWithoutWeb)
       else None
   | _ \<Rightarrow> None)"

definition isCurrentTurnRuntimeEvidenceSource :: "js_string \<Rightarrow> bool" where
  "isCurrentTurnRuntimeEvidenceSource s \<longleftrightarrow>
     list_ex (\<lambda>p. js_startsWith s (js p)) [''attachment:'', ''image-analysis:'', ''turn-link:'']"

end
