(* ===== verification/Agent_State.thy ===== *)
theory Agent_State
  imports Tool_Policy Run_Settlement
begin

section \<open>The state of an agent run\<close>

text \<open>
  The fields of \<open>AgentRunOrchestrator\<close> (\<open>src/server/agent/orchestrator.ts\<close>), the outside it talks
  to, and the pieces of its loop that only read the state. A method that may throw is a function
  from the state to a result and the state it leaves behind: JavaScript does not undo the fields
  an exception leaves changed. Everything outside (the model, the tools, the web, the database,
  the abort signal) is the record \<open>agent_world\<close>, whose answers depend on a clock that advances
  with every question, so that nothing is assumed of two answers. What the run does to the outside is
  written to a log.
\<close>

subsection \<open>The outside\<close>

datatype agent_stage = StageAnalyzing | StageRetrieving | StageSearching | StageValidatingSources
  | StageReasoning | StageGenerating | StageValidatingAnswer | StageSaving

datatype tool_status = ToolStarted | ToolCompleted | ToolFailed

datatype request_phase = PhaseAnswer nat | PhaseArtifact recovery_mode | PhaseFreshJson | PhaseRepair

datatype reasoning_effort = EffortLow | EffortHigh | EffortXHigh

record stream_request =
  sr_input :: "input_item list"
  sr_tools :: "response_tool list"
  sr_choice :: tool_choice
  sr_effort :: reasoning_effort
  sr_maxOutputTokens :: int
  sr_recovery :: "recovery_mode option"
  sr_freshJson :: bool
  sr_safeTable :: bool
  sr_phase :: request_phase
  sr_retry :: bool

datatype finish_status = FinishCompleted | FinishIncomplete | FinishFailed

record stream_finish =
  sf_status :: finish_status
  sf_outputText :: js_string
  sf_continuation :: "input_item list"
  sf_errorCode :: "string option"

datatype stream_event = TextDelta js_string | FunctionCallEvent function_call | FinishEvent stream_finish | OtherEvent

text \<open>A stream that ends, or the error it throws, wherever in the stream.\<close>

datatype stream_outcome = StreamEnds "stream_event list" | StreamThrows agent_error

record tool_result =
  tx_ok :: bool
  tx_error :: "string option"
  tx_item :: input_item
  tx_matches :: "(js_string \<times> js_string) list option"
  tx_evidence :: "js_string list"
  tx_calculations :: "calculation list"
  tx_links :: "verified_link list"
  tx_artifacts :: "artifact_part list"
  tx_missing :: "js_string list"

text \<open>The outcome of the argument check; for an artifact, whether its table states units and assumptions.\<close>

datatype preflight = PreflightOk bool | PreflightFailed tool_result

record web_result =
  wr_evidence :: "js_string list"
  wr_links :: "verified_link list"
  wr_searched :: bool
  wr_native :: bool
  wr_failure :: "string option"

record web_outcome =
  wo_requested :: bool
  wo_result :: "(agent_error, web_result) result"
  wo_registry :: registry

record agent_world =
  wd_aborted :: "nat \<Rightarrow> bool"
  wd_stream :: "nat \<Rightarrow> stream_request \<Rightarrow> stream_outcome"
  wd_web :: "nat \<Rightarrow> registry \<Rightarrow> web_outcome"
  wd_execute :: "nat \<Rightarrow> function_call \<Rightarrow> registry \<Rightarrow> tool_result \<times> registry"
  wd_swapped :: "nat \<Rightarrow> bool"
  wd_record :: "nat \<Rightarrow> agent_error option"
  wd_context :: "nat \<Rightarrow> registry \<Rightarrow> (agent_error, input_item list \<times> json) result"
  wd_db :: "nat \<Rightarrow> app_db"
  wd_tools :: "response_tool list"
  wd_preflight :: "function_call \<Rightarrow> preflight"
  wd_tokens :: "stream_request \<Rightarrow> nat"
  wd_freshProjection :: bool
  wd_environment :: "string \<Rightarrow> string option"
  wd_platform :: run_platform

subsection \<open>The state\<close>

datatype call_origin = ServerCall | ModelCall nat

record call_record =
  cl_round :: nat
  cl_sequence :: nat
  cl_call :: js_string
  cl_name :: js_string
  cl_calculation :: "js_string option"
  cl_citations :: "js_string list"
  cl_completed :: bool
  cl_error :: "string option"

datatype agent_event =
    StageEvent agent_stage
  | ToolEvent tool_status js_string
  | Requested stream_request
  | Executed call_origin function_call
  | RecordedCall call_record
  | Persisted complete_input
  | BlockEvent answer_block nat
  | CitationEvent source_citation

record agent_state =
  as_registry :: registry
  as_calculations :: "calculation list"
  as_seen :: "js_string list"
  as_attempted :: "js_string list"
  as_blocked :: "js_string list"
  as_modelRequests :: nat
  as_toolCalls :: nat
  as_toolRounds :: nat
  as_retries :: nat
  as_repairs :: nat
  as_artifactRepairs :: nat
  as_pending :: "recovery_mode option"
  as_sequence :: nat
  as_webSearched :: bool
  as_webFailure :: "web_reason option"
  as_links :: "verified_link list"
  as_artifacts :: "artifact_part list"
  as_clock :: nat
  as_log :: "agent_event list"

definition initial_state :: agent_state where
  "initial_state = \<lparr>as_registry = empty_registry, as_calculations = [], as_seen = [], as_attempted = [],
     as_blocked = [], as_modelRequests = 0, as_toolCalls = 0, as_toolRounds = 0, as_retries = 0,
     as_repairs = 0, as_artifactRepairs = 0, as_pending = None, as_sequence = 0, as_webSearched = False,
     as_webFailure = None, as_links = [], as_artifacts = [], as_clock = 0, as_log = []\<rparr>"

record agent_input =
  ai_user :: string
  ai_run :: created_run
  ai_modes :: run_modes

abbreviation ai_question :: "agent_input \<Rightarrow> js_string" where
  "ai_question inp \<equiv> cr_question (ai_run inp)"

abbreviation ai_risk :: "agent_input \<Rightarrow> risk_level" where
  "ai_risk inp \<equiv> md_risk (ai_modes inp)"

definition max_tool_calls :: nat where "max_tool_calls = 8"
definition max_model_requests :: nat where "max_model_requests = 6"

definition agent_counters :: "agent_state \<Rightarrow> run_counters" where
  "agent_counters s = \<lparr>rc_toolRounds = int (as_toolRounds s), rc_toolCalls = int (as_toolCalls s),
     rc_modelRequests = int (as_modelRequests s), rc_retries = int (as_retries s),
     rc_repairs = int (as_repairs s + as_artifactRepairs s)\<rparr>"

text \<open>\<open>Map.prototype.set\<close>: an entry that exists keeps its place.\<close>

definition map_set :: "('a \<Rightarrow> 'k) \<Rightarrow> 'a \<Rightarrow> 'a list \<Rightarrow> 'a list" where
  "map_set key x xs =
     (if list_ex (\<lambda>y. key y = key x) xs then update_where (\<lambda>y. key y = key x) (\<lambda>_. x) xs else xs @ [x])"

lemma map_set_keys: "set (map key (map_set key x xs)) = insert (key x) (set (map key xs))"
  by (auto simp: map_set_def list_ex_iff set_update_where image_iff)

lemma distinct_map_set: "distinct (map key xs) \<Longrightarrow> distinct (map key (map_set key x xs))"
proof -
  assume d: "distinct (map key xs)"
  have "map key (update_where (\<lambda>y. key y = key x) (\<lambda>_. x) xs) = map key xs"
    by (rule map_update_where) simp
  with d show ?thesis by (auto simp: map_set_def list_ex_iff)
qed

subsection \<open>Methods that may throw\<close>

type_synonym 'a agent = "agent_state \<Rightarrow> (agent_error, 'a) result \<times> agent_state"

definition returnA :: "'a \<Rightarrow> 'a agent" where "returnA x s = (Inr x, s)"
definition throwA :: "agent_error \<Rightarrow> 'a agent" where "throwA e s = (Inl e, s)"
definition liftA :: "(agent_error, 'a) result \<Rightarrow> 'a agent" where "liftA r s = (r, s)"
definition getA :: "(agent_state \<Rightarrow> 'a) \<Rightarrow> 'a agent" where "getA f s = (Inr (f s), s)"
definition modifyA :: "(agent_state \<Rightarrow> agent_state) \<Rightarrow> unit agent" where "modifyA f s = (Inr (), f s)"

definition bindA :: "'a agent \<Rightarrow> ('a \<Rightarrow> 'b agent) \<Rightarrow> 'b agent" where
  "bindA m f s = (case m s of (Inl e, s1) \<Rightarrow> (Inl e, s1) | (Inr x, s1) \<Rightarrow> f x s1)"

definition thenA :: "'a agent \<Rightarrow> 'b agent \<Rightarrow> 'b agent" where "thenA m n = bindA m (\<lambda>_. n)"

definition catchA :: "'a agent \<Rightarrow> (agent_error \<Rightarrow> 'a agent) \<Rightarrow> 'a agent" where
  "catchA m h s = (case m s of (Inl e, s1) \<Rightarrow> h e s1 | (Inr x, s1) \<Rightarrow> (Inr x, s1))"

fun mapA :: "('a \<Rightarrow> 'b agent) \<Rightarrow> 'a list \<Rightarrow> 'b list agent" where
  "mapA f [] = returnA []"
| "mapA f (x # xs) = bindA (f x) (\<lambda>y. bindA (mapA f xs) (\<lambda>ys. returnA (y # ys)))"

definition logA :: "agent_event \<Rightarrow> unit agent" where
  "logA e = modifyA (\<lambda>s. s\<lparr>as_log := as_log s @ [e]\<rparr>)"

definition askA :: "(nat \<Rightarrow> 'a) \<Rightarrow> 'a agent" where
  "askA f s = (Inr (f (as_clock s)), s\<lparr>as_clock := as_clock s + 1\<rparr>)"

definition throwIfAborted :: "agent_world \<Rightarrow> unit agent" where
  "throwIfAborted w = bindA (askA (wd_aborted w)) (\<lambda>b. if b then throwA Aborted else returnA ())"

definition stage :: "agent_stage \<Rightarrow> unit agent" where "stage st = logA (StageEvent st)"

definition toolEvent :: "tool_status \<Rightarrow> js_string \<Rightarrow> unit agent" where
  "toolEvent status n = logA (ToolEvent status n)"

text \<open>What holds of the state after a method, whether it threw or not.\<close>

definition keeps :: "(agent_state \<Rightarrow> bool) \<Rightarrow> 'a agent \<Rightarrow> bool" where
  "keeps I m \<longleftrightarrow> (\<forall>s. I s \<longrightarrow> I (snd (m s)))"

named_theorems keeps_rules \<open>which methods keep an invariant\<close>

lemma keepsD: "keeps I m \<Longrightarrow> I s \<Longrightarrow> I (snd (m s))"
  by (simp add: keeps_def)

lemma keeps_return [keeps_rules]: "keeps I (returnA x)" by (simp add: keeps_def returnA_def)
lemma keeps_throw [keeps_rules]: "keeps I (throwA e)" by (simp add: keeps_def throwA_def)
lemma keeps_lift [keeps_rules]: "keeps I (liftA r)" by (simp add: keeps_def liftA_def)
lemma keeps_get [keeps_rules]: "keeps I (getA f)" by (simp add: keeps_def getA_def)

lemma keeps_modify: "(\<And>s. I s \<Longrightarrow> I (f s)) \<Longrightarrow> keeps I (modifyA f)"
  by (simp add: keeps_def modifyA_def)

lemma keeps_bind [keeps_rules]:
  assumes "keeps I m" "\<And>x. keeps I (f x)" shows "keeps I (bindA m f)"
  unfolding keeps_def bindA_def
proof (intro allI impI)
  fix s assume "I s"
  then have "I (snd (m s))" by (rule keepsD[OF assms(1)])
  then show "I (snd (case m s of (Inl e, s1) \<Rightarrow> (Inl e, s1) | (Inr x, s1) \<Rightarrow> f x s1))"
    using keepsD[OF assms(2)] by (auto split: prod.split sum.split)
qed

lemma keeps_then [keeps_rules]: "keeps I m \<Longrightarrow> keeps I n \<Longrightarrow> keeps I (thenA m n)"
  unfolding thenA_def by (intro keeps_bind)

lemma keeps_catch [keeps_rules]:
  assumes "keeps I m" "\<And>e. keeps I (h e)" shows "keeps I (catchA m h)"
  unfolding keeps_def catchA_def
proof (intro allI impI)
  fix s assume "I s"
  then have "I (snd (m s))" by (rule keepsD[OF assms(1)])
  then show "I (snd (case m s of (Inl e, s1) \<Rightarrow> h e s1 | (Inr x, s1) \<Rightarrow> (Inr x, s1)))"
    using keepsD[OF assms(2)] by (auto split: prod.split sum.split)
qed

lemma keeps_map [keeps_rules]: "(\<And>x. keeps I (f x)) \<Longrightarrow> keeps I (mapA f xs)"
  by (induction xs) (auto intro!: keeps_rules)

lemma keeps_if [keeps_rules]: "keeps I m \<Longrightarrow> keeps I n \<Longrightarrow> keeps I (if b then m else n)"
  by simp

lemma keeps_option [keeps_rules]:
  "keeps I m \<Longrightarrow> (\<And>x. keeps I (f x)) \<Longrightarrow> keeps I (case v of None \<Rightarrow> m | Some x \<Rightarrow> f x)"
  by (simp split: option.split)

lemma keeps_list [keeps_rules]:
  "keeps I m \<Longrightarrow> (\<And>x xs. keeps I (f x xs)) \<Longrightarrow> keeps I (case v of [] \<Rightarrow> m | x # xs \<Rightarrow> f x xs)"
  by (simp split: list.split)

end
