(* ===== verification/Agent_Answer.thy ===== *)
theory Agent_Answer
  imports Agent_State
begin

section \<open>From the text of a model to an answer\<close>

text \<open>
  The pure parts of the answer path of \<open>src/server/agent/orchestrator.ts\<close>: reading the JSON of a
  response, replacing calculation blocks by the server's own, validating a candidate against what the run has
  gathered, projecting a server-owned link into it, and the answers built without a model
  (\<open>src/server/agent/answer-v3.ts\<close>); and the trusted projection of a calculation
  (\<open>src/server/agent/trusted-calculation-projection.ts\<close>).
\<close>

subsection \<open>Reading JSON\<close>

definition fence :: js_string where "fence = js ''```''"

definition without_opening_fence :: "js_string \<Rightarrow> js_string" where
  "without_opening_fence s =
     (if js_startsWith s fence
      then let r = drop 3 s in dropWhile js_white (if folded_prefix r ''json'' then drop 4 r else r)
      else s)"

definition without_closing_fence :: "js_string \<Rightarrow> js_string" where
  "without_closing_fence s =
     (if js_endsWith s fence then rev (dropWhile js_white (drop 3 (rev s))) else s)"

definition agent_safeJson :: "agent_rules \<Rightarrow> js_string \<Rightarrow> json option" where
  "agent_safeJson ag s = ag_parse ag (without_closing_fence (without_opening_fence (js_trim s)))"

definition isPlainRecord :: "json \<Rightarrow> bool" where
  "isPlainRecord j = (case j of JObject _ \<Rightarrow> True | _ \<Rightarrow> False)"

text \<open>\<open>{ ...value, key: x }\<close>: the last binding of a property counts.\<close>

definition json_with :: "(string \<times> json) list \<Rightarrow> json \<Rightarrow> json" where
  "json_with new j = (case j of JObject kvs \<Rightarrow> JObject (kvs @ new) | _ \<Rightarrow> j)"

subsection \<open>Calculations\<close>

definition localize_block :: "agent_rules \<Rightarrow> calculation list \<Rightarrow> json \<Rightarrow> json" where
  "localize_block ag calculations b =
     (if \<not> isPlainRecord b \<or> \<not> has_text ''type'' (js ''calculation'') b then b
      else case json_get ''calculationId'' b of
        Some (JString i) \<Rightarrow> (case lookup ca_id i calculations of
            Some c \<Rightarrow> block_json (Calculation (ag_localize ag c)) | None \<Rightarrow> b)
      | _ \<Rightarrow> b)"

definition localizeKnownCalculationBlocks :: "agent_rules \<Rightarrow> calculation list \<Rightarrow> json \<Rightarrow> json" where
  "localizeKnownCalculationBlocks ag calculations value =
     (case json_get ''blocks'' value of
        Some (JArray bs) \<Rightarrow> json_with [(''blocks'', JArray (map (localize_block ag calculations) bs))] value
      | _ \<Rightarrow> value)"

definition buildDeterministicCalculationAnswerV3 ::
  "agent_rules \<Rightarrow> calculation list \<Rightarrow> risk_level \<Rightarrow> (agent_error, answer_v3) result" where
  "buildDeterministicCalculationAnswerV3 ag calculations risk =
     (if calculations = [] then Inl (OtherFailure ''At least one validated calculation is required.'')
      else Inr \<lparr>an_kind = (if risk = RiskLow then KindDirect else KindExpert), an_risk = risk,
        an_blocks = map (\<lambda>c. Calculation (ag_localize ag c)) calculations, an_missingInputs = [],
        an_usedEvidenceIds = [], an_usedLinkIds = []\<rparr>)"

text \<open>The risk a calculation answer may state.\<close>

definition calculation_risk :: "risk_level \<Rightarrow> risk_level" where
  "calculation_risk risk = (if risk = RiskMedium then RiskMedium else RiskLow)"

definition calculationsForProjection :: "js_string list \<Rightarrow> calculation list \<Rightarrow> calculation list option" where
  "calculationsForProjection ids calculations =
     (if ids = [] then None
      else let selected = List.map_filter (\<lambda>i. lookup ca_id i calculations) ids
        in if length selected = length ids then Some selected else None)"

definition calculation_block_ids :: "answer_block list \<Rightarrow> js_string list" where
  "calculation_block_ids bs = concat (map collectBlockCalculationIds bs)"

text \<open>\<open>ids\<close> are the members of a set, without repetition.\<close>

definition answerUsesOnlyProjectedCalculations :: "answer_v3 \<Rightarrow> js_string list \<Rightarrow> risk_level \<Rightarrow> bool" where
  "answerUsesOnlyProjectedCalculations a ids risk \<longleftrightarrow>
     an_risk a = risk \<and> an_kind a = (if risk = RiskLow then KindDirect else KindExpert)
     \<and> an_missingInputs a = [] \<and> an_usedEvidenceIds a = [] \<and> an_usedLinkIds a = []
     \<and> length (an_blocks a) = length ids \<and> an_blocks a \<noteq> []
     \<and> (let used = calculation_block_ids (an_blocks a) in
          length used = length (an_blocks a) \<and> card (set used) = length ids
          \<and> list_all (\<lambda>i. i \<in> set ids) used)"

definition hex_lower :: "nat \<Rightarrow> bool" where
  "hex_lower c \<longleftrightarrow> js_digit c \<or> (97 \<le> c \<and> c \<le> 102)"

text \<open>\<open>/^calc_[0-9a-f]{20}$/u\<close>.\<close>

definition is_calculation_id :: "js_string \<Rightarrow> bool" where
  "is_calculation_id s \<longleftrightarrow> length s = 25 \<and> js_startsWith s (js ''calc_'') \<and> list_all hex_lower (drop 5 s)"

fun output_of :: "js_string \<Rightarrow> input_item \<Rightarrow> js_string option" where
  "output_of call (FunctionOutputItem c out) = (if c = call then Some out else None)"
| "output_of call _ = None"

definition boundCalculationIdFromToolResult :: "agent_rules \<Rightarrow> tool_result \<Rightarrow> js_string \<Rightarrow> js_string \<Rightarrow>
   js_string option" where
  "boundCalculationIdFromToolResult ag r call name =
     (case tx_calculations r of
        [c] \<Rightarrow> if \<not> tx_ok r \<or> ca_tool c \<noteq> name \<or> \<not> is_calculation_id (ca_id c) then None
          else (case output_of call (tx_item r) of
              None \<Rightarrow> None
            | Some out \<Rightarrow> if ag_sameCalculation ag out c then Some (ca_id c) else None)
      | _ \<Rightarrow> None)"

definition trustedPumpdownEligibilityFailure :: "agent_rules \<Rightarrow> risk_level \<Rightarrow> bool \<Rightarrow> js_string \<Rightarrow> input_part list \<Rightarrow>
   bool \<Rightarrow> nat \<Rightarrow> nat \<Rightarrow> function_call list \<Rightarrow> string option" where
  "trustedPumpdownEligibilityFailure ag risk webRequired question parts artifactIntent rounds calculations calls =
     (if risk = RiskHigh then Some ''TRUSTED_CALCULATION_PROJECTION_HIGH_RISK''
      else if webRequired then Some ''TRUSTED_CALCULATION_PROJECTION_WEB_REQUIRED''
      else if \<not> ag_purePumpdown ag question then Some ''TRUSTED_CALCULATION_PROJECTION_MIXED_INTENT''
      else if list_ex (\<lambda>p. \<not> is_text_part p) parts then Some ''TRUSTED_CALCULATION_PROJECTION_NON_TEXT_INPUT''
      else if artifactIntent then Some ''TRUSTED_CALCULATION_PROJECTION_ARTIFACT_INTENT''
      else if rounds \<noteq> 1 then Some ''TRUSTED_CALCULATION_PROJECTION_TOOL_ROUND_MISMATCH''
      else if calculations \<noteq> 1 then Some ''TRUSTED_CALCULATION_PROJECTION_CALCULATION_COUNT_MISMATCH''
      else if length calls \<noteq> 1 then Some ''TRUSTED_CALCULATION_PROJECTION_CALL_COUNT_MISMATCH''
      else if fc_name (hd calls) \<noteq> pumpdown_tool then Some ''TRUSTED_CALCULATION_PROJECTION_TOOL_NAME_MISMATCH''
      else None)"

text \<open>The id of the projected calculation and the content that names it.\<close>

definition trustedPumpdownProjectionFromToolTurn :: "agent_rules \<Rightarrow> function_call list \<Rightarrow> function_call list \<Rightarrow>
   input_item list \<Rightarrow> tool_result list \<Rightarrow> (js_string \<times> js_string) option" where
  "trustedPumpdownProjectionFromToolTurn ag calls executed continuation outputs =
     (case (calls, executed, outputs, continuation) of
        ([providerCall], [call], [r], [FunctionCallItem ci cn cargs]) \<Rightarrow>
          if fc_id providerCall \<noteq> fc_id call \<or> fc_name providerCall \<noteq> fc_name call \<or> fc_name call \<noteq> pumpdown_tool
             \<or> \<not> tx_ok r \<or> tx_evidence r \<noteq> [] \<or> tx_links r \<noteq> [] \<or> tx_artifacts r \<noteq> [] \<or> tx_missing r \<noteq> []
             \<or> ci \<noteq> fc_id providerCall \<or> cn \<noteq> fc_name providerCall \<or> cargs \<noteq> fc_arguments providerCall
             \<or> output_of (fc_id call) (tx_item r) = None
          then None
          else (case tx_calculations r of
              [c] \<Rightarrow> if ca_tool c \<noteq> fc_name call
                  \<or> boundCalculationIdFromToolResult ag r (fc_id call) (fc_name call) \<noteq> Some (ca_id c) then None
                else map_option (\<lambda>content. (ca_id c, content)) (ag_projection ag c)
            | _ \<Rightarrow> None)
      | _ \<Rightarrow> None)"

fun is_message :: "input_item \<Rightarrow> bool" where
  "is_message (MessageItem _ _) = True"
| "is_message _ = False"

definition buildTrustedCalculationFinalInput ::
  "input_item list \<Rightarrow> js_string \<Rightarrow> (agent_error, input_item list) result" where
  "buildTrustedCalculationFinalInput original content =
     (if list_ex (\<lambda>i. \<not> is_message i) original
      then Inl (OtherFailure ''Trusted calculation input must start from message-only context.'')
      else Inr (original @ [MessageItem (js ''system'') (JString content)]))"

subsection \<open>Artifacts\<close>

definition fact_diagnosis :: js_string where "fact_diagnosis = [20135, 29289, 21253, 21547, 35786, 26029, 32467, 35770, 21644, 26816, 26597, 21442, 25968, 12290]"
definition fact_table_verified :: js_string where "fact_table_verified = [21442, 25968, 34920, 21253, 21547, 21333, 20301, 21644, 20551, 35774, 12290]"
definition fact_table :: js_string where "fact_table = [21442, 25968, 34920, 24050, 25353, 26412, 36718, 35201, 27714, 29983, 25104, 12290]"
definition fact_other :: js_string where "fact_other = [20135, 29289, 24050, 25353, 26412, 36718, 26126, 30830, 35201, 27714, 29983, 25104, 12290]"
definition artifact_before :: js_string where "artifact_before = [32, 24050, 29983, 25104, 8220]"
definition artifact_after :: js_string where "artifact_after = [8221, 65292, 21487, 36890, 36807, 19979, 26041, 20135, 29289, 21345, 29255, 39044, 35272, 25110, 19979, 36733,
     12290]"
definition artifact_missing :: js_string where
  "artifact_missing = [24403, 21069, 27809, 26377, 21487, 24341, 29992, 30340, 21463, 27835, 29702, 35777, 25454, 65307, 20135, 29289,
     20165, 25972, 29702, 29992, 25143, 26126, 30830, 35201, 27714, 30340, 27169, 26495, 20869, 23481, 12290]"

definition buildDeterministicArtifactAnswerV3 ::
  "artifact_part \<Rightarrow> risk_level \<Rightarrow> js_string list \<Rightarrow> bool \<Rightarrow> (agent_error, answer_v3) result" where
  "buildDeterministicArtifactAnswerV3 x risk evidence tableVerified =
     (if ax_status x \<noteq> ArReady
      then Inl (OtherFailure ''Deterministic artifact answers require a ready artifact.'')
      else
        let used = take 64 (js_unique evidence);
            fact = (case ax_kind x of
                DiagnosisReport \<Rightarrow> fact_diagnosis
              | ParameterTable \<Rightarrow> if tableVerified then fact_table_verified else fact_table
              | _ \<Rightarrow> fact_other)
        in Inr \<lparr>an_kind = (if used \<noteq> [] then KindExpert else KindClarification), an_risk = risk,
             an_blocks = [Paragraph (fact @ artifact_before @ ax_title x @ artifact_after) used,
               ArtifactReference (ax_id x) (ax_title x)],
             an_missingInputs = (if used \<noteq> [] then [] else [artifact_missing]),
             an_usedEvidenceIds = used, an_usedLinkIds = []\<rparr>)"

subsection \<open>Validating a candidate\<close>

definition known_evidence :: "agent_state \<Rightarrow> js_string list" where
  "known_evidence s = map re_id (rg_entries (as_registry s))"

definition verified_evidence :: "agent_state \<Rightarrow> js_string list" where
  "verified_evidence s = map re_id (filter (\<lambda>e. re_tier e = TierA
     \<and> (re_review e = Reviewed \<or> re_review e = RuntimeVerified)) (rg_entries (as_registry s)))"

definition link_evidence :: "verified_link \<Rightarrow> js_string list" where
  "link_evidence l = (case vl_evidence l of Some ids \<Rightarrow> ids | None \<Rightarrow> [])"

definition link_bindings :: "agent_state \<Rightarrow> link_binding list" where
  "link_bindings s = map (\<lambda>l. \<lparr>lb_link = vl_link l, lb_label = Some (vl_label l), lb_evidence = link_evidence l\<rparr>)
     (as_links s)"

definition forbidden_terms :: "agent_state \<Rightarrow> js_string list" where
  "forbidden_terms s = concat (map (\<lambda>c. [ca_tool c, ca_formulaId c, ca_formulaVersion c] @ ca_inputKeys c
     @ ca_resultKeys c) (as_calculations s))"

definition minimumRequiredLinkCount :: "agent_rules \<Rightarrow> agent_state \<Rightarrow> js_string \<Rightarrow> nat" where
  "minimumRequiredLinkCount ag s question = (if as_links s \<noteq> [] \<and> ag_linkRequest ag question then 1 else 0)"

text \<open>
  What the run knows when it validates a value. \<open>undefined\<close> is \<open>None\<close>; the schema refuses it as it
  refuses \<open>null\<close>.
\<close>

definition candidate_input :: "agent_rules \<Rightarrow> agent_input \<Rightarrow> agent_state \<Rightarrow> json option \<Rightarrow> nat \<Rightarrow> validation_input" where
  "candidate_input ag inp s value minimum =
     \<lparr>vi_value = (case value of
          None \<Rightarrow> JNull | Some j \<Rightarrow> localizeKnownCalculationBlocks ag (as_calculations s) j),
      vi_risk = Some (ai_risk inp), vi_question = Some (ai_question inp),
      vi_requiresExpert = requiresExpertAnswer (ag_text ag) (ai_question inp) (ai_risk inp),
      vi_minimumLinkCount = minimum, vi_evidence = Some (known_evidence s),
      vi_links = Some (map vl_link (as_links s)), vi_bindings = Some (link_bindings s),
      vi_artifacts = Some (map ax_id (as_artifacts s)), vi_calculations = Some (map ca_id (as_calculations s)),
      vi_verified = verified_evidence s, vi_forbidden = forbidden_terms s\<rparr>"

definition validateAnswerCandidate ::
  "agent_rules \<Rightarrow> agent_input \<Rightarrow> agent_state \<Rightarrow> json option \<Rightarrow> nat \<Rightarrow> validation_result" where
  "validateAnswerCandidate ag inp s value minimum =
     validateAnswerV3 (ag_text ag) (candidate_input ag inp s value minimum)"

subsection \<open>Links\<close>

fun is_link :: "answer_block \<Rightarrow> bool" where
  "is_link (LinkReference _ _) = True"
| "is_link _ = False"

definition withoutVerifiedLinkSelection :: "answer_v3 \<Rightarrow> answer_v3" where
  "withoutVerifiedLinkSelection a =
     a\<lparr>an_blocks := filter (\<lambda>b. \<not> is_link b) (an_blocks a), an_usedLinkIds := []\<rparr>"

definition withoutUntrustedVerifiedLinkSelection :: "json option \<Rightarrow> json option" where
  "withoutUntrustedVerifiedLinkSelection value = Option.bind value (\<lambda>j.
     case json_get ''blocks'' j of
       Some (JArray bs) \<Rightarrow> if 128 < length bs then None
         else Some (json_with [(''blocks'', JArray (filter (\<lambda>b. \<not> (isPlainRecord b
            \<and> has_text ''type'' (js ''link_reference'') b)) bs)), (''usedLinkIds'', JArray [])] j)
     | _ \<Rightarrow> None)"

definition linkRepairPreservesCandidate :: "answer_v3 \<Rightarrow> answer_v3 \<Rightarrow> verified_link list \<Rightarrow> bool" where
  "linkRepairPreservesCandidate candidate repaired links \<longleftrightarrow>
     withoutVerifiedLinkSelection candidate = withoutVerifiedLinkSelection repaired
     \<and> list_all (\<lambda>b. case b of
          LinkReference i label \<Rightarrow> (case lookup vl_link i links of Some l \<Rightarrow> label = vl_label l | None \<Rightarrow> False)
        | _ \<Rightarrow> True) (an_blocks repaired)"

definition buildDeterministicVerifiedLinkSelection :: "answer_v3 \<Rightarrow> verified_link list \<Rightarrow> answer_v3 option" where
  "buildDeterministicVerifiedLinkSelection candidate links =
     (let cited = rf_evidenceIds (collectAnswerV3References candidate) in
      case find (\<lambda>l. vl_status l = LinkVerified \<and> list_ex (\<lambda>e. e \<in> set cited) (link_evidence l)) links of
        None \<Rightarrow> None
      | Some l \<Rightarrow>
          let linkless = withoutVerifiedLinkSelection candidate in
          Some (linkless\<lparr>an_blocks := an_blocks linkless @ [LinkReference (vl_link l) (vl_label l)],
            an_usedLinkIds := [vl_link l]\<rparr>))"

text \<open>\<open>validateWithDeterministicLinkProjection\<close>.\<close>

definition linkless_candidate :: "nat \<Rightarrow> bool \<Rightarrow> json option \<Rightarrow> validation_result \<Rightarrow> json option" where
  "linkless_candidate minimum untrusted candidate r =
     (if minimum \<noteq> 1 then None
      else case vr_answer r of
        Some a \<Rightarrow> Some (answer_json (withoutVerifiedLinkSelection a))
      | None \<Rightarrow> if untrusted then withoutUntrustedVerifiedLinkSelection candidate else None)"

definition validate_projected :: "agent_rules \<Rightarrow> agent_input \<Rightarrow> agent_state \<Rightarrow> nat \<Rightarrow> json option \<Rightarrow> bool \<Rightarrow>
   validation_result \<times> validation_stage option" where
  "validate_projected ag inp s minimum candidate untrusted =
     (let stage0 = (if minimum = 1 then Some (if candidate = None then StageJsonParse else StageSchema) else None);
          r = validateAnswerCandidate ag inp s candidate minimum
      in if vr_valid r then (r, stage0)
         else
           case (if as_links s = [] then None else linkless_candidate minimum untrusted candidate r) of
             None \<Rightarrow> (r, stage0)
           | Some linkless \<Rightarrow>
               let lr = validateAnswerCandidate ag inp s (Some linkless) 0 in
               if \<not> vr_valid lr then (r, Some StageLinkless)
               else case vr_answer lr of
                 None \<Rightarrow> (r, Some StageLinkless)
               | Some source \<Rightarrow>
                   (case buildDeterministicVerifiedLinkSelection source (as_links s) of
                      None \<Rightarrow> (r, Some StageBinding)
                    | Some linked \<Rightarrow>
                        let dr = validateAnswerCandidate ag inp s (Some (answer_json linked)) minimum in
                        (case vr_answer dr of
                           Some a \<Rightarrow> if vr_valid dr \<and> linkRepairPreservesCandidate source a (as_links s)
                             then (dr, Some StageFinal) else (r, Some StageFinal)
                         | None \<Rightarrow> (r, Some StageFinal))))"

definition candidateUsesOnlyKnownGrounding :: "answer_references \<Rightarrow> js_string list \<Rightarrow> js_string list \<Rightarrow> bool" where
  "candidateUsesOnlyKnownGrounding refs evidence calculations \<longleftrightarrow>
     rf_evidenceIds refs @ rf_calculationIds refs \<noteq> []
     \<and> list_all (\<lambda>i. i \<in> set evidence) (rf_evidenceIds refs)
     \<and> list_all (\<lambda>i. i \<in> set calculations) (rf_calculationIds refs)"

fun fresh_message :: "input_item \<Rightarrow> input_item list" where
  "fresh_message (MessageItem role (JString content)) =
     (if role = js ''user'' \<or> role = js ''assistant'' then [MessageItem role (JString content)] else [])"
| "fresh_message _ = []"

definition buildFreshAnswerJsonInput :: "input_item list \<Rightarrow> input_item list" where
  "buildFreshAnswerJsonInput input = concat (map fresh_message input)"

end
