(* ===== verification/Agent_Loop.thy ===== *)
theory Agent_Loop
  imports Agent_Answer Quota_Service
begin

section \<open>The loop of an agent run\<close>

text \<open>
  \<open>AgentRunOrchestrator.run\<close> of \<open>src/server/agent/orchestrator.ts\<close> with the methods it calls, in the
  order of the source: what the server looks up itself, the metered requests to the model, the tool calls of a
  response, the repair of arguments and of answers, the last validation, and the storing and
  publishing of the answer. Times, token usage and the wording of labels are left out; a call that
  waits for the outside asks the world. The calls of one batch run concurrently: they are
  admitted together and the world says which of them ends first. The effect of a tool on the
  evidence is one step.
\<close>

subsection \<open>Small steps\<close>

definition js_id :: "nat \<Rightarrow> js_string" where "js_id n = js_nat n"

definition execute :: "agent_world \<Rightarrow> call_origin \<Rightarrow> function_call \<Rightarrow> tool_result agent" where
  "execute w origin call =
     thenA (logA (Executed origin call)) (bindA (askA (wd_execute w)) (\<lambda>f s.
       let (r, rg) = f call (as_registry s) in (Inr r, s\<lparr>as_registry := rg\<rparr>)))"

text \<open>\<open>++this.toolSequence\<close> comes before the insertion, which may fail.\<close>

definition record_call :: "agent_world \<Rightarrow> call_record \<Rightarrow> unit agent" where
  "record_call w c =
     thenA (modifyA (\<lambda>s. s\<lparr>as_sequence := as_sequence s + 1\<rparr>))
       (bindA (askA (wd_record w)) (\<lambda>failure. case failure of
          Some e \<Rightarrow> throwA e
        | None \<Rightarrow> bindA (getA as_sequence) (\<lambda>n. logA (RecordedCall (c\<lparr>cl_sequence := n\<rparr>)))))"

definition recordTool :: "agent_world \<Rightarrow> agent_rules \<Rightarrow> nat \<Rightarrow> function_call \<Rightarrow> tool_result \<Rightarrow> unit agent" where
  "recordTool w ag round call r =
     record_call w \<lparr>cl_round = round, cl_sequence = 0, cl_call = fc_id call, cl_name = fc_name call,
       cl_calculation = boundCalculationIdFromToolResult ag r (fc_id call) (fc_name call),
       cl_citations = tx_evidence r, cl_completed = tx_ok r, cl_error = tx_error r\<rparr>"

definition count_call :: "unit agent" where
  "count_call = modifyA (\<lambda>s. s\<lparr>as_toolCalls := as_toolCalls s + 1\<rparr>)"

definition server_execute :: "agent_world \<Rightarrow> function_call \<Rightarrow> tool_result agent" where
  "server_execute w call = bindA (execute w ServerCall call) (\<lambda>r. thenA count_call (returnA r))"

definition outcome_status :: "bool \<Rightarrow> tool_status" where
  "outcome_status ok = (if ok then ToolCompleted else ToolFailed)"

subsection \<open>What the server looks up itself\<close>

definition server_id :: "string \<Rightarrow> agent_input \<Rightarrow> js_string" where
  "server_id prefix inp = js prefix @ js_id (cr_run (ai_run inp))"

definition proactiveKnowledgeSearch :: "agent_world \<Rightarrow> agent_rules \<Rightarrow> agent_input \<Rightarrow> unit agent" where
  "proactiveKnowledgeSearch w ag inp =
     (let call = \<lparr>fc_id = server_id ''server_knowledge_'' inp, fc_name = search_knowledge,
          fc_arguments = ag_stringify ag (JObject [(''query'', JString (ai_question inp))])\<rparr>
      in thenA (stage StageRetrieving)
         (thenA (toolEvent ToolStarted search_knowledge)
         (thenA (throwIfAborted w)
         (bindA (server_execute w call) (\<lambda>r.
         (thenA (recordTool w ag 1 call r)
         (toolEvent (outcome_status (tx_ok r)) search_knowledge)))))))"

definition executeServerAttachmentTool ::
  "agent_world \<Rightarrow> agent_rules \<Rightarrow> function_call \<Rightarrow> tool_result agent" where
  "executeServerAttachmentTool w ag call =
     thenA (throwIfAborted w)
     (thenA (toolEvent ToolStarted (fc_name call))
     (bindA (server_execute w call) (\<lambda>r.
     (thenA (recordTool w ag 1 call r)
     (thenA (toolEvent (outcome_status (tx_ok r)) (fc_name call)) (returnA r))))))"

definition attachment_call :: "agent_rules \<Rightarrow> agent_input \<Rightarrow> string \<Rightarrow> nat \<Rightarrow> js_string \<Rightarrow>
   (string \<times> json) list \<Rightarrow> function_call" where
  "attachment_call ag inp prefix n name arguments =
     \<lparr>fc_id = server_id prefix inp @ js ''_'' @ js_nat n, fc_name = name,
      fc_arguments = ag_stringify ag (JObject arguments)\<rparr>"

fun attachment_loop :: "agent_world \<Rightarrow> agent_rules \<Rightarrow> agent_input \<Rightarrow> nat \<Rightarrow> js_string list \<Rightarrow> unit agent" where
  "attachment_loop w ag inp n [] = returnA ()"
| "attachment_loop w ag inp n (a # as) =
     bindA (getA as_toolCalls) (\<lambda>calls.
     if max_tool_calls \<le> calls then returnA ()
     else bindA (executeServerAttachmentTool w ag (attachment_call ag inp ''server_attachment_search_'' n
         search_attachment [(''attachmentId'', JString a), (''query'', JString (ai_question inp))])) (\<lambda>r.
       if \<not> tx_ok r then attachment_loop w ag inp (n + 1) as
       else case tx_matches r of
         Some (m # _) \<Rightarrow>
           bindA (getA as_toolCalls) (\<lambda>calls.
           if max_tool_calls \<le> calls then returnA ()
           else thenA (executeServerAttachmentTool w ag (attachment_call ag inp ''server_attachment_open_'' n
               open_attachment_excerpt [(''attachmentId'', JString (fst m)), (''chunkId'', JString (snd m))]))
             (returnA ()))
       | _ \<Rightarrow> attachment_loop w ag inp (n + 1) as))"

definition block_names :: "js_string list \<Rightarrow> unit agent" where
  "block_names ns = modifyA (\<lambda>s. s\<lparr>as_blocked := as_blocked s @ ns\<rparr>)"

definition proactiveAttachmentEvidence :: "agent_world \<Rightarrow> agent_rules \<Rightarrow> agent_input \<Rightarrow> unit agent" where
  "proactiveAttachmentEvidence w ag inp =
     (let attachments = attachments_of (cr_parts (ai_run inp)) in
      if attachments = [] \<or> \<not> requiresDocumentAttachmentEvidence ag (ai_question inp) then returnA ()
      else thenA (stage StageRetrieving)
        (thenA (block_names [search_attachment, open_attachment_excerpt, analyze_image])
        (attachment_loop w ag inp 1 attachments)))"

definition web_search :: js_string where "web_search = js ''web_search''"
definition web_link_binding :: js_string where "web_link_binding = js ''web_link_binding''"

definition web_record :: "agent_input \<Rightarrow> js_string list \<Rightarrow> string option \<Rightarrow> call_record" where
  "web_record inp citations failure =
     \<lparr>cl_round = 1, cl_sequence = 0, cl_call = server_id ''server_web_'' inp, cl_name = web_search,
      cl_calculation = None, cl_citations = citations, cl_completed = (failure = None), cl_error = failure\<rparr>"

definition binding_record :: "agent_input \<Rightarrow> verified_link \<Rightarrow> js_string \<Rightarrow> call_record" where
  "binding_record inp l e =
     \<lparr>cl_round = 1, cl_sequence = 0,
      cl_call = js ''server_web_link_'' @ vl_link l @ js ''_'' @ e @ js ''_'' @ js_id (cr_run (ai_run inp)),
      cl_name = web_link_binding, cl_calculation = None, cl_citations = [e], cl_completed = True, cl_error = None\<rparr>"

text \<open>
  The web service sends its one request through the same meter and turns the refusal of the
  meter into a search without result.
\<close>

definition ask_web :: "agent_world \<Rightarrow> (agent_error, web_result) result agent" where
  "ask_web w = bindA (askA (wd_web w)) (\<lambda>f s.
     let out = f (as_registry s) in
     (Inr (wo_result out), s\<lparr>as_registry := wo_registry out,
        as_modelRequests := as_modelRequests s
          + (if wo_requested out \<and> as_modelRequests s < max_model_requests then 1 else 0)\<rparr>))"

definition web_quota_exhausted :: "agent_world \<Rightarrow> agent_input \<Rightarrow> quota_policy \<Rightarrow> unit agent" where
  "web_quota_exhausted w inp policy =
     thenA count_call
     (thenA (record_call w (web_record inp [] (Some ''WEB_SEARCH_QUOTA_EXCEEDED'')))
     (thenA (stage StageValidatingSources)
     (thenA (toolEvent ToolFailed web_search)
     (if policy = FailRequiredWeb then throwA (RuntimeError ''WEB_SEARCH_QUOTA_EXCEEDED'' False None)
      else modifyA (\<lambda>s. s\<lparr>as_webFailure := Some QuotaExhausted\<rparr>)))))"

definition web_found :: "agent_world \<Rightarrow> agent_input \<Rightarrow> web_result \<Rightarrow> unit agent" where
  "web_found w inp r =
     (let native = (wr_searched r \<and> wr_native r);
          failure = (if native then None else Some (case wr_failure r of
              Some c \<Rightarrow> c | None \<Rightarrow> ''NATIVE_WEB_DISCOVERY_FAILED''))
      in thenA count_call
         (thenA (modifyA (\<lambda>s. s\<lparr>as_webSearched := wr_searched r,
            as_links := fold (map_set vl_link) (wr_links r) (as_links s),
            as_webFailure := (if wr_evidence r = [] \<and> as_webFailure s = None then Some NoValidatedEvidence
              else as_webFailure s)\<rparr>))
         (thenA (record_call w (web_record inp (wr_evidence r) failure))
         (thenA (mapA (\<lambda>l. mapA (\<lambda>e. record_call w (binding_record inp l e)) (link_evidence l)) (wr_links r))
         (thenA (stage StageValidatingSources)
         (toolEvent (outcome_status native) web_search))))))"

definition proactiveWebSearch :: "agent_world \<Rightarrow> agent_input \<Rightarrow> unit agent" where
  "proactiveWebSearch w inp =
     thenA (stage StageSearching)
     (thenA (toolEvent ToolStarted web_search)
     (bindA (ask_web w) (\<lambda>out. case out of
        Inl e \<Rightarrow> (case webSearchQuotaPolicy e (md_web (ai_modes inp)) of
            None \<Rightarrow> throwA e
          | Some policy \<Rightarrow> web_quota_exhausted w inp policy)
      | Inr r \<Rightarrow> web_found w inp r)))"

subsection \<open>Requests to the model\<close>

record model_response =
  mr_text :: js_string
  mr_calls :: "function_call list"
  mr_finish :: stream_finish
  mr_callable :: "js_string list"
  mr_forced :: "js_string option"

fun text_of_events :: "stream_event list \<Rightarrow> js_string" where
  "text_of_events [] = []"
| "text_of_events (TextDelta t # es) = t @ text_of_events es"
| "text_of_events (_ # es) = text_of_events es"

fun calls_of_events :: "stream_event list \<Rightarrow> function_call list" where
  "calls_of_events [] = []"
| "calls_of_events (FunctionCallEvent c # es) = c # calls_of_events es"
| "calls_of_events (_ # es) = calls_of_events es"

fun last_finish :: "stream_event list \<Rightarrow> stream_finish option \<Rightarrow> stream_finish option" where
  "last_finish [] f = f"
| "last_finish (FinishEvent g # es) f = last_finish es (Some g)"
| "last_finish (_ # es) f = last_finish es f"

definition effort_of :: "agent_input \<Rightarrow> reasoning_effort" where
  "effort_of inp = (if md_resolved (ai_modes inp) = ModeDeep
     then (if ai_risk inp = RiskHigh then EffortXHigh else EffortHigh) else EffortLow)"

definition output_tokens :: "agent_world \<Rightarrow> agent_input \<Rightarrow> bool \<Rightarrow> tool_choice \<Rightarrow> int" where
  "output_tokens w inp freshJson choice =
     (let profile = agentRunBudgetProfile (md_requested (ai_modes inp)) in
      if freshJson then 8192
      else if choice = ChoiceFunction create_artifact then 8192
      else positiveInteger (wd_environment w (bp_outputTokenName profile)) (bp_outputTokenFallback profile))"

definition build_request :: "agent_world \<Rightarrow> agent_rules \<Rightarrow> agent_input \<Rightarrow> input_item list \<Rightarrow> request_phase \<Rightarrow> bool \<Rightarrow>
   recovery_mode option \<Rightarrow> bool \<Rightarrow> request_policy \<Rightarrow> stream_request" where
  "build_request w ag inp input phase retry recovery freshJson policy =
     \<lparr>sr_input = input, sr_tools = rq_tools policy, sr_choice = rq_choice policy, sr_effort = effort_of inp,
      sr_maxOutputTokens = output_tokens w inp freshJson (rq_choice policy), sr_recovery = recovery,
      sr_freshJson = freshJson,
      sr_safeTable = (recovery \<noteq> None
        \<and> shouldUseSafeParameterTableRepair ag (ai_question inp) (rq_tools policy) input),
      sr_phase = phase, sr_retry = retry\<rparr>"

definition meteredStream :: "agent_world \<Rightarrow> stream_request \<Rightarrow> stream_event list agent" where
  "meteredStream w request =
     bindA (getA as_modelRequests) (\<lambda>n.
     if max_model_requests \<le> n then throwA (RuntimeError ''MODEL_REQUEST_LIMIT'' False None)
     else thenA (modifyA (\<lambda>s. s\<lparr>as_modelRequests := as_modelRequests s + 1\<rparr>))
       (thenA (logA (Requested request))
       (bindA (askA (wd_stream w)) (\<lambda>f. case f request of
          StreamEnds es \<Rightarrow> returnA es
        | StreamThrows e \<Rightarrow> throwA e))))"

definition send_request :: "agent_world \<Rightarrow> agent_input \<Rightarrow> request_policy \<Rightarrow> stream_request \<Rightarrow> model_response agent" where
  "send_request w inp policy request =
     (if bp_inputTokenBudget (agentRunBudgetProfile (md_requested (ai_modes inp))) < wd_tokens w request
      then throwA (RuntimeError ''INPUT_BUDGET_EXCEEDED'' False None)
      else bindA (meteredStream w request) (\<lambda>es. case last_finish es None of
         None \<Rightarrow> throwA (RuntimeError ''MISSING_PROVIDER_TERMINAL'' True None)
       | Some f \<Rightarrow> returnA \<lparr>mr_text = text_of_events es, mr_calls = calls_of_events es, mr_finish = f,
           mr_callable = rq_callable policy, mr_forced = forced_name (rq_choice policy)\<rparr>))"

definition collectModelResponse :: "agent_world \<Rightarrow> agent_rules \<Rightarrow> agent_input \<Rightarrow> input_item list \<Rightarrow> request_phase \<Rightarrow>
   bool \<Rightarrow> bool \<Rightarrow> recovery_mode option \<Rightarrow> bool \<Rightarrow> model_response agent" where
  "collectModelResponse w ag inp input phase retry allowTools recovery freshJson =
     bindA (getA (\<lambda>s. selectAnswerToolRequestPolicy ag (wd_tools w) (as_calculations s) input (ai_question inp)
        allowTools (as_attempted s @ as_blocked s) recovery)) (\<lambda>chosen.
     bindA (liftA chosen) (\<lambda>policy.
     send_request w inp policy (build_request w ag inp input phase retry recovery freshJson policy)))"

definition requestWithOneRetry :: "agent_world \<Rightarrow> agent_rules \<Rightarrow> agent_input \<Rightarrow> input_item list \<Rightarrow> request_phase \<Rightarrow>
   bool \<Rightarrow> recovery_mode option \<Rightarrow> bool \<Rightarrow> model_response agent" where
  "requestWithOneRetry w ag inp input phase allowTools recovery freshJson =
     catchA (collectModelResponse w ag inp input phase False allowTools recovery freshJson)
       (\<lambda>e. case e of
          ProviderFailure _ True \<Rightarrow>
            thenA (throwIfAborted w)
            (thenA (modifyA (\<lambda>s. s\<lparr>as_retries := as_retries s + 1\<rparr>))
            (collectModelResponse w ag inp input phase True allowTools recovery freshJson))
        | _ \<Rightarrow> throwA e)"

definition response_text :: "model_response \<Rightarrow> js_string" where
  "response_text r = (if sf_outputText (mr_finish r) \<noteq> [] then sf_outputText (mr_finish r) else mr_text r)"

subsection \<open>The tool calls of a response\<close>

definition deterministicToolError :: "agent_rules \<Rightarrow> js_string \<Rightarrow> string \<Rightarrow> tool_result" where
  "deterministicToolError ag call code =
     \<lparr>tx_ok = False, tx_error = None,
      tx_item = FunctionOutputItem call (ag_stringify ag (JObject [(''ok'', JBool False), (''error'', JString (js code))])),
      tx_matches = None, tx_evidence = [], tx_calculations = [], tx_links = [], tx_artifacts = [], tx_missing = []\<rparr>"

datatype admission = Refused tool_result | Admitted function_call

definition admit :: "agent_rules \<Rightarrow> function_call \<Rightarrow> admission agent" where
  "admit ag call =
     bindA (getA as_seen) (\<lambda>seen.
     if fc_id call \<in> set seen then returnA (Refused (deterministicToolError ag (fc_id call) ''DUPLICATE_CALL_ID''))
     else thenA (modifyA (\<lambda>s. s\<lparr>as_seen := fc_id call # as_seen s\<rparr>))
       (bindA (getA as_toolCalls) (\<lambda>calls.
        if max_tool_calls \<le> calls then returnA (Refused (deterministicToolError ag (fc_id call) ''TOOL_CALL_LIMIT''))
        else thenA count_call (thenA (toolEvent ToolStarted (fc_name call)) (returnA (Admitted call))))))"

definition keep_outputs :: "tool_result \<Rightarrow> agent_state \<Rightarrow> agent_state" where
  "keep_outputs r s = s\<lparr>as_calculations := fold (map_set ca_id) (tx_calculations r) (as_calculations s),
     as_links := fold (map_set vl_link) (tx_links r) (as_links s),
     as_artifacts := fold (map_set ax_id) (tx_artifacts r) (as_artifacts s)\<rparr>"

definition settle_call :: "agent_world \<Rightarrow> agent_rules \<Rightarrow> admission \<Rightarrow> tool_result agent" where
  "settle_call w ag ad = (case ad of
     Refused r \<Rightarrow> returnA r
   | Admitted call \<Rightarrow>
       bindA (getA as_toolRounds) (\<lambda>round.
       bindA (execute w (ModelCall round) call) (\<lambda>r.
       thenA (modifyA (keep_outputs r))
       (thenA (recordTool w ag round call r)
       (thenA (toolEvent (outcome_status (tx_ok r)) (fc_name call)) (returnA r))))))"

definition run_batch :: "agent_world \<Rightarrow> agent_rules \<Rightarrow> function_call list \<Rightarrow> tool_result list agent" where
  "run_batch w ag batch =
     thenA (throwIfAborted w)
     (bindA (mapA (admit ag) batch) (\<lambda>ads.
      bindA (askA (wd_swapped w)) (\<lambda>swapped.
      if swapped then bindA (mapA (settle_call w ag) (rev ads)) (\<lambda>rs. returnA (rev rs))
      else mapA (settle_call w ag) ads)))"

fun batches :: "'a list \<Rightarrow> 'a list list" where
  "batches [] = []"
| "batches [x] = [[x]]"
| "batches (x # y # xs) = [x, y] # batches xs"

definition executeToolCalls :: "agent_world \<Rightarrow> agent_rules \<Rightarrow> function_call list \<Rightarrow> tool_result list agent" where
  "executeToolCalls w ag calls =
     bindA (getA (\<lambda>s. reserveNonRepeatableToolCalls calls (as_attempted s))) (\<lambda>reserved.
     bindA (liftA reserved) (\<lambda>attempted.
     thenA (modifyA (\<lambda>s. s\<lparr>as_attempted := attempted\<rparr>))
     (bindA (mapA (run_batch w ag) (batches calls)) (\<lambda>rss. returnA (concat rss)))))"

subsection \<open>One turn of the loop\<close>

record loop_vars =
  lv_input :: "input_item list"
  lv_toolFree :: bool
  lv_projected :: "js_string list option"

datatype turn_end = TurnAgain loop_vars | TurnDone js_string bool

text \<open>The projected ids of a turn that ended: they stay those of the variables.\<close>

definition projected_answer :: "agent_rules \<Rightarrow> agent_input \<Rightarrow> calculation list \<Rightarrow> js_string agent" where
  "projected_answer ag inp cs =
     bindA (liftA (buildDeterministicCalculationAnswerV3 ag cs (calculation_risk (ai_risk inp))))
       (\<lambda>a. returnA (ag_stringify ag (answer_json a)))"

definition projected_calculations :: "loop_vars \<Rightarrow> agent_state \<Rightarrow> calculation list option" where
  "projected_calculations lv s =
     (if lv_toolFree lv then Option.bind (lv_projected lv) (\<lambda>ids. calculationsForProjection ids (as_calculations s))
      else None)"

text \<open>The catch of the request: a refused request after a projection falls back to the projection.\<close>

definition refused_request :: "agent_rules \<Rightarrow> agent_input \<Rightarrow> loop_vars \<Rightarrow> agent_error \<Rightarrow>
   (model_response + js_string) agent" where
  "refused_request ag inp lv e =
     (case e of
        ProviderFailure (Some n) _ \<Rightarrow>
          if n = 400 \<or> n = 422 then
            bindA (getA (projected_calculations lv)) (\<lambda>cs. case cs of
              Some calcs \<Rightarrow> bindA (projected_answer ag inp calcs) (\<lambda>t. returnA (Inr t))
            | None \<Rightarrow> throwA e)
          else throwA e
      | _ \<Rightarrow> throwA e)"

definition failed_response :: "agent_rules \<Rightarrow> agent_input \<Rightarrow> loop_vars \<Rightarrow> stream_finish \<Rightarrow> turn_end agent" where
  "failed_response ag inp lv f =
     bindA (getA (projected_calculations lv)) (\<lambda>cs.
     case (if safeProviderTerminalErrorCode (sf_errorCode f) = ''PROVIDER_REQUEST_INVALID'' then cs else None) of
       Some calcs \<Rightarrow> bindA (projected_answer ag inp calcs) (\<lambda>t. returnA (TurnDone t False))
     | None \<Rightarrow> throwA (RuntimeError ''PROVIDER_RESPONSE_FAILED'' True None))"

definition trusted_calls :: "agent_rules \<Rightarrow> agent_input \<Rightarrow> loop_vars \<Rightarrow> function_call list \<Rightarrow>
   (agent_error, function_call list) result" where
  "trusted_calls ag inp lv calls =
     (case calls of
        [call] \<Rightarrow> (case ag_pumpdownArguments ag (ai_question inp) (lv_input lv) of
            Some arguments \<Rightarrow> Inr [call\<lparr>fc_arguments := arguments\<rparr>]
          | None \<Rightarrow> Inl (RuntimeError ''TRUSTED_CALCULATION_PROJECTION_INPUT_EXTRACTION_FAILED'' False None))
      | _ \<Rightarrow> Inl (RuntimeError ''TRUSTED_CALCULATION_PROJECTION_CALL_COUNT_MISMATCH'' False None))"

definition artifact_index :: "function_call list \<Rightarrow> nat" where
  "artifact_index calls = length (takeWhile (\<lambda>c. fc_name c \<noteq> create_artifact) calls)"

text \<open>The artifact call after the normalisation of a table repair, if that applies.\<close>

definition artifact_call :: "agent_world \<Rightarrow> agent_rules \<Rightarrow> agent_input \<Rightarrow> loop_vars \<Rightarrow> recovery_mode option \<Rightarrow>
   function_call \<Rightarrow> (agent_error, function_call) result" where
  "artifact_call w ag inp lv recovery call =
     (if recovery \<noteq> None \<and> shouldUseSafeParameterTableRepair ag (ai_question inp) (wd_tools w) (lv_input lv)
      then normalizeParameterTableRepairCall ag call else Inr call)"

definition retry_artifact :: "agent_input \<Rightarrow> loop_vars \<Rightarrow> function_call \<Rightarrow> stream_finish \<Rightarrow> tool_result \<Rightarrow> turn_end agent" where
  "retry_artifact inp lv call f r =
     bindA (getA (\<lambda>s. selectArtifactArgumentRecoveryMode (tx_error r) (as_artifactRepairs s)
         (utf8_bytes (fc_arguments call)))) (\<lambda>mode. case mode of
       Some m \<Rightarrow>
         thenA (modifyA (\<lambda>s. s\<lparr>as_artifactRepairs := as_artifactRepairs s + 1, as_pending := Some m\<rparr>))
         (returnA (TurnAgain (lv\<lparr>lv_input := buildArtifactRecoveryInput m (lv_input lv) (sf_continuation f) (tx_item r)\<rparr>)))
     | None \<Rightarrow> throwA (RuntimeError (safeArtifactFailureCode (tx_error r)) False None))"

definition visible_ids :: "agent_state \<Rightarrow> js_string list" where
  "visible_ids s = map re_id (filter re_visible (rg_entries (as_registry s)))"

definition artifact_answer :: "agent_rules \<Rightarrow> agent_input \<Rightarrow> bool \<Rightarrow> tool_result \<Rightarrow> turn_end agent" where
  "artifact_answer ag inp verified r =
     (case tx_artifacts r of
        [x] \<Rightarrow> if tx_ok r \<and> ax_status x = ArReady
          then bindA (getA visible_ids) (\<lambda>ids.
            bindA (liftA (buildDeterministicArtifactAnswerV3 x
               (if ai_risk inp = RiskLow then RiskLow else RiskMedium) ids verified)) (\<lambda>a.
            returnA (TurnDone (ag_stringify ag (answer_json a)) False)))
          else throwA (RuntimeError (safeArtifactFailureCode (tx_error r)) False None)
      | _ \<Rightarrow> throwA (RuntimeError (safeArtifactFailureCode (tx_error r)) False None))"

definition count_round :: "unit agent" where
  "count_round = modifyA (\<lambda>s. s\<lparr>as_toolRounds := as_toolRounds s + 1\<rparr>)"

definition artifact_turn :: "agent_world \<Rightarrow> agent_rules \<Rightarrow> agent_input \<Rightarrow> loop_vars \<Rightarrow> recovery_mode option \<Rightarrow>
   stream_finish \<Rightarrow> function_call list \<Rightarrow> turn_end agent" where
  "artifact_turn w ag inp lv recovery f calls =
     (let i = artifact_index calls in
      bindA (liftA (artifact_call w ag inp lv recovery (calls ! i))) (\<lambda>call.
      case wd_preflight w call of
        PreflightFailed r \<Rightarrow> retry_artifact inp lv call f r
      | PreflightOk verified \<Rightarrow>
          thenA count_round
          (bindA (executeToolCalls w ag (calls[i := call])) (\<lambda>outputs. artifact_answer ag inp verified (outputs ! i)))))"

definition projection_error :: agent_error where
  "projection_error = RuntimeError ''TRUSTED_CALCULATION_PROJECTION_INVALID'' False None"

definition project_turn :: "agent_rules \<Rightarrow> agent_input \<Rightarrow> input_item list \<Rightarrow> loop_vars \<Rightarrow> function_call list \<Rightarrow>
   function_call list \<Rightarrow> stream_finish \<Rightarrow> tool_result list \<Rightarrow> turn_end agent" where
  "project_turn ag inp original lv calls executed f outputs =
     bindA (getA (\<lambda>s. trustedPumpdownEligibilityFailure ag (ai_risk inp)
         (md_web (ai_modes inp) = WebAlways \<or> requiresFreshWebEvidence ag (ai_question inp)) (ai_question inp)
         (cr_parts (ai_run inp)) False (as_toolRounds s) (length (as_calculations s)) executed)) (\<lambda>failure.
     case failure of
       Some code \<Rightarrow> throwA (RuntimeError code False None)
     | None \<Rightarrow>
         (case trustedPumpdownProjectionFromToolTurn ag calls executed (sf_continuation f) outputs of
            None \<Rightarrow> throwA projection_error
          | Some (i, content) \<Rightarrow>
              bindA (getA (\<lambda>s. map ca_id (as_calculations s))) (\<lambda>known.
              if known \<noteq> [i] then throwA projection_error
              else bindA (liftA (buildTrustedCalculationFinalInput original content)) (\<lambda>input.
                returnA (TurnAgain \<lparr>lv_input = input, lv_toolFree = True, lv_projected = Some [i]\<rparr>)))))"

text \<open>The calls of a completed response.\<close>

definition executed_turn :: "agent_world \<Rightarrow> agent_rules \<Rightarrow> agent_input \<Rightarrow> input_item list \<Rightarrow> loop_vars \<Rightarrow> bool \<Rightarrow>
   recovery_mode option \<Rightarrow> model_response \<Rightarrow> function_call list \<Rightarrow> turn_end agent" where
  "executed_turn w ag inp original lv trusted recovery r calls =
     (if list_ex (\<lambda>c. fc_name c = create_artifact) calls
      then artifact_turn w ag inp lv recovery (mr_finish r) calls
      else thenA count_round (bindA (executeToolCalls w ag calls) (\<lambda>outputs.
        if trusted then project_turn ag inp original lv (mr_calls r) calls (mr_finish r) outputs
        else returnA (TurnAgain (lv\<lparr>lv_input := lv_input lv @ sf_continuation (mr_finish r) @ map tx_item outputs\<rparr>)))))"

definition tool_turn :: "agent_world \<Rightarrow> agent_rules \<Rightarrow> agent_input \<Rightarrow> input_item list \<Rightarrow> loop_vars \<Rightarrow> nat \<Rightarrow>
   recovery_mode option \<Rightarrow> model_response \<Rightarrow> turn_end agent" where
  "tool_turn w ag inp original lv limit recovery r =
     (let trusted = (wd_freshProjection w \<and> mr_forced r = Some pumpdown_tool) in
      bindA (liftA (if trusted then trusted_calls ag inp lv (mr_calls r) else Inr (mr_calls r))) (\<lambda>calls.
      bindA (getA as_toolRounds) (\<lambda>rounds.
      if limit \<le> rounds then throwA (RuntimeError ''TOOL_ROUND_LIMIT'' False None)
      else thenA (liftA (assertSingleArtifactCall calls))
        (executed_turn w ag inp original lv trusted recovery r calls))))"

definition finished_response :: "agent_world \<Rightarrow> agent_rules \<Rightarrow> agent_input \<Rightarrow> input_item list \<Rightarrow> loop_vars \<Rightarrow> nat \<Rightarrow>
   recovery_mode option \<Rightarrow> model_response \<Rightarrow> turn_end agent" where
  "finished_response w ag inp original lv limit recovery r =
     (if mr_calls r = [] \<and> mr_forced r \<noteq> None
      then throwA (RuntimeError ''REQUIRED_TOOL_NOT_COMPLETED'' False None)
      else if mr_calls r = []
      then returnA (TurnDone (response_text r) (sf_status (mr_finish r) = FinishIncomplete))
      else if sf_status (mr_finish r) \<noteq> FinishCompleted then returnA (TurnDone (response_text r) True)
      else tool_turn w ag inp original lv limit recovery r)"

definition after_response :: "agent_world \<Rightarrow> agent_rules \<Rightarrow> agent_input \<Rightarrow> input_item list \<Rightarrow> loop_vars \<Rightarrow> nat \<Rightarrow>
   recovery_mode option \<Rightarrow> model_response \<Rightarrow> turn_end agent" where
  "after_response w ag inp original lv limit recovery r =
     (if sf_status (mr_finish r) = FinishFailed then failed_response ag inp lv (mr_finish r)
      else thenA (liftA (assertAuthorizedFunctionCalls (mr_calls r) (mr_callable r)))
        (finished_response w ag inp original lv limit recovery r))"

definition round_limit :: "agent_world \<Rightarrow> agent_input \<Rightarrow> agent_state \<Rightarrow> nat" where
  "round_limit w inp s = selectAnswerToolRoundLimit (bp_maxToolRounds (agentRunBudgetProfile (md_requested (ai_modes inp))))
     (wd_tools w) (as_calculations s) (cr_parts (ai_run inp))"

definition turn_phase :: "recovery_mode option \<Rightarrow> nat \<Rightarrow> request_phase" where
  "turn_phase recovery n = (case recovery of Some m \<Rightarrow> PhaseArtifact m | None \<Rightarrow> PhaseAnswer (n + 1))"

definition agent_turn :: "agent_world \<Rightarrow> agent_rules \<Rightarrow> agent_input \<Rightarrow> input_item list \<Rightarrow> loop_vars \<Rightarrow> turn_end agent" where
  "agent_turn w ag inp original lv =
     thenA (throwIfAborted w)
     (thenA (stage StageGenerating)
     (bindA (getA (round_limit w inp)) (\<lambda>limit.
      bindA (getA as_pending) (\<lambda>recovery.
      thenA (modifyA (\<lambda>s. s\<lparr>as_pending := None\<rparr>))
      (bindA (getA (\<lambda>s. (as_modelRequests s, as_toolRounds s))) (\<lambda>(requests, rounds).
       bindA (catchA
          (bindA (requestWithOneRetry w ag inp (lv_input lv) (turn_phase recovery requests)
             (\<not> lv_toolFree lv \<and> rounds < limit) recovery False) (\<lambda>r. returnA (Inl r)))
          (refused_request ag inp lv)) (\<lambda>x. case x of
         Inl r \<Rightarrow> after_response w ag inp original lv limit recovery r
       | Inr t \<Rightarrow> returnA (TurnDone t False))))))))"

text \<open>
  The loop, with fuel for one more turn than there are model requests: every turn that goes on has sent one.
\<close>

fun agent_loop :: "nat \<Rightarrow> agent_world \<Rightarrow> agent_rules \<Rightarrow> agent_input \<Rightarrow> input_item list \<Rightarrow> loop_vars \<Rightarrow>
   (js_string \<times> bool \<times> js_string list option) option agent" where
  "agent_loop 0 w ag inp original lv = returnA None"
| "agent_loop (Suc fuel) w ag inp original lv =
     bindA (agent_turn w ag inp original lv) (\<lambda>e. case e of
       TurnAgain lv1 \<Rightarrow> agent_loop fuel w ag inp original lv1
     | TurnDone t incomplete \<Rightarrow> returnA (Some (t, incomplete, lv_projected lv)))"

definition loop_fuel :: nat where "loop_fuel = max_model_requests + 1"

subsection \<open>Validating and repairing the answer\<close>

definition ask_again :: "agent_world \<Rightarrow> agent_rules \<Rightarrow> agent_input \<Rightarrow> input_item list \<Rightarrow> request_phase \<Rightarrow> bool \<Rightarrow>
   js_string agent" where
  "ask_again w ag inp input ph freshJson =
     bindA (requestWithOneRetry w ag inp input ph False None freshJson) (\<lambda>r.
     returnA (if sf_status (mr_finish r) \<noteq> FinishCompleted then [] else response_text r))"

definition count_repair :: "unit agent" where
  "count_repair = modifyA (\<lambda>s. s\<lparr>as_repairs := as_repairs s + 1\<rparr>)"

definition fresh_answer :: "agent_world \<Rightarrow> agent_rules \<Rightarrow> agent_input \<Rightarrow> input_item list \<Rightarrow> js_string agent" where
  "fresh_answer w ag inp fresh =
     (if fresh = [] then returnA [] else thenA count_repair (ask_again w ag inp fresh PhaseFreshJson True))"

definition regenerateInvalidAnswerJson :: "agent_world \<Rightarrow> agent_rules \<Rightarrow> agent_input \<Rightarrow> input_item list \<Rightarrow> js_string agent" where
  "regenerateInvalidAnswerJson w ag inp original =
     bindA (getA as_repairs) (\<lambda>n.
     if 1 \<le> n then returnA []
     else thenA (throwIfAborted w) (fresh_answer w ag inp (buildFreshAnswerJsonInput original)))"

definition allowed_kinds :: "agent_rules \<Rightarrow> agent_input \<Rightarrow> agent_state \<Rightarrow> string list" where
  "allowed_kinds ag inp s =
     (let grounded = (rg_entries (as_registry s) \<noteq> [] \<or> as_calculations s \<noteq> []);
          expert = (\<lambda>b. if b then [''expert''] else [])
      in if ai_risk inp = RiskHigh then [''clarification'', ''safe_refusal''] @ expert (verified_evidence s \<noteq> [])
         else if ai_risk inp = RiskMedium then [''clarification'', ''safe_refusal''] @ expert grounded
         else (if requiresExpertAnswer (ag_text ag) (ai_question inp) (ai_risk inp) then [] else [''direct''])
           @ [''clarification'', ''safe_refusal''] @ expert grounded)"

definition binding_json :: "verified_link \<Rightarrow> json" where
  "binding_json l = JObject [(''linkId'', JString (vl_link l)), (''label'', JString (vl_label l)),
     (''evidenceIds'', texts (link_evidence l))]"

text \<open>The wording of the task, of the rules and of each error is the parameter \<open>wording\<close>.\<close>

record repair_wording =
  rw_task :: js_string
  rw_rules :: "js_string list"
  rw_error :: "answer_error \<Rightarrow> js_string"

definition repair_input :: "agent_rules \<Rightarrow> repair_wording \<Rightarrow> agent_input \<Rightarrow> js_string \<Rightarrow> answer_error list \<Rightarrow>
   agent_state \<Rightarrow> input_item list" where
  "repair_input ag wording inp outputText errors s =
     [MessageItem (js ''user'') (JString (ag_stringify ag (JObject [
        (''task'', JString (rw_task wording)),
        (''requiredRiskLevel'', JString (name_of risk_names (ai_risk inp))),
        (''minimumLinkCount'', JNumber (int (minimumRequiredLinkCount ag s (ai_question inp)))),
        (''allowedAnswerKinds'', texts (map js (allowed_kinds ag inp s))),
        (''repairRules'', texts (rw_rules wording)),
        (''validationErrors'', texts (map (rw_error wording) (take 20 errors))),
        (''allowedEvidenceIds'', texts (known_evidence s)),
        (''allowedCalculationIds'', texts (map ca_id (as_calculations s))),
        (''allowedLinkIds'', texts (map vl_link (as_links s))),
        (''allowedLinkBindings'', JArray (map binding_json (as_links s))),
        (''allowedArtifactIds'', texts (map ax_id (as_artifacts s))),
        (''candidate'', JString (js_slice outputText 0 32000))])))]"

definition repair_answer :: "agent_world \<Rightarrow> agent_rules \<Rightarrow> repair_wording \<Rightarrow> agent_input \<Rightarrow> js_string \<Rightarrow>
   answer_error list \<Rightarrow> js_string agent" where
  "repair_answer w ag wording inp outputText errors =
     bindA (getA as_repairs) (\<lambda>n.
     if 1 \<le> n then returnA []
     else thenA count_repair (bindA (getA (repair_input ag wording inp outputText errors)) (\<lambda>input.
       ask_again w ag inp input PhaseRepair False)))"

definition validation_failed :: "validation_stage option \<Rightarrow> agent_error" where
  "validation_failed st = RuntimeError ''ANSWER_VALIDATION_FAILED'' False st"

definition or_final :: "validation_stage option \<Rightarrow> validation_stage option" where
  "or_final st = (case st of Some x \<Rightarrow> Some x | None \<Rightarrow> Some StageFinal)"

definition ask_details :: js_string where
  "ask_details = [35831, 34917, 20805, 35774, 22791, 22411, 21495, 12289, 24037, 20917, 12289, 21333, 20301, 21644, 24076, 26395,
     30830, 35748, 30340, 20855, 20307, 38382, 39064, 12290]"

definition outside_boundary :: js_string where
  "outside_boundary = [29983, 25104, 20869, 23481, 26410, 36890, 36807, 39640, 39118, 38505, 35821, 20041, 23433, 20840, 36793, 30028,
     12290]"

definition interrupted_text :: js_string where
  "interrupted_text = [27169, 22411, 36755, 20986, 22312, 23436, 25972, 32, 65, 110, 115, 119, 101, 114, 32, 86,
     51, 32, 24418, 25104, 21069, 20013, 26029, 65292, 21487, 20351, 29992, 8220, 32487, 32493, 8221, 24674,
     22797, 12290]"

definition requires_web_answer :: "agent_rules \<Rightarrow> agent_input \<Rightarrow> bool" where
  "requires_web_answer ag inp \<longleftrightarrow> md_web (ai_modes inp) = WebAlways \<or> requiresFreshWebEvidence ag (ai_question inp)"

definition requiresWebQuotaFallback :: "agent_rules \<Rightarrow> agent_input \<Rightarrow> agent_state \<Rightarrow> answer_references \<Rightarrow> bool" where
  "requiresWebQuotaFallback ag inp s refs \<longleftrightarrow> as_webFailure s \<noteq> None \<and> requires_web_answer ag inp
     \<and> rf_calculationIds refs = []
     \<and> \<not> list_ex (\<lambda>i. case reg_get (as_registry s) i of
          Some e \<Rightarrow> isCurrentTurnRuntimeEvidenceSource (re_source e) | None \<Rightarrow> False) (rf_evidenceIds refs)"

definition web_unavailable :: "agent_rules \<Rightarrow> agent_input \<Rightarrow> agent_state \<Rightarrow> answer_v3" where
  "web_unavailable ag inp s = buildDeterministicWebUnavailableAnswerV3 (ag_text ag) (ai_risk inp)
     (case as_webFailure s of Some r \<Rightarrow> r | None \<Rightarrow> NoValidatedEvidence)"

definition safe_answer :: "agent_rules \<Rightarrow> agent_input \<Rightarrow> js_string \<Rightarrow> answer_v3" where
  "safe_answer ag inp reason = buildDeterministicSafeAnswerV3 (ag_text ag) (ai_risk inp) reason"

definition calculation_answer :: "agent_rules \<Rightarrow> agent_input \<Rightarrow> answer_v3 option agent" where
  "calculation_answer ag inp =
     bindA (getA (\<lambda>s. buildDeterministicCalculationAnswerV3 ag (as_calculations s) (calculation_risk (ai_risk inp)))) (\<lambda>r.
     bindA (liftA r) (\<lambda>a. returnA (Some a)))"

definition prefersCalculation :: "agent_input \<Rightarrow> agent_state \<Rightarrow> bool" where
  "prefersCalculation inp s \<longleftrightarrow> ai_risk inp \<noteq> RiskHigh \<and> as_calculations s \<noteq> []"

definition settle_validated :: "agent_rules \<Rightarrow> agent_input \<Rightarrow> nat \<Rightarrow> validation_result \<Rightarrow> validation_stage option \<Rightarrow>
   answer_v3 option agent" where
  "settle_validated ag inp minimum v st =
     bindA (getA (\<lambda>s. s)) (\<lambda>s.
     if vr_valid v then returnA (if requiresWebQuotaFallback ag inp s (vr_references v)
        then Some (web_unavailable ag inp s) else vr_answer v)
     else if prefersCalculation inp s then calculation_answer ag inp
     else if 0 < minimum then throwA (validation_failed (or_final st))
     else if as_webFailure s \<noteq> None \<and> requires_web_answer ag inp then returnA (Some (web_unavailable ag inp s))
     else returnA (Some (safe_answer ag inp ask_details)))"

definition repair_stage :: "nat \<Rightarrow> json option \<Rightarrow> validation_stage option" where
  "repair_stage minimum parsed =
     (if minimum = 1 then Some (if parsed = None then StageJsonParse else StageFinal) else None)"

definition repair_invalid :: "agent_world \<Rightarrow> agent_rules \<Rightarrow> repair_wording \<Rightarrow> agent_input \<Rightarrow> nat \<Rightarrow> js_string \<Rightarrow>
   validation_result \<Rightarrow> answer_v3 option agent" where
  "repair_invalid w ag wording inp minimum outputText v =
     bindA (repair_answer w ag wording inp outputText (vr_errors v)) (\<lambda>repaired.
     bindA (getA (\<lambda>s. s)) (\<lambda>s.
       let parsed = agent_safeJson ag repaired;
           v2 = validateAnswerCandidate ag inp s parsed minimum;
           changed = (case (vr_answer v, vr_answer v2) of
              (Some before, Some after) \<Rightarrow> 0 < minimum \<and> vr_valid v2
                \<and> \<not> linkRepairPreservesCandidate before after (as_links s)
            | _ \<Rightarrow> False)
       in if changed then throwA (validation_failed (Some StageFinal))
          else settle_validated ag inp minimum v2 (repair_stage minimum parsed)))"

text \<open>A candidate that is not valid, with the stage it reached and whether it was already regenerated.\<close>

definition invalid_candidate :: "agent_world \<Rightarrow> agent_rules \<Rightarrow> repair_wording \<Rightarrow> agent_input \<Rightarrow> nat \<Rightarrow> js_string \<Rightarrow> bool \<Rightarrow>
   validation_result \<Rightarrow> validation_stage option \<Rightarrow> answer_v3 option agent" where
  "invalid_candidate w ag wording inp minimum outputText regenerated v st =
     bindA (getA (\<lambda>s. s)) (\<lambda>s.
     if regenerated then throwA (validation_failed (or_final st))
     else if prefersCalculation inp s then calculation_answer ag inp
     else if ai_risk inp = RiskHigh then returnA (Some (safe_answer ag inp outside_boundary))
     else if \<not> candidateUsesOnlyKnownGrounding (vr_references v) (known_evidence s) (map ca_id (as_calculations s))
     then (if 0 < minimum then throwA (validation_failed st) else returnA (Some (safe_answer ag inp ask_details)))
     else repair_invalid w ag wording inp minimum outputText v)"

definition judge :: "agent_world \<Rightarrow> agent_rules \<Rightarrow> repair_wording \<Rightarrow> agent_input \<Rightarrow> nat \<Rightarrow> js_string \<Rightarrow> bool \<Rightarrow>
   validation_result \<times> validation_stage option \<Rightarrow> answer_v3 option agent" where
  "judge w ag wording inp minimum outputText regenerated vs =
     (if vr_valid (fst vs) then settle_validated ag inp minimum (fst vs) (snd vs)
      else invalid_candidate w ag wording inp minimum outputText regenerated (fst vs) (snd vs))"

definition validate_candidate :: "agent_world \<Rightarrow> agent_rules \<Rightarrow> repair_wording \<Rightarrow> agent_input \<Rightarrow> input_item list \<Rightarrow>
   js_string \<Rightarrow> answer_v3 option agent" where
  "validate_candidate w ag wording inp original outputText =
     bindA (getA (\<lambda>s. s)) (\<lambda>s.
     let minimum = minimumRequiredLinkCount ag s (ai_question inp);
         candidate = agent_safeJson ag outputText;
         vs = validate_projected ag inp s minimum candidate True
     in if \<not> vr_valid (fst vs) \<and> minimum = 1 \<and> candidate = None
        then bindA (regenerateInvalidAnswerJson w ag inp original) (\<lambda>t.
          bindA (getA (\<lambda>s1. validate_projected ag inp s1 minimum (agent_safeJson ag t) False)) (\<lambda>vs1.
          judge w ag wording inp minimum outputText True vs1))
        else judge w ag wording inp minimum outputText False vs)"

definition validateOrRepair :: "agent_world \<Rightarrow> agent_rules \<Rightarrow> repair_wording \<Rightarrow> agent_input \<Rightarrow> input_item list \<Rightarrow>
   js_string \<Rightarrow> answer_v3 option agent" where
  "validateOrRepair w ag wording inp original outputText =
     (case (if attachments_of (cr_parts (ai_run inp)) \<noteq> [] then None
            else buildDeterministicAttachmentScopeAnswerV3 ag (ai_question inp) (ai_risk inp)) of
        Some a \<Rightarrow> returnA (Some a)
      | None \<Rightarrow> bindA (getA (\<lambda>s. as_webFailure s \<noteq> None \<and> prefersCalculation inp s)) (\<lambda>prefer.
          if prefer then calculation_answer ag inp
          else validate_candidate w ag wording inp original outputText))"

subsection \<open>The run\<close>

definition required_stage :: "agent_rules \<Rightarrow> agent_input \<Rightarrow> agent_state \<Rightarrow> validation_stage option" where
  "required_stage ag inp s =
     (if minimumRequiredLinkCount ag s (ai_question inp) = 1 then Some StageFinal else None)"

definition projection_answer :: "agent_rules \<Rightarrow> agent_input \<Rightarrow> js_string list option \<Rightarrow> agent_state \<Rightarrow> answer_v3 option" where
  "projection_answer ag inp projected s =
     (case Option.bind projected (\<lambda>ids. calculationsForProjection ids (as_calculations s)) of
        None \<Rightarrow> None
      | Some cs \<Rightarrow> (case buildDeterministicCalculationAnswerV3 ag cs (calculation_risk (ai_risk inp)) of
            Inr a \<Rightarrow> Some a | Inl _ \<Rightarrow> None))"

text \<open>The answer after the fallbacks for an interrupted or projected run.\<close>

definition resolve_answer :: "agent_rules \<Rightarrow> agent_input \<Rightarrow> bool \<Rightarrow> js_string list option \<Rightarrow> answer_v3 option \<Rightarrow>
   answer_v3 agent" where
  "resolve_answer ag inp incomplete projected answer =
     bindA (getA (\<lambda>s. s)) (\<lambda>s.
     let projection = projection_answer ag inp projected s;
         fallback = (case answer of
             Some a \<Rightarrow> Some a
           | None \<Rightarrow> (case projection of
               Some a \<Rightarrow> Some a
             | None \<Rightarrow> if incomplete then Some (safe_answer ag inp interrupted_text) else None))
     in case fallback of
          None \<Rightarrow> throwA (validation_failed (required_stage ag inp s))
        | Some a \<Rightarrow>
            (case projected of
               Some ids \<Rightarrow>
                 if answerUsesOnlyProjectedCalculations a ids (ai_risk inp) then returnA a
                 else (case projection of Some b \<Rightarrow> returnA b | None \<Rightarrow> throwA projection_error)
             | None \<Rightarrow> returnA a))"

definition final_validation :: "agent_rules \<Rightarrow> agent_input \<Rightarrow> answer_v3 \<Rightarrow> answer_v3 agent" where
  "final_validation ag inp a =
     bindA (getA (\<lambda>s. s)) (\<lambda>s.
     let v = validateAnswerCandidate ag inp s (Some (answer_json a)) (minimumRequiredLinkCount ag s (ai_question inp))
     in case (vr_valid v, vr_answer v) of
          (True, Some b) \<Rightarrow> returnA b
        | _ \<Rightarrow> throwA (validation_failed (required_stage ag inp s)))"

definition completion :: "agent_input \<Rightarrow> answer_v3 \<Rightarrow> json \<Rightarrow> bool \<Rightarrow> agent_state \<Rightarrow> complete_input" where
  "completion inp a context incomplete s =
     (let refs = collectAnswerV3References a in
      \<lparr>cp_user = ai_user inp, cp_run = ai_run inp, cp_answer = a, cp_modes = ai_modes inp,
       cp_webSearched = as_webSearched s, cp_evidence = as_registry s, cp_usedIds = rf_evidenceIds refs,
       cp_links = filter (\<lambda>l. vl_link l \<in> set (rf_linkIds refs)) (as_links s), cp_artifacts = as_artifacts s,
       cp_context = Some context, cp_incomplete = incomplete, cp_counters = agent_counters s\<rparr>)"

definition answerV3Blocks :: "answer_v3 \<Rightarrow> (answer_block \<times> nat) list" where
  "answerV3Blocks a = map (\<lambda>(i, b). (b, i)) (enumerate 0 (an_blocks a))"

record agent_result =
  ar_answer :: answer_v3
  ar_content :: js_string
  ar_incomplete :: bool
  ar_db :: app_db

definition publications :: "answer_v3 \<Rightarrow> source_citation list \<Rightarrow> agent_event list" where
  "publications a citations = map (\<lambda>(b, i). BlockEvent b i) (answerV3Blocks a) @ map CitationEvent citations"

definition persistAndPublishFinalAnswer :: "agent_world \<Rightarrow> complete_input \<Rightarrow> agent_result agent" where
  "persistAndPublishFinalAnswer w c =
     bindA (askA (\<lambda>t. complete (wd_platform w) c (wd_db w t))) (\<lambda>stored. case stored of
        Inl e \<Rightarrow> throwA (StoreFailure e)
      | Inr (content, db) \<Rightarrow>
          thenA (logA (Persisted c))
          (thenA (mapA logA (publications (cp_answer c) (reg_citations (cp_evidence c) (cp_usedIds c))))
          (returnA \<lparr>ar_answer = cp_answer c, ar_content = content, ar_incomplete = cp_incomplete c, ar_db = db\<rparr>)))"

definition finish_run :: "agent_world \<Rightarrow> agent_rules \<Rightarrow> repair_wording \<Rightarrow> agent_input \<Rightarrow> input_item list \<times> json \<Rightarrow>
   js_string \<times> bool \<times> js_string list option \<Rightarrow> agent_result agent" where
  "finish_run w ag wording inp context e =
     (case e of (outputText, incomplete, projected) \<Rightarrow>
      thenA (stage StageValidatingAnswer)
      (bindA (validateOrRepair w ag wording inp (fst context) outputText) (\<lambda>answer.
       bindA (resolve_answer ag inp incomplete projected answer) (\<lambda>a.
       bindA (final_validation ag inp a) (\<lambda>b.
       thenA (stage StageSaving)
       (bindA (getA (completion inp b (snd context) incomplete)) (persistAndPublishFinalAnswer w)))))))"

definition block_artifacts :: "agent_rules \<Rightarrow> agent_input \<Rightarrow> unit agent" where
  "block_artifacts ag inp =
     (if shouldBlockArtifactCreation ag (ai_question inp) (ai_risk inp) (cr_parts (ai_run inp))
      then block_names [create_artifact] else returnA ())"

definition look_up :: "agent_world \<Rightarrow> agent_rules \<Rightarrow> agent_input \<Rightarrow> unit agent" where
  "look_up w ag inp =
     thenA (stage StageAnalyzing)
     (thenA (throwIfAborted w)
     (thenA (proactiveKnowledgeSearch w ag inp)
     (thenA (throwIfAborted w)
     (thenA (proactiveAttachmentEvidence w ag inp)
     (thenA (throwIfAborted w)
     (thenA (bindA (getA (\<lambda>s. (shouldUseWeb ag (md_web (ai_modes inp)) (ai_question inp) (ai_risk inp)
           (length (rg_entries (as_registry s))) (md_resolved (ai_modes inp)), as_toolCalls s))) (\<lambda>(web, calls).
         if web \<and> calls < max_tool_calls then proactiveWebSearch w inp else returnA ()))
     (throwIfAborted w)))))))"

definition gather :: "agent_world \<Rightarrow> agent_rules \<Rightarrow> agent_input \<Rightarrow> unit agent" where
  "gather w ag inp = thenA (block_artifacts ag inp) (look_up w ag inp)"

text \<open>A run; \<open>None\<close> would be a loop that ran out of fuel.\<close>

definition run_agent :: "agent_world \<Rightarrow> agent_rules \<Rightarrow> repair_wording \<Rightarrow> agent_input \<Rightarrow> agent_result option agent" where
  "run_agent w ag wording inp =
     thenA (gather w ag inp)
     (thenA (stage StageReasoning)
     (bindA (bindA (askA (wd_context w)) (\<lambda>f. bindA (getA (\<lambda>s. f (as_registry s))) liftA)) (\<lambda>context.
      bindA (agent_loop loop_fuel w ag inp (fst context)
          \<lparr>lv_input = fst context, lv_toolFree = False, lv_projected = None\<rparr>) (\<lambda>e. case e of
        None \<Rightarrow> returnA None
      | Some x \<Rightarrow> bindA (finish_run w ag wording inp context x) (\<lambda>r. returnA (Some r))))))"

end
