(* ===== verification/Agent_Invariant.thy ===== *)
theory Agent_Invariant
  imports Agent_Loop
begin

section \<open>What an agent run keeps\<close>

text \<open>
  Invariants of the orchestrator's state, proved once for every predicate that the elementary
  steps keep: the locale \<open>run_steps\<close> states the steps of the loop, \<open>gather_steps\<close> those of the
  server's own look-ups, and their lemmas lift the predicate to whole methods. The bounds of a
  run, the silence of a run before its answer is stored and the admission of tools are
  interpretations of them.
\<close>

subsection \<open>Triples\<close>

definition holds :: "(agent_state \<Rightarrow> bool) \<Rightarrow> 'a agent \<Rightarrow> ('a \<Rightarrow> agent_state \<Rightarrow> bool) \<Rightarrow> (agent_state \<Rightarrow> bool) \<Rightarrow> bool" where
  "holds P m Q E \<longleftrightarrow> (\<forall>s. P s \<longrightarrow> (case m s of (Inl e, s1) \<Rightarrow> E s1 | (Inr x, s1) \<Rightarrow> Q x s1))"

lemma keeps_holds: "keeps I m \<longleftrightarrow> holds I m (\<lambda>_. I) I"
  by (simp add: keeps_def holds_def case_prod_beta split: sum.split)

lemma holdsI:
  assumes "\<And>s e t. P s \<Longrightarrow> m s = (Inl e, t) \<Longrightarrow> E t" and "\<And>s x t. P s \<Longrightarrow> m s = (Inr x, t) \<Longrightarrow> Q x t"
  shows "holds P m Q E"
  using assms by (auto simp: holds_def split: prod.split sum.split)

lemma holds_Inl: "holds P m Q E \<Longrightarrow> P s \<Longrightarrow> m s = (Inl e, t) \<Longrightarrow> E t"
  by (auto simp: holds_def)

lemma holds_Inr: "holds P m Q E \<Longrightarrow> P s \<Longrightarrow> m s = (Inr x, t) \<Longrightarrow> Q x t"
  by (auto simp: holds_def)

lemma holds_keeps: "keeps I m \<Longrightarrow> holds I m (\<lambda>_. I) I"
  by (simp add: keeps_holds)

lemma holds_return: "(\<And>s. P s \<Longrightarrow> Q x s) \<Longrightarrow> holds P (returnA x) Q E"
  by (simp add: holds_def returnA_def)

lemma holds_throw: "(\<And>s. P s \<Longrightarrow> E s) \<Longrightarrow> holds P (throwA e) Q E"
  by (simp add: holds_def throwA_def)

lemma holds_modify: "(\<And>s. P s \<Longrightarrow> Q () (f s)) \<Longrightarrow> holds P (modifyA f) Q E"
  by (simp add: holds_def modifyA_def)

lemma holds_lift: "(\<And>s. P s \<Longrightarrow> E s) \<Longrightarrow> (\<And>x s. r = Inr x \<Longrightarrow> P s \<Longrightarrow> Q x s) \<Longrightarrow> holds P (liftA r) Q E"
  by (auto simp: holds_def liftA_def split: sum.split)

lemma holds_bind:
  assumes "holds P m R E" "\<And>x. holds (R x) (f x) Q E"
  shows "holds P (bindA m f) Q E"
proof (rule holdsI)
  fix s e t assume "P s" "bindA m f s = (Inl e, t)"
  then show "E t"
    by (auto simp: bindA_def split: prod.splits sum.splits intro: holds_Inl[OF assms(1)]
        holds_Inl[OF assms(2) holds_Inr[OF assms(1)]])
next
  fix s x t assume "P s" "bindA m f s = (Inr x, t)"
  then show "Q x t"
    by (auto simp: bindA_def split: prod.splits sum.splits intro: holds_Inr[OF assms(2) holds_Inr[OF assms(1)]])
qed

lemma holds_then: "holds P m (\<lambda>_. R) E \<Longrightarrow> holds R n Q E \<Longrightarrow> holds P (thenA m n) Q E"
  unfolding thenA_def by (rule holds_bind)

lemma holds_get: "(\<And>x. holds (\<lambda>s. P s \<and> g s = x) (f x) Q E) \<Longrightarrow> holds P (bindA (getA g) f) Q E"
  by (rule holds_bind[where R = "\<lambda>x s. P s \<and> g s = x"]) (auto simp: holds_def getA_def)

lemma holds_catch:
  assumes "holds P m Q F" "\<And>e. holds F (h e) Q E"
  shows "holds P (catchA m h) Q E"
proof (rule holdsI)
  fix s e t assume "P s" "catchA m h s = (Inl e, t)"
  then show "E t"
    by (auto simp: catchA_def split: prod.splits sum.splits intro: holds_Inl[OF assms(2) holds_Inl[OF assms(1)]])
next
  fix s x t assume "P s" "catchA m h s = (Inr x, t)"
  then show "Q x t"
    by (auto simp: catchA_def split: prod.splits sum.splits
        intro: holds_Inr[OF assms(1)] holds_Inr[OF assms(2) holds_Inl[OF assms(1)]])
qed

lemma holds_pre: "holds P m Q E \<Longrightarrow> (\<And>s. R s \<Longrightarrow> P s) \<Longrightarrow> holds R m Q E"
  by (simp add: holds_def)

lemma holds_post:
  "holds P m Q E \<Longrightarrow> (\<And>x s. Q x s \<Longrightarrow> R x s) \<Longrightarrow> (\<And>s. E s \<Longrightarrow> F s) \<Longrightarrow> holds P m R F"
  by (fastforce simp: holds_def split: prod.splits sum.splits)

lemma holds_conj:
  "holds P m Q E \<Longrightarrow> holds R m S F \<Longrightarrow> holds (\<lambda>s. P s \<and> R s) m (\<lambda>x s. Q x s \<and> S x s) (\<lambda>s. E s \<and> F s)"
  by (fastforce simp: holds_def split: prod.splits sum.splits)

lemma holds_and: "holds P m Q E \<Longrightarrow> keeps I m \<Longrightarrow> holds (\<lambda>s. P s \<and> I s) m (\<lambda>x s. Q x s \<and> I s) (\<lambda>s. E s \<and> I s)"
  unfolding keeps_holds by (rule holds_conj)

text \<open>A condition that only the start decides.\<close>

lemma holds_assume: "(C \<Longrightarrow> holds P m Q E) \<Longrightarrow> holds (\<lambda>s. P s \<and> C) m Q E"
  by (cases C) (auto simp: holds_def)

lemma holds_map:
  assumes "\<And>x. x \<in> set xs \<Longrightarrow> holds I (f x) (\<lambda>_. I) I"
  shows "holds I (mapA f xs) (\<lambda>_. I) I"
  using assms
proof (induction xs)
  case Nil
  show ?case unfolding mapA.simps by (rule holds_return)
next
  case (Cons x xs)
  show ?case unfolding mapA.simps
    by (rule holds_bind[where R = "\<lambda>_. I"], rule Cons.prems, simp,
        rule holds_bind[where R = "\<lambda>_. I"], rule Cons.IH, rule Cons.prems, simp, rule holds_return)
qed

subsection \<open>Steps every method takes\<close>

fun quiet :: "agent_event \<Rightarrow> bool" where
  "quiet (StageEvent _) = True"
| "quiet (ToolEvent _ _) = True"
| "quiet (RecordedCall _) = True"
| "quiet _ = False"

locale quiet_steps =
  fixes I :: "agent_state \<Rightarrow> bool"
  assumes clock: "I s \<Longrightarrow> I (s\<lparr>as_clock := n\<rparr>)"
    and quiet_log: "quiet e \<Longrightarrow> I s \<Longrightarrow> I (s\<lparr>as_log := as_log s @ [e]\<rparr>)"
    and numbered: "I s \<Longrightarrow> I (s\<lparr>as_sequence := n\<rparr>)"
begin

lemma keeps_ask: "keeps I (askA f)"
  by (simp add: keeps_def askA_def clock)

lemma keeps_log: "quiet e \<Longrightarrow> keeps I (logA e)"
  unfolding logA_def by (rule keeps_modify) (rule quiet_log)

lemma keeps_stage: "keeps I (stage st)"
  unfolding stage_def by (rule keeps_log) simp

lemma keeps_toolEvent: "keeps I (toolEvent st n)"
  unfolding toolEvent_def by (rule keeps_log) simp

lemma keeps_abort: "keeps I (throwIfAborted w)"
  unfolding throwIfAborted_def by (intro keeps_rules keeps_ask)

lemma keeps_record: "keeps I (record_call w c)"
  unfolding record_call_def
  by (intro keeps_rules keeps_ask keeps_log keeps_modify numbered) simp_all

lemma keeps_recordTool: "keeps I (recordTool w ag round call r)"
  unfolding recordTool_def by (rule keeps_record)

lemmas quiet_rules = keeps_ask keeps_stage keeps_toolEvent keeps_abort keeps_record keeps_recordTool

end

subsection \<open>Steps of the server's own look-ups\<close>

definition blockable :: "js_string list" where
  "blockable = [create_artifact, search_attachment, open_attachment_excerpt, analyze_image]"

locale gather_steps = quiet_steps +
  assumes served: "I s \<Longrightarrow> as_toolCalls s < max_tool_calls \<Longrightarrow>
      I (s\<lparr>as_log := as_log s @ [Executed ServerCall c], as_clock := n, as_registry := rg,
        as_toolCalls := Suc (as_toolCalls s)\<rparr>)"
    and searched: "I s \<Longrightarrow> as_toolCalls s < max_tool_calls \<Longrightarrow> I (s\<lparr>as_toolCalls := Suc (as_toolCalls s)\<rparr>)"
    and discovered: "I s \<Longrightarrow> k = as_modelRequests s \<or> k = Suc (as_modelRequests s) \<and> as_modelRequests s < max_model_requests \<Longrightarrow>
        I (s\<lparr>as_clock := n, as_registry := rg, as_modelRequests := k\<rparr>)"
    and web_state: "I s \<Longrightarrow> I (s\<lparr>as_webSearched := x, as_links := l, as_webFailure := f\<rparr>)"
    and blocks: "I s \<Longrightarrow> set ns \<subseteq> set blockable \<Longrightarrow> I (s\<lparr>as_blocked := as_blocked s @ ns\<rparr>)"
begin

lemma found: "I s \<Longrightarrow> I (s\<lparr>as_clock := n, as_registry := rg\<rparr>)"
  using discovered[where s = s and k = "as_modelRequests s" and n = n and rg = rg] by simp

lemma free_call_steps:
  "holds (\<lambda>s. I s \<and> as_toolCalls s < n) (throwIfAborted w) (\<lambda>_ s. I s \<and> as_toolCalls s < n) I"
  "holds (\<lambda>s. I s \<and> as_toolCalls s < n) (toolEvent st name) (\<lambda>_ s. I s \<and> as_toolCalls s < n) I"
  "holds (\<lambda>s. I s \<and> as_toolCalls s < n) (stage st') (\<lambda>_ s. I s \<and> as_toolCalls s < n) I"
  by (auto simp: holds_def throwIfAborted_def bindA_def askA_def throwA_def returnA_def toolEvent_def stage_def
      logA_def modifyA_def clock quiet_log)

lemma server_execute_holds:
  "holds (\<lambda>s. I s \<and> as_toolCalls s < max_tool_calls) (server_execute w c) (\<lambda>_. I) I"
  unfolding holds_def server_execute_def execute_def bindA_def thenA_def logA_def modifyA_def askA_def count_call_def
    returnA_def
  by (auto simp: Let_def case_prod_beta dest: served)

lemma blocks_holds: "set ns \<subseteq> set blockable \<Longrightarrow> keeps I (block_names ns)"
  unfolding block_names_def by (rule keeps_modify) (rule blocks)

lemma knowledge_holds:
  "holds (\<lambda>s. I s \<and> as_toolCalls s < max_tool_calls) (proactiveKnowledgeSearch w ag inp) (\<lambda>_. I) I"
  unfolding proactiveKnowledgeSearch_def Let_def
  by (rule holds_then, rule free_call_steps, rule holds_then, rule free_call_steps,
      rule holds_then, rule free_call_steps, rule holds_bind[where R = "\<lambda>_. I"], rule server_execute_holds,
      rule holds_keeps, intro keeps_rules quiet_rules)

lemma attachment_tool_holds:
  "holds (\<lambda>s. I s \<and> as_toolCalls s < max_tool_calls) (executeServerAttachmentTool w ag c) (\<lambda>_. I) I"
  unfolding executeServerAttachmentTool_def
  by (rule holds_then, rule free_call_steps, rule holds_then, rule free_call_steps,
      rule holds_bind[where R = "\<lambda>_. I"], rule server_execute_holds,
      rule holds_keeps, intro keeps_rules quiet_rules)

lemma guarded_call:
  assumes "holds (\<lambda>s. I s \<and> as_toolCalls s < max_tool_calls) m (\<lambda>_. I) I" and "keeps I n"
  shows "keeps I (bindA (getA as_toolCalls) (\<lambda>calls. if max_tool_calls \<le> calls then n else m))"
  unfolding keeps_holds
proof (rule holds_get)
  fix calls
  show "holds (\<lambda>s. I s \<and> as_toolCalls s = calls) (if max_tool_calls \<le> calls then n else m) (\<lambda>_. I) I"
  proof (cases "max_tool_calls \<le> calls")
    case True
    then show ?thesis by (auto intro: holds_pre[OF holds_keeps[OF assms(2)]])
  next
    case False
    then show ?thesis by (auto intro: holds_pre[OF assms(1)])
  qed
qed

lemma attachment_loop_keeps: "keeps I (attachment_loop w ag inp n as)"
proof (induction as arbitrary: n)
  case Nil
  show ?case by (simp add: keeps_return)
next
  case (Cons a as)
  have opened: "keeps I (bindA (getA as_toolCalls) (\<lambda>calls. if max_tool_calls \<le> calls then returnA ()
      else thenA (executeServerAttachmentTool w ag c) (returnA ())))" for c
    by (rule guarded_call, rule holds_then, rule attachment_tool_holds) (auto intro: holds_return keeps_return)
  show ?case unfolding attachment_loop.simps
    by (rule guarded_call, rule holds_bind[where R = "\<lambda>_. I"], rule attachment_tool_holds, rule holds_keeps)
      (auto intro!: keeps_if keeps_return Cons.IH opened split: option.split list.split)
qed

lemma attachments_keeps: "keeps I (proactiveAttachmentEvidence w ag inp)"
  unfolding proactiveAttachmentEvidence_def Let_def
  by (intro keeps_rules quiet_rules blocks_holds attachment_loop_keeps) (auto simp: blockable_def)

lemma ask_web_keeps: "holds (\<lambda>s. I s \<and> as_toolCalls s < n) (ask_web w) (\<lambda>_ s. I s \<and> as_toolCalls s < n) I"
  unfolding ask_web_def by (auto simp: holds_def bindA_def askA_def Let_def intro!: discovered found)

lemma count_call_holds: "holds (\<lambda>s. I s \<and> as_toolCalls s < max_tool_calls) count_call (\<lambda>_. I) I"
  unfolding count_call_def by (rule holds_modify) (auto dest: searched)

lemma quota_keeps: "holds (\<lambda>s. I s \<and> as_toolCalls s < max_tool_calls) (web_quota_exhausted w inp p) (\<lambda>_. I) I"
  unfolding web_quota_exhausted_def
proof (rule holds_then[OF count_call_holds], rule holds_keeps)
  have "I (s\<lparr>as_webFailure := f\<rparr>)" if "I s" for s f
    using web_state[OF that, where x = "as_webSearched s" and l = "as_links s" and f = f] by simp
  then show "keeps I (thenA (record_call w (web_record inp [] (Some ''WEB_SEARCH_QUOTA_EXCEEDED'')))
     (thenA (stage StageValidatingSources) (thenA (toolEvent ToolFailed web_search)
     (if p = FailRequiredWeb then throwA (RuntimeError ''WEB_SEARCH_QUOTA_EXCEEDED'' False None)
      else modifyA (\<lambda>s. s\<lparr>as_webFailure := Some QuotaExhausted\<rparr>)))))"
    by (intro keeps_rules quiet_rules keeps_modify)
qed

lemma found_keeps: "holds (\<lambda>s. I s \<and> as_toolCalls s < max_tool_calls) (web_found w inp r) (\<lambda>_. I) I"
  unfolding web_found_def Let_def
  by (rule holds_then[OF count_call_holds], rule holds_keeps, intro keeps_rules quiet_rules keeps_modify web_state)

lemma web_keeps: "holds (\<lambda>s. I s \<and> as_toolCalls s < max_tool_calls) (proactiveWebSearch w inp) (\<lambda>_. I) I"
  unfolding proactiveWebSearch_def
  by (rule holds_then, rule free_call_steps, rule holds_then, rule free_call_steps,
      rule holds_bind, rule ask_web_keeps)
    (auto split: sum.split option.split intro!: holds_throw quota_keeps found_keeps)

lemma look_up_keeps: "holds (\<lambda>s. I s \<and> as_toolCalls s < max_tool_calls) (look_up w ag inp) (\<lambda>_. I) I"
proof -
  have web: "keeps I (bindA (getA (\<lambda>s. (f s, as_toolCalls s)))
      (\<lambda>(web, calls). if web \<and> calls < max_tool_calls then proactiveWebSearch w inp else returnA ()))" for f
    unfolding keeps_holds
  proof (rule holds_get)
    fix x show "holds (\<lambda>s. I s \<and> (f s, as_toolCalls s) = x)
        (case x of (web, calls) \<Rightarrow> if web \<and> calls < max_tool_calls then proactiveWebSearch w inp else returnA ())
        (\<lambda>_. I) I"
      by (cases x) (auto intro!: holds_return holds_pre[OF web_keeps])
  qed
  show ?thesis unfolding look_up_def
    by (rule holds_then, rule free_call_steps, rule holds_then, rule free_call_steps,
        rule holds_then, rule knowledge_holds, rule holds_keeps)
      (intro keeps_then quiet_rules attachments_keeps web)
qed

lemma block_artifacts_holds:
  "holds (\<lambda>s. I s \<and> as_toolCalls s < n) (block_artifacts ag inp) (\<lambda>_ s. I s \<and> as_toolCalls s < n) I"
  by (auto simp: holds_def block_artifacts_def block_names_def modifyA_def returnA_def blockable_def intro: blocks)

lemma gather_keeps: "holds (\<lambda>s. I s \<and> as_toolCalls s < max_tool_calls) (gather w ag inp) (\<lambda>_. I) I"
  unfolding gather_def by (rule holds_then, rule block_artifacts_holds, rule look_up_keeps)

end

subsection \<open>Steps of a batch of calls\<close>

text \<open>For predicates that do not look at the calls executed for the model.\<close>

locale call_steps = quiet_steps +
  assumes executed: "I s \<Longrightarrow> I (s\<lparr>as_log := as_log s @ [Executed (ModelCall k) c], as_clock := n, as_registry := rg\<rparr>)"
    and seen: "I s \<Longrightarrow> I (s\<lparr>as_seen := x\<rparr>)"
    and counted: "I s \<Longrightarrow> as_toolCalls s < max_tool_calls \<Longrightarrow> I (s\<lparr>as_toolCalls := Suc (as_toolCalls s)\<rparr>)"
    and attempted: "I s \<Longrightarrow> I (s\<lparr>as_attempted := x\<rparr>)"
    and outputs: "I s \<Longrightarrow> I (s\<lparr>as_calculations := cs, as_links := ls, as_artifacts := xs\<rparr>)"
begin

lemma keeps_execute: "keeps I (execute w (ModelCall k) c)"
  unfolding keeps_def execute_def thenA_def bindA_def logA_def modifyA_def askA_def
  by (auto simp: Let_def case_prod_beta intro: executed)

lemma counted_log: "I s \<Longrightarrow> as_toolCalls s < max_tool_calls \<Longrightarrow> quiet e \<Longrightarrow>
    I (s\<lparr>as_toolCalls := Suc (as_toolCalls s), as_log := as_log s @ [e]\<rparr>)"
  using quiet_log[OF _ counted, of e s] by simp

lemma keeps_admit: "keeps I (admit ag c)"
proof -
  have "keeps I (bindA (getA as_toolCalls) (\<lambda>calls. if max_tool_calls \<le> calls
      then returnA r else thenA count_call (thenA (toolEvent ToolStarted n) (returnA a))))" for r n a
    unfolding keeps_def bindA_def getA_def thenA_def returnA_def count_call_def modifyA_def toolEvent_def logA_def
    by (auto intro!: counted_log)
  note limited = this
  show ?thesis unfolding admit_def
    by (rule keeps_bind, rule keeps_get, rule keeps_if, rule keeps_return, rule keeps_then)
      (auto intro: keeps_modify seen limited)
qed

lemma keeps_settle: "keeps I (settle_call w ag ad)"
  unfolding settle_call_def keep_outputs_def
  by (cases ad) (auto intro!: keeps_rules quiet_rules keeps_execute keeps_modify outputs)

lemma keeps_calls: "keeps I (executeToolCalls w ag calls)"
  unfolding executeToolCalls_def run_batch_def
  by (intro keeps_rules quiet_rules keeps_admit keeps_settle keeps_modify attempted)

end

subsection \<open>Steps of the loop\<close>

text \<open>The names the model may call: offered and not blocked, or the calculation the server forces.\<close>

definition permitted :: "agent_world \<Rightarrow> agent_state \<Rightarrow> js_string \<Rightarrow> bool" where
  "permitted w s n \<longleftrightarrow> n \<notin> set (as_blocked s) \<and> (n = pumpdown_tool \<or> n \<in> set (names_of (wd_tools w)))"

lemma permitted_update [simp]:
  "permitted w (s\<lparr>as_log := l\<rparr>) = permitted w s" "permitted w (s\<lparr>as_clock := n\<rparr>) = permitted w s"
  "permitted w (s\<lparr>as_seen := ns\<rparr>) = permitted w s" "permitted w (s\<lparr>as_toolCalls := n\<rparr>) = permitted w s"
  "permitted w (s\<lparr>as_attempted := ns\<rparr>) = permitted w s" "permitted w (s\<lparr>as_registry := rg\<rparr>) = permitted w s"
  by (simp_all add: permitted_def fun_eq_iff)

lemma permitted_same: "as_blocked t = as_blocked s \<Longrightarrow> permitted w t = permitted w s"
  by (simp add: permitted_def fun_eq_iff)

locale run_steps = quiet_steps +
  fixes w :: agent_world
  assumes known: "I s \<Longrightarrow> set (as_blocked s) \<subseteq> set blockable"
    and requested: "I s \<Longrightarrow> as_modelRequests s < max_model_requests \<Longrightarrow>
      I (s\<lparr>as_modelRequests := Suc (as_modelRequests s), as_log := as_log s @ [Requested r]\<rparr>)"
    and retried: "I s \<Longrightarrow> I (s\<lparr>as_retries := n\<rparr>)"
    and pending: "I s \<Longrightarrow> I (s\<lparr>as_pending := p\<rparr>)"
    and rounds: "I s \<Longrightarrow> I (s\<lparr>as_toolRounds := n\<rparr>)"
    and repaired: "I s \<Longrightarrow> as_repairs s = 0 \<Longrightarrow> I (s\<lparr>as_repairs := Suc 0\<rparr>)"
    and rewritten: "I s \<Longrightarrow> as_artifactRepairs s = 0 \<Longrightarrow> I (s\<lparr>as_artifactRepairs := Suc 0, as_pending := p\<rparr>)"
    and calls_kept: "I s \<Longrightarrow> (\<forall>c\<in>set calls. permitted w s (fc_name c)) \<Longrightarrow>
      I (snd (executeToolCalls w ag calls s))"

lemma forced_not_blocked: "pumpdown_tool \<notin> set blockable"
  by (simp add: blockable_def tool_names js_def)

lemma takeWhile_shorter: "x \<in> set xs \<Longrightarrow> \<not> P x \<Longrightarrow> length (takeWhile P xs) < length xs"
  by (induction xs) auto

lemma names_of_filter: "n \<in> set (names_of (filter P ts)) \<Longrightarrow> \<exists>p. FunctionTool n p \<in> set ts \<and> P (FunctionTool n p)"
proof -
  assume "n \<in> set (names_of (filter P ts))"
  then obtain t where "t \<in> set ts" "P t" "n \<in> set (function_names t)"
    by (auto simp: names_of_def)
  moreover from \<open>n \<in> set (function_names t)\<close> obtain p where "t = FunctionTool n p" by (cases t) simp_all
  ultimately show ?thesis by blast
qed

lemma answer_tools_unblocked:
  "n \<in> set (names_of (selectAnswerTools tools cs blocked)) \<Longrightarrow> n \<notin> set blocked \<and> n \<in> set (names_of tools)"
  unfolding selectAnswerTools_def by (drule names_of_filter) (force simp: names_of_def)

lemma tool_choice_offered:
  "selectAnswerToolChoice ag q input cs tools = ChoiceFunction n \<Longrightarrow> n = pumpdown_tool \<or> n \<in> set (names_of tools)"
  unfolding selectAnswerToolChoice_def selectAttachmentToolChoice_def selectArtifactToolChoice_def Let_def offers_def
  by (auto split: option.splits if_splits)

lemma policy_callable:
  assumes "selectAnswerToolRequestPolicy ag tools cs input q allow blocked rec = Inr p" "n \<in> set (rq_callable p)"
  shows "n = pumpdown_tool \<or> n \<notin> set blocked \<and> n \<in> set (names_of tools)"
proof -
  let ?callable = "if allow then selectAnswerTools tools cs blocked else []"
  let ?repair = "rec \<noteq> None \<and> offers create_artifact ?callable"
  let ?choice = "if allow \<and> ?callable \<noteq> [] then
      (if ?repair then ChoiceFunction create_artifact else selectAnswerToolChoice ag q input cs ?callable)
    else ChoiceNone"
  have p: "rq_callable p = (if \<not> allow then [] else case ?choice of
      ChoiceNone \<Rightarrow> [] | ChoiceFunction n \<Rightarrow> [n] | ChoiceAuto \<Rightarrow> names_of ?callable)"
    using assms(1) unfolding selectAnswerToolRequestPolicy_def Let_def bindR_eq_Inr by auto
  have "n = pumpdown_tool \<or> n \<in> set (names_of ?callable)"
  proof (cases ?choice)
    case (ChoiceFunction m)
    then have "m = create_artifact \<and> offers create_artifact ?callable
        \<or> selectAnswerToolChoice ag q input cs ?callable = ChoiceFunction m"
      by (auto split: if_splits)
    moreover have "n = m" using assms(2) p ChoiceFunction by (auto split: if_splits)
    ultimately show ?thesis using tool_choice_offered[of ag q input cs ?callable m] by (auto simp: offers_def)
  qed (use assms(2) p in \<open>auto split: if_splits\<close>)
  then show ?thesis using answer_tools_unblocked[of n tools cs blocked]
    by (auto simp: names_of_def split: if_splits)
qed

lemma authorized: "assertAuthorizedFunctionCalls calls names = Inr u \<Longrightarrow> c \<in> set calls \<Longrightarrow> fc_name c \<in> set names"
  by (auto simp: assertAuthorizedFunctionCalls_def list_ex_iff split: if_splits)

lemma normalize_name: "normalizeParameterTableRepairCall ag c = Inr d \<Longrightarrow> fc_name d = fc_name c"
  unfolding normalizeParameterTableRepairCall_def by (auto split: if_splits option.splits)

lemma artifact_call_name: "artifact_call w ag inp lv r c = Inr d \<Longrightarrow> fc_name d = fc_name c"
  unfolding artifact_call_def by (auto split: if_splits dest: normalize_name)

lemma trusted_call_names: "trusted_calls ag inp lv calls = Inr ds \<Longrightarrow> map fc_name ds = map fc_name calls"
  unfolding trusted_calls_def by (auto split: list.splits option.splits)

context run_steps
begin

definition may_call :: "model_response \<Rightarrow> agent_state \<Rightarrow> bool" where
  "may_call r s \<longleftrightarrow> (\<forall>n\<in>set (mr_callable r). permitted w s n)"

lemma requested_clock: "I s \<Longrightarrow> as_modelRequests s < max_model_requests \<Longrightarrow>
    I (s\<lparr>as_modelRequests := Suc (as_modelRequests s), as_log := as_log s @ [Requested r], as_clock := n\<rparr>)"
  using clock[OF requested[of s r], of n] by simp

lemma keeps_metered: "keeps I (meteredStream w r)"
  unfolding keeps_def meteredStream_def bindA_def getA_def thenA_def modifyA_def logA_def askA_def throwA_def returnA_def
  by (auto split: stream_outcome.split intro!: requested_clock)

lemma collect_holds:
  "holds I (collectModelResponse w ag inp input ph retry allow rec fresh) (\<lambda>r s. I s \<and> may_call r s) I"
  unfolding collectModelResponse_def
proof (rule holds_get, rule holds_bind[where R = "\<lambda>p s. I s \<and> (\<forall>n\<in>set (rq_callable p). permitted w s n)"])
  fix chosen
  show "holds (\<lambda>s. I s \<and> selectAnswerToolRequestPolicy ag (wd_tools w) (as_calculations s) input (ai_question inp) allow
        (as_attempted s @ as_blocked s) rec = chosen) (liftA chosen)
      (\<lambda>p s. I s \<and> (\<forall>n\<in>set (rq_callable p). permitted w s n)) I"
    using known forced_not_blocked by (intro holds_lift) (auto simp: permitted_def dest!: policy_callable)
next
  fix p :: request_policy
  have blocked: "keeps (\<lambda>s. as_blocked s = B) (meteredStream w r)" for r B
    by (auto simp: keeps_def meteredStream_def bindA_def getA_def thenA_def modifyA_def logA_def askA_def throwA_def
        returnA_def split: stream_outcome.split)
  let ?P = "\<lambda>s. I s \<and> (\<forall>n\<in>set (rq_callable p). permitted w s n)"
  have metered: "keeps ?P (meteredStream w r)" for r
    unfolding keeps_def
  proof (intro allI impI)
    fix s assume s: "?P s"
    have "as_blocked (snd (meteredStream w r s)) = as_blocked s"
      using blocked[of "as_blocked s" r] by (simp add: keeps_def)
    then show "?P (snd (meteredStream w r s))" using keepsD[OF keeps_metered] s by (simp add: permitted_def)
  qed
  show "holds ?P (send_request w inp p (build_request w ag inp input ph retry rec fresh p)) (\<lambda>r s. I s \<and> may_call r s) I"
    unfolding send_request_def
    by (auto intro!: holds_throw holds_bind[where R = "\<lambda>_. ?P"] holds_return
        holds_post[OF holds_keeps[OF metered]] simp: may_call_def split: option.split)
qed

lemma request_holds:
  "holds I (requestWithOneRetry w ag inp input ph allow rec fresh) (\<lambda>r s. I s \<and> may_call r s) I"
  unfolding requestWithOneRetry_def
proof (rule holds_catch, rule collect_holds)
  have "holds I (thenA (throwIfAborted w) (thenA (modifyA (\<lambda>s. s\<lparr>as_retries := as_retries s + 1\<rparr>))
      (collectModelResponse w ag inp input ph True allow rec fresh))) (\<lambda>r s. I s \<and> may_call r s) I"
    by (rule holds_then, rule holds_keeps, rule keeps_abort, rule holds_then, rule holds_keeps, rule keeps_modify,
        erule retried, rule collect_holds)
  then show "holds I (case e of ProviderFailure _ True \<Rightarrow>
      thenA (throwIfAborted w) (thenA (modifyA (\<lambda>s. s\<lparr>as_retries := as_retries s + 1\<rparr>))
      (collectModelResponse w ag inp input ph True allow rec fresh)) | _ \<Rightarrow> throwA e) (\<lambda>r s. I s \<and> may_call r s) I" for e
    by (auto intro: holds_throw split: agent_error.split bool.split)
qed

lemma keeps_projected: "keeps I (projected_answer ag inp cs)"
  unfolding projected_answer_def by (intro keeps_rules)

lemma keeps_refused: "keeps I (refused_request ag inp lv e)"
  unfolding refused_request_def
  by (auto intro!: keeps_rules keeps_projected split: agent_error.split option.split)

lemma keeps_failed: "keeps I (failed_response ag inp lv f)"
  unfolding failed_response_def by (intro keeps_rules keeps_projected)

lemma keeps_retry: "keeps I (retry_artifact inp lv c f r)"
proof -
  have "holds (\<lambda>s. I s \<and> selectArtifactArgumentRecoveryMode (tx_error r) (as_artifactRepairs s)
         (utf8_bytes (fc_arguments c)) = mode)
      (case mode of
         Some m \<Rightarrow>
           thenA (modifyA (\<lambda>s. s\<lparr>as_artifactRepairs := as_artifactRepairs s + 1, as_pending := Some m\<rparr>))
           (returnA (TurnAgain (lv\<lparr>lv_input := buildArtifactRecoveryInput m (lv_input lv) (sf_continuation f) (tx_item r)\<rparr>)))
       | None \<Rightarrow> throwA (RuntimeError (safeArtifactFailureCode (tx_error r)) False None)) (\<lambda>_. I) I" for mode
  proof (cases mode)
    case None
    then show ?thesis by (auto intro: holds_throw)
  next
    case (Some m)
    have zero: "as_artifactRepairs s = 0"
      if "selectArtifactArgumentRecoveryMode (tx_error r) (as_artifactRepairs s) b = Some m" for s b
      using that by (auto simp: selectArtifactArgumentRecoveryMode_def split: if_splits)
    show ?thesis unfolding Some option.case
      by (rule holds_then[where R = I], rule holds_modify) (auto dest!: zero intro: rewritten holds_return)
  qed
  then show ?thesis unfolding retry_artifact_def keeps_holds by (rule holds_get)
qed

lemma keeps_artifact_answer: "keeps I (artifact_answer ag inp v r)"
  unfolding artifact_answer_def by (intro keeps_rules)

lemma keeps_project: "keeps I (project_turn ag inp original lv calls executed f outputs)"
  unfolding project_turn_def
  by (intro keeps_bind keeps_get) (auto intro!: keeps_rules split: option.split)

lemma calls_holds:
  "holds (\<lambda>s. I s \<and> (\<forall>c\<in>set calls. permitted w s (fc_name c))) (executeToolCalls w ag calls) (\<lambda>_. I) I"
  using calls_kept[of _ calls ag] by (fastforce simp: holds_def split: prod.split sum.split)

lemma count_round_holds:
  "holds (\<lambda>s. I s \<and> (\<forall>c\<in>set calls. permitted w s (fc_name c))) count_round
     (\<lambda>_ s. I s \<and> (\<forall>c\<in>set calls. permitted w s (fc_name c))) I"
  unfolding count_round_def by (rule holds_modify) (simp add: rounds permitted_def)

lemma artifact_turn_holds:
  "holds (\<lambda>s. I s \<and> (\<forall>c\<in>set calls. permitted w s (fc_name c)))
     (artifact_turn w ag inp lv rec f calls) (\<lambda>_. I) I"
  if "list_ex (\<lambda>c. fc_name c = create_artifact) calls"
proof -
  let ?i = "artifact_index calls"
  have i: "?i < length calls"
    using that unfolding artifact_index_def list_ex_iff
    by (auto intro: takeWhile_shorter)
  have names: "\<forall>c\<in>set (calls[?i := c']). B (fc_name c)"
    if "\<forall>c\<in>set calls. B (fc_name c)" "fc_name c' = fc_name (calls ! ?i)" for c' B
    using that i by (auto dest!: set_update_subset_insert[THEN subsetD])
  show ?thesis unfolding artifact_turn_def Let_def
  proof (rule holds_bind[where R = "\<lambda>c' s. I s \<and> (\<forall>c\<in>set (calls[?i := c']). permitted w s (fc_name c))"])
    show "holds (\<lambda>s. I s \<and> (\<forall>c\<in>set calls. permitted w s (fc_name c)))
       (liftA (artifact_call w ag inp lv rec (calls ! ?i)))
       (\<lambda>c' s. I s \<and> (\<forall>c\<in>set (calls[?i := c']). permitted w s (fc_name c))) I"
    proof (rule holds_lift)
      fix c' s assume "artifact_call w ag inp lv rec (calls ! ?i) = Inr c'"
        and s: "I s \<and> (\<forall>c\<in>set calls. permitted w s (fc_name c))"
      from artifact_call_name[OF this(1)] show "I s \<and> (\<forall>c\<in>set (calls[?i := c']). permitted w s (fc_name c))"
        using names[of "permitted w s" c'] s by blast
    qed simp
    fix c'
    show "holds (\<lambda>s. I s \<and> (\<forall>c\<in>set (calls[?i := c']). permitted w s (fc_name c)))
       (case wd_preflight w c' of PreflightFailed r \<Rightarrow> retry_artifact inp lv c' f r
        | PreflightOk verified \<Rightarrow> thenA count_round
            (bindA (executeToolCalls w ag (calls[?i := c'])) (\<lambda>outputs. artifact_answer ag inp verified (outputs ! ?i))))
       (\<lambda>_. I) I"
    proof (cases "wd_preflight w c'")
      case (PreflightOk v)
      show ?thesis unfolding PreflightOk preflight.case
        by (rule holds_then, rule count_round_holds, rule holds_bind, rule calls_holds, rule holds_keeps,
            rule keeps_artifact_answer)
    next
      case (PreflightFailed r)
      then show ?thesis by (auto intro: holds_pre[OF holds_keeps[OF keeps_retry]])
    qed
  qed
qed

abbreviation allows :: "function_call list \<Rightarrow> agent_state \<Rightarrow> bool" where
  "allows calls s \<equiv> I s \<and> (\<forall>c\<in>set calls. permitted w s (fc_name c))"

lemma executed_turn_holds:
  "holds (allows calls) (executed_turn w ag inp original lv trusted rec r calls) (\<lambda>_. I) I"
proof (cases "list_ex (\<lambda>c. fc_name c = create_artifact) calls")
  case True
  then show ?thesis by (simp add: executed_turn_def artifact_turn_holds)
next
  case False
  show ?thesis unfolding executed_turn_def if_not_P[OF False]
    by (rule holds_then, rule count_round_holds, rule holds_bind, rule calls_holds, rule holds_keeps,
        intro keeps_rules keeps_project)
qed

lemma tool_turn_holds:
  "holds (allows (mr_calls r)) (tool_turn w ag inp original lv limit rec r) (\<lambda>_. I) I"
  unfolding tool_turn_def Let_def
proof (rule holds_bind[where R = allows])
  have names: "\<forall>c\<in>set calls. B (fc_name c)" if "trusted_calls ag inp lv (mr_calls r) = Inr calls"
    "\<forall>c\<in>set (mr_calls r). B (fc_name c)" for calls B
  proof -
    have "fc_name ` set calls = fc_name ` set (mr_calls r)"
      by (metis trusted_call_names[OF that(1)] image_set)
    with that(2) show ?thesis by (metis imageE imageI)
  qed
  show "holds (allows (mr_calls r)) (liftA (if wd_freshProjection w \<and> mr_forced r = Some pumpdown_tool
       then trusted_calls ag inp lv (mr_calls r) else Inr (mr_calls r))) allows I"
    by (rule holds_lift) (auto split: if_splits dest: names)
next
  fix calls
  show "holds (allows calls) (bindA (getA as_toolRounds) (\<lambda>rounds.
      if limit \<le> rounds then throwA (RuntimeError ''TOOL_ROUND_LIMIT'' False None)
      else thenA (liftA (assertSingleArtifactCall calls)) (executed_turn w ag inp original lv
          (wd_freshProjection w \<and> mr_forced r = Some pumpdown_tool) rec r calls))) (\<lambda>_. I) I"
    by (rule holds_get) (auto intro!: holds_throw holds_then[where R = "allows calls"] holds_lift executed_turn_holds)
qed

lemma response_holds:
  "holds (\<lambda>s. I s \<and> may_call r s) (after_response w ag inp original lv limit rec r) (\<lambda>_. I) I"
proof (cases "sf_status (mr_finish r) = FinishFailed")
  case True
  then show ?thesis by (auto simp: after_response_def intro: holds_pre[OF holds_keeps[OF keeps_failed]])
next
  case False
  have "holds (allows (mr_calls r)) (finished_response w ag inp original lv limit rec r) (\<lambda>_. I) I"
    unfolding finished_response_def by (auto intro!: holds_throw holds_return tool_turn_holds)
  with False show ?thesis unfolding after_response_def
    by (auto simp: may_call_def dest: authorized intro!: holds_then[where R = "allows (mr_calls r)"] holds_lift)
qed

end

end
