(* ===== verification/Agent_Keeps.thy ===== *)
theory Agent_Keeps
  imports Agent_Invariant
begin

section \<open>Whole runs\<close>

text \<open>
  The lemmas of \<open>run_steps\<close> for a turn, the loop and the repair of an answer, those of
  \<open>publishing_steps\<close> for a whole run, and the interpretations: the bounds of a run, the silence
  before an answer is stored, and the admission of the calls executed for the model.
\<close>

context run_steps
begin

lemma keeps_request: "keeps I (requestWithOneRetry w ag inp input ph allow rec fresh)"
  unfolding keeps_holds by (rule holds_post[OF request_holds]) auto

lemma keeps_turn: "keeps I (agent_turn w ag inp original lv)"
proof -
  have sent: "holds I (catchA (bindA (requestWithOneRetry w ag inp (lv_input lv) ph allow rec False) (\<lambda>r. returnA (Inl r)))
      (refused_request ag inp lv)) (\<lambda>x s. I s \<and> (\<forall>r. x = Inl r \<longrightarrow> may_call r s)) I" for ph allow rec
  proof (rule holds_catch[where F = I])
    show "holds I (bindA (requestWithOneRetry w ag inp (lv_input lv) ph allow rec False) (\<lambda>r. returnA (Inl r)))
        (\<lambda>x s. I s \<and> (\<forall>r. x = Inl r \<longrightarrow> may_call r s)) I"
      by (rule holds_bind, rule request_holds, rule holds_return) simp
    have "holds I (refused_request ag inp lv e) (\<lambda>x s. I s \<and> (\<exists>t. x = Inr t)) I" for e
      unfolding refused_request_def
      by (auto intro!: holds_throw holds_get holds_pre[OF holds_bind[OF holds_keeps[OF keeps_projected] holds_return]]
          split: agent_error.split option.split)
    then show "holds I (refused_request ag inp lv e) (\<lambda>x s. I s \<and> (\<forall>r. x = Inl r \<longrightarrow> may_call r s)) I" for e
      by (rule holds_post) auto
  qed
  have answered: "keeps I (bindA (catchA (bindA (requestWithOneRetry w ag inp (lv_input lv) ph allow rec False)
        (\<lambda>r. returnA (Inl r))) (refused_request ag inp lv)) (\<lambda>x. case x of
         Inl r \<Rightarrow> after_response w ag inp original lv limit rec r
       | Inr t \<Rightarrow> returnA (TurnDone t False)))" for ph allow rec limit
    unfolding keeps_holds
  proof (rule holds_bind, rule sent)
    fix x show "holds (\<lambda>s. I s \<and> (\<forall>r. x = Inl r \<longrightarrow> may_call r s))
        (case x of Inl r \<Rightarrow> after_response w ag inp original lv limit rec r | Inr t \<Rightarrow> returnA (TurnDone t False)) (\<lambda>_. I) I"
      by (cases x) (auto intro!: holds_return holds_pre[OF response_holds])
  qed
  show ?thesis unfolding agent_turn_def
    by (intro keeps_then keeps_bind keeps_get quiet_rules keeps_modify pending)
      (auto simp: case_prod_beta intro: answered)
qed

lemma keeps_loop: "keeps I (agent_loop fuel w ag inp original lv)"
proof (induction fuel arbitrary: lv)
  case (Suc fuel)
  have "keeps I (case e of TurnAgain lv1 \<Rightarrow> agent_loop fuel w ag inp original lv1
     | TurnDone t i \<Rightarrow> returnA (Some (t, i, lv_projected lv)))" for e
    using Suc.IH by (auto intro: keeps_return split: turn_end.split)
  then show ?case unfolding agent_loop.simps by (intro keeps_bind keeps_turn)
qed (simp add: keeps_return)

lemma keeps_ask_again: "keeps I (ask_again w ag inp input ph fresh)"
  unfolding ask_again_def by (intro keeps_rules keeps_request)

lemma count_repair_holds: "holds (\<lambda>s. I s \<and> as_repairs s = 0) count_repair (\<lambda>_. I) I"
  unfolding count_repair_def by (rule holds_modify) (auto dest: repaired)

lemma once:
  assumes "holds (\<lambda>s. I s \<and> as_repairs s = 0) m (\<lambda>_. I) I"
  shows "keeps I (bindA (getA as_repairs) (\<lambda>n. if 1 \<le> n then returnA x else m))"
  unfolding keeps_holds
proof (rule holds_get)
  fix n show "holds (\<lambda>s. I s \<and> as_repairs s = n) (if 1 \<le> n then returnA x else m) (\<lambda>_. I) I"
    using assms by (cases n) (auto intro: holds_return)
qed

lemma keeps_repair: "keeps I (repair_answer w ag wording inp t errors)"
  unfolding repair_answer_def
  by (intro once holds_then[OF count_repair_holds] holds_keeps keeps_rules keeps_ask_again)

lemma keeps_regenerate: "keeps I (regenerateInvalidAnswerJson w ag inp original)"
  unfolding regenerateInvalidAnswerJson_def
proof (rule once, rule holds_then)
  show "holds (\<lambda>s. I s \<and> as_repairs s = 0) (throwIfAborted w) (\<lambda>_ s. I s \<and> as_repairs s = 0) I"
    by (auto simp: holds_def throwIfAborted_def bindA_def askA_def throwA_def returnA_def clock)
  show "holds (\<lambda>s. I s \<and> as_repairs s = 0) (fresh_answer w ag inp (buildFreshAnswerJsonInput original)) (\<lambda>_. I) I"
    unfolding fresh_answer_def
    by (auto intro!: holds_return holds_then[OF count_repair_holds] holds_keeps keeps_ask_again)
qed

lemma keeps_calculation: "keeps I (calculation_answer ag inp)"
  unfolding calculation_answer_def by (intro keeps_rules)

lemma keeps_settle_validated: "keeps I (settle_validated ag inp k v st)"
  unfolding settle_validated_def by (intro keeps_rules keeps_calculation)

lemma keeps_judge: "keeps I (judge w ag wording inp k t b vs)"
  unfolding judge_def invalid_candidate_def repair_invalid_def Let_def
  by (intro keeps_rules keeps_calculation keeps_settle_validated keeps_repair)

lemma keeps_validate: "keeps I (validateOrRepair w ag wording inp original t)"
  unfolding validateOrRepair_def validate_candidate_def Let_def
  by (intro keeps_rules keeps_calculation keeps_judge keeps_regenerate)

lemma keeps_resolve: "keeps I (resolve_answer ag inp i projected a)"
  unfolding resolve_answer_def Let_def by (intro keeps_rules)

lemma keeps_final: "keeps I (final_validation ag inp a)"
  unfolding final_validation_def Let_def
  by (intro keeps_bind keeps_get) (auto intro: keeps_rules split: bool.split option.split)

lemma keeps_context: "keeps I (bindA (askA (wd_context w)) (\<lambda>f. bindA (getA (\<lambda>s. f (as_registry s))) liftA))"
  by (intro keeps_rules quiet_rules)

end

fun publication :: "agent_event \<Rightarrow> bool" where
  "publication (Persisted _) = True"
| "publication (BlockEvent _ _) = True"
| "publication (CitationEvent _) = True"
| "publication _ = False"

locale publishing_steps = run_steps +
  assumes published: "publication e \<Longrightarrow> I s \<Longrightarrow> I (s\<lparr>as_log := as_log s @ [e]\<rparr>)"
begin

lemma keeps_publish: "keeps I (persistAndPublishFinalAnswer w c)"
proof -
  have log: "publication e \<Longrightarrow> keeps I (logA e)" for e
    unfolding logA_def by (rule keeps_modify) (rule published)
  have "holds I (mapA logA es) (\<lambda>_. I) I" if "\<forall>e\<in>set es. publication e" for es
    by (rule holds_map) (use that log in \<open>auto simp: keeps_holds\<close>)
  moreover have "\<forall>e\<in>set (publications a cs). publication e" for a cs
    by (auto simp: publications_def)
  ultimately have events: "keeps I (mapA logA (publications a cs))" for a cs
    unfolding keeps_holds by blast
  show ?thesis unfolding persistAndPublishFinalAnswer_def
    by (intro keeps_bind quiet_rules) (auto intro!: keeps_rules log events split: sum.split)
qed

lemma keeps_finish: "keeps I (finish_run w ag wording inp context e)"
  unfolding finish_run_def
  by (cases e) (auto intro!: keeps_rules quiet_rules keeps_validate keeps_resolve keeps_final keeps_publish)

lemma run_holds:
  assumes "holds P (gather w ag inp) (\<lambda>_. I) I"
  shows "holds P (run_agent w ag wording inp) (\<lambda>_. I) I"
  unfolding run_agent_def
proof (rule holds_then, rule assms, rule holds_keeps)
  have rest: "keeps I (case e of None \<Rightarrow> returnA None
      | Some x \<Rightarrow> bindA (finish_run w ag wording inp ctx x) (\<lambda>r. returnA (Some r)))" for ctx e
    by (intro keeps_rules keeps_finish)
  show "keeps I (thenA (stage StageReasoning) (bindA (bindA (askA (wd_context w)) (\<lambda>f. bindA (getA (\<lambda>s. f (as_registry s))) liftA))
      (\<lambda>context. bindA (agent_loop loop_fuel w ag inp (fst context)
          \<lparr>lv_input = fst context, lv_toolFree = False, lv_projected = None\<rparr>) (\<lambda>e. case e of None \<Rightarrow> returnA None
      | Some x \<Rightarrow> bindA (finish_run w ag wording inp context x) (\<lambda>r. returnA (Some r))))))"
    by (intro keeps_then keeps_bind[OF keeps_context] keeps_bind[OF keeps_loop] keeps_stage rest)
qed

end

subsection \<open>The bounds of a run\<close>

fun is_request :: "agent_event \<Rightarrow> bool" where
  "is_request (Requested _) = True"
| "is_request _ = False"

definition within :: "nat \<Rightarrow> agent_state \<Rightarrow> bool" where
  "within n s \<longleftrightarrow> set (as_blocked s) \<subseteq> set blockable \<and> n \<le> as_modelRequests s
     \<and> as_modelRequests s \<le> max_model_requests \<and> as_toolCalls s \<le> max_tool_calls
     \<and> as_repairs s \<le> 1 \<and> as_artifactRepairs s \<le> 1
     \<and> length (filter is_request (as_log s)) \<le> as_modelRequests s"

lemma quiet_request: "quiet e \<Longrightarrow> \<not> is_request e" by (cases e) auto
lemma publication_request: "publication e \<Longrightarrow> \<not> is_request e" by (cases e) auto

interpretation bounded_calls: call_steps "within n" for n
  by unfold_locales (auto simp: within_def max_tool_calls_def dest: quiet_request)

interpretation bounded: publishing_steps "within n" w for n w
proof unfold_locales
  show "within n (snd (executeToolCalls w ag calls s))" if "within n s" for ag calls s
    by (rule keepsD[OF bounded_calls.keeps_calls that])
qed (auto simp: within_def max_model_requests_def dest: publication_request)

interpretation bounded_gather: gather_steps "within n" for n
  by unfold_locales (auto simp: within_def max_tool_calls_def max_model_requests_def)

subsection \<open>Every turn that goes on has sent a request\<close>

lemma metered_holds:
  "holds (within n) (meteredStream w r) (\<lambda>_. within (Suc n)) (within n)"
  by (auto simp: holds_def meteredStream_def bindA_def getA_def thenA_def modifyA_def logA_def askA_def throwA_def
      returnA_def within_def max_model_requests_def split: stream_outcome.split)

lemma collect_sends:
  "holds (within n) (collectModelResponse w ag inp input ph retry allow rec fresh) (\<lambda>_. within (Suc n)) (within n)"
  unfolding collectModelResponse_def send_request_def
  by (rule holds_get, rule holds_bind[where R = "\<lambda>_. within n"])
    (auto intro!: holds_lift holds_throw holds_bind[OF metered_holds] holds_return
      simp: within_def split: option.split)

lemma request_sends:
  "holds (within n) (requestWithOneRetry w ag inp input ph allow rec fresh) (\<lambda>_. within (Suc n)) (within n)"
  unfolding requestWithOneRetry_def
proof (rule holds_catch, rule collect_sends)
  fix e
  have "holds (within n) (thenA (throwIfAborted w) (thenA (modifyA (\<lambda>s. s\<lparr>as_retries := as_retries s + 1\<rparr>))
      (collectModelResponse w ag inp input ph True allow rec fresh))) (\<lambda>_. within (Suc n)) (within n)"
    by (rule holds_then, rule holds_keeps, rule bounded_calls.keeps_abort, rule holds_then, rule holds_modify,
        erule bounded.retried, rule collect_sends)
  then show "holds (within n) (case e of ProviderFailure _ True \<Rightarrow>
      thenA (throwIfAborted w) (thenA (modifyA (\<lambda>s. s\<lparr>as_retries := as_retries s + 1\<rparr>))
      (collectModelResponse w ag inp input ph True allow rec fresh)) | _ \<Rightarrow> throwA e) (\<lambda>_. within (Suc n)) (within n)"
    by (auto intro: holds_throw split: agent_error.split bool.split)
qed

lemma within_less: "within (Suc n) s \<Longrightarrow> within n s"
  by (simp add: within_def)

lemma turn_sends:
  "holds (within n) (agent_turn w ag inp original lv)
     (\<lambda>e s. within n s \<and> (\<forall>lv1. e = TurnAgain lv1 \<longrightarrow> within (Suc n) s)) (within n)"
proof -
  have sent: "holds (within n) (catchA (bindA (requestWithOneRetry w ag inp (lv_input lv) ph allow rec False)
        (\<lambda>r. returnA (Inl r))) (refused_request ag inp lv))
      (\<lambda>x s. within n s \<and> (\<forall>r. x = Inl r \<longrightarrow> within (Suc n) s \<and> run_steps.may_call w r s)) (within n)" for ph allow rec
  proof (rule holds_catch[where F = "within n"])
    have "holds (within n) (requestWithOneRetry w ag inp (lv_input lv) ph allow rec False)
        (\<lambda>r s. within (Suc n) s \<and> run_steps.may_call w r s) (within n)"
      using holds_conj[OF request_sends bounded.request_holds] by (rule holds_pre[OF holds_post]) auto
    then show "holds (within n) (bindA (requestWithOneRetry w ag inp (lv_input lv) ph allow rec False)
        (\<lambda>r. returnA (Inl r))) (\<lambda>x s. within n s \<and> (\<forall>r. x = Inl r \<longrightarrow> within (Suc n) s \<and> run_steps.may_call w r s)) (within n)"
      by (rule holds_bind) (auto intro!: holds_return dest: within_less)
    show "holds (within n) (refused_request ag inp lv e)
        (\<lambda>x s. within n s \<and> (\<forall>r. x = Inl r \<longrightarrow> within (Suc n) s \<and> run_steps.may_call w r s)) (within n)" for e
      unfolding refused_request_def
      by (auto intro!: holds_throw holds_get holds_pre[OF holds_bind[OF holds_keeps[OF bounded.keeps_projected] holds_return]]
          split: agent_error.split option.split)
  qed
  have answered: "holds (within n) (bindA (catchA (bindA (requestWithOneRetry w ag inp (lv_input lv) ph allow rec False)
        (\<lambda>r. returnA (Inl r))) (refused_request ag inp lv)) (\<lambda>x. case x of
         Inl r \<Rightarrow> after_response w ag inp original lv limit rec r
       | Inr t \<Rightarrow> returnA (TurnDone t False)))
      (\<lambda>e s. within n s \<and> (\<forall>lv1. e = TurnAgain lv1 \<longrightarrow> within (Suc n) s)) (within n)" for ph allow rec limit
  proof (rule holds_bind, rule sent)
    fix x show "holds (\<lambda>s. within n s \<and> (\<forall>r. x = Inl r \<longrightarrow> within (Suc n) s \<and> run_steps.may_call w r s))
        (case x of Inl r \<Rightarrow> after_response w ag inp original lv limit rec r | Inr t \<Rightarrow> returnA (TurnDone t False))
        (\<lambda>e s. within n s \<and> (\<forall>lv1. e = TurnAgain lv1 \<longrightarrow> within (Suc n) s)) (within n)"
    proof (cases x)
      case (Inl r)
      show ?thesis unfolding Inl sum.case
        by (rule holds_post[OF holds_pre[OF bounded.response_holds[of "Suc n"]]]) (auto dest: within_less)
    qed (auto intro: holds_return)
  qed
  show ?thesis unfolding agent_turn_def
    by (rule holds_then, rule holds_keeps, rule bounded_calls.keeps_abort, rule holds_then, rule holds_keeps,
        rule bounded_calls.keeps_stage, rule holds_get, rule holds_get, rule holds_then[where R = "within n"],
        rule holds_modify, simp add: bounded.pending, rule holds_get, rename_tac limit rec x, case_tac x,
        simp only: prod.case, rule holds_pre[OF answered], simp)
qed

lemma loop_ends:
  "max_model_requests < fuel + n \<Longrightarrow>
   holds (within n) (agent_loop fuel w ag inp original lv) (\<lambda>r s. r \<noteq> None \<and> within 0 s) (within 0)"
proof (induction fuel arbitrary: n lv)
  case 0
  then show ?case by (auto simp: holds_def within_def)
next
  case (Suc fuel)
  have zero: "within m s \<Longrightarrow> within 0 s" for m s by (simp add: within_def)
  show ?case unfolding agent_loop.simps
  proof (rule holds_bind, rule holds_post, rule turn_sends, assumption, erule zero)
    fix e
    show "holds (\<lambda>s. within n s \<and> (\<forall>lv1. e = TurnAgain lv1 \<longrightarrow> within (Suc n) s))
        (case e of TurnAgain lv1 \<Rightarrow> agent_loop fuel w ag inp original lv1
         | TurnDone t i \<Rightarrow> returnA (Some (t, i, lv_projected lv))) (\<lambda>r s. r \<noteq> None \<and> within 0 s) (within 0)"
    proof (cases e)
      case (TurnAgain lv1)
      show ?thesis unfolding TurnAgain turn_end.case
        by (rule holds_pre[OF Suc.IH[of "Suc n"]]) (use Suc.prems in auto)
    qed (auto intro!: holds_return dest: zero)
  qed
qed

lemma initial_within: "within 0 initial_state \<and> as_toolCalls initial_state < max_tool_calls"
  by (simp add: within_def initial_state_def max_tool_calls_def)

lemma run_ends: "holds (\<lambda>s. within 0 s \<and> as_toolCalls s < max_tool_calls) (run_agent w ag wording inp)
    (\<lambda>r s. r \<noteq> None \<and> within 0 s) (within 0)"
  unfolding run_agent_def
proof (rule holds_then[OF bounded_gather.gather_keeps], rule holds_then, rule holds_keeps, rule bounded_calls.keeps_stage,
    rule holds_bind, rule holds_keeps, rule bounded.keeps_context, rule holds_bind, rule loop_ends)
  show "max_model_requests < loop_fuel + 0" by (simp add: loop_fuel_def)
next
  fix ctx e
  show "holds (\<lambda>s. e \<noteq> None \<and> within 0 s) (case e of None \<Rightarrow> returnA None
      | Some x \<Rightarrow> bindA (finish_run w ag wording inp ctx x) (\<lambda>r. returnA (Some r)))
     (\<lambda>r s. r \<noteq> None \<and> within 0 s) (within 0)"
    by (cases e) (auto intro!: holds_return holds_bind[OF holds_keeps[OF bounded.keeps_finish]] simp: holds_def[of "\<lambda>s. False"])
qed

end
