(* ===== verification/Agent_Admission.thy ===== *)
theory Agent_Admission
  imports Agent_Keeps
begin

section \<open>The calls executed for the model\<close>

text \<open>
  Which tool calls of the model run: none that the server blocked, none twice, at most one
  artifact, and no more than the run counts. The calls admitted in a batch but not yet executed
  are the argument \<open>A\<close> of the invariant, the calls of later batches the argument \<open>R\<close>.
\<close>

fun call_of_model :: "agent_event \<Rightarrow> function_call list" where
  "call_of_model (Executed (ModelCall _) c) = [c]"
| "call_of_model _ = []"

fun is_execution :: "agent_event \<Rightarrow> bool" where
  "is_execution (Executed _ _) = True"
| "is_execution _ = False"

definition model_calls :: "agent_state \<Rightarrow> function_call list" where
  "model_calls s = concat (map call_of_model (as_log s))"

definition executions :: "agent_state \<Rightarrow> nat" where
  "executions s = length (filter is_execution (as_log s))"

definition artifact_calls :: "function_call list \<Rightarrow> nat" where
  "artifact_calls cs = length (filter (\<lambda>c. fc_name c = create_artifact) cs)"

lemma artifact_calls_simps [simp]:
  "artifact_calls [] = 0" "artifact_calls (xs @ ys) = artifact_calls xs + artifact_calls ys"
  "artifact_calls (c # cs) = (if fc_name c = create_artifact then 1 else 0) + artifact_calls cs"
  "artifact_calls (rev xs) = artifact_calls xs"
  by (simp_all add: artifact_calls_def flip: rev_filter)

definition calls_ok :: "agent_world \<Rightarrow> function_call list \<Rightarrow> function_call list \<Rightarrow> agent_state \<Rightarrow> bool" where
  "calls_ok w A R s \<longleftrightarrow> set (as_blocked s) \<subseteq> set blockable
     \<and> distinct (map fc_id (model_calls s) @ map fc_id A)
     \<and> fc_id ` (set (model_calls s) \<union> set A) \<subseteq> set (as_seen s)
     \<and> executions s + length A \<le> as_toolCalls s
     \<and> artifact_calls (model_calls s) + artifact_calls A + artifact_calls R \<le> 1
     \<and> (0 < artifact_calls (model_calls s) + artifact_calls A + artifact_calls R \<longrightarrow> create_artifact \<in> set (as_attempted s))
     \<and> (\<forall>c\<in>set (model_calls s) \<union> set A \<union> set R. permitted w s (fc_name c))"

lemma model_calls_log [simp]:
  "model_calls (s\<lparr>as_log := as_log s @ [e]\<rparr>) = model_calls s @ call_of_model e"
  "executions (s\<lparr>as_log := as_log s @ [e]\<rparr>) = executions s + (if is_execution e then 1 else 0)"
  by (simp_all add: model_calls_def executions_def)

lemma quiet_call: "quiet e \<Longrightarrow> call_of_model e = [] \<and> \<not> is_execution e"
  by (cases e) auto

lemma publication_call: "publication e \<Longrightarrow> call_of_model e = [] \<and> \<not> is_execution e"
  by (cases e) auto

lemma same_calls: "as_log s = as_log t \<Longrightarrow> model_calls s = model_calls t \<and> executions s = executions t"
  by (simp add: model_calls_def executions_def)

lemma calls_ok_fields:
  assumes "calls_ok w A R s" "as_log t = as_log s" "as_blocked t = as_blocked s" "as_seen t = as_seen s"
    "as_toolCalls t = as_toolCalls s" "as_attempted t = as_attempted s"
  shows "calls_ok w A R t"
  using assms same_calls[of t s] permitted_same[of t s] by (simp add: calls_ok_def)

lemma calls_ok_log:
  assumes "calls_ok w A R s" "as_log t = as_log s @ [e]" "call_of_model e = []" "\<not> is_execution e"
    "as_blocked t = as_blocked s" "as_seen t = as_seen s" "as_toolCalls t = as_toolCalls s" "as_attempted t = as_attempted s"
  shows "calls_ok w A R t"
proof -
  have "model_calls t = model_calls s" "executions t = executions s"
    using assms by (simp_all add: model_calls_def executions_def)
  with assms permitted_same[of t s] show ?thesis by (simp add: calls_ok_def)
qed

interpretation admitting: quiet_steps "calls_ok w A R" for w A R
proof unfold_locales
  show "calls_ok w A R (s\<lparr>as_clock := n\<rparr>)" if "calls_ok w A R s" for s n
    by (rule calls_ok_fields[OF that]) simp_all
  show "calls_ok w A R (s\<lparr>as_log := as_log s @ [e]\<rparr>)" if "quiet e" "calls_ok w A R s" for e s
    by (rule calls_ok_log[OF that(2), of _ e]) (use quiet_call[OF that(1)] in simp_all)
  show "calls_ok w A R (s\<lparr>as_sequence := n\<rparr>)" if "calls_ok w A R s" for s n
    by (rule calls_ok_fields[OF that]) simp_all
qed

text \<open>An error may leave calls that never run.\<close>

lemma calls_ok_drop: "calls_ok w A R s \<Longrightarrow> calls_ok w [] [] s"
  by (auto simp: calls_ok_def)

lemma calls_ok_rev: "calls_ok w (rev A) R s = calls_ok w A R s"
  by (simp add: calls_ok_def rev_map[symmetric])

definition admitted :: "admission list \<Rightarrow> function_call list" where
  "admitted ads = concat (map (\<lambda>a. case a of Admitted c \<Rightarrow> [c] | Refused _ \<Rightarrow> []) ads)"

lemma admitted_simps [simp]: "admitted [] = []" "admitted (Refused r # ads) = admitted ads"
  "admitted (Admitted c # ads) = c # admitted ads" "admitted (xs @ ys) = admitted xs @ admitted ys"
  "admitted (rev ads) = rev (admitted ads)"
proof -
  show "admitted (rev ads) = rev (admitted ads)"
    unfolding admitted_def by (induction ads) (auto split: admission.split)
qed (simp_all add: admitted_def)

lemma admit_holds:
  "holds (calls_ok w A (c # R)) (admit ag c) (\<lambda>ad. calls_ok w (A @ admitted [ad]) R) (calls_ok w [] [])"
proof -
  have refuse: "calls_ok w A R s" if "calls_ok w A (c # R) s" for s
    using that by (auto simp: calls_ok_def)
  have seen: "calls_ok w A R (s\<lparr>as_seen := x # as_seen s\<rparr>)" if "calls_ok w A (c # R) s" for s x
  proof -
    have "model_calls (s\<lparr>as_seen := x # as_seen s\<rparr>) = model_calls s"
      "executions (s\<lparr>as_seen := x # as_seen s\<rparr>) = executions s"
      by (simp_all add: model_calls_def executions_def)
    with refuse[OF that] show ?thesis unfolding calls_ok_def by auto
  qed
  have take: "calls_ok w (A @ [c]) R (s\<lparr>as_seen := fc_id c # as_seen s, as_toolCalls := Suc (as_toolCalls s),
      as_log := as_log s @ [ToolEvent ToolStarted n]\<rparr>)"
    if s: "calls_ok w A (c # R) s" "fc_id c \<notin> set (as_seen s)" for s n
  proof -
    have same: "model_calls (s\<lparr>as_seen := fc_id c # as_seen s, as_toolCalls := Suc (as_toolCalls s),
        as_log := as_log s @ [ToolEvent ToolStarted n]\<rparr>) = model_calls s"
      "executions (s\<lparr>as_seen := fc_id c # as_seen s, as_toolCalls := Suc (as_toolCalls s),
        as_log := as_log s @ [ToolEvent ToolStarted n]\<rparr>) = executions s"
      by (simp_all add: model_calls_def executions_def)
    note ok = s(1)[unfolded calls_ok_def]
    have fresh: "fc_id c \<notin> fc_id ` (set (model_calls s) \<union> set A)" using ok s(2) by blast
    have distinct: "distinct (map fc_id (model_calls s) @ map fc_id (A @ [c]))"
      using ok fresh by (simp add: image_Un)
    have count: "artifact_calls (A @ [c]) + artifact_calls R = artifact_calls A + artifact_calls (c # R)" by simp
    show ?thesis unfolding calls_ok_def same
    proof (intro conjI)
      show "artifact_calls (model_calls s) + artifact_calls (A @ [c]) + artifact_calls R \<le> 1"
        using ok count by linarith
      show "0 < artifact_calls (model_calls s) + artifact_calls (A @ [c]) + artifact_calls R \<longrightarrow> create_artifact
          \<in> set (as_attempted (s\<lparr>as_seen := fc_id c # as_seen s, as_toolCalls := Suc (as_toolCalls s),
        as_log := as_log s @ [ToolEvent ToolStarted n]\<rparr>))"
        using ok count by (simp only: add.assoc agent_state.simps) simp
      show "set (as_blocked (s\<lparr>as_seen := fc_id c # as_seen s, as_toolCalls := Suc (as_toolCalls s),
        as_log := as_log s @ [ToolEvent ToolStarted n]\<rparr>)) \<subseteq> set blockable"
        using ok by simp
      show "distinct (map fc_id (model_calls s) @ map fc_id (A @ [c]))" by (rule distinct)
      show "fc_id ` (set (model_calls s) \<union> set (A @ [c])) \<subseteq> set (as_seen (s\<lparr>as_seen := fc_id c # as_seen s, as_toolCalls := Suc (as_toolCalls s),
        as_log := as_log s @ [ToolEvent ToolStarted n]\<rparr>))"
        using ok by (simp add: image_Un) blast
      show "executions s + length (A @ [c]) \<le> as_toolCalls (s\<lparr>as_seen := fc_id c # as_seen s, as_toolCalls := Suc (as_toolCalls s),
        as_log := as_log s @ [ToolEvent ToolStarted n]\<rparr>)"
        using ok by simp
      have sets: "set (A @ [c]) \<union> set R = set A \<union> set (c # R)" by simp
      show "\<forall>d\<in>set (model_calls s) \<union> set (A @ [c]) \<union> set R. permitted w (s\<lparr>as_seen := fc_id c # as_seen s, as_toolCalls := Suc (as_toolCalls s),
        as_log := as_log s @ [ToolEvent ToolStarted n]\<rparr>) (fc_name d)"
        using ok unfolding Un_assoc sets permitted_update by blast
    qed
  qed
  show ?thesis
    unfolding holds_def admit_def bindA_def getA_def thenA_def modifyA_def count_call_def toolEvent_def logA_def returnA_def
    by (auto simp: refuse seen take)
qed

lemma admits_hold:
  "holds (calls_ok w A (cs @ R)) (mapA (admit ag) cs) (\<lambda>ads. calls_ok w (A @ admitted ads) R) (calls_ok w [] [])"
proof (induction cs arbitrary: A)
  case Nil
  show ?case by (auto intro: holds_return)
next
  case (Cons c cs)
  show ?case unfolding mapA.simps append_Cons
  proof (rule holds_bind, rule admit_holds, rule holds_bind, rule Cons.IH)
    fix ad ads
    show "holds (calls_ok w ((A @ admitted [ad]) @ admitted ads) R) (returnA (ad # ads))
        (\<lambda>ads. calls_ok w (A @ admitted ads) R) (calls_ok w [] [])"
      by (rule holds_return) (cases ad; simp)
  qed
qed

lemma execute_holds:
  "holds (calls_ok w (c # A) R) (execute w (ModelCall k) c) (\<lambda>_. calls_ok w A R) (calls_ok w [] [])"
proof -
  have step: "calls_ok w A R (s\<lparr>as_log := as_log s @ [Executed (ModelCall k) c], as_clock := n, as_registry := rg\<rparr>)"
    if s: "calls_ok w (c # A) R s" for s n rg
  proof -
    have "model_calls (s\<lparr>as_log := as_log s @ [Executed (ModelCall k) c], as_clock := n, as_registry := rg\<rparr>)
        = model_calls s @ [c]"
      "executions (s\<lparr>as_log := as_log s @ [Executed (ModelCall k) c], as_clock := n, as_registry := rg\<rparr>)
        = executions s + 1"
      by (simp_all add: model_calls_def executions_def)
    with s show ?thesis unfolding calls_ok_def by auto
  qed
  show ?thesis
    unfolding holds_def execute_def thenA_def bindA_def logA_def modifyA_def askA_def
    by (auto simp: Let_def case_prod_beta intro: step)
qed

lemma settle_holds:
  "holds (calls_ok w (admitted (ad # ads)) R) (settle_call w ag ad) (\<lambda>_. calls_ok w (admitted ads) R) (calls_ok w [] [])"
proof (cases ad)
  case (Refused r)
  then show ?thesis by (auto simp: settle_call_def intro: holds_return)
next
  case (Admitted c)
  have kept: "keeps (calls_ok w (admitted ads) R) (thenA (modifyA (keep_outputs r)) (thenA (recordTool w ag k c r)
      (thenA (toolEvent st n) (returnA r))))" for r k st n
    by (intro keeps_rules admitting.quiet_rules keeps_modify) (auto simp: keep_outputs_def intro: calls_ok_fields)
  show ?thesis unfolding Admitted settle_call_def admission.case admitted_simps
    by (rule holds_get, rule holds_pre[OF holds_bind[OF execute_holds]],
        rule holds_post[OF holds_keeps[OF kept]]) (auto intro: calls_ok_drop)
qed

lemma settles_hold:
  "holds (calls_ok w (admitted ads) R) (mapA (settle_call w ag) ads) (\<lambda>_. calls_ok w [] R) (calls_ok w [] [])"
proof (induction ads)
  case Nil
  show ?case by (auto intro: holds_return)
next
  case (Cons ad ads)
  show ?case unfolding mapA.simps
    by (rule holds_bind, rule settle_holds, rule holds_bind, rule Cons.IH, rule holds_return)
qed

lemma batch_holds:
  "holds (calls_ok w [] (cs @ R)) (run_batch w ag cs) (\<lambda>_. calls_ok w [] R) (calls_ok w [] [])"
  unfolding run_batch_def
proof (rule holds_then)
  show "holds (calls_ok w [] (cs @ R)) (throwIfAborted w) (\<lambda>_. calls_ok w [] (cs @ R)) (calls_ok w [] [])"
    by (rule holds_post[OF holds_keeps[OF admitting.keeps_abort]]) (auto intro: calls_ok_drop)
  have ask: "holds (calls_ok w A R) (askA f) (\<lambda>_. calls_ok w A R) (calls_ok w [] [])" for A f
    by (rule holds_post[OF holds_keeps[OF admitting.keeps_ask]]) (auto intro: calls_ok_drop)
  have swapped: "holds (calls_ok w (admitted ads) R)
     (if b then bindA (mapA (settle_call w ag) (rev ads)) (\<lambda>rs. returnA (rev rs)) else mapA (settle_call w ag) ads)
     (\<lambda>_. calls_ok w [] R) (calls_ok w [] [])" for ads b
  proof (cases b)
    case True
    have "holds (calls_ok w (admitted (rev ads)) R) (bindA (mapA (settle_call w ag) (rev ads)) (\<lambda>rs. returnA (rev rs)))
        (\<lambda>_. calls_ok w [] R) (calls_ok w [] [])"
      by (rule holds_bind, rule settles_hold, rule holds_return)
    with True show ?thesis by (auto simp: calls_ok_rev intro: holds_pre)
  qed (simp add: settles_hold)
  show "holds (calls_ok w [] (cs @ R)) (bindA (mapA (admit ag) cs) (\<lambda>ads. bindA (askA (wd_swapped w)) (\<lambda>swapped.
      if swapped then bindA (mapA (settle_call w ag) (rev ads)) (\<lambda>rs. returnA (rev rs)) else mapA (settle_call w ag) ads)))
     (\<lambda>_. calls_ok w [] R) (calls_ok w [] [])"
    by (rule holds_bind, rule admits_hold, unfold append_Nil, rule holds_bind, rule ask, rule swapped)
qed

lemma batches_hold:
  "holds (calls_ok w [] (concat bs)) (mapA (run_batch w ag) bs) (\<lambda>_. calls_ok w [] []) (calls_ok w [] [])"
proof (induction bs)
  case Nil
  show ?case by (auto intro: holds_return)
next
  case (Cons b bs)
  show ?case unfolding mapA.simps concat.simps
    by (rule holds_bind, rule batch_holds, rule holds_bind, rule Cons.IH, rule holds_return)
qed

lemma concat_batches: "concat (batches cs) = cs"
  by (induction cs rule: batches.induct) simp_all

lemma reserve_pending_counts:
  "reserve_pending cs attempted pending = Inr p \<Longrightarrow>
   set p = set pending \<union> {n \<in> fc_name ` set cs. n = create_artifact}
   \<and> (create_artifact \<in> set attempted \<union> set pending \<longrightarrow> artifact_calls cs = 0) \<and> artifact_calls cs \<le> 1"
proof (induction cs arbitrary: pending)
  case (Cons c cs)
  show ?case
  proof (cases "fc_name c = create_artifact")
    case True
    with Cons.prems have new: "create_artifact \<notin> set attempted" "create_artifact \<notin> set pending"
      and rest: "reserve_pending cs attempted (pending @ [create_artifact]) = Inr p"
      by (auto simp: non_repeatable_names_def split: if_splits)
    from Cons.IH[OF rest] new True show ?thesis by auto
  next
    case False
    with Cons.prems have "reserve_pending cs attempted pending = Inr p"
      by (auto simp: non_repeatable_names_def split: if_splits)
    from Cons.IH[OF this] False show ?thesis by auto
  qed
qed simp

lemma reserved_ok:
  assumes s: "calls_ok w [] [] s" and r: "reserveNonRepeatableToolCalls calls (as_attempted s) = Inr x"
    and names: "\<forall>c\<in>set calls. permitted w s (fc_name c)"
  shows "calls_ok w [] calls (s\<lparr>as_attempted := x\<rparr>)"
proof -
  obtain p where p: "reserve_pending calls (as_attempted s) [] = Inr p" "x = as_attempted s @ p"
    using r by (auto simp: reserveNonRepeatableToolCalls_def bindR_eq_Inr)
  note counts = reserve_pending_counts[OF p(1)]
  have same: "model_calls (s\<lparr>as_attempted := x\<rparr>) = model_calls s" "executions (s\<lparr>as_attempted := x\<rparr>) = executions s"
    by (simp_all add: model_calls_def executions_def)
  have "create_artifact \<in> set p" if "0 < artifact_calls calls"
  proof -
    from that obtain c where "c \<in> set calls" "fc_name c = create_artifact"
      by (auto simp: artifact_calls_def filter_empty_conv)
    then show ?thesis using counts by force
  qed
  with s names counts show ?thesis unfolding calls_ok_def same by (auto simp: p(2))
qed

lemma calls_admitted:
  assumes "calls_ok w [] [] s" "\<forall>c\<in>set calls. permitted w s (fc_name c)"
  shows "calls_ok w [] [] (snd (executeToolCalls w ag calls s))"
proof (cases "reserveNonRepeatableToolCalls calls (as_attempted s)")
  case (Inl e)
  with assms(1) show ?thesis by (simp add: executeToolCalls_def bindA_def getA_def liftA_def)
next
  case (Inr x)
  have "calls_ok w [] (concat (batches calls)) (s\<lparr>as_attempted := x\<rparr>)"
    using reserved_ok[OF assms(1) Inr assms(2)] by (simp add: concat_batches)
  moreover have "holds (calls_ok w [] (concat (batches calls)))
      (bindA (mapA (run_batch w ag) (batches calls)) (\<lambda>rss. returnA (concat rss))) (\<lambda>_. calls_ok w [] []) (calls_ok w [] [])"
    by (rule holds_bind, rule batches_hold, rule holds_return)
  ultimately show ?thesis unfolding executeToolCalls_def
    by (simp add: bindA_def getA_def liftA_def Inr thenA_def modifyA_def holds_def case_prod_beta
        split: sum.splits prod.splits)
qed

interpretation admitting: publishing_steps "calls_ok w [] []" w for w
proof unfold_locales
  show "calls_ok w [] [] (snd (executeToolCalls w ag calls s))"
    if "calls_ok w [] [] s" "\<forall>c\<in>set calls. permitted w s (fc_name c)" for ag calls s
    by (rule calls_admitted[OF that])
  fix s assume s: "calls_ok w [] [] s"
  show "set (as_blocked s) \<subseteq> set blockable" using s by (simp add: calls_ok_def)
  show "calls_ok w [] [] (s\<lparr>as_modelRequests := Suc (as_modelRequests s), as_log := as_log s @ [Requested r]\<rparr>)" for r
    by (rule calls_ok_log[OF s, of _ "Requested r"]) simp_all
  show "calls_ok w [] [] (s\<lparr>as_log := as_log s @ [e]\<rparr>)" if "publication e" for e
    by (rule calls_ok_log[OF s, of _ e]) (use publication_call[OF that] in simp_all)
qed (erule calls_ok_fields; simp)+

interpretation looking_up: gather_steps "\<lambda>s. calls_ok w [] [] s \<and> model_calls s = []" for w
proof unfold_locales
  fix s assume s: "calls_ok w [] [] s \<and> model_calls s = []"
  have same: "calls_ok w [] [] t \<and> model_calls t = []"
    if "as_log t = as_log s" "as_blocked t = as_blocked s" "as_seen t = as_seen s" "as_attempted t = as_attempted s"
      "as_toolCalls s \<le> as_toolCalls t" for t
    using s that same_calls[of t s] by (auto simp: calls_ok_def)
  show "calls_ok w [] [] (s\<lparr>as_clock := n\<rparr>) \<and> model_calls (s\<lparr>as_clock := n\<rparr>) = []" for n
    by (rule same) simp_all
  show "calls_ok w [] [] (s\<lparr>as_log := as_log s @ [e]\<rparr>) \<and> model_calls (s\<lparr>as_log := as_log s @ [e]\<rparr>) = []"
    if "quiet e" for e
    using s quiet_call[OF that] by (simp add: calls_ok_def)
  show "calls_ok w [] [] (s\<lparr>as_sequence := n\<rparr>) \<and> model_calls (s\<lparr>as_sequence := n\<rparr>) = []" for n
    by (rule same) simp_all
  show "calls_ok w [] [] (s\<lparr>as_log := as_log s @ [Executed ServerCall c], as_clock := n, as_registry := rg,
      as_toolCalls := Suc (as_toolCalls s)\<rparr>) \<and> model_calls (s\<lparr>as_log := as_log s @ [Executed ServerCall c],
      as_clock := n, as_registry := rg, as_toolCalls := Suc (as_toolCalls s)\<rparr>) = []" for c n rg
    using s by (simp add: calls_ok_def model_calls_def executions_def)
  show "calls_ok w [] [] (s\<lparr>as_toolCalls := Suc (as_toolCalls s)\<rparr>)
      \<and> model_calls (s\<lparr>as_toolCalls := Suc (as_toolCalls s)\<rparr>) = []"
    by (rule same) simp_all
  show "calls_ok w [] [] (s\<lparr>as_clock := n, as_registry := rg, as_modelRequests := k\<rparr>)
      \<and> model_calls (s\<lparr>as_clock := n, as_registry := rg, as_modelRequests := k\<rparr>) = []" for n rg k
    by (rule same) simp_all
  show "calls_ok w [] [] (s\<lparr>as_webSearched := x, as_links := l, as_webFailure := f\<rparr>)
      \<and> model_calls (s\<lparr>as_webSearched := x, as_links := l, as_webFailure := f\<rparr>) = []" for x l f
    by (rule same) simp_all
  show "calls_ok w [] [] (s\<lparr>as_blocked := as_blocked s @ ns\<rparr>) \<and> model_calls (s\<lparr>as_blocked := as_blocked s @ ns\<rparr>) = []"
    if "set ns \<subseteq> set blockable" for ns
    using s that by (simp add: calls_ok_def model_calls_def executions_def)
qed

lemma run_admits:
  "holds (\<lambda>s. s = initial_state) (run_agent w ag wording inp) (\<lambda>_. calls_ok w [] []) (calls_ok w [] [])"
proof (rule admitting.run_holds)
  show "holds (\<lambda>s. s = initial_state) (gather w ag inp) (\<lambda>_. calls_ok w [] []) (calls_ok w [] [])"
    by (rule holds_post[OF holds_pre[OF looking_up.gather_keeps[of w]]])
      (auto simp: calls_ok_def model_calls_def executions_def initial_state_def max_tool_calls_def)
qed

subsection \<open>What the server blocks stays blocked\<close>

definition blocks :: "js_string set \<Rightarrow> agent_state \<Rightarrow> bool" where
  "blocks B s \<longleftrightarrow> set (as_blocked s) \<subseteq> set blockable \<and> B \<subseteq> set (as_blocked s)"

interpretation blocking_calls: call_steps "blocks B" for B
  by unfold_locales (auto simp: blocks_def)

interpretation blocking: publishing_steps "blocks B" w for B w
proof unfold_locales
  show "blocks B (snd (executeToolCalls w ag calls s))" if "blocks B s" for ag calls s
    by (rule keepsD[OF blocking_calls.keeps_calls that])
qed (auto simp: blocks_def)

interpretation blocking_gather: gather_steps "blocks B" for B
  by unfold_locales (auto simp: blocks_def)

lemma run_blocks:
  assumes "shouldBlockArtifactCreation ag (ai_question inp) (ai_risk inp) (cr_parts (ai_run inp))"
  shows "holds (\<lambda>s. s = initial_state) (run_agent w ag wording inp) (\<lambda>_. blocks {create_artifact}) (blocks {create_artifact})"
proof (rule blocking.run_holds, unfold gather_def, rule holds_then[OF _ blocking_gather.look_up_keeps])
  show "holds (\<lambda>s. s = initial_state) (block_artifacts ag inp)
      (\<lambda>_ s. blocks {create_artifact} s \<and> as_toolCalls s < max_tool_calls) (blocks {create_artifact})"
    using assms by (simp add: holds_def block_artifacts_def block_names_def modifyA_def blocks_def initial_state_def
        blockable_def max_tool_calls_def)
qed

lemma holds_after: "holds (\<lambda>s. s = t) m (\<lambda>_. I) I \<Longrightarrow> I (snd (m t))"
  by (simp add: holds_def case_prod_beta split: sum.splits)

end
