(* ===== verification/Agent_Publication.thy ===== *)
theory Agent_Publication
  imports Agent_Admission Answer_Properties
begin

section \<open>What a run publishes\<close>

text \<open>
  A run is silent until its answer is stored: no block, citation or stored answer in its log. Then
  the log grows by the stored answer, its blocks and its citations, in that order, and the answer
  is one that the last validation accepted against what this run gathered.
\<close>

subsection \<open>Silence\<close>

definition silent :: "agent_state \<Rightarrow> bool" where
  "silent s \<longleftrightarrow> set (as_blocked s) \<subseteq> set blockable \<and> list_all (\<lambda>e. \<not> publication e) (as_log s)"

lemma quiet_publication: "quiet e \<Longrightarrow> \<not> publication e" by (cases e) auto

interpretation silent_calls: call_steps silent
  by unfold_locales (auto simp: silent_def dest: quiet_publication)

interpretation silent: run_steps silent w for w
proof unfold_locales
  show "silent (snd (executeToolCalls w ag calls s))" if "silent s" for ag calls s
    by (rule keepsD[OF silent_calls.keeps_calls that])
qed (auto simp: silent_def)

interpretation silent_gather: gather_steps silent
  by unfold_locales (auto simp: silent_def)

subsection \<open>The last validation\<close>

definition last_check :: "agent_rules \<Rightarrow> agent_input \<Rightarrow> agent_state \<Rightarrow> answer_v3 \<Rightarrow> validation_result" where
  "last_check ag inp s a =
     validateAnswerCandidate ag inp s (Some (answer_json a)) (minimumRequiredLinkCount ag s (ai_question inp))"

definition validated :: "agent_rules \<Rightarrow> agent_input \<Rightarrow> agent_state \<Rightarrow> answer_v3 \<Rightarrow> bool" where
  "validated ag inp s b \<longleftrightarrow> (\<exists>a. vr_valid (last_check ag inp s a) \<and> vr_answer (last_check ag inp s a) = Some b)"

text \<open>It reads the evidence, the calculations, the links and the artifacts of the run.\<close>

lemma validated_same:
  assumes "as_registry t = as_registry s" "as_calculations t = as_calculations s" "as_links t = as_links s"
    "as_artifacts t = as_artifacts s"
  shows "validated ag inp t b = validated ag inp s b"
  using assms by (simp add: validated_def last_check_def validateAnswerCandidate_def candidate_input_def known_evidence_def
      verified_evidence_def link_bindings_def forbidden_terms_def minimumRequiredLinkCount_def)

text \<open>What a validated answer refers to was gathered in this run.\<close>

definition gathered :: "agent_input \<Rightarrow> agent_state \<Rightarrow> answer_v3 \<Rightarrow> bool" where
  "gathered inp s a \<longleftrightarrow> (let refs = collectAnswerV3References a in
     an_risk a = ai_risk inp
     \<and> set (rf_evidenceIds refs) \<subseteq> re_id ` set (rg_entries (as_registry s))
     \<and> set (rf_linkIds refs) \<subseteq> vl_link ` set (as_links s)
     \<and> set (rf_artifactIds refs) \<subseteq> ax_id ` set (as_artifacts s)
     \<and> set (rf_calculationIds refs) \<subseteq> ca_id ` set (as_calculations s))"

lemma validated_gathered:
  assumes "validated ag inp s b"
  shows "gathered inp s b"
proof -
  from assms obtain a where valid: "vr_valid (last_check ag inp s a)" "vr_answer (last_check ag inp s a) = Some b"
    by (auto simp: validated_def)
  let ?in = "candidate_input ag inp s (Some (answer_json a)) (minimumRequiredLinkCount ag s (ai_question inp))"
  let ?refs = "collectAnswerV3References b"
  have none: "answer_errors (ag_text ag) ?in b = []"
    using valid unfolding last_check_def validateAnswerCandidate_def by (auto elim: validate_valid)
  have "risk_errors (ag_text ag) ?in b ?refs (ai_risk inp) = []"
    "validateKnownReferences (js_unique (rf_evidenceIds ?refs @ an_usedEvidenceIds b)) (vi_evidence ?in) SortEvidence = []"
    "validateKnownReferences (js_unique (rf_linkIds ?refs @ an_usedLinkIds b)) (vi_links ?in) SortLink = []"
    "validateKnownReferences (rf_artifactIds ?refs) (vi_artifacts ?in) SortArtifact = []"
    "validateKnownReferences (rf_calculationIds ?refs) (vi_calculations ?in) SortCalculation = []"
    using none unfolding answer_errors_def Let_def by (simp_all add: candidate_input_def split: if_splits)
  then show ?thesis
    unfolding gathered_def Let_def known_references_Nil
    by (auto simp: option_ok_def candidate_input_def known_evidence_def dest: risk_Nil)
qed

lemma final_holds:
  "holds silent (final_validation ag inp a) (\<lambda>b s. silent s \<and> validated ag inp s b) silent"
  unfolding final_validation_def
  by (rule holds_get) (auto simp: Let_def validated_def last_check_def intro!: holds_return holds_throw
      split: bool.split option.split)

subsection \<open>Storing and publishing\<close>

definition published :: "agent_world \<Rightarrow> agent_rules \<Rightarrow> agent_input \<Rightarrow> agent_result \<Rightarrow> agent_state \<Rightarrow> bool" where
  "published w ag inp r s \<longleftrightarrow>
     (\<exists>before ctx. let c = completion inp (ar_answer r) ctx (ar_incomplete r) s in
        as_log s = before @ Persisted c # publications (ar_answer r) (reg_citations (as_registry s) (cp_usedIds c))
        \<and> list_all (\<lambda>e. \<not> publication e) before
        \<and> (\<exists>t. complete (wd_platform w) c (wd_db w t) = Inr (ar_content r, ar_db r)))
     \<and> validated ag inp s (ar_answer r)"

lemma log_events: "mapA logA es s = (Inr (map (\<lambda>_. ()) es), s\<lparr>as_log := as_log s @ es\<rparr>)"
  by (induction es arbitrary: s) (simp_all add: returnA_def bindA_def logA_def modifyA_def)

lemma completion_log [simp]:
  "completion inp b ctx i (s\<lparr>as_clock := n, as_log := l\<rparr>) = completion inp b ctx i s"
  by (simp add: completion_def agent_counters_def Let_def)

lemma publish_holds:
  "holds (\<lambda>s. (silent s \<and> validated ag inp s b) \<and> completion inp b ctx i s = c) (persistAndPublishFinalAnswer w c)
     (published w ag inp) silent"
proof (rule holdsI)
  fix s e t
  assume "(silent s \<and> validated ag inp s b) \<and> completion inp b ctx i s = c"
    and "persistAndPublishFinalAnswer w c s = (Inl e, t)"
  then show "silent t"
    by (auto simp: persistAndPublishFinalAnswer_def bindA_def thenA_def askA_def logA_def[of "Persisted c"] modifyA_def
        throwA_def returnA_def log_events silent_def split: sum.splits)
next
  fix s r t
  assume s: "(silent s \<and> validated ag inp s b) \<and> completion inp b ctx i s = c"
    and run: "persistAndPublishFinalAnswer w c s = (Inr r, t)"
  let ?n = "as_clock s"
  obtain content db where stored: "complete (wd_platform w) c (wd_db w ?n) = Inr (content, db)"
    using run by (auto simp: persistAndPublishFinalAnswer_def bindA_def askA_def throwA_def split: sum.splits)
  let ?log = "(as_log s @ [Persisted c]) @ publications (cp_answer c) (reg_citations (cp_evidence c) (cp_usedIds c))"
  have r: "r = \<lparr>ar_answer = cp_answer c, ar_content = content, ar_incomplete = cp_incomplete c, ar_db = db\<rparr>"
    and t: "t = s\<lparr>as_clock := ?n + 1, as_log := ?log\<rparr>"
    using run stored by (simp_all add: persistAndPublishFinalAnswer_def bindA_def thenA_def askA_def
        logA_def[of "Persisted c"] modifyA_def returnA_def log_events)
  have c: "cp_answer c = b" "cp_incomplete c = i" "cp_evidence c = as_registry s"
    using s by (auto simp: completion_def Let_def)
  have "completion inp (ar_answer r) ctx (ar_incomplete r) t = c"
    using s c unfolding r t by simp
  moreover have "validated ag inp t b = validated ag inp s b" unfolding t by (rule validated_same) simp_all
  ultimately show "published w ag inp r t"
    unfolding published_def Let_def using s stored
    by (intro conjI exI[of _ "as_log s"] exI[of _ ctx]) (auto simp: r t c silent_def)
qed

lemma finish_holds: "holds silent (finish_run w ag wording inp ctx e) (published w ag inp) silent"
proof -
  obtain out i p where e: "e = (out, i, p)" by (cases e)
  have saving: "holds (\<lambda>s. silent s \<and> validated ag inp s b) (stage StageSaving) (\<lambda>_ s. silent s \<and> validated ag inp s b) silent" for b
    by (auto simp: holds_def stage_def logA_def modifyA_def silent_def
        validated_same[of "s\<lparr>as_log := l\<rparr>" s for s l])
  show ?thesis unfolding finish_run_def e prod.case
    by (rule holds_then[OF holds_keeps[OF silent_calls.keeps_stage]],
        rule holds_bind[OF holds_keeps[OF silent.keeps_validate]],
        rule holds_bind[OF holds_keeps[OF silent.keeps_resolve]],
        rule holds_bind[OF final_holds], rule holds_then[OF saving], rule holds_get, rule publish_holds)
qed

lemma run_published:
  "holds (\<lambda>s. s = initial_state) (run_agent w ag wording inp)
     (\<lambda>x s. case x of None \<Rightarrow> True | Some r \<Rightarrow> published w ag inp r s) silent"
  unfolding run_agent_def
proof (rule holds_then)
  show "holds (\<lambda>s. s = initial_state) (gather w ag inp) (\<lambda>_. silent) silent"
    by (rule holds_pre[OF silent_gather.gather_keeps])
      (simp add: silent_def initial_state_def max_tool_calls_def)
  show "holds silent (thenA (stage StageReasoning) (bindA (bindA (askA (wd_context w)) (\<lambda>f. bindA (getA (\<lambda>s. f (as_registry s))) liftA))
      (\<lambda>ctx. bindA (agent_loop loop_fuel w ag inp (fst ctx)
          \<lparr>lv_input = fst ctx, lv_toolFree = False, lv_projected = None\<rparr>) (\<lambda>e. case e of None \<Rightarrow> returnA None
      | Some x \<Rightarrow> bindA (finish_run w ag wording inp ctx x) (\<lambda>r. returnA (Some r))))))
     (\<lambda>x s. case x of None \<Rightarrow> True | Some r \<Rightarrow> published w ag inp r s) silent"
  proof (rule holds_then[OF holds_keeps[OF silent_calls.keeps_stage]], rule holds_bind[OF holds_keeps[OF silent.keeps_context]],
      rule holds_bind[OF holds_keeps[OF silent.keeps_loop]])
    fix ctx e
    show "holds silent (case e of None \<Rightarrow> returnA None
        | Some x \<Rightarrow> bindA (finish_run w ag wording inp ctx x) (\<lambda>r. returnA (Some r)))
       (\<lambda>x s. case x of None \<Rightarrow> True | Some r \<Rightarrow> published w ag inp r s) silent"
      by (cases e) (auto intro!: holds_return holds_bind[OF finish_holds])
  qed
qed

end
