(* ===== verification/Agent_Properties.thy ===== *)
theory Agent_Properties
  imports Agent_Publication
begin

section \<open>Properties of agent runs\<close>

text \<open>
  What holds of every run of the orchestrator, whatever the model, the tools, the web and the
  database answer: its bounds, the calls it executes, and what it publishes.
\<close>

lemma holds_run: "holds (\<lambda>s. s = t) m Q E \<Longrightarrow> (case m t of (Inl e, s) \<Rightarrow> E s | (Inr x, s) \<Rightarrow> Q x s)"
  by (simp add: holds_def)

text \<open>
  C13. Every run ends, in an answer or an error, within the turns the loop can take, and within its
  bounds: at most six requests to the model, eight tool calls, one repair of an answer and one of the
  arguments of an artifact. Every request the run sends is counted.
\<close>

theorem agent_run_ends_within_bounds:
  "case run_agent w ag wording inp initial_state of (outcome, s) \<Rightarrow>
     outcome \<noteq> Inr None
     \<and> length (filter is_request (as_log s)) \<le> as_modelRequests s \<and> as_modelRequests s \<le> 6
     \<and> as_toolCalls s \<le> 8 \<and> as_repairs s \<le> 1 \<and> as_artifactRepairs s \<le> 1"
proof -
  have "holds (\<lambda>s. s = initial_state) (run_agent w ag wording inp) (\<lambda>r s. r \<noteq> None \<and> within 0 s) (within 0)"
    by (rule holds_pre[OF run_ends]) (simp add: initial_within)
  note ends = holds_run[OF this]
  obtain out s where run: "run_agent w ag wording inp initial_state = (out, s)" by fastforce
  show ?thesis
    using ends unfolding run by (cases out) (auto simp: within_def max_model_requests_def max_tool_calls_def)
qed

text \<open>
  C12. The calls a run executes for the model are distinct, each names a tool that is offered (or the
  calculation the server forces) and that the server did not block, at most one of them creates an
  artifact, and none does when the server refuses artifacts for the question. No tool runs uncounted.
\<close>

theorem agent_run_executes_admitted_calls:
  "case run_agent w ag wording inp initial_state of (outcome, s) \<Rightarrow>
     distinct (map fc_id (model_calls s))
     \<and> list_all (\<lambda>c. permitted w s (fc_name c)) (model_calls s)
     \<and> artifact_calls (model_calls s)
         \<le> (if shouldBlockArtifactCreation ag (ai_question inp) (ai_risk inp) (cr_parts (ai_run inp)) then 0 else 1)
     \<and> executions s \<le> as_toolCalls s"
proof -
  let ?s = "snd (run_agent w ag wording inp initial_state)"
  have ok: "calls_ok w [] [] ?s" by (rule holds_after[OF run_admits])
  have "artifact_calls (model_calls ?s) = 0"
    if "shouldBlockArtifactCreation ag (ai_question inp) (ai_risk inp) (cr_parts (ai_run inp))"
  proof -
    have "blocks {create_artifact} ?s" by (rule holds_after[OF run_blocks[OF that]])
    with ok show ?thesis
      by (auto simp: calls_ok_def blocks_def permitted_def artifact_calls_def filter_empty_conv)
  qed
  with ok show ?thesis by (auto simp: calls_ok_def list_all_iff case_prod_beta)
qed

text \<open>
  C4. A run publishes only what it has stored and stores only what it has validated. A run that
  ends in an error has stored and published nothing. A run that ends in an answer has logged nothing
  of it before its transaction succeeded, and after it exactly the blocks of the stored answer and
  its citations, in order; that answer has the risk of the question and refers only to evidence,
  links, artifacts and calculations gathered in this run.
\<close>

theorem agent_run_publishes_stored_answer:
  "case run_agent w ag wording inp initial_state of
     (Inl e, s) \<Rightarrow> list_all (\<lambda>e. \<not> publication e) (as_log s)
   | (Inr None, s) \<Rightarrow> False
   | (Inr (Some r), s) \<Rightarrow> gathered inp s (ar_answer r)
       \<and> (\<exists>before ctx t. let c = completion inp (ar_answer r) ctx (ar_incomplete r) s in
            as_log s = before @ Persisted c # publications (ar_answer r) (reg_citations (as_registry s) (cp_usedIds c))
            \<and> list_all (\<lambda>e. \<not> publication e) before
            \<and> complete (wd_platform w) c (wd_db w t) = Inr (ar_content r, ar_db r))"
proof -
  have "holds (\<lambda>s. s = initial_state) (run_agent w ag wording inp) (\<lambda>r s. r \<noteq> None \<and> within 0 s) (within 0)"
    by (rule holds_pre[OF run_ends]) (simp add: initial_within)
  note ends = holds_run[OF this]
  obtain out s where run: "run_agent w ag wording inp initial_state = (out, s)" by fastforce
  show ?thesis
  proof (cases out)
    case (Inl e)
    with holds_run[OF run_published[of w ag wording inp]] run show ?thesis by (simp add: silent_def)
  next
    case (Inr x)
    with ends run obtain r where r: "x = Some r" by auto
    with holds_run[OF run_published[of w ag wording inp]] run Inr have "published w ag inp r s" by simp
    then show ?thesis
      unfolding published_def Let_def by (auto simp: run Inr r dest: validated_gathered)
  qed
qed

end
