(* ===== verification/Chat_Stream.thy ===== *)
theory Chat_Stream
  imports App_State Evidence
begin

section \<open>The event stream of a chat\<close>

text \<open>
  \<open>parseChatEventStream\<close> of \<open>src/lib/sse.ts\<close>: the browser's reading of the server's events. The
  chunks are what the streaming decoder of UTF-8 returns for each read, the last one for the end of
  the stream. \<open>JSON.parse\<close> is a parameter; \<open>None\<close> is its \<open>SyntaxError\<close>. A generator that throws has
  yielded what it yielded before: the result is the events and the error, if any.
\<close>

subsection \<open>Lines and blocks\<close>

text \<open>\<open>replace(/\r\n/g, "\n")\<close>.\<close>

fun lf :: "js_string \<Rightarrow> js_string" where
  "lf [] = []"
| "lf [c] = [c]"
| "lf (c # d # s) = (if c = 13 \<and> d = 10 then 10 # lf s else c # lf (d # s))"

text \<open>The text before the first empty line and the text after it.\<close>

fun boundary :: "js_string \<Rightarrow> (js_string \<times> js_string) option" where
  "boundary [] = None"
| "boundary [c] = None"
| "boundary (c # d # s) =
     (if c = 10 \<and> d = 10 then Some ([], s)
      else case boundary (d # s) of None \<Rightarrow> None | Some (b, r) \<Rightarrow> Some (c # b, r))"

definition data_of :: "js_string \<Rightarrow> js_string" where
  "data_of block = js_join [10] (map (\<lambda>l. trimStart (drop 5 l))
     (filter (\<lambda>l. js_startsWith l (js ''data:'')) (js_split 10 block)))"

subsection \<open>One event\<close>

datatype stream_error = NoBody | SyntaxFailure | TypeFailure | MixedProtocol | RepeatedTerminal
  | DataAfterTerminal | Truncated

datatype stream_protocol = ProtocolOne | ProtocolTwo

record stream_state =
  ss_complete :: bool
  ss_protocol :: "stream_protocol option"
  ss_last :: int

definition stream_start :: stream_state where
  "stream_start = \<lparr>ss_complete = False, ss_protocol = None, ss_last = 0\<rparr>"

definition is_v2 :: "json \<Rightarrow> bool" where
  "is_v2 e \<longleftrightarrow> json_get ''runId'' e \<noteq> None \<and> json_get ''sequence'' e \<noteq> None"

definition terminal_types :: "js_string list" where
  "terminal_types = [js ''complete'', js ''run.completed'', js ''run.cancelled'', js ''run.failed'']"

definition is_terminal :: "json \<Rightarrow> bool" where
  "is_terminal e \<longleftrightarrow> (case json_get ''type'' e of Some (JString t) \<Rightarrow> t \<in> set terminal_types | _ \<Rightarrow> False)"

text \<open>The sequence number of an event, when it is a safe integer.\<close>

definition sequence_of :: "json \<Rightarrow> int option" where
  "sequence_of e = (case json_get ''sequence'' e of
     Some (JNumber n) \<Rightarrow> if is_safe_integer n then Some n else None | _ \<Rightarrow> None)"

definition fresh_event :: "int \<Rightarrow> json \<Rightarrow> bool" where
  "fresh_event n e \<longleftrightarrow> (case sequence_of e of Some k \<Rightarrow> n < k | None \<Rightarrow> False)"

definition protocol_of :: "json \<Rightarrow> stream_protocol" where
  "protocol_of e = (if is_v2 e then ProtocolTwo else ProtocolOne)"

definition first_protocol :: "json \<Rightarrow> stream_state \<Rightarrow> stream_protocol" where
  "first_protocol e st = (case ss_protocol st of None \<Rightarrow> protocol_of e | Some p \<Rightarrow> p)"

definition yield_event :: "json \<Rightarrow> stream_state \<Rightarrow> (stream_error, json list \<times> stream_state) result" where
  "yield_event e st =
     (if is_terminal e then
        if ss_complete st then Inl RepeatedTerminal else Inr ([e], st\<lparr>ss_complete := True\<rparr>)
      else if ss_complete st then Inl DataAfterTerminal else Inr ([e], st))"

text \<open>\<open>"runId" in event\<close> throws for what is not an object.\<close>

definition primitive :: "json \<Rightarrow> bool" where
  "primitive e = (case e of JObject _ \<Rightarrow> False | JArray _ \<Rightarrow> False | _ \<Rightarrow> True)"

definition take_event :: "json \<Rightarrow> stream_state \<Rightarrow> (stream_error, json list \<times> stream_state) result" where
  "take_event e st0 =
     (if primitive e then Inl TypeFailure
      else let st = st0\<lparr>ss_protocol := Some (first_protocol e st0)\<rparr> in
        if first_protocol e st0 \<noteq> protocol_of e then Inl MixedProtocol
        else if \<not> is_v2 e then yield_event e st
        else if \<not> fresh_event (ss_last st) e then Inr ([], st)
        else yield_event e (st\<lparr>ss_last := the (sequence_of e)\<rparr>))"

definition take_block :: "(js_string \<Rightarrow> json option) \<Rightarrow> js_string \<Rightarrow> stream_state \<Rightarrow>
   (stream_error, json list \<times> stream_state) result" where
  "take_block parse block st =
     (let d = data_of block in
      if d = [] \<or> d = js ''[DONE]'' then Inr ([], st)
      else case parse d of None \<Rightarrow> Inl SyntaxFailure | Some e \<Rightarrow> take_event e st)"

subsection \<open>The stream\<close>

lemma boundary_shorter: "boundary s = Some (b, r) \<Longrightarrow> length r < length s"
  by (induction s arbitrary: b rule: boundary.induct) (auto split: if_splits option.splits)

function drain :: "(js_string \<Rightarrow> json option) \<Rightarrow> js_string \<Rightarrow> stream_state \<Rightarrow>
   json list \<times> (stream_error, js_string \<times> stream_state) result" where
  "drain parse buffer st = (case boundary buffer of
     None \<Rightarrow> ([], Inr (buffer, st))
   | Some (block, rest) \<Rightarrow> (case take_block parse block st of
       Inl e \<Rightarrow> ([], Inl e)
     | Inr (es, st1) \<Rightarrow> (case drain parse rest st1 of (fs, r) \<Rightarrow> (es @ fs, r))))"
  by pat_completeness auto

termination
  by (relation "measure (\<lambda>(parse, buffer, st). length buffer)") (auto dest: boundary_shorter)

declare drain.simps [simp del]

definition at_end :: "stream_state \<Rightarrow> stream_error option" where
  "at_end st = (if ss_complete st then None else Some Truncated)"

fun read_chunks :: "(js_string \<Rightarrow> json option) \<Rightarrow> js_string list \<Rightarrow> js_string \<Rightarrow> stream_state \<Rightarrow>
   json list \<times> stream_error option" where
  "read_chunks parse [] buffer st = ([], at_end st)"
| "read_chunks parse (c # cs) buffer st = (case drain parse (buffer @ lf c) st of
     (es, Inl e) \<Rightarrow> (es, Some e)
   | (es, Inr (buffer1, st1)) \<Rightarrow> (case read_chunks parse cs buffer1 st1 of (fs, e) \<Rightarrow> (es @ fs, e)))"

definition parseChatEventStream :: "(js_string \<Rightarrow> json option) \<Rightarrow> js_string list option \<Rightarrow>
   json list \<times> stream_error option" where
  "parseChatEventStream parse body = (case body of
     None \<Rightarrow> ([], Some NoBody) | Some chunks \<Rightarrow> read_chunks parse chunks [] stream_start)"

subsection \<open>The whole text\<close>

text \<open>The reference: the blocks of the whole text, one after the other.\<close>

function blocks_of :: "js_string \<Rightarrow> js_string list" where
  "blocks_of s = (case boundary s of None \<Rightarrow> [] | Some (b, r) \<Rightarrow> b # blocks_of r)"
  by pat_completeness auto

termination
  by (relation "measure length") (auto dest: boundary_shorter)

declare blocks_of.simps [simp del]

function rest_of :: "js_string \<Rightarrow> js_string" where
  "rest_of s = (case boundary s of None \<Rightarrow> s | Some (b, r) \<Rightarrow> rest_of r)"
  by pat_completeness auto

termination
  by (relation "measure length") (auto dest: boundary_shorter)

declare rest_of.simps [simp del]

fun take_blocks :: "(js_string \<Rightarrow> json option) \<Rightarrow> js_string list \<Rightarrow> stream_state \<Rightarrow>
   json list \<times> (stream_error, stream_state) result" where
  "take_blocks parse [] st = ([], Inr st)"
| "take_blocks parse (b # bs) st = (case take_block parse b st of
     Inl e \<Rightarrow> ([], Inl e)
   | Inr (es, st1) \<Rightarrow> (case take_blocks parse bs st1 of (fs, r) \<Rightarrow> (es @ fs, r)))"

definition ended :: "json list \<times> (stream_error, stream_state) result \<Rightarrow> json list \<times> stream_error option" where
  "ended x = (case x of (es, Inl e) \<Rightarrow> (es, Some e) | (es, Inr st) \<Rightarrow> (es, at_end st))"

definition parse_text :: "(js_string \<Rightarrow> json option) \<Rightarrow> js_string \<Rightarrow> json list \<times> stream_error option" where
  "parse_text parse text = ended (take_blocks parse (blocks_of (lf text)) stream_start)"

lemma boundary_append: "boundary s = Some (b, r) \<Longrightarrow> boundary (s @ t) = Some (b, r @ t)"
  by (induction s arbitrary: b rule: boundary.induct) (auto split: if_splits option.splits)

lemma blocks_append: "blocks_of (s @ t) = blocks_of s @ blocks_of (rest_of s @ t)"
proof (induction s rule: rest_of.induct)
  case (1 s)
  show ?case
  proof (cases "boundary s")
    case None
    then show ?thesis by (simp add: blocks_of.simps[of s] rest_of.simps[of s])
  next
    case (Some x)
    obtain b r where x: "x = (b, r)" by (cases x)
    have "blocks_of (s @ t) = b # blocks_of (r @ t)"
      using boundary_append[OF Some[unfolded x]] by (simp add: blocks_of.simps[of "s @ t"])
    also have "\<dots> = b # blocks_of r @ blocks_of (rest_of r @ t)" using 1[OF Some x[symmetric]] by simp
    finally show ?thesis using Some x by (simp add: blocks_of.simps[of s] rest_of.simps[of s])
  qed
qed

lemma rest_boundary: "boundary (rest_of s) = None"
  by (induction s rule: rest_of.induct) (subst rest_of.simps, auto split: option.splits)

lemma drain_blocks: "drain parse s st = (case take_blocks parse (blocks_of s) st of
    (es, Inl e) \<Rightarrow> (es, Inl e) | (es, Inr st1) \<Rightarrow> (es, Inr (rest_of s, st1)))"
proof (induction parse s st rule: drain.induct)
  case (1 parse s st)
  show ?case
  proof (cases "boundary s")
    case None
    then show ?thesis by (simp add: drain.simps[of parse s] blocks_of.simps[of s] rest_of.simps[of s])
  next
    case (Some x)
    obtain b r where x: "x = (b, r)" by (cases x)
    show ?thesis
    proof (cases "take_block parse b st")
      case (Inl e)
      then show ?thesis using Some x by (simp add: drain.simps[of parse s] blocks_of.simps[of s])
    next
      case (Inr y)
      obtain es st1 where y: "y = (es, st1)" by (cases y)
      have "drain parse r st1 = (case take_blocks parse (blocks_of r) st1 of
          (es, Inl e) \<Rightarrow> (es, Inl e) | (es, Inr st1) \<Rightarrow> (es, Inr (rest_of r, st1)))"
        by (rule 1[OF Some x[symmetric] Inr y[symmetric]])
      then show ?thesis using Some x Inr y
        by (simp add: drain.simps[of parse s] blocks_of.simps[of s] rest_of.simps[of s] split: prod.split sum.split)
    qed
  qed
qed

lemma take_blocks_append: "take_blocks parse (bs @ cs) st = (case take_blocks parse bs st of
    (es, Inl e) \<Rightarrow> (es, Inl e)
  | (es, Inr st1) \<Rightarrow> (case take_blocks parse cs st1 of (fs, r) \<Rightarrow> (es @ fs, r)))"
  by (induction bs arbitrary: st) (auto split: prod.splits sum.splits)

lemma blocks_none: "boundary s = None \<Longrightarrow> blocks_of s = [] \<and> rest_of s = s"
  by (simp add: blocks_of.simps[of s] rest_of.simps[of s])

lemma read_chunks_blocks:
  "boundary buffer = None \<Longrightarrow>
   read_chunks parse cs buffer st = ended (take_blocks parse (blocks_of (buffer @ concat (map lf cs))) st)"
proof (induction cs arbitrary: buffer st)
  case Nil
  then show ?case by (simp add: blocks_none ended_def)
next
  case (Cons c cs)
  let ?s = "buffer @ lf c"
  have split: "blocks_of (buffer @ concat (map lf (c # cs)))
      = blocks_of ?s @ blocks_of (rest_of ?s @ concat (map lf cs))"
    using blocks_append[of ?s "concat (map lf cs)"] by simp
  obtain es r where r: "take_blocks parse (blocks_of ?s) st = (es, r)" by fastforce
  show ?case
  proof (cases r)
    case (Inl e)
    then show ?thesis unfolding split by (simp add: drain_blocks r take_blocks_append ended_def)
  next
    case (Inr st1)
    have "read_chunks parse cs (rest_of ?s) st1
        = ended (take_blocks parse (blocks_of (rest_of ?s @ concat (map lf cs))) st1)"
      by (rule Cons.IH[OF rest_boundary])
    then show ?thesis unfolding split
      by (auto simp: drain_blocks r Inr take_blocks_append ended_def split: prod.splits sum.splits)
  qed
qed

subsection \<open>Line breaks across chunks\<close>

text \<open>No CR LF pair lies across the end of a chunk.\<close>

fun whole_breaks :: "js_string list \<Rightarrow> bool" where
  "whole_breaks [] \<longleftrightarrow> True"
| "whole_breaks (c # cs) \<longleftrightarrow>
     (c = [] \<or> last c \<noteq> 13 \<or> concat cs = [] \<or> hd (concat cs) \<noteq> 10) \<and> whole_breaks cs"

lemma lf_append: "s = [] \<or> last s \<noteq> 13 \<or> t = [] \<or> hd t \<noteq> 10 \<Longrightarrow> lf (s @ t) = lf s @ lf t"
proof (induction s rule: lf.induct)
  case (2 c)
  then show ?case by (cases t) auto
qed (auto split: if_splits)

lemma lf_chunks: "whole_breaks cs \<Longrightarrow> lf (concat cs) = concat (map lf cs)"
  by (induction cs) (auto simp: lf_append)

subsection \<open>What the stream yields\<close>

definition numbered :: "int \<Rightarrow> json \<Rightarrow> bool" where
  "numbered n e \<longleftrightarrow> (case sequence_of e of Some k \<Rightarrow> 0 < k \<and> k \<le> n | None \<Rightarrow> False)"

lemma numbered_mono: "numbered m e \<Longrightarrow> m \<le> n \<Longrightarrow> numbered n e"
  by (auto simp: numbered_def split: option.splits)

lemma numbered_le: "numbered n e \<Longrightarrow> the (sequence_of e) \<le> n"
  by (auto simp: numbered_def split: option.splits)

definition yielded :: "json list \<Rightarrow> stream_state \<Rightarrow> bool" where
  "yielded es st \<longleftrightarrow> sorted_wrt (<) (map (the \<circ> sequence_of) (filter is_v2 es))
     \<and> list_all (\<lambda>e. ss_protocol st = Some (protocol_of e)) es
     \<and> list_all (numbered (ss_last st)) (filter is_v2 es) \<and> 0 \<le> ss_last st
     \<and> (if ss_complete st then es \<noteq> [] \<and> list_all (\<lambda>e. \<not> is_terminal e) (butlast es) \<and> is_terminal (last es)
        else list_all (\<lambda>e. \<not> is_terminal e) es)"

lemma yielded_start: "yielded [] stream_start"
  by (simp add: yielded_def stream_start_def)

lemma take_event_yields:
  assumes "yielded es st" "take_event e st = Inr (fs, st1)"
  shows "yielded (es @ fs) st1"
proof -
  let ?st = "st\<lparr>ss_protocol := Some (first_protocol e st)\<rparr>"
  have protocol: "list_all (\<lambda>x. Some (first_protocol e st) = Some (protocol_of x)) es"
    using assms(1) by (cases es) (auto simp: yielded_def first_protocol_def list_all_iff)
  have same: "first_protocol e st = protocol_of e"
    using assms(2) by (auto simp: take_event_def Let_def split: if_splits)
  have kept: "yielded es ?st" using assms(1) protocol by (simp add: yielded_def)
  consider (old) "fs = []" "st1 = ?st"
    | (one) "\<not> is_v2 e" "yield_event e ?st = Inr (fs, st1)"
    | (two) "is_v2 e" "fresh_event (ss_last st) e" "yield_event e (?st\<lparr>ss_last := the (sequence_of e)\<rparr>) = Inr (fs, st1)"
    using assms(2) by (auto simp: take_event_def Let_def split: if_splits)
  then show ?thesis
  proof cases
    case old
    with kept show ?thesis by simp
  next
    case one
    with kept same show ?thesis
      by (auto simp: yielded_def yield_event_def split: if_splits)
  next
    case two
    then obtain k where k: "sequence_of e = Some k" "ss_last st < k"
      by (auto simp: fresh_event_def split: option.splits)
    have below: "the (sequence_of x) < k" if "x \<in> set es" "is_v2 x" for x
      using assms(1) that k(2) numbered_le[of "ss_last st" x] by (simp add: yielded_def list_all_iff)
    have wider: "list_all (numbered k) (filter is_v2 es)"
      using assms(1) k(2) numbered_mono[of "ss_last st" _ k] by (simp add: yielded_def list_all_iff)
    have zero: "0 < k" using assms(1) k(2) by (simp add: yielded_def)
    show ?thesis
      using kept same two(1,3) k below wider zero
      by (auto simp: yielded_def yield_event_def sorted_wrt_append numbered_def[of k e] split: if_splits)
  qed
qed

lemma take_block_yields:
  "yielded es st \<Longrightarrow> take_block parse b st = Inr (fs, st1) \<Longrightarrow> yielded (es @ fs) st1"
  by (auto simp: take_block_def Let_def dest: take_event_yields split: if_splits option.splits)

lemma take_blocks_yield:
  "yielded es st \<Longrightarrow> case take_blocks parse bs st of
     (fs, Inr st1) \<Rightarrow> yielded (es @ fs) st1 | (fs, Inl _) \<Rightarrow> \<exists>st1. yielded (es @ fs) st1"
proof (induction bs arbitrary: es st)
  case (Cons b bs)
  show ?case
  proof (cases "take_block parse b st")
    case (Inr y)
    obtain gs st1 where y: "y = (gs, st1)" by (cases y)
    from Cons.IH[OF take_block_yields[OF Cons.prems Inr[unfolded y]]] show ?thesis
      by (auto simp: Inr y split: prod.splits sum.splits)
  qed (use Cons.prems in auto)
qed auto

end
