(* ===== verification/Chat_Properties.thy ===== *)
theory Chat_Properties
  imports Chat_Stream
begin

section \<open>Properties of the event stream\<close>

text \<open>
  C39. The incremental parser is equivalent to a parser of the whole text: however the network cuts the
  stream into chunks, even inside a line or between the two line feeds that end an event, the
  events and the error are those of the text read at once, as long as no CR LF pair is cut in two.
\<close>

theorem chunking_is_irrelevant:
  assumes "whole_breaks chunks"
  shows "parseChatEventStream parse (Some chunks) = parse_text parse (concat chunks)"
  using read_chunks_blocks[of "[]" parse chunks stream_start]
  by (simp add: parseChatEventStream_def parse_text_def lf_chunks[OF assms])

lemmas stream_eval = parse_text_def ended_def at_end_def take_block_def take_event_def yield_event_def data_of_def
  blocks_of.simps drain.simps Let_def stream_start_def primitive_def is_v2_def is_terminal_def terminal_types_def
  first_protocol_def protocol_of_def json_get_def js_startsWith_def trimStart_def js_white_def
  parseChatEventStream_def js_def

definition demo_event :: json where
  "demo_event = JObject [(''type'', JString (js ''complete''))]"

definition demo_parse :: "js_string \<Rightarrow> json option" where
  "demo_parse d = (if d = js ''x'' then Some demo_event else None)"

lemma chunking_is_irrelevant_witness:
  "parseChatEventStream demo_parse (Some [js ''data:'', js '' x'', [13, 10], [13, 10]]) = ([demo_event], None)"
proof -
  have "whole_breaks [js ''data:'', js '' x'', [13, 10], [13, 10]]" by (simp add: js_def)
  from chunking_is_irrelevant[OF this, of demo_parse] show ?thesis
    by (simp add: stream_eval demo_parse_def demo_event_def)
qed

text \<open>A CR LF pair that is cut in two is lost: the same text yields nothing and ends in an error.\<close>

lemma cut_line_break_loses_event:
  "parse_text demo_parse (concat [js ''data: x'' @ [13, 10, 13], [10]]) = ([demo_event], None)"
  "parseChatEventStream demo_parse (Some [js ''data: x'' @ [13, 10, 13], [10]]) = ([], Some Truncated)"
  by (simp_all add: stream_eval demo_parse_def demo_event_def)

text \<open>
  C40. What a consumer sees of a stream, whatever it contains: the events are all of one protocol, their
  sequence numbers increase strictly, none but the last is terminal, and a stream that ends without
  an error has yielded its terminal event.
\<close>

theorem stream_yields_ordered_events:
  "case parseChatEventStream parse body of (es, failure) \<Rightarrow>
     (list_all is_v2 es \<or> list_all (\<lambda>e. \<not> is_v2 e) es)
     \<and> sorted_wrt (<) (map (the \<circ> sequence_of) (filter is_v2 es))
     \<and> list_all (\<lambda>e. \<not> is_terminal e) (butlast es)
     \<and> (case failure of None \<Rightarrow> es \<noteq> [] \<and> is_terminal (last es) | Some _ \<Rightarrow> True)"
proof (cases body)
  case None
  then show ?thesis by (simp add: parseChatEventStream_def)
next
  case (Some chunks)
  have shape: "(list_all is_v2 es \<or> list_all (\<lambda>e. \<not> is_v2 e) es)
     \<and> sorted_wrt (<) (map (the \<circ> sequence_of) (filter is_v2 es)) \<and> list_all (\<lambda>e. \<not> is_terminal e) (butlast es)
     \<and> (ss_complete st \<longrightarrow> es \<noteq> [] \<and> is_terminal (last es))" if y: "yielded es st" for es st
  proof -
    have "list_all is_v2 es \<or> list_all (\<lambda>e. \<not> is_v2 e) es"
      using y by (cases "ss_protocol st = Some ProtocolTwo")
        (auto simp: yielded_def protocol_of_def list_all_iff split: if_splits)
    moreover have "list_all (\<lambda>e. \<not> is_terminal e) (butlast es)"
      using y by (auto simp: yielded_def list_all_iff dest: in_set_butlastD split: if_splits)
    ultimately show ?thesis using y by (auto simp: yielded_def split: if_splits)
  qed
  obtain es r where r: "take_blocks parse (blocks_of (concat (map lf chunks))) stream_start = (es, r)" by fastforce
  have run: "parseChatEventStream parse body = ended (es, r)"
    using read_chunks_blocks[of "[]" parse chunks stream_start] r by (simp add: parseChatEventStream_def Some)
  show ?thesis
    using take_blocks_yield[OF yielded_start, of parse "blocks_of (concat (map lf chunks))"] unfolding run r
    by (cases r) (auto simp: ended_def at_end_def dest!: shape)
qed

end
