(* ===== verification/Safe_Fetch.thy ===== *)
theory Safe_Fetch
  imports Public_Url Evidence
begin

section \<open>Fetching a page from the web\<close>

text \<open>
  \<open>SafeWebFetcher\<close> of \<open>src/server/knowledge/web-fetch.ts\<close>, with \<open>normalizeDomain\<close> and
  \<open>hostnameAllowed\<close> of \<open>src/server/providers/runtime.ts\<close>: the only way the server reads a page a
  model has named. The outside (the URL parser, DNS, the HTTPS client, the deadline, \<open>isIP\<close> and
  \<open>Number\<close>) is the record \<open>fetch_world\<close>; its answers depend on the number of redirects followed, so
  that nothing is assumed of two answers. A page stays its bytes. A fetch returns its outcome and the connections it
  opened: each is a URL and the address the connection is pinned to.
\<close>

subsection \<open>Addresses\<close>

definition octet :: "int \<Rightarrow> bool" where
  "octet n \<longleftrightarrow> 0 \<le> n \<and> n \<le> 255"

text \<open>\<open>ipv4ToNumber\<close> after \<open>split(".").map(Number)\<close>; an octet that is not an integer is \<open>None\<close>.\<close>

definition ipv4_value :: "int option list \<Rightarrow> nat option" where
  "ipv4_value octets = (case those octets of
     Some [a, b, c, d] \<Rightarrow>
       if octet a \<and> octet b \<and> octet c \<and> octet d
       then Some (nat ((a * 2 ^ 24 + b * 2 ^ 16 + c * 2 ^ 8 + d) mod 2 ^ 32)) else None
   | _ \<Rightarrow> None)"

definition ipv4ToNumber :: "url_rules \<Rightarrow> js_string \<Rightarrow> nat option" where
  "ipv4ToNumber ur address = ipv4_value (map (ur_number ur) (js_split 46 address))"

definition inIpv4Cidr :: "nat \<Rightarrow> nat \<Rightarrow> nat \<Rightarrow> bool" where
  "inIpv4Cidr v base prefix \<longleftrightarrow> v div 2 ^ (32 - prefix) = base div 2 ^ (32 - prefix)"

definition ip4 :: "nat \<Rightarrow> nat \<Rightarrow> nat \<Rightarrow> nat \<Rightarrow> nat" where
  "ip4 a b c d = a * 2 ^ 24 + b * 2 ^ 16 + c * 2 ^ 8 + d"

definition ipv4_blocks :: "(nat \<times> nat) list" where
  "ipv4_blocks = [(ip4 0 0 0 0, 8), (ip4 10 0 0 0, 8), (ip4 100 64 0 0, 10), (ip4 127 0 0 0, 8), (ip4 169 254 0 0, 16),
     (ip4 172 16 0 0, 12), (ip4 192 0 0 0, 24), (ip4 192 0 2 0, 24), (ip4 192 88 99 0, 24), (ip4 192 168 0 0, 16),
     (ip4 198 18 0 0, 15), (ip4 198 51 100 0, 24), (ip4 203 0 113 0, 24), (ip4 224 0 0 0, 3)]"

definition public_ipv4 :: "nat \<Rightarrow> bool" where
  "public_ipv4 v \<longleftrightarrow> \<not> list_ex (\<lambda>(base, prefix). inIpv4Cidr v base prefix) ipv4_blocks"

definition hex_char :: "nat \<Rightarrow> bool" where
  "hex_char c \<longleftrightarrow> js_digit c \<or> (97 \<le> c \<and> c \<le> 102)"

definition hex_value :: "nat \<Rightarrow> nat" where
  "hex_value c = (if js_digit c then c - 48 else c - 87)"

text \<open>\<open>Number.parseInt(group, 16)\<close> of a group that \<open>/^[0-9a-f]{1,4}$/\<close> accepts.\<close>

definition hex_group :: "js_string \<Rightarrow> bool" where
  "hex_group g \<longleftrightarrow> 1 \<le> length g \<and> length g \<le> 4 \<and> list_all hex_char g"

definition group_value :: "js_string \<Rightarrow> nat" where
  "group_value g = foldl (\<lambda>v c. v * 16 + hex_value c) 0 g"

definition hex_digit_char :: "nat \<Rightarrow> nat" where
  "hex_digit_char n = (if n < 10 then 48 + n else 87 + n)"

fun js_hex :: "nat \<Rightarrow> js_string" where
  "js_hex n = (if n < 16 then [hex_digit_char n] else js_hex (n div 16) @ [hex_digit_char (n mod 16)])"

declare js_hex.simps [simp del]

text \<open>The pieces around each \<open>::\<close>, as \<open>split("::")\<close> cuts them.\<close>

fun split_colons :: "js_string \<Rightarrow> js_string list" where
  "split_colons [] = [[]]"
| "split_colons [c] = [[c]]"
| "split_colons (c # d # s) =
     (if c = 58 \<and> d = 58 then [] # split_colons s
      else case split_colons (d # s) of p # ps \<Rightarrow> (c # p) # ps | [] \<Rightarrow> [[c]])"

definition groups_of :: "js_string \<Rightarrow> js_string list" where
  "groups_of p = (if p = [] then [] else js_split 58 p)"

definition groups_value :: "js_string list \<Rightarrow> nat" where
  "groups_value gs = foldl (\<lambda>v g. v * 2 ^ 16 + group_value g) 0 gs"

text \<open>The value of an address without a zone, an embedded IPv4 address or an upper case letter.\<close>

definition ipv6_value :: "js_string \<Rightarrow> nat option" where
  "ipv6_value s =
     (let pieces = split_colons s;
          left = groups_of (hd pieces);
          right = (case pieces of _ # r # _ \<Rightarrow> groups_of r | _ \<Rightarrow> []);
          compressed = (1 < length pieces)
      in if 2 < length pieces then None
         else if (\<not> compressed \<and> length left \<noteq> 8) \<or> (compressed \<and> 8 \<le> length left + length right) then None
         else let groups = left @ replicate (8 - length left - length right) [48] @ right
              in if length groups \<noteq> 8 \<or> list_ex (\<lambda>g. \<not> hex_group g) groups then None
                 else Some (groups_value groups))"

text \<open>The text up to the last colon and the text after it.\<close>

definition last_colon :: "js_string \<Rightarrow> (js_string \<times> js_string) option" where
  "last_colon s =
     (if 58 \<in> set s
      then Some (rev (tl (dropWhile (\<lambda>c. c \<noteq> 58) (rev s))), rev (takeWhile (\<lambda>c. c \<noteq> 58) (rev s))) else None)"

definition without_ipv4 :: "url_rules \<Rightarrow> js_string \<Rightarrow> js_string option" where
  "without_ipv4 ur s =
     (if 46 \<notin> set s then Some s
      else case last_colon s of
        None \<Rightarrow> None
      | Some (before, after) \<Rightarrow> (case ipv4ToNumber ur after of
            None \<Rightarrow> None
          | Some v \<Rightarrow> Some (before @ [58] @ js_hex (v div 2 ^ 16) @ [58] @ js_hex (v mod 2 ^ 16))))"

definition ipv6ToBigInt :: "url_rules \<Rightarrow> js_string \<Rightarrow> nat option" where
  "ipv6ToBigInt ur address =
     Option.bind (without_ipv4 ur (hd (js_split 37 (ur_lower ur address)))) ipv6_value"

definition inIpv6Cidr :: "nat \<Rightarrow> nat \<Rightarrow> nat \<Rightarrow> bool" where
  "inIpv6Cidr v base prefix \<longleftrightarrow> v div 2 ^ (128 - prefix) = base div 2 ^ (128 - prefix)"

definition ipv6_required :: "string \<Rightarrow> nat" where
  "ipv6_required s = (case ipv6_value (js s) of Some v \<Rightarrow> v | None \<Rightarrow> 0)"

definition ipv6_blocks :: "(nat \<times> nat) list" where
  "ipv6_blocks = [(ipv6_required ''::'', 128), (ipv6_required ''::1'', 128), (ipv6_required ''64:ff9b::'', 96),
     (ipv6_required ''64:ff9b:1::'', 48), (ipv6_required ''100::'', 64), (ipv6_required ''2001::'', 32),
     (ipv6_required ''2001:10::'', 28), (ipv6_required ''2001:20::'', 28), (ipv6_required ''2001:db8::'', 32),
     (ipv6_required ''2002::'', 16), (ipv6_required ''fc00::'', 7), (ipv6_required ''fe80::'', 10),
     (ipv6_required ''ff00::'', 8)]"

definition public_ipv6 :: "nat \<Rightarrow> bool" where
  "public_ipv6 v =
     (let high = v div 2 ^ 32 in
      if high = 0 \<or> high = 65535 then public_ipv4 (v mod 2 ^ 32)
      else \<not> list_ex (\<lambda>(base, prefix). inIpv6Cidr v base prefix) ipv6_blocks)"

text \<open>\<open>isIP\<close> returns 4, 6 or 0. An address it calls IPv4 has a value.\<close>

definition isPublicIpAddress :: "url_rules \<Rightarrow> (js_string \<Rightarrow> nat) \<Rightarrow> js_string \<Rightarrow> bool" where
  "isPublicIpAddress ur isIP address =
     (if isIP address = 4 then (case ipv4ToNumber ur address of Some v \<Rightarrow> public_ipv4 v | None \<Rightarrow> False)
      else if isIP address = 6 then (case ipv6ToBigInt ur address of Some v \<Rightarrow> public_ipv6 v | None \<Rightarrow> False)
      else False)"

subsection \<open>Domains\<close>

definition strip_dots :: "js_string \<Rightarrow> js_string" where
  "strip_dots s = rev (dropWhile (\<lambda>c. c = 46) (rev (dropWhile (\<lambda>c. c = 46) s)))"

definition normalizeDomain :: "url_rules \<Rightarrow> js_string \<Rightarrow> js_string" where
  "normalizeDomain ur value =
     (let trimmed = ur_lower ur (js_trim value) in
      if trimmed = [] then []
      else if js_includes trimmed (js ''://'')
      then (case ur_parse ur trimmed of Some u \<Rightarrow> strip_dots (pu_hostname u) | None \<Rightarrow> [])
      else strip_dots trimmed)"

definition hostnameAllowed :: "url_rules \<Rightarrow> js_string \<Rightarrow> js_string list \<Rightarrow> bool" where
  "hostnameAllowed ur hostname domains =
     (let normalized = normalizeDomain ur hostname in
      list_ex (\<lambda>d. normalized = d \<or> js_endsWith normalized (46 # d)) domains)"

subsection \<open>Outcomes\<close>

datatype fetch_error =
    NoWhitelist | InvalidUrl | LongUrl | NotHttps | UrlCredentials | UrlPort | OutsideWhitelist
  | RedirectLoop | NoAddress | PrivateAddress | RedirectLimit | UnreadableBody | NoTerminalResponse
  | HttpStatus nat | CompressedResponse | UnsupportedType | TooLarge | StreamFailed
  | RequestFailed | ResolveFailed | InvalidRedirect | FetchTimeout

record resolved_address =
  ra_address :: js_string
  ra_family :: nat

datatype body_event = BodyData "nat list" | BodyEnd | BodyError

record http_response =
  hs_status :: nat
  hs_location :: "js_string option"
  hs_encoding :: "js_string option"
  hs_type :: "js_string option"
  hs_length :: "js_string option"
  hs_events :: "body_event list"

record single_result =
  sg_status :: nat
  sg_type :: "js_string option"
  sg_body :: "nat list option"
  sg_redirect :: "js_string option"

record fetch_world =
  fw_rules :: url_rules
  fw_join :: "js_string \<Rightarrow> parsed_url \<Rightarrow> parsed_url option"
  fw_isIP :: "js_string \<Rightarrow> nat"
  fw_resolve :: "nat \<Rightarrow> js_string \<Rightarrow> (fetch_error, resolved_address list) result"
  fw_respond :: "nat \<Rightarrow> parsed_url \<Rightarrow> resolved_address \<Rightarrow> (fetch_error, http_response) result"
  fw_number :: "js_string \<Rightarrow> int option"
  fw_timedOut :: "nat \<Rightarrow> bool"

record fetcher =
  fe_domains :: "js_string list"
  fe_maxBytes :: nat
  fe_maxRedirects :: nat

record fetch_result =
  fh_url :: js_string
  fh_status :: nat
  fh_type :: js_string
  fh_body :: "nat list"
  fh_bytes :: nat

type_synonym connection = "parsed_url \<times> resolved_address"

subsection \<open>The checks\<close>

definition allowed_content_types :: "js_string list" where
  "allowed_content_types = [js ''text/html'', js ''text/plain'', js ''application/xhtml+xml'', js ''application/json'']"

text \<open>\<open>new URL(input)\<close> has succeeded; the result is the URL without its fragment.\<close>

definition validate_parsed :: "url_rules \<Rightarrow> parsed_url \<Rightarrow> js_string list \<Rightarrow> (fetch_error, parsed_url) result" where
  "validate_parsed ur u domains =
     (if 2048 < length (pu_href u) then Inl LongUrl
      else if pu_protocol u \<noteq> js ''https:'' then Inl NotHttps
      else if pu_username u \<noteq> [] \<or> pu_password u \<noteq> [] then Inl UrlCredentials
      else if pu_port u \<noteq> [] \<and> pu_port u \<noteq> js ''443'' then Inl UrlPort
      else if \<not> hostnameAllowed ur (pu_hostname u) (filter (\<lambda>d. d \<noteq> []) (map (normalizeDomain ur) domains))
      then Inl OutsideWhitelist
      else Inr (u\<lparr>pu_href := pu_hashless u\<rparr>))"

definition validateFetchUrl :: "url_rules \<Rightarrow> js_string \<Rightarrow> js_string list \<Rightarrow> (fetch_error, parsed_url) result" where
  "validateFetchUrl ur input domains = (case ur_parse ur input of
     None \<Rightarrow> Inl InvalidUrl | Some u \<Rightarrow> validate_parsed ur u domains)"

definition unsafe_address :: "fetch_world \<Rightarrow> resolved_address \<Rightarrow> bool" where
  "unsafe_address w a \<longleftrightarrow> (ra_family a \<noteq> 4 \<and> ra_family a \<noteq> 6) \<or> fw_isIP w (ra_address a) \<noteq> ra_family a
     \<or> \<not> isPublicIpAddress (fw_rules w) (fw_isIP w) (ra_address a)"

definition assertSafeResolvedAddresses :: "fetch_world \<Rightarrow> resolved_address list \<Rightarrow> (fetch_error, unit) result" where
  "assertSafeResolvedAddresses w addresses =
     (if addresses = [] then Inl NoAddress
      else if list_ex (unsafe_address w) addresses then Inl PrivateAddress else Inr ())"

subsection \<open>One request\<close>

definition normalizeContentType :: "url_rules \<Rightarrow> js_string \<Rightarrow> js_string" where
  "normalizeContentType ur value = ur_lower ur (js_trim (hd (js_split 59 value)))"

text \<open>The data of the body until it ends, fails or is too long; a body that never ends runs into the timeout.\<close>

fun read_body :: "nat \<Rightarrow> body_event list \<Rightarrow> nat list \<Rightarrow> (fetch_error, nat list) result" where
  "read_body limit [] acc = Inl FetchTimeout"
| "read_body limit (BodyData bs # es) acc =
     (if limit < length (acc @ bs) then Inl TooLarge else read_body limit es (acc @ bs))"
| "read_body limit (BodyEnd # es) acc = Inr acc"
| "read_body limit (BodyError # es) acc = Inl StreamFailed"

definition read_response :: "fetch_world \<Rightarrow> fetcher \<Rightarrow> http_response \<Rightarrow> (fetch_error, single_result) result" where
  "read_response w f r =
     (let ur = fw_rules w;
          contentType = map_option (normalizeContentType ur) (hs_type r)
      in case (if 300 \<le> hs_status r \<and> hs_status r < 400 then hs_location r else None) of
           Some (c # cs) \<Rightarrow> Inr \<lparr>sg_status = hs_status r, sg_type = None, sg_body = None, sg_redirect = Some (c # cs)\<rparr>
         | _ \<Rightarrow>
             if hs_status r < 200 \<or> 300 \<le> hs_status r then Inl (HttpStatus (hs_status r))
             else if (case hs_encoding r of Some e \<Rightarrow> e \<noteq> [] \<and> ur_lower ur e \<noteq> js ''identity'' | None \<Rightarrow> False)
             then Inl CompressedResponse
             else if (case contentType of Some t \<Rightarrow> t \<notin> set allowed_content_types | None \<Rightarrow> True)
             then Inl UnsupportedType
             else if (case Option.bind (hs_length r) (fw_number w) of Some n \<Rightarrow> int (fe_maxBytes f) < n | None \<Rightarrow> False)
             then Inl TooLarge
             else bindR (read_body (fe_maxBytes f) (hs_events r) []) (\<lambda>body.
               Inr \<lparr>sg_status = hs_status r, sg_type = contentType, sg_body = Some body, sg_redirect = None\<rparr>))"

subsection \<open>The fetch\<close>

text \<open>The address the connection is pinned to.\<close>

definition chosen_address :: "fetch_world \<Rightarrow> nat \<Rightarrow> parsed_url \<Rightarrow> (fetch_error, resolved_address) result" where
  "chosen_address w n u =
     bindR (fw_resolve w n (pu_hostname u)) (\<lambda>as.
     bindR (assertSafeResolvedAddresses w as) (\<lambda>_. case as of [] \<Rightarrow> Inl NoAddress | a # _ \<Rightarrow> Inr a))"

definition requestOnce :: "fetch_world \<Rightarrow> fetcher \<Rightarrow> nat \<Rightarrow> parsed_url \<Rightarrow> resolved_address \<Rightarrow>
   (fetch_error, single_result) result" where
  "requestOnce w f n u a = bindR (fw_respond w n u a) (read_response w f)"

definition page_of :: "parsed_url \<Rightarrow> single_result \<Rightarrow> (fetch_error, fetch_result) result" where
  "page_of u r = (case (sg_body r, sg_type r) of
     (Some body, Some t) \<Rightarrow> Inr \<lparr>fh_url = pu_href u, fh_status = sg_status r, fh_type = t, fh_body = body,
        fh_bytes = length body\<rparr>
   | _ \<Rightarrow> Inl UnreadableBody)"

text \<open>The URL a redirect leads to.\<close>

definition redirected :: "fetch_world \<Rightarrow> fetcher \<Rightarrow> nat \<Rightarrow> parsed_url \<Rightarrow> js_string \<Rightarrow> (fetch_error, parsed_url) result" where
  "redirected w f n u to =
     (if n = fe_maxRedirects f then Inl RedirectLimit
      else case fw_join w to u of
        None \<Rightarrow> Inl InvalidRedirect
      | Some v \<Rightarrow> validate_parsed (fw_rules w) v (fe_domains f))"

text \<open>The loop over the redirects; \<open>left\<close> counts the iterations that remain, \<open>n\<close> those that are done.\<close>

fun fetch_loop :: "fetch_world \<Rightarrow> fetcher \<Rightarrow> nat \<Rightarrow> nat \<Rightarrow> parsed_url \<Rightarrow> js_string list \<Rightarrow>
   (fetch_error, fetch_result) result \<times> connection list" where
  "fetch_loop w f 0 n u visited = (Inl NoTerminalResponse, [])"
| "fetch_loop w f (Suc left) n u visited =
     (if pu_href u \<in> set visited then (Inl RedirectLoop, [])
      else case chosen_address w n u of
        Inl e \<Rightarrow> (Inl e, [])
      | Inr a \<Rightarrow>
          (case requestOnce w f n u a of
             Inl e \<Rightarrow> (Inl e, [(u, a)])
           | Inr r \<Rightarrow>
               (case sg_redirect r of
                  Some to \<Rightarrow>
                    (case redirected w f n u to of
                       Inl e \<Rightarrow> (Inl e, [(u, a)])
                     | Inr v \<Rightarrow> (case fetch_loop w f left (Suc n) v (pu_href u # visited) of
                         (out, cs) \<Rightarrow> (out, (u, a) # cs)))
                | None \<Rightarrow> (page_of u r, [(u, a)]))))"

text \<open>When the deadline has passed, its error replaces any other.\<close>

definition safe_fetch :: "fetch_world \<Rightarrow> fetcher \<Rightarrow> js_string \<Rightarrow> (fetch_error, fetch_result) result \<times> connection list" where
  "safe_fetch w f input =
     (if fe_domains f = [] then (Inl NoWhitelist, [])
      else case (case validateFetchUrl (fw_rules w) input (fe_domains f) of
          Inl e \<Rightarrow> (Inl e, [])
        | Inr u \<Rightarrow> fetch_loop w f (fe_maxRedirects f + 1) 0 u []) of
        (Inl e, cs) \<Rightarrow> (Inl (if fw_timedOut w (length cs) then FetchTimeout else e), cs)
      | (Inr r, cs) \<Rightarrow> (Inr r, cs))"

text \<open>The constructor; a limit that is not a positive integer is refused.\<close>

definition make_fetcher :: "url_rules \<Rightarrow> js_string list \<Rightarrow> int option \<Rightarrow> int option \<Rightarrow> fetcher option" where
  "make_fetcher ur domains maxBytes maxRedirects =
     (let bytes = (case maxBytes of Some n \<Rightarrow> n | None \<Rightarrow> 2 * 1024 * 1024);
          redirects = (case maxRedirects of Some n \<Rightarrow> n | None \<Rightarrow> 3)
      in if bytes \<le> 0 \<or> redirects < 0 then None
         else Some \<lparr>fe_domains = js_unique (filter (\<lambda>d. d \<noteq> []) (map (normalizeDomain ur) domains)),
           fe_maxBytes = nat bytes, fe_maxRedirects = nat redirects\<rparr>)"

end
