(* ===== verification/Fetch_Properties.thy ===== *)
theory Fetch_Properties
  imports Safe_Fetch
begin

section \<open>Properties of the web fetcher\<close>

subsection \<open>Which addresses are public\<close>

text \<open>The reserved IPv4 networks, octet by octet.\<close>

definition reserved4 :: "nat \<Rightarrow> nat \<Rightarrow> nat \<Rightarrow> nat \<Rightarrow> bool" where
  "reserved4 a b c d \<longleftrightarrow> a = 0 \<or> a = 10 \<or> a = 100 \<and> 64 \<le> b \<and> b \<le> 127 \<or> a = 127 \<or> a = 169 \<and> b = 254
     \<or> a = 172 \<and> 16 \<le> b \<and> b \<le> 31 \<or> a = 192 \<and> b = 0 \<and> c = 0 \<or> a = 192 \<and> b = 0 \<and> c = 2
     \<or> a = 192 \<and> b = 88 \<and> c = 99 \<or> a = 192 \<and> b = 168 \<or> a = 198 \<and> (b = 18 \<or> b = 19)
     \<or> a = 198 \<and> b = 51 \<and> c = 100 \<or> a = 203 \<and> b = 0 \<and> c = 113 \<or> 224 \<le> a"

lemma ip4_div:
  assumes "b < 256" "c < 256" "d < 256"
  shows "ip4 a b c d div 2 ^ 24 = a" "ip4 a b c d div 2 ^ 22 = a * 4 + b div 64"
    "ip4 a b c d div 2 ^ 20 = a * 16 + b div 16" "ip4 a b c d div 2 ^ 17 = a * 128 + b div 2"
    "ip4 a b c d div 2 ^ 16 = a * 256 + b" "ip4 a b c d div 2 ^ 8 = a * 65536 + b * 256 + c"
    "ip4 a b c d div 2 ^ 29 = a div 32"
  using assms by (simp_all add: ip4_def)

lemma digits_eq:
  fixes a p x y k :: nat
  assumes "x < k" "y < k"
  shows "a * k + x = p * k + y \<longleftrightarrow> a = p \<and> x = y"
proof
  assume e: "a * k + x = p * k + y"
  have "(a * k + x) div k = (p * k + y) div k" "(a * k + x) mod k = (p * k + y) mod k" using e by simp_all
  with assms show "a = p \<and> x = y" by simp
qed simp

lemma in_cidr:
  assumes "b < 256" "c < 256" "d < 256" "q < 256" "r < 256"
  shows "inIpv4Cidr (ip4 a b c d) (ip4 p 0 0 0) 8 \<longleftrightarrow> a = p"
    "inIpv4Cidr (ip4 a b c d) (ip4 p q 0 0) 10 \<longleftrightarrow> a = p \<and> b div 64 = q div 64"
    "inIpv4Cidr (ip4 a b c d) (ip4 p q 0 0) 12 \<longleftrightarrow> a = p \<and> b div 16 = q div 16"
    "inIpv4Cidr (ip4 a b c d) (ip4 p q 0 0) 15 \<longleftrightarrow> a = p \<and> b div 2 = q div 2"
    "inIpv4Cidr (ip4 a b c d) (ip4 p q 0 0) 16 \<longleftrightarrow> a = p \<and> b = q"
    "inIpv4Cidr (ip4 a b c d) (ip4 p q r 0) 24 \<longleftrightarrow> a = p \<and> b = q \<and> c = r"
    "inIpv4Cidr (ip4 a b c d) (ip4 p 0 0 0) 3 \<longleftrightarrow> a div 32 = p div 32"
proof -
  have e: "32 - 8 = (24::nat)" "32 - 10 = (22::nat)" "32 - 12 = (20::nat)" "32 - 15 = (17::nat)" "32 - 16 = (16::nat)"
    "32 - 24 = (8::nat)" "32 - 3 = (29::nat)" and z: "0 < (256::nat)" by simp_all
  note l = ip4_div[OF assms(1-3), of a]
  have small: "x div 64 < 4" "x div 16 < 16" "x div 2 < 128" if "x < 256" for x :: nat
    using that by (simp_all add: less_mult_imp_div_less)
  show "inIpv4Cidr (ip4 a b c d) (ip4 p 0 0 0) 8 \<longleftrightarrow> a = p"
    unfolding inIpv4Cidr_def e l ip4_div(1)[OF z z z] ..
  show "inIpv4Cidr (ip4 a b c d) (ip4 p q 0 0) 10 \<longleftrightarrow> a = p \<and> b div 64 = q div 64"
    unfolding inIpv4Cidr_def e l ip4_div(2)[OF assms(4) z z] by (rule digits_eq) (simp_all only: small assms)
  show "inIpv4Cidr (ip4 a b c d) (ip4 p q 0 0) 12 \<longleftrightarrow> a = p \<and> b div 16 = q div 16"
    unfolding inIpv4Cidr_def e l ip4_div(3)[OF assms(4) z z] by (rule digits_eq) (simp_all only: small assms)
  show "inIpv4Cidr (ip4 a b c d) (ip4 p q 0 0) 15 \<longleftrightarrow> a = p \<and> b div 2 = q div 2"
    unfolding inIpv4Cidr_def e l ip4_div(4)[OF assms(4) z z] by (rule digits_eq) (simp_all only: small assms)
  show "inIpv4Cidr (ip4 a b c d) (ip4 p q 0 0) 16 \<longleftrightarrow> a = p \<and> b = q"
    unfolding inIpv4Cidr_def e l ip4_div(5)[OF assms(4) z z] by (rule digits_eq) (simp_all only: assms)
  have three: "(a * 65536 + b * 256 + c = p * 65536 + q * 256 + r) \<longleftrightarrow> ((a * 256 + b) * 256 + c = (p * 256 + q) * 256 + r)"
    by (simp add: algebra_simps)
  show "inIpv4Cidr (ip4 a b c d) (ip4 p q r 0) 24 \<longleftrightarrow> a = p \<and> b = q \<and> c = r"
    unfolding inIpv4Cidr_def e l ip4_div(6)[OF assms(4,5) z] three
    by (simp only: digits_eq[OF assms(2,5)] digits_eq[OF assms(1,4)] conj_assoc)
  show "inIpv4Cidr (ip4 a b c d) (ip4 p 0 0 0) 3 \<longleftrightarrow> a div 32 = p div 32"
    unfolding inIpv4Cidr_def e l ip4_div(7)[OF z z z] ..
qed

lemma div_range: "0 < k \<Longrightarrow> (b div k = n) = (n * k \<le> b \<and> b < (n + 1) * k)" for b k n :: nat
proof
  assume k: "0 < k" and "n * k \<le> b \<and> b < (n + 1) * k"
  then show "b div k = n" by (simp add: div_nat_eqI mult.commute)
next
  assume k: "0 < k" and "b div k = n"
  then show "n * k \<le> b \<and> b < (n + 1) * k"
    using div_mult_mod_eq[of b k] mod_less_divisor[OF k, of b] by (auto simp: algebra_simps)
qed

lemma div_ranges:
  "a < 256 \<Longrightarrow> (a div 32 = 7) = (224 \<le> a)" "(b div 64 = 1) = (64 \<le> b \<and> b \<le> 127)" "(b div 16 = 1) = (16 \<le> b \<and> b \<le> 31)"
  "(b div 2 = 9) = (b = 18 \<or> b = 19)" for a b :: nat
  by (auto simp: div_range)

text \<open>The blocks of the code are the networks of the specification.\<close>

lemma public_ipv4_octets:
  assumes "a < 256" "b < 256" "c < 256" "d < 256"
  shows "public_ipv4 (ip4 a b c d) \<longleftrightarrow> \<not> reserved4 a b c d"
proof -
  have ex: "list_ex P (x # xs) = (P x \<or> list_ex P xs)" "list_ex P [] = False" for P :: "nat \<times> nat \<Rightarrow> bool" and x xs
    by simp_all
  have small: "0 < (256::nat)" "2 < (256::nat)" "16 < (256::nat)" "18 < (256::nat)" "51 < (256::nat)" "64 < (256::nat)"
    "88 < (256::nat)" "99 < (256::nat)" "100 < (256::nat)" "113 < (256::nat)" "168 < (256::nat)" "254 < (256::nat)" by simp_all
  have quot: "64 div 64 = (1::nat)" "16 div 16 = (1::nat)" "18 div 2 = (9::nat)" "224 div 32 = (7::nat)" by simp_all
  have "public_ipv4 (ip4 a b c d) \<longleftrightarrow> \<not> (a = 0 \<or> a = 10 \<or> a = 100 \<and> b div 64 = 1 \<or> a = 127 \<or> a = 169 \<and> b = 254
      \<or> a = 172 \<and> b div 16 = 1 \<or> a = 192 \<and> b = 0 \<and> c = 0 \<or> a = 192 \<and> b = 0 \<and> c = 2 \<or> a = 192 \<and> b = 88 \<and> c = 99
      \<or> a = 192 \<and> b = 168 \<or> a = 198 \<and> b div 2 = 9 \<or> a = 198 \<and> b = 51 \<and> c = 100 \<or> a = 203 \<and> b = 0 \<and> c = 113
      \<or> a div 32 = 7)"
    unfolding public_ipv4_def ipv4_blocks_def ex prod.case
    by (simp only: in_cidr(1,7)[OF assms(2-4), of 0 0] in_cidr(2-5)[OF assms(2-4), of _ 0] in_cidr(6)[OF assms(2-4)] small quot
        simp_thms)
  then show ?thesis unfolding reserved4_def div_ranges(1)[OF assms(1)] div_ranges(2-4) .
qed

subsection \<open>Addresses as text\<close>

text \<open>The dotted form of an IPv4 address.\<close>

definition dotted :: "nat \<Rightarrow> nat \<Rightarrow> nat \<Rightarrow> nat \<Rightarrow> js_string" where
  "dotted a b c d = js_nat a @ 46 # js_nat b @ 46 # js_nat c @ 46 # js_nat d"

lemma split_append: "sep \<notin> set p \<Longrightarrow> js_split sep (p @ sep # s) = p # js_split sep s"
  by (induction p) auto

lemma split_none: "sep \<notin> set p \<Longrightarrow> js_split sep p = [p]"
  by (induction p) auto

lemma js_nat_digits: "c \<in> set (js_nat n) \<Longrightarrow> js_digit c"
proof (induction n rule: decimal.induct)
  case (1 n)
  have last: "js_digit (of_char (digit_char k))" if "k < 10" for k
    using that by (simp add: of_char_digit js_digit_def)
  show ?case
    using 1 last[of n] last[of "n mod 10"] by (auto simp: js_nat_def js_def decimal.simps[of n] split: if_splits)
qed

lemma js_nat_no: "\<not> js_digit c \<Longrightarrow> c \<notin> set (js_nat n)"
  using js_nat_digits by blast

lemma ipv4_dotted:
  assumes "a < 256" "b < 256" "c < 256" "d < 256" and number: "\<And>n. n < 256 \<Longrightarrow> ur_number ur (js_nat n) = Some (int n)"
  shows "ipv4ToNumber ur (dotted a b c d) = Some (ip4 a b c d)"
proof -
  have dot: "46 \<notin> set (js_nat n)" for n by (rule js_nat_no) (simp add: js_digit_def)
  have small: "int a * 2 ^ 24 + int b * 2 ^ 16 + int c * 2 ^ 8 + int d < 2 ^ 32"
    using assms(1-4) by simp
  show ?thesis
    using assms small unfolding ipv4ToNumber_def dotted_def
    by (simp add: split_append split_none dot ipv4_value_def octet_def ip4_def nat_add_distrib nat_mult_distrib)
qed

text \<open>The groups of an IPv6 address that the code refuses, by the first groups of the address.\<close>

definition reserved6 :: "nat \<Rightarrow> nat \<Rightarrow> nat \<Rightarrow> nat \<Rightarrow> nat \<Rightarrow> nat \<Rightarrow> bool" where
  "reserved6 g0 g1 g2 g3 g4 g5 \<longleftrightarrow>
     g0 = 100 \<and> g1 = 65435 \<and> g2 = 0 \<and> g3 = 0 \<and> g4 = 0 \<and> g5 = 0 \<or> g0 = 100 \<and> g1 = 65435 \<and> g2 = 1
     \<or> g0 = 256 \<and> g1 = 0 \<and> g2 = 0 \<and> g3 = 0 \<or> g0 = 8193 \<and> g1 = 0 \<or> g0 = 8193 \<and> 16 \<le> g1 \<and> g1 < 32
     \<or> g0 = 8193 \<and> 32 \<le> g1 \<and> g1 < 48 \<or> g0 = 8193 \<and> g1 = 3512 \<or> g0 = 8194
     \<or> 64512 \<le> g0 \<and> g0 < 65024 \<or> 65152 \<le> g0 \<and> g0 < 65216 \<or> 65280 \<le> g0"

lemma replicate_num: "replicate (numeral k) x = x # replicate (pred_numeral k) x"
  by (simp add: numeral_eq_Suc)

lemma required_values:
  "ipv6_required ''::'' = 0" "ipv6_required ''::1'' = 1" "ipv6_required ''64:ff9b::'' = 0x64ff9b * 2 ^ 96"
  "ipv6_required ''64:ff9b:1::'' = 0x64ff9b0001 * 2 ^ 80" "ipv6_required ''100::'' = 0x100 * 2 ^ 112"
  "ipv6_required ''2001::'' = 0x2001 * 2 ^ 112" "ipv6_required ''2001:10::'' = 0x20010010 * 2 ^ 96"
  "ipv6_required ''2001:20::'' = 0x20010020 * 2 ^ 96" "ipv6_required ''2001:db8::'' = 0x20010db8 * 2 ^ 96"
  "ipv6_required ''2002::'' = 0x2002 * 2 ^ 112" "ipv6_required ''fc00::'' = 0xfc00 * 2 ^ 112"
  "ipv6_required ''fe80::'' = 0xfe80 * 2 ^ 112" "ipv6_required ''ff00::'' = 0xff00 * 2 ^ 112"
  by (simp_all add: ipv6_required_def ipv6_value_def groups_of_def groups_value_def group_value_def hex_value_def hex_group_def
      hex_char_def js_digit_def js_def Let_def replicate_num)

definition ip6 :: "nat \<Rightarrow> nat \<Rightarrow> nat \<Rightarrow> nat \<Rightarrow> nat \<Rightarrow> nat \<Rightarrow> nat \<Rightarrow> nat \<Rightarrow> nat" where
  "ip6 g0 g1 g2 g3 g4 g5 g6 g7 =
     ((((((g0 * 65536 + g1) * 65536 + g2) * 65536 + g3) * 65536 + g4) * 65536 + g5) * 65536 + g6) * 65536 + g7"

lemma ip6_div:
  assumes "g1 < 65536" "g2 < 65536" "g3 < 65536" "g4 < 65536" "g5 < 65536" "g6 < 65536" "g7 < 65536"
  shows "ip6 g0 g1 g2 g3 g4 g5 g6 g7 div 2 ^ 32
      = ((((g0 * 65536 + g1) * 65536 + g2) * 65536 + g3) * 65536 + g4) * 65536 + g5"
    "ip6 g0 g1 g2 g3 g4 g5 g6 g7 div 2 ^ 64 = ((g0 * 65536 + g1) * 65536 + g2) * 65536 + g3"
    "ip6 g0 g1 g2 g3 g4 g5 g6 g7 div 2 ^ 80 = (g0 * 65536 + g1) * 65536 + g2"
    "ip6 g0 g1 g2 g3 g4 g5 g6 g7 div 2 ^ 96 = g0 * 65536 + g1"
    "ip6 g0 g1 g2 g3 g4 g5 g6 g7 div 2 ^ 112 = g0"
    "ip6 g0 g1 g2 g3 g4 g5 g6 g7 mod 2 ^ 32 = g6 * 65536 + g7"
proof -
  have d: "(x * 65536 + g) div 65536 = x" if "g < 65536" for x g :: nat using that by simp
  have p: "x div 2 ^ 32 = x div 65536 div 65536" "x div 2 ^ 64 = x div 2 ^ 32 div 65536 div 65536"
    "x div 2 ^ 80 = x div 2 ^ 64 div 65536" "x div 2 ^ 96 = x div 2 ^ 80 div 65536" "x div 2 ^ 112 = x div 2 ^ 96 div 65536"
    for x :: nat by (simp_all flip: div_mult2_eq)
  show a: "ip6 g0 g1 g2 g3 g4 g5 g6 g7 div 2 ^ 32 = ((((g0 * 65536 + g1) * 65536 + g2) * 65536 + g3) * 65536 + g4) * 65536 + g5"
    unfolding p(1) ip6_def d[OF assms(7)] d[OF assms(6)] ..
  show b: "ip6 g0 g1 g2 g3 g4 g5 g6 g7 div 2 ^ 64 = ((g0 * 65536 + g1) * 65536 + g2) * 65536 + g3"
    unfolding p(2) a d[OF assms(5)] d[OF assms(4)] ..
  show c: "ip6 g0 g1 g2 g3 g4 g5 g6 g7 div 2 ^ 80 = (g0 * 65536 + g1) * 65536 + g2"
    unfolding p(3) b d[OF assms(3)] ..
  show e: "ip6 g0 g1 g2 g3 g4 g5 g6 g7 div 2 ^ 96 = g0 * 65536 + g1"
    unfolding p(4) c d[OF assms(2)] ..
  show "ip6 g0 g1 g2 g3 g4 g5 g6 g7 div 2 ^ 112 = g0"
    unfolding p(5) e d[OF assms(1)] ..
  have "ip6 g0 g1 g2 g3 g4 g5 g6 g7
      = (((((g0 * 65536 + g1) * 65536 + g2) * 65536 + g3) * 65536 + g4) * 65536 + g5) * 2 ^ 32 + (g6 * 65536 + g7)"
    unfolding ip6_def by (simp add: algebra_simps)
  moreover have "g6 * 65536 + g7 < 2 ^ 32" using assms(6,7) by simp
  moreover have "(x * k + r) mod k = r" if "r < k" for x k r :: nat using that by simp
  ultimately show "ip6 g0 g1 g2 g3 g4 g5 g6 g7 mod 2 ^ 32 = g6 * 65536 + g7" by metis
qed

lemma public_ipv6_groups:
  assumes "g0 < 65536" "g1 < 65536" "g2 < 65536" "g3 < 65536" "g4 < 65536" "g5 < 65536" "g6 < 65536" "g7 < 65536"
  shows "public_ipv6 (ip6 g0 g1 g2 g3 g4 g5 g6 g7) \<longleftrightarrow>
    (if g0 = 0 \<and> g1 = 0 \<and> g2 = 0 \<and> g3 = 0 \<and> g4 = 0 \<and> (g5 = 0 \<or> g5 = 65535)
     then \<not> reserved4 (g6 div 256) (g6 mod 256) (g7 div 256) (g7 mod 256) else \<not> reserved6 g0 g1 g2 g3 g4 g5)"
proof -
  let ?v = "ip6 g0 g1 g2 g3 g4 g5 g6 g7"
  note v = ip6_div[OF assms(2-8), of g0]
  note d = digits_eq[where k = 65536]
  have zero: "(x * 65536 + g = 65535) = (x = 0 \<and> g = 65535)" if "g < 65536" for x g :: nat
    using digits_eq[OF that, of 65535 x 0] by simp
  have high: "(?v div 2 ^ 32 = 0 \<or> ?v div 2 ^ 32 = 65535) \<longleftrightarrow>
      g0 = 0 \<and> g1 = 0 \<and> g2 = 0 \<and> g3 = 0 \<and> g4 = 0 \<and> (g5 = 0 \<or> g5 = 65535)"
    unfolding v zero[OF assms(6)] by auto
  have low: "?v mod 2 ^ 32 = ip4 (g6 div 256) (g6 mod 256) (g7 div 256) (g7 mod 256)"
  proof -
    have half: "x div 256 * 2 ^ 24 + x mod 256 * 2 ^ 16 = x * 65536" "x div 256 * 2 ^ 8 + x mod 256 = x" for x :: nat
    proof -
      have "(x div 256 * 256 + x mod 256) * 65536 = x div 256 * 256 * 65536 + x mod 256 * 65536"
        by (rule add_mult_distrib)
      then have "x * 65536 = x div 256 * 256 * 65536 + x mod 256 * 65536" by (simp only: div_mult_mod_eq)
      then show "x div 256 * 2 ^ 24 + x mod 256 * 2 ^ 16 = x * 65536" by simp
    qed simp
    show ?thesis unfolding v ip4_def half(1) add.assoc half(2) ..
  qed
  have e: "128 - 128 = (0::nat)" "128 - 96 = (32::nat)" "128 - 48 = (80::nat)" "128 - 64 = (64::nat)" "128 - 32 = (96::nat)"
    "128 - 28 = (100::nat)" "128 - 16 = (112::nat)" "128 - 7 = (121::nat)" "128 - 10 = (118::nat)" "128 - 8 = (120::nat)"
    by simp_all
  have p: "?v div 2 ^ 100 = (g0 * 65536 + g1) div 16" "?v div 2 ^ 121 = g0 div 512" "?v div 2 ^ 118 = g0 div 64"
    "?v div 2 ^ 120 = g0 div 256"
  proof -
    have q: "x div 2 ^ 100 = x div 2 ^ 96 div 16" "x div 2 ^ 121 = x div 2 ^ 112 div 512"
      "x div 2 ^ 118 = x div 2 ^ 112 div 64" "x div 2 ^ 120 = x div 2 ^ 112 div 256" for x :: nat
      by (simp_all flip: div_mult2_eq)
    show "?v div 2 ^ 100 = (g0 * 65536 + g1) div 16" "?v div 2 ^ 121 = g0 div 512" "?v div 2 ^ 118 = g0 div 64"
      "?v div 2 ^ 120 = g0 div 256"
      unfolding q v by (rule refl)+
  qed
  have below: "?v \<noteq> 0 \<and> ?v \<noteq> 1" if "\<not> (?v div 2 ^ 32 = 0 \<or> ?v div 2 ^ 32 = 65535)"
    using that by auto
  have b1: "inIpv6Cidr ?v (0x64ff9b * 2 ^ 96) 96 \<longleftrightarrow> g0 = 100 \<and> g1 = 65435 \<and> g2 = 0 \<and> g3 = 0 \<and> g4 = 0 \<and> g5 = 0"
  proof -
    have "(0x64ff9b * 2 ^ 96) div 2 ^ 32 = ((((100 * 65536 + 65435) * 65536 + 0) * 65536 + 0) * 65536 + 0) * 65536 + (0::nat)"
      by simp
    moreover have "(0::nat) < 65536" "(65435::nat) < 65536" by simp_all
    ultimately show ?thesis unfolding inIpv6Cidr_def e v
      by (simp only: d[OF assms(6)] d[OF assms(5)] d[OF assms(4)] d[OF assms(3)] d[OF assms(2)] conj_assoc)
  qed
  have b2: "inIpv6Cidr ?v (0x64ff9b0001 * 2 ^ 80) 48 \<longleftrightarrow> g0 = 100 \<and> g1 = 65435 \<and> g2 = 1"
  proof -
    have "(0x64ff9b0001 * 2 ^ 80) div 2 ^ 80 = (100 * 65536 + 65435) * 65536 + (1::nat)" by simp
    moreover have "(1::nat) < 65536" "(65435::nat) < 65536" by simp_all
    ultimately show ?thesis unfolding inIpv6Cidr_def e v
      by (simp only: d[OF assms(3)] d[OF assms(2)] conj_assoc)
  qed
  have b3: "inIpv6Cidr ?v (0x100 * 2 ^ 112) 64 \<longleftrightarrow> g0 = 256 \<and> g1 = 0 \<and> g2 = 0 \<and> g3 = 0"
  proof -
    have "(0x100 * 2 ^ 112) div 2 ^ 64 = ((256 * 65536 + 0) * 65536 + 0) * 65536 + (0::nat)" by simp
    moreover have "(0::nat) < 65536" by simp
    ultimately show ?thesis unfolding inIpv6Cidr_def e v
      by (simp only: d[OF assms(4)] d[OF assms(3)] d[OF assms(2)] conj_assoc)
  qed
  have b4: "inIpv6Cidr ?v (0x2001 * 2 ^ 112) 32 \<longleftrightarrow> g0 = 8193 \<and> g1 = 0"
  proof -
    have "(0x2001 * 2 ^ 112) div 2 ^ 96 = 8193 * 65536 + (0::nat)" "(0::nat) < 65536" by simp_all
    then show ?thesis unfolding inIpv6Cidr_def e v by (simp only: d[OF assms(2)])
  qed
  have b5: "inIpv6Cidr ?v (0x20010db8 * 2 ^ 96) 32 \<longleftrightarrow> g0 = 8193 \<and> g1 = 3512"
  proof -
    have "(0x20010db8 * 2 ^ 96) div 2 ^ 96 = 8193 * 65536 + (3512::nat)" "(3512::nat) < 65536" by simp_all
    then show ?thesis unfolding inIpv6Cidr_def e v by (simp only: d[OF assms(2)])
  qed
  have b6: "inIpv6Cidr ?v (0x2002 * 2 ^ 112) 16 \<longleftrightarrow> g0 = 8194"
    unfolding inIpv6Cidr_def e v by simp
  have sixteenth: "(g0 * 65536 + g1) div 16 = g0 * 4096 + g1 div 16" by simp
  have small: "g1 div 16 < 4096" using assms(2) by (simp add: less_mult_imp_div_less)
  have b7: "inIpv6Cidr ?v (0x20010010 * 2 ^ 96) 28 \<longleftrightarrow> g0 = 8193 \<and> g1 div 16 = 1"
  proof -
    have "(0x20010010 * 2 ^ 96) div 2 ^ 100 = 8193 * 4096 + (1::nat)" "(1::nat) < 4096" by simp_all
    then show ?thesis unfolding inIpv6Cidr_def e p sixteenth by (simp only: digits_eq[OF small])
  qed
  have b8: "inIpv6Cidr ?v (0x20010020 * 2 ^ 96) 28 \<longleftrightarrow> g0 = 8193 \<and> g1 div 16 = 2"
  proof -
    have "(0x20010020 * 2 ^ 96) div 2 ^ 100 = 8193 * 4096 + (2::nat)" "(2::nat) < 4096" by simp_all
    then show ?thesis unfolding inIpv6Cidr_def e p sixteenth by (simp only: digits_eq[OF small])
  qed
  have b9: "inIpv6Cidr ?v (0xfc00 * 2 ^ 112) 7 \<longleftrightarrow> g0 div 512 = 126"
    "inIpv6Cidr ?v (0xfe80 * 2 ^ 112) 10 \<longleftrightarrow> g0 div 64 = 1018"
    "inIpv6Cidr ?v (0xff00 * 2 ^ 112) 8 \<longleftrightarrow> g0 div 256 = 255"
    unfolding inIpv6Cidr_def e p by simp_all
  have b0: "inIpv6Cidr ?v n 128 \<longleftrightarrow> ?v = n" for n
    unfolding inIpv6Cidr_def e by simp
  have ex: "list_ex P (x # xs) = (P x \<or> list_ex P xs)" "list_ex P [] = False" for P :: "nat \<times> nat \<Rightarrow> bool" and x xs
    by simp_all
  have blocks: "list_ex (\<lambda>(base, prefix). inIpv6Cidr ?v base prefix) ipv6_blocks \<longleftrightarrow> ?v = 0 \<or> ?v = 1
      \<or> g0 = 100 \<and> g1 = 65435 \<and> g2 = 0 \<and> g3 = 0 \<and> g4 = 0 \<and> g5 = 0 \<or> g0 = 100 \<and> g1 = 65435 \<and> g2 = 1
      \<or> g0 = 256 \<and> g1 = 0 \<and> g2 = 0 \<and> g3 = 0 \<or> g0 = 8193 \<and> g1 = 0 \<or> g0 = 8193 \<and> g1 div 16 = 1
      \<or> g0 = 8193 \<and> g1 div 16 = 2 \<or> g0 = 8193 \<and> g1 = 3512 \<or> g0 = 8194 \<or> g0 div 512 = 126 \<or> g0 div 64 = 1018
      \<or> g0 div 256 = 255"
    unfolding ipv6_blocks_def required_values ex prod.case b0 b1 b2 b3 b4 b5 b6 b7 b8 b9 simp_thms ..
  have ranges: "g1 div 16 = 1 \<longleftrightarrow> 16 \<le> g1 \<and> g1 < 32" "g1 div 16 = 2 \<longleftrightarrow> 32 \<le> g1 \<and> g1 < 48"
    "g0 div 512 = 126 \<longleftrightarrow> 64512 \<le> g0 \<and> g0 < 65024" "g0 div 64 = 1018 \<longleftrightarrow> 65152 \<le> g0 \<and> g0 < 65216"
    "g0 div 256 = 255 \<longleftrightarrow> 65280 \<le> g0"
    using assms(1) by (auto simp: div_range)
  have octets: "public_ipv4 (?v mod 2 ^ 32) \<longleftrightarrow> \<not> reserved4 (g6 div 256) (g6 mod 256) (g7 div 256) (g7 mod 256)"
    unfolding low by (rule public_ipv4_octets) (use assms in \<open>simp_all add: less_mult_imp_div_less\<close>)
  show ?thesis
  proof (cases "?v div 2 ^ 32 = 0 \<or> ?v div 2 ^ 32 = 65535")
    case True
    then show ?thesis unfolding public_ipv6_def Let_def octets high[symmetric] by (simp only: if_True)
  next
    case False
    have "list_ex (\<lambda>(base, prefix). inIpv6Cidr ?v base prefix) ipv6_blocks = reserved6 g0 g1 g2 g3 g4 g5"
      using below[OF False] unfolding blocks reserved6_def ranges by (simp only: simp_thms)
    with False show ?thesis unfolding public_ipv6_def Let_def high[symmetric] by (simp only: if_False)
  qed
qed

subsection \<open>Hexadecimal groups\<close>

lemma hex_digit_value: "n < 16 \<Longrightarrow> hex_char (hex_digit_char n) \<and> hex_value (hex_digit_char n) = n"
  by (auto simp: hex_char_def hex_digit_char_def hex_value_def js_digit_def)

lemma js_hex_group: "n < 65536 \<Longrightarrow> hex_group (js_hex n) \<and> group_value (js_hex n) = n"
proof -
  have "list_all hex_char (js_hex n) \<and> group_value (js_hex n) = n \<and> js_hex n \<noteq> []" for n
  proof (induction n rule: js_hex.induct)
    case (1 n)
    then show ?case
      using hex_digit_value[of n] hex_digit_value[of "n mod 16"]
      by (auto simp: js_hex.simps[of n] group_value_def)
  qed
  note digits = this
  have len: "length (js_hex n) \<le> k" if "n < 16 ^ k" "0 < k" for n k
    using that
  proof (induction n arbitrary: k rule: js_hex.induct)
    case (1 n)
    show ?case
    proof (cases "n < 16")
      case False
      with 1(2) obtain j where j: "k = Suc j" "0 < j" by (cases k; cases "k - 1") auto
      have "n div 16 < 16 ^ j" using 1(2) j(1) by (simp add: less_mult_imp_div_less mult.commute)
      from 1(1)[OF False this j(2)] show ?thesis using False j by (simp add: js_hex.simps[of n])
    qed (use 1(3) in \<open>simp add: js_hex.simps[of n]\<close>)
  qed
  assume "n < 65536"
  then have "length (js_hex n) \<le> 4" by (intro len) simp_all
  then show ?thesis using digits[of n] by (cases "js_hex n") (auto simp: hex_group_def)
qed

lemma js_hex_no: "\<not> hex_char c \<Longrightarrow> c \<notin> set (js_hex n)"
proof (induction n rule: js_hex.induct)
  case (1 n)
  then show ?case using hex_digit_value[of n] hex_digit_value[of "n mod 16"] by (auto simp: js_hex.simps[of n])
qed

text \<open>An IPv6 address in full, and an IPv4 address mapped into IPv6.\<close>

definition full_text :: "nat list \<Rightarrow> js_string" where
  "full_text gs = js_join [58] (map js_hex gs)"

definition mapped :: "nat \<Rightarrow> nat \<Rightarrow> nat \<Rightarrow> nat \<Rightarrow> js_string" where
  "mapped a b c d = js ''::ffff:'' @ dotted a b c d"

lemma js_hex_nonempty: "js_hex n \<noteq> []"
  by (simp add: js_hex.simps[of n])

lemma hex_no_colon: "58 \<notin> set (js_hex n)" "46 \<notin> set (js_hex n)" "37 \<notin> set (js_hex n)"
  by (rule js_hex_no, simp add: hex_char_def js_digit_def)+

lemma split_glue:
  "p \<noteq> [] \<Longrightarrow> 58 \<notin> set p \<Longrightarrow> s \<noteq> [] \<Longrightarrow> hd s \<noteq> 58 \<Longrightarrow> split_colons s = [s] \<Longrightarrow> split_colons (p @ 58 # s) = [p @ 58 # s]"
proof (induction p)
  case (Cons c p)
  show ?case
  proof (cases p)
    case Nil
    obtain x s1 where "s = x # s1" using Cons.prems(3) by (cases s) auto
    with Cons.prems Nil show ?thesis by simp
  next
    case (Cons d q)
    then have "split_colons (p @ 58 # s) = [p @ 58 # s]" using Cons.IH Cons.prems by simp
    with Cons Cons.prems show ?thesis by simp
  qed
qed simp

lemma split_plain: "58 \<notin> set p \<Longrightarrow> split_colons p = [p]"
proof (induction p rule: split_colons.induct)
  case (3 c d s)
  then show ?case by simp
qed simp_all

lemma split_join:
  "ps \<noteq> [] \<Longrightarrow> \<forall>p\<in>set ps. p \<noteq> [] \<and> 58 \<notin> set p \<Longrightarrow>
   split_colons (js_join [58] ps) = [js_join [58] ps] \<and> js_split 58 (js_join [58] ps) = ps
   \<and> js_join [58] ps \<noteq> [] \<and> hd (js_join [58] ps) \<noteq> 58"
proof (induction "[58::nat]" ps rule: js_join.induct)
  case (2 x)
  then show ?case by (cases x) (auto simp: split_plain split_none)
next
  case (3 x y ps)
  have ih: "split_colons (js_join [58] (y # ps)) = [js_join [58] (y # ps)] \<and> js_split 58 (js_join [58] (y # ps)) = y # ps
   \<and> js_join [58] (y # ps) \<noteq> [] \<and> hd (js_join [58] (y # ps)) \<noteq> 58"
    using 3 by simp
  have x: "x \<noteq> []" "58 \<notin> set x" using 3(3) by auto
  then have "hd x \<noteq> 58" using hd_in_set[of x] by metis
  then show ?case using split_glue[OF x] split_append[OF x(2)] ih x by simp
qed simp

lemma hex_groups:
  "\<forall>g\<in>set gs. g < 65536 \<Longrightarrow> \<not> list_ex (\<lambda>g. \<not> hex_group g) (map js_hex gs)
   \<and> foldl (\<lambda>v g. v * 2 ^ 16 + group_value g) v (map js_hex gs) = foldl (\<lambda>v g. v * 65536 + g) v gs"
  by (induction gs arbitrary: v) (auto simp: js_hex_group)

lemma full_text_value:
  assumes "length gs = 8" "\<forall>g\<in>set gs. g < 65536"
  shows "ipv6_value (full_text gs) = Some (foldl (\<lambda>v g. v * 65536 + g) 0 gs)"
proof -
  have "map js_hex gs \<noteq> []" using assms(1) by auto
  note pieces = split_join[OF this] hex_groups[OF assms(2), of 0]
  then show ?thesis using assms(1) js_hex_nonempty hex_no_colon
    by (simp add: ipv6_value_def full_text_def Let_def groups_of_def groups_value_def)
qed

lemma text_without: "c \<notin> set (js_join [58] ps) \<longleftrightarrow> (\<forall>p\<in>set ps. c \<notin> set p) \<and> (c = 58 \<longrightarrow> length ps \<le> 1)"
  by (induction "[58::nat]" ps rule: js_join.induct) auto

lemma ipv6_full:
  assumes "length gs = 8" "\<forall>g\<in>set gs. g < 65536" "ur_lower ur (full_text gs) = full_text gs"
  shows "ipv6ToBigInt ur (full_text gs) = Some (foldl (\<lambda>v g. v * 65536 + g) 0 gs)"
proof -
  have "37 \<notin> set (full_text gs)" "46 \<notin> set (full_text gs)"
    unfolding full_text_def text_without by (simp_all add: hex_no_colon)
  then show ?thesis using full_text_value[OF assms(1,2)]
    by (simp add: ipv6ToBigInt_def assms(3) split_none without_ipv4_def)
qed

lemma last_colon_cut: "58 \<notin> set q \<Longrightarrow> last_colon (p @ 58 # q) = Some (p, q)"
proof -
  assume q: "58 \<notin> set q"
  then have "takeWhile (\<lambda>c. c \<noteq> 58) (rev q @ 58 # rev p) = rev q" "dropWhile (\<lambda>c. c \<noteq> 58) (rev q @ 58 # rev p) = 58 # rev p"
    by (subst takeWhile_append2, auto, subst dropWhile_append2, auto)
  then show ?thesis by (simp add: last_colon_def)
qed

lemma dotted_chars: "c \<notin> set (dotted a b c1 d)" if "\<not> js_digit c" "c \<noteq> 46"
  using that js_nat_no by (simp add: dotted_def)

lemma ipv6_mapped:
  assumes "a < 256" "b < 256" "c < 256" "d < 256" and number: "\<And>n. n < 256 \<Longrightarrow> ur_number ur (js_nat n) = Some (int n)"
    and lower: "ur_lower ur (mapped a b c d) = mapped a b c d"
  shows "ipv6ToBigInt ur (mapped a b c d) = Some (ip6 0 0 0 0 0 65535 (a * 256 + b) (c * 256 + d))"
proof -
  let ?hi = "a * 256 + b" and ?lo = "c * 256 + d"
  have m: "mapped a b c d = [58, 58, 102, 102, 102, 102] @ 58 # dotted a b c d"
    by (simp add: mapped_def js_def)
  have chars: "58 \<notin> set (dotted a b c d)" "37 \<notin> set (dotted a b c d)"
    by (rule dotted_chars; simp add: js_digit_def)+
  have split: "hd (js_split 37 (mapped a b c d)) = mapped a b c d"
    by (subst split_none) (simp_all add: m chars)
  have halves: "ip4 a b c d div 65536 = ?hi" "ip4 a b c d mod 65536 = ?lo"
  proof -
    have "ip4 a b c d = ?hi * 65536 + ?lo" by (simp add: ip4_def algebra_simps)
    moreover have "?lo < 65536" using assms(3,4) by simp
    moreover have "(x * k + r) div k = x \<and> (x * k + r) mod k = r" if "r < k" for x k r :: nat using that by simp
    ultimately show "ip4 a b c d div 65536 = ?hi" "ip4 a b c d mod 65536 = ?lo" by metis+
  qed
  have plain: "without_ipv4 ur (mapped a b c d) = Some ([58, 58] @ js_join [58] [[102, 102, 102, 102], js_hex ?hi, js_hex ?lo])"
    unfolding without_ipv4_def m using last_colon_cut[OF chars(1), of "[58, 58, 102, 102, 102, 102]"]
    by (simp add: ipv4_dotted[OF assms(1-4) number] halves) (simp add: dotted_def)
  let ?ps = "[[102, 102, 102, 102], js_hex ?hi, js_hex ?lo]"
  have "\<forall>p\<in>set ?ps. p \<noteq> [] \<and> 58 \<notin> set p" by (simp add: js_hex_nonempty hex_no_colon)
  then have pieces: "split_colons (js_join [58] ?ps) = [js_join [58] ?ps]" "js_split 58 (js_join [58] ?ps) = ?ps"
    "js_join [58] ?ps \<noteq> []"
    using split_join[of ?ps] by blast+
  have hi: "hex_group (js_hex ?hi)" "group_value (js_hex ?hi) = ?hi" "hex_group (js_hex ?lo)" "group_value (js_hex ?lo) = ?lo"
    using js_hex_group[of ?hi] js_hex_group[of ?lo] assms(1-4) by auto
  have ffff: "hex_group [102, 102, 102, 102]" "group_value [102, 102, 102, 102] = 65535" "hex_group [48]" "group_value [48] = 0"
    by (simp_all add: hex_group_def hex_char_def js_digit_def group_value_def hex_value_def)
  have cut: "split_colons ([58, 58] @ js_join [58] ?ps) = [[], js_join [58] ?ps]" using pieces(1) by simp
  have "ipv6_value ([58, 58] @ js_join [58] ?ps) = Some (ip6 0 0 0 0 0 65535 ?hi ?lo)"
    unfolding ipv6_value_def cut Let_def
    by (simp del: js_join.simps add: groups_of_def pieces groups_value_def replicate_num hi ffff ip6_def)
  then show ?thesis by (simp add: ipv6ToBigInt_def lower split plain)
qed

text \<open>
  C38. The address filter is exact: an IPv4 address is public exactly when it lies in none of the reserved
  networks, the same address mapped into IPv6 is classified like the address itself, and an IPv6
  address in full is public exactly when it is in none of the refused blocks, or, when it stands for
  an IPv4 address, when that is.
\<close>

theorem address_filter_exact:
  assumes octets: "a < 256" "b < 256" "c < 256" "d < 256"
    and groups: "g0 < 65536" "g1 < 65536" "g2 < 65536" "g3 < 65536" "g4 < 65536" "g5 < 65536" "g6 < 65536" "g7 < 65536"
    and number: "\<And>n. n < 256 \<Longrightarrow> ur_number ur (js_nat n) = Some (int n)"
    and lower: "ur_lower ur (mapped a b c d) = mapped a b c d"
      "ur_lower ur (full_text [g0, g1, g2, g3, g4, g5, g6, g7]) = full_text [g0, g1, g2, g3, g4, g5, g6, g7]"
    and family: "isIP (dotted a b c d) = 4" "isIP (mapped a b c d) = 6" "isIP (full_text [g0, g1, g2, g3, g4, g5, g6, g7]) = 6"
  shows "(isPublicIpAddress ur isIP (dotted a b c d) \<longleftrightarrow> \<not> reserved4 a b c d)
    \<and> (isPublicIpAddress ur isIP (mapped a b c d) \<longleftrightarrow> \<not> reserved4 a b c d)
    \<and> (isPublicIpAddress ur isIP (full_text [g0, g1, g2, g3, g4, g5, g6, g7]) \<longleftrightarrow>
        (if g0 = 0 \<and> g1 = 0 \<and> g2 = 0 \<and> g3 = 0 \<and> g4 = 0 \<and> (g5 = 0 \<or> g5 = 65535)
         then \<not> reserved4 (g6 div 256) (g6 mod 256) (g7 div 256) (g7 mod 256) else \<not> reserved6 g0 g1 g2 g3 g4 g5))"
proof (intro conjI)
  show "isPublicIpAddress ur isIP (dotted a b c d) \<longleftrightarrow> \<not> reserved4 a b c d"
    unfolding isPublicIpAddress_def using public_ipv4_octets[OF octets]
    by (simp add: family ipv4_dotted[OF octets number])
  have halves: "(a * 256 + b) div 256 = a" "(a * 256 + b) mod 256 = b" "(c * 256 + d) div 256 = c" "(c * 256 + d) mod 256 = d"
    using octets by simp_all
  have "a * 256 + b < 65536" "c * 256 + d < 65536" using octets by simp_all
  note low = public_ipv6_groups[of 0 0 0 0 0 65535, OF _ _ _ _ _ _ this, unfolded halves]
  show "isPublicIpAddress ur isIP (mapped a b c d) \<longleftrightarrow> \<not> reserved4 a b c d"
    unfolding isPublicIpAddress_def using low by (simp add: family ipv6_mapped[OF octets number lower(1)])
  have value8: "foldl (\<lambda>v g. v * 65536 + g) 0 [g0, g1, g2, g3, g4, g5, g6, g7] = ip6 g0 g1 g2 g3 g4 g5 g6 g7"
    by (simp add: ip6_def)
  have "ipv6ToBigInt ur (full_text [g0, g1, g2, g3, g4, g5, g6, g7]) = Some (ip6 g0 g1 g2 g3 g4 g5 g6 g7)"
    unfolding value8[symmetric] by (rule ipv6_full) (use groups lower(2) in simp_all)
  then show "isPublicIpAddress ur isIP (full_text [g0, g1, g2, g3, g4, g5, g6, g7]) \<longleftrightarrow>
        (if g0 = 0 \<and> g1 = 0 \<and> g2 = 0 \<and> g3 = 0 \<and> g4 = 0 \<and> (g5 = 0 \<or> g5 = 65535)
         then \<not> reserved4 (g6 div 256) (g6 mod 256) (g7 div 256) (g7 mod 256) else \<not> reserved6 g0 g1 g2 g3 g4 g5)"
    unfolding isPublicIpAddress_def using public_ipv6_groups[OF groups] by (simp add: family)
qed

definition demo_url_rules :: url_rules where
  "demo_url_rules = \<lparr>ur_parse = (\<lambda>_. None), ur_number = (\<lambda>s. Some (int (decimal_value (map char_of s)))), ur_lower = (\<lambda>s. s)\<rparr>"

definition demo_isIP :: "js_string \<Rightarrow> nat" where
  "demo_isIP s = (if 58 \<in> set s then 6 else 4)"

lemma demo_number: "ur_number demo_url_rules (js_nat n) = Some (int n)"
  by (simp add: demo_url_rules_def js_nat_def js_def comp_def decimal_value_decimal)

text \<open>The loopback address, its mapped form and a site-local address, which the filter lets pass.\<close>

lemma address_filter_exact_witness:
  "\<not> isPublicIpAddress demo_url_rules demo_isIP (dotted 127 0 0 1)
   \<and> \<not> isPublicIpAddress demo_url_rules demo_isIP (mapped 127 0 0 1)
   \<and> isPublicIpAddress demo_url_rules demo_isIP (full_text [0xfec0, 0, 0, 0, 0, 0, 0, 1])"
proof -
  have "demo_isIP (dotted 127 0 0 1) = 4" using dotted_chars[of 58 127 0 0 1] by (simp add: demo_isIP_def js_digit_def)
  moreover have "demo_isIP (mapped 127 0 0 1) = 6" by (simp add: demo_isIP_def mapped_def js_def)
  moreover have "demo_isIP (full_text [0xfec0, 0, 0, 0, 0, 0, 0, 1]) = 6" by (simp add: demo_isIP_def full_text_def)
  ultimately show ?thesis
    using address_filter_exact[where a = 127 and b = 0 and c = 0 and d = 1 and ?g0.0 = 65216 and ?g1.0 = 0 and ?g2.0 = 0
        and ?g3.0 = 0 and ?g4.0 = 0 and ?g5.0 = 0 and ?g6.0 = 0 and ?g7.0 = 1 and ur = demo_url_rules and isIP = demo_isIP] demo_number
    by (simp add: demo_url_rules_def reserved4_def reserved6_def)
qed

subsection \<open>Where a fetch connects\<close>

text \<open>A URL that may be fetched.\<close>

definition fetchable :: "url_rules \<Rightarrow> js_string list \<Rightarrow> parsed_url \<Rightarrow> bool" where
  "fetchable ur domains u \<longleftrightarrow> pu_protocol u = js ''https:'' \<and> pu_username u = [] \<and> pu_password u = []
     \<and> (pu_port u = [] \<or> pu_port u = js ''443'')
     \<and> hostnameAllowed ur (pu_hostname u) (filter (\<lambda>d. d \<noteq> []) (map (normalizeDomain ur) domains))"

text \<open>A connection to a public address of its own family, for a URL that may be fetched.\<close>

definition confined :: "fetch_world \<Rightarrow> fetcher \<Rightarrow> connection \<Rightarrow> bool" where
  "confined w f c \<longleftrightarrow> fetchable (fw_rules w) (fe_domains f) (fst c)
     \<and> ra_family (snd c) = fw_isIP w (ra_address (snd c)) \<and> isPublicIpAddress (fw_rules w) (fw_isIP w) (ra_address (snd c))"

text \<open>A page within the limits of the fetcher.\<close>

definition fits :: "fetcher \<Rightarrow> fetch_result \<Rightarrow> bool" where
  "fits f r \<longleftrightarrow> 200 \<le> fh_status r \<and> fh_status r < 300 \<and> fh_type r \<in> set allowed_content_types
     \<and> fh_bytes r = length (fh_body r) \<and> fh_bytes r \<le> fe_maxBytes f"

lemma validate_parsed_fetchable:
  "validate_parsed ur u domains = Inr v \<Longrightarrow> fetchable ur domains v"
  by (auto simp: validate_parsed_def fetchable_def split: if_splits)

lemma read_body_length: "read_body limit es acc = Inr body \<Longrightarrow> length acc \<le> limit \<Longrightarrow> length body \<le> limit"
  by (induction limit es acc rule: read_body.induct) (auto split: if_splits)

lemma read_response_fits:
  assumes "read_response w f r = Inr x" "sg_redirect x = None" "sg_body x = Some body" "sg_type x = Some t"
  shows "200 \<le> sg_status x \<and> sg_status x < 300 \<and> t \<in> set allowed_content_types \<and> length body \<le> fe_maxBytes f"
  using assms unfolding read_response_def Let_def
  by (auto simp: bindR_eq_Inr dest: read_body_length split: option.splits list.splits if_splits)

lemma chosen_safe:
  assumes "chosen_address w n u = Inr a"
  shows "ra_family a = fw_isIP w (ra_address a) \<and> isPublicIpAddress (fw_rules w) (fw_isIP w) (ra_address a)"
  using assms by (auto simp: chosen_address_def bindR_eq_Inr assertSafeResolvedAddresses_def unsafe_address_def list_ex_iff split: if_splits list.splits)

lemma fetch_loop_confined:
  "fetchable (fw_rules w) (fe_domains f) u \<Longrightarrow> case fetch_loop w f left n u visited of (out, cs) \<Rightarrow>
     list_all (confined w f) cs \<and> length cs \<le> left \<and> distinct (map (pu_href \<circ> fst) cs)
     \<and> set (map (pu_href \<circ> fst) cs) \<inter> set visited = {}
     \<and> (case out of Inl _ \<Rightarrow> True | Inr r \<Rightarrow> fits f r \<and> cs \<noteq> [] \<and> fh_url r = pu_href (fst (last cs)))"
proof (induction w f left n u visited rule: fetch_loop.induct)
  case (2 w f left n u visited)
  have step: "list_all (confined w f) [(u, a)]" if "chosen_address w n u = Inr a" for a
    using chosen_safe[OF that] 2(2) by (simp add: confined_def)
  have page: "case page_of u r of Inl _ \<Rightarrow> True | Inr x \<Rightarrow> fits f x \<and> fh_url x = pu_href u"
    if "requestOnce w f n u a = Inr r" "sg_redirect r = None" for a r
    using that by (auto simp: requestOnce_def bindR_eq_Inr page_of_def fits_def dest: read_response_fits split: option.splits)
  have further: "case fetch_loop w f left (Suc n) v (pu_href u # visited) of (out, cs) \<Rightarrow>
     list_all (confined w f) cs \<and> length cs \<le> left \<and> distinct (map (pu_href \<circ> fst) cs)
     \<and> set (map (pu_href \<circ> fst) cs) \<inter> set (pu_href u # visited) = {}
     \<and> (case out of Inl _ \<Rightarrow> True | Inr r \<Rightarrow> fits f r \<and> cs \<noteq> [] \<and> fh_url r = pu_href (fst (last cs)))"
    if "pu_href u \<notin> set visited" "chosen_address w n u = Inr a" "requestOnce w f n u a = Inr r" "sg_redirect r = Some to"
      "redirected w f n u to = Inr v" for a r to v
  proof (rule 2(1)[OF that])
    show "fetchable (fw_rules w) (fe_domains f) v"
      using that(5) by (auto simp: redirected_def split: if_splits option.splits dest: validate_parsed_fetchable)
  qed
  show ?case
  proof (cases "pu_href u \<in> set visited")
    case False
    note new = this
    show ?thesis
    proof (cases "chosen_address w n u")
      case (Inr a)
      note a = this
      show ?thesis
      proof (cases "requestOnce w f n u a")
        case (Inl e)
        then show ?thesis using new a step[OF a] by simp
      next
        case (Inr r)
        note r = this
        show ?thesis
        proof (cases "sg_redirect r")
          case None
          then show ?thesis using new a r step[OF a] page[OF r None] by (simp split: sum.splits)
        next
          case (Some to)
          note to = this
          show ?thesis
          proof (cases "redirected w f n u to")
            case (Inl e)
            then show ?thesis using new a r to step[OF a] by simp
          next
            case (Inr v)
            obtain out cs where run: "fetch_loop w f left (Suc n) v (pu_href u # visited) = (out, cs)" by fastforce
            show ?thesis
              using further[OF new a r to Inr] step[OF a] new a r to Inr run by (auto simp: comp_def split: sum.splits)
          qed
        qed
      qed
    qed (use new in simp)
  qed simp
qed simp

text \<open>
  C6. A fetch stays where it is allowed to go. Whatever DNS, the servers and the pages answer, every
  connection it opens is to a public address, pinned to the resolved one, for an HTTPS URL without
  credentials on a domain of its list; it opens at most one more than its redirects and none to a URL
  twice; and a page it returns comes from the last of them, with a successful status, an allowed type
  and no more bytes than its limit.
\<close>

theorem fetch_confined:
  "case safe_fetch w f input of (out, cs) \<Rightarrow>
     list_all (confined w f) cs \<and> length cs \<le> fe_maxRedirects f + 1 \<and> distinct (map (pu_href \<circ> fst) cs)
     \<and> (case out of Inl _ \<Rightarrow> True | Inr r \<Rightarrow> fits f r \<and> cs \<noteq> [] \<and> fh_url r = pu_href (fst (last cs)))"
proof (cases "fe_domains f = []")
  case False
  show ?thesis
  proof (cases "validateFetchUrl (fw_rules w) input (fe_domains f)")
    case (Inr u)
    then have "fetchable (fw_rules w) (fe_domains f) u"
      by (auto simp: validateFetchUrl_def dest: validate_parsed_fetchable split: option.splits)
    from fetch_loop_confined[OF this, where left = "fe_maxRedirects f + 1" and n = 0 and visited = "[]"] show ?thesis
      using False Inr by (auto simp: safe_fetch_def split: prod.splits sum.splits)
  qed (simp add: safe_fetch_def False)
qed (simp add: safe_fetch_def)

end
