(* ===== verification/Spec2Isabelle.thy ===== *)
theory Spec2Isabelle
  imports Worker_Properties Run_Properties Knowledge_Properties Agent_Properties Chat_Properties Fetch_Properties
begin

text \<open>
  A model of the server of openvac-web: the part of the application that decides who may ask,
  what an answer may say, what it may be based on, what is charged for it and what is stored. The program is a Next.js
  application over PostgreSQL with a private object store, a language model provider and two
  worker processes. The model translates the transactions and the pure functions of that server;
  a transaction takes the locks it needs, so it is one function on the state, and the
  interleaving of requests, workers and retries is the interleaving of transactions.

  The parts and where they are modelled (paths under \<open>src/\<close>):

  \<^item> \<open>Js_Time\<close>, \<open>Js_Text\<close>: what the code uses of the language: dates, decimal
    numerals, strings as lists of UTF-16 units, \<open>trim\<close>, \<open>slice\<close>, surrogates, and what
    PostgreSQL stores of a string.
  \<^item> \<open>Quota_Types\<close>, \<open>Quota_Repository\<close>, \<open>Quota_Service\<close> (\<open>server/quota\<close>):
    daily quotas as buckets for each scope and a ledger of leases. A lease is reserved, then
    committed or released. \<open>Quota_Invariant\<close> and \<open>Quota_Settlement\<close> hold the
    invariant of the books and how each operation moves them; \<open>Quota_Properties\<close> states what
    callers rely on.
  \<^item> \<open>App_State\<close> (\<open>server/db/schema\<close>): the tables as lists of records in one record
    \<open>app_db\<close>, which contains the quota tables. \<open>Attachments\<close>, \<open>Artifacts\<close>
    (\<open>server/chat-attachments\<close>): uploads, generated files, and the accounting of the private
    storage with its queue of deletion jobs. \<open>Storage_Accounting\<close>, \<open>Storage_Steps\<close> and
    \<open>Storage_Artifacts\<close> prove that every operation keeps the books and never loses an object;
    \<open>Storage_Properties\<close> states the behaviour of each operation.
  \<^item> \<open>Text_Chunks\<close>, \<open>Lease_Queue\<close>, \<open>Storage_Worker\<close>
    (\<open>worker/chat-storage.ts\<close>): the worker that deletes objects and parses documents. The two
    queues it works on are interpretations of one locale of leased queues.
    \<open>Chunk_Properties\<close> and \<open>Worker_Properties\<close> are about it.
  \<^item> \<open>Public_Url\<close>, \<open>Answers\<close>, \<open>Answer_Validation\<close>, \<open>Evidence\<close>,
    \<open>Stored_Answers\<close> (\<open>server/agent/answer-v3.ts\<close>, \<open>answer-v2.ts\<close>,
    \<open>evidence-registry.ts\<close>, \<open>public-url.ts\<close>, \<open>server/chat-v3\<close>): the schema of an
    answer, its rendering, its validation against what the server knows, the registry of evidence
    and the readers of stored answers. \<open>Answer_Properties\<close> is about them.
  \<^item> \<open>Run_Store\<close>, \<open>Run_Settlement\<close>, \<open>Run_Recovery\<close>
    (\<open>server/agent/run-store.ts\<close>, \<open>run-settlement.ts\<close>, \<open>retention.ts\<close>): a run answers
    one turn under one lease; it is created, completed, failed, cancelled or recovered.
    \<open>Run_Frame\<close>, \<open>Run_Invariant\<close>, \<open>Run_Steps\<close>, \<open>Run_Lifecycle\<close> and
    \<open>Run_Creation\<close> prove the invariant for each transaction, \<open>Run_Machine\<close> is the step
    relation of runs, quota and storage together, and \<open>Run_Properties\<close> states the results.
  \<^item> \<open>Knowledge_Types\<close>, \<open>Source_Policy\<close>, \<open>Review_Policy\<close>, \<open>Knowledge_Text\<close>,
    \<open>Review_Sections\<close> (\<open>server/db/schema/knowledge.ts\<close>, \<open>server/knowledge/source-policy.ts\<close>,
    \<open>review-policy.ts\<close>, \<open>automation-review-schema.ts\<close>, \<open>review-sections.ts\<close>, \<open>candidate-schema.ts\<close>): the
    tables of the knowledge base in one record \<open>kn_db\<close>, who may carry which text, the schemas of
    reviews, and how a text is cut into sections and chunks. JSON columns are association lists.
  \<^item> \<open>Knowledge_Queue\<close>, \<open>Knowledge_Worker\<close> (\<open>worker/postgres-repository.ts\<close>,
    \<open>worker/knowledge-ingestion.ts\<close>): the leased queue of ingestion tasks and the worker on it.
    \<open>Automation_Review\<close>, \<open>Manual_Review\<close>, \<open>Section_Review\<close> (\<open>server/knowledge/*-review*.ts\<close>,
    \<open>review-sections-*.ts\<close>): the three ways a version is reviewed. \<open>Knowledge_Admin\<close>,
    \<open>Knowledge_Intake\<close> (\<open>server/api/store.ts\<close>, \<open>original-upload-*.ts\<close>, \<open>retrieval.ts\<close>,
    \<open>lexical.ts\<close>): drafts, publication, rollback, sources, uploads, and which chunks may be served.
    \<open>Knowledge_Activation\<close>, \<open>Knowledge_Scripts\<close> (\<open>scripts\<close> and \<open>deploy\<close> beside \<open>src\<close>): every script
    that writes these tables.
  \<^item> \<open>Knowledge_Invariant\<close>, \<open>Knowledge_Preserved\<close>, \<open>Knowledge_Admin_Preserved\<close>,
    \<open>Knowledge_Store_Preserved\<close>, \<open>Knowledge_Scripts_Preserved\<close> and \<open>Knowledge_Steps\<close> prove the invariant
    of versions and reviews for each of these operations and put them into one step relation;
    \<open>Knowledge_Publication\<close> holds what a publication required, \<open>Knowledge_Leases\<close> interprets the
    locale of leased queues on the ingestion tasks, \<open>Knowledge_Demo\<close> the example rows of the
    witnesses, and \<open>Knowledge_Properties\<close> states the results.
  \<^item> \<open>Tool_Policy\<close>, \<open>Agent_State\<close>, \<open>Agent_Answer\<close>, \<open>Agent_Loop\<close>
    (\<open>server/agent/orchestrator.ts\<close>, with what it uses of \<open>mode-policy.ts\<close>, \<open>tool-registry.ts\<close> and
    \<open>trusted-calculation-projection.ts\<close>): the run of an agent, from the server's own look-ups over the
    metered requests to the model and the calls of tools to the validated, stored and published answer.
    The model, the tools, the web, the database and the abort signal are the record \<open>agent_world\<close>, whose
    answers depend on a clock, so that nothing is assumed of them. \<open>Agent_Invariant\<close> and
    \<open>Agent_Keeps\<close> lift a predicate that the small steps keep to the whole run (locales \<open>run_steps\<close> and
    \<open>gather_steps\<close>); \<open>Agent_Admission\<close> and \<open>Agent_Publication\<close> interpret them on the admission of calls
    and on what is published, and \<open>Agent_Properties\<close> states the results.
  \<^item> \<open>Chat_Stream\<close> (\<open>lib/sse.ts\<close>): the browser's incremental reading of the events of a run, with
    \<open>Chat_Properties\<close>; \<open>Safe_Fetch\<close> (\<open>server/knowledge/web-fetch.ts\<close>, \<open>server/providers/runtime.ts\<close>): the
    fetching of pages from the web under an address filter, with \<open>Fetch_Properties\<close>.

  What is abstracted. Time is a value of the state that steps advance. Row ids are natural
  numbers drawn from a counter (the code draws UUIDs; only their freshness is used, and a text that
  is no UUID is an unknown id, where a cast of the code would throw). A transaction is atomic; where
  the code reads before the transaction that writes, the state it reads in is an argument of its own.
  The script that seeds the core document takes no lock, so its atomicity is an assumption. Unique
  indexes and CHECK constraints are in the operations that can meet them. Unicode
  normalisation, lower case, the URL parser of the runtime, the collations, the digest, the object
  store, the parser of documents, JSON texts, DNS and HTTPS, and the long regular expressions of
  questions and safety boundaries are parameters (\<open>text_rules\<close>, \<open>url_rules\<close>, \<open>collations\<close>,
  \<open>storage_world\<close>, \<open>kn_rules\<close>, \<open>knowledge_world\<close>, \<open>agent_rules\<close>, \<open>agent_world\<close>); a theorem that uses such a
  function says what it assumes of it. Of an agent run, times, token usage and the wording of labels
  are left out; the calls of one batch are admitted together and the world says which of them ends
  first.

  Fuel and bounds. One definition runs on fuel: \<open>agent_loop\<close>, which gets \<open>loop_fuel\<close> = 7, one more
  than the six requests to the model that a run may make. Every turn but the last uses up one of them,
  so the fuel never runs out, which \<open>agent_run_ends_within_bounds\<close> proves of every run. Every other
  loop is structural or has a measure, and the loops over rows follow the limits of the code (500
  candidates of a recovery pass, 100 rows of a worker batch, the chunk limit of a document).

  Not modelled: rendering of pages and components (\<open>components\<close>, \<open>app\<close>), the browser's
  storage, the HTTP layer, authentication (a library), the clients of the providers, what a tool
  computes (\<open>tool-registry.ts\<close>, the numerical calculators in binary floating point), the evidence
  service of the web and the cost of model calls, the ranking of retrieved chunks, document rendering,
  deployment and evaluation scripts.
\<close>

end
